(* ===== verification/Prelude.thy ===== *)
theory Prelude
  imports Main "HOL-Library.Word" "HOL-Library.Multiset" "HOL-Library.List_Lexorder" "HOL-Library.Char_ord"
begin

text \<open>
  Shared material of the development: the machine integers of the Rust sources, the saturating,
  checked and wrapping operations of the Rust standard library on them, the list operations that
  the sources perform on vectors (\<open>position\<close>, \<open>remove\<close>, \<open>retain\<close>), the
  compilation targets, and the collections of facts that the component theories add to.

  Unsigned Rust integers are words. \<open>wrapping\<close> and atomic operations are the word operations;
  \<open>saturating_add\<close>, \<open>saturating_sub\<close>, \<open>saturating_mul\<close> and \<open>checked_sub\<close>
  are defined below with the cut-off written out. Quantities of type \<open>usize\<close> that are the
  length of a vector are natural numbers.
\<close>

named_theorems unat_simps "how the saturating operations read as natural numbers"
named_theorems inv_intros "preservation of the component invariants"

type_synonym u8 = "8 word"
type_synonym u16 = "16 word"
type_synonym u32 = "32 word"
type_synonym u64 = "64 word"

text \<open>
  The sources select code with \<open>cfg(target_arch = xtensa | riscv32)\<close>: \<open>Esp\<close> is a build
  for those architectures, \<open>Host\<close> a build for any other (Linux).
\<close>

datatype target = Esp | Host

fun usize_bits :: "target \<Rightarrow> nat" where
  "usize_bits Esp = 32"
| "usize_bits Host = 64"

subsection \<open>Saturating and checked arithmetic\<close>

definition sat_add :: "'a::len word \<Rightarrow> 'a word \<Rightarrow> 'a word" where
  "sat_add a b = (if unat a + unat b < 2 ^ LENGTH('a) then a + b else - 1)"

definition sat_sub :: "'a::len word \<Rightarrow> 'a word \<Rightarrow> 'a word" where
  "sat_sub a b = (if a < b then 0 else a - b)"

definition sat_mul :: "'a::len word \<Rightarrow> 'a word \<Rightarrow> 'a word" where
  "sat_mul a b = (if unat a * unat b < 2 ^ LENGTH('a) then a * b else - 1)"

definition checked_sub :: "'a::len word \<Rightarrow> 'a word \<Rightarrow> 'a word option" where
  "checked_sub a b = (if a < b then None else Some (a - b))"

definition checked_add :: "'a::len word \<Rightarrow> 'a word \<Rightarrow> 'a word option" where
  "checked_add a b = (if unat a + unat b < 2 ^ LENGTH('a) then Some (a + b) else None)"

text \<open>\<open>x.clamp(lo, hi)\<close>; Rust panics when \<open>hi < lo\<close>, which no caller modelled here can do.\<close>

definition clamp :: "'a::len word \<Rightarrow> 'a word \<Rightarrow> 'a word \<Rightarrow> 'a word" where
  "clamp x lo hi = (if x < lo then lo else if hi < x then hi else x)"

text \<open>
  \<open>fetch_update\<close> with \<open>|count| count.checked_sub(1)\<close>: the counter goes down by one and
  stays put at zero.
\<close>

definition decrement_floor :: "'a::len word \<Rightarrow> 'a word" where
  "decrement_floor c = (case checked_sub c 1 of None \<Rightarrow> c | Some c' \<Rightarrow> c')"

lemma unat_max: "unat (- 1 :: 'a::len word) = 2 ^ LENGTH('a) - 1"
  by (simp add: unsigned_minus_1_eq_mask mask_eq_exp_minus_1)

lemma unat_le_max: "unat (a :: 'a::len word) \<le> 2 ^ LENGTH('a) - 1"
proof -
  have "unat a < 2 ^ LENGTH('a)" by (rule unsigned_less)
  then show ?thesis by linarith
qed

lemma unat_ucast_32_64 [simp]: "unat (ucast (x :: u32) :: u64) = unat x"
proof -
  have "unat x < 2 ^ 32" using unat_le_max [of x] by simp
  then have "unat x < 2 ^ 64" by simp
  then show ?thesis by (simp add: unsigned_ucast_eq take_bit_nat_eq_self)
qed

lemma unat_ucast_16_32 [simp]: "unat (ucast (x :: u16) :: u32) = unat x"
proof -
  have "unat x < 2 ^ 16" using unat_le_max [of x] by simp
  then have "unat x < 2 ^ 32" by simp
  then show ?thesis by (simp add: unsigned_ucast_eq take_bit_nat_eq_self)
qed

lemma ucast_32_64_eq_0 [simp]: "(ucast (x :: u32) :: u64) = 0 \<longleftrightarrow> x = 0"
  by (metis unat_ucast_32_64 unsigned_0 unat_eq_zero)

lemma unat_pos: "0 < unat x \<longleftrightarrow> x \<noteq> 0"
  by (metis gr0I unat_eq_zero unsigned_0 less_irrefl)

lemma word_of_unat: "unat a = n \<Longrightarrow> a = of_nat n"
  by auto

lemma unat_sat_add [unat_simps]:
  fixes a b :: "'a::len word"
  shows "unat (sat_add a b) = min (unat a + unat b) (2 ^ LENGTH('a) - 1)"
  by (auto simp: sat_add_def unat_word_ariths unat_max)

lemma unat_sat_sub [unat_simps]: "unat (sat_sub a b) = unat a - unat b"
  by (auto simp: sat_sub_def word_less_nat_alt unat_sub_if')

lemma unat_sat_mul [unat_simps]:
  fixes a b :: "'a::len word"
  shows "unat (sat_mul a b) = min (unat a * unat b) (2 ^ LENGTH('a) - 1)"
  by (auto simp: sat_mul_def unat_word_ariths unat_max)

lemma sat_add_ge: "a \<le> sat_add a b"
  using unat_le_max [of a] by (simp add: word_le_nat_alt unat_sat_add)

lemma sat_add_max [simp]: "sat_add (- 1) b = (- 1 :: 'a::len word)"
  by (rule word_unat_eq_iff [THEN iffD2]) (simp add: unat_sat_add unat_max)

lemma sat_sub_0 [simp]: "sat_sub a 0 = a"
  by (simp add: sat_sub_def)

lemma sat_sub_self [simp]: "sat_sub a a = 0"
  by (simp add: sat_sub_def)

lemma unat_decrement_floor [unat_simps]: "unat (decrement_floor c) = unat c - 1"
proof (cases "c = 0")
  case True
  then show ?thesis by (simp add: decrement_floor_def checked_sub_def)
next
  case False
  then have "unat (c - 1) = unat c - 1"
    by (simp add: unat_minus_one)
  with False show ?thesis
    by (simp add: decrement_floor_def checked_sub_def word_less_nat_alt unat_eq_0)
qed

lemma decrement_floor_add: "c \<noteq> - 1 \<Longrightarrow> decrement_floor (c + 1) = c"
proof -
  assume "c \<noteq> - 1"
  then have "c + 1 \<noteq> 0" by (simp add: eq_neg_iff_add_eq_0)
  then have "\<not> c + 1 < 1" by (simp add: word_less_1)
  then show ?thesis by (simp add: decrement_floor_def checked_sub_def)
qed

lemma decrement_floor_0 [simp]: "decrement_floor 0 = 0"
  by (simp add: decrement_floor_def checked_sub_def)

lemma clamp_bounds: "lo \<le> hi \<Longrightarrow> lo \<le> clamp x lo hi \<and> clamp x lo hi \<le> hi"
  by (auto simp: clamp_def)

subsection \<open>Vectors\<close>

text \<open>\<open>iter().position(p)\<close>, \<open>Vec::remove(i)\<close> for an index in range, and \<open>retain(p)\<close> (= \<open>filter\<close>).\<close>

fun position :: "('a \<Rightarrow> bool) \<Rightarrow> 'a list \<Rightarrow> nat option" where
  "position p [] = None"
| "position p (x # xs) = (if p x then Some 0 else map_option Suc (position p xs))"

definition remove_at :: "nat \<Rightarrow> 'a list \<Rightarrow> 'a list" where
  "remove_at i xs = take i xs @ drop (Suc i) xs"

lemma position_None: "position p xs = None \<longleftrightarrow> (\<forall>x \<in> set xs. \<not> p x)"
  by (induction xs) auto

lemma position_Some: "position p xs = Some i \<Longrightarrow> i < length xs \<and> p (xs ! i)"
  by (induction xs arbitrary: i) (auto split: if_splits)

lemma position_first: "position p xs = Some i \<Longrightarrow> j < i \<Longrightarrow> \<not> p (xs ! j)"
  by (induction xs arbitrary: i j) (auto split: if_splits simp: nth_Cons split: nat.splits)

lemma position_append:
  "position p (xs @ ys) = (case position p xs of Some i \<Rightarrow> Some i
     | None \<Rightarrow> map_option (\<lambda>i. length xs + i) (position p ys))"
  by (induction xs; cases "position p ys") (auto split: option.splits)

lemma set_remove_at: "set (remove_at i xs) \<subseteq> set xs"
  by (auto simp: remove_at_def dest: in_set_takeD in_set_dropD)

lemma map_remove_at: "map f (remove_at i xs) = remove_at i (map f xs)"
  by (simp add: remove_at_def take_map drop_map)

lemma distinct_remove_at: "distinct xs \<Longrightarrow> distinct (remove_at i xs)"
  by (auto simp: remove_at_def set_take_disj_set_drop_if_distinct)

lemma length_remove_at: "i < length xs \<Longrightarrow> length (remove_at i xs) = length xs - 1"
  by (simp add: remove_at_def)

lemma sorted_wrt_remove_at: "sorted_wrt P xs \<Longrightarrow> sorted_wrt P (remove_at i xs)"
proof -
  assume P: "sorted_wrt P xs"
  then have "sorted_wrt P (take (Suc i) xs @ drop (Suc i) xs)" by simp
  then have "\<forall>x \<in> set (take (Suc i) xs). \<forall>y \<in> set (drop (Suc i) xs). P x y"
    unfolding sorted_wrt_append by blast
  moreover have "set (take i xs) \<subseteq> set (take (Suc i) xs)"
    by (rule set_take_subset_set_take) simp
  ultimately show ?thesis
    using P by (auto simp: remove_at_def sorted_wrt_append sorted_wrt_take sorted_wrt_drop)
qed

lemma distinct_filter_map: "distinct (map f xs) \<Longrightarrow> distinct (map f (filter p xs))"
  by (induction xs) auto

lemma remove_at_append_last [simp]: "remove_at (length xs) (xs @ [x]) = xs"
  by (simp add: remove_at_def)

lemma sorted_wrt_snocI: "sorted_wrt P xs \<Longrightarrow> (\<And>y. y \<in> set xs \<Longrightarrow> P y x) \<Longrightarrow> sorted_wrt P (xs @ [x])"
  by (simp add: sorted_wrt_append)

subsection \<open>Results\<close>

lemma find_append: "find p (xs @ ys) = (case find p xs of None \<Rightarrow> find p ys | Some x \<Rightarrow> Some x)"
  by (induction xs) auto

lemma map_update_same: "i < length xs \<Longrightarrow> f x = f (xs ! i) \<Longrightarrow> map f (xs[i := x]) = map f xs"
  by (metis list_update_id map_update)

text \<open>Rust's \<open>Result<T, E>\<close> is a sum: \<open>Inl e\<close> for \<open>Err(e)\<close>, \<open>Inr x\<close> for \<open>Ok(x)\<close>.\<close>

definition is_ok :: "'e + 'a \<Rightarrow> bool" where
  "is_ok r = (case r of Inl _ \<Rightarrow> False | Inr _ \<Rightarrow> True)"

definition ok :: "'e + 'a \<Rightarrow> 'a option" where
  "ok r = (case r of Inl _ \<Rightarrow> None | Inr x \<Rightarrow> Some x)"

text \<open>The decimal text of an unsigned number, as \<open>Display\<close> prints it.\<close>

fun show_nat :: "nat \<Rightarrow> string" where
  "show_nat n = (if n < 10 then [char_of (48 + n)] else show_nat (n div 10) @ [char_of (48 + n mod 10)])"

declare show_nat.simps [simp del]

lemma is_ok_simps [simp]: "is_ok (Inr x)" "\<not> is_ok (Inl e)"
  by (simp_all add: is_ok_def)

end
