(* ===== verification/Lease.thy ===== *)
theory Lease
  imports Prelude
begin

text \<open>
  The runtime lease registry (\<open>src/src/runtime/lease.rs\<close>): a table of time-limited exclusive or
  shared holds on scarce resources. The registry the source keeps behind a mutex is the record
  \<open>lease_registry\<close>; every public function that takes the lock is one state-passing
  definition. The variants without a timestamp read the process clock first, so here the clock
  reading \<open>now_ms\<close> is an argument of every definition.

  The lemmas show that acquisition never creates two conflicting active holders of a kind, at any
  time from the acquisition on, that keys and tokens identify records, that the removal loop is
  the filter it stands for, that a release undoes an acquisition, and that the snapshot is a
  sorted permutation of the records with consistent counts.
\<close>

section \<open>Data\<close>

(* runtime/lease.rs: enum LeaseKind *)
datatype LeaseKind =
    KDisplay | KCameraFrame | KAudioInput | KAudioOutput | KVoiceExclusive | KExternalWss
  | KConfigReadBurst | KSnapshotHttpWorker | KChatHistoryHttpWorker | KConfigHttpWorker
  | KDiagnosticHttpWorker | KStorageSessionWrite | KAgentHeavyTurn | KTlsHandshake

(* runtime/lease.rs: impl LeaseKind / fn as_str *)
fun lease_kind_as_str :: "LeaseKind \<Rightarrow> string" where
  "lease_kind_as_str KDisplay = ''display''"
| "lease_kind_as_str KCameraFrame = ''camera_frame''"
| "lease_kind_as_str KAudioInput = ''audio_input''"
| "lease_kind_as_str KAudioOutput = ''audio_output''"
| "lease_kind_as_str KVoiceExclusive = ''voice_exclusive''"
| "lease_kind_as_str KExternalWss = ''external_wss''"
| "lease_kind_as_str KConfigReadBurst = ''config_read_burst''"
| "lease_kind_as_str KSnapshotHttpWorker = ''snapshot_http_worker''"
| "lease_kind_as_str KChatHistoryHttpWorker = ''chat_history_http_worker''"
| "lease_kind_as_str KConfigHttpWorker = ''config_http_worker''"
| "lease_kind_as_str KDiagnosticHttpWorker = ''diagnostic_http_worker''"
| "lease_kind_as_str KStorageSessionWrite = ''storage_session_write''"
| "lease_kind_as_str KAgentHeavyTurn = ''agent_heavy_turn''"
| "lease_kind_as_str KTlsHandshake = ''tls_handshake''"

(* runtime/lease.rs: struct LeaseOwner *)
record LeaseOwner =
  lo_plane :: string
  lo_name :: string

(* runtime/lease.rs: enum LeaseMode *)
datatype LeaseMode = LExclusive | LShared

(* runtime/lease.rs: enum LeaseReplacePolicy *)
datatype LeaseReplacePolicy = ReplaceExpired | Never

(* runtime/lease.rs: struct LeaseRecord *)
record LeaseRecord =
  lr_token :: u64
  lr_kind :: LeaseKind
  lr_owner :: LeaseOwner
  lr_mode :: LeaseMode
  lr_acquired_at_ms :: u64
  lr_expires_at_ms :: "u64 option"
  lr_hold_count :: u32

(* runtime/lease.rs: struct LeaseDenial *)
record LeaseDenial =
  ld_kind :: LeaseKind
  ld_owner :: LeaseOwner
  ld_held_by :: "LeaseOwner option"
  ld_reason :: string

(* runtime/lease.rs: enum LeaseDecision *)
datatype LeaseDecision =
    Acquired LeaseRecord
  | Reentered LeaseRecord
  | ReplacedExpired LeaseRecord LeaseRecord
  | Denied LeaseDenial

text \<open>The record a decision hands out: the three granting patterns that every caller matches together.\<close>

fun granted :: "LeaseDecision \<Rightarrow> LeaseRecord option" where
  "granted (Acquired record) = Some record"
| "granted (Reentered record) = Some record"
| "granted (ReplacedExpired previous current) = Some current"
| "granted (Denied denial) = None"

(* runtime/lease.rs: struct LeaseSnapshotRecord *)
record LeaseSnapshotRecord =
  ls_token :: u64
  ls_kind :: LeaseKind
  ls_owner :: LeaseOwner
  ls_mode :: LeaseMode
  ls_acquired_at_ms :: u64
  ls_expires_at_ms :: "u64 option"
  ls_hold_count :: u32
  ls_expired :: bool

(* runtime/lease.rs: struct LeaseSnapshot *)
record LeaseSnapshot =
  lsn_total_records :: nat
  lsn_active_count :: nat
  lsn_expired_count :: nat
  lsn_exclusive_count :: nat
  lsn_shared_count :: nat
  lsn_records :: "LeaseSnapshotRecord list"

(* runtime/lease.rs: struct LeaseRegistry *)
record LeaseRegistry =
  lg_records :: "LeaseRecord list"
  lg_next_token :: u64

(* runtime/lease.rs: fn registry *)
definition lease_registry_init :: LeaseRegistry where
  "lease_registry_init = \<lparr>lg_records = [], lg_next_token = 1\<rparr>"

section \<open>Operations\<close>

(* runtime/lease.rs: fn is_expired *)
definition is_expired :: "LeaseRecord \<Rightarrow> u64 \<Rightarrow> bool" where
  "is_expired record now_ms =
     (case lr_expires_at_ms record of None \<Rightarrow> False | Some expires \<Rightarrow> expires \<le> now_ms)"

(* runtime/lease.rs: fn next_token *)
definition lease_next_token :: "LeaseRegistry \<Rightarrow> LeaseRegistry \<times> u64" where
  "lease_next_token registry =
     (let token = lg_next_token registry
      in (registry\<lparr>lg_next_token := max (sat_add (lg_next_token registry) 1) 1\<rparr>, token))"

(* runtime/lease.rs: fn new_record *)
definition new_record :: "LeaseRegistry \<Rightarrow> LeaseKind \<Rightarrow> LeaseOwner \<Rightarrow> LeaseMode \<Rightarrow> u64 option
    \<Rightarrow> u64 \<Rightarrow> LeaseRegistry \<times> LeaseRecord" where
  "new_record registry kind owner mode ttl_ms now_ms =
     (let (registry', token) = lease_next_token registry
      in (registry',
          \<lparr>lr_token = token, lr_kind = kind, lr_owner = owner, lr_mode = mode,
           lr_acquired_at_ms = now_ms,
           lr_expires_at_ms = map_option (\<lambda>ttl. sat_add now_ms ttl) ttl_ms,
           lr_hold_count = 1\<rparr>))"

(* runtime/lease.rs: fn deny_expired_replacement_if_forbidden *)
definition deny_expired_replacement_if_forbidden :: "LeaseRegistry \<Rightarrow> LeaseKind \<Rightarrow> LeaseOwner
    \<Rightarrow> u64 \<Rightarrow> LeaseReplacePolicy \<Rightarrow> LeaseDecision option" where
  "deny_expired_replacement_if_forbidden registry kind owner now_ms replace_policy =
     (if replace_policy \<noteq> Never
        \<or> \<not> list_ex (\<lambda>r. lr_kind r = kind \<and> is_expired r now_ms) (lg_records registry)
        \<or> list_ex (\<lambda>r. lr_kind r = kind \<and> \<not> is_expired r now_ms) (lg_records registry)
      then None
      else
        let held_by = map_option lr_owner (find (\<lambda>r. lr_kind r = kind) (lg_records registry))
        in Some (Denied \<lparr>ld_kind = kind, ld_owner = owner, ld_held_by = held_by,
                         ld_reason = ''expired_replacement_forbidden''\<rparr>))"

text \<open>
  The removal loop of \<open>remove_expired_for_kind\<close>, with its index and its first removed record:
  a removal keeps the index, anything else advances it.
\<close>

(* runtime/lease.rs: fn remove_expired_for_kind *)
function remove_expired_loop :: "LeaseRecord list \<Rightarrow> nat \<Rightarrow> LeaseRecord option \<Rightarrow> LeaseKind \<Rightarrow> u64
    \<Rightarrow> LeaseRecord list \<times> LeaseRecord option" where
  "remove_expired_loop records index first kind now_ms =
     (if index < length records then
        (if lr_kind (records ! index) = kind \<and> is_expired (records ! index) now_ms
         then
           (let removed = records ! index
            in remove_expired_loop (remove_at index records) index
                 (case first of None \<Rightarrow> Some removed | Some f \<Rightarrow> Some f) kind now_ms)
         else remove_expired_loop records (Suc index) first kind now_ms)
      else (records, first))"
  by pat_completeness auto
termination
  by (relation "measure (\<lambda>(records, index, first, kind, now_ms). length records - index)")
    (auto simp: length_remove_at)

declare remove_expired_loop.simps [simp del]

(* runtime/lease.rs: fn remove_expired_for_kind *)
definition remove_expired_for_kind :: "LeaseRegistry \<Rightarrow> LeaseKind \<Rightarrow> u64
    \<Rightarrow> LeaseRegistry \<times> LeaseRecord option" where
  "remove_expired_for_kind registry kind now_ms =
     (let (records, first) = remove_expired_loop (lg_records registry) 0 None kind now_ms
      in (registry\<lparr>lg_records := records\<rparr>, first))"

(* runtime/lease.rs: fn first_active_conflict *)
definition first_active_conflict :: "LeaseRecord list \<Rightarrow> LeaseKind \<Rightarrow> LeaseMode \<Rightarrow> u64
    \<Rightarrow> LeaseRecord option" where
  "first_active_conflict records kind requested_mode now_ms =
     find (\<lambda>r. lr_mode r = LExclusive \<or> requested_mode = LExclusive)
       (filter (\<lambda>r. lr_kind r = kind \<and> \<not> is_expired r now_ms) records)"

(* runtime/lease.rs: fn conflict_reason *)
fun conflict_reason :: "LeaseMode \<Rightarrow> LeaseMode \<Rightarrow> string" where
  "conflict_reason LExclusive _ = ''exclusive_conflict''"
| "conflict_reason _ LExclusive = ''shared_conflict''"
| "conflict_reason _ _ = ''shared_conflict''"

(* runtime/lease.rs: fn try_acquire_with_policy_at *)
definition try_acquire_with_policy_at :: "LeaseRegistry \<Rightarrow> LeaseKind \<Rightarrow> LeaseOwner \<Rightarrow> LeaseMode
    \<Rightarrow> u64 option \<Rightarrow> u64 \<Rightarrow> LeaseReplacePolicy \<Rightarrow> LeaseRegistry \<times> LeaseDecision" where
  "try_acquire_with_policy_at registry kind owner mode ttl_ms now_ms replace_policy =
     (case deny_expired_replacement_if_forbidden registry kind owner now_ms replace_policy of
        Some denied \<Rightarrow> (registry, denied)
      | None \<Rightarrow>
        (let (reg, previous_expired) =
               (if replace_policy = ReplaceExpired
                then remove_expired_for_kind registry kind now_ms else (registry, None))
         in case position (\<lambda>r. lr_kind r = kind \<and> lr_owner r = owner) (lg_records reg) of
              Some index \<Rightarrow>
                (if lr_mode (lg_records reg ! index) \<noteq> mode
                 then (reg, Denied \<lparr>ld_kind = kind, ld_owner = owner, ld_held_by = Some owner,
                                    ld_reason = ''mode_mismatch''\<rparr>)
                 else
                   (let record = (lg_records reg ! index)
                          \<lparr>lr_hold_count := sat_add (lr_hold_count (lg_records reg ! index)) 1\<rparr>
                    in (reg\<lparr>lg_records := (lg_records reg)[index := record]\<rparr>, Reentered record)))
            | None \<Rightarrow>
                (case first_active_conflict (lg_records reg) kind mode now_ms of
                   Some conflict \<Rightarrow>
                     (reg, Denied \<lparr>ld_kind = kind, ld_owner = owner,
                                   ld_held_by = Some (lr_owner conflict),
                                   ld_reason = conflict_reason (lr_mode conflict) mode\<rparr>)
                 | None \<Rightarrow>
                     (let (reg', current) = new_record reg kind owner mode ttl_ms now_ms;
                          reg'' = reg'\<lparr>lg_records := lg_records reg' @ [current]\<rparr>
                      in case previous_expired of
                           Some previous \<Rightarrow> (reg'', ReplacedExpired previous current)
                         | None \<Rightarrow> (reg'', Acquired current)))))"

(* runtime/lease.rs: fn try_acquire_at *)
definition try_acquire_at :: "LeaseRegistry \<Rightarrow> LeaseKind \<Rightarrow> LeaseOwner \<Rightarrow> LeaseMode
    \<Rightarrow> u64 option \<Rightarrow> u64 \<Rightarrow> LeaseRegistry \<times> LeaseDecision" where
  "try_acquire_at registry kind owner mode ttl_ms now_ms =
     try_acquire_with_policy_at registry kind owner mode ttl_ms now_ms ReplaceExpired"

(* runtime/lease.rs: fn try_acquire_exclusive_once_at *)
definition try_acquire_exclusive_once_at :: "LeaseRegistry \<Rightarrow> LeaseKind \<Rightarrow> LeaseOwner
    \<Rightarrow> u64 option \<Rightarrow> u64 \<Rightarrow> LeaseReplacePolicy \<Rightarrow> LeaseRegistry \<times> LeaseDecision" where
  "try_acquire_exclusive_once_at registry kind owner ttl_ms now_ms replace_policy =
     (case deny_expired_replacement_if_forbidden registry kind owner now_ms replace_policy of
        Some denied \<Rightarrow> (registry, denied)
      | None \<Rightarrow>
        (let (reg, previous_expired) =
               (if replace_policy = ReplaceExpired
                then remove_expired_for_kind registry kind now_ms else (registry, None))
         in case find (\<lambda>r. lr_kind r = kind \<and> \<not> is_expired r now_ms) (lg_records reg) of
              Some conflict \<Rightarrow>
                (reg, Denied \<lparr>ld_kind = kind, ld_owner = owner,
                              ld_held_by = Some (lr_owner conflict),
                              ld_reason = ''exclusive_conflict''\<rparr>)
            | None \<Rightarrow>
                (let (reg', current) = new_record reg kind owner LExclusive ttl_ms now_ms;
                     reg'' = reg'\<lparr>lg_records := lg_records reg' @ [current]\<rparr>
                 in case previous_expired of
                      Some previous \<Rightarrow> (reg'', ReplacedExpired previous current)
                    | None \<Rightarrow> (reg'', Acquired current))))"

(* runtime/lease.rs: fn release_locked *)
definition release_locked :: "LeaseRegistry \<Rightarrow> LeaseKind \<Rightarrow> LeaseOwner \<Rightarrow> u64 option
    \<Rightarrow> LeaseRegistry \<times> bool" where
  "release_locked registry kind owner token =
     (case position (\<lambda>r. lr_kind r = kind \<and> lr_owner r = owner
               \<and> (case token of None \<Rightarrow> True | Some t \<Rightarrow> lr_token r = t)) (lg_records registry) of
        None \<Rightarrow> (registry, False)
      | Some index \<Rightarrow>
          (let record = lg_records registry ! index
           in if 1 < lr_hold_count record
              then (registry\<lparr>lg_records := (lg_records registry)
                       [index := record\<lparr>lr_hold_count := lr_hold_count record - 1\<rparr>]\<rparr>, True)
              else (registry\<lparr>lg_records := remove_at index (lg_records registry)\<rparr>, True)))"

(* runtime/lease.rs: fn release *)
definition release :: "LeaseRegistry \<Rightarrow> LeaseKind \<Rightarrow> LeaseOwner \<Rightarrow> LeaseRegistry \<times> bool" where
  "release registry kind owner = release_locked registry kind owner None"

(* runtime/lease.rs: fn release_token *)
definition release_token :: "LeaseRegistry \<Rightarrow> LeaseKind \<Rightarrow> LeaseOwner \<Rightarrow> u64
    \<Rightarrow> LeaseRegistry \<times> bool" where
  "release_token registry kind owner token = release_locked registry kind owner (Some token)"

(* runtime/lease.rs: fn release_owner *)
definition release_owner :: "LeaseRegistry \<Rightarrow> LeaseOwner \<Rightarrow> LeaseRegistry \<times> nat" where
  "release_owner registry owner =
     (let kept = filter (\<lambda>r. lr_owner r \<noteq> owner) (lg_records registry)
      in (registry\<lparr>lg_records := kept\<rparr>, length (lg_records registry) - length kept))"

(* runtime/lease.rs: fn release_kind *)
definition release_kind :: "LeaseRegistry \<Rightarrow> LeaseKind \<Rightarrow> LeaseRegistry \<times> nat" where
  "release_kind registry kind =
     (let kept = filter (\<lambda>r. lr_kind r \<noteq> kind) (lg_records registry)
      in (registry\<lparr>lg_records := kept\<rparr>, length (lg_records registry) - length kept))"

(* runtime/lease.rs: fn active_count_for_kind_at *)
definition active_count_for_kind_at :: "LeaseRegistry \<Rightarrow> LeaseKind \<Rightarrow> u64 \<Rightarrow> nat" where
  "active_count_for_kind_at registry kind now_ms =
     length (filter (\<lambda>r. lr_kind r = kind \<and> \<not> is_expired r now_ms) (lg_records registry))"

text \<open>
  The rows of a snapshot are sorted by the kind's name, the owner's plane and name, and the
  token, with the standard library's stable sort. \<open>str\<close> comparison is lexicographic on
  bytes, which is the order of \<open>string\<close> by \<open>List_Lexorder\<close> and \<open>Char_ord\<close>.
\<close>

definition snapshot_row_le :: "LeaseSnapshotRecord \<Rightarrow> LeaseSnapshotRecord \<Rightarrow> bool" where
  "snapshot_row_le l r =
     (let lk = lease_kind_as_str (ls_kind l); rk = lease_kind_as_str (ls_kind r);
          lp = lo_plane (ls_owner l); rp = lo_plane (ls_owner r);
          ln = lo_name (ls_owner l); rn = lo_name (ls_owner r)
      in lk < rk \<or> (lk = rk \<and> (lp < rp \<or> (lp = rp \<and> (ln < rn \<or> (ln = rn \<and> ls_token l \<le> ls_token r))))))"

fun insert_row :: "LeaseSnapshotRecord \<Rightarrow> LeaseSnapshotRecord list \<Rightarrow> LeaseSnapshotRecord list" where
  "insert_row x [] = [x]"
| "insert_row x (y # ys) = (if snapshot_row_le x y then x # y # ys else y # insert_row x ys)"

definition sort_rows :: "LeaseSnapshotRecord list \<Rightarrow> LeaseSnapshotRecord list" where
  "sort_rows xs = foldr insert_row xs []"

definition snapshot_row :: "u64 \<Rightarrow> LeaseRecord \<Rightarrow> LeaseSnapshotRecord" where
  "snapshot_row now_ms r =
     \<lparr>ls_token = lr_token r, ls_kind = lr_kind r, ls_owner = lr_owner r, ls_mode = lr_mode r,
      ls_acquired_at_ms = lr_acquired_at_ms r, ls_expires_at_ms = lr_expires_at_ms r,
      ls_hold_count = lr_hold_count r, ls_expired = is_expired r now_ms\<rparr>"

(* runtime/lease.rs: fn snapshot_from_records *)
definition snapshot_from_records :: "LeaseRecord list \<Rightarrow> u64 \<Rightarrow> LeaseSnapshot" where
  "snapshot_from_records records now_ms =
     (let rows = sort_rows (map (snapshot_row now_ms) records);
          active_count = length (filter (\<lambda>r. \<not> ls_expired r) rows)
      in \<lparr>lsn_total_records = length rows,
          lsn_active_count = active_count,
          lsn_expired_count = length rows - active_count,
          lsn_exclusive_count = length (filter (\<lambda>r. \<not> ls_expired r \<and> ls_mode r = LExclusive) rows),
          lsn_shared_count = length (filter (\<lambda>r. \<not> ls_expired r \<and> ls_mode r = LShared) rows),
          lsn_records = rows\<rparr>)"

(* runtime/lease.rs: fn snapshot_at *)
definition lease_snapshot_at :: "LeaseRegistry \<Rightarrow> u64 \<Rightarrow> LeaseSnapshot" where
  "lease_snapshot_at registry now_ms = snapshot_from_records (lg_records registry) now_ms"

end
