(* ===== verification/Lease_Laws.thy ===== *)
theory Lease_Laws
  imports Lease "HOL-Library.Product_Lexorder"
begin

text \<open>
  What the lease registry promises. \<open>lease_inv t\<close> is the invariant from time \<open>t\<close> on;
  every operation keeps it (collection \<open>inv_intros\<close>), so it holds in every state that
  \<open>lease_reachable\<close> describes: any sequence of operations under a clock that does not go back.
\<close>

section \<open>The removal loop is a filter\<close>

abbreviation dead :: "LeaseKind \<Rightarrow> u64 \<Rightarrow> LeaseRecord \<Rightarrow> bool" where
  "dead kind now_ms r \<equiv> lr_kind r = kind \<and> is_expired r now_ms"

lemma remove_expired_loop_eq:
  "remove_expired_loop records index first kind now_ms =
     (take index records @ filter (\<lambda>r. \<not> dead kind now_ms r) (drop index records),
      case first of Some f \<Rightarrow> Some f | None \<Rightarrow> find (dead kind now_ms) (drop index records))"
proof (induction records index first kind now_ms rule: remove_expired_loop.induct)
  case (1 records index first kind now_ms)
  show ?case
  proof (cases "index < length records")
    case False
    then show ?thesis by (simp add: remove_expired_loop.simps split: option.splits)
  next
    case True
    note split = Cons_nth_drop_Suc [OF True, symmetric]
    show ?thesis
    proof (cases "dead kind now_ms (records ! index)")
      case dead: True
      have "take index (remove_at index records) = take index records"
        and "drop index (remove_at index records) = drop (Suc index) records"
        using True by (simp_all add: remove_at_def)
      with 1(1) [OF True dead refl] True dead split show ?thesis
        by (subst remove_expired_loop.simps) (simp split: option.splits)
    next
      case alive: False
      from 1(2) [OF True alive] True alive split show ?thesis
        by (subst remove_expired_loop.simps) (auto simp: take_Suc_conv_app_nth split: option.splits)
    qed
  qed
qed

lemma remove_expired_for_kind_eq:
  "remove_expired_for_kind registry kind now_ms =
     (registry\<lparr>lg_records := filter (\<lambda>r. \<not> dead kind now_ms r) (lg_records registry)\<rparr>,
      find (dead kind now_ms) (lg_records registry))"
  by (simp add: remove_expired_for_kind_def remove_expired_loop_eq)

section \<open>Invariant\<close>

definition compatible :: "u64 \<Rightarrow> LeaseRecord \<Rightarrow> LeaseRecord \<Rightarrow> bool" where
  "compatible t r s \<longleftrightarrow>
     (\<forall>t' \<ge> t. lr_kind r = lr_kind s \<longrightarrow> \<not> is_expired r t' \<longrightarrow> \<not> is_expired s t' \<longrightarrow>
        lr_mode r = LShared \<and> lr_mode s = LShared)"

definition lease_keys :: "LeaseRecord list \<Rightarrow> (LeaseKind \<times> LeaseOwner) list" where
  "lease_keys rs = map (\<lambda>r. (lr_kind r, lr_owner r)) rs"

definition tokens_ok :: "LeaseRegistry \<Rightarrow> bool" where
  "tokens_ok reg \<longleftrightarrow>
     0 < lg_next_token reg
     \<and> (lg_next_token reg < - 1 \<longrightarrow>
          distinct (map lr_token (lg_records reg))
          \<and> (\<forall>r \<in> set (lg_records reg). lr_token r < lg_next_token reg))"

definition lease_inv :: "u64 \<Rightarrow> LeaseRegistry \<Rightarrow> bool" where
  "lease_inv t reg \<longleftrightarrow>
     sorted_wrt (compatible t) (lg_records reg)
     \<and> distinct (lease_keys (lg_records reg))
     \<and> (\<forall>r \<in> set (lg_records reg). 0 < lr_hold_count r)
     \<and> tokens_ok reg"

lemma is_expired_mono: "is_expired r t \<Longrightarrow> t \<le> t' \<Longrightarrow> is_expired r t'"
  by (auto simp: is_expired_def split: option.splits)

lemma compatible_mono: "compatible t r s \<Longrightarrow> t \<le> t' \<Longrightarrow> compatible t' r s"
  unfolding compatible_def by (meson order_trans)

lemma lease_inv_mono: "lease_inv t reg \<Longrightarrow> t \<le> t' \<Longrightarrow> lease_inv t' reg"
  unfolding lease_inv_def by (blast intro: sorted_wrt_mono_rel compatible_mono)

lemma lease_inv_init [inv_intros]: "lease_inv t lease_registry_init"
  by (simp add: lease_inv_def lease_registry_init_def lease_keys_def tokens_ok_def)

lemma compatible_hold [simp]:
  "compatible t (r\<lparr>lr_hold_count := h\<rparr>) s = compatible t r s"
  "compatible t s (r\<lparr>lr_hold_count := h\<rparr>) = compatible t s r"
  by (simp_all add: compatible_def is_expired_def)

text \<open>Dropping records keeps the invariant; so does changing a hold count to a positive one.\<close>

lemma lease_inv_filter [inv_intros]:
  assumes "lease_inv t reg"
  shows "lease_inv t (reg\<lparr>lg_records := filter p (lg_records reg)\<rparr>)"
  using assms unfolding lease_inv_def lease_keys_def tokens_ok_def
  by (auto simp: sorted_wrt_filter distinct_filter_map)

lemma lease_inv_remove_at [inv_intros]:
  assumes "lease_inv t reg"
  shows "lease_inv t (reg\<lparr>lg_records := remove_at i (lg_records reg)\<rparr>)"
  using assms set_remove_at [of i "lg_records reg"] unfolding lease_inv_def lease_keys_def tokens_ok_def
  by (auto simp: sorted_wrt_remove_at map_remove_at distinct_remove_at)

lemma sorted_wrt_update:
  assumes "sorted_wrt P xs" "i < length xs"
    and "\<And>y. P x y = P (xs ! i) y" "\<And>y. P y x = P y (xs ! i)"
  shows "sorted_wrt P (xs[i := x])"
  using assms by (auto simp: sorted_wrt_iff_nth_less nth_list_update)

lemma lease_inv_hold [inv_intros]:
  assumes inv: "lease_inv t reg" and i: "i < length (lg_records reg)" and h: "0 < h"
  shows "lease_inv t (reg\<lparr>lg_records := (lg_records reg)
           [i := (lg_records reg ! i)\<lparr>lr_hold_count := h\<rparr>]\<rparr>)"
proof -
  let ?r = "(lg_records reg ! i)\<lparr>lr_hold_count := h\<rparr>"
  have "set ((lg_records reg)[i := ?r]) \<subseteq> insert ?r (set (lg_records reg))"
    by (rule set_update_subset_insert)
  moreover have "lg_records reg ! i \<in> set (lg_records reg)"
    using i by simp
  moreover have "map lr_token ((lg_records reg)[i := ?r]) = map lr_token (lg_records reg)"
    and "lease_keys ((lg_records reg)[i := ?r]) = lease_keys (lg_records reg)"
    using i by (simp_all add: lease_keys_def map_update_same)
  moreover have "sorted_wrt (compatible t) ((lg_records reg)[i := ?r])"
    using inv i by (intro sorted_wrt_update) (auto simp: lease_inv_def)
  ultimately show ?thesis
    using inv h unfolding lease_inv_def tokens_ok_def by auto
qed

lemma next_token_lt: "n < (- 1 :: u64) \<Longrightarrow> n < max (sat_add n 1) 1"
proof -
  assume "n < (- 1 :: u64)"
  then have "unat n < unat (- 1 :: u64)" by (simp add: word_less_nat_alt)
  then have "unat n < unat (sat_add n 1)" by (simp add: unat_sat_add unat_max)
  then have "n < sat_add n 1" by (simp only: word_less_nat_alt)
  also have "\<dots> \<le> max (sat_add n 1) 1" by simp
  finally show ?thesis .
qed

lemma max_sat_pos: "0 < max (sat_add n 1) (1 :: u64)"
  by (simp add: less_max_iff_disj)

text \<open>Adding a record that no active record of its kind conflicts with.\<close>

lemma lease_inv_add [inv_intros]:
  assumes inv: "lease_inv t reg"
    and new: "new_record reg kind owner mode ttl t = (reg', current)"
    and key: "\<forall>r \<in> set (lg_records reg). \<not> (lr_kind r = kind \<and> lr_owner r = owner)"
    and free: "\<forall>r \<in> set (lg_records reg). lr_kind r = kind \<longrightarrow> \<not> is_expired r t \<longrightarrow>
                 lr_mode r = LShared \<and> mode = LShared"
  shows "lease_inv t (reg'\<lparr>lg_records := lg_records reg' @ [current]\<rparr>)"
proof -
  from new have reg': "lg_records reg' = lg_records reg"
      "lg_next_token reg' = max (sat_add (lg_next_token reg) 1) 1"
    and cur: "lr_token current = lg_next_token reg" "lr_kind current = kind"
      "lr_owner current = owner" "lr_mode current = mode" "lr_hold_count current = 1"
    by (auto simp: new_record_def lease_next_token_def Let_def)
  have comp: "compatible t r current" if "r \<in> set (lg_records reg)" for r
    using that free cur is_expired_mono [of r t] unfolding compatible_def by auto
  have tok: "tokens_ok (reg'\<lparr>lg_records := lg_records reg' @ [current]\<rparr>)"
  proof (cases "lg_next_token reg < - 1")
    case True
    with inv reg' cur next_token_lt [OF True] max_sat_pos show ?thesis
      unfolding lease_inv_def tokens_ok_def by (auto intro: less_trans)
  next
    case False
    then have "lg_next_token reg = - 1"
      by (metis word_order.extremum_strict word_order.not_eq_extremum)
    moreover have "\<not> (- 1 :: u64) \<le> 1" by (simp add: word_le_nat_alt unat_max)
    ultimately have "lg_next_token reg' = - 1" using reg' by (simp add: max_def)
    then show ?thesis by (simp add: tokens_ok_def word_less_nat_alt unat_max)
  qed
  show ?thesis
    using inv comp key tok reg' cur unfolding lease_inv_def lease_keys_def
    by (auto simp: sorted_wrt_append)
qed

section \<open>Every operation keeps the invariant\<close>

lemma find_None_set: "find p xs = None \<Longrightarrow> x \<in> set xs \<Longrightarrow> \<not> p x"
  by (auto simp: find_None_iff)

lemma first_active_conflict_None:
  assumes "first_active_conflict rs kind mode t = None" "r \<in> set rs" "lr_kind r = kind"
    "\<not> is_expired r t"
  shows "lr_mode r = LShared \<and> mode = LShared"
  using assms by (auto simp: first_active_conflict_def find_None_iff intro: LeaseMode.exhaust)

lemma lease_inv_purge:
  assumes "lease_inv t reg"
    and "(if policy = ReplaceExpired then remove_expired_for_kind reg kind now
          else (reg, None)) = (reg', prev)"
  shows "lease_inv t reg'"
  using assms by (auto simp: remove_expired_for_kind_eq lease_inv_filter split: if_splits)

lemma sat_add_pos: "0 < (sat_add h 1 :: u32)"
proof -
  have "0 < unat (sat_add h (1 :: u32))" by (simp add: unat_sat_add)
  then show ?thesis by (simp add: word_less_nat_alt)
qed

lemma try_acquire_with_policy_at_inv [inv_intros]:
  assumes inv: "lease_inv t reg" and t: "t \<le> now"
  shows "lease_inv now (fst (try_acquire_with_policy_at reg kind owner mode ttl now policy))"
proof -
  from inv t have inv: "lease_inv now reg" by (rule lease_inv_mono)
  obtain reg1 prev where purge: "(if policy = ReplaceExpired
      then remove_expired_for_kind reg kind now else (reg, None)) = (reg1, prev)"
    by fastforce
  from inv purge have inv1: "lease_inv now reg1" by (rule lease_inv_purge)
  obtain reg2 current where new: "new_record reg1 kind owner mode ttl now = (reg2, current)"
    by fastforce
  show ?thesis
  proof (cases "position (\<lambda>r. lr_kind r = kind \<and> lr_owner r = owner) (lg_records reg1)")
    case (Some i)
    from position_Some [OF Some] have "i < length (lg_records reg1)" by simp
    from lease_inv_hold [OF inv1 this sat_add_pos] inv inv1 purge Some show ?thesis
      by (auto simp: try_acquire_with_policy_at_def Let_def split: option.splits)
  next
    case None
    have "lease_inv now (reg2\<lparr>lg_records := lg_records reg2 @ [current]\<rparr>)"
      if "first_active_conflict (lg_records reg1) kind mode now = None"
      using inv1 new None first_active_conflict_None [OF that]
      by (intro lease_inv_add) (auto simp: position_None)
    with inv inv1 purge None new show ?thesis
      by (auto simp: try_acquire_with_policy_at_def Let_def split: option.splits)
  qed
qed

lemma not_deny_Never:
  assumes "deny_expired_replacement_if_forbidden reg kind owner now policy = None"
    and "find (\<lambda>r. lr_kind r = kind \<and> \<not> is_expired r now) (lg_records reg) = None"
    and "policy = Never" "r \<in> set (lg_records reg)"
  shows "lr_kind r \<noteq> kind"
  using assms find_None_set [OF assms(2)]
  by (auto simp: deny_expired_replacement_if_forbidden_def list_ex_iff Let_def split: if_splits)

lemma try_acquire_exclusive_once_at_inv [inv_intros]:
  assumes inv: "lease_inv t reg" and t: "t \<le> now"
  shows "lease_inv now (fst (try_acquire_exclusive_once_at reg kind owner ttl now policy))"
proof -
  from inv t have inv: "lease_inv now reg" by (rule lease_inv_mono)
  obtain reg1 prev where purge: "(if policy = ReplaceExpired
      then remove_expired_for_kind reg kind now else (reg, None)) = (reg1, prev)"
    by fastforce
  from inv purge have inv1: "lease_inv now reg1" by (rule lease_inv_purge)
  obtain reg2 current where new: "new_record reg1 kind owner LExclusive ttl now = (reg2, current)"
    by fastforce
  have "lease_inv now (reg2\<lparr>lg_records := lg_records reg2 @ [current]\<rparr>)"
    if deny: "deny_expired_replacement_if_forbidden reg kind owner now policy = None"
      and free: "find (\<lambda>r. lr_kind r = kind \<and> \<not> is_expired r now) (lg_records reg1) = None"
  proof -
    have "lr_kind r \<noteq> kind" if r: "r \<in> set (lg_records reg1)" for r
    proof (cases policy)
      case ReplaceExpired
      with purge r have "\<not> dead kind now r" by (auto simp: remove_expired_for_kind_eq)
      with find_None_set [OF free r] show ?thesis by auto
    next
      case Never
      with purge have "reg1 = reg" by simp
      with not_deny_Never [OF deny _ Never, of r] free r show ?thesis by simp
    qed
    with inv1 new show ?thesis by (intro lease_inv_add) auto
  qed
  with inv inv1 purge new show ?thesis
    by (auto simp: try_acquire_exclusive_once_at_def Let_def split: option.splits)
qed

lemma release_locked_inv [inv_intros]:
  assumes inv: "lease_inv t reg"
  shows "lease_inv t (fst (release_locked reg kind owner token))"
proof (cases "position (\<lambda>r. lr_kind r = kind \<and> lr_owner r = owner
               \<and> (case token of None \<Rightarrow> True | Some t \<Rightarrow> lr_token r = t)) (lg_records reg)")
  case None
  with inv show ?thesis by (simp add: release_locked_def)
next
  case (Some i)
  from position_Some [OF Some] have i: "i < length (lg_records reg)" by simp
  have "1 < h \<Longrightarrow> 0 < h - 1" for h :: u32
    by (metis diff_zero right_minus_eq word_gt_0 less_irrefl)
  from lease_inv_hold [OF inv i this] lease_inv_remove_at [OF inv] Some show ?thesis
    by (auto simp: release_locked_def Let_def)
qed

lemma release_owner_inv [inv_intros]: "lease_inv t reg \<Longrightarrow> lease_inv t (fst (release_owner reg owner))"
  by (simp add: release_owner_def Let_def lease_inv_filter)

lemma release_kind_inv [inv_intros]: "lease_inv t reg \<Longrightarrow> lease_inv t (fst (release_kind reg kind))"
  by (simp add: release_kind_def Let_def lease_inv_filter)

lemma position_update:
  assumes "position p xs = Some i" and "q x" and "\<And>y. q y \<Longrightarrow> p y"
  shows "position q (xs[i := x]) = Some i"
  using assms(1,2)
proof (induction xs arbitrary: i)
  case (Cons a xs)
  then show ?case using assms(3) by (auto split: if_splits)
qed simp

lemma sat_add_hold:
  assumes "0 < (h :: u32)" and "sat_add h 1 \<noteq> - 1"
  shows "1 < sat_add h 1 \<and> sat_add h 1 - 1 = h"
proof -
  from assms(2) have eq: "sat_add h 1 = h + 1" and lt: "unat h + 1 < 2 ^ 32"
    by (auto simp: sat_add_def split: if_splits)
  then have "unat (h + 1) = unat h + 1" by (simp add: unat_word_ariths)
  with assms(1) eq show ?thesis by (simp add: word_less_nat_alt)
qed

section \<open>Reachable registries\<close>

inductive lease_reachable :: "u64 \<Rightarrow> LeaseRegistry \<Rightarrow> bool" where
  lr_start: "lease_reachable t lease_registry_init"
| lr_acquire: "lease_reachable t reg \<Longrightarrow> t \<le> now \<Longrightarrow>
     lease_reachable now (fst (try_acquire_with_policy_at reg kind owner mode ttl now policy))"
| lr_once: "lease_reachable t reg \<Longrightarrow> t \<le> now \<Longrightarrow>
     lease_reachable now (fst (try_acquire_exclusive_once_at reg kind owner ttl now policy))"
| lr_release: "lease_reachable t reg \<Longrightarrow> lease_reachable t (fst (release_locked reg kind owner token))"
| lr_owner: "lease_reachable t reg \<Longrightarrow> lease_reachable t (fst (release_owner reg owner))"
| lr_kind: "lease_reachable t reg \<Longrightarrow> lease_reachable t (fst (release_kind reg kind))"

lemma lease_reachable_inv: "lease_reachable t reg \<Longrightarrow> lease_inv t reg"
  by (induction rule: lease_reachable.induct) (blast intro: inv_intros)+

section \<open>Properties\<close>

text \<open>
  C1: in every registry reachable under a clock that does not go back, at any time from the last
  operation on, two different records of one kind that are both unexpired are both shared: an
  exclusive holder is alone.
\<close>
theorem lease_mutual_exclusion:
  assumes "lease_reachable t reg" and "t \<le> now"
    and "i < length (lg_records reg)" and "j < length (lg_records reg)" and "i \<noteq> j"
    and "lr_kind (lg_records reg ! i) = lr_kind (lg_records reg ! j)"
    and "\<not> is_expired (lg_records reg ! i) now" and "\<not> is_expired (lg_records reg ! j) now"
  shows "lr_mode (lg_records reg ! i) = LShared \<and> lr_mode (lg_records reg ! j) = LShared"
proof -
  from lease_reachable_inv [OF assms(1)] have "sorted_wrt (compatible t) (lg_records reg)"
    by (simp add: lease_inv_def)
  then have "compatible t (lg_records reg ! min i j) (lg_records reg ! max i j)"
    using assms(3,4,5) by (auto simp: sorted_wrt_iff_nth_less min_def max_def)
  with assms show ?thesis by (auto simp: compatible_def min_def max_def split: if_splits)
qed

definition shared_owner :: "string \<Rightarrow> LeaseOwner" where
  "shared_owner n = \<lparr>lo_plane = ''test'', lo_name = n\<rparr>"

definition two_shared :: LeaseRegistry where
  "two_shared =
     fst (try_acquire_with_policy_at
       (fst (try_acquire_with_policy_at lease_registry_init KDisplay (shared_owner ''a'') LShared
          (Some 5) 10 ReplaceExpired))
       KDisplay (shared_owner ''b'') LShared None 11 ReplaceExpired)"

lemmas lease_eval = try_acquire_with_policy_at_def deny_expired_replacement_if_forbidden_def
  remove_expired_for_kind_eq is_expired_def new_record_def lease_next_token_def
  first_active_conflict_def lease_registry_init_def shared_owner_def sat_add_def Let_def

lemma two_shared_records:
  "two_shared = \<lparr>lg_records =
     [\<lparr>lr_token = 1, lr_kind = KDisplay, lr_owner = shared_owner ''a'', lr_mode = LShared,
       lr_acquired_at_ms = 10, lr_expires_at_ms = Some 15, lr_hold_count = 1\<rparr>,
      \<lparr>lr_token = 2, lr_kind = KDisplay, lr_owner = shared_owner ''b'', lr_mode = LShared,
       lr_acquired_at_ms = 11, lr_expires_at_ms = None, lr_hold_count = 1\<rparr>],
     lg_next_token = 3\<rparr>"
  by (simp add: two_shared_def lease_eval max_def word_le_nat_alt)

lemma two_shared_reachable: "lease_reachable 11 two_shared"
  unfolding two_shared_def by (rule lr_acquire [OF lr_acquire [OF lr_start [of 0]]]) simp_all

theorem lease_mutual_exclusion_witness:
  "lr_mode (lg_records two_shared ! 0) = LShared \<and> lr_mode (lg_records two_shared ! 1) = LShared"
  by (rule lease_mutual_exclusion [OF two_shared_reachable, where now = 12])
    (simp_all add: two_shared_records is_expired_def)

text \<open>
  C12: when an acquisition with expiry replacement grants a record, a release by that record's
  token succeeds and leaves exactly the records that were there before, less those of the kind
  that had expired: a fresh record is removed again and a re-entered one loses the hold it gained
  (its hold count not being at the top of its range).
\<close>
theorem lease_acquire_release_roundtrip:
  assumes inv: "lease_inv now reg"
    and acq: "try_acquire_at reg kind owner mode ttl now = (reg', decision)"
    and grant: "granted decision = Some record" and max: "lr_hold_count record \<noteq> - 1"
  shows "\<exists>reg''. release_token reg' kind owner (lr_token record) = (reg'', True)
           \<and> lg_records reg'' = filter (\<lambda>r. \<not> (lr_kind r = kind \<and> is_expired r now)) (lg_records reg)"
proof -
  let ?key = "\<lambda>r. lr_kind r = kind \<and> lr_owner r = owner"
  let ?kept = "filter (\<lambda>r. \<not> dead kind now r) (lg_records reg)"
  let ?reg = "reg\<lparr>lg_records := ?kept\<rparr>"
  have nodeny: "deny_expired_replacement_if_forbidden reg kind owner now ReplaceExpired = None"
    by (simp add: deny_expired_replacement_if_forbidden_def)
  note unfold = try_acquire_at_def try_acquire_with_policy_at_def Let_def remove_expired_for_kind_eq
    nodeny acq [symmetric]
  show ?thesis
  proof (cases "position ?key ?kept")
    case None
    obtain reg2 current where new: "new_record ?reg kind owner mode ttl now = (reg2, current)"
      by fastforce
    have cur: "lr_kind current = kind" "lr_owner current = owner" "lr_hold_count current = 1"
      and recs: "lg_records reg2 = ?kept"
      using new by (auto simp: new_record_def lease_next_token_def Let_def)
    from acq grant nodeny None new have "record = current"
        "reg' = reg2\<lparr>lg_records := ?kept @ [current]\<rparr>"
      by (auto simp: try_acquire_at_def try_acquire_with_policy_at_def Let_def recs
          remove_expired_for_kind_eq split: option.splits)
    moreover have "position (\<lambda>r. lr_kind r = kind \<and> lr_owner r = owner
        \<and> lr_token r = lr_token current) ?kept = None"
      using None unfolding position_None by blast
    ultimately show ?thesis
      using cur by (auto simp: release_token_def release_locked_def position_append Let_def)
  next
    case (Some i)
    let ?r = "?kept ! i"
    from position_Some [OF Some] have i: "i < length ?kept" and key: "?key ?r" by auto
    from acq grant nodeny Some have d: "record = ?r\<lparr>lr_hold_count := sat_add (lr_hold_count ?r) 1\<rparr>"
      and reg': "reg' = ?reg\<lparr>lg_records := ?kept[i := record]\<rparr>"
      by (auto simp: try_acquire_at_def try_acquire_with_policy_at_def Let_def
          remove_expired_for_kind_eq split: option.splits if_splits)
    from nth_mem [OF i] inv have "0 < lr_hold_count ?r" by (auto simp: lease_inv_def)
    with max d have cnt: "1 < lr_hold_count record" "lr_hold_count record - 1 = lr_hold_count ?r"
      using sat_add_hold [of "lr_hold_count ?r"] by auto
    have pos: "position (\<lambda>r. lr_kind r = kind \<and> lr_owner r = owner
        \<and> lr_token r = lr_token record) (?kept[i := record]) = Some i"
      using Some key d by (intro position_update [where p = ?key]) auto
    from reg' pos cnt i d show ?thesis
      by (auto simp: release_token_def release_locked_def Let_def)
  qed
qed

theorem lease_acquire_release_roundtrip_witness:
  "\<exists>reg''. release_token
       (fst (try_acquire_at two_shared KDisplay (shared_owner ''b'') LShared None 20)) KDisplay
       (shared_owner ''b'') 2 = (reg'', True)
     \<and> lg_records reg'' = filter (\<lambda>r. \<not> (lr_kind r = KDisplay \<and> is_expired r 20)) (lg_records two_shared)"
proof -
  let ?acq = "try_acquire_at two_shared KDisplay (shared_owner ''b'') LShared None 20"
  have inv: "lease_inv 20 two_shared"
    by (rule lease_inv_mono [OF lease_reachable_inv [OF two_shared_reachable]]) simp
  have dec: "granted (snd ?acq) = Some
      \<lparr>lr_token = 2, lr_kind = KDisplay, lr_owner = shared_owner ''b'', lr_mode = LShared,
       lr_acquired_at_ms = 11, lr_expires_at_ms = None, lr_hold_count = 2\<rparr>"
    by (simp add: try_acquire_at_def two_shared_records lease_eval)
  from lease_acquire_release_roundtrip [OF inv prod.collapse [symmetric] dec] show ?thesis
    by simp
qed

text \<open>The records of a kind that are active at a time.\<close>

definition active_of :: "LeaseRegistry \<Rightarrow> LeaseKind \<Rightarrow> u64 \<Rightarrow> LeaseRecord list" where
  "active_of reg kind now = filter (\<lambda>r. lr_kind r = kind \<and> \<not> is_expired r now) (lg_records reg)"

definition may_acquire :: "LeaseRegistry \<Rightarrow> LeaseKind \<Rightarrow> LeaseOwner \<Rightarrow> LeaseMode \<Rightarrow> u64 \<Rightarrow> bool" where
  "may_acquire reg kind owner mode now \<longleftrightarrow>
     (\<exists>r \<in> set (active_of reg kind now). lr_owner r = owner \<and> lr_mode r = mode)
     \<or> (\<forall>r \<in> set (active_of reg kind now).
          lr_owner r \<noteq> owner \<and> lr_mode r = LShared \<and> mode = LShared)"

lemma unique_key:
  assumes "distinct (lease_keys rs)" "r \<in> set rs" "s \<in> set rs"
    and "lr_kind r = lr_kind s" "lr_owner r = lr_owner s"
  shows "r = s"
  using assms by (auto simp: lease_keys_def distinct_map inj_on_def)

text \<open>
  The acquisition with expiry replacement grants a record exactly when the abstract rule
  allows it (the owner already holds the kind in the requested mode, or nobody holds it in a
  conflicting mode), and a denial changes the table only by dropping expired records of the kind.
\<close>
theorem try_acquire_decision:
  assumes inv: "lease_inv now reg"
  shows "(granted (snd (try_acquire_at reg kind owner mode ttl now)) \<noteq> None
            \<longleftrightarrow> may_acquire reg kind owner mode now)
       \<and> (granted (snd (try_acquire_at reg kind owner mode ttl now)) = None \<longrightarrow>
            fst (try_acquire_at reg kind owner mode ttl now)
              = reg\<lparr>lg_records := filter (\<lambda>r. \<not> (lr_kind r = kind \<and> is_expired r now)) (lg_records reg)\<rparr>)"
proof -
  let ?kept = "filter (\<lambda>r. \<not> dead kind now r) (lg_records reg)"
  let ?key = "\<lambda>r. lr_kind r = kind \<and> lr_owner r = owner"
  have nodeny: "deny_expired_replacement_if_forbidden reg kind owner now ReplaceExpired = None"
    by (simp add: deny_expired_replacement_if_forbidden_def)
  show ?thesis
  proof (cases "position ?key ?kept")
    case (Some i)
    let ?r = "?kept ! i"
    from position_Some [OF Some] have i: "i < length ?kept" and key: "?key ?r" by auto
    from nth_mem [OF i] key have r: "?r \<in> set (active_of reg kind now)" by (auto simp: active_of_def)
    have "may_acquire reg kind owner mode now \<longleftrightarrow> lr_mode ?r = mode"
    proof
      assume "may_acquire reg kind owner mode now"
      with r key obtain s where s: "s \<in> set (active_of reg kind now)" "lr_owner s = owner"
          "lr_mode s = mode"
        unfolding may_acquire_def by blast
      with r key inv have "s = ?r"
        by (intro unique_key [of "lg_records reg"]) (auto simp: active_of_def lease_inv_def)
      with s show "lr_mode ?r = mode" by simp
    qed (use r key in \<open>auto simp: may_acquire_def\<close>)
    with Some nodeny show ?thesis
      by (auto simp: try_acquire_at_def try_acquire_with_policy_at_def Let_def remove_expired_for_kind_eq)
  next
    case None
    have act: "filter (\<lambda>r. lr_kind r = kind \<and> \<not> is_expired r now) ?kept = active_of reg kind now"
      by (auto simp: active_of_def intro: filter_cong)
    have noown: "\<forall>r \<in> set (active_of reg kind now). lr_owner r \<noteq> owner"
      using None by (auto simp: position_None active_of_def)
    have "first_active_conflict ?kept kind mode now = None \<longleftrightarrow> may_acquire reg kind owner mode now"
      unfolding first_active_conflict_def act may_acquire_def find_None_iff
      using noown by (auto intro: LeaseMode.exhaust)
    with None nodeny show ?thesis
      by (auto simp: try_acquire_at_def try_acquire_with_policy_at_def Let_def
          remove_expired_for_kind_eq split: option.splits prod.splits)
  qed
qed

theorem try_acquire_decision_witness:
  "lease_inv 20 two_shared
   \<and> (granted (snd (try_acquire_at two_shared KDisplay (shared_owner ''c'') LExclusive None 20)) \<noteq> None
        \<longleftrightarrow> may_acquire two_shared KDisplay (shared_owner ''c'') LExclusive 20)
   \<and> \<not> may_acquire two_shared KDisplay (shared_owner ''c'') LExclusive 20"
proof -
  have inv: "lease_inv 20 two_shared"
    by (rule lease_inv_mono [OF lease_reachable_inv [OF two_shared_reachable]]) simp
  moreover have "\<not> may_acquire two_shared KDisplay (shared_owner ''c'') LExclusive 20"
    by (simp add: may_acquire_def active_of_def two_shared_records is_expired_def)
  ultimately show ?thesis
    using try_acquire_decision [OF inv, of KDisplay "shared_owner ''c''" LExclusive None] by blast
qed

subsection \<open>Snapshots\<close>

definition row_key :: "LeaseSnapshotRecord \<Rightarrow> string \<times> string \<times> string \<times> u64" where
  "row_key r = (lease_kind_as_str (ls_kind r), lo_plane (ls_owner r), lo_name (ls_owner r), ls_token r)"

lemma snapshot_row_le_key: "snapshot_row_le l r \<longleftrightarrow> row_key l \<le> row_key r"
  by (auto simp: snapshot_row_le_def row_key_def Let_def)

lemma mset_insert_row: "mset (insert_row x xs) = add_mset x (mset xs)"
  by (induction xs) auto

lemma sorted_insert_row:
  "sorted (map row_key xs) \<Longrightarrow> sorted (map row_key (insert_row x xs))"
proof (induction xs)
  case (Cons y ys)
  have "set (insert_row x ys) = insert x (set ys)"
    using mset_insert_row [of x ys] by (metis set_mset_add_mset_insert set_mset_mset)
  with Cons show ?case by (auto simp: snapshot_row_le_key)
qed simp

lemma mset_sort_rows: "mset (sort_rows xs) = mset xs"
  by (induction xs) (auto simp: sort_rows_def mset_insert_row)

lemma sorted_sort_rows: "sorted (map row_key (sort_rows xs))"
  by (induction xs) (auto simp: sort_rows_def sorted_insert_row)

lemma length_filter_sort_rows: "length (filter p (sort_rows xs)) = length (filter p xs)"
  by (metis mset_filter mset_sort_rows size_mset)

lemma not_exclusive: "m \<noteq> LExclusive \<longleftrightarrow> m = LShared"
  by (cases m) simp_all

lemma length_filter_split:
  "length (filter p xs) = length (filter (\<lambda>x. p x \<and> q x) xs) + length (filter (\<lambda>x. p x \<and> \<not> q x) xs)"
  by (induction xs) auto

text \<open>
  A snapshot lists every record once, sorted by kind name, owner and token; its active and
  expired counts add up to the total, and its exclusive and shared counts to the active ones.
\<close>
theorem lease_snapshot_correct:
  "sorted (map row_key (lsn_records (lease_snapshot_at reg now)))
   \<and> mset (lsn_records (lease_snapshot_at reg now)) = mset (map (snapshot_row now) (lg_records reg))
   \<and> lsn_total_records (lease_snapshot_at reg now) = length (lg_records reg)
   \<and> lsn_active_count (lease_snapshot_at reg now)
       = length (filter (\<lambda>r. \<not> is_expired r now) (lg_records reg))
   \<and> lsn_active_count (lease_snapshot_at reg now) + lsn_expired_count (lease_snapshot_at reg now)
       = lsn_total_records (lease_snapshot_at reg now)
   \<and> lsn_exclusive_count (lease_snapshot_at reg now) + lsn_shared_count (lease_snapshot_at reg now)
       = lsn_active_count (lease_snapshot_at reg now)"
proof -
  let ?rows = "map (snapshot_row now) (lg_records reg)"
  have len: "length (sort_rows ?rows) = length (lg_records reg)"
    by (metis length_map mset_sort_rows size_mset)
  have act: "length (filter (\<lambda>r. \<not> ls_expired r) ?rows)
      = length (filter (\<lambda>r. \<not> is_expired r now) (lg_records reg))"
    by (simp add: filter_map comp_def snapshot_row_def)
  have "length (filter (\<lambda>r. \<not> ls_expired r) ?rows)
      = length (filter (\<lambda>r. \<not> ls_expired r \<and> ls_mode r = LExclusive) ?rows)
        + length (filter (\<lambda>r. \<not> ls_expired r \<and> ls_mode r = LShared) ?rows)"
    using length_filter_split [of "\<lambda>r. \<not> ls_expired r" ?rows "\<lambda>r. ls_mode r = LExclusive"]
    by (simp only: not_exclusive)
  moreover have "length (filter (\<lambda>r. \<not> ls_expired r) ?rows) \<le> length (lg_records reg)"
    by (metis length_filter_le length_map)
  moreover note len act
  moreover have "lsn_records (lease_snapshot_at reg now) = sort_rows ?rows"
    and "lsn_total_records (lease_snapshot_at reg now) = length (sort_rows ?rows)"
    and "lsn_active_count (lease_snapshot_at reg now) = length (filter (\<lambda>r. \<not> ls_expired r) ?rows)"
    and "lsn_expired_count (lease_snapshot_at reg now)
      = length (sort_rows ?rows) - length (filter (\<lambda>r. \<not> ls_expired r) ?rows)"
    and "lsn_exclusive_count (lease_snapshot_at reg now)
      = length (filter (\<lambda>r. \<not> ls_expired r \<and> ls_mode r = LExclusive) ?rows)"
    and "lsn_shared_count (lease_snapshot_at reg now)
      = length (filter (\<lambda>r. \<not> ls_expired r \<and> ls_mode r = LShared) ?rows)"
    by (simp_all only: lease_snapshot_at_def snapshot_from_records_def Let_def
        length_filter_sort_rows LeaseSnapshot.simps)
  ultimately show ?thesis
    using sorted_sort_rows [of ?rows] mset_sort_rows [of ?rows] by presburger
qed

subsection \<open>The policy that forbids replacement\<close>

text \<open>
  With the policy \<open>Never\<close>, an owner whose own shared record has expired re-enters that
  expired record whenever any other record of the kind is still active: the guard against expired
  records only fires when all of the kind have expired, and the search for the owner's record
  does not look at the expiry. The caller is told it holds a lease that is not active.
\<close>
theorem never_policy_reenters_expired:
  assumes keys: "lease_inv t reg"
    and r: "r \<in> set (lg_records reg)" "lr_kind r = kind" "lr_mode r = mode" "is_expired r now"
    and s: "s \<in> set (lg_records reg)" "lr_kind s = kind" "\<not> is_expired s now"
  shows "\<exists>r'. snd (try_acquire_with_policy_at reg kind (lr_owner r) mode ttl now Never) = Reentered r'
           \<and> is_expired r' now"
proof -
  have nodeny: "deny_expired_replacement_if_forbidden reg kind (lr_owner r) now Never = None"
    using r s by (auto simp: deny_expired_replacement_if_forbidden_def list_ex_iff)
  obtain i where i: "position (\<lambda>x. lr_kind x = kind \<and> lr_owner x = lr_owner r) (lg_records reg) = Some i"
    using r position_None [of _ "lg_records reg"] by fastforce
  from position_Some [OF i] r keys have "lg_records reg ! i = r"
    by (intro unique_key [of "lg_records reg"]) (auto simp: lease_inv_def)
  with nodeny i r show ?thesis
    by (auto simp: try_acquire_with_policy_at_def Let_def is_expired_def)
qed

theorem never_policy_reenters_expired_witness:
  "\<exists>r'. snd (try_acquire_with_policy_at two_shared KDisplay (shared_owner ''a'') LShared None 20 Never)
       = Reentered r' \<and> is_expired r' 20"
  using never_policy_reenters_expired [OF lease_reachable_inv [OF two_shared_reachable],
      of "lg_records two_shared ! 0" KDisplay LShared 20 "lg_records two_shared ! 1" None]
  by (simp add: two_shared_records is_expired_def)

end
