(* ===== verification/Runtime_Mode.thy ===== *)
theory Runtime_Mode
  imports Prelude
begin

text \<open>
  The runtime mode contract (\<open>src/src/runtime/mode.rs\<close>, with the configuration phase of
  \<open>src/src/runtime/governance.rs\<close>) and the classification of system work
  (\<open>src/src/runtime/system_work.rs\<close>). The mode is derived from a source of facts by a fixed
  priority, and each mode carries a budget of allowed actions.
\<close>

section \<open>Pressure levels and priorities\<close>

text \<open>The pressure level is declared here because the mode contract reads it.\<close>

(* orchestrator/pressure.rs: enum PressureLevel *)
datatype PressureLevel = PressureNormal | PressureCautious | PressureCritical

(* orchestrator/pressure.rs: impl PressureLevel / fn from_byte *)
definition pressure_from_byte :: "u8 \<Rightarrow> PressureLevel" where
  "pressure_from_byte b =
     (if b = 0 then PressureNormal else if b = 1 then PressureCautious else PressureCritical)"

text \<open>\<open>level as u8\<close>: the discriminants of the \<open>repr(u8)\<close> enumeration.\<close>

fun pressure_as_u8 :: "PressureLevel \<Rightarrow> u8" where
  "pressure_as_u8 PressureNormal = 0"
| "pressure_as_u8 PressureCautious = 1"
| "pressure_as_u8 PressureCritical = 2"

lemma pressure_from_as [simp]: "pressure_from_byte (pressure_as_u8 l) = l"
  by (cases l) (simp_all add: pressure_from_byte_def)

text \<open>How severe a level is.\<close>

instantiation PressureLevel :: linorder
begin

definition less_eq_PressureLevel :: "PressureLevel \<Rightarrow> PressureLevel \<Rightarrow> bool" where
  "less_eq_PressureLevel a b \<longleftrightarrow> unat (pressure_as_u8 a) \<le> unat (pressure_as_u8 b)"

definition less_PressureLevel :: "PressureLevel \<Rightarrow> PressureLevel \<Rightarrow> bool" where
  "less_PressureLevel a b \<longleftrightarrow> unat (pressure_as_u8 a) < unat (pressure_as_u8 b)"

instance
proof
  fix x y z :: PressureLevel
  show "x < y \<longleftrightarrow> x \<le> y \<and> \<not> y \<le> x"
    by (auto simp: less_eq_PressureLevel_def less_PressureLevel_def)
  show "x \<le> x" by (simp add: less_eq_PressureLevel_def)
  show "x \<le> y \<Longrightarrow> y \<le> z \<Longrightarrow> x \<le> z" by (simp add: less_eq_PressureLevel_def)
  show "x \<le> y \<Longrightarrow> y \<le> x \<Longrightarrow> x = y"
    by (cases x; cases y) (simp_all add: less_eq_PressureLevel_def)
  show "x \<le> y \<or> y \<le> x" by (auto simp: less_eq_PressureLevel_def)
qed

end

section \<open>Modes\<close>

(* runtime/governance.rs: enum ConfigActivityPhase *)
datatype ConfigActivityPhase =
    PhaseIdle | PhaseStarting | PhaseActive | PhasePersisting | PhaseSuccess | PhaseFail
  | PhaseStopping | PhaseCleanup

(* runtime/governance.rs: impl ConfigActivityPhase / fn blocks_new_non_voice_network_work *)
definition blocks_new_non_voice_network_work :: "ConfigActivityPhase \<Rightarrow> bool" where
  "blocks_new_non_voice_network_work phase \<longleftrightarrow> phase = PhasePersisting \<or> phase = PhaseStopping"

(* runtime/mode.rs: enum RuntimeMode *)
datatype RuntimeMode =
    ModeBooting | ModePairing | ModeNormal | ModeConfigActive | ModeVoiceExclusive
  | ModeMaintenance | ModeUpgrade | ModeRecoverySafeMode

(* runtime/mode.rs: impl RuntimeMode / fn as_str *)
fun runtime_mode_as_str :: "RuntimeMode \<Rightarrow> string" where
  "runtime_mode_as_str ModeBooting = ''booting''"
| "runtime_mode_as_str ModePairing = ''pairing''"
| "runtime_mode_as_str ModeNormal = ''normal''"
| "runtime_mode_as_str ModeConfigActive = ''config_active''"
| "runtime_mode_as_str ModeVoiceExclusive = ''voice_exclusive''"
| "runtime_mode_as_str ModeMaintenance = ''maintenance''"
| "runtime_mode_as_str ModeUpgrade = ''upgrade''"
| "runtime_mode_as_str ModeRecoverySafeMode = ''recovery_safe_mode''"

(* runtime/mode.rs: struct RuntimeModeActionBudget *)
record RuntimeModeActionBudget =
  allow_periodic_maintenance :: bool
  allow_due_user_timers :: bool
  allow_heartbeat_injection :: bool
  allow_best_effort_delayed_tasks :: bool
  allow_idle_self_runtime :: bool
  allow_non_voice_outbound :: bool
  allow_realtime_voice_connect :: bool
  allow_external_wss_connect :: bool
  require_external_wss_suspended :: bool

(* runtime/mode.rs: struct RuntimeModeSource *)
record RuntimeModeSource =
  ms_wifi_sta_connected :: bool
  ms_boot_phase_active :: bool
  ms_pairing_required :: bool
  ms_pairing_state_known :: bool
  ms_voice_exclusive_active :: bool
  ms_background_maintenance_active :: bool
  ms_config_plane_alive :: bool
  ms_config_active :: bool
  ms_config_activity_phase :: ConfigActivityPhase
  ms_upgrade_active :: bool
  ms_channel_plane_alive :: bool
  ms_voice_plane_alive :: bool
  ms_agent_plane_alive :: bool
  ms_external_wss_managed_present :: bool
  ms_external_wss_suspend_requested :: bool
  ms_external_wss_suspended :: bool
  ms_recovery_safe_mode_active :: bool

text \<open>
  The snapshot is the source's facts with the derived mode and its budget: every fact is copied
  field by field, so the record extends the source's.
\<close>

(* runtime/mode.rs: struct RuntimeModeSnapshot *)
record RuntimeModeSnapshot = RuntimeModeSource +
  current_mode :: RuntimeMode
  action_budget :: RuntimeModeActionBudget

(* runtime/mode.rs: impl RuntimeModeSnapshot / fn mode_block_reason *)
definition mode_block_reason :: "RuntimeModeSnapshot \<Rightarrow> string option" where
  "mode_block_reason snap =
     (case current_mode snap of
        ModeBooting \<Rightarrow> Some ''boot_phase_active''
      | ModePairing \<Rightarrow> Some ''pairing_required''
      | ModeNormal \<Rightarrow> None
      | ModeConfigActive \<Rightarrow> Some ''config_active''
      | ModeVoiceExclusive \<Rightarrow> Some ''voice_exclusive_active''
      | ModeMaintenance \<Rightarrow> Some ''background_maintenance_active''
      | ModeUpgrade \<Rightarrow> Some ''upgrade_active''
      | ModeRecoverySafeMode \<Rightarrow> Some ''recovery_safe_mode'')"

(* runtime/mode.rs: impl RuntimeModeSnapshot / fn allows_prompt_governed_recall *)
definition allows_prompt_governed_recall :: "RuntimeModeSnapshot \<Rightarrow> PressureLevel \<Rightarrow> bool" where
  "allows_prompt_governed_recall snap pressure \<longleftrightarrow>
     allow_non_voice_outbound (action_budget snap) \<and> pressure \<noteq> PressureCritical"

(* runtime/mode.rs: impl RuntimeModeSnapshot / fn allows_prompt_background_governance *)
definition allows_prompt_background_governance :: "RuntimeModeSnapshot \<Rightarrow> PressureLevel \<Rightarrow> bool" where
  "allows_prompt_background_governance snap pressure \<longleftrightarrow>
     current_mode snap = ModeNormal \<and> pressure = PressureNormal"

(* runtime/mode.rs: impl RuntimeModeSnapshot / fn allows_prompt_private_depth *)
definition allows_prompt_private_depth :: "RuntimeModeSnapshot \<Rightarrow> PressureLevel \<Rightarrow> bool" where
  "allows_prompt_private_depth snap pressure \<longleftrightarrow>
     allow_idle_self_runtime (action_budget snap) \<and> allows_prompt_background_governance snap pressure"

(* runtime/mode.rs: fn derive_mode *)
definition derive_mode :: "RuntimeModeSource \<Rightarrow> RuntimeMode" where
  "derive_mode source =
     (if ms_recovery_safe_mode_active source then ModeRecoverySafeMode
      else if ms_upgrade_active source then ModeUpgrade
      else if ms_boot_phase_active source then ModeBooting
      else if ms_voice_exclusive_active source then ModeVoiceExclusive
      else if ms_config_active source then ModeConfigActive
      else if ms_background_maintenance_active source then ModeMaintenance
      else if ms_pairing_state_known source \<and> ms_pairing_required source then ModePairing
      else ModeNormal)"

definition mode_budget :: "bool \<Rightarrow> bool \<Rightarrow> bool \<Rightarrow> bool \<Rightarrow> bool \<Rightarrow> bool \<Rightarrow> bool \<Rightarrow> bool \<Rightarrow> bool
    \<Rightarrow> RuntimeModeActionBudget" where
  "mode_budget maintenance timers heartbeat delayed idle outbound voice wss suspended =
     \<lparr>allow_periodic_maintenance = maintenance, allow_due_user_timers = timers,
      allow_heartbeat_injection = heartbeat, allow_best_effort_delayed_tasks = delayed,
      allow_idle_self_runtime = idle, allow_non_voice_outbound = outbound,
      allow_realtime_voice_connect = voice, allow_external_wss_connect = wss,
      require_external_wss_suspended = suspended\<rparr>"

(* runtime/mode.rs: fn base_action_budget_for_mode *)
fun base_action_budget_for_mode :: "RuntimeMode \<Rightarrow> RuntimeModeActionBudget" where
  "base_action_budget_for_mode ModeBooting =
     mode_budget False False False False False True False True False"
| "base_action_budget_for_mode ModePairing =
     mode_budget False False False False False True False True False"
| "base_action_budget_for_mode ModeNormal =
     mode_budget True True True True True True True True False"
| "base_action_budget_for_mode ModeConfigActive =
     mode_budget False True False False False True False True False"
| "base_action_budget_for_mode ModeVoiceExclusive =
     mode_budget False False False False False False True False True"
| "base_action_budget_for_mode ModeUpgrade =
     mode_budget False True False False False True False False True"
| "base_action_budget_for_mode ModeMaintenance =
     mode_budget False True False False False True True True False"
| "base_action_budget_for_mode ModeRecoverySafeMode =
     mode_budget False False False False False True False False False"

(* runtime/mode.rs: fn action_budget_for_source *)
definition action_budget_for_source :: "RuntimeMode \<Rightarrow> ConfigActivityPhase \<Rightarrow> RuntimeModeActionBudget" where
  "action_budget_for_source mode config_phase =
     (let budget = base_action_budget_for_mode mode
      in if mode = ModeConfigActive \<and> blocks_new_non_voice_network_work config_phase
         then budget\<lparr>allow_non_voice_outbound := False, allow_external_wss_connect := False,
                     require_external_wss_suspended := True\<rparr>
         else budget)"

(* runtime/mode.rs: fn snapshot_from_source *)
definition mode_snapshot_from_source :: "RuntimeModeSource \<Rightarrow> RuntimeModeSnapshot" where
  "mode_snapshot_from_source source =
     (let mode = derive_mode source;
          budget = action_budget_for_source mode (ms_config_activity_phase source)
      in RuntimeModeSource.extend source \<lparr>current_mode = mode, action_budget = budget\<rparr>)"

section \<open>System work\<close>

(* bus.rs: enum IngressKind *)
datatype IngressKind = IngressUser | IngressSystem

(* runtime/system_work.rs: enum SystemWorkClass *)
datatype SystemWorkClass = UserInteractive | SystemInteractive | Maintenance | BackgroundLowPriority

(* runtime/system_work.rs: impl SystemWorkClass / fn is_background_job *)
definition is_background_job :: "SystemWorkClass \<Rightarrow> bool" where
  "is_background_job c \<longleftrightarrow> c = Maintenance \<or> c = BackgroundLowPriority"

(* runtime/system_work.rs: fn classify_system_work *)
definition classify_system_work :: "string \<Rightarrow> IngressKind \<Rightarrow> SystemWorkClass" where
  "classify_system_work channel ingress =
     (if ingress \<noteq> IngressSystem then UserInteractive
      else if channel = ''cron'' \<or> channel = ''heartbeat'' \<or> channel = ''_memory_refresh''
        then BackgroundLowPriority
      else if channel = ''_post_reply_maintenance'' \<or> channel = ''_self_runtime''
             \<or> channel = ''_operator_maintenance'' \<or> channel = ''_idle_memory_forge''
             \<or> channel = ''_detached_work_wake''
        then Maintenance
      else SystemInteractive)"

(* constants.rs: const POST_REPLY_BACKGROUND_QUIET_WINDOW_SECS *)
definition POST_REPLY_BACKGROUND_QUIET_WINDOW_SECS :: u64 where
  "POST_REPLY_BACKGROUND_QUIET_WINDOW_SECS = 15"

(* runtime/system_work.rs: fn post_reply_quiet_window_remaining_ms *)
definition post_reply_quiet_window_remaining_ms :: "u64 \<Rightarrow> u64 \<Rightarrow> u64 option" where
  "post_reply_quiet_window_remaining_ms now_secs last_active_epoch_secs =
     (if last_active_epoch_secs = 0 then None
      else
        let elapsed_secs = sat_sub now_secs last_active_epoch_secs
        in if POST_REPLY_BACKGROUND_QUIET_WINDOW_SECS \<le> elapsed_secs then None
           else Some (sat_mul (sat_sub POST_REPLY_BACKGROUND_QUIET_WINDOW_SECS elapsed_secs) 1000))"

section \<open>Lemmas\<close>

lemmas mode_eval = mode_snapshot_from_source_def RuntimeModeSource.defs action_budget_for_source_def
  mode_budget_def Let_def

lemma current_mode_snapshot [simp]:
  "current_mode (mode_snapshot_from_source source) = derive_mode source"
  by (simp add: mode_eval)

lemma action_budget_snapshot [simp]:
  "action_budget (mode_snapshot_from_source source)
     = action_budget_for_source (derive_mode source) (ms_config_activity_phase source)"
  by (simp add: mode_eval)

text \<open>
  The budgets are coherent in every mode and configuration phase. A budget that requires the
  external gateway sockets to be suspended never allows a new one to connect; non-voice outbound
  is only blocked together with the socket requirement; and whatever allows idle self-runtime,
  periodic maintenance, heartbeat injection or best-effort delayed tasks is the normal mode.
\<close>
theorem action_budget_coherent:
  "(require_external_wss_suspended (action_budget (mode_snapshot_from_source source))
      \<longrightarrow> \<not> allow_external_wss_connect (action_budget (mode_snapshot_from_source source)))
   \<and> (\<not> allow_non_voice_outbound (action_budget (mode_snapshot_from_source source))
      \<longrightarrow> require_external_wss_suspended (action_budget (mode_snapshot_from_source source)))
   \<and> (allow_periodic_maintenance (action_budget (mode_snapshot_from_source source))
        \<longleftrightarrow> mode_block_reason (mode_snapshot_from_source source) = None)
   \<and> (allow_periodic_maintenance (action_budget (mode_snapshot_from_source source))
        \<longleftrightarrow> allow_idle_self_runtime (action_budget (mode_snapshot_from_source source)))
   \<and> (allow_idle_self_runtime (action_budget (mode_snapshot_from_source source))
        \<longleftrightarrow> allow_heartbeat_injection (action_budget (mode_snapshot_from_source source)))
   \<and> (allow_heartbeat_injection (action_budget (mode_snapshot_from_source source))
        \<longleftrightarrow> allow_best_effort_delayed_tasks (action_budget (mode_snapshot_from_source source)))"
  by (cases "derive_mode source")
    (simp_all add: action_budget_for_source_def mode_budget_def mode_block_reason_def Let_def)

definition voice_source :: RuntimeModeSource where
  "voice_source =
     \<lparr>ms_wifi_sta_connected = True, ms_boot_phase_active = False, ms_pairing_required = True,
      ms_pairing_state_known = True, ms_voice_exclusive_active = True,
      ms_background_maintenance_active = True, ms_config_plane_alive = True,
      ms_config_active = True, ms_config_activity_phase = PhasePersisting,
      ms_upgrade_active = False, ms_channel_plane_alive = True, ms_voice_plane_alive = True,
      ms_agent_plane_alive = True, ms_external_wss_managed_present = True,
      ms_external_wss_suspend_requested = False, ms_external_wss_suspended = False,
      ms_recovery_safe_mode_active = False\<rparr>"

theorem action_budget_coherent_witness:
  "require_external_wss_suspended (action_budget (mode_snapshot_from_source voice_source))
   \<and> \<not> allow_external_wss_connect (action_budget (mode_snapshot_from_source voice_source))"
  using action_budget_coherent [of voice_source]
  by (simp add: voice_source_def derive_mode_def action_budget_for_source_def mode_budget_def)

text \<open>
  The quiet window after a reply. A session that was never active imposes none; otherwise the
  remaining time is exactly the unexpired part of the window in milliseconds, never more than the
  window and never zero, and no overflow cuts it off; a clock that has gone back counts as no
  time elapsed.
\<close>
theorem quiet_window_remaining:
  "post_reply_quiet_window_remaining_ms now active_at =
     (if active_at = 0 \<or> unat active_at + 15 \<le> unat now then None
      else Some (of_nat ((15 - (unat now - unat active_at)) * 1000)))"
proof -
  let ?e = "sat_sub now active_at"
  have e: "unat ?e = unat now - unat active_at" by (simp add: unat_sat_sub)
  have le: "POST_REPLY_BACKGROUND_QUIET_WINDOW_SECS \<le> ?e \<longleftrightarrow> 15 \<le> unat now - unat active_at"
    by (simp add: POST_REPLY_BACKGROUND_QUIET_WINDOW_SECS_def word_le_nat_alt e)
  have "unat (sat_mul (sat_sub POST_REPLY_BACKGROUND_QUIET_WINDOW_SECS ?e) 1000)
      = (15 - (unat now - unat active_at)) * 1000"
    by (simp add: unat_sat_mul unat_sat_sub POST_REPLY_BACKGROUND_QUIET_WINDOW_SECS_def)
  then have "sat_mul (sat_sub POST_REPLY_BACKGROUND_QUIET_WINDOW_SECS ?e) 1000
      = of_nat ((15 - (unat now - unat active_at)) * 1000)"
    by (rule word_of_unat)
  with le show ?thesis
    by (auto simp: post_reply_quiet_window_remaining_ms_def Let_def)
qed

end
