(* ===== verification/Orchestrator_State.thy ===== *)
theory Orchestrator_State
  imports Runtime_Mode
begin

text \<open>
  The orchestrator's atomic state (\<open>src/src/orchestrator/state.rs\<close>), the compile-time channel
  catalogue (\<open>src/src/channel_catalog.rs\<close>), the resource bounds it is measured against
  (\<open>src/src/constants.rs\<close>), the pressure computation (\<open>src/src/orchestrator/pressure.rs\<close>)
  and the channel circuit breaker (\<open>src/src/orchestrator/channel_health.rs\<close>).

  Every atomic cell is a field of the record \<open>OrchestratorState\<close>; the functions are modelled
  as running to completion on one state, as the sources use relaxed loads and stores of single
  cells. Values read from other components (connection counts, the uptime clock) are arguments.
  Arithmetic on atomics and on \<open>u32\<close> wraps, as in the release profile the firmware is built
  with; \<open>usize\<close> arithmetic wraps at the target's width.
\<close>

section \<open>Resource bounds\<close>

(* constants.rs: lines 5-8 DEFAULT_CAPACITY *)
fun DEFAULT_CAPACITY :: "target \<Rightarrow> nat" where
  "DEFAULT_CAPACITY Esp = 16"
| "DEFAULT_CAPACITY Host = 64"

(* constants.rs: lines 26-29 MAX_RESPONSE_BODY_LEN *)
fun MAX_RESPONSE_BODY_LEN :: "target \<Rightarrow> nat" where
  "MAX_RESPONSE_BODY_LEN Esp = 512 * 1024"
| "MAX_RESPONSE_BODY_LEN Host = 2 * 1024 * 1024"

(* constants.rs: lines 35-38 DEFAULT_SYSTEM_MAX_LEN *)
fun DEFAULT_SYSTEM_MAX_LEN :: "target \<Rightarrow> nat" where
  "DEFAULT_SYSTEM_MAX_LEN Esp = 32 * 1024"
| "DEFAULT_SYSTEM_MAX_LEN Host = 64 * 1024"

(* constants.rs: lines 41-44 DEFAULT_MESSAGES_MAX_LEN *)
fun DEFAULT_MESSAGES_MAX_LEN :: "target \<Rightarrow> nat" where
  "DEFAULT_MESSAGES_MAX_LEN Esp = 24 * 1024"
| "DEFAULT_MESSAGES_MAX_LEN Host = 128 * 1024"

(* constants.rs: const TLS_ADMISSION_MIN_INTERNAL_BYTES *)
definition TLS_ADMISSION_MIN_INTERNAL_BYTES :: nat where
  "TLS_ADMISSION_MIN_INTERNAL_BYTES = 38 * 1024"

(* constants.rs: const TLS_ADMISSION_MIN_LARGEST_BLOCK_BYTES *)
definition TLS_ADMISSION_MIN_LARGEST_BLOCK_BYTES :: nat where
  "TLS_ADMISSION_MIN_LARGEST_BLOCK_BYTES = 24 * 1024"

(* constants.rs: const TLS_FRAGMENTATION_CAUTION_HEADROOM_BYTES *)
definition TLS_FRAGMENTATION_CAUTION_HEADROOM_BYTES :: nat where
  "TLS_FRAGMENTATION_CAUTION_HEADROOM_BYTES = 4 * 1024"

(* constants.rs: const TLS_ADMISSION_NO_PSRAM_MIN_BYTES *)
definition TLS_ADMISSION_NO_PSRAM_MIN_BYTES :: nat where
  "TLS_ADMISSION_NO_PSRAM_MIN_BYTES = 72 * 1024"

(* constants.rs: const ESP_TRANSPORT_STEADY_INTERNAL_CAUTION_BYTES *)
definition ESP_TRANSPORT_STEADY_INTERNAL_CAUTION_BYTES :: nat where
  "ESP_TRANSPORT_STEADY_INTERNAL_CAUTION_BYTES = TLS_ADMISSION_MIN_INTERNAL_BYTES + 16 * 1024"

(* constants.rs: lines 108-111 MAX_CONCURRENT_HTTP *)
fun MAX_CONCURRENT_HTTP :: "target \<Rightarrow> nat" where
  "MAX_CONCURRENT_HTTP Esp = 3"
| "MAX_CONCURRENT_HTTP Host = 16"

(* constants.rs: lines 114-118 PRESSURE_NORMAL_INTERNAL_MIN_BYTES *)
fun PRESSURE_NORMAL_INTERNAL_MIN_BYTES :: "target \<Rightarrow> nat" where
  "PRESSURE_NORMAL_INTERNAL_MIN_BYTES Esp = 60 * 1024"
| "PRESSURE_NORMAL_INTERNAL_MIN_BYTES Host = 64 * 1024 * 1024"

(* constants.rs: const PRESSURE_NORMAL_PSRAM_MIN_BYTES *)
definition PRESSURE_NORMAL_PSRAM_MIN_BYTES :: nat where
  "PRESSURE_NORMAL_PSRAM_MIN_BYTES = 3 * 1024 * 1024"

(* constants.rs: lines 124-128 PRESSURE_CAUTIOUS_INTERNAL_MIN_BYTES *)
fun PRESSURE_CAUTIOUS_INTERNAL_MIN_BYTES :: "target \<Rightarrow> nat" where
  "PRESSURE_CAUTIOUS_INTERNAL_MIN_BYTES Esp = 48 * 1024"
| "PRESSURE_CAUTIOUS_INTERNAL_MIN_BYTES Host = 32 * 1024 * 1024"

(* constants.rs: const PRESSURE_CAUTIOUS_PSRAM_MIN_BYTES *)
definition PRESSURE_CAUTIOUS_PSRAM_MIN_BYTES :: nat where
  "PRESSURE_CAUTIOUS_PSRAM_MIN_BYTES = 768 * 1024"

(* constants.rs: const PRESSURE_QUEUE_CONGESTION_THRESHOLD *)
definition PRESSURE_QUEUE_CONGESTION_THRESHOLD :: "target \<Rightarrow> u32" where
  "PRESSURE_QUEUE_CONGESTION_THRESHOLD t = of_nat (DEFAULT_CAPACITY t) * 2 * 3 div 4"

(* constants.rs: const CHANNEL_FAIL_COOLDOWN_SECS *)
definition CHANNEL_FAIL_COOLDOWN_SECS :: u64 where
  "CHANNEL_FAIL_COOLDOWN_SECS = 60"

(* constants.rs: const CHANNEL_FAIL_THRESHOLD *)
definition CHANNEL_FAIL_THRESHOLD :: u32 where
  "CHANNEL_FAIL_THRESHOLD = 3"

section \<open>The compile-time channel catalogue\<close>

text \<open>A build: its target and the channel features compiled in.\<close>

record build =
  b_target :: target
  b_telegram :: bool
  b_feishu :: bool
  b_dingtalk :: bool
  b_wecom :: bool
  b_qq_channel :: bool
  b_websocket :: bool

(* channel_catalog.rs: struct CompiledChannelEntry *)
record CompiledChannelEntry =
  ce_id :: string
  ce_display_label :: string
  ce_show_in_connectivity :: bool
  ce_show_on_display :: bool

(* channel_catalog.rs: lines 34-91 the channel entries *)
definition channel_entry :: "string \<Rightarrow> string \<Rightarrow> bool \<Rightarrow> CompiledChannelEntry" where
  "channel_entry name label shown =
     \<lparr>ce_id = name, ce_display_label = label, ce_show_in_connectivity = shown,
      ce_show_on_display = shown\<rparr>"

(* channel_catalog.rs: fn compiled_channel_entries *)
definition compiled_channel_entries :: "build \<Rightarrow> CompiledChannelEntry list" where
  "compiled_channel_entries b =
     (if b_telegram b then [channel_entry ''telegram'' ''TG'' True] else [])
     @ (if b_feishu b then [channel_entry ''feishu'' ''FS'' True] else [])
     @ (if b_dingtalk b \<and> b_target b \<noteq> Esp then [channel_entry ''dingtalk'' ''DT'' True] else [])
     @ (if b_wecom b then [channel_entry ''wecom'' ''WC'' True] else [])
     @ (if b_qq_channel b then [channel_entry ''qq_channel'' ''QQ'' True] else [])
     @ (if b_websocket b then [channel_entry ''websocket'' ''WS'' False] else [])
     @ [channel_entry ''voice'' ''VO'' False]"

(* channel_catalog.rs: fn compiled_channel_entry *)
definition compiled_channel_entry :: "build \<Rightarrow> string \<Rightarrow> CompiledChannelEntry option" where
  "compiled_channel_entry b channel = find (\<lambda>entry. ce_id entry = channel) (compiled_channel_entries b)"

(* channel_catalog.rs: fn compiled_enabled_channel_ids *)
definition compiled_enabled_channel_ids :: "build \<Rightarrow> string list" where
  "compiled_enabled_channel_ids b =
     [''''] @ (if b_telegram b then [''telegram''] else [])
     @ (if b_feishu b then [''feishu''] else [])
     @ (if b_dingtalk b \<and> b_target b \<noteq> Esp then [''dingtalk''] else [])
     @ (if b_wecom b then [''wecom''] else [])
     @ (if b_qq_channel b then [''qq_channel''] else [])"

(* channel_catalog.rs: fn connectivity_channel_entries *)
definition connectivity_channel_entries :: "build \<Rightarrow> CompiledChannelEntry list" where
  "connectivity_channel_entries b = filter ce_show_in_connectivity (compiled_channel_entries b)"

(* channel_catalog.rs: fn channel_is_compiled *)
definition channel_is_compiled :: "build \<Rightarrow> string \<Rightarrow> bool" where
  "channel_is_compiled b channel \<longleftrightarrow> compiled_channel_entry b channel \<noteq> None"

(* channel_catalog.rs: fn normalize_compiled_enabled_channel *)
definition normalize_compiled_enabled_channel :: "build \<Rightarrow> string \<Rightarrow> string" where
  "normalize_compiled_enabled_channel b channel =
     (if channel \<in> set (compiled_enabled_channel_ids b) then channel else '''')"

section \<open>Atomic state\<close>

(* orchestrator/channel_health.rs: struct ChannelHealthSlot *)
record ChannelHealthSlot =
  ch_consecutive_failures :: u32
  ch_last_failure_uptime_secs :: u32
  ch_total_failures :: u32
  ch_total_successes :: u32

(* orchestrator/channel_health.rs: impl ChannelHealthSlot / fn new *)
definition channel_health_slot_new :: ChannelHealthSlot where
  "channel_health_slot_new =
     \<lparr>ch_consecutive_failures = 0, ch_last_failure_uptime_secs = 0, ch_total_failures = 0,
      ch_total_successes = 0\<rparr>"

(* orchestrator/state.rs: const MAX_CHANNELS *)
definition MAX_CHANNELS :: nat where
  "MAX_CHANNELS = 5"

(* orchestrator/state.rs: struct OrchestratorState *)
record OrchestratorState =
  os_heap_free_internal :: u32
  os_heap_min_free_internal :: u32
  os_heap_free_spiram :: u32
  os_heap_total_spiram :: u32
  os_heap_min_free_spiram :: u32
  os_heap_largest_block_spiram :: u32
  os_heap_largest_block :: u32
  os_heap_baseline_internal :: u32
  os_active_http_count :: u32
  os_active_wss_count :: u32
  os_active_agent_tasks :: u32
  os_pressure_level :: u8
  os_channel_health :: "ChannelHealthSlot list"
  os_inbound_depth :: u32
  os_outbound_depth :: u32
  os_session_count :: u32
  os_storage_used_kb :: u32
  os_storage_total_kb :: u32
  os_audio_recording :: u8
  os_audio_playing :: u8
  os_audio_interrupt_listening :: u8
  os_audio_interrupt_requested :: u8

(* orchestrator/state.rs: impl OrchestratorState / fn new *)
definition orchestrator_new :: OrchestratorState where
  "orchestrator_new =
     \<lparr>os_heap_free_internal = - 1, os_heap_min_free_internal = 0, os_heap_free_spiram = 0,
      os_heap_total_spiram = 0, os_heap_min_free_spiram = 0, os_heap_largest_block_spiram = 0,
      os_heap_largest_block = - 1, os_heap_baseline_internal = 0, os_active_http_count = 0,
      os_active_wss_count = 0, os_active_agent_tasks = 0, os_pressure_level = 0,
      os_channel_health = replicate MAX_CHANNELS channel_health_slot_new,
      os_inbound_depth = 0, os_outbound_depth = 0, os_session_count = 0, os_storage_used_kb = 0,
      os_storage_total_kb = 0, os_audio_recording = 0, os_audio_playing = 0,
      os_audio_interrupt_listening = 0, os_audio_interrupt_requested = 0\<rparr>"

(* platform/abstraction.rs: struct MemorySnapshot *)
record MemorySnapshot =
  mem_heap_free_internal :: u32
  mem_heap_min_free_internal :: u32
  mem_heap_free_spiram :: u32
  mem_heap_total_spiram :: u32
  mem_heap_min_free_spiram :: u32
  mem_heap_largest_block_spiram :: u32
  mem_heap_largest_block :: u32

(* orchestrator/state.rs: impl OrchestratorState / fn update_heap *)
definition update_heap :: "OrchestratorState \<Rightarrow> u32 \<Rightarrow> u32 \<Rightarrow> u32 \<Rightarrow> OrchestratorState" where
  "update_heap st internal spiram largest_block =
     (let baseline = os_heap_baseline_internal st;
          st1 = (if baseline = 0 \<or> baseline < internal
                 then st\<lparr>os_heap_baseline_internal := internal\<rparr> else st)
      in st1\<lparr>os_heap_free_internal := internal, os_heap_free_spiram := spiram,
             os_heap_largest_block := largest_block\<rparr>)"

(* orchestrator/state.rs: impl OrchestratorState / fn update_memory_snapshot *)
definition update_memory_snapshot :: "OrchestratorState \<Rightarrow> MemorySnapshot \<Rightarrow> OrchestratorState" where
  "update_memory_snapshot st snap =
     (update_heap st (mem_heap_free_internal snap) (mem_heap_free_spiram snap) (mem_heap_largest_block snap))
       \<lparr>os_heap_min_free_internal := mem_heap_min_free_internal snap,
        os_heap_total_spiram := mem_heap_total_spiram snap,
        os_heap_min_free_spiram := mem_heap_min_free_spiram snap,
        os_heap_largest_block_spiram := mem_heap_largest_block_spiram snap\<rparr>"

(* orchestrator/mod.rs: fn update_queue_depth *)
definition update_queue_depth :: "OrchestratorState \<Rightarrow> u32 \<Rightarrow> u32 \<Rightarrow> OrchestratorState" where
  "update_queue_depth st inbound outbound =
     st\<lparr>os_inbound_depth := inbound, os_outbound_depth := outbound\<rparr>"

(* orchestrator/mod.rs: fn update_session_storage *)
definition update_session_storage :: "OrchestratorState \<Rightarrow> u32 \<Rightarrow> u32 \<Rightarrow> u32 \<Rightarrow> OrchestratorState" where
  "update_session_storage st session_count storage_used_kb storage_total_kb =
     st\<lparr>os_session_count := session_count, os_storage_used_kb := storage_used_kb,
        os_storage_total_kb := storage_total_kb\<rparr>"

text \<open>\<open>(value / 1024).min(u32::MAX as u64) as u32\<close>.\<close>

(* orchestrator/mod.rs: fn bytes_to_kb_saturating *)
definition bytes_to_kb_saturating :: "u64 \<Rightarrow> u32" where
  "bytes_to_kb_saturating v = ucast (min (v div 1024) (ucast (- 1 :: u32)))"

(* orchestrator/mod.rs: fn storage_usage_kb_from_bytes *)
definition storage_usage_kb_from_bytes :: "(u64 \<times> u64) option \<Rightarrow> u32 \<times> u32 \<times> bool" where
  "storage_usage_kb_from_bytes usage_bytes =
     (case usage_bytes of
        Some (total_bytes, used) \<Rightarrow>
          (bytes_to_kb_saturating used, bytes_to_kb_saturating total_bytes, True)
      | None \<Rightarrow> (0, 0, False))"

(* orchestrator/mod.rs: fn update_session_storage_from_bytes *)
definition update_session_storage_from_bytes :: "OrchestratorState \<Rightarrow> u32 \<Rightarrow> (u64 \<times> u64) option
    \<Rightarrow> OrchestratorState \<times> bool" where
  "update_session_storage_from_bytes st session_count usage_bytes =
     (let (storage_used_kb, storage_total_kb, state_fs_ready) = storage_usage_kb_from_bytes usage_bytes
      in (update_session_storage st session_count storage_used_kb storage_total_kb, state_fs_ready))"

section \<open>Pressure\<close>

(* orchestrator/pressure.rs: enum TlsFragmentationRisk *)
datatype TlsFragmentationRisk = RiskNotApplicable | RiskHealthy | RiskCautious | RiskCritical

(* orchestrator/pressure.rs: impl TlsFragmentationRisk / fn blocks_live_probe *)
definition blocks_live_probe :: "TlsFragmentationRisk \<Rightarrow> bool" where
  "blocks_live_probe r \<longleftrightarrow> r = RiskCautious \<or> r = RiskCritical"

(* orchestrator/pressure.rs: struct ResourceBudget *)
record ResourceBudget =
  rb_level :: PressureLevel
  rb_system_prompt_max :: nat
  rb_messages_max :: nat
  rb_response_body_max :: nat
  rb_reconnect_backoff_secs :: u64
  rb_llm_hint :: string

text \<open>The UTF-8 bytes of the em dash in the hints.\<close>

definition em_dash :: string where
  "em_dash = [CHR 0xE2, CHR 0x80, CHR 0x94]"

(* orchestrator/pressure.rs: fn budget_for_level *)
fun budget_for_level :: "target \<Rightarrow> PressureLevel \<Rightarrow> ResourceBudget" where
  "budget_for_level t PressureNormal =
     \<lparr>rb_level = PressureNormal, rb_system_prompt_max = DEFAULT_SYSTEM_MAX_LEN t,
      rb_messages_max = DEFAULT_MESSAGES_MAX_LEN t, rb_response_body_max = MAX_RESPONSE_BODY_LEN t,
      rb_reconnect_backoff_secs = 5, rb_llm_hint = ''[device: ok]''\<rparr>"
| "budget_for_level t PressureCautious =
     \<lparr>rb_level = PressureCautious, rb_system_prompt_max = 16 * 1024, rb_messages_max = 12 * 1024,
      rb_response_body_max = 256 * 1024, rb_reconnect_backoff_secs = 15,
      rb_llm_hint = ''[device: memory-constrained '' @ em_dash
        @ '' prefer concise replies, avoid heavy tool calls like web_search/fetch_url]''\<rparr>"
| "budget_for_level t PressureCritical =
     \<lparr>rb_level = PressureCritical, rb_system_prompt_max = 8 * 1024, rb_messages_max = 6 * 1024,
      rb_response_body_max = 128 * 1024, rb_reconnect_backoff_secs = 30,
      rb_llm_hint = ''[device: critical '' @ em_dash
        @ '' reply in 1-2 sentences only, no tool calls]''\<rparr>"

(* orchestrator/pressure.rs: fn tls_fragmentation_risk *)
definition tls_fragmentation_risk :: "u32 \<Rightarrow> u32 \<Rightarrow> TlsFragmentationRisk" where
  "tls_fragmentation_risk heap_largest_block heap_free_spiram =
     (if heap_free_spiram = 0 \<or> heap_largest_block = 0 then RiskNotApplicable
      else
        let min = of_nat TLS_ADMISSION_MIN_LARGEST_BLOCK_BYTES;
            caution = sat_add min (of_nat TLS_FRAGMENTATION_CAUTION_HEADROOM_BYTES)
        in if heap_largest_block < min then RiskCritical
           else if heap_largest_block < caution then RiskCautious
           else RiskHealthy)"

text \<open>
  The relative use of the internal heap in percent, in \<open>usize\<close> arithmetic.
\<close>

definition usage_percent :: "target \<Rightarrow> nat \<Rightarrow> nat \<Rightarrow> nat" where
  "usage_percent t baseline internal =
     (if 0 < baseline \<and> internal < baseline
      then ((baseline - internal) * 100 mod 2 ^ usize_bits t) div baseline else 0)"

(* orchestrator/pressure.rs: fn compute_pressure *)
definition compute_pressure :: "target \<Rightarrow> u32 \<Rightarrow> u32 \<Rightarrow> OrchestratorState \<Rightarrow> PressureLevel" where
  "compute_pressure t active_http active_wss st =
     (let internal = unat (os_heap_free_internal st);
          spiram = unat (os_heap_free_spiram st);
          largest = os_heap_largest_block st;
          baseline = unat (os_heap_baseline_internal st);
          active_network = sat_add active_http active_wss;
          queue_total = os_inbound_depth st + os_outbound_depth st;
          fragmentation_risk = tls_fragmentation_risk largest (os_heap_free_spiram st)
      in if fragmentation_risk = RiskCritical then PressureCritical
         else if internal < PRESSURE_CAUTIOUS_INTERNAL_MIN_BYTES t
              \<and> (spiram = 0 \<or> spiram < PRESSURE_CAUTIOUS_PSRAM_MIN_BYTES) then PressureCritical
         else if 0 < spiram \<and> internal < ESP_TRANSPORT_STEADY_INTERNAL_CAUTION_BYTES
           then PressureCautious
         else if PRESSURE_QUEUE_CONGESTION_THRESHOLD t \<le> queue_total
              \<and> internal < PRESSURE_NORMAL_INTERNAL_MIN_BYTES t then PressureCritical
         else if (85 < usage_percent t baseline internal
                  \<and> internal < PRESSURE_NORMAL_INTERNAL_MIN_BYTES t)
              \<or> (0 < spiram \<and> spiram < PRESSURE_NORMAL_PSRAM_MIN_BYTES) then PressureCautious
         else if fragmentation_risk = RiskCautious then PressureCautious
         else if of_nat (MAX_CONCURRENT_HTTP t) \<le> active_network then PressureCautious
         else if PRESSURE_QUEUE_CONGESTION_THRESHOLD t \<le> queue_total then PressureCautious
         else PressureNormal)"

(* orchestrator/mod.rs: fn apply_memory_snapshot *)
definition apply_memory_snapshot :: "target \<Rightarrow> u32 \<Rightarrow> u32 \<Rightarrow> OrchestratorState \<Rightarrow> MemorySnapshot
    \<Rightarrow> OrchestratorState" where
  "apply_memory_snapshot t active_http active_wss st snap =
     (let st1 = update_memory_snapshot st snap;
          level = compute_pressure t active_http active_wss st1
      in st1\<lparr>os_pressure_level := pressure_as_u8 level\<rparr>)"

(* orchestrator/mod.rs: fn current_pressure *)
definition current_pressure :: "OrchestratorState \<Rightarrow> PressureLevel" where
  "current_pressure st = pressure_from_byte (os_pressure_level st)"

(* orchestrator/mod.rs: fn current_budget *)
definition current_budget :: "target \<Rightarrow> OrchestratorState \<Rightarrow> ResourceBudget" where
  "current_budget t st = budget_for_level t (current_pressure st)"

text \<open>
  The refresh throttle: \<open>now_secs\<close> is the elapsed time since the first call, \<open>live\<close> the
  snapshot the registered provider returns when it is asked; the last refresh time is a cell of
  its own.
\<close>

(* orchestrator/mod.rs: fn refresh_heap_if_stale *)
definition refresh_heap_if_stale :: "target \<Rightarrow> u32 \<Rightarrow> u32 \<Rightarrow> u32 \<Rightarrow> MemorySnapshot
    \<Rightarrow> u32 \<times> OrchestratorState \<Rightarrow> (u32 \<times> OrchestratorState) \<times> PressureLevel" where
  "refresh_heap_if_stale t active_http active_wss now_secs live cell =
     (let (last_refresh, st) = cell;
          cell' = (if 2 \<le> now_secs - last_refresh
                   then (now_secs, apply_memory_snapshot t active_http active_wss st live)
                   else (last_refresh, st))
      in (cell', current_pressure (snd cell')))"

section \<open>Channel circuit breaker\<close>

(* orchestrator/state.rs: struct ChannelHealthSnapshot *)
record ChannelHealthSnapshot =
  hs_consecutive_failures :: u32
  hs_total_failures :: u32
  hs_total_successes :: u32
  hs_healthy :: bool

(* orchestrator/state.rs: impl ChannelHealthSnapshot / fn healthy *)
definition channel_health_snapshot_healthy :: ChannelHealthSnapshot where
  "channel_health_snapshot_healthy =
     \<lparr>hs_consecutive_failures = 0, hs_total_failures = 0, hs_total_successes = 0, hs_healthy = True\<rparr>"

(* orchestrator/state.rs: fn channel_to_index *)
definition channel_to_index :: "build \<Rightarrow> string \<Rightarrow> nat option" where
  "channel_to_index b channel =
     position (\<lambda>entry. ce_id entry = channel) (connectivity_channel_entries b)"

(* orchestrator/channel_health.rs: fn record_channel_result *)
definition record_channel_result :: "build \<Rightarrow> u32 \<Rightarrow> OrchestratorState \<Rightarrow> string \<Rightarrow> bool
    \<Rightarrow> OrchestratorState" where
  "record_channel_result b uptime_secs st channel success =
     (case channel_to_index b channel of
        None \<Rightarrow> st
      | Some idx \<Rightarrow>
          (let slot = os_channel_health st ! idx;
               slot' = (if success
                 then slot\<lparr>ch_consecutive_failures := 0,
                           ch_total_successes := ch_total_successes slot + 1\<rparr>
                 else slot\<lparr>ch_consecutive_failures := ch_consecutive_failures slot + 1,
                           ch_last_failure_uptime_secs := uptime_secs,
                           ch_total_failures := ch_total_failures slot + 1\<rparr>)
           in st\<lparr>os_channel_health := (os_channel_health st)[idx := slot']\<rparr>))"

(* orchestrator/channel_health.rs: fn is_channel_healthy_by_index *)
definition is_channel_healthy_by_index :: "u32 \<Rightarrow> OrchestratorState \<Rightarrow> nat \<Rightarrow> bool" where
  "is_channel_healthy_by_index uptime_secs st idx =
     (let slot = os_channel_health st ! idx;
          failures = ch_consecutive_failures slot
      in if failures < CHANNEL_FAIL_THRESHOLD then True
         else ucast CHANNEL_FAIL_COOLDOWN_SECS
                \<le> sat_sub uptime_secs (ch_last_failure_uptime_secs slot))"

(* orchestrator/channel_health.rs: fn is_channel_healthy *)
definition is_channel_healthy :: "build \<Rightarrow> u32 \<Rightarrow> OrchestratorState \<Rightarrow> string \<Rightarrow> bool" where
  "is_channel_healthy b uptime_secs st channel =
     (case channel_to_index b channel of
        None \<Rightarrow> True
      | Some idx \<Rightarrow> is_channel_healthy_by_index uptime_secs st idx)"

(* orchestrator/channel_health.rs: fn snapshot_by_index *)
definition snapshot_by_index :: "u32 \<Rightarrow> OrchestratorState \<Rightarrow> nat \<Rightarrow> ChannelHealthSnapshot" where
  "snapshot_by_index uptime_secs st idx =
     (let slot = os_channel_health st ! idx;
          consecutive_failures = ch_consecutive_failures slot;
          healthy = (if consecutive_failures < CHANNEL_FAIL_THRESHOLD then True
                     else ucast CHANNEL_FAIL_COOLDOWN_SECS
                            \<le> sat_sub uptime_secs (ch_last_failure_uptime_secs slot))
      in \<lparr>hs_consecutive_failures = consecutive_failures, hs_total_failures = ch_total_failures slot,
          hs_total_successes = ch_total_successes slot, hs_healthy = healthy\<rparr>)"

(* orchestrator/channel_health.rs: fn snapshot_for_channel *)
definition snapshot_for_channel :: "build \<Rightarrow> u32 \<Rightarrow> OrchestratorState \<Rightarrow> string
    \<Rightarrow> ChannelHealthSnapshot" where
  "snapshot_for_channel b uptime_secs st channel =
     (case channel_to_index b channel of
        Some idx \<Rightarrow> snapshot_by_index uptime_secs st idx
      | None \<Rightarrow> channel_health_snapshot_healthy)"

end
