(* ===== verification/Admission.thy ===== *)
theory Admission
  imports Orchestrator_State
begin

text \<open>
  The admission gates (\<open>src/src/orchestrator/admission.rs\<close>): inbound messages, LLM calls, tool
  executions and outbound messages are admitted, delayed, degraded or refused from the stored
  pressure level, the queue depths, the heap cells and the current runtime mode; and the
  priority override of \<open>src/src/orchestrator/permit.rs\<close>.

  The gates read the mode through \<open>thread_registry::runtime_mode_snapshot\<close>; here the facts
  that snapshot is derived from are the argument \<open>source\<close>. Delays are \<open>u64\<close> words with
  the sources' arithmetic.
\<close>

section \<open>Decisions and bounds\<close>

(* orchestrator/admission.rs: enum AdmissionDecision *)
datatype AdmissionDecision = Accept | Defer u64 | Reject string

(* orchestrator/admission.rs: enum LlmDecision *)
datatype LlmDecision = Proceed | RetryLater u64 | Degrade string

(* orchestrator/admission.rs: enum ToolDecision *)
datatype ToolDecision = Allow | Deny string

(* constants.rs: const LOW_MEM_DEFER_SLEEP_MS *)
definition LOW_MEM_DEFER_SLEEP_MS :: u64 where
  "LOW_MEM_DEFER_SLEEP_MS = 1800"

(* constants.rs: const LLM_RETRY_LATER_DELAY_MS *)
definition LLM_RETRY_LATER_DELAY_MS :: u64 where
  "LLM_RETRY_LATER_DELAY_MS = 700"

(* constants.rs: const OUTBOUND_DEFER_DELAY_MS *)
definition OUTBOUND_DEFER_DELAY_MS :: u64 where
  "OUTBOUND_DEFER_DELAY_MS = 1400"

(* constants.rs: const OUTBOUND_DEFER_DELAY_MS_CAUTIOUS *)
definition OUTBOUND_DEFER_DELAY_MS_CAUTIOUS :: u64 where
  "OUTBOUND_DEFER_DELAY_MS_CAUTIOUS = 350"

(* constants.rs: const VOICE_CHANNEL_NAME *)
definition VOICE_CHANNEL_NAME :: string where
  "VOICE_CHANNEL_NAME = ''voice''"

(* orchestrator/admission.rs: const LOW_MEM_DEFER_SLEEP_MS_MIN *)
definition LOW_MEM_DEFER_SLEEP_MS_MIN :: u64 where
  "LOW_MEM_DEFER_SLEEP_MS_MIN = 650"

(* orchestrator/admission.rs: const LLM_RETRY_LATER_DELAY_MS_MIN *)
definition LLM_RETRY_LATER_DELAY_MS_MIN :: u64 where
  "LLM_RETRY_LATER_DELAY_MS_MIN = 240"

(* orchestrator/admission.rs: const OUTBOUND_DEFER_DELAY_MS_CAUTIOUS_MIN *)
definition OUTBOUND_DEFER_DELAY_MS_CAUTIOUS_MIN :: u64 where
  "OUTBOUND_DEFER_DELAY_MS_CAUTIOUS_MIN = 120"

(* orchestrator/admission.rs: const OUTBOUND_BACKGROUND_YIELD_MS_MIN *)
definition OUTBOUND_BACKGROUND_YIELD_MS_MIN :: u64 where
  "OUTBOUND_BACKGROUND_YIELD_MS_MIN = 80"

(* orchestrator/admission.rs: const OUTBOUND_BACKGROUND_YIELD_MS_MAX *)
definition OUTBOUND_BACKGROUND_YIELD_MS_MAX :: u64 where
  "OUTBOUND_BACKGROUND_YIELD_MS_MAX = 260"

(* orchestrator/admission.rs: const MODE_TRANSITION_DEFER_MS *)
definition MODE_TRANSITION_DEFER_MS :: u64 where
  "MODE_TRANSITION_DEFER_MS = 250"

section \<open>Delays\<close>

(* orchestrator/admission.rs: fn queue_total *)
definition queue_total :: "OrchestratorState \<Rightarrow> u32" where
  "queue_total st = sat_add (os_inbound_depth st) (os_outbound_depth st)"

(* orchestrator/admission.rs: fn is_queue_congested *)
definition is_queue_congested :: "target \<Rightarrow> OrchestratorState \<Rightarrow> bool" where
  "is_queue_congested t st \<longleftrightarrow> PRESSURE_QUEUE_CONGESTION_THRESHOLD t \<le> queue_total st"

(* orchestrator/admission.rs: fn critical_inbound_defer_delay_ms *)
definition critical_inbound_defer_delay_ms :: "target \<Rightarrow> OrchestratorState \<Rightarrow> u64" where
  "critical_inbound_defer_delay_ms t st =
     (let base = LOW_MEM_DEFER_SLEEP_MS;
          queued = ucast (queue_total st);
          threshold = max (ucast (PRESSURE_QUEUE_CONGESTION_THRESHOLD t)) 1
      in if threshold \<le> queued then base
         else
           let scaled = LOW_MEM_DEFER_SLEEP_MS_MIN
                 + (sat_sub base LOW_MEM_DEFER_SLEEP_MS_MIN) * queued div threshold
           in clamp scaled LOW_MEM_DEFER_SLEEP_MS_MIN base)"

(* orchestrator/admission.rs: fn esp_llm_cautious_min_largest_block_bytes *)
definition esp_llm_cautious_min_largest_block_bytes :: u32 where
  "esp_llm_cautious_min_largest_block_bytes =
     sat_add (of_nat TLS_ADMISSION_MIN_LARGEST_BLOCK_BYTES)
       (of_nat TLS_FRAGMENTATION_CAUTION_HEADROOM_BYTES)"

(* orchestrator/admission.rs: fn cautious_llm_retry_delay_scaled *)
definition cautious_llm_retry_delay_scaled :: "u64 \<Rightarrow> u64 \<Rightarrow> u64" where
  "cautious_llm_retry_delay_scaled deficit need =
     (let rng = sat_sub LLM_RETRY_LATER_DELAY_MS LLM_RETRY_LATER_DELAY_MS_MIN
      in if rng = 0 \<or> need = 0 then LLM_RETRY_LATER_DELAY_MS
         else
           let scaled = LLM_RETRY_LATER_DELAY_MS_MIN + rng * min deficit need div need
           in clamp scaled LLM_RETRY_LATER_DELAY_MS_MIN LLM_RETRY_LATER_DELAY_MS)"

(* orchestrator/admission.rs: lines 129-155 cautious_llm_retry_delay_ms *)
fun cautious_llm_retry_delay_ms :: "target \<Rightarrow> OrchestratorState \<Rightarrow> u64" where
  "cautious_llm_retry_delay_ms Esp st =
     (let largest = ucast (os_heap_largest_block st);
          need = ucast esp_llm_cautious_min_largest_block_bytes;
          deficit = sat_sub need largest
      in cautious_llm_retry_delay_scaled deficit need)"
| "cautious_llm_retry_delay_ms Host st =
     (let internal = ucast (os_heap_free_internal st);
          need = of_nat TLS_ADMISSION_MIN_INTERNAL_BYTES;
          deficit = sat_sub need internal
      in cautious_llm_retry_delay_scaled deficit need)"

text \<open>Compiled for \<open>Esp\<close> only.\<close>

(* orchestrator/admission.rs: fn cautious_outbound_defer_delay_ms *)
definition cautious_outbound_defer_delay_ms :: "OrchestratorState \<Rightarrow> u64" where
  "cautious_outbound_defer_delay_ms st =
     (let base = OUTBOUND_DEFER_DELAY_MS_CAUTIOUS;
          queued = ucast (queue_total st);
          threshold = max (ucast (PRESSURE_QUEUE_CONGESTION_THRESHOLD Esp)) 1;
          over = sat_sub queued threshold;
          scaled = OUTBOUND_DEFER_DELAY_MS_CAUTIOUS_MIN
            + (sat_sub base OUTBOUND_DEFER_DELAY_MS_CAUTIOUS_MIN) * min over threshold div threshold
      in clamp scaled OUTBOUND_DEFER_DELAY_MS_CAUTIOUS_MIN base)"

(* orchestrator/admission.rs: fn background_outbound_yield_ms *)
definition background_outbound_yield_ms :: "OrchestratorState \<Rightarrow> u64" where
  "background_outbound_yield_ms st =
     (let pressure = pressure_from_byte (os_pressure_level st);
          active_agent = ucast (os_active_agent_tasks st) :: u64
      in if active_agent = 0 then 0
         else
           let base = (case pressure of
                 PressureNormal \<Rightarrow> OUTBOUND_BACKGROUND_YIELD_MS_MIN
               | PressureCautious \<Rightarrow>
                   (OUTBOUND_BACKGROUND_YIELD_MS_MIN + OUTBOUND_BACKGROUND_YIELD_MS_MAX) div 2
               | PressureCritical \<Rightarrow> OUTBOUND_BACKGROUND_YIELD_MS_MAX);
               extra = min active_agent 3 * 30
           in min (base + extra) OUTBOUND_BACKGROUND_YIELD_MS_MAX)"

section \<open>Mode gates\<close>

(* orchestrator/admission.rs: fn is_voice_channel *)
definition is_voice_channel :: "string \<Rightarrow> bool" where
  "is_voice_channel channel \<longleftrightarrow> channel = VOICE_CHANNEL_NAME"

(* orchestrator/admission.rs: fn non_voice_block_mode *)
definition non_voice_block_mode :: "RuntimeModeSnapshot \<Rightarrow> string \<Rightarrow> RuntimeMode option" where
  "non_voice_block_mode mode channel =
     (if \<not> allow_non_voice_outbound (action_budget mode) \<and> \<not> is_voice_channel channel
      then Some (current_mode mode) else None)"

(* orchestrator/admission.rs: fn non_voice_background_reason *)
definition non_voice_background_reason :: "RuntimeMode \<Rightarrow> string" where
  "non_voice_background_reason mode =
     (case mode of
        ModeConfigActive \<Rightarrow> ''config_active_background''
      | ModeVoiceExclusive \<Rightarrow> ''voice_exclusive_background''
      | _ \<Rightarrow> ''mode_background_skip'')"

(* orchestrator/admission.rs: fn non_voice_network_tool_reason *)
definition non_voice_network_tool_reason :: "RuntimeMode \<Rightarrow> string" where
  "non_voice_network_tool_reason mode =
     (case mode of
        ModeConfigActive \<Rightarrow> ''config_active_non_voice_network_tool''
      | ModeVoiceExclusive \<Rightarrow> ''voice_exclusive_non_voice_network_tool''
      | _ \<Rightarrow> ''mode_non_voice_network_tool'')"

(* orchestrator/admission.rs: fn non_voice_outbound_reason *)
definition non_voice_outbound_reason :: "RuntimeMode \<Rightarrow> string" where
  "non_voice_outbound_reason mode =
     (case mode of
        ModeConfigActive \<Rightarrow> ''config_active_non_voice_outbound''
      | ModeVoiceExclusive \<Rightarrow> ''voice_exclusive_non_voice_outbound''
      | _ \<Rightarrow> ''mode_non_voice_outbound'')"

section \<open>The four gates\<close>

(* orchestrator/admission.rs: fn should_accept_inbound_with_mode *)
definition should_accept_inbound_with_mode :: "target \<Rightarrow> OrchestratorState \<Rightarrow> string \<Rightarrow> IngressKind
    \<Rightarrow> RuntimeModeSnapshot \<Rightarrow> AdmissionDecision" where
  "should_accept_inbound_with_mode t st channel ingress mode =
     (let pressure = pressure_from_byte (os_pressure_level st);
          work_class = classify_system_work channel ingress
      in case non_voice_block_mode mode channel of
           Some block_mode \<Rightarrow>
             (if work_class = BackgroundLowPriority then Reject (non_voice_background_reason block_mode)
              else Defer MODE_TRANSITION_DEFER_MS)
         | None \<Rightarrow>
             (if \<not> allow_periodic_maintenance (action_budget mode) \<and> work_class = BackgroundLowPriority
              then Reject (non_voice_background_reason (current_mode mode))
              else case pressure of
                PressureCritical \<Rightarrow>
                  (if work_class = BackgroundLowPriority then Reject ''critical_pressure_background''
                   else Defer (critical_inbound_defer_delay_ms t st))
              | PressureCautious \<Rightarrow>
                  (if work_class = BackgroundLowPriority then Reject ''cautious_background_skip''
                   else if work_class = Maintenance \<and> is_queue_congested t st
                     then Defer LOW_MEM_DEFER_SLEEP_MS_MIN
                   else Accept)
              | PressureNormal \<Rightarrow> Accept))"

(* orchestrator/admission.rs: fn should_accept_inbound *)
definition should_accept_inbound :: "target \<Rightarrow> OrchestratorState \<Rightarrow> string \<Rightarrow> IngressKind
    \<Rightarrow> RuntimeModeSource \<Rightarrow> AdmissionDecision" where
  "should_accept_inbound t st channel ingress source =
     should_accept_inbound_with_mode t st channel ingress (mode_snapshot_from_source source)"

(* orchestrator/admission.rs: fn can_call_llm_for_channel_with_mode *)
definition can_call_llm_for_channel_with_mode :: "target \<Rightarrow> OrchestratorState \<Rightarrow> string
    \<Rightarrow> RuntimeModeSnapshot \<Rightarrow> LlmDecision" where
  "can_call_llm_for_channel_with_mode t st channel mode =
     (if non_voice_block_mode mode channel \<noteq> None then RetryLater MODE_TRANSITION_DEFER_MS
      else case pressure_from_byte (os_pressure_level st) of
        PressureCritical \<Rightarrow> Degrade ''critical_pressure''
      | PressureCautious \<Rightarrow>
          (case t of
             Esp \<Rightarrow>
               (if os_heap_largest_block st < esp_llm_cautious_min_largest_block_bytes
                then RetryLater (cautious_llm_retry_delay_ms t st) else Proceed)
           | Host \<Rightarrow>
               (if os_heap_free_internal st < of_nat TLS_ADMISSION_MIN_INTERNAL_BYTES
                then RetryLater (cautious_llm_retry_delay_ms t st) else Proceed))
      | PressureNormal \<Rightarrow> Proceed)"

(* orchestrator/admission.rs: fn can_call_llm_for_channel *)
definition can_call_llm_for_channel :: "target \<Rightarrow> OrchestratorState \<Rightarrow> string \<Rightarrow> RuntimeModeSource
    \<Rightarrow> LlmDecision" where
  "can_call_llm_for_channel t st channel source =
     can_call_llm_for_channel_with_mode t st channel (mode_snapshot_from_source source)"

(* orchestrator/admission.rs: fn can_call_llm *)
definition can_call_llm :: "target \<Rightarrow> OrchestratorState \<Rightarrow> RuntimeModeSource \<Rightarrow> LlmDecision" where
  "can_call_llm t st source = can_call_llm_for_channel t st '''' source"

(* orchestrator/admission.rs: fn can_execute_tool_for_channel_with_mode *)
definition can_execute_tool_for_channel_with_mode :: "OrchestratorState \<Rightarrow> string \<Rightarrow> bool \<Rightarrow> string
    \<Rightarrow> RuntimeModeSnapshot \<Rightarrow> ToolDecision" where
  "can_execute_tool_for_channel_with_mode st tool_name requires_network channel mode =
     (case (if requires_network then non_voice_block_mode mode channel else None) of
        Some block_mode \<Rightarrow> Deny (non_voice_network_tool_reason block_mode)
      | None \<Rightarrow>
          (case pressure_from_byte (os_pressure_level st) of
             PressureCritical \<Rightarrow>
               (if requires_network then Deny ''critical_no_network_tools'' else Allow)
           | PressureCautious \<Rightarrow>
               (if requires_network
                   \<and> os_heap_free_internal st < of_nat TLS_ADMISSION_MIN_INTERNAL_BYTES
                then Deny ''cautious_low_heap_for_http_tool'' else Allow)
           | PressureNormal \<Rightarrow> Allow))"

(* orchestrator/admission.rs: fn can_execute_tool_for_channel *)
definition can_execute_tool_for_channel :: "OrchestratorState \<Rightarrow> string \<Rightarrow> bool \<Rightarrow> string
    \<Rightarrow> RuntimeModeSource \<Rightarrow> ToolDecision" where
  "can_execute_tool_for_channel st tool_name requires_network channel source =
     can_execute_tool_for_channel_with_mode st tool_name requires_network channel
       (mode_snapshot_from_source source)"

(* orchestrator/admission.rs: fn can_execute_tool *)
definition can_execute_tool :: "OrchestratorState \<Rightarrow> string \<Rightarrow> bool \<Rightarrow> RuntimeModeSource
    \<Rightarrow> ToolDecision" where
  "can_execute_tool st tool_name requires_network source =
     can_execute_tool_for_channel st tool_name requires_network '''' source"

(* orchestrator/admission.rs: fn should_accept_outbound_with_mode *)
definition should_accept_outbound_with_mode :: "target \<Rightarrow> OrchestratorState \<Rightarrow> string
    \<Rightarrow> RuntimeModeSnapshot \<Rightarrow> AdmissionDecision" where
  "should_accept_outbound_with_mode t st channel mode =
     (case non_voice_block_mode mode channel of
        Some block_mode \<Rightarrow> Reject (non_voice_outbound_reason block_mode)
      | None \<Rightarrow>
          (let congested = is_queue_congested t st
           in case pressure_from_byte (os_pressure_level st) of
                PressureCritical \<Rightarrow> (if congested then Defer OUTBOUND_DEFER_DELAY_MS else Accept)
              | PressureCautious \<Rightarrow>
                  (case t of
                     Host \<Rightarrow> Accept
                   | Esp \<Rightarrow>
                       (if congested then Defer (cautious_outbound_defer_delay_ms st) else Accept))
              | PressureNormal \<Rightarrow> Accept))"

(* orchestrator/admission.rs: fn should_accept_outbound *)
definition should_accept_outbound :: "target \<Rightarrow> OrchestratorState \<Rightarrow> string \<Rightarrow> RuntimeModeSource
    \<Rightarrow> AdmissionDecision" where
  "should_accept_outbound t st channel source =
     should_accept_outbound_with_mode t st channel (mode_snapshot_from_source source)"

end
