(* ===== verification/Admission_Laws.thy ===== *)
theory Admission_Laws
  imports Admission
begin

text \<open>
  What the admission gates promise: the delays read as natural-number formulas without overflow,
  their bounds and monotonicity, which decisions each kind of work can receive, and that no gate
  opens as the pressure rises.
\<close>

section \<open>Delays\<close>

fun threshold :: "target \<Rightarrow> nat" where
  "threshold Esp = 24"
| "threshold Host = 96"

lemma unat_threshold [simp]: "unat (PRESSURE_QUEUE_CONGESTION_THRESHOLD t) = threshold t"
  by (cases t) (simp_all add: PRESSURE_QUEUE_CONGESTION_THRESHOLD_def)

lemma max_threshold [simp]:
  "max (ucast (PRESSURE_QUEUE_CONGESTION_THRESHOLD t)) 1 = (ucast (PRESSURE_QUEUE_CONGESTION_THRESHOLD t) :: u64)"
  by (cases t) (simp_all add: PRESSURE_QUEUE_CONGESTION_THRESHOLD_def)

definition waiting :: "OrchestratorState \<Rightarrow> nat" where
  "waiting st = min (unat (os_inbound_depth st) + unat (os_outbound_depth st)) (2 ^ 32 - 1)"

lemma unat_queue_total: "unat (queue_total st) = waiting st"
  by (simp add: queue_total_def waiting_def unat_sat_add)

lemma congested_waiting: "is_queue_congested t st \<longleftrightarrow> threshold t \<le> waiting st"
  by (simp add: is_queue_congested_def word_le_nat_alt unat_queue_total)

lemma threshold_pos: "0 < threshold t" "threshold t \<le> 96"
  by (cases t, simp_all)+

lemma unat_clamp: "unat (clamp x lo hi) = (if unat x < unat lo then unat lo else if unat hi < unat x then unat hi else unat x)"
  by (simp add: clamp_def word_less_nat_alt)

lemma scale_le: "q \<le> th \<Longrightarrow> k * q div th \<le> (k :: nat)"
proof -
  assume "q \<le> th"
  then have "k * q div th \<le> k * th div th" by (intro div_le_mono) simp
  also have "\<dots> \<le> k" by (cases "th = 0") simp_all
  finally show ?thesis .
qed

text \<open>Scaling a span by a ratio, as the delays do, reads as natural-number arithmetic.\<close>

lemma unat_scaled:
  fixes lo k q th :: u64
  assumes "unat q \<le> unat th" "unat th \<le> 2 ^ 32" "unat k \<le> 2 ^ 16" "unat lo \<le> 2 ^ 16"
  shows "unat (lo + k * q div th) = unat lo + unat k * unat q div unat th"
proof -
  have "unat k * unat q \<le> 2 ^ 16 * 2 ^ 32"
    using assms by (intro mult_le_mono) auto
  then have m: "unat (k * q) = unat k * unat q"
    by (simp add: unat_word_ariths)
  have "unat k * unat q div unat th \<le> unat k"
    using assms(1) by (rule scale_le)
  with assms(3,4) have "unat lo + unat k * unat q div unat th < 2 ^ 64" by simp
  with m show ?thesis by (simp add: unat_word_ariths unat_div)
qed

lemma unat_critical_inbound:
  "unat (critical_inbound_defer_delay_ms t st)
     = (if threshold t \<le> waiting st then 1800 else 650 + 1150 * waiting st div threshold t)"
proof (cases "threshold t \<le> waiting st")
  case True
  then show ?thesis
    by (simp add: critical_inbound_defer_delay_ms_def Let_def word_le_nat_alt unat_queue_total
        LOW_MEM_DEFER_SLEEP_MS_def)
next
  case False
  let ?s = "(650 :: u64) + 1150 * ucast (queue_total st) div ucast (PRESSURE_QUEUE_CONGESTION_THRESHOLD t)"
  have s: "unat ?s = 650 + 1150 * waiting st div threshold t"
    using False threshold_pos [of t] by (subst unat_scaled) (simp_all add: unat_queue_total)
  have "1150 * waiting st div threshold t \<le> 1150"
    using False by (intro scale_le) simp
  with s False show ?thesis
    by (simp add: critical_inbound_defer_delay_ms_def Let_def word_le_nat_alt unat_queue_total
        LOW_MEM_DEFER_SLEEP_MS_def LOW_MEM_DEFER_SLEEP_MS_MIN_def unat_clamp sat_sub_def)
qed

lemma unat_llm_scaled:
  assumes "0 < unat need" "unat need \<le> 2 ^ 32"
  shows "unat (cautious_llm_retry_delay_scaled deficit need)
           = 240 + 460 * min (unat deficit) (unat need) div unat need"
proof -
  have m: "unat (min deficit need) = min (unat deficit) (unat need)"
    by (simp add: min_def word_le_nat_alt)
  let ?s = "(240 :: u64) + 460 * min deficit need div need"
  have s: "unat ?s = 240 + 460 * min (unat deficit) (unat need) div unat need"
    using assms by (subst unat_scaled) (simp_all add: m)
  have "460 * min (unat deficit) (unat need) div unat need \<le> 460"
    by (rule scale_le) simp
  with s show ?thesis
    using assms(1)
    by (auto simp: cautious_llm_retry_delay_scaled_def Let_def LLM_RETRY_LATER_DELAY_MS_def
        LLM_RETRY_LATER_DELAY_MS_MIN_def unat_clamp sat_sub_def)
qed

lemma unat_cautious_outbound:
  "unat (cautious_outbound_defer_delay_ms st) = 120 + 230 * min (waiting st - 24) 24 div 24"
proof -
  let ?th = "ucast (PRESSURE_QUEUE_CONGESTION_THRESHOLD Esp) :: u64"
  let ?o = "min (sat_sub (ucast (queue_total st)) ?th) ?th"
  have o: "unat ?o = min (waiting st - 24) 24"
    by (simp add: min_def word_le_nat_alt unat_sat_sub unat_queue_total)
  have s: "unat ((120 :: u64) + 230 * ?o div ?th) = 120 + 230 * min (waiting st - 24) 24 div 24"
    by (subst unat_scaled) (simp_all add: o)
  have "230 * min (waiting st - 24) 24 div 24 \<le> 230"
    by (rule scale_le) simp
  with s show ?thesis
    by (simp add: cautious_outbound_defer_delay_ms_def Let_def unat_clamp sat_sub_def
        OUTBOUND_DEFER_DELAY_MS_CAUTIOUS_def OUTBOUND_DEFER_DELAY_MS_CAUTIOUS_MIN_def)
qed

lemma unat_yield:
  "unat (background_outbound_yield_ms st) =
     (if os_active_agent_tasks st = 0 then 0
      else case pressure_from_byte (os_pressure_level st) of
        PressureNormal \<Rightarrow> 80 + min (unat (os_active_agent_tasks st)) 3 * 30
      | PressureCautious \<Rightarrow> 170 + min (unat (os_active_agent_tasks st)) 3 * 30
      | PressureCritical \<Rightarrow> 260)"
proof -
  let ?a = "ucast (os_active_agent_tasks st) :: u64"
  have m: "unat (min ?a 3 * 30) = min (unat (os_active_agent_tasks st)) 3 * 30"
    by (simp add: unat_word_ariths min_def word_le_nat_alt)
  then have "unat (b + min ?a 3 * 30) = unat b + min (unat (os_active_agent_tasks st)) 3 * 30"
    if "unat b \<le> 260" for b :: u64
    using that by (simp add: unat_word_ariths min_def)
  moreover have "?a = 0 \<longleftrightarrow> os_active_agent_tasks st = 0"
    by (metis unat_ucast_32_64 unsigned_0 unat_eq_zero)
  moreover have "unat (min x 260) = min (unat x) 260" for x :: u64
    by (simp add: min_def word_le_nat_alt)
  ultimately show ?thesis
    by (simp add: background_outbound_yield_ms_def Let_def OUTBOUND_BACKGROUND_YIELD_MS_MIN_def
        OUTBOUND_BACKGROUND_YIELD_MS_MAX_def split: PressureLevel.split)
qed

section \<open>Properties of the delays\<close>

lemma llm_delay_bounds:
  "240 \<le> unat (cautious_llm_retry_delay_ms t st) \<and> unat (cautious_llm_retry_delay_ms t st) \<le> 700"
proof -
  have b: "240 \<le> unat (cautious_llm_retry_delay_scaled d n) \<and> unat (cautious_llm_retry_delay_scaled d n) \<le> 700"
    if "0 < unat n" "unat n \<le> 2 ^ 32" for d n
    unfolding unat_llm_scaled [OF that]
    using scale_le [of "min (unat d) (unat n)" "unat n" 460] by simp
  show ?thesis
    by (cases t) (simp_all add: Let_def b TLS_ADMISSION_MIN_INTERNAL_BYTES_def
        esp_llm_cautious_min_largest_block_bytes_def TLS_ADMISSION_MIN_LARGEST_BLOCK_BYTES_def
        TLS_FRAGMENTATION_CAUTION_HEADROOM_BYTES_def unat_sat_add)
qed

lemma critical_inbound_bounds: "unat (critical_inbound_defer_delay_ms t st) \<in> {650..1800}"
proof -
  have "waiting st < threshold t \<Longrightarrow> 1150 * waiting st div threshold t \<le> 1150"
    by (rule scale_le) simp
  then show ?thesis by (simp add: unat_critical_inbound)
qed

lemma critical_inbound_mono:
  assumes "waiting st \<le> waiting st'"
  shows "unat (critical_inbound_defer_delay_ms t st) \<le> unat (critical_inbound_defer_delay_ms t st')"
proof -
  have "1150 * waiting st div threshold t \<le> 1150 * waiting st' div threshold t"
    using assms by (intro div_le_mono) simp
  moreover have "waiting st < threshold t \<Longrightarrow> 1150 * waiting st div threshold t \<le> 1150"
    by (rule scale_le) simp
  ultimately show ?thesis
    using assms by (simp add: unat_critical_inbound)
qed

text \<open>
  The delays of the gates never overflow and stay in their ranges: 650 to 1800 ms for inbound
  work under critical pressure, and 1800 ms from the congestion threshold on, 240 to 700 ms for an LLM call, 120 to 350 ms for an
  outbound message, at most 260 ms for a background yield, which is zero exactly when no agent task
  runs; and the inbound and outbound delays never shrink as the queues grow.
\<close>
theorem admission_delays:
  "unat (critical_inbound_defer_delay_ms t st) \<in> {650..1800}
   \<and> (is_queue_congested t st \<longrightarrow> critical_inbound_defer_delay_ms t st = LOW_MEM_DEFER_SLEEP_MS)
   \<and> unat (cautious_llm_retry_delay_ms t st) \<in> {240..700}
   \<and> unat (cautious_outbound_defer_delay_ms st) \<in> {120..350}
   \<and> unat (background_outbound_yield_ms st) \<le> 260
   \<and> (background_outbound_yield_ms st = 0 \<longleftrightarrow> os_active_agent_tasks st = 0)
   \<and> (waiting st \<le> waiting st' \<longrightarrow>
        critical_inbound_defer_delay_ms t st \<le> critical_inbound_defer_delay_ms t st'
        \<and> cautious_outbound_defer_delay_ms st \<le> cautious_outbound_defer_delay_ms st')"
proof (intro conjI impI)
  show "unat (critical_inbound_defer_delay_ms t st) \<in> {650..1800}"
    by (rule critical_inbound_bounds)
  show "is_queue_congested t st \<Longrightarrow> critical_inbound_defer_delay_ms t st = LOW_MEM_DEFER_SLEEP_MS"
    by (rule word_unat_eq_iff [THEN iffD2])
      (simp add: unat_critical_inbound congested_waiting LOW_MEM_DEFER_SLEEP_MS_def)
  show "unat (cautious_llm_retry_delay_ms t st) \<in> {240..700}"
    using llm_delay_bounds by simp
  show "unat (cautious_outbound_defer_delay_ms st) \<in> {120..350}"
    using scale_le [of "min (waiting st - 24) 24" 24 230] by (simp add: unat_cautious_outbound)
  show "unat (background_outbound_yield_ms st) \<le> 260"
    by (simp add: unat_yield min_def split: PressureLevel.split)
  have "background_outbound_yield_ms st = 0 \<longleftrightarrow> unat (background_outbound_yield_ms st) = 0"
    by (simp only: unat_eq_zero)
  then show "background_outbound_yield_ms st = 0 \<longleftrightarrow> os_active_agent_tasks st = 0"
    by (simp add: unat_yield split: PressureLevel.split)
next
  assume le: "waiting st \<le> waiting st'"
  then show "critical_inbound_defer_delay_ms t st \<le> critical_inbound_defer_delay_ms t st'"
    by (simp add: word_le_nat_alt critical_inbound_mono)
  have "min (waiting st - 24) 24 \<le> min (waiting st' - 24) 24" using le by simp
  then show "cautious_outbound_defer_delay_ms st \<le> cautious_outbound_defer_delay_ms st'"
    by (simp add: word_le_nat_alt unat_cautious_outbound div_le_mono del: min.bounded_iff)
qed

definition queued :: "u32 \<Rightarrow> u32 \<Rightarrow> OrchestratorState" where
  "queued inbound outbound = update_queue_depth orchestrator_new inbound outbound"

theorem admission_delays_witness:
  "critical_inbound_defer_delay_ms Esp (queued 12 12) = 1800
   \<and> critical_inbound_defer_delay_ms Esp (queued 3 3) \<le> critical_inbound_defer_delay_ms Esp (queued 12 12)"
proof -
  have "waiting (queued 3 3) \<le> waiting (queued 12 12)" "threshold Esp \<le> waiting (queued 12 12)"
    by (simp_all add: waiting_def queued_def update_queue_depth_def)
  then show ?thesis
    using admission_delays [of Esp "queued 12 12"] admission_delays [of Esp "queued 3 3" "queued 12 12"]
    by (simp add: congested_waiting LOW_MEM_DEFER_SLEEP_MS_def)
qed

section \<open>Properties of the gates\<close>

lemma block_mode_snapshot:
  "non_voice_block_mode (mode_snapshot_from_source source) channel =
     (if \<not> allow_non_voice_outbound (action_budget (mode_snapshot_from_source source)) \<and> channel \<noteq> ''voice''
      then Some (derive_mode source) else None)"
  by (simp add: non_voice_block_mode_def is_voice_channel_def VOICE_CHANNEL_NAME_def)

lemma periodic_normal:
  "allow_periodic_maintenance (action_budget_for_source m p) \<longleftrightarrow> m = ModeNormal"
  by (cases m) (simp_all add: action_budget_for_source_def mode_budget_def Let_def)

lemma normal_outbound: "allow_non_voice_outbound (action_budget_for_source ModeNormal p)"
  by (simp add: action_budget_for_source_def mode_budget_def Let_def)

lemma background_is_system:
  "classify_system_work channel ingress = BackgroundLowPriority \<Longrightarrow> ingress = IngressSystem"
  by (auto simp: classify_system_work_def split: if_splits)

text \<open>
  What each kind of inbound work can receive. User messages and system work that is not
  low-priority background are never rejected; low-priority background work is never deferred and is
  accepted exactly in the normal mode under normal pressure; and every deferral is between 250 and
  1800 ms.
\<close>
theorem inbound_decisions:
  "(classify_system_work channel ingress \<noteq> BackgroundLowPriority \<or> ingress = IngressUser \<longrightarrow>
       (\<forall>r. should_accept_inbound t st channel ingress source \<noteq> Reject r))
   \<and> (classify_system_work channel ingress = BackgroundLowPriority \<longrightarrow>
       (\<forall>d. should_accept_inbound t st channel ingress source \<noteq> Defer d)
       \<and> (should_accept_inbound t st channel ingress source = Accept
            \<longleftrightarrow> derive_mode source = ModeNormal \<and> current_pressure st = PressureNormal))
   \<and> (\<forall>d. should_accept_inbound t st channel ingress source = Defer d \<longrightarrow> unat d \<in> {250..1800})"
proof (intro conjI impI)
  assume "classify_system_work channel ingress \<noteq> BackgroundLowPriority \<or> ingress = IngressUser"
  then have "classify_system_work channel ingress \<noteq> BackgroundLowPriority"
    using background_is_system [of channel ingress] by auto
  then show "\<forall>r. should_accept_inbound t st channel ingress source \<noteq> Reject r"
    by (simp add: should_accept_inbound_def should_accept_inbound_with_mode_def Let_def
        split: option.split PressureLevel.split)
next
  assume b: "classify_system_work channel ingress = BackgroundLowPriority"
  then show "\<forall>d. should_accept_inbound t st channel ingress source \<noteq> Defer d"
    by (simp add: should_accept_inbound_def should_accept_inbound_with_mode_def Let_def
        split: option.split PressureLevel.split)
  show "should_accept_inbound t st channel ingress source = Accept
            \<longleftrightarrow> derive_mode source = ModeNormal \<and> current_pressure st = PressureNormal"
    using b normal_outbound
    by (auto simp: should_accept_inbound_def should_accept_inbound_with_mode_def Let_def
        block_mode_snapshot periodic_normal current_pressure_def
        split: option.split PressureLevel.split)
next
  have "unat (critical_inbound_defer_delay_ms t st) \<in> {250..1800}"
    using critical_inbound_bounds [of t st] by simp
  then show "\<forall>d. should_accept_inbound t st channel ingress source = Defer d \<longrightarrow> unat d \<in> {250..1800}"
    by (simp add: should_accept_inbound_def should_accept_inbound_with_mode_def Let_def
        MODE_TRANSITION_DEFER_MS_def LOW_MEM_DEFER_SLEEP_MS_MIN_def
        split: option.split PressureLevel.split)
qed

theorem inbound_decisions_witness:
  "should_accept_inbound Esp orchestrator_new ''heartbeat'' IngressSystem voice_source
     = Reject ''voice_exclusive_background''
   \<and> (\<forall>r. should_accept_inbound Esp orchestrator_new ''qq_channel'' IngressUser voice_source \<noteq> Reject r)
   \<and> (\<forall>d. should_accept_inbound Esp orchestrator_new ''heartbeat'' IngressSystem voice_source \<noteq> Defer d)"
proof (intro conjI)
  show "should_accept_inbound Esp orchestrator_new ''heartbeat'' IngressSystem voice_source
     = Reject ''voice_exclusive_background''"
    by (simp add: should_accept_inbound_def should_accept_inbound_with_mode_def block_mode_snapshot
        classify_system_work_def voice_source_def derive_mode_def
        action_budget_for_source_def mode_budget_def non_voice_background_reason_def)
  show "\<forall>r. should_accept_inbound Esp orchestrator_new ''qq_channel'' IngressUser voice_source \<noteq> Reject r"
    using inbound_decisions [of "''qq_channel''" IngressUser Esp orchestrator_new voice_source] by simp
  show "\<forall>d. should_accept_inbound Esp orchestrator_new ''heartbeat'' IngressSystem voice_source \<noteq> Defer d"
    using inbound_decisions [of "''heartbeat''" IngressSystem Esp orchestrator_new voice_source]
    by (simp add: classify_system_work_def)
qed

definition at_level :: "PressureLevel \<Rightarrow> OrchestratorState \<Rightarrow> OrchestratorState" where
  "at_level l st = st\<lparr>os_pressure_level := pressure_as_u8 l\<rparr>"

lemma at_level_simps [simp]:
  "os_pressure_level (at_level l st) = pressure_as_u8 l"
  "is_queue_congested t (at_level l st) = is_queue_congested t st"
  "os_heap_largest_block (at_level l st) = os_heap_largest_block st"
  "os_heap_free_internal (at_level l st) = os_heap_free_internal st"
  "current_pressure (at_level l st) = l"
  by (simp_all add: at_level_def current_pressure_def is_queue_congested_def queue_total_def)

lemma level_cases:
  assumes "(l :: PressureLevel) \<le> l'"
  shows "l = l' \<or> (l = PressureNormal \<and> l' = PressureCautious) \<or> (l = PressureNormal \<and> l' = PressureCritical)
    \<or> (l = PressureCautious \<and> l' = PressureCritical)"
  using assms by (cases l; cases l') (simp_all add: less_eq_PressureLevel_def)

text \<open>
  No gate opens as the pressure rises. Whatever is accepted, called, allowed or sent at a level
  is so at every lower level with the rest of the state unchanged: an inbound message, an LLM call,
  a tool and an outbound message.
\<close>
theorem gates_antitone_in_pressure:
  assumes "l \<le> l'"
  shows "(should_accept_inbound t (at_level l' st) channel ingress source = Accept
            \<longrightarrow> should_accept_inbound t (at_level l st) channel ingress source = Accept)
     \<and> (can_call_llm_for_channel t (at_level l' st) channel source = Proceed
            \<longrightarrow> can_call_llm_for_channel t (at_level l st) channel source = Proceed)
     \<and> (can_execute_tool_for_channel (at_level l' st) name net channel source = Allow
            \<longrightarrow> can_execute_tool_for_channel (at_level l st) name net channel source = Allow)
     \<and> (should_accept_outbound t (at_level l' st) channel source = Accept
            \<longrightarrow> should_accept_outbound t (at_level l st) channel source = Accept)"
proof (intro conjI impI)
  note cs = level_cases [OF assms]
  show "should_accept_inbound t (at_level l st) channel ingress source = Accept"
    if "should_accept_inbound t (at_level l' st) channel ingress source = Accept"
    using that cs by (auto simp: should_accept_inbound_def should_accept_inbound_with_mode_def Let_def
        split: option.splits if_splits)
  show "can_call_llm_for_channel t (at_level l st) channel source = Proceed"
    if "can_call_llm_for_channel t (at_level l' st) channel source = Proceed"
    using that cs by (auto simp: can_call_llm_for_channel_def can_call_llm_for_channel_with_mode_def
        split: if_splits)
  show "can_execute_tool_for_channel (at_level l st) name net channel source = Allow"
    if "can_execute_tool_for_channel (at_level l' st) name net channel source = Allow"
    using that cs by (auto simp: can_execute_tool_for_channel_def
        can_execute_tool_for_channel_with_mode_def split: option.splits if_splits)
  show "should_accept_outbound t (at_level l st) channel source = Accept"
    if "should_accept_outbound t (at_level l' st) channel source = Accept"
    using that cs by (auto simp: should_accept_outbound_def should_accept_outbound_with_mode_def
        Let_def split: option.splits if_splits target.splits)
qed

theorem gates_antitone_in_pressure_witness:
  "should_accept_outbound Esp (at_level PressureCritical (queued 3 3)) ''voice'' voice_source = Accept
   \<and> should_accept_outbound Esp (at_level PressureCautious (queued 3 3)) ''voice'' voice_source = Accept"
proof -
  have acc: "should_accept_outbound Esp (at_level PressureCritical (queued 3 3)) ''voice'' voice_source = Accept"
    by (simp add: should_accept_outbound_def should_accept_outbound_with_mode_def block_mode_snapshot
        congested_waiting waiting_def queued_def update_queue_depth_def pressure_from_byte_def Let_def
        at_level_def)
  have "PressureCautious \<le> PressureCritical" by (simp add: less_eq_PressureLevel_def)
  from gates_antitone_in_pressure [OF this] acc show ?thesis by blast
qed

text \<open>
  The network gates. A tool that needs no network always runs; one that needs it only runs
  outside critical pressure, with at least the TLS minimum of internal heap under cautious pressure,
  and on the voice channel or in a mode that allows non-voice traffic. An outbound message is
  rejected exactly when it is not for the voice channel and the mode blocks non-voice traffic, and
  is otherwise at worst delayed.
\<close>
theorem network_gates:
  "can_execute_tool_for_channel st name False channel source = Allow
   \<and> (can_execute_tool_for_channel st name True channel source = Allow
       \<longleftrightarrow> (channel = ''voice'' \<or> allow_non_voice_outbound (action_budget (mode_snapshot_from_source source)))
          \<and> current_pressure st \<noteq> PressureCritical
          \<and> (current_pressure st = PressureCautious \<longrightarrow> 38912 \<le> unat (os_heap_free_internal st)))
   \<and> ((\<exists>r. should_accept_outbound t st channel source = Reject r)
       \<longleftrightarrow> channel \<noteq> ''voice''
          \<and> \<not> allow_non_voice_outbound (action_budget (mode_snapshot_from_source source)))"
proof (intro conjI)
  show "can_execute_tool_for_channel st name False channel source = Allow"
    by (simp add: can_execute_tool_for_channel_def can_execute_tool_for_channel_with_mode_def
        split: PressureLevel.split)
  show "can_execute_tool_for_channel st name True channel source = Allow
       \<longleftrightarrow> (channel = ''voice'' \<or> allow_non_voice_outbound (action_budget (mode_snapshot_from_source source)))
          \<and> current_pressure st \<noteq> PressureCritical
          \<and> (current_pressure st = PressureCautious \<longrightarrow> 38912 \<le> unat (os_heap_free_internal st))"
    by (auto simp: can_execute_tool_for_channel_def can_execute_tool_for_channel_with_mode_def
        block_mode_snapshot current_pressure_def TLS_ADMISSION_MIN_INTERNAL_BYTES_def
        word_less_nat_alt split: PressureLevel.splits)
  show "(\<exists>r. should_accept_outbound t st channel source = Reject r)
       \<longleftrightarrow> channel \<noteq> ''voice''
          \<and> \<not> allow_non_voice_outbound (action_budget (mode_snapshot_from_source source))"
    by (auto simp: should_accept_outbound_def should_accept_outbound_with_mode_def
        block_mode_snapshot Let_def split: PressureLevel.splits target.splits)
qed

theorem network_gates_witness:
  "can_execute_tool_for_channel (at_level PressureCautious orchestrator_new) ''fetch_url'' True ''voice'' voice_source = Allow"
  using network_gates [of "at_level PressureCautious orchestrator_new" "''fetch_url''" "''voice''" voice_source]
  by (simp add: orchestrator_new_def unat_max)

end
