(* ===== verification/Orchestrator_Laws.thy ===== *)
theory Orchestrator_Laws
  imports Orchestrator_State
begin

text \<open>
  What the orchestrator's state promises: the pressure level's relation to the free heap, the
  headroom that the normal level guarantees, the heap baseline as a running maximum, and the
  circuit breaker of a channel as a function of the history of its sends.
\<close>

section \<open>Pressure and the free heap\<close>

lemma pressure_less_eq_simps [simp]:
  "PressureNormal \<le> l" "l \<le> PressureCritical" "PressureCautious \<le> PressureCautious"
  "PressureCautious \<le> PressureCritical" "\<not> PressureCritical \<le> PressureCautious"
  "\<not> PressureCautious \<le> PressureNormal" "\<not> PressureCritical \<le> PressureNormal"
  "l \<le> PressureNormal \<longleftrightarrow> l = PressureNormal"
  by (cases l; simp add: less_eq_PressureLevel_def)+

lemma usage_percent_mono:
  assumes "i \<le> i'" and "baseline < 2 ^ 32"
  shows "usage_percent Host baseline i' \<le> usage_percent Host baseline i"
proof (cases "0 < baseline \<and> i' < baseline")
  case True
  have small: "(baseline - x) * 100 < 2 ^ 64" for x
    using assms(2) by (auto simp: less_diff_conv intro: le_less_trans [where y = "2 ^ 32 * 100"])
  from True assms have "i < baseline" by simp
  moreover have "(baseline - i') * 100 div baseline \<le> (baseline - i) * 100 div baseline"
    using assms by (intro div_le_mono mult_le_mono1 diff_le_mono2) auto
  ultimately show ?thesis
    using True small by (simp add: usage_percent_def mod_less)
next
  case False
  then show ?thesis by (auto simp: usage_percent_def)
qed

lemma no_psram_no_fragmentation [simp]: "tls_fragmentation_risk l 0 = RiskNotApplicable"
  by (simp add: tls_fragmentation_risk_def)

text \<open>
  On a host build without PSRAM, less free memory never lowers the pressure level: with every
  other cell equal, the level is antitone in the free internal memory.
\<close>
theorem host_pressure_antitone:
  assumes "os_heap_free_spiram st = 0" and "free \<le> free'"
  shows "compute_pressure Host http wss (st\<lparr>os_heap_free_internal := free'\<rparr>)
           \<le> compute_pressure Host http wss (st\<lparr>os_heap_free_internal := free\<rparr>)"
proof -
  let ?b = "unat (os_heap_baseline_internal st)"
  have le: "unat free \<le> unat free'" using assms(2) by (simp add: word_le_nat_alt)
  have b: "?b < 2 ^ 32" using unsigned_less [of "os_heap_baseline_internal st"] by simp
  have use: "usage_percent Host ?b (unat free') \<le> usage_percent Host ?b (unat free)"
    by (rule usage_percent_mono [OF le b])
  let ?P = "\<lambda>f. compute_pressure Host http wss (st\<lparr>os_heap_free_internal := f\<rparr>)"
  let ?busy = "of_nat (MAX_CONCURRENT_HTTP Host) \<le> sat_add http wss"
  let ?full = "PRESSURE_QUEUE_CONGESTION_THRESHOLD Host \<le> os_inbound_depth st + os_outbound_depth st"
  have P: "?P f =
     (if unat f < PRESSURE_CAUTIOUS_INTERNAL_MIN_BYTES Host then PressureCritical
      else if ?full \<and> unat f < PRESSURE_NORMAL_INTERNAL_MIN_BYTES Host then PressureCritical
      else if 85 < usage_percent Host ?b (unat f) \<and> unat f < PRESSURE_NORMAL_INTERNAL_MIN_BYTES Host
        then PressureCautious
      else if ?busy then PressureCautious else if ?full then PressureCautious
      else PressureNormal)" for f
    using assms(1) by (simp add: compute_pressure_def Let_def)
  show ?thesis
    unfolding P using le use by (simp split: if_splits)
qed

definition host_state :: "u32 \<Rightarrow> OrchestratorState" where
  "host_state free = orchestrator_new\<lparr>os_heap_free_internal := free,
     os_heap_baseline_internal := 500000000, os_heap_largest_block := 0\<rparr>"

theorem host_pressure_antitone_witness:
  "compute_pressure Host 0 0 (host_state 70000000) \<le> compute_pressure Host 0 0 (host_state 40000000)"
  using host_pressure_antitone [of orchestrator_new 40000000 70000000 0 0]
    host_pressure_antitone [of "host_state 0" 40000000 70000000 0 0]
  by (simp add: host_state_def orchestrator_new_def)

definition esp_congested :: "u32 \<Rightarrow> OrchestratorState" where
  "esp_congested free = orchestrator_new\<lparr>os_heap_free_internal := free,
     os_heap_baseline_internal := 200000, os_heap_free_spiram := 8000000,
     os_heap_largest_block := 40000, os_inbound_depth := 16, os_outbound_depth := 10\<rparr>"

lemmas pressure_eval = compute_pressure_def tls_fragmentation_risk_def usage_percent_def
  ESP_TRANSPORT_STEADY_INTERNAL_CAUTION_BYTES_def TLS_ADMISSION_MIN_INTERNAL_BYTES_def
  TLS_ADMISSION_MIN_LARGEST_BLOCK_BYTES_def TLS_FRAGMENTATION_CAUTION_HEADROOM_BYTES_def
  PRESSURE_CAUTIOUS_PSRAM_MIN_BYTES_def PRESSURE_NORMAL_PSRAM_MIN_BYTES_def
  PRESSURE_QUEUE_CONGESTION_THRESHOLD_def sat_add_def Let_def

text \<open>
  On an ESP build with PSRAM the level is not antitone: with congested queues, 50 kB of free
  internal heap are reported as \<open>Cautious\<close> while 58 kB are \<open>Critical\<close>. The early return
  for low steady-state headroom comes before the test for congestion with low heap and hides it.
\<close>
theorem esp_pressure_not_antitone:
  "\<exists>st free free'. free < free' \<and>
     compute_pressure Esp 0 0 (st\<lparr>os_heap_free_internal := free\<rparr>)
       < compute_pressure Esp 0 0 (st\<lparr>os_heap_free_internal := free'\<rparr>)"
proof (intro exI conjI)
  show "(51200 :: u32) < 59392" by simp
  have "compute_pressure Esp 0 0 ((esp_congested 0)\<lparr>os_heap_free_internal := 51200\<rparr>) = PressureCautious"
    by (simp add: esp_congested_def pressure_eval orchestrator_new_def)
  moreover have
    "compute_pressure Esp 0 0 ((esp_congested 0)\<lparr>os_heap_free_internal := 59392\<rparr>) = PressureCritical"
    by (simp add: esp_congested_def pressure_eval orchestrator_new_def)
  ultimately show "compute_pressure Esp 0 0 ((esp_congested 0)\<lparr>os_heap_free_internal := 51200\<rparr>)
       < compute_pressure Esp 0 0 ((esp_congested 0)\<lparr>os_heap_free_internal := 59392\<rparr>)"
    by (simp add: less_PressureLevel_def)
qed

section \<open>The heap baseline\<close>

lemma compute_pressure_level [simp]:
  "compute_pressure t http wss (st\<lparr>os_pressure_level := l\<rparr>) = compute_pressure t http wss st"
  by (simp add: compute_pressure_def cong: if_cong)

lemma update_memory_snapshot_baseline:
  "os_heap_baseline_internal (update_memory_snapshot st snap)
     = max (os_heap_baseline_internal st) (mem_heap_free_internal snap)"
  by (auto simp: update_memory_snapshot_def update_heap_def Let_def max_def
      word_order.extremum_uniqueI not_le)

lemma update_memory_snapshot_free [simp]:
  "os_heap_free_internal (update_memory_snapshot st snap) = mem_heap_free_internal snap"
  by (simp add: update_memory_snapshot_def update_heap_def Let_def)

lemma apply_memory_snapshot_heap [simp]:
  "os_heap_baseline_internal (apply_memory_snapshot t http wss st snap)
     = max (os_heap_baseline_internal st) (mem_heap_free_internal snap)"
  "os_heap_free_internal (apply_memory_snapshot t http wss st snap) = mem_heap_free_internal snap"
  by (simp_all add: apply_memory_snapshot_def Let_def update_memory_snapshot_baseline)

text \<open>
  The heap baseline is the largest free internal heap of all snapshots applied so far, so the
  relative-use computation never subtracts a larger value; and after any snapshot the stored level
  is the level of the stored cells, whichever level was stored before.
\<close>
theorem heap_baseline_running_max:
  "os_heap_baseline_internal (fold (\<lambda>snap st. apply_memory_snapshot t http wss st snap) snaps orchestrator_new)
      = fold max (map mem_heap_free_internal snaps) 0
   \<and> os_heap_free_internal (apply_memory_snapshot t http wss st snap)
      \<le> os_heap_baseline_internal (apply_memory_snapshot t http wss st snap)
   \<and> current_pressure (apply_memory_snapshot t http wss st snap)
      = compute_pressure t http wss (apply_memory_snapshot t http wss st snap)"
proof (intro conjI)
  have "os_heap_baseline_internal (fold (\<lambda>snap st. apply_memory_snapshot t http wss st snap) snaps st0)
      = fold max (map mem_heap_free_internal snaps) (os_heap_baseline_internal st0)" for st0
    by (induction snaps arbitrary: st0) (simp_all add: max.commute)
  then show "os_heap_baseline_internal (fold (\<lambda>snap st. apply_memory_snapshot t http wss st snap) snaps orchestrator_new)
      = fold max (map mem_heap_free_internal snaps) 0"
    by (simp add: orchestrator_new_def)
  show "os_heap_free_internal (apply_memory_snapshot t http wss st snap)
      \<le> os_heap_baseline_internal (apply_memory_snapshot t http wss st snap)"
    by simp
  show "current_pressure (apply_memory_snapshot t http wss st snap)
      = compute_pressure t http wss (apply_memory_snapshot t http wss st snap)"
    by (simp add: apply_memory_snapshot_def current_pressure_def Let_def)
qed

section \<open>Channels\<close>

lemmas catalog_eval = connectivity_channel_entries_def compiled_channel_entries_def channel_entry_def

lemma connectivity_ids_distinct: "distinct (map ce_id (connectivity_channel_entries b))"
  by (cases "b_telegram b"; cases "b_feishu b"; cases "b_dingtalk b"; cases "b_target b";
      cases "b_wecom b"; cases "b_qq_channel b")
    (simp_all add: catalog_eval)

lemma connectivity_length: "length (connectivity_channel_entries b) \<le> MAX_CHANNELS"
  by (simp add: catalog_eval MAX_CHANNELS_def)

lemma channel_to_index_inj:
  "channel_to_index b c = Some i \<Longrightarrow> channel_to_index b d = Some i \<Longrightarrow> c = d"
  unfolding channel_to_index_def by (drule position_Some, drule position_Some) simp

text \<open>
  The five fixed slots suffice for every build: a channel's slot index is in range, two
  channels never share a slot, and the channels with a slot are exactly the compiled channels that
  are shown in the connectivity view.
\<close>
theorem channel_slots_suffice:
  "(\<forall>i. channel_to_index b c = Some i \<longrightarrow> i < MAX_CHANNELS)
   \<and> (\<forall>d i. channel_to_index b c = Some i \<and> channel_to_index b d = Some i \<longrightarrow> c = d)
   \<and> (channel_to_index b c \<noteq> None
        \<longleftrightarrow> (\<exists>e. compiled_channel_entry b c = Some e \<and> ce_show_in_connectivity e))"
proof (intro conjI allI impI)
  fix i
  assume "channel_to_index b c = Some i"
  then show "i < MAX_CHANNELS"
    using position_Some connectivity_length [of b] unfolding channel_to_index_def by fastforce
next
  fix d i
  assume "channel_to_index b c = Some i \<and> channel_to_index b d = Some i"
  then show "c = d" by (blast intro: channel_to_index_inj)
next
  have "(\<exists>e \<in> set (connectivity_channel_entries b). ce_id e = c)
      \<longleftrightarrow> (\<exists>e. compiled_channel_entry b c = Some e \<and> ce_show_in_connectivity e)"
    by (cases "b_telegram b"; cases "b_feishu b"; cases "b_dingtalk b"; cases "b_target b";
        cases "b_wecom b"; cases "b_qq_channel b"; cases "b_websocket b")
      (auto simp: catalog_eval compiled_channel_entry_def)
  then show "channel_to_index b c \<noteq> None
        \<longleftrightarrow> (\<exists>e. compiled_channel_entry b c = Some e \<and> ce_show_in_connectivity e)"
    by (simp add: channel_to_index_def position_None)
qed

theorem channel_slots_suffice_witness:
  "channel_to_index \<lparr>b_target = Host, b_telegram = True, b_feishu = True, b_dingtalk = True,
     b_wecom = True, b_qq_channel = True, b_websocket = True\<rparr> ''qq_channel'' = Some 4 \<and> 4 < MAX_CHANNELS"
  using channel_slots_suffice [of "\<lparr>b_target = Host, b_telegram = True, b_feishu = True,
     b_dingtalk = True, b_wecom = True, b_qq_channel = True, b_websocket = True\<rparr>" "''qq_channel''"]
  by (simp add: channel_to_index_def catalog_eval)

subsection \<open>The circuit breaker as a function of the send history\<close>

text \<open>A send result: the uptime in seconds, the channel, and whether the send succeeded.\<close>

type_synonym send_event = "u32 \<times> string \<times> bool"

definition record_all :: "build \<Rightarrow> send_event list \<Rightarrow> OrchestratorState \<Rightarrow> OrchestratorState" where
  "record_all b events st =
     fold (\<lambda>(uptime, channel, success) s. record_channel_result b uptime s channel success) events st"

text \<open>The events of a channel, latest first, and the run of failures they start with.\<close>

definition history :: "string \<Rightarrow> send_event list \<Rightarrow> send_event list" where
  "history c events = rev (filter (\<lambda>(_, channel, _). channel = c) events)"

definition failures :: "string \<Rightarrow> send_event list \<Rightarrow> send_event list" where
  "failures c events = takeWhile (\<lambda>(_, _, success). \<not> success) (history c events)"

definition breaker_closed :: "string \<Rightarrow> send_event list \<Rightarrow> u32 \<Rightarrow> bool" where
  "breaker_closed c events now \<longleftrightarrow>
     length (failures c events) < 3 \<or> 60 \<le> unat now - unat (fst (hd (failures c events)))"

lemma length_failures: "length (failures c events) \<le> length events"
proof -
  have "length (failures c events) \<le> length (history c events)"
    unfolding failures_def by (rule length_takeWhile_le)
  also have "\<dots> \<le> length events"
    unfolding history_def length_rev by (rule length_filter_le)
  finally show ?thesis .
qed

lemma record_channel_result_length [simp]:
  "length (os_channel_health (record_channel_result b u st c s)) = length (os_channel_health st)"
  by (simp add: record_channel_result_def Let_def split: option.split)

lemma record_channel_result_other:
  assumes "channel_to_index b c = Some i" "c' \<noteq> c"
  shows "os_channel_health (record_channel_result b u st c' s) ! i = os_channel_health st ! i"
  using assms channel_to_index_inj [of b c i c']
  by (auto simp: record_channel_result_def Let_def split: option.split)
    (metis nth_list_update_neq)+

lemma breaker_slot:
  assumes i: "channel_to_index b c = Some i"
  shows "i < length (os_channel_health st0) \<Longrightarrow> ch_consecutive_failures (os_channel_health st0 ! i) = 0 \<Longrightarrow>
     i < length (os_channel_health (record_all b events st0))
     \<and> ch_consecutive_failures (os_channel_health (record_all b events st0) ! i)
         = of_nat (length (failures c events))
     \<and> (failures c events \<noteq> [] \<longrightarrow>
         ch_last_failure_uptime_secs (os_channel_health (record_all b events st0) ! i)
           = fst (hd (failures c events)))"
proof (induction events rule: rev_induct)
  case Nil
  then show ?case by (simp add: record_all_def failures_def history_def)
next
  case (snoc e events)
  obtain u c' s where e: "e = (u, c', s)" by (cases e)
  let ?st = "record_all b events st0"
  have step: "record_all b (events @ [e]) st0 = record_channel_result b u ?st c' s"
    by (simp add: record_all_def e)
  show ?case
  proof (cases "c' = c")
    case False
    then have "history c (events @ [e]) = history c events" by (simp add: history_def e)
    with snoc False step record_channel_result_other [OF i False] show ?thesis
      by (simp add: failures_def)
  next
    case True
    have "failures c (events @ [e]) = (if s then [] else e # failures c events)"
      using True by (simp add: failures_def history_def e)
    with snoc True step i e show ?thesis
      by (auto simp: record_channel_result_def Let_def)
  qed
qed

lemma orchestrator_new_slot:
  assumes "channel_to_index b c = Some i"
  shows "i < length (os_channel_health orchestrator_new)
       \<and> ch_consecutive_failures (os_channel_health orchestrator_new ! i) = 0"
proof -
  have "i < MAX_CHANNELS"
    using assms position_Some connectivity_length [of b] unfolding channel_to_index_def by fastforce
  then show ?thesis by (simp add: orchestrator_new_def channel_health_slot_new_def)
qed

text \<open>
  C5: the health of a channel is the circuit breaker over its send history. From the start state,
  whatever is sent on other channels, a channel with a slot is unhealthy exactly when its last
  three or more sends all failed and the latest failure is less than 60 seconds old; one success
  closes the breaker, and a channel without a slot is always healthy (histories shorter than the
  counter's range).
\<close>
theorem channel_breaker:
  assumes "length events < 2 ^ 32"
  shows "is_channel_healthy b now (record_all b events orchestrator_new) c
           \<longleftrightarrow> channel_to_index b c = None \<or> breaker_closed c events now"
proof (cases "channel_to_index b c")
  case None
  then show ?thesis by (simp add: is_channel_healthy_def)
next
  case (Some i)
  let ?slot = "os_channel_health (record_all b events orchestrator_new) ! i"
  have cons: "ch_consecutive_failures ?slot = of_nat (length (failures c events))"
    and time: "failures c events \<noteq> [] \<Longrightarrow> ch_last_failure_uptime_secs ?slot = fst (hd (failures c events))"
    using breaker_slot [OF Some, of orchestrator_new events] orchestrator_new_slot [OF Some] by auto
  have "length (failures c events) < 2 ^ 32"
    using length_failures [of c events] assms by (rule le_less_trans)
  then have "unat (of_nat (length (failures c events)) :: u32) = length (failures c events)"
    by (simp add: unat_of_nat)
  then have lt: "of_nat (length (failures c events)) < CHANNEL_FAIL_THRESHOLD
      \<longleftrightarrow> length (failures c events) < 3"
    by (simp add: word_less_nat_alt CHANNEL_FAIL_THRESHOLD_def)
  have cool: "(ucast CHANNEL_FAIL_COOLDOWN_SECS :: u32) \<le> sat_sub now x \<longleftrightarrow> 60 \<le> unat now - unat x" for x
    by (simp add: word_le_nat_alt unat_sat_sub CHANNEL_FAIL_COOLDOWN_SECS_def)
  show ?thesis
    using Some cons time lt cool
    by (cases "failures c events = []")
      (auto simp: is_channel_healthy_def is_channel_healthy_by_index_def breaker_closed_def Let_def)
qed

theorem channel_breaker_witness:
  "\<not> is_channel_healthy \<lparr>b_target = Esp, b_telegram = False, b_feishu = False, b_dingtalk = False,
       b_wecom = False, b_qq_channel = True, b_websocket = False\<rparr> 100
     (record_all \<lparr>b_target = Esp, b_telegram = False, b_feishu = False, b_dingtalk = False,
       b_wecom = False, b_qq_channel = True, b_websocket = False\<rparr>
       [(50, ''qq_channel'', False), (60, ''qq_channel'', False), (70, ''qq_channel'', False)]
       orchestrator_new) ''qq_channel''"
  by (subst channel_breaker)
    (simp_all add: channel_to_index_def catalog_eval breaker_closed_def failures_def history_def)

end
