(* ===== verification/Error_Model.thy ===== *)
theory Error_Model
  imports Prelude
begin

text \<open>
  The unified error type (\<open>src/src/error.rs\<close>) and its classification for retries and metrics.
  A boxed \<open>dyn Error\<close> is either a boxed error of this type, which the code finds again by
  \<open>downcast_ref\<close>, or a foreign error, which it only prints. The lemmas relate the recursive
  classifiers to the chain of nested errors.
\<close>

section \<open>Errors\<close>

(* error.rs: enum Error *)
datatype Error =
    ErrNvs "boxed option" string
  | ErrStorage "boxed option" string
  | ErrConfig string string
  | ErrIo string string
  | ErrEsp "32 word" string
  | ErrHttp u16 string
  | ErrOther boxed string
and boxed = Beetle Error | Foreign string

(* error.rs: impl Error / fn nested_beetle_error *)
fun nested_beetle_error :: "Error \<Rightarrow> Error option" where
  "nested_beetle_error (ErrNvs (Some (Beetle e)) _) = Some e"
| "nested_beetle_error (ErrStorage (Some (Beetle e)) _) = Some e"
| "nested_beetle_error (ErrOther (Beetle e) _) = Some e"
| "nested_beetle_error _ = None"

(* error.rs: impl Error / fn stage *)
fun err_stage :: "Error \<Rightarrow> string" where
  "err_stage (ErrNvs _ stage) = stage"
| "err_stage (ErrStorage _ stage) = stage"
| "err_stage (ErrConfig _ stage) = stage"
| "err_stage (ErrIo _ stage) = stage"
| "err_stage (ErrEsp _ stage) = stage"
| "err_stage (ErrHttp _ stage) = stage"
| "err_stage (ErrOther _ stage) = stage"

(* error.rs: impl Error / fn config *)
definition err_config :: "string \<Rightarrow> string \<Rightarrow> Error" where
  "err_config stage message = ErrConfig message stage"

lemma nested_smaller [termination_simp]: "nested_beetle_error e = Some s \<Longrightarrow> size s < size e"
  by (cases e rule: nested_beetle_error.cases) simp_all

(* error.rs: impl Error / fn is_tls_admission *)
fun is_tls_admission :: "Error \<Rightarrow> bool" where
  "is_tls_admission e \<longleftrightarrow>
     err_stage e = ''tls_admission''
     \<or> (case nested_beetle_error e of Some source \<Rightarrow> is_tls_admission source | None \<Rightarrow> False)"

definition connect_stages :: "string list" where
  "connect_stages =
     [''http_post_request'', ''http_get_request'', ''http_post_submit'', ''http_get_submit'',
      ''http_client_replace'', ''http_read'']"

definition local_connect_error :: "Error \<Rightarrow> bool" where
  "local_connect_error e =
     (case e of
        ErrIo _ stage \<Rightarrow> stage \<in> set connect_stages
      | ErrOther _ stage \<Rightarrow> stage \<in> set connect_stages
      | _ \<Rightarrow> False)"

(* error.rs: impl Error / fn is_connect_error *)
fun is_connect_error :: "Error \<Rightarrow> bool" where
  "is_connect_error e \<longleftrightarrow>
     local_connect_error e
     \<or> (case nested_beetle_error e of Some source \<Rightarrow> is_connect_error source | None \<Rightarrow> False)"

(* error.rs: impl Error / fn http_status_code *)
definition http_status_code :: "Error \<Rightarrow> u16 option" where
  "http_status_code e = (case e of ErrHttp status_code _ \<Rightarrow> Some status_code | _ \<Rightarrow> None)"

definition retryable_status :: "u16 \<Rightarrow> bool" where
  "retryable_status c \<longleftrightarrow> c = 408 \<or> c = 409 \<or> c = 425 \<or> c = 429 \<or> (500 \<le> c \<and> c \<le> 599)"

(* error.rs: impl Error / fn is_retryable_upstream *)
definition is_retryable_upstream :: "Error \<Rightarrow> bool" where
  "is_retryable_upstream e \<longleftrightarrow>
     (if is_tls_admission e \<or> is_connect_error e then True
      else case http_status_code e of Some c \<Rightarrow> retryable_status c | None \<Rightarrow> False)"

(* error.rs: impl Error / fn metrics_stage *)
fun metrics_stage :: "Error \<Rightarrow> string" where
  "metrics_stage e =
     (if err_stage e = ''tls_admission'' \<or> is_connect_error e then err_stage e
      else case nested_beetle_error e of
        Some source \<Rightarrow> metrics_stage source
      | None \<Rightarrow> err_stage e)"

(* error.rs: impl Error / fn with_stage *)
fun with_stage :: "Error \<Rightarrow> string \<Rightarrow> Error" where
  "with_stage (ErrNvs source _) stage = ErrNvs source stage"
| "with_stage (ErrStorage source _) stage = ErrStorage source stage"
| "with_stage (ErrConfig message _) stage = ErrConfig message stage"
| "with_stage (ErrIo source _) stage = ErrIo source stage"
| "with_stage (ErrEsp code _) stage = ErrEsp code stage"
| "with_stage (ErrHttp status_code _) stage = ErrHttp status_code stage"
| "with_stage (ErrOther source _) stage = ErrOther source stage"

text \<open>The \<open>Display\<close> text that the attributes of the variants derive; a signed code prints its sign.\<close>

definition show_i32 :: "32 word \<Rightarrow> string" where
  "show_i32 c = (if sint c < 0 then CHR 0x2D # show_nat (nat (- sint c)) else show_nat (nat (sint c)))"

(* error.rs: lines 10-47 the error attributes *)
fun err_display :: "Error \<Rightarrow> string" and boxed_display :: "boxed \<Rightarrow> string" where
  "err_display (ErrNvs _ stage) = ''NVS (stage: '' @ stage @ '')''"
| "err_display (ErrStorage _ stage) = ''storage (stage: '' @ stage @ '')''"
| "err_display (ErrConfig message stage) = ''config: '' @ message @ '' (stage: '' @ stage @ '')''"
| "err_display (ErrIo source stage) = ''IO: '' @ source @ '' (stage: '' @ stage @ '')''"
| "err_display (ErrEsp code stage) = ''ESP-IDF: code='' @ show_i32 code @ '' (stage: '' @ stage @ '')''"
| "err_display (ErrHttp status_code stage) =
     ''HTTP: status='' @ show_nat (unat status_code) @ '' (stage: '' @ stage @ '')''"
| "err_display (ErrOther source stage) = ''other: '' @ boxed_display source @ '' (stage: '' @ stage @ '')''"
| "boxed_display (Beetle e) = err_display e"
| "boxed_display (Foreign text) = text"

declare is_tls_admission.simps [simp del] is_connect_error.simps [simp del]
  metrics_stage.simps [simp del]

section \<open>The chain of nested errors\<close>

fun err_chain :: "Error \<Rightarrow> Error list" where
  "err_chain e = e # (case nested_beetle_error e of Some source \<Rightarrow> err_chain source | None \<Rightarrow> [])"

declare err_chain.simps [simp del]

lemma is_tls_admission_chain:
  "is_tls_admission e \<longleftrightarrow> (\<exists>s \<in> set (err_chain e). err_stage s = ''tls_admission'')"
  by (induction e rule: err_chain.induct)
    (subst is_tls_admission.simps, subst err_chain.simps, auto split: option.split)

lemma is_connect_error_chain:
  "is_connect_error e \<longleftrightarrow> (\<exists>s \<in> set (err_chain e). local_connect_error s)"
  by (induction e rule: err_chain.induct)
    (subst is_connect_error.simps, subst err_chain.simps, auto split: option.split)

lemma metrics_stage_in_chain: "metrics_stage e \<in> err_stage ` set (err_chain e)"
  by (induction e rule: err_chain.induct)
    (subst metrics_stage.simps, subst err_chain.simps, auto split: option.split)

lemma metrics_stage_tls:
  "is_tls_admission e \<Longrightarrow> \<not> is_connect_error e \<Longrightarrow> metrics_stage e = ''tls_admission''"
proof (induction e rule: metrics_stage.induct)
  case (1 e)
  show ?case
  proof (cases "nested_beetle_error e")
    case None
    with 1(2,3) show ?thesis
      by (simp add: metrics_stage.simps [of e] is_tls_admission.simps [of e])
  next
    case (Some s)
    with 1(3) have c: "\<not> is_connect_error s" by (simp add: is_connect_error.simps [of e])
    show ?thesis
    proof (cases "err_stage e = ''tls_admission''")
      case True
      then show ?thesis by (simp add: metrics_stage.simps [of e])
    next
      case False
      with Some 1(2) have "is_tls_admission s" by (simp add: is_tls_admission.simps [of e])
      with 1(1) Some c False 1(3) show ?thesis by (simp add: metrics_stage.simps [of e])
    qed
  qed
qed

text \<open>The three ways the code boxes an error of this type into another.\<close>

definition wrappers :: "Error \<Rightarrow> string \<Rightarrow> Error list" where
  "wrappers e stage = [ErrOther (Beetle e) stage, ErrNvs (Some (Beetle e)) stage, ErrStorage (Some (Beetle e)) stage]"

lemma nested_wrappers: "w \<in> set (wrappers e stage) \<Longrightarrow> nested_beetle_error w = Some e \<and> err_stage w = stage
    \<and> http_status_code w = None"
  by (auto simp: wrappers_def http_status_code_def)

text \<open>
  Classification survives boxing. However deep a TLS-admission or connect failure is boxed, the
  outer error is still classified as such and retried, and a TLS-admission failure that is no
  connect failure is always counted in the metrics under \<open>tls_admission\<close>; the metrics stage is
  always the stage of some error of the chain.
\<close>
theorem error_classification_survives_boxing:
  assumes "w \<in> set (wrappers e stage)"
  shows "(is_tls_admission e \<longrightarrow> is_tls_admission w) \<and> (is_connect_error e \<longrightarrow> is_connect_error w)
     \<and> (is_tls_admission e \<or> is_connect_error e \<longrightarrow> is_retryable_upstream w)
     \<and> (is_tls_admission e \<and> \<not> is_connect_error w \<longrightarrow> metrics_stage w = ''tls_admission'')
     \<and> metrics_stage w \<in> err_stage ` set (w # err_chain e)"
proof -
  note w = nested_wrappers [OF assms]
  have tls: "is_tls_admission e \<Longrightarrow> is_tls_admission w"
    using w by (simp add: is_tls_admission.simps [of w])
  have con: "is_connect_error e \<Longrightarrow> is_connect_error w"
    using w by (simp add: is_connect_error.simps [of w])
  have "set (err_chain w) = set (w # err_chain e)"
    using w by (simp add: err_chain.simps [of w])
  then have "metrics_stage w \<in> err_stage ` set (w # err_chain e)"
    using metrics_stage_in_chain [of w] by simp
  with tls con metrics_stage_tls [of w] show ?thesis
    by (auto simp: is_retryable_upstream_def)
qed

theorem error_classification_survives_boxing_witness:
  "is_retryable_upstream (ErrOther (Beetle (err_config ''tls_admission'' ''largest block too small'')) ''llm_request'')
   \<and> metrics_stage (ErrOther (Beetle (err_config ''tls_admission'' ''largest block too small'')) ''llm_request'')
       = ''tls_admission''"
proof -
  let ?e = "err_config ''tls_admission'' ''largest block too small''"
  let ?w = "ErrOther (Beetle ?e) ''llm_request''"
  have "?w \<in> set (wrappers ?e ''llm_request'')" by (simp add: wrappers_def)
  moreover have "is_tls_admission ?e" by (simp add: is_tls_admission.simps err_config_def)
  moreover have "\<not> is_connect_error ?w"
    by (simp add: is_connect_error.simps local_connect_error_def connect_stages_def err_config_def)
  ultimately show ?thesis
    using error_classification_survives_boxing [of ?w ?e "''llm_request''"] by blast
qed

text \<open>
  The classification of an HTTP status does not survive boxing: a retryable status is retried
  when it is the outermost error and not retried once it is boxed, although
  \<open>nested_beetle_error\<close> still finds it; and overriding the stage of a TLS-admission failure
  instead of boxing it makes it non-retryable.
\<close>
theorem status_retry_lost_by_boxing:
  "is_retryable_upstream (ErrHttp 429 ''llm_http_status'')
   \<and> \<not> is_retryable_upstream (ErrOther (Beetle (ErrHttp 429 ''llm_http_status'')) ''llm_request'')
   \<and> is_retryable_upstream (err_config ''tls_admission'' m)
   \<and> \<not> is_retryable_upstream (with_stage (err_config ''tls_admission'' m) ''llm_request'')"
  by (simp add: is_retryable_upstream_def retryable_status_def http_status_code_def
      is_tls_admission.simps is_connect_error.simps local_connect_error_def connect_stages_def
      err_config_def)

end
