(* ===== verification/Network.thy ===== *)
theory Network
  imports Lease Orchestrator_State Admission Error_Model
begin

text \<open>
  The transport governor (\<open>src/src/network/mod.rs\<close>, with the priority override and the
  foreground turn of \<open>src/src/orchestrator/permit.rs\<close>): HTTP permits, the counters of live
  WebSocket sessions, the suspend requests that make external gateway sockets give way, the leases
  that make connections exclusive, and the reusable stream HTTP client.

  The static cells of the module are the fields of \<open>NetworkState\<close>, which also holds the lease
  registry the module acquires its leases from and the voice-exclusive flag of
  \<open>src/src/state.rs\<close>. RAII guards are values that the acquiring operation returns and the
  corresponding \<open>drop\<close> definition consumes. Loops that poll until a condition or a deadline run
  over the list of observations they make; they return \<open>None\<close> when the observations end
  before the loop does.
\<close>

section \<open>Priorities and thread roles\<close>

(* orchestrator/permit.rs: enum Priority *)
datatype Priority = PriorityLow | PriorityNormal | PriorityHigh | PriorityCritical

fun priority_rank :: "Priority \<Rightarrow> nat" where
  "priority_rank PriorityLow = 0"
| "priority_rank PriorityNormal = 1"
| "priority_rank PriorityHigh = 2"
| "priority_rank PriorityCritical = 3"

text \<open>The derived order of the enumeration.\<close>

instantiation Priority :: linorder
begin

definition less_eq_Priority :: "Priority \<Rightarrow> Priority \<Rightarrow> bool" where
  "less_eq_Priority a b \<longleftrightarrow> priority_rank a \<le> priority_rank b"

definition less_Priority :: "Priority \<Rightarrow> Priority \<Rightarrow> bool" where
  "less_Priority a b \<longleftrightarrow> priority_rank a < priority_rank b"

instance
proof
  fix x y z :: Priority
  show "x < y \<longleftrightarrow> x \<le> y \<and> \<not> y \<le> x" by (auto simp: less_eq_Priority_def less_Priority_def)
  show "x \<le> x" by (simp add: less_eq_Priority_def)
  show "x \<le> y \<Longrightarrow> y \<le> z \<Longrightarrow> x \<le> z" by (simp add: less_eq_Priority_def)
  show "x \<le> y \<Longrightarrow> y \<le> x \<Longrightarrow> x = y" by (cases x; cases y) (simp_all add: less_eq_Priority_def)
  show "x \<le> y \<or> y \<le> x" by (auto simp: less_eq_Priority_def)
qed

end

text \<open>The thread-local override slot; a guard remembers the value it found.\<close>

type_synonym override_slot = "Priority option"

(* orchestrator/permit.rs: impl HttpPriorityOverrideGuard / fn new *)
definition override_guard_new :: "override_slot \<Rightarrow> Priority \<Rightarrow> override_slot \<times> override_slot" where
  "override_guard_new slot priority =
     (let previous = slot
      in (Some (case previous of None \<Rightarrow> priority | Some old \<Rightarrow> max old priority), previous))"

(* orchestrator/permit.rs: impl Drop for HttpPriorityOverrideGuard / fn drop *)
definition override_guard_drop :: "override_slot \<Rightarrow> override_slot \<Rightarrow> override_slot" where
  "override_guard_drop guard slot = guard"

(* orchestrator/permit.rs: fn effective_http_priority *)
definition effective_http_priority :: "override_slot \<Rightarrow> Priority \<Rightarrow> Priority" where
  "effective_http_priority slot priority =
     (case slot of None \<Rightarrow> priority | Some override_priority \<Rightarrow> max priority override_priority)"

(* orchestrator/mod.rs: fn begin_reply_critical_http_scope *)
definition begin_reply_critical_http_scope :: "override_slot \<Rightarrow> override_slot \<times> override_slot" where
  "begin_reply_critical_http_scope slot = override_guard_new slot PriorityCritical"

(* orchestrator/permit.rs: enum HttpThreadRole *)
datatype HttpThreadRole = RoleInteractive | RoleIo | RoleBackground

(* network/mod.rs: const ROLE_SLOTS_MAX *)
definition ROLE_SLOTS_MAX :: nat where
  "ROLE_SLOTS_MAX = 16"

text \<open>
  The role store of an \<open>Esp\<close> build: a vector of (task key, role), bounded by evicting the oldest
  entry. The key 0 stands for no task. (On a host the role is a plain thread-local cell.)
\<close>

(* network/mod.rs: lines 129-143 set_current_http_thread_role *)
definition set_current_http_thread_role :: "nat \<Rightarrow> HttpThreadRole \<Rightarrow> (nat \<times> HttpThreadRole) list
    \<Rightarrow> (nat \<times> HttpThreadRole) list" where
  "set_current_http_thread_role task_key role slots =
     (if task_key = 0 then slots
      else case position (\<lambda>(key, _). key = task_key) slots of
        Some i \<Rightarrow> slots[i := (fst (slots ! i), role)]
      | None \<Rightarrow>
          (let slots' = (if ROLE_SLOTS_MAX \<le> length slots then remove_at 0 slots else slots)
           in slots' @ [(task_key, role)]))"

(* network/mod.rs: lines 145-156 current_http_thread_role *)
definition current_http_thread_role :: "nat \<Rightarrow> (nat \<times> HttpThreadRole) list \<Rightarrow> HttpThreadRole" where
  "current_http_thread_role task_key slots =
     (if task_key = 0 then RoleBackground
      else case find (\<lambda>(key, _). key = task_key) slots of
        Some (_, role) \<Rightarrow> role
      | None \<Rightarrow> RoleBackground)"

section \<open>State\<close>

(* network/mod.rs: enum ExternalWssSuspendReason *)
datatype ExternalWssSuspendReason = SuspendVoiceExclusive | SuspendConfigPersisting

(* network/mod.rs: enum TransportWssProfile *)
datatype TransportWssProfile = ExternalGateway | RealtimeVoice

(* network/mod.rs: lines 53-64 the static cells *)
record NetworkState =
  nt_active_http :: u32
  nt_active_wss :: u32
  nt_active_external :: u32
  nt_active_realtime :: u32
  nt_connecting :: u32
  nt_managed_present :: bool
  nt_suspend_requests :: u32
  nt_voice_requests :: u32
  nt_config_requests :: u32
  nt_suspended :: bool
  nt_tls_permit_held :: bool
  nt_leases :: LeaseRegistry
  nt_voice_exclusive :: bool

definition network_init :: NetworkState where
  "network_init =
     \<lparr>nt_active_http = 0, nt_active_wss = 0, nt_active_external = 0, nt_active_realtime = 0,
      nt_connecting = 0, nt_managed_present = False, nt_suspend_requests = 0,
      nt_voice_requests = 0, nt_config_requests = 0, nt_suspended = False,
      nt_tls_permit_held = False, nt_leases = lease_registry_init, nt_voice_exclusive = False\<rparr>"

(* network/mod.rs: struct ExternalWssRuntimeSnapshot *)
record ExternalWssRuntimeSnapshot =
  xs_managed_present :: bool
  xs_connecting_count :: u32
  xs_active_external_count :: u32
  xs_active_realtime_count :: u32
  xs_suspend_requested :: bool
  xs_suspended :: bool

section \<open>Sessions and connect attempts\<close>

(* network/mod.rs: fn begin_wss_session *)
definition begin_wss_session :: "NetworkState \<Rightarrow> TransportWssProfile \<Rightarrow> NetworkState \<times> TransportWssProfile" where
  "begin_wss_session net profile =
     (let net = net\<lparr>nt_active_wss := nt_active_wss net + 1\<rparr>
      in (case profile of
            ExternalGateway \<Rightarrow> net\<lparr>nt_active_external := nt_active_external net + 1\<rparr>
          | RealtimeVoice \<Rightarrow> net\<lparr>nt_active_realtime := nt_active_realtime net + 1\<rparr>, profile))"

(* network/mod.rs: impl Drop for TransportWssSessionGuard / fn drop *)
definition drop_wss_session :: "NetworkState \<Rightarrow> TransportWssProfile \<Rightarrow> NetworkState" where
  "drop_wss_session net profile =
     (let net = net\<lparr>nt_active_wss := nt_active_wss net - 1\<rparr>
      in case profile of
           ExternalGateway \<Rightarrow> net\<lparr>nt_active_external := nt_active_external net - 1\<rparr>
         | RealtimeVoice \<Rightarrow> net\<lparr>nt_active_realtime := nt_active_realtime net - 1\<rparr>)"

(* network/mod.rs: fn begin_external_wss_connect_attempt *)
definition begin_external_wss_connect_attempt :: "NetworkState \<Rightarrow> NetworkState" where
  "begin_external_wss_connect_attempt net = net\<lparr>nt_connecting := nt_connecting net + 1\<rparr>"

(* network/mod.rs: impl Drop for ExternalWssConnectAttemptGuard / fn drop *)
definition drop_connect_attempt :: "NetworkState \<Rightarrow> NetworkState" where
  "drop_connect_attempt net = net\<lparr>nt_connecting := decrement_floor (nt_connecting net)\<rparr>"

section \<open>Leases\<close>

text \<open>A lease guard: the owner and the token it releases.\<close>

type_synonym lease_guard = "LeaseOwner \<times> u64"

definition lease_owner :: "string \<Rightarrow> string \<Rightarrow> LeaseOwner" where
  "lease_owner plane name = \<lparr>lo_plane = plane, lo_name = name\<rparr>"

text \<open>The \<open>Debug\<close> text of an optional owner; the literals used as names need no escapes.\<close>

definition debug_held_by :: "LeaseOwner option \<Rightarrow> string" where
  "debug_held_by held_by =
     (case held_by of
        None \<Rightarrow> ''None''
      | Some owner \<Rightarrow> ''Some(LeaseOwner { plane: '' @ [CHR 0x22] @ lo_plane owner @ [CHR 0x22]
            @ '', name: '' @ [CHR 0x22] @ lo_name owner @ [CHR 0x22] @ '' })'')"

definition lease_denied :: "string \<Rightarrow> LeaseOwner \<Rightarrow> LeaseDenial \<Rightarrow> Error" where
  "lease_denied stage owner denial =
     err_config stage (''owner='' @ lo_plane owner @ '':'' @ lo_name owner @ '' denied reason=''
       @ ld_reason denial @ '' held_by='' @ debug_held_by (ld_held_by denial))"

text \<open>
  The three acquisitions of the module take an exclusive lease without expiry and turn the
  decision into a guard or an error of their own stage; they are instances of this function.
\<close>

definition acquire_lease :: "LeaseKind \<Rightarrow> string \<Rightarrow> LeaseOwner \<Rightarrow> u64 \<Rightarrow> LeaseRegistry
    \<Rightarrow> LeaseRegistry \<times> (Error + lease_guard)" where
  "acquire_lease kind stage owner now_ms reg =
     (case try_acquire_at reg kind owner LExclusive None now_ms of
        (reg', Acquired record) \<Rightarrow> (reg', Inr (owner, lr_token record))
      | (reg', Reentered record) \<Rightarrow> (reg', Inr (owner, lr_token record))
      | (reg', ReplacedExpired _ record) \<Rightarrow> (reg', Inr (owner, lr_token record))
      | (reg', Denied denial) \<Rightarrow> (reg', Inl (lease_denied stage owner denial)))"

definition drop_lease :: "LeaseKind \<Rightarrow> lease_guard \<Rightarrow> LeaseRegistry \<Rightarrow> LeaseRegistry" where
  "drop_lease kind guard reg = fst (release_token reg kind (fst guard) (snd guard))"

definition with_leases :: "(LeaseRegistry \<Rightarrow> LeaseRegistry \<times> 'a) \<Rightarrow> NetworkState \<Rightarrow> NetworkState \<times> 'a" where
  "with_leases f net = (let (reg, x) = f (nt_leases net) in (net\<lparr>nt_leases := reg\<rparr>, x))"

(* network/mod.rs: fn channel_wss_lease_owner *)
definition channel_wss_lease_owner :: "string \<Rightarrow> LeaseOwner" where
  "channel_wss_lease_owner owner = lease_owner ''channel_wss'' owner"

(* network/mod.rs: fn http_tls_lease_owner *)
definition http_tls_lease_owner :: "HttpThreadRole \<Rightarrow> LeaseOwner" where
  "http_tls_lease_owner role =
     lease_owner ''http_tls''
       (case role of RoleInteractive \<Rightarrow> ''http_interactive'' | RoleIo \<Rightarrow> ''http_io''
        | RoleBackground \<Rightarrow> ''http_background'')"

(* network/mod.rs: fn acquire_external_wss_lease_inner *)
definition acquire_external_wss_lease :: "string \<Rightarrow> u64 \<Rightarrow> NetworkState
    \<Rightarrow> NetworkState \<times> (Error + lease_guard)" where
  "acquire_external_wss_lease owner now_ms =
     with_leases (acquire_lease KExternalWss ''external_wss_lease'' (channel_wss_lease_owner owner) now_ms)"

(* network/mod.rs: impl Drop for ExternalWssLeaseGuard / fn drop *)
definition drop_external_wss_lease :: "lease_guard \<Rightarrow> NetworkState \<Rightarrow> NetworkState" where
  "drop_external_wss_lease guard net = net\<lparr>nt_leases := drop_lease KExternalWss guard (nt_leases net)\<rparr>"

(* network/mod.rs: fn acquire_tls_handshake_lease_for_owner *)
definition acquire_tls_handshake_lease_for_owner :: "LeaseOwner \<Rightarrow> u64 \<Rightarrow> NetworkState
    \<Rightarrow> NetworkState \<times> (Error + lease_guard)" where
  "acquire_tls_handshake_lease_for_owner owner now_ms =
     with_leases (acquire_lease KTlsHandshake ''tls_handshake_lease'' owner now_ms)"

(* network/mod.rs: fn acquire_tls_handshake_lease *)
definition acquire_tls_handshake_lease :: "string \<Rightarrow> u64 \<Rightarrow> NetworkState
    \<Rightarrow> NetworkState \<times> (Error + lease_guard)" where
  "acquire_tls_handshake_lease owner = acquire_tls_handshake_lease_for_owner (channel_wss_lease_owner owner)"

(* network/mod.rs: fn acquire_http_client_tls_handshake_lease *)
definition acquire_http_client_tls_handshake_lease :: "HttpThreadRole \<Rightarrow> u64 \<Rightarrow> NetworkState
    \<Rightarrow> NetworkState \<times> (Error + lease_guard)" where
  "acquire_http_client_tls_handshake_lease role =
     acquire_tls_handshake_lease_for_owner (http_tls_lease_owner role)"

(* network/mod.rs: impl Drop for TlsHandshakeLeaseGuard / fn drop *)
definition drop_tls_handshake_lease :: "lease_guard \<Rightarrow> NetworkState \<Rightarrow> NetworkState" where
  "drop_tls_handshake_lease guard net = net\<lparr>nt_leases := drop_lease KTlsHandshake guard (nt_leases net)\<rparr>"

(* network/mod.rs: fn acquire_voice_exclusive_lease *)
definition acquire_voice_exclusive_lease :: "u64 \<Rightarrow> NetworkState
    \<Rightarrow> NetworkState \<times> (Error + lease_guard)" where
  "acquire_voice_exclusive_lease now_ms =
     with_leases (acquire_lease KVoiceExclusive ''voice_exclusive_lease''
       (lease_owner ''voice'' ''voice_exclusive'') now_ms)"

(* network/mod.rs: impl Drop for VoiceExclusiveLeaseGuard / fn drop *)
definition drop_voice_exclusive_lease :: "lease_guard \<Rightarrow> NetworkState \<Rightarrow> NetworkState" where
  "drop_voice_exclusive_lease guard net = net\<lparr>nt_leases := drop_lease KVoiceExclusive guard (nt_leases net)\<rparr>"

(* network/mod.rs: fn active_external_wss_lease_count *)
definition active_external_wss_lease_count :: "NetworkState \<Rightarrow> u64 \<Rightarrow> nat" where
  "active_external_wss_lease_count net now_ms = active_count_for_kind_at (nt_leases net) KExternalWss now_ms"

section \<open>Suspend requests\<close>

(* network/mod.rs: fn external_wss_suspend_requested *)
definition external_wss_suspend_requested :: "NetworkState \<Rightarrow> bool" where
  "external_wss_suspend_requested net \<longleftrightarrow> 0 < nt_suspend_requests net"

(* network/mod.rs: fn external_wss_suspend_reason *)
definition external_wss_suspend_reason :: "NetworkState \<Rightarrow> ExternalWssSuspendReason option" where
  "external_wss_suspend_reason net =
     (if 0 < nt_voice_requests net then Some SuspendVoiceExclusive
      else if 0 < nt_config_requests net then Some SuspendConfigPersisting
      else None)"

(* network/mod.rs: fn increment_external_wss_suspend_reason *)
definition increment_external_wss_suspend_reason :: "ExternalWssSuspendReason \<Rightarrow> NetworkState \<Rightarrow> NetworkState" where
  "increment_external_wss_suspend_reason reason net =
     (case reason of
        SuspendVoiceExclusive \<Rightarrow> net\<lparr>nt_voice_requests := nt_voice_requests net + 1\<rparr>
      | SuspendConfigPersisting \<Rightarrow> net\<lparr>nt_config_requests := nt_config_requests net + 1\<rparr>)"

(* network/mod.rs: fn decrement_external_wss_suspend_reason *)
definition decrement_external_wss_suspend_reason :: "ExternalWssSuspendReason \<Rightarrow> NetworkState \<Rightarrow> NetworkState" where
  "decrement_external_wss_suspend_reason reason net =
     (case reason of
        SuspendVoiceExclusive \<Rightarrow> net\<lparr>nt_voice_requests := decrement_floor (nt_voice_requests net)\<rparr>
      | SuspendConfigPersisting \<Rightarrow> net\<lparr>nt_config_requests := decrement_floor (nt_config_requests net)\<rparr>)"

(* network/mod.rs: fn request_external_wss_suspend_for_reason *)
definition request_external_wss_suspend_for_reason :: "ExternalWssSuspendReason \<Rightarrow> NetworkState \<Rightarrow> NetworkState" where
  "request_external_wss_suspend_for_reason reason net =
     (let net = increment_external_wss_suspend_reason reason net
      in net\<lparr>nt_suspend_requests := nt_suspend_requests net + 1\<rparr>)"

(* network/mod.rs: fn release_external_wss_suspend_request *)
definition release_external_wss_suspend_request :: "ExternalWssSuspendReason \<Rightarrow> NetworkState \<Rightarrow> NetworkState" where
  "release_external_wss_suspend_request reason net =
     (let net = decrement_external_wss_suspend_reason reason net;
          net = net\<lparr>nt_suspend_requests := decrement_floor (nt_suspend_requests net)\<rparr>
      in if \<not> external_wss_suspend_requested net
         then net\<lparr>nt_suspended := False, nt_voice_requests := 0, nt_config_requests := 0\<rparr>
         else net)"

(* network/mod.rs: fn request_external_wss_resume *)
definition request_external_wss_resume :: "NetworkState \<Rightarrow> NetworkState" where
  "request_external_wss_resume net =
     (let reason = (case external_wss_suspend_reason net of None \<Rightarrow> SuspendVoiceExclusive | Some r \<Rightarrow> r)
      in release_external_wss_suspend_request reason net)"

text \<open>A suspend guard: whether it is still active, and its reason. Dropping it releases once.\<close>

(* network/mod.rs: struct ExternalWssSuspendGuard *)
record suspend_guard =
  sg_active :: bool
  sg_reason :: ExternalWssSuspendReason

(* network/mod.rs: fn begin_external_wss_suspend_request *)
definition begin_external_wss_suspend_request :: "ExternalWssSuspendReason \<Rightarrow> NetworkState
    \<Rightarrow> NetworkState \<times> suspend_guard" where
  "begin_external_wss_suspend_request reason net =
     (request_external_wss_suspend_for_reason reason net, \<lparr>sg_active = True, sg_reason = reason\<rparr>)"

(* network/mod.rs: impl Drop for ExternalWssSuspendGuard / fn drop *)
definition drop_suspend_guard :: "suspend_guard \<Rightarrow> NetworkState \<Rightarrow> NetworkState" where
  "drop_suspend_guard guard net =
     (if sg_active guard then release_external_wss_suspend_request (sg_reason guard) net else net)"

(* network/mod.rs: fn set_external_wss_suspended *)
definition set_external_wss_suspended :: "bool \<Rightarrow> NetworkState \<Rightarrow> NetworkState" where
  "set_external_wss_suspended active net = net\<lparr>nt_suspended := active\<rparr>"

(* network/mod.rs: fn set_external_wss_managed_present *)
definition set_external_wss_managed_present :: "bool \<Rightarrow> NetworkState \<Rightarrow> NetworkState" where
  "set_external_wss_managed_present active net =
     (let net = net\<lparr>nt_managed_present := active\<rparr>
      in if \<not> active
         then net\<lparr>nt_suspend_requests := 0, nt_voice_requests := 0, nt_config_requests := 0,
                  nt_connecting := 0, nt_suspended := False,
                  nt_leases := fst (release_kind (fst (release_kind (nt_leases net) KExternalWss))
                                 KTlsHandshake)\<rparr>
         else net)"

(* network/mod.rs: fn external_wss_runtime_snapshot *)
definition external_wss_runtime_snapshot :: "NetworkState \<Rightarrow> ExternalWssRuntimeSnapshot" where
  "external_wss_runtime_snapshot net =
     \<lparr>xs_managed_present = nt_managed_present net, xs_connecting_count = nt_connecting net,
      xs_active_external_count = nt_active_external net,
      xs_active_realtime_count = nt_active_realtime net,
      xs_suspend_requested = external_wss_suspend_requested net,
      xs_suspended = nt_suspended net\<rparr>"

(* network/mod.rs: fn external_wss_suspend_target_drained *)
definition external_wss_suspend_target_drained :: "NetworkState \<Rightarrow> u64 \<Rightarrow> bool" where
  "external_wss_suspend_target_drained net now_ms \<longleftrightarrow>
     nt_active_external net = 0 \<and> active_external_wss_lease_count net now_ms = 0
     \<and> nt_connecting net = 0
     \<and> (\<not> nt_managed_present net \<or> nt_suspended net \<or> external_wss_suspend_requested net)"

text \<open>
  A polling loop: it returns \<open>True\<close> at the first observation that is ready, \<open>False\<close> at the
  first that is not ready but past the deadline.
\<close>

fun poll_until :: "('o \<Rightarrow> bool) \<Rightarrow> ('o \<Rightarrow> bool) \<Rightarrow> 'o list \<Rightarrow> bool option" where
  "poll_until ready expired [] = None"
| "poll_until ready expired (o1 # os) =
     (if ready o1 then Some True
      else if expired o1 then Some False
      else poll_until ready expired os)"

text \<open>
  One observation of the suspend wait: the state, the lease clock and the elapsed time since the
  call, in milliseconds. The text of the timeout error names the counters.
\<close>

type_synonym wait_observation = "NetworkState \<times> u64 \<times> u64"

definition suspend_timeout_error :: "string \<Rightarrow> NetworkState \<Rightarrow> u64 \<Rightarrow> Error" where
  "suspend_timeout_error tag net now_ms =
     err_config ''external_wss_suspend_timeout''
       (''external WSS suspend timed out tag='' @ tag
        @ '' active_external_wss='' @ show_nat (unat (nt_active_external net))
        @ '' active_realtime_wss='' @ show_nat (unat (nt_active_realtime net))
        @ '' active_wss_leases='' @ show_nat (active_external_wss_lease_count net now_ms)
        @ '' connecting_wss='' @ show_nat (unat (nt_connecting net)))"

(* network/mod.rs: fn wait_for_external_wss_suspend_with_timeout *)
fun wait_for_external_wss_suspend_with_timeout :: "string \<Rightarrow> u64 \<Rightarrow> wait_observation list
    \<Rightarrow> (Error + unit) option" where
  "wait_for_external_wss_suspend_with_timeout tag timeout [] = None"
| "wait_for_external_wss_suspend_with_timeout tag timeout ((net, now_ms, elapsed) # obs) =
     (if external_wss_suspend_target_drained net now_ms then Some (Inr ())
      else if timeout \<le> elapsed then Some (Inl (suspend_timeout_error tag net now_ms))
      else wait_for_external_wss_suspend_with_timeout tag timeout obs)"

(* network/mod.rs: const EXTERNAL_WSS_SUSPEND_WAIT_TIMEOUT_MS *)
definition EXTERNAL_WSS_SUSPEND_WAIT_TIMEOUT_MS :: u64 where
  "EXTERNAL_WSS_SUSPEND_WAIT_TIMEOUT_MS = 30000"

(* network/mod.rs: const REALTIME_WSS_DRAIN_TIMEOUT_MS *)
definition REALTIME_WSS_DRAIN_TIMEOUT_MS :: u64 where
  "REALTIME_WSS_DRAIN_TIMEOUT_MS = 15000"

(* network/mod.rs: fn wait_for_external_wss_suspend_result *)
definition wait_for_external_wss_suspend_result :: "string \<Rightarrow> NetworkState \<Rightarrow> wait_observation list
    \<Rightarrow> (Error + unit) option" where
  "wait_for_external_wss_suspend_result tag net obs =
     (if \<not> external_wss_suspend_requested net then Some (Inr ())
      else wait_for_external_wss_suspend_with_timeout tag EXTERNAL_WSS_SUSPEND_WAIT_TIMEOUT_MS obs)"

section \<open>TLS admission\<close>

text \<open>The heap test that three places of the module repeat.\<close>

definition tls_min_free :: "MemorySnapshot \<Rightarrow> u32" where
  "tls_min_free snap =
     (if 0 < mem_heap_free_spiram snap then of_nat TLS_ADMISSION_MIN_INTERNAL_BYTES
      else of_nat TLS_ADMISSION_NO_PSRAM_MIN_BYTES)"

definition tls_heap_error :: "string \<Rightarrow> Error" where
  "tls_heap_error message = ErrOther (Foreign message) ''tls_admission''"

(* network/mod.rs: fn check_internal_heap_for_tls *)
definition check_internal_heap_for_tls :: "target \<Rightarrow> u32 \<Rightarrow> u32 \<Rightarrow> MemorySnapshot \<Rightarrow> OrchestratorState
    \<Rightarrow> OrchestratorState \<times> (Error + unit)" where
  "check_internal_heap_for_tls t active_http active_wss snap st =
     (case t of
        Host \<Rightarrow> (st, Inr ())
      | Esp \<Rightarrow>
          (let st' = apply_memory_snapshot t active_http active_wss st snap;
               free = mem_heap_free_internal snap;
               largest = mem_heap_largest_block snap;
               spiram = mem_heap_free_spiram snap;
               min_free = tls_min_free snap
           in if free < min_free
              then (st', Inl (tls_heap_error (''internal heap too low for TLS: free='' @ show_nat (unat free)
                     @ '' min='' @ show_nat (unat min_free) @ '' spiram='' @ show_nat (unat spiram))))
              else if 0 < spiram \<and> largest < of_nat TLS_ADMISSION_MIN_LARGEST_BLOCK_BYTES
              then (st', Inl (tls_heap_error (''internal heap fragmented for TLS: largest='' @ show_nat (unat largest)
                     @ '' min='' @ show_nat TLS_ADMISSION_MIN_LARGEST_BLOCK_BYTES)))
              else (st', Inr ())))"

text \<open>
  A try of the permit mutex in the waiting loop: whether it was free, and the elapsed milliseconds
  when it was not. A poisoned mutex is recovered and counts as free.
\<close>

(* network/mod.rs: fn request_http_permit *)
definition request_http_permit :: "target \<Rightarrow> Priority \<Rightarrow> u64 \<Rightarrow> PressureLevel \<Rightarrow> (bool \<times> u64) list
    \<Rightarrow> MemorySnapshot \<Rightarrow> NetworkState \<times> OrchestratorState
    \<Rightarrow> ((NetworkState \<times> OrchestratorState) \<times> (Error + unit)) option" where
  "request_http_permit t priority timeout pressure tries snap cells =
     (let (net, st) = cells;
          active_http = nt_active_http net;
          active_wss = nt_active_wss net;
          active_network = sat_add active_http active_wss
      in if pressure = PressureCritical \<and> priority < PriorityHigh
         then Some (cells, Inl (tls_heap_error ''critical pressure, low priority rejected''))
         else if of_nat (MAX_CONCURRENT_HTTP t) \<le> active_network \<and> priority < PriorityHigh
         then Some (cells, Inl (tls_heap_error (''max active network sessions reached (http=''
                @ show_nat (unat active_http) @ '', wss='' @ show_nat (unat active_wss)
                @ '', limit='' @ show_nat (MAX_CONCURRENT_HTTP t) @ ''), low priority rejected'')))
         else
           (case (case t of Host \<Rightarrow> Some True
                  | Esp \<Rightarrow> poll_until fst (\<lambda>(_, elapsed). timeout \<le> elapsed) tries) of
              None \<Rightarrow> None
            | Some False \<Rightarrow> Some (cells, Inl (tls_heap_error ''tls admission permit timeout''))
            | Some True \<Rightarrow>
                (case check_internal_heap_for_tls t active_http active_wss snap st of
                   (st', Inl e) \<Rightarrow> Some ((net, st'), Inl e)
                 | (st', Inr _) \<Rightarrow>
                     Some ((net\<lparr>nt_active_http := nt_active_http net + 1,
                                nt_tls_permit_held := (t = Esp)\<rparr>, st'), Inr ()))))"

(* network/mod.rs: impl Drop for TransportHttpPermitGuard / fn drop *)
definition drop_http_permit :: "NetworkState \<Rightarrow> NetworkState" where
  "drop_http_permit net = net\<lparr>nt_active_http := nt_active_http net - 1, nt_tls_permit_held := False\<rparr>"

text \<open>The orchestrator's entry point reads the pressure cell and applies the priority override.\<close>

(* orchestrator/permit.rs: fn request_http_permit *)
definition orchestrator_request_http_permit :: "target \<Rightarrow> override_slot \<Rightarrow> Priority \<Rightarrow> u64
    \<Rightarrow> (bool \<times> u64) list \<Rightarrow> MemorySnapshot \<Rightarrow> NetworkState \<times> OrchestratorState
    \<Rightarrow> ((NetworkState \<times> OrchestratorState) \<times> (Error + unit)) option" where
  "orchestrator_request_http_permit t slot priority timeout tries snap cells =
     request_http_permit t (effective_http_priority slot priority) timeout
       (pressure_from_byte (os_pressure_level (snd cells))) tries snap cells"

section \<open>Voice-exclusive ownership\<close>

text \<open>
  One observation of the realtime drain: the state, the lease clock, the platform's memory
  snapshot and the elapsed milliseconds. An \<open>Esp\<close> build also waits for the resources; a host
  build waits for the external sockets only.
\<close>

type_synonym drain_observation = "NetworkState \<times> u64 \<times> MemorySnapshot \<times> u64"

definition tls_resources_available :: "MemorySnapshot \<Rightarrow> bool" where
  "tls_resources_available snap \<longleftrightarrow>
     (let enough_free = tls_min_free snap \<le> mem_heap_free_internal snap;
          enough_largest = mem_heap_free_spiram snap = 0
            \<or> of_nat TLS_ADMISSION_MIN_LARGEST_BLOCK_BYTES \<le> mem_heap_largest_block snap
      in enough_free \<and> enough_largest)"

definition realtime_drained :: "NetworkState \<Rightarrow> u64 \<Rightarrow> MemorySnapshot \<Rightarrow> bool" where
  "realtime_drained net now_ms snap \<longleftrightarrow>
     external_wss_suspend_target_drained net now_ms \<and> nt_active_wss net = 0
     \<and> active_external_wss_lease_count net now_ms = 0 \<and> nt_connecting net = 0
     \<and> tls_resources_available snap"

definition drain_timeout_error :: "NetworkState \<Rightarrow> u64 \<Rightarrow> MemorySnapshot \<Rightarrow> Error" where
  "drain_timeout_error net now_ms snap =
     err_config ''voice_exclusive_wss_drain_timeout''
       (''external WSS did not drain before realtime connect active_wss='' @ show_nat (unat (nt_active_wss net))
        @ '' active_wss_leases='' @ show_nat (active_external_wss_lease_count net now_ms)
        @ '' connecting_wss='' @ show_nat (unat (nt_connecting net))
        @ '' free='' @ show_nat (unat (mem_heap_free_internal snap))
        @ '' largest='' @ show_nat (unat (mem_heap_largest_block snap))
        @ '' spiram='' @ show_nat (unat (mem_heap_free_spiram snap)))"

(* network/mod.rs: lines 954-1026 wait_for_external_wss_to_suspend_and_drain *)
fun wait_for_external_wss_to_suspend_and_drain :: "target \<Rightarrow> string \<Rightarrow> drain_observation list
    \<Rightarrow> (Error + unit) option" where
  "wait_for_external_wss_to_suspend_and_drain Host log_tag obs =
     wait_for_external_wss_suspend_with_timeout log_tag REALTIME_WSS_DRAIN_TIMEOUT_MS
       (map (\<lambda>(net, now_ms, _, elapsed). (net, now_ms, elapsed)) obs)"
| "wait_for_external_wss_to_suspend_and_drain Esp log_tag [] = None"
| "wait_for_external_wss_to_suspend_and_drain Esp log_tag ((net, now_ms, snap, elapsed) # obs) =
     (if realtime_drained net now_ms snap then Some (Inr ())
      else if REALTIME_WSS_DRAIN_TIMEOUT_MS \<le> elapsed then Some (Inl (drain_timeout_error net now_ms snap))
      else wait_for_external_wss_to_suspend_and_drain Esp log_tag obs)"

text \<open>The guard of a voice-exclusive window: its suspend guard and its lease guard.\<close>

(* network/mod.rs: struct VoiceExclusiveTransportGuard *)
record voice_guard =
  vg_suspend_guard :: suspend_guard
  vg_lease :: lease_guard

text \<open>
  Entering happens in two parts around the wait, during which other threads run: \<open>enter_begin\<close>
  up to the wait, \<open>enter_end\<close> on its result.
\<close>

(* network/mod.rs: lines 668-676 enter, before the wait *)
definition voice_exclusive_enter_begin :: "u64 \<Rightarrow> NetworkState \<Rightarrow> NetworkState \<times> (Error + voice_guard)" where
  "voice_exclusive_enter_begin now_ms net =
     (case acquire_voice_exclusive_lease now_ms net of
        (net', Inl e) \<Rightarrow> (net', Inl e)
      | (net', Inr lease) \<Rightarrow>
          (let (net'', guard) = begin_external_wss_suspend_request SuspendVoiceExclusive net'
           in (net''\<lparr>nt_voice_exclusive := True\<rparr>,
               Inr \<lparr>vg_suspend_guard = guard, vg_lease = lease\<rparr>)))"

(* network/mod.rs: lines 677-691 enter, from the wait's result *)
definition voice_exclusive_enter_end :: "Error + unit \<Rightarrow> voice_guard \<Rightarrow> NetworkState
    \<Rightarrow> NetworkState \<times> (Error + voice_guard)" where
  "voice_exclusive_enter_end drained guard net =
     (case drained of
        Inl e \<Rightarrow>
          (drop_voice_exclusive_lease (vg_lease guard)
             (drop_suspend_guard (vg_suspend_guard guard) (net\<lparr>nt_voice_exclusive := False\<rparr>)), Inl e)
      | Inr _ \<Rightarrow> (net, Inr guard))"

(* network/mod.rs: impl Drop for VoiceExclusiveTransportGuard / fn drop *)
definition drop_voice_exclusive_guard :: "voice_guard \<Rightarrow> NetworkState \<Rightarrow> NetworkState" where
  "drop_voice_exclusive_guard guard net =
     drop_voice_exclusive_lease (vg_lease guard)
       (drop_suspend_guard (vg_suspend_guard guard) (net\<lparr>nt_voice_exclusive := False\<rparr>))"

section \<open>Foreground turns\<close>

(* orchestrator/permit.rs: impl AgentTaskGuard / fn new *)
definition agent_task_guard_new :: "OrchestratorState \<Rightarrow> OrchestratorState" where
  "agent_task_guard_new st = st\<lparr>os_active_agent_tasks := os_active_agent_tasks st + 1\<rparr>"

(* orchestrator/permit.rs: impl Drop for AgentTaskGuard / fn drop *)
definition agent_task_guard_drop :: "OrchestratorState \<Rightarrow> OrchestratorState" where
  "agent_task_guard_drop st = st\<lparr>os_active_agent_tasks := os_active_agent_tasks st - 1\<rparr>"

definition foreground_owner :: LeaseOwner where
  "foreground_owner = lease_owner ''agent'' ''foreground_turn''"

(* orchestrator/permit.rs: impl ForegroundTurnGuard / fn new *)
definition foreground_turn_new :: "u64 \<Rightarrow> LeaseRegistry \<times> OrchestratorState
    \<Rightarrow> (LeaseRegistry \<times> OrchestratorState) \<times> (Error + lease_guard)" where
  "foreground_turn_new now_ms cells =
     (let (reg, st) = cells
      in case try_acquire_exclusive_once_at reg KAgentHeavyTurn foreground_owner None now_ms ReplaceExpired of
           (reg', Acquired record) \<Rightarrow> ((reg', agent_task_guard_new st), Inr (foreground_owner, lr_token record))
         | (reg', ReplacedExpired _ record) \<Rightarrow>
             ((reg', agent_task_guard_new st), Inr (foreground_owner, lr_token record))
         | (reg', Reentered record) \<Rightarrow>
             ((reg', agent_task_guard_new st), Inr (foreground_owner, lr_token record))
         | (reg', Denied denial) \<Rightarrow>
             ((reg', st), Inl (err_config ''foreground_turn_lease''
                (''AgentHeavyTurn denied reason='' @ ld_reason denial @ '' held_by=''
                 @ debug_held_by (ld_held_by denial)))))"

text \<open>The guard's own \<open>drop\<close> releases the lease, then its agent-task field is dropped.\<close>

(* orchestrator/permit.rs: impl Drop for ForegroundTurnGuard / fn drop *)
definition foreground_turn_drop :: "lease_guard \<Rightarrow> LeaseRegistry \<times> OrchestratorState
    \<Rightarrow> LeaseRegistry \<times> OrchestratorState" where
  "foreground_turn_drop guard cells =
     (let (reg, st) = cells
      in (drop_lease KAgentHeavyTurn guard reg, agent_task_guard_drop st))"

section \<open>The reusable stream client\<close>

text \<open>
  The thread-local slot with the counters it updates. The factory, the operation and the
  connection reset are given: an operation changes the client it is given and the world \<open>'w\<close>.
\<close>

(* network/mod.rs: lines 65-70 the stream slot *)
record 'c stream_slot =
  ss_client :: "'c option"
  ss_ops :: u32
  ss_creates :: nat
  ss_reuses :: nat
  ss_resets :: nat
  ss_invalidates :: nat

(* network/mod.rs: fn invalidate_stream_http_slot *)
definition invalidate_stream_http_slot :: "'c stream_slot \<Rightarrow> 'c stream_slot" where
  "invalidate_stream_http_slot slot =
     (case ss_client slot of
        None \<Rightarrow> slot
      | Some _ \<Rightarrow> slot\<lparr>ss_client := None, ss_invalidates := ss_invalidates slot + 1\<rparr>)"

(* network/mod.rs: fn reset_stream_http_slot *)
definition reset_stream_http_slot :: "('c \<Rightarrow> 'c) \<Rightarrow> 'c stream_slot \<Rightarrow> 'c stream_slot \<times> bool" where
  "reset_stream_http_slot reset_connection slot =
     (case ss_client slot of
        None \<Rightarrow> (slot, False)
      | Some http \<Rightarrow> (slot\<lparr>ss_client := Some (reset_connection http), ss_resets := ss_resets slot + 1\<rparr>, True))"

(* network/mod.rs: fn with_stream_http_slot *)
definition with_stream_http_slot :: "('w \<Rightarrow> 'w \<times> (Error + 'c)) \<Rightarrow> ('w \<Rightarrow> 'c \<Rightarrow> 'w \<times> 'c \<times> (Error + 'a))
    \<Rightarrow> 'w \<Rightarrow> 'c stream_slot \<Rightarrow> 'w \<times> 'c stream_slot \<times> (Error + 'a)" where
  "with_stream_http_slot create_http op w slot =
     (case (case ss_client slot of
              Some http \<Rightarrow> (w, slot\<lparr>ss_reuses := ss_reuses slot + 1\<rparr>, Inr http)
            | None \<Rightarrow>
                (case create_http w of
                   (w', Inl e) \<Rightarrow> (w', slot, Inl e)
                 | (w', Inr http) \<Rightarrow>
                     (w', slot\<lparr>ss_client := Some http, ss_creates := ss_creates slot + 1\<rparr>, Inr http))) of
        (w', slot', Inl e) \<Rightarrow> (w', slot', Inl e)
      | (w', slot', Inr http) \<Rightarrow>
          (case op w' http of
             (w'', http', r) \<Rightarrow>
               (w'', slot'\<lparr>ss_client := Some http', ss_ops := ss_ops slot' + 1\<rparr>, r)))"

(* network/mod.rs: fn execute_stream_http_op *)
definition execute_stream_http_op :: "('c \<Rightarrow> 'c) \<Rightarrow> ('w \<Rightarrow> 'w \<times> (Error + 'c))
    \<Rightarrow> ('w \<Rightarrow> 'c \<Rightarrow> 'w \<times> 'c \<times> (Error + 'a))
    \<Rightarrow> 'w \<Rightarrow> 'c stream_slot \<Rightarrow> 'w \<times> 'c stream_slot \<times> (Error + 'a)" where
  "execute_stream_http_op reset_connection create_http op w slot =
     (case with_stream_http_slot create_http op w slot of
        (w1, slot1, Inr v) \<Rightarrow> (w1, slot1, Inr v)
      | (w1, slot1, Inl first_err) \<Rightarrow>
          (let slot2 = fst (reset_stream_http_slot reset_connection slot1)
           in case with_stream_http_slot create_http op w1 slot2 of
                (w3, slot3, Inr v) \<Rightarrow> (w3, slot3, Inr v)
              | (w3, slot3, Inl second_err) \<Rightarrow> (w3, invalidate_stream_http_slot slot3, Inl second_err)))"

end
