(* ===== verification/Exclusive_Lease.thy ===== *)
theory Exclusive_Lease
  imports Lease_Laws Network
begin

text \<open>
  The contract between the lease registry and the code that takes exclusive leases without expiry
  through RAII guards. \<open>exclusive_lease\<close> states what every such lease promises: a free lease is
  granted, another owner is refused, the last release frees it, a stale release does nothing.
  \<open>reentrant_lease\<close> extends it with re-entry by the holder, \<open>once_lease\<close> with its refusal. The
  lemmas about live guards are proved once in the locales; the interpretations on the registry's
  own functions at the end of the theory are what the clients' properties rest on.
\<close>

section \<open>The contract\<close>

locale exclusive_lease =
  fixes acquire :: "'s \<Rightarrow> 'o \<Rightarrow> 't \<Rightarrow> 's \<times> 'k option"
    and release :: "'s \<Rightarrow> 'o \<Rightarrow> 'k \<Rightarrow> 's"
    and held :: "'s \<Rightarrow> ('o \<times> 'k \<times> nat) option"
    and good :: "'s \<Rightarrow> bool"
  assumes acquire_good: "good s \<Longrightarrow> good (fst (acquire s o1 t))"
    and release_good: "good s \<Longrightarrow> good (release s o1 k)"
    and held_pos: "good s \<Longrightarrow> held s = Some (o1, k, n) \<Longrightarrow> 0 < n"
    and acquire_free: "good s \<Longrightarrow> held s = None \<Longrightarrow>
          \<exists>k. snd (acquire s o1 t) = Some k \<and> held (fst (acquire s o1 t)) = Some (o1, k, 1)"
    and acquire_other: "good s \<Longrightarrow> held s = Some (o2, k, n) \<Longrightarrow> o1 \<noteq> o2 \<Longrightarrow>
          snd (acquire s o1 t) = None \<and> held (fst (acquire s o1 t)) = held s"
    and release_last: "good s \<Longrightarrow> held s = Some (o1, k, 1) \<Longrightarrow> held (release s o1 k) = None"
    and release_free: "good s \<Longrightarrow> held s = None \<Longrightarrow> held (release s o1 k) = None"
begin

text \<open>A bracket around a free lease leaves it free, whoever tried to take it in between.\<close>

lemma bracket:
  assumes "good s" "held s = None" "acquire s o1 t = (s', Some k)"
    and "o2 \<noteq> o1" "acquire s' o2 t' = (s'', r)"
  shows "r = None \<and> held (release s'' o1 k) = None"
proof -
  from acquire_free [OF assms(1,2), of o1 t] assms(3) have h: "held s' = Some (o1, k, 1)" by simp
  have w: "good s'" using acquire_good [OF assms(1), of o1 t] assms(3) by simp
  from acquire_other [OF w h assms(4), of t'] assms(5) h have "r = None" "held s'' = Some (o1, k, 1)"
    by simp_all
  with release_last [of s'' o1 k] acquire_good [OF w, of o2 t'] assms(5) show ?thesis by simp
qed

end

locale reentrant_lease = exclusive_lease +
  fixes max_depth :: nat
  assumes acquire_again: "good s \<Longrightarrow> held s = Some (o1, k, n) \<Longrightarrow> n < max_depth \<Longrightarrow>
          snd (acquire s o1 t) = Some k \<and> held (fst (acquire s o1 t)) = Some (o1, k, Suc n)"
    and release_again: "good s \<Longrightarrow> held s = Some (o1, k, Suc (Suc n)) \<Longrightarrow>
          held (release s o1 k) = Some (o1, k, Suc n)"
begin

text \<open>
  The live guards account for the holder: none is live when the lease is free, and otherwise they
  are all the holder's, as many as its depth.
\<close>

definition guards_ok where
  "guards_ok s gs \<longleftrightarrow> good s \<and>
     (case held s of None \<Rightarrow> gs = {#} | Some (o1, k, n) \<Rightarrow> gs = replicate_mset n (o1, k))"

lemma guards_free: "guards_ok s {#} \<Longrightarrow> held s = None"
  by (auto simp: guards_ok_def dest: held_pos split: option.splits)

lemma guards_one_owner:
  "guards_ok s gs \<Longrightarrow> (o1, k1) \<in># gs \<Longrightarrow> (o2, k2) \<in># gs \<Longrightarrow> o1 = o2 \<and> k1 = k2"
  by (auto simp: guards_ok_def split: option.splits if_splits)

lemma guards_held: "guards_ok s gs \<Longrightarrow> (o1, k) \<in># gs \<Longrightarrow> held s = Some (o1, k, size gs)"
  by (auto simp: guards_ok_def split: option.splits if_splits)

lemma guards_acquire:
  assumes ok: "guards_ok s gs" and "size gs < max_depth"
  shows "case acquire s o1 t of
           (s', Some k) \<Rightarrow> guards_ok s' (add_mset (o1, k) gs)
         | (s', None) \<Rightarrow> guards_ok s' gs"
proof -
  have w: "good s" using ok by (simp add: guards_ok_def)
  obtain s' r where a: "acquire s o1 t = (s', r)" by (cases "acquire s o1 t")
  have w': "good s'" using acquire_good [OF w, of o1 t] a by simp
  show ?thesis
  proof (cases "held s")
    case None
    with acquire_free [OF w None, of o1 t] a ok w' show ?thesis
      by (auto simp: guards_ok_def)
  next
    case (Some h)
    obtain o2 k n where h: "h = (o2, k, n)" by (cases h)
    show ?thesis
    proof (cases "o1 = o2")
      case True
      with Some h ok assms(2) have "gs = replicate_mset n (o1, k)" "n < max_depth"
        by (auto simp: guards_ok_def)
      with acquire_again [OF w, of o1 k n t] Some h True a w' show ?thesis
        by (auto simp: guards_ok_def)
    next
      case False
      with acquire_other [OF w, of o2 k n o1 t] Some h a w' ok show ?thesis
        by (auto simp: guards_ok_def)
    qed
  qed
qed

lemma guards_release:
  assumes ok: "guards_ok s gs" and g: "(o1, k) \<in># gs"
  shows "guards_ok (release s o1 k) (gs - {#(o1, k)#})"
proof -
  have w: "good s" using ok by (simp add: guards_ok_def)
  have h: "held s = Some (o1, k, size gs)" using ok g by (rule guards_held)
  have gs: "gs = replicate_mset (size gs) (o1, k)"
    using ok h by (simp add: guards_ok_def)
  from g obtain m where m: "size gs = Suc m" by (cases "size gs") auto
  have rest: "gs - {#(o1, k)#} = replicate_mset m (o1, k)"
    by (subst gs) (simp add: m)
  show ?thesis
  proof (cases m)
    case 0
    with release_last [OF w] h m rest release_good [OF w] show ?thesis by (simp add: guards_ok_def)
  next
    case (Suc j)
    with release_again [OF w, of o1 k j] h m rest release_good [OF w] show ?thesis
      by (simp add: guards_ok_def)
  qed
qed

end

locale once_lease = exclusive_lease +
  assumes acquire_held: "good s \<Longrightarrow> held s \<noteq> None \<Longrightarrow>
            snd (acquire s o1 t) = None \<and> held (fst (acquire s o1 t)) = held s"
begin

lemma granted_only_if_free: "good s \<Longrightarrow> snd (acquire s o1 t) = Some k \<Longrightarrow>
    held s = None \<and> held (fst (acquire s o1 t)) = Some (o1, k, 1)"
  using acquire_held [of s o1 t] acquire_free [of s o1 t] by (cases "held s") auto

end

section \<open>The registry's leases of one kind\<close>

text \<open>
  The records of a kind that is only ever taken exclusively and without expiry: at most one, and
  its hold count is the number of grants not yet released.
\<close>

definition rows :: "LeaseKind \<Rightarrow> LeaseRegistry \<Rightarrow> LeaseRecord list" where
  "rows kind reg = filter (\<lambda>r. lr_kind r = kind) (lg_records reg)"

definition plain_row :: "LeaseRecord \<Rightarrow> bool" where
  "plain_row r \<longleftrightarrow> lr_expires_at_ms r = None \<and> lr_mode r = LExclusive \<and> 0 < lr_hold_count r"

definition kind_wf :: "LeaseKind \<Rightarrow> LeaseRegistry \<Rightarrow> bool" where
  "kind_wf kind reg \<longleftrightarrow> length (rows kind reg) \<le> 1 \<and> (\<forall>r \<in> set (rows kind reg). plain_row r)"

definition kind_held :: "LeaseKind \<Rightarrow> LeaseRegistry \<Rightarrow> (LeaseOwner \<times> u64 \<times> nat) option" where
  "kind_held kind reg =
     (case rows kind reg of [] \<Rightarrow> None | r # _ \<Rightarrow> Some (lr_owner r, lr_token r, unat (lr_hold_count r)))"

lemma rows_cases:
  assumes "kind_wf kind reg"
  obtains (free) "rows kind reg = []" "kind_held kind reg = None"
  | (taken) r where "rows kind reg = [r]" "plain_row r" "lr_kind r = kind"
      "kind_held kind reg = Some (lr_owner r, lr_token r, unat (lr_hold_count r))"
proof (cases "rows kind reg")
  case Nil
  with free show ?thesis by (simp add: kind_held_def)
next
  case (Cons r rs)
  with assms have rs: "rows kind reg = [r]" "plain_row r" by (auto simp: kind_wf_def)
  then have "r \<in> set (rows kind reg)" by simp
  then have "lr_kind r = kind" by (simp add: rows_def)
  with rs taken show ?thesis by (simp add: kind_held_def)
qed

lemma single_split:
  assumes "filter P xs = [r]" and "i < length xs" and "P (xs ! i)"
  shows "xs ! i = r" and "filter P (xs[i := x]) = (if P x then [x] else [])"
    and "filter P (remove_at i xs) = []"
proof -
  have "filter P (take i xs @ xs ! i # drop (Suc i) xs) = [r]"
    using assms by (simp add: id_take_nth_drop [symmetric])
  with assms(3) have e: "filter P (take i xs) = [] \<and> xs ! i = r \<and> filter P (drop (Suc i) xs) = []"
    by (cases "filter P (take i xs)") auto
  then show "xs ! i = r" by simp
  show "filter P (xs[i := x]) = (if P x then [x] else [])"
    using assms(2) e by (simp add: upd_conv_take_nth_drop)
  show "filter P (remove_at i xs) = []"
    using e by (simp add: remove_at_def)
qed

lemma in_rows: "r \<in> set (lg_records reg) \<Longrightarrow> lr_kind r = kind \<Longrightarrow> r \<in> set (rows kind reg)"
  by (simp add: rows_def)

lemma purge_rows:
  assumes "kind_wf kind reg"
  shows "remove_expired_for_kind reg kind now = (reg, None)"
proof -
  have "\<not> dead kind now r" if "r \<in> set (lg_records reg)" for r
    using assms that in_rows [OF that, of kind]
    by (auto simp: kind_wf_def plain_row_def is_expired_def)
  then show ?thesis
    by (simp add: remove_expired_for_kind_eq filter_True find_None_iff)
qed

lemma not_denied [simp]:
  "deny_expired_replacement_if_forbidden reg kind o1 now ReplaceExpired = None"
  by (simp add: deny_expired_replacement_if_forbidden_def)

lemma plain_not_expired [simp]: "plain_row r \<Longrightarrow> \<not> is_expired r now"
  by (simp add: plain_row_def is_expired_def)

lemma new_row:
  "\<exists>reg' record. new_record reg kind o1 LExclusive None now = (reg', record)
     \<and> lg_records reg' = lg_records reg \<and> plain_row record \<and> lr_kind record = kind
     \<and> lr_owner record = o1 \<and> lr_hold_count record = 1"
  by (simp add: new_record_def lease_next_token_def plain_row_def Let_def)

lemma acquire_free_row:
  assumes g: "kind_wf kind reg" and free: "rows kind reg = []"
  shows "\<exists>reg' record. try_acquire_at reg kind o1 LExclusive None now = (reg', Acquired record)
     \<and> rows kind reg' = [record] \<and> plain_row record \<and> lr_owner record = o1 \<and> lr_hold_count record = 1"
proof -
  have none: "lr_kind r \<noteq> kind" if "r \<in> set (lg_records reg)" for r
    using that free in_rows [OF that, of kind] by auto
  have "position (\<lambda>r. lr_kind r = kind \<and> lr_owner r = o1) (lg_records reg) = None"
    using none by (simp add: position_None)
  moreover have "first_active_conflict (lg_records reg) kind LExclusive now = None"
    using none by (simp add: first_active_conflict_def find_None_iff)
  moreover have "filter (\<lambda>r. lr_kind r = kind) (lg_records reg) = []"
    using free by (simp add: rows_def)
  ultimately show ?thesis
    using new_row [of reg kind o1 now] purge_rows [OF g]
    by (auto simp: try_acquire_at_def try_acquire_with_policy_at_def rows_def)
qed

lemma acquire_again_row:
  assumes g: "kind_wf kind reg" and r: "rows kind reg = [r]" "lr_owner r = o1"
  defines "r' \<equiv> r\<lparr>lr_hold_count := sat_add (lr_hold_count r) 1\<rparr>"
  shows "\<exists>reg'. try_acquire_at reg kind o1 LExclusive None now = (reg', Reentered r') \<and> rows kind reg' = [r']"
proof -
  have "r \<in> set (rows kind reg)" using r by simp
  then have mem: "r \<in> set (lg_records reg)" "lr_kind r = kind" by (simp_all add: rows_def)
  then obtain i where i: "position (\<lambda>r. lr_kind r = kind \<and> lr_owner r = o1) (lg_records reg) = Some i"
    using r(2) position_None [of "\<lambda>r. lr_kind r = kind \<and> lr_owner r = o1" "lg_records reg"]
    by (cases "position (\<lambda>r. lr_kind r = kind \<and> lr_owner r = o1) (lg_records reg)") auto
  from position_Some [OF i] have il: "i < length (lg_records reg)" and ik: "lr_kind (lg_records reg ! i) = kind"
    by simp_all
  note single = single_split [OF r(1) [unfolded rows_def] il ik]
  have mode: "lr_mode r = LExclusive" using g r(1) by (simp add: kind_wf_def plain_row_def)
  have "rows kind (reg\<lparr>lg_records := (lg_records reg)[i := r']\<rparr>) = [r']"
    using single(2) [of r'] mem(2) by (simp add: rows_def r'_def)
  then show ?thesis
    using i single(1) mode purge_rows [OF g]
    by (simp add: try_acquire_at_def try_acquire_with_policy_at_def r'_def Let_def)
qed

lemma acquire_other_row:
  assumes g: "kind_wf kind reg" and r: "rows kind reg = [r]" "lr_owner r \<noteq> o1"
  shows "\<exists>denial. try_acquire_at reg kind o1 LExclusive None now = (reg, Denied denial)"
proof -
  have all: "s = r" if "s \<in> set (lg_records reg)" "lr_kind s = kind" for s
    using in_rows [OF that] r(1) by simp
  have "position (\<lambda>r. lr_kind r = kind \<and> lr_owner r = o1) (lg_records reg) = None"
    using all r(2) by (auto simp: position_None)
  moreover have "plain_row r" using g r(1) by (simp add: kind_wf_def)
  then have "filter (\<lambda>r. lr_kind r = kind \<and> \<not> is_expired r now) (lg_records reg) = [r]"
    using all r(1) unfolding rows_def by (metis (mono_tags, lifting) filter_cong plain_not_expired)
  then have "first_active_conflict (lg_records reg) kind LExclusive now = Some r"
    by (simp add: first_active_conflict_def)
  ultimately show ?thesis
    using purge_rows [OF g] by (simp add: try_acquire_at_def try_acquire_with_policy_at_def)
qed

lemma release_row_last:
  assumes g: "kind_wf kind reg" and r: "rows kind reg = [r]" "lr_hold_count r = 1"
  shows "rows kind (drop_lease kind (lr_owner r, lr_token r) reg) = []"
proof -
  let ?P = "\<lambda>s. lr_kind s = kind \<and> lr_owner s = lr_owner r \<and> lr_token s = lr_token r"
  have "r \<in> set (rows kind reg)" using r by simp
  then have mem: "r \<in> set (lg_records reg)" "lr_kind r = kind" by (simp_all add: rows_def)
  then obtain i where i: "position ?P (lg_records reg) = Some i"
    using position_None [of ?P "lg_records reg"] by (cases "position ?P (lg_records reg)") auto
  from position_Some [OF i] have il: "i < length (lg_records reg)" and ik: "lr_kind (lg_records reg ! i) = kind"
    by simp_all
  note single = single_split [OF r(1) [unfolded rows_def] il ik]
  from single(1,3) i r(2) show ?thesis
    by (simp add: drop_lease_def release_token_def release_locked_def rows_def Let_def)
qed

lemma release_row_again:
  assumes g: "kind_wf kind reg" and r: "rows kind reg = [r]" "1 < lr_hold_count r"
  shows "rows kind (drop_lease kind (lr_owner r, lr_token r) reg)
           = [r\<lparr>lr_hold_count := lr_hold_count r - 1\<rparr>]"
proof -
  let ?P = "\<lambda>s. lr_kind s = kind \<and> lr_owner s = lr_owner r \<and> lr_token s = lr_token r"
  have "r \<in> set (rows kind reg)" using r by simp
  then have mem: "r \<in> set (lg_records reg)" "lr_kind r = kind" by (simp_all add: rows_def)
  then obtain i where i: "position ?P (lg_records reg) = Some i"
    using position_None [of ?P "lg_records reg"] by (cases "position ?P (lg_records reg)") auto
  from position_Some [OF i] have il: "i < length (lg_records reg)" and ik: "lr_kind (lg_records reg ! i) = kind"
    by simp_all
  note single = single_split [OF r(1) [unfolded rows_def] il ik]
  from single(1) single(2) [of "r\<lparr>lr_hold_count := lr_hold_count r - 1\<rparr>"] i r(2) mem(2) show ?thesis
    by (simp add: drop_lease_def release_token_def release_locked_def rows_def Let_def)
qed

text \<open>A release that finds no record leaves the registry as it is, whatever its token.\<close>

lemma release_no_row:
  assumes "\<forall>r \<in> set (rows kind reg). \<not> (lr_owner r = o1 \<and> lr_token r = k)"
  shows "drop_lease kind (o1, k) reg = reg"
proof -
  have "position (\<lambda>r. lr_kind r = kind \<and> lr_owner r = o1 \<and> lr_token r = k) (lg_records reg) = None"
    using assms by (auto simp: position_None rows_def)
  then show ?thesis by (simp add: drop_lease_def release_token_def release_locked_def)
qed

lemma plain_hold: "plain_row r \<Longrightarrow> 0 < h \<Longrightarrow> plain_row (r\<lparr>lr_hold_count := h\<rparr>)"
  by (simp add: plain_row_def)

lemma hold_minus:
  assumes "1 < (h :: u32)"
  shows "0 < h - 1" "unat (h - 1) = unat h - 1"
proof -
  from assms have n: "1 < unat h" by (simp add: word_less_nat_alt)
  then show u: "unat (h - 1) = unat h - 1" by (subst unat_minus_one) auto
  from n u show "0 < h - 1" by (simp add: word_less_nat_alt)
qed

lemma drop_lease_good:
  assumes g: "kind_wf kind reg"
  shows "kind_wf kind (drop_lease kind (o1, k) reg)"
  using g
proof (cases rule: rows_cases)
  case free
  then show ?thesis using g by (simp add: release_no_row)
next
  case (taken r)
  show ?thesis
  proof (cases "lr_owner r = o1 \<and> lr_token r = k")
    case False
    then show ?thesis using g taken(1) by (subst release_no_row) simp_all
  next
    case True
    show ?thesis
    proof (cases "1 < lr_hold_count r")
      case False
      with taken(2) have "lr_hold_count r = 1"
        by (metis plain_row_def less_one linorder_neqE_linordered_idom word_less_1 not_less_iff_gr_or_eq)
      with release_row_last [OF g taken(1)] True show ?thesis by (auto simp: kind_wf_def)
    next
      case more: True
      with release_row_again [OF g taken(1)] True plain_hold [OF taken(2) hold_minus(1)] show ?thesis
        by (auto simp: kind_wf_def)
    qed
  qed
qed

section \<open>The registry keeps the contract\<close>

text \<open>Acquisition and release as the contract's operations, for one kind.\<close>

definition kind_acquire :: "LeaseKind \<Rightarrow> LeaseRegistry \<Rightarrow> LeaseOwner \<Rightarrow> u64 \<Rightarrow> LeaseRegistry \<times> u64 option" where
  "kind_acquire kind reg o1 now =
     (let (reg', r) = acquire_lease kind [] o1 now reg in (reg', map_option snd (ok r)))"

definition kind_release :: "LeaseKind \<Rightarrow> LeaseRegistry \<Rightarrow> LeaseOwner \<Rightarrow> u64 \<Rightarrow> LeaseRegistry" where
  "kind_release kind reg o1 k = drop_lease kind (o1, k) reg"

lemma kind_acquire_cases:
  assumes g: "kind_wf kind reg"
  shows "rows kind reg = [] \<Longrightarrow> \<exists>r. snd (kind_acquire kind reg o1 now) = Some (lr_token r)
            \<and> rows kind (fst (kind_acquire kind reg o1 now)) = [r] \<and> plain_row r \<and> lr_owner r = o1 \<and> lr_hold_count r = 1"
    and "rows kind reg = [r] \<Longrightarrow> lr_owner r = o1 \<Longrightarrow> snd (kind_acquire kind reg o1 now) = Some (lr_token r)
            \<and> rows kind (fst (kind_acquire kind reg o1 now)) = [r\<lparr>lr_hold_count := sat_add (lr_hold_count r) 1\<rparr>]"
    and "rows kind reg = [r] \<Longrightarrow> lr_owner r \<noteq> o1 \<Longrightarrow> kind_acquire kind reg o1 now = (reg, None)"
proof -
  show "rows kind reg = [] \<Longrightarrow> \<exists>r. snd (kind_acquire kind reg o1 now) = Some (lr_token r)
            \<and> rows kind (fst (kind_acquire kind reg o1 now)) = [r] \<and> plain_row r \<and> lr_owner r = o1 \<and> lr_hold_count r = 1"
    using acquire_free_row [OF g, of o1 now] by (auto simp: kind_acquire_def acquire_lease_def ok_def)
  show "rows kind reg = [r] \<Longrightarrow> lr_owner r = o1 \<Longrightarrow> snd (kind_acquire kind reg o1 now) = Some (lr_token r)
            \<and> rows kind (fst (kind_acquire kind reg o1 now)) = [r\<lparr>lr_hold_count := sat_add (lr_hold_count r) 1\<rparr>]"
    using acquire_again_row [OF g, of r o1 now] by (auto simp: kind_acquire_def acquire_lease_def ok_def)
  show "rows kind reg = [r] \<Longrightarrow> lr_owner r \<noteq> o1 \<Longrightarrow> kind_acquire kind reg o1 now = (reg, None)"
    using acquire_other_row [OF g, of r o1 now] by (auto simp: kind_acquire_def acquire_lease_def ok_def)
qed

lemma kind_acquire_good:
  assumes g: "kind_wf kind reg"
  shows "kind_wf kind (fst (kind_acquire kind reg o1 now))"
  using g
proof (cases rule: rows_cases)
  case free
  then show ?thesis using kind_acquire_cases(1) [OF g, of o1 now] by (auto simp: kind_wf_def)
next
  case (taken r)
  show ?thesis
    using kind_acquire_cases(2,3) [OF g taken(1), of o1 now] g plain_hold [OF taken(2) sat_add_pos]
    by (cases "lr_owner r = o1") (auto simp: kind_wf_def)
qed

lemma held_row: "kind_wf kind reg \<Longrightarrow> kind_held kind reg = Some (o1, k, n) \<Longrightarrow>
    \<exists>r. rows kind reg = [r] \<and> plain_row r \<and> lr_owner r = o1 \<and> lr_token r = k \<and> unat (lr_hold_count r) = n"
  by (auto elim: rows_cases)

lemma held_none: "kind_held kind reg = None \<longleftrightarrow> rows kind reg = []"
  by (simp add: kind_held_def split: list.split)

lemma kind_held_single [simp]: "rows kind reg = [r] \<Longrightarrow>
    kind_held kind reg = Some (lr_owner r, lr_token r, unat (lr_hold_count r))"
  by (simp add: kind_held_def)

interpretation kind_lease: reentrant_lease "kind_acquire kind" "kind_release kind" "kind_held kind"
    "kind_wf kind" "2 ^ 32 - 1" for kind
proof (unfold_locales, goal_cases)
  case (1 s o1 t)
  then show ?case by (rule kind_acquire_good)
next
  case (2 s o1 k)
  then show ?case unfolding kind_release_def by (rule drop_lease_good)
next
  case (3 s o1 k n)
  then show ?case by (auto dest!: held_row simp: plain_row_def word_less_nat_alt)
next
  case (4 s o1 t)
  then show ?case using kind_acquire_cases(1) [of kind s o1 t] by (auto simp: held_none)
next
  case (5 s o2 k n o1 t)
  from held_row [OF 5(1,2)] obtain r where "rows kind s = [r]" "lr_owner r = o2" by blast
  with kind_acquire_cases(3) [OF 5(1), of r o1 t] 5(3) show ?case by simp
next
  case (6 s o1 k)
  from held_row [OF 6] obtain r where r: "rows kind s = [r]" "lr_owner r = o1" "lr_token r = k"
    "unat (lr_hold_count r) = 1" by blast
  then have "lr_hold_count r = 1" by (simp add: word_unat_eq_iff)
  with release_row_last [OF 6(1) r(1)] r show ?case by (simp add: kind_release_def held_none)
next
  case (7 s o1 k)
  then show ?case by (simp add: kind_release_def held_none release_no_row)
next
  case (8 s o1 k n t)
  then show ?case using kind_acquire_cases(2) [of kind s _ o1 t] held_row [of kind s o1 k n]
    by (auto simp: unat_sat_add)
next
  case (9 s o1 k n)
  from held_row [OF 9] obtain r where r: "rows kind s = [r]" "lr_owner r = o1" "lr_token r = k"
    "unat (lr_hold_count r) = Suc (Suc n)" by blast
  then have "1 < lr_hold_count r" by (simp add: word_less_nat_alt)
  with release_row_again [OF 9(1) r(1)] r hold_minus(2) show ?case by (auto simp: kind_release_def)
qed

section \<open>Leases taken once\<close>

definition once_acquire :: "LeaseKind \<Rightarrow> LeaseRegistry \<Rightarrow> LeaseOwner \<Rightarrow> u64 \<Rightarrow> LeaseRegistry \<times> u64 option" where
  "once_acquire kind reg o1 now =
     (let (reg', d) = try_acquire_exclusive_once_at reg kind o1 None now ReplaceExpired
      in (reg', map_option lr_token (granted d)))"

lemma once_free_row:
  assumes g: "kind_wf kind reg" and free: "rows kind reg = []"
  shows "\<exists>reg' record. try_acquire_exclusive_once_at reg kind o1 None now ReplaceExpired = (reg', Acquired record)
     \<and> rows kind reg' = [record] \<and> plain_row record \<and> lr_owner record = o1 \<and> lr_hold_count record = 1"
proof -
  have none: "lr_kind r \<noteq> kind" if "r \<in> set (lg_records reg)" for r
    using that free in_rows [OF that, of kind] by auto
  have "find (\<lambda>r. lr_kind r = kind \<and> \<not> is_expired r now) (lg_records reg) = None"
    using none by (auto simp: find_None_iff)
  moreover have "filter (\<lambda>r. lr_kind r = kind) (lg_records reg) = []"
    using free by (simp add: rows_def)
  ultimately show ?thesis
    using new_row [of reg kind o1 now] purge_rows [OF g]
    by (auto simp: try_acquire_exclusive_once_at_def rows_def)
qed

lemma once_held_row:
  assumes g: "kind_wf kind reg" and r: "rows kind reg = [r]"
  shows "\<exists>denial. try_acquire_exclusive_once_at reg kind o1 None now ReplaceExpired = (reg, Denied denial)"
proof -
  have "r \<in> set (rows kind reg)" using r by simp
  then have mem: "r \<in> set (lg_records reg)" "lr_kind r = kind" by (simp_all add: rows_def)
  have "plain_row r" using g r by (simp add: kind_wf_def)
  with mem have "find (\<lambda>r. lr_kind r = kind \<and> \<not> is_expired r now) (lg_records reg) \<noteq> None"
    by (auto simp: find_None_iff)
  then show ?thesis
    using purge_rows [OF g] by (auto simp: try_acquire_exclusive_once_at_def)
qed

lemma once_acquire_cases:
  assumes g: "kind_wf kind reg"
  shows "rows kind reg = [] \<Longrightarrow> \<exists>r. snd (once_acquire kind reg o1 now) = Some (lr_token r)
            \<and> rows kind (fst (once_acquire kind reg o1 now)) = [r] \<and> plain_row r \<and> lr_owner r = o1 \<and> lr_hold_count r = 1"
    and "rows kind reg = [r] \<Longrightarrow> once_acquire kind reg o1 now = (reg, None)"
proof -
  show "rows kind reg = [] \<Longrightarrow> \<exists>r. snd (once_acquire kind reg o1 now) = Some (lr_token r)
            \<and> rows kind (fst (once_acquire kind reg o1 now)) = [r] \<and> plain_row r \<and> lr_owner r = o1 \<and> lr_hold_count r = 1"
    using once_free_row [OF g, of o1 now] by (auto simp: once_acquire_def)
  show "rows kind reg = [r] \<Longrightarrow> once_acquire kind reg o1 now = (reg, None)"
    using once_held_row [OF g, of r o1 now] by (auto simp: once_acquire_def)
qed

interpretation once: once_lease "once_acquire kind" "kind_release kind" "kind_held kind" "kind_wf kind" for kind
proof (unfold_locales, goal_cases)
  case (1 s o1 t)
  then show ?case
  proof (cases rule: rows_cases)
    case free
    with once_acquire_cases(1) [OF 1 free(1), of o1 t] show ?thesis by (auto simp: kind_wf_def)
  next
    case (taken r)
    with once_acquire_cases(2) [OF 1 taken(1), of o1 t] 1 show ?thesis by simp
  qed
next
  case (2 s o1 k)
  then show ?case by (rule kind_lease.release_good)
next
  case (3 s o1 k n)
  then show ?case by (rule kind_lease.held_pos)
next
  case (4 s o1 t)
  then show ?case using once_acquire_cases(1) [of kind s o1 t] by (auto simp: held_none)
next
  case (5 s o2 k n o1 t)
  from held_row [OF 5(1,2)] obtain r where "rows kind s = [r]" by blast
  with once_acquire_cases(2) [OF 5(1)] show ?case by simp
next
  case (6 s o1 k)
  then show ?case by (rule kind_lease.release_last)
next
  case (7 s o1 k)
  then show ?case by (rule kind_lease.release_free)
next
  case (8 s o1 t)
  then obtain r where "rows kind s = [r]" by (auto elim: rows_cases)
  with once_acquire_cases(2) [OF 8(1)] show ?case by simp
qed

section \<open>Operations on one kind leave the others alone\<close>

lemma filter_update_other:
  "i < length xs \<Longrightarrow> \<not> P (xs ! i) \<Longrightarrow> \<not> P x \<Longrightarrow> filter P (xs[i := x]) = filter P xs"
  by (subst (2) id_take_nth_drop [of i xs]) (simp_all add: upd_conv_take_nth_drop)

lemma filter_remove_other:
  "i < length xs \<Longrightarrow> \<not> P (xs ! i) \<Longrightarrow> filter P (remove_at i xs) = filter P xs"
  by (subst (2) id_take_nth_drop [of i xs]) (simp_all add: remove_at_def)

lemma acquire_rows_other:
  assumes "kind' \<noteq> kind" and g: "kind_wf kind' reg"
  shows "rows kind (fst (acquire_lease kind' stage o1 now reg)) = rows kind reg"
proof -
  note p = purge_rows [OF g, of now]
  let ?P = "\<lambda>r. lr_kind r = kind' \<and> lr_owner r = o1"
  show ?thesis
  proof (cases "position ?P (lg_records reg)")
    case (Some i)
    from position_Some [OF Some] assms(1) have i: "i < length (lg_records reg)" "lr_kind (lg_records reg ! i) \<noteq> kind"
      by auto
    have "filter (\<lambda>r. lr_kind r = kind) ((lg_records reg)[i := (lg_records reg ! i)\<lparr>lr_hold_count := h\<rparr>])
        = filter (\<lambda>r. lr_kind r = kind) (lg_records reg)" for h
      using i by (intro filter_update_other) auto
    with Some p show ?thesis
      by (simp add: acquire_lease_def try_acquire_at_def try_acquire_with_policy_at_def rows_def Let_def)
  next
    case None
    with p assms(1) show ?thesis
      by (auto simp: acquire_lease_def try_acquire_at_def try_acquire_with_policy_at_def rows_def
          new_record_def lease_next_token_def Let_def split: option.split)
  qed
qed

lemma drop_rows_other:
  assumes "kind' \<noteq> kind"
  shows "rows kind (drop_lease kind' guard reg) = rows kind reg"
proof -
  let ?P = "\<lambda>r. lr_kind r = kind' \<and> lr_owner r = fst guard \<and> lr_token r = snd guard"
  show ?thesis
  proof (cases "position ?P (lg_records reg)")
    case None
    then show ?thesis by (simp add: drop_lease_def release_token_def release_locked_def)
  next
    case (Some i)
    from position_Some [OF Some] assms have i: "i < length (lg_records reg)" "lr_kind (lg_records reg ! i) \<noteq> kind"
      by auto
    then show ?thesis using Some
      by (simp add: drop_lease_def release_token_def release_locked_def rows_def Let_def
          filter_update_other filter_remove_other)
  qed
qed

lemma kind_frame:
  "rows kind reg' = rows kind reg \<Longrightarrow> kind_wf kind reg' = kind_wf kind reg \<and> kind_held kind reg' = kind_held kind reg"
  by (simp add: kind_wf_def kind_held_def)

section \<open>Foreground turns\<close>

text \<open>
  One foreground user turn at a time. A turn starts exactly when the heavy-turn lease is free;
  while its guard lives every further turn is refused without touching the task counter, even though
  it asks with the same owner; and dropping the guard frees the lease and restores the counter.
\<close>
theorem foreground_turn_exclusive:
  assumes good: "kind_wf KAgentHeavyTurn reg"
  shows "(is_ok (snd (foreground_turn_new now (reg, st))) \<longleftrightarrow> kind_held KAgentHeavyTurn reg = None)
    \<and> (\<forall>reg1 st1 g. foreground_turn_new now (reg, st) = ((reg1, st1), Inr g) \<longrightarrow>
         (\<forall>now2 st2. \<exists>reg2 e. foreground_turn_new now2 (reg1, st2) = ((reg2, st2), Inl e)
             \<and> kind_held KAgentHeavyTurn (fst (foreground_turn_drop g (reg2, st1))) = None
             \<and> snd (foreground_turn_drop g (reg2, st1)) = st))"
  using good
proof (cases rule: rows_cases)
  case free
  obtain reg1 rec where a: "try_acquire_exclusive_once_at reg KAgentHeavyTurn foreground_owner None now ReplaceExpired
      = (reg1, Acquired rec)" and r: "rows KAgentHeavyTurn reg1 = [rec]" "plain_row rec"
      "lr_owner rec = foreground_owner" "lr_hold_count rec = 1"
    using once_free_row [OF good free(1), of foreground_owner now] by blast
  have g1: "kind_wf KAgentHeavyTurn reg1" using r by (simp add: kind_wf_def)
  have second: "\<exists>d. try_acquire_exclusive_once_at reg1 KAgentHeavyTurn foreground_owner None now2 ReplaceExpired
      = (reg1, Denied d)" for now2
    using once_held_row [OF g1 r(1)] by blast
  have last: "rows KAgentHeavyTurn (drop_lease KAgentHeavyTurn (foreground_owner, lr_token rec) reg1) = []"
    using release_row_last [OF g1 r(1) r(4)] r(3) by simp
  have first: "foreground_turn_new now (reg, st)
      = ((reg1, agent_task_guard_new st), Inr (foreground_owner, lr_token rec))"
    using a by (simp add: foreground_turn_new_def)
  have "\<exists>e. foreground_turn_new now2 (reg1, st2) = ((reg1, st2), Inl e)" for now2 st2
    using second [of now2] by (auto simp: foreground_turn_new_def)
  moreover have "snd (foreground_turn_drop (foreground_owner, lr_token rec) (reg1, agent_task_guard_new st)) = st"
    by (simp add: foreground_turn_drop_def agent_task_guard_new_def agent_task_guard_drop_def)
  moreover have "kind_held KAgentHeavyTurn
      (fst (foreground_turn_drop (foreground_owner, lr_token rec) (reg1, agent_task_guard_new st))) = None"
    using last by (simp add: foreground_turn_drop_def held_none)
  ultimately have "\<exists>reg2 e. foreground_turn_new now2 (reg1, st2) = ((reg2, st2), Inl e)
      \<and> kind_held KAgentHeavyTurn (fst (foreground_turn_drop (foreground_owner, lr_token rec)
          (reg2, agent_task_guard_new st))) = None
      \<and> snd (foreground_turn_drop (foreground_owner, lr_token rec) (reg2, agent_task_guard_new st)) = st"
    for now2 st2
    by blast
  with first free(2) show ?thesis by auto
next
  case (taken r)
  then show ?thesis
    using once_held_row [OF good taken(1), of foreground_owner now]
    by (auto simp: foreground_turn_new_def)
qed

theorem foreground_turn_exclusive_witness:
  "is_ok (snd (foreground_turn_new 5 (lease_registry_init, orchestrator_new)))
   \<and> kind_wf KAgentHeavyTurn lease_registry_init"
proof -
  have g: "kind_wf KAgentHeavyTurn lease_registry_init"
    by (simp add: kind_wf_def rows_def lease_registry_init_def)
  have "kind_held KAgentHeavyTurn lease_registry_init = None"
    by (simp add: held_none rows_def lease_registry_init_def)
  with foreground_turn_exclusive [OF g, of 5 orchestrator_new] g show ?thesis by blast
qed

end
