(* ===== verification/Network_Laws.thy ===== *)
theory Network_Laws
  imports Exclusive_Lease Orchestrator_Laws
begin

text \<open>
  What the transport governor promises besides the suspend protocol: when an HTTP permit is granted
  and how a refusal is classified, how the pressure level relates to TLS admission, that a
  voice-exclusive window is a bracket, what the reusable stream client leaves behind, and the
  bounded role store.
\<close>

section \<open>HTTP permits\<close>

lemma poll_until_total:
  "poll_until ready expired obs \<noteq> None \<longleftrightarrow> (\<exists>o1 \<in> set obs. ready o1 \<or> expired o1)"
  by (induction obs) auto

lemma tls_heap_error_class [simp]:
  "is_tls_admission (tls_heap_error m)" "is_retryable_upstream (tls_heap_error m)"
  by (simp_all add: tls_heap_error_def is_retryable_upstream_def is_tls_admission.simps)

lemma check_heap_result:
  "snd (check_internal_heap_for_tls t h w snap st) = Inr () \<longleftrightarrow> t = Host \<or> tls_resources_available snap"
  "snd (check_internal_heap_for_tls t h w snap st) = Inl e \<Longrightarrow> is_tls_admission e \<and> is_retryable_upstream e"
  by (cases t; force simp: check_internal_heap_for_tls_def tls_resources_available_def Let_def
      not_less word_neq_0_conv split: if_splits)+

lemma network_limit:
  fixes h w :: u32
  shows "of_nat (MAX_CONCURRENT_HTTP t) \<le> sat_add h w \<longleftrightarrow> MAX_CONCURRENT_HTTP t \<le> unat h + unat w"
  by (cases t) (simp_all add: word_le_nat_alt unat_sat_add)

text \<open>
  An HTTP permit counts one more active request, and one below high priority is only granted
  outside critical pressure and below the connection limit; on \<open>Esp\<close> every grant has the TLS
  resources. A refusal changes no transport state and is classified as a TLS-admission failure, so
  it is retried. On a host a request of high priority is always granted, and on \<open>Esp\<close> the request
  returns as soon as the mutex is free or the timeout has passed.
\<close>
theorem http_permit_admission:
  "(request_http_permit t priority timeout pressure tries snap (net, st) = Some ((net', st'), Inr ()) \<longrightarrow>
       nt_active_http net' = nt_active_http net + 1
       \<and> (priority < PriorityHigh \<longrightarrow> pressure \<noteq> PressureCritical
            \<and> unat (nt_active_http net) + unat (nt_active_wss net) < MAX_CONCURRENT_HTTP t)
       \<and> (t = Esp \<longrightarrow> tls_resources_available snap))
   \<and> (request_http_permit t priority timeout pressure tries snap (net, st) = Some ((net', st'), Inl e) \<longrightarrow>
       net' = net \<and> is_tls_admission e \<and> is_retryable_upstream e)
   \<and> (t = Host \<and> PriorityHigh \<le> priority \<longrightarrow>
       (\<exists>c. request_http_permit t priority timeout pressure tries snap (net, st) = Some (c, Inr ())))
   \<and> ((\<exists>o1 \<in> set tries. fst o1 \<or> timeout \<le> snd o1) \<longrightarrow>
       request_http_permit t priority timeout pressure tries snap (net, st) \<noteq> None)"
proof (intro conjI impI)
  let ?poll = "poll_until fst (\<lambda>(_, elapsed). timeout \<le> elapsed) tries"
  let ?check = "check_internal_heap_for_tls t (nt_active_http net) (nt_active_wss net) snap st"
  obtain st1 r1 where c: "?check = (st1, r1)" by (cases ?check)
  note ok = check_heap_result(1) [of t "nt_active_http net" "nt_active_wss net" snap st]
    and bad = check_heap_result(2) [of t "nt_active_http net" "nt_active_wss net" snap st]
  assume a: "request_http_permit t priority timeout pressure tries snap (net, st) = Some ((net', st'), Inr ())"
  then have "r1 = Inr ()"
    using c by (auto simp: request_http_permit_def Let_def split: if_splits option.splits bool.splits sum.splits)
  with c ok have "t = Esp \<Longrightarrow> tls_resources_available snap" by auto
  then show "t = Esp \<Longrightarrow> tls_resources_available snap" .
  show "nt_active_http net' = nt_active_http net + 1"
    using a c by (auto simp: request_http_permit_def Let_def split: if_splits option.splits bool.splits sum.splits)
  show "pressure \<noteq> PressureCritical" if "priority < PriorityHigh"
    using a that by (auto simp: request_http_permit_def)
  show "unat (nt_active_http net) + unat (nt_active_wss net) < MAX_CONCURRENT_HTTP t"
    if "priority < PriorityHigh"
    using a that by (auto simp: request_http_permit_def network_limit Let_def not_le split: if_splits)
next
  obtain st1 r1 where c: "check_internal_heap_for_tls t (nt_active_http net) (nt_active_wss net) snap st = (st1, r1)"
    by (cases "check_internal_heap_for_tls t (nt_active_http net) (nt_active_wss net) snap st")
  note bad = check_heap_result(2) [of t "nt_active_http net" "nt_active_wss net" snap st]
  assume a: "request_http_permit t priority timeout pressure tries snap (net, st) = Some ((net', st'), Inl e)"
  then have "net' = net \<and> ((\<exists>m. e = tls_heap_error m) \<or> r1 = Inl e)"
    using c by (auto simp: request_http_permit_def Let_def split: if_splits option.splits bool.splits sum.splits)
  with c bad [of e] show "net' = net" "is_tls_admission e" "is_retryable_upstream e" by auto
next
  assume "t = Host \<and> PriorityHigh \<le> priority"
  then show "\<exists>c. request_http_permit t priority timeout pressure tries snap (net, st) = Some (c, Inr ())"
    by (simp add: request_http_permit_def check_internal_heap_for_tls_def Let_def not_less [symmetric])
next
  assume "\<exists>o1 \<in> set tries. fst o1 \<or> timeout \<le> snd o1"
  then have "poll_until fst (\<lambda>(_, elapsed). timeout \<le> elapsed) tries \<noteq> None"
    by (auto simp only: poll_until_total split_beta)
  then show "request_http_permit t priority timeout pressure tries snap (net, st) \<noteq> None"
    by (auto simp: request_http_permit_def Let_def split: option.splits target.splits bool.splits sum.splits prod.splits)
qed

definition esp_snapshot :: "u32 \<Rightarrow> u32 \<Rightarrow> u32 \<Rightarrow> MemorySnapshot" where
  "esp_snapshot internal spiram largest =
     \<lparr>mem_heap_free_internal = internal, mem_heap_min_free_internal = internal,
      mem_heap_free_spiram = spiram, mem_heap_total_spiram = spiram, mem_heap_min_free_spiram = spiram,
      mem_heap_largest_block_spiram = spiram, mem_heap_largest_block = largest\<rparr>"

theorem http_permit_admission_witness:
  "\<exists>c. request_http_permit Host PriorityHigh 10 PressureCritical [] (esp_snapshot 0 0 0)
         (network_init, orchestrator_new) = Some (c, Inr ())"
  using http_permit_admission [of Host PriorityHigh 10 PressureCritical "[]" "esp_snapshot 0 0 0" network_init orchestrator_new]
  by simp

section \<open>Pressure and TLS admission\<close>

lemma snapshot_cells [simp]:
  "os_heap_free_internal (update_memory_snapshot st snap) = mem_heap_free_internal snap"
  "os_heap_free_spiram (update_memory_snapshot st snap) = mem_heap_free_spiram snap"
  "os_heap_largest_block (update_memory_snapshot st snap) = mem_heap_largest_block snap"
  by (simp_all add: update_memory_snapshot_def update_heap_def Let_def)

lemma applied_pressure:
  "current_pressure (apply_memory_snapshot t h w st snap) = compute_pressure t h w (update_memory_snapshot st snap)"
  by (simp add: apply_memory_snapshot_def current_pressure_def Let_def)

lemma normal_headroom:
  assumes "compute_pressure Esp h w st = PressureNormal" and "0 < os_heap_free_spiram st"
  shows "55296 \<le> unat (os_heap_free_internal st)"
    and "os_heap_largest_block st \<noteq> 0 \<longrightarrow> 28672 \<le> unat (os_heap_largest_block st)"
proof -
  have sp: "0 < unat (os_heap_free_spiram st)" using assms(2) by (simp add: word_less_nat_alt)
  show "55296 \<le> unat (os_heap_free_internal st)"
  proof (rule ccontr)
    assume "\<not> ?thesis"
    then have "unat (os_heap_free_internal st) < ESP_TRANSPORT_STEADY_INTERNAL_CAUTION_BYTES"
      by (simp add: ESP_TRANSPORT_STEADY_INTERNAL_CAUTION_BYTES_def TLS_ADMISSION_MIN_INTERNAL_BYTES_def)
    with assms sp show False by (auto simp: compute_pressure_def Let_def split: if_splits)
  qed
  show "os_heap_largest_block st \<noteq> 0 \<longrightarrow> 28672 \<le> unat (os_heap_largest_block st)"
  proof (intro impI, rule ccontr)
    assume "os_heap_largest_block st \<noteq> 0" "\<not> 28672 \<le> unat (os_heap_largest_block st)"
    with assms(2) have "tls_fragmentation_risk (os_heap_largest_block st) (os_heap_free_spiram st) \<in> {RiskCautious, RiskCritical}"
      by (auto simp: tls_fragmentation_risk_def Let_def word_less_nat_alt unat_sat_add
          TLS_ADMISSION_MIN_LARGEST_BLOCK_BYTES_def TLS_FRAGMENTATION_CAUTION_HEADROOM_BYTES_def)
    with assms(1) show False by (auto simp: compute_pressure_def Let_def split: if_splits)
  qed
qed

text \<open>
  On a board with PSRAM the pressure level and TLS admission agree: when a snapshot with a known
  largest block leaves the level normal, the TLS heap check of the same snapshot passes, with at
  least 16 kB of internal heap and 4 kB of contiguous block to spare.
\<close>
theorem normal_pressure_admits_tls:
  assumes "current_pressure (apply_memory_snapshot Esp h w st snap) = PressureNormal"
    and "0 < mem_heap_free_spiram snap" and "mem_heap_largest_block snap \<noteq> 0"
  shows "snd (check_internal_heap_for_tls Esp h w snap st) = Inr ()
    \<and> TLS_ADMISSION_MIN_INTERNAL_BYTES + 16 * 1024 \<le> unat (mem_heap_free_internal snap)
    \<and> TLS_ADMISSION_MIN_LARGEST_BLOCK_BYTES + 4 * 1024 \<le> unat (mem_heap_largest_block snap)"
proof -
  have n: "compute_pressure Esp h w (update_memory_snapshot st snap) = PressureNormal"
    using assms(1) by (simp add: applied_pressure)
  have b: "55296 \<le> unat (mem_heap_free_internal snap)" "28672 \<le> unat (mem_heap_largest_block snap)"
    using normal_headroom [OF n] assms(2,3) by simp_all
  moreover have "tls_resources_available snap"
    using b assms(2) by (simp add: tls_resources_available_def tls_min_free_def word_le_nat_alt
        TLS_ADMISSION_MIN_INTERNAL_BYTES_def TLS_ADMISSION_MIN_LARGEST_BLOCK_BYTES_def)
  ultimately show ?thesis
    by (simp add: check_heap_result TLS_ADMISSION_MIN_INTERNAL_BYTES_def TLS_ADMISSION_MIN_LARGEST_BLOCK_BYTES_def)
qed

lemma pressure_of_snapshot:
  "compute_pressure Esp 0 0 (update_memory_snapshot orchestrator_new (esp_snapshot 70000 4000000 30000)) = PressureNormal"
  "compute_pressure Esp 0 0 (update_memory_snapshot orchestrator_new (esp_snapshot 70000 0 60000)) = PressureNormal"
  by (simp_all add: compute_pressure_def tls_fragmentation_risk_def usage_percent_def sat_add_def Let_def
      ESP_TRANSPORT_STEADY_INTERNAL_CAUTION_BYTES_def TLS_ADMISSION_MIN_INTERNAL_BYTES_def
      TLS_ADMISSION_MIN_LARGEST_BLOCK_BYTES_def TLS_FRAGMENTATION_CAUTION_HEADROOM_BYTES_def
      PRESSURE_CAUTIOUS_PSRAM_MIN_BYTES_def PRESSURE_NORMAL_PSRAM_MIN_BYTES_def
      PRESSURE_QUEUE_CONGESTION_THRESHOLD_def orchestrator_new_def esp_snapshot_def
      update_memory_snapshot_def update_heap_def)

theorem normal_pressure_admits_tls_witness:
  "snd (check_internal_heap_for_tls Esp 0 0 (esp_snapshot 70000 4000000 30000) orchestrator_new) = Inr ()"
proof -
  have "current_pressure (apply_memory_snapshot Esp 0 0 orchestrator_new (esp_snapshot 70000 4000000 30000)) = PressureNormal"
    by (simp add: applied_pressure pressure_of_snapshot)
  then show ?thesis
    by (rule normal_pressure_admits_tls [THEN conjunct1]) (simp_all add: esp_snapshot_def)
qed

text \<open>
  Without PSRAM they do not agree: a snapshot with 70000 free bytes leaves the level normal while
  the TLS heap check of the same snapshot refuses, because it asks for 72 kB there and the pressure
  thresholds do not depend on whether there is PSRAM.
\<close>
theorem normal_pressure_without_psram_refuses_tls:
  "\<exists>snap. mem_heap_free_spiram snap = 0
     \<and> current_pressure (apply_memory_snapshot Esp 0 0 orchestrator_new snap) = PressureNormal
     \<and> \<not> is_ok (snd (check_internal_heap_for_tls Esp 0 0 snap orchestrator_new))"
proof (intro exI conjI)
  let ?s = "esp_snapshot 70000 0 60000"
  show "mem_heap_free_spiram ?s = 0" by (simp add: esp_snapshot_def)
  show "current_pressure (apply_memory_snapshot Esp 0 0 orchestrator_new ?s) = PressureNormal"
    by (simp add: applied_pressure pressure_of_snapshot)
  show "\<not> is_ok (snd (check_internal_heap_for_tls Esp 0 0 ?s orchestrator_new))"
    by (simp add: check_internal_heap_for_tls_def esp_snapshot_def tls_min_free_def
        TLS_ADMISSION_NO_PSRAM_MIN_BYTES_def Let_def)
qed

section \<open>Voice-exclusive windows\<close>

lemma voice_acquire_free:
  assumes "kind_wf KVoiceExclusive (nt_leases net)" "kind_held KVoiceExclusive (nt_leases net) = None"
  shows "\<exists>reg lease. acquire_voice_exclusive_lease now net = (net\<lparr>nt_leases := reg\<rparr>, Inr lease)
     \<and> kind_wf KVoiceExclusive reg \<and> kind_held KVoiceExclusive reg = Some (fst lease, snd lease, 1)"
proof -
  have "rows KVoiceExclusive (nt_leases net) = []" using assms(2) by (simp add: held_none)
  from acquire_free_row [OF assms(1) this, of "lease_owner ''voice'' ''voice_exclusive''" now]
  obtain reg' r where a: "try_acquire_at (nt_leases net) KVoiceExclusive (lease_owner ''voice'' ''voice_exclusive'')
      LExclusive None now = (reg', Acquired r)"
    and r: "rows KVoiceExclusive reg' = [r]" "plain_row r" "lr_owner r = lease_owner ''voice'' ''voice_exclusive''"
      "lr_hold_count r = 1" by blast
  from a have "acquire_voice_exclusive_lease now net
      = (net\<lparr>nt_leases := reg'\<rparr>, Inr (lease_owner ''voice'' ''voice_exclusive'', lr_token r))"
    by (simp add: acquire_voice_exclusive_lease_def with_leases_def acquire_lease_def)
  moreover have "kind_wf KVoiceExclusive reg'" using r by (simp add: kind_wf_def)
  moreover have "kind_held KVoiceExclusive reg' = Some (lease_owner ''voice'' ''voice_exclusive'', lr_token r, 1)"
    using r by simp
  ultimately show ?thesis by force
qed

lemma request_release_cells:
  assumes "nt_suspend_requests net \<noteq> - 1"
  shows "nt_suspend_requests (release_external_wss_suspend_request reason
           (request_external_wss_suspend_for_reason reason net)) = nt_suspend_requests net"
proof -
  have "decrement_floor (nt_suspend_requests net + 1) = nt_suspend_requests net"
    using assms by (rule decrement_floor_add)
  then show ?thesis
    by (cases reason; simp add: release_external_wss_suspend_request_def
        request_external_wss_suspend_for_reason_def decrement_external_wss_suspend_reason_def
        increment_external_wss_suspend_reason_def Let_def)
qed

text \<open>
  A voice-exclusive window is a bracket. From a state in which the voice lease is free, entering
  succeeds up to the wait, sets the flag, holds the lease and requests the suspend; and whether the
  wait then fails or the window is entered and its guard dropped later, the lease is free again, the
  flag is clear and the number of suspend requests is what it was, with the reasons reset when it is
  zero.
\<close>
theorem voice_window_bracket:
  assumes good: "kind_wf KVoiceExclusive (nt_leases net)" "kind_held KVoiceExclusive (nt_leases net) = None"
    and room: "nt_suspend_requests net \<noteq> - 1"
  shows "\<exists>net1 guard. voice_exclusive_enter_begin now net = (net1, Inr guard)
    \<and> nt_voice_exclusive net1 \<and> external_wss_suspend_requested net1
    \<and> kind_held KVoiceExclusive (nt_leases net1) \<noteq> None
    \<and> (\<forall>net2 \<in> {fst (voice_exclusive_enter_end (Inl e) guard net1), drop_voice_exclusive_guard guard net1}.
         \<not> nt_voice_exclusive net2 \<and> kind_held KVoiceExclusive (nt_leases net2) = None
         \<and> nt_suspend_requests net2 = nt_suspend_requests net
         \<and> (\<not> external_wss_suspend_requested net2 \<longrightarrow> external_wss_suspend_reason net2 = None))"
proof -
  obtain reg lease where a: "acquire_voice_exclusive_lease now net = (net\<lparr>nt_leases := reg\<rparr>, Inr lease)"
    and w: "kind_wf KVoiceExclusive reg" and h: "kind_held KVoiceExclusive reg = Some (fst lease, snd lease, 1)"
    using voice_acquire_free [OF good] by blast
  let ?net1 = "(request_external_wss_suspend_for_reason SuspendVoiceExclusive (net\<lparr>nt_leases := reg\<rparr>))
      \<lparr>nt_voice_exclusive := True\<rparr>"
  let ?guard = "\<lparr>vg_suspend_guard = \<lparr>sg_active = True, sg_reason = SuspendVoiceExclusive\<rparr>, vg_lease = lease\<rparr>"
  let ?net2 = "drop_voice_exclusive_guard ?guard ?net1"
  have enter: "voice_exclusive_enter_begin now net = (?net1, Inr ?guard)"
    using a by (simp add: voice_exclusive_enter_begin_def begin_external_wss_suspend_request_def)
  have same: "fst (voice_exclusive_enter_end (Inl e) ?guard ?net1) = ?net2"
    by (simp add: voice_exclusive_enter_end_def drop_voice_exclusive_guard_def)
  have "0 < nt_suspend_requests net + 1"
    using room by (simp add: word_gt_0 eq_neg_iff_add_eq_0)
  then have req: "external_wss_suspend_requested ?net1"
    by (simp add: external_wss_suspend_requested_def request_external_wss_suspend_for_reason_def
        increment_external_wss_suspend_reason_def Let_def)
  have held: "kind_held KVoiceExclusive (nt_leases ?net1) = Some (fst lease, snd lease, 1)"
    using h by (simp add: request_external_wss_suspend_for_reason_def
        increment_external_wss_suspend_reason_def Let_def)
  have dropped: "nt_leases ?net2 = kind_release KVoiceExclusive reg (fst lease) (snd lease)"
    by (simp add: drop_voice_exclusive_guard_def drop_voice_exclusive_lease_def drop_suspend_guard_def
        release_external_wss_suspend_request_def request_external_wss_suspend_for_reason_def
        decrement_external_wss_suspend_reason_def increment_external_wss_suspend_reason_def
        kind_release_def Let_def)
  have free: "kind_held KVoiceExclusive (nt_leases ?net2) = None"
    unfolding dropped by (rule kind_lease.release_last [OF w h])
  have flag: "\<not> nt_voice_exclusive ?net2"
    by (simp add: drop_voice_exclusive_guard_def drop_voice_exclusive_lease_def drop_suspend_guard_def
        release_external_wss_suspend_request_def decrement_external_wss_suspend_reason_def Let_def)
  have count: "nt_suspend_requests ?net2 = nt_suspend_requests net"
    using decrement_floor_add [OF room]
    by (simp add: drop_voice_exclusive_guard_def drop_voice_exclusive_lease_def drop_suspend_guard_def
        release_external_wss_suspend_request_def request_external_wss_suspend_for_reason_def
        decrement_external_wss_suspend_reason_def increment_external_wss_suspend_reason_def Let_def)
  have reason: "\<not> external_wss_suspend_requested ?net2 \<Longrightarrow> external_wss_suspend_reason ?net2 = None"
    by (auto simp: drop_voice_exclusive_guard_def drop_voice_exclusive_lease_def drop_suspend_guard_def
        release_external_wss_suspend_request_def decrement_external_wss_suspend_reason_def
        external_wss_suspend_requested_def external_wss_suspend_reason_def Let_def split: if_splits)
  show ?thesis
    using enter same req held free flag count reason by (intro exI [of _ ?net1] exI [of _ ?guard]) simp
qed

lemma init_voice: "kind_wf kind (nt_leases network_init)" "kind_held kind (nt_leases network_init) = None"
  by (simp_all add: kind_wf_def held_none rows_def network_init_def lease_registry_init_def)

theorem voice_window_bracket_witness:
  "\<exists>net1 guard. voice_exclusive_enter_begin 0 network_init = (net1, Inr guard)
     \<and> nt_suspend_requests (drop_voice_exclusive_guard guard net1) = 0"
proof -
  have "nt_suspend_requests network_init = 0" by (simp add: network_init_def)
  with voice_window_bracket [OF init_voice, of 0] show ?thesis by fastforce
qed

definition voice_row :: "u32 \<Rightarrow> LeaseRecord" where
  "voice_row holds =
     \<lparr>lr_token = 1, lr_kind = KVoiceExclusive, lr_owner = lease_owner ''voice'' ''voice_exclusive'',
      lr_mode = LExclusive, lr_acquired_at_ms = 0, lr_expires_at_ms = None, lr_hold_count = holds\<rparr>"

definition voice_entered :: "u32 \<Rightarrow> NetworkState" where
  "voice_entered n = network_init
     \<lparr>nt_leases := \<lparr>lg_records = [voice_row n], lg_next_token = 2\<rparr>, nt_voice_exclusive := True,
      nt_suspend_requests := n, nt_voice_requests := n\<rparr>"

definition voice_guard_1 :: voice_guard where
  "voice_guard_1 = \<lparr>vg_suspend_guard = \<lparr>sg_active = True, sg_reason = SuspendVoiceExclusive\<rparr>,
     vg_lease = (lease_owner ''voice'' ''voice_exclusive'', 1)\<rparr>"

lemmas voice_eval = voice_exclusive_enter_begin_def acquire_voice_exclusive_lease_def with_leases_def
  acquire_lease_def try_acquire_at_def try_acquire_with_policy_at_def deny_expired_replacement_if_forbidden_def
  remove_expired_for_kind_eq is_expired_def new_record_def lease_next_token_def first_active_conflict_def
  begin_external_wss_suspend_request_def request_external_wss_suspend_for_reason_def
  increment_external_wss_suspend_reason_def voice_row_def voice_entered_def voice_guard_1_def
  lease_registry_init_def network_init_def lease_owner_def sat_add_def Let_def

text \<open>
  Two windows can be open at once, because both ask for the lease as the same owner and
  re-enter it, and dropping the first clears the voice-exclusive flag while the second still holds
  the lease and the suspend request.
\<close>
theorem voice_flag_cleared_under_second_window:
  "\<exists>net1 g1 net2 g2. voice_exclusive_enter_begin 0 network_init = (net1, Inr g1)
     \<and> voice_exclusive_enter_begin 0 net1 = (net2, Inr g2)
     \<and> \<not> nt_voice_exclusive (drop_voice_exclusive_guard g1 net2)
     \<and> external_wss_suspend_requested (drop_voice_exclusive_guard g1 net2)
     \<and> kind_held KVoiceExclusive (nt_leases (drop_voice_exclusive_guard g1 net2))
         = Some (fst (vg_lease g2), snd (vg_lease g2), 1)"
proof (intro exI conjI)
  show "voice_exclusive_enter_begin 0 network_init = (voice_entered 1, Inr voice_guard_1)"
    by (simp add: voice_eval)
  show "voice_exclusive_enter_begin 0 (voice_entered 1) = (voice_entered 2, Inr voice_guard_1)"
    by (simp add: voice_eval)
  show "\<not> nt_voice_exclusive (drop_voice_exclusive_guard voice_guard_1 (voice_entered 2))"
    by (simp add: drop_voice_exclusive_guard_def drop_voice_exclusive_lease_def drop_suspend_guard_def
        release_external_wss_suspend_request_def decrement_external_wss_suspend_reason_def voice_eval)
  show "external_wss_suspend_requested (drop_voice_exclusive_guard voice_guard_1 (voice_entered 2))"
    by (simp add: drop_voice_exclusive_guard_def drop_voice_exclusive_lease_def drop_suspend_guard_def
        release_external_wss_suspend_request_def decrement_external_wss_suspend_reason_def
        external_wss_suspend_requested_def decrement_floor_def checked_sub_def voice_eval)
  show "kind_held KVoiceExclusive (nt_leases (drop_voice_exclusive_guard voice_guard_1 (voice_entered 2)))
      = Some (fst (vg_lease voice_guard_1), snd (vg_lease voice_guard_1), 1)"
    by (simp add: drop_voice_exclusive_guard_def drop_voice_exclusive_lease_def drop_suspend_guard_def
        release_external_wss_suspend_request_def decrement_external_wss_suspend_reason_def
        drop_lease_def release_token_def release_locked_def kind_held_def rows_def voice_eval)
qed

section \<open>The stream client\<close>

lemma invalidate_simps [simp]:
  "ss_client (invalidate_stream_http_slot s) = None"
  "ss_ops (invalidate_stream_http_slot s) = ss_ops s"
  "ss_creates (invalidate_stream_http_slot s) = ss_creates s"
  "ss_reuses (invalidate_stream_http_slot s) = ss_reuses s"
  by (simp_all add: invalidate_stream_http_slot_def split: option.split)

lemma with_slot_cases:
  "case with_stream_http_slot create op w slot of (w', slot', r) \<Rightarrow>
     ss_ops slot' = ss_ops slot + (if ss_client slot = None \<and> \<not> is_ok (snd (create w)) then 0 else 1)
     \<and> ss_creates slot' + ss_reuses slot' \<le> ss_creates slot + ss_reuses slot + 1
     \<and> ss_invalidates slot' = ss_invalidates slot
     \<and> (is_ok r \<longrightarrow> ss_client slot' \<noteq> None)"
  by (auto simp: with_stream_http_slot_def is_ok_def split: option.splits prod.splits sum.splits)

text \<open>
  The reusable stream client. An operation is tried at most twice; a successful call leaves a
  client in the slot for reuse, and a call that fails leaves none behind, so a broken connection is
  never reused; and its error is the error of the second try.
\<close>
theorem stream_op_outcome:
  assumes "execute_stream_http_op reset create op w slot = (w', slot', r)"
  shows "(is_ok r \<longleftrightarrow> ss_client slot' \<noteq> None)
    \<and> ss_creates slot' + ss_reuses slot' \<le> ss_creates slot + ss_reuses slot + 2
    \<and> ss_ops slot' \<in> {ss_ops slot, ss_ops slot + 1, ss_ops slot + 2}
    \<and> r = (case with_stream_http_slot create op w slot of
             (w1, slot1, Inr v) \<Rightarrow> Inr v
           | (w1, slot1, Inl _) \<Rightarrow>
               snd (snd (with_stream_http_slot create op w1 (fst (reset_stream_http_slot reset slot1)))))"
proof -
  obtain w1 slot1 r1 where one: "with_stream_http_slot create op w slot = (w1, slot1, r1)"
    by (cases "with_stream_http_slot create op w slot")
  note o1 = with_slot_cases [where create = create and op = op and w = w and slot = slot, unfolded one, simplified]
  show ?thesis
  proof (cases r1)
    case (Inr v)
    with assms one have e: "slot' = slot1" "r = r1" by (simp_all add: execute_stream_http_op_def)
    with Inr o1 one show ?thesis by (auto split: if_splits)
  next
    case (Inl e1)
    let ?slot2 = "fst (reset_stream_http_slot reset slot1)"
    obtain w3 slot3 r3 where two: "with_stream_http_slot create op w1 ?slot2 = (w3, slot3, r3)"
      by (cases "with_stream_http_slot create op w1 ?slot2")
    note o2 = with_slot_cases [where create = create and op = op and w = w1 and slot = ?slot2, unfolded two, simplified]
    have r: "ss_ops ?slot2 = ss_ops slot1" "ss_creates ?slot2 = ss_creates slot1" "ss_reuses ?slot2 = ss_reuses slot1"
      by (simp_all add: reset_stream_http_slot_def split: option.split)
    have ops: "ss_ops slot1 \<in> {ss_ops slot, ss_ops slot + 1}" "ss_ops slot3 \<in> {ss_ops slot1, ss_ops slot1 + 1}"
      using o1 o2 r by (auto split: if_splits)
    then have ops3: "ss_ops slot3 \<in> {ss_ops slot, ss_ops slot + 1, ss_ops slot + 2}" by auto
    show ?thesis
    proof (cases r3)
      case (Inr v)
      with assms one two Inl have "slot' = slot3" "r = r3" by (simp_all add: execute_stream_http_op_def Let_def)
      with Inr o1 o2 r ops3 one two \<open>r1 = Inl e1\<close> show ?thesis by auto
    next
      case (Inl e2)
      with assms one two \<open>r1 = Inl e1\<close> have e: "slot' = invalidate_stream_http_slot slot3" "r = r3"
        by (simp_all add: execute_stream_http_op_def Let_def)
      have "is_ok r \<longleftrightarrow> ss_client slot' \<noteq> None" using e Inl by simp
      moreover have "ss_creates slot' + ss_reuses slot' \<le> ss_creates slot + ss_reuses slot + 2"
        using e o1 o2 r by simp
      moreover have "ss_ops slot' \<in> {ss_ops slot, ss_ops slot + 1, ss_ops slot + 2}"
        using e ops3 by simp
      moreover have "r = snd (snd (with_stream_http_slot create op w1 ?slot2))" using two e by simp
      ultimately show ?thesis using one \<open>r1 = Inl e1\<close> by simp
    qed
  qed
qed

definition empty_slot :: "nat stream_slot" where
  "empty_slot = \<lparr>ss_client = None, ss_ops = 0, ss_creates = 0, ss_reuses = 0, ss_resets = 0, ss_invalidates = 0\<rparr>"

text \<open>An operation that fails once and then succeeds, on a counting world.\<close>

definition flaky :: "nat \<Rightarrow> nat \<Rightarrow> nat \<times> nat \<times> (Error + nat)" where
  "flaky w http = (w + 1, http, if w = 0 then Inl (ErrHttp 500 ''stream'') else Inr w)"

theorem stream_op_outcome_witness:
  "ss_client (fst (snd (execute_stream_http_op id (\<lambda>w. (w, Inr 7)) flaky 0 empty_slot))) \<noteq> None
   \<and> is_ok (snd (snd (execute_stream_http_op id (\<lambda>w. (w, Inr 7)) flaky 0 empty_slot)))"
proof -
  let ?x = "execute_stream_http_op id (\<lambda>w. (w, Inr 7)) flaky 0 empty_slot"
  have "is_ok (snd (snd ?x))"
    by (simp add: execute_stream_http_op_def with_stream_http_slot_def reset_stream_http_slot_def
        flaky_def empty_slot_def Let_def)
  moreover have "?x = (fst ?x, fst (snd ?x), snd (snd ?x))" by simp
  ultimately show ?thesis
    using stream_op_outcome [of id "\<lambda>w. (w, Inr 7)" flaky 0 empty_slot "fst ?x" "fst (snd ?x)" "snd (snd ?x)"]
    by blast
qed

section \<open>The role store\<close>

definition role_store_ok :: "(nat \<times> HttpThreadRole) list \<Rightarrow> bool" where
  "role_store_ok slots \<longleftrightarrow> distinct (map fst slots) \<and> length slots \<le> ROLE_SLOTS_MAX"

lemma find_key: "find (\<lambda>(key, _). key = k) slots = Some e \<Longrightarrow> fst e = k"
  by (induction slots) (auto split: if_splits)

lemma find_update:
  "position (\<lambda>(key, _). key = k) slots = Some i \<Longrightarrow>
     find (\<lambda>(key, _). key = k') (slots[i := (fst (slots ! i), r)])
       = (if k' = k then Some (k, r) else find (\<lambda>(key, _). key = k') slots)"
proof (induction slots arbitrary: i)
  case (Cons e slots)
  then show ?case by (cases i) (auto split: if_splits prod.splits)
qed simp

text \<open>
  The role store never exceeds its bound and never holds a task twice; after a task sets its
  role it reads that role back, and every other task reads what it read before, except that the
  task stored longest falls back to the background role when a new task is added to a full store.
\<close>
theorem thread_role_store:
  assumes ok: "role_store_ok slots" and key: "task_key \<noteq> 0"
  shows "role_store_ok (set_current_http_thread_role task_key role slots)
    \<and> current_http_thread_role task_key (set_current_http_thread_role task_key role slots) = role
    \<and> (\<forall>k'. k' \<noteq> task_key \<longrightarrow>
         current_http_thread_role k' (set_current_http_thread_role task_key role slots) = current_http_thread_role k' slots
         \<or> (length slots = ROLE_SLOTS_MAX \<and> task_key \<notin> fst ` set slots \<and> k' = fst (hd slots)
            \<and> current_http_thread_role k' (set_current_http_thread_role task_key role slots) = RoleBackground))"
proof (cases "position (\<lambda>(key, _). key = task_key) slots")
  case (Some i)
  from position_Some [OF Some] have i: "i < length slots" by simp
  have "map fst (slots[i := (fst (slots ! i), role)]) = map fst slots"
    using i by (simp add: map_update_same)
  with ok have "role_store_ok (slots[i := (fst (slots ! i), role)])"
    by (simp only: role_store_ok_def length_list_update simp_thms)
  with Some key find_update [OF Some] show ?thesis
    by (simp add: set_current_http_thread_role_def current_http_thread_role_def)
next
  case None
  then have new: "task_key \<notin> fst ` set slots" by (auto simp: position_None)
  then have nf: "find (\<lambda>(key, _). key = task_key) slots' = None" if "set slots' \<subseteq> set slots" for slots'
    using that by (force simp: find_None_iff)
  let ?kept = "if ROLE_SLOTS_MAX \<le> length slots then remove_at 0 slots else slots"
  have set_eq: "set_current_http_thread_role task_key role slots = ?kept @ [(task_key, role)]"
    using None key by (simp add: set_current_http_thread_role_def Let_def)
  have sub: "set ?kept \<subseteq> set slots" using set_remove_at [of 0 slots] by simp
  have kept: "distinct (map fst ?kept)" "length ?kept < ROLE_SLOTS_MAX"
    using ok by (auto simp: role_store_ok_def map_remove_at distinct_remove_at length_remove_at ROLE_SLOTS_MAX_def)
  have "task_key \<notin> fst ` set ?kept" using new sub by blast
  with kept have ok': "role_store_ok (?kept @ [(task_key, role)])"
    by (simp add: role_store_ok_def)
  have other: "current_http_thread_role k' (?kept @ [(task_key, role)]) = current_http_thread_role k' slots
         \<or> (length slots = ROLE_SLOTS_MAX \<and> k' = fst (hd slots)
            \<and> current_http_thread_role k' (?kept @ [(task_key, role)]) = RoleBackground)" if k': "k' \<noteq> task_key" for k'
  proof (cases "ROLE_SLOTS_MAX \<le> length slots")
    case False
    with k' show ?thesis by (simp add: current_http_thread_role_def find_append split: option.split)
  next
    case True
    with ok have full: "length slots = ROLE_SLOTS_MAX" by (simp add: role_store_ok_def)
    then obtain e rest where s: "slots = e # rest" by (cases slots) (auto simp: ROLE_SLOTS_MAX_def)
    show ?thesis
    proof (cases "fst e = k'")
      case hit: True
      then have "find (\<lambda>(key, _). key = k') rest = None"
        using ok s by (auto simp: find_None_iff role_store_ok_def image_iff)
      with hit s full k' show ?thesis
        by (simp add: current_http_thread_role_def find_append remove_at_def)
    next
      case False
      with s full k' show ?thesis
        by (cases e) (auto simp: current_http_thread_role_def find_append remove_at_def split: option.split)
    qed
  qed
  have mine: "current_http_thread_role task_key (?kept @ [(task_key, role)]) = role"
    using key nf [OF sub] by (simp add: current_http_thread_role_def find_append)
  show ?thesis
    unfolding set_eq using ok' mine other new by blast
qed

theorem thread_role_store_witness:
  "current_http_thread_role 5 (set_current_http_thread_role 5 RoleIo [(7, RoleInteractive)]) = RoleIo"
proof -
  have "role_store_ok [(7, RoleInteractive)]" by (simp add: role_store_ok_def ROLE_SLOTS_MAX_def)
  with thread_role_store [of "[(7, RoleInteractive)]" 5 RoleIo] show ?thesis by simp
qed

section \<open>Priority scopes\<close>

text \<open>Entering a sequence of scopes, innermost last, and leaving them innermost first.\<close>

fun enter_scopes :: "Priority list \<Rightarrow> override_slot \<Rightarrow> override_slot \<times> override_slot list" where
  "enter_scopes [] slot = (slot, [])"
| "enter_scopes (p # ps) slot =
     (let (slot1, guard) = override_guard_new slot p; (slot2, guards) = enter_scopes ps slot1
      in (slot2, guards @ [guard]))"

definition leave_scopes :: "override_slot list \<Rightarrow> override_slot \<Rightarrow> override_slot" where
  "leave_scopes guards slot = fold override_guard_drop guards slot"

text \<open>
  Nested priority scopes. Inside any nesting a request runs at the highest of its own priority
  and those of all open scopes, so an inner scope never lowers an outer one, and leaving the scopes
  in reverse order restores the slot.
\<close>
theorem priority_scopes:
  "effective_http_priority (fst (enter_scopes ps slot)) p
     = fold max ps (effective_http_priority slot p)
   \<and> leave_scopes (snd (enter_scopes ps slot)) (fst (enter_scopes ps slot)) = slot"
proof (induction ps arbitrary: slot)
  case Nil
  then show ?case by (simp add: leave_scopes_def)
next
  case (Cons q ps)
  let ?slot1 = "fst (override_guard_new slot q)"
  have "effective_http_priority ?slot1 p = max q (effective_http_priority slot p)"
    by (cases slot) (simp_all add: effective_http_priority_def override_guard_new_def max.commute max.left_commute)
  with Cons.IH [of ?slot1] show ?case
    by (simp add: leave_scopes_def split_beta Let_def override_guard_new_def override_guard_drop_def)
qed

end
