(* ===== verification/Wss_Protocol.thy ===== *)
theory Wss_Protocol
  imports Exclusive_Lease
begin

text \<open>
  The suspend protocol between the threads that connect external gateway sockets and the owners that
  suspend them (\<open>connect_external_wss_with_connector\<close>, \<open>wait_for_external_wss_resume\<close> and the
  suspend wait of \<open>src/src/network/mod.rs\<close>), as a step relation: every atomic access of a thread
  is a step of its own, and the steps of all threads interleave freely. The lease registry's lock
  orders the accesses on both sides of the second check, so the interleaving of whole accesses is
  the right model for the property below.
\<close>

section \<open>Connecting threads\<close>

text \<open>
  Where a connecting thread is in the loop of \<open>connect_external_wss_with_connector\<close>. The guards
  it owns are part of the position; from \<open>CCheck1\<close> to \<open>CHandshake\<close> it also owns the
  connect-attempt guard.
\<close>

datatype conn_pc =
    CStart
  | CWait bool
  | CBegin
  | CCheck1
  | CAcquire
  | CCheck2 lease_guard
  | CTls lease_guard
  | CHandshake lease_guard lease_guard
  | CConnected lease_guard
  | CFailed Error

(* network/mod.rs: fn wait_for_external_wss_resume *)
definition wait_for_external_wss_resume_step :: "bool \<Rightarrow> NetworkState \<Rightarrow> NetworkState \<times> bool option" where
  "wait_for_external_wss_resume_step logged net =
     (if external_wss_suspend_requested net then (set_external_wss_suspended True net, Some True)
      else (if logged then set_external_wss_suspended False net else net, None))"

text \<open>
  One step of the loop. The inputs are the owner's name, the clock, whether the outbound network is
  ready, and what the platform's connector returns.
\<close>

(* network/mod.rs: fn connect_external_wss_with_connector *)
fun connector_step :: "string \<Rightarrow> u64 \<Rightarrow> bool \<Rightarrow> Error + unit \<Rightarrow> NetworkState \<Rightarrow> conn_pc
    \<Rightarrow> NetworkState \<times> conn_pc" where
  "connector_step owner now ready outcome net CStart =
     (if ready then (net, CWait False)
      else (net, CFailed (err_config ''external_wss_network_ready''
             ''STA outbound network is not ready for external WSS connect'')))"
| "connector_step owner now ready outcome net (CWait logged) =
     (case wait_for_external_wss_resume_step logged net of
        (net', Some logged') \<Rightarrow> (net', CWait logged')
      | (net', None) \<Rightarrow> (net', CBegin))"
| "connector_step owner now ready outcome net CBegin =
     (begin_external_wss_connect_attempt net, CCheck1)"
| "connector_step owner now ready outcome net CCheck1 =
     (if external_wss_suspend_requested net then (drop_connect_attempt net, CStart) else (net, CAcquire))"
| "connector_step owner now ready outcome net CAcquire =
     (case acquire_external_wss_lease owner now net of
        (net', Inl e) \<Rightarrow> (drop_connect_attempt net', CFailed e)
      | (net', Inr lease) \<Rightarrow> (net', CCheck2 lease))"
| "connector_step owner now ready outcome net (CCheck2 lease) =
     (if external_wss_suspend_requested net
      then (drop_connect_attempt (drop_external_wss_lease lease net), CStart)
      else (net, CTls lease))"
| "connector_step owner now ready outcome net (CTls lease) =
     (case acquire_tls_handshake_lease owner now net of
        (net', Inl e) \<Rightarrow> (drop_connect_attempt (drop_external_wss_lease lease net'), CFailed e)
      | (net', Inr tls) \<Rightarrow> (net', CHandshake lease tls))"
| "connector_step owner now ready outcome net (CHandshake lease tls) =
     (case outcome of
        Inl e \<Rightarrow> (drop_connect_attempt (drop_external_wss_lease lease (drop_tls_handshake_lease tls net)), CFailed e)
      | Inr _ \<Rightarrow> (drop_connect_attempt (drop_tls_handshake_lease tls net), CConnected lease))"
| "connector_step owner now ready outcome net (CConnected lease) = (net, CConnected lease)"
| "connector_step owner now ready outcome net (CFailed e) = (net, CFailed e)"

text \<open>The owner of a connection drops it; a failed or dropped connection is tried again.\<close>

fun connector_restart :: "NetworkState \<Rightarrow> conn_pc \<Rightarrow> NetworkState \<times> conn_pc" where
  "connector_restart net (CConnected lease) = (drop_external_wss_lease lease net, CStart)"
| "connector_restart net (CFailed e) = (net, CStart)"
| "connector_restart net pc = (net, pc)"

section \<open>Suspending threads\<close>

text \<open>
  Where a suspending thread is: it has requested, and evaluates the four conjuncts of
  \<open>external_wss_suspend_target_drained\<close> one after the other, starting over when one is false.
\<close>

datatype suspend_pc = SIdle | SActive | SLeases | SConnecting | SManaged | SDrained

(* network/mod.rs: fn external_wss_suspend_target_drained *)
fun suspender_step :: "ExternalWssSuspendReason \<Rightarrow> u64 \<Rightarrow> NetworkState \<Rightarrow> suspend_pc
    \<Rightarrow> NetworkState \<times> suspend_pc" where
  "suspender_step reason now net SIdle = (fst (begin_external_wss_suspend_request reason net), SActive)"
| "suspender_step reason now net SActive = (net, if nt_active_external net = 0 then SLeases else SActive)"
| "suspender_step reason now net SLeases =
     (net, if active_external_wss_lease_count net now = 0 then SConnecting else SActive)"
| "suspender_step reason now net SConnecting = (net, if nt_connecting net = 0 then SManaged else SActive)"
| "suspender_step reason now net SManaged =
     (net, if \<not> nt_managed_present net \<or> nt_suspended net \<or> external_wss_suspend_requested net
           then SDrained else SActive)"
| "suspender_step reason now net SDrained = (net, SDrained)"

text \<open>Dropping the guard, after the window or on a timeout.\<close>

fun suspender_release :: "ExternalWssSuspendReason \<Rightarrow> NetworkState \<Rightarrow> suspend_pc \<Rightarrow> NetworkState \<times> suspend_pc" where
  "suspender_release reason net SIdle = (net, SIdle)"
| "suspender_release reason net pc =
     (drop_suspend_guard \<lparr>sg_active = True, sg_reason = reason\<rparr> net, SIdle)"

section \<open>The system\<close>

text \<open>
  A configuration: the shared state, the connecting threads with their owners, the suspending
  threads with their reasons. The cells that the rest of the program changes meanwhile (session
  counters, HTTP permits, the voice flag, the presence of a managed gateway) change freely.
\<close>

type_synonym wss_system = "NetworkState \<times> (string \<times> conn_pc) list \<times> (ExternalWssSuspendReason \<times> suspend_pc) list"

inductive wss_step :: "wss_system \<Rightarrow> wss_system \<Rightarrow> bool" where
  ws_connect: "i < length cs \<Longrightarrow> cs ! i = (owner, pc) \<Longrightarrow>
     connector_step owner now ready outcome net pc = (net', pc') \<Longrightarrow>
     wss_step (net, cs, ss) (net', cs[i := (owner, pc')], ss)"
| ws_restart: "i < length cs \<Longrightarrow> cs ! i = (owner, pc) \<Longrightarrow>
     connector_restart net pc = (net', pc') \<Longrightarrow>
     wss_step (net, cs, ss) (net', cs[i := (owner, pc')], ss)"
| ws_suspend: "j < length ss \<Longrightarrow> ss ! j = (reason, sp) \<Longrightarrow>
     suspender_step reason now net sp = (net', sp') \<Longrightarrow>
     wss_step (net, cs, ss) (net', cs, ss[j := (reason, sp')])"
| ws_release: "j < length ss \<Longrightarrow> ss ! j = (reason, sp) \<Longrightarrow>
     suspender_release reason net sp = (net', sp') \<Longrightarrow>
     wss_step (net, cs, ss) (net', cs, ss[j := (reason, sp')])"
| ws_other: "wss_step (net, cs, ss)
     (net\<lparr>nt_active_http := h, nt_active_wss := w, nt_active_external := e, nt_active_realtime := r,
          nt_managed_present := m, nt_tls_permit_held := p, nt_voice_exclusive := v\<rparr>, cs, ss)"

text \<open>Fewer threads than a counter can count.\<close>

inductive wss_reachable :: "wss_system \<Rightarrow> bool" where
  wr_start: "length cs < 2 ^ 32 - 1 \<Longrightarrow> length ss < 2 ^ 32 \<Longrightarrow>
     (\<forall>c \<in> set cs. snd c = CStart) \<Longrightarrow> (\<forall>s \<in> set ss. snd s = SIdle) \<Longrightarrow>
     wss_reachable (network_init, cs, ss)"
| wr_step: "wss_reachable s \<Longrightarrow> wss_step s s' \<Longrightarrow> wss_reachable s'"

section \<open>Invariant\<close>

fun lease_of :: "conn_pc \<Rightarrow> lease_guard multiset" where
  "lease_of (CCheck2 lease) = {#lease#}"
| "lease_of (CTls lease) = {#lease#}"
| "lease_of (CHandshake lease _) = {#lease#}"
| "lease_of (CConnected lease) = {#lease#}"
| "lease_of _ = {#}"

fun attempts :: "conn_pc \<Rightarrow> nat" where
  "attempts CCheck1 = 1"
| "attempts CAcquire = 1"
| "attempts (CCheck2 _) = 1"
| "attempts (CTls _) = 1"
| "attempts (CHandshake _ _) = 1"
| "attempts _ = 0"

fun passed :: "conn_pc \<Rightarrow> bool" where
  "passed (CTls _) = True"
| "passed (CHandshake _ _) = True"
| "passed (CConnected _) = True"
| "passed _ = False"

fun requests :: "suspend_pc \<Rightarrow> nat" where
  "requests SIdle = 0"
| "requests _ = 1"

definition saw_no_lease :: "suspend_pc \<Rightarrow> bool" where
  "saw_no_lease sp \<longleftrightarrow> sp = SConnecting \<or> sp = SManaged \<or> sp = SDrained"

definition live_leases :: "(string \<times> conn_pc) list \<Rightarrow> lease_guard multiset" where
  "live_leases cs = (\<Sum>c \<in># mset cs. lease_of (snd c))"

definition wss_inv :: "wss_system \<Rightarrow> bool" where
  "wss_inv s = (case s of (net, cs, ss) \<Rightarrow>
     length cs < 2 ^ 32 - 1 \<and> length ss < 2 ^ 32
     \<and> kind_lease.guards_ok KExternalWss (nt_leases net) (live_leases cs)
     \<and> kind_wf KTlsHandshake (nt_leases net)
     \<and> unat (nt_connecting net) = sum_list (map (\<lambda>c. attempts (snd c)) cs)
     \<and> unat (nt_suspend_requests net) = sum_list (map (\<lambda>s. requests (snd s)) ss)
     \<and> ((\<exists>s \<in> set ss. saw_no_lease (snd s)) \<longrightarrow> (\<forall>c \<in> set cs. \<not> passed (snd c))))"

lemma live_leases_update:
  assumes "i < length cs"
  shows "live_leases (cs[i := c]) = live_leases cs - lease_of (snd (cs ! i)) + lease_of (snd c)"
proof -
  from assms have "cs ! i \<in># mset cs" by simp
  then obtain R where R: "mset cs = add_mset (cs ! i) R" by (metis insert_DiffM)
  with assms have "mset (cs[i := c]) = add_mset c R" by (simp add: mset_update)
  with R show ?thesis by (simp add: live_leases_def)
qed

lemma live_leases_member: "i < length cs \<Longrightarrow> lease \<in># lease_of (snd (cs ! i)) \<Longrightarrow> lease \<in># live_leases cs"
  unfolding live_leases_def by (auto intro!: bexI [of _ "cs ! i"])

lemma size_live_leases: "size (live_leases cs) \<le> length cs"
proof (induction cs)
  case (Cons c cs)
  have "size (lease_of (snd c)) \<le> 1" by (cases "snd c") simp_all
  with Cons show ?case by (simp add: live_leases_def)
qed (simp add: live_leases_def)

lemma sum_list_bounded: "(\<And>x. x \<in> set xs \<Longrightarrow> f x \<le> 1) \<Longrightarrow> sum_list (map f xs) \<le> (length xs :: nat)"
  by (induction xs) force+

lemma sum_list_change:
  "i < length xs \<Longrightarrow> sum_list (map f (xs[i := x])) = sum_list (map f xs) - f (xs ! i) + (f x :: nat)"
  by (subst map_update, subst sum_list_update) (auto simp: member_le_sum_list)

lemma sum_list_ge: "i < length xs \<Longrightarrow> f (xs ! i) \<le> sum_list (map f xs :: nat list)"
  using member_le_sum_list [of "f (xs ! i)" "map f xs"] by simp

lemma attempts_le: "attempts pc \<le> 1"
  by (cases pc) simp_all

lemma requests_le: "requests sp \<le> 1"
  by (cases sp) simp_all

lemma attempts_bounded: "sum_list (map (\<lambda>c. attempts (snd c)) cs) \<le> length cs"
  by (rule sum_list_bounded) (rule attempts_le)

lemma requests_bounded: "sum_list (map (\<lambda>s. requests (snd s)) ss) \<le> length ss"
  by (rule sum_list_bounded) (rule requests_le)

lemma set_update_cases: "x \<in> set (xs[i := y]) \<Longrightarrow> x = y \<or> x \<in> set xs"
  using set_update_subset_insert [of xs i y] by blast

text \<open>What a step of a connecting thread has to keep.\<close>

lemma wss_inv_connect:
  assumes inv: "wss_inv (net, cs, ss)" and i: "i < length cs" "cs ! i = (owner, pc)"
    and leases: "kind_lease.guards_ok KExternalWss (nt_leases net')
                   (live_leases cs - lease_of pc + lease_of pc')"
    and tls: "kind_wf KTlsHandshake (nt_leases net')"
    and con: "unat (nt_connecting net') = unat (nt_connecting net) - attempts pc + attempts pc'"
    and req: "nt_suspend_requests net' = nt_suspend_requests net"
    and pas: "passed pc' \<Longrightarrow> passed pc \<or> nt_suspend_requests net = 0"
  shows "wss_inv (net', cs[i := (owner, pc')], ss)"
proof -
  have "\<not> passed (snd c)"
    if s: "s \<in> set ss" "saw_no_lease (snd s)" and c: "c \<in> set (cs[i := (owner, pc')])" for s c
  proof -
    have old: "\<forall>c \<in> set cs. \<not> passed (snd c)" using inv s by (auto simp: wss_inv_def)
    then have "\<not> passed pc" using i by (metis nth_mem snd_conv)
    moreover have "requests (snd s) = 1" using s(2) by (auto simp: saw_no_lease_def)
    then have "1 \<le> sum_list (map (\<lambda>s. requests (snd s)) ss)"
      using s(1) member_le_sum_list [of "requests (snd s)" "map (\<lambda>s. requests (snd s)) ss"] by force
    then have "1 \<le> unat (nt_suspend_requests net)" using inv by (simp add: wss_inv_def)
    then have "nt_suspend_requests net \<noteq> 0" by auto
    ultimately have "\<not> passed pc'" using pas by blast
    with old set_update_cases [OF c] show ?thesis by auto
  qed
  with inv i leases tls con req show ?thesis
    by (auto simp: wss_inv_def live_leases_update sum_list_change)
qed

lemma kind_acquire_stage:
  "kind_acquire kind reg o1 now = (let (reg', r) = acquire_lease kind stage o1 now reg in (reg', map_option snd (ok r)))"
  by (cases "try_acquire_at reg kind o1 LExclusive None now" rule: prod.exhaust;
      cases "snd (try_acquire_at reg kind o1 LExclusive None now)")
    (simp_all add: kind_acquire_def acquire_lease_def ok_def)

lemma acquire_lease_owner: "acquire_lease kind stage o1 now reg = (reg', Inr g) \<Longrightarrow> fst g = o1"
  by (auto simp: acquire_lease_def split: prod.splits LeaseDecision.splits)

lemma with_leases_Pair: "with_leases f net = (net', r) \<longleftrightarrow>
    (\<exists>reg. f (nt_leases net) = (reg, r) \<and> net' = net\<lparr>nt_leases := reg\<rparr>)"
  by (auto simp: with_leases_def split: prod.splits)

lemma guards_frame:
  "rows KExternalWss reg' = rows KExternalWss reg \<Longrightarrow>
     kind_lease.guards_ok KExternalWss reg' G = kind_lease.guards_ok KExternalWss reg G"
  using kind_frame [of KExternalWss reg' reg] by (simp add: kind_lease.guards_ok_def)

lemma guards_kind_wf: "kind_lease.guards_ok kind reg G \<Longrightarrow> kind_wf kind reg"
  by (simp add: kind_lease.guards_ok_def)

lemma acquire_external_effect:
  assumes G: "kind_lease.guards_ok KExternalWss (nt_leases net) G" and "size G < 2 ^ 32 - 1"
    and a: "acquire_external_wss_lease owner now net = (net', r)"
  shows "case r of Inl e \<Rightarrow> kind_lease.guards_ok KExternalWss (nt_leases net') G
           | Inr lease \<Rightarrow> kind_lease.guards_ok KExternalWss (nt_leases net') (add_mset lease G)"
    and "rows KTlsHandshake (nt_leases net') = rows KTlsHandshake (nt_leases net)"
    and "nt_connecting net' = nt_connecting net" "nt_suspend_requests net' = nt_suspend_requests net"
proof -
  let ?o = "channel_wss_lease_owner owner"
  obtain reg' where l: "acquire_lease KExternalWss ''external_wss_lease'' ?o now (nt_leases net) = (reg', r)"
    and n: "net' = net\<lparr>nt_leases := reg'\<rparr>"
    using a by (auto simp: acquire_external_wss_lease_def with_leases_Pair)
  have k: "kind_acquire KExternalWss (nt_leases net) ?o now = (reg', map_option snd (ok r))"
    using l by (simp add: kind_acquire_stage [of _ _ _ _ "''external_wss_lease''"])
  show "case r of Inl e \<Rightarrow> kind_lease.guards_ok KExternalWss (nt_leases net') G
           | Inr lease \<Rightarrow> kind_lease.guards_ok KExternalWss (nt_leases net') (add_mset lease G)"
  proof (cases r)
    case (Inl e)
    then show ?thesis using kind_lease.guards_acquire [OF G assms(2), of ?o now] k n by (simp add: ok_def)
  next
    case (Inr lease)
    with l have "fst lease = ?o" by (intro acquire_lease_owner) simp
    then have "lease = (?o, snd lease)" by (simp add: prod_eq_iff)
    with Inr show ?thesis
      using kind_lease.guards_acquire [OF G assms(2), of ?o now] k n by (simp add: ok_def)
  qed
  show "rows KTlsHandshake (nt_leases net') = rows KTlsHandshake (nt_leases net)"
    using acquire_rows_other [of KExternalWss KTlsHandshake "nt_leases net" "''external_wss_lease''" ?o now]
      guards_kind_wf [OF G] l n by simp
  show "nt_connecting net' = nt_connecting net" "nt_suspend_requests net' = nt_suspend_requests net"
    using n by simp_all
qed

lemma drop_external_effect:
  assumes "kind_lease.guards_ok KExternalWss (nt_leases net) G" and "lease \<in># G"
  shows "kind_lease.guards_ok KExternalWss (nt_leases (drop_external_wss_lease lease net)) (G - {#lease#})"
  using kind_lease.guards_release [OF assms(1), of "fst lease" "snd lease"] assms(2)
  by (simp add: drop_external_wss_lease_def kind_release_def)

lemma drop_external_frame [simp]:
  "rows KTlsHandshake (nt_leases (drop_external_wss_lease lease net)) = rows KTlsHandshake (nt_leases net)"
  "nt_connecting (drop_external_wss_lease lease net) = nt_connecting net"
  "nt_suspend_requests (drop_external_wss_lease lease net) = nt_suspend_requests net"
  by (simp_all add: drop_external_wss_lease_def drop_rows_other)

lemma acquire_tls_effect:
  assumes g: "kind_wf KTlsHandshake (nt_leases net)"
    and a: "acquire_tls_handshake_lease owner now net = (net', r)"
  shows "kind_wf KTlsHandshake (nt_leases net')"
    and "rows KExternalWss (nt_leases net') = rows KExternalWss (nt_leases net)"
    and "nt_connecting net' = nt_connecting net" "nt_suspend_requests net' = nt_suspend_requests net"
proof -
  let ?o = "channel_wss_lease_owner owner"
  obtain reg' where l: "acquire_lease KTlsHandshake ''tls_handshake_lease'' ?o now (nt_leases net) = (reg', r)"
    and n: "net' = net\<lparr>nt_leases := reg'\<rparr>"
    using a by (auto simp: acquire_tls_handshake_lease_def acquire_tls_handshake_lease_for_owner_def with_leases_Pair)
  have "kind_acquire KTlsHandshake (nt_leases net) ?o now = (reg', map_option snd (ok r))"
    using l by (simp add: kind_acquire_stage [of _ _ _ _ "''tls_handshake_lease''"])
  then show "kind_wf KTlsHandshake (nt_leases net')"
    using kind_acquire_good [OF g, of ?o now] n by simp
  show "rows KExternalWss (nt_leases net') = rows KExternalWss (nt_leases net)"
    using acquire_rows_other [of KTlsHandshake KExternalWss "nt_leases net" "''tls_handshake_lease''" ?o now]
      g l n by simp
  show "nt_connecting net' = nt_connecting net" "nt_suspend_requests net' = nt_suspend_requests net"
    using n by simp_all
qed

lemma drop_tls_frame [simp]:
  "rows KExternalWss (nt_leases (drop_tls_handshake_lease tls net)) = rows KExternalWss (nt_leases net)"
  "nt_connecting (drop_tls_handshake_lease tls net) = nt_connecting net"
  "nt_suspend_requests (drop_tls_handshake_lease tls net) = nt_suspend_requests net"
  by (simp_all add: drop_tls_handshake_lease_def drop_rows_other)

lemma drop_tls_good: "kind_wf KTlsHandshake (nt_leases net) \<Longrightarrow>
    kind_wf KTlsHandshake (nt_leases (drop_tls_handshake_lease tls net))"
  using drop_lease_good [of KTlsHandshake "nt_leases net" "fst tls" "snd tls"]
  by (simp add: drop_tls_handshake_lease_def)

lemma connect_attempt_frame [simp]:
  "nt_leases (drop_connect_attempt net) = nt_leases net"
  "nt_suspend_requests (drop_connect_attempt net) = nt_suspend_requests net"
  "nt_leases (begin_external_wss_connect_attempt net) = nt_leases net"
  "nt_suspend_requests (begin_external_wss_connect_attempt net) = nt_suspend_requests net"
  "unat (nt_connecting (drop_connect_attempt net)) = unat (nt_connecting net) - 1"
  by (simp_all add: drop_connect_attempt_def begin_external_wss_connect_attempt_def unat_decrement_floor)

lemma resume_frame:
  assumes "wait_for_external_wss_resume_step logged net = (net', r)"
  shows "nt_leases net' = nt_leases net" "nt_connecting net' = nt_connecting net"
    "nt_suspend_requests net' = nt_suspend_requests net"
  using assms by (auto simp: wait_for_external_wss_resume_step_def set_external_wss_suspended_def split: if_splits)

lemma tls_wf_frame: "rows KTlsHandshake reg' = rows KTlsHandshake reg \<Longrightarrow>
    kind_wf KTlsHandshake reg \<Longrightarrow> kind_wf KTlsHandshake reg'"
  using kind_frame [of KTlsHandshake reg' reg] by simp

text \<open>One step of a connecting thread: what it does to the cells the invariant reads.\<close>

definition step_effect :: "NetworkState \<Rightarrow> conn_pc \<Rightarrow> lease_guard multiset \<Rightarrow> NetworkState \<Rightarrow> conn_pc \<Rightarrow> bool" where
  "step_effect net pc G net' pc' \<longleftrightarrow>
     kind_lease.guards_ok KExternalWss (nt_leases net') (G - lease_of pc + lease_of pc')
     \<and> kind_wf KTlsHandshake (nt_leases net')
     \<and> unat (nt_connecting net') = unat (nt_connecting net) - attempts pc + attempts pc'
     \<and> nt_suspend_requests net' = nt_suspend_requests net
     \<and> (passed pc' \<longrightarrow> passed pc \<or> nt_suspend_requests net = 0)"

lemma connector_step_effect:
  assumes G: "kind_lease.guards_ok KExternalWss (nt_leases net) G" and size: "size G < 2 ^ 32 - 1"
    and tls: "kind_wf KTlsHandshake (nt_leases net)"
    and mine: "lease_of pc \<subseteq># G" "attempts pc \<le> unat (nt_connecting net)"
    and room: "unat (nt_connecting net) + 1 < 2 ^ 32 \<or> pc \<noteq> CBegin"
    and step: "connector_step owner now ready outcome net pc = (net', pc')"
  shows "step_effect net pc G net' pc'"
proof (cases pc)
  case CStart
  with step G tls show ?thesis by (auto simp: step_effect_def split: if_splits)
next
  case (CWait logged)
  obtain net1 r where w: "wait_for_external_wss_resume_step logged net = (net1, r)"
    by (cases "wait_for_external_wss_resume_step logged net")
  from resume_frame [OF w] CWait w step G tls show ?thesis
    by (auto simp: step_effect_def split: option.splits)
next
  case CBegin
  with room have "unat (nt_connecting net + 1) = unat (nt_connecting net) + 1"
    by (simp add: unat_word_ariths)
  with CBegin step G tls show ?thesis
    by (auto simp: step_effect_def begin_external_wss_connect_attempt_def)
next
  case CCheck1
  with step G tls mine show ?thesis by (auto simp: step_effect_def split: if_splits)
next
  case CAcquire
  obtain net1 r where a: "acquire_external_wss_lease owner now net = (net1, r)"
    by (cases "acquire_external_wss_lease owner now net")
  note eff = acquire_external_effect [OF G size a]
  from eff CAcquire a step tls_wf_frame [OF eff(2) tls] mine show ?thesis
    by (auto simp: step_effect_def split: sum.splits)
next
  case (CCheck2 lease)
  then have "lease \<in># G" using mine by simp
  note eff = drop_external_effect [OF G this]
  have "kind_wf KTlsHandshake (nt_leases (drop_external_wss_lease lease net))"
    by (rule tls_wf_frame [OF _ tls]) simp
  note t1 = this
  show ?thesis
  proof (cases "external_wss_suspend_requested net")
    case True
    with eff t1 CCheck2 step show ?thesis by (auto simp: step_effect_def)
  next
    case False
    then have "nt_suspend_requests net = 0" by (simp add: external_wss_suspend_requested_def word_gt_0)
    with False CCheck2 step G tls mine show ?thesis by (auto simp: step_effect_def)
  qed
next
  case (CTls lease)
  then have l: "lease \<in># G" using mine by simp
  obtain net1 r where a: "acquire_tls_handshake_lease owner now net = (net1, r)"
    by (cases "acquire_tls_handshake_lease owner now net")
  note eff = acquire_tls_effect [OF tls a]
  have G1: "kind_lease.guards_ok KExternalWss (nt_leases net1) G"
    using G guards_frame [OF eff(2)] by blast
  have "kind_wf KTlsHandshake (nt_leases (drop_external_wss_lease lease net1))"
    by (rule tls_wf_frame [OF _ eff(1)]) simp
  note t1 = this
  show ?thesis
  proof (cases r)
    case (Inl e)
    with CTls a step have "net' = drop_connect_attempt (drop_external_wss_lease lease net1)" "pc' = CFailed e"
      by simp_all
    with drop_external_effect [OF G1 l] t1 eff(3,4) CTls show ?thesis by (simp add: step_effect_def)
  next
    case (Inr tls1)
    with CTls a step have "net' = net1" "pc' = CHandshake lease tls1" by simp_all
    with G1 eff CTls mine l show ?thesis by (simp add: step_effect_def)
  qed
next
  case (CHandshake lease tls1)
  then have l: "lease \<in># G" using mine by simp
  let ?n = "drop_tls_handshake_lease tls1 net"
  have G1: "kind_lease.guards_ok KExternalWss (nt_leases ?n) G" using G guards_frame [OF drop_tls_frame(1), of tls1 net G] by blast
  have t1: "kind_wf KTlsHandshake (nt_leases ?n)" using tls by (rule drop_tls_good)
  have "kind_wf KTlsHandshake (nt_leases (drop_external_wss_lease lease ?n))"
    by (rule tls_wf_frame [OF _ t1]) simp
  note t2 = this
  show ?thesis
  proof (cases outcome)
    case (Inl e)
    with CHandshake step have "net' = drop_connect_attempt (drop_external_wss_lease lease ?n)" "pc' = CFailed e"
      by simp_all
    with drop_external_effect [OF G1 l] t2 CHandshake show ?thesis by (simp add: step_effect_def)
  next
    case (Inr u)
    with CHandshake step have "net' = drop_connect_attempt ?n" "pc' = CConnected lease" by simp_all
    with G1 t1 CHandshake mine l show ?thesis by (simp add: step_effect_def)
  qed
next
  case (CConnected lease)
  with step G tls mine show ?thesis by (auto simp: step_effect_def)
next
  case (CFailed e)
  with step G tls show ?thesis by (auto simp: step_effect_def)
qed

lemma connector_restart_effect:
  assumes G: "kind_lease.guards_ok KExternalWss (nt_leases net) G"
    and tls: "kind_wf KTlsHandshake (nt_leases net)" and mine: "lease_of pc \<subseteq># G" "attempts pc \<le> unat (nt_connecting net)"
    and step: "connector_restart net pc = (net', pc')"
  shows "step_effect net pc G net' pc'"
proof (cases "\<exists>lease. pc = CConnected lease")
  case False
  with step G tls mine show ?thesis by (cases pc) (auto simp: step_effect_def)
next
  case True
  then obtain lease where pc: "pc = CConnected lease" by blast
  then have l: "lease \<in># G" using mine by simp
  have "kind_wf KTlsHandshake (nt_leases (drop_external_wss_lease lease net))"
    by (rule tls_wf_frame [OF _ tls]) simp
  with drop_external_effect [OF G l] pc step show ?thesis by (auto simp: step_effect_def)
qed

section \<open>The invariant holds\<close>

lemma lease_of_live: "i < length cs \<Longrightarrow> lease_of (snd (cs ! i)) \<subseteq># live_leases cs"
proof -
  assume "i < length cs"
  then have "cs ! i \<in># mset cs" by simp
  then obtain R where "mset cs = add_mset (cs ! i) R" by (metis insert_DiffM)
  then show ?thesis by (simp add: live_leases_def)
qed

lemma wss_inv_effect:
  assumes inv: "wss_inv (net, cs, ss)" and i: "i < length cs" "cs ! i = (owner, pc)"
    and eff: "step_effect net pc (live_leases cs) net' pc'"
  shows "wss_inv (net', cs[i := (owner, pc')], ss)"
  using eff by (intro wss_inv_connect [OF inv i]) (simp_all add: step_effect_def)

lemma wss_inv_connector:
  assumes inv: "wss_inv (net, cs, ss)" and i: "i < length cs" "cs ! i = (owner, pc)"
  shows "connector_step owner now ready outcome net pc = (net', pc') \<Longrightarrow> wss_inv (net', cs[i := (owner, pc')], ss)"
    and "connector_restart net pc = (net', pc') \<Longrightarrow> wss_inv (net', cs[i := (owner, pc')], ss)"
proof -
  have G: "kind_lease.guards_ok KExternalWss (nt_leases net) (live_leases cs)"
    and tls: "kind_wf KTlsHandshake (nt_leases net)" and n: "length cs < 2 ^ 32 - 1"
    and con: "unat (nt_connecting net) = sum_list (map (\<lambda>c. attempts (snd c)) cs)"
    using inv by (simp_all add: wss_inv_def)
  have size: "size (live_leases cs) < 2 ^ 32 - 1"
    using size_live_leases n by (rule le_less_trans)
  have mine: "lease_of pc \<subseteq># live_leases cs" "attempts pc \<le> unat (nt_connecting net)"
    using lease_of_live [OF i(1)] sum_list_ge [OF i(1), of "\<lambda>c. attempts (snd c)"] i(2) con by simp_all
  have room: "unat (nt_connecting net) + 1 < 2 ^ 32 \<or> pc \<noteq> CBegin"
    using attempts_bounded [of cs] con n by simp
  show "connector_step owner now ready outcome net pc = (net', pc') \<Longrightarrow> wss_inv (net', cs[i := (owner, pc')], ss)"
    by (rule wss_inv_effect [OF inv i connector_step_effect [OF G size tls mine room]])
  show "connector_restart net pc = (net', pc') \<Longrightarrow> wss_inv (net', cs[i := (owner, pc')], ss)"
    by (rule wss_inv_effect [OF inv i connector_restart_effect [OF G tls mine]])
qed

lemma no_lease_seen:
  assumes "wss_inv (net, cs, ss)" and "active_external_wss_lease_count net now = 0"
  shows "\<forall>c \<in> set cs. \<not> passed (snd c)"
proof
  fix c
  assume c: "c \<in> set cs"
  have G: "kind_lease.guards_ok KExternalWss (nt_leases net) (live_leases cs)"
    using assms(1) by (simp add: wss_inv_def)
  from guards_kind_wf [OF G] have "kind_held KExternalWss (nt_leases net) = None"
  proof (cases rule: rows_cases)
    case (taken r)
    then have "r \<in> set (rows KExternalWss (nt_leases net))" by simp
    then have "r \<in> set (lg_records (nt_leases net))" by (simp add: rows_def)
    with taken(2,3) assms(2) show ?thesis
      by (auto simp: active_external_wss_lease_count_def active_count_for_kind_at_def filter_empty_conv)
  qed simp
  with G have "live_leases cs = {#}" by (simp add: kind_lease.guards_ok_def)
  moreover from c obtain i where "i < length cs" "cs ! i = c" by (metis in_set_conv_nth)
  ultimately have "lease_of (snd c) = {#}" using lease_of_live [of i cs] by auto
  then show "\<not> passed (snd c)" by (cases "snd c") auto
qed

lemma wss_inv_suspender:
  assumes inv: "wss_inv (net, cs, ss)" and j: "j < length ss" "ss ! j = (reason, sp)"
    and cells: "nt_leases net' = nt_leases net" "nt_connecting net' = nt_connecting net"
    and req: "unat (nt_suspend_requests net') = unat (nt_suspend_requests net) - requests sp + requests sp'"
    and saw: "saw_no_lease sp' \<Longrightarrow> saw_no_lease sp \<or> (\<forall>c \<in> set cs. \<not> passed (snd c))"
  shows "wss_inv (net', cs, ss[j := (reason, sp')])"
proof -
  have "\<forall>c \<in> set cs. \<not> passed (snd c)" if s: "s \<in> set (ss[j := (reason, sp')])" "saw_no_lease (snd s)" for s
  proof -
    have "(reason, sp) \<in> set ss" using j by (metis nth_mem)
    with inv have "saw_no_lease sp \<Longrightarrow> \<forall>c \<in> set cs. \<not> passed (snd c)"
      by (force simp: wss_inv_def)
    moreover have "s \<in> set ss \<Longrightarrow> \<forall>c \<in> set cs. \<not> passed (snd c)"
      using inv s(2) by (auto simp: wss_inv_def)
    ultimately show ?thesis using set_update_cases [OF s(1)] s(2) saw by (metis snd_conv)
  qed
  with inv j cells req show ?thesis
    by (auto simp: wss_inv_def sum_list_change)
qed

lemma release_request_frame [simp]:
  "nt_leases (release_external_wss_suspend_request reason net) = nt_leases net"
  "nt_connecting (release_external_wss_suspend_request reason net) = nt_connecting net"
  "nt_suspend_requests (release_external_wss_suspend_request reason net) = decrement_floor (nt_suspend_requests net)"
  by (cases reason; simp add: release_external_wss_suspend_request_def
      decrement_external_wss_suspend_reason_def Let_def)+

lemma request_frame [simp]:
  "nt_leases (request_external_wss_suspend_for_reason reason net) = nt_leases net"
  "nt_connecting (request_external_wss_suspend_for_reason reason net) = nt_connecting net"
  "nt_suspend_requests (request_external_wss_suspend_for_reason reason net) = nt_suspend_requests net + 1"
  by (cases reason; simp add: request_external_wss_suspend_for_reason_def
      increment_external_wss_suspend_reason_def Let_def)+

lemma wss_inv_suspender_step:
  assumes inv: "wss_inv (net, cs, ss)" and j: "j < length ss" "ss ! j = (reason, sp)"
    and step: "suspender_step reason now net sp = (net', sp')"
  shows "wss_inv (net', cs, ss[j := (reason, sp')])"
proof (cases "sp = SIdle")
  case True
  let ?f = "\<lambda>s. requests (snd s)"
  have "sum_list (map ?f (ss[j := (reason, SActive)])) \<le> length ss"
    using requests_bounded [of "ss[j := (reason, SActive)]"] by simp
  moreover have "sum_list (map ?f (ss[j := (reason, SActive)])) = unat (nt_suspend_requests net) + 1"
    using sum_list_change [OF j(1), of ?f "(reason, SActive)"] inv j(2) True by (simp add: wss_inv_def)
  moreover have "length ss < 2 ^ 32" using inv by (simp add: wss_inv_def)
  ultimately have "unat (nt_suspend_requests net + 1) = unat (nt_suspend_requests net) + 1"
    by (simp add: unat_word_ariths)
  with True step show ?thesis
    by (intro wss_inv_suspender [OF inv j])
      (auto simp: begin_external_wss_suspend_request_def saw_no_lease_def)
next
  case False
  with step have "net' = net" "requests sp' = requests sp"
    by (cases sp; auto)+
  moreover have "saw_no_lease sp' \<Longrightarrow> saw_no_lease sp \<or> (\<forall>c \<in> set cs. \<not> passed (snd c))"
    using False step no_lease_seen [OF inv, of now]
    by (cases sp) (auto simp: saw_no_lease_def split: if_splits)
  moreover have "requests sp \<le> unat (nt_suspend_requests net)"
    using sum_list_ge [OF j(1), of "\<lambda>s. requests (snd s)"] inv j(2) by (simp add: wss_inv_def)
  ultimately show ?thesis
    by (intro wss_inv_suspender [OF inv j]) simp_all
qed

lemma wss_inv_suspender_release:
  assumes inv: "wss_inv (net, cs, ss)" and j: "j < length ss" "ss ! j = (reason, sp)"
    and step: "suspender_release reason net sp = (net', sp')"
  shows "wss_inv (net', cs, ss[j := (reason, sp')])"
proof (cases "sp = SIdle")
  case True
  with step show ?thesis by (intro wss_inv_suspender [OF inv j]) (auto simp: saw_no_lease_def)
next
  case False
  with step have "net' = release_external_wss_suspend_request reason net" "sp' = SIdle" "requests sp = 1"
    by (cases sp; auto simp: drop_suspend_guard_def)+
  then show ?thesis
    by (intro wss_inv_suspender [OF inv j]) (auto simp: unat_decrement_floor saw_no_lease_def)
qed

lemma wss_step_inv: "wss_step s s' \<Longrightarrow> wss_inv s \<Longrightarrow> wss_inv s'"
proof (induction rule: wss_step.induct)
  case (ws_other net cs ss h w e r m p v)
  then show ?case by (simp add: wss_inv_def)
qed (blast intro: wss_inv_connector wss_inv_suspender_step wss_inv_suspender_release)+

lemma sum_list_zero: "(\<And>x. x \<in> set xs \<Longrightarrow> f x = 0) \<Longrightarrow> sum_list (map f xs) = (0 :: nat)"
  by (induction xs) auto

lemma wss_inv_start:
  assumes "length cs < 2 ^ 32 - 1" "length ss < 2 ^ 32" "\<forall>c \<in> set cs. snd c = CStart" "\<forall>s \<in> set ss. snd s = SIdle"
  shows "wss_inv (network_init, cs, ss)"
proof -
  have live: "live_leases cs = {#}"
    using assms(3) by (auto simp: live_leases_def)
  have rows: "rows kind (nt_leases network_init) = []" for kind
    by (simp add: rows_def network_init_def lease_registry_init_def)
  have "sum_list (map (\<lambda>c. attempts (snd c)) cs) = 0" "sum_list (map (\<lambda>s. requests (snd s)) ss) = 0"
    using assms(3,4) by (auto intro!: sum_list_zero)
  with assms live rows show ?thesis
    by (simp add: wss_inv_def kind_lease.guards_ok_def kind_wf_def held_none [THEN iffD2]
        saw_no_lease_def) (simp add: network_init_def)
qed

lemma wss_reachable_inv: "wss_reachable s \<Longrightarrow> wss_inv s"
  by (induction rule: wss_reachable.induct) (blast intro: wss_inv_start wss_step_inv)+

section \<open>Properties\<close>

text \<open>
  C2: the suspend protocol is safe under every interleaving of any number of connecting and
  suspending threads. Once a suspending thread has seen the external sockets drained, and for as
  long as it keeps its request, no connecting thread holds or is establishing an external
  connection: none is past the second suspend check.
\<close>
theorem suspend_excludes_connections:
  assumes "wss_reachable (net, cs, ss)" and "(reason, SDrained) \<in> set ss" and "(owner, pc) \<in> set cs"
  shows "\<not> (\<exists>lease. pc = CTls lease \<or> pc = CConnected lease \<or> (\<exists>tls. pc = CHandshake lease tls))"
proof -
  have "wss_inv (net, cs, ss)" using assms(1) by (rule wss_reachable_inv)
  moreover have "\<exists>s \<in> set ss. saw_no_lease (snd s)"
    using assms(2) by (auto simp: saw_no_lease_def intro: bexI [of _ "(reason, SDrained)"])
  ultimately have "\<not> passed pc" using assms(3) by (auto simp: wss_inv_def)
  then show ?thesis by auto
qed

text \<open>A thread that requests, evaluates the four reads and finds nothing to wait for.\<close>

lemma drained_reachable:
  "\<exists>net. wss_reachable (net, [(''qq'', CStart)], [(SuspendVoiceExclusive, SDrained)])"
proof -
  let ?n = "fst (begin_external_wss_suspend_request SuspendVoiceExclusive network_init)"
  have idle: "nt_active_external ?n = 0" "active_external_wss_lease_count ?n 0 = 0" "nt_connecting ?n = 0"
    "external_wss_suspend_requested ?n"
    by (simp_all add: begin_external_wss_suspend_request_def request_external_wss_suspend_for_reason_def
        increment_external_wss_suspend_reason_def active_external_wss_lease_count_def
        active_count_for_kind_at_def external_wss_suspend_requested_def network_init_def
        lease_registry_init_def Let_def)
  have step: "wss_reachable (net, [(''qq'', CStart)], [(SuspendVoiceExclusive, sp')])"
    if "wss_reachable (net0, [(''qq'', CStart)], [(SuspendVoiceExclusive, sp)])"
      "suspender_step SuspendVoiceExclusive 0 net0 sp = (net, sp')" for net0 net sp sp'
    using wr_step [OF that(1) ws_suspend [OF _ _ that(2)], of 0] by simp
  have "wss_reachable (network_init, [(''qq'', CStart)], [(SuspendVoiceExclusive, SIdle)])"
    by (rule wr_start) simp_all
  then have "wss_reachable (?n, [(''qq'', CStart)], [(SuspendVoiceExclusive, SActive)])"
    by (rule step) simp
  then have "wss_reachable (?n, [(''qq'', CStart)], [(SuspendVoiceExclusive, SLeases)])"
    by (rule step) (simp add: idle)
  then have "wss_reachable (?n, [(''qq'', CStart)], [(SuspendVoiceExclusive, SConnecting)])"
    by (rule step) (simp add: idle)
  then have "wss_reachable (?n, [(''qq'', CStart)], [(SuspendVoiceExclusive, SManaged)])"
    by (rule step) (simp add: idle)
  then have "wss_reachable (?n, [(''qq'', CStart)], [(SuspendVoiceExclusive, SDrained)])"
    by (rule step) (simp add: idle)
  then show ?thesis ..
qed

theorem suspend_excludes_connections_witness:
  "\<exists>net. wss_reachable (net, [(''qq'', CStart)], [(SuspendVoiceExclusive, SDrained)])
     \<and> \<not> (\<exists>lease. CStart = CTls lease \<or> CStart = CConnected lease \<or> (\<exists>tls. CStart = CHandshake lease tls))"
proof -
  obtain net where r: "wss_reachable (net, [(''qq'', CStart)], [(SuspendVoiceExclusive, SDrained)])"
    using drained_reachable ..
  have "\<not> (\<exists>lease. CStart = CTls lease \<or> CStart = CConnected lease \<or> (\<exists>tls. CStart = CHandshake lease tls))"
    by (rule suspend_excludes_connections [OF r, of SuspendVoiceExclusive "''qq''"]) simp_all
  with r show ?thesis by blast
qed

text \<open>
  The protocol's counters and leases are exact in every reachable state: the connecting counter
  is the number of threads between their two guards' acquisition and release and never wraps or
  floors, the suspend counter is the number of threads with a live request, and all external leases
  in use belong to one owner and one record whose hold count is their number.
\<close>
theorem wss_counters_exact:
  assumes "wss_reachable (net, cs, ss)"
  shows "unat (nt_connecting net) = sum_list (map (\<lambda>c. attempts (snd c)) cs)
     \<and> unat (nt_suspend_requests net) = length (filter (\<lambda>s. snd s \<noteq> SIdle) ss)
     \<and> (external_wss_suspend_requested net \<longleftrightarrow> (\<exists>s \<in> set ss. snd s \<noteq> SIdle))
     \<and> (\<forall>lease \<in># live_leases cs.
          kind_held KExternalWss (nt_leases net) = Some (fst lease, snd lease, size (live_leases cs)))"
proof -
  have inv: "wss_inv (net, cs, ss)" using assms by (rule wss_reachable_inv)
  have count: "sum_list (map (\<lambda>s. requests (snd s)) ss) = length (filter (\<lambda>s. snd s \<noteq> SIdle) ss)" for ss
  proof (induction ss)
    case (Cons s ss)
    then show ?case by (cases "snd s") simp_all
  qed simp
  have n: "unat (nt_suspend_requests net) = length (filter (\<lambda>s. snd s \<noteq> SIdle) ss)"
    using inv count by (simp add: wss_inv_def)
  moreover have "external_wss_suspend_requested net \<longleftrightarrow> 0 < unat (nt_suspend_requests net)"
    by (simp add: external_wss_suspend_requested_def word_less_nat_alt)
  then have "external_wss_suspend_requested net \<longleftrightarrow> (\<exists>s \<in> set ss. snd s \<noteq> SIdle)"
    unfolding n by (simp add: filter_empty_conv)
  moreover have "kind_held KExternalWss (nt_leases net) = Some (fst lease, snd lease, size (live_leases cs))"
    if "lease \<in># live_leases cs" for lease
    using kind_lease.guards_held [of KExternalWss "nt_leases net" "live_leases cs" "fst lease" "snd lease"]
      inv that by (simp add: wss_inv_def)
  ultimately show ?thesis using inv by (simp add: wss_inv_def)
qed

theorem wss_counters_exact_witness:
  "\<exists>net. external_wss_suspend_requested net
     \<and> wss_reachable (net, [(''qq'', CStart)], [(SuspendVoiceExclusive, SDrained)])"
proof -
  obtain net where r: "wss_reachable (net, [(''qq'', CStart)], [(SuspendVoiceExclusive, SDrained)])"
    using drained_reachable ..
  with wss_counters_exact [OF r] show ?thesis by auto
qed

end
