(* ===== verification/Net_State.thy ===== *)
theory Net_State
  imports Error_Model
begin

text \<open>
  The in-process shared state of \<open>src/src/state.rs\<close>: the recent error with its window, the WiFi
  station's stage machine and the network snapshot derived from it, and the operator window. The
  static cells are the fields of \<open>NetCells\<close>; the wall clock in seconds is an argument. The mode
  flags of the same file are the facts of \<open>RuntimeModeSource\<close>.

  The lemmas show that the stage, the link flag and the reason code stay consistent, what the
  snapshot implies, and when an error or an operator window expires.
\<close>

section \<open>Data\<close>

(* state.rs: const LAST_ERRORS_COUNT_CAP *)
definition LAST_ERRORS_COUNT_CAP :: nat where
  "LAST_ERRORS_COUNT_CAP = 10"

(* state.rs: const CURRENT_ERROR_TTL_SECS *)
definition CURRENT_ERROR_TTL_SECS :: u64 where
  "CURRENT_ERROR_TTL_SECS = 60"

(* state.rs: struct TimedError *)
record TimedError =
  te_message :: string
  te_seen_at_secs :: u64

(* state.rs: enum NetworkWifiStage *)
datatype NetworkWifiStage =
    ApOnly | StaConnecting | StaAuthFailed | StaApNotFound | StaL2Connected | StaWaitingDhcp
  | StaIpReady | StaRecovering | StaFallbackAp

fun stage_as_u8 :: "NetworkWifiStage \<Rightarrow> u8" where
  "stage_as_u8 ApOnly = 0"
| "stage_as_u8 StaConnecting = 1"
| "stage_as_u8 StaAuthFailed = 2"
| "stage_as_u8 StaApNotFound = 3"
| "stage_as_u8 StaL2Connected = 4"
| "stage_as_u8 StaWaitingDhcp = 5"
| "stage_as_u8 StaIpReady = 6"
| "stage_as_u8 StaRecovering = 7"
| "stage_as_u8 StaFallbackAp = 8"

(* state.rs: impl NetworkWifiStage / fn from_byte *)
definition stage_from_byte :: "u8 \<Rightarrow> NetworkWifiStage" where
  "stage_from_byte raw =
     (if raw = 1 then StaConnecting else if raw = 2 then StaAuthFailed
      else if raw = 3 then StaApNotFound else if raw = 4 then StaL2Connected
      else if raw = 5 then StaWaitingDhcp else if raw = 6 then StaIpReady
      else if raw = 7 then StaRecovering else if raw = 8 then StaFallbackAp else ApOnly)"

(* state.rs: impl NetworkWifiStage / fn implies_l2_connected *)
definition implies_l2_connected :: "NetworkWifiStage \<Rightarrow> bool" where
  "implies_l2_connected stage \<longleftrightarrow> stage = StaL2Connected \<or> stage = StaWaitingDhcp \<or> stage = StaIpReady"

(* state.rs: struct NetworkRuntimeSnapshot *)
record NetworkRuntimeSnapshot =
  nr_sta_expected :: bool
  nr_sta_configured :: bool
  nr_sta_connecting :: bool
  nr_sta_l2_connected :: bool
  nr_sta_ip_present :: bool
  nr_outbound_settled :: bool
  nr_wall_clock_trustworthy :: bool
  nr_last_wifi_stage :: NetworkWifiStage
  nr_last_wifi_reason_code :: "u16 option"

(* state.rs: lines 12-30 the static cells *)
record NetCells =
  ns_last_error :: "string option"
  ns_current_error :: "TimedError option"
  ns_last_errors_count :: nat
  ns_wifi_sta_connected :: bool
  ns_wifi_sta_connected_since_secs :: u32
  ns_wifi_sta_ip :: "string option"
  ns_network_sta_expected :: bool
  ns_network_sta_configured :: bool
  ns_network_wifi_stage :: u8
  ns_network_wifi_reason_code :: u32
  ns_network_sta_l2_connected :: bool
  ns_esp_operator_window_until_secs :: u32

definition net_cells_init :: NetCells where
  "net_cells_init =
     \<lparr>ns_last_error = None, ns_current_error = None, ns_last_errors_count = 0,
      ns_wifi_sta_connected = False, ns_wifi_sta_connected_since_secs = 0, ns_wifi_sta_ip = None,
      ns_network_sta_expected = False, ns_network_sta_configured = False,
      ns_network_wifi_stage = stage_as_u8 ApOnly, ns_network_wifi_reason_code = - 1,
      ns_network_sta_l2_connected = False, ns_esp_operator_window_until_secs = 0\<rparr>"

section \<open>Errors\<close>

(* state.rs: fn sanitize_error_for_log *)
definition sanitize_error_for_log :: "Error \<Rightarrow> string" where
  "sanitize_error_for_log e = err_display e"

text \<open>The error counter is a \<open>usize\<close> and wraps at the target's width.\<close>

(* state.rs: fn set_last_error *)
definition set_last_error :: "target \<Rightarrow> u64 \<Rightarrow> Error \<Rightarrow> NetCells \<Rightarrow> NetCells" where
  "set_last_error t now_secs e cells =
     (let msg = sanitize_error_for_log e
      in cells\<lparr>ns_last_error := Some msg,
               ns_current_error := Some \<lparr>te_message = msg, te_seen_at_secs = now_secs\<rparr>,
               ns_last_errors_count := (ns_last_errors_count cells + 1) mod 2 ^ usize_bits t\<rparr>)"

(* state.rs: fn get_last_errors_count *)
definition get_last_errors_count :: "NetCells \<Rightarrow> nat" where
  "get_last_errors_count cells = min (ns_last_errors_count cells) LAST_ERRORS_COUNT_CAP"

(* state.rs: fn get_last_error *)
definition get_last_error :: "NetCells \<Rightarrow> string option" where
  "get_last_error cells = ns_last_error cells"

(* state.rs: fn get_current_error_at *)
definition get_current_error_at :: "u64 \<Rightarrow> NetCells \<Rightarrow> NetCells \<times> string option" where
  "get_current_error_at now_secs cells =
     (case ns_current_error cells of
        Some err \<Rightarrow>
          (if sat_sub now_secs (te_seen_at_secs err) \<le> CURRENT_ERROR_TTL_SECS
           then (cells, Some (te_message err))
           else (cells\<lparr>ns_current_error := None\<rparr>, None))
      | None \<Rightarrow> (cells, None))"

section \<open>The WiFi station\<close>

(* state.rs: fn set_network_wifi_stage *)
definition set_network_wifi_stage :: "NetworkWifiStage \<Rightarrow> u16 option \<Rightarrow> NetCells \<Rightarrow> NetCells" where
  "set_network_wifi_stage stage reason_code cells =
     cells\<lparr>ns_network_wifi_stage := stage_as_u8 stage,
           ns_network_sta_l2_connected := implies_l2_connected stage,
           ns_network_wifi_reason_code := (case reason_code of Some code \<Rightarrow> ucast code | None \<Rightarrow> - 1)\<rparr>"

(* state.rs: fn set_wifi_sta_state *)
definition set_wifi_sta_state :: "u64 \<Rightarrow> bool \<Rightarrow> string option \<Rightarrow> NetCells \<Rightarrow> NetCells" where
  "set_wifi_sta_state now_secs connected ip cells =
     (let was_connected = ns_wifi_sta_connected cells;
          cells = cells\<lparr>ns_wifi_sta_connected := connected\<rparr>;
          cells = (if connected
                   then (let cells = set_network_wifi_stage StaIpReady None cells
                         in if \<not> was_connected
                            then cells\<lparr>ns_wifi_sta_connected_since_secs := ucast now_secs\<rparr>
                            else cells)
                   else cells\<lparr>ns_wifi_sta_connected_since_secs := 0\<rparr>)
      in cells\<lparr>ns_wifi_sta_ip := (if connected then ip else None)\<rparr>)"

(* state.rs: fn network_last_wifi_stage *)
definition network_last_wifi_stage :: "NetCells \<Rightarrow> NetworkWifiStage" where
  "network_last_wifi_stage cells = stage_from_byte (ns_network_wifi_stage cells)"

(* state.rs: fn clear_wifi_sta_state *)
definition clear_wifi_sta_state :: "u64 \<Rightarrow> NetCells \<Rightarrow> NetCells" where
  "clear_wifi_sta_state now_secs cells =
     (let cells = (set_wifi_sta_state now_secs False None cells)\<lparr>ns_network_sta_l2_connected := False\<rparr>;
          stage = stage_from_byte (ns_network_wifi_stage cells)
      in if \<not> ns_network_sta_expected cells \<or> \<not> ns_network_sta_configured cells
         then set_network_wifi_stage ApOnly None cells
         else if stage = StaL2Connected \<or> stage = StaWaitingDhcp \<or> stage = StaIpReady
         then set_network_wifi_stage StaRecovering None cells
         else cells)"

(* state.rs: fn set_network_sta_expected *)
definition set_network_sta_expected :: "bool \<Rightarrow> bool \<Rightarrow> NetCells \<Rightarrow> NetCells" where
  "set_network_sta_expected expected configured cells =
     (let cells = cells\<lparr>ns_network_sta_expected := expected, ns_network_sta_configured := configured\<rparr>
      in if \<not> expected \<or> \<not> configured then set_network_wifi_stage ApOnly None cells else cells)"

(* state.rs: fn network_last_wifi_stage_has_reasoned_failure *)
definition network_last_wifi_stage_has_reasoned_failure :: "NetCells \<Rightarrow> bool" where
  "network_last_wifi_stage_has_reasoned_failure cells \<longleftrightarrow>
     (let stage = network_last_wifi_stage cells
      in stage = StaAuthFailed \<or> stage = StaApNotFound \<or> stage = StaFallbackAp \<or> stage = StaRecovering)
     \<and> ns_network_wifi_reason_code cells \<noteq> - 1"

(* state.rs: fn mark_network_wifi_connecting_attempt *)
definition mark_network_wifi_connecting_attempt :: "NetCells \<Rightarrow> NetCells" where
  "mark_network_wifi_connecting_attempt cells =
     (if \<not> network_last_wifi_stage_has_reasoned_failure cells
      then set_network_wifi_stage StaConnecting None cells else cells)"

(* state.rs: fn wifi_sta_settled_for_outbound *)
definition wifi_sta_settled_for_outbound :: "u64 \<Rightarrow> u64 \<Rightarrow> NetCells \<Rightarrow> bool" where
  "wifi_sta_settled_for_outbound now_secs min_connected_secs cells \<longleftrightarrow>
     (if \<not> ns_wifi_sta_connected cells then False
      else let since = ucast (ns_wifi_sta_connected_since_secs cells) :: u64
           in since \<noteq> 0 \<and> min_connected_secs \<le> sat_sub now_secs since)"

(* state.rs: fn network_runtime_snapshot *)
definition network_runtime_snapshot :: "u64 \<Rightarrow> bool \<Rightarrow> u64 \<Rightarrow> NetCells \<Rightarrow> NetworkRuntimeSnapshot" where
  "network_runtime_snapshot now_secs wall_clock_trustworthy outbound_settle_secs cells =
     (let last_wifi_stage = network_last_wifi_stage cells;
          sta_ip_present = ns_wifi_sta_connected cells;
          reason_code = ns_network_wifi_reason_code cells
      in \<lparr>nr_sta_expected = ns_network_sta_expected cells,
          nr_sta_configured = ns_network_sta_configured cells,
          nr_sta_connecting = (last_wifi_stage = StaConnecting \<or> last_wifi_stage = StaRecovering),
          nr_sta_l2_connected = (sta_ip_present \<or> ns_network_sta_l2_connected cells),
          nr_sta_ip_present = sta_ip_present,
          nr_outbound_settled = wifi_sta_settled_for_outbound now_secs outbound_settle_secs cells,
          nr_wall_clock_trustworthy = wall_clock_trustworthy,
          nr_last_wifi_stage = last_wifi_stage,
          nr_last_wifi_reason_code =
            (if reason_code = - 1 then None
             else if unat reason_code < 2 ^ 16 then Some (ucast reason_code) else None)\<rparr>)"

(* network/mod.rs: fn external_wss_network_suspend_reason *)
definition external_wss_network_suspend_reason :: "NetworkRuntimeSnapshot \<Rightarrow> string option" where
  "external_wss_network_suspend_reason snapshot =
     (if \<not> nr_sta_expected snapshot \<or> \<not> nr_sta_configured snapshot then Some ''wifi_not_configured''
      else if \<not> nr_outbound_settled snapshot then Some ''wifi_not_ready''
      else if \<not> nr_wall_clock_trustworthy snapshot then Some ''wall_clock_untrusted''
      else None)"

section \<open>The operator window\<close>

(* state.rs: fn open_esp_operator_window *)
definition open_esp_operator_window :: "u64 \<Rightarrow> u64 \<Rightarrow> NetCells \<Rightarrow> NetCells \<times> u64" where
  "open_esp_operator_window now_secs ttl_secs cells =
     (let expires_at = sat_add now_secs ttl_secs;
          expires_at_u32 = (if unat expires_at < 2 ^ 32 then ucast expires_at else - 1) :: u32
      in (cells\<lparr>ns_esp_operator_window_until_secs := expires_at_u32\<rparr>, ucast expires_at_u32))"

(* state.rs: fn esp_operator_window_until *)
definition esp_operator_window_until :: "u64 \<Rightarrow> NetCells \<Rightarrow> NetCells \<times> u64 option" where
  "esp_operator_window_until now_secs cells =
     (let until = ucast (ns_esp_operator_window_until_secs cells) :: u64
      in if until = 0 then (cells, None)
         else if until \<le> now_secs then (cells\<lparr>ns_esp_operator_window_until_secs := 0\<rparr>, None)
         else (cells, Some until))"

(* state.rs: fn esp_operator_window_active *)
definition esp_operator_window_active :: "u64 \<Rightarrow> NetCells \<Rightarrow> NetCells \<times> bool" where
  "esp_operator_window_active now_secs cells =
     (let (cells, until) = esp_operator_window_until now_secs cells in (cells, until \<noteq> None))"

(* state.rs: fn clear_esp_operator_window *)
definition clear_esp_operator_window :: "NetCells \<Rightarrow> NetCells" where
  "clear_esp_operator_window cells = cells\<lparr>ns_esp_operator_window_until_secs := 0\<rparr>"

section \<open>The stage machine\<close>

lemma stage_from_as [simp]: "stage_from_byte (stage_as_u8 stage) = stage"
  by (cases stage) (simp_all add: stage_from_byte_def)

lemma stage_bytes [simp]:
  "stage_from_byte 0 = ApOnly" "stage_from_byte 1 = StaConnecting" "stage_from_byte 2 = StaAuthFailed"
  "stage_from_byte 6 = StaIpReady" "stage_from_byte 7 = StaRecovering"
  by (simp_all add: stage_from_byte_def)

text \<open>
  Every operation on the station, with any arguments, in any order; the platform's WiFi events call
  \<open>set_network_wifi_stage\<close> with the stages and reason codes they see.
\<close>

inductive station_reachable :: "NetCells \<Rightarrow> bool" where
  st_init: "station_reachable net_cells_init"
| st_stage: "station_reachable c \<Longrightarrow> station_reachable (set_network_wifi_stage stage reason c)"
| st_state: "station_reachable c \<Longrightarrow> station_reachable (set_wifi_sta_state now connected ip c)"
| st_clear: "station_reachable c \<Longrightarrow> station_reachable (clear_wifi_sta_state now c)"
| st_expected: "station_reachable c \<Longrightarrow> station_reachable (set_network_sta_expected e f c)"
| st_mark: "station_reachable c \<Longrightarrow> station_reachable (mark_network_wifi_connecting_attempt c)"
| st_error: "station_reachable c \<Longrightarrow> station_reachable (set_last_error t now err c)"
| st_expire: "station_reachable c \<Longrightarrow> station_reachable (fst (get_current_error_at now c))"
| st_window: "station_reachable c \<Longrightarrow> station_reachable (fst (open_esp_operator_window now ttl c))"
| st_until: "station_reachable c \<Longrightarrow> station_reachable (fst (esp_operator_window_until now c))"

definition station_inv :: "NetCells \<Rightarrow> bool" where
  "station_inv c \<longleftrightarrow>
     (ns_network_sta_l2_connected c \<longleftrightarrow> implies_l2_connected (network_last_wifi_stage c))
     \<and> (ns_network_wifi_reason_code c = - 1 \<or> unat (ns_network_wifi_reason_code c) < 2 ^ 16)
     \<and> (ns_wifi_sta_ip c \<noteq> None \<longrightarrow> ns_wifi_sta_connected c)
     \<and> (\<not> ns_wifi_sta_connected c \<longrightarrow> ns_wifi_sta_connected_since_secs c = 0)"

lemma unat_u16_less [simp]: "unat (x :: u16) < 65536"
  using unat_le_max [of x] by simp

lemma station_inv_stage [inv_intros]: "station_inv c \<Longrightarrow> station_inv (set_network_wifi_stage stage reason c)"
  by (auto simp: station_inv_def set_network_wifi_stage_def network_last_wifi_stage_def split: option.split)

lemma station_inv_reachable: "station_reachable c \<Longrightarrow> station_inv c"
proof (induction rule: station_reachable.induct)
  case st_init
  show ?case by (simp add: station_inv_def net_cells_init_def network_last_wifi_stage_def implies_l2_connected_def stage_from_byte_def)
next
  case (st_stage c stage reason)
  then show ?case by (blast intro: inv_intros)
next
  case (st_state c now connected ip)
  then show ?case
    by (auto simp: station_inv_def set_wifi_sta_state_def set_network_wifi_stage_def
        network_last_wifi_stage_def Let_def)
next
  case (st_clear c now)
  then show ?case
    by (auto simp: station_inv_def clear_wifi_sta_state_def set_wifi_sta_state_def
        set_network_wifi_stage_def network_last_wifi_stage_def implies_l2_connected_def Let_def)
next
  case (st_expected c e f)
  then show ?case
    by (auto simp: station_inv_def set_network_sta_expected_def set_network_wifi_stage_def
        network_last_wifi_stage_def implies_l2_connected_def Let_def)
next
  case (st_mark c)
  then show ?case by (auto simp: mark_network_wifi_connecting_attempt_def intro: inv_intros)
next
  case (st_error c t now err)
  then show ?case by (simp add: station_inv_def set_last_error_def network_last_wifi_stage_def Let_def)
next
  case (st_expire c now)
  then show ?case
    by (simp add: station_inv_def get_current_error_at_def network_last_wifi_stage_def split: option.split)
next
  case (st_window c now ttl)
  then show ?case by (simp add: station_inv_def open_esp_operator_window_def network_last_wifi_stage_def Let_def)
next
  case (st_until c now)
  then show ?case by (simp add: station_inv_def esp_operator_window_until_def network_last_wifi_stage_def Let_def)
qed

section \<open>Properties\<close>

lemma settled_iff:
  "wifi_sta_settled_for_outbound now secs c \<longleftrightarrow>
     ns_wifi_sta_connected c \<and> 0 < unat (ns_wifi_sta_connected_since_secs c)
     \<and> unat secs \<le> unat now - unat (ns_wifi_sta_connected_since_secs c)"
  by (simp add: wifi_sta_settled_for_outbound_def word_le_nat_alt unat_sat_sub unat_pos Let_def)

text \<open>
  The network snapshot of every reachable state is consistent. A settled network has an address,
  an address implies the link, and the link flag is otherwise exactly what the stage implies; no
  reason code is lost by the conversion to 16 bits; a known address implies a connected station;
  and an external gateway may connect exactly when the station is wanted and configured, connected
  for the settle time, and the wall clock can be trusted.
\<close>
theorem network_snapshot_consistent:
  assumes "station_reachable c" and s_def: "s = network_runtime_snapshot now trusted settle c"
  shows "(nr_outbound_settled s \<longrightarrow> nr_sta_ip_present s) \<and> (nr_sta_ip_present s \<longrightarrow> nr_sta_l2_connected s)
    \<and> (\<not> nr_sta_ip_present s \<longrightarrow>
         (nr_sta_l2_connected s \<longleftrightarrow> implies_l2_connected (nr_last_wifi_stage s)) \<and> ns_wifi_sta_ip c = None)
    \<and> map_option unat (nr_last_wifi_reason_code s)
        = (if ns_network_wifi_reason_code c = - 1 then None else Some (unat (ns_network_wifi_reason_code c)))
    \<and> (external_wss_network_suspend_reason s = None \<longleftrightarrow>
         ns_network_sta_expected c \<and> ns_network_sta_configured c \<and> trusted
         \<and> ns_wifi_sta_connected c \<and> 0 < unat (ns_wifi_sta_connected_since_secs c)
         \<and> unat (ns_wifi_sta_connected_since_secs c) + unat settle \<le> max (unat now) (unat (ns_wifi_sta_connected_since_secs c)))"
proof (intro conjI)
  have inv: "station_inv c" using assms(1) by (rule station_inv_reachable)
  show "nr_outbound_settled s \<longrightarrow> nr_sta_ip_present s"
    by (simp add: s_def network_runtime_snapshot_def wifi_sta_settled_for_outbound_def Let_def)
  show "nr_sta_ip_present s \<longrightarrow> nr_sta_l2_connected s"
    by (simp add: s_def network_runtime_snapshot_def Let_def)
  show "\<not> nr_sta_ip_present s \<longrightarrow>
         (nr_sta_l2_connected s \<longleftrightarrow> implies_l2_connected (nr_last_wifi_stage s)) \<and> ns_wifi_sta_ip c = None"
    using inv by (auto simp: s_def network_runtime_snapshot_def station_inv_def Let_def)
  have "unat (ucast x :: u16) = unat x" if "unat x < 2 ^ 16" for x :: u32
    using that by (simp add: unsigned_ucast_eq take_bit_nat_eq_self)
  then show "map_option unat (nr_last_wifi_reason_code s)
        = (if ns_network_wifi_reason_code c = - 1 then None else Some (unat (ns_network_wifi_reason_code c)))"
    using inv by (auto simp: s_def network_runtime_snapshot_def station_inv_def Let_def)
  show "external_wss_network_suspend_reason s = None \<longleftrightarrow>
         ns_network_sta_expected c \<and> ns_network_sta_configured c \<and> trusted
         \<and> ns_wifi_sta_connected c \<and> 0 < unat (ns_wifi_sta_connected_since_secs c)
         \<and> unat (ns_wifi_sta_connected_since_secs c) + unat settle \<le> max (unat now) (unat (ns_wifi_sta_connected_since_secs c))"
    by (auto simp: external_wss_network_suspend_reason_def s_def network_runtime_snapshot_def settled_iff Let_def)
qed

definition joined :: NetCells where
  "joined = set_wifi_sta_state 100 True (Some ''10.0.0.7'') (set_network_sta_expected True True net_cells_init)"

lemma joined_reachable: "station_reachable joined"
  unfolding joined_def by (intro station_reachable.intros)

theorem network_snapshot_consistent_witness:
  "external_wss_network_suspend_reason (network_runtime_snapshot 115 True 15 joined) = None"
proof -
  have "external_wss_network_suspend_reason (network_runtime_snapshot 115 True 15 joined) = None \<longleftrightarrow>
         ns_network_sta_expected joined \<and> ns_network_sta_configured joined \<and> True
         \<and> ns_wifi_sta_connected joined \<and> 0 < unat (ns_wifi_sta_connected_since_secs joined)
         \<and> unat (ns_wifi_sta_connected_since_secs joined) + unat (15 :: u64)
             \<le> max (unat (115 :: u64)) (unat (ns_wifi_sta_connected_since_secs joined))"
    using network_snapshot_consistent [OF joined_reachable refl, of 115 True 15] by blast
  then show ?thesis
    by (simp add: joined_def set_wifi_sta_state_def set_network_sta_expected_def
        set_network_wifi_stage_def net_cells_init_def Let_def)
qed

text \<open>
  A failure with a reason code stays visible. While the station is wanted and configured, neither
  a new connection attempt nor a lost connection overwrites its stage and reason; only a new stage
  report or an obtained address does.
\<close>
theorem reasoned_failure_retained:
  assumes "network_last_wifi_stage_has_reasoned_failure c"
    and "ns_network_sta_expected c" and "ns_network_sta_configured c"
  shows "network_last_wifi_stage (mark_network_wifi_connecting_attempt c) = network_last_wifi_stage c
    \<and> network_last_wifi_stage (clear_wifi_sta_state now c) = network_last_wifi_stage c
    \<and> network_last_wifi_stage_has_reasoned_failure (mark_network_wifi_connecting_attempt c)
    \<and> network_last_wifi_stage_has_reasoned_failure (clear_wifi_sta_state now c)
    \<and> ns_network_wifi_reason_code (clear_wifi_sta_state now c) = ns_network_wifi_reason_code c"
proof -
  have mark: "mark_network_wifi_connecting_attempt c = c"
    using assms(1) by (simp add: mark_network_wifi_connecting_attempt_def)
  have keep: "clear_wifi_sta_state now c
      = (set_wifi_sta_state now False None c)\<lparr>ns_network_sta_l2_connected := False\<rparr>"
    using assms by (auto simp: clear_wifi_sta_state_def set_wifi_sta_state_def Let_def
        network_last_wifi_stage_has_reasoned_failure_def network_last_wifi_stage_def)
  show ?thesis
    using assms(1) unfolding mark keep
    by (simp add: set_wifi_sta_state_def Let_def network_last_wifi_stage_has_reasoned_failure_def
        network_last_wifi_stage_def)
qed

definition refused :: NetCells where
  "refused = set_network_wifi_stage StaAuthFailed (Some 202) (set_network_sta_expected True True net_cells_init)"

theorem reasoned_failure_retained_witness:
  "network_last_wifi_stage (clear_wifi_sta_state 9 refused) = StaAuthFailed"
proof -
  have "network_last_wifi_stage_has_reasoned_failure refused" "ns_network_sta_expected refused"
    "ns_network_sta_configured refused" "network_last_wifi_stage refused = StaAuthFailed"
    by (simp_all add: refused_def set_network_wifi_stage_def set_network_sta_expected_def net_cells_init_def
        network_last_wifi_stage_has_reasoned_failure_def network_last_wifi_stage_def Let_def)
  with reasoned_failure_retained [of refused 9] show ?thesis by simp
qed

text \<open>
  The error and operator windows. An error is current for 60 seconds after it was set, and
  reading it later clears it for good while the last error stays; an operator window is open
  until the saturated sum of the clock and its duration, and a read at or after that time closes it.
\<close>
theorem recent_windows:
  "snd (get_current_error_at now' (set_last_error t now e c))
     = (if unat now' - unat now \<le> 60 then Some (err_display e) else None)
   \<and> (60 < unat now' - unat now \<longrightarrow>
        snd (get_current_error_at now'' (fst (get_current_error_at now' (set_last_error t now e c)))) = None)
   \<and> get_last_error (fst (get_current_error_at now' (set_last_error t now e c))) = Some (err_display e)
   \<and> (snd (esp_operator_window_active now' (fst (open_esp_operator_window now ttl c)))
        \<longleftrightarrow> unat now' < min (unat now + unat ttl) (2 ^ 32 - 1))
   \<and> (\<not> snd (esp_operator_window_active now' (fst (open_esp_operator_window now ttl c))) \<longrightarrow>
        \<not> snd (esp_operator_window_active now''
             (fst (esp_operator_window_active now' (fst (open_esp_operator_window now ttl c))))))"
proof (intro conjI impI)
  have le: "sat_sub now' now \<le> CURRENT_ERROR_TTL_SECS \<longleftrightarrow> unat now' - unat now \<le> 60"
    by (simp add: word_le_nat_alt unat_sat_sub CURRENT_ERROR_TTL_SECS_def)
  show "snd (get_current_error_at now' (set_last_error t now e c))
     = (if unat now' - unat now \<le> 60 then Some (err_display e) else None)"
    by (simp add: get_current_error_at_def set_last_error_def sanitize_error_for_log_def le Let_def)
  show "60 < unat now' - unat now \<Longrightarrow>
        snd (get_current_error_at now'' (fst (get_current_error_at now' (set_last_error t now e c)))) = None"
    by (simp add: get_current_error_at_def set_last_error_def le Let_def)
  show "get_last_error (fst (get_current_error_at now' (set_last_error t now e c))) = Some (err_display e)"
    by (simp add: get_current_error_at_def set_last_error_def get_last_error_def sanitize_error_for_log_def Let_def)
  let ?u = "ns_esp_operator_window_until_secs (fst (open_esp_operator_window now ttl c))"
  have small: "unat (ucast x :: u32) = unat x" if "unat x < 2 ^ 32" for x :: u64
    using that by (simp add: unsigned_ucast_eq take_bit_nat_eq_self)
  have u: "unat ?u = min (unat now + unat ttl) (2 ^ 32 - 1)"
    using small by (auto simp: open_esp_operator_window_def unat_sat_add unat_max Let_def)
  have z: "(ucast ?u :: u64) = 0 \<longleftrightarrow> unat ?u = 0"
    by (simp only: ucast_32_64_eq_0 unat_eq_zero)
  have act: "snd (esp_operator_window_active now' (fst (open_esp_operator_window now ttl c))) \<longleftrightarrow> unat now' < unat ?u"
    using z by (auto simp: esp_operator_window_active_def esp_operator_window_until_def word_le_nat_alt Let_def)
  then show "snd (esp_operator_window_active now' (fst (open_esp_operator_window now ttl c)))
        \<longleftrightarrow> unat now' < min (unat now + unat ttl) (2 ^ 32 - 1)"
    using u by simp
  assume "\<not> snd (esp_operator_window_active now' (fst (open_esp_operator_window now ttl c)))"
  then show "\<not> snd (esp_operator_window_active now''
             (fst (esp_operator_window_active now' (fst (open_esp_operator_window now ttl c)))))"
    by (auto simp: esp_operator_window_active_def esp_operator_window_until_def Let_def split: if_splits)
qed

definition boot_error :: Error where
  "boot_error = ErrHttp 503 ''boot''"

theorem recent_windows_witness:
  "snd (get_current_error_at 5 (fst (get_current_error_at 100 (set_last_error Esp 30 boot_error net_cells_init)))) = None
   \<and> get_last_error (fst (get_current_error_at 100 (set_last_error Esp 30 boot_error net_cells_init)))
       = Some (err_display boot_error)"
  using recent_windows [of 100 Esp 30 boot_error net_cells_init 5 0] by simp

end
