(* ===== verification/Runtime_Capability.thy ===== *)
theory Runtime_Capability
  imports Net_State
begin

unbundle bit_operations_syntax

text \<open>
  The runtime capability registry (\<open>src/src/orchestrator/runtime_capability.rs\<close>): nine fixed
  slots with a status, a reason, an epoch, and a packed word that holds the call state and the
  number of active calls. The compare-and-exchange loops of the source are modelled as the
  read-modify-write on the word that they finally perform; the clocks are arguments.
\<close>

section \<open>Data\<close>

(* orchestrator/runtime_capability.rs: lines 14-22 the capability ids *)
definition RUNTIME_CAPABILITY_AUDIO_OUTPUT :: string where
  "RUNTIME_CAPABILITY_AUDIO_OUTPUT = ''audio_output''"

definition RUNTIME_CAPABILITY_AUDIO_INPUT :: string where
  "RUNTIME_CAPABILITY_AUDIO_INPUT = ''audio_input''"

definition RUNTIME_CAPABILITY_NETWORK_OUTBOUND_HTTP :: string where
  "RUNTIME_CAPABILITY_NETWORK_OUTBOUND_HTTP = ''network.outbound_http''"

definition RUNTIME_CAPABILITY_STORAGE_STATE_FS :: string where
  "RUNTIME_CAPABILITY_STORAGE_STATE_FS = ''storage.state_fs''"

definition RUNTIME_CAPABILITY_DISPLAY_OUTPUT :: string where
  "RUNTIME_CAPABILITY_DISPLAY_OUTPUT = ''display.output''"

definition RUNTIME_CAPABILITY_HARDWARE_GPIO :: string where
  "RUNTIME_CAPABILITY_HARDWARE_GPIO = ''hardware.gpio''"

definition RUNTIME_CAPABILITY_HARDWARE_I2C :: string where
  "RUNTIME_CAPABILITY_HARDWARE_I2C = ''hardware.i2c''"

definition RUNTIME_CAPABILITY_SENSOR :: string where
  "RUNTIME_CAPABILITY_SENSOR = ''sensor''"

definition RUNTIME_CAPABILITY_CAMERA_FRAME :: string where
  "RUNTIME_CAPABILITY_CAMERA_FRAME = ''camera.frame''"

lemmas capability_ids = RUNTIME_CAPABILITY_AUDIO_OUTPUT_def RUNTIME_CAPABILITY_AUDIO_INPUT_def
  RUNTIME_CAPABILITY_NETWORK_OUTBOUND_HTTP_def RUNTIME_CAPABILITY_STORAGE_STATE_FS_def
  RUNTIME_CAPABILITY_DISPLAY_OUTPUT_def RUNTIME_CAPABILITY_HARDWARE_GPIO_def
  RUNTIME_CAPABILITY_HARDWARE_I2C_def RUNTIME_CAPABILITY_SENSOR_def RUNTIME_CAPABILITY_CAMERA_FRAME_def

(* orchestrator/runtime_capability.rs: const RUNTIME_CAPABILITY_IDS *)
definition RUNTIME_CAPABILITY_IDS :: "string list" where
  "RUNTIME_CAPABILITY_IDS =
     [RUNTIME_CAPABILITY_AUDIO_OUTPUT, RUNTIME_CAPABILITY_AUDIO_INPUT,
      RUNTIME_CAPABILITY_NETWORK_OUTBOUND_HTTP, RUNTIME_CAPABILITY_STORAGE_STATE_FS,
      RUNTIME_CAPABILITY_DISPLAY_OUTPUT, RUNTIME_CAPABILITY_HARDWARE_GPIO,
      RUNTIME_CAPABILITY_HARDWARE_I2C, RUNTIME_CAPABILITY_SENSOR, RUNTIME_CAPABILITY_CAMERA_FRAME]"

(* orchestrator/runtime_capability.rs: enum RuntimeCapabilityStatus *)
datatype RuntimeCapabilityStatus = StatusOnline | StatusDegraded | StatusOffline

fun status_as_u8 :: "RuntimeCapabilityStatus \<Rightarrow> u8" where
  "status_as_u8 StatusOnline = 0"
| "status_as_u8 StatusDegraded = 1"
| "status_as_u8 StatusOffline = 2"

(* orchestrator/runtime_capability.rs: impl RuntimeCapabilityStatus / fn from_byte *)
definition status_from_byte :: "u8 \<Rightarrow> RuntimeCapabilityStatus" where
  "status_from_byte raw =
     (if raw = 1 then StatusDegraded else if raw = 2 then StatusOffline else StatusOnline)"

(* orchestrator/runtime_capability.rs: enum RuntimeCapabilityReason *)
datatype RuntimeCapabilityReason =
    ReasonNominal | ReasonNotConfigured | ReasonRuntimeNotInitialized | ReasonDeviceMissing
  | ReasonDeviceDisconnected | ReasonWorkerDead | ReasonDriverError | ReasonPermissionDenied
  | ReasonUpstreamUnavailable | ReasonRecoveryStabilizing | ReasonOperatorDisabled

fun reason_as_u8 :: "RuntimeCapabilityReason \<Rightarrow> u8" where
  "reason_as_u8 ReasonNominal = 0"
| "reason_as_u8 ReasonNotConfigured = 1"
| "reason_as_u8 ReasonRuntimeNotInitialized = 2"
| "reason_as_u8 ReasonDeviceMissing = 3"
| "reason_as_u8 ReasonDeviceDisconnected = 4"
| "reason_as_u8 ReasonWorkerDead = 5"
| "reason_as_u8 ReasonDriverError = 6"
| "reason_as_u8 ReasonPermissionDenied = 7"
| "reason_as_u8 ReasonUpstreamUnavailable = 8"
| "reason_as_u8 ReasonRecoveryStabilizing = 9"
| "reason_as_u8 ReasonOperatorDisabled = 10"

(* orchestrator/runtime_capability.rs: impl RuntimeCapabilityReason / fn from_byte *)
definition reason_from_byte :: "u8 \<Rightarrow> RuntimeCapabilityReason" where
  "reason_from_byte raw =
     (if raw = 1 then ReasonNotConfigured else if raw = 2 then ReasonRuntimeNotInitialized
      else if raw = 3 then ReasonDeviceMissing else if raw = 4 then ReasonDeviceDisconnected
      else if raw = 5 then ReasonWorkerDead else if raw = 6 then ReasonDriverError
      else if raw = 7 then ReasonPermissionDenied else if raw = 8 then ReasonUpstreamUnavailable
      else if raw = 9 then ReasonRecoveryStabilizing else if raw = 10 then ReasonOperatorDisabled
      else ReasonNominal)"

(* orchestrator/runtime_capability.rs: enum RuntimeCapabilityCallState *)
datatype RuntimeCapabilityCallState =
    CallAccepting | CallDraining | CallDisabled | CallUnloaded | CallFailed

fun call_state_as_u32 :: "RuntimeCapabilityCallState \<Rightarrow> u32" where
  "call_state_as_u32 CallAccepting = 0"
| "call_state_as_u32 CallDraining = 1"
| "call_state_as_u32 CallDisabled = 2"
| "call_state_as_u32 CallUnloaded = 3"
| "call_state_as_u32 CallFailed = 4"

(* orchestrator/runtime_capability.rs: impl RuntimeCapabilityCallState / fn from_byte *)
definition call_state_from_byte :: "u8 \<Rightarrow> RuntimeCapabilityCallState" where
  "call_state_from_byte raw =
     (if raw = 1 then CallDraining else if raw = 2 then CallDisabled
      else if raw = 3 then CallUnloaded else if raw = 4 then CallFailed else CallAccepting)"

(* orchestrator/runtime_capability.rs: impl RuntimeCapabilityCallState / fn accepts_new_calls *)
definition accepts_new_calls :: "RuntimeCapabilityCallState \<Rightarrow> bool" where
  "accepts_new_calls s \<longleftrightarrow> s = CallAccepting"

(* orchestrator/runtime_capability.rs: struct RuntimeCapabilityUpdate *)
record RuntimeCapabilityUpdate =
  ru_id :: string
  ru_status :: RuntimeCapabilityStatus
  ru_reason :: RuntimeCapabilityReason
  ru_observed_at_secs :: u32
  ru_recovery_hint :: "string option"

(* orchestrator/runtime_capability.rs: struct RuntimeCapabilityState *)
record RuntimeCapabilityState =
  rs_id :: string
  rs_status :: RuntimeCapabilityStatus
  rs_reason :: RuntimeCapabilityReason
  rs_epoch :: u32
  rs_changed_at_secs :: u32
  rs_observed_at_secs :: u32
  rs_active_calls :: u32
  rs_draining :: bool
  rs_last_transition_uptime_ms :: u64
  rs_drain_denied_total :: u64
  rs_recovery_hint :: "string option"

(* orchestrator/runtime_capability.rs: struct RuntimeCapabilityBlocker *)
record RuntimeCapabilityBlocker =
  rb_sub_capability :: string
  rb_capability_status :: RuntimeCapabilityStatus
  rb_capability_reason :: RuntimeCapabilityReason
  rb_epoch :: u32
  rb_epoch_changed :: bool
  rb_recovery_hint :: "string option"

(* orchestrator/runtime_capability.rs: struct RuntimeCapabilitySummary *)
record RuntimeCapabilitySummary =
  sm_offline_count :: nat
  sm_degraded_count :: nat
  sm_offline_ids :: "string list"
  sm_degraded_ids :: "string list"

(* orchestrator/runtime_capability.rs: struct RuntimeCapabilitySlot *)
record RuntimeCapabilitySlot =
  rc_status :: u8
  rc_reason :: u8
  rc_epoch :: u32
  rc_changed_at_secs :: u32
  rc_observed_at_secs :: u32
  rc_call_word :: u32
  rc_last_transition_uptime_ms :: u32
  rc_drain_denied_total :: u32

section \<open>The call word\<close>

(* orchestrator/runtime_capability.rs: const CALL_ACTIVE_MASK *)
definition CALL_ACTIVE_MASK :: u32 where
  "CALL_ACTIVE_MASK = 0xffff"

(* orchestrator/runtime_capability.rs: const CALL_STATE_SHIFT *)
definition CALL_STATE_SHIFT :: nat where
  "CALL_STATE_SHIFT = 16"

(* orchestrator/runtime_capability.rs: fn pack_call_word *)
definition pack_call_word :: "RuntimeCapabilityCallState \<Rightarrow> u32 \<Rightarrow> u32" where
  "pack_call_word s active_calls =
     push_bit CALL_STATE_SHIFT (call_state_as_u32 s) OR (active_calls AND CALL_ACTIVE_MASK)"

(* orchestrator/runtime_capability.rs: fn call_state_from_word *)
definition call_state_from_word :: "u32 \<Rightarrow> RuntimeCapabilityCallState" where
  "call_state_from_word word = call_state_from_byte (ucast (drop_bit CALL_STATE_SHIFT word))"

(* orchestrator/runtime_capability.rs: fn active_calls_from_word *)
definition active_calls_from_word :: "u32 \<Rightarrow> u32" where
  "active_calls_from_word word = word AND CALL_ACTIVE_MASK"

(* orchestrator/runtime_capability.rs: impl RuntimeCapabilitySlot / fn new *)
definition capability_slot_new :: RuntimeCapabilitySlot where
  "capability_slot_new =
     \<lparr>rc_status = status_as_u8 StatusOffline, rc_reason = reason_as_u8 ReasonRuntimeNotInitialized,
      rc_epoch = 0, rc_changed_at_secs = 0, rc_observed_at_secs = 0,
      rc_call_word = pack_call_word CallUnloaded 0, rc_last_transition_uptime_ms = 0,
      rc_drain_denied_total = 0\<rparr>"

type_synonym authority = "RuntimeCapabilitySlot list"

(* orchestrator/runtime_capability.rs: impl RuntimeCapabilityAuthorityState / fn new *)
definition authority_new :: authority where
  "authority_new = replicate 9 capability_slot_new"

(* orchestrator/runtime_capability.rs: fn capability_index *)
definition capability_index :: "string \<Rightarrow> nat option" where
  "capability_index cid = position (\<lambda>candidate. candidate = cid) RUNTIME_CAPABILITY_IDS"

(* orchestrator/runtime_capability.rs: fn runtime_capability_error *)
definition runtime_capability_error :: "string \<Rightarrow> string \<Rightarrow> Error" where
  "runtime_capability_error cid message = err_config ''runtime_capability_call'' (message @ '': '' @ cid)"

(* orchestrator/runtime_capability.rs: fn runtime_capability_unknown_error *)
definition runtime_capability_unknown_error :: "string \<Rightarrow> Error" where
  "runtime_capability_unknown_error cid = runtime_capability_error cid ''unknown runtime capability''"

section \<open>Slot operations\<close>

(* orchestrator/runtime_capability.rs: fn set_call_state *)
definition set_call_state :: "u32 \<Rightarrow> RuntimeCapabilityCallState \<Rightarrow> RuntimeCapabilitySlot \<Rightarrow> RuntimeCapabilitySlot" where
  "set_call_state uptime_ms next_state slot =
     (let current = rc_call_word slot
      in if call_state_from_word current = next_state then slot
         else slot\<lparr>rc_call_word := pack_call_word next_state (active_calls_from_word current),
                   rc_last_transition_uptime_ms := uptime_ms\<rparr>)"

definition next_call_state :: "RuntimeCapabilityStatus \<Rightarrow> RuntimeCapabilityReason
    \<Rightarrow> RuntimeCapabilityCallState \<Rightarrow> RuntimeCapabilityCallState" where
  "next_call_state status reason current_state =
     (if status = StatusOnline \<or> status = StatusDegraded then CallAccepting
      else if reason = ReasonOperatorDisabled then CallDisabled
      else if reason = ReasonWorkerDead \<or> reason = ReasonDriverError then CallFailed
      else if reason = ReasonRuntimeNotInitialized then CallUnloaded
      else current_state)"

(* orchestrator/runtime_capability.rs: fn reconcile_call_state_after_update *)
definition reconcile_call_state_after_update :: "u32 \<Rightarrow> RuntimeCapabilityStatus \<Rightarrow> RuntimeCapabilityReason
    \<Rightarrow> RuntimeCapabilitySlot \<Rightarrow> RuntimeCapabilitySlot" where
  "reconcile_call_state_after_update uptime_ms status reason slot =
     (let current = rc_call_word slot;
          current_state = call_state_from_word current;
          next_state = next_call_state status reason current_state
      in if current_state = CallDraining \<or> next_state = current_state then slot
         else slot\<lparr>rc_call_word := pack_call_word next_state (active_calls_from_word current),
                   rc_last_transition_uptime_ms := uptime_ms\<rparr>)"

(* orchestrator/runtime_capability.rs: fn increment_active_call *)
definition increment_active_call :: "RuntimeCapabilitySlot \<Rightarrow> string + RuntimeCapabilitySlot" where
  "increment_active_call slot =
     (let current = rc_call_word slot; state = call_state_from_word current
      in if \<not> accepts_new_calls state then Inl ''runtime capability is not accepting calls''
         else case checked_add (active_calls_from_word current) 1 of
           None \<Rightarrow> Inl ''runtime capability active call capacity exhausted''
         | Some next_active_calls \<Rightarrow>
             (if CALL_ACTIVE_MASK < next_active_calls
              then Inl ''runtime capability active call capacity exhausted''
              else Inr (slot\<lparr>rc_call_word := pack_call_word state next_active_calls\<rparr>)))"

(* orchestrator/runtime_capability.rs: fn decrement_active_call *)
definition decrement_active_call :: "RuntimeCapabilitySlot \<Rightarrow> RuntimeCapabilitySlot" where
  "decrement_active_call slot =
     (let current = rc_call_word slot; active_calls = active_calls_from_word current
      in if active_calls = 0 then slot
         else slot\<lparr>rc_call_word := pack_call_word (call_state_from_word current) (sat_sub active_calls 1)\<rparr>)"

(* orchestrator/runtime_capability.rs: fn status_accepts_runtime_call *)
definition status_accepts_runtime_call :: "RuntimeCapabilityStatus \<Rightarrow> RuntimeCapabilityReason \<Rightarrow> bool \<Rightarrow> bool" where
  "status_accepts_runtime_call status reason allow_when_degraded \<longleftrightarrow>
     reason \<noteq> ReasonOperatorDisabled
     \<and> (case status of
          StatusOnline \<Rightarrow> True | StatusDegraded \<Rightarrow> allow_when_degraded | StatusOffline \<Rightarrow> False)"

(* orchestrator/runtime_capability.rs: fn record_runtime_capability_denied *)
definition record_runtime_capability_denied :: "RuntimeCapabilitySlot \<Rightarrow> RuntimeCapabilitySlot" where
  "record_runtime_capability_denied slot = slot\<lparr>rc_drain_denied_total := rc_drain_denied_total slot + 1\<rparr>"

(* orchestrator/runtime_capability.rs: fn default_recovery_hint *)
definition default_recovery_hint :: "string \<Rightarrow> RuntimeCapabilityReason \<Rightarrow> string option" where
  "default_recovery_hint cid reason =
     (if cid = RUNTIME_CAPABILITY_AUDIO_OUTPUT \<and> reason = ReasonDeviceDisconnected
      then Some ''wait_for_audio_output_recovery''
      else if cid = RUNTIME_CAPABILITY_AUDIO_INPUT \<and> reason = ReasonDeviceDisconnected
      then Some ''wait_for_audio_input_recovery''
      else if cid = RUNTIME_CAPABILITY_NETWORK_OUTBOUND_HTTP \<and> reason = ReasonUpstreamUnavailable
      then Some ''wait_for_network_recovery''
      else if cid = RUNTIME_CAPABILITY_STORAGE_STATE_FS
             \<and> (reason = ReasonDriverError \<or> reason = ReasonRuntimeNotInitialized)
      then Some ''wait_for_storage_recovery''
      else if cid = RUNTIME_CAPABILITY_DISPLAY_OUTPUT \<and> reason = ReasonDeviceMissing
      then Some ''check_display_wiring_or_disable_display''
      else if cid = RUNTIME_CAPABILITY_HARDWARE_GPIO \<and> reason = ReasonNotConfigured
      then Some ''configure_hardware_devices''
      else if cid = RUNTIME_CAPABILITY_HARDWARE_I2C \<and> reason = ReasonRuntimeNotInitialized
      then Some ''check_i2c_bus_initialization''
      else if cid = RUNTIME_CAPABILITY_SENSOR \<and> reason = ReasonNotConfigured
      then Some ''configure_sensor_devices''
      else if cid = RUNTIME_CAPABILITY_CAMERA_FRAME \<and> reason = ReasonNotConfigured
      then Some ''configure_camera''
      else if reason = ReasonRecoveryStabilizing then Some ''wait_for_recovery_stabilization''
      else None)"

(* orchestrator/runtime_capability.rs: fn update_runtime_capability *)
definition update_runtime_capability :: "u32 \<Rightarrow> RuntimeCapabilityUpdate \<Rightarrow> authority \<Rightarrow> authority" where
  "update_runtime_capability uptime_ms update slots =
     (case capability_index (ru_id update) of
        None \<Rightarrow> slots
      | Some index \<Rightarrow>
          (let slot = slots ! index;
               current_epoch = rc_epoch slot;
               changed = (current_epoch = 0 \<or> status_from_byte (rc_status slot) \<noteq> ru_status update
                          \<or> reason_from_byte (rc_reason slot) \<noteq> ru_reason update);
               next_epoch = (if changed then max (sat_add current_epoch 1) 1 else max current_epoch 1);
               slot = slot\<lparr>rc_status := status_as_u8 (ru_status update),
                           rc_reason := reason_as_u8 (ru_reason update), rc_epoch := next_epoch,
                           rc_observed_at_secs := ru_observed_at_secs update\<rparr>;
               slot = (if changed then slot\<lparr>rc_changed_at_secs := ru_observed_at_secs update\<rparr> else slot)
           in slots[index := reconcile_call_state_after_update uptime_ms (ru_status update) (ru_reason update) slot]))"

section \<open>Calls\<close>

text \<open>A call guard: the slot's index and whether it still counts.\<close>

(* orchestrator/runtime_capability.rs: struct RuntimeCapabilityCallGuard *)
record RuntimeCapabilityCallGuard =
  cg_index :: nat
  cg_active :: bool

(* orchestrator/runtime_capability.rs: impl RuntimeCapabilityCallGuard / fn finish *)
definition call_guard_finish :: "RuntimeCapabilityCallGuard \<Rightarrow> authority \<Rightarrow> authority \<times> RuntimeCapabilityCallGuard" where
  "call_guard_finish guard slots =
     (if cg_active guard
      then (slots[cg_index guard := decrement_active_call (slots ! cg_index guard)], guard\<lparr>cg_active := False\<rparr>)
      else (slots, guard))"

text \<open>
  A begin is three atomic accesses to the slot: the first test with the increment, and the second
  test, between which other threads may run.
\<close>

definition slot_accepts :: "bool \<Rightarrow> RuntimeCapabilitySlot \<Rightarrow> bool" where
  "slot_accepts allow_when_degraded slot \<longleftrightarrow>
     status_accepts_runtime_call (status_from_byte (rc_status slot)) (reason_from_byte (rc_reason slot)) allow_when_degraded"

definition begin_reserve :: "RuntimeCapabilitySlot \<Rightarrow> RuntimeCapabilitySlot \<times> (string + unit)" where
  "begin_reserve slot =
     (case increment_active_call slot of
        Inl message \<Rightarrow> (record_runtime_capability_denied slot, Inl message)
      | Inr slot' \<Rightarrow> (slot', Inr ()))"

definition begin_confirm :: "bool \<Rightarrow> RuntimeCapabilitySlot \<Rightarrow> RuntimeCapabilitySlot \<times> bool" where
  "begin_confirm allow_when_degraded slot =
     (if \<not> accepts_new_calls (call_state_from_word (rc_call_word slot)) \<or> \<not> slot_accepts allow_when_degraded slot
      then (record_runtime_capability_denied (decrement_active_call slot), False)
      else (slot, True))"

(* orchestrator/runtime_capability.rs: fn try_begin_runtime_capability_call_inner *)
definition try_begin_runtime_capability_call_inner :: "string \<Rightarrow> bool \<Rightarrow> authority
    \<Rightarrow> authority \<times> (Error + RuntimeCapabilityCallGuard)" where
  "try_begin_runtime_capability_call_inner cid allow_when_degraded slots =
     (case capability_index cid of
        None \<Rightarrow> (slots, Inl (runtime_capability_unknown_error cid))
      | Some index \<Rightarrow>
          (let slot = slots ! index
           in if \<not> slot_accepts allow_when_degraded slot
              then (slots[index := record_runtime_capability_denied slot],
                    Inl (runtime_capability_error cid ''runtime capability is unavailable''))
              else case begin_reserve slot of
                (slot', Inl message) \<Rightarrow> (slots[index := slot'], Inl (runtime_capability_error cid message))
              | (slot', Inr _) \<Rightarrow>
                  (case begin_confirm allow_when_degraded slot' of
                     (slot'', False) \<Rightarrow>
                       (slots[index := slot''],
                        Inl (runtime_capability_error cid ''runtime capability is not accepting calls''))
                   | (slot'', True) \<Rightarrow> (slots[index := slot''], Inr \<lparr>cg_index = index, cg_active = True\<rparr>))))"

(* orchestrator/runtime_capability.rs: fn try_begin_runtime_capability_call *)
definition try_begin_runtime_capability_call :: "string \<Rightarrow> authority
    \<Rightarrow> authority \<times> (Error + RuntimeCapabilityCallGuard)" where
  "try_begin_runtime_capability_call cid = try_begin_runtime_capability_call_inner cid False"

(* orchestrator/runtime_capability.rs: fn runtime_capability_active_calls *)
definition runtime_capability_active_calls :: "string \<Rightarrow> authority \<Rightarrow> u32 option" where
  "runtime_capability_active_calls cid slots =
     map_option (\<lambda>index. active_calls_from_word (rc_call_word (slots ! index))) (capability_index cid)"

(* orchestrator/runtime_capability.rs: fn runtime_capability_drain_denied_total *)
definition runtime_capability_drain_denied_total :: "string \<Rightarrow> authority \<Rightarrow> u32 option" where
  "runtime_capability_drain_denied_total cid slots =
     map_option (\<lambda>index. rc_drain_denied_total (slots ! index)) (capability_index cid)"

section \<open>Transitions\<close>

(* orchestrator/runtime_capability.rs: fn begin_runtime_capability_draining *)
definition begin_runtime_capability_draining :: "u32 \<Rightarrow> string \<Rightarrow> authority \<Rightarrow> authority \<times> (Error + unit)" where
  "begin_runtime_capability_draining uptime_ms cid slots =
     (case capability_index cid of
        None \<Rightarrow> (slots, Inl (runtime_capability_unknown_error cid))
      | Some index \<Rightarrow> (slots[index := set_call_state uptime_ms CallDraining (slots ! index)], Inr ()))"

definition offline_update :: "string \<Rightarrow> RuntimeCapabilityReason \<Rightarrow> u32 \<Rightarrow> RuntimeCapabilityUpdate" where
  "offline_update cid reason now_secs =
     \<lparr>ru_id = cid, ru_status = StatusOffline, ru_reason = reason, ru_observed_at_secs = now_secs,
      ru_recovery_hint = None\<rparr>"

(* orchestrator/runtime_capability.rs: fn mark_runtime_capability_disabled *)
definition mark_runtime_capability_disabled :: "u32 \<Rightarrow> u32 \<Rightarrow> string \<Rightarrow> authority \<Rightarrow> authority \<times> (Error + unit)" where
  "mark_runtime_capability_disabled uptime_ms now_secs cid slots =
     (case capability_index cid of
        None \<Rightarrow> (slots, Inl (runtime_capability_unknown_error cid))
      | Some index \<Rightarrow>
          (update_runtime_capability uptime_ms (offline_update cid ReasonOperatorDisabled now_secs)
             (slots[index := set_call_state uptime_ms CallDisabled (slots ! index)]), Inr ()))"

(* orchestrator/runtime_capability.rs: fn mark_runtime_capability_failed *)
definition mark_runtime_capability_failed :: "u32 \<Rightarrow> u32 \<Rightarrow> string \<Rightarrow> authority \<Rightarrow> authority \<times> (Error + unit)" where
  "mark_runtime_capability_failed uptime_ms now_secs cid slots =
     (case capability_index cid of
        None \<Rightarrow> (slots, Inl (runtime_capability_unknown_error cid))
      | Some index \<Rightarrow>
          (update_runtime_capability uptime_ms (offline_update cid ReasonWorkerDead now_secs)
             (slots[index := set_call_state uptime_ms CallFailed (slots ! index)]), Inr ()))"

text \<open>The exchange of the unload: it only succeeds on a draining slot without active calls.\<close>

definition unload_slot :: "u32 \<Rightarrow> RuntimeCapabilitySlot \<Rightarrow> string + RuntimeCapabilitySlot" where
  "unload_slot uptime_ms slot =
     (if call_state_from_word (rc_call_word slot) \<noteq> CallDraining
      then Inl ''runtime capability is not draining''
      else if active_calls_from_word (rc_call_word slot) \<noteq> 0
      then Inl ''runtime capability still has active calls''
      else Inr (slot\<lparr>rc_call_word := pack_call_word CallUnloaded 0,
                     rc_last_transition_uptime_ms := uptime_ms\<rparr>))"

(* orchestrator/runtime_capability.rs: fn finish_runtime_capability_unloaded *)
definition finish_runtime_capability_unloaded :: "u32 \<Rightarrow> u32 \<Rightarrow> string \<Rightarrow> authority \<Rightarrow> authority \<times> (Error + unit)" where
  "finish_runtime_capability_unloaded uptime_ms now_secs cid slots =
     (case capability_index cid of
        None \<Rightarrow> (slots, Inl (runtime_capability_unknown_error cid))
      | Some index \<Rightarrow>
          (case unload_slot uptime_ms (slots ! index) of
             Inl message \<Rightarrow> (slots, Inl (runtime_capability_error cid message))
           | Inr slot \<Rightarrow>
               (update_runtime_capability uptime_ms (offline_update cid ReasonRuntimeNotInitialized now_secs)
                  (slots[index := slot]), Inr ())))"

section \<open>Views\<close>

definition capability_state :: "string \<Rightarrow> RuntimeCapabilitySlot \<Rightarrow> RuntimeCapabilityState" where
  "capability_state cid slot =
     (let status = status_from_byte (rc_status slot);
          reason = reason_from_byte (rc_reason slot);
          call_word = rc_call_word slot
      in \<lparr>rs_id = cid, rs_status = status, rs_reason = reason, rs_epoch = rc_epoch slot,
          rs_changed_at_secs = rc_changed_at_secs slot, rs_observed_at_secs = rc_observed_at_secs slot,
          rs_active_calls = active_calls_from_word call_word,
          rs_draining = (call_state_from_word call_word = CallDraining),
          rs_last_transition_uptime_ms = ucast (rc_last_transition_uptime_ms slot),
          rs_drain_denied_total = ucast (rc_drain_denied_total slot),
          rs_recovery_hint = default_recovery_hint cid reason\<rparr>)"

(* orchestrator/runtime_capability.rs: fn runtime_capability_snapshot *)
definition runtime_capability_snapshot :: "authority \<Rightarrow> RuntimeCapabilityState list" where
  "runtime_capability_snapshot slots =
     map (\<lambda>(index, cid). capability_state cid (slots ! index)) (enumerate 0 RUNTIME_CAPABILITY_IDS)"

(* orchestrator/runtime_capability.rs: fn get_runtime_capability *)
definition get_runtime_capability :: "string \<Rightarrow> authority \<Rightarrow> RuntimeCapabilityState option" where
  "get_runtime_capability cid slots =
     (case capability_index cid of
        None \<Rightarrow> None
      | Some index \<Rightarrow> Some (capability_state (RUNTIME_CAPABILITY_IDS ! index) (slots ! index)))"

text \<open>\<open>find_map\<close> over the required ids: an unknown id and an online capability are passed over.\<close>

(* orchestrator/runtime_capability.rs: fn runtime_capability_blocker *)
fun runtime_capability_blocker :: "string list \<Rightarrow> authority \<Rightarrow> RuntimeCapabilityBlocker option" where
  "runtime_capability_blocker [] slots = None"
| "runtime_capability_blocker (cid # required) slots =
     (case get_runtime_capability cid slots of
        None \<Rightarrow> runtime_capability_blocker required slots
      | Some state \<Rightarrow>
          (if rs_status state = StatusOnline then runtime_capability_blocker required slots
           else Some \<lparr>rb_sub_capability = rs_id state, rb_capability_status = rs_status state,
                      rb_capability_reason = rs_reason state, rb_epoch = rs_epoch state,
                      rb_epoch_changed = (1 < rs_epoch state),
                      rb_recovery_hint = rs_recovery_hint state\<rparr>))"

(* orchestrator/runtime_capability.rs: fn runtime_capability_summary *)
definition runtime_capability_summary :: "authority \<Rightarrow> RuntimeCapabilitySummary" where
  "runtime_capability_summary slots =
     (let states = runtime_capability_snapshot slots;
          offline_ids = map rs_id (filter (\<lambda>s. rs_status s = StatusOffline) states);
          degraded_ids = map rs_id (filter (\<lambda>s. rs_status s = StatusDegraded) states)
      in \<lparr>sm_offline_count = length offline_ids, sm_degraded_count = length degraded_ids,
          sm_offline_ids = offline_ids, sm_degraded_ids = degraded_ids\<rparr>)"

section \<open>Observations\<close>

text \<open>What an observation reads from the platform, and from the configuration when there is one.\<close>

(* memory/profile.rs: enum MemorySystemKind *)
datatype MemorySystemKind = EspCompact | LinuxFull

record platform_facts =
  pf_audio_speaker_ready :: bool
  pf_audio_mic_ready :: bool
  pf_memory_system_kind :: MemorySystemKind
  pf_display_available :: bool
  pf_i2c_ready :: bool

record config_facts =
  cf_display_enabled :: "bool option"
  cf_hardware_device_types :: "string list"
  cf_i2c_bus :: bool
  cf_i2c_devices :: nat
  cf_i2c_sensor_models :: "string list"

definition observation :: "string \<Rightarrow> RuntimeCapabilityStatus \<Rightarrow> RuntimeCapabilityReason \<Rightarrow> u32
    \<Rightarrow> RuntimeCapabilityUpdate" where
  "observation cid status reason now_secs =
     \<lparr>ru_id = cid, ru_status = status, ru_reason = reason, ru_observed_at_secs = now_secs,
      ru_recovery_hint = None\<rparr>"

text \<open>An observation that is online and nominal, or else offline for a reason.\<close>

definition online_or :: "string \<Rightarrow> bool \<Rightarrow> RuntimeCapabilityReason \<Rightarrow> u32 \<Rightarrow> RuntimeCapabilityUpdate" where
  "online_or cid online reason now_secs =
     observation cid (if online then StatusOnline else StatusOffline)
       (if online then ReasonNominal else reason) now_secs"

(* orchestrator/runtime_capability.rs: fn outbound_http_status_for_network_snapshot *)
definition outbound_http_status_for_network_snapshot :: "NetworkRuntimeSnapshot
    \<Rightarrow> RuntimeCapabilityStatus \<times> RuntimeCapabilityReason" where
  "outbound_http_status_for_network_snapshot snapshot =
     (if \<not> nr_sta_expected snapshot \<or> \<not> nr_sta_configured snapshot
      then (StatusOffline, ReasonNotConfigured)
      else if \<not> nr_sta_ip_present snapshot then
        (let reason = (case nr_last_wifi_stage snapshot of
               StaConnecting \<Rightarrow> ReasonRecoveryStabilizing
             | StaL2Connected \<Rightarrow> ReasonRecoveryStabilizing
             | StaWaitingDhcp \<Rightarrow> ReasonRecoveryStabilizing
             | StaIpReady \<Rightarrow> ReasonRecoveryStabilizing
             | StaRecovering \<Rightarrow> ReasonRecoveryStabilizing
             | StaAuthFailed \<Rightarrow> ReasonUpstreamUnavailable
             | StaApNotFound \<Rightarrow> ReasonUpstreamUnavailable
             | StaFallbackAp \<Rightarrow> ReasonUpstreamUnavailable
             | ApOnly \<Rightarrow> ReasonUpstreamUnavailable);
             status = (if reason = ReasonRecoveryStabilizing then StatusDegraded else StatusOffline)
         in (status, reason))
      else if \<not> nr_outbound_settled snapshot then (StatusDegraded, ReasonRecoveryStabilizing)
      else (StatusOnline, ReasonNominal))"

(* orchestrator/runtime_capability.rs: fn resolve_outbound_http_capability_update_from_network *)
definition resolve_outbound_http_capability_update_from_network :: "bool \<Rightarrow> NetworkRuntimeSnapshot option
    \<Rightarrow> authority \<Rightarrow> RuntimeCapabilityUpdate" where
  "resolve_outbound_http_capability_update_from_network outbound_http_client_ready network slots =
     (let prior = get_runtime_capability RUNTIME_CAPABILITY_NETWORK_OUTBOUND_HTTP slots;
          (status, reason) =
            (if \<not> outbound_http_client_ready then (StatusOffline, ReasonRuntimeNotInitialized)
             else case network of
               Some snapshot \<Rightarrow> outbound_http_status_for_network_snapshot snapshot
             | None \<Rightarrow>
                 (if (case prior of None \<Rightarrow> False
                      | Some state \<Rightarrow> rs_status state = StatusOffline
                          \<and> rs_reason state = ReasonUpstreamUnavailable)
                  then (StatusDegraded, ReasonUpstreamUnavailable)
                  else (StatusOnline, ReasonNominal)))
      in observation RUNTIME_CAPABILITY_NETWORK_OUTBOUND_HTTP status reason 0)"

(* orchestrator/runtime_capability.rs: fn observe_display_capability *)
definition observe_display_capability :: "u32 \<Rightarrow> platform_facts \<Rightarrow> config_facts option \<Rightarrow> u32
    \<Rightarrow> authority \<Rightarrow> authority" where
  "observe_display_capability uptime_ms platform config now_secs slots =
     (let display_configured = (case config of None \<Rightarrow> False
            | Some c \<Rightarrow> cf_display_enabled c = Some True);
          display_online = pf_display_available platform
      in update_runtime_capability uptime_ms
           (online_or RUNTIME_CAPABILITY_DISPLAY_OUTPUT display_online
              (if display_configured then ReasonDeviceMissing else ReasonNotConfigured) now_secs) slots)"

(* orchestrator/runtime_capability.rs: fn hardware_backend_serviceable_for_capability *)
definition hardware_backend_serviceable_for_capability :: "MemorySystemKind \<Rightarrow> bool" where
  "hardware_backend_serviceable_for_capability kind \<longleftrightarrow> kind = EspCompact \<or> kind = LinuxFull"

(* orchestrator/runtime_capability.rs: fn observe_hardware_capabilities *)
definition observe_hardware_capabilities :: "u32 \<Rightarrow> platform_facts \<Rightarrow> config_facts option \<Rightarrow> u32
    \<Rightarrow> authority \<Rightarrow> authority" where
  "observe_hardware_capabilities uptime_ms platform config now_secs slots =
     (let memory_system_kind = pf_memory_system_kind platform;
          is_some_and = (\<lambda>p. case config of None \<Rightarrow> False | Some c \<Rightarrow> p c);
          gpio_configured = is_some_and (\<lambda>c. cf_hardware_device_types c \<noteq> []);
          serviceable = hardware_backend_serviceable_for_capability memory_system_kind;
          i2c_configured = is_some_and (\<lambda>c. cf_i2c_bus c \<or> cf_i2c_devices c \<noteq> 0 \<or> cf_i2c_sensor_models c \<noteq> []);
          is_sensor = (\<lambda>ty. ty = ''gpio_in'' \<or> ty = ''adc_in'' \<or> ty = ''dht'');
          gpio_sensor_configured = is_some_and (\<lambda>c. list_ex is_sensor (cf_hardware_device_types c));
          sensor_configured = is_some_and (\<lambda>c. list_ex is_sensor (cf_hardware_device_types c)
             \<or> list_ex (\<lambda>model. model \<noteq> ''raw'') (cf_i2c_sensor_models c));
          i2c_ready = (pf_i2c_ready platform \<or> (memory_system_kind = LinuxFull \<and> i2c_configured));
          slots = update_runtime_capability uptime_ms
            (online_or RUNTIME_CAPABILITY_HARDWARE_GPIO (gpio_configured \<and> serviceable)
               (if gpio_configured then ReasonRuntimeNotInitialized else ReasonNotConfigured) now_secs) slots;
          slots = update_runtime_capability uptime_ms
            (online_or RUNTIME_CAPABILITY_HARDWARE_I2C i2c_ready
               (if i2c_configured then ReasonRuntimeNotInitialized else ReasonNotConfigured) now_secs) slots;
          gpio_sensor_ready = (gpio_sensor_configured \<and> serviceable);
          i2c_sensor_ready = (i2c_configured \<and> i2c_ready);
          sensor_online = (sensor_configured \<and> (gpio_sensor_ready \<or> i2c_sensor_ready))
      in update_runtime_capability uptime_ms
           (online_or RUNTIME_CAPABILITY_SENSOR sensor_online
              (if \<not> sensor_configured then ReasonNotConfigured else ReasonRuntimeNotInitialized) now_secs) slots)"

(* orchestrator/runtime_capability.rs: fn observe_camera_capability *)
definition observe_camera_capability :: "u32 \<Rightarrow> u32 \<Rightarrow> authority \<Rightarrow> authority" where
  "observe_camera_capability uptime_ms now_secs slots =
     update_runtime_capability uptime_ms
       (observation RUNTIME_CAPABILITY_CAMERA_FRAME StatusOffline ReasonNotConfigured now_secs) slots"

text \<open>
  The snapshot is read with a settle window of three seconds; the station's cells and the clock are
  arguments.
\<close>

(* orchestrator/runtime_capability.rs: fn observe_runtime_capabilities_from_platform_with_config *)
definition observe_runtime_capabilities_from_platform_with_config :: "u32 \<Rightarrow> u64 \<Rightarrow> bool \<Rightarrow> NetCells
    \<Rightarrow> platform_facts \<Rightarrow> config_facts option \<Rightarrow> bool \<Rightarrow> bool option \<Rightarrow> authority \<Rightarrow> authority" where
  "observe_runtime_capabilities_from_platform_with_config uptime_ms now trusted cells platform config
       outbound_http_client_ready storage_state_fs_ready slots =
     (let now_secs = ucast (min now (ucast (- 1 :: u32))) :: u32;
          slots = update_runtime_capability uptime_ms
            (online_or RUNTIME_CAPABILITY_AUDIO_OUTPUT (pf_audio_speaker_ready platform) ReasonDeviceMissing now_secs) slots;
          slots = update_runtime_capability uptime_ms
            (online_or RUNTIME_CAPABILITY_AUDIO_INPUT (pf_audio_mic_ready platform) ReasonDeviceMissing now_secs) slots;
          outbound_network_snapshot = (case pf_memory_system_kind platform of
               LinuxFull \<Rightarrow> None
             | EspCompact \<Rightarrow> Some (network_runtime_snapshot now trusted 3 cells));
          outbound_update = (resolve_outbound_http_capability_update_from_network
             outbound_http_client_ready outbound_network_snapshot slots)\<lparr>ru_observed_at_secs := now_secs\<rparr>;
          slots = update_runtime_capability uptime_ms outbound_update slots;
          slots = (case storage_state_fs_ready of
               None \<Rightarrow> slots
             | Some storage_ready \<Rightarrow> update_runtime_capability uptime_ms
                 (online_or RUNTIME_CAPABILITY_STORAGE_STATE_FS storage_ready ReasonRuntimeNotInitialized now_secs) slots);
          slots = observe_display_capability uptime_ms platform config now_secs slots;
          slots = observe_hardware_capabilities uptime_ms platform config now_secs slots
      in observe_camera_capability uptime_ms now_secs slots)"

(* orchestrator/runtime_capability.rs: fn observe_runtime_capability_success *)
definition observe_runtime_capability_success :: "u32 \<Rightarrow> u64 \<Rightarrow> string list \<Rightarrow> authority \<Rightarrow> authority" where
  "observe_runtime_capability_success uptime_ms now required slots =
     (let now_secs = ucast (min now (ucast (- 1 :: u32))) :: u32
      in fold (\<lambda>cid slots.
           if capability_index cid = None then slots
           else update_runtime_capability uptime_ms (observation cid StatusOnline ReasonNominal now_secs) slots)
         required slots)"

(* orchestrator/runtime_capability.rs: fn observe_runtime_capability_failure *)
definition observe_runtime_capability_failure :: "u32 \<Rightarrow> u64 \<Rightarrow> string \<Rightarrow> RuntimeCapabilityReason
    \<Rightarrow> authority \<Rightarrow> authority" where
  "observe_runtime_capability_failure uptime_ms now cid reason slots =
     (if capability_index cid = None then slots
      else
        let now_secs = ucast (min now (ucast (- 1 :: u32))) :: u32;
            status = (if reason = ReasonRecoveryStabilizing then StatusDegraded else StatusOffline)
        in update_runtime_capability uptime_ms (observation cid status reason now_secs) slots)"

end
