(* ===== verification/Capability_Laws.thy ===== *)
theory Capability_Laws
  imports Runtime_Capability
begin

unbundle bit_operations_syntax

text \<open>
  What the capability registry promises: the packed word is a faithful pair of call state and call
  count, every slot operation implements its effect on that pair, the count is the number of calls in
  flight under every interleaving, a drain completes only when none is left, and an update raises the
  epoch exactly when it changes something.
\<close>

section \<open>The packed word is a pair\<close>

lemma call_state_pack [simp]: "call_state_from_word (pack_call_word s a) = s"
proof -
  have "drop_bit CALL_STATE_SHIFT (pack_call_word s a) = call_state_as_u32 s"
    by (cases s) (simp_all add: pack_call_word_def CALL_STATE_SHIFT_def CALL_ACTIVE_MASK_def drop_bit_and)
  then show ?thesis
    by (cases s) (simp_all add: call_state_from_word_def call_state_from_byte_def)
qed

lemma active_calls_pack [simp]: "active_calls_from_word (pack_call_word s a) = a AND CALL_ACTIVE_MASK"
proof -
  have "push_bit CALL_STATE_SHIFT (call_state_as_u32 s) AND CALL_ACTIVE_MASK = 0"
    by (cases s) (simp_all add: CALL_STATE_SHIFT_def CALL_ACTIVE_MASK_def)
  then show ?thesis
    by (simp add: pack_call_word_def active_calls_from_word_def bit.conj_disj_distrib2 and.assoc)
qed

lemma mask_take: "a AND CALL_ACTIVE_MASK = take_bit 16 (a :: u32)"
  by (simp add: CALL_ACTIVE_MASK_def take_bit_eq_mask mask_numeral)

lemma mask_small: "unat a < 2 ^ 16 \<Longrightarrow> a AND CALL_ACTIVE_MASK = a"
  unfolding mask_take by (rule word_unat_eq_iff [THEN iffD2]) (simp add: unsigned_take_bit_eq take_bit_nat_eq_self)

lemma active_calls_bound: "unat (active_calls_from_word w) < 2 ^ 16"
proof -
  have "unat (take_bit 16 w) = take_bit 16 (unat w)" by (simp add: unsigned_take_bit_eq)
  also have "\<dots> < 2 ^ 16" by (rule take_bit_nat_less_exp)
  finally show ?thesis unfolding active_calls_from_word_def mask_take .
qed

lemma active_mask [simp]: "active_calls_from_word w AND CALL_ACTIVE_MASK = active_calls_from_word w"
  by (simp add: active_calls_from_word_def and.assoc)

text \<open>The pair a slot stands for, and what each operation does to it.\<close>

definition call_state :: "RuntimeCapabilitySlot \<Rightarrow> RuntimeCapabilityCallState" where
  "call_state slot = call_state_from_word (rc_call_word slot)"

definition calls :: "RuntimeCapabilitySlot \<Rightarrow> nat" where
  "calls slot = unat (active_calls_from_word (rc_call_word slot))"

lemma cells_pair [simp]:
  "call_state (slot\<lparr>rc_status := a\<rparr>) = call_state slot" "calls (slot\<lparr>rc_status := a\<rparr>) = calls slot"
  "call_state (slot\<lparr>rc_reason := a\<rparr>) = call_state slot" "calls (slot\<lparr>rc_reason := a\<rparr>) = calls slot"
  "call_state (slot\<lparr>rc_epoch := c\<rparr>) = call_state slot" "calls (slot\<lparr>rc_epoch := c\<rparr>) = calls slot"
  "call_state (slot\<lparr>rc_changed_at_secs := c\<rparr>) = call_state slot" "calls (slot\<lparr>rc_changed_at_secs := c\<rparr>) = calls slot"
  "call_state (slot\<lparr>rc_observed_at_secs := c\<rparr>) = call_state slot" "calls (slot\<lparr>rc_observed_at_secs := c\<rparr>) = calls slot"
  "call_state (slot\<lparr>rc_drain_denied_total := c\<rparr>) = call_state slot" "calls (slot\<lparr>rc_drain_denied_total := c\<rparr>) = calls slot"
  by (simp_all add: calls_def call_state_def)

lemma calls_bound: "calls slot < 65536"
  using active_calls_bound [of "rc_call_word slot"] by (simp add: calls_def)

lemma packed_slot [simp]:
  "call_state (slot\<lparr>rc_call_word := pack_call_word s (active_calls_from_word w), rc_last_transition_uptime_ms := u\<rparr>) = s"
  "calls (slot\<lparr>rc_call_word := pack_call_word s (active_calls_from_word w), rc_last_transition_uptime_ms := u\<rparr>)
     = unat (active_calls_from_word w)"
  using active_calls_bound [of w] by (simp_all add: call_state_def calls_def mask_small)

lemma set_call_state_pair [simp]:
  "call_state (set_call_state u s slot) = s" "calls (set_call_state u s slot) = calls slot"
  by (simp_all add: set_call_state_def Let_def call_state_def [symmetric] calls_def [symmetric])

lemma reconcile_pair [simp]:
  "calls (reconcile_call_state_after_update u status reason slot) = calls slot"
  "call_state (reconcile_call_state_after_update u status reason slot)
     = (if call_state slot = CallDraining then CallDraining
        else next_call_state status reason (call_state slot))"
  by (auto simp: reconcile_call_state_after_update_def Let_def calls_def call_state_def)

lemma increment_pair:
  "increment_active_call slot = Inr slot' \<Longrightarrow>
     call_state slot = CallAccepting \<and> call_state slot' = CallAccepting \<and> calls slot' = Suc (calls slot)
     \<and> calls slot < 65535 \<and> rc_status slot' = rc_status slot \<and> rc_reason slot' = rc_reason slot"
  "(\<exists>slot'. increment_active_call slot = Inr slot') \<longleftrightarrow> call_state slot = CallAccepting \<and> calls slot < 65535"
proof -
  let ?a = "active_calls_from_word (rc_call_word slot)"
  have b: "unat ?a < 65536" using active_calls_bound [of "rc_call_word slot"] by simp
  then have add: "checked_add ?a 1 = Some (?a + 1)" "unat (?a + 1) = Suc (unat ?a)"
    by (simp_all add: checked_add_def unat_word_ariths)
  then have fits: "CALL_ACTIVE_MASK < ?a + 1 \<longleftrightarrow> \<not> unat ?a < 65535"
    by (auto simp: CALL_ACTIVE_MASK_def word_less_nat_alt)
  have mask: "unat ?a < 65535 \<Longrightarrow> (?a + 1) AND CALL_ACTIVE_MASK = ?a + 1"
    using add(2) by (intro mask_small) simp
  show "increment_active_call slot = Inr slot' \<Longrightarrow>
     call_state slot = CallAccepting \<and> call_state slot' = CallAccepting \<and> calls slot' = Suc (calls slot)
     \<and> calls slot < 65535 \<and> rc_status slot' = rc_status slot \<and> rc_reason slot' = rc_reason slot"
    using add fits mask
    by (auto simp: increment_active_call_def accepts_new_calls_def call_state_def calls_def Let_def split: if_splits)
  show "(\<exists>slot'. increment_active_call slot = Inr slot') \<longleftrightarrow> call_state slot = CallAccepting \<and> calls slot < 65535"
    using add(1) fits
    by (auto simp: increment_active_call_def accepts_new_calls_def call_state_def calls_def Let_def)
qed

lemma decrement_pair [simp]:
  "call_state (decrement_active_call slot) = call_state slot"
  "calls (decrement_active_call slot) = calls slot - 1"
  "rc_status (decrement_active_call slot) = rc_status slot"
  "rc_reason (decrement_active_call slot) = rc_reason slot"
  "rc_drain_denied_total (decrement_active_call slot) = rc_drain_denied_total slot"
proof -
  let ?a = "active_calls_from_word (rc_call_word slot)"
  have "unat (sat_sub ?a 1) < 2 ^ 16"
    using active_calls_bound [of "rc_call_word slot"] by (simp add: unat_sat_sub)
  then have "sat_sub ?a 1 AND CALL_ACTIVE_MASK = sat_sub ?a 1" by (rule mask_small)
  then show "calls (decrement_active_call slot) = calls slot - 1"
    by (simp add: decrement_active_call_def calls_def unat_sat_sub Let_def)
qed (simp_all add: decrement_active_call_def call_state_def Let_def)

lemma denied_pair [simp]:
  "call_state (record_runtime_capability_denied slot) = call_state slot"
  "calls (record_runtime_capability_denied slot) = calls slot"
  "rc_drain_denied_total (record_runtime_capability_denied slot) = rc_drain_denied_total slot + 1"
  by (simp_all add: record_runtime_capability_denied_def call_state_def calls_def)

lemma unload_pair:
  "unload_slot u slot = Inr slot' \<Longrightarrow>
     call_state slot = CallDraining \<and> calls slot = 0 \<and> call_state slot' = CallUnloaded \<and> calls slot' = 0"
  "(\<exists>slot'. unload_slot u slot = Inr slot') \<longleftrightarrow> call_state slot = CallDraining \<and> calls slot = 0"
  by (auto simp: unload_slot_def call_state_def calls_def unat_eq_0 split: if_splits)

lemma status_bytes [simp]: "status_from_byte (status_as_u8 s) = s" "reason_from_byte (reason_as_u8 r) = r"
  by (cases s; simp add: status_from_byte_def) (cases r; simp add: reason_from_byte_def)

declare status_as_u8.simps [simp del] reason_as_u8.simps [simp del]

section \<open>Calls under interleaving\<close>

text \<open>
  A calling thread between its atomic accesses to a slot: after the first status test, after the
  increment, after it has read an accepting call word, after a failed confirmation, and while it owns
  a guard. From the increment on it is counted.
\<close>

datatype call_pc = BIdle | BChecked bool | BReserved bool | BWord bool | BRefused | BLive

fun counted :: "call_pc \<Rightarrow> bool" where
  "counted (BReserved _) = True"
| "counted (BWord _) = True"
| "counted BRefused = True"
| "counted BLive = True"
| "counted _ = False"

text \<open>
  The steps of one slot and its callers. The other cells of the slot change freely, as updates store
  them one by one; the call word only changes through the modelled exchanges.
\<close>

inductive cap_step :: "RuntimeCapabilitySlot \<times> call_pc list \<Rightarrow> RuntimeCapabilitySlot \<times> call_pc list \<Rightarrow> bool" where
  cp_check: "i < length ts \<Longrightarrow> ts ! i = BIdle \<Longrightarrow> slot_accepts allow slot \<Longrightarrow>
     cap_step (slot, ts) (slot, ts[i := BChecked allow])"
| cp_reserve: "i < length ts \<Longrightarrow> ts ! i = BChecked allow \<Longrightarrow> increment_active_call slot = Inr slot' \<Longrightarrow>
     cap_step (slot, ts) (slot', ts[i := BReserved allow])"
| cp_deny: "i < length ts \<Longrightarrow> ts ! i = BChecked allow \<Longrightarrow> increment_active_call slot = Inl message \<Longrightarrow>
     cap_step (slot, ts) (record_runtime_capability_denied slot, ts[i := BIdle])"
| cp_word: "i < length ts \<Longrightarrow> ts ! i = BReserved allow \<Longrightarrow>
     cap_step (slot, ts) (slot, ts[i := (if accepts_new_calls (call_state_from_word (rc_call_word slot))
                                         then BWord allow else BRefused)])"
| cp_confirm: "i < length ts \<Longrightarrow> ts ! i = BWord allow \<Longrightarrow>
     cap_step (slot, ts) (slot, ts[i := (if slot_accepts allow slot then BLive else BRefused)])"
| cp_refuse: "i < length ts \<Longrightarrow> ts ! i = BRefused \<Longrightarrow>
     cap_step (slot, ts) (record_runtime_capability_denied (decrement_active_call slot), ts[i := BIdle])"
| cp_finish: "i < length ts \<Longrightarrow> ts ! i = BLive \<Longrightarrow>
     cap_step (slot, ts) (decrement_active_call slot, ts[i := BIdle])"
| cp_set: "cap_step (slot, ts) (set_call_state u s slot, ts)"
| cp_reconcile: "cap_step (slot, ts) (reconcile_call_state_after_update u status reason slot, ts)"
| cp_unload: "unload_slot u slot = Inr slot' \<Longrightarrow> cap_step (slot, ts) (slot', ts)"
| cp_cells: "cap_step (slot, ts) (slot\<lparr>rc_status := a, rc_reason := b, rc_epoch := c,
     rc_changed_at_secs := d, rc_observed_at_secs := e, rc_drain_denied_total := f\<rparr>, ts)"

inductive cap_reachable :: "RuntimeCapabilitySlot \<times> call_pc list \<Rightarrow> bool" where
  cr_start: "(\<forall>t \<in> set ts. t = BIdle) \<Longrightarrow> cap_reachable (capability_slot_new, ts)"
| cr_step: "cap_reachable s \<Longrightarrow> cap_step s s' \<Longrightarrow> cap_reachable s'"

definition in_flight :: "call_pc list \<Rightarrow> nat" where
  "in_flight ts = length (filter counted ts)"

lemma in_flight_update:
  assumes "i < length ts"
  shows "in_flight (ts[i := t]) = in_flight ts - (if counted (ts ! i) then 1 else 0) + (if counted t then 1 else 0)"
    and "counted (ts ! i) \<Longrightarrow> 1 \<le> in_flight ts"
proof -
  have s: "filter counted ts = filter counted (take i ts) @ filter counted [ts ! i] @ filter counted (drop (Suc i) ts)"
    using assms by (metis append_Cons append_Nil filter_append id_take_nth_drop)
  then show "counted (ts ! i) \<Longrightarrow> 1 \<le> in_flight ts" by (simp add: in_flight_def)
  show "in_flight (ts[i := t]) = in_flight ts - (if counted (ts ! i) then 1 else 0) + (if counted t then 1 else 0)"
    using assms by (simp add: in_flight_def s upd_conv_take_nth_drop)
qed

lemma cap_step_calls:
  "cap_step s s' \<Longrightarrow> calls (fst s) = in_flight (snd s) \<Longrightarrow> calls (fst s') = in_flight (snd s')"
  by (induction rule: cap_step.induct)
    (auto simp: in_flight_update dest: increment_pair(1) unload_pair(1) in_flight_update(2))

lemma cap_reachable_calls: "cap_reachable s \<Longrightarrow> calls (fst s) = in_flight (snd s)"
proof (induction rule: cap_reachable.induct)
  case (cr_start ts)
  then have "in_flight ts = 0" by (auto simp: in_flight_def filter_empty_conv)
  then show ?case by (simp add: calls_def capability_slot_new_def)
qed (blast intro: cap_step_calls)

text \<open>
  C6: under every interleaving of callers, updates, drains and unloads, the active-call count of a
  slot is exactly the number of calls between their increment and their decrement, it never
  overflows into the call state, and an unload only succeeds when no thread owns a call or is about
  to own one.
\<close>
theorem calls_in_flight_exact:
  assumes "cap_reachable (slot, ts)"
  shows "calls slot = in_flight ts \<and> in_flight ts < 65536
    \<and> (\<forall>u slot'. unload_slot u slot = Inr slot' \<longrightarrow>
         BLive \<notin> set ts \<and> (\<forall>t \<in> set ts. \<not> counted t) \<and> call_state slot' = CallUnloaded)"
proof -
  have c: "calls slot = in_flight ts" using cap_reachable_calls [OF assms] by simp
  moreover have "\<forall>t \<in> set ts. \<not> counted t" if "calls slot = 0"
    using that c by (simp add: in_flight_def filter_empty_conv)
  then have "BLive \<notin> set ts \<and> (\<forall>t \<in> set ts. \<not> counted t) \<and> call_state slot' = CallUnloaded"
    if "unload_slot u slot = Inr slot'" for u slot'
    using unload_pair(1) [OF that] by auto
  ultimately show ?thesis using calls_bound [of slot] by simp
qed

theorem calls_in_flight_exact_witness:
  "calls (set_call_state 5 CallDraining capability_slot_new) = in_flight [BIdle, BIdle]"
proof -
  have "cap_reachable (set_call_state 5 CallDraining capability_slot_new, [BIdle, BIdle])"
    by (rule cr_step [OF cr_start cp_set]) simp
  from calls_in_flight_exact [OF this] show ?thesis by blast
qed

text \<open>
  A drain only shrinks. While a slot is draining, no step of any thread adds a call, and no
  update or observation ends the drain: only an explicit transition or a completed unload does.
\<close>
theorem drain_only_shrinks:
  assumes "cap_step (slot, ts) (slot', ts')" and "call_state slot = CallDraining"
  shows "in_flight ts' \<le> in_flight ts
    \<and> (call_state slot' = CallDraining \<or> (\<exists>u s. slot' = set_call_state u s slot)
       \<or> (\<exists>u. unload_slot u slot = Inr slot' \<and> calls slot = 0))"
  using assms
proof (cases rule: cap_step.cases)
  case (cp_reserve i allow)
  then show ?thesis using increment_pair(1) [of slot slot'] assms(2) by simp
qed (auto simp: in_flight_update assms(2) dest: unload_pair(1) in_flight_update(2))

theorem drain_only_shrinks_witness:
  "in_flight [BIdle] \<le> in_flight [BRefused]"
proof -
  let ?slot = "set_call_state 5 CallDraining capability_slot_new"
  have "cap_step (?slot, [BRefused]) (record_runtime_capability_denied (decrement_active_call ?slot), [BRefused][0 := BIdle])"
    by (rule cp_refuse) simp_all
  from drain_only_shrinks [OF this] show ?thesis by simp
qed

section \<open>The registry\<close>

text \<open>A registry holds one slot per id; an id of the list resolves to its own slot.\<close>

definition well_formed_authority :: "authority \<Rightarrow> bool" where
  "well_formed_authority slots \<longleftrightarrow> length slots = length RUNTIME_CAPABILITY_IDS"

lemma ids_length [simp]: "length RUNTIME_CAPABILITY_IDS = 9"
  by (simp add: RUNTIME_CAPABILITY_IDS_def)

lemma capability_index_bound:
  "capability_index cid = Some index \<Longrightarrow> well_formed_authority slots \<Longrightarrow> index < length slots"
  unfolding capability_index_def well_formed_authority_def by (auto dest: position_Some)

lemma capability_indices [simp]:
  "capability_index RUNTIME_CAPABILITY_AUDIO_OUTPUT = Some 0"
  "capability_index RUNTIME_CAPABILITY_AUDIO_INPUT = Some 1"
  "capability_index RUNTIME_CAPABILITY_NETWORK_OUTBOUND_HTTP = Some 2"
  "capability_index RUNTIME_CAPABILITY_STORAGE_STATE_FS = Some 3"
  "capability_index RUNTIME_CAPABILITY_DISPLAY_OUTPUT = Some 4"
  "capability_index RUNTIME_CAPABILITY_HARDWARE_GPIO = Some 5"
  "capability_index RUNTIME_CAPABILITY_HARDWARE_I2C = Some 6"
  "capability_index RUNTIME_CAPABILITY_SENSOR = Some 7"
  "capability_index RUNTIME_CAPABILITY_CAMERA_FRAME = Some 8"
  by (simp_all add: capability_index_def RUNTIME_CAPABILITY_IDS_def capability_ids)

lemma update_length [simp]: "length (update_runtime_capability u upd slots) = length slots"
  by (simp add: update_runtime_capability_def Let_def split: option.split)

lemma begin_reserve_pair:
  "begin_reserve slot =
     (if call_state slot = CallAccepting \<and> calls slot < 65535
      then (projr (increment_active_call slot), Inr ())
      else (record_runtime_capability_denied slot, Inl (projl (increment_active_call slot))))"
  using increment_pair(2) [of slot]
  by (cases "increment_active_call slot") (auto simp: begin_reserve_def)

lemma begin_confirm_pair:
  "begin_confirm allow slot =
     (if call_state slot = CallAccepting \<and> slot_accepts allow slot then (slot, True)
      else (record_runtime_capability_denied (decrement_active_call slot), False))"
  by (simp add: begin_confirm_def accepts_new_calls_def call_state_def)

text \<open>What a begin does, in terms of the slot's pair.\<close>

lemma begin_call:
  assumes "capability_index cid = Some index"
  shows "slot_accepts allow (slots ! index) \<Longrightarrow> increment_active_call (slots ! index) = Inr slot' \<Longrightarrow>
      try_begin_runtime_capability_call_inner cid allow slots
        = (slots[index := slot'], Inr \<lparr>cg_index = index, cg_active = True\<rparr>)"
    and "\<not> (slot_accepts allow (slots ! index) \<and> call_state (slots ! index) = CallAccepting
            \<and> calls (slots ! index) < 65535) \<Longrightarrow>
      fst (try_begin_runtime_capability_call_inner cid allow slots)
        = slots[index := record_runtime_capability_denied (slots ! index)]
      \<and> (\<exists>e. snd (try_begin_runtime_capability_call_inner cid allow slots) = Inl e)"
proof -
  assume a: "slot_accepts allow (slots ! index)" and i: "increment_active_call (slots ! index) = Inr slot'"
  note p = increment_pair(1) [OF i]
  then have "slot_accepts allow slot'" using a by (simp add: slot_accepts_def)
  then show "try_begin_runtime_capability_call_inner cid allow slots
      = (slots[index := slot'], Inr \<lparr>cg_index = index, cg_active = True\<rparr>)"
    using a p i
    by (auto simp: try_begin_runtime_capability_call_inner_def assms begin_reserve_pair begin_confirm_pair)
qed (auto simp: try_begin_runtime_capability_call_inner_def assms begin_reserve_pair Let_def)

lemma begin_call_iff:
  assumes "capability_index cid = Some index"
  shows "(\<exists>guard. snd (try_begin_runtime_capability_call_inner cid allow slots) = Inr guard)
    \<longleftrightarrow> slot_accepts allow (slots ! index) \<and> call_state (slots ! index) = CallAccepting
        \<and> calls (slots ! index) < 65535"
  using begin_call [OF assms] increment_pair(2) [of "slots ! index"] by (metis Inl_Inr_False snd_conv)

text \<open>
  A call begins exactly when the capability's status and reason admit it, its call state accepts
  calls and the counter has room. A begun call is counted once and finishing its guard gives the count
  back, at most once; a refused call leaves the count and raises the denied total by one.
\<close>
theorem capability_call_contract:
  assumes "capability_index cid = Some index" "well_formed_authority slots"
    and "try_begin_runtime_capability_call_inner cid allow slots = (slots', result)"
  shows "case result of
      Inr guard \<Rightarrow> slot_accepts allow (slots ! index) \<and> call_state (slots ! index) = CallAccepting
        \<and> calls (slots' ! index) = Suc (calls (slots ! index))
        \<and> (\<forall>slots'' guard'. call_guard_finish guard slots' = (slots'', guard') \<longrightarrow>
             calls (slots'' ! index) = calls (slots ! index)
             \<and> call_guard_finish guard' slots'' = (slots'', guard'))
    | Inl _ \<Rightarrow> \<not> (slot_accepts allow (slots ! index) \<and> call_state (slots ! index) = CallAccepting
                   \<and> calls (slots ! index) < 65535)
        \<and> calls (slots' ! index) = calls (slots ! index)
        \<and> rc_drain_denied_total (slots' ! index) = rc_drain_denied_total (slots ! index) + 1"
proof -
  note b = capability_index_bound [OF assms(1,2)]
  let ?slot = "slots ! index"
  show ?thesis
  proof (cases "slot_accepts allow ?slot \<and> call_state ?slot = CallAccepting \<and> calls ?slot < 65535")
    case True
    then obtain slot' where i: "increment_active_call ?slot = Inr slot'" using increment_pair(2) by blast
    note p = increment_pair(1) [OF i]
    have "slots' = slots[index := slot']" "result = Inr \<lparr>cg_index = index, cg_active = True\<rparr>"
      using begin_call(1) [OF assms(1) _ i] True assms(3) by auto
    then show ?thesis using p b True by (auto simp: call_guard_finish_def)
  next
    case False
    then have "slots' = slots[index := record_runtime_capability_denied ?slot] \<and> (\<exists>e. result = Inl e)"
      using begin_call(2) [OF assms(1)] assms(3) by (metis fst_conv snd_conv)
    then show ?thesis using False b by auto
  qed
qed

section \<open>Updates\<close>

lemma update_at:
  assumes "capability_index (ru_id upd) = Some index" "index < length slots"
  shows "update_runtime_capability u upd slots ! index =
    reconcile_call_state_after_update u (ru_status upd) (ru_reason upd)
     ((slots ! index)\<lparr>rc_status := status_as_u8 (ru_status upd), rc_reason := reason_as_u8 (ru_reason upd),
       rc_epoch := (if rc_epoch (slots ! index) = 0
            \<or> status_from_byte (rc_status (slots ! index)) \<noteq> ru_status upd
            \<or> reason_from_byte (rc_reason (slots ! index)) \<noteq> ru_reason upd
          then max (sat_add (rc_epoch (slots ! index)) 1) 1 else max (rc_epoch (slots ! index)) 1),
       rc_observed_at_secs := ru_observed_at_secs upd,
       rc_changed_at_secs := (if rc_epoch (slots ! index) = 0
            \<or> status_from_byte (rc_status (slots ! index)) \<noteq> ru_status upd
            \<or> reason_from_byte (rc_reason (slots ! index)) \<noteq> ru_reason upd
          then ru_observed_at_secs upd else rc_changed_at_secs (slots ! index))\<rparr>)"
  using assms by (simp add: update_runtime_capability_def Let_def)

lemma reconcile_cells [simp]:
  "rc_status (reconcile_call_state_after_update u s r slot) = rc_status slot"
  "rc_reason (reconcile_call_state_after_update u s r slot) = rc_reason slot"
  "rc_epoch (reconcile_call_state_after_update u s r slot) = rc_epoch slot"
  "rc_changed_at_secs (reconcile_call_state_after_update u s r slot) = rc_changed_at_secs slot"
  "rc_observed_at_secs (reconcile_call_state_after_update u s r slot) = rc_observed_at_secs slot"
  by (simp_all add: reconcile_call_state_after_update_def Let_def)

lemma update_epoch:
  assumes "capability_index (ru_id upd) = Some index" "index < length slots"
  shows "rc_epoch (update_runtime_capability u upd slots ! index) =
     (if rc_epoch (slots ! index) = 0
         \<or> status_from_byte (rc_status (slots ! index)) \<noteq> ru_status upd
         \<or> reason_from_byte (rc_reason (slots ! index)) \<noteq> ru_reason upd
      then max (sat_add (rc_epoch (slots ! index)) 1) 1 else max (rc_epoch (slots ! index)) 1)"
  using assms by (simp add: update_at)

text \<open>An accepting registry for the witnesses: the speaker is online.\<close>

definition speaker_online :: authority where
  "speaker_online = observe_runtime_capability_success 7 100 [RUNTIME_CAPABILITY_AUDIO_OUTPUT] authority_new"

lemma authority_new_well_formed: "well_formed_authority authority_new"
  by (simp add: well_formed_authority_def authority_new_def)

lemma speaker_online_well_formed: "well_formed_authority speaker_online"
  by (simp add: speaker_online_def observe_runtime_capability_success_def capability_indices(1)
      well_formed_authority_def authority_new_def)

lemma new_slot_pair [simp]:
  "call_state capability_slot_new = CallUnloaded" "calls capability_slot_new = 0"
  "rc_epoch capability_slot_new = 0"
  by (simp_all add: call_state_def calls_def capability_slot_new_def)

lemma speaker_slot:
  "slot_accepts allow (speaker_online ! 0)" "call_state (speaker_online ! 0) = CallAccepting"
  "calls (speaker_online ! 0) = 0"
  by (simp_all add: speaker_online_def observe_runtime_capability_success_def capability_indices(1) Let_def
      observation_def update_at authority_new_def slot_accepts_def status_accepts_runtime_call_def
      next_call_state_def)

theorem capability_call_contract_witness:
  "calls (fst (try_begin_runtime_capability_call RUNTIME_CAPABILITY_AUDIO_OUTPUT speaker_online) ! 0) = 1"
proof -
  obtain slots' result where r:
    "try_begin_runtime_capability_call_inner RUNTIME_CAPABILITY_AUDIO_OUTPUT False speaker_online = (slots', result)"
    by fastforce
  show ?thesis
    using capability_call_contract [OF capability_indices(1) speaker_online_well_formed r] r speaker_slot
    by (cases result) (auto simp: try_begin_runtime_capability_call_def)
qed

text \<open>The reports of a history that concern one slot.\<close>

definition reports_of :: "nat \<Rightarrow> RuntimeCapabilityUpdate list
    \<Rightarrow> (RuntimeCapabilityStatus \<times> RuntimeCapabilityReason) list" where
  "reports_of index history =
     map (\<lambda>upd. (ru_status upd, ru_reason upd)) (filter (\<lambda>upd. capability_index (ru_id upd) = Some index) history)"

lemma runs_snoc:
  "length (remdups_adj (xs @ [x])) = length (remdups_adj xs) + (if xs \<noteq> [] \<and> last xs = x then 0 else 1)"
proof (cases xs rule: rev_cases)
  case (snoc ys y)
  then show ?thesis by (simp add: remdups_adj_append_two)
qed simp

lemma update_other:
  assumes "capability_index (ru_id upd) \<noteq> Some index"
  shows "update_runtime_capability u upd slots ! index = slots ! index"
  using assms by (auto simp: update_runtime_capability_def Let_def split: option.splits)

lemma fold_update_length [simp]:
  "length (fold (update_runtime_capability u) history slots) = length slots"
  by (induction history arbitrary: slots) simp_all

lemma nonzero_max:
  assumes "(e :: u32) \<noteq> 0"
  shows "max e 1 = e"
proof -
  have "unat e \<noteq> 0" using assms by (simp add: unat_eq_0)
  then have "1 \<le> e" by (simp add: word_le_nat_alt)
  then show ?thesis by (rule max_absorb1)
qed

lemma epoch_bump: "max (sat_add e 1) 1 = (sat_add e 1 :: u32)"
proof -
  have "1 \<le> unat (sat_add e 1)" by (simp add: unat_sat_add)
  then have "1 \<le> (sat_add e 1 :: u32)" by (simp add: word_le_nat_alt)
  then show ?thesis by (rule max_absorb1)
qed

text \<open>
  From a fresh registry, the epoch of a capability is the number of runs of equal reports it
  received (saturating at the largest word): repeating a report never raises it, and every change of
  status or reason does. The registry shows the last report, and reports to other capabilities leave
  the slot untouched.
\<close>
theorem capability_epoch_counts_changes:
  fixes u history index
  defines "slot \<equiv> fold (update_runtime_capability u) history authority_new ! index"
  assumes "index < 9"
  shows "unat (rc_epoch slot) = min (length (remdups_adj (reports_of index history))) (2 ^ 32 - 1)
    \<and> (reports_of index history \<noteq> [] \<longrightarrow>
         (status_from_byte (rc_status slot), reason_from_byte (rc_reason slot)) = last (reports_of index history))
    \<and> (reports_of index history = [] \<longrightarrow> slot = capability_slot_new)
    \<and> calls slot = 0"
  unfolding slot_def
proof (induction history rule: rev_induct)
  case Nil
  then show ?case using assms(2) by (simp add: reports_of_def authority_new_def)
next
  case (snoc upd history)
  let ?old = "fold (update_runtime_capability u) history authority_new"
  have len: "index < length ?old" using assms(2) by (simp add: authority_new_def)
  show ?case
  proof (cases "capability_index (ru_id upd) = Some index")
    case True
    let ?report = "(ru_status upd, ru_reason upd)" and ?past = "reports_of index history"
    have reports: "reports_of index (history @ [upd]) = ?past @ [?report]"
      using True by (simp add: reports_of_def)
    have e: "rc_epoch (?old ! index) = 0 \<longleftrightarrow> ?past = []"
    proof -
      have "min (length (remdups_adj ?past)) (2 ^ 32 - 1) = 0 \<longleftrightarrow> ?past = []"
        by (cases "?past = []") (simp_all add: min_def)
      then show ?thesis using snoc unat_eq_0 [of "rc_epoch (?old ! index)"] by presburger
    qed
    have changed: "(rc_epoch (?old ! index) = 0
        \<or> status_from_byte (rc_status (?old ! index)) \<noteq> ru_status upd
        \<or> reason_from_byte (rc_reason (?old ! index)) \<noteq> ru_reason upd)
      \<longleftrightarrow> \<not> (?past \<noteq> [] \<and> last ?past = ?report)"
      using snoc e by (cases "?past = []") auto
    have keep: "max (rc_epoch (?old ! index)) 1 = rc_epoch (?old ! index)" if "?past \<noteq> []"
      using e that by (intro nonzero_max) simp
    have ep: "rc_epoch (update_runtime_capability u upd ?old ! index)
        = (if ?past \<noteq> [] \<and> last ?past = ?report then rc_epoch (?old ! index)
           else sat_add (rc_epoch (?old ! index)) 1)"
      unfolding update_epoch [OF True len] changed using keep by (simp add: epoch_bump)
    have old: "unat (rc_epoch (?old ! index)) = min (length (remdups_adj ?past)) (2 ^ 32 - 1)"
      using snoc by blast
    have "unat (rc_epoch (update_runtime_capability u upd ?old ! index))
        = min (length (remdups_adj (?past @ [?report]))) (2 ^ 32 - 1)"
      unfolding ep runs_snoc using old by (auto simp: unat_sat_add min_def)
    moreover have "calls (update_runtime_capability u upd ?old ! index) = 0"
      using snoc by (simp add: update_at [OF True len])
    moreover have "status_from_byte (rc_status (update_runtime_capability u upd ?old ! index)) = ru_status upd"
      "reason_from_byte (rc_reason (update_runtime_capability u upd ?old ! index)) = ru_reason upd"
      by (simp_all add: update_at [OF True len])
    ultimately show ?thesis by (simp add: reports)
  next
    case False
    then have "reports_of index (history @ [upd]) = reports_of index history" by (simp add: reports_of_def)
    then show ?thesis using snoc False by (simp add: update_other)
  qed
qed

theorem capability_epoch_counts_changes_witness:
  "unat (rc_epoch (fold (update_runtime_capability 1) [] authority_new ! 3)) = 0"
  using capability_epoch_counts_changes [of 3 1 "[]"] by (simp add: reports_of_def)

text \<open>
  A disabled capability refuses every call until something reports it again; a single success
  observation reopens it, with no separate enable.
\<close>
theorem disable_lasts_until_observed:
  assumes "capability_index cid = Some index" "well_formed_authority slots"
    and "mark_runtime_capability_disabled u secs cid slots = (disabled, result)"
  shows "result = Inr () \<and> call_state (disabled ! index) = CallDisabled
    \<and> \<not> slot_accepts allow (disabled ! index)
    \<and> (\<exists>e. snd (try_begin_runtime_capability_call_inner cid allow disabled) = Inl e)
    \<and> call_state (observe_runtime_capability_success u' now [cid] disabled ! index) = CallAccepting
    \<and> slot_accepts allow (observe_runtime_capability_success u' now [cid] disabled ! index)
    \<and> calls (observe_runtime_capability_success u' now [cid] disabled ! index) = calls (slots ! index)"
proof -
  note b = capability_index_bound [OF assms(1,2)]
  have d: "result = Inr ()" "disabled = update_runtime_capability u (offline_update cid ReasonOperatorDisabled secs)
      (slots[index := set_call_state u CallDisabled (slots ! index)])"
    using assms(1,3) by (auto simp: mark_runtime_capability_disabled_def)
  have l: "index < length disabled" using b d(2) by simp
  have slot: "call_state (disabled ! index) = CallDisabled" "calls (disabled ! index) = calls (slots ! index)"
      "\<not> slot_accepts allow (disabled ! index)"
    using b assms(1)
    by (simp_all add: d(2) update_at offline_update_def next_call_state_def slot_accepts_def
        status_accepts_runtime_call_def)
  then have "\<exists>e. snd (try_begin_runtime_capability_call_inner cid allow disabled) = Inl e"
    using assms(1) by (simp add: try_begin_runtime_capability_call_inner_def)
  then show ?thesis
    using d(1) slot l assms(1)
    by (simp add: observe_runtime_capability_success_def observation_def update_at next_call_state_def
        slot_accepts_def status_accepts_runtime_call_def Let_def)
qed

theorem disable_lasts_until_observed_witness:
  "call_state (fst (mark_runtime_capability_disabled 1 2 RUNTIME_CAPABILITY_AUDIO_OUTPUT speaker_online) ! 0)
     = CallDisabled"
proof -
  obtain slots' result where r:
    "mark_runtime_capability_disabled 1 2 RUNTIME_CAPABILITY_AUDIO_OUTPUT speaker_online = (slots', result)"
    by fastforce
  show ?thesis
    using disable_lasts_until_observed [OF capability_indices(1) speaker_online_well_formed r] r by simp
qed

section \<open>Observations of the network\<close>

lemma observe_others [simp]:
  "observe_display_capability u platform config secs slots ! 2 = slots ! 2"
  "observe_hardware_capabilities u platform config secs slots ! 2 = slots ! 2"
  "observe_camera_capability u secs slots ! 2 = slots ! 2"
  by (simp_all add: observe_display_capability_def observe_hardware_capabilities_def
      observe_camera_capability_def online_or_def observation_def update_other Let_def)

text \<open>
  On the device, a strict outbound call begins right after a platform observation exactly when the
  client is ready and the station is expected, configured, holds an address and has settled; and no
  drain is in progress and the counter has room. What the other probes report does not matter.
\<close>
theorem outbound_call_after_observation:
  assumes "well_formed_authority slots" and "pf_memory_system_kind platform = EspCompact"
    and "snapshot = network_runtime_snapshot now trusted 3 cells"
    and "slots' = observe_runtime_capabilities_from_platform_with_config u now trusted cells platform
           config client_ready storage_ready slots"
  shows "(\<exists>guard. snd (try_begin_runtime_capability_call RUNTIME_CAPABILITY_NETWORK_OUTBOUND_HTTP slots') = Inr guard)
    \<longleftrightarrow> client_ready \<and> nr_sta_expected snapshot \<and> nr_sta_configured snapshot
        \<and> nr_sta_ip_present snapshot \<and> nr_outbound_settled snapshot
        \<and> call_state (slots ! 2) \<noteq> CallDraining \<and> calls (slots ! 2) < 65535"
proof -
  let ?status = "if \<not> client_ready then (StatusOffline, ReasonRuntimeNotInitialized)
    else outbound_http_status_for_network_snapshot snapshot"
  have len: "length slots = 9" using assms(1) by (simp add: well_formed_authority_def)
  have "call_state (slots' ! 2) = (if call_state (slots ! 2) = CallDraining then CallDraining
          else next_call_state (fst ?status) (snd ?status) (call_state (slots ! 2)))"
    "calls (slots' ! 2) = calls (slots ! 2)"
    "slot_accepts False (slots' ! 2) \<longleftrightarrow> status_accepts_runtime_call (fst ?status) (snd ?status) False"
    using len assms(2,3)
    by (cases storage_ready; simp add: assms(4) observe_runtime_capabilities_from_platform_with_config_def Let_def
        online_or_def observation_def update_other update_at slot_accepts_def
        resolve_outbound_http_capability_update_from_network_def split_beta)+
  then show ?thesis
    unfolding try_begin_runtime_capability_call_def begin_call_iff [OF capability_indices(3)]
    by (auto simp: outbound_http_status_for_network_snapshot_def status_accepts_runtime_call_def
        next_call_state_def Let_def split: if_splits)
qed

definition bare_platform :: platform_facts where
  "bare_platform = \<lparr>pf_audio_speaker_ready = False, pf_audio_mic_ready = False,
     pf_memory_system_kind = EspCompact, pf_display_available = False, pf_i2c_ready = False\<rparr>"

theorem outbound_call_after_observation_witness:
  "\<exists>guard. snd (try_begin_runtime_capability_call RUNTIME_CAPABILITY_NETWORK_OUTBOUND_HTTP
     (observe_runtime_capabilities_from_platform_with_config 7 115 True joined bare_platform None True None
        authority_new)) = Inr guard"
proof -
  have "pf_memory_system_kind bare_platform = EspCompact" by (simp add: bare_platform_def)
  note iff = outbound_call_after_observation [OF authority_new_well_formed this refl refl,
      where now = 115 and trusted = True and cells = joined and u = 7 and config = None
        and client_ready = True and storage_ready = None]
  show ?thesis
    unfolding iff
    by (simp add: joined_def set_wifi_sta_state_def set_network_sta_expected_def set_network_wifi_stage_def
        net_cells_init_def network_runtime_snapshot_def wifi_sta_settled_for_outbound_def Let_def
        authority_new_def sat_sub_def)
qed

end
