(* ===== verification/Text.thy ===== *)
theory Text
  imports Prelude "HOL-Library.Sublist"
begin

text \<open>
  The text primitives of the sources: Rust strings as the bytes of their UTF-8 encoding (\<open>len\<close>
  is the number of bytes), \<open>str::trim\<close> of the standard library, character boundaries, and the
  truncation helpers of \<open>src/src/util.rs\<close>.
\<close>

section \<open>UTF-8 text\<close>

definition is_continuation :: "char \<Rightarrow> bool" where
  "is_continuation c \<longleftrightarrow> 128 \<le> (of_char c :: nat) \<and> (of_char c :: nat) < 192"

text \<open>The length of a character from its first byte. Overlong forms and surrogates are let through.\<close>

definition utf8_width :: "char \<Rightarrow> nat option" where
  "utf8_width c =
     (let b = of_char c :: nat
      in if b < 128 then Some 1 else if b < 194 then None else if b < 224 then Some 2
         else if b < 240 then Some 3 else if b < 245 then Some 4 else None)"

fun valid_utf8 :: "string \<Rightarrow> bool" where
  "valid_utf8 [] = True"
| "valid_utf8 (c # cs) =
     (case utf8_width c of
        None \<Rightarrow> False
      | Some w \<Rightarrow> w - 1 \<le> length cs \<and> list_all is_continuation (take (w - 1) cs) \<and> valid_utf8 (drop (w - 1) cs))"

text \<open>\<open>str::is_char_boundary\<close>.\<close>

definition is_char_boundary :: "string \<Rightarrow> nat \<Rightarrow> bool" where
  "is_char_boundary s n \<longleftrightarrow> n = 0 \<or> n = length s \<or> (n < length s \<and> \<not> is_continuation (s ! n))"

lemma boundary_0 [simp]: "is_char_boundary s 0"
  by (simp add: is_char_boundary_def)

lemma utf8_width_pos: "utf8_width c = Some w \<Longrightarrow> 1 \<le> w \<and> w \<le> 4 \<and> \<not> is_continuation c"
  by (auto simp: utf8_width_def is_continuation_def Let_def split: if_splits)

lemma boundary_split:
  "valid_utf8 s \<Longrightarrow> is_char_boundary s n \<Longrightarrow> valid_utf8 (take n s) \<and> valid_utf8 (drop n s)"
proof (induction s arbitrary: n rule: valid_utf8.induct)
  case (2 c cs)
  then obtain w where w: "utf8_width c = Some w" "w - 1 \<le> length cs" "list_all is_continuation (take (w - 1) cs)"
    "valid_utf8 (drop (w - 1) cs)" by (auto split: option.splits)
  note wp = utf8_width_pos [OF w(1)]
  show ?case
  proof (cases "n = 0")
    case False
    then obtain m where n: "n = Suc m" by (cases n) auto
    have out: "w - 1 \<le> m"
    proof (rule ccontr)
      assume "\<not> w - 1 \<le> m"
      then have m: "m < w - 1" "m < length cs" using w(2) by auto
      then have "is_continuation (take (w - 1) cs ! m)" using w(2,3) by (auto simp: list_all_length)
      then show False using 2(3) n m by (auto simp: is_char_boundary_def)
    qed
    have b: "is_char_boundary (drop (w - 1) cs) (m - (w - 1))"
      using 2(3) n out w(2) by (auto simp: is_char_boundary_def diff_less_mono)
    have IH: "valid_utf8 (take (m - (w - 1)) (drop (w - 1) cs))" "valid_utf8 (drop (m - (w - 1)) (drop (w - 1) cs))"
      using 2(1) [OF w(1) w(4) b] by auto
    have "take (w - 1) (take m cs) = take (w - 1) cs" "drop (w - 1) (take m cs) = take (m - (w - 1)) (drop (w - 1) cs)"
      using out by (simp_all add: min_def drop_take)
    moreover have "drop m cs = drop (m - (w - 1)) (drop (w - 1) cs)" using out by simp
    moreover have "w - 1 \<le> length (take m cs)" using out w(2) by simp
    ultimately show ?thesis using n w IH by (simp del: drop_drop take_take)
  qed (use 2 in simp)
qed simp

section \<open>Trimming\<close>

text \<open>The UTF-8 encodings of the characters with the Unicode property White_Space.\<close>

definition whitespace :: "string list" where
  "whitespace =
     [[CHR 0x09], [CHR 0x0A], [CHR 0x0B], [CHR 0x0C], [CHR 0x0D], [CHR 0x20],
      [CHR 0xC2, CHR 0x85], [CHR 0xC2, CHR 0xA0], [CHR 0xE1, CHR 0x9A, CHR 0x80],
      [CHR 0xE2, CHR 0x80, CHR 0x80], [CHR 0xE2, CHR 0x80, CHR 0x81], [CHR 0xE2, CHR 0x80, CHR 0x82],
      [CHR 0xE2, CHR 0x80, CHR 0x83], [CHR 0xE2, CHR 0x80, CHR 0x84], [CHR 0xE2, CHR 0x80, CHR 0x85],
      [CHR 0xE2, CHR 0x80, CHR 0x86], [CHR 0xE2, CHR 0x80, CHR 0x87], [CHR 0xE2, CHR 0x80, CHR 0x88],
      [CHR 0xE2, CHR 0x80, CHR 0x89], [CHR 0xE2, CHR 0x80, CHR 0x8A], [CHR 0xE2, CHR 0x80, CHR 0xA8],
      [CHR 0xE2, CHR 0x80, CHR 0xA9], [CHR 0xE2, CHR 0x80, CHR 0xAF], [CHR 0xE2, CHR 0x81, CHR 0x9F],
      [CHR 0xE3, CHR 0x80, CHR 0x80]]"

lemma whitespace_nonempty: "w \<in> set whitespace \<Longrightarrow> w \<noteq> []"
  by (auto simp: whitespace_def)

definition leading :: "string \<Rightarrow> string option" where
  "leading s = find (\<lambda>w. prefix w s) whitespace"

definition trailing :: "string \<Rightarrow> string option" where
  "trailing s = find (\<lambda>w. suffix w s) whitespace"

lemma leading_SomeD: "leading s = Some w \<Longrightarrow> w \<in> set whitespace \<and> prefix w s \<and> w \<noteq> []"
  using whitespace_nonempty by (auto simp: leading_def find_Some_iff)

lemma trailing_SomeD: "trailing s = Some w \<Longrightarrow> w \<in> set whitespace \<and> suffix w s \<and> w \<noteq> []"
  using whitespace_nonempty by (auto simp: trailing_def find_Some_iff)

lemma leading_None: "leading s = None \<longleftrightarrow> (\<forall>w \<in> set whitespace. \<not> prefix w s)"
  by (auto simp: leading_def find_None_iff)

lemma trailing_None: "trailing s = None \<longleftrightarrow> (\<forall>w \<in> set whitespace. \<not> suffix w s)"
  by (auto simp: trailing_def find_None_iff)

function trim_start :: "string \<Rightarrow> string" where
  "trim_start s = (case leading s of None \<Rightarrow> s | Some w \<Rightarrow> trim_start (drop (length w) s))"
  by pat_completeness auto
termination
  by (relation "measure length") (auto dest!: leading_SomeD simp: prefix_def)

function trim_end :: "string \<Rightarrow> string" where
  "trim_end s = (case trailing s of None \<Rightarrow> s | Some w \<Rightarrow> trim_end (take (length s - length w) s))"
  by pat_completeness auto
termination
  by (relation "measure length") (auto dest!: trailing_SomeD simp: suffix_def)

declare trim_start.simps [simp del] trim_end.simps [simp del]

definition trim :: "string \<Rightarrow> string" where
  "trim s = trim_end (trim_start s)"

lemma trim_start_clean: "leading (trim_start s) = None"
  by (induction s rule: trim_start.induct) (subst trim_start.simps, auto split: option.splits)

lemma trim_end_clean: "trailing (trim_end s) = None"
  by (induction s rule: trim_end.induct) (subst trim_end.simps, auto split: option.splits)

lemma trim_end_prefix: "prefix (trim_end s) s"
proof (induction s rule: trim_end.induct)
  case (1 s)
  then show ?case
    by (subst trim_end.simps) (auto split: option.splits intro: prefix_order.trans take_is_prefix)
qed

lemma leading_prefix: "leading s = None \<Longrightarrow> prefix t s \<Longrightarrow> leading t = None"
  unfolding leading_None by (meson prefix_order.trans)

lemma leading_trim: "leading (trim s) = None"
  using leading_prefix [OF trim_start_clean trim_end_prefix] by (simp add: trim_def)

lemma trim_idem [simp]: "trim (trim s) = trim s"
proof -
  have "trim_start (trim s) = trim s" by (simp add: trim_start.simps leading_trim)
  moreover have "trim_end (trim s) = trim s"
    using trim_end_clean by (simp add: trim_def trim_end.simps [of "trim_end _"])
  ultimately show ?thesis by (simp add: trim_def)
qed

lemma trim_end_empty: "trim_end s = [] \<Longrightarrow> s = [] \<or> leading s \<noteq> None"
proof (induction s rule: trim_end.induct)
  case (1 s)
  show ?case
  proof (cases "trailing s")
    case None
    then show ?thesis using "1.prems" by (simp add: trim_end.simps)
  next
    case (Some w)
    then obtain t where t: "s = t @ w" "w \<in> set whitespace" using trailing_SomeD by (auto simp: suffix_def)
    then have "trim_end t = []" using "1.prems" Some by (simp add: trim_end.simps [of "t @ w"])
    then have "t = [] \<or> leading t \<noteq> None" using 1(1) [OF Some] t by simp
    then have "t = [] \<or> (\<exists>v \<in> set whitespace. prefix v t)" by (auto simp: leading_None)
    then have "\<exists>v \<in> set whitespace. prefix v s" using t by (metis append_Nil prefix_append prefix_order.refl)
    then show ?thesis by (auto simp: leading_None)
  qed
qed

lemma trim_nonblank: "s \<noteq> [] \<Longrightarrow> leading s = None \<Longrightarrow> trim s \<noteq> []"
  using trim_end_empty [of s] by (auto simp: trim_def trim_start.simps [of s])

lemma trim_bracket [simp]: "trim (CHR ''['' # s) \<noteq> []"
  by (rule trim_nonblank) (simp_all add: leading_def whitespace_def)

text \<open>No longer whitespace character contains a line feed, so a line of its own keeps its start.\<close>

lemma leading_line:
  assumes "leading x = None" "x \<noteq> []"
  shows "leading (x @ CHR 0x0A # rest) = None"
  unfolding leading_None
proof (intro ballI notI)
  fix w assume w: "w \<in> set whitespace" and p: "prefix w (x @ CHR 0x0A # rest)"
  have "CHR 0x0A \<notin> set w" if "2 \<le> length w" using w that by (auto simp: whitespace_def)
  moreover have "\<not> prefix w x" using assms(1) w by (simp add: leading_None)
  then obtain u where "w = x @ u" "u \<noteq> []" "prefix u (CHR 0x0A # rest)"
    using p by (auto simp: prefix_append)
  ultimately show False using assms(2) by (cases u; cases x) auto
qed

text \<open>Text between printable ASCII characters has nothing to trim.\<close>

definition graphic :: "char \<Rightarrow> bool" where
  "graphic c \<longleftrightarrow> 33 \<le> (of_char c :: nat) \<and> (of_char c :: nat) \<le> 126"

lemma leading_graphic: "graphic c \<Longrightarrow> leading (c # s) = None"
  by (auto simp: leading_None whitespace_def graphic_def)

lemma trailing_graphic:
  assumes "graphic c"
  shows "trailing (s @ [c]) = None"
proof -
  have "\<not> suffix w (s @ [c])" if "w \<in> set whitespace" for w
  proof
    assume "suffix w (s @ [c])"
    moreover have "w \<noteq> []" using that by (rule whitespace_nonempty)
    ultimately have "last w = c" by (metis last_appendR last_snoc suffix_def)
    then show False using that assms by (auto simp: whitespace_def graphic_def)
  qed
  then show ?thesis by (simp add: trailing_None)
qed

lemma trim_graphic:
  assumes "s \<noteq> []" "graphic (hd s)" "graphic (last s)"
  shows "trim s = s"
proof -
  have "leading s = None" using leading_graphic [OF assms(2), of "tl s"] assms(1) by simp
  moreover have "trailing s = None" using trailing_graphic [OF assms(3), of "butlast s"] assms(1) by simp
  ultimately show ?thesis by (simp add: trim_def trim_start.simps trim_end.simps)
qed

lemma trim_Nil [simp]: "trim [] = []"
  by (simp add: trim_def trim_start.simps trim_end.simps leading_def trailing_def whitespace_def)

lemma trim_all_graphic: "list_all graphic s \<Longrightarrow> trim s = s"
  using trim_graphic [of s] by (cases "s = []") (auto simp: list_all_iff)

section \<open>Truncation\<close>

text \<open>The byte offsets at which a character starts, as \<open>char_indices\<close> yields them.\<close>

definition char_starts :: "string \<Rightarrow> nat list" where
  "char_starts s = filter (\<lambda>i. \<not> is_continuation (s ! i)) [0..<length s]"

(* util.rs: fn truncate_content_to_max *)
definition truncate_content_to_max :: "string \<Rightarrow> nat \<Rightarrow> string" where
  "truncate_content_to_max s maximum =
     (if length s \<le> maximum then s
      else if maximum < length (char_starts s) then take (char_starts s ! maximum) s
      else s)"

definition ELLIPSIS :: string where
  "ELLIPSIS = [CHR 0xE2, CHR 0x80, CHR 0xA6]"

text \<open>The loop that steps down to a character boundary.\<close>

fun boundary_at_most :: "string \<Rightarrow> nat \<Rightarrow> nat" where
  "boundary_at_most s 0 = 0"
| "boundary_at_most s (Suc n) = (if is_char_boundary s (Suc n) then Suc n else boundary_at_most s n)"

(* util.rs: fn truncate_to_byte_len *)
definition truncate_to_byte_len :: "string \<Rightarrow> nat \<Rightarrow> string" where
  "truncate_to_byte_len s max_bytes =
     (if length s \<le> max_bytes then s
      else take (boundary_at_most s (max_bytes - length ELLIPSIS)) s @ ELLIPSIS)"

lemma boundary_at_most:
  "is_char_boundary s (boundary_at_most s n)" "boundary_at_most s n \<le> n"
  "m \<le> n \<Longrightarrow> is_char_boundary s m \<Longrightarrow> m \<le> boundary_at_most s n"
  by (induction n) (auto simp: le_Suc_eq)

lemma boundary_close:
  assumes "valid_utf8 s" "n < length s"
  shows "n < boundary_at_most s n + 4"
  using assms
proof (induction s arbitrary: n rule: valid_utf8.induct)
  case (2 c cs)
  then obtain w where w: "utf8_width c = Some w" "w - 1 \<le> length cs" "valid_utf8 (drop (w - 1) cs)"
    by (auto split: option.splits)
  note wp = utf8_width_pos [OF w(1)]
  show ?case
  proof (cases "n < w")
    case False
    let ?m = "boundary_at_most (drop (w - 1) cs) (n - w)"
    have IH: "n - w < ?m + 4" using 2(1) [OF w(1,3)] 2(3) False w(2) wp by simp
    have le: "?m \<le> n - w" by (rule boundary_at_most)
    have "is_char_boundary (drop (w - 1) cs) ?m" by (rule boundary_at_most)
    moreover have "?m < length (drop (w - 1) cs)" using le 2(3) False w(2) wp by simp
    ultimately have "is_char_boundary (c # cs) (w + ?m)"
    proof -
      assume b: "is_char_boundary (drop (w - 1) cs) ?m" and l: "?m < length (drop (w - 1) cs)"
      have "\<not> is_continuation (drop (w - 1) cs ! ?m)"
      proof (cases "?m = 0")
        case True
        then obtain d ds where "drop (w - 1) cs = d # ds" using l by (cases "drop (w - 1) cs") auto
        then show ?thesis using w(3) True by (auto split: option.splits dest: utf8_width_pos)
      next
        case False
        then show ?thesis using b l by (auto simp: is_char_boundary_def)
      qed
      then show ?thesis using l wp w(2) by (auto simp: is_char_boundary_def nth_Cons split: nat.splits)
    qed
    then have "w + ?m \<le> boundary_at_most (c # cs) n" using le False by (intro boundary_at_most(3)) auto
    then show ?thesis using IH by simp
  qed (use wp in simp)
qed simp

lemma valid_append: "valid_utf8 s \<Longrightarrow> valid_utf8 t \<Longrightarrow> valid_utf8 (s @ t)"
  by (induction s rule: valid_utf8.induct) (auto split: option.splits)

lemma valid_ellipsis: "valid_utf8 ELLIPSIS"
  by (simp add: ELLIPSIS_def utf8_width_def is_continuation_def)

text \<open>
  The byte truncation keeps text valid and cuts at a character boundary, at most three bytes
  before the room that the ellipsis leaves. Its length stays within the bound exactly when the text
  already fits or the bound has room for the ellipsis: below three bytes it exceeds the bound.
\<close>
theorem byte_truncation:
  assumes "valid_utf8 s"
  shows "valid_utf8 (truncate_to_byte_len s m)
    \<and> (length s \<le> m \<longrightarrow> truncate_to_byte_len s m = s)
    \<and> (m < length s \<longrightarrow>
        (\<exists>e. truncate_to_byte_len s m = take e s @ ELLIPSIS \<and> is_char_boundary s e \<and> e \<le> m - 3 \<and> m - 3 < e + 4))
    \<and> (length (truncate_to_byte_len s m) \<le> m \<longleftrightarrow> length s \<le> m \<or> 3 \<le> m)"
proof (cases "length s \<le> m")
  case True
  then show ?thesis using assms by (simp add: truncate_to_byte_len_def)
next
  case False
  let ?e = "boundary_at_most s (m - 3)"
  have r: "truncate_to_byte_len s m = take ?e s @ ELLIPSIS" using False by (simp add: truncate_to_byte_len_def ELLIPSIS_def numeral_3_eq_3)
  have e: "is_char_boundary s ?e" "?e \<le> m - 3" by (rule boundary_at_most)+
  have near: "m - 3 < ?e + 4" using boundary_close [OF assms, of "m - 3"] False by simp
  have "valid_utf8 (take ?e s @ ELLIPSIS)" using boundary_split [OF assms e(1)] valid_append valid_ellipsis by blast
  moreover have "length (truncate_to_byte_len s m) = ?e + 3"
    using e(2) False by (simp add: r ELLIPSIS_def)
  ultimately show ?thesis using r e near False by auto
qed

theorem byte_truncation_witness:
  "length (truncate_to_byte_len ''beetle'' 2) = 3 \<and> valid_utf8 (truncate_to_byte_len ''beetle'' 5)"
proof -
  have "valid_utf8 ''beetle''" by (simp add: utf8_width_def)
  from byte_truncation [OF this, of 5] show ?thesis by (simp add: truncate_to_byte_len_def ELLIPSIS_def)
qed

lemma filter_upt_nth:
  assumes "k < length (filter P [0..<n])"
  shows "filter P [0..<filter P [0..<n] ! k] = take k (filter P [0..<n])"
proof -
  let ?xs = "filter P [0..<n]"
  have m: "?xs ! k < n" "P (?xs ! k)" using nth_mem [OF assms] by auto
  have split: "?xs = filter P [0..<?xs ! k] @ ?xs ! k # filter P [Suc (?xs ! k)..<n]"
    using m by (metis filter.simps(2) filter_append le_add_diff_inverse less_imp_le_nat upt_add_eq_append
        upt_conv_Cons zero_le)
  have "?xs ! length (filter P [0..<?xs ! k]) = ?xs ! k"
    by (subst split) (simp only: nth_append_length)
  moreover have "length (filter P [0..<?xs ! k]) < length ?xs"
    by (subst (2) split) simp
  moreover have "distinct ?xs" by simp
  ultimately have "length (filter P [0..<?xs ! k]) = k" using assms nth_eq_iff_index_eq by blast
  then show ?thesis by (metis append_eq_conv_conj split)
qed

lemma char_truncation:
  "length (char_starts (truncate_content_to_max s m)) = min m (length (char_starts s))
   \<and> prefix (truncate_content_to_max s m) s"
proof -
  have short: "length (char_starts s) \<le> length s" unfolding char_starts_def by (metis length_filter_le length_upt diff_zero)
  have "char_starts (take (char_starts s ! m) s) = take m (char_starts s)" if m: "m < length (char_starts s)"
  proof -
    have "char_starts s ! m < length s" using nth_mem [OF m] by (auto simp: char_starts_def)
    then have "char_starts (take (char_starts s ! m) s) = filter (\<lambda>i. \<not> is_continuation (s ! i)) [0..<char_starts s ! m]"
      by (auto simp: char_starts_def min_def intro: filter_cong)
    also have "\<dots> = take m (char_starts s)"
      using filter_upt_nth [of m "\<lambda>i. \<not> is_continuation (s ! i)" "length s"] m by (simp add: char_starts_def)
    finally show ?thesis .
  qed
  then show ?thesis using short by (auto simp: truncate_content_to_max_def take_is_prefix)
qed

end
