(* ===== verification/Message.thy ===== *)
theory Message
  imports Text Runtime_Mode Error_Model
begin

text \<open>
  Bus messages (\<open>src/src/bus.rs\<close>): the canonical bodies and their text projection, and the
  message constructors with their length check and provenance. JSON payloads are values of a type
  parameter \<open>'json\<close>: the sources only carry them.
\<close>

section \<open>Bodies\<close>

(* bus.rs: enum MessageBodyKind *)
datatype MessageBodyKind =
  KindText | KindImage | KindAudio | KindVideo | KindFile | KindCard | KindPlatformNative

(* bus.rs: enum TextFormat *)
datatype TextFormat = FormatPlain | FormatMarkdown | FormatHtml | FormatRichText

(* bus.rs: enum AssetSourcePlatform *)
datatype AssetSourcePlatform =
  SourceTelegram | SourceFeishu | SourceDingTalk | SourceWeCom | SourceQq | SourceBeetle | SourceExternal

(* bus.rs: enum MediaLocatorKind *)
datatype MediaLocatorKind = PlatformHandle | BeetleBlob | ExternalUrl

(* bus.rs: enum CardFormat *)
datatype CardFormat = Interactive | TemplateCard | Ark | Embed | RichPost

(* bus.rs: struct TextBody *)
record TextBody =
  tb_text :: string
  tb_format :: TextFormat

(* bus.rs: impl TextBody / fn plain *)
definition text_body_plain :: "string \<Rightarrow> TextBody" where
  "text_body_plain s = \<lparr>tb_text = s, tb_format = FormatPlain\<rparr>"

(* bus.rs: struct MediaAssetRef *)
record MediaAssetRef =
  ma_source_platform :: AssetSourcePlatform
  ma_locator_kind :: MediaLocatorKind
  ma_locator :: string
  ma_file_name :: "string option"
  ma_mime_type :: "string option"
  ma_size_bytes :: "u64 option"
  ma_width_px :: "u32 option"
  ma_height_px :: "u32 option"
  ma_duration_ms :: "u32 option"
  ma_ttl_seconds :: "u32 option"

definition media_asset_default :: MediaAssetRef where
  "media_asset_default =
     \<lparr>ma_source_platform = SourceExternal, ma_locator_kind = ExternalUrl, ma_locator = [],
      ma_file_name = None, ma_mime_type = None, ma_size_bytes = None, ma_width_px = None,
      ma_height_px = None, ma_duration_ms = None, ma_ttl_seconds = None\<rparr>"

(* bus.rs: impl MediaAssetRef / fn platform_handle *)
definition platform_handle :: "AssetSourcePlatform \<Rightarrow> string \<Rightarrow> MediaAssetRef" where
  "platform_handle source_platform locator =
     media_asset_default\<lparr>ma_source_platform := source_platform, ma_locator_kind := PlatformHandle,
       ma_locator := locator\<rparr>"

(* bus.rs: impl MediaAssetRef / fn external_url *)
definition external_url :: "string \<Rightarrow> MediaAssetRef" where
  "external_url url =
     media_asset_default\<lparr>ma_source_platform := SourceExternal, ma_locator_kind := ExternalUrl,
       ma_locator := url\<rparr>"

(* bus.rs: struct ImageBody *)
record ImageBody =
  ib_asset :: MediaAssetRef
  ib_caption :: "TextBody option"

(* bus.rs: struct AudioBody *)
record AudioBody =
  ab_asset :: MediaAssetRef
  ab_caption :: "TextBody option"
  ab_transcript_text :: "string option"

(* bus.rs: struct VideoBody *)
record VideoBody =
  vb_asset :: MediaAssetRef
  vb_caption :: "TextBody option"
  vb_title :: "string option"
  vb_description :: "string option"

(* bus.rs: struct FileBody *)
record FileBody =
  fb_asset :: MediaAssetRef
  fb_caption :: "TextBody option"

(* bus.rs: struct CardBody *)
record 'json CardBody =
  cb_format :: CardFormat
  cb_payload_json :: 'json
  cb_fallback_text :: string

(* bus.rs: struct PlatformNativeBody *)
record 'json PlatformNativeBody =
  nb_platform_type :: string
  nb_payload_json :: 'json
  nb_fallback_text :: string

(* bus.rs: const PLATFORM_NATIVE_TYPE_TELEGRAM_MESSAGE_REACTION *)
definition PLATFORM_NATIVE_TYPE_TELEGRAM_MESSAGE_REACTION :: string where
  "PLATFORM_NATIVE_TYPE_TELEGRAM_MESSAGE_REACTION = ''telegram_message_reaction''"

(* bus.rs: const PLATFORM_NATIVE_TELEGRAM_REACTION_EMOJI_KEY *)
definition PLATFORM_NATIVE_TELEGRAM_REACTION_EMOJI_KEY :: string where
  "PLATFORM_NATIVE_TELEGRAM_REACTION_EMOJI_KEY = ''emoji''"

text \<open>The argument \<open>json_object\<close> is the JSON object with one string member.\<close>

(* bus.rs: impl PlatformNativeBody / fn telegram_message_reaction *)
definition telegram_message_reaction :: "(string \<Rightarrow> string \<Rightarrow> 'json) \<Rightarrow> string \<Rightarrow> 'json PlatformNativeBody" where
  "telegram_message_reaction json_object emoji =
     \<lparr>nb_platform_type = PLATFORM_NATIVE_TYPE_TELEGRAM_MESSAGE_REACTION,
      nb_payload_json = json_object PLATFORM_NATIVE_TELEGRAM_REACTION_EMOJI_KEY emoji,
      nb_fallback_text = emoji\<rparr>"

(* bus.rs: impl PlatformNativeBody / fn is_telegram_message_reaction *)
definition is_telegram_message_reaction :: "'json PlatformNativeBody \<Rightarrow> bool" where
  "is_telegram_message_reaction body \<longleftrightarrow>
     nb_platform_type body = PLATFORM_NATIVE_TYPE_TELEGRAM_MESSAGE_REACTION"

(* bus.rs: enum CanonicalMessageBody *)
datatype 'json CanonicalMessageBody =
    BodyText TextBody | BodyImage ImageBody | BodyAudio AudioBody | BodyVideo VideoBody
  | BodyFile FileBody | BodyCard "'json CardBody" | BodyPlatformNative "'json PlatformNativeBody"

(* bus.rs: impl CanonicalMessageBody / fn text *)
definition body_text :: "string \<Rightarrow> 'json CanonicalMessageBody" where
  "body_text s = BodyText (text_body_plain s)"

(* bus.rs: impl CanonicalMessageBody / fn kind *)
fun body_kind_of :: "'json CanonicalMessageBody \<Rightarrow> MessageBodyKind" where
  "body_kind_of (BodyText _) = KindText"
| "body_kind_of (BodyImage _) = KindImage"
| "body_kind_of (BodyAudio _) = KindAudio"
| "body_kind_of (BodyVideo _) = KindVideo"
| "body_kind_of (BodyFile _) = KindFile"
| "body_kind_of (BodyCard _) = KindCard"
| "body_kind_of (BodyPlatformNative _) = KindPlatformNative"

(* bus.rs: impl CanonicalMessageBody / fn has_media *)
fun has_media :: "'json CanonicalMessageBody \<Rightarrow> bool" where
  "has_media (BodyImage _) = True"
| "has_media (BodyAudio _) = True"
| "has_media (BodyVideo _) = True"
| "has_media (BodyFile _) = True"
| "has_media _ = False"

(* bus.rs: fn first_nonempty_projection *)
fun first_nonempty_projection :: "string option list \<Rightarrow> string" where
  "first_nonempty_projection [] = []"
| "first_nonempty_projection (None # candidates) = first_nonempty_projection candidates"
| "first_nonempty_projection (Some candidate # candidates) =
     (if trim candidate \<noteq> [] then trim candidate else first_nonempty_projection candidates)"

(* bus.rs: fn fallback_projection *)
definition fallback_projection :: "string \<Rightarrow> string \<Rightarrow> string" where
  "fallback_projection fallback_text dflt =
     (let trimmed = trim fallback_text in if trimmed = [] then dflt else trimmed)"

text \<open>\<open>join\<close> of the standard library on a vector of strings.\<close>

fun join :: "string \<Rightarrow> string list \<Rightarrow> string" where
  "join sep [] = []"
| "join sep [x] = x"
| "join sep (x # y # ys) = x @ sep @ join sep (y # ys)"

(* bus.rs: fn join_nonempty_lines *)
definition join_nonempty_lines :: "string option list \<Rightarrow> string option" where
  "join_nonempty_lines parts =
     (let normalized = filter (\<lambda>s. s \<noteq> []) (map trim (List.map_filter id parts))
      in if normalized = [] then None else Some (join [CHR 0x0A] normalized))"

(* bus.rs: fn media_caption_projection *)
definition media_caption_projection :: "TextBody option \<Rightarrow> string option \<Rightarrow> string \<Rightarrow> string" where
  "media_caption_projection caption file_name dflt =
     (case caption of
        Some c \<Rightarrow> if trim (tb_text c) \<noteq> [] then tb_text c
          else (case map_option trim file_name of
                  Some name \<Rightarrow> if name \<noteq> [] then dflt @ '' '' @ name else dflt
                | None \<Rightarrow> dflt)
      | None \<Rightarrow>
          (case map_option trim file_name of
             Some name \<Rightarrow> if name \<noteq> [] then dflt @ '' '' @ name else dflt
           | None \<Rightarrow> dflt))"

(* bus.rs: impl CanonicalMessageBody / fn text_projection *)
fun text_projection :: "'json CanonicalMessageBody \<Rightarrow> string" where
  "text_projection (BodyText body) = tb_text body"
| "text_projection (BodyImage body) =
     media_caption_projection (ib_caption body) (ma_file_name (ib_asset body)) ''[image]''"
| "text_projection (BodyAudio body) =
     first_nonempty_projection
       [ab_transcript_text body, map_option tb_text (ab_caption body), Some ''[audio]'']"
| "text_projection (BodyVideo body) =
     (case (case vb_caption body of
              None \<Rightarrow> None
            | Some caption \<Rightarrow> if trim (tb_text caption) \<noteq> [] then Some (tb_text caption) else None) of
        Some s \<Rightarrow> s
      | None \<Rightarrow>
          (case join_nonempty_lines [vb_title body, vb_description body] of
             Some s \<Rightarrow> s
           | None \<Rightarrow> ''[video]''))"
| "text_projection (BodyFile body) =
     media_caption_projection (fb_caption body) (ma_file_name (fb_asset body)) ''[file]''"
| "text_projection (BodyCard body) = fallback_projection (cb_fallback_text body) ''[card]''"
| "text_projection (BodyPlatformNative body) =
     fallback_projection (nb_fallback_text body) ''[platform_native]''"

section \<open>Messages\<close>

(* bus.rs: enum MessageTransport *)
datatype MessageTransport = TransportUnknown | TransportWss | TransportWebhook | TransportPoll | TransportInternal

(* bus.rs: impl MessageTransport / fn as_str *)
fun transport_as_str :: "MessageTransport \<Rightarrow> string" where
  "transport_as_str TransportUnknown = ''unknown''"
| "transport_as_str TransportWss = ''wss''"
| "transport_as_str TransportWebhook = ''webhook''"
| "transport_as_str TransportPoll = ''poll''"
| "transport_as_str TransportInternal = ''internal''"

(* bus.rs: enum OutboundKind *)
datatype OutboundKind = Primary | Supplemental

(* bus.rs: impl OutboundKind / fn is_supplemental *)
definition is_supplemental :: "OutboundKind \<Rightarrow> bool" where
  "is_supplemental k \<longleftrightarrow> k = Supplemental"

(* bus.rs: struct PcMsg *)
record 'json PcMsg =
  pm_channel :: string
  pm_chat_id :: string
  pm_content :: string
  pm_body :: "'json CanonicalMessageBody"
  pm_platform_thread_id :: string
  pm_req_id :: "string option"
  pm_outbound_kind :: OutboundKind
  pm_ingress :: IngressKind
  pm_enqueue_ts_ms :: u64
  pm_source_transport :: MessageTransport
  pm_platform_message_id :: string
  pm_platform_event_id :: string
  pm_inbound_dedup_key :: string
  pm_is_group :: bool

(* bus.rs: struct RawPcMsg *)
record 'json RawPcMsg =
  rw_channel :: string
  rw_chat_id :: string
  rw_content :: string
  rw_body :: "'json CanonicalMessageBody option"
  rw_platform_thread_id :: string
  rw_req_id :: "string option"
  rw_outbound_kind :: OutboundKind
  rw_ingress :: IngressKind
  rw_enqueue_ts_ms :: u64
  rw_source_transport :: MessageTransport
  rw_platform_message_id :: string
  rw_platform_event_id :: string
  rw_inbound_dedup_key :: string
  rw_is_group :: bool

text \<open>
  Deserialisation fills the raw fields (a missing one with its default); this is what the code then
  does with them. \<open>pcmsg_to_raw\<close> is the field list that the derived serialisation writes.
\<close>

(* bus.rs: impl<'de> Deserialize<'de> for PcMsg *)
definition pcmsg_from_raw :: "'json RawPcMsg \<Rightarrow> 'json PcMsg" where
  "pcmsg_from_raw raw =
     (let body = (case rw_body raw of Some b \<Rightarrow> b | None \<Rightarrow> body_text (rw_content raw));
          content = (if trim (rw_content raw) = [] then text_projection body else rw_content raw)
      in \<lparr>pm_channel = rw_channel raw, pm_chat_id = rw_chat_id raw, pm_content = content, pm_body = body,
          pm_platform_thread_id = rw_platform_thread_id raw, pm_req_id = rw_req_id raw,
          pm_outbound_kind = rw_outbound_kind raw, pm_ingress = rw_ingress raw,
          pm_enqueue_ts_ms = rw_enqueue_ts_ms raw, pm_source_transport = rw_source_transport raw,
          pm_platform_message_id = rw_platform_message_id raw,
          pm_platform_event_id = rw_platform_event_id raw,
          pm_inbound_dedup_key = rw_inbound_dedup_key raw, pm_is_group = rw_is_group raw\<rparr>)"

definition pcmsg_to_raw :: "'json PcMsg \<Rightarrow> 'json RawPcMsg" where
  "pcmsg_to_raw msg =
     \<lparr>rw_channel = pm_channel msg, rw_chat_id = pm_chat_id msg, rw_content = pm_content msg,
      rw_body = Some (pm_body msg), rw_platform_thread_id = pm_platform_thread_id msg,
      rw_req_id = pm_req_id msg, rw_outbound_kind = pm_outbound_kind msg, rw_ingress = pm_ingress msg,
      rw_enqueue_ts_ms = pm_enqueue_ts_ms msg, rw_source_transport = pm_source_transport msg,
      rw_platform_message_id = pm_platform_message_id msg,
      rw_platform_event_id = pm_platform_event_id msg,
      rw_inbound_dedup_key = pm_inbound_dedup_key msg, rw_is_group = pm_is_group msg\<rparr>"

(* constants.rs: const MAX_CONTENT_LEN *)
fun MAX_CONTENT_LEN :: "target \<Rightarrow> nat" where
  "MAX_CONTENT_LEN Esp = 64 * 1024"
| "MAX_CONTENT_LEN Host = 256 * 1024"

(* bus.rs: impl PcMsg / fn validate_content_len *)
definition validate_content_len :: "target \<Rightarrow> string \<Rightarrow> string \<Rightarrow> Error + unit" where
  "validate_content_len t stage content =
     (if MAX_CONTENT_LEN t < length content
      then Inl (err_config stage (''content length '' @ show_nat (length content)
                  @ '' exceeds max '' @ show_nat (MAX_CONTENT_LEN t)))
      else Inr ())"

text \<open>The argument \<open>now\<close> is \<open>current_unix_ms()\<close>.\<close>

(* bus.rs: impl PcMsg / fn build *)
definition pcmsg_build :: "target \<Rightarrow> u64 \<Rightarrow> string \<Rightarrow> string \<Rightarrow> string \<Rightarrow> 'json CanonicalMessageBody \<Rightarrow> bool
    \<Rightarrow> IngressKind \<Rightarrow> Error + 'json PcMsg" where
  "pcmsg_build t now channel chat_id content body is_group ingress =
     (case validate_content_len t ''PcMsg::build'' content of
        Inl e \<Rightarrow> Inl e
      | Inr _ \<Rightarrow>
          Inr \<lparr>pm_channel = channel, pm_chat_id = chat_id, pm_content = content, pm_body = body,
               pm_platform_thread_id = [], pm_req_id = None, pm_outbound_kind = Primary,
               pm_ingress = ingress, pm_enqueue_ts_ms = now, pm_source_transport = TransportUnknown,
               pm_platform_message_id = [], pm_platform_event_id = [], pm_inbound_dedup_key = [],
               pm_is_group = is_group\<rparr>)"

(* bus.rs: impl PcMsg / fn new_inbound_with_body_and_ingress *)
definition new_inbound_with_body_and_ingress :: "target \<Rightarrow> u64 \<Rightarrow> string \<Rightarrow> string
    \<Rightarrow> 'json CanonicalMessageBody \<Rightarrow> string \<Rightarrow> bool \<Rightarrow> IngressKind \<Rightarrow> Error + 'json PcMsg" where
  "new_inbound_with_body_and_ingress t now channel chat_id body content_projection is_group ingress =
     pcmsg_build t now channel chat_id content_projection body is_group ingress"

(* bus.rs: impl PcMsg / fn new_inbound_with_ingress *)
definition new_inbound_with_ingress :: "target \<Rightarrow> u64 \<Rightarrow> string \<Rightarrow> string \<Rightarrow> string \<Rightarrow> bool \<Rightarrow> IngressKind
    \<Rightarrow> Error + 'json PcMsg" where
  "new_inbound_with_ingress t now channel chat_id content is_group ingress =
     new_inbound_with_body_and_ingress t now channel chat_id (body_text content) content is_group ingress"

(* bus.rs: impl PcMsg / fn new *)
definition pcmsg_new :: "target \<Rightarrow> u64 \<Rightarrow> string \<Rightarrow> string \<Rightarrow> string \<Rightarrow> Error + 'json PcMsg" where
  "pcmsg_new t now channel chat_id content =
     new_inbound_with_ingress t now channel chat_id content False IngressUser"

(* bus.rs: impl PcMsg / fn new_system *)
definition new_system :: "target \<Rightarrow> u64 \<Rightarrow> string \<Rightarrow> string \<Rightarrow> string \<Rightarrow> Error + 'json PcMsg" where
  "new_system t now channel chat_id content =
     (case new_inbound_with_ingress t now channel chat_id content False IngressSystem of
        Inl e \<Rightarrow> Inl e
      | Inr msg \<Rightarrow> Inr (msg\<lparr>pm_source_transport := TransportInternal\<rparr>))"

(* bus.rs: impl PcMsg / fn new_inbound *)
definition new_inbound :: "target \<Rightarrow> u64 \<Rightarrow> string \<Rightarrow> string \<Rightarrow> string \<Rightarrow> bool \<Rightarrow> Error + 'json PcMsg" where
  "new_inbound t now channel chat_id content is_group =
     new_inbound_with_ingress t now channel chat_id content is_group IngressUser"

(* bus.rs: impl PcMsg / fn new_inbound_with_body *)
definition new_inbound_with_body :: "target \<Rightarrow> u64 \<Rightarrow> string \<Rightarrow> string \<Rightarrow> 'json CanonicalMessageBody \<Rightarrow> bool
    \<Rightarrow> Error + 'json PcMsg" where
  "new_inbound_with_body t now channel chat_id body is_group =
     new_inbound_with_body_and_ingress t now channel chat_id body (text_projection body) is_group IngressUser"

(* bus.rs: impl PcMsg / fn new_outbound_for_chat_with_body *)
definition new_outbound_for_chat_with_body :: "target \<Rightarrow> u64 \<Rightarrow> string \<Rightarrow> string
    \<Rightarrow> 'json CanonicalMessageBody \<Rightarrow> string \<Rightarrow> string option \<Rightarrow> bool \<Rightarrow> Error + 'json PcMsg" where
  "new_outbound_for_chat_with_body t now channel chat_id body content_projection req_id is_group =
     (case validate_content_len t ''PcMsg::new_outbound_for_chat_with_body'' content_projection of
        Inl e \<Rightarrow> Inl e
      | Inr _ \<Rightarrow>
          (case pcmsg_build t now channel chat_id content_projection body is_group IngressUser of
             Inl e \<Rightarrow> Inl e
           | Inr msg \<Rightarrow> Inr (msg\<lparr>pm_req_id := req_id\<rparr>)))"

(* bus.rs: impl PcMsg / fn new_outbound_for_chat *)
definition new_outbound_for_chat :: "target \<Rightarrow> u64 \<Rightarrow> string \<Rightarrow> string \<Rightarrow> string \<Rightarrow> string option \<Rightarrow> bool
    \<Rightarrow> Error + 'json PcMsg" where
  "new_outbound_for_chat t now channel chat_id content req_id is_group =
     (case validate_content_len t ''PcMsg::new_outbound_for_chat'' content of
        Inl e \<Rightarrow> Inl e
      | Inr _ \<Rightarrow>
          new_outbound_for_chat_with_body t now channel chat_id (body_text content) content req_id is_group)"

(* bus.rs: impl PcMsg / fn copy_inbound_provenance_from *)
definition copy_inbound_provenance_from :: "'json PcMsg \<Rightarrow> 'json PcMsg \<Rightarrow> 'json PcMsg" where
  "copy_inbound_provenance_from msg source =
     msg\<lparr>pm_source_transport := pm_source_transport source,
         pm_platform_message_id := pm_platform_message_id source,
         pm_platform_event_id := pm_platform_event_id source,
         pm_inbound_dedup_key := pm_inbound_dedup_key source,
         pm_platform_thread_id := pm_platform_thread_id source\<rparr>"

(* bus.rs: impl PcMsg / fn new_outbound_reply_to_with_body_projection *)
definition new_outbound_reply_to_with_body_projection :: "target \<Rightarrow> u64 \<Rightarrow> 'json PcMsg
    \<Rightarrow> 'json CanonicalMessageBody \<Rightarrow> string \<Rightarrow> Error + 'json PcMsg" where
  "new_outbound_reply_to_with_body_projection t now source body content_projection =
     (case new_outbound_for_chat_with_body t now (pm_channel source) (pm_chat_id source) body
             content_projection (pm_req_id source) (pm_is_group source) of
        Inl e \<Rightarrow> Inl e
      | Inr reply \<Rightarrow> Inr (copy_inbound_provenance_from reply source))"

(* bus.rs: impl PcMsg / fn new_outbound_reply_to *)
definition new_outbound_reply_to :: "target \<Rightarrow> u64 \<Rightarrow> 'json PcMsg \<Rightarrow> string \<Rightarrow> Error + 'json PcMsg" where
  "new_outbound_reply_to t now source content =
     (case new_outbound_for_chat_with_body t now (pm_channel source) (pm_chat_id source) (body_text content)
             content (pm_req_id source) (pm_is_group source) of
        Inl e \<Rightarrow> Inl e
      | Inr reply \<Rightarrow> Inr (copy_inbound_provenance_from reply source))"

(* bus.rs: impl PcMsg / fn new_outbound_reply_to_with_body *)
definition new_outbound_reply_to_with_body :: "target \<Rightarrow> u64 \<Rightarrow> 'json PcMsg \<Rightarrow> 'json CanonicalMessageBody
    \<Rightarrow> Error + 'json PcMsg" where
  "new_outbound_reply_to_with_body t now source body =
     (case new_outbound_for_chat_with_body t now (pm_channel source) (pm_chat_id source) body
             (text_projection body) (pm_req_id source) (pm_is_group source) of
        Inl e \<Rightarrow> Inl e
      | Inr reply \<Rightarrow> Inr (copy_inbound_provenance_from reply source))"

(* bus.rs: impl PcMsg / fn with_inbound_provenance *)
definition with_inbound_provenance :: "MessageTransport \<Rightarrow> string \<Rightarrow> string \<Rightarrow> string \<Rightarrow> 'json PcMsg \<Rightarrow> 'json PcMsg" where
  "with_inbound_provenance source_transport platform_message_id platform_event_id inbound_dedup_key msg =
     msg\<lparr>pm_source_transport := source_transport, pm_platform_message_id := platform_message_id,
         pm_platform_event_id := platform_event_id, pm_inbound_dedup_key := inbound_dedup_key\<rparr>"

(* bus.rs: impl PcMsg / fn with_outbound_kind *)
definition with_outbound_kind :: "OutboundKind \<Rightarrow> 'json PcMsg \<Rightarrow> 'json PcMsg" where
  "with_outbound_kind outbound_kind msg = msg\<lparr>pm_outbound_kind := outbound_kind\<rparr>"

(* bus.rs: impl PcMsg / fn with_req_id *)
definition with_req_id :: "string option \<Rightarrow> 'json PcMsg \<Rightarrow> 'json PcMsg" where
  "with_req_id req_id msg = msg\<lparr>pm_req_id := req_id\<rparr>"

(* bus.rs: impl PcMsg / fn with_platform_thread_id *)
definition with_platform_thread_id :: "string \<Rightarrow> 'json PcMsg \<Rightarrow> 'json PcMsg" where
  "with_platform_thread_id platform_thread_id msg = msg\<lparr>pm_platform_thread_id := platform_thread_id\<rparr>"

section \<open>Laws\<close>

lemma fallback_nonblank: "trim dflt \<noteq> [] \<Longrightarrow> trim (fallback_projection s dflt) \<noteq> []"
  by (simp add: fallback_projection_def Let_def)

lemma caption_nonblank:
  "trim (media_caption_projection caption file_name (CHR ''['' # s)) \<noteq> []"
  by (auto simp: media_caption_projection_def split: option.splits)

lemma join_nonblank:
  assumes "ys \<noteq> []" "\<forall>y \<in> set ys. y \<noteq> [] \<and> leading y = None"
  shows "trim (join [CHR 0x0A] ys) \<noteq> []"
proof -
  obtain x zs where ys: "ys = x # zs" using assms(1) by (cases ys) auto
  then have "x \<noteq> []" "leading x = None" using assms(2) by auto
  moreover have "leading (join [CHR 0x0A] ys) = None"
    using leading_line calculation by (cases zs) (simp_all add: ys)
  moreover have "join [CHR 0x0A] ys \<noteq> []" using calculation by (cases zs) (simp_all add: ys)
  ultimately show ?thesis by (intro trim_nonblank)
qed

text \<open>
  A body that is not text always projects to visible text: whatever captions, names, titles or
  fallbacks are missing or blank, the projection is not blank. A text body projects to itself.
\<close>
theorem projection_visible:
  "(\<forall>b. body \<noteq> BodyText b) \<Longrightarrow> trim (text_projection body) \<noteq> []"
proof (cases body)
  case (BodyVideo b)
  have "trim s \<noteq> []" if "join_nonempty_lines parts = Some s" for parts s
  proof -
    let ?lines = "filter (\<lambda>s. s \<noteq> []) (map trim (List.map_filter id parts))"
    have "?lines \<noteq> []" "s = join [CHR 0x0A] ?lines"
      using that by (auto simp: join_nonempty_lines_def Let_def split: if_splits)
    moreover have "\<forall>y \<in> set ?lines. y \<noteq> [] \<and> leading y = None" by (auto simp: leading_trim)
    ultimately show ?thesis using join_nonblank [of ?lines] by blast
  qed
  then show ?thesis using BodyVideo by (auto split: option.splits)
next
  case (BodyAudio b)
  then show ?thesis by (cases "ab_transcript_text b"; cases "ab_caption b") simp_all
qed (simp_all add: caption_nonblank fallback_nonblank)

theorem projection_visible_witness:
  "trim (text_projection (BodyVideo \<lparr>vb_asset = external_url ''http://camera'', vb_caption = None,
     vb_title = Some ''  '', vb_description = None\<rparr> :: unit CanonicalMessageBody)) \<noteq> []"
  by (rule projection_visible) simp

lemma reload:
  "pcmsg_from_raw (pcmsg_to_raw msg) = msg\<lparr>pm_content :=
     if trim (pm_content msg) = [] then text_projection (pm_body msg) else pm_content msg\<rparr>"
  by (simp add: pcmsg_from_raw_def pcmsg_to_raw_def Let_def)

lemma build_cases:
  "pcmsg_build t now channel chat_id content body is_group ingress = Inr msg \<longleftrightarrow>
     length content \<le> MAX_CONTENT_LEN t
     \<and> msg = \<lparr>pm_channel = channel, pm_chat_id = chat_id, pm_content = content, pm_body = body,
               pm_platform_thread_id = [], pm_req_id = None, pm_outbound_kind = Primary,
               pm_ingress = ingress, pm_enqueue_ts_ms = now, pm_source_transport = TransportUnknown,
               pm_platform_message_id = [], pm_platform_event_id = [], pm_inbound_dedup_key = [],
               pm_is_group = is_group\<rparr>"
  by (auto simp: pcmsg_build_def validate_content_len_def)

lemmas inbound_defs = pcmsg_new_def new_system_def new_inbound_def new_inbound_with_body_def
  new_inbound_with_ingress_def new_inbound_with_body_and_ingress_def

lemmas outbound_defs = new_outbound_for_chat_def new_outbound_for_chat_with_body_def
  new_outbound_reply_to_def new_outbound_reply_to_with_body_def
  new_outbound_reply_to_with_body_projection_def

lemmas with_defs = with_inbound_provenance_def with_outbound_kind_def with_req_id_def
  with_platform_thread_id_def copy_inbound_provenance_from_def

text \<open>The messages that the constructors with a derived content build, and their later adjustments.\<close>

inductive standard_message :: "target \<Rightarrow> 'json PcMsg \<Rightarrow> bool" for t where
  sm_new: "pcmsg_new t now channel chat_id content = Inr msg \<Longrightarrow> standard_message t msg"
| sm_system: "new_system t now channel chat_id content = Inr msg \<Longrightarrow> standard_message t msg"
| sm_inbound: "new_inbound t now channel chat_id content is_group = Inr msg \<Longrightarrow> standard_message t msg"
| sm_body: "new_inbound_with_body t now channel chat_id body is_group = Inr msg \<Longrightarrow> standard_message t msg"
| sm_outbound: "new_outbound_for_chat t now channel chat_id content req_id is_group = Inr msg
    \<Longrightarrow> standard_message t msg"
| sm_reply: "new_outbound_reply_to t now source content = Inr msg \<Longrightarrow> standard_message t msg"
| sm_reply_body: "new_outbound_reply_to_with_body t now source body = Inr msg \<Longrightarrow> standard_message t msg"
| sm_provenance: "standard_message t msg \<Longrightarrow> standard_message t (with_inbound_provenance a b c d msg)"
| sm_kind: "standard_message t msg \<Longrightarrow> standard_message t (with_outbound_kind k msg)"
| sm_req: "standard_message t msg \<Longrightarrow> standard_message t (with_req_id r msg)"
| sm_thread: "standard_message t msg \<Longrightarrow> standard_message t (with_platform_thread_id i msg)"

lemma body_text_projection [simp]: "text_projection (body_text s) = s"
  by (simp add: body_text_def text_body_plain_def)

text \<open>
  Every message of the constructors that derive its content, however it is adjusted later, fits
  the length limit, has its body's projection as its content, and is the same after it is stored and
  loaded again. A stored record without a body loads with its content as a text body.
\<close>
theorem standard_message_roundtrip:
  assumes "standard_message t msg"
  shows "length (pm_content msg) \<le> MAX_CONTENT_LEN t \<and> pm_content msg = text_projection (pm_body msg)
    \<and> pcmsg_from_raw (pcmsg_to_raw msg) = msg
    \<and> pcmsg_from_raw ((pcmsg_to_raw msg)\<lparr>rw_body := None\<rparr>) = msg\<lparr>pm_body := body_text (pm_content msg)\<rparr>"
proof -
  have "length (pm_content msg) \<le> MAX_CONTENT_LEN t \<and> pm_content msg = text_projection (pm_body msg)"
    using assms
    by (induction rule: standard_message.induct)
      (auto simp: inbound_defs outbound_defs with_defs build_cases validate_content_len_def split: sum.splits if_splits)
  moreover have "pcmsg_from_raw ((pcmsg_to_raw msg)\<lparr>rw_body := None\<rparr>) = msg\<lparr>pm_body := body_text (pm_content msg)\<rparr>"
    by (simp add: pcmsg_from_raw_def pcmsg_to_raw_def Let_def)
  ultimately show ?thesis by (cases msg) (auto simp: reload)
qed

theorem standard_message_roundtrip_witness:
  "\<exists>msg :: unit PcMsg. pcmsg_new Esp 5 ''telegram'' ''chat-1'' ''hello'' = Inr msg
     \<and> pcmsg_from_raw (pcmsg_to_raw msg) = msg"
proof -
  obtain msg :: "unit PcMsg" where m: "pcmsg_new Esp 5 ''telegram'' ''chat-1'' ''hello'' = Inr msg"
    by (auto simp: inbound_defs build_cases)
  show ?thesis using standard_message_roundtrip [OF sm_new [OF m]] m by blast
qed

text \<open>
  A reply is its source with a new content and body: chat, group flag, request id, thread and
  provenance are the source's, it is a primary user message stamped with the current time; the only
  way to fail is an oversized content, reported for the stage of the outbound constructor.
\<close>
theorem reply_is_source_with_new_content:
  "new_outbound_reply_to_with_body_projection t now source body content =
     (if length content \<le> MAX_CONTENT_LEN t
      then Inr (source\<lparr>pm_content := content, pm_body := body, pm_outbound_kind := Primary,
                       pm_ingress := IngressUser, pm_enqueue_ts_ms := now\<rparr>)
      else Inl (err_config ''PcMsg::new_outbound_for_chat_with_body''
                  (''content length '' @ show_nat (length content)
                   @ '' exceeds max '' @ show_nat (MAX_CONTENT_LEN t))))
   \<and> new_outbound_reply_to t now source content
       = new_outbound_reply_to_with_body_projection t now source (body_text content) content
   \<and> new_outbound_reply_to_with_body t now source body
       = new_outbound_reply_to_with_body_projection t now source body (text_projection body)"
  by (auto simp: outbound_defs with_defs pcmsg_build_def validate_content_len_def split: sum.splits)

end
