(* ===== verification/Tracked_Queue.thy ===== *)
theory Tracked_Queue
  imports Message
begin

text \<open>
  The bounded queues of the bus (\<open>src/src/bus.rs\<close>): the standard library's bounded channel,
  the tracked sender and receiver that count its depth in a shared cell, their promise as a locale,
  and the steps of concurrent senders and the receiver between a channel operation and its count.
\<close>

section \<open>The bounded channel of the standard library\<close>

text \<open>
  \<open>std::sync::mpsc::sync_channel\<close> for a positive capacity: the queued values, the number of
  senders and whether the receiver is alive. An operation that has to wait has the result \<open>None\<close>.
\<close>

record 'a sync_channel =
  sc_queue :: "'a list"
  sc_capacity :: nat
  sc_senders :: nat
  sc_receiver :: bool

datatype 'a TrySendError = SendFull 'a | SendDisconnected 'a
datatype TryRecvError = RecvEmpty | RecvDisconnected
datatype RecvTimeoutError = RecvTimeout | RecvTimeoutDisconnected

definition channel_new :: "nat \<Rightarrow> 'a sync_channel" where
  "channel_new capacity = \<lparr>sc_queue = [], sc_capacity = capacity, sc_senders = 1, sc_receiver = True\<rparr>"

definition channel_try_send :: "'a \<Rightarrow> 'a sync_channel \<Rightarrow> 'a sync_channel \<times> ('a TrySendError + unit)" where
  "channel_try_send x c =
     (if \<not> sc_receiver c then (c, Inl (SendDisconnected x))
      else if sc_capacity c \<le> length (sc_queue c) then (c, Inl (SendFull x))
      else (c\<lparr>sc_queue := sc_queue c @ [x]\<rparr>, Inr ()))"

definition channel_send :: "'a \<Rightarrow> 'a sync_channel \<Rightarrow> ('a sync_channel \<times> ('a + unit)) option" where
  "channel_send x c =
     (if \<not> sc_receiver c then Some (c, Inl x)
      else if sc_capacity c \<le> length (sc_queue c) then None
      else Some (c\<lparr>sc_queue := sc_queue c @ [x]\<rparr>, Inr ()))"

definition channel_try_recv :: "'a sync_channel \<Rightarrow> 'a sync_channel \<times> (TryRecvError + 'a)" where
  "channel_try_recv c =
     (case sc_queue c of
        x # xs \<Rightarrow> (c\<lparr>sc_queue := xs\<rparr>, Inr x)
      | [] \<Rightarrow> (c, Inl (if sc_senders c = 0 then RecvDisconnected else RecvEmpty)))"

definition channel_recv :: "'a sync_channel \<Rightarrow> ('a sync_channel \<times> (unit + 'a)) option" where
  "channel_recv c =
     (case sc_queue c of
        x # xs \<Rightarrow> Some (c\<lparr>sc_queue := xs\<rparr>, Inr x)
      | [] \<Rightarrow> if sc_senders c = 0 then Some (c, Inl ()) else None)"

text \<open>The channel as it is when the wait ends, by an arrival, a hang-up or the time limit.\<close>

definition channel_recv_timeout :: "'a sync_channel \<Rightarrow> 'a sync_channel \<times> (RecvTimeoutError + 'a)" where
  "channel_recv_timeout c =
     (case sc_queue c of
        x # xs \<Rightarrow> (c\<lparr>sc_queue := xs\<rparr>, Inr x)
      | [] \<Rightarrow> (c, Inl (if sc_senders c = 0 then RecvTimeoutDisconnected else RecvTimeout)))"

section \<open>Tracked ends\<close>

text \<open>
  Both ends share the channel and the depth cell, a word of the width \<open>usize\<close> has.
\<close>

(* bus.rs: struct TrackedSender *)
record ('a, 'd) tracked =
  tq_inner :: "'a sync_channel"
  tq_depth :: 'd

(* bus.rs: fn new_inbound_channel *)
definition new_inbound_channel :: "nat \<Rightarrow> ('a, 'w::len word) tracked" where
  "new_inbound_channel capacity = \<lparr>tq_inner = channel_new capacity, tq_depth = 0\<rparr>"

(* bus.rs: impl TrackedSender<T> / fn send *)
definition tracked_send :: "'a \<Rightarrow> ('a, 'w::len word) tracked \<Rightarrow> (('a, 'w word) tracked \<times> ('a + unit)) option" where
  "tracked_send x tq =
     (case channel_send x (tq_inner tq) of
        None \<Rightarrow> None
      | Some (c, Inl e) \<Rightarrow> Some (tq\<lparr>tq_inner := c\<rparr>, Inl e)
      | Some (c, Inr _) \<Rightarrow> Some (tq\<lparr>tq_inner := c, tq_depth := tq_depth tq + 1\<rparr>, Inr ()))"

(* bus.rs: impl TrackedSender<T> / fn try_send *)
definition tracked_try_send :: "'a \<Rightarrow> ('a, 'w::len word) tracked \<Rightarrow> ('a, 'w word) tracked \<times> ('a TrySendError + unit)" where
  "tracked_try_send x tq =
     (case channel_try_send x (tq_inner tq) of
        (c, Inl e) \<Rightarrow> (tq\<lparr>tq_inner := c\<rparr>, Inl e)
      | (c, Inr _) \<Rightarrow> (tq\<lparr>tq_inner := c, tq_depth := tq_depth tq + 1\<rparr>, Inr ()))"

(* bus.rs: lines 802-809 impl Clone for TrackedSender *)
definition tracked_clone :: "('a, 'w::len word) tracked \<Rightarrow> ('a, 'w word) tracked" where
  "tracked_clone tq = tq\<lparr>tq_inner := (tq_inner tq)\<lparr>sc_senders := sc_senders (tq_inner tq) + 1\<rparr>\<rparr>"

(* bus.rs: impl TrackedReceiver<T> / fn recv *)
definition tracked_recv :: "('a, 'w::len word) tracked \<Rightarrow> (('a, 'w word) tracked \<times> (unit + 'a)) option" where
  "tracked_recv tq =
     (case channel_recv (tq_inner tq) of
        None \<Rightarrow> None
      | Some (c, Inl e) \<Rightarrow> Some (tq\<lparr>tq_inner := c\<rparr>, Inl e)
      | Some (c, Inr x) \<Rightarrow> Some (tq\<lparr>tq_inner := c, tq_depth := tq_depth tq - 1\<rparr>, Inr x))"

(* bus.rs: impl TrackedReceiver<T> / fn recv_timeout *)
definition tracked_recv_timeout :: "('a, 'w::len word) tracked \<Rightarrow> ('a, 'w word) tracked \<times> (RecvTimeoutError + 'a)" where
  "tracked_recv_timeout tq =
     (case channel_recv_timeout (tq_inner tq) of
        (c, Inl e) \<Rightarrow> (tq\<lparr>tq_inner := c\<rparr>, Inl e)
      | (c, Inr x) \<Rightarrow> (tq\<lparr>tq_inner := c, tq_depth := tq_depth tq - 1\<rparr>, Inr x))"

(* bus.rs: impl TrackedReceiver<T> / fn try_recv *)
definition tracked_try_recv :: "('a, 'w::len word) tracked \<Rightarrow> ('a, 'w word) tracked \<times> (TryRecvError + 'a)" where
  "tracked_try_recv tq =
     (case channel_try_recv (tq_inner tq) of
        (c, Inl e) \<Rightarrow> (tq\<lparr>tq_inner := c\<rparr>, Inl e)
      | (c, Inr x) \<Rightarrow> (tq\<lparr>tq_inner := c, tq_depth := tq_depth tq - 1\<rparr>, Inr x))"

(* bus.rs: struct MessageBus *)
record ('json, 'd) MessageBus =
  mb_inbound :: "('json PcMsg, 'd) tracked"
  mb_outbound :: "('json PcMsg, 'd) tracked"

(* bus.rs: impl MessageBus / fn new *)
definition message_bus_new :: "nat \<Rightarrow> ('json, 'w::len word) MessageBus" where
  "message_bus_new capacity =
     \<lparr>mb_inbound = new_inbound_channel capacity, mb_outbound = new_inbound_channel capacity\<rparr>"

(* heartbeat/mod.rs: lines 97-102 the queue depths reported by the heartbeat *)
definition heartbeat_queue_depths :: "'w::len word \<Rightarrow> 'w word \<Rightarrow> 'w word \<Rightarrow> u32 \<times> u32" where
  "heartbeat_queue_depths user_inbound_depth system_inbound_depth outbound_depth =
     (let in_user = ucast user_inbound_depth; in_system = ucast system_inbound_depth
      in (sat_add in_user in_system, ucast outbound_depth))"

section \<open>What a bounded queue promises\<close>

datatype 'a queue_op = Put 'a | Take

text \<open>A run of a queue: the values it accepted, the values it handed out, and its final state.\<close>

fun queue_run :: "('a \<Rightarrow> 's \<Rightarrow> 's option) \<Rightarrow> ('s \<Rightarrow> ('s \<times> 'a) option) \<Rightarrow> 'a queue_op list \<Rightarrow> 's
    \<Rightarrow> 'a list \<times> 'a list \<times> 's" where
  "queue_run put pull [] s = ([], [], s)"
| "queue_run put pull (Put x # ops) s =
     (case put x s of
        None \<Rightarrow> queue_run put pull ops s
      | Some s' \<Rightarrow> (let (acc, out, t) = queue_run put pull ops s' in (x # acc, out, t)))"
| "queue_run put pull (Take # ops) s =
     (case pull s of
        None \<Rightarrow> queue_run put pull ops s
      | Some (s', x) \<Rightarrow> (let (acc, out, t) = queue_run put pull ops s' in (acc, x # out, t)))"

text \<open>
  The interface: a put appends and a pull removes the front, both keep the provider's invariant, and a
  put is refused exactly when the queue is at its limit.
\<close>

locale bounded_queue =
  fixes put :: "'a \<Rightarrow> 's \<Rightarrow> 's option"
    and pull :: "'s \<Rightarrow> ('s \<times> 'a) option"
    and contents :: "'s \<Rightarrow> 'a list"
    and limit :: "'s \<Rightarrow> nat"
    and inv :: "'s \<Rightarrow> bool"
  assumes put_some: "inv s \<Longrightarrow> put x s = Some s' \<Longrightarrow>
      inv s' \<and> contents s' = contents s @ [x] \<and> limit s' = limit s \<and> length (contents s) < limit s"
    and put_none: "inv s \<Longrightarrow> put x s = None \<Longrightarrow> limit s \<le> length (contents s)"
    and take_some: "inv s \<Longrightarrow> pull s = Some (s', x) \<Longrightarrow>
      inv s' \<and> contents s = x # contents s' \<and> limit s' = limit s"
    and take_none: "inv s \<Longrightarrow> pull s = None \<Longrightarrow> contents s = []"
begin

lemma run_conserves:
  "inv s \<Longrightarrow> length (contents s) \<le> limit s \<Longrightarrow> queue_run put pull ops s = (acc, out, t) \<Longrightarrow>
     inv t \<and> contents s @ acc = out @ contents t \<and> length (contents t) \<le> limit s \<and> limit t = limit s"
proof (induction ops arbitrary: s acc out)
  case (Cons op ops)
  show ?case
  proof (cases op)
    case (Put x)
    show ?thesis
    proof (cases "put x s")
      case None
      then show ?thesis using Cons Put by simp
    next
      case (Some s')
      then obtain acc' where r: "queue_run put pull ops s' = (acc', out, t)" "acc = x # acc'"
        using Cons(4) Put by (auto split: prod.splits)
      then show ?thesis using Cons(1) [OF _ _ r(1)] put_some [OF Cons(2) Some] by simp
    qed
  next
    case Take
    show ?thesis
    proof (cases "pull s")
      case None
      then show ?thesis using Cons Take by simp
    next
      case (Some p)
      then obtain s' x out' where r: "pull s = Some (s', x)" "queue_run put pull ops s' = (acc, out', t)" "out = x # out'"
        using Cons(4) Take by (cases p) (auto split: prod.splits)
      then show ?thesis using Cons(1) [OF _ _ r(2)] take_some [OF Cons(2) r(1)] Cons(3) by simp
    qed
  qed
qed simp

lemma run_fills:
  assumes "inv s" "limit s = Suc (length (contents s))"
  shows "\<exists>s'. put x s = Some s' \<and> put y s' = None"
proof -
  obtain s' where p: "put x s = Some s'" using put_none [OF assms(1)] assms(2) by fastforce
  then have "put y s' = None"
    using put_some [OF assms(1) p] put_some [of s' y] assms(2) by (cases "put y s'") auto
  then show ?thesis using p by blast
qed

end

section \<open>The tracked queue keeps the promise\<close>

text \<open>A non-blocking use of the two ends, and the sequential invariant: the depth is the length.\<close>

definition try_put :: "'a \<Rightarrow> ('a, 'w::len word) tracked \<Rightarrow> ('a, 'w word) tracked option" where
  "try_put x tq = (case tracked_try_send x tq of (tq', Inr _) \<Rightarrow> Some tq' | (_, Inl _) \<Rightarrow> None)"

definition try_take :: "('a, 'w::len word) tracked \<Rightarrow> (('a, 'w word) tracked \<times> 'a) option" where
  "try_take tq = (case tracked_try_recv tq of (tq', Inr x) \<Rightarrow> Some (tq', x) | (_, Inl _) \<Rightarrow> None)"

definition queued :: "('a, 'd) tracked \<Rightarrow> 'a list" where
  "queued tq = sc_queue (tq_inner tq)"

definition depth_exact :: "('a, 'w::len word) tracked \<Rightarrow> bool" where
  "depth_exact tq \<longleftrightarrow> sc_receiver (tq_inner tq) \<and> tq_depth tq = of_nat (length (queued tq))"

lemmas tracked_defs = tracked_try_send_def tracked_try_recv_def channel_try_send_def channel_try_recv_def
  queued_def depth_exact_def try_put_def try_take_def

interpretation bus_queue: bounded_queue try_put try_take queued "\<lambda>tq. sc_capacity (tq_inner tq)"
    "depth_exact :: ('a, 'w::len word) tracked \<Rightarrow> bool"
  by unfold_locales (auto simp: tracked_defs split: if_splits list.splits)

text \<open>
  C7: the bus is a bounded first-in-first-out queue. In every sequence of non-blocking sends and
  receives on a fresh queue, the accepted messages are the delivered ones followed by the queued ones,
  in order, none lost and none doubled; the queue never exceeds its capacity, and the reported depth
  is its length.
\<close>
theorem bus_fifo_bounded:
  fixes ops :: "'a queue_op list" and t :: "('a, 'w::len word) tracked"
  assumes "queue_run try_put try_take ops (new_inbound_channel capacity) = (accepted, delivered, t)"
  shows "accepted = delivered @ queued t \<and> length (queued t) \<le> capacity
    \<and> tq_depth t = of_nat (length (queued t))
    \<and> (capacity < 2 ^ LENGTH('w) \<longrightarrow> unat (tq_depth t) = length (queued t))"
proof -
  have fresh: "depth_exact (new_inbound_channel capacity :: ('a, 'w word) tracked)"
    "queued (new_inbound_channel capacity :: ('a, 'w word) tracked) = []"
    "sc_capacity (tq_inner (new_inbound_channel capacity :: ('a, 'w word) tracked)) = capacity"
    by (simp_all add: tracked_defs new_inbound_channel_def channel_new_def)
  then show ?thesis
    using bus_queue.run_conserves [OF fresh(1) _ assms]
    by (auto simp: depth_exact_def unat_of_nat take_bit_nat_eq_self_iff mod_less)
qed

theorem bus_fifo_bounded_witness:
  "queued (snd (snd (queue_run try_put try_take [Put 1, Put 2, Put 3, Take, Put (4::nat)]
     (new_inbound_channel 2 :: (nat, 32 word) tracked)))) = [2, 4]"
proof -
  obtain accepted delivered t where r:
    "queue_run try_put try_take [Put 1, Put 2, Put 3, Take, Put (4::nat)] (new_inbound_channel 2 :: (nat, 32 word) tracked)
       = (accepted, delivered, t)" by (metis prod_cases3)
  then have "accepted = [1, 2, 4] \<and> delivered = [1]"
    by (auto simp: tracked_defs new_inbound_channel_def channel_new_def)
  then show ?thesis using bus_fifo_bounded [OF r] r by auto
qed

section \<open>Concurrent ends\<close>

text \<open>
  The channel, the depth cell, how many senders have sent and not yet counted, and whether the
  receiver has received and not yet discounted. The receiver belongs to one thread. A blocking
  operation takes its step once it need not wait. When the receiver is dropped, the channel discards
  what is queued.
\<close>

type_synonym ('a, 'w) bus_state = "'a sync_channel \<times> 'w word \<times> nat \<times> bool"

(* bus.rs: lines 782-860 the tracked ends, split at their two accesses *)
inductive bus_step :: "('a, 'w::len) bus_state \<Rightarrow> ('a, 'w) bus_state \<Rightarrow> bool" where
  bs_send: "channel_try_send x c = (c', Inr ()) \<Longrightarrow> bus_step (c, d, p, q) (c', d, Suc p, q)"
| bs_send_blocking: "channel_send x c = Some (c', Inr ()) \<Longrightarrow> bus_step (c, d, p, q) (c', d, Suc p, q)"
| bs_count: "bus_step (c, d, Suc p, q) (c, d + 1, p, q)"
| bs_recv: "channel_try_recv c = (c', Inr x) \<Longrightarrow> bus_step (c, d, p, False) (c', d, p, True)"
| bs_recv_blocking: "channel_recv c = Some (c', Inr x) \<Longrightarrow> bus_step (c, d, p, False) (c', d, p, True)"
| bs_recv_timeout: "channel_recv_timeout c = (c', Inr x) \<Longrightarrow> bus_step (c, d, p, False) (c', d, p, True)"
| bs_discount: "bus_step (c, d, p, True) (c, d - 1, p, False)"
| bs_senders: "bus_step (c, d, p, q) (c\<lparr>sc_senders := n\<rparr>, d, p, q)"
| bs_hangup: "bus_step (c, d, p, False) (c\<lparr>sc_receiver := False, sc_queue := []\<rparr>, d, p, False)"

text \<open>The tracked operations are these steps one after the other.\<close>

lemma tracked_ops_are_steps:
  "tracked_try_send x tq = (tq', Inr ()) \<Longrightarrow>
     bus_step (tq_inner tq, tq_depth tq, p, q) (tq_inner tq', tq_depth tq, Suc p, q)
     \<and> bus_step (tq_inner tq', tq_depth tq, Suc p, q) (tq_inner tq', tq_depth tq', p, q)"
  "tracked_send x tq = Some (tq', Inr ()) \<Longrightarrow>
     bus_step (tq_inner tq, tq_depth tq, p, q) (tq_inner tq', tq_depth tq, Suc p, q)
     \<and> bus_step (tq_inner tq', tq_depth tq, Suc p, q) (tq_inner tq', tq_depth tq', p, q)"
  "tracked_try_recv tq = (tq', Inr y) \<Longrightarrow>
     bus_step (tq_inner tq, tq_depth tq, p, False) (tq_inner tq', tq_depth tq, p, True)
     \<and> bus_step (tq_inner tq', tq_depth tq, p, True) (tq_inner tq', tq_depth tq', p, False)"
  "tracked_recv tq = Some (tq', Inr y) \<Longrightarrow>
     bus_step (tq_inner tq, tq_depth tq, p, False) (tq_inner tq', tq_depth tq, p, True)
     \<and> bus_step (tq_inner tq', tq_depth tq, p, True) (tq_inner tq', tq_depth tq', p, False)"
  "tracked_recv_timeout tq = (tq', Inr y) \<Longrightarrow>
     bus_step (tq_inner tq, tq_depth tq, p, False) (tq_inner tq', tq_depth tq, p, True)
     \<and> bus_step (tq_inner tq', tq_depth tq, p, True) (tq_inner tq', tq_depth tq', p, False)"
  by (auto simp: tracked_try_send_def tracked_send_def tracked_try_recv_def tracked_recv_def
      tracked_recv_timeout_def split: prod.splits sum.splits option.splits intro: bus_step.intros)

inductive bus_reachable :: "nat \<Rightarrow> ('a, 'w::len) bus_state \<Rightarrow> bool" for capacity where
  br_start: "bus_reachable capacity (channel_new capacity, 0, 0, False)"
| br_step: "bus_reachable capacity s \<Longrightarrow> bus_step s s' \<Longrightarrow> bus_reachable capacity s'"

fun bus_inv :: "nat \<Rightarrow> ('a, 'w::len) bus_state \<Rightarrow> bool" where
  "bus_inv capacity (c, d, p, q) \<longleftrightarrow>
     sc_capacity c = capacity
     \<and> (sc_receiver c \<longrightarrow> length (sc_queue c) \<le> capacity
         \<and> d + of_nat p = of_nat (length (sc_queue c) + (if q then 1 else 0)))"

lemma bus_step_inv: "bus_step s s' \<Longrightarrow> bus_inv capacity s \<Longrightarrow> bus_inv capacity s'"
  by (induction rule: bus_step.induct)
    (auto simp: channel_try_send_def channel_send_def channel_try_recv_def channel_recv_def
      channel_recv_timeout_def algebra_simps split: if_splits list.splits)

lemma bus_reachable_inv: "bus_reachable capacity s \<Longrightarrow> bus_inv capacity s"
  by (induction rule: bus_reachable.induct) (auto simp: channel_new_def intro: bus_step_inv)

text \<open>
  Under every interleaving of senders and the receiver, while the receiver lives, the queue stays
  within its capacity and the depth cell is, modulo the word, its length plus the receipt not yet
  discounted less the sends not yet counted. Whenever no operation is half done it is the length.
\<close>
theorem depth_accounting:
  fixes d :: "'w::len word"
  assumes "bus_reachable capacity (c, d, p, q)" "sc_receiver c"
  shows "length (sc_queue c) \<le> capacity
    \<and> d = of_nat (length (sc_queue c)) + of_nat (if q then 1 else 0) - of_nat p
    \<and> (p = 0 \<and> \<not> q \<and> capacity < 2 ^ LENGTH('w) \<longrightarrow> unat d = length (sc_queue c))"
  using bus_reachable_inv [OF assms(1)] assms(2)
  by (auto simp: algebra_simps unat_of_nat take_bit_nat_eq_self_iff mod_less)

text \<open>A send that is received before it is counted.\<close>

lemma uncounted_reachable:
  assumes "0 < capacity"
  shows "bus_reachable capacity (channel_new capacity :: 'a sync_channel, - 1 :: 'w::len word, Suc 0, False)"
proof -
  let ?c = "channel_new capacity :: 'a sync_channel" and ?x = "undefined :: 'a"
  have "channel_try_send ?x ?c = (?c\<lparr>sc_queue := [?x]\<rparr>, Inr ())"
    using assms by (simp add: channel_try_send_def channel_new_def)
  from br_step [OF br_start bs_send [OF this]]
  have sent: "bus_reachable capacity (?c\<lparr>sc_queue := [?x]\<rparr>, 0 :: 'w word, Suc 0, False)" .
  have "channel_try_recv (?c\<lparr>sc_queue := [?x]\<rparr>) = (?c, Inr ?x)"
    by (simp add: channel_try_recv_def channel_new_def)
  from br_step [OF sent bs_recv [OF this]]
  have "bus_reachable capacity (?c, 0 :: 'w word, Suc 0, True)" .
  from br_step [OF this bs_discount] show ?thesis by simp
qed

theorem depth_accounting_witness:
  "(- 1 :: 32 word) = of_nat (length (sc_queue (channel_new 4 :: nat sync_channel))) + of_nat 0 - of_nat (Suc 0)"
proof -
  have "bus_reachable 4 (channel_new 4 :: nat sync_channel, - 1 :: 32 word, Suc 0, False)"
    by (rule uncounted_reachable) simp
  from depth_accounting [OF this] show ?thesis by (simp add: channel_new_def)
qed

end
