(* ===== verification/Delayed_Task.thy ===== *)
theory Delayed_Task
  imports Tracked_Queue
begin

text \<open>
  The delayed task queue (\<open>src/src/runtime/delayed_task.rs\<close>): jobs behind one mutex, scheduled
  with two priorities and coalescing keys, taken when due by the polling threads. Instants are natural
  numbers; \<open>horizon\<close> is the largest instant the platform represents, past which
  \<open>checked_add\<close> fails. A task is a value of a type parameter, and the tasks that a service
  executes are its result, in their order.
\<close>

section \<open>Data\<close>

(* runtime/delayed_task.rs: enum DelayedTaskPriority *)
datatype DelayedTaskPriority = BestEffort | CriticalTask

(* runtime/delayed_task.rs: enum DelayedTaskServiceScope *)
datatype DelayedTaskServiceScope = AllEligible | CriticalOnly

(* runtime/delayed_task.rs: struct DelayedTaskJob *)
record 'task DelayedTaskJob =
  dj_due_at :: nat
  dj_first_scheduled_at :: nat
  dj_priority :: DelayedTaskPriority
  dj_coalesce_key :: "string option"
  dj_task :: "'task option"

(* runtime/delayed_task.rs: const DELAYED_TASK_BEST_EFFORT_MAX *)
fun DELAYED_TASK_BEST_EFFORT_MAX :: "target \<Rightarrow> nat" where
  "DELAYED_TASK_BEST_EFFORT_MAX Esp = 16"
| "DELAYED_TASK_BEST_EFFORT_MAX Host = 64"

(* runtime/delayed_task.rs: const DELAYED_TASK_CRITICAL_RESERVED *)
fun DELAYED_TASK_CRITICAL_RESERVED :: "target \<Rightarrow> nat" where
  "DELAYED_TASK_CRITICAL_RESERVED Esp = 4"
| "DELAYED_TASK_CRITICAL_RESERVED Host = 8"

(* runtime/delayed_task.rs: const DELAYED_TASK_TOTAL_MAX *)
definition DELAYED_TASK_TOTAL_MAX :: "target \<Rightarrow> nat" where
  "DELAYED_TASK_TOTAL_MAX t = DELAYED_TASK_BEST_EFFORT_MAX t + DELAYED_TASK_CRITICAL_RESERVED t"

text \<open>\<open>Vec::swap_remove\<close> at an index in range: the last element takes the place.\<close>

definition swap_remove :: "nat \<Rightarrow> 'a list \<Rightarrow> 'a list" where
  "swap_remove i xs = (butlast xs)[i := last xs]"

lemma length_swap_remove [simp]: "length (swap_remove i xs) = length xs - 1"
  by (simp add: swap_remove_def)

lemma mset_swap_remove: "i < length xs \<Longrightarrow> mset xs = add_mset (xs ! i) (mset (swap_remove i xs))"
proof (cases xs rule: rev_cases)
  case (snoc ys y)
  assume "i < length xs"
  then show ?thesis
    using snoc by (cases "i = length ys")
      (auto simp: swap_remove_def nth_append mset_update list_update_beyond)
qed simp

section \<open>Taking due jobs\<close>

text \<open>The loop over an index that swaps out the jobs that satisfy \<open>p\<close>.\<close>

function take_loop :: "('a \<Rightarrow> bool) \<Rightarrow> 'a list \<Rightarrow> nat \<Rightarrow> 'a list \<Rightarrow> 'a list \<times> 'a list" where
  "take_loop p pending index due =
     (if index < length pending then
        if p (pending ! index) then take_loop p (swap_remove index pending) index (due @ [pending ! index])
        else take_loop p pending (Suc index) due
      else (pending, due))"
  by pat_completeness auto
termination
  by (relation "measure (\<lambda>(p, pending, index, due). length pending - index)") auto

declare take_loop.simps [simp del]

(* runtime/delayed_task.rs: fn take_due_jobs_locked *)
definition take_due_jobs_locked :: "'task DelayedTaskJob list \<Rightarrow> nat
    \<Rightarrow> 'task DelayedTaskJob list \<times> 'task DelayedTaskJob list" where
  "take_due_jobs_locked pending now = take_loop (\<lambda>job. dj_due_at job \<le> now) pending 0 []"

(* runtime/delayed_task.rs: fn take_due_jobs_locked_with_policy *)
definition take_due_jobs_locked_with_policy :: "'task DelayedTaskJob list \<Rightarrow> nat
    \<Rightarrow> DelayedTaskServiceScope \<Rightarrow> bool \<Rightarrow> 'task DelayedTaskJob list \<times> 'task DelayedTaskJob list" where
  "take_due_jobs_locked_with_policy pending now scope allow_best_effort =
     (if scope = AllEligible \<and> allow_best_effort then take_due_jobs_locked pending now
      else take_loop (\<lambda>job. dj_due_at job \<le> now \<and> dj_priority job = CriticalTask) pending 0 [])"

(* runtime/delayed_task.rs: fn execute_jobs *)
definition execute_jobs :: "'task DelayedTaskJob list \<Rightarrow> 'task list" where
  "execute_jobs due = List.map_filter dj_task (sort_key dj_due_at due)"

(* runtime/delayed_task.rs: fn service_delayed_tasks_with_policy *)
definition service_delayed_tasks_with_policy :: "DelayedTaskServiceScope \<Rightarrow> bool \<Rightarrow> nat
    \<Rightarrow> 'task DelayedTaskJob list \<Rightarrow> 'task DelayedTaskJob list \<times> 'task list" where
  "service_delayed_tasks_with_policy scope allow_best_effort now pending =
     (let (pending', due) = take_due_jobs_locked_with_policy pending now scope allow_best_effort
      in (pending', execute_jobs due))"

text \<open>The mode snapshot of the thread registry is derived from its source signals.\<close>

(* runtime/delayed_task.rs: fn service_delayed_tasks_with_scope *)
definition service_delayed_tasks_with_scope :: "DelayedTaskServiceScope \<Rightarrow> RuntimeModeSource \<Rightarrow> nat
    \<Rightarrow> 'task DelayedTaskJob list \<Rightarrow> 'task DelayedTaskJob list \<times> 'task list" where
  "service_delayed_tasks_with_scope scope source now pending =
     service_delayed_tasks_with_policy scope
       (allow_best_effort_delayed_tasks (action_budget (mode_snapshot_from_source source))) now pending"

(* runtime/delayed_task.rs: fn service_delayed_tasks *)
definition service_delayed_tasks :: "RuntimeModeSource \<Rightarrow> nat \<Rightarrow> 'task DelayedTaskJob list
    \<Rightarrow> 'task DelayedTaskJob list \<times> 'task list" where
  "service_delayed_tasks = service_delayed_tasks_with_scope AllEligible"

(* runtime/delayed_task.rs: fn service_critical_delayed_tasks *)
definition service_critical_delayed_tasks :: "RuntimeModeSource \<Rightarrow> nat \<Rightarrow> 'task DelayedTaskJob list
    \<Rightarrow> 'task DelayedTaskJob list \<times> 'task list" where
  "service_critical_delayed_tasks = service_delayed_tasks_with_scope CriticalOnly"

text \<open>\<open>min()\<close> over an iterator of durations; \<open>None\<close> when it is empty.\<close>

fun minimum :: "nat list \<Rightarrow> nat option" where
  "minimum [] = None"
| "minimum (x # xs) = (case minimum xs of None \<Rightarrow> Some x | Some y \<Rightarrow> Some (min x y))"

(* runtime/delayed_task.rs: fn next_delayed_task_wait_with_policy *)
definition next_delayed_task_wait_with_policy :: "nat \<Rightarrow> bool \<Rightarrow> nat \<Rightarrow> 'task DelayedTaskJob list \<Rightarrow> nat" where
  "next_delayed_task_wait_with_policy max_wait allow_best_effort now pending =
     (case minimum (map (\<lambda>job. dj_due_at job - now)
                      (filter (\<lambda>job. allow_best_effort \<or> dj_priority job = CriticalTask) pending)) of
        Some wait \<Rightarrow> min wait max_wait
      | None \<Rightarrow> max_wait)"

(* runtime/delayed_task.rs: fn next_delayed_task_wait *)
definition next_delayed_task_wait :: "nat \<Rightarrow> RuntimeModeSource \<Rightarrow> nat \<Rightarrow> 'task DelayedTaskJob list \<Rightarrow> nat" where
  "next_delayed_task_wait max_wait source now pending =
     next_delayed_task_wait_with_policy max_wait
       (allow_best_effort_delayed_tasks (action_budget (mode_snapshot_from_source source))) now pending"

section \<open>Scheduling\<close>

text \<open>
  \<open>min_by_key\<close> over the best-effort jobs with their indices: the first of the minimal ones.
\<close>

fun min_index :: "(nat \<times> 'task DelayedTaskJob) list \<Rightarrow> (nat \<times> 'task DelayedTaskJob) option" where
  "min_index [] = None"
| "min_index (x # xs) =
     (case min_index xs of
        None \<Rightarrow> Some x
      | Some y \<Rightarrow> Some (if dj_due_at (snd x) \<le> dj_due_at (snd y) then x else y))"

(* runtime/delayed_task.rs: fn oldest_best_effort_index *)
definition oldest_best_effort_index :: "'task DelayedTaskJob list \<Rightarrow> nat option" where
  "oldest_best_effort_index pending =
     map_option fst (min_index (filter (\<lambda>(_, job). dj_priority job = BestEffort) (enumerate 0 pending)))"

text \<open>What a schedule returns: the queue, whether the timer is notified, and the task it gives back.\<close>

record 'task schedule_outcome =
  so_pending :: "'task DelayedTaskJob list"
  so_notified :: bool
  so_result :: "'task + unit"

definition pushed :: "'task DelayedTaskJob \<Rightarrow> 'task DelayedTaskJob list \<Rightarrow> 'task schedule_outcome" where
  "pushed job pending = \<lparr>so_pending = pending @ [job], so_notified = True, so_result = Inr ()\<rparr>"

definition best_effort_count :: "'task DelayedTaskJob list \<Rightarrow> nat" where
  "best_effort_count pending = length (filter (\<lambda>job. dj_priority job = BestEffort) pending)"

definition bounded_due :: "nat \<Rightarrow> nat \<Rightarrow> nat option \<Rightarrow> nat \<Rightarrow> nat" where
  "bounded_due horizon due_at max_defer first_scheduled_at =
     (case max_defer of
        None \<Rightarrow> due_at
      | Some m \<Rightarrow> if first_scheduled_at + m \<le> horizon then min due_at (first_scheduled_at + m) else due_at)"

(* runtime/delayed_task.rs: fn schedule_delayed_task_with_priority_key_and_bound *)
definition schedule_delayed_task_with_priority_key_and_bound :: "target \<Rightarrow> nat \<Rightarrow> nat \<Rightarrow> nat
    \<Rightarrow> DelayedTaskPriority \<Rightarrow> string option \<Rightarrow> nat option \<Rightarrow> 'task \<Rightarrow> 'task DelayedTaskJob list
    \<Rightarrow> 'task schedule_outcome" where
  "schedule_delayed_task_with_priority_key_and_bound t horizon now due_at priority coalesce_key
       max_defer_from_first task pending =
     (let existing = (case coalesce_key of None \<Rightarrow> None
            | Some key \<Rightarrow> position (\<lambda>job. dj_coalesce_key job = Some key) pending);
          job = \<lparr>dj_due_at = due_at, dj_first_scheduled_at = now, dj_priority = priority,
                 dj_coalesce_key = coalesce_key, dj_task = Some task\<rparr>
      in case existing of
        Some index \<Rightarrow>
          (let old = pending ! index;
               bounded_due_at = bounded_due horizon due_at max_defer_from_first (dj_first_scheduled_at old)
           in \<lparr>so_pending = pending[index := old\<lparr>dj_due_at := bounded_due_at, dj_priority := priority,
                                                dj_task := Some task\<rparr>],
               so_notified = (bounded_due_at < dj_due_at old), so_result = Inr ()\<rparr>)
      | None \<Rightarrow>
          (case priority of
             BestEffort \<Rightarrow>
               (if best_effort_count pending < DELAYED_TASK_BEST_EFFORT_MAX t
                     \<and> length pending < DELAYED_TASK_TOTAL_MAX t
                then pushed job pending
                else \<lparr>so_pending = pending, so_notified = False, so_result = Inl task\<rparr>)
           | CriticalTask \<Rightarrow>
               (let pending' = (if DELAYED_TASK_TOTAL_MAX t \<le> length pending
                     then (case oldest_best_effort_index pending of
                             Some idx \<Rightarrow> swap_remove idx pending
                           | None \<Rightarrow> pending)
                     else pending)
                in if length pending' < DELAYED_TASK_TOTAL_MAX t then pushed job pending'
                   else \<lparr>so_pending = pending', so_notified = False, so_result = Inl task\<rparr>)))"

(* runtime/delayed_task.rs: fn schedule_delayed_task_with_priority_and_key *)
definition schedule_delayed_task_with_priority_and_key :: "target \<Rightarrow> nat \<Rightarrow> nat \<Rightarrow> nat \<Rightarrow> DelayedTaskPriority
    \<Rightarrow> string option \<Rightarrow> 'task \<Rightarrow> 'task DelayedTaskJob list \<Rightarrow> 'task schedule_outcome" where
  "schedule_delayed_task_with_priority_and_key t horizon now due_at priority coalesce_key task pending =
     schedule_delayed_task_with_priority_key_and_bound t horizon now due_at priority coalesce_key None task pending"

(* runtime/delayed_task.rs: fn schedule_delayed_task_with_priority *)
definition schedule_delayed_task_with_priority :: "target \<Rightarrow> nat \<Rightarrow> nat \<Rightarrow> nat \<Rightarrow> DelayedTaskPriority
    \<Rightarrow> 'task \<Rightarrow> 'task DelayedTaskJob list \<Rightarrow> 'task schedule_outcome" where
  "schedule_delayed_task_with_priority t horizon now due_at priority task pending =
     schedule_delayed_task_with_priority_and_key t horizon now due_at priority None task pending"

(* runtime/delayed_task.rs: fn schedule_delayed_task *)
definition schedule_delayed_task :: "target \<Rightarrow> nat \<Rightarrow> nat \<Rightarrow> nat \<Rightarrow> 'task \<Rightarrow> 'task DelayedTaskJob list
    \<Rightarrow> 'task schedule_outcome" where
  "schedule_delayed_task t horizon now due_at task pending =
     schedule_delayed_task_with_priority t horizon now due_at BestEffort task pending"

(* runtime/delayed_task.rs: fn schedule_critical_delayed_task *)
definition schedule_critical_delayed_task :: "target \<Rightarrow> nat \<Rightarrow> nat \<Rightarrow> nat \<Rightarrow> 'task \<Rightarrow> 'task DelayedTaskJob list
    \<Rightarrow> 'task schedule_outcome" where
  "schedule_critical_delayed_task t horizon now due_at task pending =
     schedule_delayed_task_with_priority t horizon now due_at CriticalTask task pending"

section \<open>Delayed system messages\<close>

text \<open>
  A delayed system message captures the message, its retry delay, its coalescing key and the bound on
  its deferral; the sender is the one of the system queue. When the task runs it tries to send, and a
  full queue schedules it again; what the second schedule returns is ignored.
\<close>

record 'json inbound_task =
  it_msg :: "'json PcMsg"
  it_retry_delay :: nat
  it_coalesce_key :: "string option"
  it_max_defer_from_first :: "nat option"

definition schedule_inbound :: "target \<Rightarrow> nat \<Rightarrow> nat \<Rightarrow> nat \<Rightarrow> 'json inbound_task
    \<Rightarrow> 'json inbound_task DelayedTaskJob list \<Rightarrow> 'json inbound_task schedule_outcome" where
  "schedule_inbound t horizon now due_at task pending =
     schedule_delayed_task_with_priority_key_and_bound t horizon now due_at BestEffort
       (it_coalesce_key task) (it_max_defer_from_first task) task pending"

(* runtime/delayed_task.rs: fn schedule_system_inbound_msg *)
definition schedule_system_inbound_msg :: "target \<Rightarrow> nat \<Rightarrow> nat \<Rightarrow> nat \<Rightarrow> 'json PcMsg \<Rightarrow> nat
    \<Rightarrow> 'json inbound_task DelayedTaskJob list \<Rightarrow> 'json inbound_task schedule_outcome" where
  "schedule_system_inbound_msg t horizon now due_at msg retry_delay pending =
     schedule_delayed_task t horizon now due_at
       \<lparr>it_msg = msg, it_retry_delay = retry_delay, it_coalesce_key = None, it_max_defer_from_first = None\<rparr>
       pending"

(* runtime/delayed_task.rs: fn schedule_keyed_system_inbound_msg *)
definition schedule_keyed_system_inbound_msg :: "target \<Rightarrow> nat \<Rightarrow> nat \<Rightarrow> nat \<Rightarrow> 'json PcMsg \<Rightarrow> nat
    \<Rightarrow> string \<Rightarrow> 'json inbound_task DelayedTaskJob list \<Rightarrow> 'json inbound_task schedule_outcome" where
  "schedule_keyed_system_inbound_msg t horizon now due_at msg retry_delay coalesce_key pending =
     schedule_delayed_task_with_priority_and_key t horizon now due_at BestEffort (Some coalesce_key)
       \<lparr>it_msg = msg, it_retry_delay = retry_delay, it_coalesce_key = Some coalesce_key,
        it_max_defer_from_first = None\<rparr> pending"

(* runtime/delayed_task.rs: fn schedule_bounded_keyed_system_inbound_msg *)
definition schedule_bounded_keyed_system_inbound_msg :: "target \<Rightarrow> nat \<Rightarrow> nat \<Rightarrow> nat \<Rightarrow> 'json PcMsg \<Rightarrow> nat
    \<Rightarrow> string \<Rightarrow> nat \<Rightarrow> 'json inbound_task DelayedTaskJob list \<Rightarrow> 'json inbound_task schedule_outcome" where
  "schedule_bounded_keyed_system_inbound_msg t horizon now due_at msg retry_delay coalesce_key
       max_defer_from_first pending =
     schedule_delayed_task_with_priority_key_and_bound t horizon now due_at BestEffort (Some coalesce_key)
       (Some max_defer_from_first)
       \<lparr>it_msg = msg, it_retry_delay = retry_delay, it_coalesce_key = Some coalesce_key,
        it_max_defer_from_first = Some max_defer_from_first\<rparr> pending"

lemma inbound_schedules:
  "schedule_system_inbound_msg t horizon now due_at msg d pending =
     schedule_inbound t horizon now due_at \<lparr>it_msg = msg, it_retry_delay = d, it_coalesce_key = None,
       it_max_defer_from_first = None\<rparr> pending"
  "schedule_keyed_system_inbound_msg t horizon now due_at msg d k pending =
     schedule_inbound t horizon now due_at \<lparr>it_msg = msg, it_retry_delay = d, it_coalesce_key = Some k,
       it_max_defer_from_first = None\<rparr> pending"
  "schedule_bounded_keyed_system_inbound_msg t horizon now due_at msg d k m pending =
     schedule_inbound t horizon now due_at \<lparr>it_msg = msg, it_retry_delay = d, it_coalesce_key = Some k,
       it_max_defer_from_first = Some m\<rparr> pending"
  by (simp_all add: schedule_system_inbound_msg_def schedule_keyed_system_inbound_msg_def
      schedule_bounded_keyed_system_inbound_msg_def schedule_inbound_def schedule_delayed_task_def
      schedule_delayed_task_with_priority_def schedule_delayed_task_with_priority_and_key_def)

text \<open>The closure of such a task, over the queue of jobs and the system queue.\<close>

definition run_inbound_task :: "target \<Rightarrow> nat \<Rightarrow> nat \<Rightarrow> 'json inbound_task
    \<Rightarrow> 'json inbound_task DelayedTaskJob list \<times> ('json PcMsg, 'w::len word) tracked
    \<Rightarrow> 'json inbound_task DelayedTaskJob list \<times> ('json PcMsg, 'w word) tracked" where
  "run_inbound_task t horizon now task s =
     (case s of (pending, tq) \<Rightarrow>
       (case tracked_try_send (it_msg task) tq of
          (tq', Inr _) \<Rightarrow> (pending, tq')
        | (tq', Inl (SendFull msg)) \<Rightarrow>
            (so_pending (schedule_inbound t horizon now (now + it_retry_delay task)
               (task\<lparr>it_msg := msg\<rparr>) pending), tq')
        | (tq', Inl (SendDisconnected _)) \<Rightarrow> (pending, tq')))"

definition service_inbound :: "target \<Rightarrow> nat \<Rightarrow> nat \<Rightarrow> DelayedTaskServiceScope \<Rightarrow> bool
    \<Rightarrow> 'json inbound_task DelayedTaskJob list \<times> ('json PcMsg, 'w::len word) tracked
    \<Rightarrow> 'json inbound_task DelayedTaskJob list \<times> ('json PcMsg, 'w word) tracked" where
  "service_inbound t horizon now scope allow_best_effort s =
     (case service_delayed_tasks_with_policy scope allow_best_effort now (fst s) of
        (pending, tasks) \<Rightarrow> fold (run_inbound_task t horizon now) tasks (pending, snd s))"

end
