(* ===== verification/Delayed_Task_Laws.thy ===== *)
theory Delayed_Task_Laws
  imports Delayed_Task
begin

text \<open>
  What the delayed task queue promises: a service runs exactly the eligible due jobs in the order of
  their due times, the capacities hold in every reachable queue, a critical task is only refused when
  critical tasks fill the queue, the announced wait is exact, and no system message is lost in a
  service.
\<close>

section \<open>A service takes exactly the eligible jobs\<close>

lemma nth_swap_remove: "j < i \<Longrightarrow> Suc j < length xs \<Longrightarrow> swap_remove i xs ! j = xs ! j"
  by (simp add: swap_remove_def nth_butlast)

lemma take_loop_partition:
  "take_loop p pending index due = (rest, out) \<Longrightarrow> \<forall>i < index. i < length pending \<longrightarrow> \<not> p (pending ! i) \<Longrightarrow>
     mset rest = filter_mset (\<lambda>x. \<not> p x) (mset pending) \<and> mset out = mset due + filter_mset p (mset pending)"
proof (induction p pending index due arbitrary: rest out rule: take_loop.induct)
  case (1 p pending index due)
  show ?case
  proof (cases "index < length pending")
    case False
    then have "\<forall>x \<in> set pending. \<not> p x" using 1(4) by (auto simp: in_set_conv_nth)
    then have "filter_mset p (mset pending) = {#}" "filter_mset (\<lambda>x. \<not> p x) (mset pending) = mset pending"
      by (auto simp: filter_mset_eq_conv)
    then show ?thesis using 1(3) False by (simp add: take_loop.simps)
  next
    case True
    show ?thesis
    proof (cases "p (pending ! index)")
      case p: True
      then have "take_loop p (swap_remove index pending) index (due @ [pending ! index]) = (rest, out)"
        using 1(3) True by (simp add: take_loop.simps [of p pending])
      moreover have "\<forall>i < index. i < length (swap_remove index pending) \<longrightarrow> \<not> p (swap_remove index pending ! i)"
        using 1(4) by (auto simp: nth_swap_remove)
      ultimately show ?thesis using 1(1) [OF True p] p mset_swap_remove [OF True] by simp
    next
      case False
      then have "take_loop p pending (Suc index) due = (rest, out)"
        using 1(3) True by (simp add: take_loop.simps [of p pending])
      moreover have "\<forall>i < Suc index. i < length pending \<longrightarrow> \<not> p (pending ! i)"
        using 1(4) False by (auto simp: less_Suc_eq)
      ultimately show ?thesis using 1(2) [OF True False] by blast
    qed
  qed
qed

definition eligible :: "DelayedTaskServiceScope \<Rightarrow> bool \<Rightarrow> nat \<Rightarrow> 'task DelayedTaskJob \<Rightarrow> bool" where
  "eligible scope allow now job \<longleftrightarrow>
     dj_due_at job \<le> now \<and> (scope = AllEligible \<and> allow \<or> dj_priority job = CriticalTask)"

lemma take_due_policy:
  assumes "take_due_jobs_locked_with_policy pending now scope allow = (rest, due)"
  shows "mset rest = filter_mset (\<lambda>job. \<not> eligible scope allow now job) (mset pending)"
    and "mset due = filter_mset (eligible scope allow now) (mset pending)"
proof -
  have "take_due_jobs_locked_with_policy pending now scope allow = take_loop (eligible scope allow now) pending 0 []"
    by (cases "scope = AllEligible \<and> allow")
      (auto simp: take_due_jobs_locked_with_policy_def take_due_jobs_locked_def eligible_def
        intro!: arg_cong [where f = "\<lambda>p. take_loop p pending 0 []"])
  then show "mset rest = filter_mset (\<lambda>job. \<not> eligible scope allow now job) (mset pending)"
    "mset due = filter_mset (eligible scope allow now) (mset pending)"
    using take_loop_partition [of "eligible scope allow now" pending 0 "[]" rest due] assms by auto
qed

text \<open>
  C27: a service with a scope and a policy runs exactly the jobs that are due and admitted, each once,
  in the order of their due times, and leaves exactly the others in the queue. The loop that swaps
  elements out while it walks the vector skips none and takes none twice.
\<close>
theorem service_exact:
  assumes "service_delayed_tasks_with_policy scope allow now pending = (pending', run)"
  shows "mset pending' = filter_mset (\<lambda>job. \<not> eligible scope allow now job) (mset pending)
    \<and> (\<exists>jobs. mset jobs = filter_mset (eligible scope allow now) (mset pending)
         \<and> sorted (map dj_due_at jobs) \<and> run = List.map_filter dj_task jobs)"
proof -
  obtain due where d: "take_due_jobs_locked_with_policy pending now scope allow = (pending', due)" "run = execute_jobs due"
    using assms by (auto simp: service_delayed_tasks_with_policy_def split: prod.splits)
  show ?thesis
    using take_due_policy [OF d(1)] d(2)
    by (intro conjI exI [of _ "sort_key dj_due_at due"]) (simp_all add: execute_jobs_def)
qed

definition job_at :: "nat \<Rightarrow> DelayedTaskPriority \<Rightarrow> 'task \<Rightarrow> 'task DelayedTaskJob" where
  "job_at due priority task = \<lparr>dj_due_at = due, dj_first_scheduled_at = 0, dj_priority = priority,
     dj_coalesce_key = None, dj_task = Some task\<rparr>"

theorem service_exact_witness:
  "mset (fst (service_delayed_tasks_with_policy AllEligible False 10
     [job_at 5 BestEffort (1 :: nat), job_at 7 CriticalTask 2, job_at 12 CriticalTask 3]))
   = {# job_at 5 BestEffort 1, job_at 12 CriticalTask 3 #}"
proof -
  obtain pending' run where r: "service_delayed_tasks_with_policy AllEligible False 10
     [job_at 5 BestEffort (1 :: nat), job_at 7 CriticalTask 2, job_at 12 CriticalTask 3] = (pending', run)"
    by fastforce
  show ?thesis using service_exact [OF r] r by (simp add: eligible_def job_at_def)
qed

section \<open>The announced wait is exact\<close>

lemma minimum_None: "minimum xs = None \<longleftrightarrow> xs = []"
  by (cases xs) (auto split: option.splits)

lemma minimum_Some: "minimum xs = Some m \<Longrightarrow> m \<in> set xs \<and> (\<forall>x \<in> set xs. m \<le> x)"
  by (induction xs arbitrary: m) (auto split: option.splits if_splits simp: minimum_None min_def)

text \<open>
  A thread that waits as long as the queue announces neither oversleeps nor wakes in vain. Before
  the announced time nothing becomes due that the policy admits; and when the announced wait is shorter
  than the longest one, the service at its end runs at least one task.
\<close>
theorem announced_wait_exact:
  assumes "\<forall>job \<in> set pending. dj_task job \<noteq> None"
    and "wait = next_delayed_task_wait_with_policy max_wait allow now pending"
    and "wait < max_wait"
  shows "snd (service_delayed_tasks_with_policy AllEligible allow (now + wait) pending) \<noteq> []
    \<and> (\<forall>earlier. now \<le> earlier \<and> earlier < now + wait \<longrightarrow>
         snd (service_delayed_tasks_with_policy AllEligible allow earlier pending) = [])"
proof -
  let ?admitted = "\<lambda>job. allow \<or> dj_priority job = CriticalTask"
  let ?waits = "map (\<lambda>job. dj_due_at job - now) (filter ?admitted pending)"
  obtain m where m: "minimum ?waits = Some m" "wait = m"
    using assms(2,3) by (auto simp: next_delayed_task_wait_with_policy_def split: option.splits)
  have least: "wait \<le> dj_due_at job - now" if "job \<in> set pending" "?admitted job" for job
    using minimum_Some [OF m(1)] m(2) that by auto
  obtain job where job: "job \<in> set pending" "?admitted job" "wait = dj_due_at job - now"
    using minimum_Some [OF m(1)] m(2) by auto
  then have el: "eligible AllEligible allow (now + wait) job" by (auto simp: eligible_def)
  show ?thesis
  proof (intro conjI allI impI)
    obtain pending' run where s: "service_delayed_tasks_with_policy AllEligible allow (now + wait) pending = (pending', run)"
      by fastforce
    from s obtain due where d:
      "take_due_jobs_locked_with_policy pending (now + wait) AllEligible allow = (pending', due)" "run = execute_jobs due"
      by (auto simp: service_delayed_tasks_with_policy_def split: prod.splits)
    have "job \<in># filter_mset (eligible AllEligible allow (now + wait)) (mset pending)" using job el by simp
    then have "job \<in> set due" using take_due_policy(2) [OF d(1)] by (metis set_mset_mset)
    moreover have "dj_task job \<noteq> None" using assms(1) job(1) by blast
    ultimately have "List.map_filter dj_task (sort_key dj_due_at due) \<noteq> []"
      by (force simp: List.map_filter_def filter_empty_conv)
    then show "snd (service_delayed_tasks_with_policy AllEligible allow (now + wait) pending) \<noteq> []"
      using s d(2) by (simp add: execute_jobs_def)
  next
    fix earlier assume e: "now \<le> earlier \<and> earlier < now + wait"
    obtain pending' due where d: "take_due_jobs_locked_with_policy pending earlier AllEligible allow = (pending', due)"
      by fastforce
    have "\<not> eligible AllEligible allow earlier j" if "j \<in> set pending" for j
      using least [OF that] e by (auto simp: eligible_def)
    then have "mset due = {#}" using take_due_policy(2) [OF d] by (auto simp: filter_mset_eq_conv)
    then show "snd (service_delayed_tasks_with_policy AllEligible allow earlier pending) = []"
      using d by (simp add: service_delayed_tasks_with_policy_def execute_jobs_def List.map_filter_def)
  qed
qed

theorem announced_wait_exact_witness:
  "snd (service_delayed_tasks_with_policy AllEligible True (3 + 2) [job_at 9 BestEffort (1 :: nat), job_at 5 CriticalTask 2]) \<noteq> []"
proof -
  have "2 = next_delayed_task_wait_with_policy 60 True 3 [job_at 9 BestEffort (1 :: nat), job_at 5 CriticalTask 2]"
    by (simp add: next_delayed_task_wait_with_policy_def job_at_def)
  from announced_wait_exact [OF _ this] show ?thesis by (simp add: job_at_def)
qed

section \<open>Capacities\<close>

definition critical_jobs :: "'task DelayedTaskJob list \<Rightarrow> 'task DelayedTaskJob list" where
  "critical_jobs pending = filter (\<lambda>job. dj_priority job = CriticalTask) pending"

definition keys :: "'task DelayedTaskJob list \<Rightarrow> string list" where
  "keys pending = List.map_filter dj_coalesce_key pending"

lemma counts: "length pending = best_effort_count pending + length (critical_jobs pending)"
proof (induction pending)
  case (Cons j js)
  then show ?case by (cases "dj_priority j") (simp_all add: best_effort_count_def critical_jobs_def)
qed (simp add: best_effort_count_def critical_jobs_def)

text \<open>
  The invariant of the queue as the public operations use it, where only best-effort jobs carry a key.
\<close>

definition queue_ok :: "target \<Rightarrow> 'task DelayedTaskJob list \<Rightarrow> bool" where
  "queue_ok t pending \<longleftrightarrow>
     length pending \<le> DELAYED_TASK_TOTAL_MAX t \<and> best_effort_count pending \<le> DELAYED_TASK_BEST_EFFORT_MAX t
     \<and> distinct (keys pending)
     \<and> (\<forall>job \<in> set pending. dj_task job \<noteq> None \<and> (dj_coalesce_key job \<noteq> None \<longrightarrow> dj_priority job = BestEffort))"

lemma best_effort_mset: "best_effort_count pending = size (filter_mset (\<lambda>job. dj_priority job = BestEffort) (mset pending))"
  by (simp add: best_effort_count_def flip: mset_filter)

lemma map_filter_mset:
  "mset (List.map_filter f xs) = image_mset the (filter_mset (\<lambda>k. k \<noteq> None) (image_mset f (mset xs)))"
  by (induction xs) (auto simp: List.map_filter_def)

lemma keys_mset: "mset (keys pending) = image_mset the (filter_mset (\<lambda>k. k \<noteq> None) (image_mset dj_coalesce_key (mset pending)))"
  by (simp only: keys_def map_filter_mset)

lemma distinct_submset: "mset xs \<subseteq># mset ys \<Longrightarrow> distinct ys \<Longrightarrow> distinct xs"
proof -
  assume sub: "mset xs \<subseteq># mset ys" and d: "distinct ys"
  have "count (mset xs) a = (if a \<in> set xs then 1 else 0)" for a
  proof -
    have "count (mset xs) a \<le> 1"
      using mset_subset_eq_count [OF sub, of a] d by (metis distinct_count_atmost_1 le_trans le_refl zero_le_one)
    then show ?thesis by (metis One_nat_def count_mset_0_iff le_Suc_eq le_zero_eq)
  qed
  then show ?thesis by (simp add: distinct_count_atmost_1)
qed

lemma queue_ok_submset:
  assumes "queue_ok t pending" "mset rest \<subseteq># mset pending"
  shows "queue_ok t rest"
proof -
  have "mset (keys rest) \<subseteq># mset (keys pending)"
    unfolding keys_mset using assms(2) by (intro image_mset_subseteq_mono multiset_filter_mono)
  then have "distinct (keys rest)"
    using assms(1) distinct_submset [of "keys rest"] by (auto simp: queue_ok_def)
  moreover have "best_effort_count rest \<le> best_effort_count pending"
    unfolding best_effort_mset using assms(2) by (intro size_mset_mono multiset_filter_mono)
  moreover have "length rest \<le> length pending" using size_mset_mono [OF assms(2)] by simp
  moreover have "set rest \<subseteq> set pending" using set_mset_mono [OF assms(2)] by simp
  ultimately show ?thesis using assms(1) by (auto simp: queue_ok_def)
qed

lemma min_index_None: "min_index xs = None \<longleftrightarrow> xs = []"
  by (cases xs) (auto split: option.splits)

lemma min_index_Some:
  "min_index xs = Some y \<Longrightarrow> y \<in> set xs \<and> (\<forall>x \<in> set xs. dj_due_at (snd y) \<le> dj_due_at (snd x))"
proof (induction xs arbitrary: y)
  case (Cons x xs)
  show ?case
  proof (cases "min_index xs")
    case None
    then show ?thesis using Cons(2) min_index_None [of xs] by auto
  next
    case (Some z)
    then show ?thesis using Cons(1) [OF Some] Cons(2) by (cases "dj_due_at (snd x) \<le> dj_due_at (snd z)") auto
  qed
qed simp

lemma oldest_Some:
  assumes "oldest_best_effort_index pending = Some i"
  shows "i < length pending" "dj_priority (pending ! i) = BestEffort"
    and "\<forall>job \<in> set pending. dj_priority job = BestEffort \<longrightarrow> dj_due_at (pending ! i) \<le> dj_due_at job"
proof -
  let ?be = "filter (\<lambda>(_, job). dj_priority job = BestEffort) (enumerate 0 pending)"
  obtain job where m: "min_index ?be = Some (i, job)"
    using assms by (auto simp: oldest_best_effort_index_def)
  note least = min_index_Some [OF m]
  have mem: "(k, j) \<in> set (enumerate 0 pending) \<longleftrightarrow> k < length pending \<and> pending ! k = j" for k j
    by (auto simp: in_set_enumerate_eq)
  show "i < length pending" "dj_priority (pending ! i) = BestEffort" using least mem by auto
  show "\<forall>job \<in> set pending. dj_priority job = BestEffort \<longrightarrow> dj_due_at (pending ! i) \<le> dj_due_at job"
    using least mem by (fastforce simp: in_set_conv_nth)
qed

lemma oldest_None: "oldest_best_effort_index pending = None \<longleftrightarrow> best_effort_count pending = 0"
proof -
  have "filter (\<lambda>(_, job). dj_priority job = BestEffort) (enumerate n pending) = []
      \<longleftrightarrow> filter (\<lambda>job. dj_priority job = BestEffort) pending = []" for n
    by (induction pending arbitrary: n) auto
  then show ?thesis by (simp add: oldest_best_effort_index_def min_index_None best_effort_count_def)
qed

lemma totals: "DELAYED_TASK_BEST_EFFORT_MAX t < DELAYED_TASK_TOTAL_MAX t"
  by (cases t) (simp_all add: DELAYED_TASK_TOTAL_MAX_def)

text \<open>A job without a key, or with a new one, is appended when the capacities admit it.\<close>

lemma schedule_new:
  assumes "key = None \<or> the key \<notin> set (keys pending)"
  shows "schedule_delayed_task_with_priority_key_and_bound t horizon now due priority key max_defer task pending =
    (let job = \<lparr>dj_due_at = due, dj_first_scheduled_at = now, dj_priority = priority,
                dj_coalesce_key = key, dj_task = Some task\<rparr>
     in case priority of
        BestEffort \<Rightarrow> if best_effort_count pending < DELAYED_TASK_BEST_EFFORT_MAX t
              \<and> length pending < DELAYED_TASK_TOTAL_MAX t
            then pushed job pending else \<lparr>so_pending = pending, so_notified = False, so_result = Inl task\<rparr>
      | CriticalTask \<Rightarrow> if length pending < DELAYED_TASK_TOTAL_MAX t then pushed job pending
            else (case oldest_best_effort_index pending of
                    Some i \<Rightarrow> if length pending - 1 < DELAYED_TASK_TOTAL_MAX t then pushed job (swap_remove i pending)
                       else \<lparr>so_pending = swap_remove i pending, so_notified = False, so_result = Inl task\<rparr>
                  | None \<Rightarrow> \<lparr>so_pending = pending, so_notified = False, so_result = Inl task\<rparr>))"
proof -
  have "(case key of None \<Rightarrow> None | Some k \<Rightarrow> position (\<lambda>job. dj_coalesce_key job = Some k) pending) = None"
    using assms by (cases key) (auto simp: position_None keys_def List.map_filter_def image_iff)
  then show ?thesis
    by (simp add: schedule_delayed_task_with_priority_key_and_bound_def Let_def split: DelayedTaskPriority.split option.split)
qed

lemma schedule_existing:
  assumes "position (\<lambda>job. dj_coalesce_key job = Some k) pending = Some i"
  shows "schedule_delayed_task_with_priority_key_and_bound t horizon now due priority (Some k) max_defer task pending =
    \<lparr>so_pending = pending[i := (pending ! i)\<lparr>dj_due_at := bounded_due horizon due max_defer (dj_first_scheduled_at (pending ! i)),
       dj_priority := priority, dj_task := Some task\<rparr>],
     so_notified = (bounded_due horizon due max_defer (dj_first_scheduled_at (pending ! i)) < dj_due_at (pending ! i)),
     so_result = Inr ()\<rparr>"
  using assms by (simp add: schedule_delayed_task_with_priority_key_and_bound_def Let_def)

lemma queue_ok_push:
  assumes "queue_ok t pending" "length pending < DELAYED_TASK_TOTAL_MAX t"
    and "dj_priority job = BestEffort \<Longrightarrow> best_effort_count pending < DELAYED_TASK_BEST_EFFORT_MAX t"
    and "dj_task job \<noteq> None" "dj_coalesce_key job \<noteq> None \<Longrightarrow> dj_priority job = BestEffort"
    and "dj_coalesce_key job = None \<or> the (dj_coalesce_key job) \<notin> set (keys pending)"
  shows "queue_ok t (pending @ [job])"
  using assms by (auto simp: queue_ok_def best_effort_count_def keys_def List.map_filter_def)

lemma swap_remove_ok: "queue_ok t pending \<Longrightarrow> i < length pending \<Longrightarrow> queue_ok t (swap_remove i pending)"
proof -
  assume ok: "queue_ok t pending" and i: "i < length pending"
  have "mset (swap_remove i pending) \<subseteq># mset pending"
    unfolding mset_swap_remove [OF i] by simp
  then show ?thesis by (rule queue_ok_submset [OF ok])
qed

lemma queue_ok_reschedule:
  assumes "queue_ok t pending" "i < length pending" "dj_priority (pending ! i) = BestEffort"
  shows "queue_ok t (pending[i := (pending ! i)\<lparr>dj_due_at := due, dj_priority := BestEffort, dj_task := Some task\<rparr>])"
proof -
  let ?new = "(pending ! i)\<lparr>dj_due_at := due, dj_priority := BestEffort, dj_task := Some task\<rparr>"
  have upd: "map f (pending[i := ?new]) = map f pending" if "f ?new = f (pending ! i)" for f
    using that assms(2) by (metis list_update_id map_update)
  have k: "keys xs = map the (filter (\<lambda>k. k \<noteq> None) (map dj_coalesce_key xs))" for xs :: "'a DelayedTaskJob list"
    by (induction xs) (auto simp: keys_def List.map_filter_def)
  have ky: "keys (pending[i := ?new]) = keys pending" unfolding k by (simp add: upd)
  have b: "best_effort_count xs = length (filter (\<lambda>p. p = BestEffort) (map dj_priority xs))" for xs :: "'a DelayedTaskJob list"
    by (induction xs) (auto simp: best_effort_count_def)
  have "map dj_priority (pending[i := ?new]) = map dj_priority pending" by (rule upd) (simp add: assms(3))
  then have "best_effort_count (pending[i := ?new]) = best_effort_count pending" by (simp only: b)
  moreover have "\<forall>job \<in> set (pending[i := ?new]). dj_task job \<noteq> None \<and> (dj_coalesce_key job \<noteq> None \<longrightarrow> dj_priority job = BestEffort)"
    using assms(1) set_update_subset_insert [of pending i ?new] by (auto simp: queue_ok_def)
  ultimately show ?thesis using assms(1) ky by (simp add: queue_ok_def)
qed

lemma schedule_best_effort_ok:
  assumes "queue_ok t pending"
  shows "queue_ok t (so_pending (schedule_delayed_task_with_priority_key_and_bound t horizon now due BestEffort key max_defer task pending))"
proof (cases "key = None \<or> the key \<notin> set (keys pending)")
  case True
  then show ?thesis
    using assms queue_ok_push [OF assms] by (simp add: schedule_new [OF True] pushed_def Let_def)
next
  case False
  then obtain k where k: "key = Some k" "k \<in> set (keys pending)" by auto
  then have "position (\<lambda>job. dj_coalesce_key job = Some k) pending \<noteq> None"
    by (auto simp: position_None keys_def List.map_filter_def)
  then obtain i where i: "position (\<lambda>job. dj_coalesce_key job = Some k) pending = Some i" by blast
  note p = position_Some [OF i]
  then have "dj_priority (pending ! i) = BestEffort" using assms by (auto simp: queue_ok_def)
  then show ?thesis using queue_ok_reschedule [OF assms] p by (simp add: k(1) schedule_existing [OF i])
qed

lemma schedule_critical_ok:
  assumes "queue_ok t pending"
  shows "queue_ok t (so_pending (schedule_critical_delayed_task t horizon now due task pending))"
proof -
  let ?job = "\<lparr>dj_due_at = due, dj_first_scheduled_at = now, dj_priority = CriticalTask,
                dj_coalesce_key = None, dj_task = Some task\<rparr>"
  have push: "queue_ok t (xs @ [?job])" if "queue_ok t xs" "length xs < DELAYED_TASK_TOTAL_MAX t" for xs
    using queue_ok_push [OF that, of ?job] by simp
  show ?thesis
    using assms push oldest_Some(1) swap_remove_ok [OF assms]
    by (auto simp: schedule_critical_delayed_task_def schedule_delayed_task_with_priority_def
        schedule_delayed_task_with_priority_and_key_def schedule_new pushed_def Let_def split: option.split)
qed

text \<open>The queue as the public operations reach it.\<close>

inductive delayed_reachable :: "target \<Rightarrow> 'task DelayedTaskJob list \<Rightarrow> bool" for t where
  dr_start: "delayed_reachable t []"
| dr_best_effort: "delayed_reachable t pending \<Longrightarrow>
     delayed_reachable t (so_pending (schedule_delayed_task t horizon now due task pending))"
| dr_keyed: "delayed_reachable t pending \<Longrightarrow>
     delayed_reachable t (so_pending (schedule_delayed_task_with_priority_key_and_bound t horizon now due
       BestEffort (Some key) max_defer task pending))"
| dr_critical: "delayed_reachable t pending \<Longrightarrow>
     delayed_reachable t (so_pending (schedule_critical_delayed_task t horizon now due task pending))"
| dr_service: "delayed_reachable t pending \<Longrightarrow>
     delayed_reachable t (fst (service_delayed_tasks_with_policy scope allow now pending))"

lemma delayed_reachable_ok: "delayed_reachable t pending \<Longrightarrow> queue_ok t pending"
proof (induction rule: delayed_reachable.induct)
  case (dr_best_effort pending horizon now due task)
  then show ?case
    using schedule_best_effort_ok
    by (simp add: schedule_delayed_task_def schedule_delayed_task_with_priority_def
        schedule_delayed_task_with_priority_and_key_def)
next
  case (dr_service pending scope allow now)
  obtain rest due where d: "take_due_jobs_locked_with_policy pending now scope allow = (rest, due)" by fastforce
  have "mset rest \<subseteq># mset pending" using take_due_policy(1) [OF d] by simp
  then show ?case
    using queue_ok_submset [OF dr_service.IH] d by (simp add: service_delayed_tasks_with_policy_def)
next
  case dr_start
  show ?case by (simp add: queue_ok_def best_effort_count_def keys_def List.map_filter_def)
qed (blast intro: schedule_best_effort_ok schedule_critical_ok)+

text \<open>
  C28: the capacities hold and critical work has its reserve. In every reachable queue at most the
  total number of jobs wait, at most the best-effort share of them is best effort, and no two share a
  key. A critical task is refused exactly when critical tasks alone fill the queue; accepting one keeps
  every critical job, and costs a best-effort job only in a full queue: then the one due soonest.
\<close>
theorem critical_reserve:
  assumes "delayed_reachable t pending" "outcome = schedule_critical_delayed_task t horizon now due task pending"
  shows "length pending \<le> DELAYED_TASK_TOTAL_MAX t
    \<and> best_effort_count pending \<le> DELAYED_TASK_BEST_EFFORT_MAX t \<and> distinct (keys pending)
    \<and> (so_result outcome = Inr () \<longleftrightarrow> length (critical_jobs pending) < DELAYED_TASK_TOTAL_MAX t)
    \<and> (so_result outcome \<noteq> Inr () \<longrightarrow> so_result outcome = Inl task \<and> so_pending outcome = pending)
    \<and> (so_result outcome = Inr () \<longrightarrow>
        (\<exists>dropped. mset pending + {# \<lparr>dj_due_at = due, dj_first_scheduled_at = now,
                dj_priority = CriticalTask, dj_coalesce_key = None, dj_task = Some task\<rparr> #}
              = mset (so_pending outcome) + mset dropped \<and> length dropped \<le> 1
             \<and> (dropped \<noteq> [] \<longrightarrow>
                  length pending = DELAYED_TASK_TOTAL_MAX t \<and> dj_priority (hd dropped) = BestEffort
                  \<and> (\<forall>job \<in> set pending. dj_priority job = BestEffort \<longrightarrow> dj_due_at (hd dropped) \<le> dj_due_at job))))"
proof -
  have ok: "queue_ok t pending" using assms(1) by (rule delayed_reachable_ok)
  let ?job = "\<lparr>dj_due_at = due, dj_first_scheduled_at = now, dj_priority = CriticalTask,
                dj_coalesce_key = None, dj_task = Some task\<rparr>"
  have o: "outcome = (if length pending < DELAYED_TASK_TOTAL_MAX t then pushed ?job pending
            else (case oldest_best_effort_index pending of
                    Some i \<Rightarrow> if length pending - 1 < DELAYED_TASK_TOTAL_MAX t then pushed ?job (swap_remove i pending)
                       else \<lparr>so_pending = swap_remove i pending, so_notified = False, so_result = Inl task\<rparr>
                  | None \<Rightarrow> \<lparr>so_pending = pending, so_notified = False, so_result = Inl task\<rparr>))"
    by (simp add: assms(2) schedule_critical_delayed_task_def schedule_delayed_task_with_priority_def
        schedule_delayed_task_with_priority_and_key_def schedule_new Let_def)
  have bounds: "length pending \<le> DELAYED_TASK_TOTAL_MAX t" "best_effort_count pending \<le> DELAYED_TASK_BEST_EFFORT_MAX t"
    "distinct (keys pending)" using ok by (simp_all add: queue_ok_def)
  consider (room) "length pending < DELAYED_TASK_TOTAL_MAX t"
    | (evict) i where "length pending = DELAYED_TASK_TOTAL_MAX t" "oldest_best_effort_index pending = Some i"
    | (full) "length pending = DELAYED_TASK_TOTAL_MAX t" "oldest_best_effort_index pending = None"
    using bounds(1) by (cases "oldest_best_effort_index pending") (auto simp: le_less)
  then show ?thesis
  proof cases
    case room
    then have "length (critical_jobs pending) < DELAYED_TASK_TOTAL_MAX t" using counts [of pending] by linarith
    then show ?thesis using room bounds by (auto simp: o pushed_def intro: exI [of _ "[]"])
  next
    case evict
    note e = oldest_Some [OF evict(2)]
    have "best_effort_count pending \<noteq> 0" using evict(2) oldest_None [of pending] by auto
    then have "length (critical_jobs pending) < DELAYED_TASK_TOTAL_MAX t"
      using counts [of pending] evict(1) by linarith
    moreover have "length pending - 1 < DELAYED_TASK_TOTAL_MAX t" using e(1) evict(1) by linarith
    moreover have "\<exists>dropped. mset pending + {#?job#} = mset (swap_remove i pending @ [?job]) + mset dropped
        \<and> length dropped \<le> 1 \<and> (dropped \<noteq> [] \<longrightarrow> dj_priority (hd dropped) = BestEffort
            \<and> (\<forall>job \<in> set pending. dj_priority job = BestEffort \<longrightarrow> dj_due_at (hd dropped) \<le> dj_due_at job))"
      using e mset_swap_remove [OF e(1)] by (intro exI [of _ "[pending ! i]"]) simp
    ultimately show ?thesis using evict bounds by (auto simp: o pushed_def)
  next
    case full
    then have "best_effort_count pending = 0" using oldest_None by blast
    then have "length (critical_jobs pending) = DELAYED_TASK_TOTAL_MAX t" using counts [of pending] full(1) by simp
    then show ?thesis using full bounds by (simp add: o)
  qed
qed

theorem critical_reserve_witness:
  "so_result (schedule_critical_delayed_task Esp 1000 5 9 (2 :: nat)
     (so_pending (schedule_delayed_task Esp 1000 1 7 1 []))) = Inr ()"
proof -
  have r: "delayed_reachable Esp (so_pending (schedule_delayed_task Esp 1000 1 7 (1 :: nat) []))"
    by (intro dr_best_effort dr_start)
  have "length (critical_jobs (so_pending (schedule_delayed_task Esp 1000 1 7 (1 :: nat) []))) < DELAYED_TASK_TOTAL_MAX Esp"
    by (simp add: critical_jobs_def schedule_delayed_task_def schedule_delayed_task_with_priority_def
        schedule_delayed_task_with_priority_and_key_def schedule_new pushed_def Let_def best_effort_count_def
        DELAYED_TASK_TOTAL_MAX_def)
  then show ?thesis using critical_reserve [OF r refl, of 1000 5 9 2] by blast
qed

section \<open>Coalescing\<close>

text \<open>Scheduling under a waiting key replaces the task in place and never defers it past its bound.\<close>

lemma coalesced_in_place:
  assumes "position (\<lambda>job. dj_coalesce_key job = Some key) pending = Some i"
    and "outcome = schedule_bounded_keyed_system_inbound_msg t horizon now due msg d key m pending"
  shows "so_result outcome = Inr () \<and> length (so_pending outcome) = length pending
    \<and> (\<forall>j. j \<noteq> i \<longrightarrow> so_pending outcome ! j = pending ! j)
    \<and> dj_first_scheduled_at (so_pending outcome ! i) = dj_first_scheduled_at (pending ! i)
    \<and> dj_due_at (so_pending outcome ! i) \<le> due
    \<and> (dj_first_scheduled_at (pending ! i) + m \<le> horizon \<longrightarrow>
         dj_due_at (so_pending outcome ! i) \<le> dj_first_scheduled_at (pending ! i) + m)
    \<and> map_option it_msg (dj_task (so_pending outcome ! i)) = Some msg"
  using position_Some [OF assms(1)]
  by (simp add: assms(2) schedule_bounded_keyed_system_inbound_msg_def schedule_existing [OF assms(1)] bounded_due_def)

section \<open>A service loses no system message\<close>

definition messages :: "'json inbound_task DelayedTaskJob list \<Rightarrow> 'json PcMsg multiset" where
  "messages pending = mset (map it_msg (List.map_filter dj_task pending))"

definition inbound_job :: "'json inbound_task DelayedTaskJob \<Rightarrow> bool" where
  "inbound_job job \<longleftrightarrow> dj_priority job = BestEffort
     \<and> (\<exists>task. dj_task job = Some task \<and> dj_coalesce_key job = it_coalesce_key task)"

definition receiver_alive :: "('a, 'd) tracked \<Rightarrow> bool" where
  "receiver_alive tq \<longleftrightarrow> sc_receiver (tq_inner tq)"

text \<open>The room that the remaining tasks of a service need in the queue they were taken from.\<close>

definition room_for :: "target \<Rightarrow> 'json inbound_task list \<Rightarrow> 'json inbound_task DelayedTaskJob list \<Rightarrow> bool" where
  "room_for t tasks pending \<longleftrightarrow>
     length pending + length tasks \<le> DELAYED_TASK_TOTAL_MAX t
     \<and> best_effort_count pending + length tasks \<le> DELAYED_TASK_BEST_EFFORT_MAX t
     \<and> distinct (keys pending @ List.map_filter it_coalesce_key tasks)"

lemma try_send_alive:
  assumes "receiver_alive tq"
  shows "tracked_try_send x tq = (tq', Inr ()) \<Longrightarrow> queued tq' = queued tq @ [x] \<and> receiver_alive tq'"
    and "tracked_try_send x tq = (tq', Inl e) \<Longrightarrow> tq' = tq \<and> e = SendFull x"
  using assms by (auto simp: tracked_try_send_def channel_try_send_def queued_def receiver_alive_def split: if_splits)

lemma run_inbound_task_conserves:
  assumes "room_for t (task # tasks) pending" "receiver_alive tq"
    and "run_inbound_task t horizon now task (pending, tq) = (pending', tq')"
  shows "messages pending' + mset (queued tq') = messages pending + mset (queued tq) + {# it_msg task #}"
    and "room_for t tasks pending'" "receiver_alive tq'"
proof -
  consider (sent) "tracked_try_send (it_msg task) tq = (tq', Inr ())" "pending' = pending"
    | (full) "tracked_try_send (it_msg task) tq = (tq, Inl (SendFull (it_msg task)))" "tq' = tq"
        "pending' = so_pending (schedule_inbound t horizon now (now + it_retry_delay task) task pending)"
  proof (cases "tracked_try_send (it_msg task) tq")
    case (Pair q result)
    show ?thesis
    proof (cases result)
      case (Inl e)
      then have "q = tq" "e = SendFull (it_msg task)" using try_send_alive(2) [OF assms(2)] Pair by blast+
      then show ?thesis using that(2) Pair Inl assms(3) by (simp add: run_inbound_task_def)
    next
      case (Inr u)
      then show ?thesis using that(1) Pair assms(3) by (simp add: run_inbound_task_def)
    qed
  qed
  then have "messages pending' + mset (queued tq') = messages pending + mset (queued tq) + {# it_msg task #}
    \<and> room_for t tasks pending' \<and> receiver_alive tq'"
  proof cases
    case sent
    then show ?thesis
      using try_send_alive(1) [OF assms(2) sent(1)] assms(1)
      by (cases "it_coalesce_key task") (auto simp: room_for_def List.map_filter_def)
  next
    case full
    let ?job = "\<lparr>dj_due_at = now + it_retry_delay task, dj_first_scheduled_at = now, dj_priority = BestEffort,
                 dj_coalesce_key = it_coalesce_key task, dj_task = Some task\<rparr>"
    have "it_coalesce_key task = None \<or> the (it_coalesce_key task) \<notin> set (keys pending)"
      using assms(1) by (cases "it_coalesce_key task") (auto simp: room_for_def List.map_filter_def)
    then have "pending' = pending @ [?job]"
      using assms(1) by (simp add: full(3) schedule_inbound_def schedule_new room_for_def pushed_def Let_def)
    then show ?thesis
      using full(2) assms(1,2)
      by (cases "it_coalesce_key task")
        (auto simp: room_for_def messages_def keys_def best_effort_count_def List.map_filter_def)
  qed
  then show "messages pending' + mset (queued tq') = messages pending + mset (queued tq) + {# it_msg task #}"
    "room_for t tasks pending'" "receiver_alive tq'" by blast+
qed

lemma run_tasks_conserve:
  "room_for t tasks pending \<Longrightarrow> receiver_alive tq \<Longrightarrow>
     fold (run_inbound_task t horizon now) tasks (pending, tq) = (pending', tq') \<Longrightarrow>
     messages pending' + mset (queued tq') = messages pending + mset (queued tq) + mset (map it_msg tasks)"
proof (induction tasks arbitrary: pending tq)
  case (Cons task tasks)
  obtain p q where r: "run_inbound_task t horizon now task (pending, tq) = (p, q)" by fastforce
  note c = run_inbound_task_conserves [OF Cons(2,3) r]
  show ?case using Cons(1) [OF c(2,3)] Cons(4) c(1) r by simp
qed simp

text \<open>
  A service loses no system message. While the receiver lives, every delayed system message is
  afterwards either in the system queue or still waiting in the delayed queue, also when the system
  queue is full: each executed task left a place in the queue that its retry takes. Only tasks that
  others schedule in between can take that place.
\<close>
theorem service_keeps_messages:
  assumes "queue_ok t pending" "\<forall>job \<in> set pending. inbound_job job" "receiver_alive tq"
    and "service_inbound t horizon now scope allow (pending, tq) = (pending', tq')"
  shows "messages pending' + mset (queued tq') = messages pending + mset (queued tq)"
proof -
  obtain rest due where d: "take_due_jobs_locked_with_policy pending now scope allow = (rest, due)" by fastforce
  note taken = take_due_policy [OF d]
  let ?tasks = "execute_jobs due"
  have split: "mset rest + mset due = mset pending" by (simp add: taken)
  then have set: "set rest \<union> set due = set pending" by (metis set_mset_mset set_mset_union)
  have inb: "\<forall>job \<in> set due. inbound_job job" and inr: "\<forall>job \<in> set rest. inbound_job job"
    using assms(2) set by blast+
  have tasks: "mset ?tasks = image_mset (the \<circ> dj_task) (mset due)"
  proof -
    have "\<forall>job \<in> set (sort_key dj_due_at due). dj_task job \<noteq> None"
      using assms(2) set by (auto simp: inbound_job_def)
    then have "List.map_filter dj_task (sort_key dj_due_at due) = map (the \<circ> dj_task) (sort_key dj_due_at due)"
      by (simp add: List.map_filter_def)
    then show ?thesis unfolding execute_jobs_def by (metis mset_map mset_sort)
  qed
  have msgs: "messages xs = image_mset (it_msg \<circ> (the \<circ> dj_task)) (mset xs)" if "\<forall>job \<in> set xs. inbound_job job" for xs
    using that by (induction xs) (auto simp: messages_def List.map_filter_def inbound_job_def)
  have best: "best_effort_count xs = length xs" if "\<forall>job \<in> set xs. inbound_job job" for xs :: "'a inbound_task DelayedTaskJob list"
    using that by (induction xs) (auto simp: best_effort_count_def inbound_job_def)
  have ks: "mset (List.map_filter it_coalesce_key ?tasks) = mset (keys due)"
  proof -
    have "mset (List.map_filter it_coalesce_key ?tasks)
        = image_mset the (filter_mset (\<lambda>k. k \<noteq> None) (image_mset it_coalesce_key (mset ?tasks)))"
      by (rule map_filter_mset)
    also have "image_mset it_coalesce_key (mset ?tasks) = image_mset dj_coalesce_key (mset due)"
      unfolding tasks image_mset.compositionality
      using inb by (intro image_mset_cong) (fastforce simp: inbound_job_def)
    finally show ?thesis by (simp add: keys_mset)
  qed
  have "mset (keys rest @ List.map_filter it_coalesce_key ?tasks) = mset (keys pending)"
    by (simp add: ks keys_mset flip: split)
  then have dist: "distinct (keys rest @ List.map_filter it_coalesce_key ?tasks)"
    using assms(1) by (metis queue_ok_def mset_eq_imp_distinct_iff)
  have size: "length ?tasks = length due" using arg_cong [OF tasks, of size] by simp
  have total: "length rest + length due = length pending" using arg_cong [OF split, of size] by simp
  have "best_effort_count rest + length due = best_effort_count pending"
    using best [of rest] best [of pending] assms(2) inr total by simp
  then have room: "room_for t ?tasks rest" using assms(1) dist size total by (simp add: room_for_def queue_ok_def)
  have "fold (run_inbound_task t horizon now) ?tasks (rest, tq) = (pending', tq')"
    using assms(4) d by (simp add: service_inbound_def service_delayed_tasks_with_policy_def)
  from run_tasks_conserve [OF room assms(3) this]
  have "messages pending' + mset (queued tq') = messages rest + mset (queued tq) + image_mset (it_msg \<circ> (the \<circ> dj_task)) (mset due)"
    using tasks by (simp add: image_mset.compositionality)
  also have "\<dots> = messages pending + mset (queued tq)"
    using msgs [OF inr] msgs [OF assms(2)] by (simp flip: split add: ac_simps) 
  finally show ?thesis .
qed

definition sample_msg :: "unit PcMsg" where
  "sample_msg = projr (pcmsg_new Esp 3 ''telegram'' ''chat-1'' ''ping'')"

theorem service_keeps_messages_witness:
  "messages (fst (service_inbound Esp 1000 9 AllEligible True
     (so_pending (schedule_system_inbound_msg Esp 1000 2 4 sample_msg 5 []),
      new_inbound_channel 0 :: (unit PcMsg, 32 word) tracked))) = {# sample_msg #}"
proof -
  let ?pending = "so_pending (schedule_system_inbound_msg Esp 1000 2 4 sample_msg 5 [])"
  let ?tq = "new_inbound_channel 0 :: (unit PcMsg, 32 word) tracked"
  let ?job = "\<lparr>dj_due_at = 4, dj_first_scheduled_at = 2, dj_priority = BestEffort, dj_coalesce_key = None,
    dj_task = Some \<lparr>it_msg = sample_msg, it_retry_delay = 5, it_coalesce_key = None, it_max_defer_from_first = None\<rparr>\<rparr>"
  have p: "?pending = [?job]"
    by (simp add: inbound_schedules(1) schedule_inbound_def schedule_new pushed_def
        best_effort_count_def DELAYED_TASK_TOTAL_MAX_def Let_def)
  have ok: "queue_ok Esp ?pending"
    by (simp add: p queue_ok_def best_effort_count_def keys_def List.map_filter_def DELAYED_TASK_TOTAL_MAX_def)
  have inb: "\<forall>job \<in> set ?pending. inbound_job job" by (simp add: p inbound_job_def)
  have alive: "receiver_alive ?tq" by (simp add: receiver_alive_def new_inbound_channel_def channel_new_def)
  obtain pending' tq' where r: "service_inbound Esp 1000 9 AllEligible True (?pending, ?tq) = (pending', tq')" by fastforce
  have "queued tq' = []"
    using r by (auto simp: p service_inbound_def service_delayed_tasks_with_policy_def
        take_due_jobs_locked_with_policy_def take_due_jobs_locked_def take_loop.simps swap_remove_def execute_jobs_def
        List.map_filter_def run_inbound_task_def tracked_try_send_def channel_try_send_def queued_def
        new_inbound_channel_def channel_new_def)
  moreover have "queued ?tq = []" by (simp add: queued_def new_inbound_channel_def channel_new_def)
  ultimately show ?thesis
    using service_keeps_messages [OF ok inb alive r] r by (simp add: p messages_def List.map_filter_def)
qed

end
