(* ===== verification/Plane.thy ===== *)
theory Plane
  imports Runtime_Mode Lease Network
begin

text \<open>
  The static tables of the runtime: the execution planes with their allowed modes, leases, threads and
  budgets (\<open>src/src/runtime/plane.rs\<close>), the stack budgets of the threads
  (\<open>src/src/util.rs\<close>, \<open>src/src/runtime/thread_util.rs\<close>), the placement of threads on cores,
  and the watchdog policy (\<open>src/src/platform/task_wdt.rs\<close>).
\<close>

section \<open>Plane profiles\<close>

(* runtime/plane.rs: enum PlaneId *)
datatype PlaneId =
    PlaneBootstrap | PlaneConfigRecovery | PlaneChannelWss | PlaneChannelOutbound | PlaneAgentMain
  | PlaneDisplay | PlaneVoice | PlaneStorageWriteBack | PlaneDiagnostic | PlaneMaintenance
  | PlanePlatformWifi | PlanePlatformAudio | PlaneRuntimeAux

(* runtime/plane.rs: enum PlaneResidency *)
datatype PlaneResidency = Steady | Lazy | Transient

(* runtime/plane.rs: enum PlaneStartupPhase *)
datatype PlaneStartupPhase = PhaseBoot | PhaseRuntime | PhaseOnDemand | PhaseRecovery

(* runtime/plane.rs: struct PlaneQueueBudget *)
record PlaneQueueBudget =
  qb_name :: string
  qb_capacity :: nat

(* runtime/thread_registry.rs: enum ThreadExecutionClass *)
datatype ThreadExecutionClass =
  ClassAgent | ClassChannel | ClassVoice | ClassConfig | ClassPlatform | ClassRuntime | ClassUi | ClassUnknown

(* runtime/thread_registry.rs: enum ThreadRiskClass *)
datatype ThreadRiskClass = LowRisk | MediumRisk | HighRisk | CriticalRisk

text \<open>The derived order of the risk classes is the order of their declaration.\<close>

fun risk_rank :: "ThreadRiskClass \<Rightarrow> nat" where
  "risk_rank LowRisk = 0"
| "risk_rank MediumRisk = 1"
| "risk_rank HighRisk = 2"
| "risk_rank CriticalRisk = 3"

instantiation ThreadRiskClass :: linorder
begin

definition less_eq_ThreadRiskClass :: "ThreadRiskClass \<Rightarrow> ThreadRiskClass \<Rightarrow> bool" where
  "a \<le> b \<longleftrightarrow> risk_rank a \<le> risk_rank b"

definition less_ThreadRiskClass :: "ThreadRiskClass \<Rightarrow> ThreadRiskClass \<Rightarrow> bool" where
  "a < b \<longleftrightarrow> risk_rank a < risk_rank b"

instance
proof
  fix a b :: ThreadRiskClass
  show "a \<le> b \<Longrightarrow> b \<le> a \<Longrightarrow> a = b"
    by (cases a; cases b) (simp_all add: less_eq_ThreadRiskClass_def)
qed (auto simp: less_eq_ThreadRiskClass_def less_ThreadRiskClass_def)

end

(* runtime/plane.rs: struct PlaneProfile *)
record PlaneProfile =
  pp_id :: PlaneId
  pp_owner :: string
  pp_startup_phase :: PlaneStartupPhase
  pp_residency :: PlaneResidency
  pp_allowed_modes :: "RuntimeMode list"
  pp_required_leases :: "LeaseKind list"
  pp_thread_names :: "string list"
  pp_queue_budget :: "PlaneQueueBudget option"
  pp_drain_timeout_secs :: "nat option"
  pp_execution_class :: ThreadExecutionClass
  pp_risk_class :: ThreadRiskClass
  pp_tls_capable :: bool
  pp_http_capable :: bool
  pp_wss_capable :: bool
  pp_mode_sensitive :: bool

(* runtime/plane.rs: struct PlaneRegistrySnapshot *)
record PlaneRegistrySnapshot =
  ps_profile_count :: nat
  ps_steady_count :: nat
  ps_lazy_count :: nat
  ps_transient_count :: nat
  ps_mode_sensitive_count :: nat
  ps_tls_capable_count :: nat
  ps_http_capable_count :: nat
  ps_wss_capable_count :: nat
  ps_queue_budget_count :: nat
  ps_lease_reference_count :: nat

(* runtime/plane.rs: const MODES_ALL *)
definition MODES_ALL :: "RuntimeMode list" where
  "MODES_ALL = [ModeBooting, ModePairing, ModeNormal, ModeConfigActive, ModeVoiceExclusive,
     ModeMaintenance, ModeUpgrade, ModeRecoverySafeMode]"

(* runtime/plane.rs: const MODES_NON_VOICE_NETWORK *)
definition MODES_NON_VOICE_NETWORK :: "RuntimeMode list" where
  "MODES_NON_VOICE_NETWORK = [ModeBooting, ModePairing, ModeNormal, ModeConfigActive, ModeMaintenance]"

(* runtime/plane.rs: const MODES_NORMAL_AND_MAINTENANCE *)
definition MODES_NORMAL_AND_MAINTENANCE :: "RuntimeMode list" where
  "MODES_NORMAL_AND_MAINTENANCE = [ModeNormal, ModeConfigActive, ModeMaintenance]"

(* runtime/plane.rs: const MODES_VOICE *)
definition MODES_VOICE :: "RuntimeMode list" where
  "MODES_VOICE = [ModeNormal, ModeVoiceExclusive]"

(* runtime/plane.rs: const MODES_BOOT_ONLY *)
definition MODES_BOOT_ONLY :: "RuntimeMode list" where
  "MODES_BOOT_ONLY = [ModeBooting]"

(* runtime/plane.rs: lines 120-123 STORAGE_WRITE_BACK_THREAD_NAMES *)
fun STORAGE_WRITE_BACK_THREAD_NAMES :: "target \<Rightarrow> string list" where
  "STORAGE_WRITE_BACK_THREAD_NAMES Esp = []"
| "STORAGE_WRITE_BACK_THREAD_NAMES Host = [''write_back'']"

(* runtime/plane.rs: const MODES_RECOVERY *)
definition MODES_RECOVERY :: "RuntimeMode list" where
  "MODES_RECOVERY = [ModeBooting, ModePairing, ModeNormal, ModeConfigActive, ModeRecoverySafeMode, ModeUpgrade]"

(* runtime/plane.rs: const MODES_DIAGNOSTIC *)
definition MODES_DIAGNOSTIC :: "RuntimeMode list" where
  "MODES_DIAGNOSTIC = [ModeNormal, ModeConfigActive, ModeMaintenance, ModeRecoverySafeMode]"

lemmas mode_sets = MODES_ALL_def MODES_NON_VOICE_NETWORK_def MODES_NORMAL_AND_MAINTENANCE_def
  MODES_VOICE_def MODES_BOOT_ONLY_def MODES_RECOVERY_def MODES_DIAGNOSTIC_def

(* constants.rs: lines 11-14 CHANNEL_SENDER_QUEUE_DEPTH *)
fun CHANNEL_SENDER_QUEUE_DEPTH :: "target \<Rightarrow> nat" where
  "CHANNEL_SENDER_QUEUE_DEPTH Esp = 8"
| "CHANNEL_SENDER_QUEUE_DEPTH Host = 32"

(* constants.rs: const VOICE_EVENT_QUEUE_CAPACITY *)
definition VOICE_EVENT_QUEUE_CAPACITY :: nat where
  "VOICE_EVENT_QUEUE_CAPACITY = 4"

(* runtime/write_back.rs: const WRITE_BACK_RUNTIME_DOMAIN_FLOOR *)
definition WRITE_BACK_RUNTIME_DOMAIN_FLOOR :: nat where
  "WRITE_BACK_RUNTIME_DOMAIN_FLOOR = 30"

(* runtime/write_back.rs: lines 63-66 WRITE_BACK_QUEUE_MAX *)
fun WRITE_BACK_QUEUE_MAX :: "target \<Rightarrow> nat" where
  "WRITE_BACK_QUEUE_MAX Esp = WRITE_BACK_RUNTIME_DOMAIN_FLOOR + 8"
| "WRITE_BACK_QUEUE_MAX Host = WRITE_BACK_RUNTIME_DOMAIN_FLOOR + 40"

(* runtime/write_back.rs: lines 68-75 WRITE_BACK_WORKER_STACK *)
definition WRITE_BACK_WORKER_STACK :: nat where
  "WRITE_BACK_WORKER_STACK = 24 * 1024"

(* runtime/plane.rs: lines 142-158 PLANE_PROFILES entry runtime_bootstrap *)
definition plane_runtime_bootstrap :: "target \<Rightarrow> PlaneProfile" where
  "plane_runtime_bootstrap t =
      \<lparr>pp_id = PlaneBootstrap, pp_owner = ''runtime_bootstrap'', pp_startup_phase = PhaseBoot,
       pp_residency = Transient, pp_allowed_modes = MODES_BOOT_ONLY,
       pp_required_leases = [],
       pp_thread_names = [''runtime_bootstrap'', ''startup_recovery''],
       pp_queue_budget = None,
       pp_drain_timeout_secs = Some 60, pp_execution_class = ClassRuntime, pp_risk_class = LowRisk,
       pp_tls_capable = False, pp_http_capable = False, pp_wss_capable = False, pp_mode_sensitive = True\<rparr>"

(* runtime/plane.rs: lines 159-175 PLANE_PROFILES entry config_plane *)
definition plane_config_plane :: "target \<Rightarrow> PlaneProfile" where
  "plane_config_plane t =
      \<lparr>pp_id = PlaneConfigRecovery, pp_owner = ''config_plane'', pp_startup_phase = PhaseRuntime,
       pp_residency = Steady, pp_allowed_modes = MODES_RECOVERY,
       pp_required_leases = [],
       pp_thread_names = [''config_plane_watch'', ''http_server''],
       pp_queue_budget = None,
       pp_drain_timeout_secs = Some 10, pp_execution_class = ClassConfig, pp_risk_class = LowRisk,
       pp_tls_capable = False, pp_http_capable = True, pp_wss_capable = False, pp_mode_sensitive = True\<rparr>"

(* runtime/plane.rs: lines 176-195 PLANE_PROFILES entry http_snapshot *)
definition plane_http_snapshot :: "target \<Rightarrow> PlaneProfile" where
  "plane_http_snapshot t =
      \<lparr>pp_id = PlaneDiagnostic, pp_owner = ''http_snapshot'', pp_startup_phase = PhaseOnDemand,
       pp_residency = Lazy, pp_allowed_modes = MODES_DIAGNOSTIC,
       pp_required_leases = [KSnapshotHttpWorker],
       pp_thread_names = [''http_snapshot_exec''],
       pp_queue_budget = Some \<lparr>qb_name = ''http_snapshot_exec'', qb_capacity = 2\<rparr>,
       pp_drain_timeout_secs = Some 5, pp_execution_class = ClassConfig, pp_risk_class = MediumRisk,
       pp_tls_capable = False, pp_http_capable = True, pp_wss_capable = False, pp_mode_sensitive = True\<rparr>"

(* runtime/plane.rs: lines 196-215 PLANE_PROFILES entry http_chat_history *)
definition plane_http_chat_history :: "target \<Rightarrow> PlaneProfile" where
  "plane_http_chat_history t =
      \<lparr>pp_id = PlaneDiagnostic, pp_owner = ''http_chat_history'', pp_startup_phase = PhaseOnDemand,
       pp_residency = Lazy, pp_allowed_modes = MODES_DIAGNOSTIC,
       pp_required_leases = [KChatHistoryHttpWorker],
       pp_thread_names = [''http_chat_history_exec''],
       pp_queue_budget = Some \<lparr>qb_name = ''http_chat_history_exec'', qb_capacity = 2\<rparr>,
       pp_drain_timeout_secs = Some 5, pp_execution_class = ClassConfig, pp_risk_class = MediumRisk,
       pp_tls_capable = False, pp_http_capable = True, pp_wss_capable = False, pp_mode_sensitive = True\<rparr>"

(* runtime/plane.rs: lines 216-235 PLANE_PROFILES entry http_config *)
definition plane_http_config :: "target \<Rightarrow> PlaneProfile" where
  "plane_http_config t =
      \<lparr>pp_id = PlaneConfigRecovery, pp_owner = ''http_config'', pp_startup_phase = PhaseOnDemand,
       pp_residency = Lazy, pp_allowed_modes = MODES_RECOVERY,
       pp_required_leases = [KConfigHttpWorker],
       pp_thread_names = [''http_config_exec''],
       pp_queue_budget = Some \<lparr>qb_name = ''http_config_exec'', qb_capacity = 2\<rparr>,
       pp_drain_timeout_secs = Some 10, pp_execution_class = ClassConfig, pp_risk_class = HighRisk,
       pp_tls_capable = True, pp_http_capable = True, pp_wss_capable = False, pp_mode_sensitive = True\<rparr>"

(* runtime/plane.rs: lines 236-255 PLANE_PROFILES entry http_diagnostic *)
definition plane_http_diagnostic :: "target \<Rightarrow> PlaneProfile" where
  "plane_http_diagnostic t =
      \<lparr>pp_id = PlaneDiagnostic, pp_owner = ''http_diagnostic'', pp_startup_phase = PhaseOnDemand,
       pp_residency = Lazy, pp_allowed_modes = MODES_DIAGNOSTIC,
       pp_required_leases = [KDiagnosticHttpWorker],
       pp_thread_names = [''http_diag_exec''],
       pp_queue_budget = Some \<lparr>qb_name = ''http_diag_exec'', qb_capacity = 2\<rparr>,
       pp_drain_timeout_secs = Some 8, pp_execution_class = ClassConfig, pp_risk_class = HighRisk,
       pp_tls_capable = True, pp_http_capable = True, pp_wss_capable = False, pp_mode_sensitive = True\<rparr>"

(* runtime/plane.rs: lines 256-272 PLANE_PROFILES entry external_wss *)
definition plane_external_wss :: "target \<Rightarrow> PlaneProfile" where
  "plane_external_wss t =
      \<lparr>pp_id = PlaneChannelWss, pp_owner = ''external_wss'', pp_startup_phase = PhaseRuntime,
       pp_residency = Steady, pp_allowed_modes = MODES_NON_VOICE_NETWORK,
       pp_required_leases = [KExternalWss, KTlsHandshake],
       pp_thread_names = [''qq_ws'', ''feishu_ws'', ''wecom_aibot'', ''dingtalk_stream''],
       pp_queue_budget = None,
       pp_drain_timeout_secs = Some 30, pp_execution_class = ClassChannel, pp_risk_class = CriticalRisk,
       pp_tls_capable = True, pp_http_capable = True, pp_wss_capable = True, pp_mode_sensitive = True\<rparr>"

(* runtime/plane.rs: lines 273-300 PLANE_PROFILES entry channel_outbound *)
definition plane_channel_outbound :: "target \<Rightarrow> PlaneProfile" where
  "plane_channel_outbound t =
      \<lparr>pp_id = PlaneChannelOutbound, pp_owner = ''channel_outbound'', pp_startup_phase = PhaseRuntime,
       pp_residency = Steady, pp_allowed_modes = MODES_NON_VOICE_NETWORK,
       pp_required_leases = [],
       pp_thread_names = [''qq_sender'', ''tg_sender'', ''fs_sender'', ''dt_sender'', ''wc_sender'', ''tg_poll'', ''os_outbound''],
       pp_queue_budget = Some \<lparr>qb_name = ''channel_outbound'', qb_capacity = CHANNEL_SENDER_QUEUE_DEPTH t\<rparr>,
       pp_drain_timeout_secs = Some 30, pp_execution_class = ClassChannel, pp_risk_class = HighRisk,
       pp_tls_capable = True, pp_http_capable = True, pp_wss_capable = False, pp_mode_sensitive = True\<rparr>"

(* runtime/plane.rs: lines 301-320 PLANE_PROFILES entry dispatch *)
definition plane_dispatch :: "target \<Rightarrow> PlaneProfile" where
  "plane_dispatch t =
      \<lparr>pp_id = PlaneChannelOutbound, pp_owner = ''dispatch'', pp_startup_phase = PhaseRuntime,
       pp_residency = Steady, pp_allowed_modes = MODES_NON_VOICE_NETWORK,
       pp_required_leases = [],
       pp_thread_names = [''dispatch''],
       pp_queue_budget = Some \<lparr>qb_name = ''runtime_outbound'', qb_capacity = DEFAULT_CAPACITY t\<rparr>,
       pp_drain_timeout_secs = Some 30, pp_execution_class = ClassRuntime, pp_risk_class = HighRisk,
       pp_tls_capable = False, pp_http_capable = False, pp_wss_capable = False, pp_mode_sensitive = True\<rparr>"

(* runtime/plane.rs: lines 321-340 PLANE_PROFILES entry agent_loop *)
definition plane_agent_loop :: "target \<Rightarrow> PlaneProfile" where
  "plane_agent_loop t =
      \<lparr>pp_id = PlaneAgentMain, pp_owner = ''agent_loop'', pp_startup_phase = PhaseRuntime,
       pp_residency = Steady, pp_allowed_modes = MODES_NORMAL_AND_MAINTENANCE,
       pp_required_leases = [KAgentHeavyTurn],
       pp_thread_names = [''agent_loop''],
       pp_queue_budget = Some \<lparr>qb_name = ''agent_inbound'', qb_capacity = DEFAULT_CAPACITY t\<rparr>,
       pp_drain_timeout_secs = Some 60, pp_execution_class = ClassAgent, pp_risk_class = CriticalRisk,
       pp_tls_capable = True, pp_http_capable = True, pp_wss_capable = False, pp_mode_sensitive = True\<rparr>"

(* runtime/plane.rs: lines 341-357 PLANE_PROFILES entry display *)
definition plane_display :: "target \<Rightarrow> PlaneProfile" where
  "plane_display t =
      \<lparr>pp_id = PlaneDisplay, pp_owner = ''display'', pp_startup_phase = PhaseRuntime,
       pp_residency = Steady, pp_allowed_modes = MODES_ALL,
       pp_required_leases = [KDisplay],
       pp_thread_names = [''display''],
       pp_queue_budget = None,
       pp_drain_timeout_secs = Some 5, pp_execution_class = ClassUi, pp_risk_class = LowRisk,
       pp_tls_capable = False, pp_http_capable = False, pp_wss_capable = False, pp_mode_sensitive = True\<rparr>"

(* runtime/plane.rs: lines 358-377 PLANE_PROFILES entry voice_session_control *)
definition plane_voice_session_control :: "target \<Rightarrow> PlaneProfile" where
  "plane_voice_session_control t =
      \<lparr>pp_id = PlaneVoice, pp_owner = ''voice_session_control'', pp_startup_phase = PhaseOnDemand,
       pp_residency = Lazy, pp_allowed_modes = MODES_ALL,
       pp_required_leases = [],
       pp_thread_names = [''voice_session''],
       pp_queue_budget = Some \<lparr>qb_name = ''voice_event'', qb_capacity = VOICE_EVENT_QUEUE_CAPACITY\<rparr>,
       pp_drain_timeout_secs = Some 15, pp_execution_class = ClassVoice, pp_risk_class = MediumRisk,
       pp_tls_capable = False, pp_http_capable = False, pp_wss_capable = False, pp_mode_sensitive = True\<rparr>"

(* runtime/plane.rs: lines 378-399 PLANE_PROFILES entry voice_session_worker *)
definition plane_voice_session_worker :: "target \<Rightarrow> PlaneProfile" where
  "plane_voice_session_worker t =
      \<lparr>pp_id = PlaneVoice, pp_owner = ''voice_session_worker'', pp_startup_phase = PhaseOnDemand,
       pp_residency = Lazy, pp_allowed_modes = MODES_VOICE,
       pp_required_leases = [KAudioInput, KAudioOutput, KVoiceExclusive, KTlsHandshake],
       pp_thread_names = [''voice_session_worker''],
       pp_queue_budget = None,
       pp_drain_timeout_secs = Some 15, pp_execution_class = ClassVoice, pp_risk_class = CriticalRisk,
       pp_tls_capable = True, pp_http_capable = True, pp_wss_capable = False, pp_mode_sensitive = True\<rparr>"

(* runtime/plane.rs: lines 400-420 PLANE_PROFILES entry voice_realtime *)
definition plane_voice_realtime :: "target \<Rightarrow> PlaneProfile" where
  "plane_voice_realtime t =
      \<lparr>pp_id = PlaneVoice, pp_owner = ''voice_realtime'', pp_startup_phase = PhaseOnDemand,
       pp_residency = Lazy, pp_allowed_modes = [ModeVoiceExclusive],
       pp_required_leases = [KAudioInput, KAudioOutput, KTlsHandshake],
       pp_thread_names = [''voice_realtime'', ''voice_realtime_connect''],
       pp_queue_budget = None,
       pp_drain_timeout_secs = Some 15, pp_execution_class = ClassVoice, pp_risk_class = CriticalRisk,
       pp_tls_capable = True, pp_http_capable = True, pp_wss_capable = True, pp_mode_sensitive = True\<rparr>"

(* runtime/plane.rs: lines 421-440 PLANE_PROFILES entry write_back *)
definition plane_write_back :: "target \<Rightarrow> PlaneProfile" where
  "plane_write_back t =
      \<lparr>pp_id = PlaneStorageWriteBack, pp_owner = ''write_back'', pp_startup_phase = PhaseOnDemand,
       pp_residency = Lazy, pp_allowed_modes = MODES_NORMAL_AND_MAINTENANCE,
       pp_required_leases = [KStorageSessionWrite],
       pp_thread_names = STORAGE_WRITE_BACK_THREAD_NAMES t,
       pp_queue_budget = Some \<lparr>qb_name = ''write_back'', qb_capacity = WRITE_BACK_QUEUE_MAX t\<rparr>,
       pp_drain_timeout_secs = Some 5, pp_execution_class = ClassRuntime, pp_risk_class = HighRisk,
       pp_tls_capable = False, pp_http_capable = False, pp_wss_capable = False, pp_mode_sensitive = True\<rparr>"

(* runtime/plane.rs: lines 441-457 PLANE_PROFILES entry wifi_worker *)
definition plane_wifi_worker :: "target \<Rightarrow> PlaneProfile" where
  "plane_wifi_worker t =
      \<lparr>pp_id = PlanePlatformWifi, pp_owner = ''wifi_worker'', pp_startup_phase = PhaseBoot,
       pp_residency = Steady, pp_allowed_modes = MODES_ALL,
       pp_required_leases = [],
       pp_thread_names = [''wifi_worker''],
       pp_queue_budget = None,
       pp_drain_timeout_secs = Some 15, pp_execution_class = ClassPlatform, pp_risk_class = HighRisk,
       pp_tls_capable = False, pp_http_capable = False, pp_wss_capable = False, pp_mode_sensitive = False\<rparr>"

(* runtime/plane.rs: lines 458-474 PLANE_PROFILES entry audio_io_worker *)
definition plane_audio_io_worker :: "target \<Rightarrow> PlaneProfile" where
  "plane_audio_io_worker t =
      \<lparr>pp_id = PlanePlatformAudio, pp_owner = ''audio_io_worker'', pp_startup_phase = PhaseRuntime,
       pp_residency = Steady, pp_allowed_modes = MODES_ALL,
       pp_required_leases = [],
       pp_thread_names = [''audio_io_worker''],
       pp_queue_budget = None,
       pp_drain_timeout_secs = Some 10, pp_execution_class = ClassPlatform, pp_risk_class = MediumRisk,
       pp_tls_capable = False, pp_http_capable = False, pp_wss_capable = False, pp_mode_sensitive = False\<rparr>"

(* runtime/plane.rs: lines 475-491 PLANE_PROFILES entry runtime_timers *)
definition plane_runtime_timers :: "target \<Rightarrow> PlaneProfile" where
  "plane_runtime_timers t =
      \<lparr>pp_id = PlaneMaintenance, pp_owner = ''runtime_timers'', pp_startup_phase = PhaseRuntime,
       pp_residency = Steady, pp_allowed_modes = MODES_ALL,
       pp_required_leases = [],
       pp_thread_names = [''bg_timer'', ''heartbeat'', ''cron'', ''remind''],
       pp_queue_budget = None,
       pp_drain_timeout_secs = Some 10, pp_execution_class = ClassRuntime, pp_risk_class = LowRisk,
       pp_tls_capable = False, pp_http_capable = False, pp_wss_capable = False, pp_mode_sensitive = False\<rparr>"

(* runtime/plane.rs: lines 492-508 PLANE_PROFILES entry runtime_aux *)
definition plane_runtime_aux :: "target \<Rightarrow> PlaneProfile" where
  "plane_runtime_aux t =
      \<lparr>pp_id = PlaneRuntimeAux, pp_owner = ''runtime_aux'', pp_startup_phase = PhaseRuntime,
       pp_residency = Transient, pp_allowed_modes = MODES_ALL,
       pp_required_leases = [],
       pp_thread_names = [''sntp'', ''cli_repl''],
       pp_queue_budget = None,
       pp_drain_timeout_secs = Some 5, pp_execution_class = ClassRuntime, pp_risk_class = LowRisk,
       pp_tls_capable = False, pp_http_capable = False, pp_wss_capable = False, pp_mode_sensitive = False\<rparr>"

(* runtime/plane.rs: fn profiles *)
definition plane_profiles :: "target \<Rightarrow> PlaneProfile list" where
  "plane_profiles t =
     [plane_runtime_bootstrap t, plane_config_plane t, plane_http_snapshot t,
      plane_http_chat_history t, plane_http_config t, plane_http_diagnostic t,
      plane_external_wss t, plane_channel_outbound t, plane_dispatch t,
      plane_agent_loop t, plane_display t, plane_voice_session_control t,
      plane_voice_session_worker t, plane_voice_realtime t, plane_write_back t,
      plane_wifi_worker t, plane_audio_io_worker t, plane_runtime_timers t,
      plane_runtime_aux t]"

lemmas plane_defs = plane_runtime_bootstrap_def plane_config_plane_def plane_http_snapshot_def plane_http_chat_history_def
  plane_http_config_def plane_http_diagnostic_def plane_external_wss_def plane_channel_outbound_def
  plane_dispatch_def plane_agent_loop_def plane_display_def plane_voice_session_control_def
  plane_voice_session_worker_def plane_voice_realtime_def plane_write_back_def plane_wifi_worker_def
  plane_audio_io_worker_def plane_runtime_timers_def plane_runtime_aux_def

(* runtime/plane.rs: fn profile_for_thread *)
definition profile_for_thread :: "target \<Rightarrow> string \<Rightarrow> PlaneProfile option" where
  "profile_for_thread t name = find (\<lambda>profile. List.member (pp_thread_names profile) name) (plane_profiles t)"

text \<open>The counting loop, one profile after the other.\<close>

fun count_profile :: "PlaneProfile \<Rightarrow> PlaneRegistrySnapshot \<Rightarrow> PlaneRegistrySnapshot" where
  "count_profile profile s =
     (let one = (\<lambda>b. if b then 1 else 0 :: nat)
      in s\<lparr>ps_steady_count := ps_steady_count s + one (pp_residency profile = Steady),
           ps_lazy_count := ps_lazy_count s + one (pp_residency profile = Lazy),
           ps_transient_count := ps_transient_count s + one (pp_residency profile = Transient),
           ps_mode_sensitive_count := ps_mode_sensitive_count s + one (pp_mode_sensitive profile),
           ps_tls_capable_count := ps_tls_capable_count s + one (pp_tls_capable profile),
           ps_http_capable_count := ps_http_capable_count s + one (pp_http_capable profile),
           ps_wss_capable_count := ps_wss_capable_count s + one (pp_wss_capable profile),
           ps_queue_budget_count := ps_queue_budget_count s + one (pp_queue_budget profile \<noteq> None),
           ps_lease_reference_count := ps_lease_reference_count s + length (pp_required_leases profile)\<rparr>)"

(* runtime/plane.rs: fn snapshot *)
definition plane_snapshot :: "target \<Rightarrow> PlaneRegistrySnapshot" where
  "plane_snapshot t =
     fold count_profile (plane_profiles t)
       \<lparr>ps_profile_count = length (plane_profiles t), ps_steady_count = 0, ps_lazy_count = 0,
        ps_transient_count = 0, ps_mode_sensitive_count = 0, ps_tls_capable_count = 0,
        ps_http_capable_count = 0, ps_wss_capable_count = 0, ps_queue_budget_count = 0,
        ps_lease_reference_count = 0\<rparr>"

section \<open>Stack budgets\<close>

(* util.rs: const LINUX_RUSTLS_THREAD_STACK *)
definition LINUX_RUSTLS_THREAD_STACK :: nat where
  "LINUX_RUSTLS_THREAD_STACK = 96 * 1024"

(* util.rs: lines 962-965 DEFAULT_GUARD_STACK_SIZE *)
fun DEFAULT_GUARD_STACK_SIZE :: "target \<Rightarrow> nat" where
  "DEFAULT_GUARD_STACK_SIZE Esp = 8192"
| "DEFAULT_GUARD_STACK_SIZE Host = LINUX_RUSTLS_THREAD_STACK"

(* util.rs: lines 969-972 STACK_ESP_RUNTIME_BOOT *)
fun STACK_ESP_RUNTIME_BOOT :: "target \<Rightarrow> nat" where
  "STACK_ESP_RUNTIME_BOOT Esp = 32 * 1024"
| "STACK_ESP_RUNTIME_BOOT Host = 32 * 1024"

(* util.rs: lines 980-983 STACK_CHANNEL_WS *)
fun STACK_CHANNEL_WS :: "target \<Rightarrow> nat" where
  "STACK_CHANNEL_WS Esp = 9 * 1024"
| "STACK_CHANNEL_WS Host = LINUX_RUSTLS_THREAD_STACK"

(* util.rs: lines 988-991 STACK_VOICE_REALTIME_CONNECT *)
fun STACK_VOICE_REALTIME_CONNECT :: "target \<Rightarrow> nat" where
  "STACK_VOICE_REALTIME_CONNECT Esp = 12 * 1024"
| "STACK_VOICE_REALTIME_CONNECT Host = LINUX_RUSTLS_THREAD_STACK"

(* util.rs: const ESP_AGENT_LOOP_STACK_BUDGET *)
definition ESP_AGENT_LOOP_STACK_BUDGET :: nat where
  "ESP_AGENT_LOOP_STACK_BUDGET = 48 * 1024"

(* util.rs: lines 1007-1010 STACK_AGENT_LOOP *)
fun STACK_AGENT_LOOP :: "target \<Rightarrow> nat" where
  "STACK_AGENT_LOOP Esp = ESP_AGENT_LOOP_STACK_BUDGET"
| "STACK_AGENT_LOOP Host = LINUX_RUSTLS_THREAD_STACK"

(* util.rs: lines 1014-1017 STACK_CHANNEL_SENDER *)
fun STACK_CHANNEL_SENDER :: "target \<Rightarrow> nat" where
  "STACK_CHANNEL_SENDER Esp = 8192"
| "STACK_CHANNEL_SENDER Host = LINUX_RUSTLS_THREAD_STACK"

(* util.rs: lines 1031-1034 STACK_OS_OUTBOUND *)
fun STACK_OS_OUTBOUND :: "target \<Rightarrow> nat" where
  "STACK_OS_OUTBOUND Esp = 20 * 1024"
| "STACK_OS_OUTBOUND Host = LINUX_RUSTLS_THREAD_STACK"

(* util.rs: const STACK_DISPATCH *)
definition STACK_DISPATCH :: nat where
  "STACK_DISPATCH = 6 * 1024"

(* util.rs: const STACK_DISPLAY *)
definition STACK_DISPLAY :: nat where
  "STACK_DISPLAY = 8 * 1024"

(* util.rs: const STACK_AUDIO_IO_STD_COMPAT *)
definition STACK_AUDIO_IO_STD_COMPAT :: nat where
  "STACK_AUDIO_IO_STD_COMPAT = 8 * 1024"

(* util.rs: lines 1053-1056 STACK_VOICE_CONTROL *)
fun STACK_VOICE_CONTROL :: "target \<Rightarrow> nat" where
  "STACK_VOICE_CONTROL Esp = 8 * 1024"
| "STACK_VOICE_CONTROL Host = 8192"

(* util.rs: lines 1059-1062 STACK_VOICE_SESSION *)
fun STACK_VOICE_SESSION :: "target \<Rightarrow> nat" where
  "STACK_VOICE_SESSION Esp = 16 * 1024"
| "STACK_VOICE_SESSION Host = LINUX_RUSTLS_THREAD_STACK"

(* util.rs: lines 1067-1070 STACK_VOICE_REALTIME *)
fun STACK_VOICE_REALTIME :: "target \<Rightarrow> nat" where
  "STACK_VOICE_REALTIME Esp = 16 * 1024"
| "STACK_VOICE_REALTIME Host = LINUX_RUSTLS_THREAD_STACK"

(* util.rs: const STACK_HTTP_SNAPSHOT_WORKER *)
definition STACK_HTTP_SNAPSHOT_WORKER :: nat where
  "STACK_HTTP_SNAPSHOT_WORKER = 24 * 1024"

(* util.rs: const STACK_HTTP_CHAT_HISTORY_WORKER *)
definition STACK_HTTP_CHAT_HISTORY_WORKER :: nat where
  "STACK_HTTP_CHAT_HISTORY_WORKER = 31 * 1024"

(* util.rs: lines 1095-1098 STACK_HTTP_CONFIG_WORKER *)
fun STACK_HTTP_CONFIG_WORKER :: "target \<Rightarrow> nat" where
  "STACK_HTTP_CONFIG_WORKER Esp = 31 * 1024"
| "STACK_HTTP_CONFIG_WORKER Host = 32 * 1024"

(* util.rs: lines 1103-1106 STACK_HTTP_DIAG_WORKER *)
fun STACK_HTTP_DIAG_WORKER :: "target \<Rightarrow> nat" where
  "STACK_HTTP_DIAG_WORKER Esp = 28 * 1024"
| "STACK_HTTP_DIAG_WORKER Host = 32 * 1024"

(* util.rs: const ESP_BG_TIMER_STACK_BUDGET *)
definition ESP_BG_TIMER_STACK_BUDGET :: nat where
  "ESP_BG_TIMER_STACK_BUDGET = 16 * 1024"

(* util.rs: lines 1120-1123 STACK_BG_TIMER *)
fun STACK_BG_TIMER :: "target \<Rightarrow> nat" where
  "STACK_BG_TIMER Esp = ESP_BG_TIMER_STACK_BUDGET"
| "STACK_BG_TIMER Host = LINUX_RUSTLS_THREAD_STACK"

(* util.rs: const STACK_STARTUP_RECOVERY *)
definition STACK_STARTUP_RECOVERY :: nat where
  "STACK_STARTUP_RECOVERY = 32 * 1024"

(* util.rs: const STACK_SNTP_WORKER *)
definition STACK_SNTP_WORKER :: "target \<Rightarrow> nat" where
  "STACK_SNTP_WORKER t = DEFAULT_GUARD_STACK_SIZE t"

(* util.rs: const STACK_CLI_REPL *)
definition STACK_CLI_REPL :: nat where
  "STACK_CLI_REPL = 8 * 1024"

(* util.rs: const STACK_CONFIG_PLANE_WATCH *)
definition STACK_CONFIG_PLANE_WATCH :: nat where
  "STACK_CONFIG_PLANE_WATCH = 6 * 1024"

(* util.rs: const STACK_WIFI_WORKER *)
definition STACK_WIFI_WORKER :: nat where
  "STACK_WIFI_WORKER = 8 * 1024"

(* runtime/thread_util.rs: fn stack_budget_for_thread *)
definition stack_budget_for_thread :: "target \<Rightarrow> string \<Rightarrow> nat option" where
  "stack_budget_for_thread t name =
     (if name = ''runtime_bootstrap'' then Some (STACK_ESP_RUNTIME_BOOT t)
      else if name = ''startup_recovery'' then Some STACK_STARTUP_RECOVERY
      else if name = ''config_plane_watch'' then Some STACK_CONFIG_PLANE_WATCH
      else if name = ''http_snapshot_exec'' then Some STACK_HTTP_SNAPSHOT_WORKER
      else if name = ''http_chat_history_exec'' then Some STACK_HTTP_CHAT_HISTORY_WORKER
      else if name = ''http_config_exec'' then Some (STACK_HTTP_CONFIG_WORKER t)
      else if name = ''http_diag_exec'' then Some (STACK_HTTP_DIAG_WORKER t)
      else if name \<in> {''qq_ws'', ''feishu_ws'', ''wecom_aibot'', ''dingtalk_stream''} then Some (STACK_CHANNEL_WS t)
      else if name \<in> {''qq_sender'', ''tg_sender'', ''fs_sender'', ''dt_sender'', ''wc_sender'', ''tg_poll''} then Some (STACK_CHANNEL_SENDER t)
      else if name = ''os_outbound'' then Some (STACK_OS_OUTBOUND t)
      else if name = ''dispatch'' then Some STACK_DISPATCH
      else if name = ''agent_loop'' then Some (STACK_AGENT_LOOP t)
      else if name = ''display'' then Some STACK_DISPLAY
      else if name = ''voice_session'' then Some (STACK_VOICE_CONTROL t)
      else if name = ''voice_session_worker'' then Some (STACK_VOICE_SESSION t)
      else if name = ''voice_realtime'' then Some (STACK_VOICE_REALTIME t)
      else if name = ''voice_realtime_connect'' then Some (STACK_VOICE_REALTIME_CONNECT t)
      else if name = ''write_back'' then Some WRITE_BACK_WORKER_STACK
      else if name = ''wifi_worker'' then Some STACK_WIFI_WORKER
      else if name = ''audio_io_worker'' then Some STACK_AUDIO_IO_STD_COMPAT
      else if name = ''bg_timer'' then Some (STACK_BG_TIMER t)
      else if name = ''sntp'' then Some (STACK_SNTP_WORKER t)
      else if name = ''cli_repl'' then Some STACK_CLI_REPL
      else None)"

section \<open>Thread placement\<close>

(* util.rs: enum SpawnCore *)
datatype SpawnCore = Core0 | Core1

(* runtime/thread_util.rs: struct ThreadPlan *)
record ThreadPlan =
  tp_core :: "SpawnCore option"
  tp_role :: HttpThreadRole

(* runtime/thread_util.rs: fn thread_plan *)
definition thread_plan :: "string \<Rightarrow> ThreadPlan" where
  "thread_plan name =
     (if name \<in> {''wifi_worker'', ''dispatch'', ''os_outbound'', ''tg_poll'', ''feishu_ws'', ''qq_ws'',
                 ''wecom_aibot'', ''dingtalk_stream'', ''tg_sender'', ''fs_sender'', ''dt_sender'',
                 ''wc_sender'', ''qq_sender'', ''config_plane_watch''}
      then \<lparr>tp_core = Some Core0, tp_role = RoleIo\<rparr>
      else if name \<in> {''http_snapshot_exec'', ''http_chat_history_exec'', ''http_config_exec'', ''http_diag_exec''}
      then \<lparr>tp_core = Some Core1, tp_role = RoleIo\<rparr>
      else if name = ''agent_loop'' then \<lparr>tp_core = Some Core1, tp_role = RoleInteractive\<rparr>
      else if name = ''audio_io_worker'' then \<lparr>tp_core = Some Core1, tp_role = RoleBackground\<rparr>
      else if name \<in> {''voice_session'', ''voice_session_worker''}
      then \<lparr>tp_core = Some Core1, tp_role = RoleBackground\<rparr>
      else if name \<in> {''display'', ''cron'', ''heartbeat'', ''heartbeat_tasks'', ''remind'', ''cli_repl''}
      then \<lparr>tp_core = Some Core1, tp_role = RoleBackground\<rparr>
      else \<lparr>tp_core = None, tp_role = RoleBackground\<rparr>)"

(* platform/task_wdt.rs: enum TaskWdtThreadPolicy *)
datatype TaskWdtThreadPolicy = WdtOwner | WdtFeedOnly | WdtUnmanaged

(* platform/task_wdt.rs: fn thread_policy_for_name *)
definition thread_policy_for_name :: "string \<Rightarrow> TaskWdtThreadPolicy" where
  "thread_policy_for_name name =
     (if name \<in> {''agent_loop'', ''wifi_worker'', ''audio_io_worker'', ''runtime_bootstrap''} then WdtOwner
      else if name \<in> {''http_snapshot_exec'', ''http_chat_history_exec'', ''http_config_exec'',
                      ''http_diag_exec'', ''dispatch'', ''os_outbound'', ''bg_timer'', ''heartbeat'',
                      ''qq_ws'', ''feishu_ws'', ''wecom_aibot'', ''dingtalk_stream'', ''qq_sender'',
                      ''tg_sender'', ''fs_sender'', ''dt_sender'', ''wc_sender'', ''tg_poll'',
                      ''voice_session'', ''voice_session_worker'', ''voice_realtime'',
                      ''voice_realtime_connect'', ''display''} then WdtFeedOnly
      else WdtUnmanaged)"

(* platform/task_affinity.rs: enum TaskSpawnSurface *)
datatype TaskSpawnSurface = StdThreadCompat | EspNativeTask

(* platform/task_affinity.rs: const ESP_NATIVE_TASK_ALLOWLIST *)
definition ESP_NATIVE_TASK_ALLOWLIST :: "string list" where
  "ESP_NATIVE_TASK_ALLOWLIST = []"

(* platform/task_affinity.rs: fn native_task_allowlist_hit *)
definition native_task_allowlist_hit :: "target \<Rightarrow> string \<Rightarrow> bool" where
  "native_task_allowlist_hit t name \<longleftrightarrow> t = Esp \<and> List.member ESP_NATIVE_TASK_ALLOWLIST name"

end
