(* ===== verification/Thread_Registry.thy ===== *)
theory Thread_Registry
  imports Plane "HOL-Library.Product_Lexorder"
begin

text \<open>
  The thread registry (\<open>src/src/runtime/thread_registry.rs\<close>), its audit snapshot, the plane flags that
  feed the mode contract, and the static execution budget (\<open>src/src/runtime/execution_budget.rs\<close>).
  The stack sampling of the operating system is an argument.
\<close>

section \<open>Entries and profiles\<close>

(* runtime/thread_registry.rs: const LOW_STACK_MARGIN_BYTES *)
definition LOW_STACK_MARGIN_BYTES :: nat where
  "LOW_STACK_MARGIN_BYTES = 2 * 1024"

(* runtime/thread_registry.rs: struct ThreadEntry *)
record ThreadEntry =
  te_name :: string
  te_stack_size :: nat
  te_core_target :: "SpawnCore option"
  te_role :: HttpThreadRole
  te_spawn_surface :: TaskSpawnSurface
  te_starts :: u32
  te_alive :: bool
  te_task_handle_key :: nat

(* runtime/thread_registry.rs: struct ThreadProfile *)
record ThreadProfile =
  th_execution_class :: ThreadExecutionClass
  th_risk_class :: ThreadRiskClass
  th_tls_capable :: bool
  th_http_capable :: bool
  th_wss_capable :: bool
  th_mode_sensitive :: bool

(* runtime/thread_registry.rs: impl ThreadProfile / fn from_plane *)
definition profile_from_plane :: "PlaneProfile \<Rightarrow> ThreadProfile" where
  "profile_from_plane profile =
     \<lparr>th_execution_class = pp_execution_class profile, th_risk_class = pp_risk_class profile,
      th_tls_capable = pp_tls_capable profile, th_http_capable = pp_http_capable profile,
      th_wss_capable = pp_wss_capable profile, th_mode_sensitive = pp_mode_sensitive profile\<rparr>"

(* runtime/thread_registry.rs: impl ThreadProfile / fn unknown *)
definition profile_unknown :: ThreadProfile where
  "profile_unknown =
     \<lparr>th_execution_class = ClassUnknown, th_risk_class = MediumRisk, th_tls_capable = False,
      th_http_capable = False, th_wss_capable = False, th_mode_sensitive = False\<rparr>"

(* runtime/thread_registry.rs: fn thread_profile *)
definition thread_profile :: "target \<Rightarrow> string \<Rightarrow> ThreadProfile" where
  "thread_profile t name =
     (case profile_for_thread t name of Some p \<Rightarrow> profile_from_plane p | None \<Rightarrow> profile_unknown)"

section \<open>Registration\<close>

text \<open>The key of the current task handle is zero where the platform has none.\<close>

(* runtime/thread_registry.rs: fn register_thread *)
definition register_thread :: "target \<Rightarrow> nat \<Rightarrow> string \<Rightarrow> nat \<Rightarrow> SpawnCore option \<Rightarrow> HttpThreadRole
    \<Rightarrow> TaskSpawnSurface \<Rightarrow> ThreadEntry list \<Rightarrow> ThreadEntry list" where
  "register_thread t handle_key name stack_size core_target role spawn_surface reg =
     (case position (\<lambda>entry. te_name entry = name) reg of
        Some i \<Rightarrow>
          reg[i := (reg ! i)\<lparr>te_stack_size := stack_size, te_core_target := core_target, te_role := role,
                      te_spawn_surface := spawn_surface, te_starts := sat_add (te_starts (reg ! i)) 1,
                      te_alive := True,
                      te_task_handle_key := (if t = Esp then handle_key else te_task_handle_key (reg ! i))\<rparr>]
      | None \<Rightarrow>
          reg @ [\<lparr>te_name = name, te_stack_size = stack_size, te_core_target = core_target, te_role = role,
                  te_spawn_surface = spawn_surface, te_starts = 1, te_alive = True,
                  te_task_handle_key = (if t = Esp then handle_key else 0)\<rparr>])"

(* runtime/thread_registry.rs: fn mark_thread_stopped *)
definition mark_thread_stopped :: "string \<Rightarrow> ThreadEntry list \<Rightarrow> ThreadEntry list" where
  "mark_thread_stopped name reg =
     (case position (\<lambda>entry. te_name entry = name) reg of
        Some i \<Rightarrow> reg[i := (reg ! i)\<lparr>te_alive := False\<rparr>]
      | None \<Rightarrow> reg)"

(* runtime/thread_registry.rs: struct RuntimePlaneFlags *)
record RuntimePlaneFlags =
  rf_channel_plane_alive :: bool
  rf_voice_plane_alive :: bool
  rf_agent_plane_alive :: bool

(* runtime/thread_registry.rs: fn runtime_plane_flags *)
definition runtime_plane_flags :: "target \<Rightarrow> ThreadEntry list \<Rightarrow> RuntimePlaneFlags" where
  "runtime_plane_flags t reg =
     \<lparr>rf_channel_plane_alive = list_ex (\<lambda>entry. te_alive entry
         \<and> th_execution_class (thread_profile t (te_name entry)) = ClassChannel) reg,
      rf_voice_plane_alive = list_ex (\<lambda>entry. te_alive entry
         \<and> th_execution_class (thread_profile t (te_name entry)) = ClassVoice) reg,
      rf_agent_plane_alive = list_ex (\<lambda>entry. te_alive entry \<and> te_name entry = ''agent_loop'') reg\<rparr>"

text \<open>
  The global facts besides the thread registry: the station, the phases of the device, the configuration
  activity and the external connections.
\<close>

record global_facts =
  gf_wifi_sta_connected :: bool
  gf_boot_phase_active :: bool
  gf_pairing_required :: bool
  gf_pairing_state_known :: bool
  gf_voice_exclusive_active :: bool
  gf_background_maintenance_active :: bool
  gf_config_plane_active :: bool
  gf_config_active :: bool
  gf_config_activity_phase :: ConfigActivityPhase
  gf_upgrade_active :: bool
  gf_managed_present :: bool
  gf_suspend_requested :: bool
  gf_suspended :: bool
  gf_recovery_safe_mode_active :: bool

(* runtime/thread_registry.rs: fn runtime_mode_source *)
definition runtime_mode_source :: "target \<Rightarrow> ThreadEntry list \<Rightarrow> global_facts \<Rightarrow> RuntimeModeSource" where
  "runtime_mode_source t reg g =
     (let plane = runtime_plane_flags t reg
      in \<lparr>ms_wifi_sta_connected = gf_wifi_sta_connected g,
          ms_boot_phase_active = gf_boot_phase_active g,
          ms_pairing_required = gf_pairing_required g,
          ms_pairing_state_known = gf_pairing_state_known g,
          ms_voice_exclusive_active = gf_voice_exclusive_active g,
          ms_background_maintenance_active = gf_background_maintenance_active g,
          ms_config_plane_alive = gf_config_plane_active g,
          ms_config_active = gf_config_active g,
          ms_config_activity_phase = gf_config_activity_phase g,
          ms_upgrade_active = gf_upgrade_active g,
          ms_channel_plane_alive = rf_channel_plane_alive plane,
          ms_voice_plane_alive = rf_voice_plane_alive plane,
          ms_agent_plane_alive = rf_agent_plane_alive plane,
          ms_external_wss_managed_present = gf_managed_present g,
          ms_external_wss_suspend_requested = gf_suspend_requested g,
          ms_external_wss_suspended = gf_suspended g,
          ms_recovery_safe_mode_active = gf_recovery_safe_mode_active g\<rparr>)"

(* runtime/thread_registry.rs: fn runtime_mode_snapshot *)
definition runtime_mode_snapshot :: "target \<Rightarrow> ThreadEntry list \<Rightarrow> global_facts \<Rightarrow> RuntimeModeSnapshot" where
  "runtime_mode_snapshot t reg g = mode_snapshot_from_source (runtime_mode_source t reg g)"

section \<open>The audit snapshot\<close>

(* runtime/thread_registry.rs: enum ThreadCoreTarget *)
datatype ThreadCoreTarget = TargetCore0 | TargetCore1 | TargetUnpinned

(* runtime/thread_registry.rs: fn core_target_snapshot *)
definition core_target_snapshot :: "SpawnCore option \<Rightarrow> ThreadCoreTarget" where
  "core_target_snapshot core_target =
     (case core_target of Some Core0 \<Rightarrow> TargetCore0 | Some Core1 \<Rightarrow> TargetCore1 | None \<Rightarrow> TargetUnpinned)"

(* runtime/thread_registry.rs: enum ThreadRoleSnapshot *)
datatype ThreadRoleSnapshot = SnapInteractive | SnapIo | SnapBackground

(* runtime/thread_registry.rs: fn role_snapshot *)
fun role_snapshot :: "HttpThreadRole \<Rightarrow> ThreadRoleSnapshot" where
  "role_snapshot RoleInteractive = SnapInteractive"
| "role_snapshot RoleIo = SnapIo"
| "role_snapshot RoleBackground = SnapBackground"

(* runtime/thread_registry.rs: fn normalize_stack_high_water_free_bytes *)
definition normalize_stack_high_water_free_bytes :: "nat \<Rightarrow> nat \<Rightarrow> nat" where
  "normalize_stack_high_water_free_bytes stack_budget_bytes sampled_free_bytes =
     min sampled_free_bytes stack_budget_bytes"

text \<open>The sample of a task by its handle, on the device only.\<close>

(* runtime/thread_registry.rs: fn sample_stack_high_water_free_bytes *)
definition sample_stack_high_water_free_bytes :: "target \<Rightarrow> (nat \<Rightarrow> nat) \<Rightarrow> ThreadEntry \<Rightarrow> nat option" where
  "sample_stack_high_water_free_bytes t high_water entry =
     (if t = Host \<or> te_task_handle_key entry = 0 then None
      else Some (high_water (te_task_handle_key entry)))"

text \<open>The last component groups the six profile fields of the code's record.\<close>

(* runtime/thread_registry.rs: struct ThreadRuntimeSnapshot *)
record ThreadRuntimeSnapshot =
  td_name :: string
  td_starts :: u32
  td_alive :: bool
  td_stack_budget_bytes :: nat
  td_stack_high_water_free_bytes :: "nat option"
  td_stack_high_water_used_bytes :: "nat option"
  td_stack_margin_percent :: "nat option"
  td_core_target :: ThreadCoreTarget
  td_role :: ThreadRoleSnapshot
  td_spawn_surface :: TaskSpawnSurface
  td_native_allowlist_hit :: bool
  td_native_std_sync_forbidden :: bool
  td_task_wdt_policy :: TaskWdtThreadPolicy
  td_profile :: ThreadProfile

(* runtime/thread_registry.rs: struct ThreadRegistrySnapshot *)
record ThreadRegistrySnapshot =
  tr_alive_threads :: nat
  tr_historical_threads :: nat
  tr_total_stack_bytes :: nat
  tr_io_threads :: nat
  tr_interactive_threads :: nat
  tr_background_threads :: nat
  tr_core0_threads :: nat
  tr_core1_threads :: nat
  tr_unpinned_threads :: nat
  tr_std_thread_compat_threads :: nat
  tr_esp_native_task_threads :: nat
  tr_esp_native_allowlist_hit_threads :: nat
  tr_esp_native_std_sync_forbidden_threads :: nat
  tr_task_wdt_owner_threads :: nat
  tr_task_wdt_feed_only_threads :: nat
  tr_task_wdt_unmanaged_threads :: nat
  tr_tls_capable_threads :: nat
  tr_http_capable_threads :: nat
  tr_wss_capable_threads :: nat
  tr_mode_sensitive_threads :: nat
  tr_high_risk_threads :: nat
  tr_critical_risk_threads :: nat
  tr_low_stack_margin_threads :: nat
  tr_stack_high_water_supported :: bool
  tr_stack_high_water_sampled_threads :: nat
  tr_details :: "ThreadRuntimeSnapshot list"

definition count_if :: "bool \<Rightarrow> nat" where
  "count_if b = (if b then 1 else 0)"

text \<open>One round of the loop over the living entries; \<open>usize\<close> additions of stack sizes saturate.\<close>

definition saturating :: "target \<Rightarrow> nat \<Rightarrow> nat" where
  "saturating t n = min n (2 ^ usize_bits t - 1)"

definition stack_margin_percent :: "nat \<Rightarrow> nat \<Rightarrow> nat" where
  "stack_margin_percent stack_size free = (if stack_size = 0 then 0 else min (free * 100 div stack_size) 100)"

(* runtime/thread_registry.rs: lines 389-489 the loop of build_snapshot over the living entries *)
definition snapshot_entry :: "target \<Rightarrow> (nat \<Rightarrow> nat) \<Rightarrow> bool \<Rightarrow> ThreadEntry \<Rightarrow> ThreadRegistrySnapshot \<Rightarrow> ThreadRegistrySnapshot" where
  "snapshot_entry t high_water include_details entry s =
     (let profile = thread_profile t (te_name entry);
          policy = thread_policy_for_name (te_name entry);
          stack_free = map_option (normalize_stack_high_water_free_bytes (te_stack_size entry))
                         (sample_stack_high_water_free_bytes t high_water entry);
          native_hit = native_task_allowlist_hit t (te_name entry);
          native = (te_spawn_surface entry = EspNativeTask)
      in s\<lparr>tr_alive_threads := tr_alive_threads s + 1,
          tr_total_stack_bytes := saturating t (tr_total_stack_bytes s + te_stack_size entry),
          tr_tls_capable_threads := tr_tls_capable_threads s + count_if (th_tls_capable profile),
          tr_http_capable_threads := tr_http_capable_threads s + count_if (th_http_capable profile),
          tr_wss_capable_threads := tr_wss_capable_threads s + count_if (th_wss_capable profile),
          tr_mode_sensitive_threads := tr_mode_sensitive_threads s + count_if (th_mode_sensitive profile),
          tr_high_risk_threads := tr_high_risk_threads s + count_if (HighRisk \<le> th_risk_class profile),
          tr_critical_risk_threads := tr_critical_risk_threads s + count_if (th_risk_class profile = CriticalRisk),
          tr_stack_high_water_sampled_threads := tr_stack_high_water_sampled_threads s + count_if (stack_free \<noteq> None),
          tr_low_stack_margin_threads := tr_low_stack_margin_threads s
             + count_if (case stack_free of None \<Rightarrow> False | Some free \<Rightarrow> free \<le> LOW_STACK_MARGIN_BYTES),
          tr_io_threads := tr_io_threads s + count_if (te_role entry = RoleIo),
          tr_interactive_threads := tr_interactive_threads s + count_if (te_role entry = RoleInteractive),
          tr_background_threads := tr_background_threads s + count_if (te_role entry = RoleBackground),
          tr_core0_threads := tr_core0_threads s + count_if (te_core_target entry = Some Core0),
          tr_core1_threads := tr_core1_threads s + count_if (te_core_target entry = Some Core1),
          tr_unpinned_threads := tr_unpinned_threads s + count_if (te_core_target entry = None),
          tr_std_thread_compat_threads := tr_std_thread_compat_threads s
             + count_if (te_spawn_surface entry = StdThreadCompat),
          tr_esp_native_task_threads := tr_esp_native_task_threads s + count_if native,
          tr_esp_native_std_sync_forbidden_threads := tr_esp_native_std_sync_forbidden_threads s + count_if native,
          tr_esp_native_allowlist_hit_threads := tr_esp_native_allowlist_hit_threads s + count_if native_hit,
          tr_task_wdt_owner_threads := tr_task_wdt_owner_threads s + count_if (policy = WdtOwner),
          tr_task_wdt_feed_only_threads := tr_task_wdt_feed_only_threads s + count_if (policy = WdtFeedOnly),
          tr_task_wdt_unmanaged_threads := tr_task_wdt_unmanaged_threads s + count_if (policy = WdtUnmanaged),
          tr_details := (if include_details then
             tr_details s @ [\<lparr>td_name = te_name entry, td_starts = te_starts entry, td_alive = te_alive entry,
                td_stack_budget_bytes = te_stack_size entry, td_stack_high_water_free_bytes = stack_free,
                td_stack_high_water_used_bytes = map_option (\<lambda>free. te_stack_size entry - free) stack_free,
                td_stack_margin_percent = map_option (stack_margin_percent (te_stack_size entry)) stack_free,
                td_core_target = core_target_snapshot (te_core_target entry),
                td_role = role_snapshot (te_role entry), td_spawn_surface = te_spawn_surface entry,
                td_native_allowlist_hit = native_hit, td_native_std_sync_forbidden = native,
                td_task_wdt_policy = policy, td_profile = profile\<rparr>]
             else tr_details s)\<rparr>)"

definition snapshot_zero :: "target \<Rightarrow> nat \<Rightarrow> ThreadRegistrySnapshot" where
  "snapshot_zero t historical =
     \<lparr>tr_alive_threads = 0, tr_historical_threads = historical, tr_total_stack_bytes = 0, tr_io_threads = 0,
      tr_interactive_threads = 0, tr_background_threads = 0, tr_core0_threads = 0, tr_core1_threads = 0,
      tr_unpinned_threads = 0, tr_std_thread_compat_threads = 0, tr_esp_native_task_threads = 0,
      tr_esp_native_allowlist_hit_threads = 0, tr_esp_native_std_sync_forbidden_threads = 0,
      tr_task_wdt_owner_threads = 0, tr_task_wdt_feed_only_threads = 0, tr_task_wdt_unmanaged_threads = 0,
      tr_tls_capable_threads = 0, tr_http_capable_threads = 0, tr_wss_capable_threads = 0,
      tr_mode_sensitive_threads = 0, tr_high_risk_threads = 0, tr_critical_risk_threads = 0,
      tr_low_stack_margin_threads = 0, tr_stack_high_water_supported = (t = Esp),
      tr_stack_high_water_sampled_threads = 0, tr_details = []\<rparr>"

text \<open>
  The comparison chain of the details: higher risk first, then the smaller margin with an unknown one
  last, then the larger stack, then the name.
\<close>

definition detail_key :: "ThreadRuntimeSnapshot \<Rightarrow> nat \<times> nat \<times> int \<times> string" where
  "detail_key d =
     (3 - risk_rank (th_risk_class (td_profile d)),
      case td_stack_margin_percent d of None \<Rightarrow> 255 | Some p \<Rightarrow> p,
      - int (td_stack_budget_bytes d), td_name d)"

(* runtime/thread_registry.rs: lines 491-534 the sort and the result of build_snapshot *)
definition build_snapshot :: "target \<Rightarrow> (nat \<Rightarrow> nat) \<Rightarrow> bool \<Rightarrow> ThreadEntry list \<Rightarrow> ThreadRegistrySnapshot" where
  "build_snapshot t high_water include_details reg =
     (let s = fold (snapshot_entry t high_water include_details) (filter te_alive reg)
                (snapshot_zero t (length reg))
      in s\<lparr>tr_details := sort_key detail_key (tr_details s)\<rparr>)"

section \<open>The execution budget\<close>

(* runtime/execution_budget.rs: struct ExecutionBudgetSnapshot *)
record ExecutionBudgetSnapshot =
  eb_steady_stack_bytes :: nat
  eb_lazy_stack_bytes :: nat
  eb_transient_stack_bytes :: nat
  eb_tls_capable_stack_bytes :: nat
  eb_http_capable_stack_bytes :: nat
  eb_wss_capable_stack_bytes :: nat
  eb_largest_thread_stack_bytes :: nat
  eb_budgeted_thread_count :: nat
  eb_logical_thread_count :: nat
  eb_unmapped_thread_count :: nat
  eb_tls_floor_internal_bytes :: nat
  eb_tls_floor_largest_block_bytes :: nat
  eb_max_concurrent_http :: nat
  eb_active_http_count :: u32
  eb_active_wss_count :: u32
  eb_external_wss_connecting_count :: u32
  eb_current_mode :: RuntimeMode
  eb_allow_non_voice_outbound :: bool
  eb_allow_external_wss_connect :: bool
  eb_require_external_wss_suspended :: bool

(* runtime/execution_budget.rs: const LOGICAL_THREAD_OWNERS *)
definition LOGICAL_THREAD_OWNERS :: "string list" where
  "LOGICAL_THREAD_OWNERS = [''http_server'', ''heartbeat'', ''cron'', ''remind'']"

(* runtime/execution_budget.rs: fn is_logical_thread_owner *)
definition is_logical_thread_owner :: "string \<Rightarrow> bool" where
  "is_logical_thread_owner name \<longleftrightarrow> List.member LOGICAL_THREAD_OWNERS name"

text \<open>One round of the nested loop, for a thread of a profile.\<close>

(* runtime/execution_budget.rs: lines 57-94 the loop of static_budget_snapshot *)
definition budget_thread :: "target \<Rightarrow> PlaneProfile \<times> string \<Rightarrow> ExecutionBudgetSnapshot \<Rightarrow> ExecutionBudgetSnapshot" where
  "budget_thread t = (\<lambda>(profile, thread_name) s.
     case stack_budget_for_thread t thread_name of
       None \<Rightarrow>
         (if is_logical_thread_owner thread_name
          then s\<lparr>eb_logical_thread_count := saturating t (eb_logical_thread_count s + 1)\<rparr>
          else s\<lparr>eb_unmapped_thread_count := saturating t (eb_unmapped_thread_count s + 1)\<rparr>)
     | Some bytes \<Rightarrow>
         (let add = (\<lambda>b total. if b then saturating t (total + bytes) else total)
          in s\<lparr>eb_budgeted_thread_count := saturating t (eb_budgeted_thread_count s + 1),
               eb_largest_thread_stack_bytes := max (eb_largest_thread_stack_bytes s) bytes,
               eb_steady_stack_bytes := add (pp_residency profile = Steady) (eb_steady_stack_bytes s),
               eb_lazy_stack_bytes := add (pp_residency profile = Lazy) (eb_lazy_stack_bytes s),
               eb_transient_stack_bytes := add (pp_residency profile = Transient) (eb_transient_stack_bytes s),
               eb_tls_capable_stack_bytes := add (pp_tls_capable profile) (eb_tls_capable_stack_bytes s),
               eb_http_capable_stack_bytes := add (pp_http_capable profile) (eb_http_capable_stack_bytes s),
               eb_wss_capable_stack_bytes := add (pp_wss_capable profile) (eb_wss_capable_stack_bytes s)\<rparr>))"

definition plane_threads :: "target \<Rightarrow> (PlaneProfile \<times> string) list" where
  "plane_threads t = concat (map (\<lambda>p. map (Pair p) (pp_thread_names p)) (plane_profiles t))"

(* runtime/execution_budget.rs: lines 96-118 the result of static_budget_snapshot *)
definition static_budget_snapshot :: "target \<Rightarrow> ThreadEntry list \<Rightarrow> global_facts \<Rightarrow> NetworkState
    \<Rightarrow> ExecutionBudgetSnapshot" where
  "static_budget_snapshot t reg g net =
     (let mode = runtime_mode_snapshot t reg g
      in fold (budget_thread t) (plane_threads t)
          \<lparr>eb_steady_stack_bytes = 0, eb_lazy_stack_bytes = 0, eb_transient_stack_bytes = 0,
           eb_tls_capable_stack_bytes = 0, eb_http_capable_stack_bytes = 0, eb_wss_capable_stack_bytes = 0,
           eb_largest_thread_stack_bytes = 0, eb_budgeted_thread_count = 0, eb_logical_thread_count = 0,
           eb_unmapped_thread_count = 0,
           eb_tls_floor_internal_bytes = TLS_ADMISSION_MIN_INTERNAL_BYTES,
           eb_tls_floor_largest_block_bytes = TLS_ADMISSION_MIN_LARGEST_BLOCK_BYTES,
           eb_max_concurrent_http = MAX_CONCURRENT_HTTP t,
           eb_active_http_count = nt_active_http net, eb_active_wss_count = nt_active_wss net,
           eb_external_wss_connecting_count = nt_connecting net,
           eb_current_mode = current_mode mode,
           eb_allow_non_voice_outbound = allow_non_voice_outbound (action_budget mode),
           eb_allow_external_wss_connect = allow_external_wss_connect (action_budget mode),
           eb_require_external_wss_suspended = require_external_wss_suspended (action_budget mode)\<rparr>)"

end
