(* ===== verification/Keyed_List.thy ===== *)
theory Keyed_List
  imports Prelude
begin

text \<open>
  Vectors used as maps: a registry finds the first record with a key by \<open>iter().position\<close>, replaces
  it in place by one with the same key, or pushes a new one. The lemmas say what a lookup returns
  afterwards; the registries of the runtime (threads, plane lifecycles, capabilities) share them.
\<close>

definition lookup_by :: "('a \<Rightarrow> 'k) \<Rightarrow> 'k \<Rightarrow> 'a list \<Rightarrow> 'a option" where
  "lookup_by key k xs = find (\<lambda>x. key x = k) xs"

lemma position_split:
  "position p xs = Some i \<Longrightarrow> \<exists>ys zs. xs = ys @ xs ! i # zs \<and> length ys = i \<and> (\<forall>y \<in> set ys. \<not> p y) \<and> p (xs ! i)"
proof (induction xs arbitrary: i)
  case (Cons x xs)
  show ?case
  proof (cases "p x")
    case True
    then have "i = 0" using Cons(2) by simp
    then show ?thesis using True by (intro exI [of _ "[]"] exI [of _ xs]) simp
  next
    case False
    then obtain j where j: "position p xs = Some j" "i = Suc j" using Cons(2) by auto
    from Cons(1) [OF j(1)] obtain ys zs where "xs = ys @ xs ! j # zs" "length ys = j"
      "\<forall>y \<in> set ys. \<not> p y" "p (xs ! j)" by blast
    then show ?thesis using False j(2) by (intro exI [of _ "x # ys"] exI [of _ zs]) simp
  qed
qed simp

lemma lookup_None: "lookup_by key k xs = None \<longleftrightarrow> k \<notin> set (map key xs)"
  by (auto simp: lookup_by_def find_None_iff)

lemma lookup_None_position: "lookup_by key k xs = None \<longleftrightarrow> position (\<lambda>x. key x = k) xs = None"
  by (auto simp: lookup_by_def find_None_iff position_None)

lemma lookup_Nil [simp]: "lookup_by key k [] = None"
  by (simp add: lookup_by_def)

lemma lookup_in: "lookup_by key k xs = Some x \<Longrightarrow> x \<in> set xs \<and> key x = k"
  by (auto simp: lookup_by_def find_Some_iff)

lemma lookup_append_new: "key x \<notin> set (map key xs) \<Longrightarrow>
    lookup_by key j (xs @ [x]) = (if j = key x then Some x else lookup_by key j xs)"
  using lookup_None [of key "key x" xs] by (auto simp: lookup_by_def find_append split: option.splits)

lemma lookup_distinct: "distinct (map key xs) \<Longrightarrow> x \<in> set xs \<Longrightarrow> lookup_by key (key x) xs = Some x"
  by (induction xs) (auto simp: lookup_by_def)

text \<open>Replacing the first record of a key by another of the same key.\<close>

lemma lookup_update:
  assumes "position (\<lambda>x. key x = n) xs = Some i" "key x' = n"
  shows "lookup_by key k (xs[i := x']) = (if k = n then Some x' else lookup_by key k xs)"
    and "map key (xs[i := x']) = map key xs" and "lookup_by key n xs = Some (xs ! i)"
proof -
  from position_split [OF assms(1)] obtain ys zs where s: "xs = ys @ xs ! i # zs" "length ys = i"
    "\<forall>y \<in> set ys. key y \<noteq> n" "key (xs ! i) = n" by blast
  then have upd: "xs[i := x'] = ys @ x' # zs" by (metis list_update_length)
  have no: "find (\<lambda>x. key x = n) ys = None" using s(3) by (auto simp: find_None_iff)
  have xs: "lookup_by key j xs = lookup_by key j (ys @ xs ! i # zs)" for j using s(1) by metis
  show "lookup_by key k (xs[i := x']) = (if k = n then Some x' else lookup_by key k xs)"
    unfolding upd xs using no s(4) assms(2) by (auto simp: lookup_by_def find_append split: option.split)
  show "map key (xs[i := x']) = map key xs"
    using s(4) assms(2) position_Some [OF assms(1)] by (metis list_update_id map_update)
  show "lookup_by key n xs = Some (xs ! i)"
    unfolding xs using no s(4) by (simp add: lookup_by_def find_append)
qed

end
