(* ===== verification/Thread_Registry_Laws.thy ===== *)
theory Thread_Registry_Laws
  imports Thread_Registry Keyed_List
begin

text \<open>
  What the static tables and the thread registry promise: every thread belongs to one plane and has a
  stack budget or a logical owner, the planes stay within the mode contract, the registry keeps one entry
  per thread name with its number of starts, and the audit snapshot partitions the living threads.
\<close>

section \<open>The static tables\<close>

lemma plane_names_distinct: "distinct (concat (map pp_thread_names (plane_profiles t)))"
  by (cases t) (simp_all add: plane_profiles_def plane_defs)

lemma profile_for_thread_unique:
  assumes "p \<in> set (plane_profiles t)" "n \<in> set (pp_thread_names p)"
  shows "profile_for_thread t n = Some p"
proof -
  have uniq: "q = p" if "q \<in> set ps" "n \<in> set (pp_thread_names q)" "p \<in> set ps"
      "distinct (concat (map pp_thread_names ps))" for q ps
    using that assms(2) by (induction ps) (auto simp: disjoint_iff)
  have "profile_for_thread t n \<noteq> None"
    using assms by (auto simp: profile_for_thread_def find_None_iff List.member_iff)
  then obtain q where q: "profile_for_thread t n = Some q" by blast
  then have "q \<in> set (plane_profiles t)" "n \<in> set (pp_thread_names q)"
    by (auto simp: profile_for_thread_def find_Some_iff List.member_iff)
  then show ?thesis using uniq q assms(1) plane_names_distinct by blast
qed

definition table_row_ok :: "target \<Rightarrow> PlaneProfile \<Rightarrow> bool" where
  "table_row_ok t p \<longleftrightarrow>
     list_all (\<lambda>n. stack_budget_for_thread t n \<noteq> None \<or> is_logical_thread_owner n) (pp_thread_names p)
     \<and> (pp_wss_capable p \<longrightarrow> pp_tls_capable p \<and> List.member (pp_required_leases p) KTlsHandshake)
     \<and> (pp_tls_capable p \<longrightarrow> pp_http_capable p)"

lemmas budget_defs = stack_budget_for_thread_def is_logical_thread_owner_def LOGICAL_THREAD_OWNERS_def

lemma table_rows_ok: "list_all (table_row_ok t) (plane_profiles t)"
  by (cases t) (simp_all add: plane_profiles_def plane_defs table_row_ok_def budget_defs List.member_iff)

lemma plane_modes:
  "m \<in> set (pp_allowed_modes (plane_external_wss t)) \<longleftrightarrow> allow_external_wss_connect (base_action_budget_for_mode m)"
  "m \<in> set (pp_allowed_modes (plane_channel_outbound t)) \<Longrightarrow> allow_non_voice_outbound (base_action_budget_for_mode m)"
  "m \<in> set (pp_allowed_modes (plane_voice_realtime t)) \<Longrightarrow> allow_realtime_voice_connect (base_action_budget_for_mode m)"
  by (cases m; simp add: plane_defs mode_sets mode_budget_def)+

text \<open>
  The plane table is sound on both targets. Every thread name belongs to exactly one plane, which
  the lookup finds, and has a stack budget or a logical owner; a plane that opens sockets can do TLS and
  holds the handshake lease, and one that does TLS can do HTTP. The table agrees with the mode contract:
  the external connections may exist in exactly the modes whose budget lets them connect, and channel
  outbound and realtime voice only in modes whose budget admits them.
\<close>
theorem plane_table_sound:
  "(\<forall>p \<in> set (plane_profiles t). \<forall>n \<in> set (pp_thread_names p).
      profile_for_thread t n = Some p \<and> (stack_budget_for_thread t n \<noteq> None \<or> is_logical_thread_owner n))
   \<and> (\<forall>p \<in> set (plane_profiles t).
        (pp_wss_capable p \<longrightarrow> pp_tls_capable p \<and> KTlsHandshake \<in> set (pp_required_leases p))
        \<and> (pp_tls_capable p \<longrightarrow> pp_http_capable p))
   \<and> (m \<in> set (pp_allowed_modes (plane_external_wss t)) \<longleftrightarrow> allow_external_wss_connect (base_action_budget_for_mode m))
   \<and> (m \<in> set (pp_allowed_modes (plane_channel_outbound t)) \<longrightarrow> allow_non_voice_outbound (base_action_budget_for_mode m))
   \<and> (m \<in> set (pp_allowed_modes (plane_voice_realtime t)) \<longrightarrow> allow_realtime_voice_connect (base_action_budget_for_mode m))"
  using table_rows_ok [of t] profile_for_thread_unique [of _ t] plane_modes
  by (auto simp: list_all_iff table_row_ok_def List.member_iff)

theorem plane_table_sound_witness:
  "profile_for_thread Esp ''qq_ws'' = Some (plane_external_wss Esp)
   \<and> ModeVoiceExclusive \<notin> set (pp_allowed_modes (plane_external_wss Esp))"
proof -
  have "plane_external_wss Esp \<in> set (plane_profiles Esp)" by (simp add: plane_profiles_def)
  moreover have "''qq_ws'' \<in> set (pp_thread_names (plane_external_wss Esp))" by (simp add: plane_external_wss_def)
  ultimately show ?thesis
    using plane_table_sound [of Esp ModeVoiceExclusive] by (simp add: mode_budget_def)
qed

section \<open>The registry\<close>

abbreviation entry_of :: "string \<Rightarrow> ThreadEntry list \<Rightarrow> ThreadEntry option" where
  "entry_of \<equiv> lookup_by te_name"

text \<open>What the two operations do to the entry of any name.\<close>

lemma entry_of_register:
  "distinct (map te_name reg) \<Longrightarrow> distinct (map te_name (register_thread t key n stack core role surface reg))"
  "k \<noteq> n \<Longrightarrow> entry_of k (register_thread t key n stack core role surface reg) = entry_of k reg"
  "\<exists>e. entry_of n (register_thread t key n stack core role surface reg) = Some e \<and> te_alive e
       \<and> te_starts e = (case entry_of n reg of None \<Rightarrow> 1 | Some e0 \<Rightarrow> sat_add (te_starts e0) 1)"
proof -
  let ?new = "register_thread t key n stack core role surface reg"
  have "(distinct (map te_name reg) \<longrightarrow> distinct (map te_name ?new)) \<and> (k \<noteq> n \<longrightarrow> entry_of k ?new = entry_of k reg)
      \<and> (\<exists>e. entry_of n ?new = Some e \<and> te_alive e
           \<and> te_starts e = (case entry_of n reg of None \<Rightarrow> 1 | Some e0 \<Rightarrow> sat_add (te_starts e0) 1))"
  proof (cases "position (\<lambda>e. te_name e = n) reg")
    case None
    then have none: "entry_of n reg = None" by (simp add: lookup_None_position)
    then have new: "n \<notin> set (map te_name reg)" by (simp add: lookup_None)
    then show ?thesis
      using None none by (simp add: register_thread_def lookup_append_new)
  next
    case (Some i)
    have name: "te_name (reg ! i) = n" using position_Some [OF Some] by simp
    show ?thesis
      using Some name lookup_update(1,2) [where key = te_name, OF Some] lookup_update(3) [where key = te_name, OF Some name]
      by (simp add: register_thread_def)
  qed
  then show "distinct (map te_name reg) \<Longrightarrow> distinct (map te_name ?new)"
    "k \<noteq> n \<Longrightarrow> entry_of k ?new = entry_of k reg"
    "\<exists>e. entry_of n ?new = Some e \<and> te_alive e
       \<and> te_starts e = (case entry_of n reg of None \<Rightarrow> 1 | Some e0 \<Rightarrow> sat_add (te_starts e0) 1)"
    by blast+
qed

lemma entry_of_stopped:
  "map te_name (mark_thread_stopped n reg) = map te_name reg"
  "entry_of k (mark_thread_stopped n reg)
     = (if k = n then map_option (\<lambda>e. e\<lparr>te_alive := False\<rparr>) (entry_of n reg) else entry_of k reg)"
proof -
  have "map te_name (mark_thread_stopped n reg) = map te_name reg \<and> entry_of k (mark_thread_stopped n reg)
     = (if k = n then map_option (\<lambda>e. e\<lparr>te_alive := False\<rparr>) (entry_of n reg) else entry_of k reg)"
  proof (cases "position (\<lambda>e. te_name e = n) reg")
    case None
    then show ?thesis using lookup_None_position [of te_name n reg] by (simp add: mark_thread_stopped_def)
  next
    case (Some i)
    have name: "te_name (reg ! i) = n" using position_Some [OF Some] by simp
    show ?thesis
      using Some name lookup_update(1,2) [where key = te_name, OF Some] lookup_update(3) [where key = te_name, OF Some name]
      by (simp add: mark_thread_stopped_def)
  qed
  then show "map te_name (mark_thread_stopped n reg) = map te_name reg"
    "entry_of k (mark_thread_stopped n reg)
     = (if k = n then map_option (\<lambda>e. e\<lparr>te_alive := False\<rparr>) (entry_of n reg) else entry_of k reg)"
    by blast+
qed

datatype thread_op =
    StartThread nat string nat "SpawnCore option" HttpThreadRole TaskSpawnSurface
  | StopThread string

fun apply_thread_op :: "target \<Rightarrow> thread_op \<Rightarrow> ThreadEntry list \<Rightarrow> ThreadEntry list" where
  "apply_thread_op t (StartThread key n stack core role surface) reg = register_thread t key n stack core role surface reg"
| "apply_thread_op t (StopThread n) reg = mark_thread_stopped n reg"

fun op_name :: "thread_op \<Rightarrow> string" where
  "op_name (StartThread _ n _ _ _ _) = n"
| "op_name (StopThread n) = n"

fun is_start :: "thread_op \<Rightarrow> bool" where
  "is_start (StartThread _ _ _ _ _ _) = True"
| "is_start (StopThread _) = False"

definition starts_of :: "string \<Rightarrow> thread_op list \<Rightarrow> nat" where
  "starts_of n ops = length (filter (\<lambda>op. op_name op = n \<and> is_start op) ops)"

definition ends_started :: "string \<Rightarrow> thread_op list \<Rightarrow> bool" where
  "ends_started n ops \<longleftrightarrow> is_start (last (filter (\<lambda>op. op_name op = n) ops))"

lemma history_snoc:
  "starts_of n (ops @ [op]) = starts_of n ops + (if op_name op = n \<and> is_start op then 1 else 0)"
  "ends_started n (ops @ [op]) \<longleftrightarrow> (if op_name op = n then is_start op else ends_started n ops)"
  by (simp_all add: starts_of_def ends_started_def)

text \<open>The promise about one name, as a relation between its entry and the history.\<close>

definition entry_matches :: "ThreadEntry option \<Rightarrow> nat \<Rightarrow> bool \<Rightarrow> bool" where
  "entry_matches entry starts alive \<longleftrightarrow>
     (case entry of
        None \<Rightarrow> starts = 0
      | Some e \<Rightarrow> 0 < starts \<and> unat (te_starts e) = min starts (2 ^ 32 - 1) \<and> te_alive e = alive)"

lemma apply_thread_op_matches:
  assumes "entry_matches (entry_of n reg) k alive"
  shows "entry_matches (entry_of n (apply_thread_op t op reg)) (k + (if op_name op = n \<and> is_start op then 1 else 0))
           (if op_name op = n then is_start op else alive)"
proof (cases op)
  case (StartThread key n' stack core role surface)
  show ?thesis
  proof (cases "n' = n")
    case True
    from entry_of_register(3) [of n t key stack core role surface reg] obtain e where
      e: "entry_of n (apply_thread_op t op reg) = Some e" "te_alive e"
         "te_starts e = (case entry_of n reg of None \<Rightarrow> 1 | Some e0 \<Rightarrow> sat_add (te_starts e0) 1)"
      unfolding StartThread True by auto
    have "unat (te_starts e) = min (k + 1) (2 ^ 32 - 1)"
      using assms e(3) by (auto simp: entry_matches_def unat_sat_add split: option.splits)
    then show ?thesis using e(1,2) unfolding StartThread True by (simp add: entry_matches_def)
  next
    case False
    then show ?thesis using assms entry_of_register(2) unfolding StartThread by simp
  qed
next
  case (StopThread n')
  then show ?thesis using assms by (auto simp: entry_of_stopped entry_matches_def split: option.splits)
qed

lemma apply_thread_op_distinct: "distinct (map te_name reg) \<Longrightarrow> distinct (map te_name (apply_thread_op t op reg))"
  by (cases op) (simp_all add: entry_of_register(1) entry_of_stopped(1))

text \<open>
  After any history of starts and stops, the registry has one entry for each thread that was ever
  started and none for others; the entry counts the starts, up to the largest word, and is alive exactly
  when the last thing that happened to the thread is a start.
\<close>
theorem thread_registry_history:
  "distinct (map te_name (fold (apply_thread_op t) ops []))
   \<and> (case entry_of n (fold (apply_thread_op t) ops []) of
        None \<Rightarrow> starts_of n ops = 0
      | Some e \<Rightarrow> 0 < starts_of n ops \<and> unat (te_starts e) = min (starts_of n ops) (2 ^ 32 - 1)
          \<and> te_alive e = ends_started n ops)"
proof -
  have "distinct (map te_name (fold (apply_thread_op t) ops []))
    \<and> entry_matches (entry_of n (fold (apply_thread_op t) ops [])) (starts_of n ops) (ends_started n ops)"
  proof (induction ops rule: rev_induct)
    case Nil
    then show ?case by (simp add: starts_of_def entry_matches_def)
  next
    case (snoc op ops)
    then show ?case
      using apply_thread_op_matches apply_thread_op_distinct by (simp add: history_snoc)
  qed
  then show ?thesis by (simp add: entry_matches_def)
qed

section \<open>The audit snapshot\<close>

lemma saturating_absorb: "saturating t (saturating t a + b) = saturating t (a + b)"
  by (simp add: saturating_def)

text \<open>What the loop over the living entries computes, column by column.\<close>

lemma snapshot_fold:
  shows fold_alive: "tr_alive_threads (fold (snapshot_entry t hw d) es s) = tr_alive_threads s + length es"
    and fold_historical: "tr_historical_threads (fold (snapshot_entry t hw d) es s) = tr_historical_threads s"
    and fold_roles:
      "tr_io_threads (fold (snapshot_entry t hw d) es s) + tr_interactive_threads (fold (snapshot_entry t hw d) es s)
         + tr_background_threads (fold (snapshot_entry t hw d) es s)
       = tr_io_threads s + tr_interactive_threads s + tr_background_threads s + length es"
    and fold_cores:
      "tr_core0_threads (fold (snapshot_entry t hw d) es s) + tr_core1_threads (fold (snapshot_entry t hw d) es s)
         + tr_unpinned_threads (fold (snapshot_entry t hw d) es s)
       = tr_core0_threads s + tr_core1_threads s + tr_unpinned_threads s + length es"
    and fold_surfaces:
      "tr_std_thread_compat_threads (fold (snapshot_entry t hw d) es s)
         + tr_esp_native_task_threads (fold (snapshot_entry t hw d) es s)
       = tr_std_thread_compat_threads s + tr_esp_native_task_threads s + length es"
    and fold_watchdog:
      "tr_task_wdt_owner_threads (fold (snapshot_entry t hw d) es s)
         + tr_task_wdt_feed_only_threads (fold (snapshot_entry t hw d) es s)
         + tr_task_wdt_unmanaged_threads (fold (snapshot_entry t hw d) es s)
       = tr_task_wdt_owner_threads s + tr_task_wdt_feed_only_threads s + tr_task_wdt_unmanaged_threads s + length es"
    and fold_risk:
      "tr_critical_risk_threads s \<le> tr_high_risk_threads s
       \<Longrightarrow> tr_critical_risk_threads (fold (snapshot_entry t hw d) es s)
            \<le> tr_high_risk_threads (fold (snapshot_entry t hw d) es s)"
    and fold_low_stack:
      "tr_low_stack_margin_threads s \<le> tr_stack_high_water_sampled_threads s
       \<Longrightarrow> tr_low_stack_margin_threads (fold (snapshot_entry t hw d) es s)
            \<le> tr_stack_high_water_sampled_threads (fold (snapshot_entry t hw d) es s)"
    and fold_details:
      "map td_name (tr_details (fold (snapshot_entry t hw d) es s))
         = map td_name (tr_details s) @ (if d then map te_name es else [])"
proof -
  note step = snapshot_entry_def Let_def count_if_def
  show "tr_alive_threads (fold (snapshot_entry t hw d) es s) = tr_alive_threads s + length es"
    by (induction es arbitrary: s) (simp_all add: step)
  show "tr_historical_threads (fold (snapshot_entry t hw d) es s) = tr_historical_threads s"
    by (induction es arbitrary: s) (simp_all add: step)
  show "tr_io_threads (fold (snapshot_entry t hw d) es s) + tr_interactive_threads (fold (snapshot_entry t hw d) es s)
         + tr_background_threads (fold (snapshot_entry t hw d) es s)
       = tr_io_threads s + tr_interactive_threads s + tr_background_threads s + length es"
  proof (induction es arbitrary: s)
    case (Cons e es) then show ?case by (cases "te_role e") (simp_all add: step)
  qed simp
  show "tr_core0_threads (fold (snapshot_entry t hw d) es s) + tr_core1_threads (fold (snapshot_entry t hw d) es s)
         + tr_unpinned_threads (fold (snapshot_entry t hw d) es s)
       = tr_core0_threads s + tr_core1_threads s + tr_unpinned_threads s + length es"
  proof (induction es arbitrary: s)
    case (Cons e es) 
    have "te_core_target e = None \<or> te_core_target e = Some Core0 \<or> te_core_target e = Some Core1"
      by (cases "te_core_target e") (auto intro: SpawnCore.exhaust)
    then show ?case using Cons by (elim disjE) (simp_all add: step)
  qed simp
  show "tr_std_thread_compat_threads (fold (snapshot_entry t hw d) es s)
         + tr_esp_native_task_threads (fold (snapshot_entry t hw d) es s)
       = tr_std_thread_compat_threads s + tr_esp_native_task_threads s + length es"
  proof (induction es arbitrary: s)
    case (Cons e es) then show ?case by (cases "te_spawn_surface e") (simp_all add: step)
  qed simp
  show "tr_task_wdt_owner_threads (fold (snapshot_entry t hw d) es s)
         + tr_task_wdt_feed_only_threads (fold (snapshot_entry t hw d) es s)
         + tr_task_wdt_unmanaged_threads (fold (snapshot_entry t hw d) es s)
       = tr_task_wdt_owner_threads s + tr_task_wdt_feed_only_threads s + tr_task_wdt_unmanaged_threads s + length es"
  proof (induction es arbitrary: s)
    case (Cons e es) then show ?case by (cases "thread_policy_for_name (te_name e)") (simp_all add: step)
  qed simp
  show "tr_critical_risk_threads s \<le> tr_high_risk_threads s
       \<Longrightarrow> tr_critical_risk_threads (fold (snapshot_entry t hw d) es s)
            \<le> tr_high_risk_threads (fold (snapshot_entry t hw d) es s)"
  proof (induction es arbitrary: s)
    case (Cons e es) then show ?case
      by (cases "th_risk_class (thread_profile t (te_name e))") (simp_all add: step less_eq_ThreadRiskClass_def)
  qed simp
  show "tr_low_stack_margin_threads s \<le> tr_stack_high_water_sampled_threads s
       \<Longrightarrow> tr_low_stack_margin_threads (fold (snapshot_entry t hw d) es s)
            \<le> tr_stack_high_water_sampled_threads (fold (snapshot_entry t hw d) es s)"
  proof (induction es arbitrary: s)
    case (Cons e es) then show ?case
      by (cases "sample_stack_high_water_free_bytes t hw e") (simp_all add: step)
  qed simp
  show "map td_name (tr_details (fold (snapshot_entry t hw d) es s))
         = map td_name (tr_details s) @ (if d then map te_name es else [])"
    by (induction es arbitrary: s) (simp_all add: step)
qed

lemma fold_total_stack:
  "tr_total_stack_bytes s = saturating t n \<Longrightarrow>
   tr_total_stack_bytes (fold (snapshot_entry t hw d) es s) = saturating t (n + sum_list (map te_stack_size es))"
proof (induction es arbitrary: s n)
  case (Cons e es)
  have "tr_total_stack_bytes (snapshot_entry t hw d e s) = saturating t (n + te_stack_size e)"
    using Cons.prems by (simp add: snapshot_entry_def Let_def saturating_absorb)
  from Cons.IH [OF this] show ?case by (simp add: add.assoc)
qed simp

lemma build_snapshot_columns:
  "build_snapshot t hw d reg
   = (fold (snapshot_entry t hw d) (filter te_alive reg) (snapshot_zero t (length reg)))
       \<lparr>tr_details := sort_key detail_key
          (tr_details (fold (snapshot_entry t hw d) (filter te_alive reg) (snapshot_zero t (length reg))))\<rparr>"
  by (simp add: build_snapshot_def Let_def)

text \<open>
  The audit snapshot accounts for every living thread exactly once in each of its classifications
  (role, core, spawn surface, watchdog policy), its total of stack bytes is the sum of the budgets up to the
  largest word, and the details name exactly the living threads, in the order of the comparison chain.
\<close>
theorem thread_snapshot_partition:
  "let s = build_snapshot t hw True reg; living = length (filter te_alive reg)
   in tr_alive_threads s = living \<and> tr_historical_threads s = length reg
    \<and> tr_io_threads s + tr_interactive_threads s + tr_background_threads s = living
    \<and> tr_core0_threads s + tr_core1_threads s + tr_unpinned_threads s = living
    \<and> tr_std_thread_compat_threads s + tr_esp_native_task_threads s = living
    \<and> tr_task_wdt_owner_threads s + tr_task_wdt_feed_only_threads s + tr_task_wdt_unmanaged_threads s = living
    \<and> tr_critical_risk_threads s \<le> tr_high_risk_threads s
    \<and> tr_low_stack_margin_threads s \<le> tr_stack_high_water_sampled_threads s
    \<and> tr_total_stack_bytes s = saturating t (sum_list (map te_stack_size (filter te_alive reg)))
    \<and> sorted (map detail_key (tr_details s))
    \<and> image_mset td_name (mset (tr_details s)) = image_mset te_name (mset (filter te_alive reg))"
proof -
  let ?z = "snapshot_zero t (length reg)" and ?es = "filter te_alive reg"
  let ?f = "fold (snapshot_entry t hw True) ?es ?z"
  have zero: "tr_alive_threads ?z = 0" "tr_historical_threads ?z = length reg" "tr_io_threads ?z = 0"
    "tr_interactive_threads ?z = 0" "tr_background_threads ?z = 0" "tr_core0_threads ?z = 0"
    "tr_core1_threads ?z = 0" "tr_unpinned_threads ?z = 0" "tr_std_thread_compat_threads ?z = 0"
    "tr_esp_native_task_threads ?z = 0" "tr_task_wdt_owner_threads ?z = 0" "tr_task_wdt_feed_only_threads ?z = 0"
    "tr_task_wdt_unmanaged_threads ?z = 0" "tr_critical_risk_threads ?z = 0" "tr_high_risk_threads ?z = 0"
    "tr_low_stack_margin_threads ?z = 0" "tr_stack_high_water_sampled_threads ?z = 0"
    "tr_total_stack_bytes ?z = saturating t 0" "tr_details ?z = []"
    by (simp_all add: snapshot_zero_def saturating_def)
  have "map td_name (tr_details ?f) = map te_name ?es" using fold_details [of t hw True ?es ?z] zero by simp
  then have names: "image_mset td_name (mset (tr_details ?f)) = image_mset te_name (mset ?es)"
    by (metis mset_map)
  show ?thesis
    unfolding build_snapshot_columns Let_def
    using names fold_alive [of t hw True ?es ?z] fold_historical [of t hw True ?es ?z] fold_roles [of t hw True ?es ?z]
      fold_cores [of t hw True ?es ?z] fold_surfaces [of t hw True ?es ?z] fold_watchdog [of t hw True ?es ?z]
      fold_risk [of ?z t hw True ?es] fold_low_stack [of ?z t hw True ?es] fold_total_stack [of ?z t 0 hw True ?es]
    by (simp add: zero)
qed

section \<open>The execution budget\<close>

lemma plane_threads_covered:
  "(p, n) \<in> set (plane_threads t) \<Longrightarrow> stack_budget_for_thread t n \<noteq> None \<or> is_logical_thread_owner n"
  using table_rows_ok [of t] by (auto simp: plane_threads_def list_all_iff table_row_ok_def)

lemma budget_fold_unmapped:
  "\<forall>(p, n) \<in> set xs. stack_budget_for_thread t n \<noteq> None \<or> is_logical_thread_owner n
   \<Longrightarrow> eb_unmapped_thread_count (fold (budget_thread t) xs s) = eb_unmapped_thread_count s"
  by (induction xs arbitrary: s) (auto simp: budget_thread_def Let_def split: option.split)

text \<open>No thread of a plane is missing from the stack budget of the running build.\<close>

theorem no_unmapped_threads: "eb_unmapped_thread_count (static_budget_snapshot t reg g net) = 0"
proof -
  have "\<forall>(p, n) \<in> set (plane_threads t). stack_budget_for_thread t n \<noteq> None \<or> is_logical_thread_owner n"
    using plane_threads_covered by auto
  then show ?thesis
    by (simp add: static_budget_snapshot_def Let_def budget_fold_unmapped)
qed

end
