(* ===== verification/Plane_Lifecycle.thy ===== *)
theory Plane_Lifecycle
  imports Plane Keyed_List
begin

text \<open>
  The lifecycle of the execution planes (\<open>src/src/runtime/plane_lifecycle.rs\<close>): one record per
  plane and owner, with its state, its generation and its counters. The monotonic clock is an argument.
\<close>

section \<open>The registry\<close>

(* runtime/plane_lifecycle.rs: enum PlaneLifecycleState *)
datatype PlaneLifecycleState =
    LifeRegistered | LifeStarting | LifeActive | LifeSuspended | LifeDraining | LifeStopping
  | LifeDisabled | LifeUnloaded | LifeFailed

(* runtime/plane_lifecycle.rs: struct PlaneLifecycleRecord *)
record PlaneLifecycleRecord =
  pl_plane :: PlaneId
  pl_owner :: string
  pl_state :: PlaneLifecycleState
  pl_updated_at_ms :: u64
  pl_generation :: u64
  pl_transition_count :: u32
  pl_failure_count :: u32
  pl_last_reason :: string

(* runtime/plane_lifecycle.rs: struct PlaneLifecycleSnapshot *)
record PlaneLifecycleSnapshot =
  ps_total_records :: nat
  ps_active_count :: nat
  ps_suspended_count :: nat
  ps_draining_count :: nat
  ps_stopping_count :: nat
  ps_unloaded_count :: nat
  ps_failed_count :: nat
  ps_records :: "PlaneLifecycleRecord list"

(* runtime/plane_lifecycle.rs: struct PlaneLifecycleRegistry *)
record PlaneLifecycleRegistry =
  pg_records :: "PlaneLifecycleRecord list"
  pg_next_generation :: u64

(* runtime/plane_lifecycle.rs: fn registry *)
definition lifecycle_registry_init :: PlaneLifecycleRegistry where
  "lifecycle_registry_init = \<lparr>pg_records = [], pg_next_generation = 1\<rparr>"

(* runtime/plane_lifecycle.rs: fn next_generation *)
definition next_generation :: "PlaneLifecycleRegistry \<Rightarrow> PlaneLifecycleRegistry \<times> u64" where
  "next_generation registry =
     (let generation = pg_next_generation registry
      in (registry\<lparr>pg_next_generation := max (sat_add (pg_next_generation registry) 1) 1\<rparr>, generation))"

(* runtime/plane_lifecycle.rs: fn should_start_new_generation *)
definition should_start_new_generation :: "PlaneLifecycleState option \<Rightarrow> PlaneLifecycleState \<Rightarrow> bool" where
  "should_start_new_generation previous next_state \<longleftrightarrow>
     previous = None \<or> next_state = LifeStarting \<or> previous = Some LifeUnloaded \<or> previous = Some LifeFailed"

(* runtime/plane_lifecycle.rs: fn plane_sort_key *)
fun plane_sort_key :: "PlaneId \<Rightarrow> nat" where
  "plane_sort_key PlaneBootstrap = 0"
| "plane_sort_key PlaneConfigRecovery = 1"
| "plane_sort_key PlaneChannelWss = 2"
| "plane_sort_key PlaneChannelOutbound = 3"
| "plane_sort_key PlaneAgentMain = 4"
| "plane_sort_key PlaneDisplay = 5"
| "plane_sort_key PlaneVoice = 6"
| "plane_sort_key PlaneStorageWriteBack = 7"
| "plane_sort_key PlaneDiagnostic = 8"
| "plane_sort_key PlaneMaintenance = 9"
| "plane_sort_key PlanePlatformWifi = 10"
| "plane_sort_key PlanePlatformAudio = 11"
| "plane_sort_key PlaneRuntimeAux = 12"

text \<open>
  The failure count is a plain addition, which wraps in release builds; the transition count saturates.
\<close>

definition failure_increment :: "PlaneLifecycleState \<Rightarrow> u32" where
  "failure_increment state = (if state = LifeFailed then 1 else 0)"

(* runtime/plane_lifecycle.rs: fn mark_at *)
definition mark_at :: "PlaneId \<Rightarrow> string \<Rightarrow> PlaneLifecycleState \<Rightarrow> string \<Rightarrow> u64 \<Rightarrow> PlaneLifecycleRegistry
    \<Rightarrow> PlaneLifecycleRegistry \<times> PlaneLifecycleRecord" where
  "mark_at plane owner state reason now_ms reg =
     (case position (\<lambda>record. pl_plane record = plane \<and> pl_owner record = owner) (pg_records reg) of
        Some index \<Rightarrow>
          (let previous = pg_records reg ! index;
               (reg', generation) =
                 (if should_start_new_generation (Some (pl_state previous)) state
                  then next_generation reg else (reg, pl_generation previous));
               updated = \<lparr>pl_plane = plane, pl_owner = owner, pl_state = state, pl_updated_at_ms = now_ms,
                          pl_generation = generation,
                          pl_transition_count = sat_add (pl_transition_count previous) 1,
                          pl_failure_count = pl_failure_count previous + failure_increment state,
                          pl_last_reason = reason\<rparr>
           in (reg'\<lparr>pg_records := (pg_records reg')[index := updated]\<rparr>, updated))
      | None \<Rightarrow>
          (let (reg', generation) = next_generation reg;
               new = \<lparr>pl_plane = plane, pl_owner = owner, pl_state = state, pl_updated_at_ms = now_ms,
                      pl_generation = generation, pl_transition_count = 1,
                      pl_failure_count = failure_increment state, pl_last_reason = reason\<rparr>
           in (reg'\<lparr>pg_records := pg_records reg' @ [new]\<rparr>, new)))"

definition lifecycle_count :: "PlaneLifecycleState \<Rightarrow> PlaneLifecycleRecord list \<Rightarrow> nat" where
  "lifecycle_count state records = length (filter (\<lambda>record. pl_state record = state) records)"

(* runtime/plane_lifecycle.rs: fn snapshot *)
definition lifecycle_snapshot :: "PlaneLifecycleRegistry \<Rightarrow> PlaneLifecycleSnapshot" where
  "lifecycle_snapshot reg =
     (let records = sort_key (\<lambda>record. plane_sort_key (pl_plane record))
                      (sort_key pl_owner (pg_records reg))
      in \<lparr>ps_total_records = length records,
          ps_active_count = lifecycle_count LifeActive records,
          ps_suspended_count = lifecycle_count LifeSuspended records,
          ps_draining_count = lifecycle_count LifeDraining records,
          ps_stopping_count = lifecycle_count LifeStopping records,
          ps_unloaded_count = lifecycle_count LifeUnloaded records,
          ps_failed_count = lifecycle_count LifeFailed records,
          ps_records = records\<rparr>)"

section \<open>Generations\<close>

abbreviation life_key :: "PlaneLifecycleRecord \<Rightarrow> PlaneId \<times> string" where
  "life_key r \<equiv> (pl_plane r, pl_owner r)"

abbreviation life_of :: "PlaneId \<Rightarrow> string \<Rightarrow> PlaneLifecycleRegistry \<Rightarrow> PlaneLifecycleRecord option" where
  "life_of plane owner reg \<equiv> lookup_by life_key (plane, owner) (pg_records reg)"

text \<open>Each record has its own key and its own generation, and the counter is ahead of them all.\<close>

definition lifecycle_wf :: "PlaneLifecycleRegistry \<Rightarrow> bool" where
  "lifecycle_wf reg \<longleftrightarrow> distinct (map life_key (pg_records reg)) \<and> distinct (map pl_generation (pg_records reg))
     \<and> (\<forall>r \<in> set (pg_records reg). pl_generation r < pg_next_generation reg)"

lemma next_generation_fresh:
  assumes "pg_next_generation reg \<noteq> - 1"
  shows "next_generation reg = (reg\<lparr>pg_next_generation := pg_next_generation reg + 1\<rparr>, pg_next_generation reg)"
    and "pg_next_generation reg < pg_next_generation reg + 1"
proof -
  have n: "unat (pg_next_generation reg) + 1 < 2 ^ 64"
    using assms unat_le_max [of "pg_next_generation reg"] by (auto simp: word_unat_eq_iff unat_max)
  then have u: "unat (pg_next_generation reg + 1) = unat (pg_next_generation reg) + 1"
    by (simp add: unat_word_ariths)
  then show less: "pg_next_generation reg < pg_next_generation reg + 1" by (simp add: word_less_nat_alt)
  have "1 \<le> pg_next_generation reg + 1" using u by (simp add: word_le_nat_alt)
  then show "next_generation reg = (reg\<lparr>pg_next_generation := pg_next_generation reg + 1\<rparr>, pg_next_generation reg)"
    using n by (simp add: next_generation_def sat_add_def max_def)
qed

lemma distinct_update:
  "distinct (map f xs) \<Longrightarrow> f y \<notin> set (map f xs) \<Longrightarrow> i < length xs \<Longrightarrow> distinct (map f (xs[i := y]))"
  by (simp add: map_update distinct_list_update)

text \<open>The two branches of a mark, with the generation counter resolved.\<close>

lemma mark_at_new:
  assumes "life_of plane owner reg = None" "pg_next_generation reg \<noteq> - 1"
    and "mark_at plane owner state reason now reg = (reg', r)"
  shows "r = \<lparr>pl_plane = plane, pl_owner = owner, pl_state = state, pl_updated_at_ms = now,
              pl_generation = pg_next_generation reg, pl_transition_count = 1,
              pl_failure_count = failure_increment state, pl_last_reason = reason\<rparr>"
    and "reg' = reg\<lparr>pg_next_generation := pg_next_generation reg + 1, pg_records := pg_records reg @ [r]\<rparr>"
proof -
  have "position (\<lambda>r. life_key r = (plane, owner)) (pg_records reg) = None"
    using assms(1) by (simp add: lookup_None_position)
  then show "r = \<lparr>pl_plane = plane, pl_owner = owner, pl_state = state, pl_updated_at_ms = now,
              pl_generation = pg_next_generation reg, pl_transition_count = 1,
              pl_failure_count = failure_increment state, pl_last_reason = reason\<rparr>"
    "reg' = reg\<lparr>pg_next_generation := pg_next_generation reg + 1, pg_records := pg_records reg @ [r]\<rparr>"
    using assms(3) next_generation_fresh(1) [OF assms(2)] by (auto simp: mark_at_def Let_def)
qed

lemma mark_at_old:
  assumes "position (\<lambda>r. life_key r = (plane, owner)) (pg_records reg) = Some i" "pg_next_generation reg \<noteq> - 1"
    and "mark_at plane owner state reason now reg = (reg', r)"
  defines "previous \<equiv> pg_records reg ! i"
  defines "fresh \<equiv> should_start_new_generation (Some (pl_state previous)) state"
  shows "r = \<lparr>pl_plane = plane, pl_owner = owner, pl_state = state, pl_updated_at_ms = now,
              pl_generation = (if fresh then pg_next_generation reg else pl_generation previous),
              pl_transition_count = sat_add (pl_transition_count previous) 1,
              pl_failure_count = pl_failure_count previous + failure_increment state, pl_last_reason = reason\<rparr>"
    and "reg' = reg\<lparr>pg_next_generation := if fresh then pg_next_generation reg + 1 else pg_next_generation reg,
              pg_records := (pg_records reg)[i := r]\<rparr>"
    and "life_of plane owner reg = Some previous"
  using assms(1,3) next_generation_fresh(1) [OF assms(2)] lookup_update(3) [where key = life_key, OF assms(1), of r]
  by (auto simp: mark_at_def Let_def previous_def fresh_def split: if_splits)

lemma mark_at_key: "mark_at plane owner state reason now reg = (reg', r) \<Longrightarrow>
    life_key r = (plane, owner) \<and> pl_state r = state"
  by (auto simp: mark_at_def Let_def split: option.splits prod.splits)

text \<open>What a mark does to the record it names, to the others, and to the counters.\<close>

lemma mark_at_lookup:
  assumes room: "pg_next_generation reg \<noteq> - 1"
    and mark: "mark_at plane owner state reason now reg = (reg', r)"
  shows "lookup_by life_key k (pg_records reg') = (if k = (plane, owner) then Some r else lookup_by life_key k (pg_records reg))"
    and "pl_transition_count r
           = (case life_of plane owner reg of None \<Rightarrow> 1 | Some r0 \<Rightarrow> sat_add (pl_transition_count r0) 1)"
    and "pl_failure_count r
           = (case life_of plane owner reg of None \<Rightarrow> 0 | Some r0 \<Rightarrow> pl_failure_count r0) + failure_increment state"
proof -
  note key = mark_at_key [OF mark]
  have "lookup_by life_key k (pg_records reg')
      = (if k = (plane, owner) then Some r else lookup_by life_key k (pg_records reg))
    \<and> pl_transition_count r
        = (case life_of plane owner reg of None \<Rightarrow> 1 | Some r0 \<Rightarrow> sat_add (pl_transition_count r0) 1)
    \<and> pl_failure_count r
        = (case life_of plane owner reg of None \<Rightarrow> 0 | Some r0 \<Rightarrow> pl_failure_count r0) + failure_increment state"
  proof (cases "position (\<lambda>r. life_key r = (plane, owner)) (pg_records reg)")
    case None
    then have none: "life_of plane owner reg = None" by (simp add: lookup_None_position)
    note new = mark_at_new [OF none room mark]
    have "lookup_by life_key k (pg_records reg @ [r])
        = (if k = (plane, owner) then Some r else lookup_by life_key k (pg_records reg))"
      using lookup_append_new [of life_key r "pg_records reg" k] none key by (simp add: lookup_None)
    then show ?thesis by (simp add: new(2) none) (simp add: new(1))
  next
    case (Some i)
    note old = mark_at_old [OF Some room mark]
    have "lookup_by life_key k ((pg_records reg)[i := r])
        = (if k = (plane, owner) then Some r else lookup_by life_key k (pg_records reg))"
      using lookup_update(1) [where key = life_key, OF Some] key by simp
    then show ?thesis by (simp add: old(2,3)) (simp add: old(1))
  qed
  then show "lookup_by life_key k (pg_records reg')
      = (if k = (plane, owner) then Some r else lookup_by life_key k (pg_records reg))"
    "pl_transition_count r
      = (case life_of plane owner reg of None \<Rightarrow> 1 | Some r0 \<Rightarrow> sat_add (pl_transition_count r0) 1)"
    "pl_failure_count r
      = (case life_of plane owner reg of None \<Rightarrow> 0 | Some r0 \<Rightarrow> pl_failure_count r0) + failure_increment state"
    by blast+
qed

text \<open>A mark takes the next generation, or keeps the one of its record.\<close>

definition kept_generation :: "PlaneLifecycleRegistry \<Rightarrow> PlaneLifecycleRegistry \<Rightarrow> PlaneLifecycleRecord \<Rightarrow> bool" where
  "kept_generation reg reg' r \<longleftrightarrow>
     (\<exists>r0. lookup_by life_key (life_key r) (pg_records reg) = Some r0 \<and> pl_generation r = pl_generation r0
        \<and> pl_state r \<noteq> LifeStarting \<and> pl_state r0 \<notin> {LifeUnloaded, LifeFailed})
     \<and> pg_next_generation reg' = pg_next_generation reg"

lemma mark_at_generation:
  assumes room: "pg_next_generation reg \<noteq> - 1"
    and mark: "mark_at plane owner state reason now reg = (reg', r)"
  shows "(pl_generation r = pg_next_generation reg \<and> pg_next_generation reg' = pg_next_generation reg + 1)
         \<or> kept_generation reg reg' r"
proof (cases "position (\<lambda>r. life_key r = (plane, owner)) (pg_records reg)")
  case None
  then have "life_of plane owner reg = None" by (simp add: lookup_None_position)
  from mark_at_new [OF this room mark] show ?thesis by simp
next
  case (Some i)
  from mark_at_old [OF Some room mark] mark_at_key [OF mark] show ?thesis
    by (auto simp: should_start_new_generation_def kept_generation_def)
qed

lemma mark_at_wf:
  assumes wf: "lifecycle_wf reg" and room: "pg_next_generation reg \<noteq> - 1"
    and mark: "mark_at plane owner state reason now reg = (reg', r)"
  shows "lifecycle_wf reg'"
proof -
  note ahead = next_generation_fresh(2) [OF room]
  have grow: "g < pg_next_generation reg + 1" if "g < pg_next_generation reg" for g
    using that ahead by (rule less_trans)
  show ?thesis
  proof (cases "position (\<lambda>r. life_key r = (plane, owner)) (pg_records reg)")
    case None
    then have none: "life_of plane owner reg = None" by (simp add: lookup_None_position)
    then have "(plane, owner) \<notin> set (map life_key (pg_records reg))" by (simp add: lookup_None)
    then show ?thesis
      using wf ahead grow by (auto simp: lifecycle_wf_def mark_at_new [OF none room mark])
  next
    case (Some i)
    note old = mark_at_old [OF Some room mark]
    let ?xs = "pg_records reg"
    have i: "i < length ?xs" using position_Some [OF Some] by simp
    have "distinct (map life_key (?xs[i := r]))"
      using lookup_update(2) [where key = life_key, OF Some] mark_at_key [OF mark] wf by (simp add: lifecycle_wf_def)
    moreover have "distinct (map pl_generation (?xs[i := r]))"
    proof (cases "pl_generation r = pg_next_generation reg")
      case True
      then show ?thesis using wf i by (intro distinct_update) (auto simp: lifecycle_wf_def)
    next
      case False
      then have "pl_generation r = pl_generation (?xs ! i)" by (auto simp: old(1) split: if_splits)
      then show ?thesis using map_update_same [OF i, of pl_generation r] wf by (simp add: lifecycle_wf_def)
    qed
    moreover have "pl_generation x < pg_next_generation reg'" if "x \<in> set (?xs[i := r])" for x
    proof -
      from that have "x \<in> set ?xs \<or> x = r" using set_update_subset_insert by fastforce
      then show ?thesis
        using wf nth_mem [OF i] ahead grow by (auto simp: lifecycle_wf_def old(1,2))
    qed
    ultimately show ?thesis by (simp add: lifecycle_wf_def old(2))
  qed
qed

section \<open>Histories\<close>

record life_mark =
  lm_plane :: PlaneId
  lm_owner :: string
  lm_state :: PlaneLifecycleState
  lm_reason :: string
  lm_now :: u64

abbreviation mark_key :: "life_mark \<Rightarrow> PlaneId \<times> string" where
  "mark_key m \<equiv> (lm_plane m, lm_owner m)"

text \<open>The records returned by a sequence of marks, and the registry they leave.\<close>

primrec run_marks :: "life_mark list \<Rightarrow> PlaneLifecycleRegistry \<Rightarrow> PlaneLifecycleRegistry \<times> PlaneLifecycleRecord list" where
  "run_marks [] reg = (reg, [])"
| "run_marks (m # ms) reg =
     (let (reg1, r) = mark_at (lm_plane m) (lm_owner m) (lm_state m) (lm_reason m) (lm_now m) reg;
          (reg2, rs) = run_marks ms reg1
      in (reg2, r # rs))"

text \<open>There is room for a number of generations before the counter reaches its largest value.\<close>

definition room_for :: "nat \<Rightarrow> PlaneLifecycleRegistry \<Rightarrow> bool" where
  "room_for n reg \<longleftrightarrow> unat (pg_next_generation reg) + n < 2 ^ 64"

lemma room_step:
  assumes "room_for (Suc n) reg" "mark_at plane owner state reason now reg = (reg', r)"
  shows "pg_next_generation reg \<noteq> - 1" "room_for n reg'"
proof -
  show room: "pg_next_generation reg \<noteq> - 1"
    using assms(1) by (auto simp: room_for_def unat_max)
  show "room_for n reg'"
    using mark_at_generation [OF room assms(2)] assms(1) next_generation_fresh(2) [OF room]
    by (auto simp: room_for_def kept_generation_def unat_word_ariths)
qed

lemma run_marks_wf:
  "lifecycle_wf reg \<Longrightarrow> room_for (length ms) reg \<Longrightarrow> lifecycle_wf (fst (run_marks ms reg))"
proof (induction ms arbitrary: reg)
  case (Cons m ms)
  obtain reg1 r where m: "mark_at (lm_plane m) (lm_owner m) (lm_state m) (lm_reason m) (lm_now m) reg = (reg1, r)"
    by fastforce
  have "room_for (Suc (length ms)) reg" using Cons.prems by simp
  from room_step [OF this m] mark_at_wf [OF Cons.prems(1) _ m] Cons.IH [of reg1] m
  show ?case by (simp add: case_prod_beta Let_def)
qed simp

text \<open>A generation that no record carries any more does not come back.\<close>

lemma generation_gone:
  "\<lbrakk>lifecycle_wf reg; room_for (length ms) reg; g < pg_next_generation reg;
    g \<notin> set (map pl_generation (pg_records reg)); r \<in> set (snd (run_marks ms reg))\<rbrakk> \<Longrightarrow> pl_generation r \<noteq> g"
proof (induction ms arbitrary: reg)
  case (Cons m ms)
  obtain reg1 r1 where m: "mark_at (lm_plane m) (lm_owner m) (lm_state m) (lm_reason m) (lm_now m) reg = (reg1, r1)"
    by fastforce
  have "room_for (Suc (length ms)) reg" using Cons.prems(2) by simp
  note room = room_step [OF this m]
  note wf1 = mark_at_wf [OF Cons.prems(1) room(1) m]
  note gen = mark_at_generation [OF room(1) m]
  have r1: "pl_generation r1 \<noteq> g"
    using gen Cons.prems(3,4) by (auto simp: kept_generation_def dest: lookup_in)
  have "x \<in> set (pg_records reg1) \<Longrightarrow> pl_generation x \<noteq> g" for x
  proof -
    assume "x \<in> set (pg_records reg1)"
    then have "lookup_by life_key (life_key x) (pg_records reg1) = Some x"
      using wf1 by (intro lookup_distinct) (simp_all add: lifecycle_wf_def)
    then have "x = r1 \<or> x \<in> set (pg_records reg)"
      using mark_at_lookup(1) [OF room(1) m, of "life_key x"] by (auto split: if_splits dest: lookup_in)
    then show "pl_generation x \<noteq> g" using r1 Cons.prems(4) by auto
  qed
  then have gone: "g \<notin> set (map pl_generation (pg_records reg1))" by auto
  have "g < pg_next_generation reg1"
    using gen Cons.prems(3) next_generation_fresh(2) [OF room(1)] by (auto simp: kept_generation_def)
  from Cons.IH [OF wf1 room(2) this gone] Cons.prems(5) r1 m show ?case
    by (auto split: prod.splits)
qed simp

lemma fresh_generation_gone:
  assumes wf: "lifecycle_wf reg" and room: "pg_next_generation reg \<noteq> - 1"
    and mark: "mark_at plane owner state reason now reg = (reg', r)"
    and r0: "lookup_by life_key (life_key r) (pg_records reg) = Some r0"
    and fresh: "pl_generation r = pg_next_generation reg"
  shows "pl_generation r0 \<notin> set (map pl_generation (pg_records reg'))"
proof
  assume "pl_generation r0 \<in> set (map pl_generation (pg_records reg'))"
  then obtain x where x: "x \<in> set (pg_records reg')" "pl_generation x = pl_generation r0" by auto
  have r0': "r0 \<in> set (pg_records reg)" "life_key r0 = life_key r" using lookup_in [OF r0] by auto
  then have lt: "pl_generation r0 < pg_next_generation reg" using wf by (simp add: lifecycle_wf_def)
  have "lookup_by life_key (life_key x) (pg_records reg') = Some x"
    using mark_at_wf [OF wf room mark] x(1) by (intro lookup_distinct) (simp_all add: lifecycle_wf_def)
  then have "x = r \<or> (x \<in> set (pg_records reg) \<and> life_key x \<noteq> life_key r)"
    using mark_at_lookup(1) [OF room mark, of "life_key x"] mark_at_key [OF mark]
    by (auto split: if_splits dest: lookup_in)
  moreover have "x \<noteq> r" using x(2) fresh lt by auto
  ultimately have "x \<in> set (pg_records reg)" "life_key x \<noteq> life_key r0" using r0'(2) by auto
  moreover have "inj_on pl_generation (set (pg_records reg))" using wf by (simp add: lifecycle_wf_def distinct_map)
  ultimately show False using x(2) r0'(1) by (auto dest: inj_onD)
qed

definition same_run :: "PlaneLifecycleRecord \<Rightarrow> PlaneLifecycleRecord \<Rightarrow> bool" where
  "same_run a b \<longleftrightarrow>
     (pl_generation a = pl_generation b \<longrightarrow>
        life_key a = life_key b \<and> pl_state b \<noteq> LifeStarting \<and> pl_state a \<notin> {LifeUnloaded, LifeFailed})
     \<and> (life_key a = life_key b \<longrightarrow> pl_generation a \<le> pl_generation b)"

lemma same_run_kept:
  assumes "life_key a = life_key b" "pl_generation a = pl_generation b" "pl_state b \<noteq> LifeStarting"
    "pl_state a \<notin> {LifeUnloaded, LifeFailed}" "c = b \<or> same_run b c"
  shows "same_run a c"
  using assms(5)
proof
  assume "c = b"
  then show ?thesis using assms(1-4) by (simp add: same_run_def)
next
  assume "same_run b c"
  then show ?thesis using assms(1,2,4) unfolding same_run_def by metis
qed

lemma same_run_other:
  assumes "life_key b \<noteq> life_key a" "pl_generation b \<noteq> pl_generation a" "c = b \<or> same_run a c"
  shows "same_run a c"
  using assms(3)
proof
  assume "c = b"
  moreover have "life_key a \<noteq> life_key b" "pl_generation a \<noteq> pl_generation b" using assms(1,2) by metis+
  ultimately show ?thesis unfolding same_run_def by (simp only: simp_thms)
qed

lemma generation_run:
  "\<lbrakk>lifecycle_wf reg; room_for (length ms) reg; lookup_by life_key (life_key r0) (pg_records reg) = Some r0;
    r \<in> set (snd (run_marks ms reg))\<rbrakk> \<Longrightarrow> same_run r0 r"
proof (induction ms arbitrary: reg r0)
  case (Cons m ms)
  obtain reg1 r1 where m: "mark_at (lm_plane m) (lm_owner m) (lm_state m) (lm_reason m) (lm_now m) reg = (reg1, r1)"
    by fastforce
  have "room_for (Suc (length ms)) reg" using Cons.prems(2) by simp
  note room = room_step [OF this m]
  note wf1 = mark_at_wf [OF Cons.prems(1) room(1) m]
  note gen = mark_at_generation [OF room(1) m]
  note ahead = next_generation_fresh(2) [OF room(1)]
  from lookup_in [OF Cons.prems(3)] have r0: "r0 \<in> set (pg_records reg)" by simp
  then have lt: "pl_generation r0 < pg_next_generation reg" using Cons.prems(1) by (simp add: lifecycle_wf_def)
  have look: "lookup_by life_key k (pg_records reg1) = (if k = life_key r1 then Some r1 else lookup_by life_key k (pg_records reg))" for k
    using mark_at_lookup(1) [OF room(1) m] mark_at_key [OF m] by simp
  have r: "r = r1 \<or> r \<in> set (snd (run_marks ms reg1))" using Cons.prems(4) m by (simp add: case_prod_beta Let_def)
  have later: "same_run r1 r" if "r \<in> set (snd (run_marks ms reg1))"
    using Cons.IH [OF wf1 room(2) _ that, of r1] look by simp
  show ?case
  proof (cases "life_key r1 = life_key r0")
    case True
    show ?thesis
    proof (cases "pl_generation r1 = pg_next_generation reg")
      case fresh: True
      have gone: "pl_generation r0 \<notin> set (map pl_generation (pg_records reg1))"
        using fresh_generation_gone [OF Cons.prems(1) room(1) m _ fresh] Cons.prems(3) True by simp
      have "pl_generation r0 < pg_next_generation reg1"
        using gen lt ahead by (auto simp: kept_generation_def)
      then have "r \<in> set (snd (run_marks ms reg1)) \<Longrightarrow> pl_generation r \<noteq> pl_generation r0"
        using generation_gone [OF wf1 room(2) _ gone] by blast
      then have "pl_generation r0 \<noteq> pl_generation r" using r fresh lt by force
      moreover have "life_key r0 = life_key r \<Longrightarrow> pl_generation r0 \<le> pl_generation r"
      proof -
        assume k: "life_key r0 = life_key r"
        have "pl_generation r1 \<le> pl_generation r" using r later k True by (metis same_run_def order_refl)
        then show ?thesis using lt fresh by simp
      qed
      ultimately show ?thesis by (simp add: same_run_def)
    next
      case False
      then have "kept_generation reg reg1 r1" using gen by blast
      then have "pl_generation r1 = pl_generation r0" "pl_state r1 \<noteq> LifeStarting" "pl_state r0 \<notin> {LifeUnloaded, LifeFailed}"
        using Cons.prems(3) True by (auto simp: kept_generation_def)
      then show ?thesis using r later True by (intro same_run_kept [of r0 r1]) auto
    qed
  next
    case False
    then have "lookup_by life_key (life_key r0) (pg_records reg1) = Some r0"
      using look Cons.prems(3) by metis
    note after = Cons.IH [OF wf1 room(2) this]
    have "pl_generation r1 \<noteq> pl_generation r0"
    proof (cases "pl_generation r1 = pg_next_generation reg")
      case True
      then show ?thesis using lt by auto
    next
      case kept: False
      then obtain x where "x \<in> set (pg_records reg)" "life_key x = life_key r1" "pl_generation r1 = pl_generation x"
        using gen lookup_in by (fastforce simp: kept_generation_def)
      then show ?thesis
        using False r0 Cons.prems(1) by (auto simp: lifecycle_wf_def distinct_map dest: inj_onD)
    qed
    then show ?thesis using r after False by (intro same_run_other [of r1 r0]) blast+
  qed
qed simp

lemma run_marks_same_run:
  "lifecycle_wf reg \<Longrightarrow> room_for (length ms) reg \<Longrightarrow> sorted_wrt same_run (snd (run_marks ms reg))"
proof (induction ms arbitrary: reg)
  case (Cons m ms)
  obtain reg1 r1 where m: "mark_at (lm_plane m) (lm_owner m) (lm_state m) (lm_reason m) (lm_now m) reg = (reg1, r1)"
    by fastforce
  have "room_for (Suc (length ms)) reg" using Cons.prems(2) by simp
  note room = room_step [OF this m]
  note wf1 = mark_at_wf [OF Cons.prems(1) room(1) m]
  have "lookup_by life_key (life_key r1) (pg_records reg1) = Some r1"
    using mark_at_lookup(1) [OF room(1) m] mark_at_key [OF m] by simp
  then show ?case
    using generation_run [OF wf1 room(2)] Cons.IH [OF wf1 room(2)] m by (simp add: case_prod_beta Let_def)
qed simp

lemma init_wf: "lifecycle_wf lifecycle_registry_init" "room_for n lifecycle_registry_init \<longleftrightarrow> n < 2 ^ 64 - 1"
  by (auto simp: lifecycle_wf_def lifecycle_registry_init_def room_for_def)

text \<open>
  A generation names one run of one plane owner. Among the records that any sequence of marks
  returns, two with the same generation belong to the same plane and owner, the later one is not a start,
  and the earlier one is not a terminal state; and the generations of one owner never go down.
\<close>
theorem lifecycle_generations:
  assumes "length ms < 2 ^ 64 - 1"
  shows "sorted_wrt (\<lambda>a b.
     (pl_generation a = pl_generation b \<longrightarrow>
        pl_plane a = pl_plane b \<and> pl_owner a = pl_owner b
        \<and> pl_state b \<noteq> LifeStarting \<and> pl_state a \<noteq> LifeUnloaded \<and> pl_state a \<noteq> LifeFailed)
     \<and> (pl_plane a = pl_plane b \<and> pl_owner a = pl_owner b \<longrightarrow> pl_generation a \<le> pl_generation b))
    (snd (run_marks ms lifecycle_registry_init))"
proof (rule sorted_wrt_mono_rel [OF _ run_marks_same_run [OF init_wf(1)]])
  show "room_for (length ms) lifecycle_registry_init" using assms by (simp add: init_wf(2))
qed (simp add: same_run_def)

definition restart_marks :: "life_mark list" where
  "restart_marks = map (\<lambda>s. \<lparr>lm_plane = PlaneVoice, lm_owner = ''voice'', lm_state = s, lm_reason = ''r'', lm_now = 5\<rparr>)
     [LifeStarting, LifeActive, LifeFailed, LifeRegistered]"

theorem lifecycle_generations_witness:
  "length restart_marks < 2 ^ 64 - 1
   \<and> map pl_generation (snd (run_marks restart_marks lifecycle_registry_init)) = [1, 1, 1, 2]
   \<and> pl_generation (snd (run_marks restart_marks lifecycle_registry_init) ! 2)
       \<le> pl_generation (snd (run_marks restart_marks lifecycle_registry_init) ! 3)"
proof -
  have len: "length restart_marks < 2 ^ 64 - 1" by (simp add: restart_marks_def)
  have run: "snd (run_marks restart_marks lifecycle_registry_init)
      = map2 (\<lambda>(s, t, f) g. \<lparr>pl_plane = PlaneVoice, pl_owner = ''voice'', pl_state = s, pl_updated_at_ms = 5,
            pl_generation = g, pl_transition_count = t, pl_failure_count = f, pl_last_reason = ''r''\<rparr>)
          [(LifeStarting, 1, 0), (LifeActive, 2, 0), (LifeFailed, 3, 1), (LifeRegistered, 4, 1)] [1, 1, 1, 2]"
    by (simp add: restart_marks_def lifecycle_registry_init_def mark_at_def next_generation_def Let_def
        should_start_new_generation_def failure_increment_def sat_add_def)
  show ?thesis
    using sorted_wrt_nth_less [OF lifecycle_generations [OF len], of 2 3] len unfolding run by simp
qed

end
