(* ===== verification/Frame_Lease.thy ===== *)
theory Frame_Lease
  imports Exclusive_Lease Runtime_Mode
begin

text \<open>
  The lease of the camera frame (\<open>src/src/runtime/frame_lease.rs\<close>): admission by mode and pressure,
  the size bound of a capture, and the exclusive lease that a borrowed frame or a capture permit holds. The
  mode snapshot, the pressure and the clock are arguments, as they are of the code's inner functions.
\<close>

section \<open>Admission\<close>

(* runtime/frame_lease.rs: const MAX_CAMERA_CAPTURE_BYTES *)
definition MAX_CAMERA_CAPTURE_BYTES :: nat where
  "MAX_CAMERA_CAPTURE_BYTES = 512 * 1024"

(* runtime/frame_lease.rs: struct FrameLeaseAdmission *)
record FrameLeaseAdmission =
  fa_runtime_mode :: RuntimeModeSnapshot
  fa_pressure :: PressureLevel

(* runtime/frame_lease.rs: impl FrameLeaseAdmission / fn denial_reason *)
definition frame_denial_reason :: "FrameLeaseAdmission \<Rightarrow> string option" where
  "frame_denial_reason a =
     (if fa_pressure a = PressureCritical then Some ''critical_pressure_camera_frame''
      else if current_mode (fa_runtime_mode a) = ModeNormal then None
      else (case mode_block_reason (fa_runtime_mode a) of
              Some reason \<Rightarrow> Some reason
            | None \<Rightarrow> Some ''runtime_mode_camera_frame_blocked''))"

(* runtime/frame_lease.rs: impl FrameLeaseAdmission / fn ensure_allowed *)
definition frame_ensure_allowed :: "FrameLeaseAdmission \<Rightarrow> Error + unit" where
  "frame_ensure_allowed a =
     (case frame_denial_reason a of
        Some reason \<Rightarrow> Inl (err_config ''camera_frame_admission'' reason)
      | None \<Rightarrow> Inr ())"

section \<open>Leases\<close>

text \<open>
  The derived \<open>Debug\<close> text of the holder. Owners are static identifiers of the sources, which \<open>Debug\<close>
  prints between quotes and without escapes.
\<close>

definition debug_owner :: "LeaseOwner option \<Rightarrow> string" where
  "debug_owner held =
     (case held of
        None \<Rightarrow> ''None''
      | Some w \<Rightarrow> ''Some(LeaseOwner { plane: '' @ [CHR 34] @ lo_plane w @ [CHR 34]
                   @ '', name: '' @ [CHR 34] @ lo_name w @ [CHR 34] @ '' })'')"

(* runtime/frame_lease.rs: fn acquire_camera_frame_lease *)
definition acquire_camera_frame_lease :: "LeaseOwner \<Rightarrow> FrameLeaseAdmission \<Rightarrow> u64 \<Rightarrow> LeaseRegistry
    \<Rightarrow> LeaseRegistry \<times> (Error + LeaseRecord)" where
  "acquire_camera_frame_lease owner admission now_ms reg =
     (case frame_ensure_allowed admission of
        Inl e \<Rightarrow> (reg, Inl e)
      | Inr _ \<Rightarrow>
          (let (reg', decision) = try_acquire_exclusive_once_at reg KCameraFrame owner None now_ms Never
           in case decision of
                Acquired rec \<Rightarrow> (reg', Inr rec)
              | Denied denial \<Rightarrow>
                  (reg', Inl (err_config ''camera_frame_lease''
                     (''camera frame lease denied reason='' @ ld_reason denial
                      @ '' held_by='' @ debug_owner (ld_held_by denial))))
              | _ \<Rightarrow> (reg', Inl (err_config ''camera_frame_lease'' ''unexpected camera frame lease decision''))))"

(* runtime/frame_lease.rs: lines 68-72 struct FrameLease *)
record FrameLease =
  fl_data :: "u8 list"
  fl_owner :: LeaseOwner
  fl_token :: u64

(* runtime/frame_lease.rs: struct FrameCapturePermit *)
record FrameCapturePermit =
  fp_owner :: LeaseOwner
  fp_token :: u64

(* runtime/frame_lease.rs: fn try_borrow_frame_with_admission_inner *)
definition try_borrow_frame :: "LeaseOwner \<Rightarrow> u8 list \<Rightarrow> FrameLeaseAdmission \<Rightarrow> u64 \<Rightarrow> LeaseRegistry
    \<Rightarrow> LeaseRegistry \<times> (Error + FrameLease)" where
  "try_borrow_frame owner data admission now_ms reg =
     (case acquire_camera_frame_lease owner admission now_ms reg of
        (reg', Inl e) \<Rightarrow> (reg', Inl e)
      | (reg', Inr rec) \<Rightarrow> (reg', Inr \<lparr>fl_data = data, fl_owner = owner, fl_token = lr_token rec\<rparr>))"

(* runtime/frame_lease.rs: fn try_acquire_frame_capture_permit_inner *)
definition try_acquire_frame_capture_permit :: "LeaseOwner \<Rightarrow> nat \<Rightarrow> FrameLeaseAdmission \<Rightarrow> u64 \<Rightarrow> LeaseRegistry
    \<Rightarrow> LeaseRegistry \<times> (Error + FrameCapturePermit)" where
  "try_acquire_frame_capture_permit owner max_bytes admission now_ms reg =
     (if MAX_CAMERA_CAPTURE_BYTES < max_bytes
      then (reg, Inl (err_config ''camera_frame_admission'' ''camera_frame_max_bytes_exceeded''))
      else
        (case acquire_camera_frame_lease owner admission now_ms reg of
           (reg', Inl e) \<Rightarrow> (reg', Inl e)
         | (reg', Inr rec) \<Rightarrow> (reg', Inr \<lparr>fp_owner = owner, fp_token = lr_token rec\<rparr>)))"

(* runtime/frame_lease.rs: impl Drop for FrameLease<'_> / fn drop *)
definition frame_lease_drop :: "FrameLease \<Rightarrow> LeaseRegistry \<Rightarrow> LeaseRegistry" where
  "frame_lease_drop f reg = fst (release_token reg KCameraFrame (fl_owner f) (fl_token f))"

(* runtime/frame_lease.rs: impl Drop for FrameCapturePermit / fn drop *)
definition frame_permit_drop :: "FrameCapturePermit \<Rightarrow> LeaseRegistry \<Rightarrow> LeaseRegistry" where
  "frame_permit_drop p reg = fst (release_token reg KCameraFrame (fp_owner p) (fp_token p))"

section \<open>Acquisition through the contract of leases taken once\<close>

text \<open>
  The camera passes the policy that forbids replacing expired leases. For a kind whose records never
  expire it is the same as the replacing policy, so the contract of \<open>once_lease\<close> applies.
\<close>

lemma never_is_replace:
  assumes "kind_wf kind reg"
  shows "try_acquire_exclusive_once_at reg kind owner None now Never
       = try_acquire_exclusive_once_at reg kind owner None now ReplaceExpired"
proof -
  have "\<not> is_expired r now" if "r \<in> set (lg_records reg)" "lr_kind r = kind" for r
    using assms in_rows [OF that] by (simp add: kind_wf_def)
  then have "\<not> list_ex (\<lambda>r. lr_kind r = kind \<and> is_expired r now) (lg_records reg)"
    by (auto simp: list_ex_iff)
  then show ?thesis
    using purge_rows [OF assms, of now]
    by (simp add: try_acquire_exclusive_once_at_def deny_expired_replacement_if_forbidden_def)
qed

lemma release_drop: "fst (release_token reg KCameraFrame w k) = kind_release KCameraFrame reg w k"
  by (simp add: kind_release_def drop_lease_def)

lemma camera_denied:
  "frame_denial_reason a = Some reason \<Longrightarrow>
   acquire_camera_frame_lease w a now reg = (reg, Inl (err_config ''camera_frame_admission'' reason))"
  by (simp add: acquire_camera_frame_lease_def frame_ensure_allowed_def)

lemma camera_admitted:
  assumes g: "kind_wf KCameraFrame reg" and a: "frame_denial_reason a = None"
  shows "fst (acquire_camera_frame_lease w a now reg) = fst (once_acquire KCameraFrame reg w now)
    \<and> (case snd (once_acquire KCameraFrame reg w now) of
         Some k \<Rightarrow> (\<exists>rec. snd (acquire_camera_frame_lease w a now reg) = Inr rec \<and> lr_token rec = k)
       | None \<Rightarrow> (\<exists>e. snd (acquire_camera_frame_lease w a now reg) = Inl e))"
  using g
proof (cases rule: rows_cases)
  case free
  from once_free_row [OF g free(1), of w now] a show ?thesis
    by (auto simp: acquire_camera_frame_lease_def frame_ensure_allowed_def never_is_replace [OF g] once_acquire_def)
next
  case (taken r)
  from once_held_row [OF g taken(1), of w now] a show ?thesis
    by (auto simp: acquire_camera_frame_lease_def frame_ensure_allowed_def never_is_replace [OF g] once_acquire_def)
qed

lemma frame_denied_iff:
  "frame_denial_reason a = None \<longleftrightarrow> fa_pressure a \<noteq> PressureCritical \<and> current_mode (fa_runtime_mode a) = ModeNormal"
  by (auto simp: frame_denial_reason_def split: option.split)

text \<open>
  At most one camera frame is out. A frame is borrowed exactly when the device is in its normal mode,
  the pressure is not critical and no frame is out; while it is out, every capture permit and every
  second borrow is refused, the owner's own included, and leaves the lease as it is; dropping the frame
  frees the lease, and a capture larger than the bound is refused whatever the state.
\<close>
theorem camera_frame_exclusive:
  assumes g: "kind_wf KCameraFrame reg" and b: "try_borrow_frame w bytes a now reg = (reg1, res)"
  shows "((\<exists>f. res = Inr f) \<longleftrightarrow> fa_pressure a \<noteq> PressureCritical \<and> current_mode (fa_runtime_mode a) = ModeNormal
            \<and> kind_held KCameraFrame reg = None)
    \<and> (\<forall>f. res = Inr f \<longrightarrow>
         fl_data f = bytes
         \<and> (\<forall>w2 n2 a2 now2 reg2 res2. try_acquire_frame_capture_permit w2 n2 a2 now2 reg1 = (reg2, res2) \<longrightarrow>
              (\<exists>e. res2 = Inl e) \<and> kind_held KCameraFrame reg2 = Some (w, fl_token f, 1))
         \<and> kind_held KCameraFrame (frame_lease_drop f reg1) = None)
    \<and> (\<forall>n2. MAX_CAMERA_CAPTURE_BYTES < n2 \<longrightarrow> (\<exists>e. try_acquire_frame_capture_permit w n2 a now reg = (reg, Inl e)))"
proof (cases "frame_denial_reason a")
  case (Some reason)
  then show ?thesis
    using b camera_denied [OF Some] frame_denied_iff [of a]
    by (auto simp: try_borrow_frame_def try_acquire_frame_capture_permit_def)
next
  case None
  note adm = camera_admitted [OF g None, of w now]
  note mode = frame_denied_iff [of a, THEN iffD1, OF None]
  show ?thesis
  proof (cases "snd (once_acquire KCameraFrame reg w now)")
    case none: None
    then have held: "kind_held KCameraFrame reg \<noteq> None"
      using once.acquire_free [OF g, of w now] by (metis none option.distinct(1))
    from adm none obtain e where "acquire_camera_frame_lease w a now reg = (fst (once_acquire KCameraFrame reg w now), Inl e)"
      by (cases "acquire_camera_frame_lease w a now reg") auto
    then show ?thesis
      using b by (simp add: try_borrow_frame_def try_acquire_frame_capture_permit_def) (use held in auto)
  next
    case (Some k)
    from once.granted_only_if_free [OF g Some] have free: "kind_held KCameraFrame reg = None"
      and held: "kind_held KCameraFrame (fst (once_acquire KCameraFrame reg w now)) = Some (w, k, 1)" by auto
    from adm Some b have res: "res = Inr \<lparr>fl_data = bytes, fl_owner = w, fl_token = k\<rparr>"
      and reg1: "reg1 = fst (once_acquire KCameraFrame reg w now)"
      by (cases "acquire_camera_frame_lease w a now reg"; auto simp: try_borrow_frame_def)+
    have g1: "kind_wf KCameraFrame reg1" unfolding reg1 by (rule once.acquire_good [OF g])
    have second: "\<exists>e reg2. acquire_camera_frame_lease w2 a2 now2 reg1 = (reg2, Inl e)
        \<and> kind_held KCameraFrame reg2 = Some (w, k, 1)" for w2 a2 now2
    proof (cases "frame_denial_reason a2")
      case None
      from camera_admitted [OF g1 None, of w2 now2] once.acquire_held [OF g1, of w2 now2] held
      show ?thesis by (cases "acquire_camera_frame_lease w2 a2 now2 reg1") (auto simp: reg1)
    next
      case (Some reason)
      from camera_denied [OF Some] held show ?thesis by (simp add: reg1)
    qed
    have permit: "(\<exists>e. res2 = Inl e) \<and> kind_held KCameraFrame reg2 = Some (w, k, 1)"
      if "try_acquire_frame_capture_permit w2 n2 a2 now2 reg1 = (reg2, res2)" for w2 n2 a2 now2 reg2 res2
      using that second [of w2 a2 now2] held
      by (auto simp: try_acquire_frame_capture_permit_def reg1 split: if_splits)
    have drop: "kind_held KCameraFrame (kind_release KCameraFrame reg1 w k) = None"
      using once.release_last [OF g1] held by (simp add: reg1)
    show ?thesis
      using mode free permit drop
      by (simp add: res frame_lease_drop_def release_drop try_acquire_frame_capture_permit_def)
  qed
qed

definition idle_admission :: FrameLeaseAdmission where
  "idle_admission =
     \<lparr>fa_runtime_mode = mode_snapshot_from_source (voice_source\<lparr>ms_pairing_required := False,
         ms_voice_exclusive_active := False, ms_background_maintenance_active := False, ms_config_active := False,
         ms_config_activity_phase := PhaseIdle\<rparr>),
      fa_pressure = PressureCautious\<rparr>"

theorem camera_frame_exclusive_witness:
  "\<exists>reg1 f. try_borrow_frame \<lparr>lo_plane = ''camera'', lo_name = ''capture''\<rparr> [1, 2] idle_admission 5 lease_registry_init
       = (reg1, Inr f) \<and> kind_held KCameraFrame (frame_lease_drop f reg1) = None"
proof -
  let ?w = "\<lparr>lo_plane = ''camera'', lo_name = ''capture''\<rparr>"
  have g: "kind_wf KCameraFrame lease_registry_init" "kind_held KCameraFrame lease_registry_init = None"
    by (simp_all add: kind_wf_def rows_def lease_registry_init_def kind_held_def)
  have m: "current_mode (fa_runtime_mode idle_admission) = ModeNormal" "fa_pressure idle_admission = PressureCautious"
    by (simp_all add: idle_admission_def mode_snapshot_from_source_def derive_mode_def voice_source_def Let_def RuntimeModeSource.extend_def)
  obtain reg1 res where b: "try_borrow_frame ?w [1, 2] idle_admission 5 lease_registry_init = (reg1, res)"
    by fastforce
  from camera_frame_exclusive [OF g(1) b] g(2) m show ?thesis using b by auto
qed

end
