(* ===== verification/Calendar.thy ===== *)
theory Calendar
  imports Text
begin

text \<open>
  Dates and times (\<open>src/src/util.rs\<close>): the conversions between seconds since the epoch and calendar
  fields, and the parser of time stamps. Years are \<open>i32\<close> and kept in range by the wrap-around of
  \<open>next_year\<close>; the fields that the code holds in \<open>u32\<close> and \<open>i64\<close> and that stay small are
  natural numbers; the seconds are \<open>u64\<close> words.
\<close>

section \<open>Conversions\<close>

(* util.rs: fn is_leap_year *)
definition is_leap_year :: "int \<Rightarrow> bool" where
  "is_leap_year y \<longleftrightarrow> (y mod 4 = 0 \<and> y mod 100 \<noteq> 0) \<or> y mod 400 = 0"

definition days_in_year :: "int \<Rightarrow> nat" where
  "days_in_year y = (if is_leap_year y then 366 else 365)"

definition month_days :: "int \<Rightarrow> nat list" where
  "month_days y = (let days = [31, 28, 31, 30, 31, 30, 31, 31, 30, 31, 30, 31]
                   in if is_leap_year y then days[1 := 29] else days)"

(* util.rs: fn days_from_epoch *)
definition days_from_epoch :: "int \<Rightarrow> nat \<Rightarrow> nat \<Rightarrow> int" where
  "days_from_epoch year month day =
     (let d = int (sum_list (map days_in_year [1970..year - 1]));
          d' = d + int (sum_list (take (month - 1) (month_days year)))
      in d' + int day - 1)"

text \<open>The year counter is an \<open>i32\<close>, whose increment wraps in release builds.\<close>

definition next_year :: "int \<Rightarrow> int" where
  "next_year y = (if y = 2 ^ 31 - 1 then - (2 ^ 31) else y + 1)"

lemma days_in_year_pos: "365 \<le> days_in_year y \<and> days_in_year y \<le> 366"
  by (simp add: days_in_year_def)

(* util.rs: lines 451-454 the loop over the years of epoch_to_ymdhms *)
function year_loop :: "int \<Rightarrow> nat \<Rightarrow> int \<times> nat" where
  "year_loop year d =
     (if days_in_year year \<le> d then year_loop (next_year year) (d - days_in_year year) else (year, d))"
  by pat_completeness auto
termination
  by (relation "measure snd") (use days_in_year_pos in \<open>auto simp: days_in_year_def\<close>)

(* util.rs: lines 463-466 the loop over the months of epoch_to_ymdhms *)
function month_loop :: "nat list \<Rightarrow> nat \<Rightarrow> nat \<Rightarrow> nat \<Rightarrow> nat \<times> nat" where
  "month_loop days day_of_year m acc =
     (if m < 12 \<and> acc + days ! m \<le> day_of_year then month_loop days day_of_year (m + 1) (acc + days ! m)
      else (m, acc))"
  by pat_completeness auto
termination
  by (relation "measure (\<lambda>(days, d, m, acc). 12 - m)") auto

declare year_loop.simps [simp del] month_loop.simps [simp del]

(* util.rs: fn epoch_to_ymdhms *)
definition epoch_to_ymdhms :: "u64 \<Rightarrow> int \<times> nat \<times> nat \<times> nat \<times> nat \<times> nat" where
  "epoch_to_ymdhms secs =
     (let sec = unat (secs mod 60);
          minutes = secs div 60;
          minute = unat (minutes mod 60);
          hours = minutes div 60;
          hour = unat (hours mod 24);
          days = unat (hours div 24);
          (year, day_of_year) = year_loop 1970 days;
          (m, acc) = month_loop (month_days year) day_of_year 0 0
      in (year, m + 1, day_of_year - acc + 1, hour, minute, sec))"

(* util.rs: fn ymdhms_to_epoch *)
definition ymdhms_to_epoch :: "int \<Rightarrow> nat \<Rightarrow> nat \<Rightarrow> nat \<Rightarrow> nat \<Rightarrow> nat \<Rightarrow> u64" where
  "ymdhms_to_epoch year month day hour minute sec =
     of_int (days_from_epoch year month day) * 86400 + of_nat hour * 3600 + of_nat minute * 60 + of_nat sec"

(* util.rs: fn weekday_name *)
definition weekday_name :: "u64 \<Rightarrow> string" where
  "weekday_name days_since_epoch =
     [''Thursday'', ''Friday'', ''Saturday'', ''Sunday'', ''Monday'', ''Tuesday'', ''Wednesday'']
       ! unat (days_since_epoch mod 7)"

section \<open>The two loops\<close>

definition days_before :: "int \<Rightarrow> nat" where
  "days_before year = sum_list (map days_in_year [1970..year - 1])"

lemma days_before_step: "1970 \<le> y \<Longrightarrow> days_before (y + 1) = days_before y + days_in_year y"
proof -
  assume "1970 \<le> y"
  then have "[1970..y + 1 - 1] = [1970..y - 1] @ [y]" using upto_rec2 [of 1970 y] by simp
  then show ?thesis by (simp add: days_before_def)
qed

lemma days_before_mono: "1970 \<le> y \<Longrightarrow> y \<le> z \<Longrightarrow> days_before y + 365 * nat (z - y) \<le> days_before z"
proof (induction "nat (z - y)" arbitrary: z)
  case (Suc n)
  then have z: "y \<le> z - 1" "n = nat (z - 1 - y)" "nat (z - y) = nat (z - 1 - y) + 1" by auto
  have "days_before y + 365 * nat (z - 1 - y) \<le> days_before (z - 1)" using Suc z by simp
  then show ?case using days_before_step [of "z - 1"] days_in_year_pos [of "z - 1"] z Suc.prems by simp
qed simp

text \<open>The loop finds the year by its position: from the days of a year and a day of it, it recovers both.\<close>

lemma year_loop_finds:
  assumes "1970 \<le> y" "y \<le> z" "z < 2 ^ 31" "d < days_in_year z"
  shows "year_loop y (days_before z - days_before y + d) = (z, d)"
  using assms
proof (induction "nat (z - y)" arbitrary: y)
  case 0
  then have "z = y" by simp
  with 0 show ?case by (subst year_loop.simps) simp
next
  case (Suc n)
  then have lt: "y < z" "n = nat (z - (y + 1))" by auto
  then have next_y: "next_year y = y + 1" using Suc.prems by (simp add: next_year_def)
  have le: "days_before y + days_in_year y \<le> days_before z"
    using days_before_mono [of "y + 1" z] days_before_step [of y] Suc.prems lt by simp
  then have "days_before z - days_before y + d - days_in_year y = days_before z - days_before (y + 1) + d"
    using days_before_step [of y] Suc.prems by simp
  then show ?case
    using Suc.hyps(1) [of "y + 1"] Suc.prems lt le next_y by (subst year_loop.simps) simp
qed

text \<open>Every number of days below the range of the year counter is a day of a year.\<close>

lemma days_split:
  assumes "d < 365 * n"
  shows "\<exists>z. 1970 \<le> z \<and> z < 1970 + int n \<and> days_before z \<le> d \<and> d - days_before z < days_in_year z"
  using assms
proof (induction n)
  case (Suc n)
  show ?case
  proof (cases "d < days_before (1970 + int n)")
    case True
    then have lt: "d < days_before (1970 + int n)" .
    have "\<exists>z. 1970 \<le> z \<and> z < 1970 + int k \<and> days_before z \<le> d \<and> d - days_before z < days_in_year z"
      if "d < days_before (1970 + int k)" for k
      using that
    proof (induction k)
      case 0
      then show ?case by (simp add: days_before_def)
    next
      case (Suc k)
      show ?case
      proof (cases "d < days_before (1970 + int k)")
        case True
        with Suc.IH show ?thesis by force
      next
        case False
        then show ?thesis
          using Suc.prems days_before_step [of "1970 + int k"]
          by (intro exI [of _ "1970 + int k"]) (simp add: add.commute add.left_commute)
      qed
    qed
    from this [OF lt] show ?thesis by force
  next
    case False
    have "365 * n \<le> days_before (1970 + int n)" using days_before_mono [of 1970 "1970 + int n"] by simp
    then have "d - days_before (1970 + int n) < 365" using False Suc.prems by simp
    then show ?thesis
      using False days_in_year_pos [of "1970 + int n"] by (intro exI [of _ "1970 + int n"]) simp
  qed
qed simp

lemma month_days_length [simp]: "length (month_days y) = 12"
  by (simp add: month_days_def Let_def)

lemma month_days_sum: "sum_list (month_days y) = days_in_year y"
  by (simp add: month_days_def Let_def days_in_year_def)

lemma month_days_bounds: "m < 12 \<Longrightarrow> 28 \<le> month_days y ! m \<and> month_days y ! m \<le> 31"
  by (auto simp: month_days_def Let_def less_Suc_eq numeral_eq_Suc)

text \<open>The months before the found one are passed, the found one is not.\<close>

lemma month_loop_finds:
  assumes "m \<le> k" "k < 12" "length days = 12" "d < days ! k"
  shows "month_loop days (sum_list (take k days) + d) m (sum_list (take m days)) = (k, sum_list (take k days))"
  using assms
proof (induction "k - m" arbitrary: m)
  case 0
  then have "m = k" by simp
  with 0 show ?case by (subst month_loop.simps) simp
next
  case (Suc n)
  then have lt: "m < k" by simp
  have step: "sum_list (take (Suc m) days) = sum_list (take m days) + days ! m"
    using Suc.prems lt by (simp add: take_Suc_conv_app_nth)
  have "take k days = take (Suc m) days @ take (k - Suc m) (drop (Suc m) days)"
    using lt by (metis Suc_leI le_add_diff_inverse take_add)
  then have "sum_list (take (Suc m) days) \<le> sum_list (take k days)" by simp
  then show ?case
    using Suc.hyps(1) [of "Suc m"] Suc.hyps(2) Suc.prems lt step by (subst month_loop.simps) simp
qed

lemma month_split:
  assumes "(d::nat) < sum_list days"
  shows "\<exists>k < length days. sum_list (take k days) \<le> d \<and> d - sum_list (take k days) < days ! k"
  using assms
proof (induction days arbitrary: d)
  case (Cons a days)
  show ?case
  proof (cases "d < a")
    case True
    then show ?thesis by (intro exI [of _ 0]) simp
  next
    case False
    then have "d - a < sum_list days" using Cons.prems by simp
    from Cons.IH [OF this] obtain k where "k < length days" "sum_list (take k days) \<le> d - a"
      "d - a - sum_list (take k days) < days ! k" by blast
    then show ?thesis using False by (intro exI [of _ "Suc k"]) simp
  qed
qed simp

section \<open>Dates\<close>

text \<open>The fields of a moment that exists in the calendar, from 1970 to the last year of the counter.\<close>

fun valid_moment :: "int \<times> nat \<times> nat \<times> nat \<times> nat \<times> nat \<Rightarrow> bool" where
  "valid_moment (year, month, day, hour, minute, sec) \<longleftrightarrow>
     1970 \<le> year \<and> year < 2 ^ 31 \<and> 1 \<le> month \<and> month \<le> 12
     \<and> 1 \<le> day \<and> day \<le> month_days year ! (month - 1) \<and> hour < 24 \<and> minute < 60 \<and> sec < 60"

text \<open>The seconds of a moment, without the width of the machine word.\<close>

fun moment_secs :: "int \<times> nat \<times> nat \<times> nat \<times> nat \<times> nat \<Rightarrow> nat" where
  "moment_secs (year, month, day, hour, minute, sec) =
     (days_before year + sum_list (take (month - 1) (month_days year)) + (day - 1)) * 86400
       + hour * 3600 + minute * 60 + sec"

lemma ymdhms_secs:
  assumes "1 \<le> day"
  shows "ymdhms_to_epoch year month day hour minute sec = of_nat (moment_secs (year, month, day, hour, minute, sec))"
proof -
  have "days_from_epoch year month day
      = int (days_before year + sum_list (take (month - 1) (month_days year)) + (day - 1))"
    using assms by (simp add: days_from_epoch_def days_before_def Let_def of_nat_diff)
  then have "ymdhms_to_epoch year month day hour minute sec
      = of_int (int (days_before year + sum_list (take (month - 1) (month_days year)) + (day - 1))) * 86400
         + of_nat hour * 3600 + of_nat minute * 60 + of_nat sec"
    by (simp only: ymdhms_to_epoch_def)
  then show ?thesis by simp
qed

lemma day_of_year_bound:
  assumes "m < 12" "d < month_days y ! m"
  shows "sum_list (take m (month_days y)) + d < days_in_year y"
proof -
  have "month_days y = take m (month_days y) @ month_days y ! m # drop (Suc m) (month_days y)"
    using assms(1) by (simp add: id_take_nth_drop [symmetric])
  then have "days_in_year y = sum_list (take m (month_days y)) + month_days y ! m + sum_list (drop (Suc m) (month_days y))"
    by (metis month_days_sum sum_list.append sum_list.Cons add.assoc)
  then show ?thesis using assms(2) by simp
qed

lemma epoch_of_moment:
  assumes v: "valid_moment (year, month, day, hour, minute, sec)"
    and secs: "unat secs = moment_secs (year, month, day, hour, minute, sec)"
  shows "epoch_to_ymdhms secs = (year, month, day, hour, minute, sec)"
proof -
  define doy where "doy = sum_list (take (month - 1) (month_days year)) + (day - 1)"
  define days where "days = days_before year + doy"
  have n: "unat secs = days * 86400 + hour * 3600 + minute * 60 + sec"
    using secs by (simp add: days_def doy_def)
  have small: "hour < 24" "minute < 60" "sec < 60" using v by simp_all
  have "unat (secs mod 60) = sec" "unat (secs div 60 mod 60) = minute"
    "unat (secs div 60 div 60 mod 24) = hour" "unat (secs div 60 div 60 div 24) = days"
  proof -
    have m: "unat secs div 60 = days * 1440 + hour * 60 + minute" using n small by simp
    have h: "unat secs div 60 div 60 = days * 24 + hour" unfolding m using small by simp
    have "unat secs = sec + 60 * (days * 1440 + hour * 60 + minute)" using n by simp
    then have "unat secs mod 60 = sec" using small by (simp only: mod_mult_self2 mod_less)
    then show "unat (secs mod 60) = sec" by (simp add: unat_mod)
    have "unat secs div 60 = minute + 60 * (days * 24 + hour)" using m by simp
    then have "unat secs div 60 mod 60 = minute" using small by (simp only: mod_mult_self2 mod_less)
    then show "unat (secs div 60 mod 60) = minute" by (simp add: unat_mod unat_div)
    show "unat (secs div 60 div 60 mod 24) = hour" using h small by (simp add: unat_mod unat_div)
    show "unat (secs div 60 div 60 div 24) = days" using h small by (simp add: unat_div)
  qed
  moreover have "year_loop 1970 days = (year, doy)"
    using year_loop_finds [of 1970 year doy] day_of_year_bound [of "month - 1" "day - 1" year] v
    by (auto simp: days_def doy_def days_before_def)
  moreover have "month_loop (month_days year) doy 0 0 = (month - 1, sum_list (take (month - 1) (month_days year)))"
    using month_loop_finds [of 0 "month - 1" "month_days year" "day - 1"] v by (auto simp: doy_def)
  ultimately show ?thesis
    using v by (simp add: epoch_to_ymdhms_def Let_def doy_def)
qed

text \<open>Any time below the range of the year counter is the time of a moment.\<close>

lemma moment_exists:
  assumes "unat secs < 2 ^ 55"
  shows "\<exists>m. valid_moment m \<and> moment_secs m = unat secs"
proof -
  let ?n = "unat secs"
  have "?n div 86400 < 365 * 1200000000" using assms by (simp add: less_mult_imp_div_less)
  then obtain z where z: "1970 \<le> z" "z < 1970 + int 1200000000" "days_before z \<le> ?n div 86400"
    "?n div 86400 - days_before z < days_in_year z"
    using days_split by blast
  define doy where "doy = ?n div 86400 - days_before z"
  obtain k where k: "k < 12" "sum_list (take k (month_days z)) \<le> doy"
    "doy - sum_list (take k (month_days z)) < month_days z ! k"
    using month_split [of doy "month_days z"] z(4) by (auto simp: month_days_sum doy_def)
  define m where "m = (z, k + 1, doy - sum_list (take k (month_days z)) + 1,
    ?n mod 86400 div 3600, ?n mod 3600 div 60, ?n mod 60)"
  have "valid_moment m" using z k by (auto simp: m_def less_mult_imp_div_less)
  moreover have "moment_secs m = ?n div 86400 * 86400 + ?n mod 86400 div 3600 * 3600 + ?n mod 3600 div 60 * 60 + ?n mod 60"
    using z(3) k(2) by (simp add: m_def doy_def)
  moreover have "?n mod 86400 mod 3600 = ?n mod 3600" "?n mod 3600 mod 60 = ?n mod 60"
    by (simp_all add: mod_mod_cancel)
  then have "?n div 86400 * 86400 + ?n mod 86400 div 3600 * 3600 + ?n mod 3600 div 60 * 60 + ?n mod 60 = ?n"
    using div_mult_mod_eq [of ?n 86400] div_mult_mod_eq [of "?n mod 86400" 3600] div_mult_mod_eq [of "?n mod 3600" 60]
    by linarith
  ultimately show ?thesis by metis
qed

lemma unat_of_small: "n < 2 ^ 64 \<Longrightarrow> unat (of_nat n :: u64) = n"
  by (simp add: unsigned_of_nat take_bit_nat_eq_self)

lemma moment_small:
  assumes v: "valid_moment (year, month, day, hour, minute, sec)"
  shows "moment_secs (year, month, day, hour, minute, sec) < 2 ^ 64"
proof -
  let ?n = "moment_secs (year, month, day, hour, minute, sec)"
  have "days_before year \<le> 366 * nat (year - 1970)"
  proof -
    have "days_before (1970 + int k) \<le> 366 * k" for k
    proof (induction k)
      case (Suc k)
      then show ?case
        using days_before_step [of "1970 + int k"] days_in_year_pos [of "1970 + int k"]
        by (simp add: add.commute add.left_commute)
    qed (simp add: days_before_def)
    from this [of "nat (year - 1970)"] v show ?thesis by simp
  qed
  moreover have "sum_list (take (month - 1) (month_days year)) + (day - 1) < 366"
  proof -
    have "month - 1 < 12" "day - 1 < month_days year ! (month - 1)" using v by auto
    from day_of_year_bound [OF this] days_in_year_pos [of year] show ?thesis by simp
  qed
  moreover have "nat (year - 1970) < 2 ^ 31" using v by auto
  ultimately have "days_before year + sum_list (take (month - 1) (month_days year)) + (day - 1) < 366 * 2 ^ 31 + 366"
    by linarith
  then have "(days_before year + sum_list (take (month - 1) (month_days year)) + (day - 1)) * 86400
      < (366 * 2 ^ 31 + 366) * 86400" by simp
  moreover have "hour * 3600 + minute * 60 + sec < 100000" using v by simp
  ultimately show ?thesis by simp
qed

lemma epoch_of_date:
  assumes v: "valid_moment (year, month, day, hour, minute, sec)"
  shows "epoch_to_ymdhms (ymdhms_to_epoch year month day hour minute sec) = (year, month, day, hour, minute, sec)"
proof -
  have day: "1 \<le> day" using v by simp
  show ?thesis
    unfolding ymdhms_secs [OF day]
    by (rule epoch_of_moment [OF v unat_of_small [OF moment_small [OF v]]])
qed

text \<open>
  The calendar conversions are inverse to each other. Every time below 2^55 seconds (about a
  thousand million years) is converted to the fields of a moment that exists in the calendar, and converting
  them back gives the time; and every existing moment from 1970 on is recovered from its seconds.
\<close>
theorem calendar_roundtrip:
  "(unat secs < 2 ^ 55 \<longrightarrow>
      valid_moment (epoch_to_ymdhms secs)
      \<and> (case epoch_to_ymdhms secs of (year, month, day, hour, minute, sec) \<Rightarrow>
           ymdhms_to_epoch year month day hour minute sec = secs))
   \<and> (valid_moment (year, month, day, hour, minute, sec) \<longrightarrow>
      epoch_to_ymdhms (ymdhms_to_epoch year month day hour minute sec) = (year, month, day, hour, minute, sec))"
proof (intro conjI impI)
  assume "unat secs < 2 ^ 55"
  then obtain m where m: "valid_moment m" "moment_secs m = unat secs" using moment_exists by blast
  obtain ye mo da ho mi se where f: "m = (ye, mo, da, ho, mi, se)" by (cases m) auto
  have e: "epoch_to_ymdhms secs = m" using epoch_of_moment m f by simp
  show "valid_moment (epoch_to_ymdhms secs)" using e m by simp
  have da: "1 \<le> da" using m(1) f by simp
  have "ymdhms_to_epoch ye mo da ho mi se = of_nat (unat secs)"
    by (simp only: ymdhms_secs [OF da] f [symmetric] m(2))
  then have "ymdhms_to_epoch ye mo da ho mi se = secs" by simp
  then show "case epoch_to_ymdhms secs of (year, month, day, hour, minute, sec) \<Rightarrow>
           ymdhms_to_epoch year month day hour minute sec = secs"
    using e f by simp
next
  assume v: "valid_moment (year, month, day, hour, minute, sec)"
  then show "epoch_to_ymdhms (ymdhms_to_epoch year month day hour minute sec) = (year, month, day, hour, minute, sec)"
    by (rule epoch_of_date)
qed

theorem calendar_roundtrip_witness:
  "epoch_to_ymdhms (ymdhms_to_epoch 2024 2 29 23 59 58) = (2024, 2, 29, 23, 59, 58)
   \<and> valid_moment (epoch_to_ymdhms 1709251198)"
proof -
  have "valid_moment (2024, 2, 29, 23, 59, 58)" by (simp add: month_days_def is_leap_year_def)
  then show ?thesis
    using calendar_roundtrip [of 1709251198 2024 2 29 23 59 58] by simp
qed

section \<open>Parsing time stamps\<close>

definition is_digit :: "char \<Rightarrow> bool" where
  "is_digit c \<longleftrightarrow> 48 \<le> (of_char c :: nat) \<and> (of_char c :: nat) \<le> 57"

definition digit_value :: "char \<Rightarrow> nat" where
  "digit_value c = of_char c - 48"

text \<open>\<open>str::parse\<close> of the standard library: an optional sign, then digits within the range.\<close>

definition parse_digits :: "string \<Rightarrow> nat option" where
  "parse_digits s = (if s \<noteq> [] \<and> list_all is_digit s then Some (foldl (\<lambda>n c. n * 10 + digit_value c) 0 s) else None)"

definition at_most :: "nat \<Rightarrow> nat option \<Rightarrow> nat option" where
  "at_most bound r = (case r of Some n \<Rightarrow> if n \<le> bound then Some n else None | None \<Rightarrow> None)"

definition parse_unsigned :: "nat \<Rightarrow> string \<Rightarrow> nat option" where
  "parse_unsigned bound s =
     at_most bound (case s of c # cs \<Rightarrow> if c = CHR ''+'' then parse_digits cs else parse_digits s | [] \<Rightarrow> None)"

definition parse_i32 :: "string \<Rightarrow> int option" where
  "parse_i32 s =
     (case s of
        c # cs \<Rightarrow> (if c = CHR ''-'' then map_option (\<lambda>n. - int n) (at_most (2 ^ 31) (parse_digits cs))
                   else map_option int (parse_unsigned (2 ^ 31 - 1) s))
      | [] \<Rightarrow> None)"

definition parse_u32 :: "string \<Rightarrow> nat option" where
  "parse_u32 s = parse_unsigned (2 ^ 32 - 1) s"

text \<open>\<open>split\<close> by a character, \<open>split_once\<close>, \<open>rfind\<close> and \<open>trim_end_matches\<close>.\<close>

fun split_on :: "char \<Rightarrow> string \<Rightarrow> string list" where
  "split_on c [] = [[]]"
| "split_on c (x # xs) =
     (if x = c then [] # split_on c xs
      else (case split_on c xs of p # ps \<Rightarrow> (x # p) # ps | [] \<Rightarrow> [[x]]))"

definition split_once :: "char \<Rightarrow> string \<Rightarrow> (string \<times> string) option" where
  "split_once c s = map_option (\<lambda>i. (take i s, drop (Suc i) s)) (position (\<lambda>x. x = c) s)"

definition rfind :: "char \<Rightarrow> string \<Rightarrow> nat option" where
  "rfind c s = map_option (\<lambda>i. length s - 1 - i) (position (\<lambda>x. x = c) (rev s))"

definition trim_end_char :: "char \<Rightarrow> string \<Rightarrow> string" where
  "trim_end_char c s = rev (dropWhile (\<lambda>x. x = c) (rev s))"

definition strip_offset :: "string \<Rightarrow> string" where
  "strip_offset s =
     (case rfind (CHR ''+'') s of
        Some pos \<Rightarrow> (if 10 < pos then take pos s else s)
      | None \<Rightarrow> (case rfind (CHR ''-'') s of
          Some pos \<Rightarrow> (if 16 < pos then take pos s else s)
        | None \<Rightarrow> s))"

text \<open>The fields of the date and of the time; the parts after the third are not looked at.\<close>

definition parse_fields :: "string \<Rightarrow> string \<Rightarrow> (int \<times> nat \<times> nat \<times> nat \<times> nat \<times> nat) option" where
  "parse_fields date time =
     (case (split_on (CHR ''-'') date, split_on (CHR '':'') time) of
        (ys # ms # ds # _, hs # is # ss # _) \<Rightarrow>
          (case (parse_i32 ys, parse_u32 ms, parse_u32 ds, parse_u32 hs, parse_u32 is,
                 parse_u32 (hd (split_on (CHR ''.'') ss))) of
             (Some y, Some m, Some day, Some h, Some minute, Some sec) \<Rightarrow> Some (y, m, day, h, minute, sec)
           | _ \<Rightarrow> None)
      | _ \<Rightarrow> None)"

(* util.rs: fn parse_iso8601 *)
definition parse_iso8601 :: "string \<Rightarrow> u64 option" where
  "parse_iso8601 text =
     (let s = trim text
      in case parse_unsigned (2 ^ 64 - 1) s of
           Some n \<Rightarrow> Some (of_nat n)
         | None \<Rightarrow>
             (let s' = strip_offset (trim_end_char (CHR ''Z'') s)
              in case split_once (CHR ''T'') s' of
                   None \<Rightarrow> None
                 | Some (date, time) \<Rightarrow>
                     (case parse_fields date time of
                        None \<Rightarrow> None
                      | Some (y, m, day, h, minute, sec) \<Rightarrow>
                          (if \<not> (1 \<le> m \<and> m \<le> 12) \<or> \<not> (1 \<le> day \<and> day \<le> 31) \<or> 23 < h \<or> 59 < minute \<or> 59 < sec
                           then None else Some (ymdhms_to_epoch y m day h minute sec)))))"

lemma digit_ne [simp]:
  "is_digit c \<Longrightarrow> c \<noteq> CHR ''-''" "is_digit c \<Longrightarrow> c \<noteq> CHR '':''" "is_digit c \<Longrightarrow> c \<noteq> CHR ''.''"
  "is_digit c \<Longrightarrow> c \<noteq> CHR ''+''" "is_digit c \<Longrightarrow> c \<noteq> CHR ''T''" "is_digit c \<Longrightarrow> c \<noteq> CHR ''Z''"
  by (auto simp: is_digit_def)

lemma not_digit [simp]: "\<not> is_digit (CHR ''-'')" "\<not> is_digit (CHR '':'')" "\<not> is_digit (CHR ''T'')"
  by (simp_all add: is_digit_def)

text \<open>Text that starts with a digit and ends with a digit or the letter Z has nothing to trim.\<close>

lemma trim_stamp:
  assumes "is_digit c" "is_digit d \<or> d = CHR ''Z''"
  shows "trim (c # s @ [d]) = c # s @ [d]"
  by (rule trim_graphic) (use assms in \<open>auto simp: graphic_def is_digit_def\<close>)

text \<open>The digits of a number, two or four at a time.\<close>

definition digit_char :: "nat \<Rightarrow> char" where
  "digit_char n = char_of (48 + n mod 10)"

definition two_digits :: "nat \<Rightarrow> string" where
  "two_digits n = [digit_char (n div 10), digit_char n]"

definition four_digits :: "nat \<Rightarrow> string" where
  "four_digits n = [digit_char (n div 1000), digit_char (n div 100), digit_char (n div 10), digit_char n]"

definition iso_stamp :: "nat \<Rightarrow> nat \<Rightarrow> nat \<Rightarrow> nat \<Rightarrow> nat \<Rightarrow> nat \<Rightarrow> string" where
  "iso_stamp y m d h i s =
     four_digits y @ ''-'' @ two_digits m @ ''-'' @ two_digits d @ ''T''
       @ two_digits h @ '':'' @ two_digits i @ '':'' @ two_digits s"

lemma digit_char [simp]: "is_digit (digit_char n)" "digit_value (digit_char n) = n mod 10"
proof -
  have "(of_char (digit_char n) :: nat) = 48 + n mod 10"
    by (simp add: digit_char_def of_char_of)
  then show "is_digit (digit_char n)" "digit_value (digit_char n) = n mod 10"
    using mod_less_divisor [of 10 n] by (simp_all add: is_digit_def digit_value_def)
qed

lemma parse_two: "n < 100 \<Longrightarrow> parse_digits (two_digits n) = Some n"
  by (simp add: parse_digits_def two_digits_def)

lemma parse_four: "n < 10000 \<Longrightarrow> parse_digits (four_digits n) = Some n"
proof -
  assume "n < 10000"
  then have top: "n div 1000 < 10" by (simp add: less_mult_imp_div_less)
  have parts: "n div 100 = n div 10 div 10" "n div 1000 = n div 10 div 10 div 10"
    by (simp_all flip: div_mult2_eq)
  have sum: "((c * 10 + b) * 10 + a) * 10 + r = k" if "q1 * 10 + r = k" "q2 * 10 + a = q1" "c * 10 + b = q2"
    for a b c r k q1 q2 :: nat using that by simp
  have "n div 1000 mod 10 = n div 10 div 10 div 10" using top parts(2) by simp
  then have "((n div 1000 mod 10 * 10 + n div 100 mod 10) * 10 + n div 10 mod 10) * 10 + n mod 10 = n"
    unfolding parts(1) by (simp only:) (rule sum [OF div_mult_mod_eq div_mult_mod_eq div_mult_mod_eq])
  then show ?thesis using top by (simp add: parse_digits_def four_digits_def)
qed

lemma two_u32: "n < 100 \<Longrightarrow> parse_u32 (two_digits n) = Some n"
  using parse_two [of n] by (simp add: parse_u32_def parse_unsigned_def two_digits_def at_most_def)

lemma four_i32: "n < 10000 \<Longrightarrow> parse_i32 (four_digits n) = Some (int n)"
  using parse_four [of n] by (simp add: parse_i32_def parse_unsigned_def four_digits_def at_most_def)

lemma digit_char_eq: "digit_char n = c \<longleftrightarrow> (of_char c :: nat) = 48 + n mod 10"
proof -
  have "(of_char (digit_char n) :: nat) = 48 + n mod 10" by (simp add: digit_char_def of_char_of)
  then show ?thesis by (metis of_char_eq_iff)
qed

text \<open>What may follow the seconds: nothing, the letter Z, or an offset.\<close>

definition offset :: "char \<Rightarrow> nat \<Rightarrow> nat \<Rightarrow> string" where
  "offset sign h m = sign # two_digits h @ '':'' @ two_digits m"

lemma strip_stamp:
  "strip_offset (trim_end_char (CHR ''Z'') (iso_stamp y m d h i s)) = iso_stamp y m d h i s"
  "strip_offset (trim_end_char (CHR ''Z'') (iso_stamp y m d h i s @ ''Z'')) = iso_stamp y m d h i s"
  "strip_offset (trim_end_char (CHR ''Z'') (iso_stamp y m d h i s @ offset (CHR ''+'') oh om)) = iso_stamp y m d h i s"
  "strip_offset (trim_end_char (CHR ''Z'') (iso_stamp y m d h i s @ offset (CHR ''-'') oh om)) = iso_stamp y m d h i s"
  by (simp_all add: strip_offset_def trim_end_char_def rfind_def iso_stamp_def two_digits_def four_digits_def offset_def)

lemma stamp_fields:
  assumes "y < 10000" "m < 100" "d < 100" "h < 100" "i < 100" "s < 100"
  shows "split_once (CHR ''T'') (iso_stamp y m d h i s)
     = Some (four_digits y @ ''-'' @ two_digits m @ ''-'' @ two_digits d, two_digits h @ '':'' @ two_digits i @ '':'' @ two_digits s)"
    and "parse_fields (four_digits y @ ''-'' @ two_digits m @ ''-'' @ two_digits d) (two_digits h @ '':'' @ two_digits i @ '':'' @ two_digits s)
     = Some (int y, m, d, h, i, s)"
proof -
  show "split_once (CHR ''T'') (iso_stamp y m d h i s)
     = Some (four_digits y @ ''-'' @ two_digits m @ ''-'' @ two_digits d, two_digits h @ '':'' @ two_digits i @ '':'' @ two_digits s)"
    by (simp add: split_once_def iso_stamp_def two_digits_def four_digits_def)
  have "split_on (CHR ''-'') (four_digits y @ ''-'' @ two_digits m @ ''-'' @ two_digits d) = [four_digits y, two_digits m, two_digits d]"
    "split_on (CHR '':'') (two_digits h @ '':'' @ two_digits i @ '':'' @ two_digits s) = [two_digits h, two_digits i, two_digits s]"
    "split_on (CHR ''.'') (two_digits s) = [two_digits s]"
    by (simp_all add: two_digits_def four_digits_def)
  then show "parse_fields (four_digits y @ ''-'' @ two_digits m @ ''-'' @ two_digits d) (two_digits h @ '':'' @ two_digits i @ '':'' @ two_digits s)
     = Some (int y, m, d, h, i, s)"
    using assms by (simp add: parse_fields_def two_u32 four_i32)
qed

text \<open>A stamp begins with a digit, ends with one, and is not a number.\<close>

lemma stamp_trim:
  "trim (iso_stamp y m d h i s) = iso_stamp y m d h i s"
  "trim (iso_stamp y m d h i s @ ''Z'') = iso_stamp y m d h i s @ ''Z''"
  "trim (iso_stamp y m d h i s @ offset sign oh om) = iso_stamp y m d h i s @ offset sign oh om"
proof -
  obtain a r r' e where head: "iso_stamp y m d h i s = a # r" "is_digit a"
    and tail: "iso_stamp y m d h i s = a # r' @ [e]" "is_digit e"
    by (simp add: iso_stamp_def four_digits_def two_digits_def)
  show "trim (iso_stamp y m d h i s) = iso_stamp y m d h i s"
    unfolding tail(1) by (rule trim_stamp) (simp_all add: head(2) tail(2))
  show "trim (iso_stamp y m d h i s @ ''Z'') = iso_stamp y m d h i s @ ''Z''"
    unfolding head(1) append_Cons by (rule trim_stamp) (simp_all add: head(2))
  obtain q z where "r @ offset sign oh om = q @ [z]" "is_digit z"
    by (metis append_Cons append_assoc append_Nil offset_def two_digits_def digit_char(1))
  then show "trim (iso_stamp y m d h i s @ offset sign oh om) = iso_stamp y m d h i s @ offset sign oh om"
    unfolding head(1) append_Cons by (simp add: trim_stamp head(2))
qed

lemma stamp_no_number: "parse_unsigned b (iso_stamp y m d h i s @ rest) = None"
proof -
  have none: "parse_digits (iso_stamp y m d h i s @ rest) = None"
    by (simp add: parse_digits_def iso_stamp_def)
  obtain a r where head: "iso_stamp y m d h i s @ rest = a # r" "is_digit a"
    by (simp add: iso_stamp_def four_digits_def)
  show ?thesis using none head(2) unfolding parse_unsigned_def head(1) by (simp add: at_most_def)
qed

lemma parse_stamp:
  assumes f: "y < 10000" "m < 100" "d < 100" "h < 100" "i < 100" "s < 100"
    and rest: "rest = [] \<or> rest = ''Z'' \<or> rest = offset (CHR ''+'') oh om \<or> rest = offset (CHR ''-'') oh om"
  shows "parse_iso8601 (iso_stamp y m d h i s @ rest)
     = (if 1 \<le> m \<and> m \<le> 12 \<and> 1 \<le> d \<and> d \<le> 31 \<and> h \<le> 23 \<and> i \<le> 59 \<and> s \<le> 59
        then Some (ymdhms_to_epoch (int y) m d h i s) else None)"
proof -
  have trimmed: "trim (iso_stamp y m d h i s @ rest) = iso_stamp y m d h i s @ rest"
    using rest stamp_trim [of y m d h i s] by auto
  have stripped: "strip_offset (trim_end_char (CHR ''Z'') (iso_stamp y m d h i s @ rest)) = iso_stamp y m d h i s"
    using rest strip_stamp [of y m d h i s] by auto
  show ?thesis
    unfolding parse_iso8601_def Let_def trimmed stamp_no_number stripped
    using stamp_fields [OF f] by auto
qed

text \<open>
  Printing and parsing time stamps. The ISO form of any existing moment of the years 1970 to 9999, with or
  without the letter Z, is parsed to its seconds, and so back to its fields. A numeric offset behind it is
  cut off without being applied: the stamp is read as if it were in UTC.
\<close>
theorem timestamp_roundtrip:
  assumes "valid_moment (int y, m, d, h, i, s)" "y < 10000"
    and "rest = [] \<or> rest = ''Z'' \<or> rest = offset (CHR ''+'') oh om \<or> rest = offset (CHR ''-'') oh om"
  shows "parse_iso8601 (iso_stamp y m d h i s @ rest) = Some (ymdhms_to_epoch (int y) m d h i s)
    \<and> map_option epoch_to_ymdhms (parse_iso8601 (iso_stamp y m d h i s @ rest)) = Some (int y, m, d, h, i, s)"
proof -
  have "m - 1 < 12" using assms(1) by auto
  then have "month_days (int y) ! (m - 1) \<le> 31" using month_days_bounds by blast
  then have d: "d \<le> 31" using assms(1) by simp
  have p: "parse_iso8601 (iso_stamp y m d h i s @ rest) = Some (ymdhms_to_epoch (int y) m d h i s)"
    using parse_stamp [OF assms(2) _ _ _ _ _ assms(3), of m d h i s] assms(1) d by simp
  have "epoch_to_ymdhms (ymdhms_to_epoch (int y) m d h i s) = (int y, m, d, h, i, s)"
    by (rule epoch_of_date [OF assms(1)])
  then show ?thesis using p by simp
qed

theorem timestamp_roundtrip_witness:
  "parse_iso8601 ''2024-02-29T08:30:00+08:00'' = Some (ymdhms_to_epoch 2024 2 29 8 30 0)
   \<and> parse_iso8601 ''2024-02-29T08:30:00+08:00'' = parse_iso8601 ''2024-02-29T08:30:00Z''"
proof -
  have v: "valid_moment (int 2024, 2, 29, 8, 30, 0)" by (simp add: month_days_def is_leap_year_def)
  have stamp: "iso_stamp 2024 2 29 8 30 0 = ''2024-02-29T08:30:00''" "offset (CHR ''+'') 8 0 = ''+08:00''"
    by (simp_all add: iso_stamp_def four_digits_def two_digits_def offset_def digit_char_eq)
  have "parse_iso8601 (iso_stamp 2024 2 29 8 30 0 @ offset (CHR ''+'') 8 0) = Some (ymdhms_to_epoch (int 2024) 2 29 8 30 0)"
    "parse_iso8601 (iso_stamp 2024 2 29 8 30 0 @ ''Z'') = Some (ymdhms_to_epoch (int 2024) 2 29 8 30 0)"
    using timestamp_roundtrip [OF v, of "offset (CHR ''+'') 8 0" 8 0] timestamp_roundtrip [OF v, of "''Z''" 8 0]
    by simp_all
  then show ?thesis unfolding stamp by simp
qed

text \<open>The years before the epoch are skipped: a moment of such a year is read as one of 1970.\<close>

lemma pre_epoch_stamp: "parse_iso8601 ''1969-12-31T23:59:59Z'' = Some (ymdhms_to_epoch 1970 12 31 23 59 59)"
proof -
  have stamp: "iso_stamp 1969 12 31 23 59 59 = ''1969-12-31T23:59:59''"
    by (simp add: iso_stamp_def four_digits_def two_digits_def digit_char_eq)
  have "parse_iso8601 (iso_stamp 1969 12 31 23 59 59 @ ''Z'') = Some (ymdhms_to_epoch 1969 12 31 23 59 59)"
    by (subst parse_stamp) auto
  moreover have "days_from_epoch 1969 12 31 = days_from_epoch 1970 12 31"
    by (simp add: days_from_epoch_def month_days_def is_leap_year_def)
  ultimately show ?thesis unfolding stamp by (simp add: ymdhms_to_epoch_def)
qed

section \<open>Decimal text\<close>

lemma show_nat_digits: "list_all is_digit (show_nat n) \<and> show_nat n \<noteq> []"
proof (induction n rule: show_nat.induct)
  case (1 n)
  have d: "is_digit (char_of (48 + n mod 10))" using digit_char(1) [of n] by (simp add: digit_char_def)
  show ?case
  proof (cases "n < 10")
    case True
    then have "n mod 10 = n" by simp
    then show ?thesis using True d by (simp add: show_nat.simps)
  next
    case False
    then show ?thesis using 1 d by (subst (1 2) show_nat.simps) simp
  qed
qed

lemma parse_show: "parse_digits (show_nat n) = Some n"
proof -
  have "foldl (\<lambda>n c. n * 10 + digit_value c) 0 (show_nat n) = n"
  proof (induction n rule: show_nat.induct)
    case (1 n)
    have d: "digit_value (char_of (48 + n mod 10)) = n mod 10" using digit_char(2) [of n] by (simp add: digit_char_def)
    show ?case
    proof (cases "n < 10")
      case True
      then have "n mod 10 = n" by simp
      then show ?thesis using True d by (simp add: show_nat.simps)
    next
      case False
      then show ?thesis using 1 d by (subst show_nat.simps) simp
    qed
  qed
  then show ?thesis using show_nat_digits [of n] by (simp add: parse_digits_def)
qed

lemma show_nat_inj: "show_nat m = show_nat n \<longleftrightarrow> m = n"
  by (metis parse_show option.inject)

lemma show_nat_cons: obtains c cs where "show_nat n = c # cs" "is_digit c" "list_all is_digit cs"
  using show_nat_digits [of n] by (cases "show_nat n") auto

lemma parse_show_unsigned: "n \<le> bound \<Longrightarrow> parse_unsigned bound (show_nat n) = Some n"
proof -
  assume "n \<le> bound"
  moreover obtain c cs where "show_nat n = c # cs" "is_digit c" by (rule show_nat_cons [of n])
  ultimately show ?thesis using parse_show [of n] by (simp add: parse_unsigned_def at_most_def)
qed

lemma show_nat_avoids: "\<not> is_digit c \<Longrightarrow> c \<notin> set (show_nat n)"
  using show_nat_digits [of n] by (auto simp: list_all_iff)

section \<open>Splitting\<close>

lemma split_on_nonempty: "split_on c s \<noteq> []"
  by (induction s) (auto split: list.split)

lemma hd_split_on: "hd (split_on c s) = takeWhile (\<lambda>x. x \<noteq> c) s"
  by (induction s) (auto simp: split_on_nonempty split: list.split)

lemma split_on_append: "c \<notin> set x \<Longrightarrow> split_on c (x @ c # y) = x # split_on c y"
  by (induction x) auto

lemma split_on_plain: "c \<notin> set x \<Longrightarrow> split_on c x = [x]"
  by (induction x) auto

end
