(* ===== verification/Codec.thy ===== *)
theory Codec
  imports Calendar
begin

text \<open>
  Encodings (\<open>src/src/util.rs\<close>): percent coding of query values, JSON string literals, decimal numbers
  in a caller's buffer, and the comparison in constant time. Text is the bytes of its UTF-8 form; the
  escaped characters are ASCII, so working byte by byte is working character by character.
\<close>

section \<open>Hexadecimal digits\<close>

definition hex_digit :: "nat \<Rightarrow> char" where
  "hex_digit n = ''0123456789abcdef'' ! n"

(* util.rs: fn hex_val *)
definition hex_val :: "char \<Rightarrow> nat option" where
  "hex_val c =
     (let b = of_char c :: nat
      in if 48 \<le> b \<and> b \<le> 57 then Some (b - 48)
         else if 65 \<le> b \<and> b \<le> 70 then Some (b - 65 + 10)
         else if 97 \<le> b \<and> b \<le> 102 then Some (b - 97 + 10)
         else None)"

lemma less_16: "n < 16 \<Longrightarrow> n \<in> set [0, 1, 2, 3, 4, 5, 6, 7, 8, 9, 10, 11, 12, 13, 14, 15 :: nat]"
  by simp presburger

lemma hex_val_digit [simp]:
  assumes "n < 16"
  shows "hex_val (hex_digit n) = Some n"
proof -
  have "list_all (\<lambda>n. hex_val (hex_digit n) = Some n) [0, 1, 2, 3, 4, 5, 6, 7, 8, 9, 10, 11, 12, 13, 14, 15]"
    by (simp add: hex_digit_def hex_val_def)
  then show ?thesis using less_16 [OF assms] by (simp only: list_all_iff)
qed

lemma nibbles [simp]: "of_char (c :: char) div 16 < (16 :: nat)" "(of_char c div 16) * 16 + of_char c mod 16 = (of_char c :: nat)"
  using nat_of_char_less_256 [of c] by (simp_all add: less_mult_imp_div_less)

section \<open>Percent coding\<close>

(* util.rs: lines 127-129 is_unreserved *)
definition is_unreserved :: "char \<Rightarrow> bool" where
  "is_unreserved c \<longleftrightarrow>
     (let b = of_char c :: nat
      in (65 \<le> b \<and> b \<le> 90) \<or> (97 \<le> b \<and> b \<le> 122) \<or> (48 \<le> b \<and> b \<le> 57))
     \<or> c = CHR ''-'' \<or> c = CHR ''.'' \<or> c = CHR ''_'' \<or> c = CHR ''~''"

(* util.rs: lines 131-141 the bytes of percent_encode_query *)
definition percent_encode_byte :: "char \<Rightarrow> string" where
  "percent_encode_byte b =
     (if is_unreserved b then [b]
      else if b = CHR '' '' then ''%20''
      else [CHR ''%'', hex_digit (of_char b div 16), hex_digit (of_char b mod 16)])"

(* util.rs: fn percent_encode_query *)
definition percent_encode_query :: "string \<Rightarrow> string" where
  "percent_encode_query s = concat (map percent_encode_byte s)"

text \<open>The loop of the decoder, on the bytes from its index on.\<close>

definition plain_byte :: "char \<Rightarrow> char" where
  "plain_byte b = (if b = CHR ''+'' then CHR '' '' else b)"

(* util.rs: lines 177-191 the loop of percent_decode_query *)
function percent_decode_bytes :: "string \<Rightarrow> string" where
  "percent_decode_bytes [] = []"
| "percent_decode_bytes (b # bs) =
     (case (if b = CHR ''%'' \<and> 2 \<le> length bs then (hex_val (bs ! 0), hex_val (bs ! 1)) else (None, None)) of
        (Some hi, Some lo) \<Rightarrow> char_of (hi * 16 + lo) # percent_decode_bytes (drop 2 bs)
      | _ \<Rightarrow> plain_byte b # percent_decode_bytes bs)"
  by pat_completeness auto
termination
  by (relation "measure length") auto

text \<open>
  \<open>String::from_utf8_lossy\<close>: the bytes are cut into well-formed characters and ill-formed pieces,
  the longest beginnings of characters; every piece becomes one replacement character. The cut gives
  whether the next piece is a character, and its length.
\<close>

definition byte_in :: "nat \<Rightarrow> nat \<Rightarrow> string \<Rightarrow> nat \<Rightarrow> bool" where
  "byte_in lo hi s i \<longleftrightarrow> i < length s \<and> lo \<le> of_char (s ! i) \<and> of_char (s ! i) \<le> hi"

definition second_byte_ok :: "string \<Rightarrow> bool" where
  "second_byte_ok s =
     (let b = of_char (s ! 0) :: nat
      in if b = 0xE0 then byte_in 0xA0 0xBF s 1
         else if b = 0xED then byte_in 0x80 0x9F s 1
         else if b = 0xF0 then byte_in 0x90 0xBF s 1
         else if b = 0xF4 then byte_in 0x80 0x8F s 1
         else byte_in 0x80 0xBF s 1)"

definition utf8_piece :: "string \<Rightarrow> bool \<times> nat" where
  "utf8_piece s =
     (case utf8_width (s ! 0) of
        None \<Rightarrow> (False, 1)
      | Some w \<Rightarrow>
          (if w = 1 then (True, 1)
           else if \<not> second_byte_ok s then (False, 1)
           else if w = 2 then (True, 2)
           else if \<not> byte_in 0x80 0xBF s 2 then (False, 2)
           else if w = 3 then (True, 3)
           else if \<not> byte_in 0x80 0xBF s 3 then (False, 3)
           else (True, 4)))"

lemma utf8_piece_pos: "0 < snd (utf8_piece s)"
  by (simp add: utf8_piece_def split: option.split)

definition REPLACEMENT :: string where
  "REPLACEMENT = [CHR 0xEF, CHR 0xBF, CHR 0xBD]"

function from_utf8_lossy :: "string \<Rightarrow> string" where
  "from_utf8_lossy [] = []"
| "from_utf8_lossy (b # bs) =
     (let piece = utf8_piece (b # bs)
      in (if fst piece then take (snd piece) (b # bs) else REPLACEMENT)
         @ from_utf8_lossy (drop (snd piece) (b # bs)))"
  by pat_completeness auto
termination
  by (relation "measure length") (auto simp: utf8_piece_pos)

function well_formed :: "string \<Rightarrow> bool" where
  "well_formed [] = True"
| "well_formed (b # bs) =
     (fst (utf8_piece (b # bs)) \<and> well_formed (drop (snd (utf8_piece (b # bs))) (b # bs)))"
  by pat_completeness auto
termination
  by (relation "measure length") (auto simp: utf8_piece_pos)

declare from_utf8_lossy.simps(2) [simp del] well_formed.simps(2) [simp del]

(* util.rs: fn percent_decode_query *)
definition percent_decode_query :: "string \<Rightarrow> string" where
  "percent_decode_query s = from_utf8_lossy (percent_decode_bytes s)"

lemma lossy_well_formed: "well_formed s \<Longrightarrow> from_utf8_lossy s = s"
proof (induction s rule: from_utf8_lossy.induct)
  case (2 b bs)
  then show ?case
    by (simp only: from_utf8_lossy.simps well_formed.simps Let_def if_True append_take_drop_id)
qed simp

lemma decode_encoded_byte: "percent_decode_bytes (percent_encode_byte b @ bs) = b # percent_decode_bytes bs"
proof (cases "is_unreserved b")
  case True
  then have "b \<noteq> CHR ''%''" "b \<noteq> CHR ''+''" by (auto simp: is_unreserved_def)
  then show ?thesis using True by (simp add: percent_encode_byte_def plain_byte_def)
next
  case False
  show ?thesis
  proof (cases "b = CHR '' ''")
    case True
    then show ?thesis using False by (simp add: percent_encode_byte_def hex_val_def char_of_eq_iff)
  next
    case space: False
    then show ?thesis using False by (simp add: percent_encode_byte_def)
  qed
qed

lemma decode_encoded_bytes: "percent_decode_bytes (percent_encode_query s) = s"
  by (induction s) (simp_all add: percent_encode_query_def decode_encoded_byte)

definition query_safe :: "char \<Rightarrow> bool" where
  "query_safe c \<longleftrightarrow> is_unreserved c \<or> c = CHR ''%''"

text \<open>
  Percent coding. Decoding an encoded text gives the text back, for every well-formed text, and the
  encoded text holds only unreserved characters and percent signs.
\<close>
theorem percent_roundtrip:
  "(well_formed s \<longrightarrow> percent_decode_query (percent_encode_query s) = s)
   \<and> list_all query_safe (percent_encode_query s)"
proof (intro conjI impI)
  show "percent_decode_query (percent_encode_query s) = s" if "well_formed s"
    using that by (simp add: percent_decode_query_def decode_encoded_bytes lossy_well_formed)
  have hex: "query_safe (hex_digit n)" if "n < 16" for n
    using less_16 [OF that] by (auto simp: hex_digit_def is_unreserved_def query_safe_def)
  have lits: "query_safe (CHR ''%'')" "query_safe (CHR ''2'')" "query_safe (CHR ''0'')"
    by (simp_all add: query_safe_def is_unreserved_def)
  have "is_unreserved b \<Longrightarrow> query_safe b" for b by (simp add: query_safe_def)
  then have "list_all query_safe (percent_encode_byte b)" for b
    by (simp add: percent_encode_byte_def lits hex)
  then show "list_all query_safe (percent_encode_query s)"
    by (auto simp: percent_encode_query_def list_all_iff)
qed

theorem percent_roundtrip_witness:
  "percent_decode_query (percent_encode_query (''a+b &c'' @ [CHR 0xE4, CHR 0xBD, CHR 0xA0]))
     = ''a+b &c'' @ [CHR 0xE4, CHR 0xBD, CHR 0xA0]"
proof -
  have "well_formed (''a+b &c'' @ [CHR 0xE4, CHR 0xBD, CHR 0xA0])"
    by (simp add: well_formed.simps utf8_piece_def utf8_width_def second_byte_ok_def byte_in_def Let_def)
  then show ?thesis using percent_roundtrip by blast
qed

section \<open>JSON string literals\<close>

(* util.rs: lines 151-166 the characters of push_json_string_escaped *)
definition json_escape :: "char \<Rightarrow> string" where
  "json_escape c =
     (if c = CHR 0x22 then [CHR 0x5C, CHR 0x22]
      else if c = CHR 0x5C then [CHR 0x5C, CHR 0x5C]
      else if c = CHR 0x0A then [CHR 0x5C, CHR ''n'']
      else if c = CHR 0x0D then [CHR 0x5C, CHR ''r'']
      else if c = CHR 0x09 then [CHR 0x5C, CHR ''t'']
      else if c = CHR 0x08 then [CHR 0x5C, CHR ''b'']
      else if c = CHR 0x0C then [CHR 0x5C, CHR ''f'']
      else if of_char c \<le> (0x1F :: nat)
           then CHR 0x5C # ''u00'' @ [hex_digit (of_char c div 16), hex_digit (of_char c mod 16)]
      else [c])"

(* util.rs: fn push_json_string_escaped *)
definition push_json_string_escaped :: "string \<Rightarrow> string \<Rightarrow> string" where
  "push_json_string_escaped out s = out @ [CHR 0x22] @ concat (map json_escape s) @ [CHR 0x22]"

text \<open>
  A reader of JSON string bodies as the standard defines them, up to the closing quote: no control
  characters, the short escapes, and four hexadecimal digits, of which only the codes of one byte occur here.
\<close>

definition json_short_escape :: "char \<Rightarrow> char option" where
  "json_short_escape c =
     (if c = CHR 0x22 \<or> c = CHR 0x5C \<or> c = CHR ''/'' then Some c
      else if c = CHR ''n'' then Some (CHR 0x0A) else if c = CHR ''r'' then Some (CHR 0x0D)
      else if c = CHR ''t'' then Some (CHR 0x09) else if c = CHR ''b'' then Some (CHR 0x08)
      else if c = CHR ''f'' then Some (CHR 0x0C) else None)"

definition json_unicode_escape :: "string \<Rightarrow> char option" where
  "json_unicode_escape s =
     (if length s < 4 \<or> hex_val (s ! 0) \<noteq> Some 0 \<or> hex_val (s ! 1) \<noteq> Some 0 then None
      else (case (hex_val (s ! 2), hex_val (s ! 3)) of
              (Some hi, Some lo) \<Rightarrow> (if hi * 16 + lo < 128 then Some (char_of (hi * 16 + lo)) else None)
            | _ \<Rightarrow> None))"

function json_read :: "string \<Rightarrow> (string \<times> string) option" where
  "json_read [] = None"
| "json_read (c # cs) =
     (if c = CHR 0x22 then Some ([], cs)
      else if c = CHR 0x5C then
        (if cs = [] then None
         else if hd cs = CHR ''u'' then
           (case json_unicode_escape (tl cs) of
              Some d \<Rightarrow> map_option (apfst ((#) d)) (json_read (drop 5 cs))
            | None \<Rightarrow> None)
         else
           (case json_short_escape (hd cs) of
              Some d \<Rightarrow> map_option (apfst ((#) d)) (json_read (tl cs))
            | None \<Rightarrow> None))
      else if of_char c \<le> (0x1F :: nat) then None
      else map_option (apfst ((#) c)) (json_read cs))"
  by pat_completeness auto
termination
  by (relation "measure length") auto

lemma json_read_escape: "json_read (json_escape c @ rest) = map_option (apfst ((#) c)) (json_read rest)"
proof (cases "c \<in> {CHR 0x22, CHR 0x5C, CHR 0x0A, CHR 0x0D, CHR 0x09, CHR 0x08, CHR 0x0C}")
  case True
  then show ?thesis by (auto simp: json_escape_def json_short_escape_def)
next
  case other: False
  show ?thesis
  proof (cases "of_char c \<le> (0x1F :: nat)")
    case True
    have "hex_digit 0 = CHR ''0''" by (simp add: hex_digit_def)
    then have zero: "hex_val (CHR ''0'') = Some 0" using hex_val_digit [of 0] by simp
    have "json_unicode_escape (CHR ''0'' # CHR ''0'' # hex_digit (of_char c div 16) # hex_digit (of_char c mod 16) # rest) = Some c"
      using True by (simp add: json_unicode_escape_def zero)
    then show ?thesis using True other by (simp add: json_escape_def)
  next
    case False
    then show ?thesis using other by (simp add: json_escape_def)
  qed
qed

text \<open>
  A JSON string literal is read back as the text it was written from, whatever the text holds and
  whatever follows the literal.
\<close>
theorem json_literal_roundtrip:
  "\<exists>body. push_json_string_escaped out s = out @ CHR 0x22 # body \<and> json_read (body @ rest) = Some (s, rest)"
proof -
  have "json_read ((concat (map json_escape s) @ [CHR 0x22]) @ rest) = Some (s, rest)"
    by (induction s) (simp_all add: json_read_escape)
  then show ?thesis
    by (intro exI [of _ "concat (map json_escape s) @ [CHR 0x22]"]) (simp add: push_json_string_escaped_def)
qed

section \<open>Decimal numbers in a buffer\<close>

(* util.rs: lines 845-851 the loop of usize_to_decimal_buf *)
function decimal_loop :: "string \<Rightarrow> nat \<Rightarrow> nat \<Rightarrow> string \<times> nat" where
  "decimal_loop buf n i =
     (if 0 < n \<and> 0 < i then decimal_loop (buf[i - 1 := char_of (48 + n mod 10)]) (n div 10) (i - 1) else (buf, i))"
  by pat_completeness auto
termination
  by (relation "measure (\<lambda>(buf, n, i). i)") auto

declare decimal_loop.simps [simp del]

(* util.rs: fn usize_to_decimal_buf *)
definition usize_to_decimal_buf :: "string \<Rightarrow> nat \<Rightarrow> string" where
  "usize_to_decimal_buf buf n =
     (let maximum = min (length buf) 20
      in if maximum = 0 then []
         else if n = 0 then take 1 (buf[0 := CHR ''0''])
         else (case decimal_loop buf n maximum of (buf', i) \<Rightarrow> take (maximum - i) (drop i buf')))"

text \<open>The loop writes the last digits of the number in front of what is already written.\<close>

lemma decimal_loop_writes:
  "i \<le> k \<Longrightarrow> k \<le> length buf \<Longrightarrow> 0 < n \<Longrightarrow>
   (case decimal_loop buf n i of (buf', j) \<Rightarrow> take (k - j) (drop j buf') =
      drop (length (show_nat n) - i) (show_nat n) @ take (k - i) (drop i buf))"
proof (induction buf n i rule: decimal_loop.induct)
  case (1 buf n i)
  show ?case
  proof (cases "i = 0")
    case True
    then show ?thesis by (simp add: decimal_loop.simps)
  next
    case False
    let ?buf = "buf[i - 1 := char_of (48 + n mod 10)]"
    have i: "i - 1 < length buf" "i - 1 \<le> k" using False 1(2,3) by auto
    have drop_step: "take (k - (i - 1)) (drop (i - 1) ?buf) = char_of (48 + n mod 10) # take (k - i) (drop i buf)"
    proof -
      have "drop (i - 1) ?buf = char_of (48 + n mod 10) # drop i buf"
        using i False by (simp add: Cons_nth_drop_Suc [symmetric] drop_update_cancel)
      moreover have "k - (i - 1) = Suc (k - i)" using False 1(2) by simp
      ultimately show ?thesis by simp
    qed
    have step: "decimal_loop buf n i = decimal_loop ?buf (n div 10) (i - 1)"
      using False 1(4) by (subst decimal_loop.simps) simp
    show ?thesis
    proof (cases "n < 10")
      case True
      then have "decimal_loop ?buf (n div 10) (i - 1) = (?buf, i - 1)" by (simp add: decimal_loop.simps)
      moreover have "show_nat n = [char_of (48 + n mod 10)]" using True by (simp add: show_nat.simps)
      ultimately show ?thesis using step drop_step False by simp
    next
      case big: False
      have shown: "show_nat n = show_nat (n div 10) @ [char_of (48 + n mod 10)]"
        using big by (subst show_nat.simps) simp
      obtain buf' j where d: "decimal_loop ?buf (n div 10) (i - 1) = (buf', j)" by fastforce
      have pos: "0 < n div 10" "0 < n" "0 < i" using big False 1(4) by auto
      have "take (k - j) (drop j buf') =
          drop (length (show_nat (n div 10)) - (i - 1)) (show_nat (n div 10)) @ char_of (48 + n mod 10) # take (k - i) (drop i buf)"
        using 1(1) [OF _ i(2) _ pos(1)] pos 1(3) d drop_step by simp
      moreover have "length (show_nat n) - i = length (show_nat (n div 10)) - (i - 1)"
        unfolding shown using pos(3) by simp
      moreover have "drop (length (show_nat (n div 10)) - (i - 1)) (show_nat n)
          = drop (length (show_nat (n div 10)) - (i - 1)) (show_nat (n div 10)) @ [char_of (48 + n mod 10)]"
        unfolding shown by simp
      ultimately show ?thesis unfolding step d by (simp only: prod.case append_assoc append_Cons append_Nil)
    qed
  qed
qed

lemma show_nat_length: "n < 10 ^ k \<Longrightarrow> 0 < k \<Longrightarrow> length (show_nat n) \<le> k"
proof (induction n arbitrary: k rule: show_nat.induct)
  case (1 n)
  show ?case
  proof (cases "n < 10")
    case True
    then show ?thesis using 1(3) by (simp add: show_nat.simps)
  next
    case False
    then obtain j where k: "k = Suc j" "0 < j" using 1(2,3) by (cases k; cases "k - 1") auto
    then have "n div 10 < 10 ^ j" using 1(2) by (simp add: less_mult_imp_div_less mult.commute)
    then show ?thesis using 1(1) [OF False] k False by (subst show_nat.simps) simp
  qed
qed

text \<open>
  A number is printed in the buffer as its decimal text. A buffer of at least twenty bytes holds
  every \<open>usize\<close>; a shorter one keeps the last digits and drops the leading ones.
\<close>
theorem decimal_in_buffer:
  assumes "n < 2 ^ 64"
  shows "(20 \<le> length buf \<longrightarrow> usize_to_decimal_buf buf n = show_nat n)
    \<and> (0 < length buf \<and> length buf < 20 \<longrightarrow>
         usize_to_decimal_buf buf n = drop (length (show_nat n) - length buf) (show_nat n))"
proof -
  have len: "length (show_nat n) \<le> 20" using show_nat_length [of n 20] assms by simp
  have "usize_to_decimal_buf buf n = drop (length (show_nat n) - min (length buf) 20) (show_nat n)" if "0 < length buf"
  proof (cases "n = 0")
    case True
    have "show_nat 0 = ''0''" by (simp add: show_nat.simps char_of_eq_iff)
    moreover have "min (length buf) 20 \<noteq> 0" "1 - min (length buf) 20 = 0" using that by (auto simp: Suc_le_eq)
    moreover have "take 1 (buf[0 := CHR ''0'']) = ''0''" using that by (cases buf) auto
    ultimately show ?thesis using True by (simp add: usize_to_decimal_buf_def Let_def)
  next
    case False
    then show ?thesis
      using that decimal_loop_writes [of "min (length buf) 20" "min (length buf) 20" buf n]
      by (simp add: usize_to_decimal_buf_def Let_def split_beta)
  qed
  then show ?thesis using len by (cases "buf = []") auto
qed

theorem decimal_in_buffer_witness:
  "usize_to_decimal_buf (replicate 20 (CHR ''x'')) 4096 = show_nat 4096
   \<and> usize_to_decimal_buf ''xx'' 4096 = drop (length (show_nat 4096) - 2) (show_nat 4096)"
proof -
  have "(4096 :: nat) < 2 ^ 64" by simp
  from decimal_in_buffer [OF this, of "replicate 20 (CHR ''x'')"] decimal_in_buffer [OF this, of "''xx''"]
  show ?thesis by (simp add: numeral_2_eq_2)
qed

section \<open>Comparison in constant time\<close>

(* util.rs: fn constant_time_eq *)
definition constant_time_eq :: "string \<Rightarrow> string \<Rightarrow> bool" where
  "constant_time_eq a b =
     (if length a \<noteq> length b then False
      else fold (\<lambda>(x, y) acc. or acc (xor (of_char x) (of_char y))) (zip a b) (0 :: u8) = 0)"

lemma or_zero: "or a b = 0 \<longleftrightarrow> a = 0 \<and> b = (0 :: 'a::len word)"
  by (auto simp: bit_eq_iff bit_simps)

lemma xor_zero: "xor a b = 0 \<longleftrightarrow> a = (b :: 'a::len word)"
  by (auto simp: bit_eq_iff bit_simps)

lemma fold_or_zero:
  "fold (\<lambda>(x, y) acc. or acc (xor (f x) (f y))) ps acc = (0 :: 'a::len word)
   \<longleftrightarrow> acc = 0 \<and> (\<forall>(x, y) \<in> set ps. f x = f y)"
  by (induction ps arbitrary: acc) (auto simp: or_zero xor_zero)

lemma of_char_word_inj: "(of_char x :: u8) = of_char y \<longleftrightarrow> x = y"
proof
  assume "(of_char x :: u8) = of_char y"
  then have "(of_nat (of_char x) :: u8) = of_nat (of_char y)" by (simp only: of_nat_of_char)
  then have "unat (of_nat (of_char x) :: u8) = unat (of_nat (of_char y) :: u8)" by simp
  then have "(of_char x :: nat) = of_char y" using nat_of_char_less_256 by (simp add: unsigned_of_nat take_bit_nat_eq_self)
  then show "x = y" by simp
qed simp

text \<open>
  The comparison in constant time decides equality: accumulating the differences of all bytes
  answers exactly when the texts are the same.
\<close>
theorem constant_time_eq_correct: "constant_time_eq a b \<longleftrightarrow> a = b"
proof (cases "length a = length b")
  case True
  then have "(\<forall>(x, y) \<in> set (zip a b). x = y) \<longleftrightarrow> a = b"
    by (induction a b rule: list_induct2) auto
  then show ?thesis using True by (simp add: constant_time_eq_def fold_or_zero of_char_word_inj)
qed (auto simp: constant_time_eq_def)

end
