(* ===== verification/Url.thy ===== *)
theory Url
  imports Codec
begin

text \<open>
  The guard against requests to the local network (\<open>is_private_url\<close> in \<open>src/src/util.rs\<close>), exact on
  dotted addresses.
\<close>

section \<open>The test\<close>

definition strip_prefix :: "string \<Rightarrow> string \<Rightarrow> string option" where
  "strip_prefix p s = (if prefix p s then Some (drop (length p) s) else None)"

(* util.rs: lines 860-874 the host of is_private_url *)
definition url_host :: "string \<Rightarrow> string" where
  "url_host url =
     (let after_scheme = (case strip_prefix ''https://'' url of
            Some r \<Rightarrow> r
          | None \<Rightarrow> (case strip_prefix ''http://'' url of Some r \<Rightarrow> r | None \<Rightarrow> url))
      in trim (hd (split_on (CHR '':'') (hd (split_on (CHR ''/'') after_scheme)))))"

(* util.rs: fn is_private_url *)
definition is_private_url :: "string \<Rightarrow> bool" where
  "is_private_url url =
     (let host = url_host url
      in if host = [] then True
         else if host = ''localhost'' \<or> host = ''0.0.0.0'' \<or> prefix ''127.'' host
                 \<or> host = ''[::1]'' \<or> prefix ''[::ffff:127.'' host then True
         else if prefix ''10.'' host \<or> prefix ''192.168.'' host then True
         else if prefix ''172.'' host
                 \<and> (case (if 1 < length (split_on (CHR ''.'') host)
                           then parse_unsigned 255 (split_on (CHR ''.'') host ! 1) else None) of
                       Some second \<Rightarrow> 16 \<le> second \<and> second \<le> 31
                     | None \<Rightarrow> False) then True
         else prefix ''169.254.'' host \<or> prefix ''[fe80:'' host)"

section \<open>Prefixes\<close>

lemma prefix_dotted:
  "c \<notin> set x \<Longrightarrow> c \<notin> set y \<Longrightarrow> prefix (x @ c # x') (y @ c # y') \<longleftrightarrow> x = y \<and> prefix x' y'"
proof (induction x arbitrary: y)
  case Nil
  then show ?case by (cases y) auto
next
  case (Cons a x)
  then show ?case by (cases y) auto
qed

section \<open>Dotted addresses\<close>

definition dotted :: "nat \<Rightarrow> nat \<Rightarrow> nat \<Rightarrow> nat \<Rightarrow> string" where
  "dotted a b c d = show_nat a @ CHR ''.'' # show_nat b @ CHR ''.'' # show_nat c @ CHR ''.'' # show_nat d"

definition private_ipv4 :: "nat \<Rightarrow> nat \<Rightarrow> nat \<Rightarrow> nat \<Rightarrow> bool" where
  "private_ipv4 a b c d \<longleftrightarrow>
     a = 127 \<or> a = 10 \<or> (a = 192 \<and> b = 168) \<or> (a = 172 \<and> 16 \<le> b \<and> b \<le> 31) \<or> (a = 169 \<and> b = 254)
     \<or> (a = 0 \<and> b = 0 \<and> c = 0 \<and> d = 0)"

lemma shown: "show_nat 127 = ''127''" "show_nat 10 = ''10''" "show_nat 192 = ''192''" "show_nat 168 = ''168''"
  "show_nat 172 = ''172''" "show_nat 169 = ''169''" "show_nat 254 = ''254''" "show_nat 0 = ''0''"
  by (simp_all add: show_nat.simps char_of_eq_iff)

lemma dot_avoided [simp]: "CHR ''.'' \<notin> set (show_nat n)"
  by (rule show_nat_avoids) (simp add: is_digit_def)

lemma dotted_prefixes:
  "prefix ''127.'' (dotted a b c d) \<longleftrightarrow> a = 127" "prefix ''10.'' (dotted a b c d) \<longleftrightarrow> a = 10"
  "prefix ''172.'' (dotted a b c d) \<longleftrightarrow> a = 172"
  "prefix ''192.168.'' (dotted a b c d) \<longleftrightarrow> a = 192 \<and> b = 168"
  "prefix ''169.254.'' (dotted a b c d) \<longleftrightarrow> a = 169 \<and> b = 254"
  "dotted a b c d = ''0.0.0.0'' \<longleftrightarrow> a = 0 \<and> b = 0 \<and> c = 0 \<and> d = 0"
proof -
  have one: "prefix (show_nat k @ ''.'') (dotted a b c d) \<longleftrightarrow> a = k" for k
    using prefix_dotted [of "CHR ''.''" "show_nat k" "show_nat a" "[]"] by (auto simp: dotted_def show_nat_inj)
  have two: "prefix (show_nat k @ CHR ''.'' # show_nat j @ ''.'') (dotted a b c d) \<longleftrightarrow> a = k \<and> b = j" for k j
    using prefix_dotted [of "CHR ''.''" "show_nat j" "show_nat b" "[]"] by (auto simp: dotted_def prefix_dotted show_nat_inj)
  show "prefix ''127.'' (dotted a b c d) \<longleftrightarrow> a = 127" "prefix ''10.'' (dotted a b c d) \<longleftrightarrow> a = 10"
    "prefix ''172.'' (dotted a b c d) \<longleftrightarrow> a = 172"
    using one [of 127] one [of 10] one [of 172] by (simp_all add: shown)
  show "prefix ''192.168.'' (dotted a b c d) \<longleftrightarrow> a = 192 \<and> b = 168"
    "prefix ''169.254.'' (dotted a b c d) \<longleftrightarrow> a = 169 \<and> b = 254"
    using two [of 192 168] two [of 169 254] by (simp_all add: shown)
  have "split_on (CHR ''.'') (dotted a b c d) = [show_nat a, show_nat b, show_nat c, show_nat d]"
    by (simp add: dotted_def split_on_append split_on_plain)
  moreover have "split_on (CHR ''.'') ''0.0.0.0'' = [show_nat 0, show_nat 0, show_nat 0, show_nat 0]"
    by (simp add: shown)
  moreover have "dotted 0 0 0 0 = ''0.0.0.0''" by (simp add: dotted_def shown)
  ultimately show "dotted a b c d = ''0.0.0.0'' \<longleftrightarrow> a = 0 \<and> b = 0 \<and> c = 0 \<and> d = 0"
    by (metis list.inject show_nat_inj)
qed

lemma split_dotted: "split_on (CHR ''.'') (dotted a b c d) = [show_nat a, show_nat b, show_nat c, show_nat d]"
  by (simp add: dotted_def split_on_append split_on_plain)

lemma dotted_ends: obtains x xs y where "dotted a b c d = x # xs @ [y]" "is_digit x" "is_digit y"
proof -
  obtain x xs where a: "show_nat a = x # xs" "is_digit x" by (rule show_nat_cons [of a])
  obtain ys y where d: "show_nat d = ys @ [y]" "is_digit y"
    using show_nat_digits [of d] by (cases "show_nat d" rule: rev_cases) auto
  show ?thesis
    by (rule that [of x "xs @ CHR ''.'' # show_nat b @ CHR ''.'' # show_nat c @ CHR ''.'' # ys" y])
      (simp_all add: dotted_def a d)
qed

lemma dotted_host:
  assumes "scheme \<in> {''http://'', ''https://'', []}" "tail = [] \<or> hd tail = CHR ''/'' \<or> hd tail = CHR '':''"
  shows "url_host (scheme @ dotted a b c d @ tail) = dotted a b c d"
proof -
  obtain x xs y where e: "dotted a b c d = x # xs @ [y]" "is_digit x" "is_digit y" by (rule dotted_ends)
  have no: "z \<noteq> CHR ''/'' \<and> z \<noteq> CHR '':''" if "z \<in> set (dotted a b c d)" for z
  proof -
    have "is_digit z \<or> z = CHR ''.''" using that show_nat_digits by (auto simp: dotted_def list_all_iff)
    then show ?thesis by (auto simp: is_digit_def)
  qed
  have "takeWhile (\<lambda>z. z \<noteq> CHR ''/'') (dotted a b c d @ tail) = dotted a b c d @ takeWhile (\<lambda>z. z \<noteq> CHR ''/'') tail"
    by (rule takeWhile_append2) (use no in blast)
  moreover have "takeWhile (\<lambda>z. z \<noteq> CHR '':'') (dotted a b c d @ takeWhile (\<lambda>z. z \<noteq> CHR ''/'') tail) = dotted a b c d"
  proof -
    have "takeWhile (\<lambda>z. z \<noteq> CHR '':'') (takeWhile (\<lambda>z. z \<noteq> CHR ''/'') tail) = []"
      using assms(2) by (cases tail) auto
    then show ?thesis using takeWhile_append2 [of "dotted a b c d" "\<lambda>z. z \<noteq> CHR '':''"] no by simp
  qed
  moreover have "(case strip_prefix ''https://'' (scheme @ dotted a b c d @ tail) of Some r \<Rightarrow> r
       | None \<Rightarrow> (case strip_prefix ''http://'' (scheme @ dotted a b c d @ tail) of Some r \<Rightarrow> r
           | None \<Rightarrow> scheme @ dotted a b c d @ tail)) = dotted a b c d @ tail"
    using assms(1) e(2) by (auto simp: strip_prefix_def e(1) is_digit_def)
  moreover have "trim (dotted a b c d) = dotted a b c d"
    unfolding e(1) by (rule trim_stamp) (use e in simp_all)
  ultimately show ?thesis by (simp add: url_host_def hd_split_on)
qed

text \<open>
  The guard is exact on dotted addresses. A URL with any scheme the code knows or none, a dotted
  address and any port or path is refused exactly when the address is in the loopback, the private,
  or the link-local ranges, or is the unspecified address.
\<close>
theorem private_url_exact:
  assumes "scheme \<in> {''http://'', ''https://'', []}" "tail = [] \<or> hd tail = CHR ''/'' \<or> hd tail = CHR '':''"
    and "b < 256"
  shows "is_private_url (scheme @ dotted a b c d @ tail) \<longleftrightarrow> private_ipv4 a b c d"
proof -
  obtain x xs y where e: "dotted a b c d = x # xs @ [y]" "is_digit x" "is_digit y" by (rule dotted_ends)
  have odd: "dotted a b c d \<noteq> []" "dotted a b c d \<noteq> ''localhost''" "dotted a b c d \<noteq> ''[::1]''"
    "\<not> prefix ''[::ffff:127.'' (dotted a b c d)" "\<not> prefix ''[fe80:'' (dotted a b c d)"
    using e(2) by (auto simp: e(1) is_digit_def)
  have "parse_unsigned 255 (show_nat b) = Some b" using assms(3) by (intro parse_show_unsigned) simp
  then show ?thesis
    unfolding is_private_url_def dotted_host [OF assms(1,2)] Let_def
    by (auto simp: odd dotted_prefixes split_dotted private_ipv4_def)
qed

theorem private_url_exact_witness:
  "is_private_url (''http://'' @ dotted 172 20 0 5 @ '':8080/x'') \<and> \<not> is_private_url (''http://'' @ dotted 172 32 0 5 @ '':8080/x'')"
  using private_url_exact [of "''http://''" "'':8080/x''" 20 172 0 5] private_url_exact [of "''http://''" "'':8080/x''" 32 172 0 5]
  by (simp add: private_ipv4_def)

text \<open>
  The tests for addresses in brackets never apply: the host is cut at the first colon. The loopback
  address of IPv6 passes the guard, as does a loopback address behind a user name.
\<close>

lemma ipv6_loopback_passes: "\<not> is_private_url ''http://[::1]/''" "\<not> is_private_url ''http://u@127.0.0.1/''"
proof -
  have "trim ''['' = ''[''" "trim ''u@127.0.0.1'' = ''u@127.0.0.1''"
    by (simp_all add: trim_def trim_start.simps trim_end.simps leading_def trailing_def whitespace_def suffix_def)
  then show "\<not> is_private_url ''http://[::1]/''" "\<not> is_private_url ''http://u@127.0.0.1/''"
    by (simp_all add: is_private_url_def url_host_def strip_prefix_def Let_def)
qed

end
