(* ===== verification/Redact.thy ===== *)
theory Redact
  imports Codec
begin

text \<open>
  The redaction of credentials in tool output (\<open>scrub_credentials\<close> in \<open>src/src/util.rs\<close>): lines
  whose key is sensitive keep the first four characters of their value. The redaction of configuration
  text by regular expressions is not modelled.
\<close>

section \<open>Keys\<close>

definition is_ascii_punctuation :: "char \<Rightarrow> bool" where
  "is_ascii_punctuation c \<longleftrightarrow>
     (let b = of_char c :: nat
      in (33 \<le> b \<and> b \<le> 47) \<or> (58 \<le> b \<and> b \<le> 64) \<or> (91 \<le> b \<and> b \<le> 96) \<or> (123 \<le> b \<and> b \<le> 126))"

definition ascii_lower :: "char \<Rightarrow> char" where
  "ascii_lower c =
     (let b = of_char c :: nat in if 65 \<le> b \<and> b \<le> 90 then char_of (b + 32) else c)"

definition eq_ignore_ascii_case :: "string \<Rightarrow> string \<Rightarrow> bool" where
  "eq_ignore_ascii_case a b \<longleftrightarrow> map ascii_lower a = map ascii_lower b"

definition trim_matches :: "(char \<Rightarrow> bool) \<Rightarrow> string \<Rightarrow> string" where
  "trim_matches p s = rev (dropWhile p (rev (dropWhile p s)))"

(* util.rs: lines 645-662 the sensitive names *)
definition sensitive_names :: "string list" where
  "sensitive_names =
     [''token'', ''api_key'', ''api-key'', ''apikey'', ''client_secret'', ''client-secret'', ''password'',
      ''passwd'', ''secret'', ''secret_key'', ''secret-key'', ''credential'', ''authorization'', ''cookie'',
      ''access_key'', ''access_token'', ''refresh_token'', ''private_key'']"

(* util.rs: fn is_sensitive_key *)
definition is_sensitive_key :: "string \<Rightarrow> bool" where
  "is_sensitive_key raw_key =
     (let key = trim (trim_matches
          (\<lambda>c. c = CHR 0x22 \<or> c = CHR 0x27 \<or> c = CHR ''{'' \<or> c = CHR ''}'' \<or> c = CHR ''['' \<or> c = CHR '']''
             \<or> c = CHR ''('' \<or> c = CHR '')'')
          (dropWhile (\<lambda>c. is_ascii_punctuation c \<and> c \<noteq> CHR ''_'' \<and> c \<noteq> CHR ''-'') (trim raw_key)))
      in list_ex (eq_ignore_ascii_case key) sensitive_names)"

text \<open>The scan for the separator; a colon before a slash belongs to a URL.\<close>

(* util.rs: lines 626-633 the loop of find_kv_separator *)
fun kv_scan :: "nat \<Rightarrow> string \<Rightarrow> nat option" where
  "kv_scan i [] = None"
| "kv_scan i (b # bs) =
     (if b = CHR '':'' \<and> bs \<noteq> [] \<and> hd bs = CHR ''/'' then kv_scan (Suc i) bs
      else if b = CHR ''='' \<or> b = CHR '':'' then Some i
      else kv_scan (Suc i) bs)"

(* util.rs: fn find_kv_separator *)
definition find_kv_separator :: "string \<Rightarrow> nat option" where
  "find_kv_separator line = kv_scan 0 line"

(* util.rs: fn line_has_sensitive_kv *)
definition line_has_sensitive_kv :: "string \<Rightarrow> bool" where
  "line_has_sensitive_kv line =
     (case find_kv_separator line of None \<Rightarrow> False | Some pos \<Rightarrow> is_sensitive_key (take pos line))"

section \<open>Values\<close>

(* util.rs: fn secret_prefix *)
definition secret_prefix :: "string \<Rightarrow> string" where
  "secret_prefix s = (if 4 < length (char_starts s) then take (char_starts s ! 4) s else s)"

(* util.rs: fn strip_ascii_prefix *)
definition strip_ascii_prefix :: "string \<Rightarrow> string \<Rightarrow> string option" where
  "strip_ascii_prefix s prefix_lower =
     (let n = length prefix_lower
      in if length s < n \<or> \<not> is_char_boundary s n then None
         else if eq_ignore_ascii_case (take n s) prefix_lower then Some (drop n s) else None)"

definition redacted :: "string \<Rightarrow> string" where
  "redacted prefix_text = prefix_text @ ELLIPSIS @ ''[REDACTED]''"

(* util.rs: fn redact_secret_value *)
definition redact_secret_value :: "string \<Rightarrow> string option" where
  "redact_secret_value value =
     (let trimmed = trim value
      in if length trimmed < 8 then None
         else case strip_ascii_prefix trimmed ''bearer '' of
           Some rest \<Rightarrow> Some (''Bearer '' @ redacted (secret_prefix rest))
         | None \<Rightarrow>
             (case strip_ascii_prefix trimmed ''basic '' of
                Some rest \<Rightarrow> Some (''Basic '' @ redacted (secret_prefix rest))
              | None \<Rightarrow> Some (redacted (secret_prefix trimmed))))"

text \<open>The end of a bare value: the first white space or closing delimiter, or the end of the text.\<close>

(* util.rs: lines 747-749 the end of a bare value *)
fun value_end :: "string \<Rightarrow> nat" where
  "value_end [] = 0"
| "value_end (c # cs) =
     (if leading (c # cs) \<noteq> None \<or> c = CHR '','' \<or> c = CHR ''}'' \<or> c = CHR '']'' \<or> c = CHR '';''
      then 0 else Suc (value_end cs))"

(* util.rs: fn split_auth_scheme_value *)
definition split_auth_scheme_value :: "string \<Rightarrow> (string \<times> string) option" where
  "split_auth_scheme_value s =
     (case position (\<lambda>c. c = CHR '' '') s of
        None \<Rightarrow> None
      | Some space \<Rightarrow>
          (let scheme = take space s
           in if \<not> (eq_ignore_ascii_case scheme ''bearer'' \<or> eq_ignore_ascii_case scheme ''basic'') then None
              else
                (let rest = drop (Suc space) s;
                     token = take (value_end rest) rest
                 in if token = [] then None else Some (scheme, token))))"

(* util.rs: fn redact_value_fragment *)
definition redact_value_fragment :: "string \<Rightarrow> string option" where
  "redact_value_fragment fragment =
     (let trimmed = trim_start fragment;
          leading_ws = take (length fragment - length trimmed) fragment
      in case trimmed of
           [] \<Rightarrow> None
         | quote # rest \<Rightarrow>
             (if quote = CHR 0x22 \<or> quote = CHR 0x27 then
                (case position (\<lambda>c. c = quote) rest of
                   Some close_rel \<Rightarrow>
                     map_option (\<lambda>red. leading_ws @ quote # red @ quote # drop (Suc close_rel) rest)
                       (redact_secret_value (take close_rel rest))
                 | None \<Rightarrow> map_option (\<lambda>red. leading_ws @ quote # red) (redact_secret_value rest))
              else
                (case split_auth_scheme_value trimmed of
                   Some (scheme, token) \<Rightarrow>
                     map_option (\<lambda>red. leading_ws @ red @ drop (length scheme + 1 + length token) trimmed)
                       (redact_secret_value (scheme @ '' '' @ token))
                 | None \<Rightarrow>
                     map_option (\<lambda>red. leading_ws @ red @ drop (value_end trimmed) trimmed)
                       (redact_secret_value (take (value_end trimmed) trimmed)))))"

(* util.rs: fn scrub_kv_line *)
definition scrub_kv_line :: "string \<Rightarrow> string" where
  "scrub_kv_line line =
     (case find_kv_separator line of
        Some pos \<Rightarrow>
          (case redact_value_fragment (drop (pos + 1) line) of
             Some red \<Rightarrow> take (pos + 1) line @ red
           | None \<Rightarrow> line)
      | None \<Rightarrow> line)"

definition scrub_line :: "string \<Rightarrow> string" where
  "scrub_line line = (if line_has_sensitive_kv line then scrub_kv_line line else line)"

fun join_lines :: "string list \<Rightarrow> string" where
  "join_lines [] = []"
| "join_lines [l] = l"
| "join_lines (l # ls) = l @ CHR 0x0A # join_lines ls"

(* util.rs: fn scrub_credentials *)
definition scrub_credentials :: "string \<Rightarrow> string" where
  "scrub_credentials input = join_lines (map scrub_line (split_on (CHR 0x0A) input))"

section \<open>What a scrubbed line reveals\<close>

text \<open>A bare secret: printable characters without quotes and delimiters, at least eight of them.\<close>

definition secret_char :: "char \<Rightarrow> bool" where
  "secret_char c \<longleftrightarrow> graphic c \<and> c \<noteq> CHR 0x22 \<and> c \<noteq> CHR 0x27 \<and> c \<noteq> CHR '','' \<and> c \<noteq> CHR ''}''
     \<and> c \<noteq> CHR '']'' \<and> c \<noteq> CHR '';''"

definition bare_secret :: "string \<Rightarrow> bool" where
  "bare_secret v \<longleftrightarrow> 8 \<le> length v \<and> list_all secret_char v"

lemma bare_parts:
  assumes "bare_secret v"
  shows "v \<noteq> []" "trim v = v" "trim_start v = v" "value_end v = length v"
    "position (\<lambda>c. c = CHR '' '') v = None" "secret_prefix v = take 4 v"
proof -
  have g: "graphic c" if "c \<in> set v" for c using assms that by (auto simp: bare_secret_def secret_char_def list_all_iff)
  show ne: "v \<noteq> []" using assms by (auto simp: bare_secret_def)
  show "trim v = v" by (rule trim_graphic [OF ne]) (use ne g in auto)
  have "leading v = None" using ne g by (cases v) (auto simp: leading_graphic)
  then show "trim_start v = v" by (simp add: trim_start.simps)
  have "list_all secret_char v" using assms by (simp add: bare_secret_def)
  then show "value_end v = length v"
    by (induction v) (auto simp: secret_char_def leading_graphic)
  show "position (\<lambda>c. c = CHR '' '') v = None" using g [of "CHR '' ''"] by (auto simp: position_None graphic_def)
  have "\<not> is_continuation c" if "c \<in> set v" for c using g [OF that] by (auto simp: graphic_def is_continuation_def)
  then have "char_starts v = [0..<length v]" by (auto simp: char_starts_def filter_id_conv)
  then show "secret_prefix v = take 4 v" using assms by (simp add: secret_prefix_def bare_secret_def)
qed

lemma no_scheme:
  assumes "bare_secret v" "CHR '' '' \<in> set p"
  shows "strip_ascii_prefix v p = None"
proof (rule ccontr)
  assume "strip_ascii_prefix v p \<noteq> None"
  then have e: "map ascii_lower (take (length p) v) = map ascii_lower p"
    by (auto simp: strip_ascii_prefix_def eq_ignore_ascii_case_def Let_def split: if_splits)
  have "ascii_lower (CHR '' '') \<in> set (map ascii_lower p)" using assms(2) by simp
  then have "CHR '' '' \<in> set (map ascii_lower (take (length p) v))"
    unfolding e by (simp add: ascii_lower_def)
  then obtain c where c: "c \<in> set v" "ascii_lower c = CHR '' ''" by (auto dest: in_set_takeD)
  then have "graphic c" using assms(1) by (auto simp: bare_secret_def secret_char_def list_all_iff)
  then have "(of_char (ascii_lower c) :: nat) \<noteq> 32"
    by (auto simp: ascii_lower_def Let_def graphic_def)
  then show False using c(2) by simp
qed

lemma redact_bare:
  assumes "bare_secret v"
  shows "redact_secret_value v = Some (redacted (take 4 v))"
  using bare_parts [OF assms] no_scheme [OF assms] assms
  by (simp add: redact_secret_value_def bare_secret_def)

lemma kv_scan_key:
  "CHR ''='' \<notin> set key \<Longrightarrow> CHR '':'' \<notin> set key \<Longrightarrow> kv_scan i (key @ rest) = kv_scan (i + length key) rest"
  by (induction key arbitrary: i) auto

definition kv_separators :: "string list" where
  "kv_separators = [''='', '': '', ''= '']"

lemma fragment_bare:
  assumes "bare_secret v" "ws = [] \<or> ws = '' ''"
  shows "redact_value_fragment (ws @ v) = Some (ws @ redacted (take 4 v))"
proof -
  note parts = bare_parts [OF assms(1)]
  obtain c cs where v: "v = c # cs" "c \<noteq> CHR 0x22" "c \<noteq> CHR 0x27" "leading v = None"
  proof (cases v)
    case (Cons c cs)
    have s: "secret_char c" using assms(1) Cons by (simp add: bare_secret_def)
    then show ?thesis using that [of c cs] Cons leading_graphic [of c cs] by (auto simp: secret_char_def)
  qed (use parts in simp)
  have start: "trim_start (ws @ v) = v"
  proof (cases "ws = []")
    case True
    then show ?thesis using parts by simp
  next
    case False
    then have ws: "ws = '' ''" using assms(2) by simp
    have "leading (CHR '' '' # v) = Some '' ''" by (simp add: leading_def whitespace_def)
    then have "trim_start (CHR '' '' # v) = trim_start v" by (subst trim_start.simps) simp
    then show ?thesis using ws parts(3) by simp
  qed
  have auth: "split_auth_scheme_value v = None" using parts(5) by (simp add: split_auth_scheme_value_def)
  have "redact_value_fragment (ws @ v) = map_option (\<lambda>red. ws @ red @ drop (value_end v) v) (redact_secret_value (take (value_end v) v))"
    using v(2,3) auth start unfolding v(1) redact_value_fragment_def Let_def
    by (simp del: value_end.simps append_assoc)
  then show ?thesis using parts(4) redact_bare [OF assms(1)] by simp
qed

text \<open>
  A scrubbed credential reveals four characters. In any output, a line of a sensitive key with a bare
  value of at least eight characters becomes the key, the separator, the first four characters and the
  mark, whatever the rest of the value; lines without a sensitive key are left alone; and the lines around
  do not matter.
\<close>
theorem scrub_reveals_prefix:
  assumes "is_sensitive_key key" "CHR ''='' \<notin> set key" "CHR '':'' \<notin> set key" "CHR 0x0A \<notin> set key"
    and "bare_secret v" "sep \<in> set kv_separators"
    and "CHR 0x0A \<notin> set l" "\<not> line_has_sensitive_kv l"
  shows "scrub_credentials (key @ sep @ v @ CHR 0x0A # l @ CHR 0x0A # rest)
       = key @ sep @ redacted (take 4 v) @ CHR 0x0A # l @ CHR 0x0A # scrub_credentials rest"
proof -
  obtain b ws where sep: "sep = b # ws" "b = CHR ''='' \<or> b = CHR '':''" "ws = [] \<or> ws = '' ''" "b = CHR '':'' \<longrightarrow> ws \<noteq> []"
    using assms(6) by (auto simp: kv_separators_def)
  have colon: "\<not> (b = CHR '':'' \<and> hd (ws @ v) = CHR ''/'')" using sep by auto
  have "kv_scan n (b # ws @ v) = Some n" for n using sep(2) colon by auto
  then have pos: "find_kv_separator (key @ sep @ v) = Some (length key)"
    using kv_scan_key [OF assms(2,3), of 0 "sep @ v"] by (simp add: find_kv_separator_def sep(1))
  have line: "scrub_line (key @ sep @ v) = key @ sep @ redacted (take 4 v)"
    using fragment_bare [OF assms(5) sep(3)] assms(1)
    by (simp add: scrub_line_def line_has_sensitive_kv_def scrub_kv_line_def pos) (simp add: sep(1))
  have other: "scrub_line l = l" using assms(8) by (simp add: scrub_line_def)
  have nl: "CHR 0x0A \<notin> set (key @ sep @ v)"
  proof -
    have "\<not> secret_char (CHR 0x0A)" by (simp add: secret_char_def graphic_def)
    then have "CHR 0x0A \<notin> set v" using assms(5) unfolding bare_secret_def list_all_iff by blast
    moreover have "CHR 0x0A \<notin> set sep" using assms(6) by (auto simp: kv_separators_def)
    ultimately show ?thesis using assms(4) by simp
  qed
  have split: "split_on (CHR 0x0A) (x @ CHR 0x0A # y) = x # split_on (CHR 0x0A) y" if "CHR 0x0A \<notin> set x" for x y
    using that by (induction x) auto
  have ne: "map scrub_line (split_on (CHR 0x0A) rest) \<noteq> []"
    by (induction rest) (auto split: list.split)
  have join: "join_lines (a # bs) = a @ CHR 0x0A # join_lines bs" if "bs \<noteq> []" for a bs
    using that by (cases bs) auto
  have "split_on (CHR 0x0A) (key @ sep @ v @ CHR 0x0A # l @ CHR 0x0A # rest) = (key @ sep @ v) # l # split_on (CHR 0x0A) rest"
    using split [OF nl, of "l @ CHR 0x0A # rest"] split [OF assms(7), of rest] by simp
  then show ?thesis
    using line other join ne by (simp add: scrub_credentials_def)
qed

theorem scrub_reveals_prefix_witness:
  "scrub_credentials (''API_KEY'' @ ''='' @ ''sk-12345678'' @ CHR 0x0A # ''ok'' @ CHR 0x0A # [])
     = ''API_KEY=sk-1'' @ ELLIPSIS @ ''[REDACTED]'' @ CHR 0x0A # ''ok'' @ CHR 0x0A # []"
proof -
  have k: "is_sensitive_key ''API_KEY''"
  proof -
    have "trim ''API_KEY'' = ''API_KEY''" by (rule trim_graphic) (simp_all add: graphic_def)
    moreover have "map ascii_lower ''API_KEY'' = map ascii_lower ''api_key''"
      by (simp add: ascii_lower_def char_of_eq_iff)
    ultimately show ?thesis
      by (simp add: is_sensitive_key_def trim_matches_def is_ascii_punctuation_def eq_ignore_ascii_case_def sensitive_names_def)
  qed
  have v: "bare_secret ''sk-12345678''" by (simp add: bare_secret_def secret_char_def graphic_def)
  have l: "\<not> line_has_sensitive_kv ''ok''" by (simp add: line_has_sensitive_kv_def find_kv_separator_def)
  have "scrub_credentials [] = []" by (simp add: scrub_credentials_def scrub_line_def line_has_sensitive_kv_def find_kv_separator_def)
  then show ?thesis
    using scrub_reveals_prefix [OF k _ _ _ v, of "''=''" "''ok''" "[]"] l
    by (simp add: kv_separators_def redacted_def)
qed

end
