(* ===== verification/Dispatch.thy ===== *)
theory Dispatch
  imports Admission Error_Model Tracked_Queue
begin

text \<open>
  Outbound dispatch (\<open>src/src/channels/dispatch.rs\<close>): sending through the sink of a channel with
  retries, admission and the circuit breaker, the buffer of deferred messages and its replay, and the two
  worker loops. Sinks, the driver of the active channel, the preparation of the text for a channel
  (\<open>src/src/channels/outbound_text.rs\<close>) and what happens while the thread sleeps are parameters.
\<close>

section \<open>The world of a dispatcher\<close>

text \<open>
  What a dispatch reads and changes: the orchestrator, the sources of the runtime mode, the uptime of the
  breaker, the monotonic clock, the counter of queued sends, and everything behind the sinks. Other threads
  act while this one sends, sleeps or waits for a message, so all three are arbitrary functions of the whole world.
\<close>

record 's dworld =
  dw_orch :: OrchestratorState
  dw_mode :: RuntimeModeSource
  dw_uptime :: u32
  dw_time :: nat
  dw_next_id :: u32
  dw_outer :: 's

(* channels/send.rs: struct QueuedOutboundMessage *)
record 'json QueuedOutboundMessage =
  qo_transport_send_id :: u32
  qo_chat_id :: string
  qo_content :: string
  qo_body :: "'json CanonicalMessageBody"
  qo_platform_thread_id :: string
  qo_platform_message_id :: string
  qo_req_id :: "string option"
  qo_outbound_kind :: OutboundKind

type_synonym 's answer = "'s dworld \<times> (Error + unit)"

record ('s, 'json) dispatcher =
  dp_build :: build
  dp_sinks :: "string \<Rightarrow> ('json PcMsg \<Rightarrow> string \<Rightarrow> 's dworld \<Rightarrow> 's answer) option"
  dp_driver :: "'json QueuedOutboundMessage \<Rightarrow> nat \<Rightarrow> 's dworld \<Rightarrow> 's answer"
  dp_prepare :: "'json PcMsg \<Rightarrow> 'json PcMsg \<times> string"
  dp_pause :: "nat \<Rightarrow> 's dworld \<Rightarrow> 's dworld"
  dp_wait :: "'s dworld \<Rightarrow> 's dworld"
  dp_refresh :: "'s dworld \<Rightarrow> 's dworld \<times> PressureLevel"

section \<open>Queued sinks\<close>

(* channels/send.rs: fn next_queued_outbound_id *)
definition next_queued_outbound_id :: "'s dworld \<Rightarrow> 's dworld \<times> u32" where
  "next_queued_outbound_id w = (w\<lparr>dw_next_id := dw_next_id w + 1\<rparr>, dw_next_id w)"

text \<open>The refused value travels in the error as its message; the stage names the channel's queue.\<close>

definition queue_error :: "string \<Rightarrow> 'a TrySendError \<Rightarrow> Error" where
  "queue_error stage e =
     ErrOther (Foreign (case e of SendFull _ \<Rightarrow> ''sending on a full channel''
                                | SendDisconnected _ \<Rightarrow> ''sending on a closed channel'')) stage"

(* channels/dispatch.rs: impl MessageSink for QueuedSink / fn send_message *)
definition queued_sink_send_message :: "target \<Rightarrow> string \<Rightarrow> 'json PcMsg \<Rightarrow> string
    \<Rightarrow> 'json QueuedOutboundMessage sync_channel dworld
    \<Rightarrow> 'json QueuedOutboundMessage sync_channel answer" where
  "queued_sink_send_message t stage msg text w =
     (let content = truncate_content_to_max text (MAX_CONTENT_LEN t);
          (w1, send_id) = next_queued_outbound_id w;
          item = \<lparr>qo_transport_send_id = send_id, qo_chat_id = pm_chat_id msg, qo_content = content,
                  qo_body = pm_body msg, qo_platform_thread_id = pm_platform_thread_id msg,
                  qo_platform_message_id = pm_platform_message_id msg, qo_req_id = pm_req_id msg,
                  qo_outbound_kind = pm_outbound_kind msg\<rparr>
      in case channel_try_send item (dw_outer w1) of
           (c, Inr _) \<Rightarrow> (w1\<lparr>dw_outer := c\<rparr>, Inr ())
         | (c, Inl e) \<Rightarrow> (w1\<lparr>dw_outer := c\<rparr>, Inl (queue_error stage e)))"

section \<open>Admission and the breaker\<close>

(* channels/dispatch.rs: lines 205-208 SEND_RETRY *)
fun SEND_RETRY :: "target \<Rightarrow> nat" where
  "SEND_RETRY Esp = 2"
| "SEND_RETRY Host = 3"

(* channels/dispatch.rs: const SEND_RETRY_DELAY_MS *)
definition SEND_RETRY_DELAY_MS :: nat where
  "SEND_RETRY_DELAY_MS = 500"

(* channels/dispatch.rs: fn is_channel_in_cooldown *)
definition is_channel_in_cooldown :: "('s, 'json) dispatcher \<Rightarrow> string \<Rightarrow> 's dworld \<Rightarrow> bool" where
  "is_channel_in_cooldown d channel w \<longleftrightarrow> \<not> is_channel_healthy (dp_build d) (dw_uptime w) (dw_orch w) channel"

(* channels/dispatch.rs: fn record_channel_fail *)
definition record_channel_fail :: "('s, 'json) dispatcher \<Rightarrow> string \<Rightarrow> 's dworld \<Rightarrow> 's dworld" where
  "record_channel_fail d channel w =
     w\<lparr>dw_orch := record_channel_result (dp_build d) (dw_uptime w) (dw_orch w) channel False\<rparr>"

(* channels/dispatch.rs: fn record_channel_ok *)
definition record_channel_ok :: "('s, 'json) dispatcher \<Rightarrow> string \<Rightarrow> 's dworld \<Rightarrow> 's dworld" where
  "record_channel_ok d channel w =
     w\<lparr>dw_orch := record_channel_result (dp_build d) (dw_uptime w) (dw_orch w) channel True\<rparr>"

(* channels/dispatch.rs: fn outbound_admission_decision *)
definition outbound_admission_decision :: "('s, 'json) dispatcher \<Rightarrow> string \<Rightarrow> 's dworld \<Rightarrow> AdmissionDecision" where
  "outbound_admission_decision d channel w =
     should_accept_outbound (b_target (dp_build d)) (dw_orch w) channel (dw_mode w)"

(* channels/dispatch.rs: fn outbound_reject_reason *)
definition outbound_reject_reason :: "('s, 'json) dispatcher \<Rightarrow> 'json PcMsg \<Rightarrow> 's dworld \<Rightarrow> string option" where
  "outbound_reject_reason d msg w =
     (case outbound_admission_decision d (pm_channel msg) w of Reject reason \<Rightarrow> Some reason | _ \<Rightarrow> None)"

(* channels/dispatch.rs: enum PrimaryOutboundAdmission *)
datatype PrimaryOutboundAdmission = AdmissionProceed | AdmissionDeferred

(* channels/dispatch.rs: fn apply_primary_outbound_admission *)
definition apply_primary_outbound_admission :: "('s, 'json) dispatcher \<Rightarrow> string \<Rightarrow> 's dworld
    \<Rightarrow> 's dworld \<times> PrimaryOutboundAdmission" where
  "apply_primary_outbound_admission d channel w =
     (case outbound_admission_decision d channel w of
        Accept \<Rightarrow> (w, AdmissionProceed)
      | Defer delay_ms \<Rightarrow> (dp_pause d (unat delay_ms) w, AdmissionProceed)
      | Reject _ \<Rightarrow> (w, AdmissionDeferred))"

section \<open>The buffer of deferred messages\<close>

(* channels/dispatch.rs: lines 814-817 COOLDOWN_BUFFER_MAX *)
fun COOLDOWN_BUFFER_MAX :: "target \<Rightarrow> nat" where
  "COOLDOWN_BUFFER_MAX Esp = 16"
| "COOLDOWN_BUFFER_MAX Host = 64"

(* channels/dispatch.rs: enum BufferPushResult *)
datatype 'm BufferPushResult = Buffered | Dropped | Full 'm

text \<open>Two deferred replies to the same request in the same chat of the same channel.\<close>

definition supplemental :: "'json PcMsg \<Rightarrow> bool" where
  "supplemental msg = is_supplemental (pm_outbound_kind msg)"

(* channels/dispatch.rs: lines 279-283 the request filter of try_push_buffered_msg *)
definition request_of :: "'json PcMsg \<Rightarrow> string option" where
  "request_of msg = (case pm_req_id msg of Some v \<Rightarrow> if trim v \<noteq> [] then Some v else None | None \<Rightarrow> None)"

(* channels/dispatch.rs: lines 284-289 the search of try_push_buffered_msg *)
definition coalesces_with :: "'json PcMsg \<Rightarrow> string \<Rightarrow> 'json PcMsg \<Rightarrow> bool" where
  "coalesces_with msg req_id buffered \<longleftrightarrow>
     \<not> supplemental buffered \<and> pm_req_id buffered = Some req_id
     \<and> pm_channel buffered = pm_channel msg \<and> pm_chat_id buffered = pm_chat_id msg"

(* channels/dispatch.rs: fn try_push_buffered_msg *)
definition try_push_buffered_msg :: "target \<Rightarrow> 'json PcMsg list \<Rightarrow> 'json PcMsg
    \<Rightarrow> 'json PcMsg list \<times> 'json PcMsg BufferPushResult" where
  "try_push_buffered_msg t buffer msg =
     (case (if supplemental msg then None
            else case request_of msg of
              None \<Rightarrow> None
            | Some req_id \<Rightarrow> position (coalesces_with msg req_id) buffer) of
        Some existing \<Rightarrow> (buffer[existing := msg], Buffered)
      | None \<Rightarrow>
          (if length buffer < COOLDOWN_BUFFER_MAX t then (buffer @ [msg], Buffered)
           else if supplemental msg then (buffer, Dropped)
           else case position supplemental buffer of
             Some pos \<Rightarrow> (remove_at pos buffer @ [msg], Buffered)
           | None \<Rightarrow> (buffer, Full msg)))"

(* channels/dispatch.rs: fn buffer_deferred_msg_with_replay *)
definition buffer_deferred_msg_with_replay :: "target
    \<Rightarrow> ('json PcMsg list \<Rightarrow> 'w \<Rightarrow> 'json PcMsg list \<times> 'w) \<Rightarrow> 'json PcMsg
    \<Rightarrow> 'json PcMsg list \<times> 'w \<Rightarrow> 'json PcMsg list \<times> 'w" where
  "buffer_deferred_msg_with_replay t replay_ready msg = (\<lambda>(buffer, w).
     case try_push_buffered_msg t buffer msg of
       (buffer1, Full pending) \<Rightarrow>
         (case replay_ready buffer1 w of
            (buffer2, w2) \<Rightarrow> (fst (try_push_buffered_msg t buffer2 pending), w2))
     | (buffer1, _) \<Rightarrow> (buffer1, w))"

(* channels/dispatch.rs: fn buffer_deferred_msg_without_replay *)
definition buffer_deferred_msg_without_replay :: "target \<Rightarrow> 'json PcMsg \<Rightarrow> 'json PcMsg list
    \<Rightarrow> 'json PcMsg list" where
  "buffer_deferred_msg_without_replay t msg buffer = fst (try_push_buffered_msg t buffer msg)"

text \<open>
  The replay walks over the buffer: a message of a cooling channel is passed, a message that is sent is
  taken out, and the first one that is not sent goes back to its place and ends the walk.
\<close>

(* channels/dispatch.rs: fn replay_cooldown_buffer_with *)
function replay_loop :: "(string \<Rightarrow> 'w \<Rightarrow> bool) \<Rightarrow> ('json PcMsg \<Rightarrow> 'w \<Rightarrow> 'w \<times> bool) \<Rightarrow> nat
    \<Rightarrow> 'json PcMsg list \<Rightarrow> 'w \<Rightarrow> 'json PcMsg list \<times> 'w" where
  "replay_loop is_in_cooldown send i buffer w =
     (if i < length buffer then
        (if is_in_cooldown (pm_channel (buffer ! i)) w
         then replay_loop is_in_cooldown send (i + 1) buffer w
         else (case send (buffer ! i) w of
                 (w', True) \<Rightarrow> replay_loop is_in_cooldown send i (remove_at i buffer) w'
               | (w', False) \<Rightarrow> (buffer, w')))
      else (buffer, w))"
  by pat_completeness auto
termination
  by (relation "measure (\<lambda>(c, s, i, buffer, w). length buffer - i)") (auto simp: length_remove_at)

declare replay_loop.simps [simp del]

(* channels/dispatch.rs: fn replay_ready_messages_for_tick *)
definition replay_ready_messages_for_tick :: "(string \<Rightarrow> 'w \<Rightarrow> bool) \<Rightarrow> ('json PcMsg \<Rightarrow> 'w \<Rightarrow> 'w \<times> bool)
    \<Rightarrow> 'json PcMsg list \<Rightarrow> 'w \<Rightarrow> 'json PcMsg list \<times> 'w" where
  "replay_ready_messages_for_tick is_in_cooldown send buffer w = replay_loop is_in_cooldown send 0 buffer w"

text \<open>The gate that spaces the replays of the active-channel worker; times are milliseconds.\<close>

(* channels/dispatch.rs: struct DeferredReplayGate *)
record DeferredReplayGate =
  rg_next_replay_at :: "nat option"

(* channels/dispatch.rs: impl DeferredReplayGate / fn ready_at *)
definition gate_ready_at :: "DeferredReplayGate \<Rightarrow> nat \<Rightarrow> bool" where
  "gate_ready_at gate now =
     (case rg_next_replay_at gate of None \<Rightarrow> True | Some next_replay_at \<Rightarrow> next_replay_at \<le> now)"

text \<open>The addition to the clock cannot overflow with delays of seconds.\<close>

(* channels/dispatch.rs: impl DeferredReplayGate / fn defer_until_after *)
definition gate_defer_until_after :: "DeferredReplayGate \<Rightarrow> nat \<Rightarrow> nat \<Rightarrow> DeferredReplayGate" where
  "gate_defer_until_after gate now delay = gate\<lparr>rg_next_replay_at := Some (now + delay)\<rparr>"

(* channels/dispatch.rs: impl DeferredReplayGate / fn clear *)
definition gate_clear :: "DeferredReplayGate \<Rightarrow> DeferredReplayGate" where
  "gate_clear gate = gate\<lparr>rg_next_replay_at := None\<rparr>"

(* channels/dispatch.rs: fn deferred_buffer_replay_delay_ms *)
definition deferred_buffer_replay_delay_ms :: "('s, 'json) dispatcher \<Rightarrow> 's dworld \<Rightarrow> 's dworld \<times> nat" where
  "deferred_buffer_replay_delay_ms d w =
     (case b_target (dp_build d) of
        Esp \<Rightarrow> (case dp_refresh d w of (w', level) \<Rightarrow>
                  (w', unat (sat_mul (rb_reconnect_backoff_secs (budget_for_level Esp level)) 1000)))
      | Host \<Rightarrow> (w, unat OUTBOUND_DEFER_DELAY_MS))"

section \<open>Sending through a sink\<close>

(* channels/dispatch.rs: enum DispatchOutcome *)
datatype DispatchOutcome = Sent | Deferred | Failed

definition sender_queue_stages :: "string list" where
  "sender_queue_stages =
     [''telegram_send_queue'', ''feishu_send_queue'', ''dingtalk_send_queue'', ''wecom_send_queue'',
      ''qq_channel_send_queue'']"

(* channels/dispatch.rs: fn is_local_sender_queue_backpressure *)
definition is_local_sender_queue_backpressure :: "Error \<Rightarrow> bool" where
  "is_local_sender_queue_backpressure error \<longleftrightarrow> List.member sender_queue_stages (err_stage error)"

(* channels/dispatch.rs: fn should_defer_primary_send_error_immediately *)
definition should_defer_primary_send_error_immediately :: "Error \<Rightarrow> bool" where
  "should_defer_primary_send_error_immediately error \<longleftrightarrow>
     is_tls_admission error \<or> is_connect_error error \<or> is_local_sender_queue_backpressure error"

(* channels/dispatch.rs: fn should_defer_primary_send_error *)
definition should_defer_primary_send_error :: "Error \<Rightarrow> bool" where
  "should_defer_primary_send_error error \<longleftrightarrow>
     should_defer_primary_send_error_immediately error \<or> is_retryable_upstream error"

text \<open>The attempts of a primary message; the result is the last error, or success.\<close>

(* channels/dispatch.rs: lines 550-577 the attempts of dispatch_via_sink *)
primrec sink_attempts :: "('s dworld \<Rightarrow> 's answer) \<Rightarrow> ('s dworld \<Rightarrow> 's dworld) \<Rightarrow> nat \<Rightarrow> bool \<Rightarrow> Error option
    \<Rightarrow> 's dworld \<Rightarrow> 's dworld \<times> (Error option + unit)" where
  "sink_attempts send pause 0 again last_err w = (w, Inl last_err)"
| "sink_attempts send pause (Suc n) again last_err w =
     (case send (if again then pause w else w) of
        (w', Inr _) \<Rightarrow> (w', Inr ())
      | (w', Inl e) \<Rightarrow>
          (if should_defer_primary_send_error_immediately e then (w', Inl (Some e))
           else sink_attempts send pause n True (Some e) w'))"

text \<open>The wait that lets a running turn go first.\<close>

(* channels/dispatch.rs: lines 544-548 the yield of dispatch_via_sink *)
definition background_yield :: "('s, 'json) dispatcher \<Rightarrow> 's dworld \<Rightarrow> 's dworld" where
  "background_yield d w =
     (let yield_ms = background_outbound_yield_ms (dw_orch w)
      in if 0 < yield_ms then dp_pause d (unat yield_ms) w else w)"

text \<open>The end of a primary message whose attempts all failed.\<close>

(* channels/dispatch.rs: lines 577-600 the end of dispatch_via_sink *)
definition conclude_failure :: "('s, 'json) dispatcher \<Rightarrow> string \<Rightarrow> Error option \<Rightarrow> 's dworld
    \<Rightarrow> 's dworld \<times> DispatchOutcome" where
  "conclude_failure d channel last_err w =
     (case last_err of
        Some e \<Rightarrow> (if should_defer_primary_send_error e then (w, Deferred)
                   else (record_channel_fail d channel w, Failed))
      | None \<Rightarrow> (w, Failed))"

(* channels/dispatch.rs: fn dispatch_via_sink *)
definition dispatch_via_sink :: "('s, 'json) dispatcher \<Rightarrow> 'json PcMsg \<Rightarrow> 's dworld \<Rightarrow> 's dworld \<times> DispatchOutcome" where
  "dispatch_via_sink d msg w =
     (case dp_sinks d (pm_channel msg) of
        None \<Rightarrow> (w, Failed)
      | Some sink \<Rightarrow>
          (case dp_prepare d msg of (prepared, content) \<Rightarrow>
             if supplemental msg then
               (case sink prepared content w of
                  (w', Inr _) \<Rightarrow> (w', Sent)
                | (w', Inl _) \<Rightarrow> (w', Failed))
             else
               (case apply_primary_outbound_admission d (pm_channel msg) w of
                  (w1, AdmissionDeferred) \<Rightarrow> (w1, Deferred)
                | (w1, AdmissionProceed) \<Rightarrow>
                    (case sink_attempts (sink prepared content) (dp_pause d SEND_RETRY_DELAY_MS)
                            (SEND_RETRY (b_target (dp_build d))) False None (background_yield d w1) of
                       (w2, Inr _) \<Rightarrow> (record_channel_ok d (pm_channel msg) w2, Sent)
                     | (w2, Inl last_err) \<Rightarrow> conclude_failure d (pm_channel msg) last_err w2))))"

text \<open>The closure that a replay of the buffer sends with.\<close>

(* channels/dispatch.rs: impl DispatchOutcome / fn sent *)
definition sink_sent :: "('s, 'json) dispatcher \<Rightarrow> 'json PcMsg \<Rightarrow> 's dworld \<Rightarrow> 's dworld \<times> bool" where
  "sink_sent d msg w = (case dispatch_via_sink d msg w of (w', outcome) \<Rightarrow> (w', outcome = Sent))"

(* channels/dispatch.rs: lines 627-631 the replay closure of dispatch_or_buffer_via_sink *)
definition sink_replay :: "('s, 'json) dispatcher \<Rightarrow> 'json PcMsg list \<Rightarrow> 's dworld
    \<Rightarrow> 'json PcMsg list \<times> 's dworld" where
  "sink_replay d buffer w = replay_loop (is_channel_in_cooldown d) (sink_sent d) 0 buffer w"

(* channels/dispatch.rs: fn dispatch_or_buffer_via_sink *)
definition dispatch_or_buffer_via_sink :: "('s, 'json) dispatcher \<Rightarrow> 'json PcMsg
    \<Rightarrow> 'json PcMsg list \<times> 's dworld \<Rightarrow> 'json PcMsg list \<times> 's dworld" where
  "dispatch_or_buffer_via_sink d msg = (\<lambda>(buffer, w).
     let defer_with_replay = buffer_deferred_msg_with_replay (b_target (dp_build d)) (sink_replay d) msg
     in if outbound_reject_reason d msg w \<noteq> None \<or> is_channel_in_cooldown d (pm_channel msg) w
        then (if supplemental msg then (buffer, w) else defer_with_replay (buffer, w))
        else (case dispatch_via_sink d msg w of
                (w1, Deferred) \<Rightarrow>
                  (case defer_with_replay (buffer, w1) of
                     (buffer2, w2) \<Rightarrow> (buffer2, dp_pause d (unat OUTBOUND_DEFER_DELAY_MS) w2))
              | (w1, _) \<Rightarrow> (buffer, w1)))"

section \<open>The dispatch loop\<close>

text \<open>Messages that are not sent at all.\<close>

(* channels/dispatch.rs: lines 847-850 the silent messages of run_dispatch *)
definition silent :: "target \<Rightarrow> 'json PcMsg \<Rightarrow> bool" where
  "silent t msg \<longleftrightarrow> trim (truncate_content_to_max (pm_content msg) (MAX_CONTENT_LEN t)) = ''SILENT'' \<or> pm_channel msg = ''cron''"

(* channels/dispatch.rs: lines 832-837 the send closure of run_dispatch *)
definition tick_send :: "('s, 'json) dispatcher \<Rightarrow> 'json PcMsg \<Rightarrow> 's dworld \<Rightarrow> 's dworld \<times> bool" where
  "tick_send d msg w = (if outbound_reject_reason d msg w \<noteq> None then (w, False) else sink_sent d msg w)"

text \<open>
  One round of the loop: replay, then the receive, whose result is an argument and during which \<open>dp_wait\<close> is what
  other threads do, then the message. The result is \<open>None\<close> when the senders are gone and the loop ends.
\<close>

(* channels/dispatch.rs: fn run_dispatch *)
definition dispatch_round :: "('s, 'json) dispatcher \<Rightarrow> RecvTimeoutError + 'json PcMsg
    \<Rightarrow> 'json PcMsg list \<times> 's dworld \<Rightarrow> ('json PcMsg list \<times> 's dworld) option" where
  "dispatch_round d received = (\<lambda>(buffer, w).
     case replay_ready_messages_for_tick (is_channel_in_cooldown d) (tick_send d) buffer w of
       (buffer1, w1) \<Rightarrow>
         (let w2 = dp_wait d w1
          in case received of
            Inl RecvTimeout \<Rightarrow> Some (buffer1, w2)
          | Inl RecvTimeoutDisconnected \<Rightarrow> None
          | Inr msg \<Rightarrow> Some (if silent (b_target (dp_build d)) msg then (buffer1, w2) else dispatch_or_buffer_via_sink d msg (buffer1, w2))))"

section \<open>The worker of one active channel\<close>

(* channels/send.rs: const CHANNEL_SENDER_MAX_RETRIES *)
definition CHANNEL_SENDER_MAX_RETRIES :: nat where
  "CHANNEL_SENDER_MAX_RETRIES = 3"

(* channels/send.rs: fn max_retries_for_message *)
definition max_retries_for_message :: "'json QueuedOutboundMessage \<Rightarrow> nat" where
  "max_retries_for_message message =
     (if is_supplemental (qo_outbound_kind message) then 1 else CHANNEL_SENDER_MAX_RETRIES)"

(* channels/dispatch.rs: fn queued_from_prepared *)
definition queued_from_prepared :: "target \<Rightarrow> 'json PcMsg \<times> string \<Rightarrow> 's dworld \<Rightarrow> 's dworld \<times> 'json QueuedOutboundMessage" where
  "queued_from_prepared t = (\<lambda>(prepared, content) w.
     case next_queued_outbound_id w of (w', send_id) \<Rightarrow>
       (w', \<lparr>qo_transport_send_id = send_id, qo_chat_id = pm_chat_id prepared,
             qo_content = truncate_content_to_max content (MAX_CONTENT_LEN t), qo_body = pm_body prepared,
             qo_platform_thread_id = pm_platform_thread_id prepared,
             qo_platform_message_id = pm_platform_message_id prepared,
             qo_req_id = pm_req_id prepared, qo_outbound_kind = pm_outbound_kind prepared\<rparr>))"

text \<open>
  The attempts of the driver; a configuration error also ends them. The priority scope that is open
  around an attempt is part of the driver parameter, and the pause between attempts of the pause parameter.
\<close>

definition is_config_error :: "Error \<Rightarrow> bool" where
  "is_config_error e = (case e of ErrConfig _ _ \<Rightarrow> True | _ \<Rightarrow> False)"

(* channels/dispatch.rs: lines 742-774 the attempts of dispatch_via_active_driver *)
primrec driver_attempts :: "(nat \<Rightarrow> 's dworld \<Rightarrow> 's answer) \<Rightarrow> ('s dworld \<Rightarrow> 's dworld) \<Rightarrow> nat \<Rightarrow> nat
    \<Rightarrow> Error option \<Rightarrow> 's dworld \<Rightarrow> 's dworld \<times> (Error option + unit)" where
  "driver_attempts send pause 0 retry last_err w = (w, Inl last_err)"
| "driver_attempts send pause (Suc n) retry last_err w =
     (case send (retry + 1) (if 0 < retry then pause w else w) of
        (w', Inr _) \<Rightarrow> (w', Inr ())
      | (w', Inl e) \<Rightarrow>
          (if should_defer_primary_send_error_immediately e \<or> is_config_error e then (w', Inl (Some e))
           else driver_attempts send pause n (retry + 1) (Some e) w'))"

(* channels/dispatch.rs: fn dispatch_via_active_driver *)
definition dispatch_via_active_driver :: "('s, 'json) dispatcher \<Rightarrow> nat \<Rightarrow> 'json PcMsg \<Rightarrow> 's dworld
    \<Rightarrow> 's dworld \<times> DispatchOutcome" where
  "dispatch_via_active_driver d retry_delay msg w =
     (case queued_from_prepared (b_target (dp_build d)) (dp_prepare d msg) w of (w0, item) \<Rightarrow>
        if is_supplemental (qo_outbound_kind item) then
          (case dp_driver d item 1 w0 of
             (w', Inr _) \<Rightarrow> (w', Sent)
           | (w', Inl _) \<Rightarrow> (w', Failed))
        else
          (case apply_primary_outbound_admission d (pm_channel msg) w0 of
             (w1, AdmissionDeferred) \<Rightarrow> (w1, Deferred)
           | (w1, AdmissionProceed) \<Rightarrow>
               (case driver_attempts (dp_driver d item) (dp_pause d retry_delay)
                       (max_retries_for_message item) 0 None (background_yield d w1) of
                  (w2, Inr _) \<Rightarrow> (record_channel_ok d (pm_channel msg) w2, Sent)
                | (w2, Inl last_err) \<Rightarrow>
                    (if (case last_err of Some e \<Rightarrow> should_defer_primary_send_error e | None \<Rightarrow> False)
                     then (w2, Deferred)
                     else (record_channel_fail d (pm_channel msg) w2, Failed)))))"

(* channels/dispatch.rs: lines 882-905 the send closure of run_os_outbound_worker *)
definition worker_send :: "('s, 'json) dispatcher \<Rightarrow> nat \<Rightarrow> string \<Rightarrow> 'json PcMsg \<Rightarrow> 's dworld \<Rightarrow> 's dworld \<times> bool" where
  "worker_send d retry_delay active msg w =
     (if outbound_reject_reason d msg w \<noteq> None then (w, False)
      else (case (if pm_channel msg \<noteq> active then dispatch_via_sink d msg w
                  else dispatch_via_active_driver d retry_delay msg w) of
              (w', outcome) \<Rightarrow> (w', outcome = Sent)))"

text \<open>The gate is set after a replay by what is left, and after every deferral.\<close>

(* channels/dispatch.rs: impl DeferredReplayGate / fn defer *)
definition gate_deferred :: "('s, 'json) dispatcher \<Rightarrow> DeferredReplayGate \<Rightarrow> 's dworld
    \<Rightarrow> DeferredReplayGate \<times> 's dworld" where
  "gate_deferred d gate w =
     (case deferred_buffer_replay_delay_ms d w of (w', delay) \<Rightarrow> (gate_defer_until_after gate (dw_time w') delay, w'))"

(* channels/dispatch.rs: lines 878-912 the replay of run_os_outbound_worker *)
definition worker_replay :: "('s, 'json) dispatcher \<Rightarrow> nat \<Rightarrow> string
    \<Rightarrow> 'json PcMsg list \<times> DeferredReplayGate \<times> 's dworld \<Rightarrow> 'json PcMsg list \<times> DeferredReplayGate \<times> 's dworld" where
  "worker_replay d retry_delay active = (\<lambda>(buffer, gate, w).
     if gate_ready_at gate (dw_time w) then
       (case replay_ready_messages_for_tick (is_channel_in_cooldown d) (worker_send d retry_delay active) buffer w of
          (buffer1, w1) \<Rightarrow>
            (if buffer1 = [] then (buffer1, gate_clear gate, w1)
             else (buffer1, gate_deferred d gate w1)))
     else (buffer, gate, w))"

(* channels/dispatch.rs: lines 988-991 the deferral of run_os_outbound_worker *)
definition worker_defer :: "('s, 'json) dispatcher \<Rightarrow> 'json PcMsg
    \<Rightarrow> 'json PcMsg list \<times> DeferredReplayGate \<times> 's dworld \<Rightarrow> 'json PcMsg list \<times> DeferredReplayGate \<times> 's dworld" where
  "worker_defer d msg = (\<lambda>(buffer, gate, w).
     (buffer_deferred_msg_without_replay (b_target (dp_build d)) msg buffer, gate_deferred d gate w))"

(* channels/dispatch.rs: fn run_os_outbound_worker *)
definition worker_round :: "('s, 'json) dispatcher \<Rightarrow> nat \<Rightarrow> string \<Rightarrow> RecvTimeoutError + 'json PcMsg
    \<Rightarrow> 'json PcMsg list \<times> DeferredReplayGate \<times> 's dworld
    \<Rightarrow> ('json PcMsg list \<times> DeferredReplayGate \<times> 's dworld) option" where
  "worker_round d retry_delay active received s =
     (case worker_replay d retry_delay active s of (buffer, gate, w1) \<Rightarrow>
        (let w = dp_wait d w1
         in case received of
           Inl RecvTimeout \<Rightarrow> Some (buffer, gate, w)
         | Inl RecvTimeoutDisconnected \<Rightarrow> None
         | Inr msg \<Rightarrow> Some
             (if silent (b_target (dp_build d)) msg then (buffer, gate, w)
              else if pm_channel msg \<noteq> active then
                (case dispatch_or_buffer_via_sink d msg (buffer, w) of (buffer', w') \<Rightarrow> (buffer', gate, w'))
              else if outbound_reject_reason d msg w \<noteq> None \<or> is_channel_in_cooldown d (pm_channel msg) w then
                (if supplemental msg then (buffer, gate, w) else worker_defer d msg (buffer, gate, w))
              else (case dispatch_via_active_driver d retry_delay msg w of
                      (w', Deferred) \<Rightarrow> worker_defer d msg (buffer, gate, w')
                    | (w', _) \<Rightarrow> (buffer, gate, w')))))"

end
