(* ===== verification/Dispatch_Laws.thy ===== *)
theory Dispatch_Laws
  imports Dispatch Keyed_List Orchestrator_Laws
begin

text \<open>
  What outbound dispatch promises: the buffer of deferred messages stays bounded, holds only replies and
  one per request; a replay only takes out what it sent; every reply ends in one of the documented ways;
  the circuit breaker hears of exactly the final results and stops the sends to a broken channel.
\<close>

section \<open>The buffer\<close>

text \<open>The request a reply answers, which at most one deferred reply may have.\<close>

definition reply_key :: "'json PcMsg \<Rightarrow> (string \<times> string \<times> string) option" where
  "reply_key msg =
     (if supplemental msg then None
      else map_option (\<lambda>r. (r, pm_channel msg, pm_chat_id msg)) (request_of msg))"

definition reply_keys :: "'json PcMsg list \<Rightarrow> (string \<times> string \<times> string) option list" where
  "reply_keys buffer = filter (\<lambda>k. k \<noteq> None) (map reply_key buffer)"

definition buffer_ok :: "target \<Rightarrow> 'json PcMsg list \<Rightarrow> bool" where
  "buffer_ok t buffer \<longleftrightarrow>
     length buffer \<le> COOLDOWN_BUFFER_MAX t \<and> (\<forall>m \<in> set buffer. \<not> supplemental m) \<and> distinct (reply_keys buffer)"

lemma coalesces_key:
  fixes msg :: "'json PcMsg"
  assumes "\<not> supplemental msg" "request_of msg = Some r"
  shows "coalesces_with msg r = (\<lambda>b. reply_key b = reply_key msg)"
proof
  fix b :: "'json PcMsg"
  have r: "pm_req_id msg = Some r" "trim r \<noteq> []" using assms(2) by (auto simp: request_of_def split: option.splits if_splits)
  have "pm_req_id b = Some r \<longleftrightarrow> request_of b = Some r" using r(2) by (auto simp: request_of_def split: option.splits)
  then show "coalesces_with msg r b \<longleftrightarrow> reply_key b = reply_key msg"
    using assms by (auto simp: coalesces_with_def reply_key_def)
qed

lemma reply_key_None: "\<not> supplemental msg \<Longrightarrow> reply_key msg = None \<longleftrightarrow> request_of msg = None"
  by (simp add: reply_key_def)

lemma reply_keys_split:
  assumes "i < length buffer"
  shows "reply_keys buffer = reply_keys (take i buffer) @ reply_keys [buffer ! i] @ reply_keys (drop (Suc i) buffer)"
proof -
  have "reply_keys (take i buffer @ buffer ! i # drop (Suc i) buffer)
      = reply_keys (take i buffer) @ reply_keys [buffer ! i] @ reply_keys (drop (Suc i) buffer)"
    by (simp add: reply_keys_def)
  then show ?thesis using assms by (simp add: id_take_nth_drop [symmetric])
qed

lemma distinct_remove_at_keys:
  assumes "distinct (reply_keys buffer)"
  shows "distinct (reply_keys (remove_at i buffer))"
proof (cases "i < length buffer")
  case True
  have "reply_keys (remove_at i buffer) = reply_keys (take i buffer) @ reply_keys (drop (Suc i) buffer)"
    by (simp add: remove_at_def reply_keys_def)
  then show ?thesis using assms reply_keys_split [OF True] by (auto simp: disjoint_iff)
qed (use assms in \<open>simp add: remove_at_def\<close>)

text \<open>A push of a reply keeps the invariant, and the reply is in the buffer unless it is full of replies.\<close>

lemma push_replaces:
  assumes "\<not> supplemental msg" "request_of msg = Some r" "position (coalesces_with msg r) buffer = Some i"
  shows "try_push_buffered_msg t buffer msg = (buffer[i := msg], Buffered)"
    and "map reply_key (buffer[i := msg]) = map reply_key buffer" and "i < length buffer"
  using assms lookup_update(2) [where key = reply_key, OF assms(3) [unfolded coalesces_key [OF assms(1,2)]]]
    position_Some [OF assms(3)]
  by (simp_all add: try_push_buffered_msg_def)

lemma push_new:
  assumes "\<not> supplemental msg" "case request_of msg of None \<Rightarrow> True | Some r \<Rightarrow> position (coalesces_with msg r) buffer = None"
  shows "length buffer < COOLDOWN_BUFFER_MAX t \<Longrightarrow> try_push_buffered_msg t buffer msg = (buffer @ [msg], Buffered)"
    and "\<not> length buffer < COOLDOWN_BUFFER_MAX t \<Longrightarrow> \<forall>m \<in> set buffer. \<not> supplemental m
           \<Longrightarrow> try_push_buffered_msg t buffer msg = (buffer, Full msg)"
    and "reply_key msg = None \<or> reply_key msg \<notin> set (map reply_key buffer)"
proof -
  have none: "(case request_of msg of None \<Rightarrow> None | Some r \<Rightarrow> position (coalesces_with msg r) buffer) = None"
    using assms(2) by (cases "request_of msg") auto
  show "length buffer < COOLDOWN_BUFFER_MAX t \<Longrightarrow> try_push_buffered_msg t buffer msg = (buffer @ [msg], Buffered)"
    using assms(1) none by (simp add: try_push_buffered_msg_def)
  show "\<not> length buffer < COOLDOWN_BUFFER_MAX t \<Longrightarrow> \<forall>m \<in> set buffer. \<not> supplemental m
      \<Longrightarrow> try_push_buffered_msg t buffer msg = (buffer, Full msg)"
    using assms(1) none position_None [of supplemental buffer] by (simp add: try_push_buffered_msg_def)
  show "reply_key msg = None \<or> reply_key msg \<notin> set (map reply_key buffer)"
  proof (cases "request_of msg")
    case None
    then show ?thesis using assms(1) by (simp add: reply_key_def)
  next
    case (Some r)
    then have "position (\<lambda>b. reply_key b = reply_key msg) buffer = None"
      using assms(2) coalesces_key [OF assms(1) Some] by simp
    then show ?thesis by (auto simp: position_None)
  qed
qed

lemma push_cases:
  assumes "\<not> supplemental msg" "\<forall>m \<in> set buffer. \<not> supplemental m"
  obtains (replaced) i where "i < length buffer" "try_push_buffered_msg t buffer msg = (buffer[i := msg], Buffered)"
      "map reply_key (buffer[i := msg]) = map reply_key buffer" "reply_key (buffer ! i) = reply_key msg" "reply_key msg \<noteq> None"
  | (appended) "length buffer < COOLDOWN_BUFFER_MAX t" "try_push_buffered_msg t buffer msg = (buffer @ [msg], Buffered)"
      "reply_key msg = None \<or> reply_key msg \<notin> set (map reply_key buffer)"
  | (full) "COOLDOWN_BUFFER_MAX t \<le> length buffer" "try_push_buffered_msg t buffer msg = (buffer, Full msg)"
proof (cases "\<exists>r i. request_of msg = Some r \<and> position (coalesces_with msg r) buffer = Some i")
  case True
  then obtain r i where r: "request_of msg = Some r" "position (coalesces_with msg r) buffer = Some i" by blast
  have "reply_key (buffer ! i) = reply_key msg"
    using position_Some [OF r(2)] coalesces_key [OF assms(1) r(1)] by simp
  moreover have "reply_key msg \<noteq> None" using r(1) assms(1) by (simp add: reply_key_def)
  ultimately show ?thesis
    using replaced [OF push_replaces(3) push_replaces(1) push_replaces(2)] assms(1) r by blast
next
  case False
  then have "case request_of msg of None \<Rightarrow> True | Some r \<Rightarrow> position (coalesces_with msg r) buffer = None"
    by (auto split: option.split)
  note new = push_new [OF assms(1) this]
  show ?thesis
    using appended full new assms(2) by (cases "length buffer < COOLDOWN_BUFFER_MAX t") auto
qed

lemma push_ok:
  assumes ok: "buffer_ok t buffer" and msg: "\<not> supplemental msg"
  shows "buffer_ok t (fst (try_push_buffered_msg t buffer msg))"
proof -
  have prim: "\<forall>m \<in> set buffer. \<not> supplemental m" using ok by (simp add: buffer_ok_def)
  from msg prim show ?thesis
  proof (cases rule: push_cases [where t = t])
    case (replaced i)
    have "\<forall>m \<in> set (buffer[i := msg]). \<not> supplemental m"
      using prim msg set_update_subset_insert [of buffer i msg] by auto
    moreover have "reply_keys (buffer[i := msg]) = reply_keys buffer" by (simp only: reply_keys_def replaced(3))
    ultimately show ?thesis using ok replaced(2) by (simp add: buffer_ok_def)
  next
    case appended
    then show ?thesis using ok msg by (auto simp: buffer_ok_def reply_keys_def)
  next
    case full
    then show ?thesis using ok by simp
  qed
qed

text \<open>A message that was pushed is there; the others stay, except one that it replaces.\<close>

lemma push_contents:
  assumes "buffer_ok t buffer" "\<not> supplemental msg" "try_push_buffered_msg t buffer msg = (buffer', res)"
  shows "(msg \<in> set buffer' \<and> res = Buffered) \<or> (res = Full msg \<and> buffer' = buffer \<and> length buffer = COOLDOWN_BUFFER_MAX t)"
    and "m \<in> set buffer \<Longrightarrow> m \<in> set buffer' \<or> (reply_key m = reply_key msg \<and> reply_key msg \<noteq> None)"
    and "m \<in> set buffer' \<Longrightarrow> m = msg \<or> m \<in> set buffer"
proof -
  have prim: "\<forall>m \<in> set buffer. \<not> supplemental m" using assms(1) by (simp add: buffer_ok_def)
  have "((msg \<in> set buffer' \<and> res = Buffered) \<or> (res = Full msg \<and> buffer' = buffer \<and> length buffer = COOLDOWN_BUFFER_MAX t))
    \<and> (m \<in> set buffer \<longrightarrow> m \<in> set buffer' \<or> (reply_key m = reply_key msg \<and> reply_key msg \<noteq> None))
    \<and> (m \<in> set buffer' \<longrightarrow> m = msg \<or> m \<in> set buffer)"
    using assms(2) prim
  proof (cases rule: push_cases [where t = t])
    case (replaced i)
    have old: "m \<in> set (buffer[i := msg]) \<or> m = buffer ! i" if mem: "m \<in> set buffer"
    proof -
      obtain j where j: "j < length buffer" "buffer ! j = m" using mem by (auto simp: in_set_conv_nth)
      then show ?thesis
        using nth_mem [of j "buffer[i := msg]"] by (cases "j = i") auto
    qed
    have eq: "buffer' = buffer[i := msg]" "res = Buffered" using replaced(2) assms(3) by simp_all
    have "msg \<in> set buffer'" using eq(1) replaced(1) by (simp add: set_update_memI)
    moreover have "m \<in> set buffer' \<Longrightarrow> m = msg \<or> m \<in> set buffer"
      using eq(1) set_update_subset_insert [of buffer i msg] by auto
    moreover have "m \<in> set buffer \<Longrightarrow> m \<in> set buffer' \<or> (reply_key m = reply_key msg \<and> reply_key msg \<noteq> None)"
      using old eq(1) replaced(4,5) by blast
    ultimately show ?thesis using eq(2) by blast
  next
    case appended
    then show ?thesis using assms(3) by auto
  next
    case full
    then show ?thesis using assms(1,3) by (auto simp: buffer_ok_def)
  qed
  then show "(msg \<in> set buffer' \<and> res = Buffered) \<or> (res = Full msg \<and> buffer' = buffer \<and> length buffer = COOLDOWN_BUFFER_MAX t)"
    "m \<in> set buffer \<Longrightarrow> m \<in> set buffer' \<or> (reply_key m = reply_key msg \<and> reply_key msg \<noteq> None)"
    "m \<in> set buffer' \<Longrightarrow> m = msg \<or> m \<in> set buffer"
    by blast+
qed

section \<open>The replay\<close>

lemma remove_at_ok: "buffer_ok t buffer \<Longrightarrow> i < length buffer \<Longrightarrow> buffer_ok t (remove_at i buffer)"
  by (auto simp: buffer_ok_def distinct_remove_at_keys length_remove_at dest: set_remove_at [THEN subsetD])

lemma replay_ok: "buffer_ok t buffer \<Longrightarrow> buffer_ok t (fst (replay_loop cool send i buffer w))"
proof (induction cool send i buffer w rule: replay_loop.induct)
  case (1 cool send i buffer w)
  then show ?case
    by (subst replay_loop.simps) (auto simp: remove_at_ok split: prod.split bool.split)
qed

text \<open>Whatever is missing after a replay was the argument of a send that succeeded; nothing is added.\<close>

lemma replay_contents:
  "(m \<in> set (fst (replay_loop cool send i buffer w)) \<longrightarrow> m \<in> set buffer)
   \<and> (m \<in> set buffer \<longrightarrow> m \<in> set (fst (replay_loop cool send i buffer w)) \<or> (\<exists>w0. snd (send m w0)))"
proof (induction cool send i buffer w rule: replay_loop.induct)
  case (1 cool send i buffer w)
  show ?case
  proof (cases "i < length buffer \<and> \<not> cool (pm_channel (buffer ! i)) w")
    case True
    obtain w' s where s: "send (buffer ! i) w = (w', s)" by fastforce
    show ?thesis
    proof (cases s)
      case True': True
      have "buffer = take i buffer @ buffer ! i # drop (Suc i) buffer" using True by (simp add: id_take_nth_drop)
      then have parts: "set buffer = insert (buffer ! i) (set (remove_at i buffer))"
        by (metis Un_insert_right list.simps(15) remove_at_def set_append)
      have "replay_loop cool send i buffer w = replay_loop cool send i (remove_at i buffer) w'"
        using True s True' by (subst replay_loop.simps) simp
      moreover have "snd (send (buffer ! i) w)" using s True' by simp
      moreover note 1(2) [of w' s]
      ultimately have IH: "(m \<in> set (fst (replay_loop cool send i buffer w)) \<longrightarrow> m \<in> set (remove_at i buffer))
          \<and> (m \<in> set (remove_at i buffer) \<longrightarrow> m \<in> set (fst (replay_loop cool send i buffer w)) \<or> (\<exists>w0. snd (send m w0)))"
        using True s True' by simp
      have "m = buffer ! i \<Longrightarrow> \<exists>w0. snd (send m w0)" using s True' by (metis snd_conv)
      then show ?thesis using IH parts by blast
    next
      case False
      then show ?thesis using True s by (subst (1 2) replay_loop.simps) simp
    qed
  next
    case False
    then show ?thesis using 1(1) by (subst (1 2) replay_loop.simps) auto
  qed
qed

text \<open>A message that is not sent keeps its place and holds up everything behind it.\<close>

lemma replay_blocked:
  "\<not> cool (pm_channel m) w \<Longrightarrow> send m w = (w', False) \<Longrightarrow> replay_loop cool send 0 (m # rest) w = (m # rest, w')"
  by (subst replay_loop.simps) simp

section \<open>Rounds\<close>

definition keeps_kind :: "('s, 'json) dispatcher \<Rightarrow> bool" where
  "keeps_kind d \<longleftrightarrow> (\<forall>m. pm_outbound_kind (fst (dp_prepare d m)) = pm_outbound_kind m)"

lemma sink_outcome_supplemental: "supplemental msg \<Longrightarrow> snd (dispatch_via_sink d msg w) \<noteq> Deferred"
  by (auto simp: dispatch_via_sink_def split: option.split prod.split sum.split)

lemma driver_outcome_supplemental:
  "keeps_kind d \<Longrightarrow> supplemental msg \<Longrightarrow> snd (dispatch_via_active_driver d delay msg w) \<noteq> Deferred"
proof -
  assume k: "keeps_kind d" and s: "supplemental msg"
  obtain w0 item where q: "queued_from_prepared (b_target (dp_build d)) (dp_prepare d msg) w = (w0, item)" by fastforce
  have "qo_outbound_kind item = pm_outbound_kind (fst (dp_prepare d msg))"
    using q by (auto simp: queued_from_prepared_def next_queued_outbound_id_def split: prod.splits)
  then have "is_supplemental (qo_outbound_kind item)" using k s by (simp add: keeps_kind_def supplemental_def)
  then show ?thesis using q by (simp add: dispatch_via_active_driver_def split: prod.split sum.split)
qed

lemma buffer_with_replay_ok:
  assumes ok: "buffer_ok t buffer" and msg: "\<not> supplemental msg"
    and rep: "\<And>b w. buffer_ok t b \<Longrightarrow> buffer_ok t (fst (replay b w))"
  shows "buffer_ok t (fst (buffer_deferred_msg_with_replay t replay msg (buffer, w)))"
proof -
  obtain b1 res where p: "try_push_buffered_msg t buffer msg = (b1, res)" by fastforce
  have ok1: "buffer_ok t b1" using push_ok [OF ok msg] p by simp
  show ?thesis
  proof (cases res)
    case (Full pending)
    then have "pending = msg" using push_contents(1) [OF ok msg p] by simp
    then show ?thesis
      using Full p push_ok [OF rep [OF ok1] msg] by (simp add: buffer_deferred_msg_with_replay_def case_prod_beta)
  qed (use p ok1 in \<open>simp_all add: buffer_deferred_msg_with_replay_def\<close>)
qed

abbreviation build_target :: "('s, 'json) dispatcher \<Rightarrow> target" where
  "build_target d \<equiv> b_target (dp_build d)"

lemma sink_replay_ok: "buffer_ok t b \<Longrightarrow> buffer_ok t (fst (sink_replay d b w))"
  by (simp add: sink_replay_def replay_ok)

lemma dispatch_or_buffer_ok:
  assumes "buffer_ok (build_target d) buffer"
  shows "buffer_ok (build_target d) (fst (dispatch_or_buffer_via_sink d msg (buffer, w)))"
proof -
  have defer_ok: "buffer_ok (build_target d)
      (fst (buffer_deferred_msg_with_replay (build_target d) (sink_replay d) msg (buffer, w1)))"
    if "\<not> supplemental msg" for w1
    using assms that sink_replay_ok by (rule buffer_with_replay_ok)
  show ?thesis
  proof (cases "outbound_reject_reason d msg w \<noteq> None \<or> is_channel_in_cooldown d (pm_channel msg) w")
    case True
    then show ?thesis using assms defer_ok by (simp add: dispatch_or_buffer_via_sink_def Let_def)
  next
    case False
    obtain w1 res where s: "dispatch_via_sink d msg w = (w1, res)" by fastforce
    have "res = Deferred \<Longrightarrow> \<not> supplemental msg" using sink_outcome_supplemental [of msg d w] s by auto
    then show ?thesis
      using False s assms defer_ok [of w1]
      by (cases res) (auto simp: dispatch_or_buffer_via_sink_def Let_def split: prod.split)
  qed
qed

lemma dispatch_round_ok:
  "buffer_ok (build_target d) buffer \<Longrightarrow> dispatch_round d received (buffer, w) = Some s
   \<Longrightarrow> buffer_ok (build_target d) (fst s)"
proof -
  assume ok: "buffer_ok (build_target d) buffer" and r: "dispatch_round d received (buffer, w) = Some s"
  obtain b1 w1 where p: "replay_loop (is_channel_in_cooldown d) (tick_send d) 0 buffer w = (b1, w1)" by fastforce
  have "buffer_ok (build_target d) b1" using replay_ok [OF ok] p by (metis fst_conv)
  then show ?thesis
    using r dispatch_or_buffer_ok [of d b1]
    by (simp add: dispatch_round_def replay_ready_messages_for_tick_def p Let_def split: sum.splits RecvTimeoutError.splits if_splits)
      auto
qed

lemma worker_replay_ok:
  "buffer_ok t buffer \<Longrightarrow> buffer_ok t (fst (worker_replay d delay active (buffer, gate, w)))"
  using replay_ok [of t buffer "is_channel_in_cooldown d" "worker_send d delay active" 0 w]
  by (auto simp: worker_replay_def replay_ready_messages_for_tick_def split: prod.split)

lemma worker_defer_ok:
  "buffer_ok (build_target d) buffer \<Longrightarrow> \<not> supplemental msg
   \<Longrightarrow> buffer_ok (build_target d) (fst (worker_defer d msg (buffer, gate, w)))"
  by (simp add: worker_defer_def buffer_deferred_msg_without_replay_def push_ok)

lemma worker_round_ok:
  assumes k: "keeps_kind d" and ok: "buffer_ok (build_target d) buffer"
    and r: "worker_round d delay active received (buffer, gate, w) = Some s"
  shows "buffer_ok (build_target d) (fst s)"
proof -
  obtain b1 g1 w0 where p: "worker_replay d delay active (buffer, gate, w) = (b1, g1, w0)" by (metis prod_cases3)
  define w1 where "w1 = dp_wait d w0"
  have ok1: "buffer_ok (build_target d) b1" using worker_replay_ok [OF ok] p by (metis fst_conv)
  show ?thesis
  proof (cases received)
    case (Inl e)
    then show ?thesis using r p ok1 by (cases e) (auto simp: worker_round_def Let_def)
  next
    case (Inr msg)
    obtain w2 res where s: "dispatch_via_active_driver d delay msg w1 = (w2, res)" by fastforce
    have def: "res = Deferred \<Longrightarrow> \<not> supplemental msg"
      using driver_outcome_supplemental [OF k, of msg delay w1] s by auto
    obtain b3 w3 where o3: "dispatch_or_buffer_via_sink d msg (b1, w1) = (b3, w3)" by fastforce
    have ok3: "buffer_ok (build_target d) b3" using dispatch_or_buffer_ok [OF ok1] o3 by (metis fst_conv)
    show ?thesis
      using r ok1 ok3 def worker_defer_ok [OF ok1] unfolding worker_round_def p Inr prod.case Let_def w1_def [symmetric] sum.case option.inject s o3
      by (cases res) (auto split: if_splits)
  qed
qed

text \<open>Runs of the two loops over the results of their receives.\<close>

fun dispatch_run :: "('s, 'json) dispatcher \<Rightarrow> (RecvTimeoutError + 'json PcMsg) list
    \<Rightarrow> 'json PcMsg list \<times> 's dworld \<Rightarrow> 'json PcMsg list \<times> 's dworld" where
  "dispatch_run d [] s = s"
| "dispatch_run d (r # rs) s = (case dispatch_round d r s of None \<Rightarrow> s | Some s' \<Rightarrow> dispatch_run d rs s')"

fun worker_run :: "('s, 'json) dispatcher \<Rightarrow> nat \<Rightarrow> string \<Rightarrow> (RecvTimeoutError + 'json PcMsg) list
    \<Rightarrow> 'json PcMsg list \<times> DeferredReplayGate \<times> 's dworld \<Rightarrow> 'json PcMsg list \<times> DeferredReplayGate \<times> 's dworld" where
  "worker_run d delay active [] s = s"
| "worker_run d delay active (r # rs) s =
     (case worker_round d delay active r s of None \<Rightarrow> s | Some s' \<Rightarrow> worker_run d delay active rs s')"

lemma dispatch_run_ok: "buffer_ok (build_target d) (fst s) \<Longrightarrow> buffer_ok (build_target d) (fst (dispatch_run d rs s))"
proof (induction rs arbitrary: s)
  case (Cons r rs)
  then show ?case using dispatch_round_ok [of d "fst s" r "snd s"] by (auto split: option.split)
qed simp

lemma worker_run_ok:
  "keeps_kind d \<Longrightarrow> buffer_ok (build_target d) (fst s) \<Longrightarrow> buffer_ok (build_target d) (fst (worker_run d delay active rs s))"
proof (induction rs arbitrary: s)
  case (Cons r rs)
  then show ?case
    using worker_round_ok [of d "fst s" delay active r "fst (snd s)" "snd (snd s)"] by (auto split: option.split)
qed simp

lemma empty_buffer_ok: "buffer_ok t []"
  by (simp add: buffer_ok_def reply_keys_def)

text \<open>
  C29: the buffer of deferred messages. Whatever the sinks do and other threads change, after any
  sequence of receives both dispatch loops hold at most 16 messages (64 on hosts), only replies and
  never supplemental messages, and at most one reply to the same request of a chat.
\<close>
theorem deferred_buffer_invariant:
  fixes d :: "('s, 'json) dispatcher"
  assumes "\<forall>m. pm_outbound_kind (fst (dp_prepare d m)) = pm_outbound_kind m"
  shows "\<forall>buffer \<in> {fst (dispatch_run d inputs ([], w)), fst (worker_run d delay active inputs ([], gate, w))}.
     length buffer \<le> COOLDOWN_BUFFER_MAX (b_target (dp_build d)) \<and> (\<forall>m \<in> set buffer. \<not> supplemental m)
     \<and> (\<forall>i j r. i < j \<and> j < length buffer \<and> request_of (buffer ! i) = Some r \<and> request_of (buffer ! j) = Some r
          \<longrightarrow> pm_channel (buffer ! i) \<noteq> pm_channel (buffer ! j) \<or> pm_chat_id (buffer ! i) \<noteq> pm_chat_id (buffer ! j))"
proof -
  have k: "keeps_kind d" using assms by (simp add: keeps_kind_def)
  have "buffer_ok (build_target d) (fst (dispatch_run d inputs ([], w)))"
    "buffer_ok (build_target d) (fst (worker_run d delay active inputs ([], gate, w)))"
    using dispatch_run_ok [of d "([], w)"] worker_run_ok [OF k, of "([], gate, w)"] by (simp_all add: empty_buffer_ok)
  moreover have uniq: "pm_channel (b ! i) \<noteq> pm_channel (b ! j) \<or> pm_chat_id (b ! i) \<noteq> pm_chat_id (b ! j)"
    if ok: "buffer_ok (build_target d) b" and ij: "i < j" "j < length b"
      and r: "request_of (b ! i) = Some r" "request_of (b ! j) = Some r" for b :: "'json PcMsg list" and i j r
  proof (rule ccontr)
    assume "\<not> ?thesis"
    then have same: "reply_key (b ! i) = reply_key (b ! j)" "reply_key (b ! j) \<noteq> None"
      using r ok ij by (auto simp: reply_key_def buffer_ok_def)
    have "take j b ! i \<in> set (take j b)" using ij by (intro nth_mem) simp
    then have "reply_key (b ! i) \<in> set (map reply_key (take j b))" using ij by simp
    then have "reply_key (b ! j) \<in> set (reply_keys (take j b))" "reply_key (b ! j) \<in> set (reply_keys [b ! j])"
      using same by (simp_all add: reply_keys_def)
    then have "\<not> distinct (reply_keys b)" unfolding reply_keys_split [OF ij(2)] by auto
    then show False using ok by (simp add: buffer_ok_def)
  qed
  moreover have "length b \<le> COOLDOWN_BUFFER_MAX (b_target (dp_build d)) \<and> (\<forall>m \<in> set b. \<not> supplemental m)
     \<and> (\<forall>i j r. i < j \<and> j < length b \<and> request_of (b ! i) = Some r \<and> request_of (b ! j) = Some r
          \<longrightarrow> pm_channel (b ! i) \<noteq> pm_channel (b ! j) \<or> pm_chat_id (b ! i) \<noteq> pm_chat_id (b ! j))"
    if ok: "buffer_ok (build_target d) b" for b :: "'json PcMsg list"
    using ok uniq [OF ok] by (simp add: buffer_ok_def)
  ultimately show ?thesis by blast
qed

section \<open>Attempts and the breaker\<close>

lemma attempts_inv:
  assumes "\<And>w. I w \<Longrightarrow> I (fst (send w))" "\<And>w. I w \<Longrightarrow> I (pause w)"
  shows "I w \<Longrightarrow> I (fst (sink_attempts send pause n again last_err w))"
proof (induction n arbitrary: again last_err w)
  case (Suc n)
  obtain w' r where s: "send (if again then pause w else w) = (w', r)" by fastforce
  have "I (if again then pause w else w)" using Suc.prems assms(2) by simp
  from assms(1) [OF this] s have "I w'" by simp
  then show ?case using Suc.IH s by (cases r) auto
qed simp

lemma attempts_calls:
  fixes calls :: "'s dworld \<Rightarrow> nat"
  assumes "\<And>w. calls (fst (send w)) = Suc (calls w)" "\<And>w. calls (pause w) = calls w"
  shows "calls (fst (sink_attempts send pause n again last_err w)) \<le> calls w + n"
proof (induction n arbitrary: again last_err w)
  case (Suc n)
  obtain w' r where s: "send (if again then pause w else w) = (w', r)" by fastforce
  have "calls w' = Suc (calls w)" using assms(1) [of "if again then pause w else w"] assms(2) [of w] s by (simp split: if_splits)
  then show ?case using Suc.IH [of True _ w'] s by (cases r) (auto intro: le_trans)
qed simp

lemma attempts_some: "0 < n \<Longrightarrow> snd (sink_attempts send pause n again last_err w) \<noteq> Inl None"
proof -
  have "snd (sink_attempts send pause m again (Some e) w) \<noteq> Inl None" for m again e w
  proof (induction m arbitrary: again e w)
    case (Suc m)
    then show ?case by (auto split: prod.split sum.split)
  qed simp
  then show "0 < n \<Longrightarrow> snd (sink_attempts send pause n again last_err w) \<noteq> Inl None"
    by (cases n) (auto split: prod.split sum.split)
qed

text \<open>A sink and a pause that leave the orchestrator, the mode and the uptime alone.\<close>

definition calm :: "('s dworld \<Rightarrow> 's dworld) \<Rightarrow> bool" where
  "calm f \<longleftrightarrow> (\<forall>w. dw_orch (f w) = dw_orch w \<and> dw_uptime (f w) = dw_uptime w \<and> dw_mode (f w) = dw_mode w)"

lemma SEND_RETRY_pos: "0 < SEND_RETRY t"
  by (cases t) simp_all

text \<open>What a dispatch through a sink leaves of the orchestrator and how often it calls the sink.\<close>

lemma dispatch_accounting:
  fixes d :: "('s, 'json) dispatcher"
  assumes "dp_sinks d (pm_channel msg) = Some sink" "\<not> supplemental msg"
    and "\<forall>m c. calm (\<lambda>w. fst (sink m c w))" "\<forall>n. calm (dp_pause d n)"
    and "\<forall>m c w. calls (dw_outer (fst (sink m c w))) = Suc (calls (dw_outer w))"
    and "\<forall>n w. dw_outer (dp_pause d n w) = dw_outer w"
    and "dispatch_via_sink d msg w = (w', outcome)"
  shows "dw_orch w' =
      (case outcome of
         Sent \<Rightarrow> record_channel_result (dp_build d) (dw_uptime w) (dw_orch w) (pm_channel msg) True
       | Failed \<Rightarrow> record_channel_result (dp_build d) (dw_uptime w) (dw_orch w) (pm_channel msg) False
       | Deferred \<Rightarrow> dw_orch w)
    \<and> calls (dw_outer w') \<le> calls (dw_outer w) + SEND_RETRY (b_target (dp_build d))
    \<and> dw_uptime w' = dw_uptime w \<and> dw_mode w' = dw_mode w"
proof -
  let ?same = "\<lambda>v. dw_orch v = dw_orch w \<and> dw_uptime v = dw_uptime w \<and> dw_mode v = dw_mode w"
  let ?calls = "\<lambda>v. calls (dw_outer v)"
  let ?n = "SEND_RETRY (b_target (dp_build d))"
  obtain prepared content where p: "dp_prepare d msg = (prepared, content)" by fastforce
  obtain w1 adm where a: "apply_primary_outbound_admission d (pm_channel msg) w = (w1, adm)" by fastforce
  have w1: "?same w1" "?calls w1 = ?calls w"
    using a assms(4,6)
    by (auto simp: apply_primary_outbound_admission_def calm_def split: AdmissionDecision.splits)
  have yield: "?same (background_yield d w1)" "?calls (background_yield d w1) = ?calls w"
    using w1 assms(4,6) by (auto simp: background_yield_def calm_def Let_def)
  obtain w2 r where r: "sink_attempts (sink prepared content) (dp_pause d SEND_RETRY_DELAY_MS) ?n False None
      (background_yield d w1) = (w2, r)" by fastforce
  have same2: "?same w2"
    using attempts_inv [of ?same "sink prepared content" "dp_pause d SEND_RETRY_DELAY_MS", OF _ _ yield(1)] assms(3,4) r
    by (auto simp: calm_def) (metis fst_conv)+
  have calls2: "?calls w2 \<le> ?calls w + ?n"
    using attempts_calls [of ?calls "sink prepared content" "dp_pause d SEND_RETRY_DELAY_MS" ?n False None "background_yield d w1"]
      assms(5,6) r yield(2) by simp
  have some: "r \<noteq> Inl None" using attempts_some [OF SEND_RETRY_pos] r by (metis snd_conv)
  show ?thesis
  proof (cases adm)
    case AdmissionDeferred
    then show ?thesis using assms(1,2,7) p a w1 by (simp add: dispatch_via_sink_def)
  next
    case AdmissionProceed
    then show ?thesis
      using assms(1,2,7) p a r same2 calls2 some
      by (auto simp: dispatch_via_sink_def conclude_failure_def record_channel_ok_def record_channel_fail_def
          split: sum.splits option.splits if_splits)
  qed
qed

text \<open>
  What the circuit breaker hears of a reply. While only this dispatch touches the orchestrator, a reply
  that is sent is recorded as one success, a reply that fails for good as one failure, and a
  deferred reply not at all; and the sink is called at most as often as the retry limit allows.
\<close>
theorem dispatch_breaker_accounting:
  fixes d :: "('s, 'json) dispatcher"
  assumes "dp_sinks d (pm_channel msg) = Some sink" "\<not> supplemental msg"
    and "\<forall>m c. calm (\<lambda>w. fst (sink m c w))" "\<forall>n. calm (dp_pause d n)"
    and "\<forall>m c w. calls (dw_outer (fst (sink m c w))) = Suc (calls (dw_outer w))"
    and "\<forall>n w. dw_outer (dp_pause d n w) = dw_outer w"
    and "dispatch_via_sink d msg w = (w', outcome)"
  shows "dw_orch w' =
      (case outcome of
         Sent \<Rightarrow> record_channel_result (dp_build d) (dw_uptime w) (dw_orch w) (pm_channel msg) True
       | Failed \<Rightarrow> record_channel_result (dp_build d) (dw_uptime w) (dw_orch w) (pm_channel msg) False
       | Deferred \<Rightarrow> dw_orch w)
    \<and> calls (dw_outer w') \<le> calls (dw_outer w) + SEND_RETRY (b_target (dp_build d))"
  using dispatch_accounting [OF assms] by blast

section \<open>Fates\<close>

text \<open>
  No reply disappears without a reason. A reply that arrives is afterwards in the buffer, or it was
  given to its sink and sent or failed for good, or the buffer is full of other replies. A reply that was
  in the buffer is still there, or it was sent, or the arriving one answers the same request and took its place.
\<close>
theorem reply_fates:
  assumes "dispatch_or_buffer_via_sink d msg (buffer, w) = (buffer', w')"
    and "buffer_ok (b_target (dp_build d)) buffer" "\<not> supplemental msg"
  shows "(msg \<in> set buffer' \<or> snd (dispatch_via_sink d msg w) \<in> {Sent, Failed}
            \<or> length buffer' = COOLDOWN_BUFFER_MAX (b_target (dp_build d)))
    \<and> (\<forall>m \<in> set buffer. m \<in> set buffer' \<or> (\<exists>w0. snd (dispatch_via_sink d m w0) = Sent)
         \<or> (reply_key m = reply_key msg \<and> reply_key msg \<noteq> None))"
proof -
  let ?t = "b_target (dp_build d)"
  note ok = assms(2) and prim = assms(3)
  have deferred: "(msg \<in> set b3 \<or> length b3 = COOLDOWN_BUFFER_MAX ?t)
      \<and> (\<forall>m \<in> set buffer. m \<in> set b3 \<or> (\<exists>w0. snd (dispatch_via_sink d m w0) = Sent)
           \<or> (reply_key m = reply_key msg \<and> reply_key msg \<noteq> None))"
    if "buffer_deferred_msg_with_replay ?t (sink_replay d) msg (buffer, w1) = (b3, w3)" for w1 b3 w3
  proof -
    obtain b1 res where p: "try_push_buffered_msg ?t buffer msg = (b1, res)" by fastforce
    note push = push_contents [OF ok prim p]
    show ?thesis
    proof (cases res)
      case (Full pending)
      then have full: "pending = msg" "b1 = buffer" using push(1) by auto
      obtain b2 w2 where rep: "replay_loop (is_channel_in_cooldown d) (sink_sent d) 0 buffer w1 = (b2, w2)" by fastforce
      have ok2: "buffer_ok ?t b2" using replay_ok [OF ok] rep by (metis fst_conv)
      obtain b4 res4 where q: "try_push_buffered_msg ?t b2 msg = (b4, res4)" by fastforce
      have b3: "b3 = b4" using that Full full p rep q by (simp add: buffer_deferred_msg_with_replay_def sink_replay_def)
      have gone: "m \<in> set b2 \<or> (\<exists>w0. snd (dispatch_via_sink d m w0) = Sent)" if old: "m \<in> set buffer" for m
      proof (cases "m \<in> set b2")
        case False
        then obtain w0 where "snd (sink_sent d m w0)"
          using replay_contents [of m "is_channel_in_cooldown d" "sink_sent d" 0 buffer w1] old rep by auto
        then have "snd (dispatch_via_sink d m w0) = Sent" by (simp add: sink_sent_def case_prod_beta)
        then show ?thesis by blast
      qed simp
      note again = push_contents [OF ok2 prim q]
      show ?thesis using again(1,2) gone b3 by blast
    qed (use that p push in \<open>auto simp: buffer_deferred_msg_with_replay_def\<close>)
  qed
  show ?thesis
  proof (cases "outbound_reject_reason d msg w \<noteq> None \<or> is_channel_in_cooldown d (pm_channel msg) w")
    case True
    then have "buffer_deferred_msg_with_replay ?t (sink_replay d) msg (buffer, w) = (buffer', w')"
      using assms(1,3) by (simp add: dispatch_or_buffer_via_sink_def Let_def)
    from deferred [OF this] show ?thesis by blast
  next
    case False
    obtain w1 res where s: "dispatch_via_sink d msg w = (w1, res)" by fastforce
    show ?thesis
    proof (cases "res = Deferred")
      case True
      obtain b3 w3 where b: "buffer_deferred_msg_with_replay ?t (sink_replay d) msg (buffer, w1) = (b3, w3)" by fastforce
      then have "buffer' = b3" using assms(1) False s True by (simp add: dispatch_or_buffer_via_sink_def Let_def)
      then show ?thesis using deferred [OF b] by blast
    next
      case other: False
      then have "buffer' = buffer" using assms(1) False s by (cases res) (auto simp: dispatch_or_buffer_via_sink_def Let_def)
      then show ?thesis using s other by (cases res) auto
    qed
  qed
qed

section \<open>The breaker stops the sends\<close>

lemma decision_of_health [simp]:
  "should_accept_outbound t (record_channel_result b u st c s) channel source = should_accept_outbound t st channel source"
  by (simp add: record_channel_result_def should_accept_outbound_def should_accept_outbound_with_mode_def
      is_queue_congested_def queue_total_def cautious_outbound_defer_delay_ms_def Let_def
      split: option.split PressureLevel.split target.split)

lemma attempts_failing:
  fixes calls :: "'s dworld \<Rightarrow> nat"
  assumes "\<And>w. \<exists>e. snd (send w) = Inl e \<and> \<not> should_defer_primary_send_error e"
    and "\<And>w. calls (fst (send w)) = Suc (calls w)" "\<And>w. calls (pause w) = calls w"
  shows "0 < n \<Longrightarrow> \<exists>w' e. sink_attempts send pause n again last_err w = (w', Inl (Some e)) \<and> \<not> should_defer_primary_send_error e
           \<and> calls w' = calls w + n"
proof (induction n arbitrary: again last_err w)
  case (Suc n)
  let ?v = "if again then pause w else w"
  obtain e where e: "snd (send ?v) = Inl e" "\<not> should_defer_primary_send_error e" using assms(1) by blast
  obtain w1 where s: "send ?v = (w1, Inl e)" using e(1) by (cases "send ?v") simp
  have calls1: "calls w1 = Suc (calls w)" using assms(2) [of ?v] assms(3) [of w] s by (simp split: if_splits)
  have go: "sink_attempts send pause (Suc n) again last_err w = sink_attempts send pause n True (Some e) w1"
    using s e(2) by (simp add: should_defer_primary_send_error_def)
  show ?case
  proof (cases "n = 0")
    case True
    then show ?thesis using go calls1 e(2) by simp
  next
    case False
    then show ?thesis using Suc.IH [of True "Some e" w1] go calls1 by auto
  qed
qed simp

lemma dispatch_failing:
  fixes d :: "('s, 'json) dispatcher"
  assumes "dp_sinks d (pm_channel msg) = Some sink" "\<not> supplemental msg"
    and "\<forall>m c w. \<exists>e. snd (sink m c w) = Inl e \<and> \<not> should_defer_primary_send_error e"
    and "\<forall>m c w. calls (dw_outer (fst (sink m c w))) = Suc (calls (dw_outer w))"
    and "\<forall>n w. dw_outer (dp_pause d n w) = dw_outer w"
    and "outbound_admission_decision d (pm_channel msg) w = Accept"
  shows "snd (dispatch_via_sink d msg w) = Failed
    \<and> calls (dw_outer (fst (dispatch_via_sink d msg w))) = calls (dw_outer w) + SEND_RETRY (b_target (dp_build d))"
proof -
  obtain prepared content where p: "dp_prepare d msg = (prepared, content)" by fastforce
  have a: "apply_primary_outbound_admission d (pm_channel msg) w = (w, AdmissionProceed)"
    using assms(6) by (simp add: apply_primary_outbound_admission_def)
  have y: "dw_outer (background_yield d w) = dw_outer w" using assms(5) by (simp add: background_yield_def Let_def)
  obtain w2 e where r: "sink_attempts (sink prepared content) (dp_pause d SEND_RETRY_DELAY_MS)
        (SEND_RETRY (b_target (dp_build d))) False None (background_yield d w) = (w2, Inl (Some e))"
      "\<not> should_defer_primary_send_error e" "calls (dw_outer w2) = calls (dw_outer w) + SEND_RETRY (b_target (dp_build d))"
    using attempts_failing [of "sink prepared content" "\<lambda>v. calls (dw_outer v)" "dp_pause d SEND_RETRY_DELAY_MS"
        "SEND_RETRY (b_target (dp_build d))" False None "background_yield d w"] assms(3,4,5) SEND_RETRY_pos y by auto
  show ?thesis
    using assms(1,2) p a r by (simp add: dispatch_via_sink_def conclude_failure_def record_channel_fail_def)
qed

text \<open>Not rejected now; and other activity that spares a channel: it records nothing for it and does not have it rejected.\<close>

definition admits :: "('s, 'json) dispatcher \<Rightarrow> string \<Rightarrow> 's dworld \<Rightarrow> bool" where
  "admits d c w \<longleftrightarrow> (\<forall>reason. outbound_admission_decision d c w \<noteq> Reject reason)"

definition health_slot :: "nat \<Rightarrow> 's dworld \<Rightarrow> ChannelHealthSlot" where
  "health_slot i w = os_channel_health (dw_orch w) ! i"

definition spares :: "('s, 'json) dispatcher \<Rightarrow> string \<Rightarrow> nat \<Rightarrow> ('s dworld \<Rightarrow> 's dworld) \<Rightarrow> bool" where
  "spares d c i f \<longleftrightarrow> (\<forall>w. health_slot i (f w) = health_slot i w \<and>
     length (os_channel_health (dw_orch (f w))) = length (os_channel_health (dw_orch w)) \<and> (admits d c w \<longrightarrow> admits d c (f w)))"

text \<open>One more reply to a channel whose sink always fails, before the breaker opens.\<close>

lemma strike:
  fixes d :: "('s, 'json) dispatcher"
  assumes sink: "dp_sinks d c = Some sink" "\<forall>m ct w. \<exists>e. snd (sink m ct w) = Inl e \<and> \<not> should_defer_primary_send_error e"
    and spared: "\<forall>m ct. spares d c i (\<lambda>w. fst (sink m ct w))" "\<forall>n. spares d c i (dp_pause d n)" "spares d c i (dp_wait d)"
    and calls: "\<forall>m ct w. calls (dw_outer (fst (sink m ct w))) = Suc (calls (dw_outer w))"
      "\<forall>n w. calls (dw_outer (dp_pause d n w)) = calls (dw_outer w)" "\<forall>w. calls (dw_outer (dp_wait d w)) = calls (dw_outer w)"
    and m: "pm_channel m = c" "\<not> supplemental m" "\<not> silent (b_target (dp_build d)) m"
    and i: "channel_to_index (dp_build d) c = Some i"
    and w: "i < length (os_channel_health (dw_orch w))" "ch_consecutive_failures (health_slot i w) < CHANNEL_FAIL_THRESHOLD"
      "admits d c w"
  obtains w' where "dispatch_round d (Inr m) ([], w) = Some ([], w')" "i < length (os_channel_health (dw_orch w'))"
    "ch_consecutive_failures (health_slot i w') = ch_consecutive_failures (health_slot i w) + 1"
    "ch_last_failure_uptime_secs (health_slot i w') = dw_uptime w'" "admits d c w'"
    "calls (dw_outer w') = calls (dw_outer w) + SEND_RETRY (b_target (dp_build d))"
proof -
  let ?I = "\<lambda>v. health_slot i v = health_slot i w \<and> length (os_channel_health (dw_orch v)) = length (os_channel_health (dw_orch w))
    \<and> admits d c v"
  let ?n = "SEND_RETRY (b_target (dp_build d))"
  have I: "?I (dp_pause d k v)" "?I (dp_wait d v)" "?I (fst (sink pm ct v))" if "?I v" for v k pm ct
    using that spared unfolding spares_def by metis+
  define v where "v = dp_wait d w"
  have v: "?I v" "calls (dw_outer v) = calls (dw_outer w)" using I(2) [of w] w(3) calls(3) by (simp_all add: v_def)
  define v1 where "v1 = fst (apply_primary_outbound_admission d c v)"
  have a: "apply_primary_outbound_admission d c v = (v1, AdmissionProceed)" "?I v1" "calls (dw_outer v1) = calls (dw_outer w)"
    using v I(1) [of v] calls(2)
    by (simp_all add: v1_def apply_primary_outbound_admission_def admits_def split: AdmissionDecision.split)
  define v2 where "v2 = background_yield d v1"
  have y: "?I v2" "calls (dw_outer v2) = calls (dw_outer w)"
    using a(2,3) I(1) [of v1] calls(2) by (simp_all add: v2_def background_yield_def Let_def)
  obtain prepared content where p: "dp_prepare d m = (prepared, content)" by fastforce
  obtain w2 e where t: "sink_attempts (sink prepared content) (dp_pause d SEND_RETRY_DELAY_MS) ?n False None v2 = (w2, Inl (Some e))"
      "\<not> should_defer_primary_send_error e" "calls (dw_outer w2) = calls (dw_outer w) + ?n"
    using attempts_failing [of "sink prepared content" "\<lambda>v. calls (dw_outer v)" "dp_pause d SEND_RETRY_DELAY_MS"
        ?n False None v2] sink(2) calls(1,2) SEND_RETRY_pos y(2) by auto
  have J: "?I w2"
    using attempts_inv [of ?I "sink prepared content" "dp_pause d SEND_RETRY_DELAY_MS" v2 ?n False None] I(1,3) y(1) t(1) by simp
  have s: "dispatch_via_sink d m v = (record_channel_fail d c w2, Failed)"
    using sink(1) m(1,2) p a(1) t(1,2) by (simp add: dispatch_via_sink_def conclude_failure_def flip: v2_def)
  have open_now: "outbound_reject_reason d m v = None" "\<not> is_channel_in_cooldown d c v"
    using v(1) w(2) m(1) i
    by (auto simp: outbound_reject_reason_def admits_def is_channel_in_cooldown_def is_channel_healthy_def
        is_channel_healthy_by_index_def health_slot_def split: AdmissionDecision.split)
  have "dispatch_round d (Inr m) ([], w) = Some ([], record_channel_fail d c w2)"
    using m s open_now
    by (simp add: dispatch_round_def replay_ready_messages_for_tick_def replay_loop.simps dispatch_or_buffer_via_sink_def
        Let_def flip: v_def)
  moreover have "admits d c (record_channel_fail d c w2)"
    using J by (simp add: admits_def outbound_admission_decision_def record_channel_fail_def)
  ultimately show ?thesis
    using that [of "record_channel_fail d c w2"] J t(3) i w(1)
    by (simp add: record_channel_fail_def record_channel_result_def health_slot_def Let_def)
qed

text \<open>
  C32: the breaker protects a broken channel. A channel whose sink fails for good on everything has no failure counted,
  and the buffer is empty. The first three replies are each tried as often as the retry limit says (twice on a board,
  three times on the host) and given up, however much time the sends, the pauses and the waits between take. The
  fourth, if it is received less than 60 seconds after the third was given up, is not given to the sink at all: it waits in
  the buffer. Other threads may do anything in the meantime except record results for this channel, call its sink, or bring about a
  state in which admission rejects it.
\<close>
theorem breaker_stops_sends:
  fixes d :: "('s, 'json) dispatcher"
  assumes "dp_sinks d c = Some sink"
    and "\<forall>m ct w. \<exists>e. snd (sink m ct w) = Inl e \<and> \<not> should_defer_primary_send_error e"
    and "\<forall>m ct. spares d c i (\<lambda>w. fst (sink m ct w))" "\<forall>n. spares d c i (dp_pause d n)" "spares d c i (dp_wait d)"
    and "\<forall>m ct w. calls (dw_outer (fst (sink m ct w))) = Suc (calls (dw_outer w))"
    and "\<forall>n w. calls (dw_outer (dp_pause d n w)) = calls (dw_outer w)" "\<forall>w. calls (dw_outer (dp_wait d w)) = calls (dw_outer w)"
    and "\<forall>m \<in> {m1, m2, m3, m4}. pm_channel m = c \<and> \<not> supplemental m \<and> \<not> silent (b_target (dp_build d)) m"
    and "channel_to_index (dp_build d) c = Some i" "i < length (os_channel_health (dw_orch w))"
      "ch_consecutive_failures (health_slot i w) = 0" "admits d c w"
  shows "\<exists>w3. dispatch_run d (map Inr [m1, m2, m3]) ([], w) = ([], w3)
    \<and> calls (dw_outer w3) = calls (dw_outer w) + 3 * (if b_target (dp_build d) = Esp then 2 else 3)
    \<and> (unat (dw_uptime (dp_wait d w3)) < unat (dw_uptime w3) + 60 \<longrightarrow>
        dispatch_run d (map Inr [m1, m2, m3, m4]) ([], w) = ([m4], dp_wait d w3))"
proof -
  let ?n = "SEND_RETRY (b_target (dp_build d))"
  let ?at = "\<lambda>k v. i < length (os_channel_health (dw_orch v)) \<and> ch_consecutive_failures (health_slot i v) = of_nat k \<and> admits d c v
      \<and> calls (dw_outer v) = calls (dw_outer w) + k * ?n"
  have go: "\<exists>v'. dispatch_round d (Inr m) ([], v) = Some ([], v') \<and> ?at (Suc k) v'
      \<and> ch_last_failure_uptime_secs (health_slot i v') = dw_uptime v'"
    if at: "?at k v" and k: "k = 0 \<or> k = 1 \<or> k = 2" and mem: "m \<in> {m1, m2, m3, m4}" for m k v
  proof -
    have m: "pm_channel m = c" "\<not> supplemental m" "\<not> silent (b_target (dp_build d)) m" using assms(9) mem by auto
    have few: "ch_consecutive_failures (health_slot i v) < CHANNEL_FAIL_THRESHOLD"
      using at k by (auto simp: CHANNEL_FAIL_THRESHOLD_def)
    have adm: "i < length (os_channel_health (dw_orch v))" "admits d c v" using at by blast+
    obtain v' where "dispatch_round d (Inr m) ([], v) = Some ([], v')" "i < length (os_channel_health (dw_orch v'))"
      "ch_consecutive_failures (health_slot i v') = ch_consecutive_failures (health_slot i v) + 1"
      "ch_last_failure_uptime_secs (health_slot i v') = dw_uptime v'" "admits d c v'" "calls (dw_outer v') = calls (dw_outer v) + ?n"
      using strike [OF assms(1-8) m assms(10) adm(1) few adm(2)] by blast
    then show ?thesis using at by (auto simp: algebra_simps)
  qed
  have at0: "?at 0 w" using assms(11-13) by simp
  obtain w1 where w1: "dispatch_round d (Inr m1) ([], w) = Some ([], w1)" "?at (Suc 0) w1" using go [OF at0, of m1] by auto
  obtain w2 where w2: "dispatch_round d (Inr m2) ([], w1) = Some ([], w2)" "?at (Suc (Suc 0)) w2" using go [OF w1(2), of m2] by auto
  obtain w3 where w3: "dispatch_round d (Inr m3) ([], w2) = Some ([], w3)" "?at (Suc (Suc (Suc 0))) w3"
      "ch_last_failure_uptime_secs (health_slot i w3) = dw_uptime w3"
    using go [OF w2(2), of m3] by auto
  let ?v = "dp_wait d w3"
  have m4: "pm_channel m4 = c" "\<not> supplemental m4" "\<not> silent (b_target (dp_build d)) m4" using assms(9) by auto
  have slot: "health_slot i ?v = health_slot i w3" using assms(5) by (simp add: spares_def)
  have last: "dispatch_round d (Inr m4) ([], w3) = Some ([m4], ?v)" if soon: "unat (dw_uptime ?v) < unat (dw_uptime w3) + 60"
  proof -
    have "\<not> (60 :: u32) \<le> sat_sub (dw_uptime ?v) (dw_uptime w3)"
      using soon by (simp add: word_le_nat_alt unat_sat_sub not_le)
    then have "is_channel_in_cooldown d c ?v"
      using slot w3(2,3) assms(10)
      by (simp add: is_channel_in_cooldown_def is_channel_healthy_def is_channel_healthy_by_index_def health_slot_def
          CHANNEL_FAIL_THRESHOLD_def CHANNEL_FAIL_COOLDOWN_SECS_def)
    moreover have "0 < COOLDOWN_BUFFER_MAX (b_target (dp_build d))" by (cases "b_target (dp_build d)") simp_all
    ultimately show ?thesis
      using m4
      by (simp add: dispatch_round_def replay_ready_messages_for_tick_def replay_loop.simps dispatch_or_buffer_via_sink_def
          Let_def buffer_deferred_msg_with_replay_def try_push_buffered_msg_def split: option.split)
  qed
  have n: "3 * ?n = 3 * (if b_target (dp_build d) = Esp then 2 else 3)" by (cases "b_target (dp_build d)") simp_all
  have "dispatch_run d (map Inr [m1, m2, m3]) ([], w) = ([], w3)" using w1(1) w2(1) w3(1) by simp
  moreover have "calls (dw_outer w3) = calls (dw_outer w) + 3 * (if b_target (dp_build d) = Esp then 2 else 3)"
    unfolding n [symmetric] using w3(2) by simp
  moreover have "dispatch_run d (map Inr [m1, m2, m3, m4]) ([], w) = ([m4], ?v)"
    if "unat (dw_uptime ?v) < unat (dw_uptime w3) + 60"
    using w1(1) w2(1) w3(1) last [OF that] by simp
  ultimately show ?thesis by blast
qed

section \<open>A run of the loop\<close>

text \<open>A channel whose sink always answers with the given result, counting its calls; nothing else happens.\<close>

definition idle_source :: RuntimeModeSource where
  "idle_source = voice_source\<lparr>ms_voice_exclusive_active := False, ms_pairing_required := False,
     ms_background_maintenance_active := False, ms_config_active := False, ms_config_activity_phase := PhaseIdle\<rparr>"

definition counting_sink :: "Error + unit \<Rightarrow> unit PcMsg \<Rightarrow> string \<Rightarrow> nat dworld \<Rightarrow> nat answer" where
  "counting_sink r m content w = (w\<lparr>dw_outer := Suc (dw_outer w)\<rparr>, r)"

definition counting_dispatcher :: "Error + unit \<Rightarrow> (nat, unit) dispatcher" where
  "counting_dispatcher r =
     \<lparr>dp_build = \<lparr>b_target = Esp, b_telegram = True, b_feishu = True, b_dingtalk = False, b_wecom = False,
                  b_qq_channel = False, b_websocket = False\<rparr>,
      dp_sinks = (\<lambda>channel. if channel = ''telegram'' then Some (counting_sink r) else None),
      dp_driver = (\<lambda>item n w. (w, r)), dp_prepare = (\<lambda>m. (m, pm_content m)),
      dp_pause = (\<lambda>ms w. w\<lparr>dw_time := dw_time w + ms\<rparr>), dp_wait = (\<lambda>w. w), dp_refresh = (\<lambda>w. (w, PressureNormal))\<rparr>"

definition quiet_world :: "nat dworld" where
  "quiet_world = \<lparr>dw_orch = orchestrator_new, dw_mode = idle_source, dw_uptime = 100, dw_time = 0, dw_next_id = 0, dw_outer = 0\<rparr>"

definition reply_to :: "string \<Rightarrow> string \<Rightarrow> unit PcMsg" where
  "reply_to req_id text =
     \<lparr>pm_channel = ''telegram'', pm_chat_id = ''c'', pm_content = text, pm_body = body_text text,
      pm_platform_thread_id = [], pm_req_id = Some req_id, pm_outbound_kind = Primary, pm_ingress = IngressUser,
      pm_enqueue_ts_ms = 0, pm_source_transport = TransportInternal, pm_platform_message_id = [],
      pm_platform_event_id = [], pm_inbound_dedup_key = [], pm_is_group = False\<rparr>"

lemma reply_to_simps [simp]:
  "pm_channel (reply_to r s) = ''telegram''" "\<not> supplemental (reply_to r s)" "pm_content (reply_to r s) = s"
  "pm_req_id (reply_to r s) = Some r" "pm_chat_id (reply_to r s) = ''c''"
  by (simp_all add: reply_to_def supplemental_def is_supplemental_def)

lemma counting_simps [simp]:
  "dp_sinks (counting_dispatcher r) ''telegram'' = Some (counting_sink r)"
  "b_target (dp_build (counting_dispatcher r)) = Esp"
  "fst (dp_prepare (counting_dispatcher r) m) = m"
  "calm (\<lambda>w. fst (counting_sink r m c w))" "calm (dp_pause (counting_dispatcher r) n)"
  "dw_outer (fst (counting_sink r m c w)) = Suc (dw_outer w)" "snd (counting_sink r m c w) = r"
  "dw_outer (dp_pause (counting_dispatcher r) n w) = dw_outer w"
  by (simp_all add: counting_dispatcher_def counting_sink_def calm_def)

lemma quiet_world_open: "outbound_admission_decision (counting_dispatcher r) ''telegram'' quiet_world = Accept"
  by (simp add: outbound_admission_decision_def should_accept_outbound_def should_accept_outbound_with_mode_def
      non_voice_block_mode_def quiet_world_def idle_source_def voice_source_def derive_mode_def
      action_budget_for_source_def mode_budget_def orchestrator_new_def Let_def pressure_from_byte_def)

theorem deferred_buffer_invariant_witness:
  "length (fst (dispatch_run (counting_dispatcher (Inr ())) (map Inr [reply_to ''1'' ''a'', reply_to ''1'' ''b'']) ([], quiet_world))) \<le> 16"
  using deferred_buffer_invariant [of "counting_dispatcher (Inr ())" "map Inr [reply_to ''1'' ''a'', reply_to ''1'' ''b'']" quiet_world]
  by simp

definition refused :: "Error + unit" where
  "refused = Inl (ErrConfig ''token is empty'' ''telegram_send'')"

lemma refused_for_good: "\<exists>e. refused = Inl e \<and> \<not> should_defer_primary_send_error e"
  by (simp add: refused_def should_defer_primary_send_error_def should_defer_primary_send_error_immediately_def
      is_local_sender_queue_backpressure_def sender_queue_stages_def is_retryable_upstream_def http_status_code_def
      is_tls_admission.simps [of "ErrConfig _ _"] is_connect_error.simps [of "ErrConfig _ _"] local_connect_error_def)

theorem dispatch_breaker_accounting_witness:
  "dw_orch (fst (dispatch_via_sink (counting_dispatcher refused) (reply_to ''1'' ''a'') quiet_world))
     = record_channel_result (dp_build (counting_dispatcher refused)) 100 orchestrator_new ''telegram'' False
   \<and> dw_outer (fst (dispatch_via_sink (counting_dispatcher refused) (reply_to ''1'' ''a'') quiet_world)) \<le> 2"
proof -
  let ?r = "dispatch_via_sink (counting_dispatcher refused) (reply_to ''1'' ''a'') quiet_world"
  obtain w' res where r: "?r = (w', res)" by fastforce
  have "res = Failed"
    using dispatch_failing [of "counting_dispatcher refused" "reply_to ''1'' ''a''" "counting_sink refused" id quiet_world]
      refused_for_good quiet_world_open r by simp
  then show ?thesis
    using dispatch_breaker_accounting [of "counting_dispatcher refused" "reply_to ''1'' ''a''" "counting_sink refused" id
        quiet_world w' res] r
    by (simp add: quiet_world_def)
qed

theorem reply_fates_witness:
  "reply_to ''2'' ''b'' \<in> set (fst (dispatch_or_buffer_via_sink (counting_dispatcher refused) (reply_to ''2'' ''b'')
       ([reply_to ''1'' ''a''], quiet_world)))
     \<or> snd (dispatch_via_sink (counting_dispatcher refused) (reply_to ''2'' ''b'') quiet_world) \<in> {Sent, Failed}
     \<or> length (fst (dispatch_or_buffer_via_sink (counting_dispatcher refused) (reply_to ''2'' ''b'')
       ([reply_to ''1'' ''a''], quiet_world))) = 16"
proof -
  have "buffer_ok Esp [reply_to ''1'' ''a'']" by (simp add: buffer_ok_def reply_keys_def)
  then show ?thesis
    using reply_fates [of "counting_dispatcher refused" "reply_to ''2'' ''b''" "[reply_to ''1'' ''a'']" quiet_world,
        OF surjective_pairing] by simp
qed

text \<open>The same with a clock: a retry pause is counted as a second, and the wait for a message takes five.\<close>

definition ticking_dispatcher :: "(nat, unit) dispatcher" where
  "ticking_dispatcher = (counting_dispatcher refused)
     \<lparr>dp_pause := (\<lambda>ms w. w\<lparr>dw_time := dw_time w + ms, dw_uptime := dw_uptime w + of_nat (ms div 500)\<rparr>),
      dp_wait := (\<lambda>w. w\<lparr>dw_time := dw_time w + 5000, dw_uptime := dw_uptime w + 5\<rparr>)\<rparr>"

theorem breaker_stops_sends_witness:
  "\<exists>w3. dispatch_run ticking_dispatcher (map Inr [reply_to ''1'' ''a'', reply_to ''2'' ''b'', reply_to ''3'' ''c'']) ([], quiet_world)
       = ([], w3) \<and> dw_outer w3 = 6
     \<and> dispatch_run ticking_dispatcher
         (map Inr [reply_to ''1'' ''a'', reply_to ''2'' ''b'', reply_to ''3'' ''c'', reply_to ''4'' ''d'']) ([], quiet_world)
       = ([reply_to ''4'' ''d''], dp_wait ticking_dispatcher w3)"
proof -
  let ?d = ticking_dispatcher and ?c = "''telegram''"
  have slot: "channel_to_index (dp_build ?d) ?c = Some 0"
    by (simp add: channel_to_index_def catalog_eval counting_dispatcher_def ticking_dispatcher_def)
  have loud: "\<not> silent Esp (reply_to r s)" if "s \<in> {''a'', ''b'', ''c'', ''d''}" for r s
    using that by (auto simp: silent_def truncate_content_to_max_def trim_graphic graphic_def)
  have sel: "dp_sinks ?d ?c = Some (counting_sink refused)" "b_target (dp_build ?d) = Esp"
    "dp_pause ?d n w = w\<lparr>dw_time := dw_time w + n, dw_uptime := dw_uptime w + of_nat (n div 500)\<rparr>"
    "dp_wait ?d w = w\<lparr>dw_time := dw_time w + 5000, dw_uptime := dw_uptime w + 5\<rparr>" for n w
    by (simp_all add: ticking_dispatcher_def)
  have spared: "spares ?d ?c 0 f" if "\<And>w. dw_orch (f w) = dw_orch w \<and> dw_mode (f w) = dw_mode w" for f
    using that by (simp add: spares_def health_slot_def admits_def outbound_admission_decision_def)
  have adm: "admits ?d ?c quiet_world"
    using quiet_world_open by (simp add: admits_def outbound_admission_decision_def sel(2))
  have fresh: "0 < length (os_channel_health (dw_orch quiet_world))" "ch_consecutive_failures (health_slot 0 quiet_world) = 0"
    using orchestrator_new_slot [OF slot] by (simp_all add: quiet_world_def health_slot_def)
  have soon: "unat (dw_uptime (dp_wait ?d w)) < unat (dw_uptime w) + 60" for w
    using mod_less_eq_dividend [of "unat (dw_uptime w) + 5" "2 ^ 32"] by (simp add: sel(4) unat_word_ariths)
  have "\<exists>w3. dispatch_run ?d (map Inr [reply_to ''1'' ''a'', reply_to ''2'' ''b'', reply_to ''3'' ''c'']) ([], quiet_world) = ([], w3)
    \<and> id (dw_outer w3) = id (dw_outer quiet_world) + 3 * (if b_target (dp_build ?d) = Esp then 2 else 3)
    \<and> (unat (dw_uptime (dp_wait ?d w3)) < unat (dw_uptime w3) + 60 \<longrightarrow>
        dispatch_run ?d (map Inr [reply_to ''1'' ''a'', reply_to ''2'' ''b'', reply_to ''3'' ''c'', reply_to ''4'' ''d'']) ([], quiet_world)
          = ([reply_to ''4'' ''d''], dp_wait ?d w3))"
    by (rule breaker_stops_sends [OF sel(1) _ _ _ _ _ _ _ _ slot fresh adm])
      (use refused_for_good loud in \<open>auto intro!: spared simp: sel counting_sink_def\<close>)
  then show ?thesis using soon by (simp add: sel(2) quiet_world_def del: dispatch_run.simps list.map)
qed

end
