(* ===== verification/Cron.thy ===== *)
theory Cron
  imports Calendar Message
begin

text \<open>
  Scheduled work: the fields of cron expressions and the next trigger (\<open>src/src/tools/cron.rs\<close>), the tool
  that manages the stored tasks (\<open>src/src/tools/cron_manage.rs\<close>) and the tick that fires them
  (\<open>src/src/cron/mod.rs\<close>). The release build aborts on a panic, so a call that may panic
  has the result \<open>None\<close> for it. The translated text of a fired task, the queue it goes to, the
  store and the sensor watch are parameters.
\<close>

section \<open>Calls that may fail or panic\<close>

type_synonym 'a fallible = "(Error + 'a) option"

definition and_then :: "'a fallible \<Rightarrow> ('a \<Rightarrow> 'b fallible) \<Rightarrow> 'b fallible" where
  "and_then m f = (case m of None \<Rightarrow> None | Some (Inl e) \<Rightarrow> Some (Inl e) | Some (Inr x) \<Rightarrow> f x)"

abbreviation returns :: "'a \<Rightarrow> 'a fallible" where
  "returns x \<equiv> Some (Inr x)"

named_theorems fallible_iff

lemma and_then_ok [fallible_iff]: "and_then m f = returns y \<longleftrightarrow> (\<exists>x. m = returns x \<and> f x = returns y)"
  by (auto simp: and_then_def split: option.split sum.split)

lemma and_then_panic [fallible_iff]: "and_then m f = None \<longleftrightarrow> m = None \<or> (\<exists>x. m = returns x \<and> f x = None)"
  by (auto simp: and_then_def split: option.split sum.split)

lemma and_then_simps [simp]:
  "and_then (returns x) f = f x" "and_then (Some (Inl e)) f = Some (Inl e)" "and_then None f = None"
  by (simp_all add: and_then_def)

definition cron_error :: "string \<Rightarrow> 'a fallible" where
  "cron_error message = Some (Inl (ErrConfig message ''tool_cron''))"

section \<open>Fields\<close>

text \<open>\<open>(lo..=hi).step_by(step)\<close>, which panics for the step zero.\<close>

definition range_step :: "nat \<Rightarrow> nat \<Rightarrow> nat \<Rightarrow> nat list fallible" where
  "range_step lo hi step = (if step = 0 then None else returns (filter (\<lambda>v. (v - lo) mod step = 0) [lo..<Suc hi]))"

(* tools/cron.rs: lines 19-30 the step of a part *)
definition part_step :: "string \<Rightarrow> (string \<times> nat option) fallible" where
  "part_step part =
     (case split_once (CHR ''/'') part of
        Some (r, st) \<Rightarrow>
          (case parse_u32 (trim st) of
             Some n \<Rightarrow> returns (trim r, Some n)
           | None \<Rightarrow> cron_error ''invalid step'')
      | None \<Rightarrow> returns (part, None))"

(* tools/cron.rs: lines 38-59 the bounds of a part *)
definition part_bounds :: "nat \<Rightarrow> nat \<Rightarrow> string \<Rightarrow> (nat \<times> nat) fallible" where
  "part_bounds min_val max_val rng =
     (case split_once (CHR ''-'') rng of
        Some (a, b) \<Rightarrow>
          (case (parse_u32 (trim a), parse_u32 (trim b)) of
             (Some a, Some b) \<Rightarrow>
               (if b < a \<or> max_val < b \<or> a < min_val then cron_error ''range out of bounds'' else returns (a, b))
           | _ \<Rightarrow> cron_error ''invalid range'')
      | None \<Rightarrow>
          (case parse_u32 rng of
             Some v \<Rightarrow> (if v < min_val \<or> max_val < v then cron_error ''value out of bounds'' else returns (v, v))
           | None \<Rightarrow> cron_error ''invalid number''))"

definition default_to :: "'a \<Rightarrow> 'a option \<Rightarrow> 'a" where
  "default_to d r = (case r of Some x \<Rightarrow> x | None \<Rightarrow> d)"

(* tools/cron.rs: lines 18-65 one part of parse_cron_field *)
definition cron_part :: "nat \<Rightarrow> nat \<Rightarrow> string \<Rightarrow> nat list fallible" where
  "cron_part min_val max_val part =
     and_then (part_step (trim part)) (\<lambda>(rng, step).
       if rng = ''*'' then range_step min_val max_val (default_to 1 step)
       else and_then (part_bounds min_val max_val rng) (\<lambda>(lo, hi).
              and_then (range_step lo hi (default_to 1 step)) (\<lambda>vs.
                returns (filter (\<lambda>v. min_val \<le> v \<and> v \<le> max_val) vs))))"

primrec cron_parts :: "nat \<Rightarrow> nat \<Rightarrow> string list \<Rightarrow> nat list fallible" where
  "cron_parts min_val max_val [] = returns []"
| "cron_parts min_val max_val (p # ps) =
     and_then (cron_part min_val max_val p) (\<lambda>vs.
       and_then (cron_parts min_val max_val ps) (\<lambda>ws. returns (vs @ ws)))"

(* tools/cron.rs: fn parse_cron_field *)
definition parse_cron_field :: "string \<Rightarrow> nat \<Rightarrow> nat \<Rightarrow> nat list fallible" where
  "parse_cron_field text min_val max_val =
     (let s = trim text
      in if s = [] then cron_error ''empty cron field''
         else if s = ''*'' then returns [min_val..<Suc max_val]
         else and_then (cron_parts min_val max_val (split_on (CHR '','') s)) (\<lambda>out.
                let out = remdups_adj (sort out)
                in if out = [] then cron_error ''field has no valid value'' else returns out))"

section \<open>Expressions\<close>

text \<open>\<open>str::split_whitespace\<close>.\<close>

fun word_end :: "string \<Rightarrow> nat" where
  "word_end [] = 0"
| "word_end (c # cs) = (if leading (c # cs) \<noteq> None then 0 else Suc (word_end cs))"

lemma word_end_pos: "leading s = None \<Longrightarrow> s \<noteq> [] \<Longrightarrow> 0 < word_end s"
  by (cases s) auto

lemma length_trim_start: "length (trim_start s) \<le> length s"
proof (induction s rule: trim_start.induct)
  case (1 s)
  then show ?case by (subst trim_start.simps) (auto split: option.split intro: le_trans)
qed

function split_whitespace :: "string \<Rightarrow> string list" where
  "split_whitespace s =
     (let t = trim_start s
      in if t = [] then [] else take (word_end t) t # split_whitespace (drop (word_end t) t))"
  by pat_completeness auto
termination
proof (relation "measure length")
  fix s t :: string
  assume t: "t = trim_start s" "t \<noteq> []"
  then have "0 < word_end t" using word_end_pos [of t] trim_start_clean [of s] by simp
  then have "length (drop (word_end t) t) < length t" using t(2) by (cases t) auto
  then show "(drop (word_end t) t, s) \<in> measure length" using length_trim_start [of s] t(1) by simp
qed simp

declare split_whitespace.simps [simp del] word_end.simps [simp del]

record cron_fields =
  cf_minutes :: "nat list"
  cf_hours :: "nat list"
  cf_doms :: "nat list"
  cf_months :: "nat list"
  cf_dows :: "nat list"

text \<open>The five fields in their order, each parsed when those before it were.\<close>

(* tools/cron.rs: lines 90-94 the fields of next_cron_trigger *)
definition parse_fields_of :: "string list \<Rightarrow> cron_fields fallible" where
  "parse_fields_of parts =
     and_then (parse_cron_field (parts ! 0) 0 59) (\<lambda>minutes.
     and_then (parse_cron_field (parts ! 1) 0 23) (\<lambda>hours.
     and_then (parse_cron_field (parts ! 2) 1 31) (\<lambda>doms.
     and_then (parse_cron_field (parts ! 3) 1 12) (\<lambda>months.
     and_then (parse_cron_field (parts ! 4) 0 6) (\<lambda>dows.
       returns \<lparr>cf_minutes = minutes, cf_hours = hours, cf_doms = doms, cf_months = months, cf_dows = dows\<rparr>)))))"

(* cron/mod.rs: lines 153-156 the test of cron_matches *)
definition fields_match :: "cron_fields \<Rightarrow> nat \<Rightarrow> nat \<Rightarrow> nat \<Rightarrow> nat \<Rightarrow> nat \<Rightarrow> bool" where
  "fields_match f minute hour mday month dow \<longleftrightarrow>
     List.member (cf_minutes f) minute \<and> List.member (cf_hours f) hour
     \<and> (List.member (cf_doms f) mday \<or> List.member (cf_dows f) dow) \<and> List.member (cf_months f) month"

(* cron/mod.rs: fn cron_matches *)
definition cron_matches :: "string \<Rightarrow> nat \<Rightarrow> nat \<Rightarrow> nat \<Rightarrow> nat \<Rightarrow> nat \<Rightarrow> bool fallible" where
  "cron_matches expr minute hour mday month dow =
     (let parts = split_whitespace expr
      in if length parts \<noteq> 5 then returns False
         else and_then (parse_fields_of parts) (\<lambda>f. returns (fields_match f minute hour mday month dow)))"

text \<open>The day of the week of a time; the count of days is cut to 32 bits.\<close>

(* cron/mod.rs: lines 96-96 the day of the week *)
definition dow_of :: "u64 \<Rightarrow> nat" where
  "dow_of secs = unat ((ucast (secs div 86400) + 4 :: u32) mod 7)"

definition fields_match_at :: "cron_fields \<Rightarrow> u64 \<Rightarrow> bool" where
  "fields_match_at f secs =
     (case epoch_to_ymdhms secs of (y, month, mday, hour, minute, s) \<Rightarrow>
        fields_match f minute hour mday month (dow_of secs))"

section \<open>The next trigger\<close>

text \<open>Decimal text, padded with zeros.\<close>

definition padded :: "nat \<Rightarrow> nat \<Rightarrow> string" where
  "padded width n = replicate (width - length (show_nat n)) (CHR ''0'') @ show_nat n"

(* tools/cron.rs: fn unix_to_iso *)
definition unix_to_iso :: "u64 \<Rightarrow> string" where
  "unix_to_iso secs =
     (case epoch_to_ymdhms secs of (y, mo, d, h, minute, s) \<Rightarrow>
        padded 4 (nat y) @ ''-'' @ padded 2 mo @ ''-'' @ padded 2 d @ ''T''
          @ padded 2 h @ '':'' @ padded 2 minute @ '':'' @ padded 2 s @ ''Z'')"

text \<open>The search goes minute by minute; its times are counted without wrap-around, as clocks are far from the limit.\<close>

(* tools/cron.rs: lines 101-117 the loop of next_cron_trigger *)
function cron_search :: "cron_fields \<Rightarrow> nat \<Rightarrow> nat \<Rightarrow> nat option" where
  "cron_search f secs limit =
     (if secs < limit then (if fields_match_at f (of_nat secs) then Some secs else cron_search f (secs + 60) limit)
      else None)"
  by pat_completeness auto
termination
  by (relation "measure (\<lambda>(f, secs, limit). limit - secs)") auto

declare cron_search.simps [simp del]

definition ONE_YEAR_SECS :: nat where
  "ONE_YEAR_SECS = 366 * 86400"

(* tools/cron.rs: fn next_cron_trigger *)
definition next_cron_trigger :: "string \<Rightarrow> u64 \<Rightarrow> (u64 \<times> string) fallible" where
  "next_cron_trigger expr now_secs =
     (let parts = split_whitespace expr
      in if length parts \<noteq> 5 then cron_error ''expr must have exactly 5 fields: min hour dom month dow''
         else and_then (parse_fields_of parts) (\<lambda>f.
           let secs = (unat now_secs div 60 + 1) * 60;
               limit = min (unat now_secs + ONE_YEAR_SECS) (2 ^ 64 - 1)
           in case cron_search f secs limit of
                Some s \<Rightarrow> returns (of_nat s, unix_to_iso (of_nat s))
              | None \<Rightarrow> cron_error ''no matching time within 1 year''))"

section \<open>Stored tasks\<close>

(* tools/cron_manage.rs: struct CronTask *)
record CronTask =
  ct_id :: string
  ct_expr :: string
  ct_action :: string
  ct_channel :: string
  ct_chat_id :: string
  ct_enabled :: bool

(* constants.rs: const CRON_TASKS_MAX_ENTRIES *)
definition CRON_TASKS_MAX_ENTRIES :: nat where
  "CRON_TASKS_MAX_ENTRIES = 16"

(* constants.rs: const CRON_TASK_MAX_ACTION_LEN *)
definition CRON_TASK_MAX_ACTION_LEN :: nat where
  "CRON_TASK_MAX_ACTION_LEN = 512"

text \<open>What the note of the tasks holds: nothing readable, text that is no task list, or tasks.\<close>

datatype cron_note = NoteAbsent | NoteBroken string | NoteTasks "CronTask list"

text \<open>
  The store keeps the note and the flag that tells the tick to load it again; whether a write succeeds is an
  argument, the error it fails with.
\<close>

record cron_store =
  cs_note :: cron_note
  cs_dirty :: bool

definition manage_error :: "string \<Rightarrow> 'a fallible" where
  "manage_error message = Some (Inl (ErrConfig message ''tool_cron_manage''))"

(* tools/cron_manage.rs: impl CronManageTool / fn load_tasks *)
definition load_tasks :: "cron_store \<Rightarrow> CronTask list fallible" where
  "load_tasks st =
     (case cs_note st of
        NoteAbsent \<Rightarrow> returns []
      | NoteBroken e \<Rightarrow> manage_error e
      | NoteTasks tasks \<Rightarrow> returns tasks)"

(* tools/cron_manage.rs: impl CronManageTool / fn save_tasks *)
definition save_tasks :: "Error option \<Rightarrow> CronTask list \<Rightarrow> cron_store \<Rightarrow> cron_store fallible" where
  "save_tasks write_error tasks st =
     (case write_error of
        Some e \<Rightarrow> Some (Inl e)
      | None \<Rightarrow> returns \<lparr>cs_note = NoteTasks tasks, cs_dirty = True\<rparr>)"

(* tools/cron_manage.rs: fn load_persisted_cron_tasks *)
definition load_persisted_cron_tasks :: "cron_store \<Rightarrow> CronTask list" where
  "load_persisted_cron_tasks st = (case cs_note st of NoteTasks tasks \<Rightarrow> tasks | _ \<Rightarrow> [])"

(* tools/cron_manage.rs: fn validate_cron_expr *)
definition validate_cron_expr :: "string \<Rightarrow> unit fallible" where
  "validate_cron_expr expr =
     (let parts = split_whitespace expr
      in if length parts \<noteq> 5 then manage_error ''expr must have exactly 5 fields: min hour dom month dow''
         else and_then (parse_fields_of parts) (\<lambda>_. returns ()))"

text \<open>The arguments of the tool as far as they have the expected types, and what its replies say.\<close>

record cron_args =
  ca_op :: "string option"
  ca_id :: "string option"
  ca_expr :: "string option"
  ca_action :: "string option"
  ca_enabled :: "bool option"

datatype cron_reply =
    ReplyAdded string
  | ReplyTasks "(CronTask \<times> (u64 \<times> string) option) list"
  | ReplyNotFound
  | ReplyRemoved string
  | ReplyNoFields
  | ReplyUpdated string "string list"

definition require :: "string \<Rightarrow> 'a option \<Rightarrow> 'a fallible" where
  "require message r = (case r of Some x \<Rightarrow> returns x | None \<Rightarrow> manage_error message)"

(* tools/cron_manage.rs: lines 72-116 the operation add *)
definition cron_add :: "u64 \<Rightarrow> string option \<Rightarrow> string option \<Rightarrow> Error option \<Rightarrow> cron_args \<Rightarrow> cron_store
    \<Rightarrow> (cron_store \<times> cron_reply) fallible" where
  "cron_add now channel chat_id write_error a st =
     and_then (require ''missing expr'' (ca_expr a)) (\<lambda>expr.
     and_then (require ''missing action'' (ca_action a)) (\<lambda>action.
       if CRON_TASK_MAX_ACTION_LEN < length action then manage_error ''action exceeds 512 bytes''
       else and_then (validate_cron_expr expr) (\<lambda>_.
            and_then (load_tasks st) (\<lambda>tasks.
              if CRON_TASKS_MAX_ENTRIES \<le> length tasks then manage_error ''max 16 tasks reached''
              else (let i = ''ct_'' @ show_nat (unat now);
                        task = \<lparr>ct_id = i, ct_expr = expr, ct_action = action,
                                ct_channel = default_to ''cron'' channel, ct_chat_id = default_to ''cron'' chat_id,
                                ct_enabled = True\<rparr>
                    in and_then (save_tasks write_error (tasks @ [task]) st) (\<lambda>st'. returns (st', ReplyAdded i)))))))"

text \<open>A listing shows the next trigger of the enabled tasks; a task whose expression panics ends it.\<close>

(* tools/cron_manage.rs: lines 120-140 the rows of the operation list *)
primrec cron_rows :: "u64 \<Rightarrow> CronTask list \<Rightarrow> (CronTask \<times> (u64 \<times> string) option) list fallible" where
  "cron_rows now [] = returns []"
| "cron_rows now (t # ts) =
     and_then (if ct_enabled t
               then (case next_cron_trigger (ct_expr t) now of
                       None \<Rightarrow> None | Some (Inl _) \<Rightarrow> returns None | Some (Inr r) \<Rightarrow> returns (Some r))
               else returns None) (\<lambda>next.
     and_then (cron_rows now ts) (\<lambda>rows. returns ((t, next) # rows)))"

(* tools/cron_manage.rs: lines 143-158 the operation remove *)
definition cron_remove :: "Error option \<Rightarrow> cron_args \<Rightarrow> cron_store \<Rightarrow> (cron_store \<times> cron_reply) fallible" where
  "cron_remove write_error a st =
     and_then (require ''missing id'' (ca_id a)) (\<lambda>i.
     and_then (load_tasks st) (\<lambda>tasks.
       let kept = filter (\<lambda>t. ct_id t \<noteq> i) tasks
       in if length kept = length tasks then returns (st, ReplyNotFound)
          else and_then (save_tasks write_error kept st) (\<lambda>st'. returns (st', ReplyRemoved i))))"

text \<open>The changes of an update to the first task with the identifier, and the names of the changed fields.\<close>

(* tools/cron_manage.rs: lines 170-189 the fields of the operation update *)
definition update_task :: "cron_args \<Rightarrow> CronTask \<Rightarrow> (CronTask \<times> string list) fallible" where
  "update_task a task =
     and_then (case ca_expr a of
                 Some expr \<Rightarrow> and_then (validate_cron_expr expr) (\<lambda>_. returns (task\<lparr>ct_expr := expr\<rparr>, [''expr'']))
               | None \<Rightarrow> returns (task, [])) (\<lambda>(task1, updated1).
     and_then (case ca_action a of
                 Some action \<Rightarrow> (if CRON_TASK_MAX_ACTION_LEN < length action then manage_error ''action exceeds 512 bytes''
                                 else returns (task1\<lparr>ct_action := action\<rparr>, updated1 @ [''action'']))
               | None \<Rightarrow> returns (task1, updated1)) (\<lambda>(task2, updated2).
       case ca_enabled a of
         Some enabled \<Rightarrow> returns (task2\<lparr>ct_enabled := enabled\<rparr>, updated2 @ [''enabled''])
       | None \<Rightarrow> returns (task2, updated2)))"

(* tools/cron_manage.rs: lines 159-202 the operation update *)
definition cron_update :: "Error option \<Rightarrow> cron_args \<Rightarrow> cron_store \<Rightarrow> (cron_store \<times> cron_reply) fallible" where
  "cron_update write_error a st =
     and_then (require ''missing id'' (ca_id a)) (\<lambda>i.
     and_then (load_tasks st) (\<lambda>tasks.
       case position (\<lambda>t. ct_id t = i) tasks of
         None \<Rightarrow> manage_error ''task not found''
       | Some k \<Rightarrow>
           and_then (update_task a (tasks ! k)) (\<lambda>(task, updated).
             if updated = [] then returns (st, ReplyNoFields)
             else and_then (save_tasks write_error (tasks[k := task]) st) (\<lambda>st'. returns (st', ReplyUpdated i updated)))))"

(* tools/cron_manage.rs: impl Tool for CronManageTool / fn execute *)
definition cron_manage_execute :: "u64 \<Rightarrow> string option \<Rightarrow> string option \<Rightarrow> Error option \<Rightarrow> cron_args
    \<Rightarrow> cron_store \<Rightarrow> (cron_store \<times> cron_reply) fallible" where
  "cron_manage_execute now channel chat_id write_error a st =
     and_then (require ''missing op'' (ca_op a)) (\<lambda>op.
       if op = ''add'' then cron_add now channel chat_id write_error a st
       else if op = ''list'' then
         and_then (load_tasks st) (\<lambda>tasks. and_then (cron_rows now tasks) (\<lambda>rows. returns (st, ReplyTasks rows)))
       else if op = ''remove'' then cron_remove write_error a st
       else if op = ''update'' then cron_update write_error a st
       else manage_error (''unknown op: '' @ op))"

section \<open>The tick\<close>

text \<open>
  What surrounds the tick: the build, the clocks (seconds for the expressions, milliseconds for the
  stamp of a message), the translated text, the blocking send into the system queue with its
  success, and the sensor watch.
\<close>

record ('w, 'json) cron_world =
  cw_target :: target
  cw_now_secs :: u64
  cw_now_ms :: u64
  cw_text :: "string \<Rightarrow> string \<Rightarrow> string"
  cw_send :: "'json PcMsg \<Rightarrow> 'w \<Rightarrow> 'w \<times> bool"
  cw_watch :: "('w \<Rightarrow> 'w) option"

(* cron/mod.rs: lines 99-130 one task of fire_persisted_tasks *)
definition fire_task :: "('w, 'json) cron_world \<Rightarrow> CronTask \<Rightarrow> 'w \<Rightarrow> 'w option" where
  "fire_task env task w =
     (if \<not> ct_enabled task then Some w
      else case epoch_to_ymdhms (cw_now_secs env) of (y, mo, d, h, minute, s) \<Rightarrow>
        (case cron_matches (ct_expr task) minute h d mo (dow_of (cw_now_secs env)) of
           None \<Rightarrow> None
         | Some (Inr True) \<Rightarrow>
             (case new_inbound_with_ingress (cw_target env) (cw_now_ms env) (ct_channel task) (ct_chat_id task)
                     (cw_text env (ct_id task) (ct_action task)) False IngressSystem of
                Inr msg \<Rightarrow> Some (fst (cw_send env msg w))
              | Inl _ \<Rightarrow> Some w)
         | _ \<Rightarrow> Some w))"

primrec fire_tasks :: "('w, 'json) cron_world \<Rightarrow> CronTask list \<Rightarrow> 'w \<Rightarrow> 'w option" where
  "fire_tasks env [] w = Some w"
| "fire_tasks env (t # ts) w = (case fire_task env t w of None \<Rightarrow> None | Some w' \<Rightarrow> fire_tasks env ts w')"

text \<open>The result is the store with the flag cleared, the new cache, and the world; \<open>None\<close> is a panic.\<close>

(* cron/mod.rs: fn fire_persisted_tasks *)
definition fire_persisted_tasks :: "('w, 'json) cron_world \<Rightarrow> cron_store \<times> CronTask list \<times> 'w
    \<Rightarrow> (cron_store \<times> CronTask list \<times> 'w) option" where
  "fire_persisted_tasks env = (\<lambda>(st, cache, w).
     let cache' = (if cs_dirty st then load_persisted_cron_tasks st else cache);
         st' = st\<lparr>cs_dirty := False\<rparr>
     in map_option (\<lambda>w'. (st', cache', w')) (fire_tasks env cache' w))"

(* cron/mod.rs: fn cron_tick *)
definition cron_tick :: "('w, 'json) cron_world \<Rightarrow> cron_store option \<Rightarrow> CronTask list \<times> 'w
    \<Rightarrow> (cron_store option \<times> CronTask list \<times> 'w) option" where
  "cron_tick env store = (\<lambda>(cache, w).
     case store of
       None \<Rightarrow> Some (None, cache, w)
     | Some st \<Rightarrow>
         (case fire_persisted_tasks env (st, cache, w) of
            None \<Rightarrow> None
          | Some (st', cache', w') \<Rightarrow>
              Some (Some st', cache', case cw_watch env of Some watch \<Rightarrow> watch w' | None \<Rightarrow> w')))"

end
