(* ===== verification/Cron_Laws.thy ===== *)
theory Cron_Laws
  imports Cron
begin

text \<open>
  What the scheduler promises: a field means the union of its items, the listed next trigger is the first
  minute at which the tick fires, the stored tasks stay bounded and valid so that the tick never
  aborts on them, and where the day fields and the step zero do not do what one expects.
\<close>

section \<open>Fields\<close>

text \<open>The items of a field as data: every value, a span, or a single value, with an optional step.\<close>

datatype item_base = EveryValue | Span nat nat | Single nat

type_synonym cron_item = "item_base \<times> nat option"

fun render_base :: "item_base \<Rightarrow> string" where
  "render_base EveryValue = ''*''"
| "render_base (Span a b) = show_nat a @ ''-'' @ show_nat b"
| "render_base (Single a) = show_nat a"

fun render_item :: "cron_item \<Rightarrow> string" where
  "render_item (base, None) = render_base base"
| "render_item (base, Some n) = render_base base @ ''/'' @ show_nat n"

primrec render_items :: "cron_item \<Rightarrow> cron_item list \<Rightarrow> string" where
  "render_items i [] = render_item i"
| "render_items i (j # js) = render_item i @ '','' @ render_items j js"

fun base_bounds :: "nat \<Rightarrow> nat \<Rightarrow> item_base \<Rightarrow> nat \<times> nat" where
  "base_bounds lo hi EveryValue = (lo, hi)"
| "base_bounds lo hi (Span a b) = (a, b)"
| "base_bounds lo hi (Single a) = (a, a)"

definition item_values :: "nat \<Rightarrow> nat \<Rightarrow> cron_item \<Rightarrow> nat set" where
  "item_values lo hi i =
     (case base_bounds lo hi (fst i) of (a, b) \<Rightarrow> {v. a \<le> v \<and> v \<le> b \<and> (v - a) mod default_to 1 (snd i) = 0})"

definition item_ok :: "nat \<Rightarrow> nat \<Rightarrow> cron_item \<Rightarrow> bool" where
  "item_ok lo hi i \<longleftrightarrow>
     (case base_bounds lo hi (fst i) of (a, b) \<Rightarrow> lo \<le> a \<and> a \<le> b \<and> b \<le> hi)
     \<and> (case snd i of None \<Rightarrow> True | Some n \<Rightarrow> 0 < n \<and> n < 2 ^ 32)"

lemma render_base_graphic: "render_base b \<noteq> [] \<and> list_all graphic (render_base b)"
proof -
  have d: "list_all graphic (show_nat n) \<and> show_nat n \<noteq> []" for n
    using show_nat_digits [of n] by (auto simp: list_all_iff is_digit_def graphic_def)
  show ?thesis using d by (cases b) (auto simp: graphic_def)
qed

lemma render_item_graphic: "render_item i \<noteq> [] \<and> list_all graphic (render_item i)"
proof -
  have "list_all graphic (show_nat n)" for n
    using show_nat_digits [of n] by (auto simp: list_all_iff is_digit_def graphic_def)
  then show ?thesis using render_base_graphic by (cases i rule: render_item.cases) (auto simp: graphic_def)
qed

lemma render_items_graphic: "render_items i js \<noteq> [] \<and> list_all graphic (render_items i js)"
  using render_item_graphic by (induction js arbitrary: i) (auto simp: graphic_def)

lemma digits_trim [simp]: "trim (show_nat n) = show_nat n"
  using show_nat_digits [of n] by (intro trim_all_graphic) (auto simp: list_all_iff is_digit_def graphic_def)

lemma split_once_append: "c \<notin> set x \<Longrightarrow> split_once c (x @ c # y) = Some (x, y)"
proof -
  assume "c \<notin> set x"
  then have "position (\<lambda>z. z = c) (x @ c # y) = Some (length x)" by (induction x) auto
  then show ?thesis by (simp add: split_once_def)
qed

lemma split_once_plain: "c \<notin> set x \<Longrightarrow> split_once c x = None"
  by (auto simp: split_once_def position_None)

lemma base_avoids: "c \<in> set '',/'' \<Longrightarrow> c \<notin> set (render_base b)"
proof -
  assume c: "c \<in> set '',/''"
  then have "c \<notin> set (show_nat n)" for n by (intro show_nat_avoids) (auto simp: is_digit_def)
  then show ?thesis using c by (cases b) auto
qed

lemma render_avoids: "CHR '','' \<notin> set (render_item i)" "CHR ''/'' \<notin> set (render_base b)"
proof -
  have "CHR '','' \<notin> set (show_nat n)" for n by (rule show_nat_avoids) (simp add: is_digit_def)
  then show "CHR '','' \<notin> set (render_item i)"
    using base_avoids [of "CHR '',''"] by (cases i rule: render_item.cases) auto
  show "CHR ''/'' \<notin> set (render_base b)" by (rule base_avoids) simp
qed

lemma parse_show_u32: "n < 2 ^ 32 \<Longrightarrow> parse_u32 (show_nat n) = Some n"
  unfolding parse_u32_def by (rule parse_show_unsigned) simp

lemma part_step_render:
  "(case snd i of None \<Rightarrow> True | Some n \<Rightarrow> n < 2 ^ 32) \<Longrightarrow> part_step (render_item i) = returns (render_base (fst i), snd i)"
proof (cases i rule: render_item.cases)
  case (1 base)
  then show ?thesis by (simp add: part_step_def split_once_plain render_avoids)
next
  case (2 base n)
  assume "case snd i of None \<Rightarrow> True | Some n \<Rightarrow> n < 2 ^ 32"
  then have "parse_u32 (show_nat n) = Some n" using 2 by (simp add: parse_show_u32)
  then show ?thesis
    using 2 render_base_graphic [of base]
    by (simp add: part_step_def split_once_append render_avoids trim_all_graphic)
qed

lemma part_bounds_render:
  assumes "b \<noteq> EveryValue" "case base_bounds lo hi b of (x, y) \<Rightarrow> lo \<le> x \<and> x \<le> y \<and> y \<le> hi" "hi < 2 ^ 32"
  shows "part_bounds lo hi (render_base b) = returns (base_bounds lo hi b)"
proof (cases b)
  case (Span x y)
  have "parse_u32 (show_nat x) = Some x" "parse_u32 (show_nat y) = Some y"
    using assms(2,3) Span by (auto intro!: parse_show_u32)
  moreover have "CHR ''-'' \<notin> set (show_nat x)" by (rule show_nat_avoids) (simp add: is_digit_def)
  ultimately show ?thesis using Span assms(2) by (simp add: part_bounds_def split_once_append)
next
  case (Single x)
  have "parse_u32 (show_nat x) = Some x" using assms(2,3) Single by (auto intro!: parse_show_u32)
  moreover have "CHR ''-'' \<notin> set (show_nat x)" by (rule show_nat_avoids) (simp add: is_digit_def)
  ultimately show ?thesis using Single assms(2) by (simp add: part_bounds_def split_once_plain)
qed (use assms(1) in simp)

lemma range_step_values: "0 < n \<Longrightarrow> \<exists>vs. range_step a b n = returns vs \<and> set vs = {v. a \<le> v \<and> v \<le> b \<and> (v - a) mod n = 0}"
  by (auto simp: range_step_def)

lemma base_star: "render_base b = ''*'' \<longleftrightarrow> b = EveryValue"
proof -
  have no: "show_nat a @ r \<noteq> ''*''" for a r
  proof -
    obtain c cs where "show_nat a = c # cs" "is_digit c" by (rule show_nat_cons [of a])
    then show ?thesis by (auto simp: is_digit_def)
  qed
  show ?thesis
  proof (cases b)
    case (Span x y)
    then show ?thesis using no [of x "''-'' @ show_nat y"] by simp
  next
    case (Single x)
    then show ?thesis using no [of x "[]"] by simp
  qed simp
qed

lemma items_star: "render_items i js = ''*'' \<longleftrightarrow> js = [] \<and> i = (EveryValue, None)"
proof (cases js)
  case Nil
  obtain b st where i: "i = (b, st)" by (cases i)
  show ?thesis
  proof (cases st)
    case None
    then show ?thesis using Nil i base_star [of b] by simp
  next
    case (Some n)
    then have "CHR ''/'' \<in> set (render_items i js)" using Nil i by simp
    then have "render_items i js \<noteq> ''*''" by auto
    then show ?thesis using Some i by simp
  qed
next
  case (Cons j ks)
  then have "CHR '','' \<in> set (render_items i js)" by simp
  then have "render_items i js \<noteq> ''*''" by auto
  then show ?thesis using Cons by simp
qed

lemma cron_part_render:
  assumes "item_ok lo hi i" "hi < 2 ^ 32"
  shows "\<exists>vs. cron_part lo hi (render_item i) = returns vs \<and> set vs = item_values lo hi i"
proof -
  have step: "0 < default_to 1 (snd i)" using assms(1) by (auto simp: item_ok_def default_to_def split: option.splits)
  have n: "case snd i of None \<Rightarrow> True | Some n \<Rightarrow> n < 2 ^ 32" using assms(1) by (auto simp: item_ok_def split: option.splits)
  have t: "trim (render_item i) = render_item i" using render_item_graphic by (simp add: trim_all_graphic)
  show ?thesis
  proof (cases "fst i = EveryValue")
    case True
    then show ?thesis
      using range_step_values [OF step, of lo hi] by (simp add: cron_part_def t part_step_render [OF n] item_values_def)
  next
    case False
    obtain a b where ab: "base_bounds lo hi (fst i) = (a, b)" by fastforce
    obtain vs where vs: "range_step a b (default_to 1 (snd i)) = returns vs"
      "set vs = {v. a \<le> v \<and> v \<le> b \<and> (v - a) mod default_to 1 (snd i) = 0}" using range_step_values [OF step] by blast
    have "part_bounds lo hi (render_base (fst i)) = returns (a, b)"
      using part_bounds_render [OF False _ assms(2), of lo] assms(1) ab by (simp add: item_ok_def)
    then have "cron_part lo hi (render_item i) = returns (filter (\<lambda>v. lo \<le> v \<and> v \<le> hi) vs)"
      using False vs(1) by (simp add: cron_part_def t part_step_render [OF n] base_star)
    moreover have "set (filter (\<lambda>v. lo \<le> v \<and> v \<le> hi) vs) = item_values lo hi i"
      using vs(2) assms(1) ab by (auto simp: item_values_def item_ok_def)
    ultimately show ?thesis by blast
  qed
qed

lemma cron_parts_render:
  "item_ok lo hi i \<Longrightarrow> \<forall>j \<in> set js. item_ok lo hi j \<Longrightarrow> hi < 2 ^ 32 \<Longrightarrow>
   \<exists>vs. cron_parts lo hi (split_on (CHR '','') (render_items i js)) = returns vs
      \<and> set vs = (\<Union>j \<in> set (i # js). item_values lo hi j)"
proof (induction js arbitrary: i)
  case Nil
  then show ?case using cron_part_render [of lo hi i] by (auto simp: split_on_plain render_avoids)
next
  case (Cons j js)
  obtain vs where "cron_part lo hi (render_item i) = returns vs" "set vs = item_values lo hi i"
    using cron_part_render [OF Cons.prems(1,3)] by blast
  moreover obtain ws where "cron_parts lo hi (split_on (CHR '','') (render_items j js)) = returns ws"
    "set ws = (\<Union>j \<in> set (j # js). item_values lo hi j)" using Cons.IH [of j] Cons.prems by auto
  ultimately show ?case by (simp add: split_on_append render_avoids)
qed

lemma distinct_dedup: "sorted xs \<Longrightarrow> distinct (remdups_adj xs)"
  by (induction xs rule: remdups_adj.induct) auto

lemma sorted_dedup: "remdups_adj (sort xs) = sorted_list_of_set (set xs)"
  for xs :: "nat list"
  by (rule sorted_distinct_set_unique) (simp_all add: distinct_dedup)

text \<open>
  What a field means. A field written as a comma list of values, spans and stars, each with an
  optional step, inside the bounds of the field, is parsed to the sorted list of exactly the values that
  one of its items denotes.
\<close>
theorem cron_field_semantics:
  assumes "\<forall>j \<in> set (i # js). item_ok lo hi j" "hi < 2 ^ 32"
  shows "parse_cron_field (render_items i js) lo hi
       = Some (Inr (sorted_list_of_set (\<Union>j \<in> set (i # js). item_values lo hi j)))"
proof -
  let ?vs = "\<Union>j \<in> set (i # js). item_values lo hi j"
  have t: "trim (render_items i js) = render_items i js" "render_items i js \<noteq> []"
    using render_items_graphic [of i js] by (simp_all add: trim_all_graphic)
  show ?thesis
  proof (cases "render_items i js = ''*''")
    case True
    then have "?vs = {lo..<Suc hi}" by (auto simp: items_star item_values_def default_to_def)
    then show ?thesis using t True by (simp add: parse_cron_field_def)
  next
    case False
    obtain vs where vs: "cron_parts lo hi (split_on (CHR '','') (render_items i js)) = returns vs" "set vs = ?vs"
      using cron_parts_render [of lo hi i js] assms by auto
    have "i \<in> set (i # js)" "fst (base_bounds lo hi (fst i)) \<in> item_values lo hi i"
      using assms(1) by (auto simp: item_values_def item_ok_def split: prod.splits)
    then have "?vs \<noteq> {}" by blast
    then have "vs \<noteq> []" using vs(2) by auto
    then show ?thesis
      using vs False t by (simp add: parse_cron_field_def Let_def sorted_dedup del: set_simps)
  qed
qed

theorem cron_field_semantics_witness:
  "parse_cron_field ''0-10/5,30'' 0 59 = Some (Inr [0, 5, 10, 30])"
proof -
  have rendered: "render_items (Span 0 10, Some 5) [(Single 30, None)] = ''0-10/5,30''"
    by (simp add: show_nat.simps char_of_eq_iff)
  have "v \<le> 10 \<and> v mod 5 = 0 \<longleftrightarrow> v = 0 \<or> v = 5 \<or> v = 10" for v :: nat by presburger
  then have "{v. v \<le> 10 \<and> v mod 5 = 0} = {0, 5, 10 :: nat}" by auto
  then have "(\<Union>j \<in> set [(Span 0 10, Some 5), (Single 30, None)]. item_values 0 59 j) = {0, 5, 10, 30}"
    by (auto simp: item_values_def default_to_def)
  then show ?thesis
    using cron_field_semantics [of "(Span 0 10, Some 5)" "[(Single 30, None)]" 0 59] rendered by (simp add: item_ok_def)
qed

section \<open>The next trigger\<close>

text \<open>Whether the tick fires an enabled task with the expression at a time.\<close>

definition fires_at :: "string \<Rightarrow> u64 \<Rightarrow> bool" where
  "fires_at expr secs \<longleftrightarrow>
     (case epoch_to_ymdhms secs of (y, mo, d, h, minute, s) \<Rightarrow>
        cron_matches expr minute h d mo (dow_of secs) = Some (Inr True))"

lemma fires_at_fields:
  assumes "length (split_whitespace expr) = 5" "parse_fields_of (split_whitespace expr) = returns f"
  shows "fires_at expr secs = fields_match_at f secs"
  using assms by (simp add: fires_at_def fields_match_at_def cron_matches_def split: prod.split)

lemma search_exact:
  "case cron_search f secs limit of
     Some s \<Rightarrow> s < limit \<and> fields_match_at f (of_nat s) \<and> (\<exists>k. s = secs + 60 * k \<and> (\<forall>j < k. \<not> fields_match_at f (of_nat (secs + 60 * j))))
   | None \<Rightarrow> \<forall>k. secs + 60 * k < limit \<longrightarrow> \<not> fields_match_at f (of_nat (secs + 60 * k))"
proof (induction f secs limit rule: cron_search.induct)
  case (1 f secs limit)
  show ?case
  proof (cases "secs < limit \<and> \<not> fields_match_at f (of_nat secs)")
    case True
    then have step: "cron_search f secs limit = cron_search f (secs + 60) limit" by (subst cron_search.simps) simp
    have shift: "secs + 60 * Suc k = secs + 60 + 60 * k" for k by simp
    show ?thesis
    proof (cases "cron_search f (secs + 60) limit")
      case None
      have "\<not> fields_match_at f (of_nat (secs + 60 * k))" if "secs + 60 * k < limit" for k
        using 1 True None that shift by (cases k) (auto simp: shift simp del: mult_Suc_right)
      then show ?thesis using step None by simp
    next
      case (Some s)
      then obtain k where k: "s < limit" "fields_match_at f (of_nat s)" "s = secs + 60 + 60 * k"
        "\<forall>j < k. \<not> fields_match_at f (of_nat (secs + 60 + 60 * j))" using 1 True by auto
      have "\<forall>j < Suc k. \<not> fields_match_at f (of_nat (secs + 60 * j))"
      proof (intro allI impI)
        fix j assume "j < Suc k"
        then show "\<not> fields_match_at f (of_nat (secs + 60 * j))"
          using True k(4) by (cases j) (auto simp: add.assoc)
      qed
      then have "\<exists>k. s = secs + 60 * k \<and> (\<forall>j < k. \<not> fields_match_at f (of_nat (secs + 60 * j)))"
        using k(3) by (intro exI [of _ "Suc k"]) simp
      then show ?thesis using step Some k(1,2) by simp
    qed
  next
    case False
    show ?thesis
    proof (cases "secs < limit")
      case True
      then have "cron_search f secs limit = Some secs" using False by (subst cron_search.simps) simp
      then show ?thesis using True False by auto
    next
      case out: False
      then have "cron_search f secs limit = None" by (subst cron_search.simps) simp
      then show ?thesis using out by simp
    qed
  qed
qed

text \<open>The full minutes after a time, as the search counts them.\<close>

lemma minute_counts:
  fixes now s :: nat
  assumes "now < s" "s mod 60 = 0"
  obtains k where "s = (now div 60 + 1) * 60 + 60 * k"
proof -
  obtain q where q: "s = 60 * q" using assms(2) by auto
  have "now div 60 < q" using assms(1) q by (simp add: div_less_iff_less_mult)
  then obtain k where "q = now div 60 + 1 + k" by (metis Suc_eq_plus1 less_eq_Suc_le le_Suc_ex)
  then have "s = (now div 60 + 1) * 60 + 60 * k" using q by simp
  then show thesis by (rule that)
qed

text \<open>
  C17: the next trigger that a listing shows is the first full minute after now at which the tick fires the
  task, within a year of 366 days; the search fails exactly when there is none. This holds for
  every expression that can be parsed and every clock that is a year from its limit.
\<close>
theorem next_trigger_exact:
  assumes "length (split_whitespace expr) = 5" "parse_fields_of (split_whitespace expr) = Some (Inr f)"
    and "unat now + ONE_YEAR_SECS < 2 ^ 64"
  shows "case next_cron_trigger expr now of
       None \<Rightarrow> False
     | Some (Inr (s, stamp)) \<Rightarrow> stamp = unix_to_iso s \<and> fires_at expr s \<and> unat s mod 60 = 0
         \<and> unat now < unat s \<and> unat s < unat now + ONE_YEAR_SECS
         \<and> (\<forall>t. unat now < t \<and> t < unat s \<and> t mod 60 = 0 \<longrightarrow> \<not> fires_at expr (of_nat t))
     | Some (Inl e) \<Rightarrow> \<forall>t. unat now < t \<and> t < unat now + ONE_YEAR_SECS \<and> t mod 60 = 0 \<longrightarrow> \<not> fires_at expr (of_nat t)"
proof -
  let ?first = "(unat now div 60 + 1) * 60" and ?limit = "unat now + ONE_YEAR_SECS"
  have limit: "min ?limit (2 ^ 64 - 1) = ?limit" using assms(3) by simp
  have first: "unat now < ?first" by (simp add: dividend_less_div_times)
  note fires = fires_at_fields [OF assms(1,2)]
  have trigger: "next_cron_trigger expr now = (case cron_search f ?first ?limit of
       Some s \<Rightarrow> returns (of_nat s, unix_to_iso (of_nat s)) | None \<Rightarrow> cron_error ''no matching time within 1 year'')"
    using assms(1,2) limit by (simp add: next_cron_trigger_def Let_def)
  show ?thesis
  proof (cases "cron_search f ?first ?limit")
    case None
    then have none: "\<And>k. ?first + 60 * k < ?limit \<Longrightarrow> \<not> fields_match_at f (of_nat (?first + 60 * k))"
      using search_exact [where f = f and secs = ?first and limit = ?limit] by simp
    have "\<not> fires_at expr (of_nat t)" if t: "unat now < t" "t < ?limit" "t mod 60 = 0" for t
    proof -
      obtain k where "t = ?first + 60 * k" using t(1,3) by (rule minute_counts)
      then show ?thesis using none [of k] t(2) fires by simp
    qed
    then show ?thesis using trigger None by (simp add: cron_error_def)
  next
    case (Some s)
    then obtain k where s: "s < ?limit" "fields_match_at f (of_nat s)" "s = ?first + 60 * k"
      "\<And>j. j < k \<Longrightarrow> \<not> fields_match_at f (of_nat (?first + 60 * j))"
      using search_exact [where f = f and secs = ?first and limit = ?limit] by auto
    have u: "unat (of_nat s :: u64) = s" using s(1) assms(3) by (intro unat_of_small) simp
    have "\<not> fires_at expr (of_nat t)" if t: "unat now < t" "t < s" "t mod 60 = 0" for t
    proof -
      obtain j where j: "t = ?first + 60 * j" using t(1,3) by (rule minute_counts)
      then have "j < k" using t(2) s(3) by simp
      then show ?thesis using s(4) [of j] j fires by simp
    qed
    moreover have "unat now < s" "s mod 60 = 0" using first s(3) by simp_all
    ultimately show ?thesis using trigger Some s(1,2) u fires by simp
  qed
qed

text \<open>Words of printable characters between single spaces.\<close>

lemma word_end_graphic: "list_all graphic w \<Longrightarrow> word_end (w @ CHR '' '' # rest) = length w"
  by (induction w) (auto simp: word_end.simps leading_graphic leading_None whitespace_def)

lemma word_end_last: "list_all graphic w \<Longrightarrow> word_end w = length w"
  by (induction w) (auto simp: word_end.simps leading_graphic)

lemma trim_start_space: "trim_start (CHR '' '' # s) = trim_start s"
proof -
  have "leading (CHR '' '' # s) = Some '' ''" by (simp add: leading_def whitespace_def)
  then show ?thesis by (subst trim_start.simps) simp
qed

lemma split_whitespace_space: "split_whitespace (CHR '' '' # s) = split_whitespace s"
  by (subst (1 2) split_whitespace.simps) (simp add: trim_start_space)

lemma split_words:
  assumes "w \<noteq> []" "list_all graphic w"
  shows "split_whitespace (w @ CHR '' '' # rest) = w # split_whitespace rest" "split_whitespace w = [w]"
proof -
  have l: "leading (w @ r) = None" for r using assms by (cases w) (auto simp: leading_graphic)
  have t: "trim_start (w @ r) = w @ r" for r using l by (simp add: trim_start.simps)
  show "split_whitespace (w @ CHR '' '' # rest) = w # split_whitespace rest"
    using assms by (subst split_whitespace.simps) (simp add: t Let_def word_end_graphic split_whitespace_space)
  have "split_whitespace [] = []" by (subst split_whitespace.simps) (simp add: trim_start.simps [of "[]"] leading_def whitespace_def)
  then show "split_whitespace w = [w]"
    using assms t [of "[]"] by (subst split_whitespace.simps) (simp add: Let_def word_end_last)
qed

lemma five_words: "split_whitespace ''5 0 * * *'' = [''5'', ''0'', ''*'', ''*'', ''*'']"
  using split_words(1) [of "''5''" "''0 * * *''"] split_words(1) [of "''0''" "''* * *''"]
    split_words(1) [of "''*''" "''* *''"] split_words(1) [of "''*''" "''*''"] split_words(2) [of "''*''"]
  by (simp add: graphic_def)

lemma graphic_trims [simp]: "trim ''*'' = ''*''" "trim ''5'' = ''5''" "trim ''0'' = ''0''" "trim ''*/0'' = ''*/0''"
  by (simp_all add: trim_graphic graphic_def)

lemma five_fields:
  "parse_fields_of [''5'', ''0'', ''*'', ''*'', ''*'']
     = returns \<lparr>cf_minutes = [5], cf_hours = [0], cf_doms = [1..<32], cf_months = [1..<13], cf_dows = [0..<7]\<rparr>"
proof -
  have "parse_u32 ''5'' = Some 5" "parse_u32 ''0'' = Some 0"
    by (simp_all add: parse_u32_def parse_unsigned_def parse_digits_def at_most_def is_digit_def digit_value_def)
  then have "parse_cron_field ''5'' 0 59 = returns [5]" "parse_cron_field ''0'' 0 23 = returns [0]"
    by (simp_all add: parse_cron_field_def cron_part_def part_step_def part_bounds_def split_once_def range_step_def default_to_def)
  moreover have "parse_cron_field ''*'' lo hi = returns [lo..<Suc hi]" for lo hi by (simp add: parse_cron_field_def)
  ultimately show ?thesis by (simp add: parse_fields_of_def eval_nat_numeral del: upt_Suc)
qed

theorem next_trigger_exact_witness:
  "\<exists>s. next_cron_trigger ''5 0 * * *'' 0 = Some (Inr (s, unix_to_iso s)) \<and> fires_at ''5 0 * * *'' s \<and> unat s \<le> 300"
proof -
  have parts: "length (split_whitespace ''5 0 * * *'') = 5"
    "parse_fields_of (split_whitespace ''5 0 * * *'')
       = returns \<lparr>cf_minutes = [5], cf_hours = [0], cf_doms = [1..<32], cf_months = [1..<13], cf_dows = [0..<7]\<rparr>"
    unfolding five_words using five_fields by simp_all
  have "epoch_to_ymdhms 300 = (1970, 1, 1, 0, 5, 0)"
    by (simp add: epoch_to_ymdhms_def year_loop.simps month_loop.simps month_days_def days_in_year_def is_leap_year_def Let_def)
  then have fires: "fires_at ''5 0 * * *'' 300"
    unfolding fires_at_fields [OF parts] by (simp add: fields_match_at_def fields_match_def)
  note exact = next_trigger_exact [OF parts, of 0]
  have small: "unat (0 :: u64) + ONE_YEAR_SECS < 2 ^ 64" "(300 :: nat) < ONE_YEAR_SECS" by (simp_all add: ONE_YEAR_SECS_def)
  show ?thesis
  proof (cases "next_cron_trigger ''5 0 * * *'' 0")
    case None
    then show ?thesis using exact small by simp
  next
    case (Some r)
    show ?thesis
    proof (cases r)
      case (Inl e)
      then have none: "\<forall>t. 0 < t \<and> t < ONE_YEAR_SECS \<and> t mod 60 = 0 \<longrightarrow> \<not> fires_at ''5 0 * * *'' (of_nat t)"
        using Some exact small by simp
      have "\<not> fires_at ''5 0 * * *'' (of_nat 300)" using none [rule_format, of 300] small(2) by simp
      then show ?thesis using fires by simp
    next
      case (Inr st)
      then obtain s stamp where s: "r = Inr (s, stamp)" by (cases st) auto
      then have "stamp = unix_to_iso s" "fires_at ''5 0 * * *'' s"
        "\<forall>t. 0 < t \<and> t < unat s \<and> t mod 60 = 0 \<longrightarrow> \<not> fires_at ''5 0 * * *'' (of_nat t)"
        using Some exact small by auto
      moreover from this(3) [rule_format, of 300] have "unat s \<le> 300" using fires by (cases "300 < unat s") auto
      ultimately show ?thesis using Some s by auto
    qed
  qed
qed

section \<open>The day fields\<close>

lemma star_field: "parse_cron_field ''*'' lo hi = returns [lo..<Suc hi]"
  by (simp add: parse_cron_field_def)

text \<open>
  A star in one day field overrides the other. When the day of the month is a star, the day of the week has no
  influence on whether a task fires, and the other way around: with \<open>0 9 * * 1\<close> a task
  fires at nine every day, not only on Mondays.
\<close>
theorem day_star_overrides:
  assumes "split_whitespace expr = [mi, ho, da, mo, we]" "1 \<le> mday" "mday \<le> 31" "dow \<le> 6"
  shows "(da = ''*'' \<longrightarrow> cron_matches expr minute hour mday month dow = cron_matches expr minute hour mday month dow')
    \<and> (we = ''*'' \<longrightarrow> cron_matches expr minute hour mday month dow = cron_matches expr minute hour mday' month dow)"
proof (intro conjI impI)
  assume "da = ''*''"
  then show "cron_matches expr minute hour mday month dow = cron_matches expr minute hour mday month dow'"
    using assms(1-3)
    by (auto simp: cron_matches_def parse_fields_of_def star_field fields_match_def and_then_def
        split: option.split sum.split)
next
  assume "we = ''*''"
  then show "cron_matches expr minute hour mday month dow = cron_matches expr minute hour mday' month dow"
    using assms(1,4)
    by (auto simp: cron_matches_def parse_fields_of_def star_field fields_match_def and_then_def
        split: option.split sum.split)
qed

theorem day_star_overrides_witness:
  "cron_matches ''5 0 * * *'' 5 0 15 6 1 = cron_matches ''5 0 * * *'' 5 0 15 6 3"
  using day_star_overrides [OF five_words, of 15 1 5 0 6 3] by simp

section \<open>The stored tasks\<close>

definition task_sound :: "CronTask \<Rightarrow> bool" where
  "task_sound t \<longleftrightarrow> length (ct_action t) \<le> CRON_TASK_MAX_ACTION_LEN \<and> validate_cron_expr (ct_expr t) = returns ()"

definition store_sound :: "cron_store \<Rightarrow> bool" where
  "store_sound st \<longleftrightarrow>
     (case cs_note st of NoteTasks tasks \<Rightarrow> length tasks \<le> CRON_TASKS_MAX_ENTRIES \<and> list_all task_sound tasks | _ \<Rightarrow> True)"

lemma load_sound: "store_sound st \<Longrightarrow> load_tasks st = returns tasks \<Longrightarrow> length tasks \<le> CRON_TASKS_MAX_ENTRIES \<and> list_all task_sound tasks"
  by (auto simp: store_sound_def load_tasks_def manage_error_def split: cron_note.splits)

lemma save_sound:
  "save_tasks e tasks st = returns st' \<Longrightarrow> length tasks \<le> CRON_TASKS_MAX_ENTRIES \<Longrightarrow> list_all task_sound tasks
   \<Longrightarrow> store_sound st' \<and> cs_dirty st'"
  by (auto simp: save_tasks_def store_sound_def split: option.splits)

lemma validated: "validate_cron_expr expr = returns u \<Longrightarrow> validate_cron_expr expr = returns ()"
  by (cases u) simp

lemma update_sound:
  "update_task a t = returns (t', names) \<Longrightarrow> task_sound t \<Longrightarrow> task_sound t'"
  by (auto simp: update_task_def task_sound_def fallible_iff manage_error_def split: option.splits if_splits)

lemma execute_sound:
  assumes "store_sound st" "cron_manage_execute now channel chat_id e a st = returns (st', reply)"
  shows "store_sound st' \<and> (cs_dirty st \<longrightarrow> cs_dirty st')"
proof -
  from assms(2) obtain op where op: "ca_op a = Some op"
    by (auto simp: cron_manage_execute_def fallible_iff require_def manage_error_def split: option.splits)
  consider "op = ''add''" | "op = ''list''" | "op = ''remove''" | "op = ''update''"
    using assms(2) op by (auto simp: cron_manage_execute_def require_def manage_error_def split: if_splits)
  then show ?thesis
  proof cases
    case 1
    then show ?thesis
      using assms op load_sound [OF assms(1)]
      by (auto simp: cron_manage_execute_def cron_add_def require_def fallible_iff manage_error_def Let_def task_sound_def
          split: option.splits if_splits dest!: save_sound)
  next
    case 2
    then show ?thesis
      using assms op by (auto simp: cron_manage_execute_def require_def fallible_iff)
  next
    case 3
    then obtain i tasks where load: "load_tasks st = returns tasks"
      and r: "(length (filter (\<lambda>t. ct_id t \<noteq> i) tasks) = length tasks \<and> st' = st)
        \<or> save_tasks e (filter (\<lambda>t. ct_id t \<noteq> i) tasks) st = returns st'"
      using assms(2) op
      by (auto simp: cron_manage_execute_def cron_remove_def require_def fallible_iff manage_error_def Let_def
          split: option.splits if_splits)
    have "length (filter (\<lambda>t. ct_id t \<noteq> i) tasks) \<le> CRON_TASKS_MAX_ENTRIES" "list_all task_sound (filter (\<lambda>t. ct_id t \<noteq> i) tasks)"
      using load_sound [OF assms(1) load] by (auto simp: list_all_iff intro: le_trans [OF length_filter_le])
    then show ?thesis using r assms(1) save_sound by blast
  next
    case 4
    then obtain i tasks where load: "load_tasks st = returns tasks"
      and r: "st' = st \<or> (\<exists>k t names. k < length tasks \<and> update_task a (tasks ! k) = returns (t, names)
          \<and> save_tasks e (tasks[k := t]) st = returns st')"
      using assms(2) op
      by (auto simp: cron_manage_execute_def cron_update_def require_def fallible_iff manage_error_def
          split: option.splits if_splits prod.splits dest: position_Some)
    show ?thesis
    proof (cases "st' = st")
      case False
      then obtain k t names where k: "k < length tasks" "update_task a (tasks ! k) = returns (t, names)"
        "save_tasks e (tasks[k := t]) st = returns st'" using r by blast
      have "task_sound t" using update_sound [OF k(2)] load_sound [OF assms(1) load] k(1) by (auto simp: list_all_length)
      then have "list_all task_sound (tasks[k := t])"
        using load_sound [OF assms(1) load] set_update_subset_insert [of tasks k t] by (auto simp: list_all_iff)
      then show ?thesis using save_sound [OF k(3)] load_sound [OF assms(1) load] by simp
    qed (use assms(1) in simp)
  qed
qed

text \<open>The calls of the tool, of which a panic ends the run: each with its clock, origin, write error and arguments.\<close>

type_synonym manage_call = "u64 \<times> string option \<times> string option \<times> Error option \<times> cron_args"

fun manage_run :: "manage_call list \<Rightarrow> cron_store \<Rightarrow> cron_store option" where
  "manage_run [] st = Some st"
| "manage_run ((now, channel, chat_id, e, a) # cs) st =
     (case cron_manage_execute now channel chat_id e a st of
        None \<Rightarrow> None
      | Some (Inl _) \<Rightarrow> manage_run cs st
      | Some (Inr (st', _)) \<Rightarrow> manage_run cs st')"

lemma manage_run_sound:
  "manage_run cs st = Some st' \<Longrightarrow> store_sound st \<Longrightarrow> cs_dirty st \<Longrightarrow> store_sound st' \<and> cs_dirty st'"
proof (induction cs st rule: manage_run.induct)
  case (2 now channel chat_id e a cs st)
  then show ?case
    using execute_sound [OF 2(4)] by (auto split: option.splits sum.splits)
qed simp

lemma fire_sound: "task_sound t \<Longrightarrow> fire_task env t w \<noteq> None"
proof -
  assume "task_sound t"
  then have len: "length (split_whitespace (ct_expr t)) = 5"
    and "and_then (parse_fields_of (split_whitespace (ct_expr t))) (\<lambda>_. returns ()) = returns ()"
    by (auto simp: task_sound_def validate_cron_expr_def manage_error_def Let_def split: if_splits)
  then obtain f where "parse_fields_of (split_whitespace (ct_expr t)) = returns f" by (auto simp: fallible_iff)
  then show ?thesis
    using len by (auto simp: fire_task_def cron_matches_def split: prod.split bool.split sum.split)
qed

lemma fire_tasks_sound: "list_all task_sound ts \<Longrightarrow> fire_tasks env ts w \<noteq> None"
proof (induction ts arbitrary: w)
  case (Cons t ts)
  then show ?case using fire_sound [of t env w] by auto
qed simp

text \<open>
  The stored tasks stay sound. Whatever calls of the tool have returned since the store was empty,
  there are at most 16 tasks, each with an action of at most 512 bytes and an expression that was
  parsed; and the next tick, whatever it had cached, does not abort.
\<close>
theorem managed_tasks_sound:
  assumes "manage_run calls \<lparr>cs_note = NoteAbsent, cs_dirty = True\<rparr> = Some st"
  shows "(\<forall>tasks. cs_note st = NoteTasks tasks \<longrightarrow> length tasks \<le> 16
            \<and> (\<forall>t \<in> set tasks. length (ct_action t) \<le> 512 \<and> validate_cron_expr (ct_expr t) = Some (Inr ())))
    \<and> cron_tick env (Some st) (cache, w) \<noteq> None"
proof -
  have s: "store_sound st" "cs_dirty st"
    using manage_run_sound [OF assms] by (simp_all add: store_sound_def)
  then have "list_all task_sound (load_persisted_cron_tasks st)"
    by (auto simp: load_persisted_cron_tasks_def store_sound_def split: cron_note.split)
  then have "fire_tasks env (load_persisted_cron_tasks st) w \<noteq> None" by (rule fire_tasks_sound)
  then have "cron_tick env (Some st) (cache, w) \<noteq> None"
    using s(2) by (auto simp: cron_tick_def fire_persisted_tasks_def Let_def)
  then show ?thesis
    using s(1) by (auto simp: store_sound_def list_all_iff task_sound_def CRON_TASKS_MAX_ENTRIES_def CRON_TASK_MAX_ACTION_LEN_def)
qed

text \<open>A call that adds a task which fires at five minutes past midnight.\<close>

definition add_call :: "string \<Rightarrow> manage_call" where
  "add_call expr = (0, None, None, None,
     \<lparr>ca_op = Some ''add'', ca_id = None, ca_expr = Some expr, ca_action = Some ''ping'', ca_enabled = None\<rparr>)"

lemma add_call_stored:
  "manage_run [add_call ''5 0 * * *''] \<lparr>cs_note = NoteAbsent, cs_dirty = True\<rparr>
     = Some \<lparr>cs_note = NoteTasks [\<lparr>ct_id = ''ct_'' @ show_nat 0, ct_expr = ''5 0 * * *'', ct_action = ''ping'',
         ct_channel = ''cron'', ct_chat_id = ''cron'', ct_enabled = True\<rparr>], cs_dirty = True\<rparr>"
  using five_fields
  by (simp add: add_call_def cron_manage_execute_def cron_add_def require_def validate_cron_expr_def five_words
      load_tasks_def save_tasks_def CRON_TASKS_MAX_ENTRIES_def CRON_TASK_MAX_ACTION_LEN_def default_to_def Let_def)

theorem managed_tasks_sound_witness:
  "\<exists>st. manage_run [add_call ''5 0 * * *''] \<lparr>cs_note = NoteAbsent, cs_dirty = True\<rparr> = Some st
     \<and> cron_tick \<lparr>cw_target = Esp, cw_now_secs = 300, cw_now_ms = 300000, cw_text = (\<lambda>i a. a),
           cw_send = (\<lambda>(m :: unit PcMsg) n. (Suc n, True)), cw_watch = None\<rparr> (Some st) ([], 0) \<noteq> None"
  by (intro exI conjI, rule add_call_stored, rule conjunct2 [OF managed_tasks_sound [OF add_call_stored]])

section \<open>The step zero\<close>

lemma zero_step_field: "parse_cron_field ''*/0'' lo hi = None"
proof -
  have "parse_u32 ''0'' = Some 0"
    by (simp add: parse_u32_def parse_unsigned_def parse_digits_def at_most_def is_digit_def digit_value_def)
  then have "cron_part lo hi ''*/0'' = None"
    by (simp add: cron_part_def part_step_def split_once_def range_step_def default_to_def)
  then show ?thesis by (simp add: parse_cron_field_def)
qed

text \<open>
  An expression with the step zero aborts the program: whatever is stored, adding a task whose minutes are
  \<open>*/0\<close> panics in the validation of the expression.
\<close>
theorem zero_step_aborts:
  "length action \<le> 512 \<Longrightarrow>
   cron_manage_execute now channel chat_id e
     \<lparr>ca_op = Some ''add'', ca_id = i, ca_expr = Some ''*/0 * * * *'', ca_action = Some action, ca_enabled = n\<rparr> st = None"
proof -
  assume "length action \<le> 512"
  moreover have "split_whitespace ''*/0 * * * *'' = [''*/0'', ''*'', ''*'', ''*'', ''*'']"
    using split_words(1) [of "''*/0''" "''* * * *''"] split_words(1) [of "''*''" "''* * *''"]
      split_words(1) [of "''*''" "''* *''"] split_words(1) [of "''*''" "''*''"] split_words(2) [of "''*''"]
    by (simp add: graphic_def)
  ultimately show ?thesis
    by (simp add: cron_manage_execute_def cron_add_def require_def validate_cron_expr_def parse_fields_of_def zero_step_field
        CRON_TASK_MAX_ACTION_LEN_def)
qed

theorem zero_step_aborts_witness: "manage_run [add_call ''*/0 * * * *''] \<lparr>cs_note = NoteAbsent, cs_dirty = True\<rparr> = None"
  using zero_step_aborts [of "''ping''"] by (simp add: add_call_def)

end
