(* ===== verification/Channel_Capability.thy ===== *)
theory Channel_Capability
  imports Orchestrator_State Message
begin

text \<open>
  What each channel can deliver (\<open>src/src/channel_capability.rs\<close>): the contract of every channel, which
  channels are configured and enabled, the registry and its snapshots.
\<close>

section \<open>Contracts\<close>

(* channel_capability.rs: enum ChannelDeliveryOrderingModel *)
datatype ChannelDeliveryOrderingModel =
  AppendOnly | EditableSingleMessage | StatelessWebhook | SessionSocket | AudioPlayback

(* channel_capability.rs: struct ChannelCapabilityContract *)
record ChannelCapabilityContract =
  cc_supports_primary_reply :: bool
  cc_supports_supplemental_reply :: bool
  cc_supports_edit :: bool
  cc_supports_stream_edit :: bool
  cc_supports_explicit_target :: bool
  cc_supports_attachment :: bool
  cc_supports_typing_or_chat_action :: bool
  cc_supports_message_reaction :: bool
  cc_supported_body_kinds :: "MessageBodyKind list"
  cc_supported_text_formats :: "TextFormat list"
  cc_requires_pre_upload_for_media :: bool
  cc_supports_platform_handle_reuse :: bool
  cc_supports_http_url_media :: bool
  cc_requires_passive_reply_anchor :: bool
  cc_max_text_chars :: "nat option"
  cc_max_caption_chars :: "nat option"
  cc_delivery_ordering_model :: ChannelDeliveryOrderingModel

(* channel_capability.rs: const BODY_KINDS_TEXT_ONLY *)
definition BODY_KINDS_TEXT_ONLY :: "MessageBodyKind list" where
  "BODY_KINDS_TEXT_ONLY = [KindText]"

(* channel_capability.rs: const BODY_KINDS_TELEGRAM *)
definition BODY_KINDS_TELEGRAM :: "MessageBodyKind list" where
  "BODY_KINDS_TELEGRAM = [KindText, KindImage, KindAudio, KindVideo, KindFile]"

(* channel_capability.rs: const BODY_KINDS_FEISHU *)
definition BODY_KINDS_FEISHU :: "MessageBodyKind list" where
  "BODY_KINDS_FEISHU = [KindText, KindImage, KindAudio, KindVideo, KindFile, KindCard]"

(* channel_capability.rs: const BODY_KINDS_DINGTALK *)
definition BODY_KINDS_DINGTALK :: "MessageBodyKind list" where
  "BODY_KINDS_DINGTALK = [KindText, KindImage, KindAudio, KindVideo, KindFile, KindCard]"

(* channel_capability.rs: const BODY_KINDS_WECOM *)
definition BODY_KINDS_WECOM :: "MessageBodyKind list" where
  "BODY_KINDS_WECOM = [KindText, KindImage, KindAudio, KindVideo, KindFile, KindCard]"

(* channel_capability.rs: const BODY_KINDS_QQ *)
definition BODY_KINDS_QQ :: "MessageBodyKind list" where
  "BODY_KINDS_QQ = [KindText, KindImage, KindAudio, KindVideo, KindFile, KindCard]"

(* channel_capability.rs: const TEXT_FORMATS_PLAIN_ONLY *)
definition TEXT_FORMATS_PLAIN_ONLY :: "TextFormat list" where
  "TEXT_FORMATS_PLAIN_ONLY = [FormatPlain]"

(* channel_capability.rs: const TEXT_FORMATS_TELEGRAM *)
definition TEXT_FORMATS_TELEGRAM :: "TextFormat list" where
  "TEXT_FORMATS_TELEGRAM = [FormatPlain, FormatMarkdown, FormatHtml]"

(* channel_capability.rs: const TEXT_FORMATS_FEISHU *)
definition TEXT_FORMATS_FEISHU :: "TextFormat list" where
  "TEXT_FORMATS_FEISHU = [FormatPlain, FormatRichText]"

(* channel_capability.rs: const TEXT_FORMATS_DINGTALK *)
definition TEXT_FORMATS_DINGTALK :: "TextFormat list" where
  "TEXT_FORMATS_DINGTALK = [FormatPlain, FormatMarkdown, FormatRichText]"

(* channel_capability.rs: const TEXT_FORMATS_WECOM *)
definition TEXT_FORMATS_WECOM :: "TextFormat list" where
  "TEXT_FORMATS_WECOM = [FormatPlain, FormatMarkdown]"

(* channel_capability.rs: const TEXT_FORMATS_QQ *)
definition TEXT_FORMATS_QQ :: "TextFormat list" where
  "TEXT_FORMATS_QQ = [FormatPlain]"

(* channel_capability.rs: lines 269-287 the contract of telegram *)
definition telegram_contract :: ChannelCapabilityContract where
  "telegram_contract =
     \<lparr>cc_supports_primary_reply = True,
      cc_supports_supplemental_reply = True,
      cc_supports_edit = False,
      cc_supports_stream_edit = False,
      cc_supports_explicit_target = True,
      cc_supports_attachment = True,
      cc_supports_typing_or_chat_action = True,
      cc_supports_message_reaction = True,
      cc_supported_body_kinds = BODY_KINDS_TELEGRAM,
      cc_supported_text_formats = TEXT_FORMATS_TELEGRAM,
      cc_requires_pre_upload_for_media = False,
      cc_supports_platform_handle_reuse = True,
      cc_supports_http_url_media = True,
      cc_requires_passive_reply_anchor = False,
      cc_max_text_chars = Some 4096,
      cc_max_caption_chars = Some 1024,
      cc_delivery_ordering_model = AppendOnly\<rparr>"

(* channel_capability.rs: lines 289-307 the contract of feishu *)
definition feishu_contract :: ChannelCapabilityContract where
  "feishu_contract =
     \<lparr>cc_supports_primary_reply = True,
      cc_supports_supplemental_reply = True,
      cc_supports_edit = True,
      cc_supports_stream_edit = True,
      cc_supports_explicit_target = True,
      cc_supports_attachment = True,
      cc_supports_typing_or_chat_action = False,
      cc_supports_message_reaction = False,
      cc_supported_body_kinds = BODY_KINDS_FEISHU,
      cc_supported_text_formats = TEXT_FORMATS_FEISHU,
      cc_requires_pre_upload_for_media = True,
      cc_supports_platform_handle_reuse = True,
      cc_supports_http_url_media = False,
      cc_requires_passive_reply_anchor = False,
      cc_max_text_chars = Some 4096,
      cc_max_caption_chars = None,
      cc_delivery_ordering_model = EditableSingleMessage\<rparr>"

(* channel_capability.rs: lines 309-327 the contract of dingtalk *)
definition dingtalk_contract :: ChannelCapabilityContract where
  "dingtalk_contract =
     \<lparr>cc_supports_primary_reply = True,
      cc_supports_supplemental_reply = True,
      cc_supports_edit = False,
      cc_supports_stream_edit = False,
      cc_supports_explicit_target = False,
      cc_supports_attachment = True,
      cc_supports_typing_or_chat_action = False,
      cc_supports_message_reaction = False,
      cc_supported_body_kinds = BODY_KINDS_DINGTALK,
      cc_supported_text_formats = TEXT_FORMATS_DINGTALK,
      cc_requires_pre_upload_for_media = True,
      cc_supports_platform_handle_reuse = True,
      cc_supports_http_url_media = False,
      cc_requires_passive_reply_anchor = False,
      cc_max_text_chars = Some 4096,
      cc_max_caption_chars = None,
      cc_delivery_ordering_model = StatelessWebhook\<rparr>"

(* channel_capability.rs: lines 329-347 the contract of wecom *)
definition wecom_contract :: ChannelCapabilityContract where
  "wecom_contract =
     \<lparr>cc_supports_primary_reply = True,
      cc_supports_supplemental_reply = True,
      cc_supports_edit = False,
      cc_supports_stream_edit = False,
      cc_supports_explicit_target = True,
      cc_supports_attachment = True,
      cc_supports_typing_or_chat_action = False,
      cc_supports_message_reaction = False,
      cc_supported_body_kinds = BODY_KINDS_WECOM,
      cc_supported_text_formats = TEXT_FORMATS_WECOM,
      cc_requires_pre_upload_for_media = True,
      cc_supports_platform_handle_reuse = True,
      cc_supports_http_url_media = False,
      cc_requires_passive_reply_anchor = False,
      cc_max_text_chars = Some 2048,
      cc_max_caption_chars = None,
      cc_delivery_ordering_model = AppendOnly\<rparr>"

(* channel_capability.rs: lines 349-367 the contract of qq *)
definition qq_contract :: ChannelCapabilityContract where
  "qq_contract =
     \<lparr>cc_supports_primary_reply = True,
      cc_supports_supplemental_reply = True,
      cc_supports_edit = False,
      cc_supports_stream_edit = False,
      cc_supports_explicit_target = True,
      cc_supports_attachment = True,
      cc_supports_typing_or_chat_action = False,
      cc_supports_message_reaction = False,
      cc_supported_body_kinds = BODY_KINDS_QQ,
      cc_supported_text_formats = TEXT_FORMATS_QQ,
      cc_requires_pre_upload_for_media = True,
      cc_supports_platform_handle_reuse = True,
      cc_supports_http_url_media = False,
      cc_requires_passive_reply_anchor = True,
      cc_max_text_chars = Some 4096,
      cc_max_caption_chars = None,
      cc_delivery_ordering_model = AppendOnly\<rparr>"

(* channel_capability.rs: lines 369-387 the contract of websocket *)
definition websocket_contract :: ChannelCapabilityContract where
  "websocket_contract =
     \<lparr>cc_supports_primary_reply = True,
      cc_supports_supplemental_reply = True,
      cc_supports_edit = False,
      cc_supports_stream_edit = False,
      cc_supports_explicit_target = True,
      cc_supports_attachment = False,
      cc_supports_typing_or_chat_action = False,
      cc_supports_message_reaction = False,
      cc_supported_body_kinds = BODY_KINDS_TEXT_ONLY,
      cc_supported_text_formats = TEXT_FORMATS_PLAIN_ONLY,
      cc_requires_pre_upload_for_media = False,
      cc_supports_platform_handle_reuse = False,
      cc_supports_http_url_media = False,
      cc_requires_passive_reply_anchor = False,
      cc_max_text_chars = None,
      cc_max_caption_chars = None,
      cc_delivery_ordering_model = SessionSocket\<rparr>"

(* channel_capability.rs: lines 388-406 the contract of voice *)
definition voice_contract :: ChannelCapabilityContract where
  "voice_contract =
     \<lparr>cc_supports_primary_reply = True,
      cc_supports_supplemental_reply = False,
      cc_supports_edit = False,
      cc_supports_stream_edit = False,
      cc_supports_explicit_target = False,
      cc_supports_attachment = False,
      cc_supports_typing_or_chat_action = False,
      cc_supports_message_reaction = False,
      cc_supported_body_kinds = BODY_KINDS_TEXT_ONLY,
      cc_supported_text_formats = TEXT_FORMATS_PLAIN_ONLY,
      cc_requires_pre_upload_for_media = False,
      cc_supports_platform_handle_reuse = False,
      cc_supports_http_url_media = False,
      cc_requires_passive_reply_anchor = False,
      cc_max_text_chars = None,
      cc_max_caption_chars = None,
      cc_delivery_ordering_model = AudioPlayback\<rparr>"

(* channel_capability.rs: fn static_channel_capability_contract *)
definition static_channel_capability_contract :: "build \<Rightarrow> string \<Rightarrow> ChannelCapabilityContract option" where
  "static_channel_capability_contract b channel =
     (if channel = ''telegram'' \<and> b_telegram b then Some telegram_contract
      else if channel = ''feishu'' \<and> b_feishu b then Some feishu_contract
      else if channel = ''dingtalk'' \<and> b_dingtalk b then Some dingtalk_contract
      else if channel = ''wecom'' \<and> b_wecom b then Some wecom_contract
      else if channel = ''qq_channel'' \<and> b_qq_channel b then Some qq_contract
      else if channel = ''websocket'' \<and> b_websocket b then Some websocket_contract
      else if channel = ''voice'' then Some voice_contract
      else None)"

section \<open>Configuration\<close>

text \<open>The fields of the configuration that decide about channels.\<close>

record channel_config =
  ac_enabled_channel :: string
  ac_tg_token :: string
  ac_feishu_app_id :: string
  ac_feishu_app_secret :: string
  ac_dingtalk_client_id :: string
  ac_dingtalk_client_secret :: string
  ac_wecom_bot_id :: string
  ac_wecom_bot_secret :: string
  ac_qq_channel_app_id :: string
  ac_qq_channel_secret :: string

definition given :: "string \<Rightarrow> bool" where
  "given s \<longleftrightarrow> trim s \<noteq> []"

(* channel_capability.rs: fn channel_is_configured *)
definition channel_is_configured :: "build \<Rightarrow> string \<Rightarrow> channel_config \<Rightarrow> bool \<Rightarrow> bool" where
  "channel_is_configured b channel config voice_channel_enabled \<longleftrightarrow>
     (if channel = ''telegram'' \<and> b_telegram b then given (ac_tg_token config)
      else if channel = ''feishu'' \<and> b_feishu b then given (ac_feishu_app_id config) \<and> given (ac_feishu_app_secret config)
      else if channel = ''dingtalk'' \<and> b_dingtalk b then given (ac_dingtalk_client_id config) \<and> given (ac_dingtalk_client_secret config)
      else if channel = ''wecom'' \<and> b_wecom b then given (ac_wecom_bot_id config) \<and> given (ac_wecom_bot_secret config)
      else if channel = ''qq_channel'' \<and> b_qq_channel b then given (ac_qq_channel_app_id config) \<and> given (ac_qq_channel_secret config)
      else if channel = ''websocket'' \<and> b_websocket b then True
      else if channel = ''voice'' then voice_channel_enabled
      else False)"

(* channel_capability.rs: fn channel_is_enabled *)
definition channel_is_enabled :: "build \<Rightarrow> string \<Rightarrow> string \<Rightarrow> channel_config \<Rightarrow> bool \<Rightarrow> bool" where
  "channel_is_enabled b channel normalized_enabled_channel config voice_channel_enabled \<longleftrightarrow>
     (if channel = ''websocket'' \<and> b_websocket b then True
      else if channel = ''voice'' then voice_channel_enabled
      else channel_is_configured b channel config voice_channel_enabled \<and> normalized_enabled_channel = channel)"

section \<open>The registry\<close>

(* channel_capability.rs: struct ChannelCapabilityEntry *)
record ChannelCapabilityEntry =
  ca_id :: string
  ca_configured :: bool
  ca_enabled :: bool
  ca_contract :: ChannelCapabilityContract

(* channel_capability.rs: struct ChannelCapabilityRegistry *)
type_synonym ChannelCapabilityRegistry = "string \<rightharpoonup> ChannelCapabilityEntry"

(* channel_capability.rs: impl ChannelCapabilityRegistry / fn get *)
definition registry_get :: "ChannelCapabilityRegistry \<Rightarrow> string \<Rightarrow> ChannelCapabilityEntry option" where
  "registry_get reg channel = reg channel"

(* channel_capability.rs: impl ChannelCapabilityRegistry / fn insert *)
definition registry_insert :: "ChannelCapabilityEntry \<Rightarrow> ChannelCapabilityRegistry \<Rightarrow> ChannelCapabilityRegistry" where
  "registry_insert entry reg = reg(ca_id entry \<mapsto> entry)"

(* channel_capability.rs: impl ChannelCapabilityRegistry / fn list *)
definition registry_list :: "build \<Rightarrow> ChannelCapabilityRegistry \<Rightarrow> ChannelCapabilityEntry list" where
  "registry_list b reg = List.map_filter (\<lambda>entry. reg (ce_id entry)) (compiled_channel_entries b)"

(* channel_capability.rs: lines 199-209 one channel of the registry *)
definition registry_step :: "build \<Rightarrow> channel_config \<Rightarrow> bool \<Rightarrow> string \<Rightarrow> ChannelCapabilityRegistry \<Rightarrow> ChannelCapabilityRegistry" where
  "registry_step b config voice channel reg =
     (case static_channel_capability_contract b channel of
        None \<Rightarrow> reg
      | Some contract \<Rightarrow>
          registry_insert
            \<lparr>ca_id = channel, ca_configured = channel_is_configured b channel config voice,
             ca_enabled = channel_is_enabled b channel (normalize_compiled_enabled_channel b (ac_enabled_channel config)) config voice,
             ca_contract = contract\<rparr> reg)"

(* channel_capability.rs: fn build_channel_capability_registry *)
definition build_channel_capability_registry :: "build \<Rightarrow> channel_config \<Rightarrow> bool \<Rightarrow> ChannelCapabilityRegistry" where
  "build_channel_capability_registry b config voice =
     fold (registry_step b config voice) (map ce_id (compiled_channel_entries b)) Map.empty"

text \<open>A snapshot copies the contract field by field, so it extends it.\<close>

(* channel_capability.rs: struct ChannelCapabilitySnapshot *)
record ChannelCapabilitySnapshot = ChannelCapabilityContract +
  sn_id :: string
  sn_configured :: bool
  sn_enabled :: bool
  sn_stream_edit_active :: bool
  sn_typing_active :: bool
  sn_degraded_reasons :: "string list"

definition capability_snapshot :: "ChannelCapabilityEntry \<Rightarrow> ChannelCapabilitySnapshot" where
  "capability_snapshot entry =
     ChannelCapabilityContract.extend (ca_contract entry)
       (ChannelCapabilitySnapshot.fields (ca_id entry) (ca_configured entry) (ca_enabled entry)
          (ca_enabled entry \<and> cc_supports_stream_edit (ca_contract entry))
          (ca_enabled entry \<and> cc_supports_typing_or_chat_action (ca_contract entry)) [])"

(* channel_capability.rs: fn build_channel_capability_snapshots_for_registry *)
definition build_channel_capability_snapshots_for_registry :: "build \<Rightarrow> ChannelCapabilityRegistry
    \<Rightarrow> ChannelCapabilitySnapshot list" where
  "build_channel_capability_snapshots_for_registry b reg = map capability_snapshot (registry_list b reg)"

(* channel_capability.rs: fn build_channel_capability_snapshots *)
definition build_channel_capability_snapshots :: "build \<Rightarrow> channel_config \<Rightarrow> bool \<Rightarrow> ChannelCapabilitySnapshot list" where
  "build_channel_capability_snapshots b config voice =
     build_channel_capability_snapshots_for_registry b (build_channel_capability_registry b config voice)"

section \<open>What the registry holds\<close>

lemma registry_step_other: "c \<noteq> channel \<Longrightarrow> registry_step b config voice channel reg c = reg c"
  by (simp add: registry_step_def registry_insert_def split: option.split)

lemma registry_step_same:
  "registry_step b config voice channel reg channel =
     (case static_channel_capability_contract b channel of
        None \<Rightarrow> reg channel
      | Some contract \<Rightarrow> Some
            \<lparr>ca_id = channel, ca_configured = channel_is_configured b channel config voice,
             ca_enabled = channel_is_enabled b channel (normalize_compiled_enabled_channel b (ac_enabled_channel config)) config voice,
             ca_contract = contract\<rparr>)"
  by (simp add: registry_step_def registry_insert_def split: option.split)

lemma registry_fold:
  "fold (registry_step b config voice) channels reg c =
     (if c \<in> set channels \<and> static_channel_capability_contract b c \<noteq> None
      then Some \<lparr>ca_id = c, ca_configured = channel_is_configured b c config voice,
             ca_enabled = channel_is_enabled b c (normalize_compiled_enabled_channel b (ac_enabled_channel config)) config voice,
             ca_contract = the (static_channel_capability_contract b c)\<rparr>
      else reg c)"
proof (induction channels arbitrary: reg)
  case (Cons d ds)
  then show ?case
    by (cases "c = d") (auto simp: registry_step_other registry_step_same split: option.split)
qed simp

lemma compiled_has_contract:
  "entry \<in> set (compiled_channel_entries b) \<Longrightarrow> static_channel_capability_contract b (ce_id entry) \<noteq> None"
  by (auto simp: compiled_channel_entries_def channel_entry_def static_channel_capability_contract_def split: if_splits)

text \<open>Which channels the registry holds, and that at most one of the exclusive channels is enabled.\<close>

lemma registry_domain:
  "registry_get (build_channel_capability_registry b config voice) c =
     (if c \<in> ce_id ` set (compiled_channel_entries b)
      then Some \<lparr>ca_id = c, ca_configured = channel_is_configured b c config voice,
             ca_enabled = channel_is_enabled b c (normalize_compiled_enabled_channel b (ac_enabled_channel config)) config voice,
             ca_contract = the (static_channel_capability_contract b c)\<rparr>
      else None)"
proof (cases "c \<in> ce_id ` set (compiled_channel_entries b)")
  case True
  then obtain e where "e \<in> set (compiled_channel_entries b)" "c = ce_id e" by blast
  then have "static_channel_capability_contract b c \<noteq> None" using compiled_has_contract by blast
  then show ?thesis using True by (simp add: registry_get_def build_channel_capability_registry_def registry_fold)
qed (simp add: registry_get_def build_channel_capability_registry_def registry_fold)

text \<open>
  Which channels are open. Besides the local ones, websocket and voice, at most one channel of the registry is
  enabled, the configured channel of the settings; every enabled channel is configured; and a
  setting that names a channel the build does not have enables none of them.
\<close>
theorem one_remote_channel:
  assumes "registry_get (build_channel_capability_registry b config voice) c = Some entry" "ca_enabled entry"
  shows "ca_configured entry
    \<and> (c \<in> {''websocket'', ''voice''} \<or> (c = ac_enabled_channel config \<and> c \<in> set (compiled_enabled_channel_ids b)))"
proof -
  have e: "c \<in> ce_id ` set (compiled_channel_entries b)"
    "entry = \<lparr>ca_id = c, ca_configured = channel_is_configured b c config voice,
       ca_enabled = channel_is_enabled b c (normalize_compiled_enabled_channel b (ac_enabled_channel config)) config voice,
       ca_contract = the (static_channel_capability_contract b c)\<rparr>"
    using assms(1) unfolding registry_domain by (auto split: if_splits)
  have "c \<noteq> []" using e(1) by (auto simp: compiled_channel_entries_def channel_entry_def split: if_splits)
  then show ?thesis
    using e assms(2)
    by (auto simp: channel_is_enabled_def channel_is_configured_def normalize_compiled_enabled_channel_def split: if_splits)
qed

text \<open>A board with two channels built in, of which the settings choose one.\<close>

definition two_channel_build :: build where
  "two_channel_build = \<lparr>b_target = Esp, b_telegram = True, b_feishu = True, b_dingtalk = False, b_wecom = False,
     b_qq_channel = False, b_websocket = True\<rparr>"

definition telegram_settings :: channel_config where
  "telegram_settings = \<lparr>ac_enabled_channel = ''telegram'', ac_tg_token = ''t'', ac_feishu_app_id = ''f'',
     ac_feishu_app_secret = ''f'', ac_dingtalk_client_id = [], ac_dingtalk_client_secret = [], ac_wecom_bot_id = [],
     ac_wecom_bot_secret = [], ac_qq_channel_app_id = [], ac_qq_channel_secret = []\<rparr>"

theorem one_remote_channel_witness:
  "\<exists>entry. registry_get (build_channel_capability_registry two_channel_build telegram_settings False) ''telegram'' = Some entry
     \<and> ca_enabled entry \<and> ca_configured entry"
proof -
  have "trim ''t'' = ''t''" by (simp add: trim_graphic graphic_def)
  then obtain entry where e: "registry_get (build_channel_capability_registry two_channel_build telegram_settings False) ''telegram'' = Some entry"
    "ca_enabled entry"
    unfolding registry_domain
    by (simp add: two_channel_build_def telegram_settings_def compiled_channel_entries_def channel_entry_def
        channel_is_enabled_def channel_is_configured_def given_def normalize_compiled_enabled_channel_def compiled_enabled_channel_ids_def)
  then show ?thesis using one_remote_channel by blast
qed

end
