(* ===== verification/Outbound_Text.thy ===== *)
theory Outbound_Text
  imports Channel_Capability Calendar
begin

text \<open>
  Preparing a message for a channel (\<open>src/src/channels/outbound_text.rs\<close>): the choice of a body and a format
  that the channel supports, and the rendering of marked-up text as plain text or as the HTML of Telegram. The JSON
  payload of a rich post is a parameter, a function of its title and its paragraphs.
\<close>

section \<open>Searching text\<close>

text \<open>\<open>str::find\<close> for a pattern, \<open>strip_prefix\<close>, \<open>contains\<close> and \<open>lines\<close> of the standard library.\<close>

fun find_sub :: "string \<Rightarrow> string \<Rightarrow> nat option" where
  "find_sub p s =
     (if prefix p s then Some 0 else case s of [] \<Rightarrow> None | c # cs \<Rightarrow> map_option Suc (find_sub p cs))"

declare find_sub.simps [simp del]

definition contains_sub :: "string \<Rightarrow> string \<Rightarrow> bool" where
  "contains_sub p s \<longleftrightarrow> find_sub p s \<noteq> None"

definition without_prefix :: "string \<Rightarrow> string \<Rightarrow> string option" where
  "without_prefix p s = (if prefix p s then Some (drop (length p) s) else None)"

definition strip_cr :: "string \<Rightarrow> string" where
  "strip_cr s = (if s \<noteq> [] \<and> last s = CHR 0x0D then butlast s else s)"

definition lines_of :: "string \<Rightarrow> string list" where
  "lines_of s =
     (let ps = split_on (CHR 0x0A) s
      in map strip_cr (butlast ps) @ (if last ps = [] then [] else [last ps]))"

text \<open>The bytes of the first character: an ASCII character is one byte, any other its lead byte and what continues it.\<close>

fun first_char :: "string \<Rightarrow> string" where
  "first_char [] = []"
| "first_char (c # cs) = (if (of_char c :: nat) < 128 then [c] else c # takeWhile is_continuation cs)"

lemma first_char_length: "s \<noteq> [] \<Longrightarrow> 0 < length (first_char s)"
  by (cases s) auto

lemma first_char_drop [simp]: "s \<noteq> [] \<Longrightarrow> length s - length (first_char s) < length s"
  using first_char_length [of s] by (cases s) auto

lemma find_sub_bound: "find_sub p s = Some i \<Longrightarrow> i + length p \<le> length s"
proof (induction s arbitrary: i)
  case Nil
  then show ?case by (subst (asm) find_sub.simps) (auto split: if_splits)
next
  case (Cons c cs)
  then show ?case by (subst (asm) find_sub.simps) (auto split: if_splits dest: prefix_length_le)
qed

section \<open>Inline marks\<close>

(* channels/outbound_text.rs: fn consume_image_or_link *)
definition consume_image_or_link :: "string \<Rightarrow> bool \<Rightarrow> (nat \<times> string \<times> string) option" where
  "consume_image_or_link rest is_image =
     (let pre = (if is_image then ''!['' else ''['')
      in if \<not> prefix pre rest then None
         else case find_sub '']'' (drop (length pre) rest) of
           None \<Rightarrow> None
         | Some off \<Rightarrow>
             (let label_end = off + length pre;
                  after_label = drop (label_end + 1) rest
              in if \<not> prefix ''('' after_label then None
                 else case find_sub '')'' (drop 1 after_label) of
                   None \<Rightarrow> None
                 | Some u \<Rightarrow>
                     (let url_end = u + 1
                      in Some (label_end + 1 + url_end + 1,
                               take (label_end - length pre) (drop (length pre) rest),
                               trim (take (url_end - 1) (drop 1 after_label))))))"

(* channels/outbound_text.rs: fn consume_delimited *)
definition consume_delimited :: "string \<Rightarrow> string \<Rightarrow> string \<Rightarrow> (nat \<times> string) option" where
  "consume_delimited rest open_mark close_mark =
     (if \<not> prefix open_mark rest then None
      else let tail = drop (length open_mark) rest
           in case find_sub close_mark tail of
                None \<Rightarrow> None
              | Some close_offset \<Rightarrow>
                  (let inner = take close_offset tail
                   in if inner = [] \<or> CHR 0x0A \<in> set inner then None
                      else Some (length open_mark + close_offset + length close_mark, inner)))"

(* channels/outbound_text.rs: fn consume_emphasis *)
definition consume_emphasis :: "string \<Rightarrow> (nat \<times> string) option" where
  "consume_emphasis rest =
     (if prefix ''**'' rest \<or> prefix ''__'' rest then None
      else if \<not> (prefix ''*'' rest \<or> prefix ''_'' rest) then None
      else let delimiter = (if prefix ''*'' rest then ''*'' else ''_'');
               tail = drop 1 rest
           in case find_sub delimiter tail of
                None \<Rightarrow> None
              | Some close_offset \<Rightarrow>
                  (let inner = take close_offset tail
                   in if inner = [] \<or> CHR 0x0A \<in> set inner \<or> leading inner \<noteq> None \<or> trailing inner \<noteq> None then None
                      else Some (1 + close_offset + 1, inner)))"

text \<open>
  Both renderers try the same marks in the same order; the mark that is found says what they then do. The
  first two carry a label and a target, the others the text between the delimiters.
\<close>

datatype mark =
    ImageMark string string | LinkMark string string | CodeMark string
  | StrongMark string | StrikeMark string | EmphasisMark string

definition or_else :: "'a option \<Rightarrow> 'a option \<Rightarrow> 'a option" where
  "or_else a b = (case a of Some x \<Rightarrow> Some x | None \<Rightarrow> b)"

(* channels/outbound_text.rs: lines 480-520 the order of the marks *)
definition consume_mark :: "string \<Rightarrow> (nat \<times> mark) option" where
  "consume_mark rest =
     or_else (map_option (\<lambda>(n, l, u). (n, ImageMark l u)) (consume_image_or_link rest True))
    (or_else (map_option (\<lambda>(n, l, u). (n, LinkMark l u)) (consume_image_or_link rest False))
    (or_else (map_option (\<lambda>(n, i). (n, CodeMark i)) (consume_delimited rest ''`'' ''`''))
    (or_else (map_option (\<lambda>(n, i). (n, StrongMark i))
                (or_else (consume_delimited rest ''**'' ''**'') (consume_delimited rest ''__'' ''__'')))
    (or_else (map_option (\<lambda>(n, i). (n, StrikeMark i)) (consume_delimited rest ''~~'' ''~~''))
             (map_option (\<lambda>(n, i). (n, EmphasisMark i)) (consume_emphasis rest))))))"

fun mark_inner :: "mark \<Rightarrow> string" where
  "mark_inner (ImageMark l u) = l"
| "mark_inner (LinkMark l u) = l"
| "mark_inner (CodeMark i) = i"
| "mark_inner (StrongMark i) = i"
| "mark_inner (StrikeMark i) = i"
| "mark_inner (EmphasisMark i) = i"

text \<open>A mark takes at least one byte, and its inner text is shorter than what it was found in.\<close>

lemma image_or_link_sizes:
  "consume_image_or_link rest is_image = Some (n, l, u) \<Longrightarrow> 0 < n \<and> length l < length rest"
  by (auto simp: consume_image_or_link_def Let_def split: if_splits option.splits dest: find_sub_bound)

lemma delimited_sizes:
  "consume_delimited rest a b = Some (n, i) \<Longrightarrow> b \<noteq> [] \<Longrightarrow> 0 < n \<and> length i < length rest"
  by (auto simp: consume_delimited_def Let_def split: if_splits option.splits dest!: find_sub_bound) (cases b; auto)+

lemma emphasis_sizes: "consume_emphasis rest = Some (n, i) \<Longrightarrow> 0 < n \<and> length i < length rest"
  by (auto simp: consume_emphasis_def Let_def split: if_splits option.splits dest!: find_sub_bound)

lemma mark_sizes: "consume_mark rest = Some (n, m) \<Longrightarrow> 0 < n \<and> length (mark_inner m) < length rest"
  by (auto simp: consume_mark_def or_else_def split: option.splits
      dest!: image_or_link_sizes delimited_sizes emphasis_sizes)

section \<open>Rendering inline text\<close>

(* channels/outbound_text.rs: fn plain_link_text *)
definition plain_link_text :: "string \<Rightarrow> string \<Rightarrow> string" where
  "plain_link_text label0 url0 =
     (let label = trim label0; url = trim url0
      in if label = [] then url
         else if url = [] \<or> label = url then label
         else label @ '' ('' @ url @ '')'')"

(* channels/outbound_text.rs: fn render_inline_markdownish_to_plain *)
function render_inline_plain :: "string \<Rightarrow> string" where
  "render_inline_plain s =
     (if s = [] then []
      else case consume_mark s of
        Some (n, ImageMark l u) \<Rightarrow> plain_link_text l u @ render_inline_plain (drop n s)
      | Some (n, LinkMark l u) \<Rightarrow> plain_link_text l u @ render_inline_plain (drop n s)
      | Some (n, CodeMark i) \<Rightarrow> i @ render_inline_plain (drop n s)
      | Some (n, StrongMark i) \<Rightarrow> render_inline_plain i @ render_inline_plain (drop n s)
      | Some (n, StrikeMark i) \<Rightarrow> render_inline_plain i @ render_inline_plain (drop n s)
      | Some (n, EmphasisMark i) \<Rightarrow> render_inline_plain i @ render_inline_plain (drop n s)
      | None \<Rightarrow> first_char s @ render_inline_plain (drop (length (first_char s)) s))"
  by pat_completeness auto
termination
  by (relation "measure length") (auto dest!: mark_sizes simp: first_char_length)

(* channels/outbound_text.rs: fn push_escaped_html_char *)
definition escaped_html_char :: "string \<Rightarrow> string" where
  "escaped_html_char ch =
     (if ch = ''&'' then ''&amp;'' else if ch = ''<'' then ''&lt;'' else if ch = ''>'' then ''&gt;''
      else if ch = [CHR 0x22] then ''&quot;'' else ch)"

(* channels/outbound_text.rs: fn escape_html_text *)
function escape_html_text :: "string \<Rightarrow> string" where
  "escape_html_text s =
     (if s = [] then [] else escaped_html_char (first_char s) @ escape_html_text (drop (length (first_char s)) s))"
  by pat_completeness auto
termination
  by (relation "measure length") (auto simp: first_char_length)

(* channels/outbound_text.rs: fn escape_html_attr *)
definition escape_html_attr :: "string \<Rightarrow> string" where
  "escape_html_attr s = escape_html_text s"

definition element :: "string \<Rightarrow> string \<Rightarrow> string" where
  "element t inner = ''<'' @ t @ ''>'' @ inner @ ''</'' @ t @ ''>''"

definition anchor :: "string \<Rightarrow> string \<Rightarrow> string" where
  "anchor href inner = ''<a href='' @ [CHR 0x22] @ href @ [CHR 0x22] @ ''>'' @ inner @ ''</a>''"

(* channels/outbound_text.rs: fn render_inline_markdownish_to_html *)
function render_inline_html :: "string \<Rightarrow> string" where
  "render_inline_html s =
     (if s = [] then []
      else case consume_mark s of
        Some (n, ImageMark l u) \<Rightarrow> escape_html_text l @ '' ('' @ escape_html_text u @ '')'' @ render_inline_html (drop n s)
      | Some (n, LinkMark l u) \<Rightarrow> anchor (escape_html_attr u) (render_inline_html l) @ render_inline_html (drop n s)
      | Some (n, CodeMark i) \<Rightarrow> element ''code'' (escape_html_text i) @ render_inline_html (drop n s)
      | Some (n, StrongMark i) \<Rightarrow> element ''b'' (render_inline_html i) @ render_inline_html (drop n s)
      | Some (n, StrikeMark i) \<Rightarrow> element ''s'' (render_inline_html i) @ render_inline_html (drop n s)
      | Some (n, EmphasisMark i) \<Rightarrow> element ''i'' (render_inline_html i) @ render_inline_html (drop n s)
      | None \<Rightarrow> escaped_html_char (first_char s) @ render_inline_html (drop (length (first_char s)) s))"
  by pat_completeness auto
termination
  by (relation "measure length") (auto dest!: mark_sizes simp: first_char_length)

declare render_inline_plain.simps [simp del] escape_html_text.simps [simp del] render_inline_html.simps [simp del]

section \<open>Lines\<close>

(* channels/outbound_text.rs: fn heading_text *)
definition heading_text :: "string \<Rightarrow> string option" where
  "heading_text line =
     (let hashes = length (takeWhile (\<lambda>c. c = CHR ''#'') line)
      in if hashes = 0 \<or> 6 < hashes then None
         else let rest = trim_start (drop hashes line)
              in if rest = [] \<or> length rest = length line - hashes then None else Some rest)"

(* channels/outbound_text.rs: fn unordered_list_text *)
definition unordered_list_text :: "string \<Rightarrow> string option" where
  "unordered_list_text line =
     map_option trim_start
       (or_else (without_prefix ''- '' line) (or_else (without_prefix ''* '' line) (without_prefix ''+ '' line)))"

(* channels/outbound_text.rs: fn ordered_list_text *)
definition ordered_list_text :: "string \<Rightarrow> (string \<times> string) option" where
  "ordered_list_text line =
     (let digit_count = length (takeWhile is_digit line)
      in if digit_count = 0 then None
         else map_option (\<lambda>rest. (take digit_count line, trim_start rest)) (without_prefix ''. '' (drop digit_count line)))"

(* channels/outbound_text.rs: fn is_heading_line *)
definition is_heading_line :: "string \<Rightarrow> bool" where
  "is_heading_line line \<longleftrightarrow> heading_text line \<noteq> None"

(* channels/outbound_text.rs: fn is_unordered_list_line *)
definition is_unordered_list_line :: "string \<Rightarrow> bool" where
  "is_unordered_list_line line \<longleftrightarrow> unordered_list_text line \<noteq> None"

(* channels/outbound_text.rs: fn is_ordered_list_line *)
definition is_ordered_list_line :: "string \<Rightarrow> bool" where
  "is_ordered_list_line line \<longleftrightarrow> ordered_list_text line \<noteq> None"

(* channels/outbound_text.rs: fn looks_like_markdownish *)
definition looks_like_markdownish :: "string \<Rightarrow> bool" where
  "looks_like_markdownish text0 \<longleftrightarrow>
     (let trimmed = trim text0
      in trimmed \<noteq> []
         \<and> (list_ex (\<lambda>p. contains_sub p trimmed) [''```'', ''**'', ''__'', ''~~'', ''`'', ''](''] 
            \<or> list_ex (\<lambda>line. let l = trim_start line
                              in is_heading_line l \<or> is_unordered_list_line l \<or> is_ordered_list_line l \<or> prefix ''> '' l)
                (lines_of trimmed)))"

definition blank :: "string \<Rightarrow> bool" where
  "blank line \<longleftrightarrow> trim line = []"

(* channels/outbound_text.rs: lines 678-687 the loop of collapse_blank_lines *)
fun collapse_runs :: "bool \<Rightarrow> string list \<Rightarrow> string list" where
  "collapse_runs previous_blank [] = []"
| "collapse_runs previous_blank (line # lines) =
     (if blank line \<and> previous_blank then collapse_runs previous_blank lines
      else line # collapse_runs (blank line) lines)"

(* channels/outbound_text.rs: fn collapse_blank_lines *)
definition collapse_blank_lines :: "string list \<Rightarrow> string list" where
  "collapse_blank_lines lines =
     (let collapsed = dropWhile blank (collapse_runs False lines)
      in rev (dropWhile blank (rev collapsed)))"

fun join_lines_with :: "string \<Rightarrow> string list \<Rightarrow> string" where
  "join_lines_with sep [] = []"
| "join_lines_with sep [l] = l"
| "join_lines_with sep (l # ls) = l @ sep @ join_lines_with sep ls"

abbreviation join_newline :: "string list \<Rightarrow> string" where
  "join_newline \<equiv> join_lines_with [CHR 0x0A]"

definition bullet :: string where
  "bullet = [CHR 0xE2, CHR 0x80, CHR 0xA2, CHR '' '']"

text \<open>One line outside code blocks, in both renderings.\<close>

(* channels/outbound_text.rs: lines 353-363 a line of render_markdownish_to_plain_text *)
definition plain_line :: "string \<Rightarrow> string" where
  "plain_line trimmed =
     (case heading_text trimmed of
        Some rest \<Rightarrow> render_inline_plain rest
      | None \<Rightarrow>
     (case without_prefix ''> '' trimmed of
        Some rest \<Rightarrow> render_inline_plain rest
      | None \<Rightarrow>
     (case unordered_list_text trimmed of
        Some rest \<Rightarrow> bullet @ render_inline_plain rest
      | None \<Rightarrow>
     (case ordered_list_text trimmed of
        Some (index, rest) \<Rightarrow> index @ ''. '' @ render_inline_plain rest
      | None \<Rightarrow> render_inline_plain trimmed))))"

(* channels/outbound_text.rs: lines 398-408 a line of render_markdownish_to_telegram_html *)
definition html_line :: "string \<Rightarrow> string" where
  "html_line trimmed =
     (case heading_text trimmed of
        Some rest \<Rightarrow> element ''b'' (render_inline_html rest)
      | None \<Rightarrow>
     (case without_prefix ''> '' trimmed of
        Some rest \<Rightarrow> ''&gt; '' @ render_inline_html rest
      | None \<Rightarrow>
     (case unordered_list_text trimmed of
        Some rest \<Rightarrow> bullet @ render_inline_html rest
      | None \<Rightarrow>
     (case ordered_list_text trimmed of
        Some (index, rest) \<Rightarrow> index @ ''. '' @ render_inline_html rest
      | None \<Rightarrow> render_inline_html trimmed))))"

(* channels/outbound_text.rs: lines 336-365 the loop of render_markdownish_to_plain_text *)
fun plain_lines :: "bool \<Rightarrow> string list \<Rightarrow> string list" where
  "plain_lines in_code_block [] = []"
| "plain_lines in_code_block (raw # raws) =
     (let line = trim_end raw; trimmed = trim_start line
      in if prefix ''```'' trimmed then plain_lines (\<not> in_code_block) raws
         else if in_code_block then line # plain_lines in_code_block raws
         else if trimmed = [] then [] # plain_lines in_code_block raws
         else plain_line trimmed # plain_lines in_code_block raws)"

(* channels/outbound_text.rs: fn render_markdownish_to_plain_text *)
definition render_markdownish_to_plain_text :: "string \<Rightarrow> string" where
  "render_markdownish_to_plain_text s = join_newline (collapse_blank_lines (plain_lines False (lines_of s)))"

definition pre_block :: "string list \<Rightarrow> string" where
  "pre_block code_lines = element ''pre'' (escape_html_text (join_newline code_lines))"

text \<open>The second argument holds the lines of an open code block.\<close>

(* channels/outbound_text.rs: lines 370-417 the loop of render_markdownish_to_telegram_html *)
fun html_lines :: "bool \<Rightarrow> string list \<Rightarrow> string list \<Rightarrow> string list" where
  "html_lines in_code_block code_lines [] = (if code_lines = [] then [] else [pre_block code_lines])"
| "html_lines in_code_block code_lines (raw # raws) =
     (let line = trim_end raw; trimmed = trim_start line
      in if prefix ''```'' trimmed
         then (if in_code_block then pre_block code_lines # html_lines False [] raws
               else html_lines True code_lines raws)
         else if in_code_block then html_lines in_code_block (code_lines @ [line]) raws
         else if trimmed = [] then [] # html_lines in_code_block code_lines raws
         else html_line trimmed # html_lines in_code_block code_lines raws)"

(* channels/outbound_text.rs: fn render_markdownish_to_telegram_html *)
definition render_markdownish_to_telegram_html :: "string \<Rightarrow> string" where
  "render_markdownish_to_telegram_html s = join_newline (collapse_blank_lines (html_lines False [] (lines_of s)))"

section \<open>HTML to plain text\<close>

definition html_entities :: "(string \<times> string) list" where
  "html_entities = [(''&lt;'', ''<''), (''&gt;'', ''>''), (''&amp;'', ''&''), (''&quot;'', [CHR 0x22])]"

(* channels/outbound_text.rs: lines 594-646 the loop of render_html_to_plain_text *)
function html_scan :: "bool \<Rightarrow> bool \<Rightarrow> string \<Rightarrow> string \<Rightarrow> string" where
  "html_scan in_tag pending_newline out s =
     (if s = [] then out
      else if hd s = CHR ''<'' then html_scan True (pending_newline \<or> prefix ''<br'' s \<or> prefix ''</p'' s) out (tl s)
      else if hd s = CHR ''>'' then
        html_scan False False (if pending_newline \<and> \<not> suffix [CHR 0x0A] out then out @ [CHR 0x0A] else out) (tl s)
      else if in_tag then html_scan in_tag pending_newline out (tl s)
      else case find (\<lambda>(e, c). prefix e s) html_entities of
        Some (e, c) \<Rightarrow> html_scan in_tag pending_newline (out @ c) (drop (length e) s)
      | None \<Rightarrow> html_scan in_tag pending_newline (out @ first_char s) (drop (length (first_char s)) s))"
  by pat_completeness auto
termination
proof (relation "measure (\<lambda>(t, p, out, s). length s)")
  fix s :: string and e c x
  assume "s \<noteq> []" "find (\<lambda>(e, c). prefix e s) html_entities = Some x" "(e, c) = x"
  then have "(e, c) \<in> set html_entities" by (auto simp: find_Some_iff in_set_conv_nth)
  then have "0 < length e" by (auto simp: html_entities_def)
  then show "((t, p, out @ c, drop (length e) s), t, p, out, s) \<in> measure (\<lambda>(t, p, out, s). length s)" for t p out
    using \<open>s \<noteq> []\<close> by simp
qed (auto simp: first_char_length)

declare html_scan.simps [simp del]

(* channels/outbound_text.rs: fn render_html_to_plain_text *)
definition render_html_to_plain_text :: "string \<Rightarrow> string" where
  "render_html_to_plain_text s = join_newline (collapse_blank_lines (map trim_end (lines_of (html_scan False False [] s))))"

section \<open>Choosing the body\<close>

(* channels/outbound_text.rs: struct PreparedOutboundMessage *)
record 'json PreparedOutboundMessage =
  po_msg :: "'json PcMsg"
  po_content :: string

(* channels/outbound_text.rs: struct NormalizedOutboundBody *)
record 'json NormalizedOutboundBody =
  no_body :: "'json CanonicalMessageBody"
  no_content :: string

(* channels/outbound_text.rs: fn should_preserve_platform_native_supplemental *)
definition should_preserve_platform_native_supplemental :: "ChannelCapabilityEntry \<Rightarrow> 'json PcMsg \<Rightarrow> bool" where
  "should_preserve_platform_native_supplemental capability msg \<longleftrightarrow>
     (if ca_id capability \<noteq> ''telegram'' \<or> \<not> cc_supports_message_reaction (ca_contract capability)
         \<or> \<not> is_supplemental (pm_outbound_kind msg) \<or> trim (pm_platform_message_id msg) = [] then False
      else case pm_body msg of BodyPlatformNative native \<Rightarrow> is_telegram_message_reaction native | _ \<Rightarrow> False)"

(* channels/outbound_text.rs: fn supports_body_kind *)
definition supports_body_kind :: "ChannelCapabilityEntry \<Rightarrow> MessageBodyKind \<Rightarrow> bool" where
  "supports_body_kind capability kind \<longleftrightarrow> List.member (cc_supported_body_kinds (ca_contract capability)) kind"

(* channels/outbound_text.rs: fn supports_text_format *)
definition supports_text_format :: "ChannelCapabilityEntry \<Rightarrow> TextFormat \<Rightarrow> bool" where
  "supports_text_format capability format \<longleftrightarrow> List.member (cc_supported_text_formats (ca_contract capability)) format"

(* channels/outbound_text.rs: fn normalize_text_source *)
definition normalize_text_source :: "TextBody \<Rightarrow> string \<Rightarrow> string" where
  "normalize_text_source t content = (if trim (tb_text t) = [] then trim content else trim (tb_text t))"

(* channels/outbound_text.rs: fn is_generic_body_fallback *)
definition is_generic_body_fallback :: "string \<Rightarrow> bool" where
  "is_generic_body_fallback s \<longleftrightarrow>
     List.member [''[card]'', ''[platform_native]'', ''[image]'', ''[audio]'', ''[video]'', ''[file]''] (trim s)"

(* channels/outbound_text.rs: fn fallback_plain_text_for_body *)
definition fallback_plain_text_for_body :: "'json CanonicalMessageBody \<Rightarrow> string" where
  "fallback_plain_text_for_body body =
     (let projection = text_projection body
      in if looks_like_markdownish projection then render_markdownish_to_plain_text projection else trim projection)"

(* channels/outbound_text.rs: fn fallback_plain_text_for_body_with_content *)
definition fallback_plain_text_for_body_with_content :: "'json CanonicalMessageBody \<Rightarrow> string \<Rightarrow> string" where
  "fallback_plain_text_for_body_with_content body content0 =
     (let body_fallback = fallback_plain_text_for_body body;
          content = trim content0
      in if body_fallback \<noteq> [] \<and> \<not> is_generic_body_fallback body_fallback then body_fallback
         else if content \<noteq> [] then
           (if looks_like_markdownish content then render_markdownish_to_plain_text content else content)
         else body_fallback)"

text \<open>The first characters of a text.\<close>

fun take_chars :: "nat \<Rightarrow> string \<Rightarrow> string" where
  "take_chars 0 s = []"
| "take_chars (Suc n) s = (if s = [] then [] else first_char s @ take_chars n (drop (length (first_char s)) s))"

(* channels/outbound_text.rs: fn markdownish_title *)
definition markdownish_title :: "string \<Rightarrow> string" where
  "markdownish_title s =
     (case find (\<lambda>line. trim line \<noteq> []) (lines_of s) of
        Some line \<Rightarrow> take_chars 64 (trim line)
      | None \<Rightarrow> ''beetle'')"

text \<open>The payload of a rich post from its title and its paragraphs is the argument \<open>rich_post\<close>.\<close>

(* channels/outbound_text.rs: fn build_feishu_rich_post_body *)
definition build_feishu_rich_post_body :: "(string \<Rightarrow> string list \<Rightarrow> 'json) \<Rightarrow> string \<Rightarrow> 'json CanonicalMessageBody" where
  "build_feishu_rich_post_body rich_post source_text =
     (let fallback_text = render_markdownish_to_plain_text source_text;
          shown = filter (\<lambda>l. l \<noteq> []) (map trim (lines_of fallback_text));
          paragraphs = (if shown = [] then [trim fallback_text] else shown)
      in BodyCard \<lparr>cb_format = RichPost, cb_payload_json = rich_post (markdownish_title fallback_text) paragraphs,
                   cb_fallback_text = fallback_text\<rparr>)"

definition plain_body :: "string \<Rightarrow> 'json NormalizedOutboundBody" where
  "plain_body s = \<lparr>no_body = BodyText (text_body_plain s), no_content = s\<rparr>"

definition formatted_body :: "TextFormat \<Rightarrow> string \<Rightarrow> string \<Rightarrow> 'json NormalizedOutboundBody" where
  "formatted_body format s content = \<lparr>no_body = BodyText \<lparr>tb_text = s, tb_format = format\<rparr>, no_content = content\<rparr>"

definition rich_post_body :: "(string \<Rightarrow> string list \<Rightarrow> 'json) \<Rightarrow> string \<Rightarrow> 'json NormalizedOutboundBody" where
  "rich_post_body rich_post s =
     (let body = build_feishu_rich_post_body rich_post s in \<lparr>no_body = body, no_content = text_projection body\<rparr>)"

(* channels/outbound_text.rs: fn normalize_rich_text_for_channel *)
definition normalize_rich_text_for_channel :: "(string \<Rightarrow> string list \<Rightarrow> 'json) \<Rightarrow> ChannelCapabilityEntry \<Rightarrow> string
    \<Rightarrow> 'json NormalizedOutboundBody" where
  "normalize_rich_text_for_channel rich_post capability source_text =
     (if ca_id capability = ''feishu'' \<and> supports_text_format capability FormatRichText then rich_post_body rich_post source_text
      else if supports_text_format capability FormatMarkdown \<and> looks_like_markdownish source_text
      then formatted_body FormatMarkdown source_text source_text
      else plain_body (render_markdownish_to_plain_text source_text))"

(* channels/outbound_text.rs: fn normalize_text_body_for_channel *)
definition normalize_text_body_for_channel :: "(string \<Rightarrow> string list \<Rightarrow> 'json) \<Rightarrow> ChannelCapabilityEntry \<Rightarrow> TextBody \<Rightarrow> string
    \<Rightarrow> 'json NormalizedOutboundBody" where
  "normalize_text_body_for_channel rich_post capability t content =
     (let source_text = normalize_text_source t content
      in if source_text = [] then plain_body []
         else case tb_format t of
           FormatPlain \<Rightarrow> plain_body source_text
         | FormatRichText \<Rightarrow> normalize_rich_text_for_channel rich_post capability source_text
         | FormatMarkdown \<Rightarrow>
             (if supports_text_format capability FormatMarkdown then formatted_body FormatMarkdown source_text source_text
              else if ca_id capability = ''telegram'' \<and> supports_text_format capability FormatHtml
              then formatted_body FormatHtml (render_markdownish_to_telegram_html source_text) source_text
              else if ca_id capability = ''feishu'' \<and> supports_text_format capability FormatRichText
              then rich_post_body rich_post source_text
              else plain_body (render_markdownish_to_plain_text source_text))
         | FormatHtml \<Rightarrow>
             (if supports_text_format capability FormatHtml then formatted_body FormatHtml source_text content
              else plain_body (render_html_to_plain_text source_text)))"

(* channels/outbound_text.rs: fn normalize_card_body_for_channel *)
definition normalize_card_body_for_channel :: "ChannelCapabilityEntry \<Rightarrow> 'json CardBody \<Rightarrow> 'json NormalizedOutboundBody" where
  "normalize_card_body_for_channel capability cbody =
     (let supported = (if ca_id capability = ''feishu'' then cb_format cbody = Interactive \<or> cb_format cbody = RichPost
                       else if ca_id capability = ''qq_channel'' then cb_format cbody = Ark \<or> cb_format cbody = Embed
                       else True)
      in if supported then \<lparr>no_body = BodyCard cbody, no_content = cb_fallback_text cbody\<rparr>
         else plain_body (fallback_plain_text_for_body (BodyCard cbody)))"

(* channels/outbound_text.rs: fn normalize_body_for_channel *)
definition normalize_body_for_channel :: "(string \<Rightarrow> string list \<Rightarrow> 'json) \<Rightarrow> ChannelCapabilityEntry
    \<Rightarrow> 'json CanonicalMessageBody \<Rightarrow> string \<Rightarrow> 'json NormalizedOutboundBody" where
  "normalize_body_for_channel rich_post capability body content =
     (if \<not> supports_body_kind capability (body_kind_of body)
      then plain_body (fallback_plain_text_for_body_with_content body content)
      else case body of
        BodyText t \<Rightarrow> normalize_text_body_for_channel rich_post capability t content
      | BodyCard cbody \<Rightarrow> normalize_card_body_for_channel capability cbody
      | _ \<Rightarrow> \<lparr>no_body = body, no_content = content\<rparr>)"

(* channels/outbound_text.rs: fn prepare_outbound_message_for_channel *)
definition prepare_outbound_message_for_channel :: "(string \<Rightarrow> string list \<Rightarrow> 'json) \<Rightarrow> 'json PcMsg
    \<Rightarrow> ChannelCapabilityEntry option \<Rightarrow> 'json PreparedOutboundMessage" where
  "prepare_outbound_message_for_channel rich_post msg capability =
     (case (case capability of Some entry \<Rightarrow> if ca_enabled entry then Some entry else None | None \<Rightarrow> None) of
        None \<Rightarrow> \<lparr>po_msg = msg, po_content = pm_content msg\<rparr>
      | Some entry \<Rightarrow>
          (if should_preserve_platform_native_supplemental entry msg then \<lparr>po_msg = msg, po_content = pm_content msg\<rparr>
           else let normalized = normalize_body_for_channel rich_post entry (pm_body msg) (pm_content msg)
                in \<lparr>po_msg = msg\<lparr>pm_body := no_body normalized, pm_content := no_content normalized\<rparr>,
                    po_content = no_content normalized\<rparr>))"

end
