(* ===== verification/Outbound_Text_Laws.thy ===== *)
theory Outbound_Text_Laws
  imports Outbound_Text
begin

text \<open>
  What preparing a message guarantees: the HTML rendered for Telegram is well formed whatever the text, escaping is
  undone by the plain-text rendering, blank lines are collapsed and nothing else is, and a prepared body is one
  the channel's contract lists.
\<close>

section \<open>Well-formed HTML\<close>

text \<open>The grammar of the HTML that Telegram accepts: text with the four special characters escaped, and nested elements.\<close>

definition special :: "char \<Rightarrow> bool" where
  "special c \<longleftrightarrow> c \<in> {CHR ''<'', CHR ''>'', CHR ''&'', CHR 0x22}"

definition entities :: "string list" where
  "entities = map fst html_entities"

inductive escaped :: "string \<Rightarrow> bool" where
  escaped_nil: "escaped []"
| escaped_char: "\<not> special c \<Longrightarrow> escaped s \<Longrightarrow> escaped (c # s)"
| escaped_entity: "List.member entities e \<Longrightarrow> escaped s \<Longrightarrow> escaped (e @ s)"

inductive html :: "string \<Rightarrow> bool" where
  html_text: "escaped s \<Longrightarrow> html s"
| html_element: "List.member [''b'', ''s'', ''i'', ''code'', ''pre''] t \<Longrightarrow> html inner \<Longrightarrow> html (element t inner)"
| html_anchor: "escaped href \<Longrightarrow> html inner \<Longrightarrow> html (anchor href inner)"
| html_append: "html s \<Longrightarrow> html u \<Longrightarrow> html (s @ u)"

lemma escaped_append: "escaped s \<Longrightarrow> escaped u \<Longrightarrow> escaped (s @ u)"
  by (induction rule: escaped.induct) (auto intro: escaped.intros)

lemma escaped_plain: "\<forall>c \<in> set s. \<not> special c \<Longrightarrow> escaped s"
  by (induction s) (auto intro: escaped.intros)

lemma html_plain: "\<forall>c \<in> set s. \<not> special c \<Longrightarrow> html s"
  by (rule html_text [OF escaped_plain])

lemma html_char: "\<not> special c \<Longrightarrow> html s \<Longrightarrow> html (c # s)"
  using html_append [OF html_plain, of "[c]" s] by simp

lemma html_nil: "html []"
  by (rule html_plain) simp

lemma first_char_cases:
  obtains (empty) "s = []" | (ascii) c where "first_char s = [c]" "s \<noteq> []"
  | (wide) "\<forall>c \<in> set (first_char s). 128 \<le> (of_char c :: nat)" "s \<noteq> []"
proof (cases s)
  case (Cons c cs)
  show ?thesis
  proof (cases "(of_char c :: nat) < 128")
    case True
    then show ?thesis using ascii Cons by simp
  next
    case False
    have "128 \<le> (of_char d :: nat)" if "d \<in> set (takeWhile is_continuation cs)" for d
      using set_takeWhileD [OF that] by (simp add: is_continuation_def)
    then show ?thesis using wide Cons False by auto
  qed
qed (use empty in simp)

lemma special_small: "special c \<Longrightarrow> (of_char c :: nat) < 128"
  by (auto simp: special_def)

lemma escaped_first_char: "escaped (escaped_html_char (first_char s))"
proof (cases s rule: first_char_cases)
  case (ascii c)
  have "escaped (e @ [])" if "List.member entities e" for e by (rule escaped_entity [OF that escaped_nil])
  then have e: "escaped e" if "List.member entities e" for e using that by simp
  show ?thesis
  proof (cases "special c")
    case True
    then show ?thesis using ascii
      by (auto simp: escaped_html_char_def special_def entities_def html_entities_def intro: e)
  next
    case False
    then have "escaped [c]" by (intro escaped_plain) simp
    then show ?thesis using ascii False by (simp add: escaped_html_char_def special_def)
  qed
next
  case wide
  have n: "\<not> special c" if "c \<in> set (first_char s)" for c using wide(1) special_small that by fastforce
  have "first_char s \<noteq> [c]" if "special c" for c using n that by fastforce
  then have "escaped_html_char (first_char s) = first_char s" by (simp add: escaped_html_char_def special_def)
  then show ?thesis using n escaped_plain by simp
qed (auto simp: escaped_html_char_def escaped_nil)

lemma escaped_escape: "escaped (escape_html_text s)"
proof (induction s rule: escape_html_text.induct)
  case (1 s)
  then show ?case
    by (subst escape_html_text.simps) (auto intro: escaped_append escaped_first_char escaped_nil)
qed

lemma html_inline: "html (render_inline_html s)"
proof (induction s rule: render_inline_html.induct)
  case (1 s)
  have a: "html (escape_html_text x)" for x by (rule html_text [OF escaped_escape])
  have f: "html (escaped_html_char (first_char s))" by (rule html_text [OF escaped_first_char])
  show ?case
  proof (cases "s = []")
    case True
    then show ?thesis by (simp add: render_inline_html.simps html_nil)
  next
    case False
    note r = False render_inline_html.simps [of s]
    show ?thesis
    proof (cases "consume_mark s")
      case None
      then show ?thesis using 1(1) [OF False None] r f by (simp add: html_append)
    next
      case (Some p)
      obtain n m where p: "p = (n, m)" by (cases p)
      show ?thesis
      proof (cases m)
        case (ImageMark l u)
        then show ?thesis using 1(2) [OF False Some p [symmetric] ImageMark] r Some p
          by (simp add: html_append html_char special_def a)
      next
        case (LinkMark l u)
        then show ?thesis using 1(3-4) [OF False Some p [symmetric] LinkMark] r Some p
          by (simp add: html_append html_anchor escape_html_attr_def escaped_escape)
      next
        case (CodeMark i)
        then show ?thesis using 1(5) [OF False Some p [symmetric] CodeMark] r Some p
          by (simp add: html_append html_element a)
      next
        case (StrongMark i)
        then show ?thesis using 1(6-7) [OF False Some p [symmetric] StrongMark] r Some p
          by (simp add: html_append html_element a)
      next
        case (StrikeMark i)
        then show ?thesis using 1(8-9) [OF False Some p [symmetric] StrikeMark] r Some p
          by (simp add: html_append html_element a)
      next
        case (EmphasisMark i)
        then show ?thesis using 1(10-11) [OF False Some p [symmetric] EmphasisMark] r Some p
          by (simp add: html_append html_element a)
      qed
    qed
  qed
qed

lemma heading_line: "html (element ''b'' (render_inline_html s))"
  by (rule html_element) (simp_all add: html_inline)

lemma html_line_ok: "html (html_line s)"
proof -
  have d: "\<forall>c \<in> set digits. \<not> special c" if "ordered_list_text s = Some (digits, rest)" for digits rest
    using that by (auto simp: ordered_list_text_def Let_def takeWhile_eq_take [symmetric] special_def is_digit_def
        split: if_splits dest: set_takeWhileD)
  have "html (''&gt; '' @ x)" if "html x" for x
    using html_append [OF html_append [OF html_text [OF escaped_entity [OF _ escaped_nil]], of "''&gt;''" "'' ''"]] that html_plain
    by (force simp: entities_def html_entities_def special_def)
  moreover have "html (bullet @ x)" if "html x" for x
    by (rule html_append [OF html_plain that]) (auto simp: bullet_def special_def)
  moreover have "html (digits @ ''. '' @ x)" if "ordered_list_text s = Some (digits, rest)" "html x" for digits rest x
    by (rule html_append [OF html_plain [OF d [OF that(1)]] html_append [OF html_plain that(2)]])
      (simp add: special_def)
  ultimately show ?thesis
    by (auto simp: html_line_def html_inline heading_line split: option.split)
qed

lemma html_pre: "html (pre_block ls)"
  unfolding pre_block_def by (rule html_element) (simp_all add: html_text escaped_escape)

lemma html_lines_ok: "l \<in> set (html_lines b code raws) \<Longrightarrow> html l"
  by (induction b code raws rule: html_lines.induct)
    (auto simp: Let_def html_pre html_nil html_line_ok split: if_splits)

lemma html_join: "\<forall>l \<in> set ls. html l \<Longrightarrow> html (join_newline ls)"
proof (induction "[CHR 0x0A]" ls rule: join_lines_with.induct)
  case 1
  then show ?case by (simp add: html_nil)
next
  case (3 l v va)
  then show ?case by (simp add: html_append html_char special_def)
qed simp

lemma collapse_runs_subset: "set (collapse_runs b ls) \<subseteq> set ls"
  by (induction b ls rule: collapse_runs.induct) auto

lemma collapse_subset: "l \<in> set (collapse_blank_lines ls) \<Longrightarrow> l \<in> set ls"
  using collapse_runs_subset [of False ls]
  by (auto simp: collapse_blank_lines_def Let_def dest!: set_dropWhileD)

text \<open>
  C18: whatever text an agent writes, what the renderer for Telegram makes of it is well formed HTML. Every tag that is
  opened is closed in order, the only tags are those of the renderer, and each special character of the text is escaped,
  in the targets of the links as well. It is a statement about the rendered text as a whole: the sender may still cut a
  long one into pieces that are not well formed, and bodies that are HTML already do not pass the renderer.
\<close>
theorem telegram_html_wellformed: "html (render_markdownish_to_telegram_html s)"
  unfolding render_markdownish_to_telegram_html_def
  by (rule html_join) (use collapse_subset html_lines_ok in blast)

section \<open>Escaping and reading back\<close>

lemma scan_nil: "html_scan in_tag nl out [] = out"
  by (subst html_scan.simps) simp

lemma scan_plain:
  assumes "\<not> special c"
  shows "html_scan False nl out (c # t) = html_scan False nl (out @ first_char (c # t)) (drop (length (first_char (c # t))) (c # t))"
  using assms by (subst html_scan.simps) (auto simp: special_def html_entities_def split: option.split)

lemma scan_entity:
  "html_scan False False out (''&amp;'' @ t) = html_scan False False (out @ ''&'') t"
  "html_scan False False out (''&lt;'' @ t) = html_scan False False (out @ ''<'') t"
  "html_scan False False out (''&gt;'' @ t) = html_scan False False (out @ ''>'') t"
  "html_scan False False out (''&quot;'' @ t) = html_scan False False (out @ [CHR 0x22]) t"
  by (subst html_scan.simps; simp add: html_entities_def)+

lemma rest_of_char: "s = c # cs \<Longrightarrow> drop (length (first_char s)) s = (if (of_char c :: nat) < 128 then cs else dropWhile is_continuation cs)"
  by (simp add: dropWhile_eq_drop)

lemma escaped_not_continued:
  assumes "\<forall>c cs. s = c # cs \<longrightarrow> \<not> is_continuation c"
  shows "takeWhile is_continuation (escape_html_text s @ t) = takeWhile is_continuation (if s = [] then t else [])"
proof (cases s)
  case (Cons c cs)
  have "\<exists>d ds. escaped_html_char (first_char (c # cs)) = d # ds \<and> \<not> is_continuation d"
    using assms Cons by (auto simp: escaped_html_char_def is_continuation_def)
  then show ?thesis using Cons by (subst escape_html_text.simps) auto
qed (simp add: escape_html_text.simps)

lemma scan_escaped: "html_scan False False out (escape_html_text s) = out @ s"
proof (induction s arbitrary: out rule: escape_html_text.induct)
  case (1 s)
  show ?case
  proof (cases s)
    case (Cons c cs)
    let ?f = "first_char s" and ?u = "drop (length (first_char s)) s"
    have ih: "html_scan False False x (escape_html_text ?u) = x @ ?u" for x using 1 Cons by blast
    have e: "escape_html_text s = escaped_html_char ?f @ escape_html_text ?u" by (subst escape_html_text.simps) (use Cons in simp)
    have j: "?f @ ?u = s" using Cons by (simp add: dropWhile_eq_drop [symmetric])
    show ?thesis
    proof (cases "special c")
      case True
      then have f: "?f = [c]" using Cons special_small by auto
      have "html_scan False False out (escaped_html_char ?f @ t) = html_scan False False (out @ ?f) t" for t
        using True unfolding f by (auto simp: special_def escaped_html_char_def scan_entity [simplified])
      then show ?thesis using e ih j by simp
    next
      case False
      then have k: "escaped_html_char ?f = ?f" using Cons by (auto simp: escaped_html_char_def special_def)
      have "\<forall>d ds. dropWhile is_continuation cs = d # ds \<longrightarrow> \<not> is_continuation d"
        by (metis hd_dropWhile list.discI list.sel(1))
      then have "takeWhile is_continuation (escape_html_text (dropWhile is_continuation cs)) = []"
        using escaped_not_continued [of "dropWhile is_continuation cs" "[]"] by simp
      then have "first_char (?f @ escape_html_text ?u) = ?f"
        using rest_of_char [OF Cons] Cons by (auto simp: takeWhile_append)
      moreover have "?f @ escape_html_text ?u = c # tl (?f @ escape_html_text ?u)" using Cons by simp
      ultimately have "html_scan False False out (?f @ escape_html_text ?u) = html_scan False False (out @ ?f) (escape_html_text ?u)"
        using scan_plain [OF False, of False out "tl (?f @ escape_html_text ?u)"] by (metis append_eq_conv_conj)
      then show ?thesis using e k ih j by simp
    qed
  qed (simp add: escape_html_text.simps scan_nil)
qed

text \<open>
  Escaping is undone by reading back. Rendering as plain text the escaped form of any text gives the lines
  of that text, with white space cut at their ends and blank lines collapsed, and no character of it is lost, doubled
  or taken for a tag.
\<close>
theorem html_escape_roundtrip:
  "render_html_to_plain_text (escape_html_text s) = join_newline (collapse_blank_lines (map trim_end (lines_of s)))"
  by (simp add: render_html_to_plain_text_def scan_escaped)

section \<open>Blank lines\<close>

lemma collapse_runs_kept: "filter (\<lambda>l. \<not> blank l) (collapse_runs b ls) = filter (\<lambda>l. \<not> blank l) ls"
  by (induction b ls rule: collapse_runs.induct) auto

lemma collapse_runs_separated:
  "successively (\<lambda>l m. \<not> (blank l \<and> blank m)) (collapse_runs b ls) \<and>
   (b \<longrightarrow> collapse_runs b ls \<noteq> [] \<longrightarrow> \<not> blank (hd (collapse_runs b ls)))"
proof (induction b ls rule: collapse_runs.induct)
  case (2 b l ls)
  then show ?case
    by (cases "collapse_runs (blank l) ls") (auto simp: successively_Cons)
qed simp

lemma filter_dropWhile: "filter (\<lambda>l. \<not> P l) (dropWhile P ls) = filter (\<lambda>l. \<not> P l) ls"
  by (induction ls) auto

lemma filter_trailing: "filter (\<lambda>l. \<not> P l) (rev (dropWhile P (rev ls))) = filter (\<lambda>l. \<not> P l) ls"
  by (simp add: rev_filter [symmetric] filter_dropWhile)

lemma successively_drop: "successively P ls \<Longrightarrow> successively P (dropWhile Q ls)"
  by (metis successively_append_iff takeWhile_dropWhile_id)

lemma successively_trailing: "successively P ls \<Longrightarrow> successively P (rev (dropWhile Q (rev ls)))"
  by (metis dropWhile_eq_drop rev_drop rev_rev_ident successively_append_iff append_take_drop_id)

text \<open>
  Blank lines of a rendered message. Collapsing keeps the lines that are not blank, all of them and in their order;
  what is left has no two blank lines in a row, and neither starts nor ends with one.
\<close>
theorem blank_lines_collapsed:
  "filter (\<lambda>l. \<not> blank l) (collapse_blank_lines ls) = filter (\<lambda>l. \<not> blank l) ls \<and>
   successively (\<lambda>l m. \<not> (blank l \<and> blank m)) (collapse_blank_lines ls) \<and>
   (collapse_blank_lines ls = [] \<or> \<not> blank (hd (collapse_blank_lines ls)) \<and> \<not> blank (last (collapse_blank_lines ls)))"
proof (intro conjI)
  let ?d = "dropWhile blank (collapse_runs False ls)"
  have c: "collapse_blank_lines ls = rev (dropWhile blank (rev ?d))" by (simp add: collapse_blank_lines_def)
  show "filter (\<lambda>l. \<not> blank l) (collapse_blank_lines ls) = filter (\<lambda>l. \<not> blank l) ls"
    by (simp only: c filter_trailing filter_dropWhile collapse_runs_kept)
  show "successively (\<lambda>l m. \<not> (blank l \<and> blank m)) (collapse_blank_lines ls)"
    unfolding c using collapse_runs_separated by (blast intro: successively_trailing successively_drop)
  have h: "\<not> blank (hd ?d)" if "?d \<noteq> []" using hd_dropWhile [OF that] .
  have p: "suffix (dropWhile blank (rev ?d)) (rev ?d)" by (rule suffix_dropWhile)
  show "collapse_blank_lines ls = [] \<or> \<not> blank (hd (collapse_blank_lines ls)) \<and> \<not> blank (last (collapse_blank_lines ls))"
  proof (cases "dropWhile blank (rev ?d) = []")
    case False
    then have "\<not> blank (last (collapse_blank_lines ls))" unfolding c using hd_dropWhile [OF False] by (simp add: last_rev)
    moreover obtain zs where "rev ?d = zs @ dropWhile blank (rev ?d)" using p by (auto simp: suffix_def)
    then have "?d = rev (dropWhile blank (rev ?d)) @ rev zs" by (metis rev_append rev_rev_ident)
    then have "hd (collapse_blank_lines ls) = hd ?d" "?d \<noteq> []" unfolding c using False by (metis hd_append2 rev_is_Nil_conv, force)
    ultimately show ?thesis using h by simp
  qed (simp add: c)
qed

section \<open>Only what the contract lists\<close>

definition deliverable :: "ChannelCapabilityEntry \<Rightarrow> 'json CanonicalMessageBody \<Rightarrow> bool" where
  "deliverable entry body \<longleftrightarrow>
     supports_body_kind entry (body_kind_of body) \<and>
     (case body of
        BodyText t \<Rightarrow> supports_text_format entry (tb_format t)
      | BodyCard c \<Rightarrow> (ca_id entry = ''feishu'' \<longrightarrow> cb_format c \<in> {Interactive, RichPost}) \<and>
          (ca_id entry = ''qq_channel'' \<longrightarrow> cb_format c \<in> {Ark, Embed})
      | _ \<Rightarrow> True)"

definition lists_plain_text :: "ChannelCapabilityEntry \<Rightarrow> bool" where
  "lists_plain_text entry \<longleftrightarrow> supports_body_kind entry KindText \<and> supports_text_format entry FormatPlain \<and>
     (ca_id entry = ''feishu'' \<longrightarrow> supports_body_kind entry KindCard)"

lemmas contract_tables =
  telegram_contract_def feishu_contract_def dingtalk_contract_def wecom_contract_def qq_contract_def
  websocket_contract_def voice_contract_def BODY_KINDS_TEXT_ONLY_def BODY_KINDS_TELEGRAM_def BODY_KINDS_FEISHU_def
  BODY_KINDS_DINGTALK_def BODY_KINDS_WECOM_def BODY_KINDS_QQ_def TEXT_FORMATS_PLAIN_ONLY_def
  TEXT_FORMATS_TELEGRAM_def TEXT_FORMATS_FEISHU_def TEXT_FORMATS_DINGTALK_def TEXT_FORMATS_WECOM_def TEXT_FORMATS_QQ_def

lemma contract_lists_plain_text:
  assumes "static_channel_capability_contract b c = Some k"
  shows "List.member (cc_supported_body_kinds k) KindText \<and> List.member (cc_supported_text_formats k) FormatPlain \<and>
     (c = ''feishu'' \<longrightarrow> List.member (cc_supported_body_kinds k) KindCard)"
  using assms by (auto simp: static_channel_capability_contract_def contract_tables split: if_splits)

lemma registry_lists_plain_text:
  assumes "registry_get (build_channel_capability_registry b config voice) channel = Some entry"
  shows "lists_plain_text entry"
proof -
  have "channel \<in> ce_id ` set (compiled_channel_entries b)" "ca_id entry = channel"
    "ca_contract entry = the (static_channel_capability_contract b channel)"
    using assms by (auto simp: registry_domain split: if_splits)
  moreover from this obtain k where "static_channel_capability_contract b channel = Some k"
    using compiled_has_contract by blast
  ultimately show ?thesis using contract_lists_plain_text [of b channel]
    by (simp add: lists_plain_text_def supports_body_kind_def supports_text_format_def)
qed

lemma deliverable_plain: "lists_plain_text entry \<Longrightarrow> deliverable entry (no_body (plain_body s))"
  by (simp add: deliverable_def plain_body_def lists_plain_text_def text_body_plain_def)

lemma deliverable_formatted:
  "lists_plain_text entry \<Longrightarrow> supports_text_format entry f \<Longrightarrow> deliverable entry (no_body (formatted_body f s content))"
  by (simp add: deliverable_def formatted_body_def lists_plain_text_def)

lemma deliverable_rich_post:
  "lists_plain_text entry \<Longrightarrow> ca_id entry = ''feishu'' \<Longrightarrow> deliverable entry (no_body (rich_post_body rich_post s))"
  by (simp add: deliverable_def rich_post_body_def build_feishu_rich_post_body_def lists_plain_text_def Let_def)

lemmas deliverable_cases = deliverable_plain deliverable_formatted deliverable_rich_post

lemma deliverable_text: "lists_plain_text entry \<Longrightarrow> deliverable entry (no_body (normalize_text_body_for_channel rich_post entry t content))"
  by (simp add: normalize_text_body_for_channel_def normalize_rich_text_for_channel_def deliverable_cases Let_def
      split: TextFormat.split)

lemma deliverable_card:
  assumes "lists_plain_text entry" "supports_body_kind entry KindCard"
  shows "deliverable entry (no_body (normalize_card_body_for_channel entry cbody))"
proof -
  have "deliverable entry (no_body (plain_body (fallback_plain_text_for_body (BodyCard cbody))))"
    by (rule deliverable_plain [OF assms(1)])
  moreover have "deliverable entry (BodyCard cbody) \<longleftrightarrow>
      (ca_id entry = ''feishu'' \<longrightarrow> cb_format cbody \<in> {Interactive, RichPost}) \<and>
      (ca_id entry = ''qq_channel'' \<longrightarrow> cb_format cbody \<in> {Ark, Embed})"
    using assms(2) by (simp add: deliverable_def)
  ultimately show ?thesis by (auto simp: normalize_card_body_for_channel_def Let_def)
qed

lemma deliverable_body:
  assumes "lists_plain_text entry"
  shows "deliverable entry (no_body (normalize_body_for_channel rich_post entry body content))"
proof (cases "supports_body_kind entry (body_kind_of body)")
  case True
  then show ?thesis
    using assms deliverable_text [OF assms] deliverable_card [OF assms]
    by (cases body) (simp_all add: normalize_body_for_channel_def, simp_all add: deliverable_def)
qed (simp add: normalize_body_for_channel_def assms deliverable_plain)

text \<open>
  What a channel is handed. For every enabled channel of the registry, and every message but a reaction meant for the
  platform itself, the prepared body is of a kind that the channel's contract lists; a text is in a format that it
  lists, a card for Feishu is an interactive one or a rich post, and one for QQ an ark or an embed. The content passed on
  is the content of the prepared message, and the rest of the message is untouched.
\<close>
theorem prepared_is_supported:
  assumes "registry_get (build_channel_capability_registry b config voice) channel = Some entry" "ca_enabled entry"
    "\<not> should_preserve_platform_native_supplemental entry msg"
    "prepare_outbound_message_for_channel rich_post msg (Some entry) = prepared"
  shows "deliverable entry (pm_body (po_msg prepared)) \<and> pm_content (po_msg prepared) = po_content prepared \<and>
     (po_msg prepared)\<lparr>pm_body := pm_body msg, pm_content := pm_content msg\<rparr> = msg"
  using assms(2-4) registry_lists_plain_text [OF assms(1)]
  by (auto simp: prepare_outbound_message_for_channel_def Let_def deliverable_body)

text \<open>A card for Telegram, which takes no cards: it is sent as plain text.\<close>

definition card_message :: "string PcMsg" where
  "card_message =
     \<lparr>pm_channel = ''telegram'', pm_chat_id = ''1'', pm_content = ''hi'',
      pm_body = BodyCard \<lparr>cb_format = Interactive, cb_payload_json = ''{}'', cb_fallback_text = ''hi''\<rparr>,
      pm_platform_thread_id = [], pm_req_id = None, pm_outbound_kind = Primary, pm_ingress = IngressUser,
      pm_enqueue_ts_ms = 0, pm_source_transport = TransportPoll, pm_platform_message_id = [],
      pm_platform_event_id = [], pm_inbound_dedup_key = [], pm_is_group = False\<rparr>"

theorem prepared_is_supported_witness:
  "\<exists>entry. registry_get (build_channel_capability_registry two_channel_build telegram_settings False) ''telegram'' = Some entry
     \<and> \<not> supports_body_kind entry (body_kind_of (pm_body card_message))
     \<and> deliverable entry (pm_body (po_msg (prepare_outbound_message_for_channel (\<lambda>t ps. t) card_message (Some entry))))"
proof -
  have "trim ''t'' = ''t''" by (simp add: trim_graphic graphic_def)
  then obtain entry where e: "registry_get (build_channel_capability_registry two_channel_build telegram_settings False) ''telegram'' = Some entry"
    "ca_enabled entry" "ca_contract entry = telegram_contract"
    unfolding registry_domain
    by (simp add: two_channel_build_def telegram_settings_def compiled_channel_entries_def channel_entry_def
        channel_is_enabled_def channel_is_configured_def given_def normalize_compiled_enabled_channel_def
        compiled_enabled_channel_ids_def static_channel_capability_contract_def)
  have "\<not> should_preserve_platform_native_supplemental entry card_message"
    by (simp add: should_preserve_platform_native_supplemental_def card_message_def)
  then have "deliverable entry (pm_body (po_msg (prepare_outbound_message_for_channel (\<lambda>t ps. t) card_message (Some entry))))"
    using prepared_is_supported [OF e(1,2)] by blast
  moreover have "\<not> supports_body_kind entry (body_kind_of (pm_body card_message))"
    by (simp add: supports_body_kind_def e(3) telegram_contract_def BODY_KINDS_TELEGRAM_def card_message_def)
  ultimately show ?thesis using e(1) by blast
qed

end
