(* ===== verification/Chunk.thy ===== *)
theory Chunk
  imports Outbound_Text
begin

text \<open>
  Cutting a long reply into messages (\<open>src/src/channels/chunk.rs\<close>): at paragraphs, then at lines, then between
  characters. No chunk is longer than the limit, and the chunks carry the text, of which only white space is lost.
\<close>

section \<open>Characters\<close>

text \<open>\<open>chars().count()\<close>: the bytes that do not continue a character. \<open>split\<close> by a non-empty text.\<close>

definition char_count :: "string \<Rightarrow> nat" where
  "char_count s = length (filter (\<lambda>c. \<not> is_continuation c) s)"

function split_sub :: "string \<Rightarrow> string \<Rightarrow> string list" where
  "split_sub sep s =
     (if sep = [] then [s]
      else case find_sub sep s of
        None \<Rightarrow> [s]
      | Some i \<Rightarrow> take i s # split_sub sep (drop (i + length sep) s))"
  by pat_completeness auto
termination
proof (relation "measure (\<lambda>(sep, s). length s)")
  fix sep s :: string and i
  assume "sep \<noteq> []" "find_sub sep s = Some i"
  then show "((sep, drop (i + length sep) s), sep, s) \<in> measure (\<lambda>(sep, s). length s)"
    using find_sub_bound [of sep s i] by (cases sep) auto
qed simp

declare split_sub.simps [simp del]

section \<open>Chunks\<close>

lemma take_chars_nonempty: "0 < n \<Longrightarrow> s \<noteq> [] \<Longrightarrow> take_chars n s \<noteq> []"
  using first_char_length [of s] by (cases n) auto

lemma take_chars_shorter: "0 < n \<Longrightarrow> s \<noteq> [] \<Longrightarrow> length s - length (take_chars n s) < length s"
  using take_chars_nonempty [of n s] by (simp add: diff_less)

(* channels/chunk.rs: fn chunk_str_by_char_count_iter *)
function chunk_str_by_char_count :: "nat \<Rightarrow> string \<Rightarrow> string list" where
  "chunk_str_by_char_count max_chars s =
     (if max_chars = 0 \<or> s = [] then []
      else take_chars max_chars s # chunk_str_by_char_count max_chars (drop (length (take_chars max_chars s)) s))"
  by pat_completeness auto
termination
  by (relation "measure (\<lambda>(n, s). length s)") (simp_all add: take_chars_shorter)

declare chunk_str_by_char_count.simps [simp del]

text \<open>
  Both loops keep the chunks that are complete and the one that is being filled. A block that still
  fits is appended to it; otherwise it is closed, and the block starts the next one or, when it is too long
  by itself, is cut by \<open>cut\<close>.
\<close>

type_synonym filling = "string list \<times> string"

definition joined :: "string \<Rightarrow> string \<Rightarrow> string \<Rightarrow> string" where
  "joined sep current block = (if current = [] then block else current @ sep @ block)"

definition joined_count :: "string \<Rightarrow> string \<Rightarrow> string \<Rightarrow> nat" where
  "joined_count sep current block =
     (if current = [] then char_count block else char_count current + char_count sep + char_count block)"

definition close_current :: "filling \<Rightarrow> string list" where
  "close_current f = (case f of (chunks, current) \<Rightarrow> if current = [] then chunks else chunks @ [current])"

(* channels/chunk.rs: lines 105-134 a line of append_long_char_block *)
definition append_line :: "nat \<Rightarrow> string \<Rightarrow> filling \<Rightarrow> filling" where
  "append_line max_chars raw f =
     (case f of (chunks, current) \<Rightarrow>
        let line = trim_end raw
        in if line = [] then (chunks, current)
           else if joined_count [CHR 0x0A] current line \<le> max_chars then (chunks, joined [CHR 0x0A] current line)
           else let closed = close_current (chunks, current)
                in if char_count line \<le> max_chars then (closed, line)
                   else (closed @ chunk_str_by_char_count max_chars line, []))"

(* channels/chunk.rs: fn append_long_char_block *)
definition append_long_char_block :: "nat \<Rightarrow> string \<Rightarrow> string list \<Rightarrow> string list" where
  "append_long_char_block max_chars block chunks =
     close_current (fold (append_line max_chars) (split_on (CHR 0x0A) block) (chunks, []))"

(* channels/chunk.rs: fn append_char_block *)
definition append_char_block :: "nat \<Rightarrow> string \<Rightarrow> string \<Rightarrow> filling \<Rightarrow> filling" where
  "append_char_block max_chars sep block f =
     (case f of (chunks, current) \<Rightarrow>
        if joined_count sep current block \<le> max_chars then (chunks, joined sep current block)
        else let closed = close_current (chunks, current)
             in if char_count block \<le> max_chars then (closed, block)
                else (append_long_char_block max_chars block closed, []))"

(* channels/chunk.rs: lines 59-65 a paragraph of chunk_text_by_char_count_with_separator *)
definition append_paragraph :: "nat \<Rightarrow> string \<Rightarrow> string \<Rightarrow> filling \<Rightarrow> filling" where
  "append_paragraph max_chars sep raw f =
     (let paragraph = trim raw in if paragraph = [] then f else append_char_block max_chars sep paragraph f)"

(* channels/chunk.rs: fn chunk_text_by_char_count_with_separator *)
definition chunk_text_by_char_count_with_separator :: "string \<Rightarrow> nat \<Rightarrow> string \<Rightarrow> string list" where
  "chunk_text_by_char_count_with_separator s max_chars sep =
     (if max_chars = 0 then []
      else let trimmed = trim s
           in if trimmed = [] then []
              else close_current (fold (append_paragraph max_chars sep) (split_sub sep trimmed) ([], [])))"

(* channels/chunk.rs: fn chunk_text_by_char_count *)
definition chunk_text_by_char_count :: "string \<Rightarrow> nat \<Rightarrow> string list" where
  "chunk_text_by_char_count s max_chars = chunk_text_by_char_count_with_separator s max_chars [CHR 0x0A, CHR 0x0A]"

section \<open>The length of a chunk\<close>

lemma char_count_append [simp]: "char_count (a @ b) = char_count a + char_count b"
  by (simp add: char_count_def)

lemma char_count_nil [simp]: "char_count [] = 0"
  by (simp add: char_count_def)

lemma first_char_count: "char_count (first_char s) \<le> 1"
proof (cases s)
  case (Cons c cs)
  have "filter (\<lambda>c. \<not> is_continuation c) (takeWhile is_continuation cs) = []"
    by (auto simp: filter_empty_conv dest: set_takeWhileD)
  then show ?thesis using Cons by (simp add: char_count_def)
qed simp

lemma take_chars_count: "char_count (take_chars n s) \<le> n"
proof (induction n s rule: take_chars.induct)
  case (2 n s)
  then show ?case using first_char_count [of s] by auto
qed simp

definition chunk_ok :: "nat \<Rightarrow> string \<Rightarrow> bool" where
  "chunk_ok n c \<longleftrightarrow> c \<noteq> [] \<and> char_count c \<le> n"

definition filling_ok :: "nat \<Rightarrow> filling \<Rightarrow> bool" where
  "filling_ok n f \<longleftrightarrow> list_all (chunk_ok n) (fst f) \<and> char_count (snd f) \<le> n"

lemma pieces_ok: "list_all (chunk_ok n) (chunk_str_by_char_count n s)"
proof (induction n s rule: chunk_str_by_char_count.induct)
  case (1 n s)
  show ?case
  proof (cases "n = 0 \<or> s = []")
    case False
    then have "chunk_ok n (take_chars n s)" using take_chars_nonempty [of n s] by (simp add: chunk_ok_def take_chars_count)
    then show ?thesis using 1 [OF False] False by (simp add: chunk_str_by_char_count.simps [of n s])
  qed (simp add: chunk_str_by_char_count.simps [of n s])
qed

lemma joined_count_eq: "joined_count sep current block = char_count (joined sep current block)"
  by (simp add: joined_count_def joined_def)

lemma close_ok: "filling_ok n f \<Longrightarrow> list_all (chunk_ok n) (close_current f)"
  by (cases f) (auto simp: filling_ok_def close_current_def chunk_ok_def)

text \<open>A step that keeps the bound keeps it over all the blocks of a text; both loops are instances.\<close>

locale chunker =
  fixes limit :: nat
    and step :: "string \<Rightarrow> filling \<Rightarrow> filling"
  assumes step_ok: "filling_ok limit f \<Longrightarrow> filling_ok limit (step raw f)"
begin

lemma fold_ok: "filling_ok limit f \<Longrightarrow> filling_ok limit (fold step ls f)"
  by (induction ls arbitrary: f) (simp_all add: step_ok)

lemma chunks_ok: "list_all (chunk_ok limit) chunks \<Longrightarrow> list_all (chunk_ok limit) (close_current (fold step ls (chunks, [])))"
  by (intro close_ok fold_ok) (simp add: filling_ok_def)

end

interpretation lines: chunker n "append_line n" for n
proof unfold_locales
  fix f raw
  assume "filling_ok n f"
  then show "filling_ok n (append_line n raw f)"
    using close_ok [of n f] pieces_ok
    by (cases f) (auto simp: append_line_def joined_count_eq filling_ok_def Let_def)
qed

interpretation paragraphs: chunker n "append_paragraph n sep" for n sep
proof unfold_locales
  fix f raw
  assume "filling_ok n f"
  then show "filling_ok n (append_paragraph n sep raw f)"
    using close_ok [of n f] lines.chunks_ok [of n]
    by (cases f) (auto simp: append_paragraph_def append_char_block_def append_long_char_block_def joined_count_eq
        filling_ok_def Let_def)
qed

text \<open>
  C22: the bound of a chunk. Whatever the text and the limit, every chunk has at most that many characters and none is
  empty; a line, a word or a character that is too long for the limit is cut, never sent over it.
\<close>
theorem chunks_bounded: "c \<in> set (chunk_text_by_char_count s n) \<Longrightarrow> c \<noteq> [] \<and> char_count c \<le> n"
  using paragraphs.chunks_ok [of n "[]" "[CHR 0x0A, CHR 0x0A]"]
  by (auto simp: chunk_text_by_char_count_def chunk_text_by_char_count_with_separator_def Let_def list_all_iff chunk_ok_def
      split: if_splits)

text \<open>Two characters against a limit of one.\<close>

lemma two_pieces: "chunk_text_by_char_count ''ab'' (Suc 0) = [''a'', ''b'']"
proof -
  have t: "trim ''ab'' = ''ab''" "trim_end ''ab'' = ''ab''"
    by (simp_all add: trim_graphic graphic_def trim_end.simps [of "''ab''"] trailing_def whitespace_def suffix_def)
  have f: "find_sub [CHR 0x0A, CHR 0x0A] ''ab'' = None"
    by (simp add: find_sub.simps [of "_" "''ab''"] find_sub.simps [of "_" "''b''"] find_sub.simps [of "_" "[]"])
  have p: "chunk_str_by_char_count (Suc 0) ''ab'' = [''a'', ''b'']"
    by (simp add: chunk_str_by_char_count.simps [of "Suc 0" "''ab''"] chunk_str_by_char_count.simps [of "Suc 0" "''b''"]
        chunk_str_by_char_count.simps [of "Suc 0" "[]"])
  have c: "char_count ''ab'' = 2" by (simp add: char_count_def is_continuation_def)
  have "append_paragraph (Suc 0) [CHR 0x0A, CHR 0x0A] ''ab'' ([], []) = ([''a'', ''b''], [])"
    by (simp add: append_paragraph_def t append_char_block_def append_long_char_block_def append_line_def joined_count_def
        close_current_def c p)
  then show ?thesis
    by (simp add: chunk_text_by_char_count_def chunk_text_by_char_count_with_separator_def t f close_current_def
        split_sub.simps [of "_" "''ab''"])
qed

theorem chunks_bounded_witness: "''b'' \<in> set (chunk_text_by_char_count ''ab'' (Suc 0)) \<and> char_count ''b'' \<le> Suc 0"
proof -
  have "''b'' \<in> set (chunk_text_by_char_count ''ab'' (Suc 0))" by (simp add: two_pieces)
  then show ?thesis using chunks_bounded by blast
qed

section \<open>The text of the chunks\<close>

text \<open>Two texts that differ in white space only: they are the same once some of their white space is deleted.\<close>

inductive respaced :: "string \<Rightarrow> string \<Rightarrow> bool" where
  respaced_nil: "respaced [] []"
| respaced_char: "respaced s t \<Longrightarrow> respaced (c # s) (c # t)"
| respaced_left: "List.member whitespace w \<Longrightarrow> respaced s t \<Longrightarrow> respaced (w @ s) t"
| respaced_right: "List.member whitespace w \<Longrightarrow> respaced s t \<Longrightarrow> respaced s (w @ t)"

lemma respaced_refl: "respaced s s"
  by (induction s) (auto intro: respaced.intros)

lemma respaced_append: "respaced a b \<Longrightarrow> respaced s t \<Longrightarrow> respaced (a @ s) (b @ t)"
proof (induction rule: respaced.induct)
  case (respaced_left w a b)
  then show ?case using respaced.respaced_left [of w "a @ s" "b @ t"] by simp
next
  case (respaced_right w a b)
  then show ?case using respaced.respaced_right [of w "a @ s" "b @ t"] by simp
qed (auto intro: respaced.intros)

definition spaces :: "string \<Rightarrow> bool" where
  "spaces w \<longleftrightarrow> respaced w []"

lemma respaced_sym: "respaced s t \<Longrightarrow> respaced t s"
  by (induction rule: respaced.induct) (auto intro: respaced.intros)

lemma spaces_member: "List.member whitespace w \<Longrightarrow> spaces w"
  unfolding spaces_def using respaced_left [OF _ respaced_nil, of w] by simp

lemma trim_end_spaces: "\<exists>w. s = trim_end s @ w \<and> spaces w"
proof (induction s rule: trim_end.induct)
  case (1 s)
  show ?case
  proof (cases "trailing s")
    case None
    then show ?thesis by (auto simp: trim_end.simps [of s] spaces_def respaced_nil)
  next
    case (Some w)
    let ?t = "take (length s - length w) s"
    obtain v where v: "?t = trim_end ?t @ v" "spaces v" using 1 [OF Some] by blast
    have w: "w \<in> set whitespace" "s = ?t @ w" using trailing_SomeD [OF Some] by (auto simp: suffix_def)
    then have "s = trim_end s @ (v @ w)" using v(1) Some by (simp add: trim_end.simps [of s]) (metis append_assoc)
    moreover have "spaces (v @ w)"
      using respaced_append [of v "[]" w "[]"] v(2) spaces_member [of w] w(1) by (simp add: spaces_def)
    ultimately show ?thesis by blast
  qed
qed

lemma trim_start_spaces: "\<exists>w. s = w @ trim_start s \<and> spaces w"
proof (induction s rule: trim_start.induct)
  case (1 s)
  show ?case
  proof (cases "leading s")
    case None
    then show ?thesis by (auto simp: trim_start.simps [of s] spaces_def respaced_nil)
  next
    case (Some w)
    let ?t = "drop (length w) s"
    obtain v where v: "?t = v @ trim_start ?t" "spaces v" using 1 [OF Some] by blast
    have w: "w \<in> set whitespace" "s = w @ ?t" using leading_SomeD [OF Some] by (auto simp: prefix_def)
    then have "s = (w @ v) @ trim_start s" using v(1) Some by (simp add: trim_start.simps [of s])
    moreover have "spaces (w @ v)"
      using respaced_append [of w "[]" v "[]"] v(2) spaces_member [of w] w(1) by (simp add: spaces_def)
    ultimately show ?thesis by blast
  qed
qed

lemma respaced_trim_trans:
  assumes "respaced (trim s) x"
  shows "respaced s x"
proof -
  obtain w where w: "s = w @ trim_start s" "spaces w" using trim_start_spaces by blast
  obtain v where v: "trim_start s = trim s @ v" "spaces v" using trim_end_spaces [of "trim_start s"] by (auto simp: trim_def)
  have "respaced (w @ trim s @ v) ([] @ x @ [])"
    using w(2) v(2) assms by (intro respaced_append) (simp_all add: spaces_def)
  then show ?thesis using w(1) v(1) by simp
qed

lemma respaced_trim_end: "respaced s (trim_end s)"
proof -
  obtain w where w: "s = trim_end s @ w" "spaces w" using trim_end_spaces by blast
  have "respaced (trim_end s @ w) (trim_end s @ [])"
    by (rule respaced_append [OF respaced_refl]) (use w(2) in \<open>simp add: spaces_def\<close>)
  then show ?thesis using w(1) by simp
qed

definition filled :: "filling \<Rightarrow> string" where
  "filled f = concat (fst f) @ snd f"

lemma concat_close: "concat (close_current f) = filled f"
  by (cases f) (simp add: close_current_def filled_def)

text \<open>A step that adds its block to the text, up to white space, adds them all.\<close>

locale text_chunker = chunker limit step
  for limit :: nat and step :: "string \<Rightarrow> filling \<Rightarrow> filling" +
  fixes sep :: string
  assumes sep_spaces: "spaces sep"
    and step_text: "\<exists>x. filled (step raw f) = filled f @ x \<and> respaced raw x"
begin

lemma fold_text: "\<exists>x. filled (fold step ls f) = filled f @ x \<and> respaced (join_lines_with sep ls) x"
proof (induction ls arbitrary: f rule: induct_list012)
  case 1
  then show ?case by (simp add: respaced_nil)
next
  case (2 l)
  then show ?case using step_text by simp
next
  case (3 l m ls)
  obtain x where x: "filled (step l f) = filled f @ x" "respaced l x" using step_text by blast
  obtain y where y: "filled (fold step (m # ls) (step l f)) = filled (step l f) @ y" "respaced (join_lines_with sep (m # ls)) y"
    using 3(2) by blast
  have "respaced (l @ sep @ join_lines_with sep (m # ls)) (x @ [] @ y)"
    using x(2) y(2) sep_spaces by (intro respaced_append) (simp_all add: spaces_def)
  then show ?case using x(1) y(1) by (intro exI [of _ "x @ y"]) simp
qed

lemma chunks_text: "\<exists>x. concat (close_current (fold step ls (chunks, []))) = concat chunks @ x \<and> respaced (join_lines_with sep ls) x"
  using fold_text [of ls "(chunks, [])"] by (simp add: concat_close filled_def)

end

lemma take_chars_prefix: "prefix (take_chars n s) s"
proof (induction n s rule: take_chars.induct)
  case (2 n s)
  have p: "prefix (first_char s) s" by (cases s) (auto simp: takeWhile_is_prefix)
  then have "s = first_char s @ drop (length (first_char s)) s" by (metis append_eq_conv_conj prefix_def)
  then show ?case using 2 by (cases "s = []") (simp_all, metis same_prefix_prefix)
qed simp

lemma concat_pieces: "0 < n \<Longrightarrow> concat (chunk_str_by_char_count n s) = s"
proof (induction n s rule: chunk_str_by_char_count.induct)
  case (1 n s)
  have "take_chars n s @ drop (length (take_chars n s)) s = s"
    using take_chars_prefix [of n s] by (metis append_eq_conv_conj prefix_def)
  then show ?case using 1 by (cases "s = []") (simp_all add: chunk_str_by_char_count.simps)
qed

lemma joined_text:
  assumes "spaces sep" "respaced raw block"
  shows "\<exists>x. joined sep current block = current @ x \<and> respaced raw x"
proof (cases "current = []")
  case False
  have "respaced ([] @ raw) (sep @ block)"
    using assms by (intro respaced_append respaced_sym [of sep]) (simp_all add: spaces_def)
  then show ?thesis using False by (auto simp: joined_def)
qed (use assms(2) in \<open>simp add: joined_def\<close>)

lemma spaces_newline: "spaces [CHR 0x0A]" "spaces [CHR 0x0A, CHR 0x0A]"
  using spaces_member [of "[CHR 0x0A]"] respaced_append [of "[CHR 0x0A]" "[]" "[CHR 0x0A]" "[]"]
  by (simp_all add: whitespace_def spaces_def)

lemma join_split_on: "join_lines_with [c] (split_on c s) = s"
proof (induction s)
  case (Cons x xs)
  then show ?case using split_on_nonempty [of c xs]
    by (cases "split_on c xs"; cases "tl (split_on c xs)") auto
qed simp

lemma find_sub_prefix: "find_sub p s = Some i \<Longrightarrow> prefix p (drop i s)"
proof (induction s arbitrary: i)
  case (Cons c cs)
  then show ?case by (subst (asm) (2) find_sub.simps) (auto split: if_splits)
qed (subst (asm) find_sub.simps, simp split: if_splits)

lemma split_sub_nonempty: "split_sub sep s \<noteq> []"
  by (simp add: split_sub.simps [of sep s] split: option.split)

lemma join_split_sub: "join_lines_with sep (split_sub sep s) = s"
proof (induction sep s rule: split_sub.induct)
  case (1 sep s)
  show ?case
  proof (cases "sep = [] \<or> find_sub sep s = None")
    case False
    then obtain i where i: "sep \<noteq> []" "find_sub sep s = Some i" by auto
    let ?rest = "drop (i + length sep) s"
    obtain p ps where ps: "split_sub sep ?rest = p # ps" using split_sub_nonempty by (meson list.exhaust)
    have "join_lines_with sep (split_sub sep s) = take i s @ sep @ ?rest"
      using 1 [OF i] i ps by (simp add: split_sub.simps [of sep s])
    moreover have "sep @ ?rest = drop i s"
      using find_sub_prefix [OF i(2)] by (metis add.commute append_eq_conv_conj drop_drop prefix_def)
    ultimately show ?thesis by simp
  qed (auto simp: split_sub.simps [of sep s])
qed

interpretation text_lines: text_chunker "Suc n" "append_line (Suc n)" "[CHR 0x0A]" for n
proof unfold_locales
  fix raw and f :: filling
  obtain chunks current where f: "f = (chunks, current)" by (cases f)
  let ?line = "trim_end raw"
  have r: "respaced raw ?line" by (rule respaced_trim_end)
  show "\<exists>x. filled (append_line (Suc n) raw f) = filled f @ x \<and> respaced raw x"
    using joined_text [OF spaces_newline(1) r, of current] r concat_close [of f]
    by (auto simp: f append_line_def filled_def Let_def concat_pieces)
qed (rule spaces_newline)

interpretation text_paragraphs: text_chunker "Suc n" "append_paragraph (Suc n) [CHR 0x0A, CHR 0x0A]" "[CHR 0x0A, CHR 0x0A]" for n
proof unfold_locales
  fix raw and f :: filling
  obtain chunks current where f: "f = (chunks, current)" by (cases f)
  let ?block = "trim raw" and ?closed = "close_current (chunks, current)"
  have r: "respaced raw ?block" by (rule respaced_trim_trans [OF respaced_refl])
  obtain x where x: "concat (append_long_char_block (Suc n) ?block ?closed) = concat ?closed @ x" "respaced ?block x"
    using text_lines.chunks_text [of n "split_on (CHR 0x0A) ?block" ?closed] by (auto simp: append_long_char_block_def join_split_on)
  then show "\<exists>x. filled (append_paragraph (Suc n) [CHR 0x0A, CHR 0x0A] raw f) = filled f @ x \<and> respaced raw x"
    using joined_text [OF spaces_newline(2) r, of current] r concat_close [of f] respaced_trim_trans [OF x(2)]
    by (auto simp: f append_paragraph_def append_char_block_def filled_def Let_def)
qed (rule spaces_newline)

text \<open>
  Nothing is lost in cutting. For every limit but zero, the chunks one after the other are the text
  itself up to white space: every other character is sent, once and in its place.
\<close>
theorem chunks_carry_text: "respaced s (concat (chunk_text_by_char_count s (Suc n)))"
proof (cases "trim s = []")
  case True
  then show ?thesis
    using respaced_trim_trans [of s "[]"] by (simp add: chunk_text_by_char_count_def chunk_text_by_char_count_with_separator_def respaced_nil)
next
  case False
  let ?sep = "[CHR 0x0A, CHR 0x0A]"
  obtain x where "concat (chunk_text_by_char_count s (Suc n)) = x" "respaced (join_lines_with ?sep (split_sub ?sep (trim s))) x"
    using text_paragraphs.chunks_text [of n "split_sub ?sep (trim s)" "[]"] False
    by (auto simp: chunk_text_by_char_count_def chunk_text_by_char_count_with_separator_def)
  then show ?thesis using respaced_trim_trans by (simp add: join_split_sub)
qed

end
