(* ===== verification/Tool_Policy.thy ===== *)
theory Tool_Policy
  imports Runtime_Capability Message
begin

text \<open>
  What a tool may do (\<open>src/src/tools/policy.rs\<close>): the classes of effects, the levels of risk and approval,
  the shape of one execution, the conservative merge of two shapes, and which effects a runtime mode shows.
\<close>

section \<open>Classes and levels\<close>

(* tools/policy.rs: enum ToolExposure *)
datatype ToolExposure = ExposureTask | ExposureStateful | ExposureAdmin | ExposureDebug

(* tools/policy.rs: impl ToolExposure / fn label *)
fun exposure_label :: "ToolExposure \<Rightarrow> string" where
  "exposure_label ExposureTask = ''task''"
| "exposure_label ExposureStateful = ''stateful''"
| "exposure_label ExposureAdmin = ''admin''"
| "exposure_label ExposureDebug = ''debug''"

(* tools/policy.rs: enum ToolEffectClass *)
datatype ToolEffectClass =
    LocalPure | ReadOnly | ConfigRead | NetworkSearch | PersistentStateWrite | StorageWrite | ConfigWrite
  | VisibleOutbound | HardwareRead | HardwareActuation | Diagnostic | HostInspection | HostExecution
  | SystemControl | AdminEffect

(* tools/policy.rs: impl ToolEffectClass / fn label *)
fun effect_label :: "ToolEffectClass \<Rightarrow> string" where
  "effect_label LocalPure = ''local_pure''"
| "effect_label ReadOnly = ''read_only''"
| "effect_label ConfigRead = ''config_read''"
| "effect_label NetworkSearch = ''network_search''"
| "effect_label PersistentStateWrite = ''persistent_state_write''"
| "effect_label StorageWrite = ''storage_write''"
| "effect_label ConfigWrite = ''config_write''"
| "effect_label VisibleOutbound = ''visible_outbound''"
| "effect_label HardwareRead = ''hardware_read''"
| "effect_label HardwareActuation = ''hardware_actuation''"
| "effect_label Diagnostic = ''diagnostic''"
| "effect_label HostInspection = ''host_inspection''"
| "effect_label HostExecution = ''host_execution''"
| "effect_label SystemControl = ''system_control''"
| "effect_label AdminEffect = ''admin''"

(* tools/policy.rs: impl ToolEffectClass / fn is_mutating *)
definition is_mutating :: "ToolEffectClass \<Rightarrow> bool" where
  "is_mutating e \<longleftrightarrow> List.member
     [PersistentStateWrite, StorageWrite, ConfigWrite, VisibleOutbound, HardwareActuation, HostExecution,
      SystemControl, AdminEffect] e"

(* tools/policy.rs: impl ToolEffectClass / fn conservative_rank *)
fun effect_rank :: "ToolEffectClass \<Rightarrow> nat" where
  "effect_rank LocalPure = 0"
| "effect_rank ReadOnly = 0"
| "effect_rank ConfigRead = 1"
| "effect_rank HardwareRead = 2"
| "effect_rank Diagnostic = 3"
| "effect_rank HostInspection = 3"
| "effect_rank NetworkSearch = 4"
| "effect_rank PersistentStateWrite = 5"
| "effect_rank StorageWrite = 5"
| "effect_rank VisibleOutbound = 6"
| "effect_rank ConfigWrite = 7"
| "effect_rank HardwareActuation = 8"
| "effect_rank HostExecution = 9"
| "effect_rank SystemControl = 10"
| "effect_rank AdminEffect = 10"

(* tools/policy.rs: fn tool_effect_runtime_capability_id *)
fun tool_effect_runtime_capability_id :: "ToolEffectClass \<Rightarrow> string option" where
  "tool_effect_runtime_capability_id NetworkSearch = Some RUNTIME_CAPABILITY_NETWORK_OUTBOUND_HTTP"
| "tool_effect_runtime_capability_id VisibleOutbound = Some RUNTIME_CAPABILITY_NETWORK_OUTBOUND_HTTP"
| "tool_effect_runtime_capability_id HardwareRead = Some RUNTIME_CAPABILITY_SENSOR"
| "tool_effect_runtime_capability_id _ = None"

(* tools/policy.rs: enum ToolRiskLevel *)
datatype ToolRiskLevel = RiskLow | RiskMedium | RiskHigh | RiskCritical

(* tools/policy.rs: impl ToolRiskLevel / fn label *)
fun risk_label :: "ToolRiskLevel \<Rightarrow> string" where
  "risk_label RiskLow = ''low''"
| "risk_label RiskMedium = ''medium''"
| "risk_label RiskHigh = ''high''"
| "risk_label RiskCritical = ''critical''"

(* tools/policy.rs: enum ToolApprovalMode *)
datatype ToolApprovalMode = Automatic | ExplicitIntent | OperatorOnly

(* tools/policy.rs: impl ToolApprovalMode / fn label *)
fun approval_label :: "ToolApprovalMode \<Rightarrow> string" where
  "approval_label Automatic = ''automatic''"
| "approval_label ExplicitIntent = ''explicit_intent''"
| "approval_label OperatorOnly = ''operator_only''"

text \<open>The derived \<open>Ord\<close> of both is the order of their constructors.\<close>

fun risk_index :: "ToolRiskLevel \<Rightarrow> nat" where
  "risk_index RiskLow = 0"
| "risk_index RiskMedium = 1"
| "risk_index RiskHigh = 2"
| "risk_index RiskCritical = 3"

fun approval_index :: "ToolApprovalMode \<Rightarrow> nat" where
  "approval_index Automatic = 0"
| "approval_index ExplicitIntent = 1"
| "approval_index OperatorOnly = 2"

lemma risk_index_inj: "risk_index a = risk_index b \<longleftrightarrow> a = b"
  by (cases a; cases b) simp_all

lemma approval_index_inj: "approval_index a = approval_index b \<longleftrightarrow> a = b"
  by (cases a; cases b) simp_all

instantiation ToolRiskLevel :: linorder
begin

definition less_eq_ToolRiskLevel :: "ToolRiskLevel \<Rightarrow> ToolRiskLevel \<Rightarrow> bool" where
  "less_eq_ToolRiskLevel a b \<longleftrightarrow> risk_index a \<le> risk_index b"

definition less_ToolRiskLevel :: "ToolRiskLevel \<Rightarrow> ToolRiskLevel \<Rightarrow> bool" where
  "less_ToolRiskLevel a b \<longleftrightarrow> risk_index a < risk_index b"

instance
  by standard (auto simp: less_eq_ToolRiskLevel_def less_ToolRiskLevel_def simp flip: risk_index_inj)

end

instantiation ToolApprovalMode :: linorder
begin

definition less_eq_ToolApprovalMode :: "ToolApprovalMode \<Rightarrow> ToolApprovalMode \<Rightarrow> bool" where
  "less_eq_ToolApprovalMode a b \<longleftrightarrow> approval_index a \<le> approval_index b"

definition less_ToolApprovalMode :: "ToolApprovalMode \<Rightarrow> ToolApprovalMode \<Rightarrow> bool" where
  "less_ToolApprovalMode a b \<longleftrightarrow> approval_index a < approval_index b"

instance
  by standard (auto simp: less_eq_ToolApprovalMode_def less_ToolApprovalMode_def simp flip: approval_index_inj)

end

(* tools/policy.rs: enum ToolRollbackKind *)
datatype ToolRollbackKind = NoRollback | CompensatingWrite | ConfigRestore | ReplayableMutation | Irreversible

(* tools/policy.rs: impl ToolRollbackKind / fn label *)
fun rollback_label :: "ToolRollbackKind \<Rightarrow> string" where
  "rollback_label NoRollback = ''none''"
| "rollback_label CompensatingWrite = ''compensating_write''"
| "rollback_label ConfigRestore = ''config_restore''"
| "rollback_label ReplayableMutation = ''replayable_mutation''"
| "rollback_label Irreversible = ''irreversible''"

(* tools/policy.rs: impl ToolRollbackKind / fn conservative_rank *)
fun rollback_rank :: "ToolRollbackKind \<Rightarrow> nat" where
  "rollback_rank NoRollback = 0"
| "rollback_rank CompensatingWrite = 1"
| "rollback_rank ReplayableMutation = 2"
| "rollback_rank ConfigRestore = 3"
| "rollback_rank Irreversible = 4"

section \<open>Metadata and shapes\<close>

(* tools/policy.rs: struct ToolMetadata *)
record ToolMetadata =
  tm_exposure :: ToolExposure
  tm_effect_class :: ToolEffectClass
  tm_risk_level :: ToolRiskLevel
  tm_approval_mode :: ToolApprovalMode
  tm_rollback_kind :: ToolRollbackKind

(* tools/policy.rs: impl ToolMetadata / fn task *)
definition metadata_task :: ToolMetadata where
  "metadata_task = \<lparr>tm_exposure = ExposureTask, tm_effect_class = ReadOnly, tm_risk_level = RiskLow,
     tm_approval_mode = Automatic, tm_rollback_kind = NoRollback\<rparr>"

(* tools/policy.rs: impl ToolMetadata / fn stateful *)
definition metadata_stateful :: ToolMetadata where
  "metadata_stateful = \<lparr>tm_exposure = ExposureStateful, tm_effect_class = PersistentStateWrite, tm_risk_level = RiskMedium,
     tm_approval_mode = Automatic, tm_rollback_kind = CompensatingWrite\<rparr>"

(* tools/policy.rs: impl ToolMetadata / fn admin *)
definition metadata_admin :: ToolMetadata where
  "metadata_admin = \<lparr>tm_exposure = ExposureAdmin, tm_effect_class = ConfigWrite, tm_risk_level = RiskCritical,
     tm_approval_mode = OperatorOnly, tm_rollback_kind = ConfigRestore\<rparr>"

(* tools/policy.rs: impl ToolMetadata / fn debug *)
definition metadata_debug :: ToolMetadata where
  "metadata_debug = \<lparr>tm_exposure = ExposureDebug, tm_effect_class = HostExecution, tm_risk_level = RiskCritical,
     tm_approval_mode = OperatorOnly, tm_rollback_kind = Irreversible\<rparr>"

(* tools/policy.rs: struct ToolExecutionShape *)
record ToolExecutionShape =
  ts_operation :: string
  ts_effect_class :: ToolEffectClass
  ts_risk_level :: ToolRiskLevel
  ts_approval_mode :: ToolApprovalMode
  ts_approval_granted :: bool
  ts_rollback_kind :: ToolRollbackKind

(* tools/policy.rs: impl ToolMetadata / fn default_execution_shape *)
definition default_execution_shape :: "ToolMetadata \<Rightarrow> string \<Rightarrow> ToolExecutionShape" where
  "default_execution_shape m tool_name =
     \<lparr>ts_operation = trim tool_name, ts_effect_class = tm_effect_class m, ts_risk_level = tm_risk_level m,
      ts_approval_mode = tm_approval_mode m, ts_approval_granted = (tm_approval_mode m = Automatic),
      ts_rollback_kind = tm_rollback_kind m\<rparr>"

(* tools/policy.rs: fn conservative_merge_execution_shapes *)
definition conservative_merge_execution_shapes :: "ToolExecutionShape \<Rightarrow> ToolExecutionShape \<Rightarrow> ToolExecutionShape" where
  "conservative_merge_execution_shapes l r =
     (let effect_class = (if effect_rank (ts_effect_class l) < effect_rank (ts_effect_class r)
                          then ts_effect_class r else ts_effect_class l);
          risk_level = max (ts_risk_level l) (ts_risk_level r);
          approval_mode = max (ts_approval_mode l) (ts_approval_mode r);
          rollback_kind = (if rollback_rank (ts_rollback_kind l) < rollback_rank (ts_rollback_kind r)
                           then ts_rollback_kind r else ts_rollback_kind l)
      in \<lparr>ts_operation = ts_operation l, ts_effect_class = effect_class, ts_risk_level = risk_level,
          ts_approval_mode = approval_mode, ts_approval_granted = (approval_mode = Automatic),
          ts_rollback_kind = rollback_kind\<rparr>)"

section \<open>What a mode shows\<close>

(* tools/policy.rs: struct ToolPolicyContext *)
record ToolPolicyContext =
  tp_ingress :: IngressKind
  tp_channel :: string
  tp_runtime_mode :: "RuntimeMode option"
  tp_embedded_profile :: bool

(* tools/policy.rs: impl ToolPolicyContext / fn is_internal_system_channel *)
definition is_internal_system_channel :: "ToolPolicyContext \<Rightarrow> bool" where
  "is_internal_system_channel p \<longleftrightarrow> tp_channel p = ''cron'' \<or> tp_channel p = ''heartbeat''"

(* tools/policy.rs: fn tool_effect_visible_in_mode *)
definition tool_effect_visible_in_mode :: "ToolEffectClass \<Rightarrow> ToolPolicyContext \<Rightarrow> bool" where
  "tool_effect_visible_in_mode e p \<longleftrightarrow>
     (if \<not> tp_embedded_profile p then True
      else case tp_runtime_mode p of
        None \<Rightarrow> True
      | Some ModeNormal \<Rightarrow> True
      | Some ModeVoiceExclusive \<Rightarrow> List.member [LocalPure, ReadOnly, HardwareRead] e
      | Some _ \<Rightarrow> List.member [LocalPure, ReadOnly, ConfigRead, Diagnostic, HardwareRead] e)"

section \<open>Laws\<close>

lemma mutating_by_rank: "is_mutating e \<longleftrightarrow> 5 \<le> effect_rank e"
  by (cases e) (simp_all add: is_mutating_def)

lemma merge_mutating:
  "is_mutating (ts_effect_class (conservative_merge_execution_shapes l r)) \<longleftrightarrow>
     is_mutating (ts_effect_class l) \<or> is_mutating (ts_effect_class r)"
  by (auto simp: conservative_merge_execution_shapes_def mutating_by_rank Let_def)

lemma merge_levels:
  "ts_risk_level (conservative_merge_execution_shapes l r) = max (ts_risk_level l) (ts_risk_level r)"
  "ts_approval_mode (conservative_merge_execution_shapes l r) = max (ts_approval_mode l) (ts_approval_mode r)"
  "ts_approval_granted (conservative_merge_execution_shapes l r) \<longleftrightarrow>
     ts_approval_mode l = Automatic \<and> ts_approval_mode r = Automatic"
  by (auto simp: conservative_merge_execution_shapes_def Let_def max_def less_eq_ToolApprovalMode_def)
    (cases "ts_approval_mode l"; cases "ts_approval_mode r"; simp)+

text \<open>
  Restricted modes are read only. On a device, in every mode but the normal one, a tool whose
  effect changes anything is neither shown nor run; in the voice mode even diagnostics and the network are closed.
\<close>
theorem restricted_modes_read_only:
  assumes "tp_embedded_profile p" "tp_runtime_mode p = Some m" "m \<noteq> ModeNormal" "tool_effect_visible_in_mode e p"
  shows "\<not> is_mutating e \<and> tool_effect_runtime_capability_id e \<noteq> Some RUNTIME_CAPABILITY_NETWORK_OUTBOUND_HTTP \<and>
     (m = ModeVoiceExclusive \<longrightarrow> e \<noteq> Diagnostic \<and> e \<noteq> ConfigRead)"
  using assms by (cases e; cases m) (simp_all add: tool_effect_visible_in_mode_def is_mutating_def
      RUNTIME_CAPABILITY_NETWORK_OUTBOUND_HTTP_def RUNTIME_CAPABILITY_SENSOR_def)

theorem restricted_modes_read_only_witness:
  "\<not> is_mutating HardwareRead \<and> tool_effect_runtime_capability_id HardwareRead \<noteq> Some RUNTIME_CAPABILITY_NETWORK_OUTBOUND_HTTP"
  using restricted_modes_read_only [of "\<lparr>tp_ingress = IngressUser, tp_channel = ''voice'',
      tp_runtime_mode = Some ModeVoiceExclusive, tp_embedded_profile = True\<rparr>" ModeVoiceExclusive HardwareRead]
  by (simp add: tool_effect_visible_in_mode_def)

end
