(* ===== verification/Tool_Governance.thy ===== *)
theory Tool_Governance
  imports Tool_Policy Redact Keyed_List "HOL-Library.Product_Lexorder"
begin

text \<open>
  The gate in front of every tool call (\<open>src/src/tools/execution_governance.rs\<close>): who may run it, the operator's
  emergency stop, a circuit breaker per tool, and the audit records, kept in a cache and in a file. The JSON
  library is a parameter (\<open>gov_codec\<close>); every use of the file says whether it fails, and what
  a failed write leaves of the file (\<open>gov_io\<close>).
\<close>

section \<open>State\<close>

(* tools/execution_governance.rs: const TOOL_GOVERNANCE_MAX_RECORDS *)
definition TOOL_GOVERNANCE_MAX_RECORDS :: nat where
  "TOOL_GOVERNANCE_MAX_RECORDS = 48"

(* tools/execution_governance.rs: const TOOL_GOVERNANCE_MAX_BREAKERS *)
definition TOOL_GOVERNANCE_MAX_BREAKERS :: nat where
  "TOOL_GOVERNANCE_MAX_BREAKERS = 32"

(* tools/execution_governance.rs: const TOOL_GOVERNANCE_REASON_MAX_CHARS *)
definition TOOL_GOVERNANCE_REASON_MAX_CHARS :: nat where
  "TOOL_GOVERNANCE_REASON_MAX_CHARS = 180"

(* tools/execution_governance.rs: const TOOL_GOVERNANCE_SUMMARY_MAX_CHARS *)
definition TOOL_GOVERNANCE_SUMMARY_MAX_CHARS :: nat where
  "TOOL_GOVERNANCE_SUMMARY_MAX_CHARS = 240"

(* tools/execution_governance.rs: enum ToolExecutionRecordStatus *)
datatype ToolExecutionRecordStatus = RecAllowed | RecDenied | RecResourceDenied | RecSucceeded | RecFailed

(* tools/execution_governance.rs: struct ToolEmergencyStopState *)
record ToolEmergencyStopState =
  es_active :: bool
  es_reason :: string
  es_updated_at :: u64

(* tools/execution_governance.rs: struct ToolCircuitBreakerState *)
record ToolCircuitBreakerState =
  tb_tool_name :: string
  tb_consecutive_failures :: u8
  tb_last_failure_at :: u64
  tb_last_failure_reason :: string
  tb_tripped_until :: u64

(* tools/execution_governance.rs: impl ToolCircuitBreakerState / fn is_tripped *)
definition tool_breaker_tripped :: "ToolCircuitBreakerState \<Rightarrow> u64 \<Rightarrow> bool" where
  "tool_breaker_tripped br now_secs \<longleftrightarrow> now_secs < tb_tripped_until br"

(* tools/execution_governance.rs: struct ToolExecutionRecord *)
record ToolExecutionRecord =
  tr_recorded_at :: u64
  tr_tool_name :: string
  tr_operation :: string
  tr_ingress :: string
  tr_channel :: string
  tr_status :: ToolExecutionRecordStatus
  tr_effect_class :: ToolEffectClass
  tr_risk_level :: ToolRiskLevel
  tr_approval_mode :: ToolApprovalMode
  tr_rollback_kind :: ToolRollbackKind
  tr_requires_network :: bool
  tr_reason :: string
  tr_summary :: string

(* tools/execution_governance.rs: struct ToolGovernanceFileState *)
record ToolGovernanceFileState =
  gf_repair_count :: u32
  gf_last_repair_at :: u64
  gf_last_repair_reason :: string
  gf_last_backup_path :: string

(* tools/execution_governance.rs: struct ToolExecutionGovernanceState *)
record ToolExecutionGovernanceState =
  gs_emergency_stop :: ToolEmergencyStopState
  gs_breakers :: "ToolCircuitBreakerState list"
  gs_recent_records :: "ToolExecutionRecord list"
  gs_file_state :: ToolGovernanceFileState
  gs_updated_at :: u64

definition default_governance :: ToolExecutionGovernanceState where
  "default_governance =
     \<lparr>gs_emergency_stop = \<lparr>es_active = False, es_reason = [], es_updated_at = 0\<rparr>, gs_breakers = [], gs_recent_records = [],
      gs_file_state = \<lparr>gf_repair_count = 0, gf_last_repair_at = 0, gf_last_repair_reason = [], gf_last_backup_path = []\<rparr>,
      gs_updated_at = 0\<rparr>"

(* tools/execution_governance.rs: struct ToolExecutionRequest *)
record ToolExecutionRequest =
  tq_tool_name :: string
  tq_ingress :: IngressKind
  tq_channel :: string
  tq_metadata :: ToolMetadata
  tq_shape :: ToolExecutionShape
  tq_requires_network :: bool

text \<open>A permit has the fields of the request it was given for.\<close>

(* tools/execution_governance.rs: struct ToolExecutionPermit *)
type_synonym ToolExecutionPermit = ToolExecutionRequest

(* tools/execution_governance.rs: enum ToolExecutionGateDecision *)
datatype ToolExecutionGateDecision = GateAllow ToolExecutionPermit | GateDeny string

section \<open>Records and breakers\<close>

(* tools/execution_governance.rs: fn sanitize_text *)
definition sanitize_text :: "string \<Rightarrow> nat \<Rightarrow> string" where
  "sanitize_text v max_chars = truncate_content_to_max (trim (scrub_credentials v)) max_chars"

(* tools/execution_governance.rs: fn sanitize_operation *)
definition sanitize_operation :: "string \<Rightarrow> string" where
  "sanitize_operation operation = sanitize_text operation 64"

(* tools/execution_governance.rs: fn ingress_label *)
fun ingress_label :: "IngressKind \<Rightarrow> string" where
  "ingress_label IngressUser = ''user''"
| "ingress_label IngressSystem = ''system''"

(* tools/execution_governance.rs: fn push_record *)
definition push_record :: "ToolExecutionRecord \<Rightarrow> ToolExecutionGovernanceState \<Rightarrow> ToolExecutionGovernanceState" where
  "push_record r st =
     (let records = gs_recent_records st @ [r]
      in st\<lparr>gs_updated_at := max (gs_updated_at st) (tr_recorded_at r),
            gs_recent_records := drop (length records - TOOL_GOVERNANCE_MAX_RECORDS) records\<rparr>)"

(* tools/execution_governance.rs: fn breaker_for_tool *)
definition breaker_for_tool :: "ToolExecutionGovernanceState \<Rightarrow> string \<Rightarrow> ToolCircuitBreakerState option" where
  "breaker_for_tool st tool_name = lookup_by tb_tool_name tool_name (gs_breakers st)"

text \<open>The reference that the code returns is used for one update, the argument \<open>f\<close>.\<close>

(* tools/execution_governance.rs: fn breaker_for_tool_mut *)
definition update_breaker_for_tool :: "string \<Rightarrow> (ToolCircuitBreakerState \<Rightarrow> ToolCircuitBreakerState)
    \<Rightarrow> ToolExecutionGovernanceState \<Rightarrow> ToolExecutionGovernanceState" where
  "update_breaker_for_tool tool_name f st =
     (case position (\<lambda>br. tb_tool_name br = tool_name) (gs_breakers st) of
        Some i \<Rightarrow> st\<lparr>gs_breakers := (gs_breakers st)[i := f (gs_breakers st ! i)]\<rparr>
      | None \<Rightarrow> st\<lparr>gs_breakers := gs_breakers st @
            [f \<lparr>tb_tool_name = tool_name, tb_consecutive_failures = 0, tb_last_failure_at = 0, tb_last_failure_reason = [],
                tb_tripped_until = 0\<rparr>]\<rparr>)"

text \<open>\<open>sort_by\<close> is stable; the largest \<open>tripped_until\<close> comes first, then the latest failure.\<close>

definition breaker_order :: "ToolCircuitBreakerState \<Rightarrow> int \<times> int" where
  "breaker_order br = (- uint (tb_tripped_until br), - uint (tb_last_failure_at br))"

(* tools/execution_governance.rs: fn prune_breakers *)
definition prune_breakers :: "ToolExecutionGovernanceState \<Rightarrow> ToolExecutionGovernanceState" where
  "prune_breakers st =
     (if length (gs_breakers st) \<le> TOOL_GOVERNANCE_MAX_BREAKERS then st
      else st\<lparr>gs_breakers := take TOOL_GOVERNANCE_MAX_BREAKERS (sort_key breaker_order (gs_breakers st))\<rparr>)"

(* tools/execution_governance.rs: fn clear_breaker *)
definition clear_breaker :: "string \<Rightarrow> ToolExecutionGovernanceState \<Rightarrow> ToolExecutionGovernanceState" where
  "clear_breaker tool_name st =
     prune_breakers
       (case position (\<lambda>br. tb_tool_name br = tool_name) (gs_breakers st) of
          Some i \<Rightarrow> st\<lparr>gs_breakers := (gs_breakers st)[i := (gs_breakers st ! i)
              \<lparr>tb_consecutive_failures := 0, tb_tripped_until := 0, tb_last_failure_reason := []\<rparr>]\<rparr>
        | None \<Rightarrow> st)"

(* tools/execution_governance.rs: fn breaker_policy_for_risk *)
fun breaker_policy_for_risk :: "ToolRiskLevel \<Rightarrow> (u8 \<times> u64) option" where
  "breaker_policy_for_risk RiskLow = None"
| "breaker_policy_for_risk RiskMedium = Some (4, 5 * 60)"
| "breaker_policy_for_risk RiskHigh = Some (3, 15 * 60)"
| "breaker_policy_for_risk RiskCritical = Some (2, 30 * 60)"

(* tools/execution_governance.rs: fn record_from_permit *)
definition record_from_permit :: "u64 \<Rightarrow> ToolExecutionPermit \<Rightarrow> ToolExecutionRecordStatus \<Rightarrow> string \<Rightarrow> string
    \<Rightarrow> ToolExecutionRecord" where
  "record_from_permit now permit status reason summary =
     \<lparr>tr_recorded_at = now, tr_tool_name = tq_tool_name permit,
      tr_operation = sanitize_operation (ts_operation (tq_shape permit)),
      tr_ingress = ingress_label (tq_ingress permit), tr_channel = sanitize_text (tq_channel permit) 48,
      tr_status = status, tr_effect_class = ts_effect_class (tq_shape permit),
      tr_risk_level = ts_risk_level (tq_shape permit), tr_approval_mode = ts_approval_mode (tq_shape permit),
      tr_rollback_kind = ts_rollback_kind (tq_shape permit), tr_requires_network = tq_requires_network permit,
      tr_reason = sanitize_text reason TOOL_GOVERNANCE_REASON_MAX_CHARS,
      tr_summary = sanitize_text summary TOOL_GOVERNANCE_SUMMARY_MAX_CHARS\<rparr>"

(* tools/execution_governance.rs: fn build_success_summary *)
definition build_success_summary :: "string \<Rightarrow> nat \<Rightarrow> string" where
  "build_success_summary content0 outbound_count =
     (let content = sanitize_text content0 TOOL_GOVERNANCE_SUMMARY_MAX_CHARS
      in if outbound_count = 0 then content
         else if content = [] then ''outbound_intents='' @ show_nat outbound_count
         else content @ '' | outbound_intents='' @ show_nat outbound_count)"

section \<open>What each operation does to the state\<close>

(* tools/execution_governance.rs: lines 191-223 the closure of set_emergency_stop *)
definition stop_step :: "u64 \<Rightarrow> bool \<Rightarrow> string \<Rightarrow> ToolExecutionGovernanceState
    \<Rightarrow> ToolExecutionGovernanceState \<times> ToolEmergencyStopState" where
  "stop_step now active reason st =
     (let stop = \<lparr>es_active = active, es_reason = sanitize_text reason TOOL_GOVERNANCE_REASON_MAX_CHARS, es_updated_at = now\<rparr>;
          r = \<lparr>tr_recorded_at = now, tr_tool_name = ''tool_governance'',
               tr_operation = (if active then ''emergency_stop_enable'' else ''emergency_stop_disable''),
               tr_ingress = ''operator'', tr_channel = ''system'', tr_status = RecSucceeded,
               tr_effect_class = SystemControl, tr_risk_level = RiskHigh, tr_approval_mode = OperatorOnly,
               tr_rollback_kind = Irreversible, tr_requires_network = False, tr_reason = es_reason stop,
               tr_summary = (if active then ''tool emergency stop enabled'' else ''tool emergency stop cleared'')\<rparr>
      in (push_record r (st\<lparr>gs_emergency_stop := stop, gs_updated_at := now\<rparr>), stop))"

(* tools/execution_governance.rs: lines 229-263 the reason for a denial *)
definition denial_reason :: "u64 \<Rightarrow> ToolExecutionRequest \<Rightarrow> ToolExecutionGovernanceState \<Rightarrow> string option" where
  "denial_reason now_secs request st =
     (let shape = tq_shape request; exposure = tm_exposure (tq_metadata request); stop = gs_emergency_stop st
      in if exposure = ExposureAdmin \<or> exposure = ExposureDebug \<or> ts_approval_mode shape = OperatorOnly
         then Some ''operator_only_tool''
         else if ts_approval_mode shape = ExplicitIntent \<and> \<not> ts_approval_granted shape
         then Some ''explicit_intent_required''
         else if es_active stop \<and> (is_mutating (ts_effect_class shape) \<or> RiskHigh \<le> ts_risk_level shape)
         then Some (if trim (es_reason stop) = [] then ''tool_emergency_stop_active''
                    else ''tool_emergency_stop_active: '' @ trim (es_reason stop))
         else case breaker_for_tool st (tq_tool_name request) of
           Some br \<Rightarrow> if tool_breaker_tripped br now_secs
             then Some (''tool_circuit_breaker_active until '' @ show_nat (unat (tb_tripped_until br))) else None
         | None \<Rightarrow> None)"

definition gate_record :: "u64 \<Rightarrow> ToolExecutionRequest \<Rightarrow> ToolExecutionRecordStatus \<Rightarrow> string \<Rightarrow> ToolExecutionRecord" where
  "gate_record now_secs request status reason =
     \<lparr>tr_recorded_at = now_secs, tr_tool_name = tq_tool_name request,
      tr_operation = sanitize_operation (ts_operation (tq_shape request)),
      tr_ingress = ingress_label (tq_ingress request), tr_channel = sanitize_text (tq_channel request) 48,
      tr_status = status, tr_effect_class = ts_effect_class (tq_shape request),
      tr_risk_level = ts_risk_level (tq_shape request), tr_approval_mode = ts_approval_mode (tq_shape request),
      tr_rollback_kind = ts_rollback_kind (tq_shape request), tr_requires_network = tq_requires_network request,
      tr_reason = reason, tr_summary = []\<rparr>"

(* tools/execution_governance.rs: lines 228-316 the closure of assess *)
definition assess_step :: "u64 \<Rightarrow> ToolExecutionRequest \<Rightarrow> ToolExecutionGovernanceState
    \<Rightarrow> ToolExecutionGovernanceState \<times> ToolExecutionGateDecision" where
  "assess_step now_secs request st =
     (case denial_reason now_secs request st of
        Some reason \<Rightarrow>
          (push_record (gate_record now_secs request RecDenied (sanitize_text reason TOOL_GOVERNANCE_REASON_MAX_CHARS)) st,
           GateDeny reason)
      | None \<Rightarrow> (push_record (gate_record now_secs request RecAllowed []) st, GateAllow request))"

(* tools/execution_governance.rs: fn append_record *)
definition append_step :: "u64 \<Rightarrow> ToolExecutionPermit \<Rightarrow> ToolExecutionRecordStatus \<Rightarrow> string \<Rightarrow> string
    \<Rightarrow> ToolExecutionGovernanceState \<Rightarrow> ToolExecutionGovernanceState \<times> unit" where
  "append_step now permit status reason summary st = (push_record (record_from_permit now permit status reason summary) st, ())"

(* tools/execution_governance.rs: lines 334-346 record_success from its summary on *)
definition success_step :: "u64 \<Rightarrow> ToolExecutionPermit \<Rightarrow> string \<Rightarrow> ToolExecutionGovernanceState
    \<Rightarrow> ToolExecutionGovernanceState \<times> unit" where
  "success_step now permit summary st =
     (push_record (record_from_permit now permit RecSucceeded [] summary) (clear_breaker (tq_tool_name permit) st), ())"

(* tools/execution_governance.rs: lines 370-378 the breaker of a failed tool *)
definition failed_breaker :: "u64 \<Rightarrow> string \<Rightarrow> u8 \<Rightarrow> u64 \<Rightarrow> ToolCircuitBreakerState \<Rightarrow> ToolCircuitBreakerState" where
  "failed_breaker now_secs reason threshold cooldown_secs br =
     (let failures = sat_add (tb_consecutive_failures br) 1
      in br\<lparr>tb_consecutive_failures := failures, tb_last_failure_at := now_secs, tb_last_failure_reason := reason,
            tb_tripped_until := (if threshold \<le> failures then sat_add now_secs cooldown_secs else tb_tripped_until br)\<rparr>)"

text \<open>The error of the failure is given as the text it displays.\<close>

(* tools/execution_governance.rs: lines 354-390 record_failure *)
definition failure_step :: "u64 \<Rightarrow> u64 \<Rightarrow> ToolExecutionPermit \<Rightarrow> string \<Rightarrow> ToolExecutionGovernanceState
    \<Rightarrow> ToolExecutionGovernanceState \<times> unit" where
  "failure_step now_secs record_now permit error_text st =
     (let reason = sanitize_text error_text TOOL_GOVERNANCE_REASON_MAX_CHARS;
          r = record_from_permit record_now permit RecFailed reason []
      in case breaker_policy_for_risk (ts_risk_level (tq_shape permit)) of
           None \<Rightarrow> (push_record r st, ())
         | Some (threshold, cooldown_secs) \<Rightarrow>
             (push_record r (prune_breakers (update_breaker_for_tool (tq_tool_name permit)
                (failed_breaker now_secs reason threshold cooldown_secs) st)), ()))"

section \<open>The file\<close>

text \<open>
  The JSON library: reading a whole text strictly, reading one value from its start (with the number of bytes it takes), and
  writing.
\<close>

record gov_codec =
  gc_strict :: "string \<Rightarrow> ToolExecutionGovernanceState option"
  gc_first :: "string \<Rightarrow> (ToolExecutionGovernanceState \<times> nat) option"
  gc_encode :: "ToolExecutionGovernanceState \<Rightarrow> string + string"

text \<open>
  What the file system does in one operation, and the clock: at the load, in the closure, and for the record. A write that
  fails comes with what it leaves of the file, from what was there and what was to be written: the host replaces the file
  by a rename, so that nothing changes (\<open>writes_are_atomic\<close>), but a board opens the file itself for writing, which cuts
  it, and may leave any part of the new content.
\<close>

type_synonym failed_write = "string option \<Rightarrow> string \<Rightarrow> string option"

record gov_io =
  io_read_fails :: bool
  io_write_error :: "(Error \<times> failed_write) option"
  io_backup_error :: "failed_write option"
  io_load_now :: u64
  io_now :: u64
  io_record_now :: u64

(* tools/execution_governance.rs: struct ToolExecutionGovernance *)
record tool_governance =
  tg_file :: "string option"
  tg_backup :: "string option"
  tg_cache :: "ToolExecutionGovernanceState option"

(* tools/execution_governance.rs: fn persist_state *)
definition persist_state :: "gov_codec \<Rightarrow> gov_io \<Rightarrow> ToolExecutionGovernanceState \<Rightarrow> tool_governance
    \<Rightarrow> tool_governance \<times> (Error + unit)" where
  "persist_state k io st w =
     (case gc_encode k st of
        Inl e \<Rightarrow> (w, Inl (err_config ''tool_governance_persist'' e))
      | Inr data \<Rightarrow> (case io_write_error io of
            Some (e, leaves) \<Rightarrow> (w\<lparr>tg_file := leaves (tg_file w) data\<rparr>, Inl e)
          | None \<Rightarrow> (w\<lparr>tg_file := Some data\<rparr>, Inr ())))"

(* tools/execution_governance.rs: fn backup_corrupt_state *)
definition backup_corrupt_state :: "gov_io \<Rightarrow> string \<Rightarrow> tool_governance \<Rightarrow> tool_governance" where
  "backup_corrupt_state io raw w =
     w\<lparr>tg_backup := (case io_backup_error io of Some leaves \<Rightarrow> leaves (tg_backup w) raw | None \<Rightarrow> Some raw)\<rparr>"

(* tools/execution_governance.rs: fn mark_file_repair *)
definition mark_file_repair :: "u64 \<Rightarrow> string \<Rightarrow> ToolExecutionGovernanceState \<Rightarrow> ToolExecutionGovernanceState" where
  "mark_file_repair now reason st =
     st\<lparr>gs_file_state :=
          \<lparr>gf_repair_count = sat_add (gf_repair_count (gs_file_state st)) 1, gf_last_repair_at = now,
           gf_last_repair_reason = reason, gf_last_backup_path = ''memory/tool_execution_governance.corrupt.json''\<rparr>,
        gs_updated_at := max (gs_updated_at st) now\<rparr>"

(* tools/execution_governance.rs: fn parse_state_with_repair_hint *)
definition parse_state_with_repair_hint :: "gov_codec \<Rightarrow> string
    \<Rightarrow> (ToolExecutionGovernanceState \<times> string option) option" where
  "parse_state_with_repair_hint k raw =
     (case gc_strict k raw of
        Some st \<Rightarrow> Some (st, None)
      | None \<Rightarrow> (case gc_first k raw of
            Some (st, byte_offset) \<Rightarrow>
              if list_ex (\<lambda>c. \<not> List.member [CHR '' '', CHR 0x0A, CHR 0x0D, CHR 0x09] c) (drop byte_offset raw)
              then Some (st, Some ''trailing_characters'') else None
          | None \<Rightarrow> None))"

(* tools/execution_governance.rs: fn load_state *)
definition load_state :: "gov_codec \<Rightarrow> gov_io \<Rightarrow> tool_governance \<Rightarrow> tool_governance \<times> ToolExecutionGovernanceState" where
  "load_state k io w =
     (case (if io_read_fails io then None else tg_file w) of
        None \<Rightarrow> (w, default_governance)
      | Some raw \<Rightarrow>
          if raw = [] then (w, default_governance)
          else case parse_state_with_repair_hint k raw of
            Some (st, None) \<Rightarrow> (w, st)
          | Some (st, Some reason) \<Rightarrow>
              (let repaired = mark_file_repair (io_load_now io) reason st
               in (fst (persist_state k io repaired (backup_corrupt_state io raw w)), repaired))
          | None \<Rightarrow>
              (let repaired = mark_file_repair (io_load_now io) ''corrupt_json'' default_governance
               in (fst (persist_state k io repaired (backup_corrupt_state io raw w)), repaired)))"

definition cached_state :: "gov_codec \<Rightarrow> gov_io \<Rightarrow> tool_governance \<Rightarrow> tool_governance \<times> ToolExecutionGovernanceState" where
  "cached_state k io w =
     (case tg_cache w of
        Some st \<Rightarrow> (w, st)
      | None \<Rightarrow> (let (w', st) = load_state k io w in (w'\<lparr>tg_cache := Some st\<rparr>, st)))"

(* tools/execution_governance.rs: impl ToolExecutionGovernance / fn inspect *)
definition inspect :: "gov_codec \<Rightarrow> gov_io \<Rightarrow> tool_governance \<Rightarrow> tool_governance \<times> ToolExecutionGovernanceState" where
  "inspect k io w = cached_state k io w"

text \<open>The closures passed to \<open>with_state_mut\<close> do not fail; what fails is writing the state after them.\<close>

(* tools/execution_governance.rs: fn with_state_mut *)
definition with_state_mut :: "gov_codec \<Rightarrow> gov_io \<Rightarrow> (ToolExecutionGovernanceState \<Rightarrow> ToolExecutionGovernanceState \<times> 'r)
    \<Rightarrow> tool_governance \<Rightarrow> tool_governance \<times> (Error + 'r)" where
  "with_state_mut k io f w =
     (let (w1, st) = cached_state k io w;
          (st', r) = f st;
          (w2, p) = persist_state k io st' (w1\<lparr>tg_cache := Some st'\<rparr>)
      in (w2, case p of Inl e \<Rightarrow> Inl e | Inr _ \<Rightarrow> Inr r))"

(* tools/execution_governance.rs: impl ToolExecutionGovernance / fn set_emergency_stop *)
definition set_emergency_stop :: "gov_codec \<Rightarrow> gov_io \<Rightarrow> bool \<Rightarrow> string \<Rightarrow> tool_governance
    \<Rightarrow> tool_governance \<times> (Error + ToolEmergencyStopState)" where
  "set_emergency_stop k io active reason = with_state_mut k io (stop_step (io_now io) active reason)"

(* tools/execution_governance.rs: impl ToolExecutionGovernance / fn assess *)
definition assess :: "gov_codec \<Rightarrow> gov_io \<Rightarrow> ToolExecutionRequest \<Rightarrow> tool_governance
    \<Rightarrow> tool_governance \<times> (Error + ToolExecutionGateDecision)" where
  "assess k io request = with_state_mut k io (assess_step (io_now io) request)"

(* tools/execution_governance.rs: impl ToolExecutionGovernance / fn record_resource_denial *)
definition record_resource_denial :: "gov_codec \<Rightarrow> gov_io \<Rightarrow> ToolExecutionPermit \<Rightarrow> string \<Rightarrow> tool_governance
    \<Rightarrow> tool_governance \<times> (Error + unit)" where
  "record_resource_denial k io permit reason =
     with_state_mut k io (append_step (io_record_now io) permit RecResourceDenied reason [])"

(* tools/execution_governance.rs: impl ToolExecutionGovernance / fn record_success *)
definition record_success :: "gov_codec \<Rightarrow> gov_io \<Rightarrow> ToolExecutionPermit \<Rightarrow> string \<Rightarrow> nat \<Rightarrow> tool_governance
    \<Rightarrow> tool_governance \<times> (Error + unit)" where
  "record_success k io permit content outbound_count =
     with_state_mut k io (success_step (io_record_now io) permit (build_success_summary content outbound_count))"

(* tools/execution_governance.rs: impl ToolExecutionGovernance / fn record_failure *)
definition record_failure :: "gov_codec \<Rightarrow> gov_io \<Rightarrow> ToolExecutionPermit \<Rightarrow> string \<Rightarrow> tool_governance
    \<Rightarrow> tool_governance \<times> (Error + unit)" where
  "record_failure k io permit error_text =
     with_state_mut k io (failure_step (io_now io) (io_record_now io) permit error_text)"

end
