(* ===== verification/Tool_Governance_Laws.thy ===== *)
theory Tool_Governance_Laws
  imports Tool_Governance
begin

text \<open>
  What the gate guarantees: which calls it lets through and that each is on record first, that the emergency
  stop holds over every later operation, and over restarts when failed writes leave the file alone, that a failing tool is
  stopped as long as the table of breakers has room, that the state stays bounded, and that merging shapes never opens
  the gate; and the two limits of the loader and the one of the table.
\<close>

section \<open>The gate\<close>

definition operator_only :: "ToolExecutionRequest \<Rightarrow> bool" where
  "operator_only q \<longleftrightarrow> tm_exposure (tq_metadata q) \<in> {ExposureAdmin, ExposureDebug} \<or> ts_approval_mode (tq_shape q) = OperatorOnly"

definition intent_missing :: "ToolExecutionRequest \<Rightarrow> bool" where
  "intent_missing q \<longleftrightarrow> ts_approval_mode (tq_shape q) = ExplicitIntent \<and> \<not> ts_approval_granted (tq_shape q)"

definition dangerous :: "ToolExecutionShape \<Rightarrow> bool" where
  "dangerous s \<longleftrightarrow> is_mutating (ts_effect_class s) \<or> RiskHigh \<le> ts_risk_level s"

definition breaker_open :: "u64 \<Rightarrow> string \<Rightarrow> ToolExecutionGovernanceState \<Rightarrow> bool" where
  "breaker_open now tool st \<longleftrightarrow> (\<exists>br. breaker_for_tool st tool = Some br \<and> tool_breaker_tripped br now)"

definition gate_open :: "u64 \<Rightarrow> ToolExecutionRequest \<Rightarrow> ToolExecutionGovernanceState \<Rightarrow> bool" where
  "gate_open now q st \<longleftrightarrow> \<not> operator_only q \<and> \<not> intent_missing q \<and>
     \<not> (es_active (gs_emergency_stop st) \<and> dangerous (tq_shape q)) \<and> \<not> breaker_open now (tq_tool_name q) st"

lemma denial_reason_iff: "denial_reason now q st = None \<longleftrightarrow> gate_open now q st"
  by (auto simp: denial_reason_def gate_open_def operator_only_def intent_missing_def dangerous_def breaker_open_def Let_def
      split: option.splits if_splits)

lemma with_state_mutE:
  assumes "with_state_mut k io f w = (w', Inr r)" "cached_state k io w = (w1, st)"
  shows "\<exists>data. tg_cache w' = Some (fst (f st)) \<and> tg_file w' = Some data \<and> gc_encode k (fst (f st)) = Inr data \<and> r = snd (f st)"
  using assms by (auto simp: with_state_mut_def persist_state_def split: prod.splits sum.splits option.splits)

lemma push_record_last: "gs_recent_records (push_record r st) \<noteq> [] \<and> last (gs_recent_records (push_record r st)) = r"
  by (auto simp: push_record_def Let_def TOOL_GOVERNANCE_MAX_RECORDS_def)

lemma assess_allowed:
  assumes "assess k io request w = (w', Inr (GateAllow permit))" "cached_state k io w = (w1, st)"
  shows "permit = request \<and> gate_open (io_now io) request st"
    and "\<exists>st' data. tg_cache w' = Some st' \<and> gc_encode k st' = Inr data \<and> tg_file w' = Some data \<and>
        last (gs_recent_records st') = gate_record (io_now io) request RecAllowed []"
proof -
  let ?r = "assess_step (io_now io) request st"
  obtain data where d: "tg_cache w' = Some (fst ?r)" "gc_encode k (fst ?r) = Inr data" "tg_file w' = Some data"
    "GateAllow permit = snd ?r"
    using with_state_mutE [OF assms(1) [unfolded assess_def] assms(2)] by blast
  then have n: "denial_reason (io_now io) request st = None" "permit = request"
    by (auto simp: assess_step_def split: option.splits)
  then show "permit = request \<and> gate_open (io_now io) request st" by (simp add: denial_reason_iff)
  show "\<exists>st' data. tg_cache w' = Some st' \<and> gc_encode k st' = Inr data \<and> tg_file w' = Some data \<and>
        last (gs_recent_records st') = gate_record (io_now io) request RecAllowed []"
    using d n push_record_last by (auto simp: assess_step_def)
qed

text \<open>
  C14: the gate lets a call through only when all of these hold. The tool is not one for the operator, an approval that
  it needs was given, the emergency stop is off or the call neither changes anything nor is risky, and no breaker of the
  tool is open; and by then the permission is the latest entry of the audit records, both in memory and in the file.
\<close>
theorem allowed_is_checked_and_recorded:
  assumes "assess k io request w = (w', Inr (GateAllow permit))" "cached_state k io w = (w1, st)"
  shows "permit = request \<and> gate_open (io_now io) request st \<and>
     (\<exists>st' data. tg_cache w' = Some st' \<and> gc_encode k st' = Inr data \<and> tg_file w' = Some data \<and>
        last (gs_recent_records st') = gate_record (io_now io) request RecAllowed [])"
  using assess_allowed [OF assms] by blast

text \<open>A reading tool on a fresh device; the codec of the witnesses writes any state as one letter and reads it back as the initial one.\<close>

definition letter_codec :: gov_codec where
  "letter_codec = \<lparr>gc_strict = (\<lambda>raw. if raw = ''d'' then Some default_governance else None), gc_first = (\<lambda>raw. None),
     gc_encode = (\<lambda>st. Inr ''d'')\<rparr>"

definition calm_io :: gov_io where
  "calm_io = \<lparr>io_read_fails = False, io_write_error = None, io_backup_error = None, io_load_now = 100, io_now = 100,
     io_record_now = 100\<rparr>"

definition fresh_governance :: tool_governance where
  "fresh_governance = \<lparr>tg_file = None, tg_backup = None, tg_cache = None\<rparr>"

definition reading_request :: ToolExecutionRequest where
  "reading_request = \<lparr>tq_tool_name = ''web_search'', tq_ingress = IngressUser, tq_channel = ''telegram'',
     tq_metadata = metadata_task,
     tq_shape = \<lparr>ts_operation = ''find'', ts_effect_class = ReadOnly, ts_risk_level = RiskLow,
       ts_approval_mode = Automatic, ts_approval_granted = True, ts_rollback_kind = NoRollback\<rparr>, tq_requires_network = True\<rparr>"

lemma calm_simps [simp]:
  "io_now calm_io = 100" "io_write_error calm_io = None" "io_read_fails calm_io = False"
  by (simp_all add: calm_io_def)

lemma fresh_cached: "cached_state k calm_io fresh_governance = (fresh_governance\<lparr>tg_cache := Some default_governance\<rparr>, default_governance)"
  by (simp add: cached_state_def load_state_def fresh_governance_def)

lemma reading_open: "gate_open now reading_request default_governance"
  by (simp add: gate_open_def operator_only_def intent_missing_def dangerous_def breaker_open_def breaker_for_tool_def
      reading_request_def metadata_task_def default_governance_def is_mutating_def less_eq_ToolRiskLevel_def)

lemma reading_allowed: "\<exists>w'. assess letter_codec calm_io reading_request fresh_governance = (w', Inr (GateAllow reading_request))"
  using reading_open [of 100]
  by (simp add: assess_def with_state_mut_def fresh_cached assess_step_def denial_reason_iff [symmetric] persist_state_def)
    (simp add: letter_codec_def)

theorem allowed_is_checked_and_recorded_witness:
  "\<exists>w' st'. assess letter_codec calm_io reading_request fresh_governance = (w', Inr (GateAllow reading_request)) \<and>
     tg_cache w' = Some st' \<and> last (gs_recent_records st') = gate_record 100 reading_request RecAllowed []"
proof -
  obtain w' where a: "assess letter_codec calm_io reading_request fresh_governance = (w', Inr (GateAllow reading_request))"
    using reading_allowed by blast
  show ?thesis using allowed_is_checked_and_recorded [OF a fresh_cached] a by auto
qed

section \<open>Merging shapes\<close>

text \<open>
  C31: merging is conservative. If the gate would refuse one of two shapes of a call, for whatever reason,
  it refuses the merged one, in every state; so a compound operation is never easier to run than its parts.
\<close>
theorem merge_never_opens_gate:
  assumes "\<not> gate_open now (q\<lparr>tq_shape := l\<rparr>) st \<or> \<not> gate_open now (q\<lparr>tq_shape := r\<rparr>) st"
  shows "\<not> gate_open now (q\<lparr>tq_shape := conservative_merge_execution_shapes l r\<rparr>) st"
proof -
  have d: "dangerous (conservative_merge_execution_shapes l r) \<longleftrightarrow> dangerous l \<or> dangerous r"
    by (auto simp: dangerous_def merge_mutating merge_levels le_max_iff_disj)
  have m: "max a b = OperatorOnly \<longleftrightarrow> a = OperatorOnly \<or> b = OperatorOnly"
    "max a b = ExplicitIntent \<or> max a b = OperatorOnly \<longleftrightarrow> a \<noteq> Automatic \<or> b \<noteq> Automatic" for a b
    by (cases a; cases b; simp add: max_def less_eq_ToolApprovalMode_def)+
  show ?thesis
    using assms m [of "ts_approval_mode l" "ts_approval_mode r"] d
    by (auto simp: gate_open_def operator_only_def intent_missing_def merge_levels)
qed

theorem merge_never_opens_gate_witness:
  "\<not> gate_open 0 (reading_request\<lparr>tq_shape := conservative_merge_execution_shapes
      (tq_shape reading_request) (default_execution_shape metadata_admin ''reboot'')\<rparr>) default_governance"
  by (rule merge_never_opens_gate, rule disjI2)
    (simp add: gate_open_def operator_only_def default_execution_shape_def metadata_admin_def)

section \<open>The emergency stop\<close>

datatype gov_event =
    EvStop bool string
  | EvAssess ToolExecutionRequest
  | EvDenial ToolExecutionPermit string
  | EvSuccess ToolExecutionPermit string nat
  | EvFailure ToolExecutionPermit string
  | EvInspect
  | EvRestart

text \<open>One operation, with the permission it gave, if any; a restart forgets the cache.\<close>

fun run_event :: "gov_codec \<Rightarrow> gov_io \<Rightarrow> gov_event \<Rightarrow> tool_governance \<Rightarrow> tool_governance \<times> ToolExecutionPermit list" where
  "run_event k io (EvStop active reason) w = (fst (set_emergency_stop k io active reason w), [])"
| "run_event k io (EvAssess q) w =
     (case assess k io q w of (w', Inr (GateAllow p)) \<Rightarrow> (w', [p]) | (w', _) \<Rightarrow> (w', []))"
| "run_event k io (EvDenial p reason) w = (fst (record_resource_denial k io p reason w), [])"
| "run_event k io (EvSuccess p content n) w = (fst (record_success k io p content n w), [])"
| "run_event k io (EvFailure p e) w = (fst (record_failure k io p e w), [])"
| "run_event k io EvInspect w = (fst (inspect k io w), [])"
| "run_event k io EvRestart w = (w\<lparr>tg_cache := None\<rparr>, [])"

fun run_events :: "gov_codec \<Rightarrow> (gov_io \<times> gov_event) list \<Rightarrow> tool_governance \<Rightarrow> tool_governance \<times> ToolExecutionPermit list" where
  "run_events k [] w = (w, [])"
| "run_events k ((io, ev) # evs) w =
     (let (w1, ps) = run_event k io ev w; (w2, qs) = run_events k evs w1 in (w2, ps @ qs))"

definition stopped :: "ToolExecutionGovernanceState \<Rightarrow> bool" where
  "stopped st \<longleftrightarrow> es_active (gs_emergency_stop st)"

definition codec_ok :: "gov_codec \<Rightarrow> bool" where
  "codec_ok k \<longleftrightarrow> (\<forall>st data. gc_encode k st = Inr data \<longrightarrow> data \<noteq> [] \<and> gc_strict k data = Some st)"

text \<open>A failed write of the file leaves it as it was, as on the host.\<close>

definition writes_are_atomic :: "gov_io \<Rightarrow> bool" where
  "writes_are_atomic io \<longleftrightarrow> (\<forall>e leaves old data. io_write_error io = Some (e, leaves) \<longrightarrow> leaves old data = old)"

text \<open>The stop in the memory of a device that runs, and the stop in its file, which a restart reads.\<close>

definition memory_stop :: "tool_governance \<Rightarrow> bool" where
  "memory_stop w \<longleftrightarrow> (\<exists>st. tg_cache w = Some st \<and> stopped st)"

definition stop_holds :: "gov_codec \<Rightarrow> tool_governance \<Rightarrow> bool" where
  "stop_holds k w \<longleftrightarrow> (\<forall>st. tg_cache w = Some st \<longrightarrow> stopped st) \<and>
     (\<exists>raw st. tg_file w = Some raw \<and> raw \<noteq> [] \<and> gc_strict k raw = Some st \<and> stopped st)"

lemma stopped_push [simp]: "stopped (push_record r st) = stopped st"
  by (simp add: stopped_def push_record_def Let_def)

lemma stopped_prune [simp]: "stopped (prune_breakers st) = stopped st"
  by (simp add: stopped_def prune_breakers_def)

lemma stopped_breakers [simp]:
  "stopped (clear_breaker t st) = stopped st" "stopped (update_breaker_for_tool t f st) = stopped st"
  by (simp_all add: clear_breaker_def update_breaker_for_tool_def stopped_def prune_breakers_def split: option.split)

lemma stopped_steps:
  "stopped (fst (assess_step now q st)) = stopped st" "stopped (fst (append_step now p s r m st)) = stopped st"
  "stopped (fst (success_step now p m st)) = stopped st" "stopped (fst (failure_step now now' p e st)) = stopped st"
  "stopped (fst (stop_step now active reason st)) = active"
  by (simp_all add: assess_step_def append_step_def success_step_def failure_step_def stop_step_def Let_def case_prod_beta
      split: option.split) (simp add: stopped_def)

text \<open>
  The interface of a state in which the stop is on: reading it gives a state that is stopped, and no operation leaves it.
\<close>

locale stop_invariant =
  fixes k :: gov_codec and good :: "gov_io \<Rightarrow> bool" and restarts :: bool and inv :: "tool_governance \<Rightarrow> bool"
  assumes cached: "inv w \<Longrightarrow> good io \<Longrightarrow> inv (fst (cached_state k io w)) \<and> stopped (snd (cached_state k io w))"
    and written: "inv w \<Longrightarrow> good io \<Longrightarrow> stopped st \<Longrightarrow> inv (fst (persist_state k io st (w\<lparr>tg_cache := Some st\<rparr>)))"
    and restarted: "restarts \<Longrightarrow> inv w \<Longrightarrow> inv (w\<lparr>tg_cache := None\<rparr>)"
begin

lemma with_state_mut_keeps:
  assumes "inv w" "good io" "\<And>st. stopped st \<Longrightarrow> stopped (fst (f st))"
  shows "inv (fst (with_state_mut k io f w))"
  using written [OF conjunct1 [OF cached [OF assms(1,2)]] assms(2) assms(3) [OF conjunct2 [OF cached [OF assms(1,2)]]]]
  by (simp add: with_state_mut_def case_prod_beta)

lemma run_event_keeps:
  assumes "inv w" "good io" "\<And>r. ev \<noteq> EvStop False r" "ev \<noteq> EvRestart \<or> restarts"
  shows "inv (fst (run_event k io ev w)) \<and> (\<forall>p \<in> set (snd (run_event k io ev w)). \<not> dangerous (tq_shape p))"
proof (cases ev)
  case (EvStop active reason)
  then show ?thesis using assms(3) [of reason]
    by (simp add: set_emergency_stop_def with_state_mut_keeps [OF assms(1,2)] stopped_steps)
next
  case (EvAssess q)
  obtain w' r where a: "assess k io q w = (w', r)" by (cases "assess k io q w")
  have h: "inv w'"
    using with_state_mut_keeps [OF assms(1,2), of "assess_step (io_now io) q"] a by (simp add: assess_def stopped_steps)
  obtain w1 st where c: "cached_state k io w = (w1, st)" by (cases "cached_state k io w")
  have s: "stopped st" using cached [OF assms(1,2)] c by simp
  have "\<not> dangerous (tq_shape p)" if "r = Inr (GateAllow p)" for p
    using assess_allowed(1) [OF _ c, of q w' p] a that s by (auto simp: gate_open_def stopped_def)
  then show ?thesis using h a EvAssess by (auto split: sum.split ToolExecutionGateDecision.split)
next
  case EvInspect
  then show ?thesis using cached [OF assms(1,2)] by (simp add: inspect_def)
next
  case EvRestart
  then show ?thesis using assms(1,4) restarted by simp
qed (use assms in \<open>auto simp: record_resource_denial_def record_success_def record_failure_def stopped_steps
      intro!: with_state_mut_keeps\<close>)

lemma run_events_keep:
  assumes "inv w" "\<And>io ev. (io, ev) \<in> set evs \<Longrightarrow> good io \<and> (\<forall>r. ev \<noteq> EvStop False r) \<and> (ev \<noteq> EvRestart \<or> restarts)"
    "p \<in> set (snd (run_events k evs w))"
  shows "\<not> dangerous (tq_shape p)"
  using assms
proof (induction evs arbitrary: w)
  case (Cons x evs)
  obtain io ev where x: "x = (io, ev)" by (cases x)
  have h: "inv (fst (run_event k io ev w))" "\<forall>p \<in> set (snd (run_event k io ev w)). \<not> dangerous (tq_shape p)"
    using run_event_keeps [OF Cons.prems(1), of io ev] Cons.prems(2) x by auto
  have "p \<in> set (snd (run_event k io ev w)) \<or> p \<in> set (snd (run_events k evs (fst (run_event k io ev w))))"
    using Cons.prems(3) x by (simp add: case_prod_beta)
  then show ?case using h Cons.IH [OF h(1)] Cons.prems(2) by fastforce
qed simp

end

text \<open>A device that keeps running holds the stop in memory, whatever happens to the file.\<close>

interpretation running: stop_invariant k "\<lambda>io. True" False memory_stop for k
  by unfold_locales (auto simp: memory_stop_def cached_state_def persist_state_def split: sum.split option.split)

text \<open>A device that restarts holds it in the file, when a failed write leaves the file as it was and reads work.\<close>

definition file_works :: "gov_io \<Rightarrow> bool" where
  "file_works io \<longleftrightarrow> \<not> io_read_fails io \<and> writes_are_atomic io"

lemma trusted_cached:
  assumes "codec_ok k \<and> stop_holds k w" "file_works io"
  shows "(codec_ok k \<and> stop_holds k (fst (cached_state k io w))) \<and> stopped (snd (cached_state k io w))"
  using assms by (auto simp: file_works_def stop_holds_def cached_state_def load_state_def parse_state_with_repair_hint_def
      split: option.splits)

lemma trusted_written:
  assumes "codec_ok k \<and> stop_holds k w" "file_works io" "stopped st"
  shows "codec_ok k \<and> stop_holds k (fst (persist_state k io st (w\<lparr>tg_cache := Some st\<rparr>)))"
  using assms by (auto simp: persist_state_def stop_holds_def codec_ok_def file_works_def writes_are_atomic_def
      split: sum.split option.split)

interpretation filed: stop_invariant k file_works True "\<lambda>w. codec_ok k \<and> stop_holds k w" for k
  by unfold_locales (rule trusted_cached trusted_written, assumption+ | simp add: stop_holds_def)+

lemma set_stop_remembered:
  assumes "set_emergency_stop k io True reason w = (w1, Inr stop)"
  shows "memory_stop w1" "codec_ok k \<Longrightarrow> stop_holds k w1"
proof -
  obtain w0 st where c: "cached_state k io w = (w0, st)" by (cases "cached_state k io w")
  note e = with_state_mutE [OF assms [unfolded set_emergency_stop_def] c] stopped_steps(5) [of "io_now io" True reason st]
  show "memory_stop w1" using e by (auto simp: memory_stop_def)
  show "codec_ok k \<Longrightarrow> stop_holds k w1" using e by (auto simp: stop_holds_def codec_ok_def)
qed

text \<open>
  C13: the emergency stop. Once the operator's stop has been accepted, and until it is cleared, no call that changes
  anything or is of high risk is allowed, whatever operations follow, in any order. (1) As long as the device does not
  restart, this needs nothing of the file: reads and writes may fail and damage it. (2) With restarts between the
  operations it holds if the JSON library reads back what it wrote, the file can be read, and a write that fails leaves
  the file as it was, as the host's replacement of the file does. On a board, which writes the file in place, a failed
  write may cut it, and a restart then begins without the stop.
\<close>
theorem emergency_stop_holds:
  assumes "set_emergency_stop k io True reason w = (w1, Inr stop)"
    "\<And>io ev r. (io, ev) \<in> set evs \<Longrightarrow> ev \<noteq> EvStop False r"
    "(\<forall>(io, ev) \<in> set evs. ev \<noteq> EvRestart) \<or>
     (codec_ok k \<and> (\<forall>(io, ev) \<in> set evs. \<not> io_read_fails io \<and> writes_are_atomic io))"
    "permit \<in> set (snd (run_events k evs w1))"
  shows "\<not> is_mutating (ts_effect_class (tq_shape permit)) \<and> ts_risk_level (tq_shape permit) < RiskHigh"
proof -
  have "\<not> dangerous (tq_shape permit)"
    using assms(3)
  proof
    assume "\<forall>(io, ev) \<in> set evs. ev \<noteq> EvRestart"
    then show ?thesis
      using assms(2) by (intro running.run_events_keep [OF set_stop_remembered(1) [OF assms(1)] _ assms(4)]) auto
  next
    assume a: "codec_ok k \<and> (\<forall>(io, ev) \<in> set evs. \<not> io_read_fails io \<and> writes_are_atomic io)"
    then have "codec_ok k \<and> stop_holds k w1" using set_stop_remembered(2) [OF assms(1)] by blast
    then show ?thesis using assms(2) a by (intro filed.run_events_keep [OF _ _ assms(4)]) (auto simp: file_works_def)
  qed
  then show ?thesis by (auto simp: dangerous_def)
qed

text \<open>A codec for the states that the witness passes through: it writes whether the stop is active, and fails for other states.\<close>

definition stop_state :: ToolExecutionGovernanceState where
  "stop_state = fst (stop_step 100 True ''fire'' default_governance)"

definition reading_state :: ToolExecutionGovernanceState where
  "reading_state = fst (assess_step 100 reading_request stop_state)"

definition flag_codec :: gov_codec where
  "flag_codec = \<lparr>gc_strict = (\<lambda>raw. if raw = ''s'' then Some stop_state else if raw = ''r'' then Some reading_state else None),
     gc_first = (\<lambda>raw. None),
     gc_encode = (\<lambda>st. if st = stop_state then Inr ''s'' else if st = reading_state then Inr ''r'' else Inl ''unsupported'')\<rparr>"

lemma stop_not_reading: "gs_breakers stop_state = []" "es_active (gs_emergency_stop stop_state)"
  by (simp_all add: stop_state_def stop_step_def push_record_def default_governance_def Let_def)

theorem emergency_stop_holds_witness:
  "\<exists>w1 stop. set_emergency_stop flag_codec calm_io True ''fire'' fresh_governance = (w1, Inr stop) \<and>
     snd (run_events flag_codec [(calm_io, EvRestart), (calm_io, EvAssess reading_request)] w1) = [reading_request] \<and>
     \<not> is_mutating (ts_effect_class (tq_shape reading_request))"
proof -
  let ?w1 = "\<lparr>tg_file = Some ''s'', tg_backup = None, tg_cache = Some stop_state\<rparr>"
  have o: "codec_ok flag_codec" by (auto simp: codec_ok_def flag_codec_def split: if_splits)
  obtain stop where s: "set_emergency_stop flag_codec calm_io True ''fire'' fresh_governance = (?w1, Inr stop)"
    by (simp add: set_emergency_stop_def with_state_mut_def fresh_cached case_prod_beta persist_state_def flag_codec_def
        stop_state_def [symmetric]) (simp add: fresh_governance_def)
  have g: "denial_reason 100 reading_request stop_state = None"
    using stop_not_reading by (simp add: denial_reason_def breaker_for_tool_def reading_request_def metadata_task_def
        is_mutating_def less_eq_ToolRiskLevel_def)
  have c: "cached_state flag_codec calm_io (?w1\<lparr>tg_cache := None\<rparr>) = (?w1, stop_state)"
    by (simp add: cached_state_def load_state_def parse_state_with_repair_hint_def flag_codec_def)
  have r: "snd (run_events flag_codec [(calm_io, EvRestart), (calm_io, EvAssess reading_request)] ?w1) = [reading_request]"
    using g c by (simp add: assess_def with_state_mut_def)
      (simp add: assess_step_def reading_state_def persist_state_def flag_codec_def)
  let ?evs = "[(calm_io, EvRestart), (calm_io, EvAssess reading_request)]"
  have e: "ev \<noteq> EvStop False r" if "(io, ev) \<in> set ?evs" for io ev r using that by auto
  have f: "(\<forall>(io, ev) \<in> set ?evs. ev \<noteq> EvRestart) \<or>
      (codec_ok flag_codec \<and> (\<forall>(io, ev) \<in> set ?evs. \<not> io_read_fails io \<and> writes_are_atomic io))"
    using o by (simp add: writes_are_atomic_def)
  have m: "reading_request \<in> set (snd (run_events flag_codec ?evs ?w1))" unfolding r by simp
  have "\<not> is_mutating (ts_effect_class (tq_shape reading_request))"
    using emergency_stop_holds [OF s _ f m] e by blast
  then show ?thesis using s r by blast
qed

text \<open>The other limit: after a restart that finds a file cut by a failed write, the stop is gone.\<close>

theorem cut_file_loses_stop:
  assumes "tg_cache w = None" "tg_file w = Some raw" "\<not> io_read_fails io" "gc_strict k raw = None" "gc_first k raw = None"
  shows "\<not> stopped (snd (cached_state k io w))"
proof -
  have "\<not> stopped default_governance" "\<not> stopped (mark_file_repair now reason default_governance)" for now reason
    by (simp_all add: stopped_def default_governance_def mark_file_repair_def)
  then show ?thesis
    using assms by (simp add: cached_state_def load_state_def parse_state_with_repair_hint_def Let_def)
qed

text \<open>
  C40: the limit of the stop, a failed read. Loading takes a file that cannot be read for no file at all: after a
  restart during which the read fails, the state is the initial one, the operator's stop is gone, and the next
  operation, here a call of a tool that is not for the operator only, is allowed and writes that state over the file.
\<close>
theorem failed_read_clears_stop:
  assumes "tg_cache w = None" "io_read_fails io" "io_write_error io = None" "\<not> operator_only q" "\<not> intent_missing q"
    "gc_encode k (fst (assess_step (io_now io) q default_governance)) = Inr data"
  shows "\<exists>w'. assess k io q w = (w', Inr (GateAllow q)) \<and> tg_file w' = Some data \<and>
     (\<forall>st. tg_cache w' = Some st \<longrightarrow> \<not> es_active (gs_emergency_stop st))"
proof -
  have "gate_open (io_now io) q default_governance"
    using assms(4,5) by (simp add: gate_open_def breaker_open_def breaker_for_tool_def default_governance_def)
  then have g: "denial_reason (io_now io) q default_governance = None" by (simp add: denial_reason_iff)
  have "\<not> stopped (fst (assess_step (io_now io) q default_governance))"
    unfolding stopped_steps by (simp add: stopped_def default_governance_def)
  then show ?thesis
    using g assms(1-3,6)
    by (simp add: assess_def with_state_mut_def cached_state_def load_state_def assess_step_def persist_state_def stopped_def)
qed

theorem failed_read_clears_stop_witness:
  "\<exists>w'. assess letter_codec (calm_io\<lparr>io_read_fails := True\<rparr>) reading_request
      \<lparr>tg_file = Some ''s'', tg_backup = None, tg_cache = None\<rparr> = (w', Inr (GateAllow reading_request)) \<and> tg_file w' = Some ''d''"
proof -
  have "gate_open now reading_request default_governance" for now by (rule reading_open)
  then have "\<not> operator_only reading_request" "\<not> intent_missing reading_request" by (simp_all add: gate_open_def)
  then show ?thesis
    using failed_read_clears_stop [of "\<lparr>tg_file = Some ''s'', tg_backup = None, tg_cache = None\<rparr>"
        "calm_io\<lparr>io_read_fails := True\<rparr>" reading_request letter_codec "''d''"]
    by (auto simp: letter_codec_def)
qed

section \<open>Breakers\<close>

definition fresh_breaker :: "string \<Rightarrow> ToolCircuitBreakerState" where
  "fresh_breaker tool = \<lparr>tb_tool_name = tool, tb_consecutive_failures = 0, tb_last_failure_at = 0, tb_last_failure_reason = [],
     tb_tripped_until = 0\<rparr>"

definition breaker_or_fresh :: "ToolExecutionGovernanceState \<Rightarrow> string \<Rightarrow> ToolCircuitBreakerState" where
  "breaker_or_fresh st tool = (case breaker_for_tool st tool of Some br \<Rightarrow> br | None \<Rightarrow> fresh_breaker tool)"

lemma updated_breaker:
  assumes "\<And>br. tb_tool_name (f br) = tb_tool_name br"
  shows "breaker_for_tool (update_breaker_for_tool tool f st) u =
           (if u = tool then Some (f (breaker_or_fresh st tool)) else breaker_for_tool st u)"
    and "length (gs_breakers (update_breaker_for_tool tool f st)) =
           length (gs_breakers st) + (if breaker_for_tool st tool = None then 1 else 0)"
    and "distinct (map tb_tool_name (gs_breakers st)) \<Longrightarrow>
           distinct (map tb_tool_name (gs_breakers (update_breaker_for_tool tool f st)))"
proof -
  let ?bs = "gs_breakers st"
  have "(\<forall>u. breaker_for_tool (update_breaker_for_tool tool f st) u =
           (if u = tool then Some (f (breaker_or_fresh st tool)) else breaker_for_tool st u)) \<and>
      length (gs_breakers (update_breaker_for_tool tool f st)) = length ?bs + (if breaker_for_tool st tool = None then 1 else 0) \<and>
      (distinct (map tb_tool_name ?bs) \<longrightarrow> distinct (map tb_tool_name (gs_breakers (update_breaker_for_tool tool f st))))"
  proof (cases "position (\<lambda>br. tb_tool_name br = tool) ?bs")
    case None
    then have "lookup_by tb_tool_name tool ?bs = None" by (simp add: lookup_None_position)
    moreover from this have "tool \<notin> set (map tb_tool_name ?bs)" by (simp add: lookup_None)
    ultimately show ?thesis
      using None assms lookup_append_new [of tb_tool_name "f (fresh_breaker tool)" ?bs]
      by (simp add: update_breaker_for_tool_def breaker_for_tool_def breaker_or_fresh_def fresh_breaker_def)
  next
    case (Some i)
    have n: "tb_tool_name (f (?bs ! i)) = tool" using assms position_Some [OF Some] by simp
    show ?thesis using lookup_update [OF Some n]
      by (simp add: update_breaker_for_tool_def breaker_for_tool_def breaker_or_fresh_def Some)
  qed
  then show "breaker_for_tool (update_breaker_for_tool tool f st) u =
           (if u = tool then Some (f (breaker_or_fresh st tool)) else breaker_for_tool st u)"
    and "length (gs_breakers (update_breaker_for_tool tool f st)) =
           length (gs_breakers st) + (if breaker_for_tool st tool = None then 1 else 0)"
    and "distinct (map tb_tool_name (gs_breakers st)) \<Longrightarrow>
           distinct (map tb_tool_name (gs_breakers (update_breaker_for_tool tool f st)))"
    by blast+
qed

lemma breaker_push [simp]: "breaker_for_tool (push_record r st) = breaker_for_tool st" "gs_breakers (push_record r st) = gs_breakers st"
  by (simp_all add: breaker_for_tool_def push_record_def Let_def fun_eq_iff)

lemma failed_breaker_name: "tb_tool_name (failed_breaker now reason k cd br) = tb_tool_name br"
  by (simp add: failed_breaker_def Let_def)

definition room_for :: "string \<Rightarrow> ToolExecutionGovernanceState \<Rightarrow> bool" where
  "room_for tool st \<longleftrightarrow> length (gs_breakers st) + (if breaker_for_tool st tool = None then 1 else 0) \<le> TOOL_GOVERNANCE_MAX_BREAKERS"

definition failures :: "ToolExecutionPermit \<Rightarrow> (u64 \<times> u64 \<times> string) list \<Rightarrow> ToolExecutionGovernanceState
    \<Rightarrow> ToolExecutionGovernanceState" where
  "failures permit fs st = fold (\<lambda>(now, record_now, e) st. fst (failure_step now record_now permit e st)) fs st"

lemma failure_breaker:
  assumes "room_for (tq_tool_name permit) st" "breaker_policy_for_risk (ts_risk_level (tq_shape permit)) = Some (k, cd)"
  shows "breaker_for_tool (fst (failure_step now record_now permit e st)) (tq_tool_name permit) =
       Some (failed_breaker now (sanitize_text e TOOL_GOVERNANCE_REASON_MAX_CHARS) k cd (breaker_or_fresh st (tq_tool_name permit)))"
    and "room_for (tq_tool_name permit) (fst (failure_step now record_now permit e st))"
  using assms updated_breaker(1,2) [of "failed_breaker now (sanitize_text e TOOL_GOVERNANCE_REASON_MAX_CHARS) k cd" "tq_tool_name permit" st]
  by (auto simp: failure_step_def Let_def failed_breaker_name room_for_def prune_breakers_def)

lemma failures_breaker:
  assumes "room_for (tq_tool_name permit) st" "breaker_policy_for_risk (ts_risk_level (tq_shape permit)) = Some (k, cd)" "fs \<noteq> []"
  shows "room_for (tq_tool_name permit) (failures permit fs st) \<and>
    (\<exists>br. breaker_for_tool (failures permit fs st) (tq_tool_name permit) = Some br \<and>
       min 255 (length fs) \<le> unat (tb_consecutive_failures br) \<and>
       (k \<le> tb_consecutive_failures br \<longrightarrow> tb_tripped_until br = sat_add (fst (last fs)) cd))"
  using assms(3)
proof (induction fs rule: rev_nonempty_induct)
  case (single x)
  then show ?case
    using failure_breaker [OF assms(1,2), of "fst x" "fst (snd x)" "snd (snd x)"]
    by (auto simp: failures_def case_prod_beta failed_breaker_def Let_def unat_sat_add)
next
  case (snoc x fs)
  let ?st = "failures permit fs st"
  obtain br where b: "breaker_for_tool ?st (tq_tool_name permit) = Some br" "min 255 (length fs) \<le> unat (tb_consecutive_failures br)"
    and r: "room_for (tq_tool_name permit) ?st" using snoc.IH by blast
  have "failures permit (fs @ [x]) st = fst (failure_step (fst x) (fst (snd x)) permit (snd (snd x)) ?st)"
    by (simp add: failures_def case_prod_beta)
  then show ?case
    using failure_breaker [OF r assms(2), of "fst x" "fst (snd x)" "snd (snd x)"] b
    by (auto simp: failed_breaker_def Let_def unat_sat_add breaker_or_fresh_def)
qed

lemma cleared_breaker:
  assumes "length (gs_breakers st) \<le> TOOL_GOVERNANCE_MAX_BREAKERS" "breaker_for_tool (clear_breaker tool st) tool = Some br"
  shows "tb_tripped_until br = 0"
proof (cases "position (\<lambda>br. tb_tool_name br = tool) (gs_breakers st)")
  case None
  then have "lookup_by tb_tool_name tool (gs_breakers st) = None" by (simp add: lookup_None_position)
  then show ?thesis using assms None by (simp add: clear_breaker_def breaker_for_tool_def prune_breakers_def)
next
  case (Some i)
  let ?br = "(gs_breakers st ! i)\<lparr>tb_consecutive_failures := 0, tb_tripped_until := 0, tb_last_failure_reason := []\<rparr>"
  have n: "tb_tool_name ?br = tool" using position_Some [OF Some] by simp
  show ?thesis
    using assms lookup_update(1) [OF Some n, of tool] by (auto simp: clear_breaker_def breaker_for_tool_def prune_breakers_def Some)
qed

text \<open>
  C30: the breaker of a tool. The table has room for the tool: it has a breaker already and there are at most 32, or at
  most 31 others exist. When as many failures of the tool in a row are then recorded as its risk allows (four for
  medium, three for high, two for critical), the gate refuses every further call of it, whoever asks and in whatever
  shape, until the cooldown after the last of them has passed; one recorded success closes the breaker. Without room
  this fails: a new breaker that has not tripped is the first that the pruning of the table drops.
\<close>
theorem failing_tool_is_stopped:
  assumes "breaker_policy_for_risk (ts_risk_level (tq_shape permit)) = Some (k, cd)" "room_for (tq_tool_name permit) st"
    "unat k \<le> length fs" "tq_tool_name q = tq_tool_name permit" "now < sat_add (fst (last fs)) cd"
  shows "\<not> gate_open now q (failures permit fs st) \<and>
     \<not> breaker_open now (tq_tool_name permit) (fst (success_step t permit summary (failures permit fs st)))"
proof -
  have k: "0 < unat k" "unat k < 255" using assms(1) by (cases "ts_risk_level (tq_shape permit)"; auto)+
  then have ne: "fs \<noteq> []" using assms(3) by auto
  obtain br where b: "breaker_for_tool (failures permit fs st) (tq_tool_name permit) = Some br"
    "min 255 (length fs) \<le> unat (tb_consecutive_failures br)"
    "k \<le> tb_consecutive_failures br \<longrightarrow> tb_tripped_until br = sat_add (fst (last fs)) cd"
    and r: "room_for (tq_tool_name permit) (failures permit fs st)"
    using failures_breaker [OF assms(2,1) ne] by blast
  have "k \<le> tb_consecutive_failures br" using k b(2) assms(3) by (simp add: word_le_nat_alt)
  then have "breaker_open now (tq_tool_name q) (failures permit fs st)"
    using b assms(4,5) by (simp add: breaker_open_def tool_breaker_tripped_def)
  moreover have "\<not> breaker_open now (tq_tool_name permit) (fst (success_step t permit summary (failures permit fs st)))"
    using cleared_breaker [of "failures permit fs st" "tq_tool_name permit"] r
    by (fastforce simp: success_step_def breaker_open_def tool_breaker_tripped_def room_for_def)
  ultimately show ?thesis by (simp add: gate_open_def)
qed

lemma greatest_key_dropped:
  assumes "\<And>y. y \<in> set xs \<Longrightarrow> f y < f x"
  shows "set (take (length xs) (sort_key f (xs @ [x]))) \<subseteq> set xs"
proof -
  let ?ys = "sort_key f (xs @ [x])"
  have len: "length ?ys = Suc (length xs)" by simp
  then have ys: "?ys = butlast ?ys @ [last ?ys]" by (metis append_butlast_last_id list.size(3) nat.distinct(1))
  have last: "last ?ys = x"
  proof (rule ccontr)
    assume n: "last ?ys \<noteq> x"
    have m: "set ?ys = insert x (set xs)" by simp
    have l: "last ?ys \<in> set xs" using n m ys by (metis in_set_conv_decomp insert_iff)
    have "x \<in> set (butlast ?ys)" using n m ys by (metis Un_iff empty_iff insertI1 insertE list.set set_append)
    moreover have "sorted (map f (butlast ?ys @ [last ?ys]))" using ys sorted_sort_key [of f "xs @ [x]"] by simp
    ultimately have "f x \<le> f (last ?ys)" by (auto simp: sorted_append)
    then show False using assms [OF l] by simp
  qed
  have "mset (butlast ?ys) + {#x#} = mset xs + {#x#}" using ys last by (metis mset.simps mset_append mset_sort union_mset_add_mset_right add.right_neutral)
  moreover have "take (length xs) ?ys = butlast ?ys" using len by (simp add: butlast_conv_take)
  ultimately show ?thesis by (metis add_right_cancel mset_eq_setD order_refl)
qed

text \<open>
  The limit of the breakers. When 32 other tools have a breaker that has tripped at some time, even long ago, a failure of
  another tool leaves no trace among the breakers unless it trips at once, which no risk does; so that tool may fail
  again and again and is never stopped by a breaker.
\<close>
theorem full_table_forgets:
  assumes "length (gs_breakers st) = TOOL_GOVERNANCE_MAX_BREAKERS" "\<And>br. br \<in> set (gs_breakers st) \<Longrightarrow> 0 < tb_tripped_until br"
    "breaker_for_tool st (tq_tool_name permit) = None"
  shows "breaker_for_tool (fst (failure_step now record_now permit e st)) (tq_tool_name permit) = None"
proof (cases "breaker_policy_for_risk (ts_risk_level (tq_shape permit))")
  case (Some p)
  let ?t = "tq_tool_name permit"
  obtain k cd where p: "p = (k, cd)" by (cases p)
  have k: "1 < k" using Some p by (cases "ts_risk_level (tq_shape permit)") auto
  let ?br = "failed_breaker now (sanitize_text e TOOL_GOVERNANCE_REASON_MAX_CHARS) k cd (fresh_breaker ?t)"
  have z: "tb_tripped_until ?br = 0" "tb_tool_name ?br = ?t"
    using k by (simp_all add: failed_breaker_def fresh_breaker_def Let_def word_le_nat_alt word_less_nat_alt unat_sat_add)
  have n: "?t \<notin> tb_tool_name ` set (gs_breakers st)" and q: "position (\<lambda>br. tb_tool_name br = ?t) (gs_breakers st) = None"
    using assms(3) by (simp_all add: breaker_for_tool_def lookup_None flip: lookup_None_position)
  have "breaker_order y < breaker_order ?br" if "y \<in> set (gs_breakers st)" for y
    using assms(2) [OF that] z by (simp add: breaker_order_def word_less_def)
  from greatest_key_dropped [of "gs_breakers st" breaker_order ?br, OF this]
  have "set (take TOOL_GOVERNANCE_MAX_BREAKERS (sort_key breaker_order (gs_breakers st @ [?br]))) \<subseteq> set (gs_breakers st)"
    unfolding assms(1) by blast
  then have "?t \<notin> tb_tool_name ` set (take TOOL_GOVERNANCE_MAX_BREAKERS (sort_key breaker_order (gs_breakers st @ [?br])))"
    using n by blast
  then show ?thesis
    using Some p q assms(1) n
    by (simp add: failure_step_def prune_breakers_def update_breaker_for_tool_def fresh_breaker_def breaker_for_tool_def lookup_None Let_def)
qed (use assms(3) in \<open>simp add: failure_step_def\<close>)

definition writing_permit :: ToolExecutionPermit where
  "writing_permit = \<lparr>tq_tool_name = ''device_control'', tq_ingress = IngressUser, tq_channel = ''telegram'',
     tq_metadata = metadata_task,
     tq_shape = \<lparr>ts_operation = ''gpio'', ts_effect_class = HardwareActuation, ts_risk_level = RiskHigh,
       ts_approval_mode = Automatic, ts_approval_granted = True, ts_rollback_kind = NoRollback\<rparr>, tq_requires_network = False\<rparr>"

theorem failing_tool_is_stopped_witness:
  "\<not> gate_open 200 writing_permit (failures writing_permit [(100, 100, ''a''), (110, 110, ''b''), (120, 120, ''c'')] default_governance)"
  by (rule conjunct1 [OF failing_tool_is_stopped [where permit = writing_permit and k = 3 and cd = 900]])
    (simp_all add: writing_permit_def room_for_def default_governance_def TOOL_GOVERNANCE_MAX_BREAKERS_def
      breaker_for_tool_def sat_add_def word_less_nat_alt unat_word_ariths)

section \<open>Bounds\<close>

definition governance_bounded :: "ToolExecutionGovernanceState \<Rightarrow> bool" where
  "governance_bounded st \<longleftrightarrow> length (gs_recent_records st) \<le> TOOL_GOVERNANCE_MAX_RECORDS \<and>
     length (gs_breakers st) \<le> TOOL_GOVERNANCE_MAX_BREAKERS \<and> distinct (map tb_tool_name (gs_breakers st))"

lemma push_bounded: "governance_bounded st \<Longrightarrow> governance_bounded (push_record r st)"
  by (simp add: governance_bounded_def push_record_def Let_def)

lemma prune_bounded:
  assumes "length (gs_recent_records st) \<le> TOOL_GOVERNANCE_MAX_RECORDS" "distinct (map tb_tool_name (gs_breakers st))"
  shows "governance_bounded (prune_breakers st)"
proof -
  have "mset (map tb_tool_name (sort_key breaker_order (gs_breakers st))) = mset (map tb_tool_name (gs_breakers st))" by simp
  then have "distinct (map tb_tool_name (sort_key breaker_order (gs_breakers st)))"
    using assms(2) by (metis mset_eq_imp_distinct_iff)
  then show ?thesis using assms by (auto simp: governance_bounded_def prune_breakers_def simp flip: take_map)
qed

lemma clear_bounded: "governance_bounded st \<Longrightarrow> governance_bounded (clear_breaker tool st)"
proof -
  assume b: "governance_bounded st"
  show ?thesis
  proof (cases "position (\<lambda>br. tb_tool_name br = tool) (gs_breakers st)")
    case None
    have "governance_bounded (prune_breakers st)" using b prune_bounded [of st] by (simp add: governance_bounded_def)
    then show ?thesis by (simp add: clear_breaker_def None)
  next
    case (Some i)
    let ?br = "(gs_breakers st ! i)\<lparr>tb_consecutive_failures := 0, tb_tripped_until := 0, tb_last_failure_reason := []\<rparr>"
    have n: "tb_tool_name ?br = tool" using position_Some [OF Some] by simp
    have "governance_bounded (prune_breakers (st\<lparr>gs_breakers := (gs_breakers st)[i := ?br]\<rparr>))"
      using b lookup_update(2) [OF Some n] by (intro prune_bounded) (simp_all add: governance_bounded_def)
    then show ?thesis by (simp add: clear_breaker_def Some)
  qed
qed

lemma failed_update_bounded:
  "governance_bounded st \<Longrightarrow> governance_bounded (prune_breakers (update_breaker_for_tool tool (failed_breaker now reason k cd) st))"
  using updated_breaker(3) [of "failed_breaker now reason k cd" st tool]
  by (intro prune_bounded) (auto simp: governance_bounded_def failed_breaker_name update_breaker_for_tool_def split: option.split)

text \<open>
  The state stays bounded. Every operation keeps at most 48 audit records, the latest, and at most 32 breakers, no
  two of the same tool; so the file of a device that runs for years does not grow.
\<close>
theorem governance_stays_bounded:
  assumes "governance_bounded st"
  shows "governance_bounded (fst (assess_step now q st)) \<and> governance_bounded (fst (append_step now p s r m st)) \<and>
     governance_bounded (fst (success_step now p m st)) \<and> governance_bounded (fst (failure_step now now' p e st)) \<and>
     governance_bounded (fst (stop_step now active reason st))"
proof -
  have "governance_bounded (fst (stop_step now active reason st))"
    using push_bounded assms by (simp add: stop_step_def Let_def governance_bounded_def push_record_def)
  then show ?thesis using assms
    by (simp add: assess_step_def append_step_def success_step_def failure_step_def Let_def push_bounded clear_bounded
        failed_update_bounded case_prod_beta split: option.split)
qed

theorem governance_stays_bounded_witness:
  "governance_bounded (fst (failure_step 100 100 writing_permit ''boom'' default_governance))"
  using governance_stays_bounded [of default_governance]
  by (simp add: governance_bounded_def default_governance_def)

end
