(* ===== verification/Sse.thy ===== *)
theory Sse
  imports Chunk
begin

text \<open>
  The reader of event streams (\<open>src/src/llm/sse.rs\<close>), fed with the chunks of a response as they arrive. The
  code keeps its line in a fixed array; the position behind the last byte only serves to log an overlong
  line once, so the model keeps the stored bytes.
\<close>

section \<open>Strict UTF-8\<close>

text \<open>\<open>core::str::from_utf8\<close>, which refuses overlong forms, surrogates and code points beyond the last one.\<close>

definition second_byte_ok :: "char \<Rightarrow> string \<Rightarrow> bool" where
  "second_byte_ok c cs =
     (case cs of
        [] \<Rightarrow> True
      | d # _ \<Rightarrow> (c = CHR 0xE0 \<longrightarrow> 160 \<le> (of_char d :: nat)) \<and> (c = CHR 0xED \<longrightarrow> (of_char d :: nat) < 160)
          \<and> (c = CHR 0xF0 \<longrightarrow> 144 \<le> (of_char d :: nat)) \<and> (c = CHR 0xF4 \<longrightarrow> (of_char d :: nat) < 144))"

fun from_utf8 :: "string \<Rightarrow> bool" where
  "from_utf8 [] = True"
| "from_utf8 (c # cs) =
     (case utf8_width c of
        None \<Rightarrow> False
      | Some w \<Rightarrow> w - 1 \<le> length cs \<and> list_all is_continuation (take (w - 1) cs) \<and> second_byte_ok c cs
          \<and> from_utf8 (drop (w - 1) cs))"

section \<open>The reader\<close>

(* constants.rs: const SSE_LINE_BUF_SIZE *)
fun SSE_LINE_BUF_SIZE :: "target \<Rightarrow> nat" where
  "SSE_LINE_BUF_SIZE Esp = 6 * 1024"
| "SSE_LINE_BUF_SIZE Host = 16 * 1024"

(* llm/sse.rs: struct SseEvent *)
record SseEvent =
  se_event :: string
  se_data :: string

(* llm/sse.rs: struct SseLineReader *)
record SseLineReader =
  sr_line :: string
  sr_current_event :: string
  sr_current_data :: string
  sr_pending :: "SseEvent list"

(* llm/sse.rs: impl SseLineReader / fn new *)
definition sse_new :: SseLineReader where
  "sse_new = \<lparr>sr_line = [], sr_current_event = [], sr_current_data = [], sr_pending = []\<rparr>"

(* llm/sse.rs: impl SseLineReader / fn process_line *)
definition process_line :: "SseLineReader \<Rightarrow> SseLineReader" where
  "process_line r =
     (let line = sr_line r
      in if line = [] then
           (if sr_current_data r \<noteq> [] \<or> sr_current_event r \<noteq> []
            then r\<lparr>sr_pending := sr_pending r @ [\<lparr>se_event = sr_current_event r, se_data = sr_current_data r\<rparr>],
                   sr_current_event := [], sr_current_data := []\<rparr>
            else r)
         else if hd line = CHR '':'' then r
         else if \<not> from_utf8 line then r
         else case split_once (CHR '':'') line of
           None \<Rightarrow> r
         | Some (field, rest) \<Rightarrow>
             (let v = (if prefix '' '' rest then tl rest else rest)
              in if field = ''event'' then r\<lparr>sr_current_event := v\<rparr>
                 else if field = ''data''
                 then r\<lparr>sr_current_data := (if sr_current_data r \<noteq> [] then sr_current_data r @ [CHR 0x0A] else []) @ v\<rparr>
                 else r))"

(* llm/sse.rs: lines 49-68 one byte of feed *)
definition feed_byte :: "target \<Rightarrow> char \<Rightarrow> SseLineReader \<Rightarrow> SseLineReader" where
  "feed_byte t b r =
     (if b = CHR 0x0A \<or> b = CHR 0x0D then (process_line r)\<lparr>sr_line := []\<rparr>
      else if length (sr_line r) < SSE_LINE_BUF_SIZE t then r\<lparr>sr_line := sr_line r @ [b]\<rparr>
      else r)"

(* llm/sse.rs: impl SseLineReader / fn feed *)
definition feed :: "target \<Rightarrow> string \<Rightarrow> SseLineReader \<Rightarrow> SseLineReader" where
  "feed t chunk r = fold (feed_byte t) chunk r"

(* llm/sse.rs: impl SseLineReader / fn next_event *)
definition next_event :: "SseLineReader \<Rightarrow> SseEvent option \<times> SseLineReader" where
  "next_event r = (case sr_pending r of [] \<Rightarrow> (None, r) | e # es \<Rightarrow> (Some e, r\<lparr>sr_pending := es\<rparr>))"

text \<open>How the clients use it: after every chunk they take events until there is none.\<close>

function drain :: "SseLineReader \<Rightarrow> SseEvent list \<times> SseLineReader" where
  "drain r = (case next_event r of (None, r') \<Rightarrow> ([], r') | (Some e, r') \<Rightarrow> (let (es, r'') = drain r' in (e # es, r'')))"
  by pat_completeness auto
termination
  by (relation "measure (\<lambda>r. length (sr_pending r))") (auto simp: next_event_def split: list.splits)

declare drain.simps [simp del]

fun read_chunks :: "target \<Rightarrow> SseLineReader \<Rightarrow> string list \<Rightarrow> SseEvent list \<times> SseLineReader" where
  "read_chunks t r [] = ([], r)"
| "read_chunks t r (chunk # chunks) =
     (let (es, r1) = drain (feed t chunk r); (fs, r2) = read_chunks t r1 chunks in (es @ fs, r2))"

section \<open>Independence of the chunks\<close>

lemma drain_all: "drain r = (sr_pending r, r\<lparr>sr_pending := []\<rparr>)"
proof (induction r rule: drain.induct)
  case (1 r)
  then show ?case by (subst drain.simps) (auto simp: next_event_def split: list.splits)
qed

text \<open>The pending events are only written at the end, so taking some of them away does not change the rest.\<close>

lemma process_line_pending:
  "process_line (r\<lparr>sr_pending := ps\<rparr>) = (process_line (r\<lparr>sr_pending := []\<rparr>))\<lparr>sr_pending := ps @ sr_pending (process_line (r\<lparr>sr_pending := []\<rparr>))\<rparr>"
  by (simp add: process_line_def Let_def split: option.split)

lemma feed_byte_pending:
  "feed_byte t b (r\<lparr>sr_pending := ps\<rparr>) = (feed_byte t b (r\<lparr>sr_pending := []\<rparr>))\<lparr>sr_pending := ps @ sr_pending (feed_byte t b (r\<lparr>sr_pending := []\<rparr>))\<rparr>"
  using process_line_pending [where r = r and ps = ps] by (simp add: feed_byte_def)

lemma feed_pending:
  "feed t s (r\<lparr>sr_pending := ps\<rparr>) = (feed t s (r\<lparr>sr_pending := []\<rparr>))\<lparr>sr_pending := ps @ sr_pending (feed t s (r\<lparr>sr_pending := []\<rparr>))\<rparr>"
proof (induction s arbitrary: r ps)
  case (Cons b s)
  let ?r = "feed_byte t b (r\<lparr>sr_pending := []\<rparr>)"
  have "feed t s (feed_byte t b (r\<lparr>sr_pending := ps\<rparr>)) = feed t s (?r\<lparr>sr_pending := ps @ sr_pending ?r\<rparr>)"
    using feed_byte_pending [where r = r and ps = ps] by simp
  also have "\<dots> = (feed t s (?r\<lparr>sr_pending := []\<rparr>))\<lparr>sr_pending := ps @ sr_pending ?r @ sr_pending (feed t s (?r\<lparr>sr_pending := []\<rparr>))\<rparr>"
    using Cons.IH [where r = ?r and ps = "ps @ sr_pending ?r"] by simp
  also have "\<dots> = (feed t s ?r)\<lparr>sr_pending := ps @ sr_pending (feed t s ?r)\<rparr>"
    using Cons.IH [where r = ?r and ps = "sr_pending ?r"] by simp
  finally show ?case by (simp add: feed_def)
qed (simp add: feed_def)

lemma feed_append: "feed t (a @ b) r = feed t b (feed t a r)"
  by (simp add: feed_def)

lemma read_chunks_feed:
  "sr_pending r = [] \<Longrightarrow> read_chunks t r chunks = (sr_pending (feed t (concat chunks) r), (feed t (concat chunks) r)\<lparr>sr_pending := []\<rparr>)"
proof (induction chunks arbitrary: r)
  case (Cons c cs)
  let ?r = "feed t c r"
  have "feed t (concat cs) ?r = (feed t (concat cs) (?r\<lparr>sr_pending := []\<rparr>))\<lparr>sr_pending := sr_pending ?r @ sr_pending (feed t (concat cs) (?r\<lparr>sr_pending := []\<rparr>))\<rparr>"
    using feed_pending [where s = "concat cs" and r = ?r and ps = "sr_pending ?r"] by simp
  then show ?case using Cons.IH [of "?r\<lparr>sr_pending := []\<rparr>"] by (simp add: drain_all feed_append)
qed (simp add: feed_def)

section \<open>Reading back what was written\<close>

definition sse_line :: "string \<Rightarrow> string \<Rightarrow> string" where
  "sse_line field v = field @ '': '' @ v @ [CHR 0x0A]"

definition render_event :: "SseEvent \<Rightarrow> string" where
  "render_event e =
     (if se_event e = [] then [] else sse_line ''event'' (se_event e))
     @ (if se_data e = [] then [] else concat (map (sse_line ''data'') (split_on (CHR 0x0A) (se_data e)))) @ [CHR 0x0A]"

text \<open>A value that fits a line of the reader.\<close>

definition value_ok :: "target \<Rightarrow> string \<Rightarrow> bool" where
  "value_ok t v \<longleftrightarrow> CHR 0x0A \<notin> set v \<and> CHR 0x0D \<notin> set v \<and> from_utf8 v \<and> length v + 7 \<le> SSE_LINE_BUF_SIZE t"

definition event_ok :: "target \<Rightarrow> SseEvent \<Rightarrow> bool" where
  "event_ok t e \<longleftrightarrow> (se_event e \<noteq> [] \<or> se_data e \<noteq> []) \<and> value_ok t (se_event e) \<and>
     list_all (value_ok t) (split_on (CHR 0x0A) (se_data e)) \<and> (se_data e = [] \<or> hd (se_data e) \<noteq> CHR 0x0A)"

lemma feed_plain:
  "\<forall>c \<in> set s. c \<noteq> CHR 0x0A \<and> c \<noteq> CHR 0x0D \<Longrightarrow> length (sr_line r) + length s \<le> SSE_LINE_BUF_SIZE t \<Longrightarrow>
   feed t s r = r\<lparr>sr_line := sr_line r @ s\<rparr>"
proof (induction s arbitrary: r)
  case (Cons c s)
  have "feed_byte t c r = r\<lparr>sr_line := sr_line r @ [c]\<rparr>" using Cons.prems by (simp add: feed_byte_def)
  then show ?case using Cons.IH [of "r\<lparr>sr_line := sr_line r @ [c]\<rparr>"] Cons.prems by (simp add: feed_def)
qed (simp add: feed_def)

lemma from_utf8_ascii: "(of_char c :: nat) < 128 \<Longrightarrow> from_utf8 (c # s) = from_utf8 s"
  by (cases s) (auto simp: utf8_width_def Let_def second_byte_ok_def)

definition put_event :: "string \<Rightarrow> SseLineReader \<Rightarrow> SseLineReader" where
  "put_event v r = r\<lparr>sr_current_event := v\<rparr>"

definition put_data :: "string \<Rightarrow> SseLineReader \<Rightarrow> SseLineReader" where
  "put_data v r = r\<lparr>sr_current_data := (if sr_current_data r \<noteq> [] then sr_current_data r @ [CHR 0x0A] else []) @ v\<rparr>"

lemma process_field:
  assumes "from_utf8 v"
  shows "process_line (r\<lparr>sr_line := ''event: '' @ v\<rparr>) = (put_event v r)\<lparr>sr_line := ''event: '' @ v\<rparr>"
    and "process_line (r\<lparr>sr_line := ''data: '' @ v\<rparr>) = (put_data v r)\<lparr>sr_line := ''data: '' @ v\<rparr>"
  using assms by (simp_all add: process_line_def from_utf8_ascii split_once_def put_event_def put_data_def del: from_utf8.simps)

lemma feed_line:
  assumes "sr_line r = []" "value_ok t v"
  shows "feed t (sse_line ''event'' v) r = put_event v r" and "feed t (sse_line ''data'' v) r = put_data v r"
proof -
  have l: "feed t (p @ v @ [CHR 0x0A]) r = (process_line (r\<lparr>sr_line := p @ v\<rparr>))\<lparr>sr_line := []\<rparr>"
    if "\<forall>c \<in> set p. c \<noteq> CHR 0x0A \<and> c \<noteq> CHR 0x0D" "length p \<le> 7" for p
  proof -
    have "feed t (p @ v) r = r\<lparr>sr_line := p @ v\<rparr>"
      using feed_plain [of "p @ v" r t] assms that by (auto simp: value_ok_def)
    then have "feed t ((p @ v) @ [CHR 0x0A]) r = feed_byte t (CHR 0x0A) (r\<lparr>sr_line := p @ v\<rparr>)"
      by (simp only: feed_append) (simp add: feed_def)
    then show ?thesis by (simp add: feed_byte_def)
  qed
  have u: "from_utf8 v" using assms(2) by (simp add: value_ok_def)
  have c: "(put_event v r)\<lparr>sr_line := []\<rparr> = put_event v r" "(put_data v r)\<lparr>sr_line := []\<rparr> = put_data v r"
    using assms(1) by (simp_all add: put_event_def put_data_def)
  show "feed t (sse_line ''event'' v) r = put_event v r"
    using l [of "''event: ''"] process_field(1) [OF u, of r] c(1) by (simp add: sse_line_def)
  show "feed t (sse_line ''data'' v) r = put_data v r"
    using l [of "''data: ''"] process_field(2) [OF u, of r] c(2) by (simp add: sse_line_def)
qed

lemma feed_data_lines:
  assumes "sr_line r = []" "list_all (value_ok t) (v # vs)" "sr_current_data r \<noteq> [] \<or> v \<noteq> []"
  shows "feed t (concat (map (sse_line ''data'') (v # vs))) r =
     r\<lparr>sr_current_data := (if sr_current_data r \<noteq> [] then sr_current_data r @ [CHR 0x0A] else []) @ join_newline (v # vs)\<rparr>"
  using assms
proof (induction vs arbitrary: r v)
  case Nil
  then show ?case by (simp add: feed_line put_data_def)
next
  case (Cons w ws)
  have "feed t (concat (map (sse_line ''data'') (w # ws))) (put_data v r) =
      (put_data v r)\<lparr>sr_current_data := (sr_current_data (put_data v r) @ [CHR 0x0A]) @ join_newline (w # ws)\<rparr>"
    using Cons.IH [of "put_data v r" w] Cons.prems by (auto simp: put_data_def)
  then show ?case using Cons.prems feed_line(2) [of r t v]
    by (simp add: feed_append) (simp add: put_data_def)
qed

lemma split_on_hd: "hd (split_on c (x # xs)) = [] \<longleftrightarrow> x = c"
  using split_on_nonempty [of c xs] by (auto split: list.split)

lemma feed_event:
  assumes "event_ok t e" "sr_line r = []" "sr_current_event r = []" "sr_current_data r = []"
  shows "feed t (render_event e) r = r\<lparr>sr_pending := sr_pending r @ [e]\<rparr>"
proof -
  let ?r1 = "r\<lparr>sr_current_event := se_event e\<rparr>" and ?ls = "split_on (CHR 0x0A) (se_data e)"
  have e: "feed t (if se_event e = [] then [] else sse_line ''event'' (se_event e)) r = ?r1"
    using assms feed_line(1) [of r t "se_event e"] by (auto simp: feed_def put_event_def event_ok_def)
  have d: "feed t (if se_data e = [] then [] else concat (map (sse_line ''data'') ?ls)) ?r1 = ?r1\<lparr>sr_current_data := se_data e\<rparr>"
  proof (cases "se_data e")
    case Nil
    then show ?thesis using assms(4) by (simp add: feed_def)
  next
    case (Cons c cs)
    obtain l ls where l: "?ls = l # ls" using split_on_nonempty by (meson list.exhaust)
    have "l \<noteq> []" using split_on_hd [of "CHR 0x0A" c cs] l Cons assms(1) by (simp add: event_ok_def)
    moreover have "list_all (value_ok t) (l # ls)" using assms(1) l by (simp add: event_ok_def)
    ultimately have "feed t (concat (map (sse_line ''data'') (l # ls))) ?r1 = ?r1\<lparr>sr_current_data := join_newline (l # ls)\<rparr>"
      using feed_data_lines [of ?r1 t l ls] assms(2,4) by simp
    moreover have "join_newline (l # ls) = se_data e" using join_split_on [of "CHR 0x0A" "se_data e"] l by simp
    ultimately show ?thesis using Cons l by (simp del: split_on.simps)
  qed
  have "feed_byte t (CHR 0x0A) (?r1\<lparr>sr_current_data := se_data e\<rparr>) = r\<lparr>sr_pending := sr_pending r @ [e]\<rparr>"
    using assms by (auto simp: feed_byte_def process_line_def event_ok_def)
  then show ?thesis
    by (simp add: render_event_def feed_append e d) (simp add: feed_def)
qed

lemma feed_events:
  assumes "list_all (event_ok t) es" "sr_line r = []" "sr_current_event r = []" "sr_current_data r = []"
  shows "feed t (concat (map render_event es)) r = r\<lparr>sr_pending := sr_pending r @ es\<rparr>"
  using assms
proof (induction es arbitrary: r)
  case (Cons e es)
  then show ?case by (simp add: feed_append feed_event)
qed (simp add: feed_def)

text \<open>
  C23: reading an event stream. Events written as the format prescribes, with line feeds, come out of the
  reader exactly as they were, in order and none twice, however the network cuts the bytes into chunks,
  as long as every line fits the buffer and no data starts with an empty line.
\<close>
theorem sse_roundtrip:
  assumes "list_all (event_ok t) es" "concat chunks = concat (map render_event es)"
  shows "fst (read_chunks t sse_new chunks) = es"
  using feed_events [OF assms(1), of sse_new] assms(2)
  by (simp add: read_chunks_feed sse_new_def)

text \<open>Two events cut in the middle of a field.\<close>

theorem sse_roundtrip_witness:
  "fst (read_chunks Esp sse_new [''event: pi'', ''ng'' @ [CHR 0x0A] @ ''data: a'' @ [CHR 0x0A], [CHR 0x0A]])
     = [\<lparr>se_event = ''ping'', se_data = ''a''\<rparr>]"
  by (rule sse_roundtrip) (simp_all add: event_ok_def value_ok_def render_event_def sse_line_def utf8_width_def second_byte_ok_def)

section \<open>Carriage returns\<close>

text \<open>
  The limit of the reader, streams with carriage returns. The two bytes that end a line in such a stream
  count as the end of the line and an empty line, so an event that has a name and data is cut in two: one event with
  the name and no data, and one with the data and no name.
\<close>
theorem crlf_splits_event:
  assumes "value_ok t name" "value_ok t d" "name \<noteq> []" "d \<noteq> []"
  shows "sr_pending (feed t (''event: '' @ name @ [CHR 0x0D, CHR 0x0A] @ ''data: '' @ d @ [CHR 0x0D, CHR 0x0A, CHR 0x0D, CHR 0x0A]) sse_new)
       = [\<lparr>se_event = name, se_data = []\<rparr>, \<lparr>se_event = [], se_data = d\<rparr>]"
proof -
  have cr: "feed t (p @ v @ [CHR 0x0D]) r = feed t (p @ v @ [CHR 0x0A]) r" for p v r
    by (simp add: feed_append) (simp add: feed_def feed_byte_def)
  have e: "feed t (''event: '' @ name @ [CHR 0x0D]) r = put_event name r" if "sr_line r = []" for r
    using cr [of "''event: ''" name r] feed_line(1) [OF that assms(1)] by (simp add: sse_line_def)
  have d: "feed t (''data: '' @ d @ [CHR 0x0D]) r = put_data d r" if "sr_line r = []" for r
    using cr [of "''data: ''" d r] feed_line(2) [OF that assms(2)] by (simp add: sse_line_def)
  have s: "''event: '' @ name @ [CHR 0x0D, CHR 0x0A] @ ''data: '' @ d @ [CHR 0x0D, CHR 0x0A, CHR 0x0D, CHR 0x0A]
      = (''event: '' @ name @ [CHR 0x0D]) @ [CHR 0x0A] @ (''data: '' @ d @ [CHR 0x0D]) @ [CHR 0x0A, CHR 0x0D, CHR 0x0A]" by simp
  let ?r1 = "sse_new\<lparr>sr_pending := [\<lparr>se_event = name, se_data = []\<rparr>]\<rparr>"
  have "feed t [CHR 0x0A] (put_event name sse_new) = ?r1"
    using assms(3) by (simp add: feed_def feed_byte_def process_line_def put_event_def sse_new_def)
  moreover have "sr_pending (feed t [CHR 0x0A, CHR 0x0D, CHR 0x0A] (put_data d ?r1))
      = [\<lparr>se_event = name, se_data = []\<rparr>, \<lparr>se_event = [], se_data = d\<rparr>]"
    using assms(4) by (simp add: feed_def feed_byte_def process_line_def put_data_def sse_new_def)
  ultimately show ?thesis
    unfolding s feed_append [of t "''event: '' @ name @ [CHR 0x0D]"] feed_append [of t "[CHR 0x0A]"]
      feed_append [of t "''data: '' @ d @ [CHR 0x0D]"]
    using e [of sse_new] d [of ?r1] by (simp add: sse_new_def)
qed

theorem crlf_splits_event_witness:
  "length (sr_pending (feed Esp (''event: '' @ ''ping'' @ [CHR 0x0D, CHR 0x0A] @ ''data: '' @ ''a'' @ [CHR 0x0D, CHR 0x0A, CHR 0x0D, CHR 0x0A]) sse_new)) = 2"
  by (subst crlf_splits_event) (simp_all add: value_ok_def utf8_width_def second_byte_ok_def)

end
