(* ===== verification/Llm_Stream.thy ===== *)
theory Llm_Stream
  imports Sse
begin

text \<open>
  Model responses (\<open>src/src/llm/types.rs\<close>, \<open>anthropic.rs\<close>, \<open>openai_compatible.rs\<close>): the reply as one body, and the
  accumulators that build it from the events of a stream. The JSON library reads a text into the tokens of its
  fields and is a parameter; the fields of the stream types are borrowed strings, which the library only
  yields for a token without an escape, because there is no such text in the input otherwise.
\<close>

section \<open>Responses\<close>

(* llm/types.rs: enum StopReason *)
datatype StopReason = EndTurn | ToolUse | MaxTokens | StopOther

(* llm/types.rs: struct ToolCall *)
record ToolCall =
  tl_id :: string
  tl_name :: string
  tl_input :: string

(* llm/types.rs: struct LlmResponse *)
record LlmResponse =
  lr_content :: string
  lr_stop_reason :: StopReason
  lr_tool_calls :: "ToolCall list option"

text \<open>Common to every end of a reply: calls that are there force the reason.\<close>

definition response_of :: "string \<Rightarrow> StopReason \<Rightarrow> ToolCall list \<Rightarrow> LlmResponse" where
  "response_of content stop_reason calls =
     \<lparr>lr_content = content,
      lr_stop_reason = (if calls \<noteq> [] \<and> stop_reason \<noteq> ToolUse then ToolUse else stop_reason),
      lr_tool_calls = (if calls = [] then None else Some calls)\<rparr>"

(* llm/types.rs: struct AnthropicContentBlock *)
record AnthropicContentBlock =
  ab_block_type :: string
  ab_block_text :: "string option"
  ab_block_id :: "string option"
  ab_block_name :: "string option"
  ab_block_input :: "string option"

definition unwrap_or :: "'a option \<Rightarrow> 'a \<Rightarrow> 'a" where
  "unwrap_or r d = (case r of Some x \<Rightarrow> x | None \<Rightarrow> d)"

text \<open>The input of a block stands for the text that printing it gives.\<close>

(* llm/types.rs: lines 100-115 one block of from_anthropic *)
definition add_block :: "AnthropicContentBlock \<Rightarrow> string \<times> ToolCall list \<Rightarrow> string \<times> ToolCall list" where
  "add_block b acc =
     (case acc of (content, calls) \<Rightarrow>
        if ab_block_type b = ''text'' then
          (case ab_block_text b of
             Some s \<Rightarrow> ((if content \<noteq> [] then content @ [CHR 0x0A] else []) @ s, calls)
           | None \<Rightarrow> (content, calls))
        else if ab_block_type b = ''tool_use'' then
          (content, calls @ [\<lparr>tl_id = unwrap_or (ab_block_id b) [], tl_name = unwrap_or (ab_block_name b) [],
                              tl_input = unwrap_or (ab_block_input b) ''{}''\<rparr>])
        else (content, calls))"

(* llm/types.rs: impl LlmResponse / fn from_anthropic *)
definition from_anthropic :: "AnthropicContentBlock list \<Rightarrow> StopReason option \<Rightarrow> LlmResponse" where
  "from_anthropic blocks stop_reason =
     (case fold add_block blocks ([], []) of (content, calls) \<Rightarrow> response_of content (unwrap_or stop_reason StopOther) calls)"

section \<open>Borrowed strings\<close>

text \<open>
  A string of a JSON text is the token between its quotes. Its characters are themselves, except the backslash, which
  starts an escape, and the quote and the control characters, which a token cannot hold. The second
  argument is the text that the token stands for.
\<close>

definition plain_json_char :: "char \<Rightarrow> bool" where
  "plain_json_char c \<longleftrightarrow> c \<noteq> CHR 0x5C \<and> c \<noteq> CHR 0x22 \<and> 32 \<le> (of_char c :: nat)"

inductive json_token :: "string \<Rightarrow> string \<Rightarrow> bool" where
  token_nil: "json_token [] []"
| token_plain: "plain_json_char c \<Longrightarrow> json_token r s \<Longrightarrow> json_token (c # r) (c # s)"
| token_short: "List.member [CHR 0x22, CHR 0x5C, CHR ''/'', CHR ''b'', CHR ''f'', CHR ''n'', CHR ''r'', CHR ''t''] e \<Longrightarrow>
    json_token r s \<Longrightarrow> json_token (CHR 0x5C # e # r) (d # s)"
| token_unicode: "length h = 4 \<Longrightarrow> json_token r s \<Longrightarrow> json_token (CHR 0x5C # CHR ''u'' # h @ r) (u @ s)"

definition borrowed_str :: "string \<Rightarrow> string option" where
  "borrowed_str raw = (if CHR 0x5C \<in> set raw then None else Some raw)"

text \<open>An optional field: \<open>None\<close> outside is a failure, inside an absent field.\<close>

definition borrowed_field :: "string option \<Rightarrow> string option option" where
  "borrowed_field raw = (case raw of None \<Rightarrow> Some None | Some r \<Rightarrow> map_option Some (borrowed_str r))"

lemma token_without_escape: "json_token r s \<Longrightarrow> CHR 0x5C \<notin> set r \<Longrightarrow> r = s \<and> (\<forall>c \<in> set s. plain_json_char c)"
  by (induction rule: json_token.induct) auto

section \<open>The stream of the Messages API\<close>

text \<open>
  What the JSON of an event holds, field by field as tokens: the block that starts (type, id, name), a delta (type,
  text, partial JSON), and the reason in a message delta. The outer option is a text that is not of that shape, the inner one an
  absent object.
\<close>

record anthropic_json =
  aj_block :: "string \<Rightarrow> (string \<times> string option \<times> string option) option option"
  aj_delta :: "string \<Rightarrow> (string \<times> string option \<times> string option) option option"
  aj_message :: "string \<Rightarrow> string option option option"

text \<open>Three strings that are borrowed together: one that is not makes the whole event unreadable.\<close>

definition borrowed_triple :: "string \<times> string option \<times> string option \<Rightarrow> (string \<times> string option \<times> string option) option" where
  "borrowed_triple p =
     (case p of (a, b, c) \<Rightarrow>
        (case (borrowed_str a, borrowed_field b, borrowed_field c) of
           (Some a', Some b', Some c') \<Rightarrow> Some (a', b', c')
         | _ \<Rightarrow> None))"

(* llm/anthropic.rs: struct ToolCallBuilder *)
record ToolCallBuilder =
  tcb_id :: string
  tcb_name :: string
  tcb_input_json :: string

(* llm/anthropic.rs: struct AnthropicStreamAccumulator *)
record AnthropicStreamAccumulator =
  sa_content :: string
  sa_stop_reason :: StopReason
  sa_tool_calls :: "ToolCallBuilder list"

(* llm/anthropic.rs: impl AnthropicStreamAccumulator / fn new *)
definition anthropic_new :: AnthropicStreamAccumulator where
  "anthropic_new = \<lparr>sa_content = [], sa_stop_reason = StopOther, sa_tool_calls = []\<rparr>"

definition stop_reason_of :: "string \<Rightarrow> StopReason" where
  "stop_reason_of s =
     (if s = ''end_turn'' then EndTurn else if s = ''tool_use'' then ToolUse else if s = ''max_tokens'' then MaxTokens
      else StopOther)"

(* llm/anthropic.rs: lines 352-365 the start of a block *)
definition on_block_start :: "anthropic_json \<Rightarrow> string \<Rightarrow> AnthropicStreamAccumulator \<Rightarrow> AnthropicStreamAccumulator" where
  "on_block_start j data acc =
     (case aj_block j data of
        Some (Some p) \<Rightarrow>
          (case borrowed_triple p of
             Some (block_type, id', name) \<Rightarrow>
               (if block_type = ''tool_use''
                then acc\<lparr>sa_tool_calls := sa_tool_calls acc @
                       [\<lparr>tcb_id = unwrap_or id' [], tcb_name = unwrap_or name [], tcb_input_json = []\<rparr>]\<rparr>
                else acc)
           | None \<Rightarrow> acc)
      | _ \<Rightarrow> acc)"

(* llm/anthropic.rs: lines 366-388 a delta *)
definition on_block_delta :: "anthropic_json \<Rightarrow> string \<Rightarrow> AnthropicStreamAccumulator
    \<Rightarrow> AnthropicStreamAccumulator \<times> string option" where
  "on_block_delta j data acc =
     (case aj_delta j data of
        Some (Some p) \<Rightarrow>
          (case borrowed_triple p of
             Some (delta_type, delta_text, partial) \<Rightarrow>
               (if delta_type = ''text_delta'' then
                  (case delta_text of
                     Some s \<Rightarrow> (acc\<lparr>sa_content := sa_content acc @ s\<rparr>, Some s)
                   | None \<Rightarrow> (acc, None))
                else if delta_type = ''input_json_delta'' then
                  (case partial of
                     Some s \<Rightarrow>
                       (if sa_tool_calls acc = [] then (acc, None)
                        else let tc = last (sa_tool_calls acc)
                             in (acc\<lparr>sa_tool_calls := butlast (sa_tool_calls acc) @
                                   [tc\<lparr>tcb_input_json := tcb_input_json tc @ s\<rparr>]\<rparr>, None))
                   | None \<Rightarrow> (acc, None))
                else (acc, None))
           | None \<Rightarrow> (acc, None))
      | _ \<Rightarrow> (acc, None))"

(* llm/anthropic.rs: lines 389-403 a message delta *)
definition on_message_delta :: "anthropic_json \<Rightarrow> string \<Rightarrow> AnthropicStreamAccumulator \<Rightarrow> AnthropicStreamAccumulator" where
  "on_message_delta j data acc =
     (case aj_message j data of
        Some (Some raw) \<Rightarrow>
          (case borrowed_field raw of
             Some (Some s) \<Rightarrow> acc\<lparr>sa_stop_reason := stop_reason_of s\<rparr>
           | _ \<Rightarrow> acc)
      | _ \<Rightarrow> acc)"

(* llm/anthropic.rs: impl AnthropicStreamAccumulator / fn handle_event_value *)
definition handle_event_value :: "anthropic_json \<Rightarrow> string \<Rightarrow> string \<Rightarrow> AnthropicStreamAccumulator
    \<Rightarrow> AnthropicStreamAccumulator \<times> string option" where
  "handle_event_value j event_type data acc =
     (if event_type = ''content_block_start'' then (on_block_start j data acc, None)
      else if event_type = ''content_block_delta'' then on_block_delta j data acc
      else if event_type = ''message_delta'' then (on_message_delta j data acc, None)
      else (acc, None))"

(* llm/anthropic.rs: impl AnthropicStreamAccumulator / fn finish *)
definition anthropic_finish :: "AnthropicStreamAccumulator \<Rightarrow> LlmResponse" where
  "anthropic_finish acc =
     response_of (sa_content acc) (sa_stop_reason acc)
       (map (\<lambda>tc. \<lparr>tl_id = tcb_id tc, tl_name = tcb_name tc,
                    tl_input = (if tcb_input_json tc = [] then ''{}'' else tcb_input_json tc)\<rparr>) (sa_tool_calls acc))"

text \<open>The callback of the request with the progress it reports: each new text and the text so far.\<close>

type_synonym 'a progress = "'a \<times> (string \<times> string) list"

(* llm/anthropic.rs: lines 472-478 one event of the stream *)
definition anthropic_event :: "anthropic_json \<Rightarrow> SseEvent \<Rightarrow> AnthropicStreamAccumulator progress
    \<Rightarrow> AnthropicStreamAccumulator progress" where
  "anthropic_event j e s =
     (case handle_event_value j (se_event e) (se_data e) (fst s) of
        (acc, Some delta) \<Rightarrow> (acc, snd s @ [(delta, sa_content acc)])
      | (acc, None) \<Rightarrow> (acc, snd s))"

section \<open>The stream of chat completions\<close>

text \<open>A chunk as tokens: for each choice the reason, and the delta with its text and its pieces of tool calls.\<close>

(* llm/openai_compatible.rs: lines 431-442 a piece of a tool call *)
record call_tokens =
  ck_index :: "nat option"
  ck_id :: "string option"
  ck_function :: "(string option \<times> string option) option"

(* llm/openai_compatible.rs: lines 418-429 a choice *)
record choice_tokens =
  ch_finish_reason :: "string option"
  ch_delta :: "(string option \<times> call_tokens list option) option"

type_synonym openai_json = "string \<Rightarrow> choice_tokens list option"

definition borrowable :: "string option \<Rightarrow> bool" where
  "borrowable raw \<longleftrightarrow> borrowed_field raw \<noteq> None"

definition choice_borrowable :: "choice_tokens \<Rightarrow> bool" where
  "choice_borrowable c \<longleftrightarrow> borrowable (ch_finish_reason c) \<and>
     (case ch_delta c of
        None \<Rightarrow> True
      | Some (content, calls) \<Rightarrow> borrowable content \<and>
          (case calls of
             None \<Rightarrow> True
           | Some cs \<Rightarrow> list_all (\<lambda>k. borrowable (ck_id k) \<and>
                (case ck_function k of None \<Rightarrow> True | Some (n, a) \<Rightarrow> borrowable n \<and> borrowable a)) cs))"

text \<open>The deserialised chunk has the tokens themselves as its strings, when all of them can be borrowed.\<close>

(* llm/openai_compatible.rs: lines 411-416 the chunk and its borrowed strings *)
definition openai_chunk :: "openai_json \<Rightarrow> string \<Rightarrow> choice_tokens list option" where
  "openai_chunk j data =
     (case j data of Some choices \<Rightarrow> if list_all choice_borrowable choices then Some choices else None | None \<Rightarrow> None)"

(* llm/openai_compatible.rs: struct OpenAiToolCallBuilder *)
record OpenAiToolCallBuilder =
  ot_id :: string
  ot_name :: string
  ot_arguments :: string

(* llm/openai_compatible.rs: struct OpenAiStreamAccumulator *)
record OpenAiStreamAccumulator =
  oa_content :: string
  oa_stop_reason :: StopReason
  oa_tool_calls :: "OpenAiToolCallBuilder list"

(* llm/openai_compatible.rs: impl OpenAiStreamAccumulator / fn new *)
definition openai_new :: OpenAiStreamAccumulator where
  "openai_new = \<lparr>oa_content = [], oa_stop_reason = StopOther, oa_tool_calls = []\<rparr>"

(* llm/openai_compatible.rs: fn finish_reason_to_stop_reason *)
definition finish_reason_to_stop_reason :: "string option \<Rightarrow> StopReason" where
  "finish_reason_to_stop_reason s =
     (if s = Some ''stop'' then EndTurn else if s = Some ''tool_calls'' then ToolUse
      else if s = Some ''length'' then MaxTokens else StopOther)"

definition MAX_TOOL_CALL_INDEX :: nat where
  "MAX_TOOL_CALL_INDEX = 128"

definition empty_builder :: OpenAiToolCallBuilder where
  "empty_builder = \<lparr>ot_id = [], ot_name = [], ot_arguments = []\<rparr>"

(* llm/openai_compatible.rs: lines 488-516 a piece of a tool call *)
definition add_call :: "call_tokens \<Rightarrow> OpenAiToolCallBuilder list \<Rightarrow> OpenAiToolCallBuilder list" where
  "add_call k calls =
     (let index = unwrap_or (ck_index k) 0
      in if MAX_TOOL_CALL_INDEX < index then calls
         else let calls1 = calls @ replicate (Suc index - length calls) empty_builder;
                  b = calls1 ! index;
                  b1 = (case ck_id k of Some i \<Rightarrow> b\<lparr>ot_id := i\<rparr> | None \<Rightarrow> b);
                  b2 = (case ck_function k of
                          None \<Rightarrow> b1
                        | Some (name, args) \<Rightarrow> b1\<lparr>ot_name := ot_name b1 @ unwrap_or name [],
                                                ot_arguments := ot_arguments b1 @ unwrap_or args []\<rparr>)
              in calls1[index := b2])"

(* llm/openai_compatible.rs: lines 471-519 one choice of handle_chunk *)
definition add_choice :: "choice_tokens \<Rightarrow> OpenAiStreamAccumulator \<times> string option
    \<Rightarrow> OpenAiStreamAccumulator \<times> string option" where
  "add_choice c s =
     (case s of (acc, delta_text) \<Rightarrow>
        let acc1 = (case ch_finish_reason c of
                      Some fr \<Rightarrow> acc\<lparr>oa_stop_reason := finish_reason_to_stop_reason (Some fr)\<rparr>
                    | None \<Rightarrow> acc)
        in case ch_delta c of
             None \<Rightarrow> (acc1, delta_text)
           | Some (content, calls) \<Rightarrow>
               (let s1 = (case content of
                            Some x \<Rightarrow> (acc1\<lparr>oa_content := oa_content acc1 @ x\<rparr>, Some x)
                          | None \<Rightarrow> (acc1, delta_text))
                in case calls of
                     None \<Rightarrow> s1
                   | Some ks \<Rightarrow> ((fst s1)\<lparr>oa_tool_calls := fold add_call ks (oa_tool_calls (fst s1))\<rparr>, snd s1)))"

(* llm/openai_compatible.rs: impl OpenAiStreamAccumulator / fn handle_chunk *)
definition handle_chunk :: "choice_tokens list \<Rightarrow> OpenAiStreamAccumulator \<Rightarrow> OpenAiStreamAccumulator \<times> string option" where
  "handle_chunk choices acc = fold add_choice choices (acc, None)"

(* llm/openai_compatible.rs: impl OpenAiStreamAccumulator / fn finish *)
definition openai_finish :: "OpenAiStreamAccumulator \<Rightarrow> LlmResponse" where
  "openai_finish acc =
     response_of (oa_content acc) (oa_stop_reason acc)
       (map (\<lambda>tc. \<lparr>tl_id = ot_id tc, tl_name = ot_name tc,
                    tl_input = (if ot_arguments tc = [] then ''{}'' else ot_arguments tc)\<rparr>)
          (filter (\<lambda>tc. ot_name tc \<noteq> []) (oa_tool_calls acc)))"

(* llm/openai_compatible.rs: lines 587-600 one event of the stream *)
definition openai_event :: "openai_json \<Rightarrow> SseEvent \<Rightarrow> OpenAiStreamAccumulator progress \<Rightarrow> OpenAiStreamAccumulator progress" where
  "openai_event j e s =
     (if se_data e = ''[DONE]'' then s
      else case openai_chunk j (se_data e) of
        None \<Rightarrow> s
      | Some choices \<Rightarrow>
          (case handle_chunk choices (fst s) of
             (acc, Some delta) \<Rightarrow> (acc, snd s @ [(delta, oa_content acc)])
           | (acc, None) \<Rightarrow> (acc, snd s)))"

section \<open>The streaming request\<close>

(* llm/mod.rs: const HTTP_RESPONSE_TRUNCATED_STAGE *)
definition HTTP_RESPONSE_TRUNCATED_STAGE :: string where
  "HTTP_RESPONSE_TRUNCATED_STAGE = ''http_response_truncated''"

(* llm/mod.rs: const LLM_RESPONSE_TRUNCATED_STAGE *)
definition LLM_RESPONSE_TRUNCATED_STAGE :: string where
  "LLM_RESPONSE_TRUNCATED_STAGE = ''llm_response_truncated''"

(* llm/mod.rs: fn map_transport_error *)
definition map_transport_error :: "Error \<Rightarrow> string \<Rightarrow> Error" where
  "map_transport_error e stage =
     (case e of ErrHttp status_code _ \<Rightarrow> ErrHttp status_code stage | other \<Rightarrow> ErrOther (Beetle other) stage)"

(* llm/mod.rs: fn llm_response_truncated_error *)
definition llm_response_truncated_error :: Error where
  "llm_response_truncated_error = ErrOther (Foreign ''streaming response truncated'') LLM_RESPONSE_TRUNCATED_STAGE"

(* llm/mod.rs: fn map_streaming_transport_error *)
definition map_streaming_transport_error :: "Error \<Rightarrow> string \<Rightarrow> Error" where
  "map_streaming_transport_error e stage =
     (if err_stage e = HTTP_RESPONSE_TRUNCATED_STAGE \<or> err_stage e = LLM_RESPONSE_TRUNCATED_STAGE
      then llm_response_truncated_error else map_transport_error e stage)"

text \<open>What the transport does with a streaming post: the chunks it hands to the callback, and how it ends.\<close>

type_synonym transport = "string list \<times> (Error + u16)"

definition after_status :: "Error + u16 \<Rightarrow> LlmResponse \<Rightarrow> Error + LlmResponse" where
  "after_status r response =
     (case r of
        Inl e \<Rightarrow> Inl (map_streaming_transport_error e ''llm_request'')
      | Inr status \<Rightarrow> (if 400 \<le> status then Inl (ErrHttp status ''llm_request'') else Inr response))"

(* llm/anthropic.rs: fn do_request_streaming *)
definition anthropic_request_streaming :: "target \<Rightarrow> anthropic_json \<Rightarrow> transport
    \<Rightarrow> (Error + LlmResponse) \<times> (string \<times> string) list" where
  "anthropic_request_streaming t j http =
     (case fold (anthropic_event j) (fst (read_chunks t sse_new (fst http))) (anthropic_new, []) of
        (acc, progress) \<Rightarrow> (after_status (snd http) (anthropic_finish acc), progress))"

(* llm/openai_compatible.rs: fn do_request_streaming *)
definition openai_request_streaming :: "target \<Rightarrow> openai_json \<Rightarrow> transport
    \<Rightarrow> (Error + LlmResponse) \<times> (string \<times> string) list" where
  "openai_request_streaming t j http =
     (case fold (openai_event j) (fst (read_chunks t sse_new (fst http))) (openai_new, []) of
        (acc, progress) \<Rightarrow> (after_status (snd http) (openai_finish acc), progress))"

end
