(* ===== verification/Llm_Stream_Laws.thy ===== *)
theory Llm_Stream_Laws
  imports Llm_Stream
begin

text \<open>
  What streaming guarantees: what exactly a streamed reply becomes, and that it is the whole reply as long as the strings
  of the stream hold no escape; what is lost when they do; and a bound on what a stream can make the client allocate.
\<close>

section \<open>Streamed and whole replies\<close>

text \<open>
  A reply as the server cuts it: the pieces of a text, and a tool call with the pieces of its input. The pieces are the tokens
  of the stream, what is written between the quotes.
\<close>

datatype streamed_block = StreamText "string list" | StreamTool string string "string list"

text \<open>
  The same block in a whole body, for a reply without escapes. The input of a call is part of the body there, which the client
  reads and prints again: \<open>reprint\<close> is what that makes of a JSON text.
\<close>

fun whole_block :: "(string \<Rightarrow> string) \<Rightarrow> streamed_block \<Rightarrow> AnthropicContentBlock" where
  "whole_block reprint (StreamText ps) =
     \<lparr>ab_block_type = ''text'', ab_block_text = Some (concat ps), ab_block_id = None, ab_block_name = None, ab_block_input = None\<rparr>"
| "whole_block reprint (StreamTool i n ps) =
     \<lparr>ab_block_type = ''tool_use'', ab_block_text = None, ab_block_id = Some i, ab_block_name = Some n,
      ab_block_input = Some (reprint (if concat ps = [] then ''{}'' else concat ps))\<rparr>"

text \<open>The JSON that the server writes, as functions from tokens to texts; \<open>reads_back\<close> says that the client's library reads them.\<close>

record json_writer =
  jw_block :: "string \<times> string option \<times> string option \<Rightarrow> string"
  jw_delta :: "string \<times> string option \<times> string option \<Rightarrow> string"
  jw_message :: "string \<Rightarrow> string"

fun block_read :: "anthropic_json \<Rightarrow> json_writer \<Rightarrow> streamed_block \<Rightarrow> bool" where
  "block_read j w (StreamText ps) =
     (aj_block j (jw_block w (''text'', None, None)) = Some (Some (''text'', None, None)) \<and>
      list_all (\<lambda>p. aj_delta j (jw_delta w (''text_delta'', Some p, None)) = Some (Some (''text_delta'', Some p, None))) ps)"
| "block_read j w (StreamTool i n ps) =
     (aj_block j (jw_block w (''tool_use'', Some i, Some n)) = Some (Some (''tool_use'', Some i, Some n)) \<and>
      list_all (\<lambda>p. aj_delta j (jw_delta w (''input_json_delta'', None, Some p)) = Some (Some (''input_json_delta'', None, Some p))) ps)"

definition reads_back :: "anthropic_json \<Rightarrow> json_writer \<Rightarrow> streamed_block list \<Rightarrow> string \<Rightarrow> bool" where
  "reads_back j w bs stop \<longleftrightarrow> list_all (block_read j w) bs \<and> aj_message j (jw_message w stop) = Some (Some (Some stop))"

definition event :: "string \<Rightarrow> string \<Rightarrow> SseEvent" where
  "event name d = \<lparr>se_event = name, se_data = d\<rparr>"

fun block_events :: "json_writer \<Rightarrow> streamed_block \<Rightarrow> SseEvent list" where
  "block_events w (StreamText ps) =
     event ''content_block_start'' (jw_block w (''text'', None, None))
     # map (\<lambda>p. event ''content_block_delta'' (jw_delta w (''text_delta'', Some p, None))) ps"
| "block_events w (StreamTool i n ps) =
     event ''content_block_start'' (jw_block w (''tool_use'', Some i, Some n))
     # map (\<lambda>p. event ''content_block_delta'' (jw_delta w (''input_json_delta'', None, Some p))) ps"

definition reply_events :: "json_writer \<Rightarrow> streamed_block list \<Rightarrow> string \<Rightarrow> SseEvent list" where
  "reply_events w bs stop = concat (map (block_events w) bs) @ [event ''message_delta'' (jw_message w stop)]"

definition no_escape :: "string \<Rightarrow> bool" where
  "no_escape s \<longleftrightarrow> CHR 0x5C \<notin> set s"

text \<open>The names and ids need no escape; and none of the pieces does.\<close>

fun block_named :: "streamed_block \<Rightarrow> bool" where
  "block_named (StreamText ps) = True"
| "block_named (StreamTool i n ps) = (no_escape i \<and> no_escape n)"

fun pieces :: "streamed_block \<Rightarrow> string list" where
  "pieces (StreamText ps) = ps"
| "pieces (StreamTool i n ps) = ps"

text \<open>What the client can borrow of a block.\<close>

fun kept_block :: "streamed_block \<Rightarrow> streamed_block" where
  "kept_block (StreamText ps) = StreamText (filter no_escape ps)"
| "kept_block (StreamTool i n ps) = StreamTool i n (filter no_escape ps)"

lemma kept_whole: "list_all no_escape (pieces b) \<Longrightarrow> kept_block b = b"
  by (cases b) (simp_all add: filter_id_conv list_all_iff)

fun is_text :: "streamed_block \<Rightarrow> bool" where
  "is_text (StreamText ps) = True"
| "is_text (StreamTool i n ps) = False"

fun block_text :: "streamed_block \<Rightarrow> string" where
  "block_text (StreamText ps) = concat ps"
| "block_text (StreamTool i n ps) = []"

fun block_builders :: "streamed_block \<Rightarrow> ToolCallBuilder list" where
  "block_builders (StreamText ps) = []"
| "block_builders (StreamTool i n ps) = [\<lparr>tcb_id = i, tcb_name = n, tcb_input_json = concat ps\<rparr>]"

definition run_events :: "anthropic_json \<Rightarrow> SseEvent list \<Rightarrow> AnthropicStreamAccumulator progress \<Rightarrow> AnthropicStreamAccumulator progress" where
  "run_events j es s = fold (anthropic_event j) es s"

lemma borrowed_plain: "no_escape s \<Longrightarrow> borrowed_str s = Some s" "no_escape s \<Longrightarrow> borrowed_field (Some s) = Some (Some s)"
    "borrowed_field None = Some None"
  by (simp_all add: no_escape_def borrowed_str_def borrowed_field_def)

lemma event_start:
  assumes "aj_block j d = Some (Some p)"
  shows "p = (''text'', None, None) \<Longrightarrow> anthropic_event j (event ''content_block_start'' d) s = s"
    and "p = (''tool_use'', Some i, Some n) \<Longrightarrow> no_escape i \<Longrightarrow> no_escape n \<Longrightarrow>
      anthropic_event j (event ''content_block_start'' d) s =
      ((fst s)\<lparr>sa_tool_calls := sa_tool_calls (fst s) @ [\<lparr>tcb_id = i, tcb_name = n, tcb_input_json = []\<rparr>]\<rparr>, snd s)"
  using assms by (simp_all add: anthropic_event_def event_def handle_event_value_def on_block_start_def
      borrowed_triple_def borrowed_plain unwrap_or_def borrowed_str_def)

lemma event_text:
  assumes "aj_delta j d = Some (Some (''text_delta'', Some p, None))" "no_escape p"
  shows "anthropic_event j (event ''content_block_delta'' d) s =
     ((fst s)\<lparr>sa_content := sa_content (fst s) @ p\<rparr>, snd s @ [(p, sa_content (fst s) @ p)])"
  using assms by (simp add: anthropic_event_def event_def handle_event_value_def on_block_delta_def
      borrowed_triple_def borrowed_plain borrowed_str_def)

lemma event_input:
  assumes "aj_delta j d = Some (Some (''input_json_delta'', None, Some p))" "no_escape p" "sa_tool_calls (fst s) = calls @ [tc]"
  shows "anthropic_event j (event ''content_block_delta'' d) s =
     ((fst s)\<lparr>sa_tool_calls := calls @ [tc\<lparr>tcb_input_json := tcb_input_json tc @ p\<rparr>]\<rparr>, snd s)"
  using assms by (simp add: anthropic_event_def event_def handle_event_value_def on_block_delta_def
      borrowed_triple_def borrowed_plain borrowed_str_def)

lemma event_lost:
  assumes "aj_delta j d = Some (Some (ty, a, b))" "\<not> no_escape p" "a = Some p \<or> b = Some p"
  shows "anthropic_event j (event ''content_block_delta'' d) s = s"
  using assms by (auto simp: anthropic_event_def event_def handle_event_value_def on_block_delta_def borrowed_triple_def
      borrowed_field_def borrowed_str_def no_escape_def split: option.split)

text \<open>The progress of the pieces of one text, after what came before.\<close>

fun piece_progress :: "string \<Rightarrow> string list \<Rightarrow> (string \<times> string) list" where
  "piece_progress before [] = []"
| "piece_progress before (p # ps) = (p, before @ p) # piece_progress (before @ p) ps"

lemma run_text:
  assumes "block_read j w (StreamText ps)"
  shows "run_events j (map (\<lambda>p. event ''content_block_delta'' (jw_delta w (''text_delta'', Some p, None))) ps) s =
     ((fst s)\<lparr>sa_content := sa_content (fst s) @ concat (filter no_escape ps)\<rparr>,
      snd s @ piece_progress (sa_content (fst s)) (filter no_escape ps))"
  using assms
proof (induction ps arbitrary: s)
  case Nil
  then show ?case by (cases s) (simp add: run_events_def)
next
  case (Cons p ps)
  let ?d = "jw_delta w (''text_delta'', Some p, None)"
  show ?case
    using Cons event_text [of j ?d p s] event_lost [of j ?d "''text_delta''" "Some p" None p s]
    by (simp add: run_events_def)
qed

lemma run_input:
  assumes "block_read j w (StreamTool i n ps)" "sa_tool_calls (fst s) = calls @ [tc]"
  shows "run_events j (map (\<lambda>p. event ''content_block_delta'' (jw_delta w (''input_json_delta'', None, Some p))) ps) s =
     ((fst s)\<lparr>sa_tool_calls := calls @ [tc\<lparr>tcb_input_json := tcb_input_json tc @ concat (filter no_escape ps)\<rparr>]\<rparr>, snd s)"
  using assms
proof (induction ps arbitrary: s tc)
  case Nil
  then show ?case by (cases "fst s") (cases s, simp add: run_events_def)
next
  case (Cons p ps)
  let ?tc = "tc\<lparr>tcb_input_json := tcb_input_json tc @ p\<rparr>" and ?d = "jw_delta w (''input_json_delta'', None, Some p)"
  show ?case
  proof (cases "no_escape p")
    case True
    then show ?thesis
      using event_input [of j ?d p s calls tc] Cons.prems
        Cons.IH [where s = "((fst s)\<lparr>sa_tool_calls := calls @ [?tc]\<rparr>, snd s)" and tc = ?tc]
      by (simp add: run_events_def)
  next
    case False
    then show ?thesis
      using event_lost [of j ?d "''input_json_delta''" None "Some p" p s] Cons.prems Cons.IH [of s tc] by (simp add: run_events_def)
  qed
qed

definition state_after :: "streamed_block list \<Rightarrow> AnthropicStreamAccumulator \<Rightarrow> AnthropicStreamAccumulator" where
  "state_after bs acc = acc\<lparr>sa_content := sa_content acc @ concat (map block_text bs),
     sa_tool_calls := sa_tool_calls acc @ concat (map block_builders bs)\<rparr>"

fun block_progress :: "string \<Rightarrow> streamed_block list \<Rightarrow> (string \<times> string) list" where
  "block_progress before [] = []"
| "block_progress before (StreamText ps # bs) = piece_progress before ps @ block_progress (before @ concat ps) bs"
| "block_progress before (StreamTool i n ps # bs) = block_progress before bs"

lemma run_block:
  assumes "block_read j w b" "block_named b"
  shows "run_events j (block_events w b) s =
     (state_after [kept_block b] (fst s), snd s @ block_progress (sa_content (fst s)) [kept_block b])"
proof (cases b)
  case (StreamText ps)
  then show ?thesis
    using assms run_text [of j w ps s] event_start(1) [of j "jw_block w (''text'', None, None)" "(''text'', None, None)" s]
    by (simp add: run_events_def state_after_def)
next
  case (StreamTool i n ps)
  let ?s = "((fst s)\<lparr>sa_tool_calls := sa_tool_calls (fst s) @ [\<lparr>tcb_id = i, tcb_name = n, tcb_input_json = []\<rparr>]\<rparr>, snd s)"
  show ?thesis
    using StreamTool assms run_input [of j w i n ps ?s "sa_tool_calls (fst s)" "\<lparr>tcb_id = i, tcb_name = n, tcb_input_json = []\<rparr>"]
      event_start(2) [of j "jw_block w (''tool_use'', Some i, Some n)" "(''tool_use'', Some i, Some n)" i n s]
    by (simp add: run_events_def state_after_def)
qed

lemma run_blocks:
  assumes "list_all (block_read j w) bs" "list_all block_named bs"
  shows "run_events j (concat (map (block_events w) bs)) s =
     (state_after (map kept_block bs) (fst s), snd s @ block_progress (sa_content (fst s)) (map kept_block bs))"
  using assms
proof (induction bs arbitrary: s)
  case Nil
  then show ?case by (cases "fst s") (cases s, simp add: run_events_def state_after_def)
next
  case (Cons b bs)
  have "run_events j (concat (map (block_events w) (b # bs))) s =
      run_events j (concat (map (block_events w) bs)) (run_events j (block_events w b) s)"
    by (simp add: run_events_def)
  then show ?case
    using Cons run_block [of j w b s] by (cases b) (simp_all add: state_after_def)
qed

text \<open>Events of other names, as the start of the message, the ends of blocks and pings, change nothing.\<close>

definition counts :: "SseEvent \<Rightarrow> bool" where
  "counts e \<longleftrightarrow> se_event e \<in> {''content_block_start'', ''content_block_delta'', ''message_delta''}"

lemma run_counting: "run_events j es s = run_events j (filter counts es) s"
proof (induction es arbitrary: s)
  case (Cons e es)
  have "\<not> counts e \<Longrightarrow> anthropic_event j e s = s"
    by (cases s) (simp add: anthropic_event_def handle_event_value_def counts_def)
  then show ?case using Cons.IH by (simp add: run_events_def)
qed (simp add: run_events_def)

text \<open>The calls of the blocks, and a reply whose calls have other inputs.\<close>

definition block_calls :: "streamed_block list \<Rightarrow> ToolCall list" where
  "block_calls bs = map (\<lambda>tc. \<lparr>tl_id = tcb_id tc, tl_name = tcb_name tc,
     tl_input = (if tcb_input_json tc = [] then ''{}'' else tcb_input_json tc)\<rparr>) (concat (map block_builders bs))"

definition reprinted :: "(string \<Rightarrow> string) \<Rightarrow> LlmResponse \<Rightarrow> LlmResponse" where
  "reprinted f rsp = rsp\<lparr>lr_tool_calls := map_option (map (\<lambda>tc. tc\<lparr>tl_input := f (tl_input tc)\<rparr>)) (lr_tool_calls rsp)\<rparr>"

lemma fold_blocks:
  assumes "length (filter is_text bs) + (if content = [] then 0 else 1) \<le> 1"
  shows "fold add_block (map (whole_block f) bs) (content, calls) =
     (content @ concat (map block_text bs), calls @ map (\<lambda>tc. tc\<lparr>tl_input := f (tl_input tc)\<rparr>) (block_calls bs))"
  using assms
proof (induction bs arbitrary: content calls)
  case (Cons b bs)
  show ?case
  proof (cases b)
    case (StreamText ps)
    have c: "content = []" using Cons.prems StreamText by (auto split: if_splits)
    moreover have "length (filter is_text bs) + (if concat ps = [] then 0 else 1) \<le> 1" using Cons.prems StreamText by auto
    ultimately show ?thesis using Cons.IH [of "concat ps" calls] StreamText by (simp add: add_block_def block_calls_def)
  next
    case (StreamTool i n ps)
    then show ?thesis using Cons by (simp add: add_block_def unwrap_or_def block_calls_def)
  qed
qed (simp add: block_calls_def)

text \<open>
  C24: what a streamed reply becomes. The server sends texts and tool calls, cut into any pieces, among events of other
  names, and the network cuts the bytes into any chunks. (1) The response of the client is exactly this: the text is all
  the pieces of texts that need no escape, in order; each call has its id, its name and the pieces of its input
  that need none, or the empty object when no piece is left; and each piece of text was reported once, in order, with the
  text so far. (2) If no piece needs an escape and there is at most one text, this is the response to the same
  reply as one body, but for the inputs of the calls, which a body's reader reads and prints again. A call with arguments
  does need escapes, for the quotes of its member names: its pieces with quotes are lost. Assumed are a JSON library that
  reads what the server writes, ids, names and a stop reason without escapes, lines of events that fit the
  reader's buffer (16 KB, 6 KB on a board), and a status below 400.
\<close>
theorem streamed_reply_exact:
  assumes "reads_back j w bs stop" "list_all block_named bs" "no_escape stop" "filter counts es = reply_events w bs stop"
    "list_all (event_ok t) es" "concat chunks = concat (map render_event es)" "status < 400"
  shows "anthropic_request_streaming t j (chunks, Inr status) =
      (Inr (response_of (concat (map (block_text \<circ> kept_block) bs)) (stop_reason_of stop) (block_calls (map kept_block bs))),
       block_progress [] (map kept_block bs)) \<and>
    ((\<forall>b \<in> set bs. list_all no_escape (pieces b)) \<and> length (filter is_text bs) \<le> 1 \<longrightarrow>
      (\<exists>rsp. anthropic_request_streaming t j (chunks, Inr status) = (Inr rsp, block_progress [] bs) \<and>
         (\<forall>reprint. from_anthropic (map (whole_block reprint) bs) (Some (stop_reason_of stop)) = reprinted reprint rsp)))"
proof -
  have rd: "fst (read_chunks t sse_new chunks) = es"
    using feed_events [OF assms(5), of sse_new] assms(6) by (simp add: read_chunks_feed sse_new_def)
  have m: "anthropic_event j (event ''message_delta'' (jw_message w stop)) s = ((fst s)\<lparr>sa_stop_reason := stop_reason_of stop\<rparr>, snd s)" for s
    using assms(1,3) by (simp add: anthropic_event_def event_def handle_event_value_def on_message_delta_def reads_back_def borrowed_plain)
  have "fold (anthropic_event j) es (anthropic_new, []) =
      ((state_after (map kept_block bs) anthropic_new)\<lparr>sa_stop_reason := stop_reason_of stop\<rparr>, block_progress [] (map kept_block bs))"
    using run_blocks [of j w bs "(anthropic_new, [])"] run_counting [of j es "(anthropic_new, [])"] assms(1,2,4) m
    by (simp add: run_events_def reply_events_def reads_back_def anthropic_new_def)
  moreover have "\<not> 400 \<le> status" using assms(7) by simp
  ultimately have one: "anthropic_request_streaming t j (chunks, Inr status) =
      (Inr (response_of (concat (map (block_text \<circ> kept_block) bs)) (stop_reason_of stop) (block_calls (map kept_block bs))),
       block_progress [] (map kept_block bs))"
    by (simp add: anthropic_request_streaming_def rd after_status_def anthropic_finish_def state_after_def
        anthropic_new_def block_calls_def)
  moreover have "\<exists>rsp. anthropic_request_streaming t j (chunks, Inr status) = (Inr rsp, block_progress [] bs) \<and>
      (\<forall>reprint. from_anthropic (map (whole_block reprint) bs) (Some (stop_reason_of stop)) = reprinted reprint rsp)"
    if plain: "\<forall>b \<in> set bs. list_all no_escape (pieces b)" "length (filter is_text bs) \<le> 1"
  proof -
    have k: "map kept_block bs = bs" "map (block_text \<circ> kept_block) bs = map block_text bs"
      using plain(1) kept_whole by (simp_all add: map_idI)
    show ?thesis
      unfolding one k using fold_blocks [of bs "[]" _ "[]"] plain(2)
      by (simp add: from_anthropic_def response_of_def reprinted_def unwrap_or_def)
  qed
  ultimately show ?thesis by blast
qed

text \<open>
  Two calls, with a writer that puts a letter before the token: the clock, without arguments, and a search, whose argument is
  lost on the way.
\<close>

definition letter_json :: anthropic_json where
  "letter_json = \<lparr>aj_block = (\<lambda>d. Some (Some (if hd d = CHR ''u'' then (''tool_use'', Some [d ! 1], Some (drop 2 d)) else (''text'', None, None)))),
     aj_delta = (\<lambda>d. Some (Some (if hd d = CHR ''i'' then (''input_json_delta'', None, Some (tl d)) else (''text_delta'', Some (tl d), None)))),
     aj_message = (\<lambda>d. Some (Some (Some d)))\<rparr>"

definition letter_writer :: json_writer where
  "letter_writer = \<lparr>jw_block = (\<lambda>(ty, i, n). if ty = ''text'' then ''x'' else CHR ''u'' # unwrap_or i [] @ unwrap_or n []),
     jw_delta = (\<lambda>(ty, s, i). if ty = ''text_delta'' then CHR ''t'' # unwrap_or s [] else CHR ''i'' # unwrap_or i []),
     jw_message = (\<lambda>s. s)\<rparr>"

definition two_calls :: "streamed_block list" where
  "two_calls = [StreamText [''a'', ''b''], StreamTool ''1'' ''clock'' [''{'', ''}''],
     StreamTool ''2'' ''search'' [''{'' @ [CHR 0x5C, CHR 0x22] @ ''q'' @ [CHR 0x5C, CHR 0x22] @ '':1'', ''}'']]"

theorem streamed_reply_exact_witness:
  "anthropic_request_streaming Esp letter_json
     ([concat (map render_event (event ''message_start'' ''m'' # reply_events letter_writer two_calls ''tool_use''))], Inr 200) =
   (Inr \<lparr>lr_content = ''ab'', lr_stop_reason = ToolUse,
         lr_tool_calls = Some [\<lparr>tl_id = ''1'', tl_name = ''clock'', tl_input = ''{}''\<rparr>, \<lparr>tl_id = ''2'', tl_name = ''search'', tl_input = ''}''\<rparr>]\<rparr>,
    [(''a'', ''a''), (''b'', ''ab'')])"
proof -
  let ?es = "event ''message_start'' ''m'' # reply_events letter_writer two_calls ''tool_use''"
  have ok: "list_all (event_ok Esp) ?es"
    by (simp add: reply_events_def two_calls_def event_def letter_writer_def unwrap_or_def event_ok_def value_ok_def utf8_width_def
        second_byte_ok_def)
  have c: "filter counts ?es = reply_events letter_writer two_calls ''tool_use''"
    by (simp add: reply_events_def two_calls_def event_def counts_def)
  have "reads_back letter_json letter_writer two_calls ''tool_use''" "list_all block_named two_calls" "no_escape ''tool_use''"
    by (simp_all add: reads_back_def letter_json_def letter_writer_def two_calls_def unwrap_or_def no_escape_def)
  from conjunct1 [OF streamed_reply_exact [OF this c ok, of "[concat (map render_event ?es)]" 200]]
  show ?thesis by (simp add: two_calls_def response_of_def stop_reason_of_def block_calls_def no_escape_def)
qed

text \<open>Two texts are joined by a line feed in a whole reply and by nothing in a streamed one.\<close>

lemma two_texts_differ:
  "lr_content (from_anthropic (map (whole_block id) [StreamText [''a''], StreamText [''b'']]) None) = ''a'' @ [CHR 0x0A] @ ''b''
   \<and> sa_content (state_after [StreamText [''a''], StreamText [''b'']] anthropic_new) = ''ab''"
  by (simp add: from_anthropic_def add_block_def response_of_def state_after_def anthropic_new_def)

section \<open>Escapes\<close>

lemma escaped_not_borrowed: "json_token raw s \<Longrightarrow> \<not> list_all plain_json_char s \<Longrightarrow> borrowed_str raw = None"
  using token_without_escape by (auto simp: borrowed_str_def list_all_iff)

text \<open>
  What a stream loses. A piece of text or of a tool's input that contains a quote, a backslash, a line
  feed or another control character has an escape in its token, whichever way the server writes it, so the string cannot be
  borrowed and the event that carries it is dropped without an error: by the client of the Messages API each such
  piece, by the client of chat completions the whole chunk. A streamed tool input that is a JSON object with a member
  never arrives.
\<close>
theorem escaped_pieces_are_lost:
  assumes "json_token raw piece" "\<not> list_all plain_json_char piece"
  shows "(\<forall>ty partial. aj_delta j data = Some (Some (ty, Some raw, partial)) \<longrightarrow>
        handle_event_value j ''content_block_delta'' data acc = (acc, None)) \<and>
     (\<forall>ty other. aj_delta j data = Some (Some (ty, other, Some raw)) \<longrightarrow>
        handle_event_value j ''content_block_delta'' data acc = (acc, None)) \<and>
     (\<forall>choices c calls. jo data = Some choices \<and> c \<in> set choices \<and> ch_delta c = Some (Some raw, calls) \<longrightarrow>
        openai_event jo \<lparr>se_event = name, se_data = data\<rparr> s = s)"
proof (intro conjI allI impI)
  have n: "borrowed_str raw = None" "\<not> borrowable (Some raw)"
    using escaped_not_borrowed [OF assms] by (simp_all add: borrowable_def borrowed_field_def)
  fix ty partial
  show "aj_delta j data = Some (Some (ty, Some raw, partial)) \<Longrightarrow> handle_event_value j ''content_block_delta'' data acc = (acc, None)"
    "aj_delta j data = Some (Some (ty, partial, Some raw)) \<Longrightarrow> handle_event_value j ''content_block_delta'' data acc = (acc, None)"
    using n(1) by (simp_all add: handle_event_value_def on_block_delta_def borrowed_triple_def borrowed_field_def split: option.split)
  fix choices c calls
  assume c: "jo data = Some choices \<and> c \<in> set choices \<and> ch_delta c = Some (Some raw, calls)"
  then have "\<not> choice_borrowable c" using n(2) by (simp add: choice_borrowable_def)
  then have "\<not> list_all choice_borrowable choices" using c by (auto simp: list_all_iff)
  then show "openai_event jo \<lparr>se_event = name, se_data = data\<rparr> s = s"
    using c by (simp add: openai_event_def openai_chunk_def)
qed

text \<open>The text of two lines.\<close>

theorem escaped_pieces_are_lost_witness:
  "handle_event_value \<lparr>aj_block = (\<lambda>d. None), aj_delta = (\<lambda>d. Some (Some (''text_delta'', Some d, None))), aj_message = (\<lambda>d. None)\<rparr>
     ''content_block_delta'' [CHR ''a'', CHR 0x5C, CHR ''n''] anthropic_new = (anthropic_new, None)"
proof -
  have "json_token [CHR ''a'', CHR 0x5C, CHR ''n''] [CHR ''a'', CHR 0x0A]"
    by (intro token_plain token_short token_nil) (simp_all add: plain_json_char_def)
  then show ?thesis
    by (rule conjunct1 [OF escaped_pieces_are_lost, THEN spec, THEN spec, THEN mp]) (simp_all add: plain_json_char_def)
qed

section \<open>What a stream can allocate\<close>

lemma add_call_length: "length (add_call k calls) = (if MAX_TOOL_CALL_INDEX < unwrap_or (ck_index k) 0 then length calls
     else max (length calls) (Suc (unwrap_or (ck_index k) 0)))"
  by (auto simp: add_call_def Let_def)

lemma add_calls_bounded: "length calls \<le> 129 \<Longrightarrow> length (fold add_call ks calls) \<le> 129"
proof (induction ks arbitrary: calls)
  case (Cons k ks)
  have "length (add_call k calls) \<le> 129" using Cons.prems by (auto simp: add_call_length MAX_TOOL_CALL_INDEX_def)
  then show ?case using Cons.IH by simp
qed simp

lemma add_choice_bounded: "length (oa_tool_calls (fst s)) \<le> 129 \<Longrightarrow> length (oa_tool_calls (fst (add_choice c s))) \<le> 129"
  by (cases s) (auto simp: add_choice_def Let_def add_calls_bounded split: option.split)

lemma add_choices_bounded: "length (oa_tool_calls (fst s)) \<le> 129 \<Longrightarrow> length (oa_tool_calls (fst (fold add_choice cs s))) \<le> 129"
  by (induction cs arbitrary: s) (simp_all add: add_choice_bounded)

lemma openai_events_bounded:
  "length (oa_tool_calls (fst s)) \<le> 129 \<Longrightarrow> length (oa_tool_calls (fst (fold (openai_event j) es s))) \<le> 129"
proof (induction es arbitrary: s)
  case (Cons e es)
  have "length (oa_tool_calls (fst (openai_event j e s))) \<le> 129"
    using Cons.prems add_choices_bounded [of "(fst s, None)"]
    by (auto simp: openai_event_def handle_chunk_def split: option.split prod.split) (metis fst_conv)+
  then show ?case using Cons.IH by simp
qed simp

text \<open>
  The number of tool calls of a streamed reply is bounded. Whatever a server sends, indices out of range and gaps
  included, the client builds at most 129 calls, and every call it hands out has a name and an input.
\<close>
theorem streamed_calls_bounded:
  "\<forall>response calls. fst (openai_request_streaming t j http) = Inr response \<and> lr_tool_calls response = Some calls \<longrightarrow>
     length calls \<le> 129 \<and> list_all (\<lambda>call. tl_name call \<noteq> [] \<and> tl_input call \<noteq> []) calls \<and> lr_stop_reason response = ToolUse"
proof (intro allI impI)
  fix response calls
  assume a: "fst (openai_request_streaming t j http) = Inr response \<and> lr_tool_calls response = Some calls"
  let ?acc = "fst (fold (openai_event j) (fst (read_chunks t sse_new (fst http))) (openai_new, []))"
  have r: "response = openai_finish ?acc"
    using a by (auto simp: openai_request_streaming_def after_status_def case_prod_beta split: sum.splits if_splits)
  have "length (oa_tool_calls ?acc) \<le> 129"
    using openai_events_bounded [where s = "(openai_new, [])" and j = j] by (simp add: openai_new_def)
  then have "length (filter (\<lambda>tc. ot_name tc \<noteq> []) (oa_tool_calls ?acc)) \<le> 129" by (meson le_trans length_filter_le)
  then show "length calls \<le> 129 \<and> list_all (\<lambda>call. tl_name call \<noteq> [] \<and> tl_input call \<noteq> []) calls \<and> lr_stop_reason response = ToolUse"
    using a unfolding r by (auto simp: openai_finish_def response_of_def list_all_iff split: if_splits)
qed

text \<open>A call at index 200 is ignored, one at index 1 is kept.\<close>

theorem streamed_calls_bounded_witness:
  "\<exists>response calls. fst (openai_request_streaming Esp
       (\<lambda>d. Some [\<lparr>ch_finish_reason = None, ch_delta = Some (None, Some
           [\<lparr>ck_index = Some 200, ck_id = None, ck_function = Some (Some ''far'', None)\<rparr>,
            \<lparr>ck_index = Some 1, ck_id = None, ck_function = Some (Some d, None)\<rparr>])\<rparr>])
       ([''data: get'' @ [CHR 0x0A, CHR 0x0A]], Inr 200)) = Inr response
     \<and> lr_tool_calls response = Some calls \<and> length calls \<le> 129"
proof -
  have "fst (read_chunks Esp sse_new [''data: get'' @ [CHR 0x0A, CHR 0x0A]]) = [\<lparr>se_event = [], se_data = ''get''\<rparr>]"
    using feed_events [of Esp "[\<lparr>se_event = [], se_data = ''get''\<rparr>]" sse_new]
    by (simp add: read_chunks_feed sse_new_def event_ok_def value_ok_def render_event_def sse_line_def utf8_width_def
        second_byte_ok_def drain_all)
  then obtain response calls where r: "fst (openai_request_streaming Esp
       (\<lambda>d. Some [\<lparr>ch_finish_reason = None, ch_delta = Some (None, Some
           [\<lparr>ck_index = Some 200, ck_id = None, ck_function = Some (Some ''far'', None)\<rparr>,
            \<lparr>ck_index = Some 1, ck_id = None, ck_function = Some (Some d, None)\<rparr>])\<rparr>])
       ([''data: get'' @ [CHR 0x0A, CHR 0x0A]], Inr 200)) = Inr response" "lr_tool_calls response = Some calls"
    by (auto simp: openai_request_streaming_def openai_event_def openai_chunk_def choice_borrowable_def borrowable_def
        borrowed_field_def borrowed_str_def handle_chunk_def add_choice_def add_call_def unwrap_or_def MAX_TOOL_CALL_INDEX_def
        openai_new_def after_status_def openai_finish_def response_of_def empty_builder_def Let_def)
  then show ?thesis using streamed_calls_bounded by blast
qed

end
