(* ===== verification/Llm_Call.thy ===== *)
theory Llm_Call
  imports Llm_Stream
begin

text \<open>
  Calling a model: the retry of one client (\<open>src/src/llm/retry.rs\<close>), the sources and their order (\<open>topology.rs\<close>,
  \<open>compat.rs\<close>), the chain of clients (\<open>fallback.rs\<close>) and tool calls written as text (\<open>tool_fallback.rs\<close>).
  The world of the calls is a type parameter; an attempt takes it and returns it changed.
\<close>

section \<open>Retry\<close>

(* llm/retry.rs: const RETRY_MIN_DELAY_MS_ESP *)
definition RETRY_MIN_DELAY_MS_ESP :: u64 where
  "RETRY_MIN_DELAY_MS_ESP = 2000"

(* llm/retry.rs: lines 43-48 the delay *)
definition retry_delay_ms :: "target \<Rightarrow> u64 \<Rightarrow> nat \<Rightarrow> u64" where
  "retry_delay_ms t base_ms attempt =
     (let d = base_ms * 2 ^ min attempt 6 in if t = Esp then max d RETRY_MIN_DELAY_MS_ESP else d)"

text \<open>What the loop does besides the attempts: sleeping and resetting the connection.\<close>

record 'w retry_env =
  re_sleep :: "u64 \<Rightarrow> 'w \<Rightarrow> 'w"
  re_reset :: "'w \<Rightarrow> 'w"

(* llm/retry.rs: lines 24-60 the loop of with_retry *)
function retry_from :: "target \<Rightarrow> nat \<Rightarrow> u64 \<Rightarrow> 'w retry_env \<Rightarrow> ('w \<Rightarrow> (Error + 'a) \<times> 'w) \<Rightarrow> nat \<Rightarrow> Error option \<Rightarrow> 'w
    \<Rightarrow> (Error + 'a) \<times> 'w" where
  "retry_from t retries base_ms env f attempt last_err w =
     (if \<not> attempt < retries
      then (Inl (unwrap_or last_err (err_config ''retry'' ''with_retry requires retries >= 1'')), w)
      else case f w of
        (Inr x, w1) \<Rightarrow> (Inr x, w1)
      | (Inl e, w1) \<Rightarrow>
          (if \<not> is_retryable_upstream e then (Inl e, w1)
           else let w2 = (if attempt + 1 < retries
                          then re_reset env (re_sleep env (retry_delay_ms t base_ms attempt) w1) else w1)
                in retry_from t retries base_ms env f (attempt + 1) (Some e) w2))"
  by pat_completeness auto
termination
  by (relation "measure (\<lambda>(t, retries, base_ms, env, f, attempt, last_err, w). retries - attempt)") auto

declare retry_from.simps [simp del]

(* llm/retry.rs: fn with_retry *)
definition with_retry :: "target \<Rightarrow> nat \<Rightarrow> u64 \<Rightarrow> 'w retry_env \<Rightarrow> ('w \<Rightarrow> (Error + 'a) \<times> 'w) \<Rightarrow> 'w \<Rightarrow> (Error + 'a) \<times> 'w" where
  "with_retry t retries base_ms env f w = retry_from t retries base_ms env f 0 None w"

section \<open>Sources\<close>

(* config.rs: enum LlmModelKind *)
datatype LlmModelKind = ModelText | ModelMultimodal | ModelImageGeneration | ModelVideoGeneration

(* config.rs: struct LlmSource *)
record LlmSource =
  ls_id :: string
  ls_provider :: string
  ls_api_key :: string
  ls_model :: string
  ls_api_url :: string
  ls_model_kind :: LlmModelKind

definition nonblank :: "string \<Rightarrow> bool" where
  "nonblank s \<longleftrightarrow> trim s \<noteq> []"

(* llm/topology.rs: fn provider_uses_openai_compatible_client *)
definition provider_uses_openai_compatible_client :: "string \<Rightarrow> bool" where
  "provider_uses_openai_compatible_client provider \<longleftrightarrow> List.member
     [''openai'', ''openai_compatible'', ''gemini'', ''glm'', ''qwen'', ''deepseek'', ''moonshot'', ''ollama''] provider"

(* llm/topology.rs: fn llm_source_is_usable *)
definition llm_source_is_usable :: "LlmSource \<Rightarrow> bool" where
  "llm_source_is_usable s \<longleftrightarrow>
     (ls_model_kind s = ModelText \<or> ls_model_kind s = ModelMultimodal) \<and> nonblank (ls_api_key s) \<and> nonblank (ls_model s)
     \<and> nonblank (ls_provider s) \<and> (nonblank (ls_api_url s) \<or> provider_uses_openai_compatible_client (ls_provider s))"

(* llm/topology.rs: fn llm_fallback_source_indices *)
definition llm_fallback_source_indices :: "LlmSource list \<Rightarrow> nat list" where
  "llm_fallback_source_indices sources = filter (\<lambda>i. llm_source_is_usable (sources ! i)) [0..<length sources]"

(* llm/compat.rs: enum ToolCallSupport *)
datatype ToolCallSupport = NativeTools | PromptGuided

definition lower_ascii :: "string \<Rightarrow> string" where
  "lower_ascii s = map (\<lambda>c. let b = of_char c :: nat in if 65 \<le> b \<and> b \<le> 90 then char_of (b + 32) else c) s"

(* llm/compat.rs: fn source_targets_ollama_api *)
definition source_targets_ollama_api :: "LlmSource \<Rightarrow> bool" where
  "source_targets_ollama_api s \<longleftrightarrow>
     (if ls_provider s = ''ollama'' then True
      else let api_url = lower_ascii (trim (ls_api_url s))
           in if api_url = [] then False
              else contains_sub ''://ollama'' api_url \<or> contains_sub ''.ollama'' api_url
                \<or> suffix '':11434'' api_url \<or> contains_sub '':11434/'' api_url)"

(* llm/compat.rs: fn model_compat_for_source *)
definition model_compat_for_source :: "LlmSource \<Rightarrow> ToolCallSupport" where
  "model_compat_for_source s = (if source_targets_ollama_api s then PromptGuided else NativeTools)"

section \<open>Tool calls as text\<close>

text \<open>The values of the JSON library, which reads and prints them; the members of an object have distinct names.\<close>

datatype json = JNull | JBool bool | JNumber string | JString string | JArray "json list" | JObject "(string \<times> json) list"

record json_library =
  jl_parse :: "string \<Rightarrow> json option"
  jl_print :: "json \<Rightarrow> string"

fun as_object :: "json \<Rightarrow> (string \<times> json) list option" where
  "as_object (JObject members) = Some members"
| "as_object _ = None"

fun as_array :: "json \<Rightarrow> json list option" where
  "as_array (JArray items) = Some items"
| "as_array _ = None"

fun as_text :: "json \<Rightarrow> string option" where
  "as_text (JString s) = Some s"
| "as_text _ = None"

definition field_of :: "string \<Rightarrow> (string \<times> json) list \<Rightarrow> json option" where
  "field_of k members = map_of members k"

(* llm/types.rs: struct ToolSpec *)
record ToolSpec =
  tsp_name :: string
  tsp_description :: string
  tsp_parameters_json :: string

definition LF :: string where
  "LF = [CHR 0x0A]"

(* llm/tool_fallback.rs: const TOOL_PROTOCOL_HEADER *)
definition TOOL_PROTOCOL_HEADER :: string where
  "TOOL_PROTOCOL_HEADER =
     LF @ LF @ ''## Tool Use Protocol'' @ LF @
     ''When you need a tool, output a JSON object inside <tool_call>...</tool_call> tags.'' @ LF @ ''Format:'' @ LF @
     ''<tool_call>'' @ LF @ ''{'' @ [CHR 0x22] @ ''name'' @ [CHR 0x22] @ '':'' @ [CHR 0x22] @ ''tool_name'' @ [CHR 0x22] @ '',''
       @ [CHR 0x22] @ ''arguments'' @ [CHR 0x22] @ '':{}}'' @ LF @ ''</tool_call>'' @ LF @
     ''You may include normal assistant text outside tool_call blocks. After tool results arrive, continue reasoning and then answer normally.''
       @ LF @ LF @ ''### Available Tools'' @ LF"

definition tool_line :: "ToolSpec \<Rightarrow> string" where
  "tool_line spec =
     ''- '' @ tsp_name spec @ '': '' @ truncate_content_to_max (trim (tsp_description spec)) 160 @ LF
     @ ''  arguments: '' @ truncate_content_to_max (tsp_parameters_json spec) 240 @ LF"

(* llm/tool_fallback.rs: lines 25-35 the loop of append_tool_fallback_instructions *)
fun append_tool_lines :: "nat \<Rightarrow> ToolSpec list \<Rightarrow> string \<Rightarrow> string" where
  "append_tool_lines max_len [] system = system"
| "append_tool_lines max_len (spec # specs) system =
     (if max_len < length system + length (tool_line spec) then system
      else append_tool_lines max_len specs (system @ tool_line spec))"

(* llm/tool_fallback.rs: fn append_tool_fallback_instructions *)
definition append_tool_fallback_instructions :: "nat \<Rightarrow> ToolSpec list \<Rightarrow> string \<Rightarrow> string" where
  "append_tool_fallback_instructions max_len specs system =
     (if specs = [] \<or> max_len < length system + length TOOL_PROTOCOL_HEADER then system
      else append_tool_lines max_len specs (system @ TOOL_PROTOCOL_HEADER))"

(* llm/tool_fallback.rs: fn normalize_arguments_json *)
definition normalize_arguments_json :: "json_library \<Rightarrow> json option \<Rightarrow> string option" where
  "normalize_arguments_json j v =
     (case v of
        None \<Rightarrow> Some ''{}''
      | Some JNull \<Rightarrow> Some ''{}''
      | Some (JObject members) \<Rightarrow> Some (jl_print j (JObject members))
      | Some (JString raw) \<Rightarrow>
          (case jl_parse j (trim raw) of
             Some parsed \<Rightarrow> if as_object parsed \<noteq> None then Some (jl_print j parsed) else None
           | None \<Rightarrow> None)
      | Some _ \<Rightarrow> None)"

(* llm/tool_fallback.rs: fn build_tool_call_from_object *)
definition build_tool_call_from_object :: "json_library \<Rightarrow> (string \<times> json) list \<Rightarrow> nat \<Rightarrow> (ToolCall \<times> nat) option" where
  "build_tool_call_from_object j obj next_id =
     (let explicit_name = Option.bind (field_of ''name'' obj) as_text;
          explicit_args = or_else (field_of ''arguments'' obj) (field_of ''input'' obj);
          nested = Option.bind (field_of ''function'' obj) as_object
      in case or_else explicit_name (Option.bind nested (\<lambda>f. Option.bind (field_of ''name'' f) as_text)) of
           None \<Rightarrow> None
         | Some name \<Rightarrow>
             (let args = or_else explicit_args
                    (Option.bind nested (\<lambda>f. or_else (field_of ''arguments'' f) (field_of ''input'' f)))
              in case normalize_arguments_json j args of
                   None \<Rightarrow> None
                 | Some input \<Rightarrow>
                     (case Option.bind (field_of ''id'' obj) as_text of
                        Some i \<Rightarrow>
                          (if trim i \<noteq> [] then Some (\<lparr>tl_id = i, tl_name = name, tl_input = input\<rparr>, next_id)
                           else Some (\<lparr>tl_id = ''text_tool_'' @ show_nat next_id, tl_name = name, tl_input = input\<rparr>, next_id + 1))
                      | None \<Rightarrow>
                          Some (\<lparr>tl_id = ''text_tool_'' @ show_nat next_id, tl_name = name, tl_input = input\<rparr>, next_id + 1))))"

lemma field_smaller [termination_simp]:
  assumes "field_of k obj = Some (JArray items)" "x \<in> set items"
  shows "size x < Suc (size_list (\<lambda>m. Suc (size (snd m))) obj)" "size x \<le> Suc (size_list (\<lambda>m. Suc (size (snd m))) obj)"
proof -
  have x: "size x < Suc (size_list size items)" using assms(2) by (induction items) auto
  have "(k, JArray items) \<in> set obj" using assms(1) by (simp add: field_of_def map_of_SomeD)
  then have "size (JArray items) \<le> size_list (\<lambda>m. Suc (size (snd m))) obj"
    by (induction obj) auto
  then show "size x < Suc (size_list (\<lambda>m. Suc (size (snd m))) obj)" "size x \<le> Suc (size_list (\<lambda>m. Suc (size (snd m))) obj)"
    using x by simp_all
qed

lemma item_smaller [termination_simp]: "x \<in> set items \<Longrightarrow> size x < Suc (size_list size items)"
  by (induction items) auto

text \<open>The calls found so far and the number of the next identifier.\<close>

(* llm/tool_fallback.rs: fn collect_tool_calls_from_value *)
fun collect_tool_calls_from_value :: "json_library \<Rightarrow> json \<Rightarrow> ToolCall list \<times> nat \<Rightarrow> ToolCall list \<times> nat" where
  "collect_tool_calls_from_value j (JObject obj) s =
     (case field_of ''tool_calls'' obj of
        Some (JArray items) \<Rightarrow> fold (\<lambda>item s. collect_tool_calls_from_value j item s) items s
      | _ \<Rightarrow> (case build_tool_call_from_object j obj (snd s) of
            Some (call, next_id) \<Rightarrow> (fst s @ [call], next_id)
          | None \<Rightarrow> s))"
| "collect_tool_calls_from_value j (JArray items) s = fold (\<lambda>item s. collect_tool_calls_from_value j item s) items s"
| "collect_tool_calls_from_value j _ s = s"

(* llm/tool_fallback.rs: fn extract_text_from_json_value *)
definition extract_text_from_json_value :: "json \<Rightarrow> string option" where
  "extract_text_from_json_value v =
     map_option trim (Option.bind (as_object v) (\<lambda>obj. Option.bind (field_of ''content'' obj) as_text))"

definition fence :: "string \<Rightarrow> bool" where
  "fence line \<longleftrightarrow> prefix ''```'' (trim_start line)"

(* llm/tool_fallback.rs: fn normalize_tool_payload *)
definition normalize_tool_payload :: "string \<Rightarrow> string" where
  "normalize_tool_payload raw =
     (let trimmed = trim raw
      in if \<not> prefix ''```'' trimmed then trimmed
         else let ls = lines_of trimmed;
                  ls1 = (if ls \<noteq> [] \<and> fence (hd ls) then tl ls else ls);
                  ls2 = (if ls1 \<noteq> [] \<and> fence (last ls1) then butlast ls1 else ls1)
              in join_newline ls2)"

definition TOOL_CALL_OPEN :: string where
  "TOOL_CALL_OPEN = ''<tool_call>''"

definition TOOL_CALL_CLOSE :: string where
  "TOOL_CALL_CLOSE = ''</tool_call>''"

text \<open>
  The state of the loop over the text: the plain text, and the calls with the next identifier. The argument is the
  text from the cursor on.
\<close>

(* llm/tool_fallback.rs: lines 66-92 the loop of parse_tool_calls_from_text *)
function scan_tool_calls :: "json_library \<Rightarrow> string \<Rightarrow> string \<Rightarrow> ToolCall list \<times> nat \<Rightarrow> string \<times> ToolCall list" where
  "scan_tool_calls j rest plain s =
     (case find_sub TOOL_CALL_OPEN rest of
        None \<Rightarrow> (trim (if rest = [] then plain else plain @ trim_start rest), fst s)
      | Some start \<Rightarrow>
          (let plain1 = plain @ trim_end (take start rest);
               body_start = drop (start + length TOOL_CALL_OPEN) rest
           in case find_sub TOOL_CALL_CLOSE body_start of
                None \<Rightarrow> (trim (plain1 @ drop start rest), fst s)
              | Some body_len \<Rightarrow>
                  (let s1 = (case jl_parse j (normalize_tool_payload (take body_len body_start)) of
                               Some v \<Rightarrow> collect_tool_calls_from_value j v s
                             | None \<Rightarrow> s);
                       rest1 = drop (body_len + length TOOL_CALL_CLOSE) body_start;
                       plain2 = (if rest1 \<noteq> [] \<and> plain1 \<noteq> [] \<and> last plain1 \<noteq> CHR 0x0A then plain1 @ LF else plain1)
                   in scan_tool_calls j rest1 plain2 s1)))"
  by pat_completeness auto
termination
proof (relation "measure (\<lambda>(j, rest, plain, s). length rest)")
  fix rest :: string and start body_len
  fix j :: json_library and plain plain1 plain2 body_start rest1 :: string and s s1 :: "ToolCall list \<times> nat"
  assume a: "find_sub TOOL_CALL_OPEN rest = Some start" "body_start = drop (start + length TOOL_CALL_OPEN) rest"
    "find_sub TOOL_CALL_CLOSE body_start = Some body_len" "rest1 = drop (body_len + length TOOL_CALL_CLOSE) body_start"
  then show "((j, rest1, plain2, s1), j, rest, plain, s) \<in> measure (\<lambda>(j, rest, plain, s). length rest)"
    using find_sub_bound [OF a(1)] by (simp add: TOOL_CALL_OPEN_def)
qed simp

declare scan_tool_calls.simps [simp del]

(* llm/tool_fallback.rs: fn parse_tool_calls_from_text *)
definition parse_tool_calls_from_text :: "json_library \<Rightarrow> string \<Rightarrow> string \<times> ToolCall list" where
  "parse_tool_calls_from_text j s =
     (let calls = (case jl_parse j (trim s) of Some v \<Rightarrow> fst (collect_tool_calls_from_value j v ([], 1)) | None \<Rightarrow> [])
      in if calls \<noteq> [] then (unwrap_or (Option.bind (jl_parse j (trim s)) extract_text_from_json_value) [], calls)
         else scan_tool_calls j s [] ([], 1))"

(* llm/tool_fallback.rs: fn recover_text_tool_calls *)
definition recover_text_tool_calls :: "json_library \<Rightarrow> LlmResponse \<Rightarrow> LlmResponse" where
  "recover_text_tool_calls j response =
     (if lr_stop_reason response = ToolUse \<or> trim (lr_content response) = [] then response
      else case parse_tool_calls_from_text j (lr_content response) of
        (content, calls) \<Rightarrow>
          (if calls = [] then response
           else response\<lparr>lr_content := content, lr_stop_reason := ToolUse, lr_tool_calls := Some calls\<rparr>))"

section \<open>The chain of clients\<close>

text \<open>A client: how it takes tools, and its call, given the system text and the tools that it is passed.\<close>

record 'w client =
  cl_compat :: ToolCallSupport
  cl_chat :: "string \<Rightarrow> ToolSpec list option \<Rightarrow> 'w \<Rightarrow> (Error + LlmResponse) \<times> 'w"

fun usize_max :: "target \<Rightarrow> nat" where
  "usize_max Esp = 2 ^ 32 - 1"
| "usize_max Host = 2 ^ 64 - 1"

(* llm/fallback.rs: fn prepare_request_for_client *)
definition prepare_request_for_client :: "target \<Rightarrow> ToolCallSupport \<Rightarrow> string \<Rightarrow> ToolSpec list option \<Rightarrow> string \<times> ToolSpec list option" where
  "prepare_request_for_client t support system tools =
     (case tools of
        Some specs \<Rightarrow>
          (if support = PromptGuided \<and> specs \<noteq> []
           then (append_tool_fallback_instructions (usize_max t) specs system, None)
           else (system, tools))
      | None \<Rightarrow> (system, tools))"

(* llm/fallback.rs: fn finalize_response_for_client *)
definition finalize_response_for_client :: "json_library \<Rightarrow> ToolCallSupport \<Rightarrow> ToolSpec list option \<Rightarrow> LlmResponse \<Rightarrow> LlmResponse" where
  "finalize_response_for_client j support tools response =
     (if tools \<noteq> None \<and> support = PromptGuided then recover_text_tool_calls j response else response)"

text \<open>The recorded error is the one that was returned; the code keeps its text.\<close>

(* llm/fallback.rs: struct FallbackLlmClient *)
record 'w FallbackLlmClient =
  fl_clients :: "'w client list"
  fl_last_error :: "Error option"

(* llm/fallback.rs: lines 66-82 the loop of run_with_fallback *)
fun first_success :: "('c \<Rightarrow> 'w \<Rightarrow> (Error + 'r) \<times> 'w) \<Rightarrow> 'c list \<Rightarrow> Error \<Rightarrow> 'w \<Rightarrow> (Error + 'r) \<times> 'w" where
  "first_success attempt [] last_err w = (Inl last_err, w)"
| "first_success attempt (c # cs) last_err w =
     (case attempt c w of
        (Inr r, w1) \<Rightarrow> (Inr r, w1)
      | (Inl e, w1) \<Rightarrow> first_success attempt cs e w1)"

(* llm/fallback.rs: impl FallbackLlmClient / fn run_with_fallback *)
definition run_with_fallback :: "('w client \<Rightarrow> 'w \<Rightarrow> (Error + LlmResponse) \<times> 'w) \<Rightarrow> 'w FallbackLlmClient \<Rightarrow> 'w
    \<Rightarrow> (Error + LlmResponse) \<times> 'w FallbackLlmClient \<times> 'w" where
  "run_with_fallback attempt fl w =
     (if fl_clients fl = []
      then let e = err_config ''fallback_llm'' ''no LLM sources configured'' in (Inl e, fl\<lparr>fl_last_error := Some e\<rparr>, w)
      else case first_success attempt (fl_clients fl) (err_config ''fallback_llm'' ''llm fallback returned no result'') w of
             (Inr r, w1) \<Rightarrow> (Inr r, fl, w1)
           | (Inl e, w1) \<Rightarrow> (Inl e, fl\<lparr>fl_last_error := Some e\<rparr>, w1))"

(* llm/fallback.rs: impl LlmClient for FallbackLlmClient / fn chat *)
definition fallback_chat :: "target \<Rightarrow> json_library \<Rightarrow> string \<Rightarrow> ToolSpec list option \<Rightarrow> 'w FallbackLlmClient \<Rightarrow> 'w
    \<Rightarrow> (Error + LlmResponse) \<times> 'w FallbackLlmClient \<times> 'w" where
  "fallback_chat t j system tools =
     run_with_fallback (\<lambda>c w.
       case prepare_request_for_client t (cl_compat c) system tools of
         (effective_system, effective_tools) \<Rightarrow>
           (case cl_chat c effective_system effective_tools w of
              (Inr r, w1) \<Rightarrow> (Inr (finalize_response_for_client j (cl_compat c) tools r), w1)
            | (Inl e, w1) \<Rightarrow> (Inl e, w1)))"

end
