(* ===== verification/Llm_Call_Laws.thy ===== *)
theory Llm_Call_Laws
  imports Llm_Call
begin

text \<open>
  What calling a model guarantees: how often one client tries and how long it waits, which source of a chain answers, how
  many requests a chain makes at most, and that a tool call written as text is found.
\<close>

section \<open>Retry\<close>

text \<open>A client whose attempts have the results \<open>r 0, r 1, ...\<close>; the world counts them and logs everything the loop does.\<close>

datatype retry_event = Attempted | Paused nat | ConnectionReset

type_synonym attempts = "nat \<times> retry_event list"

definition scripted :: "(nat \<Rightarrow> Error + 'a) \<Rightarrow> attempts \<Rightarrow> (Error + 'a) \<times> attempts" where
  "scripted r w = (case w of (n, log) \<Rightarrow> (r n, (n + 1, log @ [Attempted])))"

definition logging_env :: "attempts retry_env" where
  "logging_env = \<lparr>re_sleep = (\<lambda>d (n, log). (n, log @ [Paused (unat d)])), re_reset = (\<lambda>(n, log). (n, log @ [ConnectionReset]))\<rparr>"

definition retryable :: "Error + 'a \<Rightarrow> bool" where
  "retryable x \<longleftrightarrow> (\<exists>e. x = Inl e \<and> is_retryable_upstream e)"

text \<open>The pause after the attempt \<open>n\<close>, in milliseconds: the base delay doubled for each earlier one, 64 times it at most; on a board two seconds at least.\<close>

definition pause_ms :: "target \<Rightarrow> nat \<Rightarrow> nat \<Rightarrow> nat" where
  "pause_ms t base n = max (if t = Esp then 2000 else 0) (if n < 6 then base * 2 ^ n else base * 64)"

definition retry_log :: "target \<Rightarrow> nat \<Rightarrow> nat \<Rightarrow> nat \<Rightarrow> retry_event list" where
  "retry_log t base a b = concat (map (\<lambda>n. [Attempted, Paused (pause_ms t base n), ConnectionReset]) [a..<b]) @ [Attempted]"

lemma pause_exact:
  assumes "unat base_ms * 64 < 2 ^ 64"
  shows "unat (retry_delay_ms t base_ms n) = pause_ms t (unat base_ms) n"
proof -
  have p: "unat ((2::u64) ^ min n 6) = 2 ^ min n 6"
  proof -
    have "min n 6 = 0 \<or> min n 6 = 1 \<or> min n 6 = 2 \<or> min n 6 = 3 \<or> min n 6 = 4 \<or> min n 6 = 5 \<or> min n 6 = 6"
      by arith
    then show ?thesis by (elim disjE) simp_all
  qed
  have "(2::nat) ^ min n 6 \<le> 2 ^ 6" by (intro power_increasing) simp_all
  then have "unat base_ms * 2 ^ min n 6 \<le> unat base_ms * 64" by (intro mult_le_mono) simp_all
  then have "unat base_ms * 2 ^ min n 6 < 2 ^ 64" using assms by (rule le_less_trans)
  then have "unat base_ms * unat ((2::u64) ^ min n 6) < 2 ^ LENGTH(64)" unfolding p by simp
  from unat_mult_lem [THEN iffD1, OF this] have d: "unat (base_ms * 2 ^ min n 6) = unat base_ms * 2 ^ min n 6"
    unfolding p .
  have x: "unat (max a (2000::u64)) = max (unat a) 2000" for a by (simp add: max_def word_le_nat_alt)
  show ?thesis
  proof (cases "n < 6")
    case True
    then have "min n 6 = n" by simp
    then show ?thesis using d True by (simp add: retry_delay_ms_def pause_ms_def Let_def RETRY_MIN_DELAY_MS_ESP_def x max.commute)
  next
    case False
    then have "min n 6 = 6" by simp
    then show ?thesis using d False by (simp add: retry_delay_ms_def pause_ms_def Let_def RETRY_MIN_DELAY_MS_ESP_def x max.commute)
  qed
qed

lemma retry_from_scripted:
  assumes "attempt < retries" "unat base_ms * 64 < 2 ^ 64"
  shows "\<exists>i. attempt \<le> i \<and> i < retries \<and> (\<forall>j. attempt \<le> j \<and> j < i \<longrightarrow> retryable (r j)) \<and> (i + 1 = retries \<or> \<not> retryable (r i)) \<and>
    retry_from t retries base_ms logging_env (scripted r) attempt last_err (attempt, log) =
      (r i, (i + 1, log @ retry_log t (unat base_ms) attempt i))"
  using assms(1)
proof (induction "retries - attempt" arbitrary: attempt last_err log rule: less_induct)
  case less
  note u = retry_from.simps [of t retries base_ms logging_env "scripted r" attempt last_err "(attempt, log)"]
  show ?case
  proof (cases "retryable (r attempt)")
    case False
    then have "retry_from t retries base_ms logging_env (scripted r) attempt last_err (attempt, log) =
        (r attempt, (attempt + 1, log @ [Attempted]))"
      using u less.prems by (auto simp: scripted_def retryable_def split: sum.split)
    then show ?thesis using False less.prems by (intro exI [of _ attempt]) (auto simp: retry_log_def)
  next
    case True
    then obtain e where e: "r attempt = Inl e" "is_retryable_upstream e" by (auto simp: retryable_def)
    show ?thesis
    proof (cases "attempt + 1 < retries")
      case False
      then have "retry_from t retries base_ms logging_env (scripted r) attempt last_err (attempt, log) =
          (r attempt, (attempt + 1, log @ [Attempted]))"
        using u less.prems e by (simp add: scripted_def retry_from.simps [of t retries base_ms logging_env "scripted r" "Suc attempt"] unwrap_or_def)
      then show ?thesis using False less.prems by (intro exI [of _ attempt]) (auto simp: retry_log_def)
    next
      case step: True
      let ?log = "log @ [Attempted, Paused (pause_ms t (unat base_ms) attempt), ConnectionReset]"
      have f: "retry_from t retries base_ms logging_env (scripted r) attempt last_err (attempt, log) =
          retry_from t retries base_ms logging_env (scripted r) (attempt + 1) (Some e) (attempt + 1, ?log)"
        using u less.prems e step by (simp add: scripted_def logging_env_def pause_exact [OF assms(2)])
      have "retries - (attempt + 1) < retries - attempt" using less.prems by simp
      from less.hyps [OF this step, of "Some e" ?log] obtain i where
        i: "attempt + 1 \<le> i" "i < retries" "\<forall>j. attempt + 1 \<le> j \<and> j < i \<longrightarrow> retryable (r j)" "i + 1 = retries \<or> \<not> retryable (r i)"
          "retry_from t retries base_ms logging_env (scripted r) (attempt + 1) (Some e) (attempt + 1, ?log) =
             (r i, (i + 1, ?log @ retry_log t (unat base_ms) (attempt + 1) i))" by blast
      have "\<forall>j. attempt \<le> j \<and> j < i \<longrightarrow> retryable (r j)"
        using i(3) True by (metis Suc_eq_plus1 Suc_leI le_neq_implies_less)
      moreover have "[attempt..<i] = attempt # [attempt + 1..<i]" using i(1) by (simp add: upt_conv_Cons)
      ultimately show ?thesis using f i by (intro exI [of _ i]) (auto simp: retry_log_def)
    qed
  qed
qed

text \<open>
  C26: retrying is exact, in what it returns and in everything it does. With at least one try allowed, the call stops at
  the first attempt that succeeds or fails in a way that another try cannot mend, or at the last one, and returns the
  result of that attempt. Between two attempts, and only there, it pauses and then resets the connection. The pause
  after the n-th attempt is the base delay doubled n - 1 times, six times at most; on an ESP board it is two seconds
  at least. The base delay is assumed to be small enough that 64 times it fits 64 bits.
\<close>
theorem retry_exact:
  assumes "0 < retries" "unat base_ms * 64 < 2 ^ 64"
  shows "\<exists>i < retries. (\<forall>j < i. retryable (r j)) \<and> (i + 1 = retries \<or> \<not> retryable (r i)) \<and>
    with_retry t retries base_ms logging_env (scripted r) (0, []) =
      (r i, (i + 1, concat (map (\<lambda>n. [Attempted,
          Paused (max (if t = Esp then 2000 else 0) (if n < 6 then unat base_ms * 2 ^ n else unat base_ms * 64)),
          ConnectionReset]) [0..<i]) @ [Attempted]))"
  using retry_from_scripted [OF assms, of r t None "[]"] by (auto simp: with_retry_def retry_log_def pause_ms_def)

text \<open>A busy server that answers the second time: on a board the pause is two seconds, though the base delay is half a second.\<close>

theorem retry_exact_witness:
  "with_retry Esp 2 500 logging_env (scripted (\<lambda>n. if n = 0 then Inl (ErrHttp 503 ''llm_request'') else Inr ())) (0, []) =
      (Inr (), (2, [Attempted, Paused 2000, ConnectionReset, Attempted]))"
proof -
  let ?r = "\<lambda>n::nat. if n = 0 then Inl (ErrHttp 503 ''llm_request'') else Inr ()"
  have r: "retryable (?r 0)" by (simp add: retryable_def is_retryable_upstream_def http_status_code_def retryable_status_def)
  obtain i where i: "i < 2" "i + 1 = 2 \<or> \<not> retryable (?r i)"
    "with_retry Esp 2 500 logging_env (scripted ?r) (0, []) =
      (?r i, (i + 1, concat (map (\<lambda>n. [Attempted,
          Paused (max (if Esp = Esp then 2000 else 0) (if n < 6 then unat (500::u64) * 2 ^ n else unat (500::u64) * 64)),
          ConnectionReset]) [0..<i]) @ [Attempted]))"
    using retry_exact [of 2 500 ?r Esp] by auto
  have "i = 1" using i(1,2) r by (cases i) auto
  then show ?thesis using i(3) by simp
qed

section \<open>The chain\<close>

definition fails :: "('c \<Rightarrow> 'w \<Rightarrow> (Error + 'r) \<times> 'w) \<Rightarrow> 'c \<Rightarrow> 'w \<Rightarrow> bool" where
  "fails attempt c w \<longleftrightarrow> (\<exists>e. fst (attempt c w) = Inl e)"

text \<open>The world after the clients of a list have been tried.\<close>

definition tried :: "('c \<Rightarrow> 'w \<Rightarrow> (Error + 'r) \<times> 'w) \<Rightarrow> 'c list \<Rightarrow> 'w \<Rightarrow> 'w" where
  "tried attempt cs w = fold (\<lambda>c w. snd (attempt c w)) cs w"

fun all_fail :: "('c \<Rightarrow> 'w \<Rightarrow> (Error + 'r) \<times> 'w) \<Rightarrow> 'c list \<Rightarrow> 'w \<Rightarrow> bool" where
  "all_fail attempt [] w = True"
| "all_fail attempt (c # cs) w = (fails attempt c w \<and> all_fail attempt cs (snd (attempt c w)))"

lemma first_success_cases:
  "(\<exists>pre c post x. cs = pre @ c # post \<and> all_fail attempt pre w \<and> fst (attempt c (tried attempt pre w)) = Inr x \<and>
       first_success attempt cs e w = (Inr x, tried attempt (pre @ [c]) w)) \<or>
   (all_fail attempt cs w \<and> (\<exists>e'. first_success attempt cs e w = (Inl e', tried attempt cs w) \<and>
       (cs = [] \<longrightarrow> e' = e) \<and> (cs \<noteq> [] \<longrightarrow> fst (attempt (last cs) (tried attempt (butlast cs) w)) = Inl e')))"
proof (induction cs arbitrary: w e)
  case (Cons c cs)
  obtain r w1 where a: "attempt c w = (r, w1)" by (cases "attempt c w")
  show ?case
  proof (cases r)
    case (Inr x)
    then show ?thesis using a by (intro disjI1 exI [of _ "[]"] exI [of _ c] exI [of _ cs]) (simp add: tried_def)
  next
    case (Inl e1)
    have f: "fails attempt c w" "first_success attempt (c # cs) e w = first_success attempt cs e1 w1"
      "\<And>ds. tried attempt (c # ds) w = tried attempt ds w1"
      using a Inl by (simp_all add: fails_def tried_def)
    from Cons [of w1 e1] show ?thesis
    proof (elim disjE exE conjE)
      fix pre d post x
      assume h: "cs = pre @ d # post" "all_fail attempt pre w1" "fst (attempt d (tried attempt pre w1)) = Inr x"
        "first_success attempt cs e1 w1 = (Inr x, tried attempt (pre @ [d]) w1)"
      then show ?thesis using f a
        by (intro disjI1 exI [of _ "c # pre"] exI [of _ d] exI [of _ post] exI [of _ x]) simp
    next
      fix e'
      assume h: "all_fail attempt cs w1" "first_success attempt cs e1 w1 = (Inl e', tried attempt cs w1)"
        "cs = [] \<longrightarrow> e' = e1" "cs \<noteq> [] \<longrightarrow> fst (attempt (last cs) (tried attempt (butlast cs) w1)) = Inl e'"
      have "fst (attempt (last (c # cs)) (tried attempt (butlast (c # cs)) w)) = Inl e'"
        using h(3,4) f(3) a Inl by (cases "cs = []") (simp_all add: tried_def)
      then show ?thesis using h f a by (intro disjI2) auto
    qed
  qed
qed (simp add: tried_def)

definition chain_attempt :: "target \<Rightarrow> json_library \<Rightarrow> string \<Rightarrow> ToolSpec list option \<Rightarrow> 'w client \<Rightarrow> 'w
    \<Rightarrow> (Error + LlmResponse) \<times> 'w" where
  "chain_attempt t j system tools c w =
     (case prepare_request_for_client t (cl_compat c) system tools of
        (effective_system, effective_tools) \<Rightarrow>
          (case cl_chat c effective_system effective_tools w of
             (Inr r, w1) \<Rightarrow> (Inr (finalize_response_for_client j (cl_compat c) tools r), w1)
           | (Inl e, w1) \<Rightarrow> (Inl e, w1)))"

text \<open>
  C25: the chain of sources. The sources are tried in their order; the reply is that of the first one that succeeds, and no later
  one is called. When all fail the error is that of the last source, and it is recorded; a success records
  nothing. A chain without sources fails at once and leaves the world as it is.
\<close>
theorem fallback_first_success:
  "(fl_clients fl = [] \<and> (\<exists>e. fallback_chat t j system tools fl w = (Inl e, fl\<lparr>fl_last_error := Some e\<rparr>, w))) \<or>
   (\<exists>pre c post x. fl_clients fl = pre @ c # post \<and> all_fail (chain_attempt t j system tools) pre w \<and>
      fst (chain_attempt t j system tools c (tried (chain_attempt t j system tools) pre w)) = Inr x \<and>
      fallback_chat t j system tools fl w = (Inr x, fl, tried (chain_attempt t j system tools) (pre @ [c]) w)) \<or>
   (\<exists>pre c e. fl_clients fl = pre @ [c] \<and> all_fail (chain_attempt t j system tools) (fl_clients fl) w \<and>
      fst (chain_attempt t j system tools c (tried (chain_attempt t j system tools) pre w)) = Inl e \<and>
      fallback_chat t j system tools fl w =
        (Inl e, fl\<lparr>fl_last_error := Some e\<rparr>, tried (chain_attempt t j system tools) (fl_clients fl) w))"
proof -
  let ?a = "chain_attempt t j system tools"
  have c: "fallback_chat t j system tools fl w = run_with_fallback ?a fl w"
    by (simp add: fallback_chat_def chain_attempt_def [abs_def])
  show ?thesis
  proof (cases "fl_clients fl = []")
    case True
    then show ?thesis by (simp add: c run_with_fallback_def Let_def)
  next
    case False
    show ?thesis
      using first_success_cases [of "fl_clients fl" ?a w "err_config ''fallback_llm'' ''llm fallback returned no result''"]
    proof (elim disjE exE conjE)
      fix pre d post x
      assume "fl_clients fl = pre @ d # post" "all_fail ?a pre w" "fst (?a d (tried ?a pre w)) = Inr x"
        "first_success ?a (fl_clients fl) (err_config ''fallback_llm'' ''llm fallback returned no result'') w = (Inr x, tried ?a (pre @ [d]) w)"
      then show ?thesis using False unfolding c by (intro disjI2 disjI1) (auto simp: run_with_fallback_def)
    next
      fix e
      assume h: "all_fail ?a (fl_clients fl) w"
        "first_success ?a (fl_clients fl) (err_config ''fallback_llm'' ''llm fallback returned no result'') w = (Inl e, tried ?a (fl_clients fl) w)"
        "fl_clients fl \<noteq> [] \<longrightarrow> fst (?a (last (fl_clients fl)) (tried ?a (butlast (fl_clients fl)) w)) = Inl e"
      then show ?thesis using False unfolding c
        by (intro disjI2 exI [of _ "butlast (fl_clients fl)"] exI [of _ "last (fl_clients fl)"] exI [of _ e])
          (simp add: run_with_fallback_def)
    qed
  qed
qed

text \<open>How many requests leave the device: a counter of the world that only the requests advance, each by one at most.\<close>

definition counts :: "('w \<Rightarrow> nat) \<Rightarrow> 'w retry_env \<Rightarrow> bool" where
  "counts n env \<longleftrightarrow> (\<forall>d w. n (re_sleep env d w) = n w) \<and> (\<forall>w. n (re_reset env w) = n w)"

definition one_request :: "('w \<Rightarrow> nat) \<Rightarrow> ('w \<Rightarrow> (Error + 'a) \<times> 'w) \<Rightarrow> bool" where
  "one_request n f \<longleftrightarrow> (\<forall>w. n (snd (f w)) \<le> n w + 1)"

lemma retry_requests:
  assumes "counts n env" "one_request n f"
  shows "n (snd (retry_from t retries base_ms env f attempt last_err w)) \<le> n w + (retries - attempt)"
proof (induction "retries - attempt" arbitrary: attempt last_err w rule: less_induct)
  case less
  note u = retry_from.simps [of t retries base_ms env f attempt last_err w]
  obtain r w1 where f: "f w = (r, w1)" by (cases "f w")
  have o: "n w1 \<le> n w + 1" using assms(2) f by (metis one_request_def snd_conv)
  show ?case
  proof (cases "attempt < retries \<and> (\<exists>e. r = Inl e \<and> is_retryable_upstream e)")
    case True
    then obtain e where e: "r = Inl e" "is_retryable_upstream e" by blast
    let ?w2 = "if attempt + 1 < retries then re_reset env (re_sleep env (retry_delay_ms t base_ms attempt) w1) else w1"
    have "n ?w2 = n w1" using assms(1) by (simp add: counts_def)
    moreover have "n (snd (retry_from t retries base_ms env f (attempt + 1) (Some e) ?w2)) \<le> n ?w2 + (retries - (attempt + 1))"
    proof (rule less.hyps)
      show "retries - (attempt + 1) < retries - attempt" using True by arith
    qed
    moreover have "retry_from t retries base_ms env f attempt last_err w = retry_from t retries base_ms env f (attempt + 1) (Some e) ?w2"
      using u f e True by simp
    ultimately show ?thesis using o True by simp
  next
    case False
    then show ?thesis using u f o by (auto split: sum.split)
  qed
qed

lemma chain_requests:
  assumes "\<And>c w. c \<in> set cs \<Longrightarrow> n (snd (attempt c w)) \<le> n w + k"
  shows "n (snd (first_success attempt cs e w)) \<le> n w + k * length cs"
  using assms
proof (induction cs arbitrary: e w)
  case (Cons c cs)
  obtain r w1 where a: "attempt c w = (r, w1)" by (cases "attempt c w")
  have o: "n w1 \<le> n w + k" using Cons.prems [of c w] a by simp
  show ?case
  proof (cases r)
    case (Inl e1)
    have "n (snd (first_success attempt cs e1 w1)) \<le> n w1 + k * length cs" using Cons by simp
    then show ?thesis using a Inl o by simp
  qed (use a o in simp)
qed simp

text \<open>
  A chain makes a bounded number of requests. When every source is called as the clients do, with two tries, a
  question of the agent causes at most two requests per source, whatever the servers answer.
\<close>
theorem chain_requests_bounded:
  assumes "counts n env" "\<And>c system tools. c \<in> set (fl_clients fl) \<Longrightarrow>
      \<exists>f. cl_chat c system tools = with_retry t 2 500 env f \<and> one_request n f"
  shows "n (snd (snd (fallback_chat t j system tools fl w))) \<le> n w + 2 * length (fl_clients fl)"
proof -
  have "n (snd (chain_attempt t j system tools c w)) \<le> n w + 2" if c: "c \<in> set (fl_clients fl)" for c w
  proof -
    obtain system' tools' where p: "prepare_request_for_client t (cl_compat c) system tools = (system', tools')"
      by (cases "prepare_request_for_client t (cl_compat c) system tools")
    obtain f where "cl_chat c system' tools' = with_retry t 2 500 env f" "one_request n f" using assms(2) [OF c] by blast
    then have "n (snd (cl_chat c system' tools' w)) \<le> n w + 2"
      using retry_requests [OF assms(1), of f t 2 500 0 None w] by (simp add: with_retry_def)
    then show ?thesis by (auto simp: chain_attempt_def p split: prod.splits sum.splits)
  qed
  then have "n (snd (first_success (chain_attempt t j system tools) (fl_clients fl) e w)) \<le> n w + 2 * length (fl_clients fl)" for e
    by (rule chain_requests)
  moreover have "fallback_chat t j system tools fl w = run_with_fallback (chain_attempt t j system tools) fl w"
    by (simp add: fallback_chat_def chain_attempt_def [abs_def])
  moreover have "snd (snd (run_with_fallback a fl w)) = w \<or>
      (\<exists>e. snd (snd (run_with_fallback a fl w)) = snd (first_success a (fl_clients fl) e w))" for a
    by (auto simp: run_with_fallback_def Let_def case_prod_beta split: sum.split)
  ultimately show ?thesis by (metis le_add1)
qed

section \<open>Tool calls as text\<close>

lemma respaced_graphic: "respaced s u \<Longrightarrow> filter graphic s = filter graphic u"
proof (induction rule: respaced.induct)
  case (respaced_left w s u)
  then have "filter graphic w = []" by (auto simp: whitespace_def graphic_def)
  then show ?case using respaced_left by simp
next
  case (respaced_right w s u)
  then have "filter graphic w = []" by (auto simp: whitespace_def graphic_def)
  then show ?case using respaced_right by simp
qed auto

lemma graphic_not_blank: "c \<in> set s \<Longrightarrow> graphic c \<Longrightarrow> trim s \<noteq> []"
  using respaced_graphic [OF respaced_trim_trans [OF respaced_refl]] by (metis empty_iff filter.simps(1) filter_empty_conv empty_set)

lemma find_after:
  assumes "c \<notin> set pre"
  shows "find_sub (c # p) (pre @ c # p @ rest) = Some (length pre)"
  using assms
proof (induction pre)
  case Nil
  then show ?case by (subst find_sub.simps) simp
next
  case (Cons d ds)
  then show ?case by (subst find_sub.simps) auto
qed

lemma find_none: "c \<notin> set s \<Longrightarrow> find_sub (c # p) s = None"
proof (induction s)
  case Nil
  then show ?case by (subst find_sub.simps) simp
next
  case (Cons d ds)
  then show ?case by (subst find_sub.simps) auto
qed

definition joined_text :: "string \<Rightarrow> string \<Rightarrow> string" where
  "joined_text before after =
     trim (if after = [] then trim_end before
           else (if trim_end before \<noteq> [] \<and> last (trim_end before) \<noteq> CHR 0x0A then trim_end before @ LF else trim_end before)
             @ trim_start after)"

text \<open>
  A tool call written as text is found. For a reply that is not JSON as a whole and holds one tool block, with a
  named call and its arguments in any order and among any other members, the call is recovered with that name and the arguments
  as the library prints them, and the text around the block remains, its edges trimmed and its two parts on
  lines of their own.
\<close>
theorem tool_block_recovered:
  assumes "CHR ''<'' \<notin> set before" "CHR ''<'' \<notin> set body" "CHR ''<'' \<notin> set after"
    "jl_parse j (trim (before @ TOOL_CALL_OPEN @ body @ TOOL_CALL_CLOSE @ after)) = None"
    "jl_parse j (normalize_tool_payload body) = Some (JObject obj)"
    "field_of ''tool_calls'' obj = None" "field_of ''name'' obj = Some (JString name)"
    "field_of ''arguments'' obj = Some (JObject args)" "field_of ''id'' obj = None"
  shows "recover_text_tool_calls j \<lparr>lr_content = before @ TOOL_CALL_OPEN @ body @ TOOL_CALL_CLOSE @ after, lr_stop_reason = EndTurn,
       lr_tool_calls = None\<rparr> =
     \<lparr>lr_content = joined_text before after, lr_stop_reason = ToolUse,
      lr_tool_calls = Some [\<lparr>tl_id = ''text_tool_1'', tl_name = name, tl_input = jl_print j (JObject args)\<rparr>]\<rparr>"
proof -
  let ?s = "before @ TOOL_CALL_OPEN @ body @ TOOL_CALL_CLOSE @ after"
  have o: "find_sub TOOL_CALL_OPEN ?s = Some (length before)"
    using find_after [OF assms(1), of "tl TOOL_CALL_OPEN" "body @ TOOL_CALL_CLOSE @ after"] by (simp add: TOOL_CALL_OPEN_def)
  have c: "find_sub TOOL_CALL_CLOSE (body @ TOOL_CALL_CLOSE @ after) = Some (length body)"
    using find_after [OF assms(2), of "tl TOOL_CALL_CLOSE" after] by (simp add: TOOL_CALL_CLOSE_def)
  have n: "find_sub TOOL_CALL_OPEN after = None"
    using find_none [OF assms(3), of "tl TOOL_CALL_OPEN"] by (simp add: TOOL_CALL_OPEN_def)
  have "build_tool_call_from_object j obj 1 = Some (\<lparr>tl_id = ''text_tool_1'', tl_name = name, tl_input = jl_print j (JObject args)\<rparr>, 2)"
    by (simp add: build_tool_call_from_object_def assms(7-9) or_else_def normalize_arguments_json_def Let_def show_nat.simps
        char_of_eq_iff numeral_2_eq_2)
  then have k: "collect_tool_calls_from_value j (JObject obj) ([], 1) =
      ([\<lparr>tl_id = ''text_tool_1'', tl_name = name, tl_input = jl_print j (JObject args)\<rparr>], 2)"
    by (simp add: assms(6))
  have "scan_tool_calls j ?s [] ([], 1) =
      (joined_text before after, [\<lparr>tl_id = ''text_tool_1'', tl_name = name, tl_input = jl_print j (JObject args)\<rparr>])"
    using o c n k assms(5)
    by (simp add: scan_tool_calls.simps [of j ?s] scan_tool_calls.simps [of j after] Let_def joined_text_def)
  then have "parse_tool_calls_from_text j ?s =
      (joined_text before after, [\<lparr>tl_id = ''text_tool_1'', tl_name = name, tl_input = jl_print j (JObject args)\<rparr>])"
    using assms(4) by (simp add: parse_tool_calls_from_text_def)
  moreover have "trim ?s \<noteq> []"
    by (rule graphic_not_blank [of "CHR ''<''"]) (simp_all add: TOOL_CALL_OPEN_def graphic_def)
  ultimately show ?thesis by (simp add: recover_text_tool_calls_def)
qed

definition demo_library :: json_library where
  "demo_library =
     \<lparr>jl_parse = (\<lambda>s. if s = ''X'' then Some (JObject [(''name'', JString ''get_time''), (''arguments'', JObject [])]) else None),
      jl_print = (\<lambda>v. ''{}'')\<rparr>"

theorem tool_block_recovered_witness:
  "recover_text_tool_calls demo_library \<lparr>lr_content = ''Wait '' @ TOOL_CALL_OPEN @ ''X'' @ TOOL_CALL_CLOSE @ [], lr_stop_reason = EndTurn,
       lr_tool_calls = None\<rparr> =
     \<lparr>lr_content = joined_text ''Wait '' [], lr_stop_reason = ToolUse,
      lr_tool_calls = Some [\<lparr>tl_id = ''text_tool_1'', tl_name = ''get_time'', tl_input = ''{}''\<rparr>]\<rparr>"
proof -
  have x: "trim ''X'' = ''X''" by (simp add: trim_graphic graphic_def)
  have e: "trim (''Wait '' @ TOOL_CALL_OPEN @ ''X'' @ TOOL_CALL_CLOSE @ []) \<noteq> ''X''"
    using respaced_graphic [OF respaced_trim_trans [OF respaced_refl], of "''Wait '' @ TOOL_CALL_OPEN @ ''X'' @ TOOL_CALL_CLOSE @ []"]
    by (auto simp: TOOL_CALL_OPEN_def TOOL_CALL_CLOSE_def graphic_def)
  have p: "jl_print demo_library v = ''{}''" for v by (simp add: demo_library_def)
  show ?thesis
    by (subst tool_block_recovered [where obj = "[(''name'', JString ''get_time''), (''arguments'', JObject [])]" and name = "''get_time''" and args = "[]"])
      (use e in \<open>simp_all add: demo_library_def normalize_tool_payload_def x field_of_def\<close>)
qed

text \<open>One source, and a server that stays busy.\<close>

definition busy_chain :: "attempts FallbackLlmClient" where
  "busy_chain = \<lparr>fl_clients = [\<lparr>cl_compat = NativeTools,
      cl_chat = (\<lambda>s u. with_retry Esp 2 500 logging_env (scripted (\<lambda>n. Inl (ErrHttp 503 ''llm_request''))))\<rparr>], fl_last_error = None\<rparr>"

theorem chain_requests_bounded_witness:
  "fst (snd (snd (fallback_chat Esp demo_library ''system'' None busy_chain (0, [])))) \<le> 2"
proof -
  have c: "counts fst logging_env" by (auto simp: counts_def logging_env_def)
  have "one_request fst (scripted (\<lambda>n. Inl (ErrHttp 503 ''llm_request'')))" by (auto simp: one_request_def scripted_def)
  then have "\<exists>f. cl_chat c s u = with_retry Esp 2 500 logging_env f \<and> one_request fst f"
    if "c \<in> set (fl_clients busy_chain)" for c s u using that by (auto simp: busy_chain_def)
  from chain_requests_bounded [where fl = busy_chain and t = Esp and j = demo_library and system = "''system''" and tools = None
      and w = "(0, [])", OF c this]
  show ?thesis by (simp add: busy_chain_def)
qed

end
