(* ===== verification/Cached_Store.thy ===== *)
theory Cached_Store
  imports Message
begin

text \<open>
  The stores that keep one JSON file in a process-wide cache
  (\<open>src/src/platform/storage/cached_json.rs\<close>): the file is read once, each operation runs on the cache and
  reports whether it changed it, and a change is written back before the operation returns. The file is \<open>None\<close> or
  its bytes; \<open>store_io\<close> says which of its uses fail. serde is a parameter of each store. The mutex around the
  cache cannot be poisoned in the release profile, which aborts on a panic, so that branch has no counterpart.
\<close>

section \<open>Files\<close>

(* platform/storage/mod.rs: lines 220-224 the bound of a write *)
fun MAX_WRITE_SIZE :: "target \<Rightarrow> nat" where
  "MAX_WRITE_SIZE Esp = 256 * 1024"
| "MAX_WRITE_SIZE Host = 1024 * 1024"

text \<open>
  What one operation meets: a read that fails other than by a missing file, and a write that fails and leaves the file as
  it then is. On a host the file is replaced atomically and a failure leaves the old one; on a board it is overwritten in place.
\<close>

record store_io =
  si_target :: target
  si_read_error :: "Error option"
  si_write_error :: "(Error \<times> string option) option"

datatype read_outcome = ReadBytes string | ReadNotFound | ReadFails Error

definition read_file :: "store_io \<Rightarrow> string option \<Rightarrow> read_outcome" where
  "read_file io file =
     (case si_read_error io of
        Some e \<Rightarrow> ReadFails e
      | None \<Rightarrow> (case file of None \<Rightarrow> ReadNotFound | Some b \<Rightarrow> ReadBytes b))"

(* platform/storage/mod.rs: fn write_file_unlocked *)
definition write_file_unlocked :: "store_io \<Rightarrow> string option \<Rightarrow> string \<Rightarrow> string \<Rightarrow> string option \<times> (Error + unit)" where
  "write_file_unlocked io file bytes stage =
     (if MAX_WRITE_SIZE (si_target io) < length bytes
      then (file, Inl (err_config stage (''write size '' @ show_nat (length bytes) @ '' exceeds limit ''
              @ show_nat (MAX_WRITE_SIZE (si_target io)))))
      else case si_write_error io of
        Some (e, left) \<Rightarrow> (left, Inl e)
      | None \<Rightarrow> (Some bytes, Inr ()))"

(* platform/storage/mod.rs: fn write_json_file *)
definition write_json_file :: "store_io \<Rightarrow> string option \<Rightarrow> string \<Rightarrow> string option \<times> (Error + unit)" where
  "write_json_file io file bytes = write_file_unlocked io file bytes ''storage_write_json''"

section \<open>The cache and its file\<close>

(* platform/storage/cached_json.rs: struct StoreOp *)
record 'r StoreOp =
  so_result :: 'r
  so_dirty :: bool

(* platform/storage/cached_json.rs: impl StoreOp / fn clean *)
definition op_clean :: "'r \<Rightarrow> 'r StoreOp" where
  "op_clean r = \<lparr>so_result = r, so_dirty = False\<rparr>"

(* platform/storage/cached_json.rs: impl StoreOp / fn dirty *)
definition op_dirty :: "'r \<Rightarrow> 'r StoreOp" where
  "op_dirty r = \<lparr>so_result = r, so_dirty = True\<rparr>"

(* platform/storage/cached_json.rs: impl StoreOp / fn with_dirty *)
definition op_with_dirty :: "'r \<Rightarrow> bool \<Rightarrow> 'r StoreOp" where
  "op_with_dirty r d = \<lparr>so_result = r, so_dirty = d\<rparr>"

lemmas op_defs = op_clean_def op_dirty_def op_with_dirty_def

text \<open>What a store is made with: how it loads, with the stage for its errors, and how serde writes its value.\<close>

record 't store_config =
  sc_load :: "read_outcome \<Rightarrow> Error + 't"
  sc_encode :: "'t \<Rightarrow> string + string"
  sc_stage_persist :: string

(* platform/storage/cached_json.rs: struct CachedJsonFileStore *)
record 't CachedJsonFileStore =
  cj_cache :: "'t option"
  cj_file :: "string option"

(* platform/storage/cached_json.rs: fn load_json_or_default *)
definition load_json_or_default :: "(string \<Rightarrow> string + 't) \<Rightarrow> 't \<Rightarrow> string \<Rightarrow> read_outcome \<Rightarrow> Error + 't" where
  "load_json_or_default decode dflt stage r =
     (case r of
        ReadBytes buf \<Rightarrow>
          (if 2 < length buf
           then case decode buf of Inl message \<Rightarrow> Inl (err_config stage message) | Inr v \<Rightarrow> Inr v
           else Inr dflt)
      | ReadNotFound \<Rightarrow> Inr dflt
      | ReadFails e \<Rightarrow> Inl (with_stage e stage))"

(* platform/storage/cached_json.rs: impl CachedJsonFileStore / fn persist *)
definition persist :: "'t store_config \<Rightarrow> store_io \<Rightarrow> 't \<Rightarrow> string option \<Rightarrow> string option \<times> (Error + unit)" where
  "persist cfg io v file =
     (case sc_encode cfg v of
        Inl message \<Rightarrow> (file, Inl (err_config (sc_stage_persist cfg) message))
      | Inr json \<Rightarrow> write_json_file io file json)"

(* platform/storage/cached_json.rs: impl CachedJsonFileStore / fn load_from_disk *)
definition load_from_disk :: "'t store_config \<Rightarrow> store_io \<Rightarrow> string option \<Rightarrow> Error + 't" where
  "load_from_disk cfg io file = sc_load cfg (read_file io file)"

text \<open>An operation gets the value and returns it as it left it.\<close>

(* platform/storage/cached_json.rs: impl CachedJsonFileStore / fn with_cached_mut *)
definition with_cached_mut :: "'t store_config \<Rightarrow> store_io \<Rightarrow> ('t \<Rightarrow> 't \<times> (Error + 'r StoreOp)) \<Rightarrow> 't CachedJsonFileStore
    \<Rightarrow> 't CachedJsonFileStore \<times> (Error + 'r)" where
  "with_cached_mut cfg io f s =
     (case (case cj_cache s of Some v \<Rightarrow> Inr v | None \<Rightarrow> load_from_disk cfg io (cj_file s)) of
        Inl e \<Rightarrow> (s, Inl e)
      | Inr v \<Rightarrow>
          (case f v of (v', outcome) \<Rightarrow>
             let s1 = s\<lparr>cj_cache := Some v'\<rparr>
             in case outcome of
                  Inl e \<Rightarrow> (s1, Inl e)
                | Inr op \<Rightarrow>
                    (if so_dirty op
                     then case persist cfg io v' (cj_file s) of
                            (file', Inl e) \<Rightarrow> (s1\<lparr>cj_file := file'\<rparr>, Inl e)
                          | (file', Inr _) \<Rightarrow> (s1\<lparr>cj_file := file'\<rparr>, Inr (so_result op))
                     else (s1, Inr (so_result op)))))"

section \<open>Hash maps\<close>

text \<open>
  A hash map as the list of its entries in the order in which it would be iterated; keys are distinct. A new key goes to
  the end: nothing that follows depends on where it goes.
\<close>

type_synonym 'v hashmap = "(string \<times> 'v) list"

definition hm_values :: "'v hashmap \<Rightarrow> 'v list" where
  "hm_values m = map snd m"

fun hm_insert :: "string \<Rightarrow> 'v \<Rightarrow> 'v hashmap \<Rightarrow> 'v hashmap" where
  "hm_insert k v [] = [(k, v)]"
| "hm_insert k v (e # m) = (if fst e = k then (k, v) # m else e # hm_insert k v m)"

definition hm_remove :: "string \<Rightarrow> 'v hashmap \<Rightarrow> 'v hashmap" where
  "hm_remove k m = filter (\<lambda>e. fst e \<noteq> k) m"

definition hm_contains :: "string \<Rightarrow> 'v hashmap \<Rightarrow> bool" where
  "hm_contains k m \<longleftrightarrow> map_of m k \<noteq> None"

lemma hm_keys_insert: "fst ` set (hm_insert k v m) = insert k (fst ` set m)"
  by (induction m) auto

lemma hm_distinct_insert: "distinct (map fst m) \<Longrightarrow> distinct (map fst (hm_insert k v m))"
proof (induction m)
  case (Cons e m)
  moreover have "fst e \<noteq> k \<Longrightarrow> fst e \<notin> set (map fst (hm_insert k v m))"
    using Cons(2) by (simp add: hm_keys_insert)
  ultimately show ?case by (cases "fst e = k") auto
qed simp

lemma hm_lookup_insert [simp]: "map_of (hm_insert k v m) j = (if j = k then Some v else map_of m j)"
  by (induction m) auto

lemma hm_lookup_remove [simp]: "map_of (hm_remove k m) j = (if j = k then None else map_of m j)"
  by (induction m) (auto simp: hm_remove_def)

lemma hm_distinct_remove: "distinct (map fst m) \<Longrightarrow> distinct (map fst (hm_remove k m))"
  by (induction m) (auto simp: hm_remove_def)

lemma hm_length_remove: "length (hm_remove k m) \<le> length m"
  by (simp add: hm_remove_def)

lemma hm_length_insert: "length (hm_insert k v m) = (if hm_contains k m then length m else Suc (length m))"
  by (induction m) (auto simp: hm_contains_def)

lemma hm_set_insert: "distinct (map fst m) \<Longrightarrow> set (hm_insert k v m) = insert (k, v) {e \<in> set m. fst e \<noteq> k}"
  by (induction m) (auto simp: image_iff)

lemma hm_set_remove: "set (hm_remove k m) = {e \<in> set m. fst e \<noteq> k}"
  by (auto simp: hm_remove_def)

section \<open>What a store promises\<close>

text \<open>
  Two interfaces. \<open>store_operation\<close>: an operation on the cached value that leaves the value alone when it fails or
  reports no change, and keeps an invariant. Every operation of a store meets it, so what
  follows holds for each store of the family: the invariant survives any sequence of calls with any failures of the file, the
  cache and the file agree as long as no write fails, and then restarts in between change no answer.
\<close>

text \<open>The file would load as the cached value.\<close>

definition coherent :: "'t store_config \<Rightarrow> 't CachedJsonFileStore \<Rightarrow> bool" where
  "coherent cfg s \<longleftrightarrow> (\<forall>v. cj_cache s = Some v \<longrightarrow>
     sc_load cfg (case cj_file s of None \<Rightarrow> ReadNotFound | Some b \<Rightarrow> ReadBytes b) = Inr v)"

text \<open>What serde and the loading function are relied on for: a value that was written is read again.\<close>

definition reads_again :: "'t store_config \<Rightarrow> 't \<Rightarrow> bool" where
  "reads_again cfg v \<longleftrightarrow> (\<forall>json. sc_encode cfg v = Inr json \<longrightarrow> sc_load cfg (ReadBytes json) = Inr v)"

text \<open>The process ends and starts again: only the file is left.\<close>

definition restart :: "'t CachedJsonFileStore \<Rightarrow> 't CachedJsonFileStore" where
  "restart s = s\<lparr>cj_cache := None\<rparr>"

datatype 'a store_event = Call store_io 'a | Restart

fun serve :: "'t store_config \<Rightarrow> ('a \<Rightarrow> 't \<Rightarrow> 't \<times> (Error + 'r StoreOp)) \<Rightarrow> 'a store_event list \<Rightarrow> 't CachedJsonFileStore
    \<Rightarrow> 't CachedJsonFileStore \<times> (Error + 'r) list" where
  "serve cfg step [] s = (s, [])"
| "serve cfg step (Call io a # evs) s =
     (case with_cached_mut cfg io (step a) s of (s1, r) \<Rightarrow>
        case serve cfg step evs s1 of (s2, rs) \<Rightarrow> (s2, r # rs))"
| "serve cfg step (Restart # evs) s = serve cfg step evs (restart s)"

text \<open>No use of the file fails.\<close>

definition io_works :: "store_io \<Rightarrow> bool" where
  "io_works io \<longleftrightarrow> si_read_error io = None \<and> si_write_error io = None"

fun event_works :: "'a store_event \<Rightarrow> bool" where
  "event_works (Call io a) \<longleftrightarrow> io_works io"
| "event_works Restart \<longleftrightarrow> True"

fun is_call :: "'a store_event \<Rightarrow> bool" where
  "is_call (Call io a) \<longleftrightarrow> True"
| "is_call Restart \<longleftrightarrow> False"

lemma coherent_restart [simp]: "coherent cfg (restart s)"
  by (simp add: coherent_def restart_def)

text \<open>The cache is what the operations work on, or what the file would load as.\<close>

definition current :: "'t store_config \<Rightarrow> 't CachedJsonFileStore \<Rightarrow> Error + 't" where
  "current cfg s = (case cj_cache s of Some v \<Rightarrow> Inr v
     | None \<Rightarrow> sc_load cfg (case cj_file s of None \<Rightarrow> ReadNotFound | Some b \<Rightarrow> ReadBytes b))"

lemma current_restart: "coherent cfg s \<Longrightarrow> current cfg s = Inr v \<Longrightarrow> current cfg (restart s) = Inr v"
  by (auto simp: current_def restart_def coherent_def split: option.splits)

lemma loads_current: "si_read_error io = None \<Longrightarrow>
    (case cj_cache s of Some v \<Rightarrow> Inr v | None \<Rightarrow> load_from_disk cfg io (cj_file s)) = current cfg s"
  by (simp add: current_def load_from_disk_def read_file_def split: option.split)

text \<open>
  The plain value in memory: its answers to a sequence of calls, and what serde is relied on for along the way, that
  each value to be written fits the file and is read again.
\<close>

fun answers :: "('a \<Rightarrow> 't \<Rightarrow> 't \<times> (Error + 'r StoreOp)) \<Rightarrow> 'a store_event list \<Rightarrow> 't \<Rightarrow> (Error + 'r) list" where
  "answers step [] v = []"
| "answers step (Restart # evs) v = answers step evs v"
| "answers step (Call io a # evs) v = map_sum id so_result (snd (step a v)) # answers step evs (fst (step a v))"

definition fits :: "'t store_config \<Rightarrow> store_io \<Rightarrow> 't \<Rightarrow> bool" where
  "fits cfg io v \<longleftrightarrow> (\<exists>json. sc_encode cfg v = Inr json \<and> length json \<le> MAX_WRITE_SIZE (si_target io))"

fun writable :: "('a \<Rightarrow> 't \<Rightarrow> 't \<times> (Error + 'r StoreOp)) \<Rightarrow> 't store_config \<Rightarrow> 'a store_event list \<Rightarrow> 't \<Rightarrow> bool" where
  "writable step cfg [] v \<longleftrightarrow> True"
| "writable step cfg (Restart # evs) v \<longleftrightarrow> writable step cfg evs v"
| "writable step cfg (Call io a # evs) v \<longleftrightarrow>
     (\<forall>r. snd (step a v) = Inr r \<and> so_dirty r \<longrightarrow> fits cfg io (fst (step a v)) \<and> reads_again cfg (fst (step a v)))
     \<and> writable step cfg evs (fst (step a v))"

lemma answers_calls: "answers step (filter is_call evs) v = answers step evs v"
  by (induction step evs v rule: answers.induct) auto

text \<open>In one process the cached value evolves by the steps alone, whatever the file does.\<close>

lemma cache_evolves: "cj_cache s = Some v \<Longrightarrow> cj_cache (fst (with_cached_mut cfg io f s)) = Some (fst (f v))"
  by (auto simp: with_cached_mut_def Let_def split: prod.split sum.split)

lemma cached_write_fails:
  "cj_cache s = Some v \<Longrightarrow> f v = (v', Inr r) \<Longrightarrow> so_dirty r \<Longrightarrow> si_write_error io \<noteq> None \<Longrightarrow>
     \<exists>e. snd (with_cached_mut cfg io f s) = Inl e"
  by (auto simp: with_cached_mut_def Let_def persist_def write_json_file_def write_file_unlocked_def
      split: prod.split sum.split)

lemma cached_write_works:
  "cj_cache s = Some v \<Longrightarrow> f v = (v', Inr r) \<Longrightarrow> fits cfg io v' \<Longrightarrow> io_works io \<Longrightarrow>
     snd (with_cached_mut cfg io f s) = Inr (so_result r)"
  by (auto simp: with_cached_mut_def Let_def persist_def write_json_file_def write_file_unlocked_def fits_def
      io_works_def split: prod.split sum.split)

locale store_operation =
  fixes step :: "'a \<Rightarrow> 't \<Rightarrow> 't \<times> (Error + 'r StoreOp)"
    and good :: "'t \<Rightarrow> bool"
  assumes good_step: "good v \<Longrightarrow> good (fst (step a v))"
    and failed_step: "step a v = (v', Inl e) \<Longrightarrow> v' = v"
    and clean_step: "step a v = (v', Inr op) \<Longrightarrow> \<not> so_dirty op \<Longrightarrow> v' = v"
begin

text \<open>Whatever fails, the cached value keeps the invariant.\<close>

lemma call_good:
  assumes "\<And>r v. sc_load cfg r = Inr v \<Longrightarrow> good v" "\<forall>v. cj_cache s = Some v \<longrightarrow> good v"
  shows "\<forall>v. cj_cache (fst (with_cached_mut cfg io (step a) s)) = Some v \<longrightarrow> good v"
proof -
  have "good v" if "(case cj_cache s of Some v \<Rightarrow> Inr v | None \<Rightarrow> load_from_disk cfg io (cj_file s)) = Inr v" for v
    using that assms by (auto simp: load_from_disk_def split: option.splits)
  note g = good_step [OF this]
  show ?thesis
  proof (cases "case cj_cache s of Some v \<Rightarrow> Inr v | None \<Rightarrow> load_from_disk cfg io (cj_file s)")
    case (Inl e)
    then show ?thesis using assms(2) by (simp add: with_cached_mut_def)
  next
    case (Inr v)
    then show ?thesis using g [OF Inr, of a]
      by (cases "step a v") (auto simp: with_cached_mut_def Let_def split: sum.split prod.split)
  qed
qed

lemma serve_good:
  assumes "\<And>r v. sc_load cfg r = Inr v \<Longrightarrow> good v" "\<forall>v. cj_cache s = Some v \<longrightarrow> good v"
  shows "\<forall>v. cj_cache (fst (serve cfg step evs s)) = Some v \<longrightarrow> good v"
  using assms(2)
proof (induction evs arbitrary: s)
  case (Cons ev evs)
  show ?case
  proof (cases ev)
    case (Call io a)
    have "fst (serve cfg step (ev # evs) s) = fst (serve cfg step evs (fst (with_cached_mut cfg io (step a) s)))"
      by (simp add: Call case_prod_beta)
    moreover have "\<forall>v. cj_cache (fst (with_cached_mut cfg io (step a) s)) = Some v \<longrightarrow> good v"
      by (rule call_good [OF assms(1) Cons.prems])
    ultimately show ?thesis using Cons.IH by metis
  next
    case Restart
    have "\<forall>v. cj_cache (restart s) = Some v \<longrightarrow> good v" by (simp add: restart_def)
    from Cons.IH [OF this] show ?thesis by (simp add: Restart)
  qed
qed simp

text \<open>A call that meets no failure, over the current value: its answer, and a store that is coherent again.\<close>

lemma call_works:
  assumes "coherent cfg s" "io_works io" "current cfg s = Inr v"
    and wr: "\<And>r. snd (step a v) = Inr r \<Longrightarrow> so_dirty r \<Longrightarrow> fits cfg io (fst (step a v)) \<and> reads_again cfg (fst (step a v))"
  shows "snd (with_cached_mut cfg io (step a) s) = map_sum id so_result (snd (step a v))"
    and "coherent cfg (fst (with_cached_mut cfg io (step a) s))"
    and "current cfg (fst (with_cached_mut cfg io (step a) s)) = Inr (fst (step a v))"
proof -
  obtain v' r where st: "step a v = (v', r)" by (cases "step a v")
  have loaded: "(case cj_cache s of Some v \<Rightarrow> Inr v | None \<Rightarrow> load_from_disk cfg io (cj_file s)) = Inr v"
    using assms(2,3) loads_current [where io = io and s = s and cfg = cfg] by (simp add: io_works_def)
  have stored: "sc_load cfg (case cj_file s of None \<Rightarrow> ReadNotFound | Some b \<Rightarrow> ReadBytes b) = Inr v"
    using assms(1,3) by (auto simp: current_def coherent_def split: option.splits)
  have "snd (with_cached_mut cfg io (step a) s) = map_sum id so_result r
    \<and> coherent cfg (fst (with_cached_mut cfg io (step a) s))
    \<and> current cfg (fst (with_cached_mut cfg io (step a) s)) = Inr v'"
  proof (cases r)
    case (Inl e)
    then show ?thesis using failed_step [of a v v' e] st loaded stored
      by (simp add: with_cached_mut_def coherent_def current_def)
  next
    case (Inr op)
    show ?thesis
    proof (cases "so_dirty op")
      case False
      then show ?thesis using clean_step [of a v v' op] st loaded stored Inr
        by (simp add: with_cached_mut_def coherent_def current_def)
    next
      case True
      then obtain json where "sc_encode cfg v' = Inr json" "length json \<le> MAX_WRITE_SIZE (si_target io)"
        "reads_again cfg v'" using wr [of op] st Inr by (auto simp: fits_def)
      then show ?thesis using st loaded Inr True assms(2)
        by (simp add: with_cached_mut_def coherent_def current_def persist_def write_json_file_def
            write_file_unlocked_def io_works_def reads_again_def Let_def)
    qed
  qed
  then show "snd (with_cached_mut cfg io (step a) s) = map_sum id so_result (snd (step a v))"
    "coherent cfg (fst (with_cached_mut cfg io (step a) s))"
    "current cfg (fst (with_cached_mut cfg io (step a) s)) = Inr (fst (step a v))"
    by (simp_all add: st)
qed

text \<open>The store answers like the plain value in memory, whenever the process restarts.\<close>

theorem serve_answers:
  assumes "coherent cfg s" "current cfg s = Inr v" "list_all event_works evs" "writable step cfg evs v"
  shows "snd (serve cfg step evs s) = answers step evs v"
  using assms
proof (induction evs arbitrary: s v)
  case (Cons ev evs)
  show ?case
  proof (cases ev)
    case (Call io a)
    have w: "io_works io" using Cons.prems(3) Call by simp
    have "\<And>r. snd (step a v) = Inr r \<Longrightarrow> so_dirty r \<Longrightarrow> fits cfg io (fst (step a v)) \<and> reads_again cfg (fst (step a v))" using Cons.prems(4) Call by auto
    note c = call_works [OF Cons.prems(1) w Cons.prems(2) this]
    show ?thesis using Cons.IH [OF c(2) c(3)] c(1) Cons.prems(3,4) by (simp add: Call case_prod_beta)
  next
    case Restart
    show ?thesis using Cons.IH [OF _ current_restart [OF Cons.prems(1,2)]] Cons.prems(3,4) by (simp add: Restart)
  qed
qed simp

end

section \<open>Maps by chat\<close>

text \<open>One value per chat, at most \<open>n\<close> of them; a new one displaces whichever the iteration finds first.\<close>

datatype 'v chat_op = ChatGet string | ChatSet string 'v | ChatClear string

datatype 'v chat_answer = ChatGot "'v option" | ChatDone

(* platform/storage/cached_json.rs: impl ChatScopedCachedJsonMapStore / fn get_cloned *)
definition get_cloned :: "string \<Rightarrow> 'v hashmap \<Rightarrow> 'v hashmap \<times> (Error + 'v chat_answer StoreOp)" where
  "get_cloned chat_id m = (m, Inr (op_clean (ChatGot (map_of m chat_id))))"

(* platform/storage/cached_json.rs: impl ChatScopedCachedJsonMapStore / fn set_owned *)
definition set_owned :: "nat \<Rightarrow> string \<Rightarrow> 'v \<Rightarrow> 'v hashmap \<Rightarrow> 'v hashmap \<times> (Error + 'v chat_answer StoreOp)" where
  "set_owned max_entries chat_id v m =
     (if map_of m chat_id = Some v then (m, Inr (op_clean ChatDone))
      else let m1 = (if \<not> hm_contains chat_id m \<and> max_entries \<le> length m
                     then case m of [] \<Rightarrow> m | e # _ \<Rightarrow> hm_remove (fst e) m
                     else m)
           in (hm_insert chat_id v m1, Inr (op_dirty ChatDone)))"

(* platform/storage/cached_json.rs: impl ChatScopedCachedJsonMapStore / fn clear *)
definition chat_clear :: "string \<Rightarrow> 'v hashmap \<Rightarrow> 'v hashmap \<times> (Error + 'v chat_answer StoreOp)" where
  "chat_clear chat_id m =
     (if hm_contains chat_id m then (hm_remove chat_id m, Inr (op_dirty ChatDone)) else (m, Inr (op_clean ChatDone)))"

fun chat_map_step :: "nat \<Rightarrow> 'v chat_op \<Rightarrow> 'v hashmap \<Rightarrow> 'v hashmap \<times> (Error + 'v chat_answer StoreOp)" where
  "chat_map_step n (ChatGet c) m = get_cloned c m"
| "chat_map_step n (ChatSet c v) m = set_owned n c v m"
| "chat_map_step n (ChatClear c) m = chat_clear c m"

definition chat_map_good :: "nat \<Rightarrow> 'v hashmap \<Rightarrow> bool" where
  "chat_map_good n m \<longleftrightarrow> distinct (map fst m) \<and> length m \<le> max n 1"

lemma hm_contains_iff: "hm_contains k m \<longleftrightarrow> k \<in> fst ` set m"
  by (auto simp: hm_contains_def map_of_eq_None_iff)

lemma set_owned_good:
  assumes "chat_map_good n m"
  shows "chat_map_good n (fst (set_owned n c v m))"
proof (cases "map_of m c = Some v \<or> hm_contains c m \<or> length m < n \<or> m = []")
  case True
  then show ?thesis using assms
    by (auto simp: set_owned_def chat_map_good_def hm_distinct_insert hm_length_insert Let_def hm_contains_def)
next
  case False
  then obtain e m' where m: "m = e # m'" by (cases m) auto
  have "fst e \<notin> fst ` set m'" using assms m by (simp add: chat_map_good_def)
  then have "hm_remove (fst e) m = m'" using m by (simp add: hm_remove_def filter_id_conv) (metis imageI)
  moreover have "\<not> hm_contains c m'" "n \<le> length m" using False m by (auto simp: hm_contains_iff)
  ultimately show ?thesis using assms False
    by (auto simp: set_owned_def chat_map_good_def hm_distinct_insert hm_length_insert Let_def m)
qed

interpretation chat_map: store_operation "chat_map_step n" "chat_map_good n" for n
proof unfold_locales
  show "chat_map_good n (fst (chat_map_step n a v))" if "chat_map_good n v" for a :: "'a chat_op" and v
  proof (cases a)
    case (ChatSet c w)
    then show ?thesis using set_owned_good [OF that] by simp
  next
    case (ChatClear c)
    then show ?thesis using that
      by (auto simp: chat_clear_def chat_map_good_def hm_distinct_remove intro: order_trans [OF hm_length_remove])
  qed (use that in \<open>simp add: get_cloned_def\<close>)
  show "v' = v" if "chat_map_step n a v = (v', Inl e)" for a :: "'a chat_op" and v v' e
    using that by (cases a) (auto simp: get_cloned_def set_owned_def chat_clear_def Let_def split: if_splits)
  show "v' = v" if "chat_map_step n a v = (v', Inr r)" "\<not> so_dirty r" for a :: "'a chat_op" and v v' r
    using that by (cases a) (auto simp: get_cloned_def set_owned_def chat_clear_def Let_def op_defs split: if_splits)
qed

end
