(* ===== verification/Task_Store.thy ===== *)
theory Task_Store
  imports Cached_Store "HOL-Library.Product_Lexorder"
begin

text \<open>
  Durable tasks with due times: the task record, its normalisation and the query
  (\<open>src/src/task/mod.rs\<close>), the store over a cached JSON file (\<open>platform/storage/task_store.rs\<close>), and the
  tick that announces due tasks to the agent. Each store operation is a step on the hash map of tasks.
\<close>

section \<open>Tasks\<close>

(* task/mod.rs: const MAX_TASK_TITLE_CHARS *)
definition MAX_TASK_TITLE_CHARS :: nat where "MAX_TASK_TITLE_CHARS = 120"
(* task/mod.rs: const MAX_TASK_DETAIL_CHARS *)
definition MAX_TASK_DETAIL_CHARS :: nat where "MAX_TASK_DETAIL_CHARS = 512"
(* task/mod.rs: const MAX_TASK_PROJECT_CHARS *)
definition MAX_TASK_PROJECT_CHARS :: nat where "MAX_TASK_PROJECT_CHARS = 80"
(* task/mod.rs: const MAX_TASK_ID_CHARS *)
definition MAX_TASK_ID_CHARS :: nat where "MAX_TASK_ID_CHARS = 128"
(* task/mod.rs: const MAX_TASK_CHANNEL_CHARS *)
definition MAX_TASK_CHANNEL_CHARS :: nat where "MAX_TASK_CHANNEL_CHARS = 32"
(* task/mod.rs: const MAX_TASK_CHAT_ID_CHARS *)
definition MAX_TASK_CHAT_ID_CHARS :: nat where "MAX_TASK_CHAT_ID_CHARS = 160"
(* task/mod.rs: const MAX_TASK_CALENDAR_EVENT_ID_CHARS *)
definition MAX_TASK_CALENDAR_EVENT_ID_CHARS :: nat where "MAX_TASK_CALENDAR_EVENT_ID_CHARS = 128"
(* task/mod.rs: const MAX_TASK_CALENDAR_PROVIDER_CHARS *)
definition MAX_TASK_CALENDAR_PROVIDER_CHARS :: nat where "MAX_TASK_CALENDAR_PROVIDER_CHARS = 32"
(* task/mod.rs: const MAX_TASK_CALENDAR_ACCOUNT_KEY_CHARS *)
definition MAX_TASK_CALENDAR_ACCOUNT_KEY_CHARS :: nat where "MAX_TASK_CALENDAR_ACCOUNT_KEY_CHARS = 128"
(* task/mod.rs: const MAX_TASK_CALENDAR_TARGET_ID_CHARS *)
definition MAX_TASK_CALENDAR_TARGET_ID_CHARS :: nat where "MAX_TASK_CALENDAR_TARGET_ID_CHARS = 64"
(* task/mod.rs: const MAX_TASK_CALENDAR_REMOTE_ID_CHARS *)
definition MAX_TASK_CALENDAR_REMOTE_ID_CHARS :: nat where "MAX_TASK_CALENDAR_REMOTE_ID_CHARS = 128"

(* task/mod.rs: enum TaskStatus *)
datatype TaskStatus = TaskOpen | TaskInProgress | TaskCompleted | TaskCancelled

(* task/mod.rs: impl TaskStatus / fn is_terminal *)
definition is_terminal :: "TaskStatus \<Rightarrow> bool" where
  "is_terminal st \<longleftrightarrow> st = TaskCompleted \<or> st = TaskCancelled"

(* task/mod.rs: enum TaskPriority *)
datatype TaskPriority = TaskLow | TaskNormal | TaskHigh

(* task/mod.rs: struct TaskItem *)
record TaskItem =
  ti_id :: string
  ti_channel :: string
  ti_chat_id :: string
  ti_title :: string
  ti_detail :: string
  ti_project :: string
  ti_status :: TaskStatus
  ti_priority :: TaskPriority
  ti_due_at_unix_secs :: u64
  ti_due_notified_at_unix_secs :: u64
  ti_calendar_event_id :: string
  ti_calendar_provider :: string
  ti_calendar_account_key :: string
  ti_calendar_calendar_id :: string
  ti_calendar_remote_id :: string
  ti_calendar_start_at_unix_secs :: u64
  ti_calendar_end_at_unix_secs :: u64
  ti_calendar_timezone :: string
  ti_calendar_location :: string
  ti_calendar_notes :: string
  ti_completed_at_unix_secs :: u64
  ti_updated_at :: u64

(* task/mod.rs: struct TaskQuery *)
record TaskQuery =
  tk_status :: "TaskStatus option"
  tk_project :: string
  tk_include_completed :: bool
  tk_limit :: nat

(* task/mod.rs: fn normalize_field *)
definition normalize_field :: "string \<Rightarrow> nat \<Rightarrow> string" where
  "normalize_field value max_chars = trim (truncate_content_to_max (trim value) max_chars)"

(* task/mod.rs: fn normalize_task_item *)
definition normalize_task_item :: "TaskItem \<Rightarrow> Error + TaskItem" where
  "normalize_task_item task =
     (let task1 = task\<lparr>ti_id := normalize_field (ti_id task) MAX_TASK_ID_CHARS\<rparr> in
      if ti_id task1 = [] then Inl (err_config ''task_item'' ''id must not be empty'') else
      let task2 = task1\<lparr>ti_channel := normalize_field (ti_channel task1) MAX_TASK_CHANNEL_CHARS\<rparr> in
      if ti_channel task2 = [] then Inl (err_config ''task_item'' ''channel must not be empty'') else
      let task3 = task2\<lparr>ti_chat_id := normalize_field (ti_chat_id task2) MAX_TASK_CHAT_ID_CHARS\<rparr> in
      if ti_chat_id task3 = [] then Inl (err_config ''task_item'' ''chat_id must not be empty'') else
      let task4 = task3\<lparr>ti_title := normalize_field (ti_title task3) MAX_TASK_TITLE_CHARS\<rparr> in
      if ti_title task4 = [] then Inl (err_config ''task_item'' ''title must not be empty'') else
      let task5 = task4\<lparr>
            ti_detail := normalize_field (ti_detail task4) MAX_TASK_DETAIL_CHARS,
            ti_project := normalize_field (ti_project task4) MAX_TASK_PROJECT_CHARS,
            ti_calendar_event_id := normalize_field (ti_calendar_event_id task4) MAX_TASK_CALENDAR_EVENT_ID_CHARS,
            ti_calendar_provider := normalize_field (ti_calendar_provider task4) MAX_TASK_CALENDAR_PROVIDER_CHARS,
            ti_calendar_account_key := normalize_field (ti_calendar_account_key task4) MAX_TASK_CALENDAR_ACCOUNT_KEY_CHARS,
            ti_calendar_calendar_id := normalize_field (ti_calendar_calendar_id task4) MAX_TASK_CALENDAR_TARGET_ID_CHARS,
            ti_calendar_remote_id := normalize_field (ti_calendar_remote_id task4) MAX_TASK_CALENDAR_REMOTE_ID_CHARS,
            ti_calendar_timezone := normalize_field (ti_calendar_timezone task4) MAX_TASK_DETAIL_CHARS,
            ti_calendar_location := normalize_field (ti_calendar_location task4) MAX_TASK_DETAIL_CHARS,
            ti_calendar_notes := normalize_field (ti_calendar_notes task4) MAX_TASK_DETAIL_CHARS\<rparr> in
      if ti_calendar_start_at_unix_secs task5 = 0 \<and> ti_calendar_end_at_unix_secs task5 \<noteq> 0 then
        Inl (err_config ''task_item'' ''calendar_start_at_unix_secs must be set when calendar_end_at_unix_secs is set'')
      else if ti_calendar_start_at_unix_secs task5 \<noteq> 0 \<and> ti_calendar_end_at_unix_secs task5 = 0 then
        Inl (err_config ''task_item'' ''calendar_end_at_unix_secs must be set when calendar_start_at_unix_secs is set'')
      else if ti_calendar_start_at_unix_secs task5 \<noteq> 0
              \<and> ti_calendar_end_at_unix_secs task5 \<le> ti_calendar_start_at_unix_secs task5 then
        Inl (err_config ''task_item'' ''calendar_end_at_unix_secs must be greater than calendar_start_at_unix_secs'')
      else
        let task6 = (if ti_due_at_unix_secs task5 = 0 then task5\<lparr>ti_due_notified_at_unix_secs := 0\<rparr> else task5);
            task7 = (if ti_status task6 \<noteq> TaskCompleted then task6\<lparr>ti_completed_at_unix_secs := 0\<rparr> else task6)
        in Inr task7)"

(* task/mod.rs: fn task_status_rank *)
fun task_status_rank :: "TaskStatus \<Rightarrow> u8" where
  "task_status_rank TaskInProgress = 0"
| "task_status_rank TaskOpen = 1"
| "task_status_rank TaskCompleted = 2"
| "task_status_rank TaskCancelled = 3"

(* task/mod.rs: fn task_due_sort_key *)
definition task_due_sort_key :: "TaskItem \<Rightarrow> u8 \<times> u64" where
  "task_due_sort_key task =
     (if ti_due_at_unix_secs task = 0 then (1, - 1) else (0, ti_due_at_unix_secs task))"

text \<open>The order of the query as a key: the later of two updates first, so its complement.\<close>

(* task/mod.rs: lines 202-208 the comparison *)
definition task_order :: "TaskItem \<Rightarrow> u8 \<times> (u8 \<times> u64) \<times> u64 \<times> string" where
  "task_order task =
     (task_status_rank (ti_status task), task_due_sort_key task, - 1 - ti_updated_at task, ti_id task)"

(* task/mod.rs: lines 189-201 the test of retain *)
definition task_selected :: "TaskQuery \<Rightarrow> TaskItem \<Rightarrow> bool" where
  "task_selected query task \<longleftrightarrow>
     (case tk_status query of
        Some st \<Rightarrow> ti_status task = st
      | None \<Rightarrow> tk_include_completed query \<or> \<not> is_terminal (ti_status task))
     \<and> (trim (tk_project query) = [] \<or> ti_project task = trim (tk_project query))"

(* task/mod.rs: fn filter_tasks *)
definition filter_tasks :: "TaskItem list \<Rightarrow> TaskQuery \<Rightarrow> TaskItem list" where
  "filter_tasks tasks query =
     (let limit = max 1 (min (tk_limit query) 50)
      in take limit (sort_key task_order (filter (task_selected query) tasks)))"

section \<open>The store\<close>

(* platform/storage/task_store.rs: const MAX_TASK_ITEMS *)
definition MAX_TASK_ITEMS :: nat where
  "MAX_TASK_ITEMS = 256"

type_synonym task_map = "TaskItem hashmap"

datatype task_answer = TaskRows "TaskItem list" | TaskRow "TaskItem option" | TaskFlag bool | TaskTime "u64 option"

type_synonym task_step = "task_map \<Rightarrow> task_map \<times> (Error + task_answer StoreOp)"

definition of_chat :: "string \<Rightarrow> string \<Rightarrow> TaskItem \<Rightarrow> bool" where
  "of_chat channel chat_id task \<longleftrightarrow> ti_channel task = channel \<and> ti_chat_id task = chat_id"

(* platform/storage/task_store.rs: impl TaskStore for StorageTaskStore / fn list *)
definition task_list :: "string \<Rightarrow> string \<Rightarrow> TaskQuery \<Rightarrow> task_step" where
  "task_list channel chat_id query m =
     (m, Inr (op_clean (TaskRows (filter_tasks (filter (of_chat channel chat_id) (hm_values m)) query))))"

(* platform/storage/task_store.rs: impl TaskStore for StorageTaskStore / fn get *)
definition task_get :: "string \<Rightarrow> string \<Rightarrow> string \<Rightarrow> task_step" where
  "task_get channel chat_id i m =
     (m, Inr (op_clean (TaskRow (case map_of m i of
            Some task \<Rightarrow> if of_chat channel chat_id task then Some task else None
          | None \<Rightarrow> None))))"

(* platform/storage/task_store.rs: impl TaskStore for StorageTaskStore / fn upsert *)
definition task_upsert :: "TaskItem \<Rightarrow> task_step" where
  "task_upsert task m =
     (case normalize_task_item task of
        Inl e \<Rightarrow> (m, Inl e)
      | Inr next_item \<Rightarrow>
          (if map_of m (ti_id next_item) = Some next_item then (m, Inr (op_clean (TaskFlag False)))
           else if \<not> hm_contains (ti_id next_item) m \<and> MAX_TASK_ITEMS \<le> length m then
             (m, Inl (err_config ''task_store_capacity'' (''task store full (max '' @ show_nat MAX_TASK_ITEMS @ '')'')))
           else (hm_insert (ti_id next_item) next_item m, Inr (op_dirty (TaskFlag True)))))"

(* platform/storage/task_store.rs: impl TaskStore for StorageTaskStore / fn delete *)
definition task_delete :: "string \<Rightarrow> string \<Rightarrow> string \<Rightarrow> task_step" where
  "task_delete channel chat_id i m =
     (case map_of m i of
        Some task \<Rightarrow>
          (if of_chat channel chat_id task then (hm_remove i m, Inr (op_with_dirty (TaskFlag True) True))
           else (m, Inr (op_clean (TaskFlag False))))
      | None \<Rightarrow> (m, Inr (op_clean (TaskFlag False))))"

text \<open>A task that waits for its announcement, and one whose time has come.\<close>

definition task_waits :: "TaskItem \<Rightarrow> bool" where
  "task_waits task \<longleftrightarrow> ti_due_at_unix_secs task \<noteq> 0 \<and> ti_due_notified_at_unix_secs task = 0
     \<and> \<not> is_terminal (ti_status task)"

(* platform/storage/task_store.rs: lines 127-130 a due task *)
definition task_due :: "u64 \<Rightarrow> TaskItem \<Rightarrow> bool" where
  "task_due now task \<longleftrightarrow> task_waits task \<and> ti_due_at_unix_secs task \<le> now"

(* platform/storage/task_store.rs: lines 134-138 the order *)
definition due_order :: "TaskItem \<Rightarrow> u64 \<times> u64 \<times> string" where
  "due_order task = (ti_due_at_unix_secs task, ti_updated_at task, ti_id task)"

(* platform/storage/task_store.rs: lines 124-141 the tasks of a claim *)
definition due_tasks :: "u64 \<Rightarrow> nat \<Rightarrow> task_map \<Rightarrow> TaskItem list" where
  "due_tasks now limit m = take limit (sort_key due_order (filter (task_due now) (hm_values m)))"

definition hm_modify :: "('v \<Rightarrow> 'v) \<Rightarrow> string \<Rightarrow> 'v hashmap \<Rightarrow> 'v hashmap" where
  "hm_modify f k m = map (\<lambda>e. if fst e = k then (fst e, f (snd e)) else e) m"

(* platform/storage/task_store.rs: lines 145-149 the mark *)
definition mark_notified :: "u64 \<Rightarrow> TaskItem \<Rightarrow> TaskItem" where
  "mark_notified now task = task\<lparr>ti_due_notified_at_unix_secs := now\<rparr>"

(* platform/storage/task_store.rs: impl TaskStore for StorageTaskStore / fn claim_due *)
definition task_claim_due :: "u64 \<Rightarrow> nat \<Rightarrow> task_step" where
  "task_claim_due now limit m =
     (if limit = 0 then (m, Inr (op_clean (TaskRows [])))
      else let due = due_tasks now limit m
           in if due = [] then (m, Inr (op_clean (TaskRows [])))
              else (fold (\<lambda>task. hm_modify (mark_notified now) (ti_id task)) due m, Inr (op_dirty (TaskRows due))))"

(* platform/storage/task_store.rs: impl TaskStore for StorageTaskStore / fn next_due_at *)
definition task_next_due_at :: task_step where
  "task_next_due_at m =
     (let times = map ti_due_at_unix_secs (filter task_waits (hm_values m))
      in (m, Inr (op_clean (TaskTime (if times = [] then None else Some (Min (set times)))))))"

datatype task_call =
    TaskList string string TaskQuery
  | TaskGet string string string
  | TaskUpsert TaskItem
  | TaskDelete string string string
  | TaskClaimDue u64 nat
  | TaskNextDueAt

fun task_store_step :: "task_call \<Rightarrow> task_step" where
  "task_store_step (TaskList c h q) = task_list c h q"
| "task_store_step (TaskGet c h i) = task_get c h i"
| "task_store_step (TaskUpsert task) = task_upsert task"
| "task_store_step (TaskDelete c h i) = task_delete c h i"
| "task_store_step (TaskClaimDue now limit) = task_claim_due now limit"
| "task_store_step TaskNextDueAt = task_next_due_at"

(* platform/storage/task_store.rs: fn new_with_path *)
definition task_store_config :: "(string \<Rightarrow> string + task_map) \<Rightarrow> (task_map \<Rightarrow> string + string) \<Rightarrow> task_map store_config" where
  "task_store_config decode encode =
     \<lparr>sc_load = load_json_or_default decode [] ''task_store_cache'', sc_encode = encode,
      sc_stage_persist = ''task_store_persist''\<rparr>"

section \<open>The announcement\<close>

(* i18n/mod.rs: enum Locale *)
datatype Locale = Zh | En

(* i18n/catalog.rs: lines 180-180 the Chinese text of a due task *)
definition task_due_text_zh :: "string \<Rightarrow> string" where
  "task_due_text_zh title =
     [CHR 0xE4, CHR 0xBB, CHR 0xBB, CHR 0xE5, CHR 0x8A, CHR 0xA1, CHR 0xE5, CHR 0x88, CHR 0xB0, CHR 0xE6, CHR 0x9C, CHR 0x9F,
      CHR 0xEF, CHR 0xBC, CHR 0x9A] @ title"

(* i18n/catalog.rs: lines 317-317 the English text of a due task *)
definition task_due_text_en :: "string \<Rightarrow> string" where
  "task_due_text_en title = ''Task due: '' @ title"

fun task_due_text :: "Locale \<Rightarrow> string \<Rightarrow> string" where
  "task_due_text Zh title = task_due_text_zh title"
| "task_due_text En title = task_due_text_en title"

(* task/mod.rs: lines 253-266 the content of an announcement *)
definition task_announcement :: "Locale \<Rightarrow> TaskItem \<Rightarrow> string" where
  "task_announcement loc task =
     task_due_text loc (ti_title task)
     @ (if ti_project task \<noteq> [] then CHR 0x0A # ''Project: '' @ ti_project task else [])
     @ (if ti_detail task \<noteq> [] then CHR 0x0A # ti_detail task else [])"

text \<open>
  The tick over the store: the messages it sends, in order. A send waits until the queue has room and fails only when the
  agent is gone, so it is not modelled. \<open>now_ms\<close> is the clock that stamps the messages.
\<close>

(* task/mod.rs: fn task_due_tick *)
definition task_due_tick :: "target \<Rightarrow> task_map store_config \<Rightarrow> store_io \<Rightarrow> Locale \<Rightarrow> u64 \<Rightarrow> u64
    \<Rightarrow> task_map CachedJsonFileStore \<Rightarrow> task_map CachedJsonFileStore \<times> 'json PcMsg list" where
  "task_due_tick t cfg io loc now now_ms s =
     (case with_cached_mut cfg io (task_claim_due now 8) s of
        (s1, Inr (TaskRows tasks)) \<Rightarrow>
          (s1, concat (map (\<lambda>task.
             case new_inbound_with_ingress t now_ms (ti_channel task) (ti_chat_id task) (task_announcement loc task)
                    False IngressSystem of
               Inr msg \<Rightarrow> [msg]
             | Inl _ \<Rightarrow> []) tasks))
      | (s1, _) \<Rightarrow> (s1, []))"

end
