(* ===== verification/Task_Laws.thy ===== *)
theory Task_Laws
  imports Task_Store
begin

text \<open>
  What the task store promises: tasks in it are in normal form, the order in which the hash map is
  iterated never shows, a due task is announced once and in the order of the due times, and what is lost
  when a write fails.
\<close>

section \<open>Normal forms\<close>

definition char_count :: "string \<Rightarrow> nat" where
  "char_count s = length (char_starts s)"

lemma char_starts_Nil [simp]: "char_starts [] = []"
  by (simp add: char_starts_def)

lemma task_char_count_append: "char_count (s @ u) = char_count s + char_count u"
proof -
  have "filter (\<lambda>i. \<not> is_continuation ((s @ u) ! i)) [0..<length s + length u]
      = filter (\<lambda>i. \<not> is_continuation ((s @ u) ! i)) [0..<length s]
      @ filter (\<lambda>i. \<not> is_continuation ((s @ u) ! i)) (map (\<lambda>i. i + length s) [0..<length u])"
    by (simp add: map_add_upt upt_add_eq_append [of 0 "length s"] add.commute)
  moreover have "filter (\<lambda>i. \<not> is_continuation ((s @ u) ! i)) [0..<length s] = char_starts s"
    by (auto simp: char_starts_def nth_append intro: filter_cong)
  moreover have "length (filter (\<lambda>i. \<not> is_continuation ((s @ u) ! i)) (map (\<lambda>i. i + length s) [0..<length u])) = char_count u"
    by (simp add: char_count_def char_starts_def filter_map comp_def nth_append)
  ultimately show ?thesis by (simp add: char_count_def char_starts_def)
qed

lemma char_count_prefix: "prefix s u \<Longrightarrow> char_count s \<le> char_count u"
  by (auto simp: prefix_def task_char_count_append)

lemma char_count_suffix: "suffix s u \<Longrightarrow> char_count s \<le> char_count u"
  by (auto simp: suffix_def task_char_count_append)

lemma trim_start_suffix: "suffix (trim_start s) s"
proof (induction s rule: trim_start.induct)
  case (1 s)
  then show ?case
    by (subst trim_start.simps) (auto split: option.splits intro: suffix_order.trans suffix_drop)
qed

lemma char_count_trim: "char_count (trim s) \<le> char_count s"
  unfolding trim_def
  using char_count_prefix [OF trim_end_prefix] char_count_suffix [OF trim_start_suffix] by (rule order_trans)

lemma truncate_short: "char_count s \<le> n \<Longrightarrow> truncate_content_to_max s n = s"
  by (simp add: truncate_content_to_max_def char_count_def)

lemma normalize_field_bound: "char_count (normalize_field s n) \<le> n"
  unfolding normalize_field_def
  by (rule order_trans [OF char_count_trim]) (simp add: char_count_def char_truncation)

lemma normalize_field_idem [simp]: "normalize_field (normalize_field s n) n = normalize_field s n"
  using truncate_short [OF normalize_field_bound [of s n]] by (simp add: normalize_field_def)

text \<open>The normalisation in three parts: the text fields, the tests, and the times that depend on others.\<close>

definition task_fields :: "TaskItem \<Rightarrow> TaskItem" where
  "task_fields task = task\<lparr>
     ti_id := normalize_field (ti_id task) MAX_TASK_ID_CHARS,
     ti_channel := normalize_field (ti_channel task) MAX_TASK_CHANNEL_CHARS,
     ti_chat_id := normalize_field (ti_chat_id task) MAX_TASK_CHAT_ID_CHARS,
     ti_title := normalize_field (ti_title task) MAX_TASK_TITLE_CHARS,
     ti_detail := normalize_field (ti_detail task) MAX_TASK_DETAIL_CHARS,
     ti_project := normalize_field (ti_project task) MAX_TASK_PROJECT_CHARS,
     ti_calendar_event_id := normalize_field (ti_calendar_event_id task) MAX_TASK_CALENDAR_EVENT_ID_CHARS,
     ti_calendar_provider := normalize_field (ti_calendar_provider task) MAX_TASK_CALENDAR_PROVIDER_CHARS,
     ti_calendar_account_key := normalize_field (ti_calendar_account_key task) MAX_TASK_CALENDAR_ACCOUNT_KEY_CHARS,
     ti_calendar_calendar_id := normalize_field (ti_calendar_calendar_id task) MAX_TASK_CALENDAR_TARGET_ID_CHARS,
     ti_calendar_remote_id := normalize_field (ti_calendar_remote_id task) MAX_TASK_CALENDAR_REMOTE_ID_CHARS,
     ti_calendar_timezone := normalize_field (ti_calendar_timezone task) MAX_TASK_DETAIL_CHARS,
     ti_calendar_location := normalize_field (ti_calendar_location task) MAX_TASK_DETAIL_CHARS,
     ti_calendar_notes := normalize_field (ti_calendar_notes task) MAX_TASK_DETAIL_CHARS\<rparr>"

definition task_acceptable :: "TaskItem \<Rightarrow> bool" where
  "task_acceptable task \<longleftrightarrow> ti_id task \<noteq> [] \<and> ti_channel task \<noteq> [] \<and> ti_chat_id task \<noteq> [] \<and> ti_title task \<noteq> []
     \<and> (ti_calendar_start_at_unix_secs task = 0 \<longleftrightarrow> ti_calendar_end_at_unix_secs task = 0)
     \<and> (ti_calendar_start_at_unix_secs task \<noteq> 0 \<longrightarrow>
          ti_calendar_start_at_unix_secs task < ti_calendar_end_at_unix_secs task)"

definition task_times :: "TaskItem \<Rightarrow> TaskItem" where
  "task_times task = task\<lparr>
     ti_due_notified_at_unix_secs := (if ti_due_at_unix_secs task = 0 then 0 else ti_due_notified_at_unix_secs task),
     ti_completed_at_unix_secs := (if ti_status task = TaskCompleted then ti_completed_at_unix_secs task else 0)\<rparr>"

lemma normalize_Inr:
  "normalize_task_item task = Inr task' \<longleftrightarrow> task_acceptable (task_fields task) \<and> task' = task_times (task_fields task)"
  by (cases task) (auto simp: normalize_task_item_def task_acceptable_def task_fields_def task_times_def Let_def not_le)

lemma task_parts [simp]:
  "task_fields (task_fields task) = task_fields task"
  "task_fields (task_times task) = task_times (task_fields task)"
  "task_times (task_times task) = task_times task"
  "task_acceptable (task_times task) = task_acceptable task"
  by (simp_all add: task_fields_def task_times_def task_acceptable_def)

text \<open>A task that the normalisation leaves alone.\<close>

definition task_normal :: "TaskItem \<Rightarrow> bool" where
  "task_normal task \<longleftrightarrow> task_acceptable task \<and> task_fields task = task \<and> task_times task = task"

lemma task_normal_fixed: "task_normal task \<longleftrightarrow> normalize_task_item task = Inr task"
  unfolding task_normal_def normalize_Inr by (metis task_parts)

lemma normalize_task_normal: "normalize_task_item task = Inr task' \<Longrightarrow> task_normal task'"
  by (simp add: normalize_Inr task_normal_def)

lemma mark_parts:
  "task_fields (mark_notified now task) = mark_notified now (task_fields task)"
  "task_acceptable (mark_notified now task) = task_acceptable task"
  "ti_due_at_unix_secs task \<noteq> 0 \<Longrightarrow> task_times (mark_notified now task) = mark_notified now (task_times task)"
  by (simp_all add: task_fields_def task_times_def task_acceptable_def mark_notified_def)

lemma mark_notified_normal: "task_normal task \<Longrightarrow> ti_due_at_unix_secs task \<noteq> 0 \<Longrightarrow> task_normal (mark_notified now task)"
  by (simp add: task_normal_def mark_parts)

section \<open>The invariant\<close>

text \<open>Every task is stored in normal form under its own identifier, and there are at most 256.\<close>

definition task_map_good :: "task_map \<Rightarrow> bool" where
  "task_map_good m \<longleftrightarrow> distinct (map fst m) \<and> (\<forall>e \<in> set m. ti_id (snd e) = fst e \<and> task_normal (snd e))
     \<and> length m \<le> MAX_TASK_ITEMS"

lemma good_ids: "task_map_good m \<Longrightarrow> map ti_id (hm_values m) = map fst m"
  by (auto simp: task_map_good_def hm_values_def)

lemma good_distinct: "task_map_good m \<Longrightarrow> distinct (map ti_id (hm_values m))"
  by (simp add: good_ids) (simp add: task_map_good_def)

lemma hm_modify_keys [simp]: "map fst (hm_modify f k m) = map fst m"
  by (auto simp: hm_modify_def)

text \<open>The claim marks exactly the tasks it returns.\<close>

definition mark_all :: "u64 \<Rightarrow> string set \<Rightarrow> task_map \<Rightarrow> task_map" where
  "mark_all now is m = map (\<lambda>e. if fst e \<in> is then (fst e, mark_notified now (snd e)) else e) m"

lemma mark_notified_twice [simp]: "mark_notified now (mark_notified now task) = mark_notified now task"
  by (simp add: mark_notified_def)

lemma fold_mark: "fold (\<lambda>task. hm_modify (mark_notified now) (ti_id task)) due m = mark_all now (ti_id ` set due) m"
proof (induction due arbitrary: m)
  case (Cons task due)
  have "mark_all now (ti_id ` set due) (hm_modify (mark_notified now) (ti_id task) m)
      = mark_all now (ti_id ` set (task # due)) m"
    by (auto simp: mark_all_def hm_modify_def)
  then show ?case using Cons.IH by simp
qed (simp add: mark_all_def)

lemma task_claim_due_marks:
  "fst (task_claim_due now limit m) = mark_all now (ti_id ` set (due_tasks now limit m)) m"
  "snd (task_claim_due now limit m) = Inr (if due_tasks now limit m = [] then op_clean (TaskRows [])
      else op_dirty (TaskRows (due_tasks now limit m)))"
  by (auto simp: task_claim_due_def Let_def fold_mark due_tasks_def mark_all_def)

lemma due_in: "task \<in> set (due_tasks now limit m) \<Longrightarrow> task \<in> set (hm_values m) \<and> task_due now task"
  unfolding due_tasks_def by (drule in_set_takeD) auto

lemma mark_all_keys [simp]: "map fst (mark_all now is m) = map fst m"
  by (auto simp: mark_all_def)

lemma hm_values_lookup: "distinct (map fst m) \<Longrightarrow> task \<in> set (hm_values m) \<longleftrightarrow> (\<exists>k. map_of m k = Some task)"
  by (force simp: hm_values_def)

lemma mark_all_good:
  assumes "task_map_good m" "is \<subseteq> ti_id ` {task \<in> set (hm_values m). ti_due_at_unix_secs task \<noteq> 0}"
  shows "task_map_good (mark_all now is m)"
proof -
  have "ti_id (snd e) = fst e \<and> task_normal (snd e)" if mem: "e \<in> set (mark_all now is m)" for e
  proof -
    obtain e0 where e0: "e = (if fst e0 \<in> is then (fst e0, mark_notified now (snd e0)) else e0)" "e0 \<in> set m"
      using mem unfolding mark_all_def set_map by blast
    then have own: "ti_id (snd e0) = fst e0" "task_normal (snd e0)" using assms(1) by (auto simp: task_map_good_def)
    have "ti_due_at_unix_secs (snd e0) \<noteq> 0" if own_id: "fst e0 \<in> is"
    proof -
      obtain task where t: "task \<in> set (hm_values m)" "ti_due_at_unix_secs task \<noteq> 0" "ti_id task = fst e0"
        using assms(2) own_id by auto
      then obtain e1 where "e1 \<in> set m" "snd e1 = task" by (auto simp: hm_values_def)
      moreover from this t have "fst e1 = fst e0" using assms(1) by (auto simp: task_map_good_def)
      ultimately have "e1 = e0" using e0(2) assms(1) by (metis eq_key_imp_eq_value prod.collapse task_map_good_def)
      then show ?thesis using t \<open>snd e1 = task\<close> by simp
    qed
    then show ?thesis using own mark_notified_normal e0(1) by (auto simp: mark_notified_def)
  qed
  then show ?thesis using assms(1) by (simp add: task_map_good_def) (simp add: mark_all_def)
qed

lemma claim_good: "task_map_good m \<Longrightarrow> task_map_good (fst (task_claim_due now limit m))"
  unfolding task_claim_due_marks
  by (rule mark_all_good) (auto dest: due_in simp: task_due_def task_waits_def)

lemma upsert_good:
  assumes "task_map_good m"
  shows "task_map_good (fst (task_upsert task m))"
proof (cases "normalize_task_item task")
  case (Inr task')
  have n: "task_normal task'" using normalize_task_normal [OF Inr] .
  show ?thesis using assms n
    by (auto simp: task_upsert_def Inr task_map_good_def hm_distinct_insert hm_length_insert hm_set_insert)
qed (use assms in \<open>simp add: task_upsert_def\<close>)

lemma delete_good: "task_map_good m \<Longrightarrow> task_map_good (fst (task_delete c h i m))"
  using hm_length_remove [of i m]
  by (auto simp: task_delete_def task_map_good_def hm_distinct_remove hm_set_remove split: option.split)

interpretation tasks: store_operation task_store_step task_map_good
proof unfold_locales
  show "task_map_good (fst (task_store_step a v))" if "task_map_good v" for a v
    using that by (cases a) (simp_all add: task_list_def task_get_def task_next_due_at_def Let_def upsert_good
        delete_good claim_good)
  show "v' = v" if "task_store_step a v = (v', Inl e)" for a v v' e
    using that by (cases a) (auto simp: task_list_def task_get_def task_next_due_at_def Let_def task_upsert_def
        task_delete_def task_claim_due_def split: sum.splits option.splits if_splits)
  show "v' = v" if "task_store_step a v = (v', Inr r)" "\<not> so_dirty r" for a v v' r
    using that by (cases a) (auto simp: task_list_def task_get_def task_next_due_at_def Let_def task_upsert_def
        task_delete_def task_claim_due_def op_defs split: sum.splits option.splits if_splits)
qed

section \<open>The order of the hash map\<close>

lemma due_order_inj: "distinct (map ti_id xs) \<Longrightarrow> inj_on due_order (set xs)"
  by (auto simp: due_order_def distinct_map inj_on_def)

lemma task_order_inj: "distinct (map ti_id xs) \<Longrightarrow> inj_on task_order (set xs)"
  by (auto simp: task_order_def distinct_map inj_on_def)

lemma sort_perm: "mset xs = mset ys \<Longrightarrow> inj_on f (set xs) \<Longrightarrow> sort_key f xs = sort_key f ys"
  by (rule sort_key_inj_key_eq) simp_all

lemma mset_hm_insert: "distinct (map fst m) \<Longrightarrow> mset (hm_insert k v m) = add_mset (k, v) {#e \<in># mset m. fst e \<noteq> k#}"
proof (induction m)
  case (Cons e m)
  have "filter_mset (\<lambda>e. fst e \<noteq> k) (mset m) = mset m" if "fst e = k"
    using Cons.prems that by (auto simp: filter_mset_eq_conv image_iff)
  then show ?case using Cons by auto
qed simp

lemma same_lookup:
  assumes "distinct (map fst m)" "mset m = mset m'"
  shows "map_of m = map_of m'"
  using assms map_of_inject_set [of m m'] mset_eq_setD [OF assms(2)]
  by (metis mset_eq_imp_distinct_iff mset_map)

lemma step_perm:
  assumes "task_map_good m" "mset m = mset m'"
  shows "snd (task_store_step a m) = snd (task_store_step a m')
    \<and> mset (fst (task_store_step a m)) = mset (fst (task_store_step a m'))"
proof -
  have d: "distinct (map fst m)" "distinct (map fst m')" and look: "map_of m = map_of m'"
    using assms same_lookup [of m m'] by (auto simp: task_map_good_def) (metis mset_eq_imp_distinct_iff mset_map)
  have vals: "mset (hm_values m) = mset (hm_values m')" using assms(2) by (simp add: hm_values_def)
  have ids: "distinct (map ti_id (filter P (hm_values m)))" for P
    using good_distinct [OF assms(1)] by (rule distinct_map_filter)
  have len: "length m = length m'" using assms(2) by (metis size_mset)
  have has: "hm_contains k m = hm_contains k m'" for k by (simp add: hm_contains_def look)
  have due: "due_tasks now limit m = due_tasks now limit m'" for now limit
    unfolding due_tasks_def using vals by (subst sort_perm [OF _ due_order_inj [OF ids]]) simp_all
  show ?thesis
  proof (cases a)
    case (TaskList c h q)
    have "filter_tasks (filter (of_chat c h) (hm_values m)) q = filter_tasks (filter (of_chat c h) (hm_values m')) q"
      unfolding filter_tasks_def filter_filter Let_def
      using vals by (subst sort_perm [OF _ task_order_inj [OF ids]]) simp_all
    then show ?thesis using assms(2) by (simp add: TaskList task_list_def)
  next
    case (TaskGet c h i)
    then show ?thesis using assms(2) by (simp add: task_get_def look)
  next
    case (TaskUpsert task)
    then show ?thesis using assms(2) d
      by (auto simp: task_upsert_def look has len mset_hm_insert split: sum.split)
  next
    case (TaskDelete c h i)
    then show ?thesis using assms(2) by (auto simp: task_delete_def look hm_remove_def split: option.split)
  next
    case (TaskClaimDue now limit)
    then show ?thesis using assms(2) by (simp add: task_claim_due_marks due) (simp add: mark_all_def)
  next
    case TaskNextDueAt
    let ?times = "\<lambda>m. map ti_due_at_unix_secs (filter task_waits (hm_values m))"
    have times: "set (?times m) = set (?times m')" using mset_eq_setD [OF vals] by simp
    then have none: "?times m = [] \<longleftrightarrow> ?times m' = []" by (metis set_empty)
    have "snd (task_next_due_at m) = snd (task_next_due_at m')"
      by (simp only: task_next_due_at_def Let_def snd_conv times none)
    then show ?thesis using assms(2) by (simp add: TaskNextDueAt) (simp add: task_next_due_at_def Let_def)
  qed
qed

text \<open>
  The order of the hash map never shows. Two stores that hold the same tasks in any two orders of iteration
  give the same answers, errors included, to every sequence of calls.
\<close>
theorem iteration_order_invisible:
  assumes "task_map_good m" "mset m = mset m'"
  shows "answers task_store_step evs m = answers task_store_step evs m'"
  using assms
proof (induction evs arbitrary: m m')
  case (Cons ev evs)
  show ?case
  proof (cases ev)
    case (Call io a)
    have p: "snd (task_store_step a m) = snd (task_store_step a m')"
      "mset (fst (task_store_step a m)) = mset (fst (task_store_step a m'))" using step_perm [OF Cons.prems] by auto
    show ?thesis using Cons.IH [OF tasks.good_step [OF Cons.prems(1)] p(2)] p(1) by (simp add: Call)
  qed (use Cons in simp)
qed simp

section \<open>Announcing each task once\<close>

fun restores :: "string \<Rightarrow> task_call \<Rightarrow> bool" where
  "restores i (TaskUpsert task) \<longleftrightarrow> normalize_field (ti_id task) MAX_TASK_ID_CHARS = i"
| "restores i _ \<longleftrightarrow> False"

definition settled :: "string \<Rightarrow> task_map \<Rightarrow> bool" where
  "settled i m \<longleftrightarrow> (\<forall>e \<in> set m. fst e = i \<longrightarrow> \<not> task_waits (snd e))"

lemma due_now: "task \<in> set (due_tasks now limit m) \<Longrightarrow> now \<noteq> 0"
  by (auto dest!: due_in simp: task_due_def task_waits_def)

lemma waits_mark: "now \<noteq> 0 \<Longrightarrow> \<not> task_waits (mark_notified now task)"
  by (simp add: task_waits_def mark_notified_def)

lemma marked_entry:
  "e \<in> set (fst (task_claim_due now limit m)) \<Longrightarrow> task_waits (snd e) \<Longrightarrow>
     e \<in> set m \<and> fst e \<notin> ti_id ` set (due_tasks now limit m)"
  by (auto simp: task_claim_due_marks mark_all_def waits_mark due_now split: if_splits)

lemma normalized_id: "normalize_task_item task = Inr task' \<Longrightarrow> ti_id task' = normalize_field (ti_id task) MAX_TASK_ID_CHARS"
  by (simp add: normalize_Inr task_times_def task_fields_def)

lemma settled_step: "settled i m \<Longrightarrow> \<not> restores i a \<Longrightarrow> task_map_good m \<Longrightarrow> settled i (fst (task_store_step a m))"
proof (cases a)
  case (TaskUpsert task)
  assume a: "settled i m" "\<not> restores i a" "task_map_good m"
  then show ?thesis using normalized_id
    by (auto simp: TaskUpsert task_upsert_def settled_def hm_set_insert task_map_good_def split: sum.split)
next
  case (TaskClaimDue now limit)
  assume "settled i m"
  then show ?thesis using marked_entry by (auto simp: TaskClaimDue settled_def)
qed (auto simp: task_list_def task_get_def task_delete_def task_next_due_at_def Let_def settled_def hm_set_remove
  split: option.split)

lemma settled_not_due:
  assumes "settled i m" "task_map_good m"
  shows "i \<notin> ti_id ` set (due_tasks now limit m)"
proof
  assume "i \<in> ti_id ` set (due_tasks now limit m)"
  then obtain task where t: "task \<in> set (hm_values m)" "task_waits task" "ti_id task = i"
    by (auto dest: due_in simp: task_due_def)
  then obtain e where "e \<in> set m" "snd e = task" by (auto simp: hm_values_def)
  then show False using t assms by (auto simp: settled_def task_map_good_def)
qed

lemma claim_settles:
  assumes "task_map_good m" "task \<in> set (due_tasks now limit m)"
  shows "settled (ti_id task) (fst (task_claim_due now limit m))"
  unfolding settled_def using marked_entry assms(2) by blast

lemma serve_settled:
  assumes "cj_cache s = Some m" "settled i m" "task_map_good m" "list_all (\<lambda>(io, a). \<not> restores i a) calls"
  shows "\<exists>m'. cj_cache (fst (serve cfg task_store_step (map (\<lambda>(io, a). Call io a) calls) s)) = Some m'
    \<and> settled i m' \<and> task_map_good m'"
  using assms
proof (induction calls arbitrary: s m)
  case (Cons c calls)
  obtain io a where c: "c = (io, a)" by (cases c)
  have "cj_cache (fst (with_cached_mut cfg io (task_store_step a) s)) = Some (fst (task_store_step a m))"
    using Cons.prems(1) by (rule cache_evolves)
  from Cons.IH [OF this settled_step [OF Cons.prems(2) _ Cons.prems(3)] tasks.good_step [OF Cons.prems(3)]]
  show ?case using Cons.prems(4) by (simp add: c case_prod_beta)
qed auto

text \<open>No later claim returns a task that a claim of the cached store has taken, whatever became of that claim.\<close>

lemma taken_once:
  assumes "cj_cache s = Some m" "task_map_good m" "task \<in> set (due_tasks now limit m)"
    "list_all (\<lambda>(io, a). \<not> restores (ti_id task) a) calls"
    "s1 = fst (with_cached_mut cfg io (task_store_step (TaskClaimDue now limit)) s)"
    "s2 = fst (serve cfg task_store_step (map (\<lambda>(io, a). Call io a) calls) s1)"
    "snd (with_cached_mut cfg io' (task_store_step (TaskClaimDue now' limit')) s2) = Inr (TaskRows rows)"
  shows "ti_id task \<notin> ti_id ` set rows"
proof -
  have "cj_cache s1 = Some (fst (task_claim_due now limit m))"
    unfolding assms(5) task_store_step.simps using assms(1) by (rule cache_evolves)
  from serve_settled [OF this claim_settles [OF assms(2,3)] claim_good [OF assms(2)] assms(4)]
  obtain m' where m': "cj_cache s2 = Some m'" "settled (ti_id task) m'" "task_map_good m'" unfolding assms(6) by blast
  have "rows = [] \<or> rows = due_tasks now' limit' m'"
    using assms(7) m'(1) task_claim_due_marks(2) [of now' limit' m']
    by (auto simp: with_cached_mut_def op_defs case_prod_beta Let_def split: if_splits sum.splits)
  then show ?thesis using settled_not_due [OF m'(2,3)] by auto
qed

text \<open>
  C10: a due task is announced once. A task that a claim has returned is not returned by any later claim of the running
  process, whatever calls lie between and whatever uses of the file fail, unless a call stores it anew.
\<close>
theorem due_task_announced_once:
  assumes "cj_cache s = Some m" "task_map_good m"
    "with_cached_mut cfg io (task_store_step (TaskClaimDue now limit)) s = (s1, Inr (TaskRows rows))" "task \<in> set rows"
    "list_all (\<lambda>(io, a). \<not> restores (ti_id task) a) calls"
    "snd (with_cached_mut cfg io' (task_store_step (TaskClaimDue now' limit'))
       (fst (serve cfg task_store_step (map (\<lambda>(io, a). Call io a) calls) s1))) = Inr (TaskRows rows')"
  shows "ti_id task \<notin> ti_id ` set rows'"
proof -
  have "rows = [] \<or> rows = due_tasks now limit m"
    using assms(1,3) task_claim_due_marks(2) [of now limit m]
    by (auto simp: with_cached_mut_def op_defs case_prod_beta Let_def split: if_splits sum.splits)
  then have "task \<in> set (due_tasks now limit m)" using assms(4) by auto
  then show ?thesis
    using taken_once [OF assms(1,2) _ assms(5) _ refl assms(6)] assms(3) by (metis fst_conv)
qed

text \<open>
  C38: what a failed write loses. A tick whose claim cannot be written announces nothing, and the tasks it would have
  announced (the first eight of those due) are returned by no later claim of the running process, unless a call stores them
  anew: in the cache they are already marked as announced.
\<close>
theorem failed_claim_is_lost:
  assumes "cj_cache s = Some m" "task_map_good m" "si_write_error io \<noteq> None" "task \<in> set (due_tasks now 8 m)"
    "task_due_tick t cfg io loc now now_ms s = (s1, msgs)"
    "list_all (\<lambda>(io, a). \<not> restores (ti_id task) a) calls"
    "snd (with_cached_mut cfg io' (task_store_step (TaskClaimDue now' limit'))
       (fst (serve cfg task_store_step (map (\<lambda>(io, a). Call io a) calls) s1))) = Inr (TaskRows rows)"
  shows "msgs = [] \<and> ti_id task \<notin> ti_id ` set rows"
proof -
  have "due_tasks now 8 m \<noteq> []" using assms(4) by auto
  then have "snd (task_claim_due now 8 m) = Inr (op_dirty (TaskRows (due_tasks now 8 m)))"
    by (simp add: task_claim_due_marks)
  then obtain e where e: "snd (with_cached_mut cfg io (task_claim_due now 8) s) = Inl e"
    using cached_write_fails [OF assms(1) _ _ assms(3)] by (metis op_dirty_def prod.collapse StoreOp.select_convs(2))
  then have tick: "s1 = fst (with_cached_mut cfg io (task_store_step (TaskClaimDue now 8)) s)" "msgs = []"
    using assms(5) by (simp_all add: task_due_tick_def case_prod_beta)
  then show ?thesis using taken_once [OF assms(1,2,4,6) _ refl assms(7)] by simp
qed

section \<open>Announcing every task\<close>

text \<open>Ticks in a row, at one time, with the messages of each.\<close>

fun task_ticks :: "nat \<Rightarrow> target \<Rightarrow> task_map store_config \<Rightarrow> store_io \<Rightarrow> Locale \<Rightarrow> u64 \<Rightarrow> u64 \<Rightarrow> task_map CachedJsonFileStore
    \<Rightarrow> task_map CachedJsonFileStore \<times> 'json PcMsg list" where
  "task_ticks 0 t cfg io loc now now_ms s = (s, [])"
| "task_ticks (Suc n) t cfg io loc now now_ms s =
     (case task_ticks n t cfg io loc now now_ms s of (s1, msgs) \<Rightarrow>
        case task_due_tick t cfg io loc now now_ms s1 of (s2, msgs') \<Rightarrow> (s2, msgs @ msgs'))"

definition announce :: "target \<Rightarrow> Locale \<Rightarrow> u64 \<Rightarrow> TaskItem \<Rightarrow> 'json PcMsg list" where
  "announce t loc now_ms task =
     (case new_inbound_with_ingress t now_ms (ti_channel task) (ti_chat_id task) (task_announcement loc task) False
             IngressSystem of Inr msg \<Rightarrow> [msg] | Inl _ \<Rightarrow> [])"

text \<open>The message of a due task; the texts of a stored task are short enough that there always is one.\<close>

definition due_message :: "Locale \<Rightarrow> u64 \<Rightarrow> TaskItem \<Rightarrow> 'json PcMsg" where
  "due_message loc now_ms task =
     \<lparr>pm_channel = ti_channel task, pm_chat_id = ti_chat_id task, pm_content = task_announcement loc task,
      pm_body = body_text (task_announcement loc task), pm_platform_thread_id = [], pm_req_id = None, pm_outbound_kind = Primary,
      pm_ingress = IngressSystem, pm_enqueue_ts_ms = now_ms, pm_source_transport = TransportUnknown, pm_platform_message_id = [],
      pm_platform_event_id = [], pm_inbound_dedup_key = [], pm_is_group = False\<rparr>"

lemma valid_utf8_chars: "valid_utf8 s \<Longrightarrow> length s \<le> 4 * char_count s"
proof (induction s rule: valid_utf8.induct)
  case (2 c cs)
  then obtain w where w: "utf8_width c = Some w" "w - 1 \<le> length cs" "valid_utf8 (drop (w - 1) cs)"
    by (auto split: option.splits)
  have w4: "1 \<le> w \<and> w \<le> 4 \<and> \<not> is_continuation c"
    by (rule utf8_width_pos[OF w(1)])
  have "char_count [c] = 1" using w4 by (simp add: char_count_def char_starts_def)
  moreover have "prefix [c] (c # take (w - 1) cs)" by simp
  ultimately have one: "1 \<le> char_count (c # take (w - 1) cs)" using char_count_prefix by metis
  have "c # cs = (c # take (w - 1) cs) @ drop (w - 1) cs" by simp
  then have "char_count (c # cs) = char_count (c # take (w - 1) cs) + char_count (drop (w - 1) cs)"
    by (metis task_char_count_append)
  moreover have "length (drop (w - 1) cs) \<le> 4 * char_count (drop (w - 1) cs)" using 2(1)[OF w(1)] w(3) by simp
  ultimately show ?case using one w4 w(2) by (simp; arith)
qed simp

text \<open>The texts of an announcement are strings of Rust.\<close>

definition task_text_valid :: "TaskItem \<Rightarrow> bool" where
  "task_text_valid task \<longleftrightarrow> valid_utf8 (ti_title task) \<and> valid_utf8 (ti_project task) \<and> valid_utf8 (ti_detail task)"

lemma announcement_short:
  assumes "task_normal task" "task_text_valid task"
  shows "length (task_announcement loc task) \<le> MAX_CONTENT_LEN t"
proof -
  have f: "task_fields task = task" using assms(1) by (simp add: task_normal_def)
  have "ti_title task = normalize_field (ti_title task) MAX_TASK_TITLE_CHARS"
    "ti_project task = normalize_field (ti_project task) MAX_TASK_PROJECT_CHARS"
    "ti_detail task = normalize_field (ti_detail task) MAX_TASK_DETAIL_CHARS"
    using arg_cong[OF f, of ti_title] arg_cong[OF f, of ti_project] arg_cong[OF f, of ti_detail]
    by (simp_all add: task_fields_def)
  then have "char_count (ti_title task) \<le> 120" "char_count (ti_project task) \<le> 80" "char_count (ti_detail task) \<le> 512"
    using normalize_field_bound by (metis MAX_TASK_TITLE_CHARS_def MAX_TASK_PROJECT_CHARS_def MAX_TASK_DETAIL_CHARS_def)+
  then have "length (ti_title task) \<le> 480" "length (ti_project task) \<le> 320" "length (ti_detail task) \<le> 2048"
    using assms(2) valid_utf8_chars[of "ti_title task"] valid_utf8_chars[of "ti_project task"] valid_utf8_chars[of "ti_detail task"]
    by (simp_all add: task_text_valid_def)
  moreover have "length (task_due_text loc title) \<le> length title + 20" for title
    by (cases loc) (simp_all add: task_due_text_zh_def task_due_text_en_def)
  note this[of "ti_title task"]
  ultimately have "length (task_announcement loc task) \<le> 4000" by (simp add: task_announcement_def)
  then show ?thesis by (cases t) simp_all
qed

lemma announce_message:
  assumes "task_normal task" "task_text_valid task"
  shows "announce t loc now_ms task = [due_message loc now_ms task]"
  using announcement_short[OF assms, of loc t]
  by (simp add: announce_def new_inbound_with_ingress_def new_inbound_with_body_and_ingress_def pcmsg_build_def
      validate_content_len_def due_message_def)

lemma due_after_marks:
  assumes "task_map_good m" "now \<noteq> 0"
  shows "filter (task_due now) (hm_values (mark_all now is m)) = filter (\<lambda>task. ti_id task \<notin> is) (filter (task_due now) (hm_values m))"
  using assms(1)[unfolded task_map_good_def, THEN conjunct2, THEN conjunct1] assms(2)
  by (induction m) (auto simp: hm_values_def mark_all_def task_due_def waits_mark)

lemma drop_by_id:
  assumes "distinct (map ti_id xs)"
  shows "filter (\<lambda>task. ti_id task \<notin> ti_id ` set (take n xs)) xs = drop n xs"
proof -
  have "ti_id ` set (take n xs) \<inter> ti_id ` set (drop n xs) = {}"
    using assms by (metis append_take_drop_id distinct_append map_append set_map)
  then have "filter (\<lambda>task. ti_id task \<notin> ti_id ` set (take n xs)) (take n xs) = []"
    "filter (\<lambda>task. ti_id task \<notin> ti_id ` set (take n xs)) (drop n xs) = drop n xs"
    by (auto simp: filter_empty_conv filter_id_conv)
  then show ?thesis by (metis append_Nil append_take_drop_id filter_append)
qed

lemma tick_of_marked:
  assumes "task_map_good m" "now \<noteq> 0" "S = sort_key due_order (filter (task_due now) (hm_values m))"
  shows "due_tasks now k (mark_all now (ti_id ` set (take n S)) m) = take k (drop n S)"
proof -
  have "distinct (map ti_id S)"
    using distinct_map_filter [OF good_distinct [OF assms(1)], of "task_due now"] assms(3)
    by (metis mset_eq_imp_distinct_iff mset_map mset_sort)
  from drop_by_id [OF this] show ?thesis
    unfolding due_tasks_def due_after_marks [OF assms(1,2)] by (simp add: filter_sort assms(3))
qed

lemma mark_all_compose: "mark_all now js (mark_all now is m) = mark_all now (is \<union> js) m"
  by (auto simp: mark_all_def)

lemma cached_claim:
  assumes "cj_cache s = Some m" "io_works io" "fits cfg io (fst (task_claim_due now k m))"
  shows "snd (with_cached_mut cfg io (task_claim_due now k) s) = Inr (TaskRows (due_tasks now k m))"
proof -
  have "task_claim_due now k m = (fst (task_claim_due now k m), Inr (if due_tasks now k m = [] then op_clean (TaskRows [])
      else op_dirty (TaskRows (due_tasks now k m))))"
    by (rule prod_eqI) (simp_all add: task_claim_due_marks(2))
  from cached_write_works [where f = "task_claim_due now k", OF assms(1) this assms(3,2)] show ?thesis by (simp add: op_defs)
qed

lemma ticks_announce:
  assumes "cj_cache s = Some m" "task_map_good m" "io_works io" "\<And>is. fits cfg io (mark_all now is m)" "now \<noteq> 0"
  shows "snd (task_ticks n t cfg io loc now now_ms s) = (
     concat (map (announce t loc now_ms) (take (8 * n) (sort_key due_order (filter (task_due now) (hm_values m))))) :: 'json PcMsg list)"
proof -
  define S where "S = sort_key due_order (filter (task_due now) (hm_values m))"
  have "cj_cache (fst (task_ticks n t cfg io loc now now_ms s :: _ \<times> 'json PcMsg list)) = Some (mark_all now (ti_id ` set (take (8 * n) S)) m)
    \<and> snd (task_ticks n t cfg io loc now now_ms s) = (concat (map (announce t loc now_ms) (take (8 * n) S)) :: 'json PcMsg list)"
  proof (induction n)
    case 0
    then show ?case using assms(1) by (simp add: mark_all_def)
  next
    case (Suc n)
    let ?m = "mark_all now (ti_id ` set (take (8 * n) S)) m"
    obtain s1 and msgs :: "'json PcMsg list" where r: "task_ticks n t cfg io loc now now_ms s = (s1, msgs)" by fastforce
    have c: "cj_cache s1 = Some ?m" and ms: "msgs = concat (map (announce t loc now_ms) (take (8 * n) S))"
      using Suc.IH by (simp_all add: r)
    have due: "due_tasks now 8 ?m = take 8 (drop (8 * n) S)"
      by (rule tick_of_marked [OF assms(2,5) S_def])
    have split: "take (8 * Suc n) S = take (8 * n) S @ take 8 (drop (8 * n) S)"
    proof -
      have "8 * Suc n = 8 * n + 8" by simp
      then show ?thesis by (simp only: take_add)
    qed
    have m': "fst (task_claim_due now 8 ?m) = mark_all now (ti_id ` set (take (8 * Suc n) S)) m"
      by (simp only: task_claim_due_marks due mark_all_compose split set_append image_Un)
    have "snd (with_cached_mut cfg io (task_claim_due now 8) s1) = Inr (TaskRows (take 8 (drop (8 * n) S)))"
      using cached_claim [OF c assms(3), of cfg now 8] assms(4) by (simp only: m' due)
    then show ?case using cache_evolves [OF c, of cfg io "task_claim_due now 8"] m' ms split
      by (simp add: r task_due_tick_def announce_def [abs_def] case_prod_beta)
  qed
  then show ?thesis by (simp add: S_def)
qed

text \<open>
  C16: every due task is announced. When the tasks are in the cache and the file works and takes them, whichever of them are
  marked as announced, n ticks at one time other than 0 send, as messages for the agent, exactly one message for each of the first 8 n of the due
  tasks, the earliest due first and equal times by last update and identifier; so after enough ticks all of them. A message
  names the chat of the task, its title, its project and its detail; that these are valid UTF-8, as every string of the
  program, is all that is asked of them.
\<close>
theorem ticks_announce_all:
  assumes "cj_cache s = Some m" "task_map_good m" "\<forall>task \<in> set (hm_values m). task_text_valid task"
    and "io_works io" "\<And>is. fits cfg io (mark_all now is m)" "now \<noteq> 0"
  shows "snd (task_ticks n t cfg io loc now now_ms s) = (
     map (due_message loc now_ms) (take (8 * n) (sort_key due_order (filter (task_due now) (hm_values m)))) :: 'json PcMsg list)"
proof -
  let ?due = "take (8 * n) (sort_key due_order (filter (task_due now) (hm_values m)))"
  have "set ?due \<subseteq> set (hm_values m)" using set_take_subset[of "8 * n" "sort_key due_order (filter (task_due now) (hm_values m))"] by auto
  then have "announce t loc now_ms task = [due_message loc now_ms task :: 'json PcMsg]" if "task \<in> set ?due" for task
    using that assms(2, 3) by (intro announce_message) (auto simp: task_map_good_def hm_values_def)
  then have "concat (map (announce t loc now_ms) ?due) = map (due_message loc now_ms :: _ \<Rightarrow> 'json PcMsg) ?due"
    by (metis (no_types, lifting) concat_map_singleton map_cong)
  then show ?thesis by (simp only: ticks_announce[OF assms(1, 2, 4, 5, 6)])
qed

section \<open>An example\<close>

text \<open>Two tasks of one chat that are due at 60 and at 90, and a task without a time.\<close>

definition demo_task :: "string \<Rightarrow> u64 \<Rightarrow> TaskItem" where
  "demo_task i due = \<lparr>ti_id = i, ti_channel = ''qq'', ti_chat_id = ''c1'', ti_title = ''water'', ti_detail = [],
     ti_project = [], ti_status = TaskOpen, ti_priority = TaskNormal, ti_due_at_unix_secs = due,
     ti_due_notified_at_unix_secs = 0, ti_calendar_event_id = [], ti_calendar_provider = [],
     ti_calendar_account_key = [], ti_calendar_calendar_id = [], ti_calendar_remote_id = [],
     ti_calendar_start_at_unix_secs = 0, ti_calendar_end_at_unix_secs = 0, ti_calendar_timezone = [],
     ti_calendar_location = [], ti_calendar_notes = [], ti_completed_at_unix_secs = 0, ti_updated_at = 5\<rparr>"

definition demo_tasks :: task_map where
  "demo_tasks = [(''b'', demo_task ''b'' 90), (''a'', demo_task ''a'' 60), (''d'', demo_task ''d'' 0)]"

definition demo_config :: "task_map store_config" where
  "demo_config = task_store_config (\<lambda>_. Inr demo_tasks) (\<lambda>m. Inr (if m = [] then ''{}'' else ''tasks''))"

definition demo_io :: store_io where
  "demo_io = \<lparr>si_target = Host, si_read_error = None, si_write_error = None\<rparr>"

definition demo_full :: store_io where
  "demo_full = demo_io\<lparr>si_write_error := Some (ErrIo ''no space'' ''atomic_write'', None)\<rparr>"

lemma normalize_graphic: "list_all graphic s \<Longrightarrow> length s \<le> n \<Longrightarrow> normalize_field s n = s"
  by (simp add: normalize_field_def truncate_content_to_max_def trim_all_graphic)

lemma demo_normal: "i \<noteq> [] \<Longrightarrow> list_all graphic i \<Longrightarrow> length i \<le> 128 \<Longrightarrow> task_normal (demo_task i due)"
  by (simp add: task_normal_def task_acceptable_def task_fields_def task_times_def demo_task_def normalize_graphic
      graphic_def MAX_TASK_ID_CHARS_def MAX_TASK_CHANNEL_CHARS_def MAX_TASK_CHAT_ID_CHARS_def MAX_TASK_TITLE_CHARS_def)

lemma demo_good: "task_map_good demo_tasks"
  using demo_normal [of "''a''" 60] demo_normal [of "''b''" 90] demo_normal [of "''d''" 0]
  by (simp add: task_map_good_def demo_tasks_def MAX_TASK_ITEMS_def graphic_def) (simp add: demo_task_def)

lemma demo_due: "filter (task_due 100) (hm_values demo_tasks) = [demo_task ''b'' 90, demo_task ''a'' 60]"
  by (simp add: demo_tasks_def hm_values_def task_due_def task_waits_def is_terminal_def demo_task_def)

lemma demo_sorted: "sort_key due_order [demo_task ''b'' 90, demo_task ''a'' 60] = [demo_task ''a'' 60, demo_task ''b'' 90]"
  by (simp add: due_order_def demo_task_def less_eq_prod_def)

theorem iteration_order_invisible_witness:
  "answers task_store_step [Call demo_io (TaskClaimDue 100 8), Call demo_io TaskNextDueAt] demo_tasks
   = answers task_store_step [Call demo_io (TaskClaimDue 100 8), Call demo_io TaskNextDueAt] (rev demo_tasks)"
  by (rule iteration_order_invisible [OF demo_good]) simp

lemma demo_claim: "due_tasks 100 8 demo_tasks = [demo_task ''a'' 60, demo_task ''b'' 90]"
  unfolding due_tasks_def demo_due demo_sorted by simp

lemma demo_fits: "fits demo_config demo_io m"
  by (simp add: fits_def demo_config_def task_store_config_def demo_io_def)

lemma demo_works: "io_works demo_io"
  by (simp add: io_works_def demo_io_def)

definition demo_store :: "task_map CachedJsonFileStore" where
  "demo_store = \<lparr>cj_cache = Some demo_tasks, cj_file = None\<rparr>"

lemma demo_cache [simp]: "cj_cache demo_store = Some demo_tasks"
  by (simp add: demo_store_def)

lemma demo_answer:
  "with_cached_mut demo_config demo_io (task_store_step (TaskClaimDue 100 8)) demo_store =
     (fst (with_cached_mut demo_config demo_io (task_claim_due 100 8) demo_store),
      Inr (TaskRows [demo_task ''a'' 60, demo_task ''b'' 90]))"
  using cached_claim [OF demo_cache demo_works demo_fits, of 100 8] by (simp add: prod_eq_iff demo_claim)

text \<open>The next claim finds an empty list.\<close>

lemma demo_second:
  assumes "cj_cache s1 = Some (fst (task_claim_due 100 8 demo_tasks))"
  shows "snd (with_cached_mut demo_config demo_io (task_store_step (TaskClaimDue 200 8))
      (fst (serve demo_config task_store_step (map (\<lambda>(io, a). Call io a) []) s1)))
    = Inr (TaskRows (due_tasks 200 8 (fst (task_claim_due 100 8 demo_tasks))))"
  using cached_claim [OF assms demo_works demo_fits, of 200 8] by simp

theorem due_task_announced_once_witness:
  "''a'' \<notin> ti_id ` set (due_tasks 200 8 (fst (task_claim_due 100 8 demo_tasks)))"
proof -
  note s = demo_second [OF cache_evolves [where f = "task_claim_due 100 8", OF demo_cache]]
  from due_task_announced_once [OF demo_cache demo_good demo_answer _ _ s, of "demo_task ''a'' 60"]
  show ?thesis by (simp add: demo_task_def)
qed

theorem failed_claim_is_lost_witness:
  "snd (task_due_tick Host demo_config demo_full En 100 7 demo_store) = ([] :: unit PcMsg list)
   \<and> ''a'' \<notin> ti_id ` set (due_tasks 200 8 (fst (task_claim_due 100 8 demo_tasks)))"
proof -
  obtain s1 and msgs :: "unit PcMsg list" where t: "task_due_tick Host demo_config demo_full En 100 7 demo_store = (s1, msgs)"
    by fastforce
  have "snd (task_claim_due 100 8 demo_tasks) = Inr (op_dirty (TaskRows [demo_task ''a'' 60, demo_task ''b'' 90]))"
    by (simp add: task_claim_due_marks demo_claim)
  then have "s1 = fst (with_cached_mut demo_config demo_full (task_claim_due 100 8) demo_store)"
    using t by (auto simp: task_due_tick_def case_prod_beta split: sum.splits task_answer.splits)
  then have c: "cj_cache s1 = Some (fst (task_claim_due 100 8 demo_tasks))"
    using cache_evolves [OF demo_cache] by simp
  have "msgs = [] \<and> ti_id (demo_task ''a'' 60)
      \<notin> ti_id ` set (due_tasks 200 8 (fst (task_claim_due 100 8 demo_tasks)))"
    by (rule failed_claim_is_lost [OF demo_cache demo_good _ _ t _ demo_second [OF c]])
      (simp_all add: demo_full_def demo_claim)
  then show ?thesis by (simp add: t demo_task_def)
qed

lemma demo_valid: "\<forall>task \<in> set (hm_values demo_tasks). task_text_valid task"
  by (simp add: demo_tasks_def hm_values_def task_text_valid_def demo_task_def utf8_width_def)

theorem ticks_announce_all_witness:
  "snd (task_ticks 1 Host demo_config demo_io En 100 7 demo_store)
   = [due_message En 7 (demo_task ''a'' 60), due_message En 7 (demo_task ''b'' 90) :: unit PcMsg]"
  using ticks_announce_all [OF demo_cache demo_good demo_valid demo_works demo_fits, of 100 1 Host En 7, unfolded demo_due demo_sorted]
  by simp

section \<open>Restarts\<close>

text \<open>
  C11: the store is durable. As long as no use of the file fails and every value that a call is to write fits the limit of
  a write and is what its bytes are read as again, every sequence of calls is answered as if the tasks were kept in memory for
  ever, wherever the process restarts in between. (On boards that is an assumption on the tasks: 256 of them with fields of
  full size exceed the limit.)
\<close>
theorem task_store_restarts:
  assumes "coherent cfg s" "current cfg s = Inr m" "list_all event_works evs" "writable task_store_step cfg evs m"
  shows "snd (serve cfg task_store_step evs s) = answers task_store_step (filter is_call evs) m"
  using tasks.serve_answers [OF assms] by (simp add: answers_calls)

theorem task_store_restarts_witness:
  "snd (serve (task_store_config (\<lambda>_. Inr [(''a'', demo_task ''a'' 60)]) (\<lambda>m. Inr (if m = [] then ''{}'' else ''tasks'')))
       task_store_step
       [Call demo_io (TaskUpsert (demo_task ''a'' 60)), Restart, Call demo_io (TaskGet ''qq'' ''c1'' ''a'')]
       \<lparr>cj_cache = None, cj_file = None\<rparr>)
   = [Inr (TaskFlag True), Inr (TaskRow (Some (demo_task ''a'' 60)))]"
proof -
  have n: "normalize_task_item (demo_task ''a'' 60) = Inr (demo_task ''a'' 60)"
    using demo_normal [of "''a''" 60] by (simp add: task_normal_fixed graphic_def)
  have f: "ti_id (demo_task ''a'' 60) = ''a''" "of_chat ''qq'' ''c1'' (demo_task ''a'' 60)"
    by (simp_all add: demo_task_def of_chat_def)
  show ?thesis
    by (subst task_store_restarts [where m = "[]"])
      (simp_all add: coherent_def current_def task_store_config_def load_json_or_default_def demo_io_def io_works_def
        task_upsert_def n f hm_contains_def MAX_TASK_ITEMS_def op_defs fits_def reads_again_def task_get_def)
qed

end
