(* ===== verification/Http_Routes.thy ===== *)
theory Http_Routes
  imports Plane Runtime_Capability Redact Url
begin

text \<open>
  The catalogue of HTTP routes (\<open>src/src/platform/http_server/router/catalog.rs\<close>): the specification of
  every route, on a board (\<open>Esp\<close>) and on a host, with and without the office capability, the workers
  that run slow routes, and which routes a runtime mode admits.
\<close>

section \<open>Routes\<close>

(* platform/http_server/router/catalog.rs: const ROUTE_ROOT *)
definition ROUTE_ROOT :: string where "ROUTE_ROOT = ''/''"
(* platform/http_server/router/catalog.rs: const ROUTE_PAIRING_CODE *)
definition ROUTE_PAIRING_CODE :: string where "ROUTE_PAIRING_CODE = ''/api/pairing_code''"
(* platform/http_server/router/catalog.rs: const ROUTE_CONFIG_LLM *)
definition ROUTE_CONFIG_LLM :: string where "ROUTE_CONFIG_LLM = ''/api/config/llm''"
(* platform/http_server/router/catalog.rs: const ROUTE_CONFIG_CHANNELS *)
definition ROUTE_CONFIG_CHANNELS :: string where "ROUTE_CONFIG_CHANNELS = ''/api/config/channels''"
(* platform/http_server/router/catalog.rs: const ROUTE_CONFIG_SYSTEM *)
definition ROUTE_CONFIG_SYSTEM :: string where "ROUTE_CONFIG_SYSTEM = ''/api/config/system''"
(* platform/http_server/router/catalog.rs: const ROUTE_CONFIG_HARDWARE *)
definition ROUTE_CONFIG_HARDWARE :: string where "ROUTE_CONFIG_HARDWARE = ''/api/config/hardware''"
(* platform/http_server/router/catalog.rs: const ROUTE_CONFIG_AUDIO *)
definition ROUTE_CONFIG_AUDIO :: string where "ROUTE_CONFIG_AUDIO = ''/api/config/audio''"
(* platform/http_server/router/catalog.rs: const ROUTE_CONFIG_DISPLAY *)
definition ROUTE_CONFIG_DISPLAY :: string where "ROUTE_CONFIG_DISPLAY = ''/api/config/display''"
(* platform/http_server/router/catalog.rs: const ROUTE_CONFIG_ACCOUNTS *)
definition ROUTE_CONFIG_ACCOUNTS :: string where "ROUTE_CONFIG_ACCOUNTS = ''/api/config/accounts''"
(* platform/http_server/router/catalog.rs: const ROUTE_CONFIG_ACCOUNTS_PREFIX *)
definition ROUTE_CONFIG_ACCOUNTS_PREFIX :: string where "ROUTE_CONFIG_ACCOUNTS_PREFIX = ''/api/config/accounts/''"
(* platform/http_server/router/catalog.rs: const ROUTE_CONFIG_CAPABILITIES *)
definition ROUTE_CONFIG_CAPABILITIES :: string where "ROUTE_CONFIG_CAPABILITIES = ''/api/config/capabilities''"
(* platform/http_server/router/catalog.rs: const ROUTE_CONFIG_CAPABILITIES_PREFIX *)
definition ROUTE_CONFIG_CAPABILITIES_PREFIX :: string where "ROUTE_CONFIG_CAPABILITIES_PREFIX = ''/api/config/capabilities/''"
(* platform/http_server/router/catalog.rs: const ROUTE_CONFIG_PROVIDERS *)
definition ROUTE_CONFIG_PROVIDERS :: string where "ROUTE_CONFIG_PROVIDERS = ''/api/config/providers''"
(* platform/http_server/router/catalog.rs: const ROUTE_WIFI_SCAN *)
definition ROUTE_WIFI_SCAN :: string where "ROUTE_WIFI_SCAN = ''/api/wifi/scan''"
(* platform/http_server/router/catalog.rs: const ROUTE_HARDWARE_DISCOVERY *)
definition ROUTE_HARDWARE_DISCOVERY :: string where "ROUTE_HARDWARE_DISCOVERY = ''/api/hardware/discovery''"
(* platform/http_server/router/catalog.rs: const ROUTE_CSRF_TOKEN *)
definition ROUTE_CSRF_TOKEN :: string where "ROUTE_CSRF_TOKEN = ''/api/csrf_token''"
(* platform/http_server/router/catalog.rs: const ROUTE_HEALTH *)
definition ROUTE_HEALTH :: string where "ROUTE_HEALTH = ''/api/health''"
(* platform/http_server/router/catalog.rs: const ROUTE_OPERATOR_STATUS *)
definition ROUTE_OPERATOR_STATUS :: string where "ROUTE_OPERATOR_STATUS = ''/api/operator/status''"
(* platform/http_server/router/catalog.rs: const ROUTE_OPERATOR_WINDOW *)
definition ROUTE_OPERATOR_WINDOW :: string where "ROUTE_OPERATOR_WINDOW = ''/api/operator/window''"
(* platform/http_server/router/catalog.rs: const ROUTE_METRICS *)
definition ROUTE_METRICS :: string where "ROUTE_METRICS = ''/api/metrics''"
(* platform/http_server/router/catalog.rs: const ROUTE_RESOURCE *)
definition ROUTE_RESOURCE :: string where "ROUTE_RESOURCE = ''/api/resource''"
(* platform/http_server/router/catalog.rs: const ROUTE_DIAGNOSE *)
definition ROUTE_DIAGNOSE :: string where "ROUTE_DIAGNOSE = ''/api/diagnose''"
(* platform/http_server/router/catalog.rs: const ROUTE_SYSTEM_INFO *)
definition ROUTE_SYSTEM_INFO :: string where "ROUTE_SYSTEM_INFO = ''/api/system_info''"
(* platform/http_server/router/catalog.rs: const ROUTE_CHANNEL_CONNECTIVITY *)
definition ROUTE_CHANNEL_CONNECTIVITY :: string where "ROUTE_CHANNEL_CONNECTIVITY = ''/api/channel_connectivity''"
(* platform/http_server/router/catalog.rs: const ROUTE_TOOLS *)
definition ROUTE_TOOLS :: string where "ROUTE_TOOLS = ''/api/tools''"
(* platform/http_server/router/catalog.rs: const ROUTE_SESSIONS *)
definition ROUTE_SESSIONS :: string where "ROUTE_SESSIONS = ''/api/sessions''"
(* platform/http_server/router/catalog.rs: const ROUTE_MEMORY_STATUS *)
definition ROUTE_MEMORY_STATUS :: string where "ROUTE_MEMORY_STATUS = ''/api/memory/status''"
(* platform/http_server/router/catalog.rs: const ROUTE_MEMORY_MAINTENANCE *)
definition ROUTE_MEMORY_MAINTENANCE :: string where "ROUTE_MEMORY_MAINTENANCE = ''/api/memory/maintenance''"
(* platform/http_server/router/catalog.rs: const ROUTE_CAPABILITY_PACKAGES *)
definition ROUTE_CAPABILITY_PACKAGES :: string where "ROUTE_CAPABILITY_PACKAGES = ''/api/capability_packages''"
(* platform/http_server/router/catalog.rs: const ROUTE_SKILLS *)
definition ROUTE_SKILLS :: string where "ROUTE_SKILLS = ''/api/skills''"
(* platform/http_server/router/catalog.rs: const ROUTE_SKILLS_IMPORT *)
definition ROUTE_SKILLS_IMPORT :: string where "ROUTE_SKILLS_IMPORT = ''/api/skills/import''"
(* platform/http_server/router/catalog.rs: const ROUTE_RESTART *)
definition ROUTE_RESTART :: string where "ROUTE_RESTART = ''/api/restart''"
(* platform/http_server/router/catalog.rs: const ROUTE_CONFIG_RESET *)
definition ROUTE_CONFIG_RESET :: string where "ROUTE_CONFIG_RESET = ''/api/config_reset''"
(* platform/http_server/router/catalog.rs: const ROUTE_WEBHOOK *)
definition ROUTE_WEBHOOK :: string where "ROUTE_WEBHOOK = ''/api/webhook''"

lemmas route_defs = ROUTE_ROOT_def ROUTE_PAIRING_CODE_def ROUTE_CONFIG_LLM_def ROUTE_CONFIG_CHANNELS_def ROUTE_CONFIG_SYSTEM_def ROUTE_CONFIG_HARDWARE_def ROUTE_CONFIG_AUDIO_def ROUTE_CONFIG_DISPLAY_def ROUTE_CONFIG_ACCOUNTS_def ROUTE_CONFIG_ACCOUNTS_PREFIX_def ROUTE_CONFIG_CAPABILITIES_def ROUTE_CONFIG_CAPABILITIES_PREFIX_def ROUTE_CONFIG_PROVIDERS_def ROUTE_WIFI_SCAN_def ROUTE_HARDWARE_DISCOVERY_def ROUTE_CSRF_TOKEN_def ROUTE_HEALTH_def ROUTE_OPERATOR_STATUS_def ROUTE_OPERATOR_WINDOW_def ROUTE_METRICS_def ROUTE_RESOURCE_def ROUTE_DIAGNOSE_def ROUTE_SYSTEM_INFO_def ROUTE_CHANNEL_CONNECTIVITY_def ROUTE_TOOLS_def ROUTE_SESSIONS_def ROUTE_MEMORY_STATUS_def ROUTE_MEMORY_MAINTENANCE_def ROUTE_CAPABILITY_PACKAGES_def ROUTE_SKILLS_def ROUTE_SKILLS_IMPORT_def ROUTE_RESTART_def ROUTE_CONFIG_RESET_def ROUTE_WEBHOOK_def

(* platform/http_server/router/catalog.rs: enum RouteMethod *)
datatype RouteMethod = MethodGet | MethodPost | MethodDelete | MethodOptions

(* platform/http_server/router/catalog.rs: impl RouteMethod / fn as_str *)
fun method_as_str :: "RouteMethod \<Rightarrow> string" where
  "method_as_str MethodGet = ''GET''"
| "method_as_str MethodPost = ''POST''"
| "method_as_str MethodDelete = ''DELETE''"
| "method_as_str MethodOptions = ''OPTIONS''"

(* platform/http_server/router/catalog.rs: impl RouteMethod / fn parse *)
definition method_parse :: "string \<Rightarrow> RouteMethod option" where
  "method_parse s =
     (if s = ''GET'' then Some MethodGet
      else if s = ''POST'' then Some MethodPost
      else if s = ''DELETE'' then Some MethodDelete
      else if s = ''OPTIONS'' then Some MethodOptions
      else None)"

(* platform/http_server/router/catalog.rs: enum RouteBodyMode *)
datatype RouteBodyMode = BodyNone | BodyUtf8 nat

(* platform/http_server/router/catalog.rs: enum RouteExecutionClass *)
datatype RouteExecutionClass =
    ImmediateRoute | StreamingRoute | SnapshotRoute | ChatHistoryRoute | AsyncConfigRoute
  | LocalDiagnosticRoute | SlowDiagnosticRoute | RejectedRoute

(* platform/http_server/router/catalog.rs: enum OperatorRouteAccess *)
datatype OperatorRouteAccess = HiddenRoute | AlwaysOn | Windowed

(* platform/http_server/router/catalog.rs: enum RouteHandler *)
datatype RouteHandler =
    RootGet | PairingCodeGet | PairingCodePost | ConfigLlmGet | ConfigLlmPost
  | ConfigChannelsGet | ConfigChannelsPost | ConfigSystemGet | ConfigSystemPost | ConfigHardwareGet
  | ConfigHardwarePost | ConfigAudioGet | ConfigAudioPost | ConfigDisplayGet | ConfigDisplayPost
  | WifiScanGet | HardwareDiscoveryGet | HealthGet | OperatorStatusGet | OperatorWindowPost
  | MetricsGet | ResourceGet | DiagnoseGet | SystemInfoGet | ChannelConnectivityGet
  | ToolsGet | SessionsGet | SessionsPost | SessionsDelete | MemoryStatusGet
  | MemoryMaintenancePost | CapabilityPackagesGet | CapabilityPackagesPost | SkillsGet | SkillsPost
  | SkillsDelete | SkillsImportPost | RestartPost | ConfigResetPost | WebhookPost
  | CsrfTokenGet

(* platform/http_server/common.rs: const POST_BODY_MAX_LEN *)
definition POST_BODY_MAX_LEN :: nat where "POST_BODY_MAX_LEN = 4096"

(* capability_package.rs: const MAX_CAPABILITY_PACKAGE_HTTP_BODY_LEN *)
definition MAX_CAPABILITY_PACKAGE_HTTP_BODY_LEN :: nat where "MAX_CAPABILITY_PACKAGE_HTTP_BODY_LEN = 256 * 1024"

(* platform/http_server/router/catalog.rs: struct HttpRouteSpec *)
record HttpRouteSpec =
  rs_path :: string
  rs_method :: RouteMethod
  rs_body_mode :: RouteBodyMode
  rs_handler :: "RouteHandler option"
  rs_execution_class :: RouteExecutionClass
  rs_operator_access :: OperatorRouteAccess
  rs_config_activity_phase :: "ConfigActivityPhase option"
  rs_reject_during_voice_exclusive :: bool

text \<open>What the constructors have in common.\<close>

definition spec_of :: "RouteExecutionClass \<Rightarrow> string \<Rightarrow> RouteMethod \<Rightarrow> RouteBodyMode \<Rightarrow> OperatorRouteAccess \<Rightarrow> HttpRouteSpec" where
  "spec_of cls path method body_mode access =
     \<lparr>rs_path = path, rs_method = method, rs_body_mode = body_mode, rs_handler = None, rs_execution_class = cls,
      rs_operator_access = access, rs_config_activity_phase = None, rs_reject_during_voice_exclusive = False\<rparr>"

(* platform/http_server/router/catalog.rs: impl HttpRouteSpec / fn immediate *)
definition spec_immediate :: "string \<Rightarrow> RouteMethod \<Rightarrow> RouteBodyMode \<Rightarrow> HttpRouteSpec" where
  "spec_immediate path method body_mode = spec_of ImmediateRoute path method body_mode HiddenRoute"

(* platform/http_server/router/catalog.rs: impl HttpRouteSpec / fn immediate_operator *)
definition spec_immediate_operator :: "string \<Rightarrow> RouteMethod \<Rightarrow> RouteBodyMode \<Rightarrow> OperatorRouteAccess \<Rightarrow> HttpRouteSpec" where
  "spec_immediate_operator = spec_of ImmediateRoute"

(* platform/http_server/router/catalog.rs: impl HttpRouteSpec / fn streaming_operator *)
definition spec_streaming_operator :: "string \<Rightarrow> RouteMethod \<Rightarrow> RouteBodyMode \<Rightarrow> OperatorRouteAccess \<Rightarrow> HttpRouteSpec" where
  "spec_streaming_operator = spec_of StreamingRoute"

(* platform/http_server/router/catalog.rs: impl HttpRouteSpec / fn async_config_operator *)
definition spec_async_config_operator :: "string \<Rightarrow> RouteMethod \<Rightarrow> RouteBodyMode \<Rightarrow> OperatorRouteAccess \<Rightarrow> HttpRouteSpec" where
  "spec_async_config_operator = spec_of AsyncConfigRoute"

(* platform/http_server/router/catalog.rs: impl HttpRouteSpec / fn snapshot_operator *)
definition spec_snapshot_operator :: "string \<Rightarrow> RouteMethod \<Rightarrow> RouteBodyMode \<Rightarrow> OperatorRouteAccess \<Rightarrow> HttpRouteSpec" where
  "spec_snapshot_operator = spec_of SnapshotRoute"

(* platform/http_server/router/catalog.rs: impl HttpRouteSpec / fn chat_history_operator *)
definition spec_chat_history_operator :: "string \<Rightarrow> RouteMethod \<Rightarrow> RouteBodyMode \<Rightarrow> OperatorRouteAccess \<Rightarrow> HttpRouteSpec" where
  "spec_chat_history_operator = spec_of ChatHistoryRoute"

(* platform/http_server/router/catalog.rs: impl HttpRouteSpec / fn slow_diagnostic_operator *)
definition spec_slow_diagnostic_operator :: "string \<Rightarrow> RouteMethod \<Rightarrow> RouteBodyMode \<Rightarrow> OperatorRouteAccess \<Rightarrow> HttpRouteSpec" where
  "spec_slow_diagnostic_operator = spec_of SlowDiagnosticRoute"

(* platform/http_server/router/catalog.rs: impl HttpRouteSpec / fn local_diagnostic_operator *)
definition spec_local_diagnostic_operator :: "string \<Rightarrow> RouteMethod \<Rightarrow> RouteBodyMode \<Rightarrow> OperatorRouteAccess \<Rightarrow> HttpRouteSpec" where
  "spec_local_diagnostic_operator = spec_of LocalDiagnosticRoute"

(* platform/http_server/router/catalog.rs: impl HttpRouteSpec / fn rejected *)
definition spec_rejected :: "string \<Rightarrow> RouteMethod \<Rightarrow> HttpRouteSpec" where
  "spec_rejected path method = spec_of RejectedRoute path method BodyNone HiddenRoute"

(* platform/http_server/router/catalog.rs: impl HttpRouteSpec / fn with_handler *)
definition with_handler :: "RouteHandler \<Rightarrow> HttpRouteSpec \<Rightarrow> HttpRouteSpec" where
  "with_handler h spec = spec\<lparr>rs_handler := Some h\<rparr>"

(* platform/http_server/router/catalog.rs: impl HttpRouteSpec / fn with_config_activity *)
definition with_config_activity :: "ConfigActivityPhase \<Rightarrow> bool \<Rightarrow> HttpRouteSpec \<Rightarrow> HttpRouteSpec" where
  "with_config_activity phase reject spec =
     spec\<lparr>rs_config_activity_phase := Some phase, rs_reject_during_voice_exclusive := reject\<rparr>"

(* platform/http_server/router/catalog.rs: impl HttpRouteSpec / fn with_voice_exclusive_reject *)
definition with_voice_exclusive_reject :: "HttpRouteSpec \<Rightarrow> HttpRouteSpec" where
  "with_voice_exclusive_reject spec = spec\<lparr>rs_reject_during_voice_exclusive := True\<rparr>"

lemmas spec_defs = spec_of_def spec_immediate_def spec_immediate_operator_def spec_streaming_operator_def
  spec_async_config_operator_def spec_snapshot_operator_def spec_chat_history_operator_def
  spec_slow_diagnostic_operator_def spec_local_diagnostic_operator_def spec_rejected_def with_handler_def
  with_config_activity_def with_voice_exclusive_reject_def

section \<open>The tables\<close>

(* platform/http_server/router/catalog.rs: const ROOT_ROUTE_SPECS *)
definition ROOT_ROUTE_SPECS :: "target \<Rightarrow> bool \<Rightarrow> HttpRouteSpec list" where
  "ROOT_ROUTE_SPECS t office =
     [with_handler RootGet (spec_immediate ROUTE_ROOT MethodGet BodyNone),
      spec_immediate ROUTE_ROOT MethodOptions BodyNone]"

(* platform/http_server/router/catalog.rs: const PAIRING_AND_CONFIG_ROUTE_SPECS *)
definition PAIRING_AND_CONFIG_ROUTE_SPECS :: "target \<Rightarrow> bool \<Rightarrow> HttpRouteSpec list" where
  "PAIRING_AND_CONFIG_ROUTE_SPECS t office =
     [with_handler PairingCodeGet (spec_immediate_operator ROUTE_PAIRING_CODE MethodGet BodyNone AlwaysOn),
      with_config_activity PhasePersisting False (with_handler PairingCodePost (spec_immediate_operator ROUTE_PAIRING_CODE MethodPost (BodyUtf8 POST_BODY_MAX_LEN) AlwaysOn)),
      spec_immediate ROUTE_PAIRING_CODE MethodOptions BodyNone,
      with_handler ConfigLlmGet (spec_immediate_operator ROUTE_CONFIG_LLM MethodGet BodyNone AlwaysOn),
      spec_immediate ROUTE_CONFIG_LLM MethodOptions BodyNone,
      with_config_activity PhasePersisting True (with_handler ConfigLlmPost (spec_async_config_operator ROUTE_CONFIG_LLM MethodPost (BodyUtf8 POST_BODY_MAX_LEN) AlwaysOn)),
      with_handler ConfigChannelsGet (spec_immediate_operator ROUTE_CONFIG_CHANNELS MethodGet BodyNone AlwaysOn),
      spec_immediate ROUTE_CONFIG_CHANNELS MethodOptions BodyNone,
      with_config_activity PhasePersisting True (with_handler ConfigChannelsPost (spec_async_config_operator ROUTE_CONFIG_CHANNELS MethodPost (BodyUtf8 POST_BODY_MAX_LEN) AlwaysOn)),
      with_handler ConfigSystemGet (spec_immediate_operator ROUTE_CONFIG_SYSTEM MethodGet BodyNone AlwaysOn),
      spec_immediate ROUTE_CONFIG_SYSTEM MethodOptions BodyNone,
      with_config_activity PhasePersisting True (with_handler ConfigSystemPost (spec_async_config_operator ROUTE_CONFIG_SYSTEM MethodPost (BodyUtf8 POST_BODY_MAX_LEN) AlwaysOn)),
      with_handler ConfigHardwareGet (spec_immediate_operator ROUTE_CONFIG_HARDWARE MethodGet BodyNone AlwaysOn),
      spec_immediate ROUTE_CONFIG_HARDWARE MethodOptions BodyNone,
      with_config_activity PhasePersisting True (with_handler ConfigHardwarePost (spec_async_config_operator ROUTE_CONFIG_HARDWARE MethodPost (BodyUtf8 POST_BODY_MAX_LEN) AlwaysOn)),
      with_handler ConfigAudioGet (spec_immediate_operator ROUTE_CONFIG_AUDIO MethodGet BodyNone AlwaysOn),
      spec_immediate ROUTE_CONFIG_AUDIO MethodOptions BodyNone,
      with_config_activity PhasePersisting True (with_handler ConfigAudioPost (spec_async_config_operator ROUTE_CONFIG_AUDIO MethodPost (BodyUtf8 POST_BODY_MAX_LEN) AlwaysOn)),
      with_handler ConfigDisplayGet (spec_immediate_operator ROUTE_CONFIG_DISPLAY MethodGet BodyNone AlwaysOn),
      spec_immediate ROUTE_CONFIG_DISPLAY MethodOptions BodyNone,
      with_config_activity PhasePersisting True (with_handler ConfigDisplayPost (spec_async_config_operator ROUTE_CONFIG_DISPLAY MethodPost (BodyUtf8 POST_BODY_MAX_LEN) AlwaysOn)),
      with_config_activity PhaseActive True (with_handler WifiScanGet (spec_local_diagnostic_operator ROUTE_WIFI_SCAN MethodGet BodyNone AlwaysOn)),
      spec_immediate ROUTE_WIFI_SCAN MethodOptions BodyNone,
      with_config_activity PhaseActive True (with_handler HardwareDiscoveryGet (spec_slow_diagnostic_operator ROUTE_HARDWARE_DISCOVERY MethodGet BodyNone AlwaysOn)),
      spec_immediate ROUTE_HARDWARE_DISCOVERY MethodOptions BodyNone,
      with_handler CsrfTokenGet (spec_immediate_operator ROUTE_CSRF_TOKEN MethodGet BodyNone AlwaysOn),
      spec_immediate ROUTE_CSRF_TOKEN MethodOptions BodyNone]
     @ (if office then [] else
     [spec_rejected ROUTE_CONFIG_ACCOUNTS MethodGet,
      spec_rejected ROUTE_CONFIG_ACCOUNTS MethodPost,
      spec_immediate ROUTE_CONFIG_ACCOUNTS MethodOptions BodyNone,
      spec_rejected ROUTE_CONFIG_CAPABILITIES MethodGet,
      spec_immediate ROUTE_CONFIG_CAPABILITIES MethodOptions BodyNone,
      spec_rejected ROUTE_CONFIG_PROVIDERS MethodGet,
      spec_immediate ROUTE_CONFIG_PROVIDERS MethodOptions BodyNone])"

(* platform/http_server/router/catalog.rs: const OBSERVABILITY_ROUTE_SPECS *)
definition OBSERVABILITY_ROUTE_SPECS :: "target \<Rightarrow> bool \<Rightarrow> HttpRouteSpec list" where
  "OBSERVABILITY_ROUTE_SPECS t office =
     [with_handler HealthGet (spec_immediate_operator ROUTE_HEALTH MethodGet BodyNone AlwaysOn),
      spec_immediate ROUTE_HEALTH MethodOptions BodyNone,
      with_handler OperatorStatusGet (spec_slow_diagnostic_operator ROUTE_OPERATOR_STATUS MethodGet BodyNone Windowed),
      spec_immediate ROUTE_OPERATOR_STATUS MethodOptions BodyNone,
      with_handler OperatorWindowPost (spec_immediate_operator ROUTE_OPERATOR_WINDOW MethodPost BodyNone AlwaysOn),
      spec_immediate ROUTE_OPERATOR_WINDOW MethodOptions BodyNone,
      if t = Esp then with_handler MetricsGet (spec_immediate_operator ROUTE_METRICS MethodGet BodyNone AlwaysOn)
       else with_handler MetricsGet (spec_slow_diagnostic_operator ROUTE_METRICS MethodGet BodyNone Windowed),
      spec_immediate ROUTE_METRICS MethodOptions BodyNone,
      with_handler ResourceGet (spec_immediate_operator ROUTE_RESOURCE MethodGet BodyNone AlwaysOn),
      spec_immediate ROUTE_RESOURCE MethodOptions BodyNone,
      with_handler DiagnoseGet (spec_slow_diagnostic_operator ROUTE_DIAGNOSE MethodGet BodyNone Windowed),
      spec_immediate ROUTE_DIAGNOSE MethodOptions BodyNone,
      if t = Esp then with_handler SystemInfoGet (spec_immediate_operator ROUTE_SYSTEM_INFO MethodGet BodyNone AlwaysOn)
       else with_handler SystemInfoGet (spec_slow_diagnostic_operator ROUTE_SYSTEM_INFO MethodGet BodyNone AlwaysOn),
      spec_immediate ROUTE_SYSTEM_INFO MethodOptions BodyNone,
      with_config_activity PhaseActive True (with_handler ChannelConnectivityGet (spec_slow_diagnostic_operator ROUTE_CHANNEL_CONNECTIVITY MethodGet BodyNone AlwaysOn)),
      spec_immediate ROUTE_CHANNEL_CONNECTIVITY MethodOptions BodyNone]"

(* platform/http_server/router/catalog.rs: const MEMORY_AND_SKILL_ROUTE_SPECS *)
definition MEMORY_AND_SKILL_ROUTE_SPECS :: "target \<Rightarrow> bool \<Rightarrow> HttpRouteSpec list" where
  "MEMORY_AND_SKILL_ROUTE_SPECS t office =
     [with_handler ToolsGet (spec_immediate_operator ROUTE_TOOLS MethodGet BodyNone AlwaysOn),
      spec_immediate ROUTE_TOOLS MethodOptions BodyNone,
      if t = Esp then with_handler SessionsGet (spec_chat_history_operator ROUTE_SESSIONS MethodGet BodyNone AlwaysOn)
       else with_handler SessionsGet (spec_immediate_operator ROUTE_SESSIONS MethodGet BodyNone AlwaysOn),
      with_handler SessionsPost (with_voice_exclusive_reject (spec_streaming_operator ROUTE_SESSIONS MethodPost (BodyUtf8 POST_BODY_MAX_LEN) AlwaysOn)),
      with_handler SessionsDelete (spec_slow_diagnostic_operator ROUTE_SESSIONS MethodDelete BodyNone Windowed),
      spec_immediate ROUTE_SESSIONS MethodOptions BodyNone,
      with_handler MemoryStatusGet (spec_slow_diagnostic_operator ROUTE_MEMORY_STATUS MethodGet BodyNone Windowed),
      spec_immediate ROUTE_MEMORY_STATUS MethodOptions BodyNone,
      with_handler MemoryMaintenancePost (spec_slow_diagnostic_operator ROUTE_MEMORY_MAINTENANCE MethodPost (BodyUtf8 POST_BODY_MAX_LEN) Windowed),
      spec_immediate ROUTE_MEMORY_MAINTENANCE MethodOptions BodyNone,
      with_handler CapabilityPackagesGet (spec_slow_diagnostic_operator ROUTE_CAPABILITY_PACKAGES MethodGet BodyNone Windowed),
      with_handler CapabilityPackagesPost (spec_slow_diagnostic_operator ROUTE_CAPABILITY_PACKAGES MethodPost (BodyUtf8 MAX_CAPABILITY_PACKAGE_HTTP_BODY_LEN) Windowed),
      spec_immediate ROUTE_CAPABILITY_PACKAGES MethodOptions BodyNone,
      if t = Esp then with_handler SkillsGet (spec_snapshot_operator ROUTE_SKILLS MethodGet BodyNone Windowed)
       else with_handler SkillsGet (spec_slow_diagnostic_operator ROUTE_SKILLS MethodGet BodyNone Windowed),
      with_handler SkillsPost (spec_slow_diagnostic_operator ROUTE_SKILLS MethodPost (BodyUtf8 POST_BODY_MAX_LEN) Windowed),
      with_handler SkillsDelete (spec_slow_diagnostic_operator ROUTE_SKILLS MethodDelete BodyNone Windowed),
      spec_immediate ROUTE_SKILLS MethodOptions BodyNone,
      with_handler SkillsImportPost (spec_slow_diagnostic_operator ROUTE_SKILLS_IMPORT MethodPost (BodyUtf8 POST_BODY_MAX_LEN) Windowed),
      spec_immediate ROUTE_SKILLS_IMPORT MethodOptions BodyNone]"

(* platform/http_server/router/catalog.rs: const ACTION_ROUTE_SPECS *)
definition ACTION_ROUTE_SPECS :: "target \<Rightarrow> bool \<Rightarrow> HttpRouteSpec list" where
  "ACTION_ROUTE_SPECS t office =
     [with_config_activity PhaseStopping True (with_handler RestartPost (spec_immediate_operator ROUTE_RESTART MethodPost BodyNone AlwaysOn)),
      spec_immediate ROUTE_RESTART MethodOptions BodyNone,
      with_config_activity PhasePersisting True (with_handler ConfigResetPost (spec_async_config_operator ROUTE_CONFIG_RESET MethodPost BodyNone AlwaysOn)),
      spec_immediate ROUTE_CONFIG_RESET MethodOptions BodyNone,
      with_handler WebhookPost (spec_immediate ROUTE_WEBHOOK MethodPost (BodyUtf8 POST_BODY_MAX_LEN)),
      spec_immediate ROUTE_WEBHOOK MethodOptions BodyNone]"

lemmas table_defs = ROOT_ROUTE_SPECS_def PAIRING_AND_CONFIG_ROUTE_SPECS_def OBSERVABILITY_ROUTE_SPECS_def MEMORY_AND_SKILL_ROUTE_SPECS_def ACTION_ROUTE_SPECS_def

(* platform/http_server/router/catalog.rs: fn route_spec_groups *)
definition route_spec_groups :: "target \<Rightarrow> bool \<Rightarrow> HttpRouteSpec list list" where
  "route_spec_groups t office =
     [ROOT_ROUTE_SPECS t office, PAIRING_AND_CONFIG_ROUTE_SPECS t office, OBSERVABILITY_ROUTE_SPECS t office,
      MEMORY_AND_SKILL_ROUTE_SPECS t office, ACTION_ROUTE_SPECS t office]"

fun first_in_groups :: "('a \<Rightarrow> bool) \<Rightarrow> 'a list list \<Rightarrow> 'a option" where
  "first_in_groups p [] = None"
| "first_in_groups p (g # gs) = (case find p g of Some x \<Rightarrow> Some x | None \<Rightarrow> first_in_groups p gs)"

(* platform/http_server/router/catalog.rs: fn route_spec_for_method *)
definition route_spec_for_method :: "target \<Rightarrow> bool \<Rightarrow> RouteMethod \<Rightarrow> string \<Rightarrow> HttpRouteSpec option" where
  "route_spec_for_method t office method path =
     first_in_groups (\<lambda>spec. rs_method spec = method \<and> rs_path spec = path) (route_spec_groups t office)"

(* platform/http_server/router/catalog.rs: fn route_spec_for *)
definition route_spec_for :: "target \<Rightarrow> bool \<Rightarrow> string \<Rightarrow> string \<Rightarrow> HttpRouteSpec option" where
  "route_spec_for t office method path =
     (case method_parse method of None \<Rightarrow> None | Some m \<Rightarrow> route_spec_for_method t office m path)"

section \<open>Listing for the operator\<close>

(* platform/http_server/router/catalog.rs: fn push_operator_route_endpoints *)
definition push_operator_route_endpoints :: "HttpRouteSpec list \<Rightarrow> OperatorRouteAccess option \<Rightarrow> string list" where
  "push_operator_route_endpoints specs access =
     map (\<lambda>spec. method_as_str (rs_method spec) @ '' '' @ rs_path spec)
       (filter (\<lambda>spec. rs_method spec \<noteq> MethodOptions
          \<and> (case access of Some required \<Rightarrow> rs_operator_access spec = required
              | None \<Rightarrow> rs_operator_access spec \<noteq> HiddenRoute)) specs)"

(* platform/http_server/router/catalog.rs: fn push_host_dynamic_operator_route_endpoints *)
definition host_dynamic_operator_route_endpoints :: "string list" where
  "host_dynamic_operator_route_endpoints =
     map (\<lambda>(m, p). method_as_str m @ '' '' @ p)
       [(MethodGet, ROUTE_CONFIG_ACCOUNTS), (MethodPost, ROUTE_CONFIG_ACCOUNTS),
        (MethodGet, ''/api/config/accounts/:account_key''), (MethodDelete, ''/api/config/accounts/:account_key''),
        (MethodPost, ''/api/config/accounts/:account_key/config''),
        (MethodPost, ''/api/config/accounts/:account_key/probe''),
        (MethodPost, ''/api/config/accounts/:account_key/revoke''),
        (MethodGet, ROUTE_CONFIG_CAPABILITIES), (MethodGet, ''/api/config/capabilities/:capability''),
        (MethodGet, ROUTE_CONFIG_PROVIDERS)]"

(* platform/http_server/router/catalog.rs: fn operator_route_endpoints *)
definition operator_route_endpoints :: "target \<Rightarrow> bool \<Rightarrow> OperatorRouteAccess option \<Rightarrow> bool \<Rightarrow> string list" where
  "operator_route_endpoints t office access inbound_webhooks_enabled =
     concat (map (\<lambda>g. push_operator_route_endpoints g access) (route_spec_groups t office))
     @ (if access = None \<and> inbound_webhooks_enabled
        then [method_as_str MethodPost @ '' '' @ ROUTE_WEBHOOK] else [])
     @ (if office \<and> t = Host \<and> access = None then host_dynamic_operator_route_endpoints else [])"

section \<open>Admission by the runtime mode\<close>

(* platform/http_server/router/catalog.rs: enum RouteRuntimeAdmission *)
datatype RouteRuntimeAdmission = RouteAllowed | RouteRefused u16 string string string

(* platform/http_server/router/catalog.rs: impl HttpRouteSpec / fn tracks_config_read_burst *)
definition tracks_config_read_burst :: "HttpRouteSpec \<Rightarrow> bool" where
  "tracks_config_read_burst spec \<longleftrightarrow> rs_method spec = MethodGet \<and> rs_execution_class spec = ImmediateRoute
     \<and> rs_path spec \<in> {ROUTE_CONFIG_LLM, ROUTE_CONFIG_CHANNELS, ROUTE_CONFIG_SYSTEM, ROUTE_CONFIG_HARDWARE,
          ROUTE_CONFIG_AUDIO, ROUTE_CONFIG_DISPLAY}"

(* platform/http_server/router/catalog.rs: impl HttpRouteSpec / fn blocks_during_config_active *)
definition blocks_during_config_active :: "HttpRouteSpec \<Rightarrow> bool" where
  "blocks_during_config_active spec \<longleftrightarrow>
     rs_execution_class spec = SlowDiagnosticRoute \<and> rs_config_activity_phase spec \<noteq> Some PhaseActive"

(* platform/http_server/router/catalog.rs: impl HttpRouteSpec / fn allowed_in_recovery_safe_mode *)
definition allowed_in_recovery_safe_mode :: "HttpRouteSpec \<Rightarrow> bool" where
  "allowed_in_recovery_safe_mode spec \<longleftrightarrow> rs_method spec = MethodOptions
     \<or> (rs_method spec, rs_path spec) \<in> {(MethodGet, ROUTE_ROOT), (MethodGet, ROUTE_HEALTH), (MethodGet, ROUTE_CSRF_TOKEN),
          (MethodPost, ROUTE_CONFIG_RESET)}"

(* platform/http_server/router/catalog.rs: impl HttpRouteSpec / fn allowed_in_upgrade_mode *)
definition allowed_in_upgrade_mode :: "HttpRouteSpec \<Rightarrow> bool" where
  "allowed_in_upgrade_mode spec \<longleftrightarrow> rs_method spec = MethodOptions
     \<or> (rs_method spec, rs_path spec) \<in> {(MethodGet, ROUTE_ROOT), (MethodGet, ROUTE_HEALTH), (MethodGet, ROUTE_CSRF_TOKEN),
          (MethodPost, ROUTE_CONFIG_RESET)}"

(* platform/http_server/router/catalog.rs: impl HttpRouteSpec / fn runtime_mode_admission *)
definition runtime_mode_admission :: "HttpRouteSpec \<Rightarrow> RuntimeMode \<Rightarrow> RouteRuntimeAdmission" where
  "runtime_mode_admission spec mode =
     (case mode of
        ModeRecoverySafeMode \<Rightarrow>
          (if allowed_in_recovery_safe_mode spec then RouteAllowed
           else RouteRefused 503 ''runtime.route_blocked_by_recovery_safe_mode'' ''runtime_route_admission''
                  ''recovery_safe_mode_allowlist'')
      | ModeVoiceExclusive \<Rightarrow>
          (if rs_reject_during_voice_exclusive spec
           then RouteRefused 409 ''runtime.config_blocked_by_voice'' ''config_activity_admission''
                  ''voice_exclusive_route_suspend''
           else RouteAllowed)
      | ModeUpgrade \<Rightarrow>
          (if allowed_in_upgrade_mode spec then RouteAllowed
           else RouteRefused 503 ''runtime.route_blocked_by_upgrade'' ''runtime_route_admission'' ''upgrade_mode_allowlist'')
      | ModeConfigActive \<Rightarrow>
          (if blocks_during_config_active spec
           then RouteRefused 409 ''runtime.route_blocked_by_config_active'' ''runtime_route_admission''
                  ''config_active_diagnostic_not_admitted''
           else RouteAllowed)
      | _ \<Rightarrow> RouteAllowed)"

section \<open>Workers of slow routes\<close>

(* platform/http_server/router/catalog.rs: enum RouteWorkerLane *)
datatype RouteWorkerLane = LaneSnapshot | LaneChatHistory | LaneConfig | LaneDiagnostic

(* platform/http_server/router/catalog.rs: impl RouteWorkerLane / fn lease_kind *)
fun lane_lease_kind :: "RouteWorkerLane \<Rightarrow> LeaseKind" where
  "lane_lease_kind LaneSnapshot = KSnapshotHttpWorker"
| "lane_lease_kind LaneChatHistory = KChatHistoryHttpWorker"
| "lane_lease_kind LaneConfig = KConfigHttpWorker"
| "lane_lease_kind LaneDiagnostic = KDiagnosticHttpWorker"

(* platform/http_server/router/catalog.rs: struct RouteWorkerContract *)
record RouteWorkerContract =
  rw_lane :: RouteWorkerLane
  rw_stack_size :: nat
  rw_reserves_tls_headroom :: bool
  rw_queue_capacity :: nat
  rw_worker_threads :: nat
  rw_timeout_secs :: u64
  rw_idle_timeout_secs :: u64
  rw_reject_status :: u16
  rw_socket_reserve :: nat
  rw_counter_name :: string
  rw_begin_stage :: string
  rw_complete_stage :: string

text \<open>All lanes have two places, one thread and the status of a refusal in common.\<close>

definition worker_of :: "RouteWorkerLane \<Rightarrow> nat \<Rightarrow> bool \<Rightarrow> u64 \<Rightarrow> u64 \<Rightarrow> nat \<Rightarrow> string \<Rightarrow> string \<Rightarrow> RouteWorkerContract" where
  "worker_of lane stack tls secs idle sockets counter stage =
     \<lparr>rw_lane = lane, rw_stack_size = stack, rw_reserves_tls_headroom = tls, rw_queue_capacity = 2, rw_worker_threads = 1,
      rw_timeout_secs = secs, rw_idle_timeout_secs = idle, rw_reject_status = 503, rw_socket_reserve = sockets,
      rw_counter_name = counter, rw_begin_stage = stage @ ''_begin'', rw_complete_stage = stage @ ''_complete''\<rparr>"

(* platform/http_server/router/catalog.rs: impl RouteExecutionClass / fn worker_contract *)
fun worker_contract :: "target \<Rightarrow> RouteExecutionClass \<Rightarrow> RouteWorkerContract option" where
  "worker_contract t ImmediateRoute = None"
| "worker_contract t StreamingRoute = None"
| "worker_contract t RejectedRoute = None"
| "worker_contract t SnapshotRoute =
     Some (worker_of LaneSnapshot STACK_HTTP_SNAPSHOT_WORKER False 5 5 0 ''http_snapshot_worker'' ''http_snapshot'')"
| "worker_contract t ChatHistoryRoute =
     Some (worker_of LaneChatHistory STACK_HTTP_CHAT_HISTORY_WORKER False 5 5 0 ''http_chat_history_worker''
             ''http_chat_history'')"
| "worker_contract t AsyncConfigRoute =
     Some (worker_of LaneConfig (STACK_HTTP_CONFIG_WORKER t) False 20 10 3 ''http_config_worker'' ''http_config'')"
| "worker_contract t LocalDiagnosticRoute =
     Some (worker_of LaneDiagnostic (STACK_HTTP_DIAG_WORKER t) False 15 8 0 ''http_local_diagnostic_worker''
             ''http_local_diagnostic'')"
| "worker_contract t SlowDiagnosticRoute =
     Some (worker_of LaneDiagnostic (STACK_HTTP_DIAG_WORKER t) True 15 8 3 ''http_diagnostic_worker'' ''http_diagnostic'')"

(* platform/http_server/router/catalog.rs: const ROUTE_WORKER_NON_TLS_INTERNAL_HEADROOM *)
definition ROUTE_WORKER_NON_TLS_INTERNAL_HEADROOM :: nat where "ROUTE_WORKER_NON_TLS_INTERNAL_HEADROOM = 8 * 1024"
(* platform/http_server/router/catalog.rs: const ROUTE_WORKER_NON_TLS_LARGEST_HEADROOM *)
definition ROUTE_WORKER_NON_TLS_LARGEST_HEADROOM :: nat where "ROUTE_WORKER_NON_TLS_LARGEST_HEADROOM = 3 * 1024"
(* platform/http_server/router/catalog.rs: const ROUTE_WORKER_CONFIG_LARGEST_HEADROOM *)
definition ROUTE_WORKER_CONFIG_LARGEST_HEADROOM :: nat where "ROUTE_WORKER_CONFIG_LARGEST_HEADROOM = 0"

text \<open>The pair of the internal memory and of the largest block that must be free; both sums are far below the largest \<open>usize\<close>.\<close>

(* platform/http_server/router/catalog.rs: fn route_worker_memory_requirements *)
definition route_worker_memory_requirements :: "RouteWorkerContract \<Rightarrow> nat \<times> nat" where
  "route_worker_memory_requirements c =
     (let (internal_headroom, largest_headroom) =
        (if rw_reserves_tls_headroom c
         then (TLS_ADMISSION_MIN_INTERNAL_BYTES, TLS_ADMISSION_MIN_LARGEST_BLOCK_BYTES)
         else if rw_lane c = LaneChatHistory \<or> rw_lane c = LaneConfig
         then (ROUTE_WORKER_NON_TLS_INTERNAL_HEADROOM, ROUTE_WORKER_CONFIG_LARGEST_HEADROOM)
         else (ROUTE_WORKER_NON_TLS_INTERNAL_HEADROOM, ROUTE_WORKER_NON_TLS_LARGEST_HEADROOM))
      in (rw_stack_size c + internal_headroom, rw_stack_size c + largest_headroom))"

(* orchestrator/state.rs: enum StorageContentionRisk *)
datatype StorageContentionRisk = ContentionHealthy | ContentionCautious | ContentionCritical

(* platform/http_server/router/catalog.rs: struct RouteWorkerRuntimeLoad *)
record RouteWorkerRuntimeLoad =
  wl_pressure :: PressureLevel
  wl_storage_contention :: StorageContentionRisk
  wl_active_agent_tasks :: u32
  wl_inbound_depth :: u32
  wl_outbound_depth :: u32

text \<open>The refusal as the cause it names; its text prints the fields of the load.\<close>

datatype worker_busy = BusyPressure | BusyStorage | BusyQueues

(* platform/http_server/router/catalog.rs: fn route_worker_runtime_busy_detail *)
definition route_worker_runtime_busy_detail :: "RouteWorkerContract \<Rightarrow> RouteWorkerRuntimeLoad \<Rightarrow> worker_busy option" where
  "route_worker_runtime_busy_detail c load =
     (if \<not> (wl_pressure load = PressureNormal \<or> rw_lane c = LaneChatHistory \<and> wl_pressure load = PressureCautious)
      then Some BusyPressure
      else if wl_storage_contention load \<noteq> ContentionHealthy then Some BusyStorage
      else if 0 < wl_active_agent_tasks load \<or> 0 < wl_inbound_depth load \<or> 0 < wl_outbound_depth load
      then Some BusyQueues
      else None)"

end
