(* ===== verification/Http_Access.thy ===== *)
theory Http_Access
  imports Http_Routes
begin

text \<open>
  Who may do what over HTTP: the pairing code (\<open>src/src/platform/pairing.rs\<close>), the CSRF token
  (\<open>platform/csrf.rs\<close>), the checks of a request (\<open>platform/http_server/router/auth.rs\<close>, parts of
  \<open>common.rs\<close>) and the dispatcher (\<open>router/dispatch.rs\<close>). A handler is a parameter: it gets the request and
  the world and returns the world and its reply; the dispatcher decides whether it runs. A reply holds an error
  key or a body; headers and the further fields of an error are left out.
\<close>

section \<open>The pairing code\<close>

(* platform/pairing.rs: const CODE_LEN *)
definition CODE_LEN :: nat where "CODE_LEN = 6"

(* platform/pairing.rs: enum SetCodeOutcome *)
datatype SetCodeOutcome = CodeStored | CodeAlreadySet | CodeInvalid

(* platform/pairing.rs: fn valid_code_format *)
definition valid_code_format :: "string \<Rightarrow> bool" where
  "valid_code_format code \<longleftrightarrow> length code = CODE_LEN \<and> list_all is_digit code"

text \<open>The key of the configuration store: its content, and what its uses meet this time.\<close>

record store_fault =
  sf_read :: "Error option"
  sf_write :: "Error option"

definition no_fault :: store_fault where
  "no_fault = \<lparr>sf_read = None, sf_write = None\<rparr>"

definition read_code_key :: "store_fault \<Rightarrow> string option \<Rightarrow> Error + string option" where
  "read_code_key f key = (case sf_read f of Some e \<Rightarrow> Inl e | None \<Rightarrow> Inr key)"

(* platform/pairing.rs: fn read_valid_code *)
definition read_valid_code :: "Error + string option \<Rightarrow> string option" where
  "read_valid_code r =
     (case r of
        Inr (Some code) \<Rightarrow> if valid_code_format (trim code) then Some (trim code) else None
      | _ \<Rightarrow> None)"

(* platform/pairing.rs: fn code_set *)
definition code_set :: "Error + string option \<Rightarrow> bool" where
  "code_set r \<longleftrightarrow> read_valid_code r \<noteq> None"

(* platform/pairing.rs: fn set_code_checked *)
definition set_code_checked :: "store_fault \<Rightarrow> string \<Rightarrow> string option \<Rightarrow> string option \<times> (Error + SetCodeOutcome)" where
  "set_code_checked f code key =
     (if code_set (read_code_key f key) then (key, Inr CodeAlreadySet)
      else if \<not> valid_code_format (trim code) then (key, Inr CodeInvalid)
      else case sf_write f of
        Some e \<Rightarrow> (key, Inl e)
      | None \<Rightarrow> (Some (trim code), Inr CodeStored))"

(* platform/pairing.rs: fn set_code *)
definition set_code :: "store_fault \<Rightarrow> string \<Rightarrow> string option \<Rightarrow> string option \<times> (Error + bool)" where
  "set_code f code key =
     (case set_code_checked f code key of
        (key', Inl e) \<Rightarrow> (key', Inl e)
      | (key', Inr outcome) \<Rightarrow> (key', Inr (outcome = CodeStored)))"

(* platform/pairing.rs: fn verify_code_value *)
definition verify_code_value :: "string \<Rightarrow> string \<Rightarrow> bool" where
  "verify_code_value stored_code code \<longleftrightarrow>
     (let stored = trim stored_code; provided = trim code
      in valid_code_format stored \<and> valid_code_format provided \<and> constant_time_eq provided stored)"

(* platform/pairing.rs: fn verify_code *)
definition verify_code :: "Error + string option \<Rightarrow> string \<Rightarrow> bool" where
  "verify_code r code \<longleftrightarrow> (case read_valid_code r of Some stored \<Rightarrow> verify_code_value stored code | None \<Rightarrow> False)"

(* platform/pairing.rs: fn clear_code *)
definition clear_code :: "store_fault \<Rightarrow> string option \<Rightarrow> string option \<times> (Error + unit)" where
  "clear_code f key = (case sf_write f of Some e \<Rightarrow> (key, Inl e) | None \<Rightarrow> (None, Inr ()))"

section \<open>The CSRF token\<close>

definition HEX_DIGITS :: string where
  "HEX_DIGITS = ''0123456789abcdef''"

(* platform/csrf.rs: fn hex_encode *)
definition hex_encode :: "u8 list \<Rightarrow> string" where
  "hex_encode bytes = concat (map (\<lambda>b. [HEX_DIGITS ! (unat b div 16), HEX_DIGITS ! (unat b mod 16)]) bytes)"

text \<open>The token is written once; \<open>entropy\<close> are the sixteen random bytes, or the failure to get them.\<close>

(* platform/csrf.rs: fn init *)
definition csrf_init :: "Error + u8 list \<Rightarrow> string option \<Rightarrow> string option \<times> (Error + unit)" where
  "csrf_init entropy token =
     (case token of
        Some _ \<Rightarrow> (token, Inr ())
      | None \<Rightarrow> (case entropy of Inl e \<Rightarrow> (None, Inl e) | Inr bytes \<Rightarrow> (Some (hex_encode bytes), Inr ())))"

(* platform/csrf.rs: fn verify_token *)
definition csrf_verify_token :: "string option \<Rightarrow> string \<Rightarrow> bool" where
  "csrf_verify_token token given \<longleftrightarrow> (case token of Some expected \<Rightarrow> constant_time_eq given expected | None \<Rightarrow> False)"

section \<open>Requests\<close>

(* platform/http_server/router/types.rs: struct IncomingRequest *)
record IncomingRequest =
  rq_method :: string
  rq_uri :: string
  rq_headers :: "(string \<times> string) list"
  rq_body :: string

datatype reply_content = ErrorKey string | ReplyBody string | ReplyStream

(* platform/http_server/common.rs: struct ApiResponse *)
record ApiResponse =
  ar_status :: u16
  ar_content :: reply_content

(* platform/http_server/router/types.rs: struct OutgoingResponse *)
record OutgoingResponse = ApiResponse +
  og_restart :: bool

definition err_key :: "u16 \<Rightarrow> string \<Rightarrow> ApiResponse" where
  "err_key status key = \<lparr>ar_status = status, ar_content = ErrorKey key\<rparr>"

(* platform/http_server/router/dispatch.rs: fn api_to_out *)
definition api_to_out :: "ApiResponse \<Rightarrow> OutgoingResponse" where
  "api_to_out r = \<lparr>ar_status = ar_status r, ar_content = ar_content r, og_restart = False\<rparr>"

text \<open>The pairs of a query: \<open>splitn(2, '=')\<close> gives the name and, behind the first equals sign, the value.\<close>

definition query_of :: "string \<Rightarrow> string" where
  "query_of uri = (case split_once (CHR ''?'') uri of Some (_, q) \<Rightarrow> q | None \<Rightarrow> [])"

definition query_pair :: "string \<Rightarrow> string \<times> string option" where
  "query_pair pair = (case split_once (CHR ''='') pair of Some (k, v) \<Rightarrow> (k, Some v) | None \<Rightarrow> (pair, None))"

(* platform/http_server/common.rs: fn query_param_from_uri *)
definition query_param_from_uri :: "string \<Rightarrow> string \<Rightarrow> string option" where
  "query_param_from_uri uri key =
     (case find (\<lambda>p. eq_ignore_ascii_case (fst p) key) (map query_pair (split_on (CHR ''&'') (query_of uri))) of
        Some (_, Some v) \<Rightarrow> if trim v \<noteq> [] then Some v else None
      | _ \<Rightarrow> None)"

(* platform/http_server/common.rs: fn code_from_uri *)
definition code_from_uri :: "string \<Rightarrow> string option" where
  "code_from_uri uri = query_param_from_uri uri ''code''"

(* platform/http_server/common.rs: fn restart_requested_from_uri *)
definition restart_requested_from_uri :: "string \<Rightarrow> bool" where
  "restart_requested_from_uri uri \<longleftrightarrow>
     (case query_param_from_uri uri ''restart'' of Some v \<Rightarrow> trim v = ''1'' | None \<Rightarrow> False)"

(* platform/http_server/router/auth.rs: fn header_ci *)
definition header_ci :: "(string \<times> string) list \<Rightarrow> string \<Rightarrow> string option" where
  "header_ci headers name = map_option snd (find (\<lambda>h. eq_ignore_ascii_case (fst h) name) headers)"

(* platform/http_server/router/dispatch.rs: fn path_only *)
definition path_only :: "string \<Rightarrow> string" where
  "path_only uri = hd (split_on (CHR ''?'') uri)"

section \<open>The checks\<close>

(* platform/http_server/router/auth.rs: fn require_activated *)
definition require_activated :: "Error + string option \<Rightarrow> ApiResponse option" where
  "require_activated stored = (if code_set stored then None else Some (err_key 401 ''auth.pairing_required''))"

text \<open>The code of a request: of its query, else of its header.\<close>

definition carried_code :: "string \<Rightarrow> (string \<times> string) list \<Rightarrow> string option" where
  "carried_code uri headers =
     (case code_from_uri uri of Some c \<Rightarrow> Some c | None \<Rightarrow> header_ci headers ''X-Pairing-Code'')"

(* platform/http_server/router/auth.rs: fn require_pairing_code *)
definition require_pairing_code :: "Error + string option \<Rightarrow> string \<Rightarrow> (string \<times> string) list \<Rightarrow> ApiResponse option" where
  "require_pairing_code stored uri headers =
     (case read_valid_code stored of
        None \<Rightarrow> Some (err_key 401 ''auth.pairing_required'')
      | Some stored_code \<Rightarrow>
          (case carried_code uri headers of
             Some candidate \<Rightarrow>
               (if candidate \<noteq> [] \<and> verify_code_value stored_code candidate then None
                else Some (err_key 401 ''auth.pairing_invalid''))
           | None \<Rightarrow> Some (err_key 401 ''auth.pairing_invalid'')))"

(* platform/http_server/router/auth.rs: fn require_csrf *)
definition require_csrf :: "string option \<Rightarrow> (string \<times> string) list \<Rightarrow> ApiResponse option" where
  "require_csrf token headers =
     (case (case header_ci headers ''X-CSRF-Token'' of Some v \<Rightarrow> Some v | None \<Rightarrow> header_ci headers ''x-csrf-token'') of
        Some v \<Rightarrow> if csrf_verify_token token v then None else Some (err_key 403 ''auth.csrf_invalid'')
      | None \<Rightarrow> Some (err_key 403 ''auth.csrf_required''))"

(* platform/http_server/router/dispatch.rs: fn guard_pairing_csrf *)
definition guard_pairing_csrf :: "Error + string option \<Rightarrow> string option \<Rightarrow> string \<Rightarrow> (string \<times> string) list \<Rightarrow> ApiResponse option" where
  "guard_pairing_csrf stored token uri headers =
     (case require_pairing_code stored uri headers of Some r \<Rightarrow> Some r | None \<Rightarrow> require_csrf token headers)"

(* platform/operator_surface.rs: fn is_embedded_surface *)
definition is_embedded_surface :: "MemorySystemKind \<Rightarrow> bool" where
  "is_embedded_surface kind \<longleftrightarrow> kind = EspCompact"

(* platform/operator_surface.rs: fn operator_surface_budget *)
definition window_required_for_deep_routes :: "MemorySystemKind \<Rightarrow> bool \<Rightarrow> bool" where
  "window_required_for_deep_routes kind window_active \<longleftrightarrow> is_embedded_surface kind \<and> \<not> window_active"

section \<open>The dispatcher\<close>

text \<open>The check in front of each handler.\<close>

datatype guard = NoGuard | Activated | Paired | PairedCsrf | ActivatedPairedCsrf

(* platform/http_server/router/dispatch.rs: lines 684-1251 the checks of the arms *)
fun handler_guard :: "RouteHandler \<Rightarrow> guard" where
  "handler_guard RootGet = NoGuard"
| "handler_guard PairingCodeGet = NoGuard"
| "handler_guard PairingCodePost = NoGuard"
| "handler_guard ConfigLlmPost = PairedCsrf"
| "handler_guard ConfigLlmGet = Paired"
| "handler_guard ConfigChannelsGet = Paired"
| "handler_guard ConfigChannelsPost = PairedCsrf"
| "handler_guard ConfigSystemGet = Paired"
| "handler_guard ConfigSystemPost = PairedCsrf"
| "handler_guard ConfigHardwareGet = Paired"
| "handler_guard ConfigHardwarePost = PairedCsrf"
| "handler_guard ConfigAudioGet = Paired"
| "handler_guard ConfigAudioPost = PairedCsrf"
| "handler_guard ConfigDisplayGet = Paired"
| "handler_guard ConfigDisplayPost = PairedCsrf"
| "handler_guard WifiScanGet = NoGuard"
| "handler_guard HardwareDiscoveryGet = Paired"
| "handler_guard HealthGet = Activated"
| "handler_guard OperatorStatusGet = Activated"
| "handler_guard MetricsGet = Activated"
| "handler_guard ResourceGet = Activated"
| "handler_guard ToolsGet = Activated"
| "handler_guard CsrfTokenGet = NoGuard"
| "handler_guard DiagnoseGet = Activated"
| "handler_guard SystemInfoGet = Activated"
| "handler_guard OperatorWindowPost = ActivatedPairedCsrf"
| "handler_guard ChannelConnectivityGet = Activated"
| "handler_guard SessionsGet = Paired"
| "handler_guard SessionsPost = PairedCsrf"
| "handler_guard SessionsDelete = PairedCsrf"
| "handler_guard MemoryStatusGet = Activated"
| "handler_guard MemoryMaintenancePost = PairedCsrf"
| "handler_guard CapabilityPackagesGet = Activated"
| "handler_guard CapabilityPackagesPost = PairedCsrf"
| "handler_guard SkillsGet = Activated"
| "handler_guard SkillsPost = PairedCsrf"
| "handler_guard SkillsDelete = PairedCsrf"
| "handler_guard SkillsImportPost = PairedCsrf"
| "handler_guard RestartPost = PairedCsrf"
| "handler_guard ConfigResetPost = PairedCsrf"
| "handler_guard WebhookPost = PairedCsrf"

definition guard_response :: "guard \<Rightarrow> Error + string option \<Rightarrow> string option \<Rightarrow> string \<Rightarrow> (string \<times> string) list \<Rightarrow> ApiResponse option" where
  "guard_response g stored token uri headers =
     (case g of
        NoGuard \<Rightarrow> None
      | Activated \<Rightarrow> require_activated stored
      | Paired \<Rightarrow> require_pairing_code stored uri headers
      | PairedCsrf \<Rightarrow> guard_pairing_csrf stored token uri headers
      | ActivatedPairedCsrf \<Rightarrow>
          (case require_activated stored of Some r \<Rightarrow> Some r | None \<Rightarrow> guard_pairing_csrf stored token uri headers))"

text \<open>Calls of the office part of the configuration, with the decoded keys of the path.\<close>

(* platform/http_server/router/dispatch.rs: enum AccountConfigRoute *)
datatype AccountConfigRoute = AccountCollection | AccountDetail string | AccountConfig string | AccountProbe string | AccountRevoke string

(* platform/http_server/router/dispatch.rs: fn parse_account_config_route *)
definition parse_account_config_route :: "string \<Rightarrow> AccountConfigRoute option" where
  "parse_account_config_route path =
     (if path = ROUTE_CONFIG_ACCOUNTS then Some AccountCollection
      else case strip_prefix ROUTE_CONFIG_ACCOUNTS_PREFIX path of
        None \<Rightarrow> None
      | Some rest \<Rightarrow>
          (case split_on (CHR ''/'') rest of
             [] \<Rightarrow> None
           | first # parts \<Rightarrow>
               (let account_key = trim first
                in if account_key = [] then None
                   else case parts of
                     [] \<Rightarrow> Some (AccountDetail account_key)
                   | [p] \<Rightarrow>
                       (if p = ''config'' then Some (AccountConfig account_key)
                        else if p = ''probe'' then Some (AccountProbe account_key)
                        else if p = ''revoke'' then Some (AccountRevoke account_key)
                        else None)
                   | _ \<Rightarrow> None)))"

(* platform/http_server/router/dispatch.rs: enum CapabilityConfigRoute *)
datatype CapabilityConfigRoute = CapabilityCollection | CapabilityDetail string

(* platform/http_server/router/dispatch.rs: fn parse_capability_config_route *)
definition parse_capability_config_route :: "string \<Rightarrow> CapabilityConfigRoute option" where
  "parse_capability_config_route path =
     (if path = ROUTE_CONFIG_CAPABILITIES then Some CapabilityCollection
      else case strip_prefix ROUTE_CONFIG_CAPABILITIES_PREFIX path of
        None \<Rightarrow> None
      | Some rest \<Rightarrow> if trim rest = [] then None else Some (CapabilityDetail (trim rest)))"

datatype office_call =
    ProvidersGet | AccountsGet | AccountsPost | AccountGet string | AccountDelete string | AccountConfigPost string
  | AccountProbePost string | AccountRevokePost string | CapabilitiesGet | CapabilityGet string

(* platform/http_server/router/dispatch.rs: fn dispatch_provider_config *)
definition provider_call :: "string \<Rightarrow> string \<Rightarrow> (office_call \<times> guard) option" where
  "provider_call method path =
     (if path = ROUTE_CONFIG_PROVIDERS \<and> method = ''GET'' then Some (ProvidersGet, Paired) else None)"

(* platform/http_server/router/dispatch.rs: fn dispatch_account_config *)
definition account_call :: "string \<Rightarrow> string \<Rightarrow> (office_call \<times> guard) option" where
  "account_call method path =
     (case parse_account_config_route path of
        None \<Rightarrow> None
      | Some AccountCollection \<Rightarrow>
          (if method = ''GET'' then Some (AccountsGet, Paired)
           else if method = ''POST'' then Some (AccountsPost, PairedCsrf) else None)
      | Some (AccountDetail k) \<Rightarrow>
          (if method = ''GET'' then Some (AccountGet (percent_decode_query k), Paired)
           else if method = ''DELETE'' then Some (AccountDelete (percent_decode_query k), PairedCsrf) else None)
      | Some (AccountConfig k) \<Rightarrow>
          (if method = ''POST'' then Some (AccountConfigPost (percent_decode_query k), PairedCsrf) else None)
      | Some (AccountProbe k) \<Rightarrow>
          (if method = ''POST'' then Some (AccountProbePost (percent_decode_query k), PairedCsrf) else None)
      | Some (AccountRevoke k) \<Rightarrow>
          (if method = ''POST'' then Some (AccountRevokePost (percent_decode_query k), PairedCsrf) else None))"

(* platform/http_server/router/dispatch.rs: fn dispatch_capability_config *)
definition capability_call :: "string \<Rightarrow> string \<Rightarrow> (office_call \<times> guard) option" where
  "capability_call method path =
     (case parse_capability_config_route path of
        None \<Rightarrow> None
      | Some CapabilityCollection \<Rightarrow> (if method = ''GET'' then Some (CapabilitiesGet, Paired) else None)
      | Some (CapabilityDetail c) \<Rightarrow> (if method = ''GET'' then Some (CapabilityGet c, Paired) else None))"

text \<open>
  What the dispatcher is given: the pairing code and the operator window as the world has them, the token, the kind of
  system, whether the bus is there, and the handlers. A handler says with its reply whether it asks for a restart.
\<close>

record 'w http_ctx =
  hc_target :: target
  hc_office :: bool
  hc_stored_code :: "'w \<Rightarrow> Error + string option"
  hc_token :: "string option"
  hc_kind :: MemorySystemKind
  hc_window_active :: "'w \<Rightarrow> bool"
  hc_has_env :: bool
  hc_handle :: "RouteHandler \<Rightarrow> IncomingRequest \<Rightarrow> string \<Rightarrow> 'w \<Rightarrow> 'w \<times> (Error + ApiResponse \<times> bool)"
  hc_office_handle :: "office_call \<Rightarrow> IncomingRequest \<Rightarrow> string \<Rightarrow> 'w \<Rightarrow> 'w \<times> (Error + ApiResponse)"

(* platform/http_server/router/dispatch.rs: fn read_route_body *)
definition read_route_body :: "string \<Rightarrow> RouteBodyMode \<Rightarrow> Error + string" where
  "read_route_body body mode =
     (case mode of
        BodyNone \<Rightarrow> Inr []
      | BodyUtf8 _ \<Rightarrow> if well_formed body then Inr body else Inl (ErrOther (Foreign ''invalid utf8'') ''http_body_utf8''))"

(* platform/http_server/router/dispatch.rs: fn is_office_config_route *)
definition is_office_config_route :: "string \<Rightarrow> bool" where
  "is_office_config_route path \<longleftrightarrow> path = ROUTE_CONFIG_ACCOUNTS \<or> prefix ROUTE_CONFIG_ACCOUNTS_PREFIX path
     \<or> path = ROUTE_CONFIG_CAPABILITIES \<or> prefix ROUTE_CONFIG_CAPABILITIES_PREFIX path
     \<or> path = ROUTE_CONFIG_PROVIDERS"

(* platform/http_server/router/dispatch.rs: fn rejected_route_response *)
definition rejected_route_response :: "string \<Rightarrow> OutgoingResponse" where
  "rejected_route_response path =
     (if is_office_config_route path then api_to_out (err_key 501 ''capability.unsupported'')
      else api_to_out (err_key 410 ''http.route_removed''))"

(* platform/http_server/router/dispatch.rs: fn apply_restart_action *)
definition apply_restart_action :: "string \<Rightarrow> bool \<Rightarrow> OutgoingResponse \<Rightarrow> OutgoingResponse" where
  "apply_restart_action uri enabled r =
     (if enabled \<and> ar_status r = 200 \<and> restart_requested_from_uri uri then r\<lparr>og_restart := True\<rparr> else r)"

text \<open>Which handlers get the body as text; the others get the empty text.\<close>

definition reads_body :: "RouteHandler \<Rightarrow> bool" where
  "reads_body h \<longleftrightarrow> h \<in> {PairingCodePost, ConfigLlmPost, ConfigChannelsPost, ConfigSystemPost, ConfigHardwarePost,
     ConfigAudioPost, ConfigDisplayPost, MemoryMaintenancePost, CapabilityPackagesPost, SkillsPost, SkillsImportPost,
     WebhookPost}"

(* platform/http_server/router/dispatch.rs: lines 684-1251 the arms behind their checks *)
definition run_handler :: "'w http_ctx \<Rightarrow> RouteBodyMode \<Rightarrow> RouteHandler \<Rightarrow> IncomingRequest \<Rightarrow> 'w
    \<Rightarrow> 'w \<times> (Error + OutgoingResponse)" where
  "run_handler c mode h rq w =
     (if h = SessionsPost \<and> \<not> hc_has_env c then (w, Inr (api_to_out (err_key 500 ''common.operation_failed'')))
      else if h = WebhookPost \<and> \<not> hc_has_env c then (w, Inr (api_to_out (err_key 404 ''webhook.ingress_unavailable'')))
      else case (if reads_body h then read_route_body (rq_body rq) mode else Inr []) of
        Inl e \<Rightarrow> (w, Inl e)
      | Inr body \<Rightarrow>
          (case hc_handle c h rq body w of
             (w', Inl e) \<Rightarrow> (w', Inl e)
           | (w', Inr (r, do_restart)) \<Rightarrow>
               (w', Inr (let out = api_to_out r
                         in if h = ConfigAudioPost \<or> h = ConfigDisplayPost
                            then apply_restart_action (rq_uri rq) True out
                            else if h = RestartPost \<and> do_restart then out\<lparr>og_restart := True\<rparr>
                            else out))))"

definition guarded :: "'w http_ctx \<Rightarrow> guard \<Rightarrow> IncomingRequest \<Rightarrow> ('w \<Rightarrow> 'w \<times> (Error + OutgoingResponse)) \<Rightarrow> 'w
    \<Rightarrow> 'w \<times> (Error + OutgoingResponse)" where
  "guarded c g rq k w =
     (case guard_response g (hc_stored_code c w) (hc_token c) (rq_uri rq) (rq_headers rq) of
        Some r \<Rightarrow> (w, Inr (api_to_out r))
      | None \<Rightarrow> k w)"

text \<open>The posts with a body among the office calls.\<close>

fun office_reads_body :: "office_call \<Rightarrow> bool" where
  "office_reads_body AccountsPost = True"
| "office_reads_body (AccountConfigPost k) = True"
| "office_reads_body (AccountRevokePost k) = True"
| "office_reads_body _ = False"

definition run_office :: "'w http_ctx \<Rightarrow> office_call \<Rightarrow> IncomingRequest \<Rightarrow> 'w \<Rightarrow> 'w \<times> (Error + OutgoingResponse)" where
  "run_office c call rq w =
     (case (if office_reads_body call then read_route_body (rq_body rq) (BodyUtf8 POST_BODY_MAX_LEN) else Inr []) of
        Inl e \<Rightarrow> (w, Inl e)
      | Inr body \<Rightarrow>
          (case hc_office_handle c call rq body w of
             (w', Inl e) \<Rightarrow> (w', Inl e)
           | (w', Inr r) \<Rightarrow> (w', Inr (api_to_out r))))"

definition office_dispatch :: "string \<Rightarrow> string \<Rightarrow> (office_call \<times> guard) option" where
  "office_dispatch method path =
     (case provider_call method path of
        Some x \<Rightarrow> Some x
      | None \<Rightarrow> (case account_call method path of Some x \<Rightarrow> Some x | None \<Rightarrow> capability_call method path))"

(* platform/http_server/router/dispatch.rs: fn dispatch_impl *)
definition dispatch_impl :: "'w http_ctx \<Rightarrow> IncomingRequest \<Rightarrow> 'w \<Rightarrow> 'w \<times> (Error + OutgoingResponse)" where
  "dispatch_impl c rq w =
     (let path = path_only (rq_uri rq);
          method = rq_method rq
      in if eq_ignore_ascii_case method ''OPTIONS''
         then (w, Inr \<lparr>ar_status = 200, ar_content = ReplyBody '' '', og_restart = False\<rparr>)
         else
           let spec = route_spec_for (hc_target c) (hc_office c) method path;
               body_mode = (case spec of Some s \<Rightarrow> rs_body_mode s | None \<Rightarrow> BodyNone);
               access = (case spec of Some s \<Rightarrow> rs_operator_access s | None \<Rightarrow> HiddenRoute)
           in if (case spec of Some s \<Rightarrow> rs_execution_class s = RejectedRoute | None \<Rightarrow> False)
              then (w, Inr (rejected_route_response path))
              else if access = Windowed \<and> window_required_for_deep_routes (hc_kind c) (hc_window_active c w)
              then (w, Inr (api_to_out (err_key 403 ''system.operator_window_required'')))
              else case (if hc_office c \<and> hc_target c = Host then office_dispatch method path else None) of
                Some (call, g) \<Rightarrow> guarded c g rq (run_office c call rq) w
              | None \<Rightarrow>
                  (case Option.bind spec rs_handler of
                     Some h \<Rightarrow> guarded c (handler_guard h) rq (run_handler c body_mode h rq) w
                   | None \<Rightarrow> (w, Inr (api_to_out (err_key 404 ''common.not_found'')))))"

section \<open>The check before a worker is started\<close>

text \<open>On a board the check of a slow route runs before a worker is asked for.\<close>

(* platform/http_server/router/auth.rs: fn route_auth_response *)
definition route_auth_response :: "'w http_ctx \<Rightarrow> RouteMethod \<Rightarrow> string \<Rightarrow> string \<Rightarrow> (string \<times> string) list \<Rightarrow> 'w
    \<Rightarrow> ApiResponse option" where
  "route_auth_response c method path uri headers w =
     (let stored = hc_stored_code c w
      in if (method, path) \<in> {(MethodPost, ROUTE_CONFIG_LLM), (MethodPost, ROUTE_CONFIG_CHANNELS),
              (MethodPost, ROUTE_CONFIG_SYSTEM), (MethodPost, ROUTE_CONFIG_HARDWARE), (MethodPost, ROUTE_CONFIG_AUDIO),
              (MethodPost, ROUTE_CONFIG_DISPLAY), (MethodPost, ROUTE_SESSIONS), (MethodDelete, ROUTE_SESSIONS),
              (MethodPost, ROUTE_MEMORY_MAINTENANCE), (MethodPost, ROUTE_CAPABILITY_PACKAGES),
              (MethodPost, ROUTE_SKILLS), (MethodDelete, ROUTE_SKILLS), (MethodPost, ROUTE_SKILLS_IMPORT),
              (MethodPost, ROUTE_RESTART), (MethodPost, ROUTE_CONFIG_RESET)}
         then guard_pairing_csrf stored (hc_token c) uri headers
         else if (method, path) \<in> {(MethodGet, ROUTE_HARDWARE_DISCOVERY), (MethodGet, ROUTE_SESSIONS)}
         then require_pairing_code stored uri headers
         else if (method, path) \<in> {(MethodGet, ROUTE_OPERATOR_STATUS), (MethodGet, ROUTE_METRICS),
              (MethodGet, ROUTE_RESOURCE), (MethodGet, ROUTE_TOOLS), (MethodGet, ROUTE_DIAGNOSE),
              (MethodGet, ROUTE_SYSTEM_INFO), (MethodGet, ROUTE_CHANNEL_CONNECTIVITY), (MethodGet, ROUTE_MEMORY_STATUS),
              (MethodGet, ROUTE_CAPABILITY_PACKAGES), (MethodGet, ROUTE_SKILLS)}
         then require_activated stored
         else if (method, path) = (MethodPost, ROUTE_OPERATOR_WINDOW)
         then (case require_activated stored of
                 Some r \<Rightarrow> Some r | None \<Rightarrow> guard_pairing_csrf stored (hc_token c) uri headers)
         else None)"

(* platform/http_server/router/auth.rs: fn worker_route_pre_admission_response *)
definition worker_route_pre_admission_response :: "'w http_ctx \<Rightarrow> HttpRouteSpec \<Rightarrow> string \<Rightarrow> (string \<times> string) list \<Rightarrow> 'w
    \<Rightarrow> ApiResponse option" where
  "worker_route_pre_admission_response c spec uri headers w =
     (if rs_operator_access spec = Windowed \<and> window_required_for_deep_routes (hc_kind c) (hc_window_active c w)
      then Some (err_key 403 ''system.operator_window_required'')
      else route_auth_response c (rs_method spec) (rs_path spec) uri headers w)"

end
