(* ===== verification/Http_Laws.thy ===== *)
theory Http_Laws
  imports Http_Access
begin

text \<open>
  Properties of the access control: what a caller without the pairing code gets, what a change needs, that the check
  in front of a worker is the check of the dispatcher, that every route of the catalogue is reached, and when a pairing
  code can be replaced.
\<close>

section \<open>The catalogue\<close>

abbreviation all_specs :: "target \<Rightarrow> bool \<Rightarrow> HttpRouteSpec list" where
  "all_specs t office \<equiv> concat (route_spec_groups t office)"

abbreviation spec_key :: "HttpRouteSpec \<Rightarrow> RouteMethod \<times> string" where
  "spec_key s \<equiv> (rs_method s, rs_path s)"

lemma first_in_groups_find: "first_in_groups p gs = find p (concat gs)"
proof (induction gs)
  case (Cons g gs)
  have "find p (xs @ ys) = (case find p xs of Some x \<Rightarrow> Some x | None \<Rightarrow> find p ys)" for xs ys
    by (induction xs) auto
  then show ?case by (simp add: Cons split: option.split)
qed simp

lemma find_distinct_key:
  "distinct (map f xs) \<Longrightarrow> x \<in> set xs \<Longrightarrow> (\<And>y. p y \<longleftrightarrow> f y = f x) \<Longrightarrow> find p xs = Some x"
  by (induction xs) (auto simp: image_iff)

lemma method_parse_str [simp]: "method_parse (method_as_str m) = Some m"
  by (cases m) (simp_all add: method_parse_def)

lemma method_parse_SomeD: "method_parse s = Some m \<Longrightarrow> s = method_as_str m"
  by (auto simp: method_parse_def split: if_splits)

lemmas catalogue_defs = route_spec_groups_def table_defs spec_defs

lemma keys_distinct: "distinct (map spec_key (all_specs t office))"
  by (cases t; cases office) (simp_all add: catalogue_defs route_defs)

lemma handlers_of_specs:
  "list_all (\<lambda>s. rs_handler s = None \<longleftrightarrow> rs_method s = MethodOptions \<or> rs_execution_class s = RejectedRoute)
     (all_specs t office)"
  by (cases t; cases office) (simp_all add: catalogue_defs)

lemma route_spec_for_iff: "route_spec_for t office m p = Some s
    \<longleftrightarrow> s \<in> set (all_specs t office) \<and> m = method_as_str (rs_method s) \<and> p = rs_path s"
proof
  assume "route_spec_for t office m p = Some s"
  then obtain mm where mm: "method_parse m = Some mm"
    and f: "find (\<lambda>spec. rs_method spec = mm \<and> rs_path spec = p) (all_specs t office) = Some s"
    by (auto simp: route_spec_for_def route_spec_for_method_def first_in_groups_find split: option.splits)
  from f have "s \<in> set (all_specs t office) \<and> rs_method s = mm \<and> rs_path s = p"
    by (auto simp: find_Some_iff simp del: set_concat)
  then show "s \<in> set (all_specs t office) \<and> m = method_as_str (rs_method s) \<and> p = rs_path s"
    using method_parse_SomeD[OF mm] by simp
next
  assume a: "s \<in> set (all_specs t office) \<and> m = method_as_str (rs_method s) \<and> p = rs_path s"
  have "find (\<lambda>spec. rs_method spec = rs_method s \<and> rs_path spec = rs_path s) (all_specs t office) = Some s"
    by (rule find_distinct_key[OF keys_distinct]) (use a in auto)
  then show "route_spec_for t office m p = Some s"
    using a by (simp add: route_spec_for_def route_spec_for_method_def first_in_groups_find del: set_concat)
qed


text \<open>A handler has one method and one path.\<close>

lemma handlers_distinct: "distinct (map rs_handler (filter (\<lambda>s. rs_handler s \<noteq> None) (all_specs t office)))"
  by (cases t; cases office) (simp_all add: catalogue_defs)

lemma distinct_map_inj: "distinct (map f xs) \<Longrightarrow> x \<in> set xs \<Longrightarrow> y \<in> set xs \<Longrightarrow> f x = f y \<Longrightarrow> x = y"
  by (auto simp: distinct_map inj_on_def)

lemma handler_owner:
  assumes "s \<in> set (all_specs t office)" "s' \<in> set (all_specs t office)" "rs_handler s' = rs_handler s" "rs_handler s \<noteq> None"
  shows "s' = s"
  by (rule distinct_map_inj[OF handlers_distinct[of t office]]) (use assms in auto)

text \<open>Every entry satisfies what all entries satisfy.\<close>

lemma spec_property:
  assumes "list_all P (all_specs t office)" "route_spec_for t office m p = Some s"
  shows "P s"
  using assms by (auto simp: route_spec_for_iff list_all_iff)

text \<open>
  The catalogue of routes is unambiguous and complete. Each entry, of the tables of a board or of a host, with the
  office capability or without it, is what a look-up with its method and its path finds (no entry hides behind another
  one), and it has a handler unless it is an answer to a preflight request or a refused route; no two routes share a
  handler.
\<close>
theorem routes_unambiguous:
  assumes "spec \<in> set (concat (route_spec_groups t office))"
  shows "route_spec_for t office (method_as_str (rs_method spec)) (rs_path spec) = Some spec
    \<and> (rs_handler spec = None \<longleftrightarrow> rs_method spec = MethodOptions \<or> rs_execution_class spec = RejectedRoute)
    \<and> (\<forall>other \<in> set (concat (route_spec_groups t office)).
          rs_handler other = rs_handler spec \<and> rs_handler spec \<noteq> None \<longrightarrow> other = spec)"
proof -
  have "route_spec_for t office (method_as_str (rs_method spec)) (rs_path spec) = Some spec"
    using assms by (simp only: route_spec_for_iff)
  moreover have "rs_handler spec = None \<longleftrightarrow> rs_method spec = MethodOptions \<or> rs_execution_class spec = RejectedRoute"
    using assms handlers_of_specs[of t office] by (simp only: list_all_iff)
  moreover have "other = spec" if "other \<in> set (all_specs t office)" "rs_handler other = rs_handler spec"
    "rs_handler spec \<noteq> None" for other
    using handler_owner[OF assms that] .
  ultimately show ?thesis by blast
qed

theorem routes_unambiguous_witness:
  "route_spec_for Esp False ''POST'' ''/api/config/llm'' \<noteq> None
   \<and> map_option rs_handler (route_spec_for Esp False ''POST'' ''/api/config/llm'') = Some (Some ConfigLlmPost)"
proof -
  let ?s = "PAIRING_AND_CONFIG_ROUTE_SPECS Esp False ! 5"
  have "?s \<in> set (concat (route_spec_groups Esp False))" by (simp add: catalogue_defs)
  from routes_unambiguous[OF this] show ?thesis by (simp add: catalogue_defs route_defs)
qed


section \<open>The checks\<close>

lemma read_valid_code_Some: "read_valid_code r = Some code
    \<longleftrightarrow> (\<exists>stored. r = Inr (Some stored) \<and> code = trim stored \<and> valid_code_format (trim stored))"
  by (auto simp: read_valid_code_def split: sum.splits option.splits if_splits)

lemma header_ci_lower: "header_ci headers ''X-CSRF-Token'' = header_ci headers ''x-csrf-token''"
proof -
  have "map ascii_lower ''X-CSRF-Token'' = map ascii_lower ''x-csrf-token''" by code_simp
  then show ?thesis by (simp only: header_ci_def eq_ignore_ascii_case_def)
qed

text \<open>The request carries the code that is stored; and it names the token of the process.\<close>

definition carries_code :: "Error + string option \<Rightarrow> string \<Rightarrow> (string \<times> string) list \<Rightarrow> bool" where
  "carries_code r uri headers \<longleftrightarrow>
     (\<exists>stored carried. r = Inr (Some stored) \<and> valid_code_format (trim stored)
        \<and> carried_code uri headers = Some carried \<and> trim carried = trim stored)"

definition carries_token :: "string option \<Rightarrow> (string \<times> string) list \<Rightarrow> bool" where
  "carries_token token headers \<longleftrightarrow> (\<exists>v. token = Some v \<and> header_ci headers ''X-CSRF-Token'' = Some v)"

lemma valid_code_nonempty: "\<not> valid_code_format []"
  by (simp add: valid_code_format_def CODE_LEN_def)

lemma activated_iff: "require_activated r = None \<longleftrightarrow> code_set r"
  by (simp add: require_activated_def)

lemma pairing_iff: "require_pairing_code r uri headers = None \<longleftrightarrow> carries_code r uri headers"
proof (cases "read_valid_code r")
  case None
  then have "\<not> carries_code r uri headers" by (auto simp: carries_code_def read_valid_code_def)
  then show ?thesis using None by (simp add: require_pairing_code_def)
next
  case (Some code)
  then obtain stored where "r = Inr (Some stored)" "code = trim stored" "valid_code_format (trim stored)"
    by (auto simp: read_valid_code_Some)
  then show ?thesis using Some
    by (auto simp: require_pairing_code_def carries_code_def verify_code_value_def constant_time_eq_correct
          valid_code_nonempty Let_def split: option.splits if_splits)
qed

lemma csrf_iff: "require_csrf token headers = None \<longleftrightarrow> carries_token token headers"
  by (auto simp: require_csrf_def header_ci_lower carries_token_def csrf_verify_token_def constant_time_eq_correct
        split: option.splits)

lemma carries_code_set: "carries_code r uri headers \<Longrightarrow> code_set r"
  by (auto simp: carries_code_def code_set_def read_valid_code_def)

lemma activated_by_code: "carries_code r uri headers \<Longrightarrow> require_activated r = None"
  by (simp add: activated_iff carries_code_set)

text \<open>What a check of a handler asks for.\<close>

fun guard_met :: "guard \<Rightarrow> Error + string option \<Rightarrow> string option \<Rightarrow> string \<Rightarrow> (string \<times> string) list \<Rightarrow> bool" where
  "guard_met NoGuard r token uri headers \<longleftrightarrow> True"
| "guard_met Activated r token uri headers \<longleftrightarrow> code_set r"
| "guard_met Paired r token uri headers \<longleftrightarrow> carries_code r uri headers"
| "guard_met PairedCsrf r token uri headers \<longleftrightarrow> carries_code r uri headers \<and> carries_token token headers"
| "guard_met ActivatedPairedCsrf r token uri headers \<longleftrightarrow> carries_code r uri headers \<and> carries_token token headers"

lemma pairing_csrf_iff:
  "guard_pairing_csrf r token uri headers = None \<longleftrightarrow> carries_code r uri headers \<and> carries_token token headers"
  by (auto simp: guard_pairing_csrf_def pairing_iff[symmetric] csrf_iff[symmetric] split: option.splits)

lemma guard_iff: "guard_response g r token uri headers = None \<longleftrightarrow> guard_met g r token uri headers"
  by (cases g) (auto simp: guard_response_def activated_iff pairing_iff pairing_csrf_iff activated_by_code carries_code_set split: option.splits)

text \<open>A refusal answers with one of two statuses and names a key; nothing of the world is in it.\<close>

definition is_refusal :: "ApiResponse \<Rightarrow> bool" where
  "is_refusal resp \<longleftrightarrow>
     ar_status resp = 401 \<and> ar_content resp \<in> {ErrorKey ''auth.pairing_required'', ErrorKey ''auth.pairing_invalid''}
   \<or> ar_status resp = 403 \<and> ar_content resp \<in> {ErrorKey ''auth.csrf_required'', ErrorKey ''auth.csrf_invalid''}"

lemma guard_refusal: "guard_response g r token uri headers = Some resp \<Longrightarrow> is_refusal resp"
  by (cases g) (auto simp: guard_response_def require_activated_def require_pairing_code_def guard_pairing_csrf_def
     require_csrf_def is_refusal_def err_key_def split: option.splits if_splits)

lemma guarded_cases:
  "guarded c g rq k w =
     (if guard_met g (hc_stored_code c w) (hc_token c) (rq_uri rq) (rq_headers rq) then k w
      else (w, Inr (api_to_out (the (guard_response g (hc_stored_code c w) (hc_token c) (rq_uri rq) (rq_headers rq))))))"
  by (auto simp: guarded_def guard_iff[symmetric] split: option.splits)

section \<open>Where a request goes\<close>

abbreviation window_closed :: "'w http_ctx \<Rightarrow> HttpRouteSpec \<Rightarrow> 'w \<Rightarrow> bool" where
  "window_closed c s w \<equiv> rs_operator_access s = Windowed \<and> window_required_for_deep_routes (hc_kind c) (hc_window_active c w)"

lemma office_free:
  "list_all (\<lambda>s. office_dispatch (method_as_str (rs_method s)) (rs_path s) = None) (all_specs Host True)"
  by (simp add: catalogue_defs route_defs office_dispatch_def provider_call_def account_call_def capability_call_def
      parse_account_config_route_def parse_capability_config_route_def strip_prefix_def)

lemma options_method: "eq_ignore_ascii_case (method_as_str m) ''OPTIONS'' \<longleftrightarrow> m = MethodOptions"
  by (cases m) (simp_all add: eq_ignore_ascii_case_def ascii_lower_def)

text \<open>A route of the catalogue with a handler goes to this handler, behind the window and the check.\<close>

lemma dispatch_of_spec:
  assumes "route_spec_for (hc_target c) (hc_office c) (rq_method rq) (path_only (rq_uri rq)) = Some s"
    and "rs_handler s = Some h"
  shows "dispatch_impl c rq w =
    (if window_closed c s w then (w, Inr (api_to_out (err_key 403 ''system.operator_window_required'')))
     else guarded c (handler_guard h) rq (run_handler c (rs_body_mode s) h rq) w)"
proof -
  have s: "s \<in> set (all_specs (hc_target c) (hc_office c))" "rq_method rq = method_as_str (rs_method s)"
    "path_only (rq_uri rq) = rs_path s"
    using assms(1) by (simp_all only: route_spec_for_iff)
  have "rs_handler s = None \<longleftrightarrow> rs_method s = MethodOptions \<or> rs_execution_class s = RejectedRoute"
    using spec_property[OF handlers_of_specs assms(1)] .
  then have "\<not> eq_ignore_ascii_case (rq_method rq) ''OPTIONS''" "rs_execution_class s \<noteq> RejectedRoute"
    using assms(2) s(2) by (auto simp: options_method)
  moreover have "hc_office c \<and> hc_target c = Host \<Longrightarrow> office_dispatch (rq_method rq) (path_only (rq_uri rq)) = None"
    using office_free s by (auto simp: list_all_iff)
  ultimately show ?thesis
    using assms by (auto simp: dispatch_impl_def Let_def)
qed


section \<open>The documented levels\<close>

text \<open>
  What the documentation of the interface (\<open>docs/en-us/config-api.md\<close>, \<open>Auth\<close> of each route) says who may call it.
\<close>

datatype level = LevelPublic | LevelActivated | LevelPairingCode | LevelPairingCodeCsrf

definition documented_levels :: "(RouteMethod \<times> string \<times> level) list" where
  "documented_levels =
     [(MethodGet, ''/api/pairing_code'', LevelPublic), (MethodPost, ''/api/pairing_code'', LevelPublic),
      (MethodGet, ''/api/config/llm'', LevelPairingCode), (MethodPost, ''/api/config/llm'', LevelPairingCodeCsrf),
      (MethodGet, ''/api/config/channels'', LevelPairingCode),
      (MethodPost, ''/api/config/channels'', LevelPairingCodeCsrf),
      (MethodGet, ''/api/config/system'', LevelPairingCode),
      (MethodPost, ''/api/config/system'', LevelPairingCodeCsrf),
      (MethodGet, ''/api/config/hardware'', LevelPairingCode),
      (MethodPost, ''/api/config/hardware'', LevelPairingCodeCsrf),
      (MethodGet, ''/api/config/audio'', LevelPairingCode), (MethodPost, ''/api/config/audio'', LevelPairingCodeCsrf),
      (MethodGet, ''/api/config/display'', LevelPairingCode),
      (MethodPost, ''/api/config/display'', LevelPairingCodeCsrf), (MethodGet, ''/api/wifi/scan'', LevelPublic),
      (MethodGet, ''/api/hardware/discovery'', LevelPairingCode), (MethodGet, ''/api/csrf_token'', LevelPublic),
      (MethodGet, ''/api/health'', LevelActivated), (MethodGet, ''/api/operator/status'', LevelActivated),
      (MethodPost, ''/api/operator/window'', LevelPairingCodeCsrf), (MethodGet, ''/api/metrics'', LevelActivated),
      (MethodGet, ''/api/resource'', LevelActivated), (MethodGet, ''/api/diagnose'', LevelActivated),
      (MethodGet, ''/api/system_info'', LevelActivated), (MethodGet, ''/api/channel_connectivity'', LevelActivated),
      (MethodGet, ''/api/tools'', LevelActivated), (MethodGet, ''/api/sessions'', LevelPairingCode),
      (MethodPost, ''/api/sessions'', LevelPairingCodeCsrf), (MethodDelete, ''/api/sessions'', LevelPairingCodeCsrf),
      (MethodGet, ''/api/memory/status'', LevelActivated),
      (MethodPost, ''/api/memory/maintenance'', LevelPairingCodeCsrf),
      (MethodGet, ''/api/capability_packages'', LevelActivated),
      (MethodPost, ''/api/capability_packages'', LevelPairingCodeCsrf), (MethodGet, ''/api/skills'', LevelActivated),
      (MethodPost, ''/api/skills'', LevelPairingCodeCsrf), (MethodDelete, ''/api/skills'', LevelPairingCodeCsrf),
      (MethodPost, ''/api/skills/import'', LevelPairingCodeCsrf),
      (MethodPost, ''/api/restart'', LevelPairingCodeCsrf), (MethodPost, ''/api/config_reset'', LevelPairingCodeCsrf),
      (MethodPost, ''/api/webhook'', LevelPairingCodeCsrf)]"

text \<open>
  The routes of accounts and of the office capability, which a build has or has not; a key stands in the path of some. Each with
  the call it is to make.
\<close>

definition documented_office_levels :: "(RouteMethod \<times> (string \<Rightarrow> string) \<times> level \<times> (string \<Rightarrow> office_call)) list" where
  "documented_office_levels =
     [(MethodGet, \<lambda>_. ''/api/config/providers'', LevelPairingCode, \<lambda>_. ProvidersGet),
      (MethodGet, \<lambda>_. ''/api/config/capabilities'', LevelPairingCode, \<lambda>_. CapabilitiesGet),
      (MethodGet, \<lambda>k. ''/api/config/capabilities/'' @ k, LevelPairingCode, \<lambda>k. CapabilityGet (trim k)),
      (MethodGet, \<lambda>_. ''/api/config/accounts'', LevelPairingCode, \<lambda>_. AccountsGet),
      (MethodPost, \<lambda>_. ''/api/config/accounts'', LevelPairingCodeCsrf, \<lambda>_. AccountsPost),
      (MethodGet, \<lambda>k. ''/api/config/accounts/'' @ k, LevelPairingCode, \<lambda>k. AccountGet (percent_decode_query (trim k))),
      (MethodPost, \<lambda>k. ''/api/config/accounts/'' @ k @ ''/config'', LevelPairingCodeCsrf,
         \<lambda>k. AccountConfigPost (percent_decode_query (trim k))),
      (MethodPost, \<lambda>k. ''/api/config/accounts/'' @ k @ ''/probe'', LevelPairingCodeCsrf,
         \<lambda>k. AccountProbePost (percent_decode_query (trim k))),
      (MethodPost, \<lambda>k. ''/api/config/accounts/'' @ k @ ''/revoke'', LevelPairingCodeCsrf,
         \<lambda>k. AccountRevokePost (percent_decode_query (trim k))),
      (MethodDelete, \<lambda>k. ''/api/config/accounts/'' @ k, LevelPairingCodeCsrf, \<lambda>k. AccountDelete (percent_decode_query (trim k)))]"

text \<open>What stands for a key in a path.\<close>

definition path_key :: "string \<Rightarrow> bool" where
  "path_key k \<longleftrightarrow> trim k \<noteq> [] \<and> CHR ''/'' \<notin> set k"

fun level_met :: "level \<Rightarrow> Error + string option \<Rightarrow> string option \<Rightarrow> string \<Rightarrow> (string \<times> string) list \<Rightarrow> bool" where
  "level_met LevelPublic r token uri headers \<longleftrightarrow> True"
| "level_met LevelActivated r token uri headers \<longleftrightarrow> code_set r"
| "level_met LevelPairingCode r token uri headers \<longleftrightarrow> carries_code r uri headers"
| "level_met LevelPairingCodeCsrf r token uri headers \<longleftrightarrow> carries_code r uri headers \<and> carries_token token headers"

fun guard_level :: "guard \<Rightarrow> level" where
  "guard_level NoGuard = LevelPublic"
| "guard_level Activated = LevelActivated"
| "guard_level Paired = LevelPairingCode"
| "guard_level PairedCsrf = LevelPairingCodeCsrf"
| "guard_level ActivatedPairedCsrf = LevelPairingCodeCsrf"

lemma level_guard: "level_met (guard_level g) r token uri headers \<longleftrightarrow> guard_met g r token uri headers"
  by (cases g) simp_all

text \<open>The routes with a handler and the levels of their checks; the start page is the only one that is not documented.\<close>

definition route_levels :: "target \<Rightarrow> bool \<Rightarrow> (RouteMethod \<times> string \<times> level) list" where
  "route_levels t office =
     map (\<lambda>s. (rs_method s, rs_path s, guard_level (handler_guard (the (rs_handler s)))))
       (filter (\<lambda>s. rs_handler s \<noteq> None) (concat (route_spec_groups t office)))"

lemma levels_documented: "route_levels t office = (MethodGet, ''/'', LevelPublic) # documented_levels"
  by (cases t; cases office) (simp_all add: route_levels_def documented_levels_def catalogue_defs route_defs)

lemma levels_covered:
  assumes "(m, p, l) \<in> set documented_levels"
  shows "\<exists>s h. route_spec_for t office (method_as_str m) p = Some s \<and> rs_handler s = Some h
      \<and> guard_level (handler_guard h) = l"
proof -
  have "(m, p, l) \<in> set (route_levels t office)" using assms by (simp add: levels_documented)
  then obtain s where "s \<in> set (all_specs t office)" "rs_handler s \<noteq> None" "m = rs_method s" "p = rs_path s"
    "l = guard_level (handler_guard (the (rs_handler s)))"
    by (auto simp: route_levels_def)
  then show ?thesis
    by (intro exI[where x = s] exI[where x = "the (rs_handler s)"]) (simp del: set_concat add: route_spec_for_iff)
qed

lemma split_key: "path_key k \<Longrightarrow> split_on (CHR ''/'') k = [k]"
  "path_key k \<Longrightarrow> split_on (CHR ''/'') (k @ CHR ''/'' # rest) = k # split_on (CHR ''/'') rest"
  by (simp_all add: path_key_def split_on_plain split_on_append)

lemma key_routes:
  assumes "path_key k"
  shows "parse_account_config_route (''/api/config/accounts/'' @ k) = Some (AccountDetail (trim k))"
    and "parse_account_config_route (''/api/config/accounts/'' @ k @ ''/config'') = Some (AccountConfig (trim k))"
    and "parse_account_config_route (''/api/config/accounts/'' @ k @ ''/probe'') = Some (AccountProbe (trim k))"
    and "parse_account_config_route (''/api/config/accounts/'' @ k @ ''/revoke'') = Some (AccountRevoke (trim k))"
    and "parse_account_config_route (''/api/config/capabilities/'' @ k) = None"
    and "parse_capability_config_route (''/api/config/capabilities/'' @ k) = Some (CapabilityDetail (trim k))"
proof -
  have k: "trim k \<noteq> []" using assms by (simp add: path_key_def)
  show "parse_account_config_route (''/api/config/accounts/'' @ k) = Some (AccountDetail (trim k))"
    using k by (simp add: parse_account_config_route_def strip_prefix_def route_defs split_key[OF assms])
  show "parse_account_config_route (''/api/config/accounts/'' @ k @ ''/config'') = Some (AccountConfig (trim k))"
    using k by (simp add: parse_account_config_route_def strip_prefix_def route_defs split_key[OF assms])
  show "parse_account_config_route (''/api/config/accounts/'' @ k @ ''/probe'') = Some (AccountProbe (trim k))"
    using k by (simp add: parse_account_config_route_def strip_prefix_def route_defs split_key[OF assms])
  show "parse_account_config_route (''/api/config/accounts/'' @ k @ ''/revoke'') = Some (AccountRevoke (trim k))"
    using k by (simp add: parse_account_config_route_def strip_prefix_def route_defs split_key[OF assms])
  show "parse_account_config_route (''/api/config/capabilities/'' @ k) = None"
    by (simp add: parse_account_config_route_def strip_prefix_def route_defs)
  show "parse_capability_config_route (''/api/config/capabilities/'' @ k) = Some (CapabilityDetail (trim k))"
    using k by (simp add: parse_capability_config_route_def strip_prefix_def route_defs)
qed

lemma plain_routes:
  "parse_account_config_route ''/api/config/accounts'' = Some AccountCollection"
  "parse_account_config_route ''/api/config/capabilities'' = None"
  "parse_capability_config_route ''/api/config/capabilities'' = Some CapabilityCollection"
  by (simp_all add: parse_account_config_route_def parse_capability_config_route_def strip_prefix_def route_defs)

lemma no_provider_call:
  "provider_call m (''/api/config/accounts/'' @ k) = None" "provider_call m (''/api/config/capabilities/'' @ k) = None"
  "provider_call m ''/api/config/accounts'' = None" "provider_call m ''/api/config/capabilities'' = None"
  "provider_call ''GET'' ''/api/config/providers'' = Some (ProvidersGet, Paired)"
  by (simp_all add: provider_call_def route_defs)

lemma office_paths:
  "is_office_config_route (''/api/config/accounts/'' @ k)" "is_office_config_route (''/api/config/capabilities/'' @ k)"
  "is_office_config_route ''/api/config/accounts''" "is_office_config_route ''/api/config/capabilities''"
  "is_office_config_route ''/api/config/providers''"
  by (simp_all add: is_office_config_route_def route_defs)

lemma office_documented:
  assumes "(m, path, l, call) \<in> set documented_office_levels" "path_key k"
  shows "\<exists>g. office_dispatch (method_as_str m) (path k) = Some (call k, g) \<and> guard_level g = l \<and> is_office_config_route (path k)"
  using assms(1) unfolding documented_office_levels_def list.set insert_iff empty_iff prod.inject
  by (elim disjE conjE FalseE;
      simp only: office_dispatch_def account_call_def capability_call_def key_routes[OF assms(2)] plain_routes no_provider_call
        office_paths option.case AccountConfigRoute.case CapabilityConfigRoute.case method_as_str.simps simp_thms if_True if_False
        list.inject char.inject option.inject prod.inject;
      simp)

lemma office_specs_free:
  "list_all (\<lambda>s. is_office_config_route (rs_path s) \<longrightarrow> \<not> office \<and> rs_handler s = None) (all_specs t office)"
  by (cases t; cases office) (simp_all add: catalogue_defs route_defs is_office_config_route_def)

lemma office_without_spec:
  assumes "is_office_config_route p" "route_spec_for t office m p = Some s"
  shows "\<not> office \<and> rs_handler s = None"
  using spec_property[OF office_specs_free assms(2)] assms by (simp add: route_spec_for_iff)

text \<open>
  C9: the dispatcher enforces the documented access level. For every route the documentation of the interface names, on a
  board and on a host, with the office capability or without: a request that does not have what the level of the route asks for
  (a stored code; the stored code in the request; that and the CSRF token) leaves the world as it is and is refused with
  401 or 403 and a fixed key, or with 403 as the maintenance window is closed; a request that has it is run by the one handler
  of the route, unless the window is closed. The routes of accounts and capabilities, with a key in their path where the
  documentation has one, are enforced in this way on a host that has the capability, where no window closes them and
  where they make the one call they are documented for; elsewhere they leave the world as it is.
\<close>
theorem documented_levels_enforced:
  assumes "rq_method rq = method_as_str m"
  shows "((m, path_only (rq_uri rq), l) \<in> set documented_levels \<longrightarrow>
      (\<exists>s h. route_spec_for (hc_target c) (hc_office c) (method_as_str m) (path_only (rq_uri rq)) = Some s \<and> rs_handler s = Some h
       \<and> (let met = level_met l (hc_stored_code c w) (hc_token c) (rq_uri rq) (rq_headers rq);
              closed = (rs_operator_access s = Windowed
                 \<and> window_required_for_deep_routes (hc_kind c) (hc_window_active c w))
          in (closed \<longrightarrow> dispatch_impl c rq w = (w, Inr (api_to_out (err_key 403 ''system.operator_window_required''))))
           \<and> (\<not> closed \<and> met \<longrightarrow> dispatch_impl c rq w = run_handler c (rs_body_mode s) h rq w)
           \<and> (\<not> closed \<and> \<not> met \<longrightarrow> (\<exists>resp. is_refusal resp \<and> dispatch_impl c rq w = (w, Inr (api_to_out resp)))))))
    \<and> (path_key k \<and> (m, path, l, call) \<in> set documented_office_levels \<and> path_only (rq_uri rq) = path k \<longrightarrow>
       (let met = level_met l (hc_stored_code c w) (hc_token c) (rq_uri rq) (rq_headers rq)
        in if hc_office c \<and> hc_target c = Host
           then (met \<longrightarrow> dispatch_impl c rq w = run_office c (call k) rq w)
              \<and> (\<not> met \<longrightarrow> (\<exists>resp. is_refusal resp \<and> dispatch_impl c rq w = (w, Inr (api_to_out resp))))
           else fst (dispatch_impl c rq w) = w))"
proof (intro conjI impI)
  assume doc: "(m, path_only (rq_uri rq), l) \<in> set documented_levels"
  obtain s h where s: "route_spec_for (hc_target c) (hc_office c) (method_as_str m) (path_only (rq_uri rq)) = Some s"
    "rs_handler s = Some h" "guard_level (handler_guard h) = l"
    using levels_covered[OF doc, of "hc_target c" "hc_office c"] by blast
  let ?r = "guard_response (handler_guard h) (hc_stored_code c w) (hc_token c) (rq_uri rq) (rq_headers rq)"
  have d: "dispatch_impl c rq w =
    (if window_closed c s w then (w, Inr (api_to_out (err_key 403 ''system.operator_window_required'')))
     else guarded c (handler_guard h) rq (run_handler c (rs_body_mode s) h rq) w)"
    using s assms by (intro dispatch_of_spec) simp_all
  have met: "level_met l (hc_stored_code c w) (hc_token c) (rq_uri rq) (rq_headers rq) \<longleftrightarrow> ?r = None"
    using level_guard[of "handler_guard h"] s(3) by (simp add: guard_iff)
  show "\<exists>s h. route_spec_for (hc_target c) (hc_office c) (method_as_str m) (path_only (rq_uri rq)) = Some s \<and> rs_handler s = Some h
       \<and> (let met = level_met l (hc_stored_code c w) (hc_token c) (rq_uri rq) (rq_headers rq);
              closed = (rs_operator_access s = Windowed
                 \<and> window_required_for_deep_routes (hc_kind c) (hc_window_active c w))
          in (closed \<longrightarrow> dispatch_impl c rq w = (w, Inr (api_to_out (err_key 403 ''system.operator_window_required''))))
           \<and> (\<not> closed \<and> met \<longrightarrow> dispatch_impl c rq w = run_handler c (rs_body_mode s) h rq w)
           \<and> (\<not> closed \<and> \<not> met \<longrightarrow> (\<exists>resp. is_refusal resp \<and> dispatch_impl c rq w = (w, Inr (api_to_out resp)))))"
    using s(1, 2) d guard_refusal[of "handler_guard h" "hc_stored_code c w" "hc_token c" "rq_uri rq" "rq_headers rq"]
    by (cases ?r) (auto simp: Let_def met guarded_def)
next
  assume "path_key k \<and> (m, path, l, call) \<in> set documented_office_levels \<and> path_only (rq_uri rq) = path k"
  then obtain g where g: "office_dispatch (rq_method rq) (path_only (rq_uri rq)) = Some (call k, g)" "guard_level g = l"
    "is_office_config_route (path_only (rq_uri rq))" "m \<noteq> MethodOptions"
    using office_documented[of m path l call k] assms by (auto simp: documented_office_levels_def)
  then have no: "\<not> eq_ignore_ascii_case (rq_method rq) ''OPTIONS''" using assms by (simp add: options_method)
  let ?spec = "route_spec_for (hc_target c) (hc_office c) (rq_method rq) (path_only (rq_uri rq))"
  let ?r = "guard_response g (hc_stored_code c w) (hc_token c) (rq_uri rq) (rq_headers rq)"
  have met: "level_met l (hc_stored_code c w) (hc_token c) (rq_uri rq) (rq_headers rq) \<longleftrightarrow> ?r = None"
    using level_guard[of g] g(2) by (simp add: guard_iff)
  have spec: "\<not> hc_office c \<and> rs_handler s = None" if "?spec = Some s" for s
    by (rule office_without_spec[OF g(3) that])
  show "let met = level_met l (hc_stored_code c w) (hc_token c) (rq_uri rq) (rq_headers rq)
        in if hc_office c \<and> hc_target c = Host
           then (met \<longrightarrow> dispatch_impl c rq w = run_office c (call k) rq w)
              \<and> (\<not> met \<longrightarrow> (\<exists>resp. is_refusal resp \<and> dispatch_impl c rq w = (w, Inr (api_to_out resp))))
           else fst (dispatch_impl c rq w) = w"
  proof (cases "hc_office c \<and> hc_target c = Host")
    case True
    then have "?spec = None" using spec by (cases ?spec) auto
    then have "dispatch_impl c rq w = guarded c g rq (run_office c (call k) rq) w"
      using True no g(1) by (simp add: dispatch_impl_def Let_def)
    then show ?thesis
      using True guard_refusal[of g "hc_stored_code c w" "hc_token c" "rq_uri rq" "rq_headers rq"]
      by (cases ?r) (auto simp: Let_def met guarded_def)
  next
    case False
    then have "fst (dispatch_impl c rq w) = w"
      using no spec by (cases ?spec) (auto simp: dispatch_impl_def Let_def)
    then show ?thesis using False by (auto simp: Let_def)
  qed
qed

text \<open>A context for examples: the world counts the runs of handlers, and \<open>123456\<close> is stored.\<close>

definition demo_ctx :: "target \<Rightarrow> nat http_ctx" where
  "demo_ctx t = \<lparr>hc_target = t, hc_office = False, hc_stored_code = (\<lambda>_. Inr (Some ''123456'')), hc_token = Some ''00ff'',
     hc_kind = LinuxFull, hc_window_active = (\<lambda>_. False), hc_has_env = True,
     hc_handle = (\<lambda>_ _ _ w. (Suc w, Inr (\<lparr>ar_status = 200, ar_content = ReplyBody ''{}''\<rparr>, True))),
     hc_office_handle = (\<lambda>_ _ _ w. (Suc w, Inr \<lparr>ar_status = 200, ar_content = ReplyBody ''{}''\<rparr>))\<rparr>"

definition demo_restart :: IncomingRequest where
  "demo_restart = \<lparr>rq_method = ''POST'', rq_uri = ''/api/restart?code=123456'', rq_headers = [(''x-csrf-token'', ''00ff'')],
     rq_body = []\<rparr>"

lemma demo_path: "path_only (rq_uri demo_restart) = ''/api/restart''"
  by code_simp

lemma demo_carries: "carries_code (Inr (Some ''123456'')) (rq_uri demo_restart) (rq_headers demo_restart)"
  "carries_token (Some ''00ff'') (rq_headers demo_restart)"
proof -
  have "valid_code_format (trim ''123456'')" "carried_code (rq_uri demo_restart) (rq_headers demo_restart) = Some ''123456''"
    "header_ci (rq_headers demo_restart) ''X-CSRF-Token'' = Some ''00ff''"
    by code_simp+
  then show "carries_code (Inr (Some ''123456'')) (rq_uri demo_restart) (rq_headers demo_restart)"
    "carries_token (Some ''00ff'') (rq_headers demo_restart)"
    by (simp_all add: carries_code_def carries_token_def)
qed

lemma demo_spec: "route_spec_for Host False ''POST'' ''/api/restart'' = Some (ACTION_ROUTE_SPECS Host False ! 0)"
  by (simp add: route_spec_for_def route_spec_for_method_def first_in_groups_find method_parse_def catalogue_defs route_defs)

lemma demo_runs: "fst (dispatch_impl (demo_ctx Host) demo_restart w) = Suc w"
proof -
  let ?s = "ACTION_ROUTE_SPECS Host False ! 0"
  have spec: "route_spec_for (hc_target (demo_ctx Host)) (hc_office (demo_ctx Host)) (rq_method demo_restart)
      (path_only (rq_uri demo_restart)) = Some ?s"
    using demo_spec by (simp add: demo_path demo_ctx_def) (simp add: demo_restart_def)
  have h: "rs_handler ?s = Some RestartPost" by (simp add: ACTION_ROUTE_SPECS_def spec_defs)
  have "\<not> window_closed (demo_ctx Host) ?s w"
    by (simp add: window_required_for_deep_routes_def is_embedded_surface_def demo_ctx_def)
  then have "dispatch_impl (demo_ctx Host) demo_restart w
    = guarded (demo_ctx Host) PairedCsrf demo_restart (run_handler (demo_ctx Host) (rs_body_mode ?s) RestartPost demo_restart) w"
    using dispatch_of_spec[OF spec h, of w] by (simp only: if_False handler_guard.simps)
  then show ?thesis using demo_carries
    by (simp add: guarded_cases demo_ctx_def run_handler_def reads_body_def Let_def)
qed

definition demo_delete :: IncomingRequest where
  "demo_delete = \<lparr>rq_method = ''DELETE'', rq_uri = ''/api/config/accounts/a1'', rq_headers = [], rq_body = []\<rparr>"

theorem documented_levels_enforced_witness:
  "(\<exists>resp. is_refusal resp
     \<and> dispatch_impl (demo_ctx Host) (demo_restart\<lparr>rq_headers := []\<rparr>) 0 = (0, Inr (api_to_out resp)))
   \<and> (\<exists>resp. is_refusal resp
     \<and> dispatch_impl ((demo_ctx Host)\<lparr>hc_office := True\<rparr>) demo_delete 0 = (0, Inr (api_to_out resp)))"
proof
  let ?rq = "demo_restart\<lparr>rq_headers := []\<rparr>"
  have path: "path_only (rq_uri ?rq) = ''/api/restart''" using demo_path by simp
  then have "(MethodPost, path_only (rq_uri ?rq), LevelPairingCodeCsrf) \<in> set documented_levels" by (simp add: documented_levels_def)
  moreover have "rq_method ?rq = method_as_str MethodPost" by (simp add: demo_restart_def)
  moreover have "\<not> level_met LevelPairingCodeCsrf (hc_stored_code (demo_ctx Host) 0) (hc_token (demo_ctx Host)) (rq_uri ?rq) (rq_headers ?rq)"
    by (simp add: demo_ctx_def carries_token_def header_ci_def)
  moreover have "\<not> window_required_for_deep_routes (hc_kind (demo_ctx Host)) (hc_window_active (demo_ctx Host) (0 :: nat))"
    by (simp add: demo_ctx_def window_required_for_deep_routes_def is_embedded_surface_def)
  ultimately show "\<exists>resp. is_refusal resp \<and> dispatch_impl (demo_ctx Host) ?rq 0 = (0, Inr (api_to_out resp))"
    using documented_levels_enforced[where m = MethodPost and l = LevelPairingCodeCsrf and rq = ?rq and c = "demo_ctx Host" and w = 0]
    by (auto simp: Let_def)
next
  let ?c = "(demo_ctx Host)\<lparr>hc_office := True\<rparr>"
  have "path_only (rq_uri demo_delete) = ''/api/config/accounts/a1''" "trim ''a1'' = ''a1''" by code_simp+
  moreover have "rq_method demo_delete = method_as_str MethodDelete" by (simp add: demo_delete_def)
  moreover have "(MethodDelete, \<lambda>k. ''/api/config/accounts/'' @ k, LevelPairingCodeCsrf, \<lambda>k. AccountDelete (percent_decode_query (trim k)))
      \<in> set documented_office_levels" by (simp add: documented_office_levels_def)
  moreover have "\<not> level_met LevelPairingCodeCsrf (hc_stored_code ?c 0) (hc_token ?c) (rq_uri demo_delete) (rq_headers demo_delete)"
    by (simp add: demo_ctx_def demo_delete_def carries_token_def header_ci_def)
  moreover have "hc_office ?c \<and> hc_target ?c = Host" by (simp add: demo_ctx_def)
  ultimately show "\<exists>resp. is_refusal resp \<and> dispatch_impl ?c demo_delete 0 = (0, Inr (api_to_out resp))"
    using documented_levels_enforced[where m = MethodDelete and l = LevelPairingCodeCsrf and rq = demo_delete and c = ?c and w = 0
        and k = "''a1''" and path = "\<lambda>k. ''/api/config/accounts/'' @ k" and call = "\<lambda>k. AccountDelete (percent_decode_query (trim k))"]
    by (auto simp: Let_def path_key_def)
qed

section \<open>Changes\<close>

text \<open>The calls of the office part that are no reads ask for the code and the token.\<close>

lemma office_writes_guarded:
  "office_dispatch method path = Some (call, g) \<Longrightarrow> method \<noteq> ''GET'' \<Longrightarrow> g = PairedCsrf"
  by (auto simp: office_dispatch_def provider_call_def account_call_def capability_call_def
        split: option.splits if_splits AccountConfigRoute.splits CapabilityConfigRoute.splits)

lemma writes_guarded:
  "list_all (\<lambda>s. case rs_handler s of None \<Rightarrow> True
      | Some h \<Rightarrow> rs_method s = MethodGet \<or> rs_path s = ROUTE_PAIRING_CODE \<or> handler_guard h \<in> {PairedCsrf, ActivatedPairedCsrf})
    (all_specs t office)"
  by (cases t; cases office) (simp_all add: catalogue_defs)

lemma guard_met_writes:
  "g \<in> {PairedCsrf, ActivatedPairedCsrf} \<Longrightarrow> guard_met g r token uri headers
    \<longleftrightarrow> carries_code r uri headers \<and> carries_token token headers"
  by auto

text \<open>
  C8: nothing is changed without the code and the token. When the dispatcher leaves the world changed for a request that
  is no GET and does not go to the route that sets the code, then a code in the right form is stored, the request carries
  the same code (in its query, else in its header, blanks around it aside), the process has a CSRF token, and the request
  carries this very token. The routes of the office capability and handlers of any behaviour are included.
\<close>
theorem changes_need_authority:
  assumes "dispatch_impl c rq w = (w', r)" "w' \<noteq> w"
    and "rq_method rq \<noteq> ''GET''" "path_only (rq_uri rq) \<noteq> ROUTE_PAIRING_CODE"
  shows "\<exists>stored carried token. hc_stored_code c w = Inr (Some stored)
    \<and> length (trim stored) = 6 \<and> list_all is_digit (trim stored)
    \<and> carried_code (rq_uri rq) (rq_headers rq) = Some carried \<and> trim carried = trim stored
    \<and> hc_token c = Some token \<and> header_ci (rq_headers rq) ''X-CSRF-Token'' = Some token"
proof -
  let ?spec = "route_spec_for (hc_target c) (hc_office c) (rq_method rq) (path_only (rq_uri rq))"
  have met: "carries_code (hc_stored_code c w) (rq_uri rq) (rq_headers rq) \<and> carries_token (hc_token c) (rq_headers rq)"
    if g: "g \<in> {PairedCsrf, ActivatedPairedCsrf}" and run: "guarded c g rq k w = (w', r)" for g k
    using run assms(2) guard_met_writes[OF g] by (simp add: guarded_cases split: if_splits)
  have "carries_code (hc_stored_code c w) (rq_uri rq) (rq_headers rq) \<and> carries_token (hc_token c) (rq_headers rq)"
  proof (cases "if hc_office c \<and> hc_target c = Host then office_dispatch (rq_method rq) (path_only (rq_uri rq)) else None")
    case (Some cg)
    obtain call g where cg: "cg = (call, g)" by (cases cg)
    have "g = PairedCsrf"
      using Some assms(3) office_writes_guarded[of "rq_method rq" "path_only (rq_uri rq)" call g]
      by (auto simp: cg split: if_splits)
    moreover have "guarded c g rq (run_office c call rq) w = (w', r)"
      using assms(1, 2) Some by (auto simp: cg dispatch_impl_def Let_def split: if_splits)
    ultimately show ?thesis using met by blast
  next
    case None
    obtain s h where s: "?spec = Some s" "rs_handler s = Some h"
      and run: "guarded c (handler_guard h) rq (run_handler c (rs_body_mode s) h rq) w = (w', r)"
      using assms(1, 2) None
      by (auto simp: dispatch_impl_def Let_def bind_eq_Some_conv split: if_splits option.splits)
    have "handler_guard h \<in> {PairedCsrf, ActivatedPairedCsrf}"
      using spec_property[OF writes_guarded s(1)] s assms(3, 4) by (auto simp: route_spec_for_iff simp del: set_concat)
    then show ?thesis using met run by blast
  qed
  then show ?thesis by (auto simp: carries_code_def carries_token_def valid_code_format_def CODE_LEN_def)
qed

theorem changes_need_authority_witness:
  "carried_code (rq_uri demo_restart) (rq_headers demo_restart) \<noteq> None"
proof -
  have r: "fst (dispatch_impl (demo_ctx Host) demo_restart 0) = 1" by (simp add: demo_runs)
  have "rq_method demo_restart \<noteq> ''GET''" "path_only (rq_uri demo_restart) \<noteq> ROUTE_PAIRING_CODE"
    by (simp_all add: demo_restart_def demo_path[unfolded demo_restart_def, simplified] ROUTE_PAIRING_CODE_def)
  then show ?thesis
    using r changes_need_authority[OF prod.collapse[symmetric], of "demo_ctx Host" demo_restart 0] by auto
qed

section \<open>The check before a worker\<close>

lemma worker_checks:
  "list_all (\<lambda>s. worker_contract Esp (rs_execution_class s) \<noteq> None
      \<longrightarrow> (\<forall>uri headers. route_auth_response c (rs_method s) (rs_path s) uri headers w
             = guard_response (handler_guard (the (rs_handler s))) (hc_stored_code c w) (hc_token c) uri headers))
    (all_specs Esp office)"
  by (cases office) (simp_all add: catalogue_defs route_defs route_auth_response_def guard_response_def)

lemma worker_handlers:
  "list_all (\<lambda>s. worker_contract Esp (rs_execution_class s) \<noteq> None \<longrightarrow> rs_handler s \<noteq> None) (all_specs Esp office)"
  by (cases office) (simp_all add: catalogue_defs)

text \<open>
  C33: the check in front of a worker agrees with the dispatcher. On a board a slow route is checked before a worker is
  woken, from a second table of routes. Whatever that check answers, the dispatcher would have answered the same and left
  the world as it is; where it lets a request pass, the dispatcher runs the handler of the route at once, so a worker is
  never woken for a request that is refused and no request is refused that the dispatcher would have run.
\<close>
theorem worker_check_agrees:
  assumes "hc_target c = Esp"
    and "route_spec_for Esp (hc_office c) (rq_method rq) (path_only (rq_uri rq)) = Some spec"
    and "worker_contract Esp (rs_execution_class spec) \<noteq> None"
  shows "case worker_route_pre_admission_response c spec (rq_uri rq) (rq_headers rq) w of
      Some resp \<Rightarrow> dispatch_impl c rq w = (w, Inr (api_to_out resp))
    | None \<Rightarrow> \<exists>h. rs_handler spec = Some h \<and> dispatch_impl c rq w = run_handler c (rs_body_mode spec) h rq w"
proof -
  obtain h where h: "rs_handler spec = Some h"
    using spec_property[OF worker_handlers assms(2)] assms(3) by auto
  have "route_auth_response c (rs_method spec) (rs_path spec) (rq_uri rq) (rq_headers rq) w
     = guard_response (handler_guard h) (hc_stored_code c w) (hc_token c) (rq_uri rq) (rq_headers rq)"
    using spec_property[OF worker_checks[where c = c and w = w] assms(2)] assms(3) h by simp
  moreover have "dispatch_impl c rq w =
    (if window_closed c spec w then (w, Inr (api_to_out (err_key 403 ''system.operator_window_required'')))
     else guarded c (handler_guard h) rq (run_handler c (rs_body_mode spec) h rq) w)"
    using dispatch_of_spec[of c rq spec h w] assms(1, 2) h by simp
  ultimately show ?thesis
    using h by (auto simp: worker_route_pre_admission_response_def guarded_def split: option.splits)
qed

theorem worker_check_agrees_witness:
  "\<exists>resp. dispatch_impl (demo_ctx Esp) \<lparr>rq_method = ''POST'', rq_uri = ''/api/config_reset'', rq_headers = [], rq_body = []\<rparr> 0
     = (0, Inr (api_to_out resp))"
proof -
  let ?rq = "\<lparr>rq_method = ''POST'', rq_uri = ''/api/config_reset'', rq_headers = [], rq_body = []\<rparr>"
  let ?s = "ACTION_ROUTE_SPECS Esp False ! 2"
  have "path_only (rq_uri ?rq) = ''/api/config_reset''" by code_simp
  then have spec: "route_spec_for Esp (hc_office (demo_ctx Esp)) (rq_method ?rq) (path_only (rq_uri ?rq)) = Some ?s"
    by (simp add: demo_ctx_def route_spec_for_def route_spec_for_method_def first_in_groups_find method_parse_def
          catalogue_defs route_defs)
  have "worker_contract Esp (rs_execution_class ?s) \<noteq> None" "hc_target (demo_ctx Esp) = Esp"
    by (simp_all add: ACTION_ROUTE_SPECS_def spec_defs demo_ctx_def)
  moreover have "worker_route_pre_admission_response (demo_ctx Esp) ?s (rq_uri ?rq) (rq_headers ?rq) 0 \<noteq> None"
    by (simp add: worker_route_pre_admission_response_def ACTION_ROUTE_SPECS_def spec_defs route_auth_response_def
          route_defs guard_pairing_csrf_def require_csrf_def header_ci_def split: option.split)
  ultimately show ?thesis
    using worker_check_agrees[of "demo_ctx Esp" ?rq ?s 0] spec by (auto split: option.splits)
qed

section \<open>The pairing code is set once\<close>

text \<open>
  C37: when a stored code is replaced. With a code in the right form stored, an attempt to set a code changes the store
  exactly when the read before it fails, the write succeeds, and the new code is in the right form and another one. So a code
  is set once as long as the store can be read; a failed read counts as \<open>no code\<close>, and the caller, whom no check
  stops on this route, then replaces the code.
\<close>
theorem stored_code_replaced_iff:
  assumes "valid_code_format (trim stored)" "trim stored = stored"
  shows "fst (set_code f code (Some stored)) \<noteq> Some stored
    \<longleftrightarrow> sf_read f \<noteq> None \<and> sf_write f = None \<and> valid_code_format (trim code) \<and> trim code \<noteq> stored"
  using assms
  by (auto simp: set_code_def set_code_checked_def code_set_def read_code_key_def read_valid_code_def
        split: option.splits)

theorem stored_code_replaced_iff_witness:
  "fst (set_code \<lparr>sf_read = Some (ErrOther (Foreign ''nvs'') ''nvs_read''), sf_write = None\<rparr> ''654321'' (Some ''123456''))
     \<noteq> Some ''123456''"
proof -
  have "valid_code_format (trim ''123456'')" "trim ''123456'' = ''123456''"
    "valid_code_format (trim ''654321'')" "trim ''654321'' \<noteq> ''123456''"
    by code_simp+
  then show ?thesis
    using stored_code_replaced_iff[of "''123456''"
      "\<lparr>sf_read = Some (ErrOther (Foreign ''nvs'') ''nvs_read''), sf_write = None\<rparr>" "''654321''"] by simp
qed

end
