(* ===== verification/Pending_Retry.thy ===== *)
theory Pending_Retry
  imports Cached_Store Tracked_Queue
begin

text \<open>
  The one message kept over a restart: the store of a single entry
  (\<open>src/src/platform/storage/pending_retry.rs\<close>) and its replay into the inbound queues when the program starts
  (\<open>app_runtime_support.rs\<close>). serde is a parameter of the store; the metrics and the log are left out.
\<close>

section \<open>The store\<close>

(* constants.rs: const PENDING_RETRY_MAX_REPLAY *)
definition PENDING_RETRY_MAX_REPLAY :: u32 where "PENDING_RETRY_MAX_REPLAY = 3"

(* platform/storage/pending_retry.rs: struct PendingRetryEntry *)
record 'json PendingRetryEntry =
  pe_msg :: "'json PcMsg"
  pe_replay_count :: u32

(* platform/storage/pending_retry.rs: struct PendingRetryCache *)
record 'json PendingRetryCache =
  pc_loaded :: bool
  pc_entry :: "'json PendingRetryEntry option"

(* platform/storage/pending_retry.rs: struct StoragePendingRetryStore *)
record 'json pending_store = "'json PendingRetryCache" +
  pc_file :: "string option"

text \<open>How serde reads and writes: an entry, and the older format with the message alone.\<close>

record 'json retry_codec =
  rc_entry :: "string \<Rightarrow> 'json PendingRetryEntry option"
  rc_msg :: "string \<Rightarrow> 'json PcMsg option"
  rc_encode :: "'json PendingRetryEntry \<Rightarrow> string + string"

(* platform/storage/pending_retry.rs: impl StoragePendingRetryStore / fn load_cache_locked *)
definition load_cache_locked :: "'json retry_codec \<Rightarrow> store_io \<Rightarrow> 'json pending_store \<Rightarrow> 'json pending_store \<times> (Error + unit)" where
  "load_cache_locked cd io s =
     (if pc_loaded s then (s, Inr ())
      else case read_file io (pc_file s) of
        ReadNotFound \<Rightarrow> (s\<lparr>pc_loaded := True\<rparr>, Inr ())
      | ReadFails e \<Rightarrow> (s, Inl e)
      | ReadBytes buf \<Rightarrow>
          (if length buf \<le> 2 then (s\<lparr>pc_loaded := True\<rparr>, Inr ())
           else (s\<lparr>pc_loaded := True, pc_entry :=
                  (case rc_entry cd buf of
                     Some entry \<Rightarrow> Some entry
                   | None \<Rightarrow> map_option (\<lambda>msg. \<lparr>pe_msg = msg, pe_replay_count = 1\<rparr>) (rc_msg cd buf))\<rparr>, Inr ())))"

(* platform/storage/pending_retry.rs: impl PendingRetryStore for StoragePendingRetryStore / fn save_pending_retry *)
definition save_pending_retry :: "'json retry_codec \<Rightarrow> store_io \<Rightarrow> 'json PcMsg \<Rightarrow> 'json pending_store
    \<Rightarrow> 'json pending_store \<times> (Error + unit)" where
  "save_pending_retry cd io msg s =
     (if MAX_CONTENT_LEN (si_target io) < length (pm_content msg)
      then (s, Inl (err_config ''pending_retry_save'' (''content len '' @ show_nat (length (pm_content msg))
              @ '' exceeds '' @ show_nat (MAX_CONTENT_LEN (si_target io)))))
      else case load_cache_locked cd io s of
        (s1, Inl e) \<Rightarrow> (s1, Inl e)
      | (s1, Inr _) \<Rightarrow>
          (let count = (case pc_entry s1 of
                 Some old \<Rightarrow> min (sat_add (pe_replay_count old) 1) PENDING_RETRY_MAX_REPLAY | None \<Rightarrow> 1);
               entry = \<lparr>pe_msg = msg, pe_replay_count = count\<rparr>
           in case rc_encode cd entry of
                Inl m \<Rightarrow> (s1, Inl (err_config ''pending_retry_save'' m))
              | Inr json \<Rightarrow>
                  (case write_json_file io (pc_file s1) json of
                     (file', Inl e) \<Rightarrow> (s1\<lparr>pc_file := file'\<rparr>, Inl e)
                   | (file', Inr _) \<Rightarrow> (s1\<lparr>pc_file := file', pc_entry := Some entry\<rparr>, Inr ()))))"

(* platform/storage/pending_retry.rs: impl PendingRetryStore for StoragePendingRetryStore / fn load_pending_retry *)
definition load_pending_retry :: "'json retry_codec \<Rightarrow> store_io \<Rightarrow> 'json pending_store
    \<Rightarrow> 'json pending_store \<times> (Error + 'json PcMsg option)" where
  "load_pending_retry cd io s =
     (case load_cache_locked cd io s of
        (s1, Inl e) \<Rightarrow> (s1, Inl e)
      | (s1, Inr _) \<Rightarrow>
          (case pc_entry s1 of
             None \<Rightarrow> (s1, Inr None)
           | Some entry \<Rightarrow>
               (if PENDING_RETRY_MAX_REPLAY \<le> pe_replay_count entry
                then (s1\<lparr>pc_file := fst (write_json_file io (pc_file s1) ''{}''), pc_entry := None\<rparr>, Inr None)
                else (s1, Inr (Some (pe_msg entry))))))"

(* platform/storage/pending_retry.rs: impl PendingRetryStore for StoragePendingRetryStore / fn clear_pending_retry *)
definition clear_pending_retry :: "store_io \<Rightarrow> 'json pending_store \<Rightarrow> 'json pending_store \<times> (Error + unit)" where
  "clear_pending_retry io s =
     (case write_json_file io (pc_file s) ''{}'' of
        (file', Inl e) \<Rightarrow> (s\<lparr>pc_file := file'\<rparr>, Inl e)
      | (file', Inr _) \<Rightarrow> (s\<lparr>pc_file := file', pc_loaded := True, pc_entry := None\<rparr>, Inr ()))"

text \<open>A start of the program: the file is what is left.\<close>

definition pending_restart :: "'json pending_store \<Rightarrow> 'json pending_store" where
  "pending_restart s = \<lparr>pc_loaded = False, pc_entry = None, pc_file = pc_file s\<rparr>"

section \<open>The replay at a start\<close>

(* app_runtime_support.rs: const QQ_C2C_PENDING_RETRY_PASSIVE_REPLY_TTL_MS *)
definition QQ_C2C_PENDING_RETRY_PASSIVE_REPLY_TTL_MS :: u64 where
  "QQ_C2C_PENDING_RETRY_PASSIVE_REPLY_TTL_MS = 60 * 60 * 1000"

(* app_runtime_support.rs: const QQ_GROUP_PENDING_RETRY_PASSIVE_REPLY_TTL_MS *)
definition QQ_GROUP_PENDING_RETRY_PASSIVE_REPLY_TTL_MS :: u64 where
  "QQ_GROUP_PENDING_RETRY_PASSIVE_REPLY_TTL_MS = 5 * 60 * 1000"

(* app_runtime_support.rs: fn qq_v2_passive_reply_ttl_ms *)
definition qq_v2_passive_reply_ttl_ms :: "string \<Rightarrow> u64 option" where
  "qq_v2_passive_reply_ttl_ms chat_id =
     (if prefix ''c2c:'' chat_id then Some QQ_C2C_PENDING_RETRY_PASSIVE_REPLY_TTL_MS
      else if prefix ''group:'' chat_id then Some QQ_GROUP_PENDING_RETRY_PASSIVE_REPLY_TTL_MS
      else None)"

(* app_runtime_support.rs: fn should_drop_stale_pending_retry *)
definition should_drop_stale_pending_retry :: "'json PcMsg \<Rightarrow> u64 \<Rightarrow> bool" where
  "should_drop_stale_pending_retry msg now_ms \<longleftrightarrow>
     pm_channel msg = ''qq_channel''
     \<and> (case qq_v2_passive_reply_ttl_ms (pm_chat_id msg) of
          None \<Rightarrow> False
        | Some ttl \<Rightarrow> ttl < sat_sub now_ms (pm_enqueue_ts_ms msg))"

(* app_runtime_support.rs: fn bootstrap_pending_retry_into_inbound *)
definition bootstrap_pending_retry :: "'json retry_codec \<Rightarrow> store_io \<Rightarrow> u64
    \<Rightarrow> 'json pending_store \<times> ('json PcMsg, 'w::len word) tracked \<times> ('json PcMsg, 'w word) tracked
    \<Rightarrow> 'json pending_store \<times> ('json PcMsg, 'w word) tracked \<times> ('json PcMsg, 'w word) tracked" where
  "bootstrap_pending_retry cd io now_ms w =
     (case w of (s, user, system) \<Rightarrow>
       (case load_pending_retry cd io s of
          (s1, Inl _) \<Rightarrow> (s1, user, system)
        | (s1, Inr None) \<Rightarrow> (s1, user, system)
        | (s1, Inr (Some msg)) \<Rightarrow>
            (if should_drop_stale_pending_retry msg now_ms then (fst (clear_pending_retry io s1), user, system)
             else case pm_ingress msg of
               IngressUser \<Rightarrow>
                 (case tracked_try_send msg user of
                    (user', Inr _) \<Rightarrow> (fst (clear_pending_retry io s1), user', system)
                  | (user', Inl _) \<Rightarrow> (s1, user', system))
             | IngressSystem \<Rightarrow>
                 (case tracked_try_send msg system of
                    (system', Inr _) \<Rightarrow> (fst (clear_pending_retry io s1), user, system')
                  | (system', Inl _) \<Rightarrow> (s1, user, system')))))"

end
