(* ===== verification/Pending_Retry_Laws.thy ===== *)
theory Pending_Retry_Laws
  imports Pending_Retry
begin

text \<open>What comes back after a restart of the messages that were put into the slot for one.\<close>

section \<open>Saves\<close>

text \<open>serde reads back what it writes of these messages, and an entry fits a file.\<close>

definition codec_ok :: "'json retry_codec \<Rightarrow> target \<Rightarrow> 'json PcMsg list \<Rightarrow> bool" where
  "codec_ok cd t msgs \<longleftrightarrow>
     (\<forall>msg \<in> set msgs. \<forall>k \<in> {1, 2, 3}. let e = \<lparr>pe_msg = msg, pe_replay_count = k\<rparr> in
        \<exists>json. rc_encode cd e = Inr json \<and> rc_entry cd json = Some e \<and> 2 < length json \<and> length json \<le> MAX_WRITE_SIZE t)"

definition io_ok :: "store_io \<Rightarrow> bool" where
  "io_ok io \<longleftrightarrow> si_read_error io = None \<and> si_write_error io = None"

text \<open>All saves of one run of the program.\<close>

definition save_all :: "'json retry_codec \<Rightarrow> store_io \<Rightarrow> 'json PcMsg list \<Rightarrow> 'json pending_store \<Rightarrow> 'json pending_store" where
  "save_all cd io msgs s = fold (\<lambda>msg s. fst (save_pending_retry cd io msg s)) msgs s"

text \<open>The state after \<open>n\<close> saves of which \<open>msg\<close> was the last.\<close>

definition holds :: "'json retry_codec \<Rightarrow> 'json PcMsg \<Rightarrow> nat \<Rightarrow> 'json pending_store \<Rightarrow> bool" where
  "holds cd msg n s \<longleftrightarrow>
     (let e = \<lparr>pe_msg = msg, pe_replay_count = of_nat (min n 3)\<rparr>
      in pc_loaded s \<and> pc_entry s = Some e
       \<and> (\<exists>json. pc_file s = Some json \<and> rc_entry cd json = Some e \<and> 2 < length json))"

lemma few: "0 < n \<Longrightarrow> (of_nat (min n 3) :: u32) \<in> {1, 2, 3}"
  "0 < n \<Longrightarrow> PENDING_RETRY_MAX_REPLAY \<le> of_nat (min n 3) \<longleftrightarrow> 3 \<le> n"
  "0 < n \<Longrightarrow> min (sat_add (of_nat (min n 3)) 1) PENDING_RETRY_MAX_REPLAY = of_nat (min (Suc n) 3)"
proof -
  assume "0 < n"
  then have "n = 1 \<or> n = 2 \<or> min n 3 = 3 \<and> min (Suc n) 3 = 3 \<and> 3 \<le> n" by auto
  then have "(of_nat (min n 3) :: u32) \<in> {1, 2, 3} \<and> (PENDING_RETRY_MAX_REPLAY \<le> of_nat (min n 3) \<longleftrightarrow> 3 \<le> n)
      \<and> min (sat_add (of_nat (min n 3)) 1) PENDING_RETRY_MAX_REPLAY = of_nat (min (Suc n) 3)"
    by (elim disjE) (simp_all add: PENDING_RETRY_MAX_REPLAY_def sat_add_def word_le_nat_alt min_def[of "_ :: u32"])
  then show "(of_nat (min n 3) :: u32) \<in> {1, 2, 3}" "PENDING_RETRY_MAX_REPLAY \<le> of_nat (min n 3) \<longleftrightarrow> 3 \<le> n"
    "min (sat_add (of_nat (min n 3)) 1) PENDING_RETRY_MAX_REPLAY = of_nat (min (Suc n) 3)" by blast+
qed

lemma codec_entry:
  assumes "codec_ok cd t msgs" "msg \<in> set msgs" "0 < n"
  obtains json where "rc_encode cd \<lparr>pe_msg = msg, pe_replay_count = of_nat (min n 3)\<rparr> = Inr json"
    "rc_entry cd json = Some \<lparr>pe_msg = msg, pe_replay_count = of_nat (min n 3)\<rparr>" "2 < length json"
    "length json \<le> MAX_WRITE_SIZE t"
  using assms few(1)[OF assms(3)] by (auto simp: codec_ok_def Let_def)

lemma save_first:
  assumes "codec_ok cd (si_target io) msgs" "msg \<in> set msgs" "io_ok io" "length (pm_content msg) \<le> MAX_CONTENT_LEN (si_target io)"
    and "pc_entry s = None" "pc_loaded s \<or> pc_file s = None"
  shows "holds cd msg 1 (fst (save_pending_retry cd io msg s))"
proof -
  have l: "load_cache_locked cd io s = (s\<lparr>pc_loaded := True\<rparr>, Inr ())"
    using assms(3, 6) by (auto simp: load_cache_locked_def read_file_def io_ok_def)
  obtain json where "rc_encode cd \<lparr>pe_msg = msg, pe_replay_count = 1\<rparr> = Inr json"
    "rc_entry cd json = Some \<lparr>pe_msg = msg, pe_replay_count = 1\<rparr>" "2 < length json"
    "length json \<le> MAX_WRITE_SIZE (si_target io)"
    using codec_entry[OF assms(1, 2), of 1] by auto
  then show ?thesis
    using assms(3, 4, 5) l
    by (simp add: save_pending_retry_def holds_def write_json_file_def write_file_unlocked_def io_ok_def)
qed

lemma save_next:
  assumes "codec_ok cd (si_target io) msgs" "msg \<in> set msgs" "io_ok io" "length (pm_content msg) \<le> MAX_CONTENT_LEN (si_target io)"
    and "holds cd old n s" "0 < n"
  shows "holds cd msg (Suc n) (fst (save_pending_retry cd io msg s))"
proof -
  have l: "load_cache_locked cd io s = (s, Inr ())" using assms(5) by (simp add: load_cache_locked_def holds_def Let_def)
  obtain json where "rc_encode cd \<lparr>pe_msg = msg, pe_replay_count = of_nat (min (Suc n) 3)\<rparr> = Inr json"
    "rc_entry cd json = Some \<lparr>pe_msg = msg, pe_replay_count = of_nat (min (Suc n) 3)\<rparr>" "2 < length json"
    "length json \<le> MAX_WRITE_SIZE (si_target io)"
    using codec_entry[OF assms(1, 2), of "Suc n"] by auto
  then show ?thesis
    using assms(3, 4, 5) l few(3)[OF assms(6)]
    by (simp add: save_pending_retry_def holds_def Let_def write_json_file_def write_file_unlocked_def io_ok_def)
qed

lemma codec_subset: "codec_ok cd t msgs \<Longrightarrow> set ms \<subseteq> set msgs \<Longrightarrow> codec_ok cd t ms"
  by (auto simp: codec_ok_def)

lemma save_all_holds:
  assumes "codec_ok cd (si_target io) msgs" "io_ok io"
    and "\<forall>msg \<in> set msgs. length (pm_content msg) \<le> MAX_CONTENT_LEN (si_target io)" "msgs \<noteq> []"
    and "pc_entry s = None" "pc_loaded s \<or> pc_file s = None"
  shows "holds cd (last msgs) (length msgs) (save_all cd io msgs s)"
  using assms(4, 1, 3)
proof (induction msgs rule: rev_nonempty_induct)
  case (single msg)
  then show ?case using save_first[OF _ _ assms(2) _ assms(5, 6), of cd "[msg]" msg] by (simp add: save_all_def)
next
  case (snoc msg msgs)
  then have "holds cd (last msgs) (length msgs) (save_all cd io msgs s)"
    using codec_subset[of cd _ "msgs @ [msg]" msgs] by (simp add: subset_insertI)
  from save_next[OF _ _ assms(2) _ this, of "msgs @ [msg]" msg] snoc show ?case by (simp add: save_all_def)
qed

section \<open>After the restart\<close>

text \<open>
  C36: what the slot gives back. With a working store (no read or write fails, serde reads back what it writes) and
  room in the queues, let messages be saved one after the other in one run of the program, the slot empty before. The
  first start afterwards puts the last of them, and only it, at the end of the queue of its kind, provided that it is
  not stale and that there were one or two saves. From the third save on, whatever the messages, nothing comes back: the
  count in the slot, kept as the number of replays, counts saves of any messages. In every case the slot is empty then, in
  memory and in the file, so that no message comes back a second time: another start, at any time, puts nothing anywhere.
\<close>
theorem slot_after_restart:
  assumes "codec_ok cd (si_target io) msgs" "io_ok io"
    and "\<forall>msg \<in> set msgs. length (pm_content msg) \<le> MAX_CONTENT_LEN (si_target io)" "msgs \<noteq> []"
    and "pc_entry s = None" "pc_loaded s \<or> pc_file s = None"
    and "try_put (last msgs) user = Some user'" "try_put (last msgs) system = Some system'"
    and "bootstrap_pending_retry cd io now_ms (pending_restart (save_all cd io msgs s), user, system) = (s', u, y)"
  shows "(if length msgs < 3 \<and> \<not> should_drop_stale_pending_retry (last msgs) now_ms
          then (if pm_ingress (last msgs) = IngressUser then u = user' \<and> y = system else u = user \<and> y = system')
          else u = user \<and> y = system)
    \<and> pc_entry s' = None \<and> pc_file s' = Some ''{}''
    \<and> (\<forall>later user1 system1. snd (bootstrap_pending_retry cd io later (pending_restart s', user1, system1)) = (user1, system1))"
proof -
  let ?m = "last msgs" let ?e = "\<lparr>pe_msg = last msgs, pe_replay_count = of_nat (min (length msgs) 3) :: u32\<rparr>"
  have h: "holds cd ?m (length msgs) (save_all cd io msgs s)" by (rule save_all_holds[OF assms(1-6)])
  then have l: "load_cache_locked cd io (pending_restart (save_all cd io msgs s))
      = (\<lparr>pc_loaded = True, pc_entry = Some ?e, pc_file = pc_file (save_all cd io msgs s)\<rparr>, Inr ())"
    using assms(2) by (auto simp: load_cache_locked_def pending_restart_def holds_def Let_def read_file_def io_ok_def)
  have limit: "PENDING_RETRY_MAX_REPLAY \<le> pe_replay_count ?e \<longleftrightarrow> 3 \<le> length msgs"
    using few(2)[of "length msgs"] assms(4) by simp
  have w: "write_json_file io f ''{}'' = (Some ''{}'', Inr ())" for f
    using assms(2) by (cases "si_target io") (simp_all add: write_json_file_def write_file_unlocked_def io_ok_def)
  have sent: "tracked_try_send ?m user = (user', Inr ())" "tracked_try_send ?m system = (system', Inr ())"
    using assms(7, 8) by (auto simp: try_put_def split: prod.splits sum.splits)
  have cleared: "(if length msgs < 3 \<and> \<not> should_drop_stale_pending_retry ?m now_ms
          then (if pm_ingress ?m = IngressUser then u = user' \<and> y = system else u = user \<and> y = system')
          else u = user \<and> y = system)
    \<and> pc_entry s' = None \<and> pc_file s' = Some ''{}''"
    using assms(9) l limit w sent
    by (cases "pm_ingress ?m")
      (auto simp: bootstrap_pending_retry_def load_pending_retry_def clear_pending_retry_def split: if_splits)
  moreover have "snd (bootstrap_pending_retry cd io later (pending_restart s', user1, system1)) = (user1, system1)"
    for later user1 system1
    using cleared assms(2)
    by (simp add: bootstrap_pending_retry_def load_pending_retry_def load_cache_locked_def pending_restart_def
        read_file_def io_ok_def Let_def)
  ultimately show ?thesis by blast
qed

text \<open>An example: a codec that writes the count of an entry in unary, for one message.\<close>

definition demo_pending :: "unit PcMsg" where
  "demo_pending = \<lparr>pm_channel = ''telegram'', pm_chat_id = ''7'', pm_content = ''hello'', pm_body = body_text ''hello'',
     pm_platform_thread_id = [], pm_req_id = None, pm_outbound_kind = Primary, pm_ingress = IngressUser,
     pm_enqueue_ts_ms = 0, pm_source_transport = TransportUnknown, pm_platform_message_id = [],
     pm_platform_event_id = [], pm_inbound_dedup_key = [], pm_is_group = False\<rparr>"

definition demo_codec :: "unit retry_codec" where
  "demo_codec = \<lparr>rc_entry = (\<lambda>s. Some \<lparr>pe_msg = demo_pending, pe_replay_count = of_nat (length s - 3)\<rparr>),
     rc_msg = (\<lambda>_. None), rc_encode = (\<lambda>e. Inr (replicate (3 + unat (pe_replay_count e)) CHR ''x''))\<rparr>"

definition demo_io :: store_io where
  "demo_io = \<lparr>si_target = Host, si_read_error = None, si_write_error = None\<rparr>"

theorem slot_after_restart_witness:
  "fst (snd (bootstrap_pending_retry demo_codec demo_io 0
      (pending_restart (save_all demo_codec demo_io [demo_pending, demo_pending, demo_pending]
         \<lparr>pc_loaded = False, pc_entry = None, pc_file = None\<rparr>),
       new_inbound_channel 4 :: (unit PcMsg, 32 word) tracked, new_inbound_channel 4))) = new_inbound_channel 4"
proof -
  let ?q = "new_inbound_channel 4 :: (unit PcMsg, 32 word) tracked"
  let ?s = "\<lparr>pc_loaded = False, pc_entry = None, pc_file = None\<rparr> :: unit pending_store"
  have "codec_ok demo_codec (si_target demo_io) [demo_pending, demo_pending, demo_pending]"
    by (simp add: codec_ok_def demo_codec_def demo_io_def Let_def)
  moreover have "io_ok demo_io" by (simp add: io_ok_def demo_io_def)
  moreover have "\<forall>msg \<in> set [demo_pending, demo_pending, demo_pending]. length (pm_content msg) \<le> MAX_CONTENT_LEN (si_target demo_io)"
    by (simp add: demo_pending_def demo_io_def)
  moreover obtain q' where "try_put (last [demo_pending, demo_pending, demo_pending]) ?q = Some q'"
    by (simp add: tracked_defs new_inbound_channel_def channel_new_def)
  moreover obtain s' u y where "bootstrap_pending_retry demo_codec demo_io 0
      (pending_restart (save_all demo_codec demo_io [demo_pending, demo_pending, demo_pending] ?s), ?q, ?q) = (s', u, y)"
    by (rule prod_cases3)
  ultimately show ?thesis
    using slot_after_restart[of demo_codec demo_io "[demo_pending, demo_pending, demo_pending]" ?s ?q q' ?q q' 0 s' u y] by (simp split: if_splits) blast
qed

end
