(* ===== verification/Agent_Lane.thy ===== *)
theory Agent_Lane
  imports Pending_Retry Delayed_Task Admission "HOL-Library.AList"
begin

text \<open>
  The lane of the agent (\<open>src/src/agent/loop.rs\<close> with \<open>agent/loop/driver.rs\<close>, \<open>ingress_admission.rs\<close>,
  \<open>background_jobs.rs\<close>, \<open>worker_error.rs\<close> and \<open>delivery_handoff.rs\<close>): the thread that takes one message
  after the other from the user queue and the system queue, asks the gates, runs the turn, and says what becomes of a
  message that cannot be handled now. The queues, the delayed tasks, the slot for a restart and the gates are the models of
  these components. What a turn, a background job and the detached work do is a parameter; so are the hash of a message, the
  texts, and the lease of the foreground turn. Ledgers, metrics, the log and the watchdog are left out; sleeps are added up.
\<close>

section \<open>The world of the lane\<close>

(* constants.rs: const MAX_DEFER_RETRIES *)
definition MAX_DEFER_RETRIES :: u8 where "MAX_DEFER_RETRIES = 3"

(* constants.rs: const AGENT_RETRY_BASE_MS *)
definition AGENT_RETRY_BASE_MS :: u64 where "AGENT_RETRY_BASE_MS = 100"

(* constants.rs: const AGENT_RETRY_MAX_MS *)
definition AGENT_RETRY_MAX_MS :: u64 where "AGENT_RETRY_MAX_MS = 500"

(* agent/loop.rs: const MAX_CONSECUTIVE_USER_MSGS *)
definition MAX_CONSECUTIVE_USER_MSGS :: u8 where "MAX_CONSECUTIVE_USER_MSGS = 4"

(* agent/loop.rs: const GC_INTERVAL_MSGS *)
definition GC_INTERVAL_MSGS :: u16 where "GC_INTERVAL_MSGS = 50"

text \<open>Instants are in milliseconds.\<close>

(* agent/loop.rs: const FAILURE_EXPIRY *)
definition FAILURE_EXPIRY :: nat where "FAILURE_EXPIRY = 300 * 1000"

(* agent/loop.rs: const DEFER_EXPIRY *)
definition DEFER_EXPIRY :: nat where "DEFER_EXPIRY = 300 * 1000"

datatype 'json lane_task = UserRetry "'json PcMsg" nat | SystemRetry "'json inbound_task"

record ('json, 'd) lane_world =
  lw_user :: "('json PcMsg, 'd) tracked"
  lw_system :: "('json PcMsg, 'd) tracked"
  lw_outbound :: "('json PcMsg, 'd) tracked"
  lw_delayed :: "'json lane_task DelayedTaskJob list"
  lw_pending :: "'json pending_store"
  lw_slept :: u64

text \<open>A hash map from the hash of a message to a count and an instant: its entries, with distinct keys.\<close>

type_synonym tracker = "(u64 \<times> u8 \<times> nat) list"

record lane_state =
  la_failures :: tracker
  la_defers :: tracker
  la_since_gc :: u16
  la_consecutive :: u8

definition lane_start :: lane_state where
  "lane_start = \<lparr>la_failures = [], la_defers = [], la_since_gc = 0, la_consecutive = 0\<rparr>"

datatype UiMessage = NodeMaintenance | LowMemoryUserDefer | OperationFailed | ReplyTruncated | StreamLowMemoryOmitted

text \<open>What a turn hands over to delivery.\<close>

(* agent/loop/reply_finalize.rs: struct FinalizedTurn *)
record 'json FinalizedTurn =
  ft_skip_delivery :: bool
  ft_reply_already_delivered :: bool
  ft_streamed :: bool
  ft_visible_text :: string
  ft_artifact_body :: "'json CanonicalMessageBody option"

text \<open>
  What a message meets: the clock (an instant when it is taken and one after its turn, and the time of day), the state of the
  orchestrator and the runtime mode as the gate for messages reads them, and once more as the gate of the model does, the lease of the foreground turn, what the dispatcher takes from the outbound queue
  between two attempts (or that it hangs up), the file system, and the parameters named above.
\<close>

datatype outbound_event = Takes nat | HangsUp

record ('json, 'd) lane_env =
  en_target :: target
  en_now :: nat
  en_later :: nat
  en_unix_ms :: u64
  en_horizon :: nat
  en_orchestrator :: OrchestratorState
  en_mode :: RuntimeModeSource
  en_orchestrator_llm :: OrchestratorState
  en_mode_llm :: RuntimeModeSource
  en_foreground :: "Error + unit"
  en_drains :: "outbound_event list"
  en_io :: store_io
  en_codec :: "'json retry_codec"
  en_text :: "UiMessage \<Rightarrow> string"
  en_hash :: "string \<Rightarrow> string \<Rightarrow> string \<Rightarrow> u64"
  en_req_id :: string
  en_embedded :: bool
  en_adopt :: "'json PcMsg \<Rightarrow> Error + bool"
  en_background :: "'json PcMsg \<Rightarrow> ('json, 'd) lane_world \<Rightarrow> ('json, 'd) lane_world"
  en_turn :: "'json PcMsg \<Rightarrow> ('json, 'd) lane_world \<Rightarrow> ('json, 'd) lane_world \<times> (Error + 'json FinalizedTurn)"
  en_reaction :: "bool \<Rightarrow> 'json PcMsg \<Rightarrow> ('json, 'd) lane_world \<Rightarrow> ('json, 'd) lane_world"

section \<open>Sending\<close>

text \<open>What the dispatcher does to the outbound queue meanwhile.\<close>

fun outbound_drain :: "outbound_event \<Rightarrow> ('a, 'w::len word) tracked \<Rightarrow> ('a, 'w word) tracked" where
  "outbound_drain HangsUp q = q\<lparr>tq_inner := (tq_inner q)\<lparr>sc_receiver := False\<rparr>\<rparr>"
| "outbound_drain (Takes n) q = ((\<lambda>q. fst (tracked_try_recv q)) ^^ n) q"

text \<open>
  A primary message waits for a place, however long; \<open>None\<close> is a wait that is still on when the events end. The flag says
  whether the message was put into the queue.
\<close>

(* agent/loop.rs: fn try_send_outbound *)
fun try_send_outbound :: "outbound_event list \<Rightarrow> 'json PcMsg \<Rightarrow> ('json PcMsg, 'w::len word) tracked
    \<Rightarrow> (('json PcMsg, 'w word) tracked \<times> bool) option" where
  "try_send_outbound events msg q =
     (case tracked_try_send msg q of
        (q', Inr _) \<Rightarrow> Some (q', True)
      | (q', Inl (SendFull m)) \<Rightarrow>
          (if is_supplemental (pm_outbound_kind m) then Some (q', False)
           else case events of [] \<Rightarrow> None | e # es \<Rightarrow> try_send_outbound es m (outbound_drain e q'))
      | (q', Inl (SendDisconnected _)) \<Rightarrow> Some (q', False))"

declare try_send_outbound.simps [simp del]

text \<open>A reply with a text of the program; a reply that cannot be built is logged.\<close>

definition reply_text :: "('json, 'w::len word) lane_env \<Rightarrow> 'json PcMsg \<Rightarrow> UiMessage \<Rightarrow> ('json, 'w word) lane_world
    \<Rightarrow> (('json, 'w word) lane_world \<times> bool) option" where
  "reply_text en msg m w =
     (case new_outbound_reply_to (en_target en) (en_unix_ms en) msg (en_text en m) of
        Inl _ \<Rightarrow> Some (w, False)
      | Inr out \<Rightarrow>
          map_option (\<lambda>(q, sent). (w\<lparr>lw_outbound := q\<rparr>, sent)) (try_send_outbound (en_drains en) out (lw_outbound w)))"

text \<open>Back into the queue it came from.\<close>

(* agent/loop.rs: fn choose_inbound_tx *)
definition send_inbound :: "'json PcMsg \<Rightarrow> ('json, 'w::len word) lane_world
    \<Rightarrow> ('json, 'w word) lane_world \<times> ('json PcMsg TrySendError + unit)" where
  "send_inbound msg w =
     (case pm_ingress msg of
        IngressUser \<Rightarrow> (case tracked_try_send msg (lw_user w) of (q, r) \<Rightarrow> (w\<lparr>lw_user := q\<rparr>, r))
      | IngressSystem \<Rightarrow> (case tracked_try_send msg (lw_system w) of (q, r) \<Rightarrow> (w\<lparr>lw_system := q\<rparr>, r)))"

definition save_for_restart :: "('json, 'w::len word) lane_env \<Rightarrow> 'json PcMsg \<Rightarrow> ('json, 'w word) lane_world
    \<Rightarrow> ('json, 'w word) lane_world" where
  "save_for_restart en msg w = w\<lparr>lw_pending := fst (save_pending_retry (en_codec en) (en_io en) msg (lw_pending w))\<rparr>"

text \<open>With a new time stamp into the queue, and where that is full into the slot for a restart.\<close>

definition requeue_or_save :: "('json, 'w::len word) lane_env \<Rightarrow> 'json PcMsg \<Rightarrow> ('json, 'w word) lane_world
    \<Rightarrow> ('json, 'w word) lane_world" where
  "requeue_or_save en msg w =
     (case send_inbound (msg\<lparr>pm_enqueue_ts_ms := en_unix_ms en\<rparr>) w of
        (w', Inr _) \<Rightarrow> w'
      | (w', Inl (SendFull m)) \<Rightarrow> save_for_restart en m w'
      | (w', Inl (SendDisconnected _)) \<Rightarrow> w')"

definition lane_sleep :: "u64 \<Rightarrow> ('json, 'd) lane_world \<Rightarrow> ('json, 'd) lane_world" where
  "lane_sleep ms w = w\<lparr>lw_slept := sat_add (lw_slept w) ms\<rparr>"

(* agent/loop/background_jobs.rs: fn schedule_user_inbound_retry *)
definition schedule_user_inbound_retry :: "('json, 'w::len word) lane_env \<Rightarrow> 'json PcMsg \<Rightarrow> nat
    \<Rightarrow> ('json, 'w word) lane_world \<Rightarrow> ('json, 'w word) lane_world \<times> bool" where
  "schedule_user_inbound_retry en msg delay_ms w =
     (let r = schedule_critical_delayed_task (en_target en) (en_horizon en) (en_now en) (en_now en + delay_ms)
                (UserRetry msg delay_ms) (lw_delayed w)
      in (w\<lparr>lw_delayed := so_pending r\<rparr>, case so_result r of Inr _ \<Rightarrow> True | Inl _ \<Rightarrow> False))"

text \<open>The closure of such a task when it is due.\<close>

(* agent/loop/background_jobs.rs: lines 1824-1839 the delayed task *)
definition run_user_retry :: "('json, 'w::len word) lane_env \<Rightarrow> 'json PcMsg \<Rightarrow> nat \<Rightarrow> ('json, 'w word) lane_world
    \<Rightarrow> ('json, 'w word) lane_world" where
  "run_user_retry en msg delay_ms w =
     (case tracked_try_send (msg\<lparr>pm_enqueue_ts_ms := en_unix_ms en\<rparr>) (lw_user w) of
        (q, Inr _) \<Rightarrow> w\<lparr>lw_user := q\<rparr>
      | (q, Inl (SendFull m)) \<Rightarrow> fst (schedule_user_inbound_retry en m delay_ms (w\<lparr>lw_user := q\<rparr>))
      | (q, Inl (SendDisconnected _)) \<Rightarrow> w\<lparr>lw_user := q\<rparr>)"

section \<open>A message that has to wait\<close>

definition tracker_get :: "u64 \<Rightarrow> tracker \<Rightarrow> (u8 \<times> nat) option" where
  "tracker_get key t = map_of t key"

(* agent/loop/background_jobs.rs: fn handle_admission_defer *)
definition handle_admission_defer :: "('json, 'w::len word) lane_env \<Rightarrow> u64 \<Rightarrow> 'json PcMsg \<Rightarrow> u64
    \<Rightarrow> ('json, 'w word) lane_world \<times> lane_state \<Rightarrow> (('json, 'w word) lane_world \<times> lane_state) option" where
  "handle_admission_defer en delay_ms msg key ws =
     (case ws of (w, la) \<Rightarrow>
       (let defer_count = sat_add (case tracker_get key (la_defers la) of Some (n, _) \<Rightarrow> n | None \<Rightarrow> 0) 1;
            la1 = la\<lparr>la_defers := AList.update key (defer_count, en_now en) (la_defers la)\<rparr>
        in if MAX_DEFER_RETRIES \<le> defer_count \<and> pm_ingress msg \<noteq> IngressUser
           then Some (w, la1\<lparr>la_defers := AList.delete key (la_defers la1)\<rparr>)
           else if MAX_DEFER_RETRIES \<le> defer_count
           then let retry_delay_ms = max (unat delay_ms) (unat LOW_MEM_DEFER_SLEEP_MS * 3)
                in (case schedule_user_inbound_retry en msg retry_delay_ms w of
                      (w1, parked) \<Rightarrow>
                        Some (lane_sleep delay_ms (if parked then w1 else save_for_restart en msg w1), la1))
           else (case (if pm_ingress msg = IngressUser then reply_text en msg LowMemoryUserDefer w else Some (w, False)) of
                   None \<Rightarrow> None
                 | Some (w1, _) \<Rightarrow> Some (lane_sleep delay_ms (requeue_or_save en msg w1), la1))))"

section \<open>The gates\<close>

datatype ('json, 'd) gate_result = GateProceed | GateSkipped "('json, 'd) lane_world \<times> lane_state"

(* agent/loop.rs: fn handle_llm_gate *)
definition handle_llm_gate :: "('json, 'w::len word) lane_env \<Rightarrow> 'json PcMsg \<Rightarrow> u64
    \<Rightarrow> ('json, 'w word) lane_world \<times> lane_state \<Rightarrow> ('json, 'w word) gate_result option" where
  "handle_llm_gate en msg key ws =
     (case can_call_llm_for_channel (en_target en) (en_orchestrator_llm en) (pm_channel msg) (en_mode_llm en) of
        Proceed \<Rightarrow> Some GateProceed
      | RetryLater delay_ms \<Rightarrow> map_option GateSkipped (handle_admission_defer en delay_ms msg key ws)
      | Degrade reason \<Rightarrow>
          (case ws of (w, la) \<Rightarrow>
            (if pm_ingress msg = IngressSystem then Some (GateSkipped (requeue_or_save en msg w, la))
             else map_option (\<lambda>(w', _). GateSkipped (w', la)) (reply_text en msg LowMemoryUserDefer w))))"

(* agent/loop/ingress_admission.rs: fn admit_turn *)
definition admit_turn :: "('json, 'w::len word) lane_env \<Rightarrow> 'json PcMsg \<Rightarrow> u64
    \<Rightarrow> ('json, 'w word) lane_world \<times> lane_state \<Rightarrow> ('json, 'w word) gate_result option" where
  "admit_turn en msg key ws =
     (case should_accept_inbound (en_target en) (en_orchestrator en) (pm_channel msg) (pm_ingress msg) (en_mode en) of
        Defer delay_ms \<Rightarrow> map_option GateSkipped (handle_admission_defer en delay_ms msg key ws)
      | Reject reason \<Rightarrow> Some (GateSkipped ws)
      | Accept \<Rightarrow>
          (case handle_llm_gate en msg key ws of
             Some GateProceed \<Rightarrow>
               (if pm_ingress msg = IngressUser
                then case en_foreground en of
                       Inr _ \<Rightarrow> Some GateProceed
                     | Inl _ \<Rightarrow> map_option GateSkipped (handle_admission_defer en LOW_MEM_DEFER_SLEEP_MS msg key ws)
                else Some GateProceed)
           | r \<Rightarrow> r))"

section \<open>After the turn\<close>

(* chat_stream.rs: fn is_configure_ui_stream_turn *)
definition is_configure_ui_stream_turn :: "'json PcMsg \<Rightarrow> bool" where
  "is_configure_ui_stream_turn msg \<longleftrightarrow> pm_channel msg = ''configure_ui_chat'' \<and> pm_req_id msg \<noteq> None"

text \<open>The stages of a reply that breaks its contract.\<close>

(* agent/final_reply.rs: fn is_reply_contract_breach_stage *)
definition is_reply_contract_breach_stage :: "string \<Rightarrow> bool" where
  "is_reply_contract_breach_stage stage \<longleftrightarrow> stage \<in> {''producer_empty'', ''artifact_only_reply'', ''internal_artifact_reply'', ''meta_instruction_reply''}"

(* agent/loop/worker_error.rs: fn worker_path_error_uses_maintenance_copy *)
definition worker_path_error_uses_maintenance_copy :: "Error \<Rightarrow> bool" where
  "worker_path_error_uses_maintenance_copy e \<longleftrightarrow> \<not> is_reply_contract_breach_stage (err_stage e)"

text \<open>Another failure of a message; the instant stays that of its first one.\<close>

(* agent/loop/worker_error.rs: lines 68-72 the count *)
definition count_failure :: "u64 \<Rightarrow> nat \<Rightarrow> tracker \<Rightarrow> u8 \<times> tracker" where
  "count_failure key now t =
     (let (n, ts) = (case tracker_get key t of Some e \<Rightarrow> e | None \<Rightarrow> (0, now));
          n' = sat_add n 1
      in (n', AList.update key (n', ts) t))"

(* agent/loop/worker_error.rs: lines 100-102 the pause before a retry *)
definition agent_retry_delay_ms :: "u8 \<Rightarrow> u64" where
  "agent_retry_delay_ms counter = min (AGENT_RETRY_BASE_MS * push_bit (unat (min counter 4)) 1) AGENT_RETRY_MAX_MS"

(* agent/loop/worker_error.rs: fn handle_worker_path_error *)
definition handle_worker_path_error :: "('json, 'w::len word) lane_env \<Rightarrow> Error \<Rightarrow> 'json PcMsg \<Rightarrow> u64
    \<Rightarrow> ('json, 'w word) lane_world \<times> lane_state \<Rightarrow> (('json, 'w word) lane_world \<times> lane_state) option" where
  "handle_worker_path_error en e msg key ws =
     (case ws of (w, la) \<Rightarrow>
       (let maintenance = worker_path_error_uses_maintenance_copy e;
            (counter, failures) = (if maintenance then count_failure key (en_later en) (la_failures la) else (0, la_failures la));
            la1 = la\<lparr>la_failures := failures\<rparr>
        in if maintenance \<and> counter < 3 \<and> is_retryable_upstream e
           then Some (lane_sleep (agent_retry_delay_ms counter) (requeue_or_save en msg w), la1)
           else if is_configure_ui_stream_turn msg then Some (w, la1)
           else (case reply_text en msg (if maintenance then NodeMaintenance else OperationFailed) w of
                   None \<Rightarrow> None
                 | Some (w1, sent) \<Rightarrow> Some (if sent then en_reaction en False msg w1 else w1, la1))))"

(* agent/loop/delivery_handoff.rs: fn deliver_turn *)
definition deliver_turn :: "('json, 'w::len word) lane_env \<Rightarrow> 'json PcMsg \<Rightarrow> 'json FinalizedTurn
    \<Rightarrow> ('json, 'w word) lane_world \<Rightarrow> (('json, 'w word) lane_world \<times> bool) option" where
  "deliver_turn en msg ft w =
     (if ft_skip_delivery ft then Some (w, False)
      else map_option (\<lambda>(w1, delivered). (if delivered then en_reaction en True msg w1 else w1, delivered))
        (if ft_reply_already_delivered ft \<or> is_configure_ui_stream_turn msg \<or> ft_streamed ft then Some (w, True)
         else case (case ft_artifact_body ft of
                 Some body \<Rightarrow> new_outbound_reply_to_with_body_projection (en_target en) (en_unix_ms en) msg body (ft_visible_text ft)
               | None \<Rightarrow> new_outbound_reply_to (en_target en) (en_unix_ms en) msg (ft_visible_text ft)) of
           Inl _ \<Rightarrow> Some (w, False)
         | Inr out \<Rightarrow>
             map_option (\<lambda>(q, sent). (w\<lparr>lw_outbound := q\<rparr>, sent)) (try_send_outbound (en_drains en) out (lw_outbound w))))"

text \<open>A turn that came to its end clears both counts of its message; what it keeps of the conversation is left out.\<close>

(* agent/loop/reply_finalize.rs: lines 425-426 and 496-497 the counts *)
definition clear_counts :: "u64 \<Rightarrow> lane_state \<Rightarrow> lane_state" where
  "clear_counts key la = la\<lparr>la_failures := AList.delete key (la_failures la), la_defers := AList.delete key (la_defers la)\<rparr>"

section \<open>One message\<close>

(* agent/loop.rs: fn is_detached_work_wake *)
definition is_detached_work_wake :: "'json PcMsg \<Rightarrow> bool" where
  "is_detached_work_wake msg \<longleftrightarrow> pm_ingress msg = IngressSystem \<and> pm_channel msg = ''_detached_work_wake''"

(* agent/loop.rs: fn is_lane_background_job *)
definition is_lane_background_job :: "'json PcMsg \<Rightarrow> bool" where
  "is_lane_background_job msg \<longleftrightarrow> pm_ingress msg = IngressSystem
     \<and> pm_channel msg \<in> {''_memory_refresh'', ''_post_reply_maintenance'', ''_idle_memory_forge'', ''_self_runtime'',
          ''_operator_maintenance'', ''_detached_work_wake''}"

(* agent/loop.rs: fn should_persist_background_job_as_detached *)
definition should_persist_background_job_as_detached :: "bool \<Rightarrow> 'json PcMsg \<Rightarrow> bool" where
  "should_persist_background_job_as_detached embedded msg \<longleftrightarrow>
     \<not> (embedded \<and> is_lane_background_job msg \<and> \<not> is_detached_work_wake msg)"

(* agent/loop.rs: lines 1886-1910 the adoption of a background job *)
definition adopted_or_failed :: "('json, 'd) lane_env \<Rightarrow> 'json PcMsg \<Rightarrow> bool" where
  "adopted_or_failed en msg \<longleftrightarrow>
     pm_ingress msg = IngressSystem \<and> is_lane_background_job msg \<and> \<not> is_detached_work_wake msg
     \<and> should_persist_background_job_as_detached (en_embedded en) msg
     \<and> (case en_adopt en msg of Inr b \<Rightarrow> b | Inl _ \<Rightarrow> True)"

definition expire :: "nat \<Rightarrow> nat \<Rightarrow> tracker \<Rightarrow> tracker" where
  "expire now expiry t = filter (\<lambda>(_, _, ts). now - ts < expiry) t"

(* agent/loop.rs: lines 1911-1948 the counters of the lane *)
definition note_message :: "nat \<Rightarrow> IngressKind \<Rightarrow> lane_state \<Rightarrow> lane_state" where
  "note_message now ingress la =
     (let la1 = la\<lparr>la_consecutive := (if ingress = IngressSystem then 0 else sat_add (la_consecutive la) 1),
                   la_since_gc := la_since_gc la + 1\<rparr>
      in if GC_INTERVAL_MSGS \<le> la_since_gc la1 \<or> 64 < length (la_failures la1) \<or> 64 < length (la_defers la1)
         then la1\<lparr>la_since_gc := 0, la_failures := expire now FAILURE_EXPIRY (la_failures la1),
                  la_defers := expire now DEFER_EXPIRY (la_defers la1)\<rparr>
         else la1)"

(* agent/loop.rs: lines 1957-1962 a message that keeps failing *)
definition keeps_failing :: "nat \<Rightarrow> u64 \<Rightarrow> lane_state \<Rightarrow> bool" where
  "keeps_failing now key la \<longleftrightarrow>
     (case tracker_get key (la_failures la) of
        Some (n, ts) \<Rightarrow> 3 \<le> n \<and> now - ts < FAILURE_EXPIRY | None \<Rightarrow> False)"

(* agent/loop.rs: lines 1886-2125 one round of run_agent_loop_main behind the receive *)
definition lane_step :: "('json, 'w::len word) lane_env \<Rightarrow> 'json PcMsg
    \<Rightarrow> ('json, 'w word) lane_world \<times> lane_state \<Rightarrow> (('json, 'w word) lane_world \<times> lane_state) option" where
  "lane_step en msg0 ws =
     (case ws of (w, la0) \<Rightarrow>
       (if adopted_or_failed en msg0 then Some (w, la0)
        else
          let msg = (if pm_req_id msg0 = None then msg0\<lparr>pm_req_id := Some (en_req_id en)\<rparr> else msg0);
              la = note_message (en_now en) (pm_ingress msg) la0;
              key = en_hash en (pm_channel msg) (pm_chat_id msg) (pm_content msg)
          in if keeps_failing (en_now en) key la
             then map_option (\<lambda>(w', _). (w', la)) (reply_text en msg NodeMaintenance w)
             else if is_background_job (classify_system_work (pm_channel msg) (pm_ingress msg)) \<and> is_lane_background_job msg
             then Some (en_background en msg w, la)
             else (case admit_turn en msg key (w, la) of
                 None \<Rightarrow> None
               | Some (GateSkipped ws') \<Rightarrow> Some ws'
               | Some GateProceed \<Rightarrow>
                   (case en_turn en msg w of
                      (w1, Inl e) \<Rightarrow> handle_worker_path_error en e msg key (w1, la)
                    | (w1, Inr ft) \<Rightarrow>
                        map_option (\<lambda>(w2, _). (w2, clear_counts key la)) (deliver_turn en msg ft w1)))))"

section \<open>Receiving\<close>

text \<open>
  What happens around one poll: arrivals before it, arrivals while it waits, and whether its deadline has passed. \<open>None\<close> is a
  receive that is still on when the list ends.
\<close>

record ('json, 'd) poll =
  po_before :: "('json, 'd) lane_world \<Rightarrow> ('json, 'd) lane_world"
  po_while :: "('json, 'd) lane_world \<Rightarrow> ('json, 'd) lane_world"
  po_late :: bool

(* agent/loop.rs: enum AgentRecvStatus *)
datatype 'json AgentRecvStatus = RecvMessage "'json PcMsg" | RecvTimedOut | RecvClosed

definition take_user :: "('json, 'w::len word) lane_world \<Rightarrow> ('json, 'w word) lane_world \<times> (TryRecvError + 'json PcMsg)" where
  "take_user w = (case tracked_try_recv (lw_user w) of (q, r) \<Rightarrow> (w\<lparr>lw_user := q\<rparr>, r))"

definition take_system :: "('json, 'w::len word) lane_world \<Rightarrow> ('json, 'w word) lane_world \<times> (TryRecvError + 'json PcMsg)" where
  "take_system w = (case tracked_try_recv (lw_system w) of (q, r) \<Rightarrow> (w\<lparr>lw_system := q\<rparr>, r))"

definition wait_user :: "('json, 'w::len word) lane_world \<Rightarrow> ('json, 'w word) lane_world \<times> (RecvTimeoutError + 'json PcMsg)" where
  "wait_user w = (case tracked_recv_timeout (lw_user w) of (q, r) \<Rightarrow> (w\<lparr>lw_user := q\<rparr>, r))"

text \<open>One look at a queue that has not hung up: a message ends the receive, else the flag of the queue goes on.\<close>

definition look :: "(('json, 'd) lane_world \<Rightarrow> ('json, 'd) lane_world \<times> (TryRecvError + 'json PcMsg)) \<Rightarrow> bool \<Rightarrow> bool
    \<Rightarrow> ('json, 'd) lane_world \<Rightarrow> ('json, 'd) lane_world \<times> ('json PcMsg + bool)" where
  "look tk wanted gone w =
     (if wanted \<and> \<not> gone
      then case tk w of
             (w', Inr msg) \<Rightarrow> (w', Inl msg)
           | (w', Inl RecvDisconnected) \<Rightarrow> (w', Inr True)
           | (w', Inl RecvEmpty) \<Rightarrow> (w', Inr gone)
      else (w, Inr gone))"

(* agent/loop/driver.rs: fn recv_next_agent_msg *)
fun recv_next_agent_msg :: "bool \<Rightarrow> bool \<Rightarrow> bool \<Rightarrow> ('json, 'w::len word) poll list \<Rightarrow> ('json, 'w word) lane_world
    \<Rightarrow> (('json, 'w word) lane_world \<times> 'json AgentRecvStatus) option" where
  "recv_next_agent_msg prefer ug sg [] w = None"
| "recv_next_agent_msg prefer ug sg (p # ps) w =
     (case look take_system prefer sg (po_before p w) of
        (w1, Inl msg) \<Rightarrow> Some (w1, RecvMessage msg)
      | (w1, Inr sg1) \<Rightarrow>
          (case look take_user True ug w1 of
             (w2, Inl msg) \<Rightarrow> Some (w2, RecvMessage msg)
           | (w2, Inr ug1) \<Rightarrow>
               (case look take_system True sg1 w2 of
                  (w3, Inl msg) \<Rightarrow> Some (w3, RecvMessage msg)
                | (w3, Inr sg2) \<Rightarrow>
                    (if ug1 \<and> sg2 then Some (w3, RecvClosed)
                     else if po_late p then Some (w3, RecvTimedOut)
                     else if ug1 then recv_next_agent_msg prefer ug1 sg2 ps (po_while p w3)
                     else case wait_user (po_while p w3) of
                       (w4, Inr msg) \<Rightarrow> Some (w4, RecvMessage msg)
                     | (w4, Inl RecvTimeoutDisconnected) \<Rightarrow> recv_next_agent_msg prefer True sg2 ps w4
                     | (w4, Inl RecvTimeout) \<Rightarrow> recv_next_agent_msg prefer ug1 sg2 ps w4))))"

text \<open>A system message is preferred after four user messages in a row.\<close>

(* agent/loop.rs: lines 1850-1884 the receive of the lane *)
definition lane_receive :: "('json, 'w::len word) poll list \<Rightarrow> ('json, 'w word) lane_world \<times> lane_state
    \<Rightarrow> (('json, 'w word) lane_world \<times> 'json AgentRecvStatus) option" where
  "lane_receive polls ws =
     recv_next_agent_msg (MAX_CONSECUTIVE_USER_MSGS \<le> la_consecutive (snd ws)) False False polls (fst ws)"

text \<open>
  The rounds of the lane, each with what it meets. The loop ends when both queues have hung up; \<open>None\<close> is a round that is still
  on.
\<close>

(* agent/loop.rs: fn run_agent_loop_main *)
fun run_agent_loop_main :: "(('json, 'w::len word) poll list \<times> ('json, 'w word) lane_env) list
    \<Rightarrow> ('json, 'w word) lane_world \<times> lane_state \<Rightarrow> (('json, 'w word) lane_world \<times> lane_state) option" where
  "run_agent_loop_main [] ws = Some ws"
| "run_agent_loop_main ((polls, en) # rounds) ws =
     (case lane_receive polls ws of
        None \<Rightarrow> None
      | Some (w, RecvClosed) \<Rightarrow> Some (w, snd ws)
      | Some (w, RecvTimedOut) \<Rightarrow> run_agent_loop_main rounds (w, snd ws)
      | Some (w, RecvMessage msg) \<Rightarrow>
          (case lane_step en msg (w, snd ws) of None \<Rightarrow> None | Some ws' \<Rightarrow> run_agent_loop_main rounds ws'))"

end
