(* ===== verification/Agent_Lane_Laws.thy ===== *)
theory Agent_Lane_Laws
  imports Agent_Lane
begin

text \<open>
  Properties of the lane: no message of a user gets lost at the gates, a reply waits for its place, after four messages of
  users the system queue has its turn, and how far the two counters of the lane hold what they are for.
\<close>

section \<open>Queues\<close>

lemma try_send_cases:
  "tracked_try_send msg q =
     (if \<not> sc_receiver (tq_inner q) then (q, Inl (SendDisconnected msg))
      else if sc_capacity (tq_inner q) \<le> length (queued q) then (q, Inl (SendFull msg))
      else (q\<lparr>tq_inner := (tq_inner q)\<lparr>sc_queue := queued q @ [msg]\<rparr>, tq_depth := tq_depth q + 1\<rparr>, Inr ()))"
  by (simp add: tracked_defs)

lemma try_recv_cases:
  "tracked_try_recv q =
     (case queued q of
        x # xs \<Rightarrow> (q\<lparr>tq_inner := (tq_inner q)\<lparr>sc_queue := xs\<rparr>, tq_depth := tq_depth q - 1\<rparr>, Inr x)
      | [] \<Rightarrow> (q, Inl (if sc_senders (tq_inner q) = 0 then RecvDisconnected else RecvEmpty)))"
  by (simp add: tracked_defs split: list.split)

lemma queued_update [simp]: "queued (q\<lparr>tq_inner := c, tq_depth := d\<rparr>) = sc_queue c" "queued (q\<lparr>tq_inner := c\<rparr>) = sc_queue c"
  by (simp_all add: queued_def)

text \<open>What the dispatcher takes leaves the rest, the capacity and the receiver as they are.\<close>

lemma drained:
  "queued (outbound_drain (Takes n) q) = drop n (queued q)
   \<and> sc_capacity (tq_inner (outbound_drain (Takes n) q)) = sc_capacity (tq_inner q)
   \<and> sc_receiver (tq_inner (outbound_drain (Takes n) q)) = sc_receiver (tq_inner q)"
proof (induction n)
  case (Suc n)
  let ?q = "outbound_drain (Takes n) q"
  have step: "outbound_drain (Takes (Suc n)) q = fst (tracked_try_recv ?q)" by simp
  show ?case
  proof (cases "queued ?q")
    case Nil
    then have "length (queued q) \<le> n" using Suc by simp
    then show ?thesis using Suc Nil unfolding step by (simp add: try_recv_cases)
  next
    case (Cons x xs)
    then have "drop n (queued q) = x # xs" using Suc by simp
    then have "drop (Suc n) (queued q) = xs" by (metis drop_Suc list.sel(3) tl_drop)
    then show ?thesis using Suc Cons unfolding step by (simp add: try_recv_cases)
  qed
qed simp

section \<open>A reply waits for its place\<close>



text \<open>Whatever happens meanwhile: a primary message that is not sent met a queue that nobody reads any more.\<close>

lemma try_send_outbound_result:
  assumes "try_send_outbound events msg q = Some (q', sent)" "\<not> is_supplemental (pm_outbound_kind msg)"
  shows "(sent \<longrightarrow> (\<exists>k. queued q' = drop k (queued q) @ [msg])) \<and> (\<not> sent \<longrightarrow> \<not> sc_receiver (tq_inner q) \<or> HangsUp \<in> set events)"
  using assms(1)
proof (induction events arbitrary: q)
  case Nil
  then show ?case
    using assms(2) by (auto simp: try_send_outbound.simps[of "[]"] try_send_cases split: if_splits intro: exI[where x = 0])
next
  case (Cons e es)
  show ?case
  proof (cases "sc_receiver (tq_inner q) \<and> sc_capacity (tq_inner q) \<le> length (queued q)")
    case False
    then show ?thesis
      using Cons(2) by (auto simp: try_send_outbound.simps[of "e # es"] try_send_cases split: if_splits intro: exI[where x = 0])
  next
    case True
    then have go: "try_send_outbound es msg (outbound_drain e q) = Some (q', sent)"
      using Cons(2) assms(2) by (simp add: try_send_outbound.simps[of "e # es"] try_send_cases)
    show ?thesis
    proof (cases e)
      case HangsUp
      then show ?thesis using Cons(1)[OF go] by (auto simp: queued_def)
    next
      case (Takes m)
      then show ?thesis using Cons(1)[OF go] drained[of m q] by (auto simp del: outbound_drain.simps)
    qed
  qed
qed

lemma reply_is_primary: "new_outbound_reply_to t now source content = Inr out \<Longrightarrow> \<not> is_supplemental (pm_outbound_kind out)"
  by (auto simp: new_outbound_reply_to_def new_outbound_for_chat_with_body_def copy_inbound_provenance_from_def pcmsg_build_def
      is_supplemental_def split: sum.splits)

section \<open>No message of a user gets lost at the gates\<close>

text \<open>The message, with some time stamp, is in the user queue, among the delayed tasks, or in the slot for a restart.\<close>

definition kept :: "'json PcMsg \<Rightarrow> ('json, 'w::len word) lane_world \<Rightarrow> bool" where
  "kept msg w \<longleftrightarrow>
     (\<exists>ts. let m = msg\<lparr>pm_enqueue_ts_ms := ts\<rparr> in
        m \<in> set (queued (lw_user w))
      \<or> (\<exists>job \<in> set (lw_delayed w). \<exists>d. dj_task job = Some (UserRetry m d))
      \<or> map_option pe_msg (pc_entry (lw_pending w)) = Some m)"

lemma keptI_queue: "msg\<lparr>pm_enqueue_ts_ms := ts\<rparr> \<in> set (queued (lw_user w)) \<Longrightarrow> kept msg w"
  by (auto simp: kept_def Let_def)

lemma keptI_pending: "map_option pe_msg (pc_entry (lw_pending w)) = Some (msg\<lparr>pm_enqueue_ts_ms := ts\<rparr>) \<Longrightarrow> kept msg w"
  by (auto simp: kept_def Let_def)

lemma kept_sleep [simp]: "kept msg (lane_sleep ms w) = kept msg w"
  by (simp add: kept_def lane_sleep_def)

lemma same_stamp: "msg\<lparr>pm_enqueue_ts_ms := pm_enqueue_ts_ms msg\<rparr> = (msg :: 'json PcMsg)"
  by simp

text \<open>The slot cannot take the message.\<close>

definition slot_fails :: "('json, 'w::len word) lane_env \<Rightarrow> 'json PcMsg \<Rightarrow> 'json pending_store \<Rightarrow> bool" where
  "slot_fails en msg s \<longleftrightarrow>
     (\<exists>ts e. snd (save_pending_retry (en_codec en) (en_io en) (msg\<lparr>pm_enqueue_ts_ms := ts\<rparr>) s) = Inl e)"

lemma save_keeps: "snd (save_pending_retry cd io msg s) = Inr () \<Longrightarrow>
    map_option pe_msg (pc_entry (fst (save_pending_retry cd io msg s))) = Some msg"
  by (auto simp: save_pending_retry_def Let_def split: sum.splits prod.splits if_splits option.splits)

lemma save_for_restart_keeps:
  "kept msg (save_for_restart en (msg\<lparr>pm_enqueue_ts_ms := ts\<rparr>) w) \<or> slot_fails en msg (lw_pending w)"
proof (cases "snd (save_pending_retry (en_codec en) (en_io en) (msg\<lparr>pm_enqueue_ts_ms := ts\<rparr>) (lw_pending w))")
  case (Inr u)
  then have "map_option pe_msg (pc_entry (fst (save_pending_retry (en_codec en) (en_io en) (msg\<lparr>pm_enqueue_ts_ms := ts\<rparr>) (lw_pending w))))
      = Some (msg\<lparr>pm_enqueue_ts_ms := ts\<rparr>)" by (intro save_keeps) simp
  then have "kept msg (save_for_restart en (msg\<lparr>pm_enqueue_ts_ms := ts\<rparr>) w)"
    by (intro keptI_pending[where ts = ts]) (simp add: save_for_restart_def)
  then show ?thesis ..
qed (auto simp: slot_fails_def)

lemma requeue_keeps:
  assumes "pm_ingress msg = IngressUser" "sc_receiver (tq_inner (lw_user w))"
  shows "kept msg (requeue_or_save en msg w) \<or> slot_fails en msg (lw_pending w)"
proof (cases "sc_capacity (tq_inner (lw_user w)) \<le> length (queued (lw_user w))")
  case True
  then show ?thesis
    using assms save_for_restart_keeps[of msg en "en_unix_ms en" w]
    by (simp add: requeue_or_save_def send_inbound_def try_send_cases)
next
  case False
  then have "kept msg (requeue_or_save en msg w)"
    using assms by (intro keptI_queue[where ts = "en_unix_ms en"]) (simp add: requeue_or_save_def send_inbound_def try_send_cases)
  then show ?thesis ..
qed

lemma parked_keeps:
  assumes "schedule_user_inbound_retry en msg d w = (w1, parked)"
  shows "(parked \<longrightarrow> kept msg w1) \<and> lw_pending w1 = lw_pending w"
proof -
  have "\<exists>job \<in> set (lw_delayed w1). dj_task job = Some (UserRetry msg d)" if parked
    using assms that
    by (auto simp: schedule_user_inbound_retry_def schedule_critical_delayed_task_def schedule_delayed_task_with_priority_def
          schedule_delayed_task_with_priority_and_key_def schedule_delayed_task_with_priority_key_and_bound_def Let_def
          pushed_def split: if_splits sum.splits)
  then show ?thesis
    using assms same_stamp[of msg]
    by (auto simp: kept_def schedule_user_inbound_retry_def Let_def) (metis same_stamp)
qed

lemma reply_keeps_world: "reply_text en msg m w = Some (w', b) \<Longrightarrow> lw_user w' = lw_user w \<and> lw_pending w' = lw_pending w"
  by (auto simp: reply_text_def split: sum.splits)

lemma deferral_keeps:
  assumes "handle_admission_defer en d msg key (w, la) = Some (w', la')" "pm_ingress msg = IngressUser"
    and "sc_receiver (tq_inner (lw_user w))"
  shows "kept msg w' \<or> slot_fails en msg (lw_pending w)"
proof -
  define n where "n = sat_add (case tracker_get key (la_defers la) of Some (n, _) \<Rightarrow> n | None \<Rightarrow> 0) 1"
  show ?thesis
  proof (cases "MAX_DEFER_RETRIES \<le> n")
    case True
    obtain w1 parked where p: "schedule_user_inbound_retry en msg (max (unat d) (unat LOW_MEM_DEFER_SLEEP_MS * 3)) w = (w1, parked)"
      by (cases "schedule_user_inbound_retry en msg (max (unat d) (unat LOW_MEM_DEFER_SLEEP_MS * 3)) w")
    then have "w' = lane_sleep d (if parked then w1 else save_for_restart en msg w1)"
      using assms(1, 2) True by (simp add: handle_admission_defer_def Let_def n_def[symmetric])
    then show ?thesis
      using parked_keeps[OF p] save_for_restart_keeps[of msg en "pm_enqueue_ts_ms msg" w1] by (auto split: if_splits)
  next
    case False
    then obtain w1 b where "reply_text en msg LowMemoryUserDefer w = Some (w1, b)"
      "w' = lane_sleep d (requeue_or_save en msg w1)"
      using assms(1, 2) by (auto simp: handle_admission_defer_def Let_def n_def[symmetric] split: option.splits)
    then show ?thesis
      using reply_keeps_world requeue_keeps[OF assms(2), of w1 en] assms(3) by fastforce
  qed
qed

lemma user_never_rejected: "should_accept_inbound t st channel IngressUser source \<noteq> Reject reason"
  by (auto simp: should_accept_inbound_def should_accept_inbound_with_mode_def classify_system_work_def Let_def
        split: option.splits PressureLevel.splits)

text \<open>The user was told: the reply stands at the end of the outbound queue. Or it could not be: there is no such reply, or nobody
  reads the queue.\<close>

definition told :: "('json, 'w::len word) lane_env \<Rightarrow> 'json PcMsg \<Rightarrow> UiMessage \<Rightarrow> ('json, 'w word) lane_world \<Rightarrow> bool" where
  "told en msg m w \<longleftrightarrow>
     (\<exists>before out. new_outbound_reply_to (en_target en) (en_unix_ms en) msg (en_text en m) = Inr out \<and> queued (lw_outbound w) = before @ [out])"

definition cannot_be_told :: "('json, 'w::len word) lane_env \<Rightarrow> 'json PcMsg \<Rightarrow> UiMessage \<Rightarrow> ('json, 'w word) lane_world \<Rightarrow> bool" where
  "cannot_be_told en msg m w \<longleftrightarrow>
     (\<exists>e. new_outbound_reply_to (en_target en) (en_unix_ms en) msg (en_text en m) = Inl e)
     \<or> \<not> sc_receiver (tq_inner (lw_outbound w)) \<or> HangsUp \<in> set (en_drains en)"

lemma reply_text_result:
  assumes "reply_text en msg m w = Some (w', sent)"
  shows "told en msg m w' \<or> cannot_be_told en msg m w"
proof (cases "new_outbound_reply_to (en_target en) (en_unix_ms en) msg (en_text en m)")
  case (Inr out)
  then obtain q where q: "try_send_outbound (en_drains en) out (lw_outbound w) = Some (q, sent)" "lw_outbound w' = q"
    using assms by (auto simp: reply_text_def)
  from try_send_outbound_result[OF q(1) reply_is_primary[OF Inr]] show ?thesis
    using Inr q(2) by (cases sent) (auto simp: told_def cannot_be_told_def)
qed (simp add: cannot_be_told_def)

text \<open>
  C3: no message of a user gets lost at the gates. When the gates do not let the turn of a message of a user begin, then
  afterwards the message (with a time stamp of its own) is in the user queue, or parked among the delayed tasks, or in the slot
  for a restart; or writing the slot failed; or the gate of the model says that it may not be called at all, and then the
  reply that tells the user so is the last of the outbound queue, unless such a reply cannot be built or the outbound queue
  has lost its reader. The gates are those of the orchestrator, in every state and mode of it; that the lane reads
  the user queue is assumed.
\<close>
theorem gated_user_message_is_kept:
  assumes "admit_turn en msg key (w, la) = Some (GateSkipped (w', la'))"
    and "pm_ingress msg = IngressUser" "sc_receiver (tq_inner (lw_user w))"
  shows "kept msg w' \<or> slot_fails en msg (lw_pending w)
    \<or> ((\<exists>reason. can_call_llm_for_channel (en_target en) (en_orchestrator_llm en) (pm_channel msg) (en_mode_llm en) = Degrade reason)
       \<and> (told en msg LowMemoryUserDefer w' \<or> cannot_be_told en msg LowMemoryUserDefer w))"
proof (cases "should_accept_inbound (en_target en) (en_orchestrator en) (pm_channel msg) IngressUser (en_mode en)")
  case (Defer d)
  then show ?thesis using assms deferral_keeps[of en d msg key w la w' la'] by (auto simp: admit_turn_def)
next
  case (Reject reason)
  then show ?thesis using user_never_rejected by metis
next
  case Accept
  show ?thesis
  proof (cases "can_call_llm_for_channel (en_target en) (en_orchestrator_llm en) (pm_channel msg) (en_mode_llm en)")
    case Proceed
    then show ?thesis
      using assms Accept deferral_keeps[of en LOW_MEM_DEFER_SLEEP_MS msg key w la w' la']
      by (auto simp: admit_turn_def handle_llm_gate_def split: sum.splits)
  next
    case (RetryLater d)
    then show ?thesis
      using assms Accept deferral_keeps[of en d msg key w la w' la']
      by (auto simp: admit_turn_def handle_llm_gate_def split: option.splits gate_result.splits)
  next
    case (Degrade reason)
    then obtain sent where "reply_text en msg LowMemoryUserDefer w = Some (w', sent)"
      using assms Accept by (auto simp: admit_turn_def handle_llm_gate_def split: option.splits gate_result.splits)
    from reply_text_result[OF this] Degrade show ?thesis by blast
  qed
qed

section \<open>Turns of the two queues\<close>

lemma u8_less: "unat (x :: u8) < 256"
  using unsigned_less[of x] by simp

lemma defer_counters:
  "handle_admission_defer en d msg key (w, la) = Some (w', la') \<Longrightarrow> la_consecutive la' = la_consecutive la"
  by (auto simp: handle_admission_defer_def Let_def split: if_splits option.splits prod.splits)

lemma admit_counters: "admit_turn en msg key (w, la) = Some (GateSkipped (w', la')) \<Longrightarrow> la_consecutive la' = la_consecutive la"
  by (auto simp: admit_turn_def handle_llm_gate_def dest: defer_counters
        split: AdmissionDecision.splits LlmDecision.splits option.splits gate_result.splits if_splits sum.splits)

lemma error_counters: "handle_worker_path_error en e msg key (w, la) = Some (w', la') \<Longrightarrow> la_consecutive la' = la_consecutive la"
  by (auto simp: handle_worker_path_error_def Let_def split: if_splits option.splits prod.splits)

lemma note_counters:
  "la_consecutive (note_message now ingress la) = (if ingress = IngressSystem then 0 else sat_add (la_consecutive la) 1)"
  by (simp add: note_message_def Let_def)

lemma step_counters:
  assumes "lane_step en msg (w, la) = Some (w', la')"
  shows "la_consecutive la' = (if adopted_or_failed en msg then la_consecutive la
     else if pm_ingress msg = IngressSystem then 0 else sat_add (la_consecutive la) 1)"
  using assms
  by (auto simp: lane_step_def Let_def note_counters clear_counts_def
        split: if_splits option.splits gate_result.splits sum.splits prod.splits dest!: admit_counters error_counters)

text \<open>Rounds that have received these messages.\<close>

fun lane_steps :: "(('json, 'w::len word) lane_env \<times> 'json PcMsg) list \<Rightarrow> ('json, 'w word) lane_world \<times> lane_state
    \<Rightarrow> (('json, 'w word) lane_world \<times> lane_state) option" where
  "lane_steps [] ws = Some ws"
| "lane_steps ((en, msg) # steps) ws = Option.bind (lane_step en msg ws) (lane_steps steps)"

lemma user_steps:
  assumes "lane_steps steps (w, la) = Some (w', la')" "\<forall>(en, msg) \<in> set steps. pm_ingress msg = IngressUser"
  shows "unat (la_consecutive la') = min (unat (la_consecutive la) + length steps) 255"
  using assms
proof (induction steps arbitrary: w la)
  case Nil
  then show ?case using u8_less[of "la_consecutive la"] by simp
next
  case (Cons step steps)
  obtain en msg where step: "step = (en, msg)" by (cases step)
  then obtain w1 la1 where s: "lane_step en msg (w, la) = Some (w1, la1)" "lane_steps steps (w1, la1) = Some (w', la')"
    using Cons(2) by (auto simp: bind_eq_Some_conv)
  have "la_consecutive la1 = sat_add (la_consecutive la) 1"
    using step_counters[OF s(1)] Cons(3) step by (auto simp: adopted_or_failed_def)
  then show ?case using Cons(1)[OF s(2)] Cons(3) u8_less[of "la_consecutive la"] by (simp add: unat_sat_add)
qed

text \<open>
  C20: the system queue has its turn. After four rounds in a row, or more, that took a message of a user, whatever these
  rounds did, the next receive takes the first message of the system queue if there is one, however many messages of users
  are waiting.
\<close>
theorem system_queue_is_heard:
  assumes "lane_steps steps (w0, la0) = Some (w, la)" "4 \<le> length steps"
    and "\<forall>(en, msg) \<in> set steps. pm_ingress msg = IngressUser"
    and "queued (lw_system (po_before p w)) = m # ms"
  shows "\<exists>w'. lane_receive (p # ps) (w, la) = Some (w', RecvMessage m)
     \<and> queued (lw_system w') = ms \<and> lw_user w' = lw_user (po_before p w)"
proof -
  have "4 \<le> unat (la_consecutive la)" using user_steps[OF assms(1, 3)] assms(2) by simp
  then have "MAX_CONSECUTIVE_USER_MSGS \<le> la_consecutive la" by (simp add: MAX_CONSECUTIVE_USER_MSGS_def word_le_nat_alt)
  then show ?thesis using assms(4) by (simp add: lane_receive_def look_def take_system_def try_recv_cases)
qed

text \<open>
  The limit of that preference. A job that the lane adopts (or fails to adopt) ends its round before the counter is
  touched, so the preference, which is meant for one message, holds on: once four messages of users have been taken in a
  row, any number of such jobs in the system queue is worked off, one round each, before the lane looks at the user queue
  again.
\<close>
theorem preference_outlasts_adopted_jobs:
  assumes "4 \<le> la_consecutive la" "queued (lw_system w) = jobs" "\<forall>job \<in> set jobs. adopted_or_failed en job"
    and "\<And>v. po_before p v = v"
  shows "\<exists>w'. run_agent_loop_main (replicate (length jobs) ([p], en)) (w, la) = Some (w', la)
     \<and> queued (lw_system w') = [] \<and> lw_user w' = lw_user w"
  using assms(2, 3)
proof (induction jobs arbitrary: w)
  case (Cons job jobs)
  let ?w = "w\<lparr>lw_system := (lw_system w)\<lparr>tq_inner := (tq_inner (lw_system w))\<lparr>sc_queue := jobs\<rparr>,
      tq_depth := tq_depth (lw_system w) - 1\<rparr>\<rparr>"
  have "lane_receive [p] (w, la) = Some (?w, RecvMessage job)"
    using Cons(2) assms(1, 4) by (simp add: lane_receive_def look_def take_system_def try_recv_cases MAX_CONSECUTIVE_USER_MSGS_def)
  moreover have "lane_step en job (?w, la) = Some (?w, la)" using Cons(3) by (simp add: lane_step_def)
  moreover obtain w' where "run_agent_loop_main (replicate (length jobs) ([p], en)) (?w, la) = Some (w', la)"
    "queued (lw_system w') = []" "lw_user w' = lw_user w"
    using Cons(1)[of ?w] Cons(3) by auto
  ultimately show ?case by simp
qed simp

section \<open>Messages that keep failing\<close>

lemma tracker_update [simp]: "tracker_get key (AList.update key v t) = Some v"
  by (simp add: tracker_get_def update_conv')

definition failures_at :: "u64 \<Rightarrow> nat list \<Rightarrow> tracker \<Rightarrow> tracker" where
  "failures_at key instants t = fold (\<lambda>now t. snd (count_failure key now t)) instants t"

lemma count_some: "tracker_get key t = Some (n, ts) \<Longrightarrow> tracker_get key (snd (count_failure key now t)) = Some (sat_add n 1, ts)"
  by (simp add: count_failure_def Let_def)

lemma count_none: "tracker_get key t = None \<Longrightarrow> tracker_get key (snd (count_failure key now t)) = Some (sat_add 0 1, now)"
  by (simp add: count_failure_def Let_def)

lemma failures_more:
  "tracker_get key t = Some (n, ts) \<Longrightarrow>
     \<exists>m. tracker_get key (failures_at key instants t) = Some (m, ts) \<and> unat m = min (unat n + length instants) 255"
proof (induction instants arbitrary: t n)
  case Nil
  then show ?case using u8_less[of n] by (simp add: failures_at_def)
next
  case (Cons now instants)
  obtain m where "tracker_get key (failures_at key instants (snd (count_failure key now t))) = Some (m, ts)"
    "unat m = min (unat (sat_add n 1) + length instants) 255"
    using Cons(1)[OF count_some[OF Cons(2)]] by blast
  then show ?case using u8_less[of n] by (auto simp: failures_at_def unat_sat_add)
qed

text \<open>
  C39: when a message that keeps failing is turned away. After a first failure at \<open>first\<close> and any further ones, with no
  success and no collection between, the guard in front of the turn holds a message back exactly when there were three
  failures or more and less than five minutes have passed since the first failure, however recent the last one is. So a
  message that fails again and again after these five minutes is never held back any more.
\<close>
theorem failure_guard_window:
  assumes "tracker_get key (la_failures la) = None"
  shows "keeps_failing now key (la\<lparr>la_failures := failures_at key (first # later) (la_failures la)\<rparr>)
    \<longleftrightarrow> 2 \<le> length later \<and> now - first < FAILURE_EXPIRY"
proof -
  obtain m where "tracker_get key (failures_at key (first # later) (la_failures la)) = Some (m, first)"
    "unat m = min (unat (sat_add 0 1 :: u8) + length later) 255"
    using failures_more[OF count_none[OF assms, of first], of later] by (auto simp: failures_at_def)
  then show ?thesis by (auto simp: keeps_failing_def word_le_nat_alt unat_sat_add)
qed

section \<open>Examples\<close>

text \<open>A message of a user, a background job, and an environment in which the voice has the device for itself and nobody reads the outbound queue.\<close>

definition demo_user :: "unit PcMsg" where
  "demo_user = \<lparr>pm_channel = ''telegram'', pm_chat_id = ''7'', pm_content = ''hello'', pm_body = body_text ''hello'',
     pm_platform_thread_id = [], pm_req_id = None, pm_outbound_kind = Primary, pm_ingress = IngressUser,
     pm_enqueue_ts_ms = 0, pm_source_transport = TransportUnknown, pm_platform_message_id = [],
     pm_platform_event_id = [], pm_inbound_dedup_key = [], pm_is_group = False\<rparr>"

definition demo_job :: "unit PcMsg" where
  "demo_job = demo_user\<lparr>pm_channel := ''_self_runtime'', pm_ingress := IngressSystem\<rparr>"

definition demo_env :: "(unit, 32 word) lane_env" where
  "demo_env = \<lparr>en_target = Host, en_now = 0, en_later = 0, en_unix_ms = 0, en_horizon = 1000000, en_orchestrator = orchestrator_new,
     en_mode = voice_source, en_orchestrator_llm = orchestrator_new, en_mode_llm = voice_source, en_foreground = Inr (), en_drains = [Takes 1],
     en_io = \<lparr>si_target = Host, si_read_error = None, si_write_error = None\<rparr>,
     en_codec = \<lparr>rc_entry = (\<lambda>_. None), rc_msg = (\<lambda>_. None), rc_encode = (\<lambda>_. Inr ''{ }'')\<rparr>,
     en_text = (\<lambda>_. ''later''), en_hash = (\<lambda>_ _ _. 0), en_req_id = ''r'', en_embedded = False, en_adopt = (\<lambda>_. Inr True),
     en_background = (\<lambda>_ w. w), en_turn = (\<lambda>_ w. (w, Inl (err_config ''agent_chat'' ''down''))), en_reaction = (\<lambda>_ _ w. w)\<rparr>"

definition demo_world :: "unit PcMsg list \<Rightarrow> (unit, 32 word) lane_world" where
  "demo_world jobs = \<lparr>lw_user = new_inbound_channel 4,
     lw_system = \<lparr>tq_inner = \<lparr>sc_queue = jobs, sc_capacity = 4, sc_senders = 1, sc_receiver = True\<rparr>, tq_depth = of_nat (length jobs)\<rparr>,
     lw_outbound = outbound_drain HangsUp (new_inbound_channel 1), lw_delayed = [],
     lw_pending = \<lparr>pc_loaded = False, pc_entry = None, pc_file = None\<rparr>, lw_slept = 0\<rparr>"

definition demo_poll :: "(unit, 32 word) poll" where
  "demo_poll = \<lparr>po_before = (\<lambda>w. w), po_while = (\<lambda>w. w), po_late = True\<rparr>"

lemmas demo_defs = demo_user_def demo_job_def demo_env_def demo_world_def demo_poll_def new_inbound_channel_def channel_new_def


lemma demo_deferred: "should_accept_inbound Host orchestrator_new ''telegram'' IngressUser voice_source = Defer MODE_TRANSITION_DEFER_MS"
  by code_simp

lemma reply_closed: "\<not> sc_receiver (tq_inner (lw_outbound w)) \<Longrightarrow> reply_text en msg m w = Some (w, False)"
  by (auto simp: reply_text_def try_send_outbound.simps try_send_cases split: sum.split)

lemma demo_closed: "\<not> sc_receiver (tq_inner (lw_outbound (demo_world jobs)))"
  by (simp add: demo_world_def)

theorem gated_user_message_is_kept_witness:
  "\<exists>w' la'. admit_turn demo_env demo_user 0 (demo_world [], lane_start) = Some (GateSkipped (w', la'))
     \<and> (kept demo_user w' \<or> slot_fails demo_env demo_user (lw_pending (demo_world []))
        \<or> (\<exists>reason. can_call_llm_for_channel Host orchestrator_new ''telegram'' voice_source = Degrade reason))"
proof -
  have "handle_admission_defer demo_env MODE_TRANSITION_DEFER_MS demo_user 0 (demo_world [], lane_start) \<noteq> None"
    by (simp add: handle_admission_defer_def lane_start_def tracker_get_def MAX_DEFER_RETRIES_def sat_add_def Let_def
        reply_closed[OF demo_closed] split: prod.split)
  then obtain w' la' where a: "admit_turn demo_env demo_user 0 (demo_world [], lane_start) = Some (GateSkipped (w', la'))"
    using demo_deferred by (auto simp: admit_turn_def demo_env_def demo_user_def)
  have "pm_ingress demo_user = IngressUser" "sc_receiver (tq_inner (lw_user (demo_world [])))"
    by (simp_all add: demo_defs)
  from gated_user_message_is_kept[OF a this] a show ?thesis by (auto simp: demo_env_def demo_user_def)
qed

text \<open>Rounds of a message that is held back.\<close>

definition demo_failing :: "u16 \<Rightarrow> u8 \<Rightarrow> lane_state" where
  "demo_failing n c = \<lparr>la_failures = [(0, 3, 0)], la_defers = [], la_since_gc = n, la_consecutive = c\<rparr>"

lemma demo_round:
  assumes "n + 1 < 50"
  shows "lane_step demo_env demo_user (demo_world jobs, demo_failing n c)
     = Some (demo_world jobs, demo_failing (n + 1) (sat_add c 1))"
proof -
  have "\<not> adopted_or_failed demo_env demo_user" by (simp add: adopted_or_failed_def demo_user_def)
  moreover have "note_message 0 IngressUser (demo_failing n c) = demo_failing (n + 1) (sat_add c 1)"
    using assms[unfolded not_le[symmetric]] by (simp add: note_message_def demo_failing_def GC_INTERVAL_MSGS_def Let_def)
  moreover have "keeps_failing 0 0 (demo_failing (n + 1) (sat_add c 1))"
    by (simp add: keeps_failing_def demo_failing_def tracker_get_def FAILURE_EXPIRY_def)
  moreover have "en_now demo_env = 0" "en_hash demo_env = (\<lambda>_ _ _. 0)" "pm_ingress demo_user = IngressUser"
    by (simp_all add: demo_env_def demo_user_def)
  ultimately show ?thesis by (simp add: lane_step_def Let_def reply_closed[OF demo_closed])
qed

theorem system_queue_is_heard_witness:
  "\<exists>w'. lane_receive [demo_poll] (demo_world [demo_job], demo_failing 4 4) = Some (w', RecvMessage demo_job)"
proof -
  let ?steps = "[(demo_env, demo_user), (demo_env, demo_user), (demo_env, demo_user), (demo_env, demo_user)]"
  have "lane_steps ?steps (demo_world [demo_job], demo_failing 0 0) = Some (demo_world [demo_job], demo_failing 4 4)"
    by (simp add: demo_round sat_add_def)
  moreover have "queued (lw_system (po_before demo_poll (demo_world [demo_job]))) = [demo_job]"
    by (simp add: demo_poll_def demo_world_def queued_def)
  moreover have "\<forall>(en, msg) \<in> set ?steps. pm_ingress msg = IngressUser" "4 \<le> length ?steps" by (simp_all add: demo_user_def)
  ultimately show ?thesis using system_queue_is_heard by blast
qed

theorem preference_outlasts_adopted_jobs_witness:
  "\<exists>w'. run_agent_loop_main (replicate 3 ([demo_poll], demo_env)) (demo_world [demo_job, demo_job, demo_job], demo_failing 4 4)
      = Some (w', demo_failing 4 4) \<and> lw_user w' = lw_user (demo_world [demo_job, demo_job, demo_job])"
proof -
  let ?jobs = "[demo_job, demo_job, demo_job]"
  have "4 \<le> la_consecutive (demo_failing 4 4)" by (simp add: demo_failing_def)
  moreover have "queued (lw_system (demo_world ?jobs)) = ?jobs" by (simp add: demo_world_def queued_def)
  moreover have "\<forall>job \<in> set ?jobs. adopted_or_failed demo_env job"
    by (simp add: adopted_or_failed_def is_lane_background_job_def is_detached_work_wake_def
        should_persist_background_job_as_detached_def demo_job_def demo_env_def)
  moreover have "po_before demo_poll v = v" for v by (simp add: demo_poll_def)
  ultimately show ?thesis using preference_outlasts_adopted_jobs[of "demo_failing 4 4" "demo_world ?jobs" ?jobs demo_env demo_poll]
    by (auto simp: numeral_3_eq_3)
qed

theorem failure_guard_window_witness:
  "\<not> keeps_failing 300000 7 (lane_start\<lparr>la_failures := failures_at 7 [0, 299990, 299995, 299999] []\<rparr>)
   \<and> keeps_failing 299999 7 (lane_start\<lparr>la_failures := failures_at 7 [0, 299990, 299995] []\<rparr>)"
  using failure_guard_window[of 7 lane_start 300000 0 "[299990, 299995, 299999]"]
    failure_guard_window[of 7 lane_start 299999 0 "[299990, 299995]"]
  by (simp add: lane_start_def tracker_get_def FAILURE_EXPIRY_def)

end
