(* ===== verification/Tool_Text.thy ===== *)
theory Tool_Text
  imports Chunk Llm_Stream
begin

text \<open>
  The texts a turn of the agent puts together around its tool calls (\<open>src/src/agent/loop.rs\<close>): bounded appending, the block of
  one result, the evidence and the memory blocks, the message of a round of tool calls, and the compaction of earlier rounds;
  with the surface of a reply (\<open>agent/reply_surface.rs\<close>) as far as they depend on it.
\<close>

section \<open>Constants\<close>

(* constants.rs: const MAX_TOOL_RESULTS_USER_MESSAGE_LEN *)
definition MAX_TOOL_RESULTS_USER_MESSAGE_LEN :: nat where "MAX_TOOL_RESULTS_USER_MESSAGE_LEN = 4 * 1024"
(* agent/loop.rs: const TOOL_RESULTS_PREFIX *)
definition TOOL_RESULTS_PREFIX :: string where "TOOL_RESULTS_PREFIX = ''Tool results:'' @ [CHR 0x0A]"
(* agent/loop.rs: const MEMORY_GROUNDING_SUMMARY_PREVIEW_CHARS *)
definition MEMORY_GROUNDING_SUMMARY_PREVIEW_CHARS :: nat where "MEMORY_GROUNDING_SUMMARY_PREVIEW_CHARS = 160"
(* agent/loop.rs: const MEMORY_GROUNDING_LONG_TERM_PREVIEW_CHARS *)
definition MEMORY_GROUNDING_LONG_TERM_PREVIEW_CHARS :: nat where "MEMORY_GROUNDING_LONG_TERM_PREVIEW_CHARS = 240"
(* agent/loop.rs: const REACT_FULL_ROUNDS_KEPT *)
definition REACT_FULL_ROUNDS_KEPT :: nat where "REACT_FULL_ROUNDS_KEPT = 2"
(* agent/loop.rs: const REACT_FULL_MSGS_KEPT *)
definition REACT_FULL_MSGS_KEPT :: nat where "REACT_FULL_MSGS_KEPT = REACT_FULL_ROUNDS_KEPT * 2"
(* agent/loop.rs: const TOOL_RESULT_PREVIEW_CHARS *)
definition TOOL_RESULT_PREVIEW_CHARS :: nat where "TOOL_RESULT_PREVIEW_CHARS = 80"
(* agent/loop.rs: const TOOL_RESULT_TAIL_CHARS *)
definition TOOL_RESULT_TAIL_CHARS :: nat where "TOOL_RESULT_TAIL_CHARS = 24"
(* agent/loop.rs: const TOOL_EVIDENCE_PREVIEW_CHARS *)
definition TOOL_EVIDENCE_PREVIEW_CHARS :: nat where "TOOL_EVIDENCE_PREVIEW_CHARS = 120"
(* agent/loop.rs: const TOOL_EVIDENCE_TAIL_CHARS *)
definition TOOL_EVIDENCE_TAIL_CHARS :: nat where "TOOL_EVIDENCE_TAIL_CHARS = 32"
(* agent/loop.rs: const MAX_TOOL_EVIDENCE_ITEMS *)
definition MAX_TOOL_EVIDENCE_ITEMS :: nat where "MAX_TOOL_EVIDENCE_ITEMS = 4"
(* agent/loop.rs: const TOOL_RESULT_RAW_MIN_BYTES *)
definition TOOL_RESULT_RAW_MIN_BYTES :: nat where "TOOL_RESULT_RAW_MIN_BYTES = 1536"
(* agent/loop.rs: const TOOL_EVIDENCE_RESERVED_BYTES *)
definition TOOL_EVIDENCE_RESERVED_BYTES :: nat where "TOOL_EVIDENCE_RESERVED_BYTES = 768"
(* agent/loop.rs: const TOOL_MEMORY_GROUNDING_MAX_BYTES *)
definition TOOL_MEMORY_GROUNDING_MAX_BYTES :: nat where "TOOL_MEMORY_GROUNDING_MAX_BYTES = 384"
(* agent/loop.rs: const TOOL_RESULTS_TRUNCATED_MARKER *)
definition TOOL_RESULTS_TRUNCATED_MARKER :: string where "TOOL_RESULTS_TRUNCATED_MARKER = [CHR 0x0A] @ ''[truncated]''"
(* agent/loop.rs: const ASSISTANT_COMPACT_PREVIEW_CHARS *)
definition ASSISTANT_COMPACT_PREVIEW_CHARS :: nat where "ASSISTANT_COMPACT_PREVIEW_CHARS = 160"
(* agent/loop.rs: const ASSISTANT_COMPACT_TAIL_CHARS *)
definition ASSISTANT_COMPACT_TAIL_CHARS :: nat where "ASSISTANT_COMPACT_TAIL_CHARS = 48"

section \<open>Bounded appending\<close>

text \<open>Appends what fits, up to a character boundary; the flag says that something did not fit.\<close>

(* agent/loop.rs: fn push_bounded_utf8 *)
definition push_bounded_utf8 :: "string \<Rightarrow> string \<Rightarrow> nat \<Rightarrow> string \<times> bool" where
  "push_bounded_utf8 dst text max_bytes =
     (if max_bytes \<le> length dst then (dst, True)
      else let remain = max_bytes - length dst
           in if length text \<le> remain then (dst @ text, False)
              else (dst @ take (boundary_at_most text remain) text, True))"

text \<open>Appending one text after the other until one does not fit, as the chains of \<open>||\<close> do.\<close>

fun push_all :: "string \<Rightarrow> string list \<Rightarrow> nat \<Rightarrow> string \<times> bool" where
  "push_all dst [] max_bytes = (dst, False)"
| "push_all dst (t # ts) max_bytes =
     (case push_bounded_utf8 dst t max_bytes of
        (dst', True) \<Rightarrow> (dst', True)
      | (dst', False) \<Rightarrow> push_all dst' ts max_bytes)"

(* agent/loop.rs: fn clone_bounded_utf8 *)
definition clone_bounded_utf8 :: "string \<Rightarrow> nat \<Rightarrow> string \<times> bool" where
  "clone_bounded_utf8 input max_bytes = push_bounded_utf8 [] input max_bytes"

section \<open>The surface of a reply\<close>

(* agent/reply_surface.rs: enum ReplySurface *)
datatype ReplySurface = SurfacePublicRuntime | SurfaceGovernedConversation | SurfacePrivateBoundary | SurfaceTaskExecution
  | SurfaceInternalOnly

(* agent/reply_surface.rs: impl ReplySurface / fn as_str *)
fun surface_as_str :: "ReplySurface \<Rightarrow> string" where
  "surface_as_str SurfacePublicRuntime = ''public_runtime''"
| "surface_as_str SurfaceGovernedConversation = ''governed_conversation''"
| "surface_as_str SurfacePrivateBoundary = ''private_boundary''"
| "surface_as_str SurfaceTaskExecution = ''task_execution''"
| "surface_as_str SurfaceInternalOnly = ''internal_only''"

(* agent/reply_surface.rs: impl ReplySurface / fn evidence_authority *)
fun evidence_authority :: "ReplySurface \<Rightarrow> string option" where
  "evidence_authority SurfacePublicRuntime = Some ''public_runtime_host''"
| "evidence_authority SurfaceGovernedConversation = Some ''governed_context''"
| "evidence_authority SurfacePrivateBoundary = Some ''private_boundary_context''"
| "evidence_authority SurfaceTaskExecution = Some ''task_workspace''"
| "evidence_authority SurfaceInternalOnly = None"

(* agent/reply_surface.rs: impl ReplySurface / fn allows_memory_grounding_block *)
definition allows_memory_grounding_block :: "ReplySurface \<Rightarrow> bool" where
  "allows_memory_grounding_block s \<longleftrightarrow> s = SurfaceGovernedConversation \<or> s = SurfaceTaskExecution"

(* agent/reply_surface.rs: fn is_public_runtime_tool *)
definition is_public_runtime_tool :: "string \<Rightarrow> bool" where
  "is_public_runtime_tool name \<longleftrightarrow> name \<in> {''board_info'', ''process'', ''network'', ''network_scan'', ''system_control''}"

(* agent/reply_surface.rs: impl ReplySurface / fn accepts_tool_evidence *)
definition accepts_tool_evidence :: "ReplySurface \<Rightarrow> string \<Rightarrow> bool" where
  "accepts_tool_evidence s name \<longleftrightarrow>
     (case s of SurfacePublicRuntime \<Rightarrow> is_public_runtime_tool name | SurfaceInternalOnly \<Rightarrow> False | _ \<Rightarrow> True)"

section \<open>Previews\<close>

(* agent/loop.rs: fn take_suffix_chars *)
definition take_suffix_chars :: "string \<Rightarrow> nat \<Rightarrow> string" where
  "take_suffix_chars text max_chars =
     (if max_chars = 0 then []
      else let total_chars = char_count text
           in if total_chars \<le> max_chars then text
              else drop (char_starts text ! (total_chars - max_chars)) text)"

text \<open>White space inside becomes one blank; the text has none at its ends.\<close>

function collapse_spaces :: "bool \<Rightarrow> string \<Rightarrow> string" where
  "collapse_spaces pending [] = []"
| "collapse_spaces pending (c # cs) =
     (case leading (c # cs) of
        Some w \<Rightarrow> collapse_spaces True (drop (length w) (c # cs))
      | None \<Rightarrow> (if pending then '' '' else []) @ c # collapse_spaces False cs)"
  by pat_completeness auto
termination
proof (relation "measure (\<lambda>(p, s). length s)")
  fix c :: char and cs w p
  assume "leading (c # cs) = Some w"
  then show "((True, drop (length w) (c # cs)), p, c # cs) \<in> measure (\<lambda>(p, s). length s)"
    using leading_SomeD[of "c # cs" w] by (cases w) auto
qed auto

declare collapse_spaces.simps(2) [simp del]

(* agent/loop.rs: fn collapse_inline_whitespace *)
definition collapse_inline_whitespace :: "string \<Rightarrow> string option" where
  "collapse_inline_whitespace text = (if trim text = [] then None else Some (collapse_spaces False (trim text)))"

(* agent/loop.rs: fn build_head_tail_preview *)
definition build_head_tail_preview :: "string \<Rightarrow> nat \<Rightarrow> nat \<Rightarrow> string option" where
  "build_head_tail_preview text max_chars tail_chars =
     (case collapse_inline_whitespace text of
        None \<Rightarrow> None
      | Some normalized \<Rightarrow>
          (if char_count normalized \<le> max_chars then Some normalized
           else let head_chars = max (max_chars - tail_chars - 5) 1
                in Some (truncate_content_to_max normalized head_chars @ '' ... '' @ take_suffix_chars normalized tail_chars)))"

(* agent/loop.rs: fn build_tool_result_preview *)
definition build_tool_result_preview :: "string \<Rightarrow> string" where
  "build_tool_result_preview text =
     (case build_head_tail_preview text TOOL_RESULT_PREVIEW_CHARS TOOL_RESULT_TAIL_CHARS of Some p \<Rightarrow> p | None \<Rightarrow> [])"

(* agent/loop.rs: fn build_tool_evidence_preview *)
definition build_tool_evidence_preview :: "string \<Rightarrow> string option" where
  "build_tool_evidence_preview text = build_head_tail_preview text TOOL_EVIDENCE_PREVIEW_CHARS TOOL_EVIDENCE_TAIL_CHARS"

(* agent/loop.rs: fn build_assistant_compact_preview *)
definition build_assistant_compact_preview :: "string \<Rightarrow> string option" where
  "build_assistant_compact_preview text =
     build_head_tail_preview text ASSISTANT_COMPACT_PREVIEW_CHARS ASSISTANT_COMPACT_TAIL_CHARS"

(* agent/loop.rs: fn build_tool_evidence_line *)
definition build_tool_evidence_line :: "string \<Rightarrow> string \<Rightarrow> string \<Rightarrow> string option" where
  "build_tool_evidence_line call_id tool_name content =
     map_option (\<lambda>preview. ''- ['' @ call_id @ ''] '' @ tool_name @ '': '' @ preview) (build_tool_evidence_preview content)"

section \<open>The message of a round\<close>

(* agent/loop.rs: struct ToolResultBlock *)
record ToolResultBlock =
  tb_call_id :: string
  tb_tool_name :: string
  tb_status :: string
  tb_failure :: "string option"
  tb_repeat_count :: nat
  tb_content :: string

(* agent/loop.rs: fn tool_result_status_attr *)
definition tool_result_status_attr :: "bool \<Rightarrow> string" where
  "tool_result_status_attr call_failed = (if call_failed then ''error'' else ''ok'')"

definition QUOTE :: string where "QUOTE = [CHR 0x22]"

(* agent/loop.rs: fn append_tool_result_block *)
definition append_tool_result_block :: "string \<Rightarrow> ToolResultBlock \<Rightarrow> nat \<Rightarrow> string \<times> bool" where
  "append_tool_result_block dst b max_bytes =
     push_all dst
       ([''<tool_result id='' @ QUOTE, tb_call_id b, QUOTE @ '' tool='' @ QUOTE, tb_tool_name b,
         QUOTE @ '' status='' @ QUOTE, tb_status b]
        @ (case tb_failure b of Some f \<Rightarrow> [QUOTE @ '' failure='' @ QUOTE, f] | None \<Rightarrow> [])
        @ (if 1 < tb_repeat_count b then [QUOTE @ '' repeat_count='' @ QUOTE, show_nat (tb_repeat_count b)] else [])
        @ [QUOTE @ ''>'' @ [CHR 0x0A], tb_content b, [CHR 0x0A] @ ''</tool_result>''])
       max_bytes"

text \<open>The two blocks that are written without a bound.\<close>

(* agent/loop.rs: fn append_surface_evidence_block *)
definition render_surface_evidence_block :: "ReplySurface \<Rightarrow> string list \<Rightarrow> nat \<Rightarrow> string" where
  "render_surface_evidence_block surface evidence_lines omitted_count =
     (if evidence_lines = [] then []
      else case evidence_authority surface of
        None \<Rightarrow> []
      | Some authority \<Rightarrow>
          ''<surface_evidence surface='' @ QUOTE @ surface_as_str surface @ QUOTE @ '' authority='' @ QUOTE @ authority @ QUOTE
          @ ''>'' @ [CHR 0x0A]
          @ concat (map (\<lambda>l. l @ [CHR 0x0A]) evidence_lines)
          @ (if 0 < omitted_count
             then ''- [more] '' @ show_nat omitted_count @ '' additional successful tool result(s)'' @ [CHR 0x0A] else [])
          @ ''</surface_evidence>'')"

(* agent/loop.rs: fn append_memory_grounding_block *)
definition render_memory_grounding_block :: "string \<Rightarrow> string" where
  "render_memory_grounding_block grounding =
     ''<memory_grounding>'' @ [CHR 0x0A] @ grounding @ [CHR 0x0A] @ ''</memory_grounding>''"

(* agent/loop.rs: fn append_rendered_tool_section *)
definition append_rendered_tool_section :: "string \<Rightarrow> string \<Rightarrow> nat \<Rightarrow> string \<times> bool" where
  "append_rendered_tool_section dst sec max_bytes =
     (if sec = [] then (dst, False)
      else case (if dst \<noteq> [] \<and> last dst = CHR 0x0A then (dst, False) else push_bounded_utf8 dst [CHR 0x0A] max_bytes) of
        (dst1, True) \<Rightarrow> (dst1, True)
      | (dst1, False) \<Rightarrow> push_bounded_utf8 dst1 sec max_bytes)"

text \<open>The room for the results beside the evidence, a memory and the marker; a memory gives way to the least room for results.\<close>

(* agent/loop.rs: lines 1099-1103 the room for the results *)
definition room_for_results :: "string option \<Rightarrow> string \<Rightarrow> nat \<Rightarrow> nat" where
  "room_for_results evidence_block memory max_bytes =
     max_bytes - ((case evidence_block of Some b \<Rightarrow> min (length b) TOOL_EVIDENCE_RESERVED_BYTES | None \<Rightarrow> 0)
                  + length memory + length TOOL_RESULTS_TRUNCATED_MARKER)"

(* agent/loop.rs: lines 1082-1098 the memory *)
definition memory_for_round :: "string option \<Rightarrow> string option \<Rightarrow> nat \<Rightarrow> string \<times> bool" where
  "memory_for_round evidence_block memory_block max_bytes =
     (case (case memory_block of Some b \<Rightarrow> clone_bounded_utf8 b TOOL_MEMORY_GROUNDING_MAX_BYTES | None \<Rightarrow> ([], False)) of
        (memory, tr) \<Rightarrow>
          (let room = room_for_results evidence_block memory max_bytes
           in if room < TOOL_RESULT_RAW_MIN_BYTES \<and> memory \<noteq> []
              then let shrink = min (TOOL_RESULT_RAW_MIN_BYTES - room) (length memory);
                       (bounded, tr') = clone_bounded_utf8 memory (length memory - shrink)
                   in (bounded, tr \<or> tr' \<or> 0 < shrink)
              else (memory, tr)))"

(* agent/loop.rs: fn assemble_tool_round_user_message *)
definition assemble_tool_round_user_message :: "string \<Rightarrow> bool \<Rightarrow> string option \<Rightarrow> string option \<Rightarrow> nat \<Rightarrow> string \<times> bool" where
  "assemble_tool_round_user_message raw_results raw_results_truncated evidence_block memory_block max_bytes =
     (let (memory, memory_truncated) = memory_for_round evidence_block memory_block max_bytes;
          raw_budget = max (room_for_results evidence_block memory max_bytes) (length TOOL_RESULTS_PREFIX);
          (out, raw_truncated) = clone_bounded_utf8 raw_results raw_budget;
          (out1, t1) = (case evidence_block of Some b \<Rightarrow> append_rendered_tool_section out b max_bytes | None \<Rightarrow> (out, False));
          (out2, t2) = (if memory = [] then (out1, False) else append_rendered_tool_section out1 memory max_bytes);
          truncated = (raw_results_truncated \<or> raw_truncated \<or> memory_truncated \<or> t1 \<or> t2)
      in (if truncated \<and> length out2 < max_bytes then fst (push_bounded_utf8 out2 TOOL_RESULTS_TRUNCATED_MARKER max_bytes) else out2,
          truncated))"

section \<open>What is remembered beside the results\<close>

(* agent/loop.rs: fn extract_long_term_memory_bullets *)
definition extract_long_term_memory_bullets :: "string \<Rightarrow> string list" where
  "extract_long_term_memory_bullets block = take 3 (filter (prefix ''- '') (map trim (lines_of block)))"

(* agent/loop.rs: fn build_memory_grounding_text *)
definition build_memory_grounding_text :: "string option \<Rightarrow> string option \<Rightarrow> string option" where
  "build_memory_grounding_text summary_text long_term_memory_text =
     (let s = (case summary_text of
            Some t \<Rightarrow> if trim t = [] then []
               else ''[summary] '' @ truncate_content_to_max (trim t) MEMORY_GROUNDING_SUMMARY_PREVIEW_CHARS @ [CHR 0x0A]
          | None \<Rightarrow> []);
          l = (case long_term_memory_text of
            Some t \<Rightarrow> (let bullets = extract_long_term_memory_bullets t
                in if bullets = [] then []
                   else ''[long_term] '' @ truncate_content_to_max (join '' | '' bullets) MEMORY_GROUNDING_LONG_TERM_PREVIEW_CHARS
                        @ [CHR 0x0A])
          | None \<Rightarrow> []);
          trimmed = trim (s @ l)
      in if trimmed = [] then None else Some trimmed)"

section \<open>Compaction of earlier rounds\<close>

(* llm/types.rs: struct Message *)
record Message =
  mg_role :: string
  mg_content :: string

text \<open>The value of an attribute: behind the first occurrence of its name that an equals sign and a quote follow.\<close>

(* agent/loop.rs: fn extract_tag_attr *)
function extract_tag_attr :: "string \<Rightarrow> string \<Rightarrow> string option" where
  "extract_tag_attr line attr =
     (if attr = [] then None
      else case find_sub attr line of
        None \<Rightarrow> None
      | Some pos \<Rightarrow>
          (let after = drop (pos + length attr) line
           in if prefix (''='' @ QUOTE) after
              then let remain = drop 2 after
                   in if CHR 0x22 \<in> set remain then Some (takeWhile (\<lambda>c. c \<noteq> CHR 0x22) remain) else None
              else extract_tag_attr after attr))"
  by pat_completeness auto
termination
proof (relation "measure (\<lambda>(line, attr). length line)")
  fix line attr :: string and pos after
  assume "attr \<noteq> []" "find_sub attr line = Some pos" "after = drop (pos + length attr) line"
  then show "((after, attr), line, attr) \<in> measure (\<lambda>(line, attr). length line)"
    using find_sub_bound[of attr line pos] by (cases attr) auto
qed simp

declare extract_tag_attr.simps [simp del]

definition attr_or :: "string \<Rightarrow> string \<Rightarrow> string" where
  "attr_or line attr = (case extract_tag_attr line attr of Some v \<Rightarrow> v | None \<Rightarrow> ''unknown'')"

(* agent/loop.rs: fn append_tool_result_summary_header *)
definition tool_result_summary_header :: "string \<Rightarrow> string \<Rightarrow> string \<Rightarrow> string option \<Rightarrow> string option \<Rightarrow> string" where
  "tool_result_summary_header call_id tool_name status failure repeat_count =
     ''['' @ call_id @ ''] '' @ tool_name @ '' status='' @ status
     @ (case failure of Some f \<Rightarrow> '' failure='' @ f | None \<Rightarrow> [])
     @ (case repeat_count of Some r \<Rightarrow> '' repeat='' @ r | None \<Rightarrow> []) @ '': ''"

text \<open>The lines up to a closing one, and those behind it.\<close>

definition block_lines :: "string \<Rightarrow> string list \<Rightarrow> string list" where
  "block_lines close ls = takeWhile (\<lambda>l. l \<noteq> close) ls"

definition after_block :: "string \<Rightarrow> string list \<Rightarrow> string list" where
  "after_block close ls = drop 1 (dropWhile (\<lambda>l. l \<noteq> close) ls)"

lemma after_block_length [simp]: "length (after_block close ls) \<le> length ls"
  using length_dropWhile_le[of "\<lambda>l. l \<noteq> close" ls] by (simp add: after_block_def)

text \<open>Joined by line feeds; a leading empty line leaves no trace, as the code tests the text and not the line.\<close>

fun join_block :: "string \<Rightarrow> string list \<Rightarrow> string" where
  "join_block acc [] = acc"
| "join_block acc (l # ls) = join_block ((if acc = [] then [] else acc @ [CHR 0x0A]) @ l) ls"

fun join_memory :: "string \<Rightarrow> string list \<Rightarrow> string" where
  "join_memory acc [] = acc"
| "join_memory acc (l # ls) =
     (if trim l = [] then join_memory acc ls else join_memory ((if acc = [] then [] else acc @ '' '') @ trim l) ls)"

definition ends_legacy :: "string \<Rightarrow> bool" where
  "ends_legacy l \<longleftrightarrow> find_sub '']: '' l \<noteq> None \<and> prefix ''['' l"

definition evidence_summary :: "string list \<Rightarrow> string list" where
  "evidence_summary ls =
     map (\<lambda>l. ''[evidence] '' @ (case build_tool_evidence_preview (trim l) of Some p \<Rightarrow> p | None \<Rightarrow> []))
       (filter (\<lambda>l. trim l \<noteq> []) ls)"

text \<open>The lines written for the lines read, and whether anything was understood.\<close>

(* agent/loop.rs: lines 1209-1348 the loop of summarize_tool_results *)
function summarize_lines :: "string list \<Rightarrow> string list \<times> bool" where
  "summarize_lines [] = ([], False)"
| "summarize_lines (line # ls) =
     (if prefix ''<tool_result '' line
      then let body = join_block [] (block_lines ''</tool_result>'' ls);
               header = tool_result_summary_header (attr_or line ''id'') (attr_or line ''tool'') (attr_or line ''status'')
                 (extract_tag_attr line ''failure'') (extract_tag_attr line ''repeat_count'');
               (out, _) = summarize_lines (after_block ''</tool_result>'' ls)
           in ((header @ build_tool_result_preview body
                @ (if char_count body \<le> TOOL_RESULT_PREVIEW_CHARS then []
                   else ''['' @ show_nat (length body) @ '' bytes total]'')) # out, True)
      else if line = ''<tool_round_guidance>'' then summarize_lines (after_block ''</tool_round_guidance>'' ls)
      else if prefix ''<surface_evidence '' line
      then let (out, _) = summarize_lines (after_block ''</surface_evidence>'' ls)
           in ((''[surface='' @ attr_or line ''surface'' @ '' authority='' @ attr_or line ''authority'' @ '']'')
               # evidence_summary (block_lines ''</surface_evidence>'' ls) @ out, True)
      else if line = ''<tool_evidence_summary>''
      then let (out, wrote) = summarize_lines (after_block ''</tool_evidence_summary>'' ls);
               ev = evidence_summary (block_lines ''</tool_evidence_summary>'' ls)
           in (ev @ out, wrote \<or> ev \<noteq> [])
      else if line = ''<memory_grounding>''
      then let (out, _) = summarize_lines (after_block ''</memory_grounding>'' ls)
           in ((''[memory] '' @ truncate_content_to_max (join_memory [] (block_lines ''</memory_grounding>'' ls)) 180) # out, True)
      else case find_sub '']: '' line of
        None \<Rightarrow> summarize_lines ls
      | Some idx \<Rightarrow>
          (let own = takeWhile (\<lambda>l. \<not> ends_legacy l) ls;
               body = drop (idx + 3) line @ concat (map (\<lambda>l. CHR 0x0A # l) own);
               (out, _) = summarize_lines (dropWhile (\<lambda>l. \<not> ends_legacy l) ls)
           in ((take (idx + 3) line @ build_tool_result_preview body
                @ (if TOOL_RESULT_PREVIEW_CHARS < char_count body
                   then ''['' @ show_nat (length body) @ '' bytes total]'' else [])) # out, True)))"
  by pat_completeness auto
termination
  by (relation "measure length") (auto simp: le_imp_less_Suc length_dropWhile_le)

declare summarize_lines.simps(2) [simp del]

definition SUMMARY_PREFIX :: string where "SUMMARY_PREFIX = ''Tool results (prior round):'' @ [CHR 0x0A]"

(* agent/loop.rs: fn summarize_tool_results *)
definition summarize_tool_results :: "string \<Rightarrow> string" where
  "summarize_tool_results content =
     (let body = (case without_prefix TOOL_RESULTS_PREFIX content of Some r \<Rightarrow> r | None \<Rightarrow> content);
          (out, wrote_any) = summarize_lines (lines_of body)
      in SUMMARY_PREFIX @ concat (map (\<lambda>l. l @ [CHR 0x0A]) out)
         @ (if wrote_any then [] else ''['' @ show_nat (length body) @ '' bytes total, format not parsed]'' @ [CHR 0x0A]))"

(* agent/loop.rs: lines 1440-1451 one earlier message *)
definition compact_message :: "Message \<Rightarrow> Message" where
  "compact_message msg =
     (if prefix TOOL_RESULTS_PREFIX (mg_content msg) \<and> 128 < length (mg_content msg)
      then msg\<lparr>mg_content := summarize_tool_results (mg_content msg)\<rparr>
      else if mg_role msg = ''assistant'' \<and> 200 < length (mg_content msg)
      then (case build_assistant_compact_preview (mg_content msg) of
              Some preview \<Rightarrow>
                (if char_count preview < char_count (mg_content msg)
                 then msg\<lparr>mg_content := preview @ '' [compressed]''\<rparr> else msg)
            | None \<Rightarrow> msg)
      else msg)"

(* agent/loop.rs: fn compact_early_tool_rounds *)
definition compact_early_tool_rounds :: "Message list \<Rightarrow> nat \<Rightarrow> Message list" where
  "compact_early_tool_rounds messages initial_count =
     (if length messages - initial_count \<le> REACT_FULL_MSGS_KEPT then messages
      else let compact_end = length messages - REACT_FULL_MSGS_KEPT
           in take initial_count messages
              @ map compact_message (take (compact_end - initial_count) (drop initial_count messages))
              @ drop compact_end messages)"

end
