(* ===== verification/React_Loop.thy ===== *)
theory React_Loop
  imports Tool_Text Llm_Call Admission Runtime_Capability Redact
begin

text \<open>
  The loop of a turn: the model is asked, its tool calls are run, their results go back to it, until it answers
  (\<open>src/src/agent/loop/turn_execution.rs\<close> and \<open>tool_round.rs\<close>, \<open>agent/tool_outcome.rs\<close>). The registry
  of the tools, the model, the memory, delivery and the hash of a call are parameters that work on a world of any type; the gate of
  the orchestrator is a parameter too, as its state changes under the loop. The texts of failures are a parameter and are scrubbed of
  credentials like the results. Telemetry, the task execution path and what follows the loop are left out.
\<close>

section \<open>Outcomes\<close>

(* agent/loop.rs: const MAX_REACT_ROUNDS *)
definition MAX_REACT_ROUNDS :: nat where "MAX_REACT_ROUNDS = 10"
(* agent/loop.rs: const MAX_TOOL_PROTOCOL_REPAIR_ATTEMPTS *)
definition MAX_TOOL_PROTOCOL_REPAIR_ATTEMPTS :: u8 where "MAX_TOOL_PROTOCOL_REPAIR_ATTEMPTS = 1"

(* agent/tool_outcome.rs: enum ToolFailureKind *)
datatype ToolFailureKind = FailRetryable | FailPermanent | FailCapability

(* agent/workflow_outcome.rs: fn workflow_outcome_kind_from_tool_failure_kind *)
fun failure_kind_as_str :: "ToolFailureKind \<Rightarrow> string" where
  "failure_kind_as_str FailRetryable = ''retryable''"
| "failure_kind_as_str FailPermanent = ''permanent''"
| "failure_kind_as_str FailCapability = ''capability''"

(* agent/tool_outcome.rs: fn classify_denied_reason *)
definition classify_denied_reason :: "string \<Rightarrow> ToolFailureKind" where
  "classify_denied_reason reason =
     (if reason \<in> {''critical_no_network_tools'', ''cautious_low_heap_for_http_tool''} then FailRetryable
      else if reason = ''operator_only_tool'' then FailCapability
      else FailPermanent)"

(* agent/tool_outcome.rs: fn classify_http_error *)
definition classify_http_error :: "u16 \<Rightarrow> ToolFailureKind" where
  "classify_http_error status =
     (if status = 401 \<or> status = 403 then FailCapability
      else if status = 404 then FailPermanent
      else if status = 408 \<or> status = 429 then FailRetryable
      else if 500 \<le> status \<and> status \<le> 599 then FailRetryable
      else FailPermanent)"

text \<open>The kind of an error of the operating system is not in the model of errors: a parameter tells how it counts.\<close>

(* agent/tool_outcome.rs: fn classify_tool_error *)
fun classify_tool_error :: "(Error \<Rightarrow> ToolFailureKind) \<Rightarrow> Error \<Rightarrow> ToolFailureKind" where
  "classify_tool_error io e =
     (if is_retryable_upstream e then FailRetryable
      else case e of
        ErrConfig _ _ \<Rightarrow> FailPermanent
      | ErrHttp status _ \<Rightarrow> classify_http_error status
      | ErrIo _ _ \<Rightarrow> io e
      | ErrEsp _ _ \<Rightarrow> FailPermanent
      | ErrNvs _ _ \<Rightarrow> FailCapability
      | ErrStorage _ _ \<Rightarrow> FailCapability
      | ErrOther (Beetle inner) _ \<Rightarrow> classify_tool_error io inner
      | ErrOther (Foreign _) _ \<Rightarrow> FailPermanent)"

declare classify_tool_error.simps [simp del]

(* agent/workflow_outcome.rs: enum WorkflowBlockerKind *)
datatype WorkflowBlockerKind =
    NeedsUserFacts | NeedsUserChoice | NeedsConfirmation | ProbeFailed | RuntimeBlocked | BlockerUnsupported | BlockerRetryLater
  | TaskBlocked

(* agent/workflow_outcome.rs: struct WorkflowClarificationOption *)
record WorkflowClarificationOption =
  wo_value :: string
  wo_label :: string

(* agent/workflow_outcome.rs: struct WorkflowClarificationField *)
record WorkflowClarificationField =
  wf_key :: string
  wf_label :: string
  wf_description :: string
  wf_required :: bool
  wf_secret :: bool
  wf_multiple :: bool
  wf_options :: "WorkflowClarificationOption list"

(* agent/workflow_outcome.rs: struct WorkflowBlocker *)
record WorkflowBlocker =
  wb_kind :: WorkflowBlockerKind
  wb_summary :: string
  wb_missing_fields :: "string list"
  wb_clarification :: "WorkflowClarificationField list option"

definition plain_blocker :: "WorkflowBlockerKind \<Rightarrow> string \<Rightarrow> WorkflowBlocker" where
  "plain_blocker kind summary = \<lparr>wb_kind = kind, wb_summary = summary, wb_missing_fields = [], wb_clarification = None\<rparr>"

(* agent/loop.rs: struct ToolCallExecutionResult *)
record 'json ToolCallExecutionResult =
  te_result :: string
  te_failure_kind :: "ToolFailureKind option"
  te_blocker :: "WorkflowBlocker option"
  te_succeeded :: bool
  te_protocol_violation :: bool
  te_mutating :: bool
  te_visible_side_effects :: bool
  te_artifact :: "'json CanonicalMessageBody option"

section \<open>One tool call\<close>

text \<open>What a tool wants to send: the text for the current chat that is to be the reply itself, or another message.\<close>

datatype ToolOutboundTarget = CurrentChat | ExplicitTarget string string
datatype ToolOutboundDeliveryKind = DeliverySupplemental | DeliveryPrimary

record 'json ToolOutboundIntent =
  oi_target :: ToolOutboundTarget
  oi_delivery_kind :: ToolOutboundDeliveryKind
  oi_content :: string
  oi_body :: "'json CanonicalMessageBody option"

record 'json ToolExecutionOutcome =
  oc_content :: string
  oc_blocker :: "WorkflowBlocker option"
  oc_failure_kind :: "ToolFailureKind option"
  oc_intents :: "'json ToolOutboundIntent list"

record ToolPermit =
  tp_name :: string
  tp_requires_network :: bool
  tp_mutating :: bool

datatype gate_decision = PermitGranted ToolPermit | PermitDenied string

text \<open>The failures that have a text of their own.\<close>

datatype tool_failure =
    ToolUnavailable string | ToolCapabilityBlocked string RuntimeCapabilityBlocker | ToolDenied string
  | ToolErred Error | ToolProtocolViolated string string Error

record ('json, 's) tool_env =
  tn_visible :: "'s \<Rightarrow> string \<Rightarrow> bool"
  tn_capability_blocker :: "'s \<Rightarrow> string \<Rightarrow> RuntimeCapabilityBlocker option"
  tn_normalize :: "string \<Rightarrow> string \<Rightarrow> string"
  tn_assess :: "string \<Rightarrow> string \<Rightarrow> 's \<Rightarrow> 's \<times> (Error + gate_decision)"
  tn_gate :: "'s \<Rightarrow> string \<Rightarrow> bool \<Rightarrow> ToolDecision"
  tn_record_denial :: "ToolPermit \<Rightarrow> string \<Rightarrow> 's \<Rightarrow> 's"
  tn_execute :: "ToolPermit \<Rightarrow> string \<Rightarrow> 's \<Rightarrow> 's \<times> (Error + 'json ToolExecutionOutcome)"
  tn_record_failure :: "ToolPermit \<Rightarrow> Error \<Rightarrow> 's \<Rightarrow> 's"
  tn_supports_current_chat :: bool
  tn_deliver :: "'json ToolOutboundIntent \<Rightarrow> 's \<Rightarrow> 's \<times> (Error + bool)"
  tn_io_kind :: "Error \<Rightarrow> ToolFailureKind"
  tn_text :: "tool_failure \<Rightarrow> string"
  tn_show_error :: "Error \<Rightarrow> string"
  tn_hash :: "string \<Rightarrow> string \<Rightarrow> u64"
  tn_surface :: ReplySurface
  tn_enhanced :: bool
  tn_external :: "string \<Rightarrow> string \<Rightarrow> bool"

definition failed_call :: "('json, 's) tool_env \<Rightarrow> tool_failure \<Rightarrow> ToolFailureKind \<Rightarrow> WorkflowBlocker option \<Rightarrow> bool
    \<Rightarrow> 'json ToolCallExecutionResult" where
  "failed_call en f kind blocker mutating =
     \<lparr>te_result = scrub_credentials (tn_text en f), te_failure_kind = Some kind, te_blocker = blocker, te_succeeded = False,
      te_protocol_violation = False, te_mutating = mutating, te_visible_side_effects = False, te_artifact = None\<rparr>"

(* agent/loop/tool_round.rs: fn unavailable_tool_execution_result *)
definition unavailable_tool_execution_result :: "('json, 's) tool_env \<Rightarrow> string \<Rightarrow> 'json ToolCallExecutionResult" where
  "unavailable_tool_execution_result en name =
     failed_call en (ToolUnavailable name) FailCapability
       (Some (plain_blocker BlockerUnsupported
          (''tool `'' @ name @ ''`; reason `not_available_in_current_runtime`''))) False"

(* agent/loop/tool_round.rs: fn runtime_capability_status_label *)
fun runtime_capability_status_label :: "RuntimeCapabilityStatus \<Rightarrow> string" where
  "runtime_capability_status_label StatusOnline = ''online''"
| "runtime_capability_status_label StatusDegraded = ''degraded''"
| "runtime_capability_status_label StatusOffline = ''offline''"

(* agent/loop/tool_round.rs: fn runtime_capability_reason_label *)
fun runtime_capability_reason_label :: "RuntimeCapabilityReason \<Rightarrow> string" where
  "runtime_capability_reason_label ReasonNominal = ''nominal''"
| "runtime_capability_reason_label ReasonNotConfigured = ''not_configured''"
| "runtime_capability_reason_label ReasonRuntimeNotInitialized = ''runtime_not_initialized''"
| "runtime_capability_reason_label ReasonDeviceMissing = ''device_missing''"
| "runtime_capability_reason_label ReasonDeviceDisconnected = ''device_disconnected''"
| "runtime_capability_reason_label ReasonWorkerDead = ''worker_dead''"
| "runtime_capability_reason_label ReasonDriverError = ''driver_error''"
| "runtime_capability_reason_label ReasonPermissionDenied = ''permission_denied''"
| "runtime_capability_reason_label ReasonUpstreamUnavailable = ''upstream_unavailable''"
| "runtime_capability_reason_label ReasonRecoveryStabilizing = ''recovery_stabilizing''"
| "runtime_capability_reason_label ReasonOperatorDisabled = ''operator_disabled''"

(* agent/loop/tool_round.rs: fn runtime_capability_blocker_kind *)
definition runtime_capability_blocker_kind :: "RuntimeCapabilityBlocker \<Rightarrow> WorkflowBlockerKind" where
  "runtime_capability_blocker_kind b =
     (if rb_capability_reason b \<in> {ReasonNotConfigured, ReasonPermissionDenied, ReasonOperatorDisabled}
      then BlockerUnsupported else RuntimeBlocked)"

(* agent/loop/tool_round.rs: fn runtime_capability_blocker_summary *)
definition runtime_capability_blocker_summary :: "string \<Rightarrow> RuntimeCapabilityBlocker \<Rightarrow> string" where
  "runtime_capability_blocker_summary name b =
     ''tool `'' @ name @ ''`; sub_capability `'' @ rb_sub_capability b
     @ ''`; status `'' @ runtime_capability_status_label (rb_capability_status b)
     @ ''`; reason `'' @ runtime_capability_reason_label (rb_capability_reason b) @ ''`''
     @ (case rb_recovery_hint b of Some h \<Rightarrow> ''; recovery_hint `'' @ h @ ''`'' | None \<Rightarrow> [])"

(* agent/loop/tool_round.rs: fn capability_blocked_tool_execution_result *)
definition capability_blocked_tool_execution_result :: "('json, 's) tool_env \<Rightarrow> string \<Rightarrow> RuntimeCapabilityBlocker
    \<Rightarrow> 'json ToolCallExecutionResult" where
  "capability_blocked_tool_execution_result en name b =
     (let kind = runtime_capability_blocker_kind b
      in failed_call en (ToolCapabilityBlocked name b)
           (if kind = RuntimeBlocked then FailRetryable else FailCapability)
           (Some (plain_blocker kind (runtime_capability_blocker_summary name b))) False)"

(* agent/loop/tool_round.rs: fn denied_tool_execution_result *)
definition denied_tool_execution_result :: "('json, 's) tool_env \<Rightarrow> string \<Rightarrow> string \<Rightarrow> 'json ToolCallExecutionResult" where
  "denied_tool_execution_result en name reason =
     (let kind = classify_denied_reason reason
      in failed_call en (ToolDenied reason) kind
           (Some (plain_blocker (if kind = FailRetryable then BlockerRetryLater else BlockerUnsupported)
              (''tool `'' @ name @ ''`; reason `'' @ reason @ ''`''))) False)"

(* agent/loop/tool_round.rs: fn execute_error_tool_execution_result *)
definition error_tool_execution_result :: "('json, 's) tool_env \<Rightarrow> bool \<Rightarrow> Error \<Rightarrow> 'json ToolCallExecutionResult" where
  "error_tool_execution_result en mutating e =
     failed_call en (ToolErred e) (classify_tool_error (tn_io_kind en) e) None mutating"

(* agent/loop/tool_round.rs: fn protocol_contract_tool_execution_result *)
definition protocol_contract_tool_execution_result :: "('json, 's) tool_env \<Rightarrow> string \<Rightarrow> string \<Rightarrow> Error
    \<Rightarrow> 'json ToolCallExecutionResult" where
  "protocol_contract_tool_execution_result en name input e =
     (failed_call en (ToolProtocolViolated name input e) FailRetryable None False)\<lparr>te_protocol_violation := True\<rparr>"

(* agent/loop/tool_round.rs: fn current_chat_primary_artifact_from_intent *)
definition current_chat_primary_artifact_from_intent :: "'json ToolOutboundIntent \<Rightarrow> 'json CanonicalMessageBody option" where
  "current_chat_primary_artifact_from_intent i =
     (if oi_target i \<noteq> CurrentChat \<or> oi_delivery_kind i \<noteq> DeliveryPrimary then None
      else Some (case oi_body i of Some b \<Rightarrow> b | None \<Rightarrow> body_text (oi_content i)))"

(* agent/loop.rs: fn merge_reply_artifact_bundle *)
definition merge_reply_artifact_bundle :: "'json CanonicalMessageBody option \<Rightarrow> 'json CanonicalMessageBody
    \<Rightarrow> Error + 'json CanonicalMessageBody option" where
  "merge_reply_artifact_bundle slot next_body =
     (case slot of
        None \<Rightarrow> Inr (Some next_body)
      | Some existing \<Rightarrow>
          (if existing = next_body then Inr slot
           else Inl (err_config ''reply_artifact_bundle_conflict''
                  ''multiple distinct current-chat primary artifacts were declared in one turn'')))"

text \<open>The messages a tool sends: the artifact for the reply, whether something visible went out, or the error that ends it.\<close>

(* agent/loop/tool_round.rs: lines 391-453 the outbound intents *)
fun deliver_intents :: "('json, 's) tool_env \<Rightarrow> 'json ToolOutboundIntent list \<Rightarrow> 'json CanonicalMessageBody option \<Rightarrow> bool \<Rightarrow> 's
    \<Rightarrow> 's \<times> (Error + 'json CanonicalMessageBody option \<times> bool)" where
  "deliver_intents en [] artifact visible s = (s, Inr (artifact, visible))"
| "deliver_intents en (i # is) artifact visible s =
     (case current_chat_primary_artifact_from_intent i of
        Some body \<Rightarrow>
          (if \<not> tn_supports_current_chat en
           then (s, Inl (err_config ''tool_current_chat_primary_reply''
                  ''runtime does not support current-chat primary reply artifacts''))
           else case merge_reply_artifact_bundle artifact body of
             Inl e \<Rightarrow> (s, Inl e)
           | Inr artifact' \<Rightarrow> deliver_intents en is artifact' visible s)
      | None \<Rightarrow>
          (case tn_deliver en i s of
             (s', Inl e) \<Rightarrow> (s', Inl e)
           | (s', Inr shown) \<Rightarrow> deliver_intents en is artifact (visible \<or> shown) s'))"

(* agent/loop/tool_round.rs: fn execute_tool_call *)
definition execute_tool_call :: "('json, 's) tool_env \<Rightarrow> ToolCall \<Rightarrow> 's \<Rightarrow> 's \<times> 'json ToolCallExecutionResult" where
  "execute_tool_call en tc s =
     (let name = tl_name tc
      in if \<not> tn_visible en s name
         then (case tn_capability_blocker en s name of
                 Some b \<Rightarrow> (s, capability_blocked_tool_execution_result en name b)
               | None \<Rightarrow> (s, unavailable_tool_execution_result en name))
         else
           let input = tn_normalize en name (tl_input tc)
           in case tn_assess en name input s of
                (s1, Inl e) \<Rightarrow>
                  (s1, if err_stage e = ''tool_protocol_contract''
                       then protocol_contract_tool_execution_result en name (tl_input tc) e
                       else error_tool_execution_result en False e)
              | (s1, Inr (PermitDenied reason)) \<Rightarrow> (s1, denied_tool_execution_result en name reason)
              | (s1, Inr (PermitGranted permit)) \<Rightarrow>
                  (case tn_gate en s1 name (tp_requires_network permit) of
                     Deny reason \<Rightarrow> (tn_record_denial en permit reason s1, denied_tool_execution_result en name reason)
                   | Allow \<Rightarrow>
                       (case tn_capability_blocker en s1 name of
                          Some b \<Rightarrow> (s1, capability_blocked_tool_execution_result en name b)
                        | None \<Rightarrow>
                            (case tn_execute en permit input s1 of
                               (s2, Inl e) \<Rightarrow>
                                 (case tn_capability_blocker en s2 name of
                                    Some b \<Rightarrow> (s2, capability_blocked_tool_execution_result en name b)
                                  | None \<Rightarrow> (tn_record_failure en permit e s2, error_tool_execution_result en (tp_mutating permit) e))
                             | (s2, Inr oc) \<Rightarrow>
                                 (case deliver_intents en (oc_intents oc) None False s2 of
                                    (s3, Inl e) \<Rightarrow> (s3, error_tool_execution_result en (tp_mutating permit) e)
                                  | (s3, Inr (artifact, visible)) \<Rightarrow>
                                      (s3, \<lparr>te_result = scrub_credentials (oc_content oc),
                                            te_failure_kind = oc_failure_kind oc, te_blocker = oc_blocker oc,
                                            te_succeeded = (oc_blocker oc = None \<and> oc_failure_kind oc = None),
                                            te_protocol_violation = False, te_mutating = tp_mutating permit,
                                            te_visible_side_effects = visible, te_artifact = artifact\<rparr>))))))"


section \<open>The calls of one answer\<close>

(* agent/loop.rs: fn failure_kind_attr *)
definition failure_kind_attr :: "ToolFailureKind option \<Rightarrow> string option" where
  "failure_kind_attr kind = map_option failure_kind_as_str kind"

text \<open>How often a call with this key was made in the turn.\<close>

type_synonym repeats = "u64 \<rightharpoonup> u8"

definition repeats_of :: "repeats \<Rightarrow> u64 \<Rightarrow> u8" where
  "repeats_of m k = (case m k of Some n \<Rightarrow> n | None \<Rightarrow> 0)"

definition count_call :: "u64 \<Rightarrow> repeats \<Rightarrow> repeats" where
  "count_call k m = m(k \<mapsto> sat_add (repeats_of m k) 1)"

text \<open>The output of a round with the buffers it fills: the text of the results, the lines of evidence, the counts.\<close>

(* agent/loop.rs: struct ToolUseRoundExecutionOutput *)
record 'json ToolUseRoundExecutionOutput =
  ro_truncated :: bool
  ro_success :: bool
  ro_external :: bool
  ro_mutating :: bool
  ro_visible :: bool
  ro_exhausted :: bool
  ro_artifact :: "'json CanonicalMessageBody option"
  ro_omitted :: nat
  ro_names :: "string list"
  ro_blocker :: "WorkflowBlocker option"
  ro_text :: string
  ro_evidence :: "string list"
  ro_repeat :: repeats

definition round_start :: "repeats \<Rightarrow> 'json ToolUseRoundExecutionOutput" where
  "round_start m =
     \<lparr>ro_truncated = False, ro_success = False, ro_external = False, ro_mutating = False, ro_visible = False,
      ro_exhausted = False, ro_artifact = None, ro_omitted = 0, ro_names = [], ro_blocker = None,
      ro_text = TOOL_RESULTS_PREFIX, ro_evidence = [], ro_repeat = m\<rparr>"

(* agent/loop/tool_round.rs: lines 551-552 the effects of a call *)
definition note_effects :: "'json ToolCallExecutionResult \<Rightarrow> 'json ToolUseRoundExecutionOutput \<Rightarrow> 'json ToolUseRoundExecutionOutput" where
  "note_effects ex r =
     r\<lparr>ro_mutating := (ro_mutating r \<or> te_mutating ex), ro_visible := (ro_visible r \<or> te_visible_side_effects ex)\<rparr>"

(* agent/loop/tool_round.rs: lines 573-592 the blocker, the evidence and the names *)
definition note_outcome :: "('json, 's) tool_env \<Rightarrow> ToolCall \<Rightarrow> 'json ToolCallExecutionResult
    \<Rightarrow> 'json ToolUseRoundExecutionOutput \<Rightarrow> 'json ToolUseRoundExecutionOutput" where
  "note_outcome en tc ex r =
     (let evident = (te_succeeded ex \<and> tn_enhanced en);
          room = (accepts_tool_evidence (tn_surface en) (tl_name tc) \<and> length (ro_evidence r) < MAX_TOOL_EVIDENCE_ITEMS)
      in r\<lparr>ro_blocker := (if ro_blocker r = None then te_blocker ex else ro_blocker r),
           ro_external := (ro_external r \<or> evident \<and> tn_external en (tl_name tc) (te_result ex)),
           ro_evidence := (if evident \<and> room
              then ro_evidence r @ (case build_tool_evidence_line (tl_id tc) (tl_name tc) (te_result ex) of
                                      Some l \<Rightarrow> [l] | None \<Rightarrow> [])
              else ro_evidence r),
           ro_omitted := (if evident \<and> \<not> room then ro_omitted r + 1 else ro_omitted r),
           ro_success := (ro_success r \<or> te_succeeded ex),
           ro_names := (if te_succeeded ex then ro_names r @ [tl_name tc] else ro_names r)\<rparr>)"

(* agent/loop/tool_round.rs: lines 593-603 the counts of a call *)
definition note_counts :: "('json, 's) tool_env \<Rightarrow> ToolCall \<Rightarrow> 'json ToolCallExecutionResult
    \<Rightarrow> 'json ToolUseRoundExecutionOutput \<Rightarrow> 'json ToolUseRoundExecutionOutput" where
  "note_counts en tc ex r =
     (let pk = tn_hash en (tl_name tc) ''tool_protocol_violation'';
          m = (if te_protocol_violation ex then count_call pk (ro_repeat r) else ro_repeat r)
      in r\<lparr>ro_exhausted := (if te_protocol_violation ex then MAX_TOOL_PROTOCOL_REPAIR_ATTEMPTS < repeats_of m pk
                           else ro_exhausted r),
           ro_repeat := count_call (tn_hash en (tl_name tc) (tl_input tc)) m\<rparr>)"

(* agent/loop/tool_round.rs: lines 605-629 the block of a call *)
definition note_block :: "('json, 's) tool_env \<Rightarrow> bool \<Rightarrow> ToolCall \<Rightarrow> 'json ToolCallExecutionResult
    \<Rightarrow> 'json ToolUseRoundExecutionOutput \<Rightarrow> 'json ToolUseRoundExecutionOutput" where
  "note_block en initial tc ex r =
     (case (if initial then (ro_text r, False) else push_bounded_utf8 (ro_text r) LF MAX_TOOL_RESULTS_USER_MESSAGE_LEN) of
        (t, True) \<Rightarrow> r\<lparr>ro_text := t, ro_truncated := True\<rparr>
      | (t, False) \<Rightarrow>
          (case append_tool_result_block t
              \<lparr>tb_call_id = tl_id tc, tb_tool_name = tl_name tc, tb_status = tool_result_status_attr (\<not> te_succeeded ex),
               tb_failure = failure_kind_attr (te_failure_kind ex),
               tb_repeat_count = unat (repeats_of (ro_repeat r) (tn_hash en (tl_name tc) (tl_input tc))),
               tb_content = te_result ex\<rparr> MAX_TOOL_RESULTS_USER_MESSAGE_LEN of
             (t', tr) \<Rightarrow> r\<lparr>ro_text := t', ro_truncated := (ro_truncated r \<or> tr)\<rparr>))"

text \<open>The calls in their order; the flag marks the first. Artifacts in conflict, text that does not fit, a blocker and exhausted
  repairs end the round.\<close>

(* agent/loop/tool_round.rs: fn execute_tool_use_round *)
fun execute_tool_calls :: "('json, 's) tool_env \<Rightarrow> bool \<Rightarrow> ToolCall list \<Rightarrow> 'json ToolUseRoundExecutionOutput \<Rightarrow> 's
    \<Rightarrow> 's \<times> 'json ToolUseRoundExecutionOutput" where
  "execute_tool_calls en initial [] r s = (s, r)"
| "execute_tool_calls en initial (tc # tcs) r s =
     (case execute_tool_call en tc s of
        (s', ex) \<Rightarrow>
          (case (case te_artifact ex of None \<Rightarrow> Inr (ro_artifact r) | Some b \<Rightarrow> merge_reply_artifact_bundle (ro_artifact r) b) of
             Inl e \<Rightarrow> (s', (note_effects ex r)\<lparr>ro_blocker := Some (plain_blocker RuntimeBlocked (tn_show_error en e))\<rparr>)
           | Inr artifact \<Rightarrow>
               (let r' = note_block en initial tc ex (note_counts en tc ex (note_outcome en tc ex
                           ((note_effects ex r)\<lparr>ro_artifact := artifact\<rparr>)))
                in if ro_truncated r' \<or> te_blocker ex \<noteq> None \<or> ro_exhausted r' then (s', r')
                   else execute_tool_calls en False tcs r' s')))"

declare execute_tool_calls.simps(2) [simp del]

definition execute_tool_use_round :: "('json, 's) tool_env \<Rightarrow> ToolCall list \<Rightarrow> repeats \<Rightarrow> 's
    \<Rightarrow> 's \<times> 'json ToolUseRoundExecutionOutput" where
  "execute_tool_use_round en tcs m s = execute_tool_calls en True tcs (round_start m) s"

section \<open>The rounds of a turn\<close>

text \<open>What a turn is given: the plan of the request with its tools, the model, the pressure and the gate of the model, what is
  recalled for a grounding (the summary and the long-term memory), and the texts of the program.\<close>

record ('json, 's) turn_env =
  tu_tools :: "('json, 's) tool_env"
  tu_json :: json_library
  tu_has_tools :: bool
  tu_pressure :: "'s \<Rightarrow> 's \<times> PressureLevel"
  tu_admit :: "'s \<Rightarrow> 's \<times> LlmDecision"
  tu_chat :: "nat \<Rightarrow> bool \<Rightarrow> Message list \<Rightarrow> 's \<Rightarrow> 's \<times> (Error + LlmResponse)"
  tu_partial :: "string \<Rightarrow> 's \<Rightarrow> 's"
  tu_recall :: "'s \<Rightarrow> 's \<times> string option \<times> string option"
  tu_low_memory :: string
  tu_omitted :: string
  tu_cut :: string
  tu_failed :: string
  tu_question :: "WorkflowBlocker \<Rightarrow> string"
  tu_empty_error :: "bool \<Rightarrow> string"
  tu_ingress :: IngressKind
  tu_channel :: string

text \<open>What the loop keeps from round to round.\<close>

record 'json react_state =
  rs_messages :: "Message list"
  rs_repeat :: repeats
  rs_grounding :: "string option"
  rs_content :: string
  rs_any_round :: bool
  rs_any_used :: bool
  rs_mutating :: bool
  rs_visible :: bool
  rs_blocker :: "WorkflowBlocker option"
  rs_artifact :: "'json CanonicalMessageBody option"
  rs_names :: "string list"
  rs_external :: bool

definition react_start :: "Message list \<Rightarrow> 'json react_state" where
  "react_start messages =
     \<lparr>rs_messages = messages, rs_repeat = Map.empty, rs_grounding = None, rs_content = [], rs_any_round = False,
      rs_any_used = False, rs_mutating = False, rs_visible = False, rs_blocker = None, rs_artifact = None, rs_names = [],
      rs_external = False\<rparr>"

datatype 'json react_next = Again "'json react_state" | Done "'json react_state" | Failed Error

(* agent/loop/turn_execution.rs: lines 552-570 the gate of a further round *)
definition round_admission :: "('json, 's) turn_env \<Rightarrow> nat \<Rightarrow> 's \<Rightarrow> 's \<times> bool" where
  "round_admission te round s =
     (if round = 0 then (s, True)
      else case tu_pressure te s of
        (s1, PressureNormal) \<Rightarrow> (s1, True)
      | (s1, _) \<Rightarrow> (case tu_admit te s1 of (s2, d) \<Rightarrow> (s2, d = Proceed)))"

(* agent/loop/turn_execution.rs: lines 559-565 the text of a refused round *)
definition low_memory_text :: "('json, 's) turn_env \<Rightarrow> string \<Rightarrow> string" where
  "low_memory_text te content = (if content = [] then tu_low_memory te else content @ LF @ LF @ tu_omitted te)"

(* agent/loop/turn_execution.rs: lines 673-680 the assistant's message *)
definition tool_use_message :: "string \<Rightarrow> Message" where
  "tool_use_message content =
     \<lparr>mg_role = ''assistant'', mg_content = (if content = [] then ''[tool_use]'' else content)\<rparr>"

(* agent/loop/turn_execution.rs: lines 702-710 the totals of the turn *)
definition note_round :: "'json ToolUseRoundExecutionOutput \<Rightarrow> 'json react_state \<Rightarrow> 'json react_state" where
  "note_round ro st =
     st\<lparr>rs_repeat := ro_repeat ro, rs_any_used := (rs_any_used st \<or> ro_success ro),
        rs_mutating := (rs_mutating st \<or> ro_mutating ro), rs_visible := (rs_visible st \<or> ro_visible ro),
        rs_blocker := (if rs_blocker st = None then ro_blocker ro else rs_blocker st)\<rparr>"

text \<open>The message with the results, and the grounding that is kept for the next.\<close>

(* agent/loop/turn_execution.rs: lines 728-781 the message of the results *)
definition append_round_message :: "('json, 's) turn_env \<Rightarrow> 'json ToolUseRoundExecutionOutput \<Rightarrow> 'json react_state \<Rightarrow> 's
    \<Rightarrow> 's \<times> 'json react_state" where
  "append_round_message te ro st s =
     (let surface = tn_surface (tu_tools te);
          evidence = (if ro_evidence ro = [] then None
                      else Some (render_surface_evidence_block surface (ro_evidence ro) (ro_omitted ro)));
          (s', grounding) = (case rs_grounding st of
              Some g \<Rightarrow> (s, Some g)
            | None \<Rightarrow> (case tu_recall te s of (s1, summary, longterm) \<Rightarrow> (s1, build_memory_grounding_text summary longterm)));
          memory = (if allows_memory_grounding_block surface then map_option render_memory_grounding_block grounding else None);
          content = fst (assemble_tool_round_user_message (ro_text ro) (ro_truncated ro) evidence memory
                      MAX_TOOL_RESULTS_USER_MESSAGE_LEN)
      in (s', st\<lparr>rs_grounding := grounding,
                 rs_messages := rs_messages st @ [\<lparr>mg_role = ''user'', mg_content = content\<rparr>]\<rparr>))"

(* agent/loop/turn_execution.rs: lines 711-783 what a round leads to *)
definition end_tool_round :: "('json, 's) turn_env \<Rightarrow> 'json ToolUseRoundExecutionOutput \<Rightarrow> 'json react_state \<Rightarrow> 's
    \<Rightarrow> 's \<times> 'json react_next" where
  "end_tool_round te ro st s =
     (case (case ro_artifact ro of None \<Rightarrow> Inr (rs_artifact st) | Some b \<Rightarrow> merge_reply_artifact_bundle (rs_artifact st) b) of
        Inl e \<Rightarrow> (s, Failed e)
      | Inr artifact \<Rightarrow>
          (let st1 = st\<lparr>rs_artifact := artifact, rs_names := rs_names st @ ro_names ro,
                        rs_external := (rs_external st \<or> ro_external ro)\<rparr>
           in if ro_exhausted ro then (s, Done (st1\<lparr>rs_content := tu_failed te\<rparr>))
              else case ro_blocker ro of
                Some b \<Rightarrow> (s, Done (st1\<lparr>rs_content := tu_question te b\<rparr>))
              | None \<Rightarrow> (case append_round_message te ro st1 s of (s', st2) \<Rightarrow> (s', Again st2))))"

(* agent/loop/turn_execution.rs: lines 667-702 an answer that calls tools *)
definition run_tool_round :: "('json, 's) turn_env \<Rightarrow> string \<Rightarrow> ToolCall list \<Rightarrow> 'json react_state \<Rightarrow> 's
    \<Rightarrow> 's \<times> 'json react_next" where
  "run_tool_round te content calls st s =
     (let s1 = (if trim content \<noteq> [] \<and> trim content \<noteq> ''[tool_use]'' then tu_partial te content s else s);
          st1 = st\<lparr>rs_any_round := True, rs_messages := rs_messages st @ [tool_use_message content]\<rparr>
      in case execute_tool_use_round (tu_tools te) calls (rs_repeat st1) s1 of
           (s2, ro) \<Rightarrow> end_tool_round te ro (note_round ro st1) s2)"

(* agent/loop/turn_execution.rs: lines 636-666 what an answer leads to *)
definition take_response :: "('json, 's) turn_env \<Rightarrow> LlmResponse \<Rightarrow> 'json react_state \<Rightarrow> 's \<Rightarrow> 's \<times> 'json react_next" where
  "take_response te response st s =
     (case lr_stop_reason response of
        MaxTokens \<Rightarrow>
          (s, Done (st\<lparr>rs_content := (if lr_content response = [] then [] else lr_content response @ LF @ LF @ tu_cut te)\<rparr>))
      | ToolUse \<Rightarrow>
          (let calls = (case lr_tool_calls response of Some cs \<Rightarrow> cs | None \<Rightarrow> [])
           in if calls = [] then (s, Done (st\<lparr>rs_content := lr_content response\<rparr>))
              else run_tool_round te (lr_content response) calls st s)
      | _ \<Rightarrow> (s, Done (st\<lparr>rs_content := lr_content response\<rparr>)))"

(* agent/loop/turn_execution.rs: lines 550-623 a round up to its answer *)
definition react_round :: "('json, 's) turn_env \<Rightarrow> nat \<Rightarrow> nat \<Rightarrow> 'json react_state \<Rightarrow> 's \<Rightarrow> 's \<times> 'json react_next" where
  "react_round te initial_count round st s =
     (case round_admission te round s of
        (s1, False) \<Rightarrow> (s1, Done (st\<lparr>rs_content := low_memory_text te (rs_content st)\<rparr>))
      | (s1, True) \<Rightarrow>
          (let st1 = (if 2 \<le> round
                      then st\<lparr>rs_messages := compact_early_tool_rounds (rs_messages st) initial_count\<rparr> else st)
           in case tu_chat te round (rs_any_used st1) (rs_messages st1) s1 of
                (s2, Inl e) \<Rightarrow> (s2, Failed (with_stage e ''agent_chat''))
              | (s2, Inr response) \<Rightarrow>
                  take_response te (if tu_has_tools te then recover_text_tool_calls (tu_json te) response else response) st1 s2))"

(* agent/loop/turn_execution.rs: lines 550-551 the rounds *)
fun react_rounds :: "('json, 's) turn_env \<Rightarrow> nat \<Rightarrow> nat \<Rightarrow> 'json react_state \<Rightarrow> 's \<Rightarrow> 's \<times> (Error + 'json react_state)" where
  "react_rounds te initial_count 0 st s = (s, Inr st)"
| "react_rounds te initial_count (Suc left) st s =
     (case react_round te initial_count (MAX_REACT_ROUNDS - Suc left) st s of
        (s', Again st') \<Rightarrow> react_rounds te initial_count left st' s'
      | (s', Done st') \<Rightarrow> (s', Inr st')
      | (s', Failed e) \<Rightarrow> (s', Inl e))"

(* agent/loop/turn_execution.rs: lines 537-549 the start of the loop *)
definition run_react :: "('json, 's) turn_env \<Rightarrow> Message list \<Rightarrow> 's \<Rightarrow> 's \<times> (Error + 'json react_state)" where
  "run_react te messages s = react_rounds te (length messages) MAX_REACT_ROUNDS (react_start messages) s"

text \<open>A user's turn without tools that says nothing is an error and not an empty reply.\<close>

(* agent/loop/turn_execution.rs: lines 797-812 the empty reply *)
definition react_turn :: "('json, 's) turn_env \<Rightarrow> Message list \<Rightarrow> 's \<Rightarrow> 's \<times> (Error + 'json react_state)" where
  "react_turn te messages s =
     (case run_react te messages s of
        (s', Inl e) \<Rightarrow> (s', Inl e)
      | (s', Inr st) \<Rightarrow>
          (if trim (rs_content st) = [] \<and> tu_ingress te = IngressUser \<and> tu_channel te \<noteq> ''cron'' \<and> \<not> rs_any_round st
           then (s', Inl (err_config ''producer_empty'' (tu_empty_error te (rs_any_used st))))
           else (s', Inr st)))"

end
