(* ===== verification/React_Laws.thy ===== *)
theory React_Laws
  imports React_Loop
begin

text \<open>
  What holds of the loop of a turn: the messages it adds to the conversation and their bounds, which executions of tools it can
  make, when it stops making them, what compaction leaves as it was, and what of a round reaches the model whole.
\<close>

section \<open>Bounded texts\<close>

lemma push_bounded_length: "length dst \<le> n \<Longrightarrow> length (fst (push_bounded_utf8 dst t n)) \<le> n"
  using boundary_at_most(2)[of t "n - length dst"] by (auto simp: push_bounded_utf8_def Let_def)

lemma push_bounded_fits: "length dst + length t \<le> n \<Longrightarrow> length dst < n \<Longrightarrow> push_bounded_utf8 dst t n = (dst @ t, False)"
  by (simp add: push_bounded_utf8_def Let_def)

lemma push_bounded_prefix: "prefix dst (fst (push_bounded_utf8 dst t n))"
  by (simp add: push_bounded_utf8_def Let_def)

lemma push_all_length: "length dst \<le> n \<Longrightarrow> length (fst (push_all dst ts n)) \<le> n"
proof (induction ts arbitrary: dst)
  case (Cons t ts)
  obtain d tr where p: "push_bounded_utf8 dst t n = (d, tr)" by (rule prod.exhaust)
  have "length d \<le> n" using push_bounded_length[OF Cons.prems, of t] by (simp add: p)
  then show ?case by (cases tr) (simp_all add: p Cons.IH)
qed simp

text \<open>A section either stays out, or follows the text and its line feed.\<close>

lemma rendered_section_cases:
  "append_rendered_tool_section dst sec n = (dst, False)
   \<or> append_rendered_tool_section dst sec n = push_bounded_utf8 dst sec n
   \<or> append_rendered_tool_section dst sec n = (fst (push_bounded_utf8 dst [CHR 0x0A] n), True)
   \<or> append_rendered_tool_section dst sec n = push_bounded_utf8 (fst (push_bounded_utf8 dst [CHR 0x0A] n)) sec n"
proof -
  obtain d tr where p: "push_bounded_utf8 dst [CHR 0x0A] n = (d, tr)" by (rule prod.exhaust)
  show ?thesis by (cases tr) (simp_all add: append_rendered_tool_section_def p)
qed

lemma rendered_section_length:
  assumes "length dst \<le> n"
  shows "length (fst (append_rendered_tool_section dst sec n)) \<le> n"
  using rendered_section_cases[of dst sec n]
  by (elim disjE) (simp_all add: push_bounded_length assms)

lemma rendered_section_prefix: "prefix dst (fst (append_rendered_tool_section dst sec n))"
  using rendered_section_cases[of dst sec n]
  by (elim disjE) (simp_all add: push_bounded_prefix prefix_order.trans[OF push_bounded_prefix push_bounded_prefix])

text \<open>A section that fits with its line feed is there whole.\<close>

definition line_break :: "string \<Rightarrow> string" where
  "line_break dst = (if dst \<noteq> [] \<and> last dst = CHR 0x0A then [] else [CHR 0x0A])"

lemma rendered_section_fits:
  assumes "length dst + 1 + length sec \<le> n" "sec \<noteq> []"
  shows "append_rendered_tool_section dst sec n = (dst @ line_break dst @ sec, False)"
proof -
  have nl: "push_bounded_utf8 dst [CHR 0x0A] n = (dst @ [CHR 0x0A], False)"
    using assms by (intro push_bounded_fits) simp_all
  have "length dst + 1 < n" using assms by (cases sec) auto
  then have "push_bounded_utf8 dst sec n = (dst @ sec, False)"
    "push_bounded_utf8 (dst @ [CHR 0x0A]) sec n = ((dst @ [CHR 0x0A]) @ sec, False)"
    using assms(1) by (intro push_bounded_fits; simp)+
  then show ?thesis using assms(2) nl by (auto simp: append_rendered_tool_section_def line_break_def)
qed

lemma line_break_length: "length (line_break dst) \<le> 1"
  by (simp add: line_break_def)

lemma clone_bounded_length: "length (fst (clone_bounded_utf8 t n)) \<le> n"
  by (simp add: clone_bounded_utf8_def push_bounded_length)

lemma clone_bounded_fits: "length t \<le> n \<Longrightarrow> 0 < n \<Longrightarrow> clone_bounded_utf8 t n = (t, False)"
  by (simp add: clone_bounded_utf8_def push_bounded_fits)

lemma marker_length: "length TOOL_RESULTS_TRUNCATED_MARKER = 12"
  by (simp add: TOOL_RESULTS_TRUNCATED_MARKER_def)

lemma prefix_length14: "length TOOL_RESULTS_PREFIX = 14"
  by (simp add: TOOL_RESULTS_PREFIX_def)

lemmas round_bounds = MAX_TOOL_RESULTS_USER_MESSAGE_LEN_def TOOL_EVIDENCE_RESERVED_BYTES_def
  TOOL_MEMORY_GROUNDING_MAX_BYTES_def TOOL_RESULT_RAW_MIN_BYTES_def marker_length prefix_length14


section \<open>The message of a round\<close>

lemma memory_for_round_length: "length (fst (memory_for_round ev mem n)) \<le> TOOL_MEMORY_GROUNDING_MAX_BYTES"
proof -
  obtain m tr where m: "(case mem of Some b \<Rightarrow> clone_bounded_utf8 b TOOL_MEMORY_GROUNDING_MAX_BYTES | None \<Rightarrow> ([], False)) = (m, tr)"
    by (rule prod.exhaust)
  have m_le: "length m \<le> TOOL_MEMORY_GROUNDING_MAX_BYTES"
    using clone_bounded_length[of _ TOOL_MEMORY_GROUNDING_MAX_BYTES] m by (cases mem) (auto, metis fst_conv)
  have "length (fst (clone_bounded_utf8 m (length m - k))) \<le> TOOL_MEMORY_GROUNDING_MAX_BYTES" for k
    using clone_bounded_length[of m "length m - k"] m_le by linarith
  then show ?thesis using m_le by (simp add: memory_for_round_def m Let_def split_beta)
qed

text \<open>With the evidence in its reserve, the room in the message of a round is enough for any memory.\<close>

lemma memory_for_round_full:
  "memory_for_round ev mem MAX_TOOL_RESULTS_USER_MESSAGE_LEN =
     (case mem of Some b \<Rightarrow> clone_bounded_utf8 b TOOL_MEMORY_GROUNDING_MAX_BYTES | None \<Rightarrow> ([], False))"
proof -
  obtain m tr where m: "(case mem of Some b \<Rightarrow> clone_bounded_utf8 b TOOL_MEMORY_GROUNDING_MAX_BYTES | None \<Rightarrow> ([], False)) = (m, tr)"
    by (rule prod.exhaust)
  have "length m \<le> TOOL_MEMORY_GROUNDING_MAX_BYTES"
    using clone_bounded_length[of _ TOOL_MEMORY_GROUNDING_MAX_BYTES] m by (cases mem) (auto, metis fst_conv)
  then have "\<not> room_for_results ev m MAX_TOOL_RESULTS_USER_MESSAGE_LEN < TOOL_RESULT_RAW_MIN_BYTES"
    by (cases ev; simp add: room_for_results_def round_bounds not_less min_def; arith?)
  then show ?thesis by (simp add: memory_for_round_def m Let_def)
qed

text \<open>What is written before the marker.\<close>

definition round_body :: "string \<Rightarrow> string option \<Rightarrow> string \<Rightarrow> nat \<Rightarrow> string \<times> bool" where
  "round_body raw ev m n =
     (let o1 = (case ev of Some b \<Rightarrow> append_rendered_tool_section raw b n | None \<Rightarrow> (raw, False));
          o2 = (if m = [] then (fst o1, False) else append_rendered_tool_section (fst o1) m n)
      in (fst o2, snd o1 \<or> snd o2))"

lemma assemble_body:
  fixes raw ev mem n tr
  defines "m \<equiv> memory_for_round ev mem n"
  defines "c \<equiv> clone_bounded_utf8 raw (max (room_for_results ev (fst m) n) (length TOOL_RESULTS_PREFIX))"
  defines "b \<equiv> round_body (fst c) ev (fst m) n"
  defines "t \<equiv> tr \<or> snd c \<or> snd m \<or> snd b"
  shows "assemble_tool_round_user_message raw tr ev mem n =
    (if t \<and> length (fst b) < n then fst (push_bounded_utf8 (fst b) TOOL_RESULTS_TRUNCATED_MARKER n) else fst b, t)"
  unfolding assms assemble_tool_round_user_message_def round_body_def
  by (simp add: Let_def split_beta disj_assoc)

lemma round_body_length: "length raw \<le> n \<Longrightarrow> length (fst (round_body raw ev m n)) \<le> n"
  by (simp add: round_body_def Let_def rendered_section_length split: option.split)

lemma round_body_prefix:
  "prefix (case ev of Some b \<Rightarrow> fst (append_rendered_tool_section raw b n) | None \<Rightarrow> raw) (fst (round_body raw ev m n))"
  by (simp add: round_body_def Let_def rendered_section_prefix split: option.split)

lemma assemble_length:
  assumes "length TOOL_RESULTS_PREFIX \<le> n"
  shows "length (fst (assemble_tool_round_user_message raw tr ev mem n)) \<le> n"
proof -
  have "room_for_results ev m n \<le> n" for m by (simp add: room_for_results_def)
  then have "length (fst (clone_bounded_utf8 raw (max (room_for_results ev m n) (length TOOL_RESULTS_PREFIX)))) \<le> n" for m
    using clone_bounded_length[of raw "max (room_for_results ev m n) (length TOOL_RESULTS_PREFIX)"] assms
    by (meson le_trans max.boundedI)
  then show ?thesis by (simp add: assemble_body round_body_length push_bounded_length)
qed

text \<open>The longest prefix of whole characters that has at most \<open>n\<close> bytes.\<close>

definition whole_chars :: "string \<Rightarrow> nat \<Rightarrow> string" where
  "whole_chars t n = take (Max {k \<in> {..n}. is_char_boundary t k}) t"

lemma whole_chars_boundary: "whole_chars t n = take (boundary_at_most t n) t"
proof -
  have "boundary_at_most t n = Max {k \<in> {..n}. is_char_boundary t k}"
  proof (rule Max_eqI [symmetric])
    show "y \<le> boundary_at_most t n" if "y \<in> {k \<in> {..n}. is_char_boundary t k}" for y
      using that by (intro boundary_at_most(3)) auto
    show "boundary_at_most t n \<in> {k \<in> {..n}. is_char_boundary t k}"
      using boundary_at_most(1,2) [of t n] by simp
  qed simp
  then show ?thesis by (simp add: whole_chars_def)
qed

lemma whole_chars_fits: "length t \<le> n \<Longrightarrow> whole_chars t n = t"
  using boundary_at_most(3) [of "length t" n t] by (simp add: whole_chars_boundary is_char_boundary_def)

lemma clone_is_whole_chars: "0 < n \<Longrightarrow> clone_bounded_utf8 t n = (whole_chars t n, n < length t)"
  using whole_chars_fits [of t n] whole_chars_boundary [of t n]
  by (simp add: clone_bounded_utf8_def push_bounded_utf8_def Let_def not_less split: if_splits)

lemma whole_chars_length: "length (whole_chars t n) \<le> n"
  using boundary_at_most(2) [of t n] by (simp add: whole_chars_boundary min.coboundedI2)

lemma whole_chars_eq: "whole_chars t n = t \<longleftrightarrow> length t \<le> n"
  using whole_chars_length [of t n] whole_chars_fits [of t n] by auto

text \<open>A section on a line of its own; an empty one is nothing.\<close>

definition own_line :: "string \<Rightarrow> string \<Rightarrow> string" where
  "own_line dst sec = (if sec = [] then [] else line_break dst @ sec)"

lemma own_line_length: "length (own_line dst sec) \<le> 1 + length sec"
  by (simp add: own_line_def line_break_def)

lemma section_fits: "length dst + 1 + length sec \<le> n \<Longrightarrow> append_rendered_tool_section dst sec n = (dst @ own_line dst sec, False)"
  by (cases "sec = []") (simp_all add: own_line_def rendered_section_fits append_rendered_tool_section_def [of _ "[]"])

lemma marker_cut:
  assumes "10 \<le> n"
  shows "boundary_at_most TOOL_RESULTS_TRUNCATED_MARKER n = min n 12"
proof (cases "12 \<le> n")
  case True
  have b: "is_char_boundary TOOL_RESULTS_TRUNCATED_MARKER 12" by (simp add: is_char_boundary_def marker_length)
  have "boundary_at_most TOOL_RESULTS_TRUNCATED_MARKER n \<le> 12"
    using boundary_at_most(1) [of TOOL_RESULTS_TRUNCATED_MARKER n] by (auto simp: is_char_boundary_def marker_length)
  then show ?thesis using boundary_at_most(3) [OF True b] True by simp
next
  case False
  then have "n = 10 \<or> n = 11" using assms by auto
  then have "is_char_boundary TOOL_RESULTS_TRUNCATED_MARKER n"
    by (auto simp: is_char_boundary_def TOOL_RESULTS_TRUNCATED_MARKER_def is_continuation_def)
  then show ?thesis using boundary_at_most(2) [of TOOL_RESULTS_TRUNCATED_MARKER n]
      boundary_at_most(3) [of n n TOOL_RESULTS_TRUNCATED_MARKER] False by simp
qed

lemma push_marker:
  assumes "length dst + 10 \<le> n"
  shows "fst (push_bounded_utf8 dst TOOL_RESULTS_TRUNCATED_MARKER n) = dst @ take (n - length dst) TOOL_RESULTS_TRUNCATED_MARKER"
  using assms marker_cut [of "n - length dst"] by (auto simp: push_bounded_utf8_def Let_def marker_length)

text \<open>
  C34: the message of a round of tools. (1) It never has more than 4096 bytes. (2) When there is no evidence, or evidence of
  at most the 768 bytes kept for it, the message is exactly this: the results, then the evidence, then the memory, each
  on a line of its own and left out when empty, and at the end, when something was cut, the marker. The evidence is
  whole. The memory is cut to 384 bytes. The results are cut to the bytes that the evidence, the memory and the marker
  leave of 4096. Each cut keeps as many whole characters as fit. Something was cut if the results were said to be before,
  or the results or the memory are longer than that. The marker itself may lose its last bytes to the line feeds.
\<close>
theorem round_message_whole:
  shows "length (fst (assemble_tool_round_user_message raw tr ev mem 4096)) \<le> 4096 \<and>
    (ev \<noteq> Some [] \<and> length (unwrap_or ev []) \<le> 768 \<longrightarrow>
      (let e = unwrap_or ev [];
           k = whole_chars (unwrap_or mem []) 384;
           r = whole_chars raw (4096 - length e - length k - length ([CHR 0x0A] @ ''[truncated]''));
           message = r @ own_line r e @ own_line (r @ own_line r e) k;
           cut = (tr \<or> r \<noteq> raw \<or> k \<noteq> unwrap_or mem [])
       in assemble_tool_round_user_message raw tr ev mem 4096 =
            (if cut then message @ take (4096 - length message) ([CHR 0x0A] @ ''[truncated]'') else message, cut)))"
proof (intro conjI impI)
  show "length (fst (assemble_tool_round_user_message raw tr ev mem 4096)) \<le> 4096"
    by (rule assemble_length) (simp add: round_bounds)
next
  assume ev: "ev \<noteq> Some [] \<and> length (unwrap_or ev []) \<le> 768"
  define e where "e = unwrap_or ev []"
  define k where "k = whole_chars (unwrap_or mem []) 384"
  define r where "r = whole_chars raw (4096 - length e - length k - 12)"
  define b where "b = r @ own_line r e @ own_line (r @ own_line r e) k"
  define cut where "cut \<longleftrightarrow> tr \<or> r \<noteq> raw \<or> k \<noteq> unwrap_or mem []"
  have "length e \<le> 768" using ev by (simp add: e_def)
  moreover have "(case ev of Some b \<Rightarrow> min (length b) TOOL_EVIDENCE_RESERVED_BYTES | None \<Rightarrow> 0) = length e"
    using ev by (cases ev) (simp_all add: e_def unwrap_or_def TOOL_EVIDENCE_RESERVED_BYTES_def)
  ultimately have e: "length e \<le> 768" "(case ev of Some b \<Rightarrow> min (length b) TOOL_EVIDENCE_RESERVED_BYTES | None \<Rightarrow> 0) = length e" .
  have kl: "length k \<le> 384" by (simp add: k_def whole_chars_length)
  have m: "memory_for_round ev mem 4096 = (k, k \<noteq> unwrap_or mem [])"
    using memory_for_round_full [of ev mem] whole_chars_eq [of _ 384]
    by (cases mem) (auto simp: k_def clone_is_whole_chars round_bounds whole_chars_fits not_le unwrap_or_def)
  have room: "max (room_for_results ev k 4096) (length TOOL_RESULTS_PREFIX) = 4096 - length e - length k - 12"
    using e kl by (simp add: room_for_results_def marker_length prefix_length14)
  have c: "clone_bounded_utf8 raw (max (room_for_results ev k 4096) (length TOOL_RESULTS_PREFIX)) = (r, r \<noteq> raw)"
    unfolding room using e kl by (subst clone_is_whole_chars) (auto simp: r_def whole_chars_eq)
  have rl: "length r + length e + length k + 12 \<le> 4096"
    using whole_chars_length [of raw "4096 - length e - length k - 12"] e kl by (simp add: r_def)
  have s1: "(case ev of Some b \<Rightarrow> append_rendered_tool_section r b 4096 | None \<Rightarrow> (r, False)) = (r @ own_line r e, False)"
    using section_fits [of r e 4096] rl by (cases ev) (simp_all add: e_def own_line_def unwrap_or_def)
  have s2: "(if k = [] then (r @ own_line r e, False) else append_rendered_tool_section (r @ own_line r e) k 4096) = (b, False)"
    using section_fits [of "r @ own_line r e" k 4096] rl own_line_length [of r e] by (simp add: b_def own_line_def)
  have bl: "length b + 10 \<le> 4096"
    using rl own_line_length [of r e] own_line_length [of "r @ own_line r e" k] by (simp add: b_def)
  have "assemble_tool_round_user_message raw tr ev mem 4096 =
      (if cut then b @ take (4096 - length b) TOOL_RESULTS_TRUNCATED_MARKER else b, cut)"
    using push_marker [OF bl] bl
    by (simp add: assemble_tool_round_user_message_def m c s1 s2 cut_def Let_def disj_assoc)
  then show "let e = unwrap_or ev [];
           k = whole_chars (unwrap_or mem []) 384;
           r = whole_chars raw (4096 - length e - length k - length ([CHR 0x0A] @ ''[truncated]''));
           message = r @ own_line r e @ own_line (r @ own_line r e) k;
           cut = (tr \<or> r \<noteq> raw \<or> k \<noteq> unwrap_or mem [])
       in assemble_tool_round_user_message raw tr ev mem 4096 =
            (if cut then message @ take (4096 - length message) ([CHR 0x0A] @ ''[truncated]'') else message, cut)"
    unfolding Let_def TOOL_RESULTS_TRUNCATED_MARKER_def [symmetric] marker_length e_def [symmetric] k_def [symmetric]
      r_def [symmetric] b_def [symmetric] cut_def [symmetric] .
qed

theorem round_message_whole_witness:
  "assemble_tool_round_user_message (TOOL_RESULTS_PREFIX @ ''block'') False (Some ''evidence'') (Some ''memory'') 4096
   = (TOOL_RESULTS_PREFIX @ ''block'' @ LF @ ''evidence'' @ LF @ ''memory'', False)"
  using round_message_whole [of "TOOL_RESULTS_PREFIX @ ''block''" False "Some ''evidence''" "Some ''memory''"]
  by (simp add: whole_chars_fits own_line_def line_break_def TOOL_RESULTS_PREFIX_def LF_def Let_def unwrap_or_def)

section \<open>Compaction\<close>

lemma compact_message_role [simp]: "mg_role (compact_message m) = mg_role m"
  by (simp add: compact_message_def split: option.split)

lemma not_prefix_again: "\<not> prefix TOOL_RESULTS_PREFIX (summarize_tool_results c)"
  by (simp add: summarize_tool_results_def SUMMARY_PREFIX_def TOOL_RESULTS_PREFIX_def split_beta Let_def)

lemma compact_message_again: "mg_role m \<noteq> ''assistant'' \<Longrightarrow> compact_message (compact_message m) = compact_message m"
  using not_prefix_again by (auto simp: compact_message_def)

text \<open>Both ends of the part that is compacted.\<close>

lemma compact_early_split:
  assumes "length ms = n + k + REACT_FULL_MSGS_KEPT"
  shows "compact_early_tool_rounds ms n = take n ms @ map compact_message (take k (drop n ms)) @ drop (n + k) ms"
  using assms by (cases k) (simp_all add: compact_early_tool_rounds_def Let_def)

lemma compact_early_short: "length ms \<le> n + REACT_FULL_MSGS_KEPT \<Longrightarrow> compact_early_tool_rounds ms n = ms"
  by (simp add: compact_early_tool_rounds_def)

lemma compact_cases:
  obtains "compact_early_tool_rounds ms n = ms"
  | k where "length ms = n + k + REACT_FULL_MSGS_KEPT"
    "compact_early_tool_rounds ms n = take n ms @ map compact_message (take k (drop n ms)) @ drop (n + k) ms"
proof (cases "length ms \<le> n + REACT_FULL_MSGS_KEPT")
  case True
  then show ?thesis using compact_early_short that(1) by blast
next
  case False
  then have "length ms = n + (length ms - n - REACT_FULL_MSGS_KEPT) + REACT_FULL_MSGS_KEPT" by simp
  then show ?thesis using compact_early_split that(2) by blast
qed

lemma map_role_compact: "map mg_role (compact_early_tool_rounds ms n) = map mg_role ms"
proof (cases rule: compact_cases[of ms n])
  case (2 k)
  have "ms = take n ms @ take k (drop n ms) @ drop (n + k) ms"
    by (metis append_take_drop_id drop_drop add.commute)
  then show ?thesis using 2(2) by (metis (no_types, lifting) compact_message_role list.map_comp map_append map_cong o_apply)
qed simp

text \<open>
  C35: Compacting the earlier rounds keeps the conversation: there are as many messages with the same roles, the messages
  from before the turn and the last four are as they were, and what is not of the assistant and was compacted once is not
  changed by compacting again.
\<close>
theorem compaction_keeps_conversation:
  "map mg_role (compact_early_tool_rounds ms n) = map mg_role ms
   \<and> take n (compact_early_tool_rounds ms n) = take n ms
   \<and> drop (length ms - REACT_FULL_MSGS_KEPT) (compact_early_tool_rounds ms n) = drop (length ms - REACT_FULL_MSGS_KEPT) ms
   \<and> filter (\<lambda>m. mg_role m \<noteq> ''assistant'') (compact_early_tool_rounds (compact_early_tool_rounds ms n) n)
     = filter (\<lambda>m. mg_role m \<noteq> ''assistant'') (compact_early_tool_rounds ms n)"
proof (cases rule: compact_cases[of ms n])
  case (2 k)
  have len: "length (compact_early_tool_rounds ms n) = n + k + REACT_FULL_MSGS_KEPT"
    using map_role_compact[of ms n] 2(1) by (metis length_map)
  have again: "filter (\<lambda>m. mg_role m \<noteq> ''assistant'') (map compact_message (map compact_message xs))
      = filter (\<lambda>m. mg_role m \<noteq> ''assistant'') (map compact_message xs)" for xs
    by (induction xs) (auto simp: compact_message_again)
  define c where "c = compact_early_tool_rounds ms n"
  have c: "c = take n ms @ map compact_message (take k (drop n ms)) @ drop (n + k) ms" by (simp add: c_def 2(2))
  have cc: "compact_early_tool_rounds c n = take n c @ map compact_message (take k (drop n c)) @ drop (n + k) c"
    by (rule compact_early_split) (use len in \<open>simp add: c_def\<close>)
  have parts: "take n c = take n ms" "take k (drop n c) = map compact_message (take k (drop n ms))"
    "drop (n + k) c = drop (n + k) ms"
    using 2(1) by (simp_all add: c)
  have "filter (\<lambda>m. mg_role m \<noteq> ''assistant'') (compact_early_tool_rounds c n) = filter (\<lambda>m. mg_role m \<noteq> ''assistant'') c"
    unfolding cc parts filter_append again by (simp only: c filter_append)
  moreover have "map mg_role c = map mg_role ms" by (simp add: c_def map_role_compact)
  ultimately show ?thesis using parts 2(1) by (simp flip: c_def)
qed (simp add: map_role_compact)

section \<open>The messages of a turn\<close>

text \<open>An answer with tool calls and the message of its results take turns; a message of results is bounded until it is summarized.\<close>

definition result_message :: "Message \<Rightarrow> bool" where
  "result_message m \<longleftrightarrow> mg_role m = ''user''
     \<and> (length (mg_content m) \<le> MAX_TOOL_RESULTS_USER_MESSAGE_LEN \<or> prefix SUMMARY_PREFIX (mg_content m))"

definition tool_rounds :: "Message list \<Rightarrow> bool" where
  "tool_rounds ms \<longleftrightarrow>
     (\<forall>i < length ms. if even i then mg_role (ms ! i) = ''assistant'' else result_message (ms ! i))"

lemma tool_rounds_Nil [simp]: "tool_rounds []"
  by (simp add: tool_rounds_def)

lemma tool_rounds_snoc:
  "tool_rounds (ms @ [m]) \<longleftrightarrow>
     tool_rounds ms \<and> (if even (length ms) then mg_role m = ''assistant'' else result_message m)"
  by (auto simp: tool_rounds_def All_less_Suc nth_append)

lemma tool_rounds_round:
  assumes "tool_rounds ms" "length ms = 2 * n"
  shows "tool_rounds (ms @ [tool_use_message c])" "result_message m \<Longrightarrow> tool_rounds (ms @ [tool_use_message c, m])"
  using assms tool_rounds_snoc[of ms "tool_use_message c"] tool_rounds_snoc[of "ms @ [tool_use_message c]" m]
  by (simp_all add: tool_use_message_def)

lemma result_message_compact: "result_message m \<Longrightarrow> result_message (compact_message m)"
  by (auto simp: result_message_def compact_message_def summarize_tool_results_def SUMMARY_PREFIX_def split_beta Let_def)

lemma tool_rounds_compact:
  assumes "tool_rounds ms"
  shows "\<exists>ms'. compact_early_tool_rounds (init @ ms) (length init) = init @ ms' \<and> length ms' = length ms \<and> tool_rounds ms'"
proof (cases rule: compact_cases[of "init @ ms" "length init"])
  case 1
  then show ?thesis using assms by blast
next
  case (2 k)
  let ?ms' = "map compact_message (take k ms) @ drop k ms"
  have k: "k \<le> length ms" using 2(1) by simp
  have "?ms' ! i = (if i < k then compact_message (ms ! i) else ms ! i)" if "i < length ms" for i
    using that k by (simp add: nth_append min_def)
  then have "tool_rounds ?ms'"
    using assms k by (auto simp: tool_rounds_def result_message_compact)
  then show ?thesis using 2 k by (intro exI[of _ ?ms']) simp
qed

text \<open>What the state is like before a round.\<close>

definition react_inv :: "Message list \<Rightarrow> nat \<Rightarrow> 'json react_state \<Rightarrow> bool" where
  "react_inv init round st \<longleftrightarrow>
     (\<exists>ms. rs_messages st = init @ ms \<and> length ms = 2 * round \<and> tool_rounds ms)
     \<and> rs_content st = [] \<and> (rs_any_round st \<longleftrightarrow> 0 < round)"

definition react_post :: "Message list \<Rightarrow> nat \<Rightarrow> 'json react_state \<Rightarrow> bool" where
  "react_post init rounds st \<longleftrightarrow>
     (\<exists>ms. rs_messages st = init @ ms \<and> length ms \<le> 2 * rounds \<and> tool_rounds ms
        \<and> (rs_any_round st \<longleftrightarrow> ms \<noteq> []) \<and> (length ms = 2 * rounds \<longrightarrow> rs_content st = []))"

lemma append_round_message_effect:
  assumes "append_round_message te ro st s = (s', st')"
  shows "\<exists>m. result_message m \<and> rs_messages st' = rs_messages st @ [m] \<and> rs_content st' = rs_content st
    \<and> rs_any_round st' = rs_any_round st"
proof -
  have r: "result_message \<lparr>mg_role = ''user'', mg_content = fst (assemble_tool_round_user_message a b c d MAX_TOOL_RESULTS_USER_MESSAGE_LEN)\<rparr>"
    for a b c d using assemble_length[of MAX_TOOL_RESULTS_USER_MESSAGE_LEN a b c d] by (simp add: result_message_def round_bounds)
  obtain g a b c d where "st' = st\<lparr>rs_grounding := g, rs_messages := rs_messages st
      @ [\<lparr>mg_role = ''user'', mg_content = fst (assemble_tool_round_user_message a b c d MAX_TOOL_RESULTS_USER_MESSAGE_LEN)\<rparr>]\<rparr>"
    using assms unfolding append_round_message_def Let_def split_beta prod.inject by (elim conjE) blast
  then show ?thesis using r by (intro exI conjI) auto
qed

lemma end_tool_round_next:
  assumes "end_tool_round te ro st s = (s', nx)"
  shows "case nx of
      Again st' \<Rightarrow> rs_content st' = rs_content st \<and> rs_any_round st' = rs_any_round st
        \<and> (\<exists>m. result_message m \<and> rs_messages st' = rs_messages st @ [m])
    | Done st' \<Rightarrow> rs_messages st' = rs_messages st \<and> rs_any_round st' = rs_any_round st
    | Failed e \<Rightarrow> True"
proof (cases "case ro_artifact ro of None \<Rightarrow> Inr (rs_artifact st) | Some b \<Rightarrow> merge_reply_artifact_bundle (rs_artifact st) b")
  case (Inl e)
  then show ?thesis using assms by (auto simp: end_tool_round_def)
next
  case (Inr artifact)
  define st1 where "st1 = st\<lparr>rs_artifact := artifact, rs_names := rs_names st @ ro_names ro,
                          rs_external := (rs_external st \<or> ro_external ro)\<rparr>"
  obtain s3 st4 where ap: "append_round_message te ro st1 s = (s3, st4)" by (rule prod.exhaust)
  have st1: "rs_messages st1 = rs_messages st" "rs_any_round st1 = rs_any_round st" "rs_content st1 = rs_content st"
    by (simp_all add: st1_def)
  have "nx = (if ro_exhausted ro then Done (st1\<lparr>rs_content := tu_failed te\<rparr>)
              else case ro_blocker ro of Some b \<Rightarrow> Done (st1\<lparr>rs_content := tu_question te b\<rparr>) | None \<Rightarrow> Again st4)"
    using assms ap unfolding end_tool_round_def Inr by (auto simp: st1_def Let_def split: option.splits if_splits)
  then show ?thesis
    using append_round_message_effect[OF ap] st1 by (auto split: option.splits if_splits)
qed

lemma run_tool_round_next:
  assumes "run_tool_round te content calls st s = (s', nx)"
  shows "case nx of
      Again st' \<Rightarrow> rs_content st' = rs_content st \<and> rs_any_round st'
        \<and> (\<exists>m. result_message m \<and> rs_messages st' = rs_messages st @ [tool_use_message content, m])
    | Done st' \<Rightarrow> rs_messages st' = rs_messages st @ [tool_use_message content] \<and> rs_any_round st'
    | Failed e \<Rightarrow> True"
proof -
  define st1 where "st1 = st\<lparr>rs_any_round := True, rs_messages := rs_messages st @ [tool_use_message content]\<rparr>"
  obtain s2 ro where "end_tool_round te ro (note_round ro st1) s2 = (s', nx)"
    using assms by (auto simp: run_tool_round_def Let_def st1_def split: prod.splits)
  then show ?thesis
    using end_tool_round_next[of te ro "note_round ro st1" s2 s' nx]
    by (auto simp: note_round_def st1_def split: react_next.splits)
qed

text \<open>A round leads from the state before it to the state before the next, or to the end.\<close>

lemma react_round_next:
  assumes "react_round te (length init) round st s = (s', nx)" "react_inv init round st"
  shows "case nx of Again st' \<Rightarrow> react_inv init (Suc round) st' | Done st' \<Rightarrow> react_post init (Suc round) st' | Failed e \<Rightarrow> True"
proof -
  obtain ms where ms: "rs_messages st = init @ ms" "length ms = 2 * round" "tool_rounds ms"
    and content: "rs_content st = []" and any: "rs_any_round st \<longleftrightarrow> 0 < round"
    using assms(2) by (auto simp: react_inv_def)
  obtain s1 go where adm: "round_admission te round s = (s1, go)" by (rule prod.exhaust)
  define st1 where "st1 = (if 2 \<le> round
      then st\<lparr>rs_messages := compact_early_tool_rounds (rs_messages st) (length init)\<rparr> else st)"
  obtain ms1 where ms1: "rs_messages st1 = init @ ms1" "length ms1 = 2 * round" "tool_rounds ms1"
    using tool_rounds_compact[OF ms(3), of init] ms by (cases "2 \<le> round") (auto simp: st1_def)
  have st1: "rs_content st1 = []" "rs_any_round st1 \<longleftrightarrow> 0 < round" using content any by (simp_all add: st1_def)
  have post: "react_post init (Suc round) (st'\<lparr>rs_content := t\<rparr>)" if "st' = st \<or> st' = st1" for st' and t
    using that ms ms1 st1 any by (cases round) (auto simp: react_post_def)
  show ?thesis
  proof (cases go)
    case False
    then show ?thesis using assms(1) adm post by (auto simp: react_round_def)
  next
    case True
    obtain s2 r where ch: "tu_chat te round (rs_any_used st1) (rs_messages st1) s1 = (s2, r)" by (rule prod.exhaust)
    show ?thesis
    proof (cases r)
      case (Inl e)
      then show ?thesis using assms(1) adm True ch by (auto simp: react_round_def Let_def simp flip: st1_def)
    next
      case (Inr response0)
      define response where "response = (if tu_has_tools te then recover_text_tool_calls (tu_json te) response0 else response0)"
      have take: "take_response te response st1 s2 = (s', nx)"
        using assms(1) adm True ch Inr by (simp add: react_round_def Let_def response_def flip: st1_def)
      show ?thesis
      proof (cases "lr_stop_reason response = ToolUse \<and> lr_tool_calls response \<noteq> None \<and> lr_tool_calls response \<noteq> Some []")
        case True
        then have "run_tool_round te (lr_content response) (the (lr_tool_calls response)) st1 s2 = (s', nx)"
          using take by (auto simp: take_response_def)
        from run_tool_round_next[OF this] show ?thesis
          using ms1 st1 tool_rounds_round[OF ms1(3,2)]
          by (auto simp: react_inv_def react_post_def split: react_next.splits)
      next
        case False
        then obtain t where "nx = Done (st1\<lparr>rs_content := t\<rparr>)"
          using take by (auto simp: take_response_def Let_def split: StopReason.splits option.splits if_splits)
        then show ?thesis using post by simp
      qed
    qed
  qed
qed

lemma react_rounds_post:
  assumes "react_rounds te (length init) left st s = (s', Inr st')" "react_inv init (MAX_REACT_ROUNDS - left) st"
    "left \<le> MAX_REACT_ROUNDS"
  shows "\<exists>n \<le> MAX_REACT_ROUNDS. react_post init n st'"
  using assms
proof (induction left arbitrary: st s)
  case 0
  then show ?case by (auto simp: react_inv_def react_post_def MAX_REACT_ROUNDS_def intro!: exI[of _ "10::nat"])
next
  case (Suc left)
  let ?round = "MAX_REACT_ROUNDS - Suc left"
  obtain s1 nx where r: "react_round te (length init) ?round st s = (s1, nx)" by (rule prod.exhaust)
  have next_round: "Suc ?round = MAX_REACT_ROUNDS - left" using Suc.prems(3) by simp
  note nx = react_round_next[OF r Suc.prems(2), unfolded next_round]
  show ?case
  proof (cases nx)
    case (Again st1)
    then show ?thesis using Suc.IH[of st1 s1] Suc.prems(1,3) r nx by simp
  next
    case (Done st1)
    then show ?thesis using Suc.prems(1) r nx by (intro exI[of _ "MAX_REACT_ROUNDS - left"]) simp
  qed (use Suc.prems(1) r in simp)
qed

text \<open>
  C15: What a turn leaves behind has this shape: the messages from before it as they were, then at most ten pairs of an
  answer with tool calls and the message with its results, which has at most 4096 bytes unless it was summarized; the last
  answer may be without results, as the turn ended with it. A turn that used all ten rounds for tool calls has nothing to
  say, and whether tools were called is known from the messages.
\<close>
theorem turn_rounds_bounded:
  assumes "run_react te messages s = (s', Inr st)"
  shows "\<exists>n ms. n \<le> MAX_REACT_ROUNDS \<and> rs_messages st = messages @ ms \<and> length ms \<le> 2 * n \<and> tool_rounds ms
      \<and> (rs_any_round st \<longleftrightarrow> ms \<noteq> []) \<and> (length ms = 2 * MAX_REACT_ROUNDS \<longrightarrow> rs_content st = [])"
proof -
  have "react_inv messages (MAX_REACT_ROUNDS - MAX_REACT_ROUNDS) (react_start messages)"
    by (simp add: react_inv_def react_start_def)
  then obtain n where "n \<le> MAX_REACT_ROUNDS" "react_post messages n st"
    using react_rounds_post[OF assms[unfolded run_react_def]] by auto
  then obtain ms where "rs_messages st = messages @ ms" "length ms \<le> 2 * n" "tool_rounds ms" "rs_any_round st \<longleftrightarrow> ms \<noteq> []"
    "length ms = 2 * n \<longrightarrow> rs_content st = []" and n: "n \<le> MAX_REACT_ROUNDS"
    unfolding react_post_def by blast
  then show ?thesis by (intro exI[of _ n] exI[of _ ms]) auto
qed

section \<open>Which tools run\<close>

text \<open>Another way to execute tools.\<close>

definition with_execute :: "(ToolPermit \<Rightarrow> string \<Rightarrow> 's \<Rightarrow> 's \<times> (Error + 'json ToolExecutionOutcome)) \<Rightarrow> ('json, 's) turn_env
    \<Rightarrow> ('json, 's) turn_env" where
  "with_execute f te = te\<lparr>tu_tools := (tu_tools te)\<lparr>tn_execute := f\<rparr>\<rparr>"

lemma deliver_intents_execute: "deliver_intents (en\<lparr>tn_execute := f\<rparr>) is a v s = deliver_intents en is a v s"
proof (induction "is" arbitrary: a v s)
  case (Cons i "is")
  then show ?case by (auto split: option.split sum.split prod.split)
qed simp

lemma results_execute:
  "capability_blocked_tool_execution_result (en\<lparr>tn_execute := f\<rparr>) = capability_blocked_tool_execution_result en"
  "unavailable_tool_execution_result (en\<lparr>tn_execute := f\<rparr>) = unavailable_tool_execution_result en"
  "denied_tool_execution_result (en\<lparr>tn_execute := f\<rparr>) = denied_tool_execution_result en"
  "error_tool_execution_result (en\<lparr>tn_execute := f\<rparr>) = error_tool_execution_result en"
  "protocol_contract_tool_execution_result (en\<lparr>tn_execute := f\<rparr>) = protocol_contract_tool_execution_result en"
  by (simp_all add: fun_eq_iff capability_blocked_tool_execution_result_def unavailable_tool_execution_result_def
      denied_tool_execution_result_def error_tool_execution_result_def protocol_contract_tool_execution_result_def
      failed_call_def Let_def)

lemma notes_execute:
  "note_outcome (en\<lparr>tn_execute := f\<rparr>) = note_outcome en" "note_counts (en\<lparr>tn_execute := f\<rparr>) = note_counts en"
  "note_block (en\<lparr>tn_execute := f\<rparr>) = note_block en"
  by (simp_all add: fun_eq_iff note_outcome_def note_counts_def note_block_def Let_def)

lemma tools_execute:
  "tn_visible (en\<lparr>tn_execute := f\<rparr>) = tn_visible en" "tn_capability_blocker (en\<lparr>tn_execute := f\<rparr>) = tn_capability_blocker en"
  "tn_normalize (en\<lparr>tn_execute := f\<rparr>) = tn_normalize en" "tn_assess (en\<lparr>tn_execute := f\<rparr>) = tn_assess en"
  "tn_gate (en\<lparr>tn_execute := f\<rparr>) = tn_gate en" "tn_record_denial (en\<lparr>tn_execute := f\<rparr>) = tn_record_denial en"
  "tn_record_failure (en\<lparr>tn_execute := f\<rparr>) = tn_record_failure en" "tn_execute (en\<lparr>tn_execute := f\<rparr>) = f"
  by simp_all

text \<open>The two ways agree on what is visible, permitted, let through the gate and not blocked.\<close>

definition agree_where_permitted :: "('json, 's) tool_env \<Rightarrow> (ToolPermit \<Rightarrow> string \<Rightarrow> 's \<Rightarrow> 's \<times> (Error + 'json ToolExecutionOutcome)) \<Rightarrow> bool" where
  "agree_where_permitted en f \<longleftrightarrow>
     (\<forall>name raw permit s s1. tn_visible en s name
        \<and> tn_assess en name (tn_normalize en name raw) s = (s1, Inr (PermitGranted permit))
        \<and> tn_gate en s1 name (tp_requires_network permit) = Allow \<and> tn_capability_blocker en s1 name = None
        \<longrightarrow> f permit (tn_normalize en name raw) s1 = tn_execute en permit (tn_normalize en name raw) s1)"

lemma execute_tool_call_execute:
  assumes "agree_where_permitted en f"
  shows "execute_tool_call (en\<lparr>tn_execute := f\<rparr>) tc s = execute_tool_call en tc s"
proof -
  have "f permit (tn_normalize en (tl_name tc) (tl_input tc)) s1 = tn_execute en permit (tn_normalize en (tl_name tc) (tl_input tc)) s1"
    if "tn_visible en s (tl_name tc)"
      "tn_assess en (tl_name tc) (tn_normalize en (tl_name tc) (tl_input tc)) s = (s1, Inr (PermitGranted permit))"
      "tn_gate en s1 (tl_name tc) (tp_requires_network permit) = Allow" "tn_capability_blocker en s1 (tl_name tc) = None"
    for permit s1
    using assms that unfolding agree_where_permitted_def by blast
  then show ?thesis
    unfolding execute_tool_call_def Let_def tools_execute results_execute deliver_intents_execute
    by (cases "tn_visible en s (tl_name tc)")
       (auto split: prod.split sum.split gate_decision.split ToolDecision.split simp del: split_paired_All split: option.split_asm
        intro!: option.case_cong)
qed

lemma execute_tool_calls_execute:
  assumes "agree_where_permitted en f"
  shows "execute_tool_calls (en\<lparr>tn_execute := f\<rparr>) i tcs r s = execute_tool_calls en i tcs r s"
proof (induction tcs arbitrary: i r s)
  case (Cons tc tcs)
  then show ?case
    by (simp add: execute_tool_calls.simps(2) execute_tool_call_execute[OF assms] notes_execute Let_def
        split: prod.split sum.split)
qed simp

lemma with_execute_select:
  "tu_tools (with_execute f te) = (tu_tools te)\<lparr>tn_execute := f\<rparr>" "tu_json (with_execute f te) = tu_json te"
  "tu_has_tools (with_execute f te) = tu_has_tools te" "tu_pressure (with_execute f te) = tu_pressure te"
  "tu_admit (with_execute f te) = tu_admit te" "tu_chat (with_execute f te) = tu_chat te"
  "tu_partial (with_execute f te) = tu_partial te" "tu_recall (with_execute f te) = tu_recall te"
  "tu_low_memory (with_execute f te) = tu_low_memory te" "tu_omitted (with_execute f te) = tu_omitted te"
  "tu_cut (with_execute f te) = tu_cut te" "tu_failed (with_execute f te) = tu_failed te"
  "tu_question (with_execute f te) = tu_question te" "tu_empty_error (with_execute f te) = tu_empty_error te"
  "tu_ingress (with_execute f te) = tu_ingress te" "tu_channel (with_execute f te) = tu_channel te"
  by (simp_all add: with_execute_def)

lemma parts_execute:
  "round_admission (with_execute f te) = round_admission te"
  "low_memory_text (with_execute f te) = low_memory_text te"
  "append_round_message (with_execute f te) = append_round_message te"
  by (simp_all add: fun_eq_iff round_admission_def low_memory_text_def append_round_message_def with_execute_select
      split: prod.split PressureLevel.split)

lemma end_tool_round_execute: "end_tool_round (with_execute f te) ro st s = end_tool_round te ro st s"
  by (simp add: end_tool_round_def with_execute_select parts_execute Let_def split: sum.split option.split)

lemma take_response_execute:
  assumes "agree_where_permitted (tu_tools te) f"
  shows "take_response (with_execute f te) response st s = take_response te response st s"
  by (simp add: take_response_def run_tool_round_def end_tool_round_execute execute_tool_use_round_def
      execute_tool_calls_execute[OF assms] with_execute_select Let_def split: StopReason.split option.split)

lemma react_round_execute:
  assumes "agree_where_permitted (tu_tools te) f"
  shows "react_round (with_execute f te) n round st s = react_round te n round st s"
  by (simp add: react_round_def take_response_execute[OF assms] with_execute_select parts_execute Let_def
      split: prod.split sum.split bool.split)

lemma react_rounds_execute:
  assumes "agree_where_permitted (tu_tools te) f"
  shows "react_rounds (with_execute f te) n left st s = react_rounds te n left st s"
  by (induction left arbitrary: st s) (simp_all add: react_round_execute[OF assms] split: prod.split react_next.split)

text \<open>
  C4: A turn executes a tool only when it is visible to the turn, its call was granted a permit, the gate of the orchestrator
  lets it through, and no runtime capability blocks it: what executing would do in any other situation makes no difference
  to the turn, to what it says, to its messages or to the world it leaves behind.
\<close>
theorem only_permitted_tools_run:
  assumes "agree_where_permitted (tu_tools te) f"
  shows "react_turn (with_execute f te) messages s = react_turn te messages s"
  by (simp add: react_turn_def run_react_def react_rounds_execute[OF assms] with_execute_select split: prod.split sum.split)

section \<open>When a round stops\<close>

definition round_stopped :: "'json ToolUseRoundExecutionOutput \<Rightarrow> bool" where
  "round_stopped r \<longleftrightarrow> ro_truncated r \<or> ro_exhausted r \<or> ro_blocker r \<noteq> None"

lemma note_selectors:
  "ro_blocker (note_block en i tc ex r) = ro_blocker r" "ro_exhausted (note_block en i tc ex r) = ro_exhausted r"
  "ro_blocker (note_counts en tc ex r) = ro_blocker r" "ro_blocker (note_effects ex r) = ro_blocker r"
  "ro_blocker (note_outcome en tc ex r) = (if ro_blocker r = None then te_blocker ex else ro_blocker r)"
  by (simp_all add: note_block_def note_counts_def note_outcome_def note_effects_def Let_def split: prod.split bool.split)

lemma execute_tool_calls_append:
  assumes "\<not> round_stopped r"
  shows "execute_tool_calls en i (xs @ ys) r s =
    (case execute_tool_calls en i xs r s of
       (s', r') \<Rightarrow> if round_stopped r' then (s', r') else execute_tool_calls en (i \<and> xs = []) ys r' s')"
  using assms
proof (induction xs arbitrary: i r s)
  case Nil
  then show ?case by simp
next
  case (Cons tc xs)
  obtain s1 ex where ex: "execute_tool_call en tc s = (s1, ex)" by (rule prod.exhaust)
  have none: "ro_blocker r = None" using Cons.prems by (simp add: round_stopped_def)
  show ?case
  proof (cases "case te_artifact ex of None \<Rightarrow> Inr (ro_artifact r) | Some b \<Rightarrow> merge_reply_artifact_bundle (ro_artifact r) b")
    case (Inl e)
    then show ?thesis by (simp add: execute_tool_calls.simps(2) ex round_stopped_def)
  next
    case (Inr artifact)
    define r' where "r' = note_block en i tc ex (note_counts en tc ex (note_outcome en tc ex
                           ((note_effects ex r)\<lparr>ro_artifact := artifact\<rparr>)))"
    have blocker: "ro_blocker r' = te_blocker ex" using none by (simp add: r'_def note_selectors)
    have step: "execute_tool_calls en i (tc # zs) r s = (if round_stopped r' then (s1, r') else execute_tool_calls en False zs r' s1)"
      for zs
      using Inr by (simp add: execute_tool_calls.simps(2) ex round_stopped_def blocker Let_def flip: r'_def)
    show ?thesis using Cons.IH[of r' False s1] by (simp add: step split: prod.split)
  qed
qed

text \<open>The text that the model says beside its calls is shown before they run.\<close>

definition told_so_far :: "('json, 's) turn_env \<Rightarrow> string \<Rightarrow> 's \<Rightarrow> 's" where
  "told_so_far te content s = (if trim content \<noteq> [] \<and> trim content \<noteq> ''[tool_use]'' then tu_partial te content s else s)"

text \<open>
  C21: A round that was stopped, by a blocker, by repairs of the protocol that are used up or by text that does not fit, runs
  none of the calls behind: they change neither the world nor the output of the round, nor what the turn makes of it. When it was a
  blocker or the repairs, the turn ends there, in the world that the calls before left: with the failure, or else with the
  question that the blocker asks, unless the calls before already declared another reply than an earlier round did; then it
  ends with the error of that conflict.
\<close>
theorem stopped_round_drops_rest:
  fixes r :: "'a ToolUseRoundExecutionOutput"
  assumes "execute_tool_use_round (tu_tools te) before (rs_repeat st) (told_so_far te content s) = (s', r)" "round_stopped r"
  shows "execute_tool_use_round (tu_tools te) (before @ rest) (rs_repeat st) (told_so_far te content s) = (s', r)
    \<and> run_tool_round te content (before @ rest) st s = run_tool_round te content before st s
    \<and> (ro_exhausted r \<or> ro_blocker r \<noteq> None \<longrightarrow>
        (if \<exists>old new. rs_artifact st = Some old \<and> ro_artifact r = Some new \<and> old \<noteq> new
         then \<exists>message. run_tool_round te content (before @ rest) st s
                = (s', Failed (err_config ''reply_artifact_bundle_conflict'' message))
         else \<exists>st'. run_tool_round te content (before @ rest) st s = (s', Done st')
              \<and> rs_content st' = (if ro_exhausted r then tu_failed te else tu_question te (the (ro_blocker r)))))"
proof -
  have "\<not> round_stopped (round_start (rs_repeat st) :: 'a ToolUseRoundExecutionOutput)"
    by (simp add: round_stopped_def round_start_def)
  from execute_tool_calls_append[OF this, of "tu_tools te" True before rest "told_so_far te content s"]
  have all: "execute_tool_use_round (tu_tools te) (before @ rest) (rs_repeat st) (told_so_far te content s) = (s', r)"
    using assms by (simp add: execute_tool_use_round_def)
  have run: "run_tool_round te content cs st s = end_tool_round te r
      (note_round r (st\<lparr>rs_any_round := True, rs_messages := rs_messages st @ [tool_use_message content]\<rparr>)) s'"
    if "cs = before \<or> cs = before @ rest" for cs
    using that all assms(1) by (auto simp: run_tool_round_def told_so_far_def Let_def)
  have art: "rs_artifact (note_round r (st\<lparr>rs_any_round := True, rs_messages := rs_messages st @ [tool_use_message content]\<rparr>))
      = rs_artifact st" by (simp add: note_round_def)
  show ?thesis
    using all run
    by (auto simp: end_tool_round_def merge_reply_artifact_bundle_def art Let_def split: option.split)
qed

section \<open>A turn for the examples\<close>

text \<open>A clock that may be read and a tool that wipes the device, which may not be used; the world lists what was run.\<close>

definition demo_tools :: "(unit, string list) tool_env" where
  "demo_tools =
     \<lparr>tn_visible = (\<lambda>_ _. True), tn_capability_blocker = (\<lambda>_ _. None), tn_normalize = (\<lambda>_ i. i),
      tn_assess = (\<lambda>name _ s. (s, Inr (if name = ''wipe'' then PermitDenied ''operator_only_tool''
         else PermitGranted \<lparr>tp_name = name, tp_requires_network = False, tp_mutating = False\<rparr>))),
      tn_gate = (\<lambda>_ _ _. Allow), tn_record_denial = (\<lambda>_ _ s. s),
      tn_execute = (\<lambda>p _ s. (s @ [tp_name p],
         Inr \<lparr>oc_content = ''noon'', oc_blocker = None, oc_failure_kind = None, oc_intents = []\<rparr>)),
      tn_record_failure = (\<lambda>_ _ s. s), tn_supports_current_chat = True, tn_deliver = (\<lambda>_ s. (s, Inr True)),
      tn_io_kind = (\<lambda>_. FailRetryable), tn_text = (\<lambda>_. ''not allowed''), tn_show_error = (\<lambda>_. ''error''), tn_hash = (\<lambda>_ _. 0),
      tn_surface = SurfaceGovernedConversation, tn_enhanced = False, tn_external = (\<lambda>_ _. False)\<rparr>"

definition demo_turn :: "(unit, string list) turn_env" where
  "demo_turn =
     \<lparr>tu_tools = demo_tools, tu_json = \<lparr>jl_parse = (\<lambda>_. None), jl_print = (\<lambda>_. [])\<rparr>, tu_has_tools = False,
      tu_pressure = (\<lambda>s. (s, PressureNormal)), tu_admit = (\<lambda>s. (s, Proceed)),
      tu_chat = (\<lambda>_ _ _ s. (s, Inr \<lparr>lr_content = [], lr_stop_reason = ToolUse,
         lr_tool_calls = Some [\<lparr>tl_id = ''1'', tl_name = ''wipe'', tl_input = ''{}''\<rparr>, \<lparr>tl_id = ''2'', tl_name = ''clock'', tl_input = ''{}''\<rparr>]\<rparr>)),
      tu_partial = (\<lambda>_ s. s), tu_recall = (\<lambda>s. (s, None, None)), tu_low_memory = ''low'', tu_omitted = ''omitted'',
      tu_cut = ''cut'', tu_failed = ''failed'', tu_question = wb_summary, tu_empty_error = (\<lambda>_. ''empty''),
      tu_ingress = IngressUser, tu_channel = ''cli''\<rparr>"

definition wipe_call :: ToolCall where "wipe_call = \<lparr>tl_id = ''1'', tl_name = ''wipe'', tl_input = ''{}''\<rparr>"
definition clock_call :: ToolCall where "clock_call = \<lparr>tl_id = ''2'', tl_name = ''clock'', tl_input = ''{}''\<rparr>"

lemma demo_select:
  "tn_visible demo_tools s n" "tn_normalize demo_tools n i = i"
  "tn_assess demo_tools ''wipe'' i s = (s, Inr (PermitDenied ''operator_only_tool''))"
  "tn_assess demo_tools ''clock'' i s = (s, Inr (PermitGranted \<lparr>tp_name = ''clock'', tp_requires_network = False, tp_mutating = False\<rparr>))"
  "tn_enhanced demo_tools = False" "tn_hash demo_tools n i = 0"
  by (simp_all add: demo_tools_def)

lemma demo_wipe: "execute_tool_call demo_tools wipe_call s = (s, denied_tool_execution_result demo_tools ''wipe'' ''operator_only_tool'')"
  by (simp add: execute_tool_call_def wipe_call_def demo_select)

lemma demo_denied:
  "te_artifact (denied_tool_execution_result demo_tools ''wipe'' ''operator_only_tool'') = None"
  "te_protocol_violation (denied_tool_execution_result demo_tools ''wipe'' ''operator_only_tool'') = False"
  "te_blocker (denied_tool_execution_result demo_tools ''wipe'' ''operator_only_tool'')
   = Some (plain_blocker BlockerUnsupported ''tool `wipe`; reason `operator_only_tool`'')"
  by (simp_all add: denied_tool_execution_result_def failed_call_def classify_denied_reason_def Let_def)

lemma demo_tool_round:
  obtains r where "execute_tool_use_round demo_tools (wipe_call # rest) m s = (s, r)" "ro_artifact r = None" "\<not> ro_exhausted r"
     "ro_blocker r = Some (plain_blocker BlockerUnsupported ''tool `wipe`; reason `operator_only_tool`'')"
proof -
  let ?ex = "denied_tool_execution_result demo_tools ''wipe'' ''operator_only_tool'' :: unit ToolCallExecutionResult"
  let ?r = "note_block demo_tools True wipe_call ?ex (note_counts demo_tools wipe_call ?ex (note_outcome demo_tools wipe_call ?ex
             ((note_effects ?ex (round_start m))\<lparr>ro_artifact := None\<rparr>)))"
  have art: "ro_artifact (note_block en i tc ex r) = ro_artifact r" "ro_artifact (note_counts en tc ex r) = ro_artifact r"
    "ro_artifact (note_outcome en tc ex r) = ro_artifact r" for en i tc ex and r :: "unit ToolUseRoundExecutionOutput"
    by (simp_all add: note_block_def note_counts_def note_outcome_def Let_def split: prod.split bool.split)
  have exh: "\<not> ro_exhausted ?r"
    by (simp add: note_selectors note_counts_def note_outcome_def note_effects_def round_start_def demo_denied Let_def)
  have "execute_tool_use_round demo_tools (wipe_call # rest) m s = (s, ?r)"
    by (simp add: execute_tool_use_round_def execute_tool_calls.simps(2) demo_wipe demo_denied note_effects_def round_start_def Let_def)
  moreover have "ro_blocker ?r = Some (plain_blocker BlockerUnsupported ''tool `wipe`; reason `operator_only_tool`'')"
    by (simp add: note_selectors demo_denied round_start_def)
  ultimately show ?thesis using exh by (intro that[of ?r]) (simp_all add: art)
qed

theorem stopped_round_drops_rest_witness:
  "\<exists>r st'. execute_tool_use_round demo_tools ([wipe_call] @ [clock_call]) Map.empty [] = ([], r)
     \<and> run_tool_round demo_turn [] ([wipe_call] @ [clock_call]) (react_start []) [] = ([], Done st')
     \<and> rs_content st' = ''tool `wipe`; reason `operator_only_tool`''"
proof -
  have te: "tu_tools demo_turn = demo_tools" "tu_question demo_turn = wb_summary" by (simp_all add: demo_turn_def)
  have m: "rs_repeat (react_start []) = Map.empty" by (simp add: react_start_def)
  obtain r where r: "execute_tool_use_round demo_tools [wipe_call] Map.empty [] = ([], r)" "ro_artifact r = None" "\<not> ro_exhausted r"
     "ro_blocker r = Some (plain_blocker BlockerUnsupported ''tool `wipe`; reason `operator_only_tool`'')"
    by (rule demo_tool_round)
  have "execute_tool_use_round (tu_tools demo_turn) [wipe_call] (rs_repeat (react_start [])) (told_so_far demo_turn [] []) = ([], r)"
    "round_stopped r" using r by (simp_all add: te m round_stopped_def told_so_far_def)
  note t = stopped_round_drops_rest[OF this, of "[clock_call]"]
  have w: "told_so_far demo_turn [] [] = []" "rs_artifact (react_start []) = None" by (simp_all add: told_so_far_def react_start_def)
  have "\<exists>st'. run_tool_round demo_turn [] ([wipe_call] @ [clock_call]) (react_start []) [] = ([], Done st')
     \<and> rs_content st' = ''tool `wipe`; reason `operator_only_tool`''"
    using conjunct2 [OF conjunct2 [OF t]] r(2-4) by (simp add: te w plain_blocker_def)
  then show ?thesis using conjunct1 [OF t] by (auto simp: te w m)
qed

theorem only_permitted_tools_run_witness:
  "let f = (\<lambda>p i s. if tp_name p = ''wipe'' then (s @ [''wiped''], Inl (err_config ''gone'' ''wiped'')) else tn_execute demo_tools p i s)
   in agree_where_permitted (tu_tools demo_turn) f \<and> react_turn (with_execute f demo_turn) [] [] = react_turn demo_turn [] []"
proof -
  define f where "f = (\<lambda>p i (s :: string list). if tp_name p = ''wipe''
     then (s @ [''wiped''], Inl (err_config ''gone'' ''wiped'')) else tn_execute demo_tools p i s)"
  have "agree_where_permitted (tu_tools demo_turn) f"
    by (auto simp: agree_where_permitted_def demo_turn_def f_def demo_tools_def split: if_splits)
  from only_permitted_tools_run[OF this, of "[]" "[]"] this show ?thesis by (simp add: f_def Let_def)
qed

theorem turn_rounds_bounded_witness:
  "\<exists>st n ms. run_react demo_turn [] [] = ([], Inr st) \<and> n \<le> MAX_REACT_ROUNDS \<and> rs_messages st = ms \<and> length ms \<le> 2 * n
     \<and> tool_rounds ms \<and> ms \<noteq> []"
proof -
  obtain r where r: "execute_tool_use_round demo_tools [wipe_call, clock_call] Map.empty [] = ([], r)" "ro_artifact r = None"
    "\<not> ro_exhausted r" "ro_blocker r = Some (plain_blocker BlockerUnsupported ''tool `wipe`; reason `operator_only_tool`'')"
    by (rule demo_tool_round)
  define response where "response = \<lparr>lr_content = [], lr_stop_reason = ToolUse, lr_tool_calls = Some [wipe_call, clock_call]\<rparr>"
  have te: "tu_tools demo_turn = demo_tools" "tu_has_tools demo_turn = False"
    "tu_chat demo_turn k u ms s = (s, Inr response)" for k u ms s
    by (simp_all add: demo_turn_def response_def wipe_call_def clock_call_def)
  have take: "take_response demo_turn response st [] = run_tool_round demo_turn [] [wipe_call, clock_call] st []" for st
    by (simp add: take_response_def response_def)
  obtain st where st: "run_tool_round demo_turn [] [wipe_call, clock_call] (react_start []) [] = ([], Done st)" "rs_any_round st"
    using r by (auto simp: run_tool_round_def end_tool_round_def te react_start_def note_round_def Let_def)
  have "react_rounds demo_turn 0 (Suc 9) (react_start []) [] = ([], Inr st)"
    using st unfolding react_rounds.simps(2)
    by (simp add: MAX_REACT_ROUNDS_def react_round_def round_admission_def te take)
  then have "run_react demo_turn [] [] = ([], Inr st)" by (simp add: run_react_def MAX_REACT_ROUNDS_def)
  with turn_rounds_bounded[OF this] st(2) show ?thesis by auto
qed

end
