(* ===== verification/Spec2Isabelle.thy ===== *)
theory Spec2Isabelle
  imports Lease_Laws Admission_Laws Orchestrator_Laws Network_Laws Wss_Protocol Capability_Laws Tracked_Queue
    Delayed_Task_Laws Thread_Registry_Laws Plane_Lifecycle Frame_Lease Url Redact
    Dispatch_Laws Cron_Laws Outbound_Text_Laws Chunk Tool_Governance_Laws Llm_Stream_Laws Llm_Call_Laws
    Task_Laws Http_Laws Pending_Retry_Laws Agent_Lane_Laws React_Laws
begin

text \<open>
  The runtime of the beetle firmware (\<open>src/src\<close>, Rust): the parts that decide which work
  may run, keep it bounded and deliver it, for boards with an ESP chip and for Linux hosts; and on top of them the
  way of a message through the agent, from the queues to the tool calls of a turn and the reply.

  \<^bold>\<open>How the parts interact.\<close> Channels put messages on the bus (\<open>bus.rs\<close>) after the inbound
  admission gate; the lane of the agent (\<open>agent/loop.rs\<close>) takes them from its two queues, asks the gates, runs a turn
  and puts the reply on the outbound queue, which the dispatcher (\<open>channels/dispatch.rs\<close>) sends through the sinks of
  the channels under the outbound gate and the circuit breaker. A turn (\<open>agent/loop/turn_execution.rs\<close>) asks the model
  through the chain of clients (\<open>llm\<close>) and runs the tools it calls under their governance (\<open>tools\<close>). The gates
  (\<open>orchestrator/admission.rs\<close>) read the
  pressure level that the orchestrator's state computes from heap and queue depths, and the runtime mode that
  \<open>runtime/mode.rs\<close> derives from the thread registry, the configuration phase and the network flags.
  Scarce resources (an exclusive heavy turn, the external socket, the camera frame, the voice window) are records of
  one lease registry (\<open>runtime/lease.rs\<close>); the transport governor (\<open>network/mod.rs\<close>) combines
  it with permits, counters and the suspend protocol. Work for later waits in the delayed task queue; what must outlast
  a restart is in the stores of tasks and of the one pending message. People configure the device over HTTP routes with
  levels of access (\<open>platform/http_server\<close>).

  \<^bold>\<open>Theories.\<close> Each names the source functions of its definitions in comments before them.
  \<^item> \<open>Prelude\<close>: words with the saturating, checked and wrapping operations of Rust; positions and removal in vectors.
    \<open>Keyed_List\<close>: vectors used as maps by the first record with a key.
  \<^item> \<open>Lease\<close>, \<open>Lease_Laws\<close> (\<open>runtime/lease.rs\<close>): the registry as a list of records with a
    generation counter; \<open>try_acquire_with_policy_at\<close>, \<open>release_locked\<close> and expiry; mutual exclusion
    of the active records, decisions of an acquire, acquire and release as a round trip.
    \<open>Exclusive_Lease\<close>: the contract of an exclusive lease without expiry as the locale \<open>exclusive_lease\<close>,
    interpreted on the registry; the foreground turn and the voice window rest on it.
  \<^item> \<open>Runtime_Mode\<close> (\<open>runtime/mode.rs\<close>, parts of \<open>governance.rs\<close>, \<open>system_work.rs\<close>):
    mode derivation and action budgets; the budget is coherent for every source of facts.
  \<^item> \<open>Orchestrator_State\<close>, \<open>Orchestrator_Laws\<close> (\<open>orchestrator/state.rs\<close>, \<open>pressure.rs\<close>,
    \<open>channel_health.rs\<close>, \<open>channel_catalog.rs\<close>): the atomic cells as one record, pressure, budgets, and the
    circuit breaker as a function of the history of sends. \<open>Admission\<close>, \<open>Admission_Laws\<close>: the four gates,
    their delays as exact formulas, their monotonicity in the pressure.
  \<^item> \<open>Error_Model\<close> (\<open>error.rs\<close>): the error variants with boxed sources, and their classification.
  \<^item> \<open>Network\<close>, \<open>Network_Laws\<close>, \<open>Wss_Protocol\<close> (\<open>network/mod.rs\<close>, \<open>orchestrator/permit.rs\<close>):
    permits, counters, the voice window; the connecting threads and the suspending owners as a step relation whose
    reachable states never connect while suspended. \<open>Net_State\<close> (\<open>state.rs\<close>): WiFi stages and network snapshot.
  \<^item> \<open>Runtime_Capability\<close>, \<open>Capability_Laws\<close> (\<open>orchestrator/runtime_capability.rs\<close>): the word that
    packs call state and call count, every operation on it refines its effect on the pair, calls in flight are
    counted exactly under every interleaving.
  \<^item> \<open>Text\<close>, \<open>Calendar\<close>, \<open>Codec\<close>, \<open>Url\<close>, \<open>Redact\<close> (\<open>util.rs\<close>): truncation and trim over
    UTF-8 bytes, calendar conversions, percent coding, JSON escapes, the guard against private URLs, the scrubbing of
    credentials, as round trips and exact characterisations.
  \<^item> \<open>Message\<close>, \<open>Tracked_Queue\<close> (\<open>bus.rs\<close>): message constructors, and the bounded queues whose depth cell
    is updated apart from the channel, as a step relation over the interleavings.
  \<^item> \<open>Dispatch\<close>, \<open>Dispatch_Laws\<close> (\<open>channels/dispatch.rs\<close>): the attempts through a sink, the buffer of
    deferred messages, its replay and both loops over a world that other threads change while this one sends, sleeps or waits; the buffer's
    invariant, the fates of a reply, what the breaker hears, and the breaker that stops the sends.
  \<^item> \<open>Delayed_Task\<close>, \<open>Delayed_Task_Laws\<close> (\<open>runtime/delayed_task.rs\<close>): scheduling with two capacities,
    service by policy, retry; a service equals the sorted eligible jobs.
  \<^item> \<open>Plane\<close>, \<open>Thread_Registry\<close>, \<open>Thread_Registry_Laws\<close>, \<open>Plane_Lifecycle\<close>, \<open>Frame_Lease\<close>
    (\<open>runtime/plane.rs\<close>, \<open>thread_registry.rs\<close>, \<open>plane_lifecycle.rs\<close>, \<open>frame_lease.rs\<close> and the stack and
    watchdog tables): the static tables and their consistency, the registries of threads and planes, the camera lease.

  \<^item> \<open>Channel_Capability\<close> (\<open>channel_capability.rs\<close>), \<open>Outbound_Text\<close>, \<open>Outbound_Text_Laws\<close>
    (\<open>channels/outbound_text.rs\<close>), \<open>Chunk\<close> (\<open>channels/chunk.rs\<close>): what a channel takes, the renderings of marked-up
    text and their well-formedness, the pieces of a long text and their bound.
  \<^item> \<open>Cron\<close>, \<open>Cron_Laws\<close> (\<open>tools/cron.rs\<close>, \<open>cron_manage.rs\<close>, \<open>cron/mod.rs\<close>): expressions, the next
    trigger as the least match, the managed tasks.
  \<^item> \<open>Tool_Policy\<close>, \<open>Tool_Governance\<close>, \<open>Tool_Governance_Laws\<close> (\<open>tools/policy.rs\<close>,
    \<open>execution_governance.rs\<close>): shapes of calls and their merge, the gate with stop, breakers and audit. A state in which
    the stop is on is the locale \<open>stop_invariant\<close>, interpreted on a device that keeps running, whatever happens to its file, and on one
    that restarts from a file that failed writes leave alone.
  \<^item> \<open>Sse\<close>, \<open>Llm_Stream\<close>, \<open>Llm_Call\<close> and their laws (\<open>llm\<close>): the event parser, the two stream formats and
    what exactly a streamed reply becomes, the log of a retry, the chain of clients, tool calls in plain text.
  \<^item> \<open>Cached_Store\<close>, \<open>Task_Store\<close>, \<open>Task_Laws\<close> (\<open>platform/storage\<close>, \<open>task/mod.rs\<close>): a JSON file with a cache,
    the tasks with due times, their announcement; restarts lose nothing that was answered, each due task is announced once,
    and what a failed write does.
  \<^item> \<open>Http_Routes\<close>, \<open>Http_Access\<close>, \<open>Http_Laws\<close> (\<open>platform/http_server/router\<close>, \<open>pairing.rs\<close>,
    \<open>csrf.rs\<close>, \<open>operator_surface.rs\<close>): the table of routes, the windows, the pairing code and the token;
    the levels of access that the documentation states are enforced, and what a refused caller cannot change.
  \<^item> \<open>Pending_Retry\<close>, \<open>Pending_Retry_Laws\<close> (\<open>platform/storage/pending_retry.rs\<close>): the one message kept for a restart.
  \<^item> \<open>Agent_Lane\<close>, \<open>Agent_Lane_Laws\<close> (\<open>agent/loop.rs\<close>, \<open>agent/loop\<close>): the loop over the two queues, admission,
    deferral, the guard after failures, the hand over of a reply; a gated message is kept, a reply waits for its place, the
    system queue is heard.
  \<^item> \<open>Tool_Text\<close>, \<open>React_Loop\<close>, \<open>React_Laws\<close> (\<open>agent/loop.rs\<close>, \<open>agent/loop/tool_round.rs\<close>,
    \<open>turn_execution.rs\<close>, \<open>agent/tool_outcome.rs\<close>, \<open>agent/reply_surface.rs\<close>): one tool call with its failures, the calls
    of an answer, the at most ten rounds of a turn, the texts and the compaction; which tools can run at all, when a round
    stops, what of the results reaches the model.

  \<^bold>\<open>Conventions.\<close> A mutex-protected or atomic state is a record that operations take and return; where the code
  lets threads interleave between atomic operations, the theory has a step relation or takes the intervening changes
  as arbitrary functions. Clocks, random facts of the platform and external services are arguments. Fixed-width
  integers are words; a \<open>usize\<close> that counts list elements is a natural number. Strings are the bytes of
  their UTF-8 encoding. Log lines and metrics have no model. Recursion is over the data or has a
  measure (the replay of the buffer: the messages not yet looked at; the year loop: the days left; the scans of text: what
  is left of it). Three bounds are the code's own: the rounds of a turn (\<open>MAX_REACT_ROUNDS\<close>), the attempts of a retry and
  the horizon of the search for a trigger. Waits that may last (a reply for a place in the queue, the lane for a message)
  take the events of the other threads as a list and answer \<open>None\<close> when the list ends first; the laws state which events
  are enough for an answer.

  \<^bold>\<open>Not modelled.\<close> Of the agent, how the context of a turn is built and its reply finalised, the execution of multi-step
  tasks and the memory it writes: prompts and heuristics over text whose effect is on the model only; they are parameters of
  the lane and of the turn. The memory stores and the single tools: storage and services around the operations modelled here. Of the HTTP
  server the request bodies and the handlers behind the guards. Of the platform the drivers of chips, WiFi and files, and of
  the configuration its parsing. Of \<open>util.rs\<close> the retrieval terms and the redaction by
  regular expressions; of the channels the drivers of the services. Presence and supervision. The components of the manifest give
  the reasons part by part.
\<close>

section \<open>From the queues to the pressure level\<close>

text \<open>An ESP board with PSRAM and plenty of free memory.\<close>

definition calm_esp :: OrchestratorState where
  "calm_esp = orchestrator_new\<lparr>os_heap_free_internal := 150000, os_heap_baseline_internal := 200000,
     os_heap_free_spiram := 8000000, os_heap_largest_block := 65536\<rparr>"

text \<open>
  A receiver that discounts a message before its sender has counted it leaves the depth of an
  empty queue at the largest word. A heartbeat at that moment reports congestion on an idle device;
  with one outbound message the pressure computation wraps around to normal, while admission, which
  saturates, sees congestion. With the true depths both see an idle device.
\<close>
theorem transient_depth_reported_as_congestion:
  "\<exists>c :: nat sync_channel. \<exists>d :: 32 word. bus_reachable 16 (c, d, 1, False) \<and> sc_queue c = []
    \<and> (case heartbeat_queue_depths d 0 0 of (inbound, outbound) \<Rightarrow>
          compute_pressure Esp 0 0 (update_queue_depth calm_esp inbound outbound) = PressureCautious
          \<and> is_queue_congested Esp (update_queue_depth calm_esp inbound outbound))
    \<and> (case heartbeat_queue_depths d 0 1 of (inbound, outbound) \<Rightarrow>
          compute_pressure Esp 0 0 (update_queue_depth calm_esp inbound outbound) = PressureNormal
          \<and> is_queue_congested Esp (update_queue_depth calm_esp inbound outbound))
    \<and> (case heartbeat_queue_depths 0 0 0 of (inbound, outbound) \<Rightarrow>
          compute_pressure Esp 0 0 (update_queue_depth calm_esp inbound outbound) = PressureNormal
          \<and> \<not> is_queue_congested Esp (update_queue_depth calm_esp inbound outbound))"
proof (intro exI conjI)
  show "bus_reachable 16 (channel_new 16 :: nat sync_channel, - 1 :: 32 word, 1, False)"
    using uncounted_reachable [of 16] by simp
qed (simp_all add: channel_new_def heartbeat_queue_depths_def pressure_eval calm_esp_def orchestrator_new_def
    update_queue_depth_def is_queue_congested_def queue_total_def unat_max)

end
